(* ===== verification/Prelude.thy ===== *)
theory Prelude
  imports Main "HOL-Library.Word" "HOL-Library.Char_ord"
begin

text \<open>
  Shared ground of the development: the integer types of the C sources, the
  reading of C strings and byte buffers, the collections of rewrite rules the
  component theories fill, and the interfaces that several components provide.

  A C string is a \<^typ>\<open>string\<close> without its terminator: the empty list is the
  position of the NUL.  A \<^verbatim>\<open>char *\<close> cursor that walks a string is the suffix
  it points at.  An output buffer of size n is the list of the bytes written so
  far, its length being the position the C code keeps; an append that does not
  fit is \<^const>\<open>None\<close>.
\<close>

unbundle bit_operations_syntax

section \<open>Machine types\<close>

type_synonym u8 = "8 word"
type_synonym u16 = "16 word"
type_synonym u32 = "32 word"

named_theorems out_simps \<open>bounded output buffers\<close>
named_theorems codec_simps \<open>encoders and decoders\<close>

text \<open>A \<^verbatim>\<open>char\<close> read as an \<^verbatim>\<open>unsigned char\<close>, and back.\<close>

definition byte_of :: "char \<Rightarrow> u8" where
  "byte_of c = word_of_nat (of_char c)"

definition chr_of :: "u8 \<Rightarrow> char" where
  "chr_of w = char_of (unat w)"

lemma of_char_lt_256: "(of_char c :: nat) < 256"
  by (metis of_char_mod_256 mod_less_divisor zero_less_numeral)

lemma unat_byte_of: "unat (byte_of c) = (of_char c :: nat)"
  using of_char_lt_256 [of c]
  by (simp add: byte_of_def unsigned_of_nat take_bit_nat_eq_self)

lemma chr_of_byte_of [simp]: "chr_of (byte_of c) = c"
  by (simp add: chr_of_def unat_byte_of)

lemma byte_of_chr_of [simp]: "byte_of (chr_of w) = w"
proof -
  have "unat w < 256" using unsigned_less [of w] by simp
  then have "of_char (char_of (unat w)) = unat w" by simp
  then show ?thesis by (metis chr_of_def unat_byte_of word_unat_eq_iff)
qed

lemma byte_of_inject [simp]: "byte_of c = byte_of d \<longleftrightarrow> c = d"
  by (metis chr_of_byte_of)

definition NUL :: char where "NUL = CHR 0x00"

text \<open>Backslash and double quote.\<close>

abbreviation (input) bsl :: char where "bsl \<equiv> CHR 0x5C"
abbreviation (input) dq :: char where "dq \<equiv> CHR 0x22"

text \<open>The C string that starts a byte buffer: everything before the first NUL.\<close>

definition cstr :: "string \<Rightarrow> string" where
  "cstr s = takeWhile (\<lambda>c. c \<noteq> NUL) s"

lemma cstr_id: "NUL \<notin> set s \<Longrightarrow> cstr s = s"
  by (auto simp: cstr_def takeWhile_eq_all_conv)

section \<open>Bounded output\<close>

text \<open>
  What every bounded append of the program amounts to: the text goes to the end
  of the buffer when it and a terminator fit, and nothing is promised otherwise.
\<close>

definition writes :: "int \<Rightarrow> string \<Rightarrow> string \<Rightarrow> string option" where
  "writes n d s = (if int (length d + length s) < n then Some (d @ s) else None)"

lemma writes_bind [out_simps]:
  "Option.bind (writes n d s) (\<lambda>d'. writes n d' t) = writes n d (s @ t)"
  by (auto simp: writes_def)

lemma writes_bind_more:
  "Option.bind (writes n d s) (\<lambda>d'. Option.bind (writes n d' t) f) = Option.bind (writes n d (s @ t)) f"
  by (auto simp: writes_def)

lemma writes_Nil: "int (length d) < n \<Longrightarrow> writes n d [] = Some d"
  by (simp add: writes_def)

lemma writes_Some: "writes n d s = Some r \<longleftrightarrow> r = d @ s \<and> int (length r) < n"
  by (auto simp: writes_def)

lemma writes_None: "writes n d s = None \<longleftrightarrow> n \<le> int (length d + length s)"
  by (auto simp: writes_def)

lemma writes_fits: "int (length d + length s) < n \<Longrightarrow> writes n d s = Some (d @ s)"
  by (simp add: writes_def)

text \<open>Writing first and going on from what was written, when the rest follows a text.\<close>

lemma writes_then:
  assumes "\<And>d'. int (length d') < n \<Longrightarrow> f d' = writes n d' t"
  shows "Option.bind (writes n d s) f = writes n d (s @ t)"
  using assms [of "d @ s"] by (auto simp: writes_def)

text \<open>A short-circuit chain \<open>app(a) && app(b) && ...\<close> of appends to one buffer.\<close>

fun append_pieces ::
    "(int \<Rightarrow> string \<Rightarrow> string \<Rightarrow> string option) \<Rightarrow> int \<Rightarrow> string \<Rightarrow> string list \<Rightarrow> string option" where
  "append_pieces app n d [] = Some d"
| "append_pieces app n d (p # ps) =
     (case app n d p of None \<Rightarrow> None | Some d' \<Rightarrow> append_pieces app n d' ps)"

locale bounded_append =
  fixes app :: "int \<Rightarrow> string \<Rightarrow> string \<Rightarrow> string option"
  assumes app_law: "int (length d) < n \<Longrightarrow> app n d s = writes n d s"
begin

lemma pieces_fit:
  assumes "int (length d) < n"
  shows "append_pieces app n d ps = writes n d (concat ps)"
  using assms
proof (induction ps arbitrary: d)
  case (Cons p ps)
  then show ?case
  proof (cases "int (length d + length p) < n")
    case True
    then have "append_pieces app n d (p # ps) = append_pieces app n (d @ p) ps"
      using Cons.prems by (simp add: app_law writes_def)
    then show ?thesis using Cons.IH [of "d @ p"] True by (simp add: writes_def)
  qed (use Cons.prems in \<open>simp add: app_law writes_def\<close>)
qed (simp add: writes_Nil)

lemma pieces_bound:
  assumes "int (length d) < n" "append_pieces app n d ps = Some r"
  shows "r = d @ concat ps" "int (length r) < n"
  using assms(2) unfolding pieces_fit [OF assms(1)] writes_Some by auto

end

interpretation plain: bounded_append writes
  by unfold_locales (rule refl)

section \<open>Codecs\<close>

text \<open>
  An encoder whose output the decoder takes back, on the values it covers.
\<close>

locale codec =
  fixes ok :: "'a \<Rightarrow> bool"
    and enc :: "'a \<Rightarrow> 'b"
    and dec :: "'b \<Rightarrow> 'a option"
  assumes dec_enc: "ok x \<Longrightarrow> dec (enc x) = Some x"
begin

lemma enc_inj: "ok x \<Longrightarrow> ok y \<Longrightarrow> enc x = enc y \<longleftrightarrow> x = y"
  using dec_enc by (metis option.inject)

lemma enc_inj_on: "inj_on enc {x. ok x}"
  by (rule inj_onI) (simp add: enc_inj)

lemma dec_image: "y \<in> enc ` {x. ok x} \<Longrightarrow> \<exists>x. ok x \<and> dec y = Some x \<and> enc x = y"
  using dec_enc by auto

end

section \<open>Decimal notation\<close>

definition digit_char :: "nat \<Rightarrow> char" where
  "digit_char d = char_of (48 + d)"

fun dec :: "nat \<Rightarrow> string" where
  "dec n = (if n < 10 then [digit_char n] else dec (n div 10) @ [digit_char (n mod 10)])"

declare dec.simps [simp del]

lemma of_digit_char [simp]: "d < 10 \<Longrightarrow> (of_char (digit_char d) :: nat) = 48 + d"
  by (simp add: digit_char_def)

lemma dec_not_Nil [simp]: "dec n \<noteq> []"
  by (subst dec.simps) simp

section \<open>Lists\<close>

lemma drop_shorter: "xs \<noteq> [] \<Longrightarrow> 0 < k \<Longrightarrow> length (drop k xs) < length xs"
  by (cases xs) auto

lemma dropWhile_tail_shorter: "dropWhile P xs = c # rest \<Longrightarrow> length rest < length xs"
  using length_dropWhile_le [of P xs] by simp

lemma take_snoc_nth: "i < length xs \<Longrightarrow> take (Suc i) xs = take i xs @ [xs ! i]"
  by (rule take_Suc_conv_app_nth)

lemma length_dropWhile_Cons: "length (dropWhile P xs) < Suc (length xs)"
  by (simp add: length_dropWhile_le less_Suc_eq_le)

lemma all_less_numeral_Suc:
  "(\<forall>n<Suc m. P n) \<longleftrightarrow> P m \<and> (\<forall>n<m. P (n::nat))"
  by (auto simp: less_Suc_eq)

end
