(* ===== verification/StrUtil.thy ===== *)
theory StrUtil
  imports Prelude
begin

text \<open>
  The string helpers the device carries itself: \<^verbatim>\<open>McpStrCpyN\<close> of
  \<^verbatim>\<open>src/src/strutil.c\<close>, a bounded copy that never splits a double-byte
  character, and the C library routines of \<^verbatim>\<open>src/src/mini_crt.c\<close>.

  \<^verbatim>\<open>CharNextA\<close> is a service of user32 and a parameter: a function from the
  text at a cursor to the text at the next character.  What the copy relies on is
  the locale \<open>char_stepper\<close>, and it is interpreted on the stepping function
  that the repository's host harness supplies in its place.
\<close>

section \<open>Bounded, character-aligned copy\<close>

partial_function (option) mcp_cpy_loop ::
    "(string \<Rightarrow> string) \<Rightarrow> int \<Rightarrow> string \<Rightarrow> string \<Rightarrow> string option" where
  "mcp_cpy_loop cn n p d =
     (if p = [] then Some d
      else let q = cn p; clen = length p - length q in
           if int (length d + clen) > n - 1 then Some d
           else mcp_cpy_loop cn n q (d @ take clen p))"

text \<open>
  \<open>dst\<close> is what the destination held before; a NULL \<^verbatim>\<open>dst\<close> and a size below 1
  leave it alone.  A NULL source copies like the empty string.
\<close>

definition McpStrCpyN :: "(string \<Rightarrow> string) \<Rightarrow> string \<Rightarrow> string \<Rightarrow> int \<Rightarrow> string option" where
  "McpStrCpyN cn dst src n = (if n \<le> 0 then Some dst else mcp_cpy_loop cn n src [])"

locale char_stepper =
  fixes cn :: "string \<Rightarrow> string"
  assumes cn_step: "p \<noteq> [] \<Longrightarrow> \<exists>k. 0 < k \<and> k \<le> length p \<and> cn p = drop k p"
begin

lemma cn_shorter: "p \<noteq> [] \<Longrightarrow> length (cn p) < length p"
  using cn_step [of p] by auto

lemma cn_split: "p \<noteq> [] \<Longrightarrow> take (length p - length (cn p)) p @ cn p = p"
  using cn_step [of p] by (auto simp: diff_diff_cancel)

lemma cpy_loop_spec:
  assumes "int (length d) < n"
  shows "\<exists>s rest. mcp_cpy_loop cn n p d = Some (d @ s) \<and> p = s @ rest \<and>
           (\<exists>k. rest = (cn ^^ k) p) \<and> int (length (d @ s)) < n \<and>
           (rest = [] \<or> n \<le> int (length (d @ s) + (length rest - length (cn rest))))"
  using assms
proof (induction "length p" arbitrary: p d rule: less_induct)
  case less
  consider "p = []"
    | "p \<noteq> []" "int (length d + (length p - length (cn p))) > n - 1"
    | "p \<noteq> []" "int (length d + (length p - length (cn p))) \<le> n - 1" by linarith
  then show ?case
  proof cases
    case 1
    then show ?thesis using less.prems
      by (subst mcp_cpy_loop.simps) (auto intro: exI [of _ 0])
  next
    case 2
    then have "mcp_cpy_loop cn n p d = Some (d @ [])"
      by (subst mcp_cpy_loop.simps) (simp add: Let_def)
    then show ?thesis using 2 less.prems
      by (intro exI [of _ "[]"] exI [of _ p]) (auto intro: exI [of _ 0])
  next
    case 3
    let ?c = "take (length p - length (cn p)) p"
    have run: "mcp_cpy_loop cn n p d = mcp_cpy_loop cn n (cn p) (d @ ?c)"
      using 3 by (subst mcp_cpy_loop.simps) (simp add: Let_def)
    have fits: "int (length (d @ ?c)) < n" using 3 by simp
    obtain s rest k where s: "mcp_cpy_loop cn n (cn p) (d @ ?c) = Some ((d @ ?c) @ s)"
      "cn p = s @ rest" "rest = (cn ^^ k) (cn p)" "int (length ((d @ ?c) @ s)) < n"
      "rest = [] \<or> n \<le> int (length ((d @ ?c) @ s) + (length rest - length (cn rest)))"
      using less.hyps [OF cn_shorter [OF 3(1)] fits] by blast
    have "p = (?c @ s) @ rest" using cn_split [OF 3(1)] s(2) by simp
    moreover have "rest = (cn ^^ Suc k) p" using s(3) by (simp add: funpow_swap1)
    ultimately show ?thesis using run s(1,4,5)
      by (intro exI [of _ "?c @ s"] exI [of _ rest]) (auto intro: exI [of _ "Suc k"])
  qed
qed

lemma copy_spec:
  assumes "0 < n"
  obtains s rest where "McpStrCpyN cn dst src n = Some s" "src = s @ rest"
    "\<exists>k. rest = (cn ^^ k) src" "int (length s) < n"
    "rest = [] \<or> n \<le> int (length s + (length rest - length (cn rest)))"
  using cpy_loop_spec [of "[]" n src] assms unfolding McpStrCpyN_def by auto

lemma copy_fits:
  assumes "int (length src) < n"
  shows "McpStrCpyN cn dst src n = Some src"
proof -
  have "0 < n" using assms by simp
  then obtain s rest where s: "McpStrCpyN cn dst src n = Some s" "src = s @ rest"
    "rest = [] \<or> n \<le> int (length s + (length rest - length (cn rest)))"
    by (rule copy_spec)
  have "length s + (length rest - length (cn rest)) \<le> length src" using s(2) by simp
  then show ?thesis using s assms by auto
qed

end

text \<open>
  The stepping function of \<^verbatim>\<open>src/tests/host/win32_shim.h\<close>: a cp932-style lead
  byte followed by another byte is one character.
\<close>

definition shim_is_lead :: "char \<Rightarrow> bool" where
  "shim_is_lead c \<longleftrightarrow> (let b = byte_of c in (0x81 \<le> b \<and> b \<le> 0x9F) \<or> (0xE0 \<le> b \<and> b \<le> 0xFC))"

fun shim_CharNextA :: "string \<Rightarrow> string" where
  "shim_CharNextA [] = []"
| "shim_CharNextA [c] = []"
| "shim_CharNextA (c # d # r) = (if shim_is_lead c then r else d # r)"

interpretation shim: char_stepper shim_CharNextA
proof unfold_locales
  fix p :: string assume "p \<noteq> []"
  then show "\<exists>k. 0 < k \<and> k \<le> length p \<and> shim_CharNextA p = drop k p"
  proof (cases p rule: shim_CharNextA.cases)
    case (2 c)
    then show ?thesis by (intro exI [of _ 1]) simp
  next
    case (3 c d r)
    then show ?thesis by (intro exI [of _ "if shim_is_lead c then 2 else 1"]) simp
  qed simp
qed

section \<open>The C library of the device\<close>

text \<open>Memory is a map from addresses to bytes; the pointers are addresses.\<close>

type_synonym memory = "nat \<Rightarrow> u8"

fun copy_up :: "nat \<Rightarrow> nat \<Rightarrow> nat \<Rightarrow> memory \<Rightarrow> memory" where
  "copy_up d s 0 m = m"
| "copy_up d s (Suc n) m = copy_up (d + 1) (s + 1) n (m(d := m s))"

fun copy_down :: "nat \<Rightarrow> nat \<Rightarrow> nat \<Rightarrow> memory \<Rightarrow> memory" where
  "copy_down d s 0 m = m"
| "copy_down d s (Suc n) m = copy_down (d - 1) (s - 1) n (m(d - 1 := m (s - 1)))"

definition crt_memcpy :: "nat \<Rightarrow> nat \<Rightarrow> nat \<Rightarrow> memory \<Rightarrow> memory" where
  "crt_memcpy dst src n m = copy_up dst src n m"

definition crt_memmove :: "nat \<Rightarrow> nat \<Rightarrow> nat \<Rightarrow> memory \<Rightarrow> memory" where
  "crt_memmove dst src n m =
     (if dst = src \<or> n = 0 then m
      else if dst < src then copy_up dst src n m
      else copy_down (dst + n) (src + n) n m)"

fun crt_memset :: "nat \<Rightarrow> u8 \<Rightarrow> nat \<Rightarrow> memory \<Rightarrow> memory" where
  "crt_memset d v 0 m = m"
| "crt_memset d v (Suc n) m = crt_memset (d + 1) v n (m(d := v))"

fun crt_memcmp :: "u8 list \<Rightarrow> u8 list \<Rightarrow> nat \<Rightarrow> int" where
  "crt_memcmp (a # as) (b # bs) (Suc n) =
     (if a \<noteq> b then uint a - uint b else crt_memcmp as bs n)"
| "crt_memcmp _ _ _ = 0"

fun crt_strlen :: "string \<Rightarrow> nat" where
  "crt_strlen [] = 0"
| "crt_strlen (c # p) = Suc (crt_strlen p)"

text \<open>The byte a cursor reads: NUL at the end of the string.\<close>

definition deref :: "string \<Rightarrow> int" where
  "deref p = (case p of [] \<Rightarrow> 0 | c # _ \<Rightarrow> uint (byte_of c))"

fun crt_strcmp :: "string \<Rightarrow> string \<Rightarrow> int" where
  "crt_strcmp (a # as) (b # bs) =
     (if a = b then crt_strcmp as bs else deref (a # as) - deref (b # bs))"
| "crt_strcmp as bs = deref as - deref bs"

fun crt_strncmp :: "string \<Rightarrow> string \<Rightarrow> nat \<Rightarrow> int" where
  "crt_strncmp as bs 0 = 0"
| "crt_strncmp (a # as) (b # bs) (Suc n) =
     (if a \<noteq> b then deref (a # as) - deref (b # bs) else crt_strncmp as bs n)"
| "crt_strncmp as bs (Suc n) = deref as - deref bs"

text \<open>The size \<^verbatim>\<open>calloc\<close> asks the heap for, or nothing when the multiply guard fires.\<close>

definition crt_calloc_size :: "u32 \<Rightarrow> u32 \<Rightarrow> u32 option" where
  "crt_calloc_size count sz =
     (let total = count * sz in
      if sz \<noteq> 0 \<and> total div sz \<noteq> count then None else Some total)"

text \<open>The process heap: a block of a size, zeroed or not, and its release.\<close>

record 'w HeapOs =
  HeapAlloc :: "bool \<Rightarrow> u32 \<Rightarrow> 'w \<Rightarrow> u32 option \<times> 'w"
  HeapFree :: "u32 \<Rightarrow> 'w \<Rightarrow> 'w"

definition crt_malloc :: "'w HeapOs \<Rightarrow> u32 \<Rightarrow> 'w \<Rightarrow> u32 option \<times> 'w" where
  "crt_malloc os n w = HeapAlloc os False n w"

definition crt_calloc :: "'w HeapOs \<Rightarrow> u32 \<Rightarrow> u32 \<Rightarrow> 'w \<Rightarrow> u32 option \<times> 'w" where
  "crt_calloc os count sz w =
     (case crt_calloc_size count sz of None \<Rightarrow> (None, w) | Some room \<Rightarrow> HeapAlloc os True room w)"

definition crt_free :: "'w HeapOs \<Rightarrow> u32 option \<Rightarrow> 'w \<Rightarrow> 'w" where
  "crt_free os p w = (case p of None \<Rightarrow> w | Some p \<Rightarrow> HeapFree os p w)"

lemma copy_up_eq:
  "copy_up d (d + k) n m = (\<lambda>a. if d \<le> a \<and> a < d + n then m (a + k) else m a)"
proof (induction n arbitrary: d m)
  case (Suc n)
  show ?case using Suc.IH [of "d + 1"] by (auto simp: fun_eq_iff)
qed (auto simp: fun_eq_iff)

lemma copy_down_eq:
  "copy_down (s + k + n) (s + n) n m = (\<lambda>a. if s + k \<le> a \<and> a < s + k + n then m (a - k) else m a)"
proof (induction n arbitrary: m)
  case (Suc n)
  have "copy_down (s + k + Suc n) (s + Suc n) (Suc n) m =
        copy_down (s + k + n) (s + n) n (m(s + k + n := m (s + n)))" by simp
  then show ?case unfolding Suc.IH by (auto simp: fun_eq_iff less_Suc_eq)
qed (auto simp: fun_eq_iff)

lemma memmove_eq:
  "crt_memmove dst src n m =
     (\<lambda>a. if dst \<le> a \<and> a < dst + n then m (src + (a - dst)) else m a)"
proof (cases "dst < src")
  case True
  then show ?thesis using copy_up_eq [of dst "src - dst" n m]
    by (auto simp: crt_memmove_def fun_eq_iff intro!: arg_cong [of _ _ m])
next
  case False
  then show ?thesis using copy_down_eq [of src "dst - src" n m]
    by (auto simp: crt_memmove_def fun_eq_iff intro!: arg_cong [of _ _ m])
qed

lemma of_char_pos [simp]: "(0::nat) < of_char c \<longleftrightarrow> CHR 0x00 \<noteq> c"
proof -
  have "(of_char c :: nat) = of_char (CHR 0x00) \<longleftrightarrow> c = CHR 0x00" by (simp only: of_char_eq_iff)
  then show ?thesis by auto
qed

lemma strcmp_zero: "NUL \<notin> set a \<Longrightarrow> NUL \<notin> set b \<Longrightarrow> crt_strcmp a b = 0 \<longleftrightarrow> a = b"
  by (induction a b rule: crt_strcmp.induct)
     (auto simp: deref_def NUL_def uint_nat unat_byte_of split: list.splits)

lemma strncmp_zero:
  "NUL \<notin> set a \<Longrightarrow> NUL \<notin> set b \<Longrightarrow> crt_strncmp a b n = 0 \<longleftrightarrow> take n a = take n b"
  by (induction a b n rule: crt_strncmp.induct)
     (auto simp: deref_def NUL_def uint_nat unat_byte_of split: list.splits)

lemma memcmp_zero:
  "n \<le> length a \<Longrightarrow> n \<le> length b \<Longrightarrow> crt_memcmp a b n = 0 \<longleftrightarrow> take n a = take n b"
  by (induction a b n rule: crt_memcmp.induct) (auto simp: word_uint_eq_iff)

lemma strlen_length [simp]: "crt_strlen s = length s"
  by (induction s) auto

lemma memset_eq: "crt_memset d v n m = (\<lambda>a. if d \<le> a \<and> a < d + n then v else m a)"
  by (induction n arbitrary: d m) (auto simp: fun_eq_iff)

lemma calloc_exact:
  assumes "crt_calloc_size count sz = Some t"
  shows "unat t = unat count * unat sz"
proof (cases "sz = 0")
  case True
  then show ?thesis using assms by (simp add: crt_calloc_size_def)
next
  case False
  let ?p = "unat count * unat sz"
  have t: "t = count * sz" and q: "t div sz = count"
    using assms False by (auto simp: crt_calloc_size_def Let_def split: if_splits)
  have ut: "unat t = ?p mod 2 ^ 32" unfolding t by (simp add: unat_word_ariths(2))
  have "unat count = unat t div unat sz" using q by (metis unat_div_distrib)
  then have "?p \<le> unat t" by simp
  moreover have "unat t \<le> ?p" unfolding ut by (rule mod_less_eq_dividend)
  ultimately show ?thesis by simp
qed

text \<open>A block from \<^verbatim>\<open>calloc\<close> was asked for with room for all its elements.\<close>

lemma calloc_room:
  assumes "crt_calloc os count sz w = (Some p, w')"
  shows "\<exists>room. HeapAlloc os True room w = (Some p, w') \<and> unat room = unat count * unat sz"
  using assms calloc_exact by (auto simp: crt_calloc_def split: option.splits)

end
