(* ===== verification/Base64.thy ===== *)
theory Base64
  imports Prelude
begin

text \<open>
  The Base64 codec of \<^verbatim>\<open>src/src/base64.c\<close>: the encoder and its three-byte
  loop, the decoder with its 32-bit rolling accumulator, and the two results
  they produce.  An encoder result is the return value with what was stored in
  \<^verbatim>\<open>out\<close>; a decoder result is the return value with the bytes stored in
  \<^verbatim>\<open>out\<close>, from index 0 on and the terminating NUL included, so that a store past
  the buffer is a stored list longer than the buffer.
\<close>

section \<open>Alphabet\<close>

definition b64_table :: string where
  "b64_table = ''ABCDEFGHIJKLMNOPQRSTUVWXYZabcdefghijklmnopqrstuvwxyz0123456789+/''"

definition b64_index :: "u8 \<Rightarrow> int" where
  "b64_index c =
     (if 0x41 \<le> c \<and> c \<le> 0x5A then uint c - 0x41
      else if 0x61 \<le> c \<and> c \<le> 0x7A then uint c - 0x61 + 26
      else if 0x30 \<le> c \<and> c \<le> 0x39 then uint c - 0x30 + 52
      else if c = 0x2B then 62
      else if c = 0x2F then 63
      else - 1)"

definition b64_char :: "u8 \<Rightarrow> char" where
  "b64_char v = b64_table ! unat v"

section \<open>Encoder\<close>

function b64_groups :: "u8 list \<Rightarrow> string" where
  "b64_groups [] = []"
| "b64_groups (a # rest) =
     (let remaining = Suc (length rest);
          b = (if remaining > 1 then rest ! 0 else 0);
          c = (if remaining > 2 then rest ! 1 else 0)
      in [b64_char (drop_bit 2 a AND 0x3F),
          b64_char (push_bit 4 (a AND 0x03) OR (drop_bit 4 b AND 0x0F)),
          if remaining > 1 then b64_char (push_bit 2 (b AND 0x0F) OR (drop_bit 6 c AND 0x03))
          else CHR ''='',
          if remaining > 2 then b64_char (c AND 0x3F) else CHR ''='']
         @ b64_groups (drop 2 rest))"
  by pat_completeness auto
termination by (relation "measure length") auto

text \<open>
  \<open>inp\<close> is \<^const>\<open>None\<close> for a NULL source; a NULL destination is \<open>out_size\<close> 0.
  The first component is the return value, the second the text stored in
  \<^verbatim>\<open>out\<close> when anything is.
\<close>

definition Base64Encode :: "u8 list option \<Rightarrow> nat \<Rightarrow> int \<Rightarrow> nat \<times> string option" where
  "Base64Encode inp in_len out_size =
     (if out_size < 1 then (0, None)
      else if in_len = 0 then (0, Some [])
      else case inp of
        None \<Rightarrow> (0, None)
      | Some bs \<Rightarrow>
          (let needed = int ((in_len + 2) div 3 * 4 + 1) in
           if out_size < needed then (0, None)
           else let txt = b64_groups (take in_len bs) in (length txt, Some txt)))"

section \<open>Decoder\<close>

text \<open>The extraction loop: whole bytes leave the accumulator while it holds 8 bits.\<close>

function b64_drain :: "int \<Rightarrow> u32 \<Rightarrow> nat \<Rightarrow> u8 list \<Rightarrow> nat option \<times> u8 list" where
  "b64_drain out_size buf buf_bits out =
     (if buf_bits \<ge> 8 then
        (if int (length out) \<ge> out_size then (None, out)
         else b64_drain out_size buf (buf_bits - 8)
                (out @ [ucast (drop_bit (buf_bits - 8) buf AND 0xFF)]))
      else (Some buf_bits, out))"
  by pat_completeness auto
termination by (relation "measure (\<lambda>(_, _, n, _). n)") auto

declare b64_drain.simps [simp del]

definition b64_space :: "u8 \<Rightarrow> bool" where
  "b64_space c \<longleftrightarrow> c = 0x20 \<or> c = 0x09 \<or> c = 0x0D \<or> c = 0x0A"

fun b64_scan :: "int \<Rightarrow> string \<Rightarrow> u32 \<Rightarrow> nat \<Rightarrow> u8 list \<Rightarrow> (u32 \<times> nat) option \<times> u8 list" where
  "b64_scan out_size [] buf buf_bits out = (Some (buf, buf_bits), out)"
| "b64_scan out_size (ch # rest) buf buf_bits out =
     (let c = byte_of ch in
      if b64_space c then b64_scan out_size rest buf buf_bits out
      else if c = 0x3D then (Some (buf, buf_bits), out)
      else let val = b64_index c in
        if val < 0 then (None, out)
        else let buf' = push_bit 6 buf OR word_of_int val in
          (case b64_drain out_size buf' (buf_bits + 6) out of
             (None, out') \<Rightarrow> (None, out')
           | (Some bits', out') \<Rightarrow> b64_scan out_size rest buf' bits' out'))"

definition Base64Decode :: "string option \<Rightarrow> int \<Rightarrow> int \<times> u8 list" where
  "Base64Decode inp out_size =
     (case inp of
        None \<Rightarrow> (- 1, [])
      | Some s \<Rightarrow>
          if out_size < 1 then (- 1, [])
          else if s = [] then (0, [0])
          else (case b64_scan out_size s 0 0 [] of
              (None, out) \<Rightarrow> (- 1, out)
            | (Some (buf, buf_bits), out) \<Rightarrow>
                if buf_bits \<ge> 6 \<and> buf AND (push_bit buf_bits 1 - 1) \<noteq> 0 then (- 1, out)
                else (int (length out), out @ [0])))"

section \<open>One sextet\<close>

lemma b64_table_sextets: "map (\<lambda>c. b64_index (byte_of c)) b64_table = map int [0..<64]"
  by (simp add: b64_index_def byte_of_def b64_table_def upt_conv_Cons)

lemma length_b64_table: "length b64_table = 64"
  by (simp add: b64_table_def)

lemma b64_index_space: "b64_space c \<Longrightarrow> b64_index c = - 1" "b64_index 0x3D = - 1"
  unfolding b64_space_def by (elim disjE) (simp_all add: b64_index_def)

lemma b64_index_char:
  assumes "v < 64"
  shows "b64_index (byte_of (b64_char v)) = uint v"
    "\<not> b64_space (byte_of (b64_char v))" "byte_of (b64_char v) \<noteq> 0x3D"
proof -
  have "unat v < 64" using assms by (simp add: word_less_nat_alt)
  then have "b64_index (byte_of (b64_char v)) = int (unat v)"
    using arg_cong [OF b64_table_sextets, of "\<lambda>l. l ! unat v"]
    by (simp add: b64_char_def length_b64_table del: int_nat_eq)
  then show i: "b64_index (byte_of (b64_char v)) = uint v" by simp
  have "0 \<le> uint v" by simp
  then have "b64_index (byte_of (b64_char v)) \<noteq> - 1" unfolding i by linarith
  then show "\<not> b64_space (byte_of (b64_char v))" "byte_of (b64_char v) \<noteq> 0x3D"
    using b64_index_space by auto
qed

lemma b64_index_range: "b64_index c < 64" "b64_index c \<ge> - 1"
  by (auto simp: b64_index_def word_le_def)

text \<open>
  The four sextets of a group, and the bytes a full accumulator gives back: after
  two sextets bits 4 to 11, after three bits 2 to 9, after four bits 0 to 7,
  whatever the older bits are.
\<close>

definition sx1 :: "u8 \<Rightarrow> u8" where "sx1 a = drop_bit 2 a AND 0x3F"
definition sx2 :: "u8 \<Rightarrow> u8 \<Rightarrow> u8" where "sx2 a b = push_bit 4 (a AND 0x03) OR (drop_bit 4 b AND 0x0F)"
definition sx3 :: "u8 \<Rightarrow> u8 \<Rightarrow> u8" where "sx3 b c = push_bit 2 (b AND 0x0F) OR (drop_bit 6 c AND 0x03)"
definition sx4 :: "u8 \<Rightarrow> u8" where "sx4 c = c AND 0x3F"

lemmas sx_defs = sx1_def sx2_def sx3_def sx4_def

lemma groups_sx:
  "b64_groups [a] = b64_char (sx1 a) # b64_char (sx2 a 0) # ''==''"
  "b64_groups [a, b] = b64_char (sx1 a) # b64_char (sx2 a b) # b64_char (sx3 b 0) # ''=''"
  "b64_groups (a # b # c # ds) =
     b64_char (sx1 a) # b64_char (sx2 a b) # b64_char (sx3 b c) # b64_char (sx4 c) # b64_groups ds"
  by (simp_all only: b64_groups.simps Let_def sx_defs) simp_all

lemma byte_bits: "n < 8 \<Longrightarrow> n = 0 \<or> n = 1 \<or> n = 2 \<or> n = 3 \<or> n = 4 \<or> n = 5 \<or> n = 6 \<or> n = (7::nat)"
  by linarith

lemma byte_eqI:
  fixes v w :: u8
  assumes "bit v 0 = bit w 0" "bit v 1 = bit w 1" "bit v 2 = bit w 2" "bit v 3 = bit w 3"
    "bit v 4 = bit w 4" "bit v 5 = bit w 5" "bit v 6 = bit w 6" "bit v 7 = bit w 7"
  shows "v = w"
proof (rule bit_word_eqI)
  fix n assume "n < LENGTH(8)"
  then have "n < 8" by simp
  from byte_bits [OF this] show "bit v n = bit w n" using assms by (elim disjE) simp_all
qed

text \<open>The accumulator after one more sextet, and the byte it gives at a bit position.\<close>

definition acc :: "u32 \<Rightarrow> u8 \<Rightarrow> u32" where "acc buf v = push_bit 6 buf OR ucast v"
definition low8 :: "nat \<Rightarrow> u32 \<Rightarrow> u8" where "low8 n buf = ucast (drop_bit n buf AND 0xFF)"

lemma sextets_bytes [simp]:
  "low8 4 (acc (acc buf (sx1 a)) (sx2 a b)) = a"
  "low8 2 (acc (acc buf (sx2 a b)) (sx3 b c)) = b"
  "low8 0 (acc (acc buf (sx3 b c)) (sx4 c)) = c"
  by (rule byte_eqI; simp add: bit_simps sx_defs acc_def low8_def)+

lemma and_63_lt: "(x AND 0x3F :: u8) < 64"
proof -
  have "x AND 0x3F \<le> 0x3F" by (rule word_and_le1)
  then show ?thesis by (rule order.strict_trans1) simp
qed

lemma sx_lt: "sx1 a < 64" "sx2 a b < 64" "sx3 b c < 64" "sx4 c < 64"
proof -
  have "sx2 a b = sx2 a b AND 0x3F" "sx3 b c = sx3 b c AND 0x3F"
    by (rule byte_eqI; simp add: bit_simps sx_defs)+
  then show "sx2 a b < 64" "sx3 b c < 64" by (metis and_63_lt)+
qed (simp_all only: sx_defs and_63_lt)

section \<open>Scanning\<close>

lemma drain_small: "n < 8 \<Longrightarrow> b64_drain sz buf n out = (Some n, out)"
  by (simp add: b64_drain.simps)

lemma drain_byte:
  assumes "8 \<le> n" "n < 16" "int (length out) < sz"
  shows "b64_drain sz buf n out = (Some (n - 8), out @ [low8 (n - 8) buf])"
  using assms by (subst b64_drain.simps) (simp add: drain_small low8_def)

lemma scan_sextet:
  assumes "v < 64"
  shows "b64_scan sz (b64_char v # rest) buf n out =
     (case b64_drain sz (acc buf v) (n + 6) out of
        (None, out') \<Rightarrow> (None, out')
      | (Some n', out') \<Rightarrow> b64_scan sz rest (acc buf v) n' out')"
proof -
  have "word_of_int (uint v) = (ucast v :: u32)" by (rule bit_word_eqI) (simp add: bit_simps)
  then show ?thesis using b64_index_char [OF assms] by (simp add: Let_def acc_def [symmetric])
qed

lemma scan_pad: "b64_scan sz (CHR ''='' # rest) buf n out = (Some (buf, n), out)"
proof -
  have "byte_of (CHR ''='') = 0x3D" by (simp add: byte_of_def)
  then show ?thesis by (simp add: b64_space_def)
qed

text \<open>A quantum of sextets, split where a padded one ends.\<close>

lemma scan_two:
  assumes "v1 < 64" "v2 < 64" "int (length out) < sz"
  shows "b64_scan sz (b64_char v1 # b64_char v2 # rest) buf 0 out =
    b64_scan sz rest (acc (acc buf v1) v2) 4 (out @ [low8 4 (acc (acc buf v1) v2)])"
  using assms by (simp add: scan_sextet drain_small drain_byte del: b64_scan.simps)

lemma scan_third:
  assumes "v < 64" "int (length out) < sz"
  shows "b64_scan sz (b64_char v # rest) buf 4 out =
    b64_scan sz rest (acc buf v) 2 (out @ [low8 2 (acc buf v)])"
  using assms by (simp add: scan_sextet drain_byte del: b64_scan.simps)

lemma scan_fourth:
  assumes "v < 64" "int (length out) < sz"
  shows "b64_scan sz (b64_char v # rest) buf 2 out =
    b64_scan sz rest (acc buf v) 0 (out @ [low8 0 (acc buf v)])"
  using assms by (simp add: scan_sextet drain_byte del: b64_scan.simps)

lemma scan_groups:
  assumes "int (length out + length bs) \<le> sz"
  shows "\<exists>buf' n. b64_scan sz (b64_groups bs) buf 0 out = (Some (buf', n), out @ bs) \<and> n < 6"
  using assms
proof (induction bs arbitrary: buf out rule: b64_groups.induct)
  case (2 a rest)
  consider "rest = []" | b where "rest = [b]" | b c ds where "rest = b # c # ds"
    by (metis list.exhaust)
  then show ?case
  proof cases
    case 1
    then show ?thesis using "2.prems"
      by (simp add: groups_sx scan_two sx_lt scan_pad del: b64_groups.simps b64_scan.simps)
  next
    case 2
    then show ?thesis using "2.prems"
      by (simp add: groups_sx scan_two scan_third sx_lt scan_pad
          del: b64_groups.simps b64_scan.simps)
  next
    case 3
    then show ?thesis
      using "2.IH" [OF refl refl refl, of "out @ [a, b, c]"
          "acc (acc (acc (acc buf (sx1 a)) (sx2 a b)) (sx3 b c)) (sx4 c)"] "2.prems"
      by (simp add: groups_sx scan_two scan_third scan_fourth sx_lt
          del: b64_groups.simps b64_scan.simps)
  qed
qed simp

text \<open>
  What one step of the drain does to the count of bits: a byte stored is eight
  bits gone, and it is stored only below the size of the buffer.
\<close>

lemma drain_count:
  assumes "n < 16" "b64_drain sz buf n out = (r, out')"
  shows "int (length out') \<le> max sz (int (length out)) \<and>
    (\<forall>n'. r = Some n' \<longrightarrow> n' < 8 \<and> 8 * length out' + n' = 8 * length out + n)"
  using assms by (cases "n < 8"; simp add: drain_small b64_drain.simps split: if_splits) auto

lemma scan_count:
  assumes "n < 8" "b64_scan sz s buf n out = (r, out')"
  shows "int (length out') \<le> max sz (int (length out)) \<and>
    (\<forall>buf' n'. r = Some (buf', n') \<longrightarrow> n' < 8 \<and>
       8 * length out' + n' \<le> 8 * length out + n + 6 * length s)"
  using assms
proof (induction sz s buf n out rule: b64_scan.induct)
  case (2 sz ch rest buf n out)
  let ?c = "byte_of ch" and ?buf = "push_bit 6 buf OR word_of_int (b64_index (byte_of ch))"
  consider "b64_space ?c" | "\<not> b64_space ?c" "?c = 0x3D"
    | "\<not> b64_space ?c" "?c \<noteq> 0x3D" "b64_index ?c < 0"
    | o1 where "\<not> b64_space ?c" "?c \<noteq> 0x3D" "\<not> b64_index ?c < 0" "b64_drain sz ?buf (n + 6) out = (None, o1)"
    | n1 o1 where "\<not> b64_space ?c" "?c \<noteq> 0x3D" "\<not> b64_index ?c < 0"
        "b64_drain sz ?buf (n + 6) out = (Some n1, o1)"
    by (metis option.exhaust surj_pair)
  then show ?case
  proof cases
    case 1
    then have "b64_scan sz rest buf n out = (r, out')" using "2.prems"(2) by simp
    from "2.IH"(1) [OF refl 1 "2.prems"(1) this] show ?thesis by auto
  next
    case (4 o1)
    then show ?thesis using "2.prems" drain_count [of "n + 6" sz ?buf out None o1] by simp
  next
    case (5 n1 o1)
    then have sc: "b64_scan sz rest ?buf n1 o1 = (r, out')" using "2.prems"(2) by (simp add: Let_def)
    have d: "int (length o1) \<le> max sz (int (length out))" "n1 < 8" "8 * length o1 + n1 = 8 * length out + (n + 6)"
      using drain_count [of "n + 6" sz ?buf out "Some n1" o1] 5(4) "2.prems"(1) by simp_all
    note IH = "2.IH"(2) [OF refl 5(1,2) refl 5(3) refl 5(4) [symmetric] refl d(2) sc]
    show ?thesis using IH 5(3) d by force
  qed (use "2.prems" in \<open>auto simp: Let_def\<close>)
qed auto

section \<open>The codec\<close>

lemma length_b64_groups: "length (b64_groups bs) = 4 * ((length bs + 2) div 3)"
proof (induction bs rule: b64_groups.induct)
  case (2 a rest)
  have step: "(n + 3) div 3 = Suc ((n - 2 + 2) div 3)" for n :: nat
  proof (cases "2 \<le> n")
    case False
    then have "n = 0 \<or> n = 1" by linarith
    then show ?thesis by auto
  qed simp
  show ?case using 2 [OF refl refl refl] step [of "length rest"]
    by (simp add: Let_def add.commute [of 3])
qed simp

lemma b64_groups_Nil [simp]: "b64_groups bs = [] \<longleftrightarrow> bs = []"
  by (cases bs) (simp_all add: Let_def)

lemma encode_groups:
  assumes "0 < length bs" "int (4 * ((length bs + 2) div 3) + 1) \<le> sz"
  shows "Base64Encode (Some bs) (length bs) sz = (length (b64_groups bs), Some (b64_groups bs))"
  using assms by (simp add: Base64Encode_def Let_def length_b64_groups algebra_simps)

lemma decode_groups:
  assumes "int (length bs) \<le> sz" "0 < sz"
  shows "Base64Decode (Some (b64_groups bs)) sz = (int (length bs), bs @ [0])"
proof (cases bs)
  case Nil
  then show ?thesis using assms by (simp add: Base64Decode_def)
next
  case (Cons a rest)
  obtain buf' n where "b64_scan sz (b64_groups bs) 0 0 [] = (Some (buf', n), bs)" "n < 6"
    using scan_groups [of "[]" bs sz 0] assms by auto
  then show ?thesis using assms Cons
    by (simp add: Base64Decode_def del: b64_groups.simps)
qed

interpretation b64: codec "\<lambda>bs. 0 < length bs" b64_groups
    "\<lambda>t. let (n, out) = Base64Decode (Some t) (int (length t)) in
          if n < 0 then None else Some (take (nat n) out)"
proof unfold_locales
  fix bs :: "u8 list" assume ne: "0 < length bs"
  have "length bs \<le> length (b64_groups bs)" by (simp add: length_b64_groups)
  moreover have "0 < length (b64_groups bs)" using ne by simp
  ultimately have "Base64Decode (Some (b64_groups bs)) (int (length (b64_groups bs))) = (int (length bs), bs @ [0])"
    by (intro decode_groups) linarith+
  then show "(let (n, out) = Base64Decode (Some (b64_groups bs)) (int (length (b64_groups bs))) in
          if n < 0 then None else Some (take (nat n) out)) = Some bs" by simp
qed

section \<open>Properties\<close>

text \<open>
  C7: encoding any non-empty byte sequence into a buffer that holds the text and its
  NUL, and decoding that text into a buffer of at least the original size, gives the
  bytes back, the decoder returning their number; the text is four characters per
  started group of three bytes.
\<close>

theorem Base64_roundtrip:
  assumes "0 < length bs" "int (4 * ((length bs + 2) div 3) + 1) \<le> enc_size" "int (length bs) \<le> dec_size"
  shows "\<exists>txt. Base64Encode (Some bs) (length bs) enc_size = (length txt, Some txt) \<and>
           length txt = 4 * ((length bs + 2) div 3) \<and>
           Base64Decode (Some txt) dec_size = (int (length bs), bs @ [0])"
proof (intro exI conjI)
  show "Base64Encode (Some bs) (length bs) enc_size = (length (b64_groups bs), Some (b64_groups bs))"
    using assms by (intro encode_groups)
  show "Base64Decode (Some (b64_groups bs)) dec_size = (int (length bs), bs @ [0])"
    using assms by (intro decode_groups) linarith+
qed (rule length_b64_groups)

lemma Base64_roundtrip_witness:
  "\<exists>txt. Base64Encode (Some [0, 0xFF, 0x7F, 0x80]) (length [0, 0xFF, 0x7F, 0x80 :: u8]) 9 = (length txt, Some txt) \<and>
     length txt = 4 * ((length [0, 0xFF, 0x7F, 0x80 :: u8] + 2) div 3) \<and>
     Base64Decode (Some txt) 4 = (int (length [0, 0xFF, 0x7F, 0x80 :: u8]), [0, 0xFF, 0x7F, 0x80] @ [0])"
  by (rule Base64_roundtrip) simp_all

lemma scan_zero_bits:
  assumes "b64_scan sz s 0 0 [] = (r, out)"
  shows "int (length out) \<le> max sz 0" "r = Some (b, n) \<Longrightarrow> 8 * length out + n \<le> 6 * length s"
  using scan_count [OF _ assms] by simp_all

text \<open>
  The decoder never stores more than one byte past the buffer it was given, it
  stores that byte (its NUL) exactly when the decoded data fills the buffer, and
  never when the text is shorter than 8/6 of the buffer, which is how every caller
  in the device sizes its buffer.
\<close>

theorem Base64Decode_stores:
  assumes "1 \<le> out_size" "Base64Decode (Some s) out_size = (r, out)"
  shows "int (length out) \<le> out_size + 1 \<and> (int (length out) = out_size + 1 \<longleftrightarrow> r = out_size) \<and>
         (6 * int (length s) < 8 * out_size \<longrightarrow> int (length out) \<le> out_size)"
proof (cases "s = []")
  case True
  then show ?thesis using assms by (auto simp: Base64Decode_def)
next
  case False
  obtain q o1 where q: "b64_scan out_size s 0 0 [] = (q, o1)" by fastforce
  note bound = scan_zero_bits(1) [OF q] and bits = scan_zero_bits(2) [OF q]
  show ?thesis
  proof (cases q)
    case None
    then show ?thesis using q False assms bound by (auto simp: Base64Decode_def)
  next
    case (Some bn)
    obtain b n where bn: "bn = (b, n)" by fastforce
    have "8 * int (length o1) \<le> 6 * int (length s)" using bits [of b n] Some bn by simp
    then show ?thesis using q False assms bound Some bn
      by (auto simp: Base64Decode_def split: if_splits)
  qed
qed

lemma decode_TWFu: "Base64Decode (Some ''TWFu'') 3 = (3, [0x4D, 0x61, 0x6E, 0])"
  by (simp add: Base64Decode_def Let_def byte_of_def b64_space_def b64_index_def b64_drain.simps)

lemma Base64Decode_stores_witness: "int (length [0x4D, 0x61, 0x6E, 0 :: u8]) = (3::int) + 1"
  using Base64Decode_stores [OF _ decode_TWFu] by simp

lemma scan_pad_stop: "b64_scan sz (s @ CHR ''='' # t) buf n out = b64_scan sz (s @ CHR ''='' # t') buf n out"
proof (induction s arbitrary: buf n out)
  case Nil
  then show ?case unfolding append_Nil scan_pad ..
next
  case (Cons ch s)
  then show ?case by (simp add: Let_def split: prod.splits option.splits)
qed

text \<open>
  Decoding stops at the first padding character: whatever follows it, data,
  more padding or garbage, changes neither the result nor the bytes stored.
\<close>

theorem Base64Decode_after_pad:
  "Base64Decode (Some (s @ CHR ''='' # t)) out_size = Base64Decode (Some (s @ ''='')) out_size"
  using scan_pad_stop [of out_size s t 0 0 "[]" "[]"] by (simp add: Base64Decode_def)

lemma scan_reject:
  assumes "c \<in> set (takeWhile (\<lambda>c. byte_of c \<noteq> 0x3D) s)" "b64_index (byte_of c) < 0" "\<not> b64_space (byte_of c)"
  shows "fst (b64_scan sz s buf n out) = None"
  using assms
  by (induction s arbitrary: buf n out)
     (auto simp: Let_def split: prod.splits option.splits if_splits)

text \<open>
  A character outside the alphabet, the padding and the whitespace, before the
  first padding character, makes the decoder answer -1.
\<close>

theorem Base64Decode_rejects:
  assumes "c \<in> set (takeWhile (\<lambda>c. byte_of c \<noteq> 0x3D) s)" "b64_index (byte_of c) < 0" "\<not> b64_space (byte_of c)"
  shows "fst (Base64Decode (Some s) out_size) = - 1"
  using assms scan_reject [OF assms, of out_size 0 0 "[]"]
  by (auto simp: Base64Decode_def split: prod.splits option.splits)

lemma Base64Decode_rejects_witness: "fst (Base64Decode (Some ''TW!u'') 8) = - 1"
  by (rule Base64Decode_rejects [of "CHR ''!''"]) (simp_all add: byte_of_def b64_index_def b64_space_def)

text \<open>Text the strict reading of the format would refuse, and the device accepts.\<close>

lemma Base64Decode_lenient:
  "Base64Decode (Some ''QQ==!!'') 8 = (1, [0x41, 0])"
  "Base64Decode (Some ''Zh=='') 8 = (1, [0x66, 0])"
  by (simp_all add: Base64Decode_def Let_def byte_of_def b64_space_def b64_index_def b64_drain.simps)

text \<open>The store past the end: three bytes decoded into a buffer of three.\<close>

lemma Base64Decode_overrun: "Base64Decode (Some ''QUJD'') 3 = (3, [0x41, 0x42, 0x43, 0])"
  by (simp add: Base64Decode_def Let_def byte_of_def b64_space_def b64_index_def b64_drain.simps)

end
