(* ===== verification/Argv.thy ===== *)
theory Argv
  imports Prelude "HOL-Library.Monad_Syntax"
begin

text \<open>
  Command line construction, \<^verbatim>\<open>src/src/argv.c\<close>: the quoting of one argument for
  \<^verbatim>\<open>CommandLineToArgvW\<close>, the join of an argument vector, and the caret pass for
  \<^verbatim>\<open>cmd.exe\<close>.  Each works on a bounded buffer and answers \<^const>\<open>None\<close> where
  the code answers -1; each has an unbounded reading that it follows while the
  text and its NUL fit.  The tokenizer at the end is the reference reading of a
  command line, the one of \<^verbatim>\<open>src/tests/host/theft_argv.c\<close>.
\<close>

section \<open>The operations\<close>

definition ArgvNeedsQuoting :: "string \<Rightarrow> bool" where
  "ArgvNeedsQuoting arg \<longleftrightarrow>
     (if arg = [] then True
      else \<exists>c \<in> set arg. c = CHR 0x20 \<or> c = CHR 0x09 \<or> c = CHR 0x0A \<or> c = CHR 0x0B \<or> c = dq)"

definition ArgvPut :: "int \<Rightarrow> string \<Rightarrow> char \<Rightarrow> string option" where
  "ArgvPut outSize out c = (if int (length out) \<ge> outSize - 1 then None else Some (out @ [c]))"

fun argv_put_run :: "int \<Rightarrow> string \<Rightarrow> nat \<Rightarrow> char \<Rightarrow> string option" where
  "argv_put_run outSize out 0 c = Some out"
| "argv_put_run outSize out (Suc k) c =
     do { out' \<leftarrow> ArgvPut outSize out c; argv_put_run outSize out' k c }"

fun argv_put_str :: "int \<Rightarrow> string \<Rightarrow> string \<Rightarrow> string option" where
  "argv_put_str outSize out [] = Some out"
| "argv_put_str outSize out (c # p) =
     do { out' \<leftarrow> ArgvPut outSize out c; argv_put_str outSize out' p }"

function argv_escape_loop :: "int \<Rightarrow> string \<Rightarrow> string \<Rightarrow> string option" where
  "argv_escape_loop outSize p out =
     (if p = [] then Some out
      else let slashes = length (takeWhile (\<lambda>c. c = bsl) p) in
        case dropWhile (\<lambda>c. c = bsl) p of
          [] \<Rightarrow> argv_put_run outSize out (slashes * 2) bsl
        | c # rest \<Rightarrow>
            if c = dq then
              do { out1 \<leftarrow> argv_put_run outSize out (slashes * 2 + 1) bsl;
                   out2 \<leftarrow> ArgvPut outSize out1 dq;
                   argv_escape_loop outSize rest out2 }
            else
              do { out1 \<leftarrow> argv_put_run outSize out slashes bsl;
                   out2 \<leftarrow> ArgvPut outSize out1 c;
                   argv_escape_loop outSize rest out2 })"
  by pat_completeness auto
termination
proof (relation "measure (\<lambda>(_, p, _). length p)")
  show "((outSize, rest, out2), (outSize, p, out)) \<in> measure (\<lambda>(_, p, _). length p)"
    if "dropWhile (\<lambda>c. c = bsl) p = c # rest"
    for outSize :: int and p out out2 c rest
    using dropWhile_tail_shorter [OF that] by simp
  show "((outSize, rest, out2), (outSize, p, out)) \<in> measure (\<lambda>(_, p, _). length p)"
    if "dropWhile (\<lambda>c. c = bsl) p = c # rest"
    for outSize :: int and p out out2 c rest
    using dropWhile_tail_shorter [OF that] by simp
qed simp_all

declare argv_escape_loop.simps [simp del]

definition ArgvEscapeArg :: "string \<Rightarrow> int \<Rightarrow> string option" where
  "ArgvEscapeArg arg outSize =
     (if outSize < 1 then None
      else if \<not> ArgvNeedsQuoting arg then argv_put_str outSize [] arg
      else do { out1 \<leftarrow> ArgvPut outSize [] dq;
                out2 \<leftarrow> argv_escape_loop outSize arg out1;
                ArgvPut outSize out2 dq })"

fun argv_join_loop :: "int \<Rightarrow> bool \<Rightarrow> string list \<Rightarrow> string \<Rightarrow> string option" where
  "argv_join_loop outSize later [] out = Some out"
| "argv_join_loop outSize later (a # args) out =
     do { out1 \<leftarrow> (if later then ArgvPut outSize out (CHR 0x20) else Some out);
          esc \<leftarrow> ArgvEscapeArg a (outSize - int (length out1));
          argv_join_loop outSize True args (out1 @ esc) }"

definition ArgvJoin :: "string list \<Rightarrow> int \<Rightarrow> string option" where
  "ArgvJoin argv outSize = (if outSize < 1 then None else argv_join_loop outSize False argv [])"

definition cmd_meta :: "char \<Rightarrow> bool" where
  "cmd_meta c \<longleftrightarrow> c \<in> set ''&|<>^()%''"

fun argv_cmd_loop :: "int \<Rightarrow> bool \<Rightarrow> string \<Rightarrow> string \<Rightarrow> string option" where
  "argv_cmd_loop outSize inQuotes [] out = Some out"
| "argv_cmd_loop outSize inQuotes (c # p) out =
     (if c = dq then
        do { out1 \<leftarrow> ArgvPut outSize out c; argv_cmd_loop outSize (\<not> inQuotes) p out1 }
      else
        do { out1 \<leftarrow> (if \<not> inQuotes \<and> cmd_meta c then ArgvPut outSize out (CHR ''^'') else Some out);
             out2 \<leftarrow> ArgvPut outSize out1 c;
             argv_cmd_loop outSize inQuotes p out2 })"

definition ArgvCmdEscape :: "string \<Rightarrow> int \<Rightarrow> string option" where
  "ArgvCmdEscape line outSize = (if outSize < 1 then None else argv_cmd_loop outSize False line [])"

section \<open>The unbounded readings\<close>

function esc_body :: "string \<Rightarrow> string" where
  "esc_body p =
     (if p = [] then []
      else let slashes = length (takeWhile (\<lambda>c. c = bsl) p) in
        case dropWhile (\<lambda>c. c = bsl) p of
          [] \<Rightarrow> replicate (slashes * 2) bsl
        | c # rest \<Rightarrow>
            (if c = dq then replicate (slashes * 2 + 1) bsl else replicate slashes bsl) @ c # esc_body rest)"
  by pat_completeness auto
termination
proof (relation "measure length")
  show "dropWhile (\<lambda>c. c = bsl) p = c # rest \<Longrightarrow> (rest, p) \<in> measure length" for p c rest
    using dropWhile_tail_shorter [of "\<lambda>c. c = bsl" p c rest] by simp
qed simp_all

declare esc_body.simps [simp del]

definition esc_arg :: "string \<Rightarrow> string" where
  "esc_arg arg = (if ArgvNeedsQuoting arg then dq # esc_body arg @ [dq] else arg)"

fun join_text :: "bool \<Rightarrow> string list \<Rightarrow> string" where
  "join_text later [] = []"
| "join_text later (a # args) = (if later then '' '' else []) @ esc_arg a @ join_text True args"

fun cmd_text :: "bool \<Rightarrow> string \<Rightarrow> string" where
  "cmd_text q [] = []"
| "cmd_text q (c # p) =
     (if c = dq then c # cmd_text (\<not> q) p
      else (if \<not> q \<and> cmd_meta c then [CHR ''^'', c] else [c]) @ cmd_text q p)"

lemma put_writes [out_simps]: "ArgvPut n d c = writes n d [c]"
  by (auto simp: ArgvPut_def writes_def)

lemma put_run_writes [out_simps]: "int (length d) < n \<Longrightarrow> argv_put_run n d k c = writes n d (replicate k c)"
proof (induction k arbitrary: d)
  case (Suc k)
  show ?case
  proof (cases "int (length d) + 1 < n")
    case True
    then show ?thesis using Suc.IH [of "d @ [c]"] by (simp add: put_writes writes_def)
  qed (simp add: put_writes writes_def)
qed (simp add: writes_Nil)

lemma put_str_writes [out_simps]: "int (length d) < n \<Longrightarrow> argv_put_str n d s = writes n d s"
proof (induction s arbitrary: d)
  case (Cons c s)
  show ?case
  proof (cases "int (length d) + 1 < n")
    case True
    then show ?thesis using Cons.IH [of "d @ [c]"] by (simp add: put_writes writes_def)
  qed (simp add: put_writes writes_def)
qed (simp add: writes_Nil)

declare argv_put_run.simps [simp del]

interpretation argv_str: bounded_append argv_put_str
  by unfold_locales (rule put_str_writes)

lemma escape_loop_writes:
  "int (length d) < n \<Longrightarrow> argv_escape_loop n p d = writes n d (esc_body p)"
proof (induction p arbitrary: d rule: esc_body.induct)
  case (1 p)
  show ?case
  proof (cases "dropWhile (\<lambda>c. c = bsl) p")
    case Nil
    then show ?thesis using "1.prems"
      by (subst argv_escape_loop.simps, subst esc_body.simps) (simp add: Let_def put_run_writes writes_Nil del: dropWhile_eq_Nil_conv)
  next
    case (Cons c rest)
    then have "p \<noteq> []" by auto
    note rec = "1.IH" [OF \<open>p \<noteq> []\<close> refl Cons]
    show ?thesis using Cons \<open>p \<noteq> []\<close> "1.prems"
      by (subst argv_escape_loop.simps, subst esc_body.simps)
         (simp add: Let_def out_simps writes_bind_more writes_then [OF rec] del: replicate.simps)
  qed
qed

lemma escape_arg_writes: "ArgvEscapeArg arg n = writes n [] (esc_arg arg)"
proof (cases "n < 1")
  case True
  then show ?thesis by (simp add: ArgvEscapeArg_def writes_def)
next
  case False
  have quoted: "Option.bind (argv_escape_loop n arg d) (\<lambda>d'. writes n d' [dq]) = writes n d (esc_body arg @ [dq])"
    if "int (length d) < n" for d
    using that by (simp add: escape_loop_writes out_simps)
  show ?thesis using False
    by (simp add: ArgvEscapeArg_def esc_arg_def out_simps writes_then [OF quoted])
qed

lemma join_loop_writes:
  "int (length d) < n \<Longrightarrow> argv_join_loop n l args d = writes n d (join_text l args)"
proof (induction args arbitrary: l d)
  case (Cons a args)
  have step: "Option.bind (ArgvEscapeArg a (n - int (length d'))) (\<lambda>e. argv_join_loop n True args (d' @ e)) =
      writes n d' (esc_arg a @ join_text True args)" for d'
    using Cons.IH [of "d' @ esc_arg a" True] by (auto simp: escape_arg_writes writes_def)
  show ?case using Cons.prems
    by (cases l) (simp_all add: step put_writes writes_then [of n _ "esc_arg a @ join_text True args"])
qed (simp add: writes_Nil)

lemma join_writes: "ArgvJoin args n = writes n [] (join_text False args)"
  by (simp add: ArgvJoin_def join_loop_writes) (simp add: writes_def)

lemma cmd_loop_writes:
  "int (length d) < n \<Longrightarrow> argv_cmd_loop n q p d = writes n d (cmd_text q p)"
proof (induction p arbitrary: q d)
  case (Cons c p)
  note step = writes_then [of n "argv_cmd_loop n _ p" "cmd_text _ p", OF Cons.IH]
  show ?case using Cons.prems
    by (simp add: out_simps step writes_bind_more)
qed (simp add: writes_Nil)

lemma cmd_writes: "ArgvCmdEscape line n = writes n [] (cmd_text False line)"
  by (simp add: ArgvCmdEscape_def cmd_loop_writes) (simp add: writes_def)

section \<open>The reference tokenizer\<close>

definition tok_space :: "char \<Rightarrow> bool" where
  "tok_space c \<longleftrightarrow> c = CHR 0x20 \<or> c = CHR 0x09"

text \<open>
  The state of the tokenizer is its cursor, whether it is in quotes, whether a
  token has started, and the token so far.
\<close>

function ref_tokenize :: "string \<Rightarrow> bool \<Rightarrow> bool \<Rightarrow> string \<Rightarrow> string list" where
  "ref_tokenize line inq have tok =
     (case (if \<not> inq \<and> \<not> have then dropWhile tok_space line else line) of
        [] \<Rightarrow> if have \<or> inq then [tok] else []
      | c # p \<Rightarrow>
          if \<not> inq \<and> tok_space c then tok # ref_tokenize p False False []
          else if c = bsl then
            (let n = Suc (length (takeWhile (\<lambda>c. c = bsl) p)) in
             case dropWhile (\<lambda>c. c = bsl) p of
               [] \<Rightarrow> [tok @ replicate n bsl]
             | e # rest \<Rightarrow>
                 if e = dq then
                   if odd n then ref_tokenize rest inq True (tok @ replicate (n div 2) bsl @ [dq])
                   else ref_tokenize rest (\<not> inq) True (tok @ replicate (n div 2) bsl)
                 else ref_tokenize (e # rest) inq True (tok @ replicate n bsl))
          else if c = dq then ref_tokenize p (\<not> inq) True tok
          else ref_tokenize p inq True (tok @ [c]))"
  by pat_completeness auto
termination
proof (relation "measure (\<lambda>(line, _). length line)")
qed (auto split: if_splits dest!: dropWhile_tail_shorter)

declare ref_tokenize.simps [simp del]

subsection \<open>Its steps\<close>

lemma tok_end: "ref_tokenize [] inq have tok = (if have \<or> inq then [tok] else [])"
  by (subst ref_tokenize.simps) simp

lemma tok_plain:
  assumes "c \<noteq> bsl" "c \<noteq> dq" "inq \<or> \<not> tok_space c"
  shows "ref_tokenize (c # p) inq have tok = ref_tokenize p inq True (tok @ [c])"
  using assms by (subst ref_tokenize.simps) auto

lemma tok_sep: "tok_space c \<Longrightarrow> ref_tokenize (c # p) False True tok = tok # ref_tokenize p False False []"
  by (subst ref_tokenize.simps) auto

lemma not_space [simp]: "\<not> tok_space bsl" "\<not> tok_space dq"
  by (simp_all add: tok_space_def)

lemma tok_quote: "ref_tokenize (dq # p) inq have tok = ref_tokenize p (\<not> inq) True tok"
  by (subst ref_tokenize.simps) auto

lemma run_split [simp]:
  "e \<noteq> bsl \<Longrightarrow> takeWhile (\<lambda>c. c = bsl) (replicate k bsl @ e # p) = replicate k bsl"
  "e \<noteq> bsl \<Longrightarrow> dropWhile (\<lambda>c. c = bsl) (replicate k bsl @ e # p) = e # p"
  "takeWhile (\<lambda>c. c = bsl) (replicate k bsl) = replicate k bsl"
  "dropWhile (\<lambda>c. c = bsl) (replicate k bsl) = []"
  by (induction k) auto

lemma tok_run_end: "ref_tokenize (replicate (Suc k) bsl) inq have tok = [tok @ replicate (Suc k) bsl]"
  by (subst ref_tokenize.simps) (simp add: Let_def del: dropWhile_eq_Nil_conv)

lemma tok_run_quote:
  "ref_tokenize (replicate (Suc k) bsl @ dq # p) inq have tok =
     (if odd (Suc k) then ref_tokenize p inq True (tok @ replicate (Suc k div 2) bsl @ [dq])
      else ref_tokenize p (\<not> inq) True (tok @ replicate (Suc k div 2) bsl))"
  by (subst ref_tokenize.simps) (simp add: Let_def)

lemma tok_run_plain:
  assumes "e \<noteq> bsl" "e \<noteq> dq"
  shows "ref_tokenize (replicate (Suc k) bsl @ e # p) inq have tok =
     ref_tokenize (e # p) inq True (tok @ replicate (Suc k) bsl)"
  using assms by (subst ref_tokenize.simps) (simp add: Let_def)

lemma takeWhile_run: "\<exists>k. takeWhile (\<lambda>c. c = bsl) p = replicate k bsl"
proof (induction p)
  case (Cons c p)
  then obtain k where "takeWhile (\<lambda>c. c = bsl) p = replicate k bsl" by (rule exE)
  then have "takeWhile (\<lambda>c. c = bsl) (c # p) = replicate (if c = bsl then Suc k else 0) bsl" by simp
  then show ?case by (rule exI)
qed simp

lemma run_decomp: "\<exists>k. p = replicate k bsl @ dropWhile (\<lambda>c. c = bsl) p"
proof -
  obtain k where "takeWhile (\<lambda>c. c = bsl) p = replicate k bsl" using takeWhile_run by (rule exE)
  from takeWhile_dropWhile_id [of "\<lambda>c. c = bsl" p, symmetric, unfolded this] show ?thesis
    by (rule exI)
qed

lemma run_head: "dropWhile (\<lambda>c. c = bsl) p = c # q \<Longrightarrow> c \<noteq> bsl"
  by (induction p) (auto split: if_splits)

text \<open>The body of a quoted argument, read inside its quotes.\<close>

lemma esc_body_run:
  "esc_body (replicate k bsl) = replicate (2 * k) bsl"
  "c \<noteq> bsl \<Longrightarrow> c \<noteq> dq \<Longrightarrow> esc_body (replicate k bsl @ c # q) = replicate k bsl @ c # esc_body q"
  "esc_body (replicate k bsl @ dq # q) = replicate (Suc (2 * k)) bsl @ dq # esc_body q"
  by (subst esc_body.simps; simp add: Let_def mult.commute del: dropWhile_eq_Nil_conv replicate.simps)+

text \<open>Induction on a text by its runs of backslashes.\<close>

lemma run_induct [case_names slashes step]:
  assumes "\<And>k. P (replicate k bsl)"
    and "\<And>k c q. c \<noteq> bsl \<Longrightarrow> P q \<Longrightarrow> P (replicate k bsl @ c # q)"
  shows "P p"
proof (induction "length p" arbitrary: p rule: less_induct)
  case less
  show ?case
  proof (cases "dropWhile (\<lambda>c. c = bsl) p")
    case Nil
    obtain k where k: "p = replicate k bsl @ []" using run_decomp [of p] unfolding Nil by (rule exE)
    show ?thesis unfolding k append_Nil2 by (rule assms(1))
  next
    case (Cons c q)
    have "P q" by (rule less [OF dropWhile_tail_shorter [OF Cons]])
    obtain k where k: "p = replicate k bsl @ c # q" using run_decomp [of p] unfolding Cons by (rule exE)
    show ?thesis unfolding k by (rule assms(2) [OF run_head [OF Cons] \<open>P q\<close>])
  qed
qed

lemma tok_body:
  "ref_tokenize (esc_body p @ dq # rest) True True tok = ref_tokenize rest False True (tok @ p)"
proof (induction p arbitrary: tok rule: run_induct)
  case (slashes k)
  show ?case
  proof (cases k)
    case (Suc m)
    then have "2 * k = Suc (2 * m + 1)" by simp
    then show ?thesis unfolding esc_body_run using tok_run_quote [of "2 * m + 1" rest True True tok] Suc
      by (simp del: replicate.simps)
  qed (simp add: tok_quote esc_body.simps [of "[]"])
next
  case (step k c q)
  show ?case
  proof (cases "c = dq")
    case True
    then show ?thesis unfolding True esc_body_run using tok_run_quote [of "2 * k"] step
      by (simp del: replicate.simps)
  next
    case False
    show ?thesis
      unfolding esc_body_run(2) [OF step(1) False]
      using tok_run_plain [OF step(1) False] tok_plain [OF step(1) False] step(2)
      by (cases k) (simp_all del: replicate.simps, simp_all)
  qed
qed

text \<open>An argument that needs no quotes, read bare.\<close>

lemma tok_bare:
  assumes "\<And>c. c \<in> set p \<Longrightarrow> c \<noteq> dq \<and> \<not> tok_space c" "rest = [] \<or> (\<exists>r. rest = CHR 0x20 # r)"
  shows "ref_tokenize (p @ rest) False True tok = ref_tokenize rest False True (tok @ p)"
  using assms(1)
proof (induction p arbitrary: tok rule: run_induct)
  case (slashes k)
  show ?case
  proof (cases k)
    case (Suc m)
    then show ?thesis using assms(2) tok_run_end [of m] tok_run_plain [of "CHR 0x20" m]
      by (auto simp: tok_end simp del: replicate.simps)
  qed simp
next
  case (step k c q)
  have c: "c \<noteq> dq" "\<not> tok_space c" using step.prems by auto
  have q: "ref_tokenize (q @ rest) False True tok = ref_tokenize rest False True (tok @ q)" for tok
    using step by auto
  show ?case
    using tok_run_plain [OF step.hyps c(1)] tok_plain [OF step.hyps c(1)] c(2) q
    by (cases k) (simp_all del: replicate.simps, simp_all)
qed

lemma tok_start:
  "p \<noteq> [] \<Longrightarrow> \<not> tok_space (p ! 0) \<Longrightarrow> ref_tokenize (p @ rest) False False tok = ref_tokenize (p @ rest) False True tok"
  by (cases p; subst (1 2) ref_tokenize.simps) (auto simp: Let_def)

lemma tok_arg:
  assumes "rest = [] \<or> (\<exists>r. rest = CHR 0x20 # r)"
  shows "ref_tokenize (esc_arg a @ rest) False False [] = ref_tokenize rest False True a"
proof (cases "ArgvNeedsQuoting a")
  case True
  then show ?thesis using tok_body [of a rest "[]"] by (simp add: esc_arg_def tok_quote)
next
  case False
  then have "a \<noteq> []" and bare: "\<And>c. c \<in> set a \<Longrightarrow> c \<noteq> dq \<and> \<not> tok_space c"
    by (auto simp: ArgvNeedsQuoting_def tok_space_def split: if_splits)
  then have "\<not> tok_space (a ! 0)" by simp
  then show ?thesis using False \<open>a \<noteq> []\<close> tok_start [of a rest "[]"] tok_bare [OF bare assms]
    by (simp add: esc_arg_def)
qed

lemma tok_join: "ref_tokenize (join_text False args) False False [] = args"
proof -
  have more: "ref_tokenize (join_text True args) False True t = t # args" for t args
  proof (induction args arbitrary: t)
    case (Cons a args)
    have "join_text True args = [] \<or> (\<exists>r. join_text True args = CHR 0x20 # r)" by (cases args) auto
    then show ?case using Cons tok_sep [of "CHR 0x20"] tok_arg [of "join_text True args" a]
      by (simp add: tok_space_def)
  qed (simp add: tok_end)
  show ?thesis
  proof (cases args)
    case (Cons a as)
    have "join_text True as = [] \<or> (\<exists>r. join_text True as = CHR 0x20 # r)" by (cases as) auto
    then show ?thesis using Cons more tok_arg [of "join_text True as" a] by simp
  qed (simp add: tok_end)
qed

interpretation argv_line: codec "\<lambda>args. True" "join_text False" "\<lambda>line. Some (ref_tokenize line False False [])"
  by unfold_locales (simp add: tok_join)

section \<open>The contract of the caret pass\<close>

text \<open>
  What \<^verbatim>\<open>argv.h\<close> promises of \<^verbatim>\<open>ArgvCmdEscape\<close>, character by character: the eight it lists get a
  caret where they stand outside quotes, that is behind an even number of quotes.
\<close>

definition outside_quotes :: "string \<Rightarrow> nat \<Rightarrow> bool" where
  "outside_quotes line i \<longleftrightarrow> even (length (filter (\<lambda>c. c = CHR 0x22) (take i line)))"

definition listed :: "char set" where
  "listed = {CHR ''&'', CHR ''|'', CHR ''<'', CHR ''>'', CHR ''^'', CHR ''('', CHR '')'', CHR ''%''}"

definition with_carets :: "string \<Rightarrow> string" where
  "with_carets line =
     concat (map (\<lambda>i. if line ! i \<in> listed \<and> outside_quotes line i then [CHR ''^'', line ! i] else [line ! i])
       [0..<length line])"

lemma meta_listed: "cmd_meta c \<longleftrightarrow> c \<in> listed"
  by (auto simp: cmd_meta_def listed_def)

lemma quote_not_listed [simp]: "dq \<notin> listed"
  by (simp add: listed_def)

lemma cmd_text_pieces:
  "cmd_text q line =
     concat (map (\<lambda>i. if line ! i \<in> listed \<and> (q \<noteq> outside_quotes line i) then [CHR ''^'', line ! i] else [line ! i])
       [0..<length line])"
proof (induction line arbitrary: q)
  case (Cons c line)
  have shift: "[0..<length (c # line)] = 0 # map Suc [0..<length line]"
    by (simp add: upt_conv_Cons map_Suc_upt del: upt_Suc)
  have out: "outside_quotes (x # line) 0" "outside_quotes (x # line) (Suc i) = (outside_quotes line i \<noteq> (x = dq))" for i x
    by (auto simp: outside_quotes_def)
  show ?case
  proof (cases "c = dq")
    case True
    then show ?thesis unfolding shift using Cons.IH [of "\<not> q"] by (simp add: out comp_def cong: if_cong)
  next
    case False
    then show ?thesis unfolding shift using Cons.IH [of q] by (simp add: out comp_def meta_listed cong: if_cong)
  qed
qed simp

lemma cmd_text_carets: "cmd_text False line = with_carets line"
  by (simp add: cmd_text_pieces with_carets_def)

lemma escape_carets:
  "ArgvCmdEscape line n = (if int (length (with_carets line)) < n then Some (with_carets line) else None)"
  by (simp add: cmd_writes writes_def cmd_text_carets)

lemma with_carets_Nil: "with_carets line = [] \<longleftrightarrow> line = []"
  by (cases line) (auto simp: with_carets_def upt_conv_Cons)

text \<open>A caret takes nothing of the line away: it is read off again.\<close>

fun without_carets :: "bool \<Rightarrow> string \<Rightarrow> string" where
  "without_carets q [] = []"
| "without_carets q [c] = [c]"
| "without_carets q (c # d # p) =
     (if c = dq then c # without_carets (\<not> q) (d # p)
      else if \<not> q \<and> c = CHR ''^'' then d # without_carets q p
      else c # without_carets q (d # p))"

lemma without_step:
  "without_carets q (dq # p) = dq # without_carets (\<not> q) p"
  "without_carets False (CHR ''^'' # c # p) = c # without_carets False p"
  by (cases p) simp_all

lemma without_plain: "c \<noteq> dq \<Longrightarrow> q \<or> c \<noteq> CHR ''^'' \<Longrightarrow> without_carets q (c # p) = c # without_carets q p"
  by (cases p) auto

lemma without_cmd_text: "without_carets q (cmd_text q p) = p"
proof (induction p arbitrary: q)
  case (Cons c p)
  have "\<not> cmd_meta c \<Longrightarrow> c \<noteq> CHR ''^''" by (auto simp: cmd_meta_def)
  then show ?case using Cons by (simp add: without_step without_plain del: without_carets.simps(2,3))
qed simp

lemma length_cmd_text: "length (cmd_text q p) \<le> 2 * length p"
  by (induction p arbitrary: q) (auto intro: le_SucI)

lemma length_esc_arg: "length (esc_arg a) \<le> 2 * length a + 2"
proof -
  have "length (esc_body p) \<le> 2 * length p" for p
  proof (induction p rule: run_induct)
    case (step k c q)
    then show ?case by (cases "c = dq") (simp_all add: esc_body_run)
  qed (simp add: esc_body_run)
  from this [of a] show ?thesis by (simp add: esc_arg_def)
qed

lemma length_join_text: "length (join_text l args) \<le> (\<Sum>a\<leftarrow>args. 2 * length a + 3)"
proof (induction args arbitrary: l)
  case (Cons a args)
  have "length (join_text l (a # args)) \<le> 1 + length (esc_arg a) + length (join_text True args)" by simp
  also have "\<dots> \<le> (\<Sum>a\<leftarrow>a # args. 2 * length a + 3)"
    using length_esc_arg [of a] Cons.IH [of True] by simp
  finally show ?case .
qed simp

section \<open>Properties\<close>

text \<open>
  C5: whatever the argument vector, empty arguments, spaces, quotes and runs of
  backslashes included, the command line \<^verbatim>\<open>ArgvJoin\<close> builds is read back by the
  tokenizer of \<^verbatim>\<open>CommandLineToArgvW\<close> as that vector, and fits its buffer with the
  NUL; it is refused only where twice the text and three characters per argument
  would not fit.
\<close>

theorem ArgvJoin_roundtrip:
  "case ArgvJoin argv outSize of
     Some line \<Rightarrow> ref_tokenize line False False [] = argv \<and> int (length line) < outSize
   | None \<Rightarrow> outSize \<le> int (\<Sum>a\<leftarrow>argv. 2 * length a + 3)"
  using length_join_text [of False argv]
  by (simp add: join_writes writes_def tok_join)

text \<open>
  C14: \<^verbatim>\<open>ArgvCmdEscape\<close> keeps the contract of its header: it puts one caret before each of the
  characters \<^verbatim>\<open>& | < > ^ ( ) %\<close> that stands outside quotes and changes nothing else, so that
  the line is what is left when the carets are read off; it fails exactly where the result
  and its NUL do not fit, and twice the line always suffices.
\<close>

theorem ArgvCmdEscape_carets:
  "case ArgvCmdEscape line outSize of
     Some out \<Rightarrow>
       out = concat (map (\<lambda>i.
         if line ! i \<in> {CHR ''&'', CHR ''|'', CHR ''<'', CHR ''>'', CHR ''^'', CHR ''('', CHR '')'', CHR ''%''} \<and>
           outside_quotes line i
         then [CHR ''^'', line ! i] else [line ! i]) [0..<length line]) \<and>
       without_carets False out = line \<and> int (length out) < outSize
   | None \<Rightarrow> outSize \<le> int (length (with_carets line)) \<and> outSize \<le> int (2 * length line)"
proof -
  have w: "with_carets line = concat (map (\<lambda>i.
      if line ! i \<in> {CHR ''&'', CHR ''|'', CHR ''<'', CHR ''>'', CHR ''^'', CHR ''('', CHR '')'', CHR ''%''} \<and>
        outside_quotes line i
      then [CHR ''^'', line ! i] else [line ! i]) [0..<length line])"
    unfolding with_carets_def listed_def by (rule refl)
  have l: "length (with_carets line) \<le> 2 * length line" "without_carets False (with_carets line) = line"
    using length_cmd_text [of False line] without_cmd_text [of False line] unfolding cmd_text_carets by simp_all
  show ?thesis unfolding escape_carets w [symmetric] using l by (simp del: without_carets.simps)
qed

end
