(* ===== verification/Json.thy ===== *)
theory Json
  imports Prelude
begin

text \<open>
  The wire format, \<^verbatim>\<open>src/src/json_parser.c\<close> and the request record of
  \<^verbatim>\<open>src/src/common.h\<close>: string escaping and unescaping on bounded buffers, the
  request parser with its scanner of strings, arrays, integers and literals, and
  the response builder.  A cursor is the suffix it points at; a parser that makes
  the C function return 0 gives \<^const>\<open>None\<close> for the rest, beside the request
  record as filled so far.
\<close>

section \<open>Limits and the request record\<close>

definition MCP_MAX_CMD :: nat where "MCP_MAX_CMD = 32"
definition MCP_MAX_ID :: nat where "MCP_MAX_ID = 32"
definition MCP_MAX_PATH_LEN :: nat where "MCP_MAX_PATH_LEN = 260"
definition MCP_MAX_LINE :: nat where "MCP_MAX_LINE = 1024"
definition MCP_MAX_DATA :: nat where "MCP_MAX_DATA = 65536"
definition MCP_MAX_RESPONSE :: nat where "MCP_MAX_RESPONSE = 262144"
definition MCP_MAX_ARGV :: nat where "MCP_MAX_ARGV = 64"
definition MCP_MAX_ARG_LEN :: nat where "MCP_MAX_ARG_LEN = 512"
definition MCP_MAX_STDIN_B64 :: nat where "MCP_MAX_STDIN_B64 = 8192"
definition MCP_MAX_MEM_TOKEN :: nat where "MCP_MAX_MEM_TOKEN = 40"
definition MCP_MAX_MEM_NUM :: nat where "MCP_MAX_MEM_NUM = 24"

lemmas mcp_max_defs = MCP_MAX_CMD_def MCP_MAX_ID_def MCP_MAX_PATH_LEN_def MCP_MAX_LINE_def
  MCP_MAX_DATA_def MCP_MAX_RESPONSE_def MCP_MAX_ARGV_def MCP_MAX_ARG_LEN_def
  MCP_MAX_STDIN_B64_def MCP_MAX_MEM_TOKEN_def MCP_MAX_MEM_NUM_def

record JsonCommand =
  cmd :: string
  req_id :: string
  path :: string
  dest :: string
  cmd_line :: string
  data :: string
  argv :: "string list"
  cwd :: string
  stdin_b64 :: string
  timeout_ms :: int
  shell_flag :: bool
  unsafe_flag :: bool
  max_output :: int
  mem_cap_bytes :: int
  cpu_time_ms :: int
  cols :: int
  rows :: int
  mem_token :: string
  mem_addr :: string
  mem_len :: string

definition empty_command :: JsonCommand where
  "empty_command = \<lparr> cmd = [], req_id = [], path = [], dest = [], cmd_line = [], data = [],
     argv = [], cwd = [], stdin_b64 = [], timeout_ms = 0, shell_flag = False, unsafe_flag = False,
     max_output = 0, mem_cap_bytes = 0, cpu_time_ms = 0, cols = 0, rows = 0,
     mem_token = [], mem_addr = [], mem_len = [] \<rparr>"

section \<open>Escaping\<close>

text \<open>The character a backslash and a letter stand for, when the pair is known.\<close>

definition unesc_char :: "char \<Rightarrow> char option" where
  "unesc_char e =
     (if e = dq then Some dq
      else if e = bsl then Some bsl
      else if e = CHR ''/'' then Some (CHR ''/'')
      else if e = CHR ''n'' then Some (CHR 0x0A)
      else if e = CHR ''t'' then Some (CHR 0x09)
      else if e = CHR ''r'' then Some (CHR 0x0D)
      else if e = CHR ''b'' then Some (CHR 0x08)
      else if e = CHR ''f'' then Some (CHR 0x0C)
      else None)"

function json_unescape_loop :: "nat \<Rightarrow> string \<Rightarrow> string \<Rightarrow> string" where
  "json_unescape_loop dst_size [] out = out"
| "json_unescape_loop dst_size (ch # s) out =
     (if \<not> length out + 1 < dst_size then out
      else if ch = bsl \<and> s \<noteq> [] then
        (case unesc_char (hd s) of
           Some c \<Rightarrow> json_unescape_loop dst_size (tl s) (out @ [c])
         | None \<Rightarrow>
             (let out1 = out @ [bsl];
                  out2 = (if length out1 + 1 < dst_size then out1 @ [hd s] else out1)
              in json_unescape_loop dst_size (tl s) out2))
      else json_unescape_loop dst_size s (out @ [ch]))"
  by pat_completeness auto
termination by (relation "measure (\<lambda>(_, s, _). length s)") auto

definition json_unescape :: "string \<Rightarrow> nat \<Rightarrow> string" where
  "json_unescape src dst_size = json_unescape_loop dst_size src []"

definition hexd :: string where "hexd = ''0123456789abcdef''"

definition esc_piece :: "char \<Rightarrow> string" where
  "esc_piece p =
     (if p = dq then [bsl, dq]
      else if p = bsl then [bsl, bsl]
      else if p = CHR 0x0A then [bsl, CHR ''n'']
      else if p = CHR 0x09 then [bsl, CHR ''t'']
      else if p = CHR 0x0D then [bsl, CHR ''r'']
      else if p = CHR 0x08 then [bsl, CHR ''b'']
      else if p = CHR 0x0C then [bsl, CHR ''f'']
      else let c = byte_of p in
        if c < 0x20 then
          [bsl, CHR ''u'', CHR ''0'', CHR ''0'',
           hexd ! unat (drop_bit 4 c AND 0x0F), hexd ! unat (c AND 0x0F)]
        else [p])"

fun json_escape_loop :: "int \<Rightarrow> string \<Rightarrow> string \<Rightarrow> string option" where
  "json_escape_loop dst_size [] out = Some out"
| "json_escape_loop dst_size (p # src) out =
     (let piece = esc_piece p in
      if int (length out + length piece) > dst_size - 1 then None
      else json_escape_loop dst_size src (out @ piece))"

definition JsonEscape :: "string \<Rightarrow> int \<Rightarrow> string option" where
  "JsonEscape src dst_size = json_escape_loop dst_size src []"

section \<open>Assigning fields\<close>

definition copy_key :: "string \<Rightarrow> string" where
  "copy_key key = take 63 key"

definition assign_field :: "JsonCommand \<Rightarrow> string \<Rightarrow> string \<Rightarrow> JsonCommand" where
  "assign_field c key val =
     (let k = copy_key key in
      if k = ''cmd'' then c\<lparr>cmd := json_unescape val MCP_MAX_CMD\<rparr>
      else if k = ''id'' then c\<lparr>req_id := json_unescape val MCP_MAX_ID\<rparr>
      else if k = ''path'' then c\<lparr>path := json_unescape val MCP_MAX_PATH_LEN\<rparr>
      else if k = ''dest'' then c\<lparr>dest := json_unescape val MCP_MAX_PATH_LEN\<rparr>
      else if k = ''line'' then c\<lparr>cmd_line := json_unescape val MCP_MAX_LINE\<rparr>
      else if k = ''data'' then c\<lparr>data := json_unescape val MCP_MAX_DATA\<rparr>
      else if k = ''cwd'' then c\<lparr>cwd := json_unescape val MCP_MAX_PATH_LEN\<rparr>
      else if k = ''stdin_b64'' then c\<lparr>stdin_b64 := json_unescape val MCP_MAX_STDIN_B64\<rparr>
      else if k = ''mem_token'' then c\<lparr>mem_token := json_unescape val MCP_MAX_MEM_TOKEN\<rparr>
      else if k = ''mem_addr'' then c\<lparr>mem_addr := json_unescape val MCP_MAX_MEM_NUM\<rparr>
      else if k = ''mem_len'' then c\<lparr>mem_len := json_unescape val MCP_MAX_MEM_NUM\<rparr>
      else c)"

definition assign_int_field :: "JsonCommand \<Rightarrow> string \<Rightarrow> int \<Rightarrow> JsonCommand" where
  "assign_int_field c key v =
     (let k = copy_key key in
      if k = ''timeout_ms'' then c\<lparr>timeout_ms := v\<rparr>
      else if k = ''max_output'' then c\<lparr>max_output := v\<rparr>
      else if k = ''mem_cap_bytes'' then c\<lparr>mem_cap_bytes := v\<rparr>
      else if k = ''cpu_time_ms'' then c\<lparr>cpu_time_ms := v\<rparr>
      else if k = ''cols'' then c\<lparr>cols := v\<rparr>
      else if k = ''rows'' then c\<lparr>rows := v\<rparr>
      else c)"

definition assign_bool_field :: "JsonCommand \<Rightarrow> string \<Rightarrow> bool \<Rightarrow> JsonCommand" where
  "assign_bool_field c key v =
     (let k = copy_key key in
      if k = ''shell'' then c\<lparr>shell_flag := v\<rparr>
      else if k = ''unsafe'' then c\<lparr>unsafe_flag := v\<rparr>
      else c)"

section \<open>The parser\<close>

definition json_ws :: "char \<Rightarrow> bool" where
  "json_ws c \<longleftrightarrow> c = CHR 0x20 \<or> c = CHR 0x09 \<or> c = CHR 0x0D \<or> c = CHR 0x0A"

definition blank :: "char \<Rightarrow> bool" where
  "blank c \<longleftrightarrow> c = CHR 0x20 \<or> c = CHR 0x09"

definition is_digit :: "char \<Rightarrow> bool" where
  "is_digit c \<longleftrightarrow> CHR ''0'' \<le> c \<and> c \<le> CHR ''9''"

definition digit_val :: "char \<Rightarrow> int" where
  "digit_val c = int (of_char c) - 48"

definition starts :: "string \<Rightarrow> string \<Rightarrow> bool" where
  "starts w p \<longleftrightarrow> take (length w) p = w"

text \<open>The raw text of a string value up to its closing quote, and what follows it.\<close>

fun scan_string :: "string \<Rightarrow> (string \<times> string) option" where
  "scan_string [] = None"
| "scan_string [c] = (if c = dq then Some ([], []) else None)"
| "scan_string (c # d # p) =
     (if c = bsl then map_option (\<lambda>(raw, r). (c # d # raw, r)) (scan_string p)
      else if c = dq then Some ([], d # p)
      else map_option (\<lambda>(raw, r). (c # raw, r)) (scan_string (d # p)))"

lemma scan_string_shorter: "scan_string p = Some (raw, r) \<Longrightarrow> length r < length p"
  by (induction p arbitrary: raw rule: scan_string.induct) (auto split: if_splits)

function json_array :: "bool \<Rightarrow> string list \<Rightarrow> string \<Rightarrow> string list \<times> string option" where
  "json_array is_argv av p =
     (case dropWhile json_ws p of
        [] \<Rightarrow> (av, None)
      | c # q \<Rightarrow>
          if c = CHR '']'' then (av, Some q)
          else if c = CHR '','' then json_array is_argv av q
          else if c = dq then
            (case scan_string q of
               None \<Rightarrow> (av, None)
             | Some (raw, r) \<Rightarrow>
                 json_array is_argv
                   (if is_argv \<and> length av < MCP_MAX_ARGV
                    then av @ [json_unescape raw MCP_MAX_ARG_LEN] else av) r)
          else if is_argv then (av, None)
          else if c = CHR ''-'' \<or> is_digit c then
            (case (if c = CHR ''-'' then q else c # q) of
               [] \<Rightarrow> (av, None)
             | d # r \<Rightarrow>
                 if \<not> is_digit d then (av, None)
                 else json_array is_argv av (dropWhile (\<lambda>c. is_digit c \<or> c = CHR ''.'') r))
          else if starts ''true'' (c # q) then json_array is_argv av (drop 3 q)
          else if starts ''false'' (c # q) then json_array is_argv av (drop 4 q)
          else if starts ''null'' (c # q) then json_array is_argv av (drop 3 q)
          else (av, None))"
  by pat_completeness auto
termination
proof (relation "measure (\<lambda>(_, _, p). length p)")
qed (auto dest!: dropWhile_tail_shorter scan_string_shorter
    intro: le_less_trans [OF length_dropWhile_le] split: if_splits)

declare json_array.simps [simp del]

text \<open>
  The integer accumulator: once it has reached 214748364 the remaining digits are
  read and dropped.
\<close>

fun int_acc :: "string \<Rightarrow> int \<Rightarrow> int \<times> string" where
  "int_acc [] acc = (acc, [])"
| "int_acc (c # p) acc =
     (if is_digit c then int_acc p (if acc < 214748364 then acc * 10 + digit_val c else acc)
      else (acc, c # p))"

text \<open>An integer value; a sign without a digit and a fraction are refused.\<close>

definition json_int :: "string \<Rightarrow> (int \<times> string) option" where
  "json_int p =
     (let (sign, p1) = (if p \<noteq> [] \<and> hd p = CHR ''-'' then (- 1, tl p) else (1, p)) in
      if p1 = [] \<or> \<not> is_digit (hd p1) then None
      else let (acc, p2) = int_acc p1 0 in
        if p2 \<noteq> [] \<and> hd p2 = CHR ''.'' then None
        else Some (sign * acc, p2))"

definition json_value :: "JsonCommand \<Rightarrow> string \<Rightarrow> string \<Rightarrow> JsonCommand \<times> string option" where
  "json_value out key p =
     (if p \<noteq> [] \<and> hd p = dq then
        (case scan_string (tl p) of
           None \<Rightarrow> (out, None)
         | Some (raw, r) \<Rightarrow> (assign_field out key raw, Some r))
      else if p \<noteq> [] \<and> hd p = CHR ''['' then
        (let (av, r) = json_array (copy_key key = ''argv'') (argv out) (tl p) in (out\<lparr>argv := av\<rparr>, r))
      else if p \<noteq> [] \<and> (hd p = CHR ''-'' \<or> is_digit (hd p)) then
        (case json_int p of
           None \<Rightarrow> (out, None)
         | Some (v, r) \<Rightarrow> (assign_int_field out key v, Some r))
      else if starts ''true'' p then (assign_bool_field out key True, Some (drop 4 p))
      else if starts ''false'' p then (assign_bool_field out key False, Some (drop 5 p))
      else if starts ''null'' p then (out, Some (drop 4 p))
      else (out, None))"

text \<open>One member, from the character after the opening quote of its key.\<close>

definition json_member :: "JsonCommand \<Rightarrow> string \<Rightarrow> JsonCommand \<times> string option" where
  "json_member out p =
     (let key = takeWhile (\<lambda>c. c \<noteq> dq) p in
      case dropWhile (\<lambda>c. c \<noteq> dq) p of
        [] \<Rightarrow> (out, None)
      | _ # p1 \<Rightarrow>
          (case dropWhile blank p1 of
             [] \<Rightarrow> (out, None)
           | c # p2 \<Rightarrow>
               if c \<noteq> CHR '':'' then (out, None)
               else json_value out key (dropWhile blank p2)))"

lemma int_acc_shorter: "int_acc p a = (b, r) \<Longrightarrow> length r \<le> length p"
  by (induction p arbitrary: a) (auto split: if_splits simp: le_Suc_eq)

lemma json_array_shorter: "json_array f av p = (av', Some r) \<Longrightarrow> length r \<le> length p"
proof (induction "length p" arbitrary: f av p rule: less_induct)
  case less
  have IH: "length r \<le> length p" if "json_array f' av2 q = (av', Some r)" "length q < length p" for f' av2 q
    using less.hyps [OF that(2,1)] that(2) by simp
  show ?case
  proof (cases "dropWhile json_ws p")
    case Nil
    then show ?thesis using less.prems by (subst (asm) json_array.simps) (simp del: dropWhile_eq_Nil_conv)
  next
    case (Cons c q)
    have lt: "length q < length p" using Cons by (rule dropWhile_tail_shorter)
    have num: "length (dropWhile P x) < length p" if "length x \<le> length q" for P and x :: string
      using length_dropWhile_le [of P x] that lt by linarith
    show ?thesis using less.prems lt Cons num
      by (subst (asm) json_array.simps)
         (auto simp del: dropWhile_eq_Nil_conv split: if_splits option.splits list.splits prod.splits
          dest!: scan_string_shorter elim!: IH)
  qed
qed

lemma json_int_shorter: "json_int p = Some (v, r) \<Longrightarrow> length r \<le> length p"
  by (auto simp: json_int_def Let_def split: if_splits prod.splits dest!: int_acc_shorter)

lemma json_value_shorter: "json_value out key p = (out', Some r) \<Longrightarrow> length r \<le> length p"
  by (auto simp: json_value_def Let_def split: if_splits prod.splits option.splits
      dest!: scan_string_shorter json_array_shorter json_int_shorter)

lemma json_member_shorter:
  assumes "json_member out p = (out', Some r)"
  shows "length r \<le> length p"
proof -
  obtain x p1 c p2 where p1: "dropWhile (\<lambda>c. c \<noteq> dq) p = x # p1" "dropWhile blank p1 = c # p2"
    and v: "json_value out (takeWhile (\<lambda>c. c \<noteq> dq) p) (dropWhile blank p2) = (out', Some r)"
    using assms by (auto simp: json_member_def Let_def split: list.splits if_splits)
  have "length r \<le> length (dropWhile blank p2)" using v by (rule json_value_shorter)
  also have "\<dots> \<le> length p2" by (rule length_dropWhile_le)
  finally show ?thesis using dropWhile_tail_shorter [OF p1(1)] dropWhile_tail_shorter [OF p1(2)] by simp
qed

function json_object :: "JsonCommand \<Rightarrow> string \<Rightarrow> JsonCommand \<times> bool" where
  "json_object out p =
     (case dropWhile json_ws p of
        [] \<Rightarrow> (out, False)
      | c # q \<Rightarrow>
          if c = CHR ''}'' then (out, True)
          else if c = CHR '','' then json_object out q
          else if c \<noteq> dq then (out, False)
          else (case json_member out q of
                  (out', None) \<Rightarrow> (out', False)
                | (out', Some r) \<Rightarrow> json_object out' r))"
  by pat_completeness auto
termination
proof (relation "measure (\<lambda>(_, p). length p)")
qed (auto dest!: dropWhile_tail_shorter dest: json_member_shorter [OF sym] intro: le_less_trans)

declare json_object.simps [simp del]

definition ParseJsonCommand :: "string \<Rightarrow> JsonCommand \<times> bool" where
  "ParseJsonCommand json =
     (case dropWhile json_ws json of
        [] \<Rightarrow> (empty_command, False)
      | c # p \<Rightarrow> if c \<noteq> CHR ''{'' then (empty_command, False) else json_object empty_command p)"

section \<open>The response builder\<close>

text \<open>A NULL argument of the C function is the empty string here, as the code makes it.\<close>

definition safe_append :: "int \<Rightarrow> string \<Rightarrow> string \<Rightarrow> string option" where
  "safe_append dst_size dst src =
     (if int (length dst + length src) \<ge> dst_size then None else Some (dst @ src))"

interpretation json_out: bounded_append safe_append
  by unfold_locales (simp add: safe_append_def writes_def)

definition BuildJsonResponse :: "string \<Rightarrow> string \<Rightarrow> string \<Rightarrow> string \<Rightarrow> int \<Rightarrow> string option" where
  "BuildJsonResponse rid status key value json_size =
     (if json_size < 1 then None
      else let escaped_value = (case JsonEscape value (int MCP_MAX_RESPONSE) of None \<Rightarrow> [] | Some e \<Rightarrow> e) in
        append_pieces safe_append json_size []
          [''{'' @ [dq] @ ''id'' @ [dq] @ '':'' @ [dq], rid,
           [dq] @ '','' @ [dq] @ ''status'' @ [dq] @ '':'' @ [dq], status,
           [dq] @ '','' @ [dq], key, [dq] @ '':'' @ [dq], escaped_value,
           [dq] @ ''}'' @ [CHR 0x0A]])"

section \<open>Escaping and scanning\<close>

definition esc :: "string \<Rightarrow> string" where
  "esc s = concat (map esc_piece s)"

lemma esc_simps [simp]: "esc [] = []" "esc (c # s) = esc_piece c @ esc s" "esc (s @ t) = esc s @ esc t"
  by (simp_all add: esc_def)

lemma escape_writes: "JsonEscape src n = (if src = [] then Some [] else writes n [] (esc src))"
proof -
  have loop: "json_escape_loop n s d = (if s = [] then Some d else writes n d (esc s))" for s d
  proof (induction s arbitrary: d)
    case (Cons c s)
    have "esc_piece c \<noteq> []" by (simp add: esc_piece_def Let_def)
    then show ?case using Cons [of "d @ esc_piece c"]
      by (cases s) (auto simp: Let_def writes_def)
  qed simp
  show ?thesis unfolding JsonEscape_def loop ..
qed

text \<open>A piece of escaped text scans as a whole, whatever follows.\<close>

lemma scan_plain:
  "c \<noteq> bsl \<Longrightarrow> c \<noteq> dq \<Longrightarrow> scan_string (c # p) = map_option (\<lambda>(raw, r). (c # raw, r)) (scan_string p)"
  by (cases p) auto

lemma scan_pair: "scan_string (bsl # d # p) = map_option (\<lambda>(raw, r). (bsl # d # raw, r)) (scan_string p)"
  by simp

lemma scan_quote: "scan_string (dq # p) = Some ([], p)"
  by (cases p) auto

lemma hexd_plain: "hexd ! unat (w AND 0x0F :: u8) \<noteq> bsl" "hexd ! unat (w AND 0x0F :: u8) \<noteq> dq"
proof -
  have "w AND 0x0F \<le> 0x0F" by (rule word_and_le1)
  then have "unat (w AND 0x0F) < 16" by (simp add: word_le_nat_alt)
  then have "hexd ! unat (w AND 0x0F) \<in> set hexd" by (intro nth_mem) (simp add: hexd_def)
  then show "hexd ! unat (w AND 0x0F :: u8) \<noteq> bsl" "hexd ! unat (w AND 0x0F :: u8) \<noteq> dq"
    by (auto simp: hexd_def)
qed

lemma scan_piece: "scan_string (esc_piece c @ p) = map_option (\<lambda>(raw, r). (esc_piece c @ raw, r)) (scan_string p)"
  using hexd_plain [of "drop_bit 4 (byte_of c)"] hexd_plain [of "byte_of c"]
  by (auto simp: esc_piece_def Let_def scan_plain scan_pair option.map_comp o_def case_prod_beta'
      simp del: scan_string.simps(3))

lemma scan_esc: "scan_string (esc s @ dq # r) = Some (esc s, r)"
  by (induction s) (simp_all add: scan_quote scan_piece)

text \<open>The characters the decoder gives back: all but the controls without a short escape.\<close>

definition json_clean :: "char \<Rightarrow> bool" where
  "json_clean c \<longleftrightarrow> \<not> byte_of c < 0x20 \<or> c \<in> {CHR 0x0A, CHR 0x09, CHR 0x0D, CHR 0x08, CHR 0x0C}"

lemma clean_piece:
  assumes "json_clean c"
  obtains e where "esc_piece c = [bsl, e]" "unesc_char e = Some c"
  | "esc_piece c = [c]" "c \<noteq> bsl"
proof -
  consider "c = dq" | "c = bsl" | "c = CHR 0x0A" | "c = CHR 0x09" | "c = CHR 0x0D" | "c = CHR 0x08"
    | "c = CHR 0x0C" | "c \<notin> {dq, bsl, CHR 0x0A, CHR 0x09, CHR 0x0D, CHR 0x08, CHR 0x0C}" by auto
  then show thesis
    using assms that by cases (simp_all add: esc_piece_def unesc_char_def json_clean_def Let_def)
qed

lemma unescape_take:
  assumes "\<And>c. c \<in> set s \<Longrightarrow> json_clean c"
  shows "json_unescape_loop n (esc s) d = d @ take (n - 1 - length d) s"
  using assms
proof (induction s arbitrary: d)
  case (Cons c s)
  have c: "json_clean c" using Cons.prems by simp
  have IH: "json_unescape_loop n (esc s) (d @ [c]) = (d @ [c]) @ take (n - 1 - length (d @ [c])) s"
    using Cons by simp
  show ?case
  proof (cases "length d + 1 < n")
    case True
    have "json_unescape_loop n (esc_piece c @ esc s) d = json_unescape_loop n (esc s) (d @ [c])"
      using c by (cases rule: clean_piece) (use True in simp_all)
    moreover have "n - 1 - length d = Suc (n - 1 - length (d @ [c]))" using True by simp
    ultimately show ?thesis using IH by simp
  next
    case False
    then show ?thesis by (cases "esc_piece c @ esc s") simp_all
  qed
qed simp

lemma length_unescape:
  assumes "0 < n" shows "length (json_unescape s n) < n"
proof -
  have "length d < n \<Longrightarrow> length (json_unescape_loop n s d) < n" for d
    by (induction n s d rule: json_unescape_loop.induct) (auto split: option.splits simp: Let_def)
  from this [of "[]"] show ?thesis using assms by (simp add: json_unescape_def)
qed

lemma unescape_esc: "(\<And>c. c \<in> set s \<Longrightarrow> json_clean c) \<Longrightarrow> json_unescape (esc s) n = take (n - 1) s"
  using unescape_take [of s n "[]"] by (simp add: json_unescape_def)

interpretation json_str: codec "\<lambda>s. \<forall>c \<in> set s. json_clean c" "\<lambda>s. esc s @ [dq]"
    "\<lambda>t. map_option (\<lambda>(raw, r). json_unescape raw (length t)) (scan_string t)"
proof unfold_locales
  fix s :: string assume clean: "\<forall>c \<in> set s. json_clean c"
  have "length s \<le> length (esc s)"
  proof (induction s)
    case (Cons c s)
    have "1 \<le> length (esc_piece c)" by (simp add: esc_piece_def Let_def)
    then show ?case using Cons by simp
  qed simp
  then show "map_option (\<lambda>(raw, r). json_unescape raw (length (esc s @ [dq]))) (scan_string (esc s @ [dq])) = Some s"
    using clean by (simp add: scan_esc unescape_esc)
qed

section \<open>The bounds of a request\<close>

definition field_bounds :: "JsonCommand \<Rightarrow> bool" where
  "field_bounds c \<longleftrightarrow>
     length (cmd c) < MCP_MAX_CMD \<and> length (req_id c) < MCP_MAX_ID \<and>
     length (path c) < MCP_MAX_PATH_LEN \<and> length (dest c) < MCP_MAX_PATH_LEN \<and>
     length (cmd_line c) < MCP_MAX_LINE \<and> length (data c) < MCP_MAX_DATA \<and>
     length (cwd c) < MCP_MAX_PATH_LEN \<and> length (stdin_b64 c) < MCP_MAX_STDIN_B64 \<and>
     length (mem_token c) < MCP_MAX_MEM_TOKEN \<and> length (mem_addr c) < MCP_MAX_MEM_NUM \<and>
     length (mem_len c) < MCP_MAX_MEM_NUM \<and>
     length (argv c) \<le> MCP_MAX_ARGV \<and> (\<forall>a \<in> set (argv c). length a < MCP_MAX_ARG_LEN) \<and>
     (\<forall>v \<in> {timeout_ms c, max_output c, mem_cap_bytes c, cpu_time_ms c, cols c, rows c}.
        \<bar>v\<bar> \<le> 2147483639)"

lemma max_pos: "0 < MCP_MAX_CMD" "0 < MCP_MAX_ID" "0 < MCP_MAX_PATH_LEN" "0 < MCP_MAX_LINE"
  "0 < MCP_MAX_DATA" "0 < MCP_MAX_ARG_LEN" "0 < MCP_MAX_STDIN_B64" "0 < MCP_MAX_MEM_TOKEN" "0 < MCP_MAX_MEM_NUM"
  by (simp_all add: mcp_max_defs)

text \<open>One update of a bounded field, and the operations, which are such updates.\<close>

lemma field_bounds_string:
  "field_bounds c \<Longrightarrow> length s < MCP_MAX_CMD \<Longrightarrow> field_bounds (c\<lparr>cmd := s\<rparr>)"
  "field_bounds c \<Longrightarrow> length s < MCP_MAX_ID \<Longrightarrow> field_bounds (c\<lparr>req_id := s\<rparr>)"
  "field_bounds c \<Longrightarrow> length s < MCP_MAX_PATH_LEN \<Longrightarrow> field_bounds (c\<lparr>path := s\<rparr>)"
  "field_bounds c \<Longrightarrow> length s < MCP_MAX_PATH_LEN \<Longrightarrow> field_bounds (c\<lparr>dest := s\<rparr>)"
  "field_bounds c \<Longrightarrow> length s < MCP_MAX_LINE \<Longrightarrow> field_bounds (c\<lparr>cmd_line := s\<rparr>)"
  "field_bounds c \<Longrightarrow> length s < MCP_MAX_DATA \<Longrightarrow> field_bounds (c\<lparr>data := s\<rparr>)"
  "field_bounds c \<Longrightarrow> length s < MCP_MAX_PATH_LEN \<Longrightarrow> field_bounds (c\<lparr>cwd := s\<rparr>)"
  "field_bounds c \<Longrightarrow> length s < MCP_MAX_STDIN_B64 \<Longrightarrow> field_bounds (c\<lparr>stdin_b64 := s\<rparr>)"
  "field_bounds c \<Longrightarrow> length s < MCP_MAX_MEM_TOKEN \<Longrightarrow> field_bounds (c\<lparr>mem_token := s\<rparr>)"
  "field_bounds c \<Longrightarrow> length s < MCP_MAX_MEM_NUM \<Longrightarrow> field_bounds (c\<lparr>mem_addr := s\<rparr>)"
  "field_bounds c \<Longrightarrow> length s < MCP_MAX_MEM_NUM \<Longrightarrow> field_bounds (c\<lparr>mem_len := s\<rparr>)"
  by (simp_all add: field_bounds_def)

lemma field_bounds_int:
  "field_bounds c \<Longrightarrow> \<bar>v\<bar> \<le> 2147483639 \<Longrightarrow> field_bounds (c\<lparr>timeout_ms := v\<rparr>)"
  "field_bounds c \<Longrightarrow> \<bar>v\<bar> \<le> 2147483639 \<Longrightarrow> field_bounds (c\<lparr>max_output := v\<rparr>)"
  "field_bounds c \<Longrightarrow> \<bar>v\<bar> \<le> 2147483639 \<Longrightarrow> field_bounds (c\<lparr>mem_cap_bytes := v\<rparr>)"
  "field_bounds c \<Longrightarrow> \<bar>v\<bar> \<le> 2147483639 \<Longrightarrow> field_bounds (c\<lparr>cpu_time_ms := v\<rparr>)"
  "field_bounds c \<Longrightarrow> \<bar>v\<bar> \<le> 2147483639 \<Longrightarrow> field_bounds (c\<lparr>cols := v\<rparr>)"
  "field_bounds c \<Longrightarrow> \<bar>v\<bar> \<le> 2147483639 \<Longrightarrow> field_bounds (c\<lparr>rows := v\<rparr>)"
  by (simp_all add: field_bounds_def)

lemma field_bounds_other:
  "field_bounds c \<Longrightarrow> field_bounds (c\<lparr>shell_flag := b\<rparr>)"
  "field_bounds c \<Longrightarrow> field_bounds (c\<lparr>unsafe_flag := b\<rparr>)"
  "field_bounds c \<Longrightarrow> length av \<le> MCP_MAX_ARGV \<Longrightarrow> \<forall>a \<in> set av. length a < MCP_MAX_ARG_LEN \<Longrightarrow>
     field_bounds (c\<lparr>argv := av\<rparr>)"
  by (simp_all add: field_bounds_def)

lemma assign_field_bounds: "field_bounds c \<Longrightarrow> field_bounds (assign_field c k v)"
  unfolding assign_field_def Let_def by (simp add: field_bounds_string length_unescape max_pos)

lemma assign_int_bounds: "field_bounds c \<Longrightarrow> \<bar>v\<bar> \<le> 2147483639 \<Longrightarrow> field_bounds (assign_int_field c k v)"
  unfolding assign_int_field_def Let_def by (simp add: field_bounds_int)

lemma assign_bool_bounds: "field_bounds c \<Longrightarrow> field_bounds (assign_bool_field c k v)"
  unfolding assign_bool_field_def Let_def by (simp add: field_bounds_other)

lemma digit_val_range: "is_digit c \<Longrightarrow> 0 \<le> digit_val c \<and> digit_val c \<le> 9"
  by (auto simp: is_digit_def digit_val_def less_eq_char_def)

lemma int_acc_range:
  "0 \<le> a \<Longrightarrow> a \<le> 2147483639 \<Longrightarrow> int_acc p a = (v, r) \<Longrightarrow> 0 \<le> v \<and> v \<le> 2147483639"
proof (induction p arbitrary: a)
  case (Cons c p)
  show ?case
  proof (cases "is_digit c")
    case True
    let ?a = "if a < 214748364 then a * 10 + digit_val c else a"
    have "0 \<le> ?a" "?a \<le> 2147483639" using Cons.prems(1,2) digit_val_range [OF True] by (simp_all split: if_split)
    then show ?thesis using Cons.IH [of ?a] Cons.prems(3) True by simp
  qed (use Cons.prems in simp)
qed simp

lemma json_int_range: "json_int p = Some (v, r) \<Longrightarrow> \<bar>v\<bar> \<le> 2147483639"
  by (auto simp: json_int_def Let_def split: if_splits prod.splits dest: int_acc_range [rotated 2])

lemma json_array_bounds:
  "length av \<le> MCP_MAX_ARGV \<Longrightarrow> \<forall>a \<in> set av. length a < MCP_MAX_ARG_LEN \<Longrightarrow> json_array f av p = (av', r) \<Longrightarrow>
     length av' \<le> MCP_MAX_ARGV \<and> (\<forall>a \<in> set av'. length a < MCP_MAX_ARG_LEN)"
proof (induction "length p" arbitrary: f av p rule: less_induct)
  case less
  let ?B = "\<lambda>av. length av \<le> MCP_MAX_ARGV \<and> (\<forall>a \<in> set av. length a < MCP_MAX_ARG_LEN)"
  have IH: "?B av'" if "json_array f' av2 q = (av', r)" "length q < length p" "?B av2" for f' av2 q
    using less.hyps [OF that(2) _ _ that(1)] that(3) by blast
  have snoc: "?B av'" if "json_array f' (av @ [json_unescape x MCP_MAX_ARG_LEN]) q = (av', r)"
    "length q < length p" "length av < MCP_MAX_ARGV" for f' x q
    using that(3) less.prems(2) by (intro IH [OF that(1,2)]) (auto simp: length_unescape max_pos)
  show ?case
  proof (cases "dropWhile json_ws p")
    case Nil
    then show ?thesis using less.prems by (subst (asm) json_array.simps) (simp del: dropWhile_eq_Nil_conv)
  next
    case (Cons c q)
    have lt: "length q < length p" using Cons by (rule dropWhile_tail_shorter)
    have num: "length (dropWhile P x) < length p" if "length x \<le> length q" for P and x :: string
      using length_dropWhile_le [of P x] that lt by linarith
    show ?thesis using less.prems lt Cons num
      by (subst (asm) json_array.simps)
         (auto simp del: dropWhile_eq_Nil_conv simp: length_unescape max_pos
          split: if_splits option.splits list.splits prod.splits
          dest!: scan_string_shorter dest: IH snoc)
  qed
qed

lemma json_value_bounds:
  assumes "field_bounds c" "json_value c k p = (c', r)"
  shows "field_bounds c'"
proof -
  have argv: "field_bounds (c\<lparr>argv := av\<rparr>)" if "json_array f (argv c) q = (av, r')" for f q av r'
    using json_array_bounds [OF _ _ that] assms(1) by (simp add: field_bounds_other field_bounds_def)
  show ?thesis using assms
    by (auto simp: json_value_def Let_def split: if_splits option.splits prod.splits
        intro: assign_field_bounds assign_int_bounds assign_bool_bounds argv json_int_range)
qed

lemma json_member_bounds: "field_bounds c \<Longrightarrow> json_member c p = (c', r) \<Longrightarrow> field_bounds c'"
  by (auto simp: json_member_def Let_def split: list.splits if_splits intro: json_value_bounds)

lemma json_object_bounds: "field_bounds c \<Longrightarrow> json_object c p = (c', r) \<Longrightarrow> field_bounds c'"
proof (induction c p rule: json_object.induct)
  case (1 c p)
  show ?case
  proof (cases "dropWhile json_ws p")
    case Nil
    then show ?thesis using "1.prems" by (subst (asm) json_object.simps) (simp del: dropWhile_eq_Nil_conv)
  next
    case (Cons x q)
    note IH = "1.IH" [OF Cons]
    show ?thesis using "1.prems" Cons IH
      by (subst (asm) json_object.simps)
         (auto split: if_splits option.splits prod.splits dest: json_member_bounds)
  qed
qed

text \<open>
  C6: whatever the text, and even where the parser refuses it half way, every string
  field of the request is shorter than its buffer, the argument vector holds at most
  64 arguments of fewer than 512 characters, and every integer field is within the
  range the digits accumulate to without overflowing 32 bits.
\<close>

theorem ParseJsonCommand_bounds: "field_bounds (fst (ParseJsonCommand json))"
proof -
  have "field_bounds empty_command"
    by (simp add: field_bounds_def empty_command_def max_pos)
  then show ?thesis
    by (auto simp: ParseJsonCommand_def split: list.splits prod.splits intro: json_object_bounds [OF _ prod.collapse [symmetric]])
qed

section \<open>Canonical text\<close>

text \<open>
  The abstract contract of the parser: a request is a list of members, and a member
  sets the field its key names.  \<open>render\<close> is its compact notation.
\<close>

datatype jvalue = JStr string | JInt int | JBool bool | JNull | JStrs "string list"

definition render_int :: "int \<Rightarrow> string" where
  "render_int v = (if v < 0 then CHR ''-'' # dec (nat (- v)) else dec (nat v))"

definition quoted :: "string \<Rightarrow> string" where
  "quoted s = dq # esc s @ [dq]"

fun commas :: "string list \<Rightarrow> string" where
  "commas [] = []"
| "commas [x] = x"
| "commas (x # y # xs) = x @ CHR '','' # commas (y # xs)"

fun render_value :: "jvalue \<Rightarrow> string" where
  "render_value (JStr s) = quoted s"
| "render_value (JInt v) = render_int v"
| "render_value (JBool b) = (if b then ''true'' else ''false'')"
| "render_value JNull = ''null''"
| "render_value (JStrs l) = CHR ''['' # commas (map quoted l) @ '']''"

definition render_member :: "string \<times> jvalue \<Rightarrow> string" where
  "render_member m = dq # fst m @ dq # CHR '':'' # render_value (snd m)"

definition render :: "(string \<times> jvalue) list \<Rightarrow> string" where
  "render ms = CHR ''{'' # commas (map render_member ms) @ ''}''"

fun clean_value :: "jvalue \<Rightarrow> bool" where
  "clean_value (JStr s) = (\<forall>c \<in> set s. json_clean c)"
| "clean_value (JInt v) = (\<bar>v\<bar> \<le> 2147483639)"
| "clean_value (JStrs l) = (\<forall>s \<in> set l. \<forall>c \<in> set s. json_clean c)"
| "clean_value _ = True"

definition clean_member :: "string \<times> jvalue \<Rightarrow> bool" where
  "clean_member m \<longleftrightarrow> dq \<notin> set (fst m) \<and> clean_value (snd m)"

text \<open>What a member means: the value itself, cut at the size of its field.\<close>

definition set_string :: "JsonCommand \<Rightarrow> string \<Rightarrow> string \<Rightarrow> JsonCommand" where
  "set_string c k s =
     (if k = ''cmd'' then c\<lparr>cmd := take 31 s\<rparr>
      else if k = ''id'' then c\<lparr>req_id := take 31 s\<rparr>
      else if k = ''path'' then c\<lparr>path := take 259 s\<rparr>
      else if k = ''dest'' then c\<lparr>dest := take 259 s\<rparr>
      else if k = ''line'' then c\<lparr>cmd_line := take 1023 s\<rparr>
      else if k = ''data'' then c\<lparr>data := take 65535 s\<rparr>
      else if k = ''cwd'' then c\<lparr>cwd := take 259 s\<rparr>
      else if k = ''stdin_b64'' then c\<lparr>stdin_b64 := take 8191 s\<rparr>
      else if k = ''mem_token'' then c\<lparr>mem_token := take 39 s\<rparr>
      else if k = ''mem_addr'' then c\<lparr>mem_addr := take 23 s\<rparr>
      else if k = ''mem_len'' then c\<lparr>mem_len := take 23 s\<rparr>
      else c)"

fun set_member :: "JsonCommand \<Rightarrow> string \<times> jvalue \<Rightarrow> JsonCommand" where
  "set_member c (k, JStr s) = set_string c k s"
| "set_member c (k, JInt v) =
     (if k = ''timeout_ms'' then c\<lparr>timeout_ms := v\<rparr>
      else if k = ''max_output'' then c\<lparr>max_output := v\<rparr>
      else if k = ''mem_cap_bytes'' then c\<lparr>mem_cap_bytes := v\<rparr>
      else if k = ''cpu_time_ms'' then c\<lparr>cpu_time_ms := v\<rparr>
      else if k = ''cols'' then c\<lparr>cols := v\<rparr>
      else if k = ''rows'' then c\<lparr>rows := v\<rparr>
      else c)"
| "set_member c (k, JBool b) =
     (if k = ''shell'' then c\<lparr>shell_flag := b\<rparr> else if k = ''unsafe'' then c\<lparr>unsafe_flag := b\<rparr> else c)"
| "set_member c (k, JNull) = c"
| "set_member c (k, JStrs l) =
     (if k = ''argv'' then c\<lparr>argv := take 64 (argv c @ map (take 511) l)\<rparr> else c)"

lemma copy_key_eq [simp]: "length w < 63 \<Longrightarrow> copy_key k = w \<longleftrightarrow> k = w"
proof -
  assume "length w < 63"
  then have "take 63 k = w \<Longrightarrow> length k < 63" by (cases "length k < 63") auto
  then show ?thesis using \<open>length w < 63\<close> by (auto simp: copy_key_def)
qed

lemma assign_field_esc:
  assumes "\<forall>c \<in> set s. json_clean c"
  shows "assign_field c k (esc s) = set_string c k s"
  using assms by (simp add: assign_field_def set_string_def Let_def unescape_esc mcp_max_defs)

lemma assign_scalars:
  "assign_int_field c k v = set_member c (k, JInt v)" "assign_bool_field c k b = set_member c (k, JBool b)"
  by (simp_all add: assign_int_field_def assign_bool_field_def Let_def)

subsection \<open>Integers\<close>

lemma is_digit_char [simp]: "d < 10 \<Longrightarrow> is_digit (digit_char d)"
  by (simp add: is_digit_def less_eq_char_def)

lemma digit_val_char [simp]: "d < 10 \<Longrightarrow> digit_val (digit_char d) = int d"
  by (simp add: digit_val_def)

lemma int_acc_dec: "n < 2147483640 \<Longrightarrow> int_acc (dec n @ q) 0 = int_acc q (int n)"
proof (induction n arbitrary: q rule: dec.induct)
  case (1 n)
  show ?case
  proof (cases "n < 10")
    case False
    then have "int_acc (dec n @ q) 0 = int_acc (digit_char (n mod 10) # q) (int (n div 10))"
      using 1 by (subst dec.simps) simp
    moreover have "int (n div 10) < 214748364" using "1.prems" by linarith
    ultimately show ?thesis by (simp add: zdiv_int zmod_int)
  qed (subst dec.simps, simp)
qed

definition value_end :: "string \<Rightarrow> bool" where
  "value_end r \<longleftrightarrow> r \<noteq> [] \<and> \<not> is_digit (hd r) \<and> hd r \<noteq> CHR ''.''"

lemma int_acc_end: "value_end r \<Longrightarrow> int_acc r a = (a, r)"
  by (cases r) (auto simp: value_end_def)

lemma dec_digits: "c \<in> set (dec n) \<Longrightarrow> is_digit c"
proof (induction n rule: dec.induct)
  case (1 n)
  then show ?case by (subst (asm) dec.simps) (auto split: if_splits)
qed

lemma dec_head: "\<exists>c p. dec n = c # p \<and> is_digit c"
  using dec_digits [of _ n] by (cases "dec n") auto

lemma digit_not: "is_digit c \<Longrightarrow> c \<noteq> CHR ''-'' \<and> c \<noteq> dq \<and> c \<noteq> CHR ''['' \<and> \<not> blank c"
  by (auto simp: is_digit_def less_eq_char_def blank_def)

lemma json_int_render:
  assumes "\<bar>v\<bar> \<le> 2147483639" "value_end r"
  shows "json_int (render_int v @ r) = Some (v, r)"
proof -
  have hd_r: "r \<noteq> []" "hd r \<noteq> CHR ''.''" using assms(2) by (auto simp: value_end_def)
  have run: "int_acc (dec n @ r) 0 = (int n, r)" if "n < 2147483640" for n
    using int_acc_dec [OF that] int_acc_end [OF assms(2)] by simp
  have small: "nat v < 2147483640" "nat (- v) < 2147483640" using assms(1) by linarith+
  obtain c p where c: "dec (nat v) = c # p" "is_digit c" using dec_head by blast
  obtain d q where d: "dec (nat (- v)) = d # q" "is_digit d" using dec_head by blast
  show ?thesis using run [OF small(1)] run [OF small(2)] c d digit_not hd_r
    by (auto simp: json_int_def render_int_def Let_def)
qed

subsection \<open>Values\<close>

lemma ws_simps [simp]: "\<not> json_ws dq" "\<not> json_ws (CHR '','')" "\<not> json_ws (CHR '']'')" "\<not> json_ws (CHR ''}'')"
  "\<not> json_ws (CHR ''{'')" "\<not> blank (CHR '':'')" "\<not> blank dq" "\<not> blank (CHR ''['')"
  by (simp_all add: json_ws_def blank_def)

definition add_args :: "bool \<Rightarrow> string list \<Rightarrow> string list \<Rightarrow> string list" where
  "add_args f av l = (if f then take 64 (av @ map (take 511) l) else av)"

lemma array_step:
  assumes "\<forall>c \<in> set s. json_clean c" "length av \<le> 64"
  shows "json_array f av (dq # esc s @ dq # p) = json_array f (add_args f av [s]) p"
proof -
  have "json_array f av (dq # esc s @ dq # p) =
      json_array f (if f \<and> length av < MCP_MAX_ARGV then av @ [json_unescape (esc s) MCP_MAX_ARG_LEN] else av) p"
    by (subst json_array.simps) (simp add: scan_esc)
  then show ?thesis using assms
    by (cases "length av < 64") (auto simp: add_args_def unescape_esc mcp_max_defs)
qed

lemma add_args_Cons:
  "length av \<le> 64 \<Longrightarrow> add_args f (add_args f av [s]) l = add_args f av (s # l)"
  by (cases "length av = 64") (auto simp: add_args_def take_append)

lemma array_render:
  assumes "\<forall>s \<in> set l. \<forall>c \<in> set s. json_clean c" "length av \<le> 64"
  shows "json_array f av (commas (map quoted l) @ CHR '']'' # r) = (add_args f av l, Some r)"
  using assms
proof (induction "map quoted l" arbitrary: l av rule: commas.induct)
  case 1
  then show ?case by (subst json_array.simps) (simp add: add_args_def)
next
  case (2 x)
  then obtain s where l: "l = [s]" by auto
  have "json_array f (add_args f av [s]) (CHR '']'' # r) = (add_args f av [s], Some r)"
    by (subst json_array.simps) simp
  then show ?case using 2 l by (simp add: quoted_def array_step)
next
  case (3 x y xs)
  then obtain s l' where l: "l = s # l'" "map quoted l' = y # xs" by auto
  have le: "length (add_args f av [s]) \<le> 64" using 3 by (auto simp: add_args_def min_def)
  have sep: "json_array f (add_args f av [s]) (CHR '','' # p) = json_array f (add_args f av [s]) p" for p
    by (subst json_array.simps) simp
  have "json_array f av (commas (map quoted l) @ CHR '']'' # r) =
      json_array f (add_args f av [s]) (commas (map quoted l') @ CHR '']'' # r)"
    using 3 l array_step [of s av f] by (simp add: quoted_def sep)
  also have "\<dots> = (add_args f (add_args f av [s]) l', Some r)"
    using 3(1) [OF l(2) [symmetric]] 3(3) l(1) le by simp
  finally show ?case using 3 l by (simp add: add_args_Cons)
qed

lemma value_render:
  assumes "clean_value v" "value_end r" "length (argv out) \<le> 64"
  shows "json_value out k (render_value v @ r) = (set_member out (k, v), Some r)"
proof (cases v)
  case (JStr s)
  then show ?thesis using assms by (simp add: json_value_def quoted_def scan_esc assign_field_esc)
next
  case (JInt i)
  obtain c p where c: "dec (nat i) = c # p" "is_digit c" using dec_head by blast
  have "render_int i @ r \<noteq> []" "hd (render_int i @ r) = CHR ''-'' \<or> is_digit (hd (render_int i @ r))"
    using c by (auto simp: render_int_def)
  moreover from this have "hd (render_int i @ r) \<noteq> dq \<and> hd (render_int i @ r) \<noteq> CHR ''[''"
    using digit_not by auto
  ultimately show ?thesis unfolding JInt assign_scalars(1) [symmetric] using JInt assms json_int_render by (auto simp: json_value_def)
next
  case (JBool b)
  then show ?thesis unfolding JBool assign_scalars(2) [symmetric]
    by (simp add: json_value_def is_digit_def less_eq_char_def starts_def)
next
  case JNull
  then show ?thesis by (simp add: json_value_def is_digit_def less_eq_char_def starts_def)
next
  case (JStrs l)
  then show ?thesis using assms
    by (simp add: json_value_def array_render add_args_def)
qed

subsection \<open>Members and objects\<close>

lemma render_value_head: "\<exists>c p. render_value v = c # p \<and> \<not> blank c"
proof (cases v)
  case (JInt i)
  obtain c p where "dec (nat i) = c # p" "is_digit c" using dec_head by blast
  then show ?thesis using JInt digit_not by (auto simp: render_int_def blank_def)
qed (auto simp: quoted_def blank_def)

lemma member_render:
  assumes "clean_member m" "value_end r" "length (argv out) \<le> 64"
  shows "json_member out (fst m @ dq # CHR '':'' # render_value (snd m) @ r) = (set_member out m, Some r)"
proof -
  have "\<And>c. c \<in> set (fst m) \<Longrightarrow> c \<noteq> dq" using assms(1) by (auto simp: clean_member_def)
  then have key: "takeWhile (\<lambda>c. c \<noteq> dq) (fst m @ dq # p) = fst m"
    "dropWhile (\<lambda>c. c \<noteq> dq) (fst m @ dq # p) = dq # p" for p
    by (simp_all add: takeWhile_append2 dropWhile_append2)
  obtain c p where "render_value (snd m) = c # p" "\<not> blank c" using render_value_head by blast
  then show ?thesis using key value_render [of "snd m" r out "fst m"] assms
    by (simp add: json_member_def clean_member_def)
qed

lemma set_member_argv: "length (argv c) \<le> 64 \<Longrightarrow> length (argv (set_member c m)) \<le> 64"
  by (cases "(c, m)" rule: set_member.cases)
     (auto simp: set_string_def assign_int_field_def assign_bool_field_def Let_def min_def)

lemma object_render:
  assumes "\<forall>m \<in> set ms. clean_member m" "length (argv out) \<le> 64"
  shows "json_object out (commas (map render_member ms) @ CHR ''}'' # r) = (fold (\<lambda>m c. set_member c m) ms out, True)"
  using assms
proof (induction "map render_member ms" arbitrary: ms out rule: commas.induct)
  case 1
  then show ?case by (subst json_object.simps) simp
next
  case (2 x)
  then obtain m where m: "ms = [m]" by auto
  have "json_object (set_member out m) (CHR ''}'' # r) = (set_member out m, True)"
    by (subst json_object.simps) simp
  moreover have "value_end (CHR ''}'' # r)" by (simp add: value_end_def is_digit_def less_eq_char_def)
  ultimately show ?case using 2 m member_render [of m "CHR ''}'' # r" out]
    by (subst json_object.simps) (simp add: render_member_def)
next
  case (3 x y xs)
  then obtain m ms' where m: "ms = m # ms'" "map render_member ms' = y # xs" by auto
  have sep: "json_object c (CHR '','' # p) = json_object c p" for c p
    by (subst json_object.simps) simp
  have "value_end (CHR '','' # p)" for p by (simp add: value_end_def is_digit_def less_eq_char_def)
  then have "json_object out (commas (map render_member ms) @ CHR ''}'' # r) =
      json_object (set_member out m) (commas (map render_member ms') @ CHR ''}'' # r)"
    using 3 m member_render [of m _ out]
    by (subst json_object.simps) (simp add: render_member_def sep)
  then show ?case using 3(1) [OF m(2) [symmetric]] 3(3,4) m(1) set_member_argv [of out m] by simp
qed

text \<open>
  C4: a request in canonical notation, with any members, strings with every escape the
  wire has, integers up to the ten digits the accumulator keeps, booleans, nulls and
  string arrays, is accepted, and the parsed record is the one its members set in order,
  each value unescaped and cut at the size of its field.
\<close>

theorem ParseJsonCommand_render:
  assumes "\<forall>m \<in> set ms. clean_member m"
  shows "ParseJsonCommand (render ms @ rest) = (fold (\<lambda>m c. set_member c m) ms empty_command, True)"
  using object_render [OF assms, of empty_command rest]
  by (simp add: ParseJsonCommand_def render_def) (simp add: empty_command_def)

lemma ParseJsonCommand_render_witness:
  "ParseJsonCommand (render [(''cmd'', JStr ''exec''), (''argv'', JStrs [''cl'', ''a b'']), (''timeout_ms'', JInt (- 30)),
       (''shell'', JBool True), (''x'', JNull)] @ []) =
     (fold (\<lambda>m c. set_member c m) [(''cmd'', JStr ''exec''), (''argv'', JStrs [''cl'', ''a b'']), (''timeout_ms'', JInt (- 30)),
       (''shell'', JBool True), (''x'', JNull)] empty_command, True)"
  by (rule ParseJsonCommand_render) (simp add: clean_member_def json_clean_def byte_of_def)

section \<open>Responses\<close>

text \<open>The value of a response as sent: escaped, and dropped when the escaped text is too long.\<close>

definition sent_value :: "string \<Rightarrow> string" where
  "sent_value v = (if length (esc v) < MCP_MAX_RESPONSE then v else [])"

definition plain :: "string \<Rightarrow> bool" where
  "plain s \<longleftrightarrow> esc s = s"

lemma escaped_value:
  "(case JsonEscape v (int MCP_MAX_RESPONSE) of None \<Rightarrow> [] | Some e \<Rightarrow> e) = esc (sent_value v)"
  by (simp add: escape_writes writes_def sent_value_def MCP_MAX_RESPONSE_def)

lemma response_text:
  "BuildJsonResponse rid status key value n =
     (if n < 1 then None
      else writes n [] (CHR ''{'' # dq # ''id'' @ dq # CHR '':'' # dq # rid @
        dq # CHR '','' # dq # ''status'' @ dq # CHR '':'' # dq # status @
        dq # CHR '','' # dq # key @ dq # CHR '':'' # dq # esc (sent_value value) @ dq # CHR ''}'' # [CHR 0x0A]))"
proof (cases "n < 1")
  case False
  then have "int (length ([] :: string)) < n" by simp
  from json_out.pieces_fit [OF this] show ?thesis
    using False by (simp add: BuildJsonResponse_def escaped_value del: append_pieces.simps)
qed (simp add: BuildJsonResponse_def)

text \<open>
  C8: a response is built whole or not at all: with a correlation id and a status that
  need no escaping and a key without a quote, it fits its buffer, ends the line, and
  the text before the line end is a JSON object that the parser takes back with the id,
  the status and the value as sent; it is refused exactly when text and NUL do not fit.
\<close>

theorem BuildJsonResponse_parses:
  assumes "plain rid" "plain status" "\<forall>c \<in> set rid \<union> set status \<union> set value. json_clean c" "dq \<notin> set key"
  shows "(case BuildJsonResponse rid status key value n of
     Some json \<Rightarrow> int (length json) < n \<and>
       json = render [(''id'', JStr rid), (''status'', JStr status), (key, JStr (sent_value value))] @ [CHR 0x0A] \<and>
       ParseJsonCommand json =
         (fold (\<lambda>m c. set_member c m) [(''id'', JStr rid), (''status'', JStr status), (key, JStr (sent_value value))]
            empty_command, True)
   | None \<Rightarrow> n \<le> int (length (render [(''id'', JStr rid), (''status'', JStr status), (key, JStr (sent_value value))] @ [CHR 0x0A])))"
proof -
  let ?ms = "[(''id'', JStr rid), (''status'', JStr status), (key, JStr (sent_value value))]"
  have "\<forall>m \<in> set ?ms. clean_member m"
    using assms by (auto simp: clean_member_def sent_value_def)
  then have "\<And>rest. ParseJsonCommand (render ?ms @ rest) = (fold (\<lambda>m c. set_member c m) ?ms empty_command, True)"
    using object_render [of ?ms empty_command]
    by (simp add: ParseJsonCommand_def render_def) (simp add: empty_command_def)
  moreover have "BuildJsonResponse rid status key value n =
      (if n < 1 then None else writes n [] (render ?ms @ [CHR 0x0A]))"
    using assms(1,2) by (simp add: response_text render_def render_member_def quoted_def plain_def)
  ultimately show ?thesis by (simp add: writes_def)
qed

lemma BuildJsonResponse_parses_witness:
  "(case BuildJsonResponse ''7'' ''ok'' ''data'' ''a'' 64 of
     Some json \<Rightarrow> int (length json) < 64 \<and>
       json = render [(''id'', JStr ''7''), (''status'', JStr ''ok''), (''data'', JStr (sent_value ''a''))] @ [CHR 0x0A] \<and>
       ParseJsonCommand json =
         (fold (\<lambda>m c. set_member c m) [(''id'', JStr ''7''), (''status'', JStr ''ok''), (''data'', JStr (sent_value ''a''))]
            empty_command, True)
   | None \<Rightarrow> 64 \<le> int (length (render [(''id'', JStr ''7''), (''status'', JStr ''ok''), (''data'', JStr (sent_value ''a''))] @ [CHR 0x0A])))"
  by (rule BuildJsonResponse_parses) (simp_all add: plain_def esc_piece_def byte_of_def json_clean_def)

section \<open>Where the wire falls short\<close>

text \<open>
  The largest 32-bit integer loses its last digit; a control byte without a short
  escape does not come back; and a correlation id with an escaped quote is echoed
  unescaped, so that the response is not an object of the wire.
\<close>

lemma json_int_drops_digit: "json_int ''2147483647}'' = Some (214748364, ''}'')"
  by (simp add: json_int_def is_digit_def less_eq_char_def digit_val_def)

lemma escape_control_not_inverse: "json_unescape (esc [CHR 0x01]) 64 = bsl # ''u0001''"
  by (simp add: json_unescape_def esc_piece_def byte_of_def unesc_char_def hexd_def Let_def)

lemma id_echo_breaks_response:
  "req_id (fst (ParseJsonCommand (render [(''id'', JStr [CHR ''x'', dq, CHR ''y''])]))) = [CHR ''x'', dq, CHR ''y'']"
  "\<exists>json. BuildJsonResponse [CHR ''x'', dq, CHR ''y''] ''ok'' ''data'' [] 64 = Some json \<and>
     \<not> snd (ParseJsonCommand json)"
proof -
  have "\<forall>m \<in> set [(''id'', JStr [CHR ''x'', dq, CHR ''y''])]. clean_member m"
    by (simp add: clean_member_def json_clean_def byte_of_def)
  from object_render [OF this, of empty_command "[]"]
  show "req_id (fst (ParseJsonCommand (render [(''id'', JStr [CHR ''x'', dq, CHR ''y''])]))) = [CHR ''x'', dq, CHR ''y'']"
    by (simp add: ParseJsonCommand_def render_def) (simp add: empty_command_def set_string_def)
  show "\<exists>json. BuildJsonResponse [CHR ''x'', dq, CHR ''y''] ''ok'' ''data'' [] 64 = Some json \<and>
     \<not> snd (ParseJsonCommand json)"
    by (simp add: response_text writes_def sent_value_def MCP_MAX_RESPONSE_def ParseJsonCommand_def)
       (simp add: json_object.simps json_member_def json_value_def json_ws_def blank_def is_digit_def
         less_eq_char_def starts_def)
qed

end
