(* ===== verification/Utf8.thy ===== *)
theory Utf8
  imports Prelude
begin

text \<open>
  The pure UTF-8 and UTF-16 codec of \<^verbatim>\<open>src/src/encoding.c\<close> and its scan for path
  separators.  Code units and bytes are words; a code point, an \<^verbatim>\<open>unsigned long\<close>
  below 2 to the 21 in every branch, is a natural number with the bit operations of
  the source.  A result is the sequence written and the status.
\<close>

datatype EncStatus = ENC_OK | ENC_LOSSY | ENC_REJECTED | ENC_TRUNCATED

definition CP_REPLACEMENT :: nat where "CP_REPLACEMENT = 0xFFFD"

section \<open>Encoder\<close>

text \<open>The code point at the head of the units, whether it was substituted, and the units it takes.\<close>

definition utf16_next :: "u16 \<Rightarrow> u16 list \<Rightarrow> nat \<times> bool \<times> nat" where
  "utf16_next u rest =
     (if 0xD800 \<le> u \<and> u \<le> 0xDBFF then
        (case rest of
           lo # _ \<Rightarrow>
             if 0xDC00 \<le> lo \<and> lo \<le> 0xDFFF
             then (0x10000 + push_bit 10 (unat (u - 0xD800)) + unat (lo - 0xDC00), False, 2)
             else (CP_REPLACEMENT, True, 1)
         | [] \<Rightarrow> (CP_REPLACEMENT, True, 1))
      else if 0xDC00 \<le> u \<and> u \<le> 0xDFFF then (CP_REPLACEMENT, True, 1)
      else (unat u, False, 1))"

definition utf8_len :: "nat \<Rightarrow> nat" where
  "utf8_len cp = (if cp \<le> 0x7F then 1 else if cp \<le> 0x7FF then 2 else if cp \<le> 0xFFFF then 3 else 4)"

definition utf8_bytes :: "nat \<Rightarrow> u8 list" where
  "utf8_bytes cp =
     (if utf8_len cp = 1 then [word_of_nat cp]
      else if utf8_len cp = 2 then
        [word_of_nat (0xC0 OR drop_bit 6 cp), word_of_nat (0x80 OR (cp AND 0x3F))]
      else if utf8_len cp = 3 then
        [word_of_nat (0xE0 OR drop_bit 12 cp), word_of_nat (0x80 OR (drop_bit 6 cp AND 0x3F)),
         word_of_nat (0x80 OR (cp AND 0x3F))]
      else
        [word_of_nat (0xF0 OR drop_bit 18 cp), word_of_nat (0x80 OR (drop_bit 12 cp AND 0x3F)),
         word_of_nat (0x80 OR (drop_bit 6 cp AND 0x3F)), word_of_nat (0x80 OR (cp AND 0x3F))])"

function utf16_loop :: "nat \<Rightarrow> u16 list \<Rightarrow> u8 list \<Rightarrow> EncStatus \<Rightarrow> u8 list \<times> EncStatus" where
  "utf16_loop outCap [] out st = (out, st)"
| "utf16_loop outCap (u # rest) out st =
     (let (cp, lossy, used) = utf16_next u rest;
          st' = (if lossy then ENC_LOSSY else st)
      in if length out + utf8_len cp > outCap then (out, ENC_TRUNCATED)
         else utf16_loop outCap (drop used (u # rest)) (out @ utf8_bytes cp) st')"
  by pat_completeness auto
termination
  by (relation "measure (\<lambda>(_, us, _, _). length us)")
     (auto simp: utf16_next_def split: if_splits list.splits)

declare utf16_loop.simps(2) [simp del]

definition Utf16ToUtf8 :: "u16 list \<Rightarrow> nat \<Rightarrow> u8 list \<times> EncStatus" where
  "Utf16ToUtf8 units outCap = utf16_loop outCap units [] ENC_OK"

section \<open>Decoder\<close>

text \<open>
  The lead byte: the length of its sequence (0 for an illegal lead), the range of the
  second byte, and the bits it carries.
\<close>

definition utf8_lead :: "nat \<Rightarrow> nat \<times> nat \<times> nat \<times> nat" where
  "utf8_lead b0 =
     (if 0xC2 \<le> b0 \<and> b0 \<le> 0xDF then (2, 0x80, 0xBF, b0 AND 0x1F)
      else if b0 = 0xE0 then (3, 0xA0, 0xBF, b0 AND 0x0F)
      else if 0xE1 \<le> b0 \<and> b0 \<le> 0xEC then (3, 0x80, 0xBF, b0 AND 0x0F)
      else if b0 = 0xED then (3, 0x80, 0x9F, b0 AND 0x0F)
      else if 0xEE \<le> b0 \<and> b0 \<le> 0xEF then (3, 0x80, 0xBF, b0 AND 0x0F)
      else if b0 = 0xF0 then (4, 0x90, 0xBF, b0 AND 0x07)
      else if 0xF1 \<le> b0 \<and> b0 \<le> 0xF3 then (4, 0x80, 0xBF, b0 AND 0x07)
      else if b0 = 0xF4 then (4, 0x80, 0x8F, b0 AND 0x07)
      else (0, 0x80, 0xBF, 0))"

text \<open>The continuation loop: whether it met a byte that does not belong, how far it came, the code point.\<close>

fun utf8_cont :: "nat \<Rightarrow> nat \<Rightarrow> nat \<Rightarrow> nat \<Rightarrow> nat \<Rightarrow> u8 list \<Rightarrow> bool \<times> nat \<times> nat" where
  "utf8_cont lo hi 0 k cp bs = (False, k, cp)"
| "utf8_cont lo hi (Suc m) k cp [] = (True, k, cp)"
| "utf8_cont lo hi (Suc m) k cp (b # bs) =
     (if unat b < lo \<or> unat b > hi then (True, k, cp)
      else utf8_cont 0x80 0xBF m (Suc k) (push_bit 6 cp OR (unat b AND 0x3F)) bs)"

definition utf16_units :: "nat \<Rightarrow> u16 list" where
  "utf16_units cp =
     (if cp \<le> 0xFFFF then [word_of_nat cp]
      else let v = cp - 0x10000 in
        [word_of_nat (0xD800 + drop_bit 10 v), word_of_nat (0xDC00 + (v AND 0x3FF))])"

lemma utf8_cont_ge: "utf8_cont lo hi m k cp bs = (bad, k', cp') \<Longrightarrow> k \<le> k'"
proof (induction lo hi m k cp bs rule: utf8_cont.induct)
  case (3 lo hi m k cp b bs)
  then show ?case by (cases "unat b < lo \<or> unat b > hi") auto
qed auto

function utf8_loop :: "nat \<Rightarrow> u8 list \<Rightarrow> u16 list \<Rightarrow> EncStatus \<Rightarrow> u16 list \<times> EncStatus" where
  "utf8_loop outCap [] out st = (out, st)"
| "utf8_loop outCap (b # rest) out st =
     (let b0 = unat b in
      if b0 \<le> 0x7F then
        (if length out + 1 > outCap then (out, ENC_TRUNCATED)
         else utf8_loop outCap rest (out @ [word_of_nat b0]) st)
      else case utf8_lead b0 of (seqLen, lo2, hi2, cp0) \<Rightarrow>
        if seqLen = 0 then
          (if length out + 1 > outCap then (out, ENC_TRUNCATED)
           else utf8_loop outCap rest (out @ [word_of_nat CP_REPLACEMENT]) ENC_LOSSY)
        else case utf8_cont lo2 hi2 (seqLen - 1) 1 cp0 rest of (bad, k, cp) \<Rightarrow>
          if bad then
            (if length out + 1 > outCap then (out, ENC_TRUNCATED)
             else utf8_loop outCap (drop (k - 1) rest) (out @ [word_of_nat CP_REPLACEMENT]) ENC_LOSSY)
          else if length out + length (utf16_units cp) > outCap then (out, ENC_TRUNCATED)
          else utf8_loop outCap (drop (seqLen - 1) rest) (out @ utf16_units cp) st)"
  by pat_completeness auto
termination
  by (relation "measure (\<lambda>(_, bs, _, _). length bs)") auto

declare utf8_loop.simps(2) [simp del]

definition Utf8ToUtf16 :: "u8 list \<Rightarrow> nat \<Rightarrow> u16 list \<times> EncStatus" where
  "Utf8ToUtf16 bytes outCap = utf8_loop outCap bytes [] ENC_OK"

section \<open>Path separators\<close>

text \<open>The offsets of separators from \<open>i\<close> on; the caller's array takes the first \<open>outCap\<close> of them.\<close>

fun enc_separators :: "nat \<Rightarrow> u8 list \<Rightarrow> nat list" where
  "enc_separators i [] = []"
| "enc_separators i (b # bs) =
     (if b = 0x5C \<or> b = 0x2F then i # enc_separators (Suc i) bs else enc_separators (Suc i) bs)"

definition EncFindSeparators :: "u8 list \<Rightarrow> nat \<Rightarrow> nat \<times> nat list" where
  "EncFindSeparators utf8Path outCap =
     (let seps = enc_separators 0 utf8Path in (length seps, take outCap seps))"

section \<open>Bit operations as arithmetic\<close>

lemma or_low:
  assumes "x < 2 ^ n" shows "(push_bit n a :: nat) OR x = push_bit n a + x"
proof -
  have "take_bit n x = x" using assms by (simp add: take_bit_nat_eq_self)
  then have "\<not> bit x m \<or> m < n" for m by (metis bit_take_bit_iff)
  then have "push_bit n a AND x = 0" by (auto simp: bit_eq_iff bit_simps) (meson not_le)
  then show ?thesis by (rule disjunctive_add_eq_or [symmetric])
qed

lemma and_mask: "(x :: nat) AND 0x3F = x mod 64" "x AND 0x1F = x mod 32" "x AND 0x0F = x mod 16"
  "x AND 0x07 = x mod 8" "x AND 0x3FF = x mod 1024"
  using take_bit_eq_mask [of 6 x] take_bit_eq_mask [of 5 x] take_bit_eq_mask [of 4 x]
    take_bit_eq_mask [of 3 x] take_bit_eq_mask [of 10 x]
  by (simp_all add: take_bit_eq_mod mask_eq_exp_minus_1)

lemma lead_or:
  "x < 64 \<Longrightarrow> (0x80 :: nat) OR x = 0x80 + x" "x < 64 \<Longrightarrow> (0xC0 :: nat) OR x = 0xC0 + x"
  "x < 32 \<Longrightarrow> (0xE0 :: nat) OR x = 0xE0 + x" "x < 16 \<Longrightarrow> (0xF0 :: nat) OR x = 0xF0 + x"
  using or_low [of x 6 2] or_low [of x 6 3] or_low [of x 5 7] or_low [of x 4 15]
  by (simp_all add: push_bit_eq_mult)

lemma cont_or: "(push_bit 6 cp :: nat) OR (b AND 0x3F) = cp * 64 + b mod 64"
  using or_low [of "b mod 64" 6 cp] by (simp add: and_mask push_bit_eq_mult)

text \<open>The bytes of a code point, as numbers.\<close>

definition utf8_nats :: "nat \<Rightarrow> nat list" where
  "utf8_nats cp =
     (if cp \<le> 0x7F then [cp]
      else if cp \<le> 0x7FF then [0xC0 + cp div 64, 0x80 + cp mod 64]
      else if cp \<le> 0xFFFF then [0xE0 + cp div 4096, 0x80 + cp div 64 mod 64, 0x80 + cp mod 64]
      else [0xF0 + cp div 262144, 0x80 + cp div 4096 mod 64, 0x80 + cp div 64 mod 64, 0x80 + cp mod 64])"

lemma utf8_bytes_nats:
  assumes "cp < 0x110000"
  shows "utf8_bytes cp = map word_of_nat (utf8_nats cp)" "\<forall>b \<in> set (utf8_nats cp). b < 256"
proof -
  have "cp \<le> 0x7FF \<Longrightarrow> cp div 64 < 32" "cp \<le> 0xFFFF \<Longrightarrow> cp div 4096 < 16" "cp div 262144 < 5"
    using assms by linarith+
  then show "utf8_bytes cp = map word_of_nat (utf8_nats cp)" "\<forall>b \<in> set (utf8_nats cp). b < 256"
    by (auto simp: utf8_bytes_def utf8_nats_def utf8_len_def and_mask lead_or drop_bit_eq_div)
qed

lemma length_utf8_bytes: "length (utf8_bytes cp) = utf8_len cp"
  by (simp add: utf8_bytes_def utf8_len_def)

lemma unat_byte: "n < 256 \<Longrightarrow> unat (word_of_nat n :: u8) = n"
  by (simp add: unsigned_of_nat take_bit_nat_eq_self)

lemma unat_unit: "n < 65536 \<Longrightarrow> unat (word_of_nat n :: u16) = n"
  by (simp add: unsigned_of_nat take_bit_nat_eq_self)

definition scalar :: "nat \<Rightarrow> bool" where
  "scalar cp \<longleftrightarrow> cp < 0xD800 \<or> (0xE000 \<le> cp \<and> cp < 0x110000)"

lemma scalar_lt: "scalar cp \<Longrightarrow> cp < 0x110000"
  by (auto simp: scalar_def)

section \<open>One code point through the decoder\<close>

lemma lead_mod: "(192 + q) mod 32 = q mod (32 :: nat)" "(224 + q) mod 16 = q mod (16 :: nat)"
  "(240 + q) mod 8 = q mod (8 :: nat)" "(128 + q) mod 64 = q mod (64 :: nat)"
  using mod_mult_self3 [of 6 32 q] mod_mult_self3 [of 14 16 q] mod_mult_self3 [of 30 8 q] mod_mult_self3 [of 2 64 q]
  by simp_all

lemma lead2: "2 \<le> q \<Longrightarrow> q < 32 \<Longrightarrow> utf8_lead (0xC0 + q) = (2, 0x80, 0xBF, q)"
  by (simp add: utf8_lead_def and_mask lead_mod)

lemma lead3: "q < 16 \<Longrightarrow> utf8_lead (0xE0 + q) = (3, if q = 0 then 0xA0 else 0x80, if q = 13 then 0x9F else 0xBF, q)"
  by (auto simp: utf8_lead_def and_mask lead_mod)

lemma lead4: "q < 5 \<Longrightarrow> utf8_lead (0xF0 + q) = (4, if q = 0 then 0x90 else 0x80, if q = 4 then 0x8F else 0xBF, q)"
  by (auto simp: utf8_lead_def and_mask lead_mod)

lemma cont_step:
  "x < 64 \<Longrightarrow> utf8_cont lo hi (Suc m) k cp (word_of_nat (0x80 + x) # bs) =
     (if 0x80 + x < lo \<or> 0x80 + x > hi then (True, k, cp) else utf8_cont 0x80 0xBF m (Suc k) (cp * 64 + x) bs)"
  by (simp add: unat_byte cont_or lead_mod del: of_nat_add)

lemma cont2:
  "s < 64 \<Longrightarrow> utf8_cont 0x80 0xBF (2 - 1) 1 q (word_of_nat (0x80 + s) # rest) = (False, 2, q * 64 + s)"
  by (simp add: cont_step numeral_2_eq_2 del: utf8_cont.simps(3) of_nat_add)

lemma cont3:
  "r < 64 \<Longrightarrow> s < 64 \<Longrightarrow> (q = 0 \<Longrightarrow> 32 \<le> r) \<Longrightarrow> (q = 13 \<Longrightarrow> r < 32) \<Longrightarrow>
    utf8_cont (if q = 0 then 0xA0 else 0x80) (if q = 13 then 0x9F else 0xBF) (3 - 1) 1 q
      (word_of_nat (0x80 + r) # word_of_nat (0x80 + s) # rest) = (False, 3, (q * 64 + r) * 64 + s)"
  by (auto simp add: cont_step numeral_2_eq_2 simp del: utf8_cont.simps(3) of_nat_add)

lemma cont4:
  "r < 64 \<Longrightarrow> s < 64 \<Longrightarrow> t < 64 \<Longrightarrow> (q = 0 \<Longrightarrow> 16 \<le> r) \<Longrightarrow> (q = 4 \<Longrightarrow> r < 16) \<Longrightarrow>
    utf8_cont (if q = 0 then 0x90 else 0x80) (if q = 4 then 0x8F else 0xBF) (4 - 1) 1 q
      (word_of_nat (0x80 + r) # word_of_nat (0x80 + s) # word_of_nat (0x80 + t) # rest) =
      (False, 4, ((q * 64 + r) * 64 + s) * 64 + t)"
  by (auto simp add: cont_step numeral_3_eq_3 simp del: utf8_cont.simps(3) of_nat_add)

lemma loop_multi:
  assumes "b < 256" "b > 0x7F" "utf8_lead b = (n, lo, hi, c)" "n \<noteq> 0"
    "utf8_cont lo hi (n - 1) 1 c rest = (False, k, cp)"
  shows "utf8_loop cap (word_of_nat b # rest) out st =
    (if length out + length (utf16_units cp) > cap then (out, ENC_TRUNCATED)
     else utf8_loop cap (drop (n - 1) rest) (out @ utf16_units cp) st)"
  using assms by (simp add: utf8_loop.simps(2) unat_byte)

lemma sextets:
  fixes cp :: nat
  shows "cp = cp div 4096 * 4096 + cp div 64 mod 64 * 64 + cp mod 64"
    "cp = cp div 262144 * 262144 + cp div 4096 mod 64 * 4096 + cp div 64 mod 64 * 64 + cp mod 64"
proof -
  have d: "cp div 64 div 64 = cp div 4096" "cp div 4096 div 64 = cp div 262144"
    by (simp_all flip: div_mult2_eq)
  show "cp = cp div 4096 * 4096 + cp div 64 mod 64 * 64 + cp mod 64"
    using div_mult_mod_eq [of cp 64] div_mult_mod_eq [of "cp div 64" 64] unfolding d by linarith
  then show "cp = cp div 262144 * 262144 + cp div 4096 mod 64 * 4096 + cp div 64 mod 64 * 64 + cp mod 64"
    using div_mult_mod_eq [of "cp div 4096" 64] unfolding d by linarith
qed

lemma decode_scalar:
  assumes "scalar cp"
  shows "utf8_loop cap (utf8_bytes cp @ rest) out st =
    (if length out + length (utf16_units cp) > cap then (out, ENC_TRUNCATED)
     else utf8_loop cap rest (out @ utf16_units cp) st)"
proof -
  consider "cp \<le> 0x7F" | "0x7F < cp" "cp \<le> 0x7FF" | "0x7FF < cp" "cp \<le> 0xFFFF" | "0xFFFF < cp" by linarith
  then show ?thesis
  proof cases
    case 1
    then show ?thesis
      by (simp add: utf8_bytes_def utf8_len_def utf8_loop.simps(2) unat_byte utf16_units_def)
  next
    case 2
    let ?q = "cp div 64"
    have q: "2 \<le> ?q" "?q < 32" using 2 by linarith+
    have "?q * 64 + cp mod 64 = cp" by simp
    then have "utf8_cont 0x80 0xBF (2 - 1) 1 ?q (word_of_nat (0x80 + cp mod 64) # rest) = (False, 2, cp)"
      using cont2 [of "cp mod 64" ?q rest] by simp
    from loop_multi [OF _ _ lead2 [OF q] _ this] show ?thesis
      using 2 q by (simp add: utf8_bytes_nats utf8_nats_def)
  next
    case 3
    let ?q = "cp div 4096" and ?r = "cp div 64 mod 64"
    have s: "cp mod 64 < 64" "?r < 64" by simp_all
    note e = sextets(1) [of cp]
    have q: "?q < 16" using 3 by linarith
    have lo: "32 \<le> ?r" if "?q = 0" using e s 3 that by linarith
    have hi: "?r < 32" if "?q = 13" using e s 3 that assms unfolding scalar_def by linarith
    have "(?q * 64 + ?r) * 64 + cp mod 64 = cp" using e [symmetric] by (simp add: algebra_simps)
    with cont3 [of ?r "cp mod 64" ?q rest, OF s(2,1) lo hi]
    have "utf8_cont (if ?q = 0 then 0xA0 else 0x80) (if ?q = 13 then 0x9F else 0xBF) (3 - 1) 1 ?q
        (word_of_nat (0x80 + ?r) # word_of_nat (0x80 + cp mod 64) # rest) = (False, 3, cp)" by metis
    from loop_multi [OF _ _ lead3 [OF q] _ this] show ?thesis
      using 3 q by (simp add: utf8_bytes_nats utf8_nats_def)
  next
    case 4
    let ?q = "cp div 262144" and ?r = "cp div 4096 mod 64" and ?s = "cp div 64 mod 64"
    have s: "cp mod 64 < 64" "?s < 64" "?r < 64" by simp_all
    note e = sextets(2) [of cp]
    have q: "?q < 5" using scalar_lt [OF assms] by linarith
    have lo: "16 \<le> ?r" if "?q = 0" using e s 4 that by linarith
    have hi: "?r < 16" if "?q = 4" using e s that scalar_lt [OF assms] by linarith
    have "((?q * 64 + ?r) * 64 + ?s) * 64 + cp mod 64 = cp" using e [symmetric] by (simp add: algebra_simps)
    with cont4 [of ?r ?s "cp mod 64" ?q rest, OF s(3,2,1) lo hi]
    have "utf8_cont (if ?q = 0 then 0x90 else 0x80) (if ?q = 4 then 0x8F else 0xBF) (4 - 1) 1 ?q
        (word_of_nat (0x80 + ?r) # word_of_nat (0x80 + ?s) # word_of_nat (0x80 + cp mod 64) # rest) = (False, 4, cp)"
      by metis
    from loop_multi [OF _ _ lead4 [OF q] _ this] show ?thesis
      using 4 q scalar_lt [OF assms] by (simp add: utf8_bytes_nats utf8_nats_def)
  qed
qed

section \<open>One code point through the encoder\<close>

lemma unat_surrogate:
  "n < 1024 \<Longrightarrow> unat (word_of_nat (0xD800 + n) :: u16) = 0xD800 + n"
  "n < 1024 \<Longrightarrow> unat (word_of_nat (0xDC00 + n) :: u16) = 0xDC00 + n"
  by (rule unat_unit; simp)+

lemma unat_sub_hi: "0xD800 \<le> u \<Longrightarrow> unat (u - 0xD800 :: u16) = unat u - 0xD800"
  "0xDC00 \<le> u \<Longrightarrow> unat (u - 0xDC00 :: u16) = unat u - 0xDC00"
  by (simp_all add: unat_sub)

lemma next_astral:
  assumes "h < 1024" "l < 1024"
  shows "utf16_next (word_of_nat (0xD800 + h)) (word_of_nat (0xDC00 + l) # rest) = (0x10000 + h * 1024 + l, False, 2)"
  using assms unat_sub_hi [of "word_of_nat (0xD800 + h)"] unat_sub_hi [of "word_of_nat (0xDC00 + l)"]
  by (simp add: utf16_next_def word_le_nat_alt unat_surrogate push_bit_eq_mult del: of_nat_add)

lemma next_bmp:
  assumes "scalar cp" "cp \<le> 0xFFFF"
  shows "utf16_next (word_of_nat cp) rest = (cp, False, 1)"
  using assms by (auto simp: utf16_next_def word_le_nat_alt unat_unit scalar_def)

lemma units_pair:
  "h < 1024 \<Longrightarrow> l < 1024 \<Longrightarrow>
    utf16_units (0x10000 + h * 1024 + l) = [word_of_nat (0xD800 + h), word_of_nat (0xDC00 + l)]"
  by (simp add: utf16_units_def drop_bit_eq_div and_mask)

lemma units_astral:
  assumes "0xFFFF < cp" "cp < 0x110000"
  obtains h l where "h < 1024" "l < 1024" "cp = 0x10000 + h * 1024 + l"
    "utf16_units cp = [word_of_nat (0xD800 + h), word_of_nat (0xDC00 + l)]"
proof -
  have "cp = 0x10000 + (cp - 0x10000) div 1024 * 1024 + (cp - 0x10000) mod 1024"
    using assms(1) by (simp add: div_mult_mod_eq)
  moreover have "(cp - 0x10000) div 1024 < 1024" using assms(2) by linarith
  ultimately show thesis using assms(1)
    by (intro that [of "(cp - 0x10000) div 1024" "(cp - 0x10000) mod 1024"])
       (simp_all add: utf16_units_def Let_def drop_bit_eq_div and_mask)
qed

lemma encode_scalar:
  assumes "scalar cp"
  shows "utf16_loop cap (utf16_units cp @ rest) out st =
    (if length out + utf8_len cp > cap then (out, ENC_TRUNCATED)
     else utf16_loop cap rest (out @ utf8_bytes cp) st)"
proof (cases "cp \<le> 0xFFFF")
  case True
  then show ?thesis using next_bmp [OF assms True]
    by (simp add: utf16_units_def utf16_loop.simps(2))
next
  case False
  then have "0xFFFF < cp" by simp
  then obtain h l where hl: "h < 1024" "l < 1024" "cp = 0x10000 + h * 1024 + l"
    "utf16_units cp = [word_of_nat (0xD800 + h), word_of_nat (0xDC00 + l)]"
    by (rule units_astral [OF _ scalar_lt [OF assms]])
  show ?thesis unfolding hl(4)
    using next_astral [OF hl(1,2), of rest, folded hl(3)]
    by (simp add: utf16_loop.simps(2) del: of_nat_add)
qed

section \<open>Texts\<close>

text \<open>A Unicode text is a list of scalar values, with its two encoding forms.\<close>

definition utf8_of :: "nat list \<Rightarrow> u8 list" where "utf8_of cps = concat (map utf8_bytes cps)"
definition utf16_of :: "nat list \<Rightarrow> u16 list" where "utf16_of cps = concat (map utf16_units cps)"

definition is_text :: "nat list \<Rightarrow> bool" where "is_text cps \<longleftrightarrow> (\<forall>cp \<in> set cps. scalar cp)"

lemma text_simps [simp]:
  "utf8_of [] = []" "utf8_of (c # cs) = utf8_bytes c @ utf8_of cs" "utf8_of (cs @ ds) = utf8_of cs @ utf8_of ds"
  "utf16_of [] = []" "utf16_of (c # cs) = utf16_units c @ utf16_of cs" "utf16_of (cs @ ds) = utf16_of cs @ utf16_of ds"
  "is_text []" "is_text (c # cs) \<longleftrightarrow> scalar c \<and> is_text cs" "is_text (cs @ ds) \<longleftrightarrow> is_text cs \<and> is_text ds"
  by (auto simp: utf8_of_def utf16_of_def is_text_def)

lemma scalar_replacement [simp]: "scalar CP_REPLACEMENT"
  by (simp add: scalar_def CP_REPLACEMENT_def)

lemma decode_text:
  "is_text cps \<Longrightarrow> length out + length (utf16_of cps) \<le> cap \<Longrightarrow>
    utf8_loop cap (utf8_of cps @ rest) out st = utf8_loop cap rest (out @ utf16_of cps) st"
  by (induction cps arbitrary: out) (simp_all add: decode_scalar)

lemma encode_text:
  "is_text cps \<Longrightarrow> length out + length (utf8_of cps) \<le> cap \<Longrightarrow>
    utf16_loop cap (utf16_of cps @ rest) out st = utf16_loop cap rest (out @ utf8_of cps) st"
  by (induction cps arbitrary: out) (simp_all add: encode_scalar length_utf8_bytes)

section \<open>What each loop does on arbitrary input\<close>

lemma next_sound:
  assumes "utf16_next u rest = (cp, lossy, n)"
  shows "scalar cp" "1 \<le> n" "\<not> lossy \<Longrightarrow> u # rest = utf16_units cp @ drop n (u # rest)"
proof -
  have u: "unat u < 65536" using unsigned_less [of u] by simp
  have "scalar cp \<and> 1 \<le> n \<and> (\<not> lossy \<longrightarrow> u # rest = utf16_units cp @ drop n (u # rest))"
  proof (cases "0xD800 \<le> u \<and> u \<le> 0xDBFF")
    case False
    then show ?thesis using assms u
      by (auto simp: utf16_next_def utf16_units_def scalar_def CP_REPLACEMENT_def word_le_nat_alt split: if_splits)
  next
    case True
    show ?thesis
    proof (cases "rest = [] \<or> \<not> (0xDC00 \<le> hd rest \<and> hd rest \<le> 0xDFFF)")
      case nopair: True
      then have "cp = CP_REPLACEMENT \<and> lossy \<and> n = 1"
        using assms True by (cases rest) (auto simp: utf16_next_def split: if_splits)
      then show ?thesis by simp
    next
      case False
      then obtain lo r where rest: "rest = lo # r" and lo: "0xDC00 \<le> lo" "lo \<le> 0xDFFF"
        by (cases rest) auto
      have "0xD800 \<le> unat u" "unat u \<le> 0xDBFF" "0xDC00 \<le> unat lo" "unat lo \<le> 0xDFFF"
        using True lo by (simp_all add: word_le_nat_alt)
      then obtain h l where hl: "unat u = 0xD800 + h" "unat lo = 0xDC00 + l" "h < 1024" "l < 1024"
        by (intro that [of "unat u - 0xD800" "unat lo - 0xDC00"]) simp_all
      have "u = word_of_nat (0xD800 + h)" "lo = word_of_nat (0xDC00 + l)"
        unfolding hl(1,2) [symmetric] by simp_all
      then have "cp = 0x10000 + h * 1024 + l" "\<not> lossy" "n = 2"
        "utf16_units (0x10000 + h * 1024 + l) = [u, lo]"
        using assms next_astral [OF hl(3,4), of r] rest units_pair [OF hl(3,4)]
        by (simp_all del: of_nat_add)
      then show ?thesis using rest hl(3,4) by (simp add: scalar_def)
    qed
  qed
  then show "scalar cp" "1 \<le> n" "\<not> lossy \<Longrightarrow> u # rest = utf16_units cp @ drop n (u # rest)" by auto
qed

lemma encode_sound:
  "utf16_loop cap us out st = (out', st') \<Longrightarrow>
    \<exists>cps. is_text cps \<and> out' = out @ utf8_of cps \<and> length (utf8_of cps) \<le> cap - length out \<and>
      (st' = ENC_OK \<longrightarrow> st = ENC_OK \<and> us = utf16_of cps)"
proof (induction cap us out st rule: utf16_loop.induct)
  case (1 cap out st)
  then show ?case by (intro exI [of _ "[]"]) simp
next
  case (2 cap u rest out st)
  obtain cp lossy n where nx: "utf16_next u rest = (cp, lossy, n)" by (cases "utf16_next u rest")
  note sound = next_sound [OF nx]
  show ?case
  proof (cases "length out + utf8_len cp > cap")
    case True
    then show ?thesis using 2(2) nx by (intro exI [of _ "[]"]) (auto simp: utf16_loop.simps(2))
  next
    case False
    let ?st = "if lossy then ENC_LOSSY else st"
    have "utf16_loop cap (drop n (u # rest)) (out @ utf8_bytes cp) ?st = (out', st')"
      using 2(2) nx False by (simp add: utf16_loop.simps(2))
    then obtain cps where cps: "is_text cps" "out' = (out @ utf8_bytes cp) @ utf8_of cps"
      "length (utf8_of cps) \<le> cap - length (out @ utf8_bytes cp)"
      "st' = ENC_OK \<longrightarrow> ?st = ENC_OK \<and> drop n (u # rest) = utf16_of cps"
      using 2(1) [OF nx [symmetric] refl refl] False by auto
    then show ?thesis using sound False
      by (intro exI [of _ "cp # cps"]) (auto simp: length_utf8_bytes split: if_splits)
  qed
qed

text \<open>A sequence the decoder takes as well-formed is the encoding of its code point.\<close>

lemma nats2: "2 \<le> q \<Longrightarrow> q < 32 \<Longrightarrow> s < 64 \<Longrightarrow> utf8_nats (q * 64 + s) = [0xC0 + q, 0x80 + s]"
  by (simp add: utf8_nats_def)

lemma sextet_div:
  fixes a s :: nat
  assumes "s < 64"
  shows "(a * 64 + s) div 64 = a" "(a * 64 + s) mod 64 = s"
    "(a * 64 + s) div 4096 = a div 64" "(a * 64 + s) div 262144 = a div 4096"
proof -
  show d: "(a * 64 + s) div 64 = a" "(a * 64 + s) mod 64 = s" using assms by simp_all
  have "(a * 64 + s) div (64 * 64) = a div 64" "(a * 64 + s) div (64 * 4096) = a div 4096"
    by (simp_all only: div_mult2_eq d)
  then show "(a * 64 + s) div 4096 = a div 64" "(a * 64 + s) div 262144 = a div 4096" by simp_all
qed

lemma nats3:
  assumes "q < 16" "r < 64" "s < 64" "q = 0 \<Longrightarrow> 32 \<le> r"
  shows "utf8_nats ((q * 64 + r) * 64 + s) = [0xE0 + q, 0x80 + r, 0x80 + s]"
proof -
  define v where "v = (q * 64 + r) * 64 + s"
  have d: "v div 4096 = q" "v div 64 mod 64 = r" "v mod 64 = s"
    by (simp_all only: v_def sextet_div [OF assms(3)] sextet_div [OF assms(2)])
  have "0x7FF < v" "v \<le> 0xFFFF" using assms by (cases "q = 0"; simp add: v_def)+
  then show ?thesis unfolding v_def [symmetric] by (simp add: utf8_nats_def d)
qed

lemma nats4:
  assumes "q < 5" "r < 64" "s < 64" "t < 64" "q = 0 \<Longrightarrow> 16 \<le> r"
  shows "utf8_nats (((q * 64 + r) * 64 + s) * 64 + t) = [0xF0 + q, 0x80 + r, 0x80 + s, 0x80 + t]"
proof -
  define v where "v = ((q * 64 + r) * 64 + s) * 64 + t"
  have d: "v div 262144 = q" "v div 4096 mod 64 = r" "v div 64 mod 64 = s" "v mod 64 = t"
    by (simp_all only: v_def sextet_div [OF assms(4)] sextet_div [OF assms(3)] sextet_div [OF assms(2)])
  have "0xFFFF < v" using assms by (cases "q = 0") (simp_all add: v_def)
  then show ?thesis unfolding v_def [symmetric] by (simp add: utf8_nats_def d)
qed

lemma cont_inv:
  assumes "utf8_cont lo hi (Suc m) k c bs = (False, k', cp)" "0x80 \<le> lo" "hi \<le> 0xBF"
  obtains x r where "bs = word_of_nat (0x80 + x) # r" "x < 64" "lo \<le> 0x80 + x" "0x80 + x \<le> hi"
    "utf8_cont 0x80 0xBF m (Suc k) (c * 64 + x) r = (False, k', cp)"
proof -
  obtain b r where b: "bs = b # r" "lo \<le> unat b" "unat b \<le> hi"
    using assms(1) by (cases bs) (auto split: if_splits)
  define x where "x = unat b - 0x80"
  have x: "unat b = 0x80 + x" "x < 64" using b assms(2,3) by (simp_all add: x_def)
  have "b = word_of_nat (0x80 + x)" unfolding x(1) [symmetric] by simp
  moreover have "utf8_cont 0x80 0xBF m (Suc k) (c * 64 + x) r = (False, k', cp)"
    using assms(1) b x by (simp add: cont_or lead_mod)
  ultimately show thesis using that [of x r] b x by simp
qed

lemma lead_cases:
  assumes "utf8_lead b = (n, lo, hi, c)" "n \<noteq> 0"
  obtains "n = 2" "b = 0xC0 + c" "2 \<le> c" "c < 32" "lo = 0x80" "hi = 0xBF"
  | "n = 3" "b = 0xE0 + c" "c < 16" "lo = (if c = 0 then 0xA0 else 0x80)" "hi = (if c = 13 then 0x9F else 0xBF)"
  | "n = 4" "b = 0xF0 + c" "c < 5" "lo = (if c = 0 then 0x90 else 0x80)" "hi = (if c = 4 then 0x8F else 0xBF)"
proof -
  have "(0xC2 \<le> b \<and> b \<le> 0xDF) \<or> (0xE0 \<le> b \<and> b \<le> 0xEF) \<or> (0xF0 \<le> b \<and> b \<le> 0xF4)"
    using assms by (auto simp: utf8_lead_def split: if_splits)
  then consider q where "b = 0xC0 + q" "2 \<le> q" "q < 32" | q where "b = 0xE0 + q" "q < 16"
    | q where "b = 0xF0 + q" "q < 5"
  proof (elim disjE)
    assume "0xC2 \<le> b \<and> b \<le> 0xDF"
    then show thesis by (intro that(1) [of "b - 0xC0"]) linarith+
  next
    assume "0xE0 \<le> b \<and> b \<le> 0xEF"
    then show thesis by (intro that(2) [of "b - 0xE0"]) linarith+
  next
    assume "0xF0 \<le> b \<and> b \<le> 0xF4"
    then show thesis by (intro that(3) [of "b - 0xF0"]) linarith+
  qed
  then show thesis
  proof cases
    case (1 q)
    then have "n = 2" "c = q" and lohi: "utf8_lead b = (2, lo, hi, q)"
      using lead2 [of q] assms(1) by auto
    then show thesis using 1 lead2 [of q] by (intro that(1)) simp_all
  next
    case (2 q)
    then have "n = 3" "c = q" and lohi: "utf8_lead b = (3, lo, hi, q)"
      using lead3 [of q] assms(1) by auto
    then show thesis using 2 lead3 [of q] by (intro that(2)) simp_all
  next
    case (3 q)
    then have "n = 4" "c = q" and lohi: "utf8_lead b = (4, lo, hi, q)"
      using lead4 [of q] assms(1) by auto
    then show thesis using 3 lead4 [of q] by (intro that(3)) simp_all
  qed
qed

lemma decode_sound:
  assumes "utf8_lead (unat b) = (n, lo, hi, c)" "n \<noteq> 0" "utf8_cont lo hi (n - 1) 1 c rest = (False, k, cp)"
  shows "scalar cp" "b # rest = utf8_bytes cp @ drop (n - 1) rest" "1 \<le> n"
proof -
  have b: "b = word_of_nat (unat b)" by simp
  from assms(1,2) have "scalar cp \<and> b # rest = utf8_bytes cp @ drop (n - 1) rest \<and> 1 \<le> n"
  proof (cases rule: lead_cases)
    case 1
    have "utf8_cont lo hi (Suc 0) 1 c rest = (False, k, cp)" using assms(3) 1(1) by simp
    then obtain x r where x: "rest = word_of_nat (0x80 + x) # r" "x < 64"
      "utf8_cont 0x80 0xBF 0 (Suc 1) (c * 64 + x) r = (False, k, cp)"
      by (rule cont_inv) (simp_all add: 1)
    have cp: "cp = c * 64 + x" using x(3) by simp
    have "scalar cp" using 1 x(2) cp by (simp add: scalar_def)
    then show ?thesis using b 1 x(1,2) cp nats2 [of c x] by (simp add: utf8_bytes_nats scalar_lt del: of_nat_add)
  next
    case 2
    have "utf8_cont lo hi (Suc (Suc 0)) 1 c rest = (False, k, cp)" using assms(3) 2(1) by (simp add: numeral_2_eq_2)
    then obtain x r where x: "rest = word_of_nat (0x80 + x) # r" "x < 64" "lo \<le> 0x80 + x" "0x80 + x \<le> hi"
      "utf8_cont 0x80 0xBF (Suc 0) (Suc 1) (c * 64 + x) r = (False, k, cp)"
      by (rule cont_inv) (simp_all add: 2)
    then obtain y r' where y: "r = word_of_nat (0x80 + y) # r'" "y < 64"
      "utf8_cont 0x80 0xBF 0 (Suc (Suc 1)) ((c * 64 + x) * 64 + y) r' = (False, k, cp)"
      using cont_inv [OF x(5)] by (metis order.refl)
    have cp: "cp = (c * 64 + x) * 64 + y" using y(3) by simp
    have lo: "c = 0 \<Longrightarrow> 32 \<le> x" and hi: "c = 13 \<Longrightarrow> x < 32" using 2 x(3,4) by auto
    have "scalar cp"
    proof (cases "c \<le> 13")
      case True
      then show ?thesis using hi x(2) y(2) cp by (cases "c = 13") (auto simp: scalar_def)
    qed (use 2 x(2) y(2) cp in \<open>auto simp: scalar_def\<close>)
    then show ?thesis using b 2 x(1,2) y(1,2) cp nats3 [of c x y] lo
      by (simp add: utf8_bytes_nats scalar_lt numeral_2_eq_2 del: of_nat_add)
  next
    case 3
    have "utf8_cont lo hi (Suc (Suc (Suc 0))) 1 c rest = (False, k, cp)" using assms(3) 3(1)
      by (simp add: numeral_3_eq_3)
    then obtain x r where x: "rest = word_of_nat (0x80 + x) # r" "x < 64" "lo \<le> 0x80 + x" "0x80 + x \<le> hi"
      "utf8_cont 0x80 0xBF (Suc (Suc 0)) (Suc 1) (c * 64 + x) r = (False, k, cp)"
      by (rule cont_inv) (simp_all add: 3)
    obtain y r' where y: "r = word_of_nat (0x80 + y) # r'" "y < 64"
      "utf8_cont 0x80 0xBF (Suc 0) (Suc (Suc 1)) ((c * 64 + x) * 64 + y) r' = (False, k, cp)"
      using cont_inv [OF x(5)] by (metis order.refl)
    obtain z r'' where z: "r' = word_of_nat (0x80 + z) # r''" "z < 64"
      "utf8_cont 0x80 0xBF 0 (Suc (Suc (Suc 1))) (((c * 64 + x) * 64 + y) * 64 + z) r'' = (False, k, cp)"
      using cont_inv [OF y(3)] by (metis order.refl)
    have cp: "cp = ((c * 64 + x) * 64 + y) * 64 + z" using z(3) by simp
    have lo: "c = 0 \<Longrightarrow> 16 \<le> x" and hi: "c = 4 \<Longrightarrow> x < 16" using 3 x(3,4) by auto
    have "scalar cp" using lo hi 3(3) x(2) y(2) z(2) cp
      by (cases "c = 4"; cases "c = 0") (auto simp: scalar_def)
    then show ?thesis using b 3 x(1,2) y(1,2) z(1,2) cp nats4 [of c x y z] lo
      by (simp add: utf8_bytes_nats scalar_lt numeral_3_eq_3 del: of_nat_add)
  qed
  then show "scalar cp" "b # rest = utf8_bytes cp @ drop (n - 1) rest" "1 \<le> n" by auto
qed

lemma cont_steps: "utf8_cont lo hi m k cp bs = (bad, k', cp') \<Longrightarrow> k' \<le> k + length bs"
proof (induction lo hi m k cp bs rule: utf8_cont.induct)
  case (3 lo hi m k cp b bs)
  then show ?case by (cases "unat b < lo \<or> unat b > hi") auto
qed auto

lemma length_utf16_units: "length (utf16_units cp) \<le> utf8_len cp" "1 \<le> length (utf16_units cp)"
  by (simp_all add: utf16_units_def utf8_len_def Let_def)

text \<open>
  One step of the decoder: it stops for want of room, or it goes on past at least one
  byte with the units of one scalar value, which are those of the bytes it passed
  unless it reports a loss.
\<close>

lemma decode_step:
  obtains "utf8_loop cap (b # rest) out st = (out, ENC_TRUNCATED)" "length out + Suc (length rest) > cap"
  | cp n st1 where "utf8_loop cap (b # rest) out st = utf8_loop cap (drop n rest) (out @ utf16_units cp) st1"
      "scalar cp" "length (out @ utf16_units cp) \<le> cap" "length (utf16_units cp) \<le> Suc n" "n \<le> length rest"
      "(st1 = st \<and> b # rest = utf8_bytes cp @ drop n rest) \<or> st1 = ENC_LOSSY"
proof -
  have repl: "utf16_units CP_REPLACEMENT = [word_of_nat CP_REPLACEMENT]"
    by (simp add: utf16_units_def CP_REPLACEMENT_def)
  consider "unat b \<le> 0x7F" | lo hi c where "\<not> unat b \<le> 0x7F" "utf8_lead (unat b) = (0, lo, hi, c)"
    | n lo hi c bad k cp where "\<not> unat b \<le> 0x7F" "utf8_lead (unat b) = (n, lo, hi, c)" "n \<noteq> 0"
        "utf8_cont lo hi (n - 1) 1 c rest = (bad, k, cp)"
    by (metis surj_pair neq0_conv)
  then show thesis
  proof cases
    case 1
    then have "utf8_bytes (unat b) = [b]" "utf16_units (unat b) = [word_of_nat (unat b)]" "scalar (unat b)"
      by (simp_all add: utf8_bytes_def utf8_len_def utf16_units_def scalar_def)
    then show thesis using 1 that(1) that(2) [of 0 "unat b" st]
      by (cases "length out + 1 > cap") (simp_all add: utf8_loop.simps(2))
  next
    case 2
    then show thesis using that(1) that(2) [of 0 CP_REPLACEMENT ENC_LOSSY] repl
      by (cases "length out + 1 > cap") (simp_all add: utf8_loop.simps(2))
  next
    case 3
    have k: "1 \<le> k" "k \<le> 1 + length rest" using utf8_cont_ge [OF 3(4)] cont_steps [OF 3(4)] by simp_all
    show thesis
    proof (cases bad)
      case True
      then show thesis using 3 k that(1) that(2) [of "k - 1" CP_REPLACEMENT ENC_LOSSY] repl
        by (cases "length out + 1 > cap") (simp_all add: utf8_loop.simps(2))
    next
      case False
      note sound = decode_sound [OF 3(2,3) 3(4) [unfolded eq_False [THEN iffD2, OF False]]]
      obtain m where m: "utf8_len cp = Suc m" by (cases "utf8_len cp") (simp_all add: utf8_len_def split: if_splits)
      have tail: "drop (n - 1) rest = drop m rest"
        using arg_cong [OF sound(2), of "drop (utf8_len cp)"] m by (simp add: length_utf8_bytes)
      have "m \<le> length rest"
        using arg_cong [OF sound(2), of length] m by (simp add: length_utf8_bytes)
      then show thesis
        using decode_scalar [OF sound(1), of cap "drop m rest" out st] sound(1,2) m that(1) that(2) [of m cp st]
          length_utf16_units [of cp]
        unfolding tail by (cases "length out + length (utf16_units cp) > cap") simp_all
    qed
  qed
qed

lemma decode_loop_sound:
  "utf8_loop cap bs out st = (out', st') \<Longrightarrow>
    \<exists>cps. is_text cps \<and> out' = out @ utf16_of cps \<and> length (utf16_of cps) \<le> cap - length out \<and>
      length (utf16_of cps) \<le> length bs \<and> (st' = ENC_OK \<longrightarrow> st = ENC_OK \<and> bs = utf8_of cps) \<and>
      (length out + length bs \<le> cap \<longrightarrow> st' = ENC_TRUNCATED \<longrightarrow> st = ENC_TRUNCATED)"
proof (induction "length bs" arbitrary: bs out st rule: less_induct)
  case less
  show ?case
  proof (cases bs)
    case Nil
    then show ?thesis using less.prems by (intro exI [of _ "[]"]) simp
  next
    case (Cons b rest)
    show ?thesis
    proof (cases rule: decode_step [of cap b rest out st])
      case 1
      then show ?thesis using less.prems Cons by (intro exI [of _ "[]"]) auto
    next
      case (2 cp n st1)
      have "utf8_loop cap (drop n rest) (out @ utf16_units cp) st1 = (out', st')"
        using less.prems Cons 2(1) by simp
      moreover have "length (drop n rest) < length bs" using Cons by simp
      ultimately obtain cps where
        cps: "is_text cps" "out' = (out @ utf16_units cp) @ utf16_of cps"
        "length (utf16_of cps) \<le> cap - length (out @ utf16_units cp)"
        "length (utf16_of cps) \<le> length (drop n rest)"
        "st' = ENC_OK \<longrightarrow> st1 = ENC_OK \<and> drop n rest = utf8_of cps"
        "length (out @ utf16_units cp) + length (drop n rest) \<le> cap \<longrightarrow> st' = ENC_TRUNCATED \<longrightarrow> st1 = ENC_TRUNCATED"
        using less.hyps by blast
      then show ?thesis using 2 Cons by (intro exI [of _ "cp # cps"]) auto
    qed
  qed
qed

section \<open>Properties\<close>

text \<open>
  C9: the two directions are inverse on every Unicode text, surrogate pairs included:
  encoding its UTF-16 form gives its UTF-8 form and decoding that gives the UTF-16 form
  back, both with a clean status, whenever the buffers hold the result.
\<close>

theorem Utf_roundtrip:
  assumes "is_text cps" "length (utf8_of cps) \<le> cap8" "length (utf16_of cps) \<le> cap16"
  shows "Utf16ToUtf8 (utf16_of cps) cap8 = (utf8_of cps, ENC_OK) \<and>
         Utf8ToUtf16 (utf8_of cps) cap16 = (utf16_of cps, ENC_OK)"
  using encode_text [of cps "[]" cap8 "[]" ENC_OK] decode_text [of cps "[]" cap16 "[]" ENC_OK] assms
  by (simp add: Utf16ToUtf8_def Utf8ToUtf16_def)

lemma Utf_roundtrip_witness:
  "Utf16ToUtf8 (utf16_of [0x41, 0xE9, 0x20AC, 0x1F600]) 10 = (utf8_of [0x41, 0xE9, 0x20AC, 0x1F600], ENC_OK) \<and>
   Utf8ToUtf16 (utf8_of [0x41, 0xE9, 0x20AC, 0x1F600]) 5 = (utf16_of [0x41, 0xE9, 0x20AC, 0x1F600], ENC_OK)"
  by (rule Utf_roundtrip) (simp_all add: scalar_def length_utf8_bytes utf8_len_def utf16_units_def)

text \<open>
  On arbitrary code units, unpaired surrogates included, what the encoder writes
  is the UTF-8 form of a text, within the buffer and never a part of a sequence; a
  clean status means the units were the UTF-16 form of that text.
\<close>

theorem Utf16ToUtf8_valid:
  "\<exists>cps. is_text cps \<and> fst (Utf16ToUtf8 units outCap) = utf8_of cps \<and> length (utf8_of cps) \<le> outCap \<and>
     (snd (Utf16ToUtf8 units outCap) = ENC_OK \<longleftrightarrow> units = utf16_of cps)"
proof -
  obtain out st where r: "Utf16ToUtf8 units outCap = (out, st)" by fastforce
  then obtain cps where cps: "is_text cps" "out = utf8_of cps" "length (utf8_of cps) \<le> outCap"
    "st = ENC_OK \<longrightarrow> units = utf16_of cps"
    using encode_sound [of outCap units "[]" ENC_OK out st] by (auto simp: Utf16ToUtf8_def)
  moreover have "st = ENC_OK" if "units = utf16_of cps"
    using encode_text [OF cps(1), of "[]" outCap "[]" ENC_OK] cps(3) r that by (simp add: Utf16ToUtf8_def)
  ultimately show ?thesis using r by auto
qed

text \<open>
  On arbitrary bytes the decoder writes the UTF-16 form of a text, never half a
  surrogate pair, of at most one unit per byte; the status is clean exactly when the
  bytes are the UTF-8 form of that text, so overlong forms, surrogates, values past
  U+10FFFF and cut sequences are all reported; and a window of one unit per byte is
  never reported as truncated.
\<close>

theorem Utf8ToUtf16_valid:
  "\<exists>cps. is_text cps \<and> fst (Utf8ToUtf16 bytes outCap) = utf16_of cps \<and>
     length (utf16_of cps) \<le> outCap \<and> length (utf16_of cps) \<le> length bytes \<and>
     (snd (Utf8ToUtf16 bytes outCap) = ENC_OK \<longleftrightarrow> bytes = utf8_of cps) \<and>
     (length bytes \<le> outCap \<longrightarrow> snd (Utf8ToUtf16 bytes outCap) \<noteq> ENC_TRUNCATED)"
proof -
  obtain out st where r: "Utf8ToUtf16 bytes outCap = (out, st)" by fastforce
  then obtain cps where cps: "is_text cps" "out = utf16_of cps" "length (utf16_of cps) \<le> outCap"
    "length (utf16_of cps) \<le> length bytes" "st = ENC_OK \<longrightarrow> bytes = utf8_of cps"
    "length bytes \<le> outCap \<longrightarrow> st \<noteq> ENC_TRUNCATED"
    using decode_loop_sound [of outCap bytes "[]" ENC_OK out st] by (auto simp: Utf8ToUtf16_def)
  moreover have "st = ENC_OK" if "bytes = utf8_of cps"
    using decode_text [OF cps(1), of "[]" outCap "[]" ENC_OK] cps(3) r that by (simp add: Utf8ToUtf16_def)
  ultimately show ?thesis using r by auto
qed

lemma Utf8ToUtf16_valid_witness:
  "snd (Utf8ToUtf16 [0x41, 0xC3, 0x41] 3) \<noteq> ENC_TRUNCATED"
  using Utf8ToUtf16_valid [of "[0x41, 0xC3, 0x41]" 3] by (elim exE conjE) simp

interpretation utf: codec "\<lambda>us. \<exists>cps. is_text cps \<and> us = utf16_of cps" "\<lambda>us. fst (Utf16ToUtf8 us (4 * length us))"
    "\<lambda>bs. case Utf8ToUtf16 bs (length bs) of (us, st) \<Rightarrow> if st = ENC_OK then Some us else None"
proof unfold_locales
  fix us :: "u16 list" assume "\<exists>cps. is_text cps \<and> us = utf16_of cps"
  then obtain cps where cps: "is_text cps" "us = utf16_of cps" by blast
  have "length (utf8_of cps) \<le> 4 * length (utf16_of cps)" "length (utf16_of cps) \<le> length (utf8_of cps)"
  proof (induction cps)
    case (Cons c cs)
    have "utf8_len c \<le> 4" by (simp add: utf8_len_def)
    then show "length (utf8_of (c # cs)) \<le> 4 * length (utf16_of (c # cs))"
      "length (utf16_of (c # cs)) \<le> length (utf8_of (c # cs))"
      using Cons length_utf16_units [of c] by (simp_all add: length_utf8_bytes)
  qed simp_all
  then show "(case Utf8ToUtf16 (fst (Utf16ToUtf8 us (4 * length us))) (length (fst (Utf16ToUtf8 us (4 * length us)))) of
      (us, st) \<Rightarrow> if st = ENC_OK then Some us else None) = Some us"
    using encode_text [OF cps(1), of "[]" _ "[]" ENC_OK] decode_text [OF cps(1), of "[]" _ "[]" ENC_OK] cps(2)
    by (simp add: Utf16ToUtf8_def Utf8ToUtf16_def)
qed

text \<open>The offsets of the separators of a text, by its code points.\<close>

fun text_separators :: "nat \<Rightarrow> nat list \<Rightarrow> nat list" where
  "text_separators i [] = []"
| "text_separators i (c # cs) =
     (if c = 0x5C \<or> c = 0x2F then [i] else []) @ text_separators (i + length (utf8_bytes c)) cs"

lemma separators_high:
  "\<forall>b \<in> set bs. b \<noteq> 0x5C \<and> b \<noteq> 0x2F \<Longrightarrow> enc_separators i (bs @ cs) = enc_separators (i + length bs) cs"
  by (induction bs arbitrary: i) simp_all

lemma multibyte_high:
  assumes "cp < 0x110000" "0x7F < cp" "b \<in> set (utf8_bytes cp)"
  shows "0x80 \<le> unat b"
proof -
  have nats: "utf8_bytes cp = map word_of_nat (utf8_nats cp)" "\<forall>n \<in> set (utf8_nats cp). n < 256"
    using utf8_bytes_nats [OF assms(1)] by auto
  moreover have "\<forall>n \<in> set (utf8_nats cp). 0x80 \<le> n" using assms(2) by (simp add: utf8_nats_def)
  ultimately show ?thesis using assms(3) by (auto simp: unat_byte)
qed

text \<open>
  The byte scan for path separators finds, on the UTF-8 form of any path, exactly
  the offsets of its backslash and slash characters, a trail byte never counting as
  one; the count is complete even where the offsets array is short.
\<close>

theorem EncFindSeparators_text:
  assumes "is_text cps"
  shows "EncFindSeparators (utf8_of cps) outCap =
    (length (text_separators 0 cps), take outCap (text_separators 0 cps))"
proof -
  have "enc_separators i (utf8_of cps) = text_separators i cps" for i
    using assms
  proof (induction cps arbitrary: i)
    case (Cons c cs)
    show ?case
    proof (cases "c \<le> 0x7F")
      case True
      then have "utf8_bytes c = [word_of_nat c]" by (simp add: utf8_bytes_def utf8_len_def)
      moreover have "word_of_nat c = (0x5C :: u8) \<longleftrightarrow> c = 0x5C" "word_of_nat c = (0x2F :: u8) \<longleftrightarrow> c = 0x2F"
        using True unat_byte [of c] by (auto simp: word_unat_eq_iff)
      ultimately show ?thesis using Cons by simp
    next
      case False
      have "b \<noteq> 0x5C \<and> b \<noteq> 0x2F" if "b \<in> set (utf8_bytes c)" for b
        using multibyte_high [OF scalar_lt _ that] False Cons.prems by auto
      then show ?thesis using Cons False by (simp add: separators_high)
    qed
  qed simp
  then show ?thesis by (simp add: EncFindSeparators_def Let_def)
qed

lemma EncFindSeparators_text_witness:
  "EncFindSeparators (utf8_of [0x43, 0x3A, 0x5C, 0x8868, 0x2F]) 1 = (2, take 1 [2, 6])"
proof -
  have "EncFindSeparators (utf8_of [0x43, 0x3A, 0x5C, 0x8868, 0x2F]) 1 =
    (length (text_separators 0 [0x43, 0x3A, 0x5C, 0x8868, 0x2F]), take 1 (text_separators 0 [0x43, 0x3A, 0x5C, 0x8868, 0x2F]))"
    by (rule EncFindSeparators_text) (simp add: scalar_def)
  then show ?thesis by (simp add: length_utf8_bytes utf8_len_def)
qed

end
