(* ===== verification/Charset.thy ===== *)
theory Charset
  imports Utf8
begin

text \<open>
  The code page conversions of \<^verbatim>\<open>src/src/charset_tables.c\<close> over the tables of
  \<^verbatim>\<open>src/src/charset_internal.h\<close>.  The list of baked pages is an argument of the
  operations; what the algorithms rely on is the executable predicate \<open>page_ok\<close>, and the
  theory \<open>CodePages\<close> has the program's own list, transcribed and checked.  Table entries
  are numbers.
\<close>

record CpPage =
  cp :: int
  is_dbcs :: bool
  dec1 :: "nat list"
  lead :: "bool list"
  leadrow :: "nat list"
  dec2 :: "nat list"
  rev_map :: "(nat \<times> nat) list"

section \<open>The operations\<close>

fun find_page :: "CpPage list \<Rightarrow> int \<Rightarrow> CpPage option" where
  "find_page [] codepage = None"
| "find_page (p # ps) codepage = (if cp p = codepage then Some p else find_page ps codepage)"

definition CpSupported :: "CpPage list \<Rightarrow> int \<Rightarrow> bool" where
  "CpSupported pages codepage \<longleftrightarrow> find_page pages codepage \<noteq> None"

text \<open>The character at the head of the bytes: its unit, whether it is a loss, the bytes it takes.\<close>

definition cp_char :: "CpPage \<Rightarrow> u8 \<Rightarrow> u8 list \<Rightarrow> nat \<times> bool \<times> nat" where
  "cp_char p b rest =
     (if is_dbcs p \<and> lead p ! unat b then
        (case rest of
           [] \<Rightarrow> (CP_REPLACEMENT, True, 1)
         | t # _ \<Rightarrow>
             (let u = dec2 p ! (leadrow p ! unat b * 256 + unat t) in
              if u = CP_REPLACEMENT then (u, True, 1) else (u, False, 2)))
      else
        (let u = dec1 p ! unat b in (u, u = CP_REPLACEMENT, 1)))"

text \<open>Units written, whether any was substituted, and the bytes left when the window was full.\<close>

function cp_decode_loop :: "CpPage \<Rightarrow> nat \<Rightarrow> u8 list \<Rightarrow> u16 list \<Rightarrow> bool \<Rightarrow> u16 list \<times> bool \<times> u8 list" where
  "cp_decode_loop p outCap [] out lz = (out, lz, [])"
| "cp_decode_loop p outCap (b # rest) out lz =
     (if length out < outCap then
        (let (u, loss, n) = cp_char p b rest in
         cp_decode_loop p outCap (drop n (b # rest)) (out @ [word_of_nat u]) (lz \<or> loss))
      else (out, lz, b # rest))"
  by pat_completeness auto
termination
  by (relation "measure (\<lambda>(_, _, bs, _, _). length bs)")
     (auto simp: cp_char_def Let_def split: if_splits list.splits)

declare cp_decode_loop.simps(2) [simp del]

definition CpDecode :: "CpPage list \<Rightarrow> int \<Rightarrow> u8 list \<Rightarrow> nat \<Rightarrow> u16 list \<times> bool \<times> nat" where
  "CpDecode pages codepage mb outCap =
     (case find_page pages codepage of
        None \<Rightarrow> ([], False, 0)
      | Some p \<Rightarrow>
          (case cp_decode_loop p outCap mb [] False of
             (units, lossy, left) \<Rightarrow> (units, lossy, length mb - length left)))"

function rev_search :: "(nat \<times> nat) list \<Rightarrow> nat \<Rightarrow> int \<Rightarrow> int \<Rightarrow> nat option" where
  "rev_search rv cu lo hi =
     (if lo \<le> hi then
        (let midi = lo + (hi - lo) div 2; (midcu, mb) = rv ! nat midi in
         if midcu = cu then Some mb
         else if midcu < cu then rev_search rv cu (midi + 1) hi
         else rev_search rv cu lo (midi - 1))
      else None)"
  by pat_completeness auto
termination by (relation "measure (\<lambda>(_, _, lo, hi). nat (hi - lo + 1))") auto

declare rev_search.simps [simp del]

definition rev_lookup :: "CpPage \<Rightarrow> u16 \<Rightarrow> nat option" where
  "rev_lookup p cu = rev_search (rev_map p) (unat cu) 0 (int (length (rev_map p)) - 1)"

datatype CpEncoded = CpBytes "u8 list" | CpReject nat | CpOverflow

definition mb_bytes :: "nat \<Rightarrow> u8 list" where
  "mb_bytes mb = (if mb > 0xFF then [word_of_nat (drop_bit 8 mb AND 0xFF), word_of_nat (mb AND 0xFF)]
                  else [word_of_nat (mb AND 0xFF)])"

fun cp_encode_loop :: "CpPage \<Rightarrow> nat \<Rightarrow> nat \<Rightarrow> u16 list \<Rightarrow> u8 list \<Rightarrow> CpEncoded" where
  "cp_encode_loop p outCap i [] out = CpBytes out"
| "cp_encode_loop p outCap i (u # us) out =
     (case rev_lookup p u of
        None \<Rightarrow> CpReject i
      | Some mb \<Rightarrow>
          if length out + length (mb_bytes mb) > outCap then CpOverflow
          else cp_encode_loop p outCap (Suc i) us (out @ mb_bytes mb))"

definition CpEncode :: "CpPage list \<Rightarrow> int \<Rightarrow> u16 list \<Rightarrow> nat \<Rightarrow> CpEncoded" where
  "CpEncode pages codepage units outCap =
     (case find_page pages codepage of
        None \<Rightarrow> CpReject 0
      | Some p \<Rightarrow> cp_encode_loop p outCap 0 units [])"

definition CpRepresentable :: "CpPage list \<Rightarrow> int \<Rightarrow> u16 list \<Rightarrow> bool" where
  "CpRepresentable pages codepage units =
     (case find_page pages codepage of
        None \<Rightarrow> False
      | Some p \<Rightarrow> list_all (\<lambda>u. rev_lookup p u \<noteq> None) units)"

section \<open>What a page must satisfy\<close>

fun ascending :: "nat list \<Rightarrow> bool" where
  "ascending [] = True"
| "ascending [x] = True"
| "ascending (x # y # zs) = (x < y \<and> ascending (y # zs))"

text \<open>
  The reverse map is sorted, its units are units and none is the replacement, and each
  entry is what its one or two bytes decode to.
\<close>

definition entry_ok :: "CpPage \<Rightarrow> nat \<times> nat \<Rightarrow> bool" where
  "entry_ok p e =
     (case e of (cu, mb) \<Rightarrow>
        cu < 65536 \<and> cu \<noteq> CP_REPLACEMENT \<and>
        (if mb \<le> 0xFF then \<not> (is_dbcs p \<and> lead p ! mb) \<and> dec1 p ! mb = cu
         else mb < 65536 \<and> is_dbcs p \<and> lead p ! (mb div 256) \<and>
           dec2 p ! (leadrow p ! (mb div 256) * 256 + mb mod 256) = cu))"

definition page_ok :: "CpPage \<Rightarrow> bool" where
  "page_ok p \<longleftrightarrow> ascending (map fst (rev_map p)) \<and> list_all (entry_ok p) (rev_map p)"

lemma byte_small: "unat (b :: u8) < 256"
  using unsigned_less [of b, where 'a = nat] by simp

text \<open>Whatever byte stands at the head and whatever follows, widening reads inside the tables.\<close>

definition reads_inside :: "CpPage \<Rightarrow> u8 \<Rightarrow> u8 \<Rightarrow> bool" where
  "reads_inside p b t \<longleftrightarrow>
     unat b < length (dec1 p) \<and>
     (is_dbcs p \<longrightarrow> unat b < length (lead p) \<and>
        (lead p ! unat b \<longrightarrow> unat b < length (leadrow p) \<and> leadrow p ! unat b * 256 + unat t < length (dec2 p)))"

lemma ascending_nth: "ascending xs \<Longrightarrow> i < j \<Longrightarrow> j < length xs \<Longrightarrow> xs ! i < xs ! j"
proof (induction xs arbitrary: i j rule: ascending.induct)
  case (3 x y zs)
  obtain k where j: "j = Suc k" using 3 by (cases j) auto
  show ?case
  proof (cases i)
    case 0
    have "y \<le> (y # zs) ! k" using 3 j by (cases k) (auto dest: "3.IH" [of 0 k])
    then show ?thesis using 3 0 j by simp
  qed (use 3 j in auto)
qed auto

section \<open>Lookup\<close>

lemma rev_search_spec:
  assumes asc: "ascending (map fst rv)" and "0 \<le> lo" "hi < int (length rv)"
  shows "rev_search rv cu lo hi = Some mb \<longleftrightarrow> (\<exists>i. lo \<le> int i \<and> int i \<le> hi \<and> rv ! i = (cu, mb))"
  using assms(2,3)
proof (induction "nat (hi - lo + 1)" arbitrary: lo hi rule: less_induct)
  case less
  let ?m = "lo + (hi - lo) div 2"
  have mono: "fst (rv ! i) < fst (rv ! j)" if "i < j" "j < length rv" for i j
    using ascending_nth [OF asc that(1)] that by simp
  show ?case
  proof (cases "lo \<le> hi")
    case True
    have m: "lo \<le> ?m" "?m \<le> hi" using True by simp_all
    obtain c b where cb: "rv ! nat ?m = (c, b)" by fastforce
    have unfold: "rev_search rv cu lo hi =
        (if c = cu then Some b else if c < cu then rev_search rv cu (?m + 1) hi else rev_search rv cu lo (?m - 1))"
      using True cb by (subst rev_search.simps) (simp add: Let_def)
    have below: "fst (rv ! i) < c" if "lo \<le> int i" "int i < ?m" for i
      using mono [of i "nat ?m"] that m less.prems cb by simp
    have above: "c < fst (rv ! i)" if "int i \<le> hi" "?m < int i" for i
      using mono [of "nat ?m" i] that m less.prems cb by simp
    consider "c = cu" | "c < cu" | "cu < c" by linarith
    then show ?thesis
    proof cases
      case 1
      have "i = nat ?m" if "lo \<le> int i" "int i \<le> hi" "rv ! i = (cu, mb)" for i
        using below [of i] above [of i] that 1 by (cases "int i < ?m"; cases "?m < int i") auto
      moreover have "lo \<le> int (nat ?m) \<and> int (nat ?m) \<le> hi" using m less.prems by simp
      moreover have "rev_search rv cu lo hi = Some b" "rv ! nat ?m = (cu, b)" using unfold 1 cb by simp_all
      ultimately show ?thesis by (metis option.inject prod.inject)
    next
      case 2
      have "rev_search rv cu (?m + 1) hi = Some mb \<longleftrightarrow> (\<exists>i. ?m + 1 \<le> int i \<and> int i \<le> hi \<and> rv ! i = (cu, mb))"
        using less.prems m by (intro less.hyps) auto
      moreover have imp: "?m + 1 \<le> int i" if "lo \<le> int i" "rv ! i = (cu, mb)" for i
      proof (rule ccontr)
        assume "\<not> ?m + 1 \<le> int i"
        then consider "int i < ?m" | "i = nat ?m" by linarith
        then show False using below [OF that(1)] that(2) 2 cb by cases auto
      qed
      moreover have "(?m + 1 \<le> int i \<and> int i \<le> hi \<and> rv ! i = (cu, mb)) =
          (lo \<le> int i \<and> int i \<le> hi \<and> rv ! i = (cu, mb))" for i
        using imp [of i] m(1) by auto
      ultimately show ?thesis using unfold 2 by simp
    next
      case 3
      have "rev_search rv cu lo (?m - 1) = Some mb \<longleftrightarrow> (\<exists>i. lo \<le> int i \<and> int i \<le> ?m - 1 \<and> rv ! i = (cu, mb))"
        using less.prems m by (intro less.hyps) auto
      moreover have imp: "int i \<le> ?m - 1" if "int i \<le> hi" "rv ! i = (cu, mb)" for i
      proof (rule ccontr)
        assume "\<not> int i \<le> ?m - 1"
        then consider "?m < int i" | "i = nat ?m" by linarith
        then show False using above [OF that(1)] that(2) 3 cb by cases auto
      qed
      moreover have "(lo \<le> int i \<and> int i \<le> ?m - 1 \<and> rv ! i = (cu, mb)) =
          (lo \<le> int i \<and> int i \<le> hi \<and> rv ! i = (cu, mb))" for i
        using imp [of i] m(2) by auto
      ultimately show ?thesis using unfold 3 by simp
    qed
  qed (auto simp: rev_search.simps)
qed

lemma rev_lookup_spec:
  assumes "ascending (map fst (rev_map p))"
  shows "rev_lookup p u = Some mb \<longleftrightarrow> (unat u, mb) \<in> set (rev_map p)"
  using rev_search_spec [OF assms, of 0 "int (length (rev_map p)) - 1" "unat u" mb]
  by (auto simp: rev_lookup_def in_set_conv_nth)

section \<open>Encoding and decoding\<close>

lemma mask_8: "(x :: nat) AND 0xFF = x mod 256"
  using take_bit_eq_mask [of 8 x] by (simp add: take_bit_eq_mod mask_eq_exp_minus_1)

lemma decode_entry:
  assumes "entry_ok p (unat u, mb)"
  shows "cp_decode_loop p cap (mb_bytes mb @ rest) out lz =
    (if length out < cap then cp_decode_loop p cap rest (out @ [u]) lz else (out, lz, mb_bytes mb @ rest))"
proof (cases "mb \<le> 0xFF")
  case True
  then have "mb_bytes mb = [word_of_nat mb]" "unat (word_of_nat mb :: u8) = mb"
    by (simp_all add: mb_bytes_def mask_8 unat_byte)
  then show ?thesis using assms True
    by (auto simp: entry_ok_def cp_decode_loop.simps(2) cp_char_def Let_def)
next
  case False
  then have lt: "mb < 65536" using assms by (simp add: entry_ok_def)
  have b: "mb_bytes mb = [word_of_nat (mb div 256), word_of_nat (mb mod 256)]"
    "unat (word_of_nat (mb div 256) :: u8) = mb div 256" "unat (word_of_nat (mb mod 256) :: u8) = mb mod 256"
    using False lt by (simp_all add: mb_bytes_def mask_8 drop_bit_eq_div unat_byte)
  show ?thesis using assms False
    unfolding b(1)
    by (auto simp: entry_ok_def cp_decode_loop.simps(2) cp_char_def b(2,3))
qed

lemma encode_decode_loop:
  assumes ok: "page_ok p" and "cp_encode_loop p outCap i units out = CpBytes bs"
  shows "\<exists>ms. bs = out @ ms \<and> length bs \<le> max outCap (length out) \<and> length units \<le> length ms \<and>
    (\<forall>cap out' lz. length out' + length units \<le> cap \<longrightarrow>
       cp_decode_loop p cap ms out' lz = (out' @ units, lz, []))"
  using assms(2)
proof (induction units arbitrary: i out)
  case (Cons u us)
  then obtain mb where mb: "rev_lookup p u = Some mb" "length out + length (mb_bytes mb) \<le> outCap"
    and run: "cp_encode_loop p outCap (Suc i) us (out @ mb_bytes mb) = CpBytes bs"
    by (auto split: option.splits if_splits)
  from Cons.IH [OF run] obtain ms where ms: "bs = (out @ mb_bytes mb) @ ms"
    "length bs \<le> max outCap (length (out @ mb_bytes mb))" "length us \<le> length ms"
    "\<forall>cap out' lz. length out' + length us \<le> cap \<longrightarrow> cp_decode_loop p cap ms out' lz = (out' @ us, lz, [])"
    by blast
  have "entry_ok p (unat u, mb)"
    using ok rev_lookup_spec [of p u mb] mb(1) by (auto simp: page_ok_def list_all_iff)
  note dec = decode_entry [OF this]
  have "1 \<le> length (mb_bytes mb)" by (simp add: mb_bytes_def)
  then show ?case using ms mb(2) dec by (intro exI [of _ "mb_bytes mb @ ms"]) auto
qed auto

lemma encode_reject:
  "cp_encode_loop p outCap i units out = CpReject k \<Longrightarrow>
    i \<le> k \<and> k < i + length units \<and> rev_lookup p (units ! (k - i)) = None \<and>
    (\<forall>j < k - i. rev_lookup p (units ! j) \<noteq> None)"
proof (induction units arbitrary: i out)
  case (Cons u us)
  show ?case
  proof (cases "rev_lookup p u")
    case None
    then show ?thesis using Cons.prems by simp
  next
    case (Some mb)
    then have "cp_encode_loop p outCap (Suc i) us (out @ mb_bytes mb) = CpReject k"
      using Cons.prems by (simp split: if_splits)
    note IH = Cons.IH [OF this]
    then have "Suc i \<le> k" by blast
    then have "k - i = Suc (k - Suc i)" by linarith
    then show ?thesis using IH Some by (auto simp: less_Suc_eq_0_disj)
  qed
qed simp

lemma encode_no_overflow:
  "length out + 2 * length units \<le> outCap \<Longrightarrow> cp_encode_loop p outCap i units out \<noteq> CpOverflow"
proof (induction units arbitrary: i out)
  case (Cons u us)
  show ?case
  proof (cases "rev_lookup p u")
    case (Some mb)
    have "length (mb_bytes mb) \<le> 2" by (simp add: mb_bytes_def)
    then show ?thesis using Cons.IH [of "out @ mb_bytes mb" "Suc i"] Cons.prems Some by simp
  qed simp
qed simp

lemma encode_all: "cp_encode_loop p outCap i units out = CpBytes bs \<Longrightarrow> list_all (\<lambda>u. rev_lookup p u \<noteq> None) units"
  by (induction units arbitrary: i out) (auto split: option.splits if_splits)

section \<open>Properties\<close>

text \<open>
  On a page with sound tables the binary search of the reverse map is exact: it
  finds the bytes listed for a code unit, and finds nothing only when none are.
\<close>

theorem rev_lookup_exact:
  assumes "page_ok p"
  shows "(rev_lookup p u = Some mb \<longleftrightarrow> (unat u, mb) \<in> set (rev_map p)) \<and>
         (rev_lookup p u = None \<longleftrightarrow> unat u \<notin> fst ` set (rev_map p))"
  using rev_lookup_spec [of p u] assms by (cases "rev_lookup p u") (force simp: page_ok_def)+

text \<open>
  Narrowing is strict and loses nothing: when it succeeds every unit is representable, the
  bytes fit, and decoding them gives the units back with no substitution and every byte
  consumed; when it rejects, the index is the first unit the page lacks; it never finds the
  buffer too small when that holds two bytes per unit.
\<close>

lemma CpRepresentable_page:
  "find_page pages codepage = Some p \<Longrightarrow>
     CpRepresentable pages codepage units = list_all (\<lambda>u. rev_lookup p u \<noteq> None) units"
  by (simp add: CpRepresentable_def)

lemma CpEncode_strict:
  assumes p: "find_page pages codepage = Some p" and ok: "page_ok p"
  shows "case CpEncode pages codepage units outCap of
      CpBytes bs \<Rightarrow> CpRepresentable pages codepage units \<and> length bs \<le> outCap \<and>
        CpDecode pages codepage bs (length units) = (units, False, length bs)
    | CpReject k \<Rightarrow> k < length units \<and> CpRepresentable pages codepage (take k units) \<and>
        \<not> CpRepresentable pages codepage [units ! k]
    | CpOverflow \<Rightarrow> outCap < 2 * length units"
proof -
  have enc: "CpEncode pages codepage units outCap = cp_encode_loop p outCap 0 units []"
    using p by (simp add: CpEncode_def)
  show ?thesis
  proof (cases "cp_encode_loop p outCap 0 units []")
    case (CpBytes bs)
    obtain ms where "bs = ms" "length bs \<le> outCap"
      "cp_decode_loop p (length units) ms [] False = (units, False, [])"
      using encode_decode_loop [OF ok CpBytes] by fastforce
    then show ?thesis using CpBytes p encode_all [OF CpBytes] by (simp add: enc CpDecode_def CpRepresentable_def)
  next
    case (CpReject k)
    then show ?thesis using encode_reject [OF CpReject]
      by (auto simp: enc CpRepresentable_page [OF p] list_all_length)
  next
    case CpOverflow
    then show ?thesis using encode_no_overflow [of "[]" units outCap p 0] by (auto simp: enc not_le [symmetric])
  qed
qed

end
