(* ===== verification/SbPage.thy ===== *)
theory SbPage
  imports Charset
begin

text \<open>
  What the tables of a page with single bytes must satisfy for decoding and encoding to be
  inverse, as conditions that are checked on a table in one pass over it, and what they give.
\<close>

section \<open>The conditions\<close>

text \<open>A table read in order: its elements are those that the function gives from an index on.\<close>

fun table :: "(nat \<Rightarrow> 'a) \<Rightarrow> int \<Rightarrow> 'a list \<Rightarrow> bool" where
  "table f i [] = True"
| "table f i (x # xs) = (f (nat i) = x \<and> table f (i + 1) xs)"

lemma table_drop: "table ((!) xs) (int i) (drop i xs)"
proof (induction "length xs - i" arbitrary: i)
  case (Suc k)
  then have "table ((!) xs) (int i + 1) (drop (Suc i) xs)" using Suc.hyps(1) [of "Suc i"] by (simp add: add.commute)
  then show ?case using Cons_nth_drop_Suc [of i xs, symmetric] Suc.hyps(2) by simp
qed simp

lemma table_entries: "xs = ys \<Longrightarrow> table ((!) xs) 0 ys"
  using table_drop [of xs 0] by simp

text \<open>The number of elements that satisfy a condition.\<close>

fun tally :: "('a \<Rightarrow> bool) \<Rightarrow> int \<Rightarrow> 'a list \<Rightarrow> int" where
  "tally P n [] = n"
| "tally P n (x # xs) = tally P (if P x then n + 1 else n) xs"

lemma tally_filter: "tally P n xs = n + int (length (filter P xs))"
  by (induction xs arbitrary: n) auto

text \<open>The first half of the table is ASCII.\<close>

fun ascii_from :: "int \<Rightarrow> nat list \<Rightarrow> bool" where
  "ascii_from i [] = True"
| "ascii_from i (x # xs) = (if i < 128 then int x = i \<and> ascii_from (i + 1) xs else True)"

lemma ascii_nth: "ascii_from i xs \<Longrightarrow> k < length xs \<Longrightarrow> i + int k < 128 \<Longrightarrow> int (xs ! k) = i + int k"
proof (induction i xs arbitrary: k rule: ascii_from.induct)
  case (2 i x xs)
  then show ?case by (cases k) auto
qed simp

definition sb_entry :: "nat list \<Rightarrow> nat \<times> nat \<Rightarrow> bool" where
  "sb_entry d e = (case e of (cu, mb) \<Rightarrow> cu < 65536 \<and> cu \<noteq> 65533 \<and> mb \<le> 0xFF \<and> d ! mb = cu)"

text \<open>Sorted, each entry what its byte decodes to, and as many entries as bytes with a unit.\<close>

definition sound_tables :: "nat list \<Rightarrow> (nat \<times> nat) list \<Rightarrow> bool" where
  "sound_tables d r \<longleftrightarrow>
     ascending (map fst r) \<and> list_all (sb_entry d) r \<and> tally (\<lambda>_. True) 0 d = 256 \<and>
     tally (\<lambda>_. True) 0 r = tally (\<lambda>u. u \<noteq> 65533) 0 d"

definition sb_page :: "CpPage \<Rightarrow> bool" where
  "sb_page p \<longleftrightarrow> \<not> is_dbcs p \<and> sound_tables (dec1 p) (rev_map p)"

section \<open>Literal rows\<close>

text \<open>What a literal list of 256 elements gives at each index, once for all such lists.\<close>

lemma row_nth:
  fixes d :: "'a list"
  assumes d: "d =
   [v0, v1, v2, v3, v4, v5, v6, v7, v8, v9, v10, v11, v12, v13, v14, v15, v16, v17, v18, v19, v20, v21, v22,
    v23, v24, v25, v26, v27, v28, v29, v30, v31] @
   [v32, v33, v34, v35, v36, v37, v38, v39, v40, v41, v42, v43, v44, v45, v46, v47, v48, v49, v50, v51, v52,
    v53, v54, v55, v56, v57, v58, v59, v60, v61, v62, v63] @
   [v64, v65, v66, v67, v68, v69, v70, v71, v72, v73, v74, v75, v76, v77, v78, v79, v80, v81, v82, v83, v84,
    v85, v86, v87, v88, v89, v90, v91, v92, v93, v94, v95] @
   [v96, v97, v98, v99, v100, v101, v102, v103, v104, v105, v106, v107, v108, v109, v110, v111, v112, v113,
    v114, v115, v116, v117, v118, v119, v120, v121, v122, v123, v124, v125, v126, v127] @
   [v128, v129, v130, v131, v132, v133, v134, v135, v136, v137, v138, v139, v140, v141, v142, v143, v144, v145,
    v146, v147, v148, v149, v150, v151, v152, v153, v154, v155, v156, v157, v158, v159] @
   [v160, v161, v162, v163, v164, v165, v166, v167, v168, v169, v170, v171, v172, v173, v174, v175, v176, v177,
    v178, v179, v180, v181, v182, v183, v184, v185, v186, v187, v188, v189, v190, v191] @
   [v192, v193, v194, v195, v196, v197, v198, v199, v200, v201, v202, v203, v204, v205, v206, v207, v208, v209,
    v210, v211, v212, v213, v214, v215, v216, v217, v218, v219, v220, v221, v222, v223] @
   [v224, v225, v226, v227, v228, v229, v230, v231, v232, v233, v234, v235, v236, v237, v238, v239, v240, v241,
    v242, v243, v244, v245, v246, v247, v248, v249, v250, v251, v252, v253, v254, v255]"
  shows
    "d ! 0 = v0 \<and> d ! Suc 0 = v1 \<and> d ! 2 = v2 \<and> d ! 3 = v3 \<and> d ! 4 = v4 \<and>
      d ! 5 = v5 \<and> d ! 6 = v6 \<and> d ! 7 = v7 \<and> d ! 8 = v8 \<and> d ! 9 = v9 \<and>
      d ! 10 = v10 \<and> d ! 11 = v11 \<and> d ! 12 = v12 \<and> d ! 13 = v13 \<and> d ! 14 = v14 \<and>
      d ! 15 = v15"
    "d ! 16 = v16 \<and> d ! 17 = v17 \<and> d ! 18 = v18 \<and> d ! 19 = v19 \<and> d ! 20 = v20 \<and>
      d ! 21 = v21 \<and> d ! 22 = v22 \<and> d ! 23 = v23 \<and> d ! 24 = v24 \<and> d ! 25 = v25 \<and>
      d ! 26 = v26 \<and> d ! 27 = v27 \<and> d ! 28 = v28 \<and> d ! 29 = v29 \<and> d ! 30 = v30 \<and>
      d ! 31 = v31"
    "d ! 32 = v32 \<and> d ! 33 = v33 \<and> d ! 34 = v34 \<and> d ! 35 = v35 \<and> d ! 36 = v36 \<and>
      d ! 37 = v37 \<and> d ! 38 = v38 \<and> d ! 39 = v39 \<and> d ! 40 = v40 \<and> d ! 41 = v41 \<and>
      d ! 42 = v42 \<and> d ! 43 = v43 \<and> d ! 44 = v44 \<and> d ! 45 = v45 \<and> d ! 46 = v46 \<and>
      d ! 47 = v47"
    "d ! 48 = v48 \<and> d ! 49 = v49 \<and> d ! 50 = v50 \<and> d ! 51 = v51 \<and> d ! 52 = v52 \<and>
      d ! 53 = v53 \<and> d ! 54 = v54 \<and> d ! 55 = v55 \<and> d ! 56 = v56 \<and> d ! 57 = v57 \<and>
      d ! 58 = v58 \<and> d ! 59 = v59 \<and> d ! 60 = v60 \<and> d ! 61 = v61 \<and> d ! 62 = v62 \<and>
      d ! 63 = v63"
    "d ! 64 = v64 \<and> d ! 65 = v65 \<and> d ! 66 = v66 \<and> d ! 67 = v67 \<and> d ! 68 = v68 \<and>
      d ! 69 = v69 \<and> d ! 70 = v70 \<and> d ! 71 = v71 \<and> d ! 72 = v72 \<and> d ! 73 = v73 \<and>
      d ! 74 = v74 \<and> d ! 75 = v75 \<and> d ! 76 = v76 \<and> d ! 77 = v77 \<and> d ! 78 = v78 \<and>
      d ! 79 = v79"
    "d ! 80 = v80 \<and> d ! 81 = v81 \<and> d ! 82 = v82 \<and> d ! 83 = v83 \<and> d ! 84 = v84 \<and>
      d ! 85 = v85 \<and> d ! 86 = v86 \<and> d ! 87 = v87 \<and> d ! 88 = v88 \<and> d ! 89 = v89 \<and>
      d ! 90 = v90 \<and> d ! 91 = v91 \<and> d ! 92 = v92 \<and> d ! 93 = v93 \<and> d ! 94 = v94 \<and>
      d ! 95 = v95"
    "d ! 96 = v96 \<and> d ! 97 = v97 \<and> d ! 98 = v98 \<and> d ! 99 = v99 \<and> d ! 100 = v100 \<and>
      d ! 101 = v101 \<and> d ! 102 = v102 \<and> d ! 103 = v103 \<and> d ! 104 = v104 \<and>
      d ! 105 = v105 \<and> d ! 106 = v106 \<and> d ! 107 = v107 \<and> d ! 108 = v108 \<and>
      d ! 109 = v109 \<and> d ! 110 = v110 \<and> d ! 111 = v111"
    "d ! 112 = v112 \<and> d ! 113 = v113 \<and> d ! 114 = v114 \<and> d ! 115 = v115 \<and>
      d ! 116 = v116 \<and> d ! 117 = v117 \<and> d ! 118 = v118 \<and> d ! 119 = v119 \<and>
      d ! 120 = v120 \<and> d ! 121 = v121 \<and> d ! 122 = v122 \<and> d ! 123 = v123 \<and>
      d ! 124 = v124 \<and> d ! 125 = v125 \<and> d ! 126 = v126 \<and> d ! 127 = v127"
    "d ! 128 = v128 \<and> d ! 129 = v129 \<and> d ! 130 = v130 \<and> d ! 131 = v131 \<and>
      d ! 132 = v132 \<and> d ! 133 = v133 \<and> d ! 134 = v134 \<and> d ! 135 = v135 \<and>
      d ! 136 = v136 \<and> d ! 137 = v137 \<and> d ! 138 = v138 \<and> d ! 139 = v139 \<and>
      d ! 140 = v140 \<and> d ! 141 = v141 \<and> d ! 142 = v142 \<and> d ! 143 = v143"
    "d ! 144 = v144 \<and> d ! 145 = v145 \<and> d ! 146 = v146 \<and> d ! 147 = v147 \<and>
      d ! 148 = v148 \<and> d ! 149 = v149 \<and> d ! 150 = v150 \<and> d ! 151 = v151 \<and>
      d ! 152 = v152 \<and> d ! 153 = v153 \<and> d ! 154 = v154 \<and> d ! 155 = v155 \<and>
      d ! 156 = v156 \<and> d ! 157 = v157 \<and> d ! 158 = v158 \<and> d ! 159 = v159"
    "d ! 160 = v160 \<and> d ! 161 = v161 \<and> d ! 162 = v162 \<and> d ! 163 = v163 \<and>
      d ! 164 = v164 \<and> d ! 165 = v165 \<and> d ! 166 = v166 \<and> d ! 167 = v167 \<and>
      d ! 168 = v168 \<and> d ! 169 = v169 \<and> d ! 170 = v170 \<and> d ! 171 = v171 \<and>
      d ! 172 = v172 \<and> d ! 173 = v173 \<and> d ! 174 = v174 \<and> d ! 175 = v175"
    "d ! 176 = v176 \<and> d ! 177 = v177 \<and> d ! 178 = v178 \<and> d ! 179 = v179 \<and>
      d ! 180 = v180 \<and> d ! 181 = v181 \<and> d ! 182 = v182 \<and> d ! 183 = v183 \<and>
      d ! 184 = v184 \<and> d ! 185 = v185 \<and> d ! 186 = v186 \<and> d ! 187 = v187 \<and>
      d ! 188 = v188 \<and> d ! 189 = v189 \<and> d ! 190 = v190 \<and> d ! 191 = v191"
    "d ! 192 = v192 \<and> d ! 193 = v193 \<and> d ! 194 = v194 \<and> d ! 195 = v195 \<and>
      d ! 196 = v196 \<and> d ! 197 = v197 \<and> d ! 198 = v198 \<and> d ! 199 = v199 \<and>
      d ! 200 = v200 \<and> d ! 201 = v201 \<and> d ! 202 = v202 \<and> d ! 203 = v203 \<and>
      d ! 204 = v204 \<and> d ! 205 = v205 \<and> d ! 206 = v206 \<and> d ! 207 = v207"
    "d ! 208 = v208 \<and> d ! 209 = v209 \<and> d ! 210 = v210 \<and> d ! 211 = v211 \<and>
      d ! 212 = v212 \<and> d ! 213 = v213 \<and> d ! 214 = v214 \<and> d ! 215 = v215 \<and>
      d ! 216 = v216 \<and> d ! 217 = v217 \<and> d ! 218 = v218 \<and> d ! 219 = v219 \<and>
      d ! 220 = v220 \<and> d ! 221 = v221 \<and> d ! 222 = v222 \<and> d ! 223 = v223"
    "d ! 224 = v224 \<and> d ! 225 = v225 \<and> d ! 226 = v226 \<and> d ! 227 = v227 \<and>
      d ! 228 = v228 \<and> d ! 229 = v229 \<and> d ! 230 = v230 \<and> d ! 231 = v231 \<and>
      d ! 232 = v232 \<and> d ! 233 = v233 \<and> d ! 234 = v234 \<and> d ! 235 = v235 \<and>
      d ! 236 = v236 \<and> d ! 237 = v237 \<and> d ! 238 = v238 \<and> d ! 239 = v239"
    "d ! 240 = v240 \<and> d ! 241 = v241 \<and> d ! 242 = v242 \<and> d ! 243 = v243 \<and>
      d ! 244 = v244 \<and> d ! 245 = v245 \<and> d ! 246 = v246 \<and> d ! 247 = v247 \<and>
      d ! 248 = v248 \<and> d ! 249 = v249 \<and> d ! 250 = v250 \<and> d ! 251 = v251 \<and>
      d ! 252 = v252 \<and> d ! 253 = v253 \<and> d ! 254 = v254 \<and> d ! 255 = v255"
    "length d = 256"
  using tally_filter [of "\<lambda>_. True" 0 d]
  by (simp_all add: table_entries [OF d, simplified]) (simp add: d)

section \<open>What they give\<close>

lemma sb_page_ok: "sb_page p \<Longrightarrow> page_ok p"
  by (auto simp: sb_page_def sound_tables_def page_ok_def list_all_iff entry_ok_def sb_entry_def CP_REPLACEMENT_def)

lemma sb_page_inside: "sb_page p \<Longrightarrow> reads_inside p b t"
  using byte_small by (simp add: sb_page_def sound_tables_def tally_filter reads_inside_def)

lemma ascending_distinct: "ascending xs \<Longrightarrow> distinct xs"
  by (simp add: distinct_conv_nth) (metis ascending_nth linorder_neqE_nat nat_less_le)

lemma sb_complete:
  assumes "sb_page p" "b < 256" "dec1 p ! b \<noteq> 65533"
  shows "(dec1 p ! b, b) \<in> set (rev_map p)"
proof -
  let ?d = "dec1 p" and ?r = "rev_map p"
  have s: "ascending (map fst ?r)" "length ?d = 256" "length ?r = length (filter (\<lambda>u. u \<noteq> 65533) ?d)"
    using assms(1) by (auto simp: sb_page_def sound_tables_def tally_filter)
  have e: "sb_entry ?d x" if "x \<in> set ?r" for x
    using assms(1) that by (auto simp: sb_page_def sound_tables_def list_all_iff)
  have dist: "distinct ?r" using ascending_distinct [OF s(1)] distinct_map by blast
  have inj: "inj_on snd (set ?r)"
  proof (rule inj_onI)
    fix x y
    assume "x \<in> set ?r" "y \<in> set ?r" "snd x = snd y"
    then show "x = y" using e [of x] e [of y] by (auto simp: sb_entry_def)
  qed
  let ?B = "{i. i < 256 \<and> ?d ! i \<noteq> 65533}"
  have "snd ` set ?r \<subseteq> ?B" using e by (force simp: sb_entry_def)
  moreover have "card (snd ` set ?r) = card ?B"
    using card_image [OF inj] distinct_card [OF dist] s(2,3) length_filter_conv_card [of "\<lambda>u. u \<noteq> 65533" ?d] by simp
  ultimately have "snd ` set ?r = ?B" by (simp add: card_subset_eq)
  then have "b \<in> snd ` set ?r" using assms(2,3) by simp
  then obtain cu where "(cu, b) \<in> set ?r" by auto
  then show ?thesis using e [of "(cu, b)"] by (simp add: sb_entry_def)
qed

text \<open>A byte with a unit is encoded back.\<close>

lemma sb_unit:
  assumes "sb_page p" "dec1 p ! unat (b :: u8) \<noteq> 65533"
  shows "rev_lookup p (word_of_nat (dec1 p ! unat b)) = Some (unat b)" "mb_bytes (unat b) = [b]"
proof -
  note b = byte_small [of b]
  note m = sb_complete [OF assms(1) b assms(2)]
  then have "dec1 p ! unat b < 65536"
    using assms(1) by (fastforce simp: sb_page_def sound_tables_def list_all_iff sb_entry_def)
  then have "unat (word_of_nat (dec1 p ! unat b) :: u16) = dec1 p ! unat b" by (simp add: unsigned_of_nat take_bit_nat_eq_self)
  then show "rev_lookup p (word_of_nat (dec1 p ! unat b)) = Some (unat b)"
    using rev_lookup_spec [of p] m assms(1) by (simp add: sb_page_def sound_tables_def)
  have "\<not> 255 < unat b" using b by simp
  then show "mb_bytes (unat b) = [b]" using b by (simp add: mb_bytes_def mask_8)
qed

lemma sb_decode:
  assumes "sb_page p"
  shows "cp_decode_loop p (length out + length bs) bs out lz =
    (out @ map (\<lambda>b. word_of_nat (dec1 p ! unat b)) bs, lz \<or> (\<exists>b \<in> set bs. dec1 p ! unat b = 65533), [])"
proof (induction bs arbitrary: out lz)
  case (Cons b bs)
  have "cp_char p b bs = (dec1 p ! unat b, dec1 p ! unat b = 65533, 1)"
    using assms by (simp add: cp_char_def sb_page_def CP_REPLACEMENT_def Let_def)
  then show ?case using Cons [of "out @ [word_of_nat (dec1 p ! unat b)]" "lz \<or> dec1 p ! unat b = 65533"]
    by (auto simp: cp_decode_loop.simps(2))
qed simp

lemma sb_encode:
  assumes "sb_page p" "\<forall>b \<in> set bs. dec1 p ! unat b \<noteq> 65533"
  shows "cp_encode_loop p (length out + length bs) i (map (\<lambda>b. word_of_nat (dec1 p ! unat b)) bs) out = CpBytes (out @ bs)"
  using assms(2)
proof (induction bs arbitrary: i out)
  case (Cons b bs)
  then show ?case using sb_unit [OF assms(1), of b] Cons.IH [of "out @ [b]" "Suc i"] by simp
qed simp

end
