(* ===== verification/WinPages.thy ===== *)
theory WinPages
  imports SbPage
begin

text \<open>
  The Windows pages of single bytes of \<^verbatim>\<open>src/src/charset_tables_data.c\<close>, transcribed entry by
  entry (page 1252 is in \<^verbatim>\<open>Cp1252\<close>), with the checks of their tables.
\<close>

section \<open>Page 1250\<close>

definition dec1_cp1250 :: "nat list" where
  "dec1_cp1250 =
   [0x0000, 0x0001, 0x0002, 0x0003, 0x0004, 0x0005, 0x0006, 0x0007, 0x0008, 0x0009, 0x000A, 0x000B, 0x000C,
    0x000D, 0x000E, 0x000F, 0x0010, 0x0011, 0x0012, 0x0013, 0x0014, 0x0015, 0x0016, 0x0017, 0x0018, 0x0019,
    0x001A, 0x001B, 0x001C, 0x001D, 0x001E, 0x001F] @
   [0x0020, 0x0021, 0x0022, 0x0023, 0x0024, 0x0025, 0x0026, 0x0027, 0x0028, 0x0029, 0x002A, 0x002B, 0x002C,
    0x002D, 0x002E, 0x002F, 0x0030, 0x0031, 0x0032, 0x0033, 0x0034, 0x0035, 0x0036, 0x0037, 0x0038, 0x0039,
    0x003A, 0x003B, 0x003C, 0x003D, 0x003E, 0x003F] @
   [0x0040, 0x0041, 0x0042, 0x0043, 0x0044, 0x0045, 0x0046, 0x0047, 0x0048, 0x0049, 0x004A, 0x004B, 0x004C,
    0x004D, 0x004E, 0x004F, 0x0050, 0x0051, 0x0052, 0x0053, 0x0054, 0x0055, 0x0056, 0x0057, 0x0058, 0x0059,
    0x005A, 0x005B, 0x005C, 0x005D, 0x005E, 0x005F] @
   [0x0060, 0x0061, 0x0062, 0x0063, 0x0064, 0x0065, 0x0066, 0x0067, 0x0068, 0x0069, 0x006A, 0x006B, 0x006C,
    0x006D, 0x006E, 0x006F, 0x0070, 0x0071, 0x0072, 0x0073, 0x0074, 0x0075, 0x0076, 0x0077, 0x0078, 0x0079,
    0x007A, 0x007B, 0x007C, 0x007D, 0x007E, 0x007F] @
   [0x20AC, 0xFFFD, 0x201A, 0xFFFD, 0x201E, 0x2026, 0x2020, 0x2021, 0xFFFD, 0x2030, 0x0160, 0x2039, 0x015A,
    0x0164, 0x017D, 0x0179, 0xFFFD, 0x2018, 0x2019, 0x201C, 0x201D, 0x2022, 0x2013, 0x2014, 0xFFFD, 0x2122,
    0x0161, 0x203A, 0x015B, 0x0165, 0x017E, 0x017A] @
   [0x00A0, 0x02C7, 0x02D8, 0x0141, 0x00A4, 0x0104, 0x00A6, 0x00A7, 0x00A8, 0x00A9, 0x015E, 0x00AB, 0x00AC,
    0x00AD, 0x00AE, 0x017B, 0x00B0, 0x00B1, 0x02DB, 0x0142, 0x00B4, 0x00B5, 0x00B6, 0x00B7, 0x00B8, 0x0105,
    0x015F, 0x00BB, 0x013D, 0x02DD, 0x013E, 0x017C] @
   [0x0154, 0x00C1, 0x00C2, 0x0102, 0x00C4, 0x0139, 0x0106, 0x00C7, 0x010C, 0x00C9, 0x0118, 0x00CB, 0x011A,
    0x00CD, 0x00CE, 0x010E, 0x0110, 0x0143, 0x0147, 0x00D3, 0x00D4, 0x0150, 0x00D6, 0x00D7, 0x0158, 0x016E,
    0x00DA, 0x0170, 0x00DC, 0x00DD, 0x0162, 0x00DF] @
   [0x0155, 0x00E1, 0x00E2, 0x0103, 0x00E4, 0x013A, 0x0107, 0x00E7, 0x010D, 0x00E9, 0x0119, 0x00EB, 0x011B,
    0x00ED, 0x00EE, 0x010F, 0x0111, 0x0144, 0x0148, 0x00F3, 0x00F4, 0x0151, 0x00F6, 0x00F7, 0x0159, 0x016F,
    0x00FA, 0x0171, 0x00FC, 0x00FD, 0x0163, 0x02D9]"

definition rev_cp1250 :: "(nat \<times> nat) list" where
  "rev_cp1250 =
   [(0x0000, 0x0000), (0x0001, 0x0001), (0x0002, 0x0002), (0x0003, 0x0003), (0x0004, 0x0004), (0x0005, 0x0005),
    (0x0006, 0x0006), (0x0007, 0x0007), (0x0008, 0x0008), (0x0009, 0x0009), (0x000A, 0x000A), (0x000B, 0x000B),
    (0x000C, 0x000C), (0x000D, 0x000D), (0x000E, 0x000E), (0x000F, 0x000F), (0x0010, 0x0010), (0x0011, 0x0011),
    (0x0012, 0x0012), (0x0013, 0x0013), (0x0014, 0x0014), (0x0015, 0x0015), (0x0016, 0x0016), (0x0017, 0x0017),
    (0x0018, 0x0018), (0x0019, 0x0019), (0x001A, 0x001A), (0x001B, 0x001B), (0x001C, 0x001C), (0x001D, 0x001D),
    (0x001E, 0x001E), (0x001F, 0x001F)] @
   [(0x0020, 0x0020), (0x0021, 0x0021), (0x0022, 0x0022), (0x0023, 0x0023), (0x0024, 0x0024), (0x0025, 0x0025),
    (0x0026, 0x0026), (0x0027, 0x0027), (0x0028, 0x0028), (0x0029, 0x0029), (0x002A, 0x002A), (0x002B, 0x002B),
    (0x002C, 0x002C), (0x002D, 0x002D), (0x002E, 0x002E), (0x002F, 0x002F), (0x0030, 0x0030), (0x0031, 0x0031),
    (0x0032, 0x0032), (0x0033, 0x0033), (0x0034, 0x0034), (0x0035, 0x0035), (0x0036, 0x0036), (0x0037, 0x0037),
    (0x0038, 0x0038), (0x0039, 0x0039), (0x003A, 0x003A), (0x003B, 0x003B), (0x003C, 0x003C), (0x003D, 0x003D),
    (0x003E, 0x003E), (0x003F, 0x003F)] @
   [(0x0040, 0x0040), (0x0041, 0x0041), (0x0042, 0x0042), (0x0043, 0x0043), (0x0044, 0x0044), (0x0045, 0x0045),
    (0x0046, 0x0046), (0x0047, 0x0047), (0x0048, 0x0048), (0x0049, 0x0049), (0x004A, 0x004A), (0x004B, 0x004B),
    (0x004C, 0x004C), (0x004D, 0x004D), (0x004E, 0x004E), (0x004F, 0x004F), (0x0050, 0x0050), (0x0051, 0x0051),
    (0x0052, 0x0052), (0x0053, 0x0053), (0x0054, 0x0054), (0x0055, 0x0055), (0x0056, 0x0056), (0x0057, 0x0057),
    (0x0058, 0x0058), (0x0059, 0x0059), (0x005A, 0x005A), (0x005B, 0x005B), (0x005C, 0x005C), (0x005D, 0x005D),
    (0x005E, 0x005E), (0x005F, 0x005F)] @
   [(0x0060, 0x0060), (0x0061, 0x0061), (0x0062, 0x0062), (0x0063, 0x0063), (0x0064, 0x0064), (0x0065, 0x0065),
    (0x0066, 0x0066), (0x0067, 0x0067), (0x0068, 0x0068), (0x0069, 0x0069), (0x006A, 0x006A), (0x006B, 0x006B),
    (0x006C, 0x006C), (0x006D, 0x006D), (0x006E, 0x006E), (0x006F, 0x006F), (0x0070, 0x0070), (0x0071, 0x0071),
    (0x0072, 0x0072), (0x0073, 0x0073), (0x0074, 0x0074), (0x0075, 0x0075), (0x0076, 0x0076), (0x0077, 0x0077),
    (0x0078, 0x0078), (0x0079, 0x0079), (0x007A, 0x007A), (0x007B, 0x007B), (0x007C, 0x007C), (0x007D, 0x007D),
    (0x007E, 0x007E), (0x007F, 0x007F)] @
   [(0x00A0, 0x00A0), (0x00A4, 0x00A4), (0x00A6, 0x00A6), (0x00A7, 0x00A7), (0x00A8, 0x00A8), (0x00A9, 0x00A9),
    (0x00AB, 0x00AB), (0x00AC, 0x00AC), (0x00AD, 0x00AD), (0x00AE, 0x00AE), (0x00B0, 0x00B0), (0x00B1, 0x00B1),
    (0x00B4, 0x00B4), (0x00B5, 0x00B5), (0x00B6, 0x00B6), (0x00B7, 0x00B7), (0x00B8, 0x00B8), (0x00BB, 0x00BB),
    (0x00C1, 0x00C1), (0x00C2, 0x00C2), (0x00C4, 0x00C4), (0x00C7, 0x00C7), (0x00C9, 0x00C9), (0x00CB, 0x00CB),
    (0x00CD, 0x00CD), (0x00CE, 0x00CE), (0x00D3, 0x00D3), (0x00D4, 0x00D4), (0x00D6, 0x00D6), (0x00D7, 0x00D7),
    (0x00DA, 0x00DA), (0x00DC, 0x00DC)] @
   [(0x00DD, 0x00DD), (0x00DF, 0x00DF), (0x00E1, 0x00E1), (0x00E2, 0x00E2), (0x00E4, 0x00E4), (0x00E7, 0x00E7),
    (0x00E9, 0x00E9), (0x00EB, 0x00EB), (0x00ED, 0x00ED), (0x00EE, 0x00EE), (0x00F3, 0x00F3), (0x00F4, 0x00F4),
    (0x00F6, 0x00F6), (0x00F7, 0x00F7), (0x00FA, 0x00FA), (0x00FC, 0x00FC), (0x00FD, 0x00FD), (0x0102, 0x00C3),
    (0x0103, 0x00E3), (0x0104, 0x00A5), (0x0105, 0x00B9), (0x0106, 0x00C6), (0x0107, 0x00E6), (0x010C, 0x00C8),
    (0x010D, 0x00E8), (0x010E, 0x00CF), (0x010F, 0x00EF), (0x0110, 0x00D0), (0x0111, 0x00F0), (0x0118, 0x00CA),
    (0x0119, 0x00EA), (0x011A, 0x00CC)] @
   [(0x011B, 0x00EC), (0x0139, 0x00C5), (0x013A, 0x00E5), (0x013D, 0x00BC), (0x013E, 0x00BE), (0x0141, 0x00A3),
    (0x0142, 0x00B3), (0x0143, 0x00D1), (0x0144, 0x00F1), (0x0147, 0x00D2), (0x0148, 0x00F2), (0x0150, 0x00D5),
    (0x0151, 0x00F5), (0x0154, 0x00C0), (0x0155, 0x00E0), (0x0158, 0x00D8), (0x0159, 0x00F8), (0x015A, 0x008C),
    (0x015B, 0x009C), (0x015E, 0x00AA), (0x015F, 0x00BA), (0x0160, 0x008A), (0x0161, 0x009A), (0x0162, 0x00DE),
    (0x0163, 0x00FE), (0x0164, 0x008D), (0x0165, 0x009D), (0x016E, 0x00D9), (0x016F, 0x00F9), (0x0170, 0x00DB),
    (0x0171, 0x00FB), (0x0179, 0x008F)] @
   [(0x017A, 0x009F), (0x017B, 0x00AF), (0x017C, 0x00BF), (0x017D, 0x008E), (0x017E, 0x009E), (0x02C7, 0x00A1),
    (0x02D8, 0x00A2), (0x02D9, 0x00FF), (0x02DB, 0x00B2), (0x02DD, 0x00BD), (0x2013, 0x0096), (0x2014, 0x0097),
    (0x2018, 0x0091), (0x2019, 0x0092), (0x201A, 0x0082), (0x201C, 0x0093), (0x201D, 0x0094), (0x201E, 0x0084),
    (0x2020, 0x0086), (0x2021, 0x0087), (0x2022, 0x0095), (0x2026, 0x0085), (0x2030, 0x0089), (0x2039, 0x008B),
    (0x203A, 0x009B), (0x20AC, 0x0080), (0x2122, 0x0099)]"

definition page_1250 :: CpPage where
  "page_1250 = \<lparr> cp = 1250, is_dbcs = False, dec1 = dec1_cp1250, lead = [], leadrow = [], dec2 = [],
     rev_map = rev_cp1250 \<rparr>"

lemmas at_1250 = row_nth [OF dec1_cp1250_def]

lemma ascending_1250: "ascending (map fst rev_cp1250)"
  by (simp add: rev_cp1250_def)

lemma entries_1250: "list_all (sb_entry dec1_cp1250) rev_cp1250"
  by (simp add: rev_cp1250_def sb_entry_def at_1250)

lemma tally_1250: "tally (\<lambda>_. True) 0 dec1_cp1250 = 256"
  "tally (\<lambda>_. True) 0 rev_cp1250 = tally (\<lambda>u. u \<noteq> 65533) 0 dec1_cp1250"
  by (simp_all add: dec1_cp1250_def rev_cp1250_def)

lemma sb_page_1250: "sb_page page_1250"
  by (simp add: sb_page_def sound_tables_def page_1250_def ascending_1250 entries_1250 tally_1250)

lemma ascii_1250: "ascii_from 0 (dec1 page_1250)"
  by (simp add: page_1250_def dec1_cp1250_def)

section \<open>Page 1251\<close>

definition dec1_cp1251 :: "nat list" where
  "dec1_cp1251 =
   [0x0000, 0x0001, 0x0002, 0x0003, 0x0004, 0x0005, 0x0006, 0x0007, 0x0008, 0x0009, 0x000A, 0x000B, 0x000C,
    0x000D, 0x000E, 0x000F, 0x0010, 0x0011, 0x0012, 0x0013, 0x0014, 0x0015, 0x0016, 0x0017, 0x0018, 0x0019,
    0x001A, 0x001B, 0x001C, 0x001D, 0x001E, 0x001F] @
   [0x0020, 0x0021, 0x0022, 0x0023, 0x0024, 0x0025, 0x0026, 0x0027, 0x0028, 0x0029, 0x002A, 0x002B, 0x002C,
    0x002D, 0x002E, 0x002F, 0x0030, 0x0031, 0x0032, 0x0033, 0x0034, 0x0035, 0x0036, 0x0037, 0x0038, 0x0039,
    0x003A, 0x003B, 0x003C, 0x003D, 0x003E, 0x003F] @
   [0x0040, 0x0041, 0x0042, 0x0043, 0x0044, 0x0045, 0x0046, 0x0047, 0x0048, 0x0049, 0x004A, 0x004B, 0x004C,
    0x004D, 0x004E, 0x004F, 0x0050, 0x0051, 0x0052, 0x0053, 0x0054, 0x0055, 0x0056, 0x0057, 0x0058, 0x0059,
    0x005A, 0x005B, 0x005C, 0x005D, 0x005E, 0x005F] @
   [0x0060, 0x0061, 0x0062, 0x0063, 0x0064, 0x0065, 0x0066, 0x0067, 0x0068, 0x0069, 0x006A, 0x006B, 0x006C,
    0x006D, 0x006E, 0x006F, 0x0070, 0x0071, 0x0072, 0x0073, 0x0074, 0x0075, 0x0076, 0x0077, 0x0078, 0x0079,
    0x007A, 0x007B, 0x007C, 0x007D, 0x007E, 0x007F] @
   [0x0402, 0x0403, 0x201A, 0x0453, 0x201E, 0x2026, 0x2020, 0x2021, 0x20AC, 0x2030, 0x0409, 0x2039, 0x040A,
    0x040C, 0x040B, 0x040F, 0x0452, 0x2018, 0x2019, 0x201C, 0x201D, 0x2022, 0x2013, 0x2014, 0xFFFD, 0x2122,
    0x0459, 0x203A, 0x045A, 0x045C, 0x045B, 0x045F] @
   [0x00A0, 0x040E, 0x045E, 0x0408, 0x00A4, 0x0490, 0x00A6, 0x00A7, 0x0401, 0x00A9, 0x0404, 0x00AB, 0x00AC,
    0x00AD, 0x00AE, 0x0407, 0x00B0, 0x00B1, 0x0406, 0x0456, 0x0491, 0x00B5, 0x00B6, 0x00B7, 0x0451, 0x2116,
    0x0454, 0x00BB, 0x0458, 0x0405, 0x0455, 0x0457] @
   [0x0410, 0x0411, 0x0412, 0x0413, 0x0414, 0x0415, 0x0416, 0x0417, 0x0418, 0x0419, 0x041A, 0x041B, 0x041C,
    0x041D, 0x041E, 0x041F, 0x0420, 0x0421, 0x0422, 0x0423, 0x0424, 0x0425, 0x0426, 0x0427, 0x0428, 0x0429,
    0x042A, 0x042B, 0x042C, 0x042D, 0x042E, 0x042F] @
   [0x0430, 0x0431, 0x0432, 0x0433, 0x0434, 0x0435, 0x0436, 0x0437, 0x0438, 0x0439, 0x043A, 0x043B, 0x043C,
    0x043D, 0x043E, 0x043F, 0x0440, 0x0441, 0x0442, 0x0443, 0x0444, 0x0445, 0x0446, 0x0447, 0x0448, 0x0449,
    0x044A, 0x044B, 0x044C, 0x044D, 0x044E, 0x044F]"

definition rev_cp1251 :: "(nat \<times> nat) list" where
  "rev_cp1251 =
   [(0x0000, 0x0000), (0x0001, 0x0001), (0x0002, 0x0002), (0x0003, 0x0003), (0x0004, 0x0004), (0x0005, 0x0005),
    (0x0006, 0x0006), (0x0007, 0x0007), (0x0008, 0x0008), (0x0009, 0x0009), (0x000A, 0x000A), (0x000B, 0x000B),
    (0x000C, 0x000C), (0x000D, 0x000D), (0x000E, 0x000E), (0x000F, 0x000F), (0x0010, 0x0010), (0x0011, 0x0011),
    (0x0012, 0x0012), (0x0013, 0x0013), (0x0014, 0x0014), (0x0015, 0x0015), (0x0016, 0x0016), (0x0017, 0x0017),
    (0x0018, 0x0018), (0x0019, 0x0019), (0x001A, 0x001A), (0x001B, 0x001B), (0x001C, 0x001C), (0x001D, 0x001D),
    (0x001E, 0x001E), (0x001F, 0x001F)] @
   [(0x0020, 0x0020), (0x0021, 0x0021), (0x0022, 0x0022), (0x0023, 0x0023), (0x0024, 0x0024), (0x0025, 0x0025),
    (0x0026, 0x0026), (0x0027, 0x0027), (0x0028, 0x0028), (0x0029, 0x0029), (0x002A, 0x002A), (0x002B, 0x002B),
    (0x002C, 0x002C), (0x002D, 0x002D), (0x002E, 0x002E), (0x002F, 0x002F), (0x0030, 0x0030), (0x0031, 0x0031),
    (0x0032, 0x0032), (0x0033, 0x0033), (0x0034, 0x0034), (0x0035, 0x0035), (0x0036, 0x0036), (0x0037, 0x0037),
    (0x0038, 0x0038), (0x0039, 0x0039), (0x003A, 0x003A), (0x003B, 0x003B), (0x003C, 0x003C), (0x003D, 0x003D),
    (0x003E, 0x003E), (0x003F, 0x003F)] @
   [(0x0040, 0x0040), (0x0041, 0x0041), (0x0042, 0x0042), (0x0043, 0x0043), (0x0044, 0x0044), (0x0045, 0x0045),
    (0x0046, 0x0046), (0x0047, 0x0047), (0x0048, 0x0048), (0x0049, 0x0049), (0x004A, 0x004A), (0x004B, 0x004B),
    (0x004C, 0x004C), (0x004D, 0x004D), (0x004E, 0x004E), (0x004F, 0x004F), (0x0050, 0x0050), (0x0051, 0x0051),
    (0x0052, 0x0052), (0x0053, 0x0053), (0x0054, 0x0054), (0x0055, 0x0055), (0x0056, 0x0056), (0x0057, 0x0057),
    (0x0058, 0x0058), (0x0059, 0x0059), (0x005A, 0x005A), (0x005B, 0x005B), (0x005C, 0x005C), (0x005D, 0x005D),
    (0x005E, 0x005E), (0x005F, 0x005F)] @
   [(0x0060, 0x0060), (0x0061, 0x0061), (0x0062, 0x0062), (0x0063, 0x0063), (0x0064, 0x0064), (0x0065, 0x0065),
    (0x0066, 0x0066), (0x0067, 0x0067), (0x0068, 0x0068), (0x0069, 0x0069), (0x006A, 0x006A), (0x006B, 0x006B),
    (0x006C, 0x006C), (0x006D, 0x006D), (0x006E, 0x006E), (0x006F, 0x006F), (0x0070, 0x0070), (0x0071, 0x0071),
    (0x0072, 0x0072), (0x0073, 0x0073), (0x0074, 0x0074), (0x0075, 0x0075), (0x0076, 0x0076), (0x0077, 0x0077),
    (0x0078, 0x0078), (0x0079, 0x0079), (0x007A, 0x007A), (0x007B, 0x007B), (0x007C, 0x007C), (0x007D, 0x007D),
    (0x007E, 0x007E), (0x007F, 0x007F)] @
   [(0x00A0, 0x00A0), (0x00A4, 0x00A4), (0x00A6, 0x00A6), (0x00A7, 0x00A7), (0x00A9, 0x00A9), (0x00AB, 0x00AB),
    (0x00AC, 0x00AC), (0x00AD, 0x00AD), (0x00AE, 0x00AE), (0x00B0, 0x00B0), (0x00B1, 0x00B1), (0x00B5, 0x00B5),
    (0x00B6, 0x00B6), (0x00B7, 0x00B7), (0x00BB, 0x00BB), (0x0401, 0x00A8), (0x0402, 0x0080), (0x0403, 0x0081),
    (0x0404, 0x00AA), (0x0405, 0x00BD), (0x0406, 0x00B2), (0x0407, 0x00AF), (0x0408, 0x00A3), (0x0409, 0x008A),
    (0x040A, 0x008C), (0x040B, 0x008E), (0x040C, 0x008D), (0x040E, 0x00A1), (0x040F, 0x008F), (0x0410, 0x00C0),
    (0x0411, 0x00C1), (0x0412, 0x00C2)] @
   [(0x0413, 0x00C3), (0x0414, 0x00C4), (0x0415, 0x00C5), (0x0416, 0x00C6), (0x0417, 0x00C7), (0x0418, 0x00C8),
    (0x0419, 0x00C9), (0x041A, 0x00CA), (0x041B, 0x00CB), (0x041C, 0x00CC), (0x041D, 0x00CD), (0x041E, 0x00CE),
    (0x041F, 0x00CF), (0x0420, 0x00D0), (0x0421, 0x00D1), (0x0422, 0x00D2), (0x0423, 0x00D3), (0x0424, 0x00D4),
    (0x0425, 0x00D5), (0x0426, 0x00D6), (0x0427, 0x00D7), (0x0428, 0x00D8), (0x0429, 0x00D9), (0x042A, 0x00DA),
    (0x042B, 0x00DB), (0x042C, 0x00DC), (0x042D, 0x00DD), (0x042E, 0x00DE), (0x042F, 0x00DF), (0x0430, 0x00E0),
    (0x0431, 0x00E1), (0x0432, 0x00E2)] @
   [(0x0433, 0x00E3), (0x0434, 0x00E4), (0x0435, 0x00E5), (0x0436, 0x00E6), (0x0437, 0x00E7), (0x0438, 0x00E8),
    (0x0439, 0x00E9), (0x043A, 0x00EA), (0x043B, 0x00EB), (0x043C, 0x00EC), (0x043D, 0x00ED), (0x043E, 0x00EE),
    (0x043F, 0x00EF), (0x0440, 0x00F0), (0x0441, 0x00F1), (0x0442, 0x00F2), (0x0443, 0x00F3), (0x0444, 0x00F4),
    (0x0445, 0x00F5), (0x0446, 0x00F6), (0x0447, 0x00F7), (0x0448, 0x00F8), (0x0449, 0x00F9), (0x044A, 0x00FA),
    (0x044B, 0x00FB), (0x044C, 0x00FC), (0x044D, 0x00FD), (0x044E, 0x00FE), (0x044F, 0x00FF), (0x0451, 0x00B8),
    (0x0452, 0x0090), (0x0453, 0x0083)] @
   [(0x0454, 0x00BA), (0x0455, 0x00BE), (0x0456, 0x00B3), (0x0457, 0x00BF), (0x0458, 0x00BC), (0x0459, 0x009A),
    (0x045A, 0x009C), (0x045B, 0x009E), (0x045C, 0x009D), (0x045E, 0x00A2), (0x045F, 0x009F), (0x0490, 0x00A5),
    (0x0491, 0x00B4), (0x2013, 0x0096), (0x2014, 0x0097), (0x2018, 0x0091), (0x2019, 0x0092), (0x201A, 0x0082),
    (0x201C, 0x0093), (0x201D, 0x0094), (0x201E, 0x0084), (0x2020, 0x0086), (0x2021, 0x0087), (0x2022, 0x0095),
    (0x2026, 0x0085), (0x2030, 0x0089), (0x2039, 0x008B), (0x203A, 0x009B), (0x20AC, 0x0088), (0x2116, 0x00B9),
    (0x2122, 0x0099)]"

definition page_1251 :: CpPage where
  "page_1251 = \<lparr> cp = 1251, is_dbcs = False, dec1 = dec1_cp1251, lead = [], leadrow = [], dec2 = [],
     rev_map = rev_cp1251 \<rparr>"

lemmas at_1251 = row_nth [OF dec1_cp1251_def]

lemma ascending_1251: "ascending (map fst rev_cp1251)"
  by (simp add: rev_cp1251_def)

lemma entries_1251: "list_all (sb_entry dec1_cp1251) rev_cp1251"
  by (simp add: rev_cp1251_def sb_entry_def at_1251)

lemma tally_1251: "tally (\<lambda>_. True) 0 dec1_cp1251 = 256"
  "tally (\<lambda>_. True) 0 rev_cp1251 = tally (\<lambda>u. u \<noteq> 65533) 0 dec1_cp1251"
  by (simp_all add: dec1_cp1251_def rev_cp1251_def)

lemma sb_page_1251: "sb_page page_1251"
  by (simp add: sb_page_def sound_tables_def page_1251_def ascending_1251 entries_1251 tally_1251)

lemma ascii_1251: "ascii_from 0 (dec1 page_1251)"
  by (simp add: page_1251_def dec1_cp1251_def)

section \<open>Page 1253\<close>

definition dec1_cp1253 :: "nat list" where
  "dec1_cp1253 =
   [0x0000, 0x0001, 0x0002, 0x0003, 0x0004, 0x0005, 0x0006, 0x0007, 0x0008, 0x0009, 0x000A, 0x000B, 0x000C,
    0x000D, 0x000E, 0x000F, 0x0010, 0x0011, 0x0012, 0x0013, 0x0014, 0x0015, 0x0016, 0x0017, 0x0018, 0x0019,
    0x001A, 0x001B, 0x001C, 0x001D, 0x001E, 0x001F] @
   [0x0020, 0x0021, 0x0022, 0x0023, 0x0024, 0x0025, 0x0026, 0x0027, 0x0028, 0x0029, 0x002A, 0x002B, 0x002C,
    0x002D, 0x002E, 0x002F, 0x0030, 0x0031, 0x0032, 0x0033, 0x0034, 0x0035, 0x0036, 0x0037, 0x0038, 0x0039,
    0x003A, 0x003B, 0x003C, 0x003D, 0x003E, 0x003F] @
   [0x0040, 0x0041, 0x0042, 0x0043, 0x0044, 0x0045, 0x0046, 0x0047, 0x0048, 0x0049, 0x004A, 0x004B, 0x004C,
    0x004D, 0x004E, 0x004F, 0x0050, 0x0051, 0x0052, 0x0053, 0x0054, 0x0055, 0x0056, 0x0057, 0x0058, 0x0059,
    0x005A, 0x005B, 0x005C, 0x005D, 0x005E, 0x005F] @
   [0x0060, 0x0061, 0x0062, 0x0063, 0x0064, 0x0065, 0x0066, 0x0067, 0x0068, 0x0069, 0x006A, 0x006B, 0x006C,
    0x006D, 0x006E, 0x006F, 0x0070, 0x0071, 0x0072, 0x0073, 0x0074, 0x0075, 0x0076, 0x0077, 0x0078, 0x0079,
    0x007A, 0x007B, 0x007C, 0x007D, 0x007E, 0x007F] @
   [0x20AC, 0xFFFD, 0x201A, 0x0192, 0x201E, 0x2026, 0x2020, 0x2021, 0xFFFD, 0x2030, 0xFFFD, 0x2039, 0xFFFD,
    0xFFFD, 0xFFFD, 0xFFFD, 0xFFFD, 0x2018, 0x2019, 0x201C, 0x201D, 0x2022, 0x2013, 0x2014, 0xFFFD, 0x2122,
    0xFFFD, 0x203A, 0xFFFD, 0xFFFD, 0xFFFD, 0xFFFD] @
   [0x00A0, 0x0385, 0x0386, 0x00A3, 0x00A4, 0x00A5, 0x00A6, 0x00A7, 0x00A8, 0x00A9, 0xFFFD, 0x00AB, 0x00AC,
    0x00AD, 0x00AE, 0x2015, 0x00B0, 0x00B1, 0x00B2, 0x00B3, 0x0384, 0x00B5, 0x00B6, 0x00B7, 0x0388, 0x0389,
    0x038A, 0x00BB, 0x038C, 0x00BD, 0x038E, 0x038F] @
   [0x0390, 0x0391, 0x0392, 0x0393, 0x0394, 0x0395, 0x0396, 0x0397, 0x0398, 0x0399, 0x039A, 0x039B, 0x039C,
    0x039D, 0x039E, 0x039F, 0x03A0, 0x03A1, 0xFFFD, 0x03A3, 0x03A4, 0x03A5, 0x03A6, 0x03A7, 0x03A8, 0x03A9,
    0x03AA, 0x03AB, 0x03AC, 0x03AD, 0x03AE, 0x03AF] @
   [0x03B0, 0x03B1, 0x03B2, 0x03B3, 0x03B4, 0x03B5, 0x03B6, 0x03B7, 0x03B8, 0x03B9, 0x03BA, 0x03BB, 0x03BC,
    0x03BD, 0x03BE, 0x03BF, 0x03C0, 0x03C1, 0x03C2, 0x03C3, 0x03C4, 0x03C5, 0x03C6, 0x03C7, 0x03C8, 0x03C9,
    0x03CA, 0x03CB, 0x03CC, 0x03CD, 0x03CE, 0xFFFD]"

definition rev_cp1253 :: "(nat \<times> nat) list" where
  "rev_cp1253 =
   [(0x0000, 0x0000), (0x0001, 0x0001), (0x0002, 0x0002), (0x0003, 0x0003), (0x0004, 0x0004), (0x0005, 0x0005),
    (0x0006, 0x0006), (0x0007, 0x0007), (0x0008, 0x0008), (0x0009, 0x0009), (0x000A, 0x000A), (0x000B, 0x000B),
    (0x000C, 0x000C), (0x000D, 0x000D), (0x000E, 0x000E), (0x000F, 0x000F), (0x0010, 0x0010), (0x0011, 0x0011),
    (0x0012, 0x0012), (0x0013, 0x0013), (0x0014, 0x0014), (0x0015, 0x0015), (0x0016, 0x0016), (0x0017, 0x0017),
    (0x0018, 0x0018), (0x0019, 0x0019), (0x001A, 0x001A), (0x001B, 0x001B), (0x001C, 0x001C), (0x001D, 0x001D),
    (0x001E, 0x001E), (0x001F, 0x001F)] @
   [(0x0020, 0x0020), (0x0021, 0x0021), (0x0022, 0x0022), (0x0023, 0x0023), (0x0024, 0x0024), (0x0025, 0x0025),
    (0x0026, 0x0026), (0x0027, 0x0027), (0x0028, 0x0028), (0x0029, 0x0029), (0x002A, 0x002A), (0x002B, 0x002B),
    (0x002C, 0x002C), (0x002D, 0x002D), (0x002E, 0x002E), (0x002F, 0x002F), (0x0030, 0x0030), (0x0031, 0x0031),
    (0x0032, 0x0032), (0x0033, 0x0033), (0x0034, 0x0034), (0x0035, 0x0035), (0x0036, 0x0036), (0x0037, 0x0037),
    (0x0038, 0x0038), (0x0039, 0x0039), (0x003A, 0x003A), (0x003B, 0x003B), (0x003C, 0x003C), (0x003D, 0x003D),
    (0x003E, 0x003E), (0x003F, 0x003F)] @
   [(0x0040, 0x0040), (0x0041, 0x0041), (0x0042, 0x0042), (0x0043, 0x0043), (0x0044, 0x0044), (0x0045, 0x0045),
    (0x0046, 0x0046), (0x0047, 0x0047), (0x0048, 0x0048), (0x0049, 0x0049), (0x004A, 0x004A), (0x004B, 0x004B),
    (0x004C, 0x004C), (0x004D, 0x004D), (0x004E, 0x004E), (0x004F, 0x004F), (0x0050, 0x0050), (0x0051, 0x0051),
    (0x0052, 0x0052), (0x0053, 0x0053), (0x0054, 0x0054), (0x0055, 0x0055), (0x0056, 0x0056), (0x0057, 0x0057),
    (0x0058, 0x0058), (0x0059, 0x0059), (0x005A, 0x005A), (0x005B, 0x005B), (0x005C, 0x005C), (0x005D, 0x005D),
    (0x005E, 0x005E), (0x005F, 0x005F)] @
   [(0x0060, 0x0060), (0x0061, 0x0061), (0x0062, 0x0062), (0x0063, 0x0063), (0x0064, 0x0064), (0x0065, 0x0065),
    (0x0066, 0x0066), (0x0067, 0x0067), (0x0068, 0x0068), (0x0069, 0x0069), (0x006A, 0x006A), (0x006B, 0x006B),
    (0x006C, 0x006C), (0x006D, 0x006D), (0x006E, 0x006E), (0x006F, 0x006F), (0x0070, 0x0070), (0x0071, 0x0071),
    (0x0072, 0x0072), (0x0073, 0x0073), (0x0074, 0x0074), (0x0075, 0x0075), (0x0076, 0x0076), (0x0077, 0x0077),
    (0x0078, 0x0078), (0x0079, 0x0079), (0x007A, 0x007A), (0x007B, 0x007B), (0x007C, 0x007C), (0x007D, 0x007D),
    (0x007E, 0x007E), (0x007F, 0x007F)] @
   [(0x00A0, 0x00A0), (0x00A3, 0x00A3), (0x00A4, 0x00A4), (0x00A5, 0x00A5), (0x00A6, 0x00A6), (0x00A7, 0x00A7),
    (0x00A8, 0x00A8), (0x00A9, 0x00A9), (0x00AB, 0x00AB), (0x00AC, 0x00AC), (0x00AD, 0x00AD), (0x00AE, 0x00AE),
    (0x00B0, 0x00B0), (0x00B1, 0x00B1), (0x00B2, 0x00B2), (0x00B3, 0x00B3), (0x00B5, 0x00B5), (0x00B6, 0x00B6),
    (0x00B7, 0x00B7), (0x00BB, 0x00BB), (0x00BD, 0x00BD), (0x0192, 0x0083), (0x0384, 0x00B4), (0x0385, 0x00A1),
    (0x0386, 0x00A2), (0x0388, 0x00B8), (0x0389, 0x00B9), (0x038A, 0x00BA), (0x038C, 0x00BC), (0x038E, 0x00BE),
    (0x038F, 0x00BF), (0x0390, 0x00C0)] @
   [(0x0391, 0x00C1), (0x0392, 0x00C2), (0x0393, 0x00C3), (0x0394, 0x00C4), (0x0395, 0x00C5), (0x0396, 0x00C6),
    (0x0397, 0x00C7), (0x0398, 0x00C8), (0x0399, 0x00C9), (0x039A, 0x00CA), (0x039B, 0x00CB), (0x039C, 0x00CC),
    (0x039D, 0x00CD), (0x039E, 0x00CE), (0x039F, 0x00CF), (0x03A0, 0x00D0), (0x03A1, 0x00D1), (0x03A3, 0x00D3),
    (0x03A4, 0x00D4), (0x03A5, 0x00D5), (0x03A6, 0x00D6), (0x03A7, 0x00D7), (0x03A8, 0x00D8), (0x03A9, 0x00D9),
    (0x03AA, 0x00DA), (0x03AB, 0x00DB), (0x03AC, 0x00DC), (0x03AD, 0x00DD), (0x03AE, 0x00DE), (0x03AF, 0x00DF),
    (0x03B0, 0x00E0), (0x03B1, 0x00E1)] @
   [(0x03B2, 0x00E2), (0x03B3, 0x00E3), (0x03B4, 0x00E4), (0x03B5, 0x00E5), (0x03B6, 0x00E6), (0x03B7, 0x00E7),
    (0x03B8, 0x00E8), (0x03B9, 0x00E9), (0x03BA, 0x00EA), (0x03BB, 0x00EB), (0x03BC, 0x00EC), (0x03BD, 0x00ED),
    (0x03BE, 0x00EE), (0x03BF, 0x00EF), (0x03C0, 0x00F0), (0x03C1, 0x00F1), (0x03C2, 0x00F2), (0x03C3, 0x00F3),
    (0x03C4, 0x00F4), (0x03C5, 0x00F5), (0x03C6, 0x00F6), (0x03C7, 0x00F7), (0x03C8, 0x00F8), (0x03C9, 0x00F9),
    (0x03CA, 0x00FA), (0x03CB, 0x00FB), (0x03CC, 0x00FC), (0x03CD, 0x00FD), (0x03CE, 0x00FE), (0x2013, 0x0096),
    (0x2014, 0x0097), (0x2015, 0x00AF)] @
   [(0x2018, 0x0091), (0x2019, 0x0092), (0x201A, 0x0082), (0x201C, 0x0093), (0x201D, 0x0094), (0x201E, 0x0084),
    (0x2020, 0x0086), (0x2021, 0x0087), (0x2022, 0x0095), (0x2026, 0x0085), (0x2030, 0x0089), (0x2039, 0x008B),
    (0x203A, 0x009B), (0x20AC, 0x0080), (0x2122, 0x0099)]"

definition page_1253 :: CpPage where
  "page_1253 = \<lparr> cp = 1253, is_dbcs = False, dec1 = dec1_cp1253, lead = [], leadrow = [], dec2 = [],
     rev_map = rev_cp1253 \<rparr>"

lemmas at_1253 = row_nth [OF dec1_cp1253_def]

lemma ascending_1253: "ascending (map fst rev_cp1253)"
  by (simp add: rev_cp1253_def)

lemma entries_1253: "list_all (sb_entry dec1_cp1253) rev_cp1253"
  by (simp add: rev_cp1253_def sb_entry_def at_1253)

lemma tally_1253: "tally (\<lambda>_. True) 0 dec1_cp1253 = 256"
  "tally (\<lambda>_. True) 0 rev_cp1253 = tally (\<lambda>u. u \<noteq> 65533) 0 dec1_cp1253"
  by (simp_all add: dec1_cp1253_def rev_cp1253_def)

lemma sb_page_1253: "sb_page page_1253"
  by (simp add: sb_page_def sound_tables_def page_1253_def ascending_1253 entries_1253 tally_1253)

lemma ascii_1253: "ascii_from 0 (dec1 page_1253)"
  by (simp add: page_1253_def dec1_cp1253_def)

section \<open>Page 1254\<close>

definition dec1_cp1254 :: "nat list" where
  "dec1_cp1254 =
   [0x0000, 0x0001, 0x0002, 0x0003, 0x0004, 0x0005, 0x0006, 0x0007, 0x0008, 0x0009, 0x000A, 0x000B, 0x000C,
    0x000D, 0x000E, 0x000F, 0x0010, 0x0011, 0x0012, 0x0013, 0x0014, 0x0015, 0x0016, 0x0017, 0x0018, 0x0019,
    0x001A, 0x001B, 0x001C, 0x001D, 0x001E, 0x001F] @
   [0x0020, 0x0021, 0x0022, 0x0023, 0x0024, 0x0025, 0x0026, 0x0027, 0x0028, 0x0029, 0x002A, 0x002B, 0x002C,
    0x002D, 0x002E, 0x002F, 0x0030, 0x0031, 0x0032, 0x0033, 0x0034, 0x0035, 0x0036, 0x0037, 0x0038, 0x0039,
    0x003A, 0x003B, 0x003C, 0x003D, 0x003E, 0x003F] @
   [0x0040, 0x0041, 0x0042, 0x0043, 0x0044, 0x0045, 0x0046, 0x0047, 0x0048, 0x0049, 0x004A, 0x004B, 0x004C,
    0x004D, 0x004E, 0x004F, 0x0050, 0x0051, 0x0052, 0x0053, 0x0054, 0x0055, 0x0056, 0x0057, 0x0058, 0x0059,
    0x005A, 0x005B, 0x005C, 0x005D, 0x005E, 0x005F] @
   [0x0060, 0x0061, 0x0062, 0x0063, 0x0064, 0x0065, 0x0066, 0x0067, 0x0068, 0x0069, 0x006A, 0x006B, 0x006C,
    0x006D, 0x006E, 0x006F, 0x0070, 0x0071, 0x0072, 0x0073, 0x0074, 0x0075, 0x0076, 0x0077, 0x0078, 0x0079,
    0x007A, 0x007B, 0x007C, 0x007D, 0x007E, 0x007F] @
   [0x20AC, 0xFFFD, 0x201A, 0x0192, 0x201E, 0x2026, 0x2020, 0x2021, 0x02C6, 0x2030, 0x0160, 0x2039, 0x0152,
    0xFFFD, 0xFFFD, 0xFFFD, 0xFFFD, 0x2018, 0x2019, 0x201C, 0x201D, 0x2022, 0x2013, 0x2014, 0x02DC, 0x2122,
    0x0161, 0x203A, 0x0153, 0xFFFD, 0xFFFD, 0x0178] @
   [0x00A0, 0x00A1, 0x00A2, 0x00A3, 0x00A4, 0x00A5, 0x00A6, 0x00A7, 0x00A8, 0x00A9, 0x00AA, 0x00AB, 0x00AC,
    0x00AD, 0x00AE, 0x00AF, 0x00B0, 0x00B1, 0x00B2, 0x00B3, 0x00B4, 0x00B5, 0x00B6, 0x00B7, 0x00B8, 0x00B9,
    0x00BA, 0x00BB, 0x00BC, 0x00BD, 0x00BE, 0x00BF] @
   [0x00C0, 0x00C1, 0x00C2, 0x00C3, 0x00C4, 0x00C5, 0x00C6, 0x00C7, 0x00C8, 0x00C9, 0x00CA, 0x00CB, 0x00CC,
    0x00CD, 0x00CE, 0x00CF, 0x011E, 0x00D1, 0x00D2, 0x00D3, 0x00D4, 0x00D5, 0x00D6, 0x00D7, 0x00D8, 0x00D9,
    0x00DA, 0x00DB, 0x00DC, 0x0130, 0x015E, 0x00DF] @
   [0x00E0, 0x00E1, 0x00E2, 0x00E3, 0x00E4, 0x00E5, 0x00E6, 0x00E7, 0x00E8, 0x00E9, 0x00EA, 0x00EB, 0x00EC,
    0x00ED, 0x00EE, 0x00EF, 0x011F, 0x00F1, 0x00F2, 0x00F3, 0x00F4, 0x00F5, 0x00F6, 0x00F7, 0x00F8, 0x00F9,
    0x00FA, 0x00FB, 0x00FC, 0x0131, 0x015F, 0x00FF]"

definition rev_cp1254 :: "(nat \<times> nat) list" where
  "rev_cp1254 =
   [(0x0000, 0x0000), (0x0001, 0x0001), (0x0002, 0x0002), (0x0003, 0x0003), (0x0004, 0x0004), (0x0005, 0x0005),
    (0x0006, 0x0006), (0x0007, 0x0007), (0x0008, 0x0008), (0x0009, 0x0009), (0x000A, 0x000A), (0x000B, 0x000B),
    (0x000C, 0x000C), (0x000D, 0x000D), (0x000E, 0x000E), (0x000F, 0x000F), (0x0010, 0x0010), (0x0011, 0x0011),
    (0x0012, 0x0012), (0x0013, 0x0013), (0x0014, 0x0014), (0x0015, 0x0015), (0x0016, 0x0016), (0x0017, 0x0017),
    (0x0018, 0x0018), (0x0019, 0x0019), (0x001A, 0x001A), (0x001B, 0x001B), (0x001C, 0x001C), (0x001D, 0x001D),
    (0x001E, 0x001E), (0x001F, 0x001F)] @
   [(0x0020, 0x0020), (0x0021, 0x0021), (0x0022, 0x0022), (0x0023, 0x0023), (0x0024, 0x0024), (0x0025, 0x0025),
    (0x0026, 0x0026), (0x0027, 0x0027), (0x0028, 0x0028), (0x0029, 0x0029), (0x002A, 0x002A), (0x002B, 0x002B),
    (0x002C, 0x002C), (0x002D, 0x002D), (0x002E, 0x002E), (0x002F, 0x002F), (0x0030, 0x0030), (0x0031, 0x0031),
    (0x0032, 0x0032), (0x0033, 0x0033), (0x0034, 0x0034), (0x0035, 0x0035), (0x0036, 0x0036), (0x0037, 0x0037),
    (0x0038, 0x0038), (0x0039, 0x0039), (0x003A, 0x003A), (0x003B, 0x003B), (0x003C, 0x003C), (0x003D, 0x003D),
    (0x003E, 0x003E), (0x003F, 0x003F)] @
   [(0x0040, 0x0040), (0x0041, 0x0041), (0x0042, 0x0042), (0x0043, 0x0043), (0x0044, 0x0044), (0x0045, 0x0045),
    (0x0046, 0x0046), (0x0047, 0x0047), (0x0048, 0x0048), (0x0049, 0x0049), (0x004A, 0x004A), (0x004B, 0x004B),
    (0x004C, 0x004C), (0x004D, 0x004D), (0x004E, 0x004E), (0x004F, 0x004F), (0x0050, 0x0050), (0x0051, 0x0051),
    (0x0052, 0x0052), (0x0053, 0x0053), (0x0054, 0x0054), (0x0055, 0x0055), (0x0056, 0x0056), (0x0057, 0x0057),
    (0x0058, 0x0058), (0x0059, 0x0059), (0x005A, 0x005A), (0x005B, 0x005B), (0x005C, 0x005C), (0x005D, 0x005D),
    (0x005E, 0x005E), (0x005F, 0x005F)] @
   [(0x0060, 0x0060), (0x0061, 0x0061), (0x0062, 0x0062), (0x0063, 0x0063), (0x0064, 0x0064), (0x0065, 0x0065),
    (0x0066, 0x0066), (0x0067, 0x0067), (0x0068, 0x0068), (0x0069, 0x0069), (0x006A, 0x006A), (0x006B, 0x006B),
    (0x006C, 0x006C), (0x006D, 0x006D), (0x006E, 0x006E), (0x006F, 0x006F), (0x0070, 0x0070), (0x0071, 0x0071),
    (0x0072, 0x0072), (0x0073, 0x0073), (0x0074, 0x0074), (0x0075, 0x0075), (0x0076, 0x0076), (0x0077, 0x0077),
    (0x0078, 0x0078), (0x0079, 0x0079), (0x007A, 0x007A), (0x007B, 0x007B), (0x007C, 0x007C), (0x007D, 0x007D),
    (0x007E, 0x007E), (0x007F, 0x007F)] @
   [(0x00A0, 0x00A0), (0x00A1, 0x00A1), (0x00A2, 0x00A2), (0x00A3, 0x00A3), (0x00A4, 0x00A4), (0x00A5, 0x00A5),
    (0x00A6, 0x00A6), (0x00A7, 0x00A7), (0x00A8, 0x00A8), (0x00A9, 0x00A9), (0x00AA, 0x00AA), (0x00AB, 0x00AB),
    (0x00AC, 0x00AC), (0x00AD, 0x00AD), (0x00AE, 0x00AE), (0x00AF, 0x00AF), (0x00B0, 0x00B0), (0x00B1, 0x00B1),
    (0x00B2, 0x00B2), (0x00B3, 0x00B3), (0x00B4, 0x00B4), (0x00B5, 0x00B5), (0x00B6, 0x00B6), (0x00B7, 0x00B7),
    (0x00B8, 0x00B8), (0x00B9, 0x00B9), (0x00BA, 0x00BA), (0x00BB, 0x00BB), (0x00BC, 0x00BC), (0x00BD, 0x00BD),
    (0x00BE, 0x00BE), (0x00BF, 0x00BF)] @
   [(0x00C0, 0x00C0), (0x00C1, 0x00C1), (0x00C2, 0x00C2), (0x00C3, 0x00C3), (0x00C4, 0x00C4), (0x00C5, 0x00C5),
    (0x00C6, 0x00C6), (0x00C7, 0x00C7), (0x00C8, 0x00C8), (0x00C9, 0x00C9), (0x00CA, 0x00CA), (0x00CB, 0x00CB),
    (0x00CC, 0x00CC), (0x00CD, 0x00CD), (0x00CE, 0x00CE), (0x00CF, 0x00CF), (0x00D1, 0x00D1), (0x00D2, 0x00D2),
    (0x00D3, 0x00D3), (0x00D4, 0x00D4), (0x00D5, 0x00D5), (0x00D6, 0x00D6), (0x00D7, 0x00D7), (0x00D8, 0x00D8),
    (0x00D9, 0x00D9), (0x00DA, 0x00DA), (0x00DB, 0x00DB), (0x00DC, 0x00DC), (0x00DF, 0x00DF), (0x00E0, 0x00E0),
    (0x00E1, 0x00E1), (0x00E2, 0x00E2)] @
   [(0x00E3, 0x00E3), (0x00E4, 0x00E4), (0x00E5, 0x00E5), (0x00E6, 0x00E6), (0x00E7, 0x00E7), (0x00E8, 0x00E8),
    (0x00E9, 0x00E9), (0x00EA, 0x00EA), (0x00EB, 0x00EB), (0x00EC, 0x00EC), (0x00ED, 0x00ED), (0x00EE, 0x00EE),
    (0x00EF, 0x00EF), (0x00F1, 0x00F1), (0x00F2, 0x00F2), (0x00F3, 0x00F3), (0x00F4, 0x00F4), (0x00F5, 0x00F5),
    (0x00F6, 0x00F6), (0x00F7, 0x00F7), (0x00F8, 0x00F8), (0x00F9, 0x00F9), (0x00FA, 0x00FA), (0x00FB, 0x00FB),
    (0x00FC, 0x00FC), (0x00FF, 0x00FF), (0x011E, 0x00D0), (0x011F, 0x00F0), (0x0130, 0x00DD), (0x0131, 0x00FD),
    (0x0152, 0x008C), (0x0153, 0x009C)] @
   [(0x015E, 0x00DE), (0x015F, 0x00FE), (0x0160, 0x008A), (0x0161, 0x009A), (0x0178, 0x009F), (0x0192, 0x0083),
    (0x02C6, 0x0088), (0x02DC, 0x0098), (0x2013, 0x0096), (0x2014, 0x0097), (0x2018, 0x0091), (0x2019, 0x0092),
    (0x201A, 0x0082), (0x201C, 0x0093), (0x201D, 0x0094), (0x201E, 0x0084), (0x2020, 0x0086), (0x2021, 0x0087),
    (0x2022, 0x0095), (0x2026, 0x0085), (0x2030, 0x0089), (0x2039, 0x008B), (0x203A, 0x009B), (0x20AC, 0x0080),
    (0x2122, 0x0099)]"

definition page_1254 :: CpPage where
  "page_1254 = \<lparr> cp = 1254, is_dbcs = False, dec1 = dec1_cp1254, lead = [], leadrow = [], dec2 = [],
     rev_map = rev_cp1254 \<rparr>"

lemmas at_1254 = row_nth [OF dec1_cp1254_def]

lemma ascending_1254: "ascending (map fst rev_cp1254)"
  by (simp add: rev_cp1254_def)

lemma entries_1254: "list_all (sb_entry dec1_cp1254) rev_cp1254"
  by (simp add: rev_cp1254_def sb_entry_def at_1254)

lemma tally_1254: "tally (\<lambda>_. True) 0 dec1_cp1254 = 256"
  "tally (\<lambda>_. True) 0 rev_cp1254 = tally (\<lambda>u. u \<noteq> 65533) 0 dec1_cp1254"
  by (simp_all add: dec1_cp1254_def rev_cp1254_def)

lemma sb_page_1254: "sb_page page_1254"
  by (simp add: sb_page_def sound_tables_def page_1254_def ascending_1254 entries_1254 tally_1254)

lemma ascii_1254: "ascii_from 0 (dec1 page_1254)"
  by (simp add: page_1254_def dec1_cp1254_def)

section \<open>Page 1255\<close>

definition dec1_cp1255 :: "nat list" where
  "dec1_cp1255 =
   [0x0000, 0x0001, 0x0002, 0x0003, 0x0004, 0x0005, 0x0006, 0x0007, 0x0008, 0x0009, 0x000A, 0x000B, 0x000C,
    0x000D, 0x000E, 0x000F, 0x0010, 0x0011, 0x0012, 0x0013, 0x0014, 0x0015, 0x0016, 0x0017, 0x0018, 0x0019,
    0x001A, 0x001B, 0x001C, 0x001D, 0x001E, 0x001F] @
   [0x0020, 0x0021, 0x0022, 0x0023, 0x0024, 0x0025, 0x0026, 0x0027, 0x0028, 0x0029, 0x002A, 0x002B, 0x002C,
    0x002D, 0x002E, 0x002F, 0x0030, 0x0031, 0x0032, 0x0033, 0x0034, 0x0035, 0x0036, 0x0037, 0x0038, 0x0039,
    0x003A, 0x003B, 0x003C, 0x003D, 0x003E, 0x003F] @
   [0x0040, 0x0041, 0x0042, 0x0043, 0x0044, 0x0045, 0x0046, 0x0047, 0x0048, 0x0049, 0x004A, 0x004B, 0x004C,
    0x004D, 0x004E, 0x004F, 0x0050, 0x0051, 0x0052, 0x0053, 0x0054, 0x0055, 0x0056, 0x0057, 0x0058, 0x0059,
    0x005A, 0x005B, 0x005C, 0x005D, 0x005E, 0x005F] @
   [0x0060, 0x0061, 0x0062, 0x0063, 0x0064, 0x0065, 0x0066, 0x0067, 0x0068, 0x0069, 0x006A, 0x006B, 0x006C,
    0x006D, 0x006E, 0x006F, 0x0070, 0x0071, 0x0072, 0x0073, 0x0074, 0x0075, 0x0076, 0x0077, 0x0078, 0x0079,
    0x007A, 0x007B, 0x007C, 0x007D, 0x007E, 0x007F] @
   [0x20AC, 0xFFFD, 0x201A, 0x0192, 0x201E, 0x2026, 0x2020, 0x2021, 0x02C6, 0x2030, 0xFFFD, 0x2039, 0xFFFD,
    0xFFFD, 0xFFFD, 0xFFFD, 0xFFFD, 0x2018, 0x2019, 0x201C, 0x201D, 0x2022, 0x2013, 0x2014, 0x02DC, 0x2122,
    0xFFFD, 0x203A, 0xFFFD, 0xFFFD, 0xFFFD, 0xFFFD] @
   [0x00A0, 0x00A1, 0x00A2, 0x00A3, 0x20AA, 0x00A5, 0x00A6, 0x00A7, 0x00A8, 0x00A9, 0x00D7, 0x00AB, 0x00AC,
    0x00AD, 0x00AE, 0x00AF, 0x00B0, 0x00B1, 0x00B2, 0x00B3, 0x00B4, 0x00B5, 0x00B6, 0x00B7, 0x00B8, 0x00B9,
    0x00F7, 0x00BB, 0x00BC, 0x00BD, 0x00BE, 0x00BF] @
   [0x05B0, 0x05B1, 0x05B2, 0x05B3, 0x05B4, 0x05B5, 0x05B6, 0x05B7, 0x05B8, 0x05B9, 0xFFFD, 0x05BB, 0x05BC,
    0x05BD, 0x05BE, 0x05BF, 0x05C0, 0x05C1, 0x05C2, 0x05C3, 0x05F0, 0x05F1, 0x05F2, 0x05F3, 0x05F4, 0xFFFD,
    0xFFFD, 0xFFFD, 0xFFFD, 0xFFFD, 0xFFFD, 0xFFFD] @
   [0x05D0, 0x05D1, 0x05D2, 0x05D3, 0x05D4, 0x05D5, 0x05D6, 0x05D7, 0x05D8, 0x05D9, 0x05DA, 0x05DB, 0x05DC,
    0x05DD, 0x05DE, 0x05DF, 0x05E0, 0x05E1, 0x05E2, 0x05E3, 0x05E4, 0x05E5, 0x05E6, 0x05E7, 0x05E8, 0x05E9,
    0x05EA, 0xFFFD, 0xFFFD, 0x200E, 0x200F, 0xFFFD]"

definition rev_cp1255 :: "(nat \<times> nat) list" where
  "rev_cp1255 =
   [(0x0000, 0x0000), (0x0001, 0x0001), (0x0002, 0x0002), (0x0003, 0x0003), (0x0004, 0x0004), (0x0005, 0x0005),
    (0x0006, 0x0006), (0x0007, 0x0007), (0x0008, 0x0008), (0x0009, 0x0009), (0x000A, 0x000A), (0x000B, 0x000B),
    (0x000C, 0x000C), (0x000D, 0x000D), (0x000E, 0x000E), (0x000F, 0x000F), (0x0010, 0x0010), (0x0011, 0x0011),
    (0x0012, 0x0012), (0x0013, 0x0013), (0x0014, 0x0014), (0x0015, 0x0015), (0x0016, 0x0016), (0x0017, 0x0017),
    (0x0018, 0x0018), (0x0019, 0x0019), (0x001A, 0x001A), (0x001B, 0x001B), (0x001C, 0x001C), (0x001D, 0x001D),
    (0x001E, 0x001E), (0x001F, 0x001F)] @
   [(0x0020, 0x0020), (0x0021, 0x0021), (0x0022, 0x0022), (0x0023, 0x0023), (0x0024, 0x0024), (0x0025, 0x0025),
    (0x0026, 0x0026), (0x0027, 0x0027), (0x0028, 0x0028), (0x0029, 0x0029), (0x002A, 0x002A), (0x002B, 0x002B),
    (0x002C, 0x002C), (0x002D, 0x002D), (0x002E, 0x002E), (0x002F, 0x002F), (0x0030, 0x0030), (0x0031, 0x0031),
    (0x0032, 0x0032), (0x0033, 0x0033), (0x0034, 0x0034), (0x0035, 0x0035), (0x0036, 0x0036), (0x0037, 0x0037),
    (0x0038, 0x0038), (0x0039, 0x0039), (0x003A, 0x003A), (0x003B, 0x003B), (0x003C, 0x003C), (0x003D, 0x003D),
    (0x003E, 0x003E), (0x003F, 0x003F)] @
   [(0x0040, 0x0040), (0x0041, 0x0041), (0x0042, 0x0042), (0x0043, 0x0043), (0x0044, 0x0044), (0x0045, 0x0045),
    (0x0046, 0x0046), (0x0047, 0x0047), (0x0048, 0x0048), (0x0049, 0x0049), (0x004A, 0x004A), (0x004B, 0x004B),
    (0x004C, 0x004C), (0x004D, 0x004D), (0x004E, 0x004E), (0x004F, 0x004F), (0x0050, 0x0050), (0x0051, 0x0051),
    (0x0052, 0x0052), (0x0053, 0x0053), (0x0054, 0x0054), (0x0055, 0x0055), (0x0056, 0x0056), (0x0057, 0x0057),
    (0x0058, 0x0058), (0x0059, 0x0059), (0x005A, 0x005A), (0x005B, 0x005B), (0x005C, 0x005C), (0x005D, 0x005D),
    (0x005E, 0x005E), (0x005F, 0x005F)] @
   [(0x0060, 0x0060), (0x0061, 0x0061), (0x0062, 0x0062), (0x0063, 0x0063), (0x0064, 0x0064), (0x0065, 0x0065),
    (0x0066, 0x0066), (0x0067, 0x0067), (0x0068, 0x0068), (0x0069, 0x0069), (0x006A, 0x006A), (0x006B, 0x006B),
    (0x006C, 0x006C), (0x006D, 0x006D), (0x006E, 0x006E), (0x006F, 0x006F), (0x0070, 0x0070), (0x0071, 0x0071),
    (0x0072, 0x0072), (0x0073, 0x0073), (0x0074, 0x0074), (0x0075, 0x0075), (0x0076, 0x0076), (0x0077, 0x0077),
    (0x0078, 0x0078), (0x0079, 0x0079), (0x007A, 0x007A), (0x007B, 0x007B), (0x007C, 0x007C), (0x007D, 0x007D),
    (0x007E, 0x007E), (0x007F, 0x007F)] @
   [(0x00A0, 0x00A0), (0x00A1, 0x00A1), (0x00A2, 0x00A2), (0x00A3, 0x00A3), (0x00A5, 0x00A5), (0x00A6, 0x00A6),
    (0x00A7, 0x00A7), (0x00A8, 0x00A8), (0x00A9, 0x00A9), (0x00AB, 0x00AB), (0x00AC, 0x00AC), (0x00AD, 0x00AD),
    (0x00AE, 0x00AE), (0x00AF, 0x00AF), (0x00B0, 0x00B0), (0x00B1, 0x00B1), (0x00B2, 0x00B2), (0x00B3, 0x00B3),
    (0x00B4, 0x00B4), (0x00B5, 0x00B5), (0x00B6, 0x00B6), (0x00B7, 0x00B7), (0x00B8, 0x00B8), (0x00B9, 0x00B9),
    (0x00BB, 0x00BB), (0x00BC, 0x00BC), (0x00BD, 0x00BD), (0x00BE, 0x00BE), (0x00BF, 0x00BF), (0x00D7, 0x00AA),
    (0x00F7, 0x00BA), (0x0192, 0x0083)] @
   [(0x02C6, 0x0088), (0x02DC, 0x0098), (0x05B0, 0x00C0), (0x05B1, 0x00C1), (0x05B2, 0x00C2), (0x05B3, 0x00C3),
    (0x05B4, 0x00C4), (0x05B5, 0x00C5), (0x05B6, 0x00C6), (0x05B7, 0x00C7), (0x05B8, 0x00C8), (0x05B9, 0x00C9),
    (0x05BB, 0x00CB), (0x05BC, 0x00CC), (0x05BD, 0x00CD), (0x05BE, 0x00CE), (0x05BF, 0x00CF), (0x05C0, 0x00D0),
    (0x05C1, 0x00D1), (0x05C2, 0x00D2), (0x05C3, 0x00D3), (0x05D0, 0x00E0), (0x05D1, 0x00E1), (0x05D2, 0x00E2),
    (0x05D3, 0x00E3), (0x05D4, 0x00E4), (0x05D5, 0x00E5), (0x05D6, 0x00E6), (0x05D7, 0x00E7), (0x05D8, 0x00E8),
    (0x05D9, 0x00E9), (0x05DA, 0x00EA)] @
   [(0x05DB, 0x00EB), (0x05DC, 0x00EC), (0x05DD, 0x00ED), (0x05DE, 0x00EE), (0x05DF, 0x00EF), (0x05E0, 0x00F0),
    (0x05E1, 0x00F1), (0x05E2, 0x00F2), (0x05E3, 0x00F3), (0x05E4, 0x00F4), (0x05E5, 0x00F5), (0x05E6, 0x00F6),
    (0x05E7, 0x00F7), (0x05E8, 0x00F8), (0x05E9, 0x00F9), (0x05EA, 0x00FA), (0x05F0, 0x00D4), (0x05F1, 0x00D5),
    (0x05F2, 0x00D6), (0x05F3, 0x00D7), (0x05F4, 0x00D8), (0x200E, 0x00FD), (0x200F, 0x00FE), (0x2013, 0x0096),
    (0x2014, 0x0097), (0x2018, 0x0091), (0x2019, 0x0092), (0x201A, 0x0082), (0x201C, 0x0093), (0x201D, 0x0094),
    (0x201E, 0x0084), (0x2020, 0x0086)] @
   [(0x2021, 0x0087), (0x2022, 0x0095), (0x2026, 0x0085), (0x2030, 0x0089), (0x2039, 0x008B), (0x203A, 0x009B),
    (0x20AA, 0x00A4), (0x20AC, 0x0080), (0x2122, 0x0099)]"

definition page_1255 :: CpPage where
  "page_1255 = \<lparr> cp = 1255, is_dbcs = False, dec1 = dec1_cp1255, lead = [], leadrow = [], dec2 = [],
     rev_map = rev_cp1255 \<rparr>"

lemmas at_1255 = row_nth [OF dec1_cp1255_def]

lemma ascending_1255: "ascending (map fst rev_cp1255)"
  by (simp add: rev_cp1255_def)

lemma entries_1255: "list_all (sb_entry dec1_cp1255) rev_cp1255"
  by (simp add: rev_cp1255_def sb_entry_def at_1255)

lemma tally_1255: "tally (\<lambda>_. True) 0 dec1_cp1255 = 256"
  "tally (\<lambda>_. True) 0 rev_cp1255 = tally (\<lambda>u. u \<noteq> 65533) 0 dec1_cp1255"
  by (simp_all add: dec1_cp1255_def rev_cp1255_def)

lemma sb_page_1255: "sb_page page_1255"
  by (simp add: sb_page_def sound_tables_def page_1255_def ascending_1255 entries_1255 tally_1255)

lemma ascii_1255: "ascii_from 0 (dec1 page_1255)"
  by (simp add: page_1255_def dec1_cp1255_def)

section \<open>Page 1256\<close>

definition dec1_cp1256 :: "nat list" where
  "dec1_cp1256 =
   [0x0000, 0x0001, 0x0002, 0x0003, 0x0004, 0x0005, 0x0006, 0x0007, 0x0008, 0x0009, 0x000A, 0x000B, 0x000C,
    0x000D, 0x000E, 0x000F, 0x0010, 0x0011, 0x0012, 0x0013, 0x0014, 0x0015, 0x0016, 0x0017, 0x0018, 0x0019,
    0x001A, 0x001B, 0x001C, 0x001D, 0x001E, 0x001F] @
   [0x0020, 0x0021, 0x0022, 0x0023, 0x0024, 0x0025, 0x0026, 0x0027, 0x0028, 0x0029, 0x002A, 0x002B, 0x002C,
    0x002D, 0x002E, 0x002F, 0x0030, 0x0031, 0x0032, 0x0033, 0x0034, 0x0035, 0x0036, 0x0037, 0x0038, 0x0039,
    0x003A, 0x003B, 0x003C, 0x003D, 0x003E, 0x003F] @
   [0x0040, 0x0041, 0x0042, 0x0043, 0x0044, 0x0045, 0x0046, 0x0047, 0x0048, 0x0049, 0x004A, 0x004B, 0x004C,
    0x004D, 0x004E, 0x004F, 0x0050, 0x0051, 0x0052, 0x0053, 0x0054, 0x0055, 0x0056, 0x0057, 0x0058, 0x0059,
    0x005A, 0x005B, 0x005C, 0x005D, 0x005E, 0x005F] @
   [0x0060, 0x0061, 0x0062, 0x0063, 0x0064, 0x0065, 0x0066, 0x0067, 0x0068, 0x0069, 0x006A, 0x006B, 0x006C,
    0x006D, 0x006E, 0x006F, 0x0070, 0x0071, 0x0072, 0x0073, 0x0074, 0x0075, 0x0076, 0x0077, 0x0078, 0x0079,
    0x007A, 0x007B, 0x007C, 0x007D, 0x007E, 0x007F] @
   [0x20AC, 0x067E, 0x201A, 0x0192, 0x201E, 0x2026, 0x2020, 0x2021, 0x02C6, 0x2030, 0x0679, 0x2039, 0x0152,
    0x0686, 0x0698, 0x0688, 0x06AF, 0x2018, 0x2019, 0x201C, 0x201D, 0x2022, 0x2013, 0x2014, 0x06A9, 0x2122,
    0x0691, 0x203A, 0x0153, 0x200C, 0x200D, 0x06BA] @
   [0x00A0, 0x060C, 0x00A2, 0x00A3, 0x00A4, 0x00A5, 0x00A6, 0x00A7, 0x00A8, 0x00A9, 0x06BE, 0x00AB, 0x00AC,
    0x00AD, 0x00AE, 0x00AF, 0x00B0, 0x00B1, 0x00B2, 0x00B3, 0x00B4, 0x00B5, 0x00B6, 0x00B7, 0x00B8, 0x00B9,
    0x061B, 0x00BB, 0x00BC, 0x00BD, 0x00BE, 0x061F] @
   [0x06C1, 0x0621, 0x0622, 0x0623, 0x0624, 0x0625, 0x0626, 0x0627, 0x0628, 0x0629, 0x062A, 0x062B, 0x062C,
    0x062D, 0x062E, 0x062F, 0x0630, 0x0631, 0x0632, 0x0633, 0x0634, 0x0635, 0x0636, 0x00D7, 0x0637, 0x0638,
    0x0639, 0x063A, 0x0640, 0x0641, 0x0642, 0x0643] @
   [0x00E0, 0x0644, 0x00E2, 0x0645, 0x0646, 0x0647, 0x0648, 0x00E7, 0x00E8, 0x00E9, 0x00EA, 0x00EB, 0x0649,
    0x064A, 0x00EE, 0x00EF, 0x064B, 0x064C, 0x064D, 0x064E, 0x00F4, 0x064F, 0x0650, 0x00F7, 0x0651, 0x00F9,
    0x0652, 0x00FB, 0x00FC, 0x200E, 0x200F, 0x06D2]"

definition rev_cp1256 :: "(nat \<times> nat) list" where
  "rev_cp1256 =
   [(0x0000, 0x0000), (0x0001, 0x0001), (0x0002, 0x0002), (0x0003, 0x0003), (0x0004, 0x0004), (0x0005, 0x0005),
    (0x0006, 0x0006), (0x0007, 0x0007), (0x0008, 0x0008), (0x0009, 0x0009), (0x000A, 0x000A), (0x000B, 0x000B),
    (0x000C, 0x000C), (0x000D, 0x000D), (0x000E, 0x000E), (0x000F, 0x000F), (0x0010, 0x0010), (0x0011, 0x0011),
    (0x0012, 0x0012), (0x0013, 0x0013), (0x0014, 0x0014), (0x0015, 0x0015), (0x0016, 0x0016), (0x0017, 0x0017),
    (0x0018, 0x0018), (0x0019, 0x0019), (0x001A, 0x001A), (0x001B, 0x001B), (0x001C, 0x001C), (0x001D, 0x001D),
    (0x001E, 0x001E), (0x001F, 0x001F)] @
   [(0x0020, 0x0020), (0x0021, 0x0021), (0x0022, 0x0022), (0x0023, 0x0023), (0x0024, 0x0024), (0x0025, 0x0025),
    (0x0026, 0x0026), (0x0027, 0x0027), (0x0028, 0x0028), (0x0029, 0x0029), (0x002A, 0x002A), (0x002B, 0x002B),
    (0x002C, 0x002C), (0x002D, 0x002D), (0x002E, 0x002E), (0x002F, 0x002F), (0x0030, 0x0030), (0x0031, 0x0031),
    (0x0032, 0x0032), (0x0033, 0x0033), (0x0034, 0x0034), (0x0035, 0x0035), (0x0036, 0x0036), (0x0037, 0x0037),
    (0x0038, 0x0038), (0x0039, 0x0039), (0x003A, 0x003A), (0x003B, 0x003B), (0x003C, 0x003C), (0x003D, 0x003D),
    (0x003E, 0x003E), (0x003F, 0x003F)] @
   [(0x0040, 0x0040), (0x0041, 0x0041), (0x0042, 0x0042), (0x0043, 0x0043), (0x0044, 0x0044), (0x0045, 0x0045),
    (0x0046, 0x0046), (0x0047, 0x0047), (0x0048, 0x0048), (0x0049, 0x0049), (0x004A, 0x004A), (0x004B, 0x004B),
    (0x004C, 0x004C), (0x004D, 0x004D), (0x004E, 0x004E), (0x004F, 0x004F), (0x0050, 0x0050), (0x0051, 0x0051),
    (0x0052, 0x0052), (0x0053, 0x0053), (0x0054, 0x0054), (0x0055, 0x0055), (0x0056, 0x0056), (0x0057, 0x0057),
    (0x0058, 0x0058), (0x0059, 0x0059), (0x005A, 0x005A), (0x005B, 0x005B), (0x005C, 0x005C), (0x005D, 0x005D),
    (0x005E, 0x005E), (0x005F, 0x005F)] @
   [(0x0060, 0x0060), (0x0061, 0x0061), (0x0062, 0x0062), (0x0063, 0x0063), (0x0064, 0x0064), (0x0065, 0x0065),
    (0x0066, 0x0066), (0x0067, 0x0067), (0x0068, 0x0068), (0x0069, 0x0069), (0x006A, 0x006A), (0x006B, 0x006B),
    (0x006C, 0x006C), (0x006D, 0x006D), (0x006E, 0x006E), (0x006F, 0x006F), (0x0070, 0x0070), (0x0071, 0x0071),
    (0x0072, 0x0072), (0x0073, 0x0073), (0x0074, 0x0074), (0x0075, 0x0075), (0x0076, 0x0076), (0x0077, 0x0077),
    (0x0078, 0x0078), (0x0079, 0x0079), (0x007A, 0x007A), (0x007B, 0x007B), (0x007C, 0x007C), (0x007D, 0x007D),
    (0x007E, 0x007E), (0x007F, 0x007F)] @
   [(0x00A0, 0x00A0), (0x00A2, 0x00A2), (0x00A3, 0x00A3), (0x00A4, 0x00A4), (0x00A5, 0x00A5), (0x00A6, 0x00A6),
    (0x00A7, 0x00A7), (0x00A8, 0x00A8), (0x00A9, 0x00A9), (0x00AB, 0x00AB), (0x00AC, 0x00AC), (0x00AD, 0x00AD),
    (0x00AE, 0x00AE), (0x00AF, 0x00AF), (0x00B0, 0x00B0), (0x00B1, 0x00B1), (0x00B2, 0x00B2), (0x00B3, 0x00B3),
    (0x00B4, 0x00B4), (0x00B5, 0x00B5), (0x00B6, 0x00B6), (0x00B7, 0x00B7), (0x00B8, 0x00B8), (0x00B9, 0x00B9),
    (0x00BB, 0x00BB), (0x00BC, 0x00BC), (0x00BD, 0x00BD), (0x00BE, 0x00BE), (0x00D7, 0x00D7), (0x00E0, 0x00E0),
    (0x00E2, 0x00E2), (0x00E7, 0x00E7)] @
   [(0x00E8, 0x00E8), (0x00E9, 0x00E9), (0x00EA, 0x00EA), (0x00EB, 0x00EB), (0x00EE, 0x00EE), (0x00EF, 0x00EF),
    (0x00F4, 0x00F4), (0x00F7, 0x00F7), (0x00F9, 0x00F9), (0x00FB, 0x00FB), (0x00FC, 0x00FC), (0x0152, 0x008C),
    (0x0153, 0x009C), (0x0192, 0x0083), (0x02C6, 0x0088), (0x060C, 0x00A1), (0x061B, 0x00BA), (0x061F, 0x00BF),
    (0x0621, 0x00C1), (0x0622, 0x00C2), (0x0623, 0x00C3), (0x0624, 0x00C4), (0x0625, 0x00C5), (0x0626, 0x00C6),
    (0x0627, 0x00C7), (0x0628, 0x00C8), (0x0629, 0x00C9), (0x062A, 0x00CA), (0x062B, 0x00CB), (0x062C, 0x00CC),
    (0x062D, 0x00CD), (0x062E, 0x00CE)] @
   [(0x062F, 0x00CF), (0x0630, 0x00D0), (0x0631, 0x00D1), (0x0632, 0x00D2), (0x0633, 0x00D3), (0x0634, 0x00D4),
    (0x0635, 0x00D5), (0x0636, 0x00D6), (0x0637, 0x00D8), (0x0638, 0x00D9), (0x0639, 0x00DA), (0x063A, 0x00DB),
    (0x0640, 0x00DC), (0x0641, 0x00DD), (0x0642, 0x00DE), (0x0643, 0x00DF), (0x0644, 0x00E1), (0x0645, 0x00E3),
    (0x0646, 0x00E4), (0x0647, 0x00E5), (0x0648, 0x00E6), (0x0649, 0x00EC), (0x064A, 0x00ED), (0x064B, 0x00F0),
    (0x064C, 0x00F1), (0x064D, 0x00F2), (0x064E, 0x00F3), (0x064F, 0x00F5), (0x0650, 0x00F6), (0x0651, 0x00F8),
    (0x0652, 0x00FA), (0x0679, 0x008A)] @
   [(0x067E, 0x0081), (0x0686, 0x008D), (0x0688, 0x008F), (0x0691, 0x009A), (0x0698, 0x008E), (0x06A9, 0x0098),
    (0x06AF, 0x0090), (0x06BA, 0x009F), (0x06BE, 0x00AA), (0x06C1, 0x00C0), (0x06D2, 0x00FF), (0x200C, 0x009D),
    (0x200D, 0x009E), (0x200E, 0x00FD), (0x200F, 0x00FE), (0x2013, 0x0096), (0x2014, 0x0097), (0x2018, 0x0091),
    (0x2019, 0x0092), (0x201A, 0x0082), (0x201C, 0x0093), (0x201D, 0x0094), (0x201E, 0x0084), (0x2020, 0x0086),
    (0x2021, 0x0087), (0x2022, 0x0095), (0x2026, 0x0085), (0x2030, 0x0089), (0x2039, 0x008B), (0x203A, 0x009B),
    (0x20AC, 0x0080), (0x2122, 0x0099)]"

definition page_1256 :: CpPage where
  "page_1256 = \<lparr> cp = 1256, is_dbcs = False, dec1 = dec1_cp1256, lead = [], leadrow = [], dec2 = [],
     rev_map = rev_cp1256 \<rparr>"

lemmas at_1256 = row_nth [OF dec1_cp1256_def]

lemma ascending_1256: "ascending (map fst rev_cp1256)"
  by (simp add: rev_cp1256_def)

lemma entries_1256: "list_all (sb_entry dec1_cp1256) rev_cp1256"
  by (simp add: rev_cp1256_def sb_entry_def at_1256)

lemma tally_1256: "tally (\<lambda>_. True) 0 dec1_cp1256 = 256"
  "tally (\<lambda>_. True) 0 rev_cp1256 = tally (\<lambda>u. u \<noteq> 65533) 0 dec1_cp1256"
  by (simp_all add: dec1_cp1256_def rev_cp1256_def)

lemma sb_page_1256: "sb_page page_1256"
  by (simp add: sb_page_def sound_tables_def page_1256_def ascending_1256 entries_1256 tally_1256)

lemma ascii_1256: "ascii_from 0 (dec1 page_1256)"
  by (simp add: page_1256_def dec1_cp1256_def)

section \<open>Page 1257\<close>

definition dec1_cp1257 :: "nat list" where
  "dec1_cp1257 =
   [0x0000, 0x0001, 0x0002, 0x0003, 0x0004, 0x0005, 0x0006, 0x0007, 0x0008, 0x0009, 0x000A, 0x000B, 0x000C,
    0x000D, 0x000E, 0x000F, 0x0010, 0x0011, 0x0012, 0x0013, 0x0014, 0x0015, 0x0016, 0x0017, 0x0018, 0x0019,
    0x001A, 0x001B, 0x001C, 0x001D, 0x001E, 0x001F] @
   [0x0020, 0x0021, 0x0022, 0x0023, 0x0024, 0x0025, 0x0026, 0x0027, 0x0028, 0x0029, 0x002A, 0x002B, 0x002C,
    0x002D, 0x002E, 0x002F, 0x0030, 0x0031, 0x0032, 0x0033, 0x0034, 0x0035, 0x0036, 0x0037, 0x0038, 0x0039,
    0x003A, 0x003B, 0x003C, 0x003D, 0x003E, 0x003F] @
   [0x0040, 0x0041, 0x0042, 0x0043, 0x0044, 0x0045, 0x0046, 0x0047, 0x0048, 0x0049, 0x004A, 0x004B, 0x004C,
    0x004D, 0x004E, 0x004F, 0x0050, 0x0051, 0x0052, 0x0053, 0x0054, 0x0055, 0x0056, 0x0057, 0x0058, 0x0059,
    0x005A, 0x005B, 0x005C, 0x005D, 0x005E, 0x005F] @
   [0x0060, 0x0061, 0x0062, 0x0063, 0x0064, 0x0065, 0x0066, 0x0067, 0x0068, 0x0069, 0x006A, 0x006B, 0x006C,
    0x006D, 0x006E, 0x006F, 0x0070, 0x0071, 0x0072, 0x0073, 0x0074, 0x0075, 0x0076, 0x0077, 0x0078, 0x0079,
    0x007A, 0x007B, 0x007C, 0x007D, 0x007E, 0x007F] @
   [0x20AC, 0xFFFD, 0x201A, 0xFFFD, 0x201E, 0x2026, 0x2020, 0x2021, 0xFFFD, 0x2030, 0xFFFD, 0x2039, 0xFFFD,
    0x00A8, 0x02C7, 0x00B8, 0xFFFD, 0x2018, 0x2019, 0x201C, 0x201D, 0x2022, 0x2013, 0x2014, 0xFFFD, 0x2122,
    0xFFFD, 0x203A, 0xFFFD, 0x00AF, 0x02DB, 0xFFFD] @
   [0x00A0, 0xFFFD, 0x00A2, 0x00A3, 0x00A4, 0xFFFD, 0x00A6, 0x00A7, 0x00D8, 0x00A9, 0x0156, 0x00AB, 0x00AC,
    0x00AD, 0x00AE, 0x00C6, 0x00B0, 0x00B1, 0x00B2, 0x00B3, 0x00B4, 0x00B5, 0x00B6, 0x00B7, 0x00F8, 0x00B9,
    0x0157, 0x00BB, 0x00BC, 0x00BD, 0x00BE, 0x00E6] @
   [0x0104, 0x012E, 0x0100, 0x0106, 0x00C4, 0x00C5, 0x0118, 0x0112, 0x010C, 0x00C9, 0x0179, 0x0116, 0x0122,
    0x0136, 0x012A, 0x013B, 0x0160, 0x0143, 0x0145, 0x00D3, 0x014C, 0x00D5, 0x00D6, 0x00D7, 0x0172, 0x0141,
    0x015A, 0x016A, 0x00DC, 0x017B, 0x017D, 0x00DF] @
   [0x0105, 0x012F, 0x0101, 0x0107, 0x00E4, 0x00E5, 0x0119, 0x0113, 0x010D, 0x00E9, 0x017A, 0x0117, 0x0123,
    0x0137, 0x012B, 0x013C, 0x0161, 0x0144, 0x0146, 0x00F3, 0x014D, 0x00F5, 0x00F6, 0x00F7, 0x0173, 0x0142,
    0x015B, 0x016B, 0x00FC, 0x017C, 0x017E, 0x02D9]"

definition rev_cp1257 :: "(nat \<times> nat) list" where
  "rev_cp1257 =
   [(0x0000, 0x0000), (0x0001, 0x0001), (0x0002, 0x0002), (0x0003, 0x0003), (0x0004, 0x0004), (0x0005, 0x0005),
    (0x0006, 0x0006), (0x0007, 0x0007), (0x0008, 0x0008), (0x0009, 0x0009), (0x000A, 0x000A), (0x000B, 0x000B),
    (0x000C, 0x000C), (0x000D, 0x000D), (0x000E, 0x000E), (0x000F, 0x000F), (0x0010, 0x0010), (0x0011, 0x0011),
    (0x0012, 0x0012), (0x0013, 0x0013), (0x0014, 0x0014), (0x0015, 0x0015), (0x0016, 0x0016), (0x0017, 0x0017),
    (0x0018, 0x0018), (0x0019, 0x0019), (0x001A, 0x001A), (0x001B, 0x001B), (0x001C, 0x001C), (0x001D, 0x001D),
    (0x001E, 0x001E), (0x001F, 0x001F)] @
   [(0x0020, 0x0020), (0x0021, 0x0021), (0x0022, 0x0022), (0x0023, 0x0023), (0x0024, 0x0024), (0x0025, 0x0025),
    (0x0026, 0x0026), (0x0027, 0x0027), (0x0028, 0x0028), (0x0029, 0x0029), (0x002A, 0x002A), (0x002B, 0x002B),
    (0x002C, 0x002C), (0x002D, 0x002D), (0x002E, 0x002E), (0x002F, 0x002F), (0x0030, 0x0030), (0x0031, 0x0031),
    (0x0032, 0x0032), (0x0033, 0x0033), (0x0034, 0x0034), (0x0035, 0x0035), (0x0036, 0x0036), (0x0037, 0x0037),
    (0x0038, 0x0038), (0x0039, 0x0039), (0x003A, 0x003A), (0x003B, 0x003B), (0x003C, 0x003C), (0x003D, 0x003D),
    (0x003E, 0x003E), (0x003F, 0x003F)] @
   [(0x0040, 0x0040), (0x0041, 0x0041), (0x0042, 0x0042), (0x0043, 0x0043), (0x0044, 0x0044), (0x0045, 0x0045),
    (0x0046, 0x0046), (0x0047, 0x0047), (0x0048, 0x0048), (0x0049, 0x0049), (0x004A, 0x004A), (0x004B, 0x004B),
    (0x004C, 0x004C), (0x004D, 0x004D), (0x004E, 0x004E), (0x004F, 0x004F), (0x0050, 0x0050), (0x0051, 0x0051),
    (0x0052, 0x0052), (0x0053, 0x0053), (0x0054, 0x0054), (0x0055, 0x0055), (0x0056, 0x0056), (0x0057, 0x0057),
    (0x0058, 0x0058), (0x0059, 0x0059), (0x005A, 0x005A), (0x005B, 0x005B), (0x005C, 0x005C), (0x005D, 0x005D),
    (0x005E, 0x005E), (0x005F, 0x005F)] @
   [(0x0060, 0x0060), (0x0061, 0x0061), (0x0062, 0x0062), (0x0063, 0x0063), (0x0064, 0x0064), (0x0065, 0x0065),
    (0x0066, 0x0066), (0x0067, 0x0067), (0x0068, 0x0068), (0x0069, 0x0069), (0x006A, 0x006A), (0x006B, 0x006B),
    (0x006C, 0x006C), (0x006D, 0x006D), (0x006E, 0x006E), (0x006F, 0x006F), (0x0070, 0x0070), (0x0071, 0x0071),
    (0x0072, 0x0072), (0x0073, 0x0073), (0x0074, 0x0074), (0x0075, 0x0075), (0x0076, 0x0076), (0x0077, 0x0077),
    (0x0078, 0x0078), (0x0079, 0x0079), (0x007A, 0x007A), (0x007B, 0x007B), (0x007C, 0x007C), (0x007D, 0x007D),
    (0x007E, 0x007E), (0x007F, 0x007F)] @
   [(0x00A0, 0x00A0), (0x00A2, 0x00A2), (0x00A3, 0x00A3), (0x00A4, 0x00A4), (0x00A6, 0x00A6), (0x00A7, 0x00A7),
    (0x00A8, 0x008D), (0x00A9, 0x00A9), (0x00AB, 0x00AB), (0x00AC, 0x00AC), (0x00AD, 0x00AD), (0x00AE, 0x00AE),
    (0x00AF, 0x009D), (0x00B0, 0x00B0), (0x00B1, 0x00B1), (0x00B2, 0x00B2), (0x00B3, 0x00B3), (0x00B4, 0x00B4),
    (0x00B5, 0x00B5), (0x00B6, 0x00B6), (0x00B7, 0x00B7), (0x00B8, 0x008F), (0x00B9, 0x00B9), (0x00BB, 0x00BB),
    (0x00BC, 0x00BC), (0x00BD, 0x00BD), (0x00BE, 0x00BE), (0x00C4, 0x00C4), (0x00C5, 0x00C5), (0x00C6, 0x00AF),
    (0x00C9, 0x00C9), (0x00D3, 0x00D3)] @
   [(0x00D5, 0x00D5), (0x00D6, 0x00D6), (0x00D7, 0x00D7), (0x00D8, 0x00A8), (0x00DC, 0x00DC), (0x00DF, 0x00DF),
    (0x00E4, 0x00E4), (0x00E5, 0x00E5), (0x00E6, 0x00BF), (0x00E9, 0x00E9), (0x00F3, 0x00F3), (0x00F5, 0x00F5),
    (0x00F6, 0x00F6), (0x00F7, 0x00F7), (0x00F8, 0x00B8), (0x00FC, 0x00FC), (0x0100, 0x00C2), (0x0101, 0x00E2),
    (0x0104, 0x00C0), (0x0105, 0x00E0), (0x0106, 0x00C3), (0x0107, 0x00E3), (0x010C, 0x00C8), (0x010D, 0x00E8),
    (0x0112, 0x00C7), (0x0113, 0x00E7), (0x0116, 0x00CB), (0x0117, 0x00EB), (0x0118, 0x00C6), (0x0119, 0x00E6),
    (0x0122, 0x00CC), (0x0123, 0x00EC)] @
   [(0x012A, 0x00CE), (0x012B, 0x00EE), (0x012E, 0x00C1), (0x012F, 0x00E1), (0x0136, 0x00CD), (0x0137, 0x00ED),
    (0x013B, 0x00CF), (0x013C, 0x00EF), (0x0141, 0x00D9), (0x0142, 0x00F9), (0x0143, 0x00D1), (0x0144, 0x00F1),
    (0x0145, 0x00D2), (0x0146, 0x00F2), (0x014C, 0x00D4), (0x014D, 0x00F4), (0x0156, 0x00AA), (0x0157, 0x00BA),
    (0x015A, 0x00DA), (0x015B, 0x00FA), (0x0160, 0x00D0), (0x0161, 0x00F0), (0x016A, 0x00DB), (0x016B, 0x00FB),
    (0x0172, 0x00D8), (0x0173, 0x00F8), (0x0179, 0x00CA), (0x017A, 0x00EA), (0x017B, 0x00DD), (0x017C, 0x00FD),
    (0x017D, 0x00DE), (0x017E, 0x00FE)] @
   [(0x02C7, 0x008E), (0x02D9, 0x00FF), (0x02DB, 0x009E), (0x2013, 0x0096), (0x2014, 0x0097), (0x2018, 0x0091),
    (0x2019, 0x0092), (0x201A, 0x0082), (0x201C, 0x0093), (0x201D, 0x0094), (0x201E, 0x0084), (0x2020, 0x0086),
    (0x2021, 0x0087), (0x2022, 0x0095), (0x2026, 0x0085), (0x2030, 0x0089), (0x2039, 0x008B), (0x203A, 0x009B),
    (0x20AC, 0x0080), (0x2122, 0x0099)]"

definition page_1257 :: CpPage where
  "page_1257 = \<lparr> cp = 1257, is_dbcs = False, dec1 = dec1_cp1257, lead = [], leadrow = [], dec2 = [],
     rev_map = rev_cp1257 \<rparr>"

lemmas at_1257 = row_nth [OF dec1_cp1257_def]

lemma ascending_1257: "ascending (map fst rev_cp1257)"
  by (simp add: rev_cp1257_def)

lemma entries_1257: "list_all (sb_entry dec1_cp1257) rev_cp1257"
  by (simp add: rev_cp1257_def sb_entry_def at_1257)

lemma tally_1257: "tally (\<lambda>_. True) 0 dec1_cp1257 = 256"
  "tally (\<lambda>_. True) 0 rev_cp1257 = tally (\<lambda>u. u \<noteq> 65533) 0 dec1_cp1257"
  by (simp_all add: dec1_cp1257_def rev_cp1257_def)

lemma sb_page_1257: "sb_page page_1257"
  by (simp add: sb_page_def sound_tables_def page_1257_def ascending_1257 entries_1257 tally_1257)

lemma ascii_1257: "ascii_from 0 (dec1 page_1257)"
  by (simp add: page_1257_def dec1_cp1257_def)

section \<open>Page 1258\<close>

definition dec1_cp1258 :: "nat list" where
  "dec1_cp1258 =
   [0x0000, 0x0001, 0x0002, 0x0003, 0x0004, 0x0005, 0x0006, 0x0007, 0x0008, 0x0009, 0x000A, 0x000B, 0x000C,
    0x000D, 0x000E, 0x000F, 0x0010, 0x0011, 0x0012, 0x0013, 0x0014, 0x0015, 0x0016, 0x0017, 0x0018, 0x0019,
    0x001A, 0x001B, 0x001C, 0x001D, 0x001E, 0x001F] @
   [0x0020, 0x0021, 0x0022, 0x0023, 0x0024, 0x0025, 0x0026, 0x0027, 0x0028, 0x0029, 0x002A, 0x002B, 0x002C,
    0x002D, 0x002E, 0x002F, 0x0030, 0x0031, 0x0032, 0x0033, 0x0034, 0x0035, 0x0036, 0x0037, 0x0038, 0x0039,
    0x003A, 0x003B, 0x003C, 0x003D, 0x003E, 0x003F] @
   [0x0040, 0x0041, 0x0042, 0x0043, 0x0044, 0x0045, 0x0046, 0x0047, 0x0048, 0x0049, 0x004A, 0x004B, 0x004C,
    0x004D, 0x004E, 0x004F, 0x0050, 0x0051, 0x0052, 0x0053, 0x0054, 0x0055, 0x0056, 0x0057, 0x0058, 0x0059,
    0x005A, 0x005B, 0x005C, 0x005D, 0x005E, 0x005F] @
   [0x0060, 0x0061, 0x0062, 0x0063, 0x0064, 0x0065, 0x0066, 0x0067, 0x0068, 0x0069, 0x006A, 0x006B, 0x006C,
    0x006D, 0x006E, 0x006F, 0x0070, 0x0071, 0x0072, 0x0073, 0x0074, 0x0075, 0x0076, 0x0077, 0x0078, 0x0079,
    0x007A, 0x007B, 0x007C, 0x007D, 0x007E, 0x007F] @
   [0x20AC, 0xFFFD, 0x201A, 0x0192, 0x201E, 0x2026, 0x2020, 0x2021, 0x02C6, 0x2030, 0xFFFD, 0x2039, 0x0152,
    0xFFFD, 0xFFFD, 0xFFFD, 0xFFFD, 0x2018, 0x2019, 0x201C, 0x201D, 0x2022, 0x2013, 0x2014, 0x02DC, 0x2122,
    0xFFFD, 0x203A, 0x0153, 0xFFFD, 0xFFFD, 0x0178] @
   [0x00A0, 0x00A1, 0x00A2, 0x00A3, 0x00A4, 0x00A5, 0x00A6, 0x00A7, 0x00A8, 0x00A9, 0x00AA, 0x00AB, 0x00AC,
    0x00AD, 0x00AE, 0x00AF, 0x00B0, 0x00B1, 0x00B2, 0x00B3, 0x00B4, 0x00B5, 0x00B6, 0x00B7, 0x00B8, 0x00B9,
    0x00BA, 0x00BB, 0x00BC, 0x00BD, 0x00BE, 0x00BF] @
   [0x00C0, 0x00C1, 0x00C2, 0x0102, 0x00C4, 0x00C5, 0x00C6, 0x00C7, 0x00C8, 0x00C9, 0x00CA, 0x00CB, 0x0300,
    0x00CD, 0x00CE, 0x00CF, 0x0110, 0x00D1, 0x0309, 0x00D3, 0x00D4, 0x01A0, 0x00D6, 0x00D7, 0x00D8, 0x00D9,
    0x00DA, 0x00DB, 0x00DC, 0x01AF, 0x0303, 0x00DF] @
   [0x00E0, 0x00E1, 0x00E2, 0x0103, 0x00E4, 0x00E5, 0x00E6, 0x00E7, 0x00E8, 0x00E9, 0x00EA, 0x00EB, 0x0301,
    0x00ED, 0x00EE, 0x00EF, 0x0111, 0x00F1, 0x0323, 0x00F3, 0x00F4, 0x01A1, 0x00F6, 0x00F7, 0x00F8, 0x00F9,
    0x00FA, 0x00FB, 0x00FC, 0x01B0, 0x20AB, 0x00FF]"

definition rev_cp1258 :: "(nat \<times> nat) list" where
  "rev_cp1258 =
   [(0x0000, 0x0000), (0x0001, 0x0001), (0x0002, 0x0002), (0x0003, 0x0003), (0x0004, 0x0004), (0x0005, 0x0005),
    (0x0006, 0x0006), (0x0007, 0x0007), (0x0008, 0x0008), (0x0009, 0x0009), (0x000A, 0x000A), (0x000B, 0x000B),
    (0x000C, 0x000C), (0x000D, 0x000D), (0x000E, 0x000E), (0x000F, 0x000F), (0x0010, 0x0010), (0x0011, 0x0011),
    (0x0012, 0x0012), (0x0013, 0x0013), (0x0014, 0x0014), (0x0015, 0x0015), (0x0016, 0x0016), (0x0017, 0x0017),
    (0x0018, 0x0018), (0x0019, 0x0019), (0x001A, 0x001A), (0x001B, 0x001B), (0x001C, 0x001C), (0x001D, 0x001D),
    (0x001E, 0x001E), (0x001F, 0x001F)] @
   [(0x0020, 0x0020), (0x0021, 0x0021), (0x0022, 0x0022), (0x0023, 0x0023), (0x0024, 0x0024), (0x0025, 0x0025),
    (0x0026, 0x0026), (0x0027, 0x0027), (0x0028, 0x0028), (0x0029, 0x0029), (0x002A, 0x002A), (0x002B, 0x002B),
    (0x002C, 0x002C), (0x002D, 0x002D), (0x002E, 0x002E), (0x002F, 0x002F), (0x0030, 0x0030), (0x0031, 0x0031),
    (0x0032, 0x0032), (0x0033, 0x0033), (0x0034, 0x0034), (0x0035, 0x0035), (0x0036, 0x0036), (0x0037, 0x0037),
    (0x0038, 0x0038), (0x0039, 0x0039), (0x003A, 0x003A), (0x003B, 0x003B), (0x003C, 0x003C), (0x003D, 0x003D),
    (0x003E, 0x003E), (0x003F, 0x003F)] @
   [(0x0040, 0x0040), (0x0041, 0x0041), (0x0042, 0x0042), (0x0043, 0x0043), (0x0044, 0x0044), (0x0045, 0x0045),
    (0x0046, 0x0046), (0x0047, 0x0047), (0x0048, 0x0048), (0x0049, 0x0049), (0x004A, 0x004A), (0x004B, 0x004B),
    (0x004C, 0x004C), (0x004D, 0x004D), (0x004E, 0x004E), (0x004F, 0x004F), (0x0050, 0x0050), (0x0051, 0x0051),
    (0x0052, 0x0052), (0x0053, 0x0053), (0x0054, 0x0054), (0x0055, 0x0055), (0x0056, 0x0056), (0x0057, 0x0057),
    (0x0058, 0x0058), (0x0059, 0x0059), (0x005A, 0x005A), (0x005B, 0x005B), (0x005C, 0x005C), (0x005D, 0x005D),
    (0x005E, 0x005E), (0x005F, 0x005F)] @
   [(0x0060, 0x0060), (0x0061, 0x0061), (0x0062, 0x0062), (0x0063, 0x0063), (0x0064, 0x0064), (0x0065, 0x0065),
    (0x0066, 0x0066), (0x0067, 0x0067), (0x0068, 0x0068), (0x0069, 0x0069), (0x006A, 0x006A), (0x006B, 0x006B),
    (0x006C, 0x006C), (0x006D, 0x006D), (0x006E, 0x006E), (0x006F, 0x006F), (0x0070, 0x0070), (0x0071, 0x0071),
    (0x0072, 0x0072), (0x0073, 0x0073), (0x0074, 0x0074), (0x0075, 0x0075), (0x0076, 0x0076), (0x0077, 0x0077),
    (0x0078, 0x0078), (0x0079, 0x0079), (0x007A, 0x007A), (0x007B, 0x007B), (0x007C, 0x007C), (0x007D, 0x007D),
    (0x007E, 0x007E), (0x007F, 0x007F)] @
   [(0x00A0, 0x00A0), (0x00A1, 0x00A1), (0x00A2, 0x00A2), (0x00A3, 0x00A3), (0x00A4, 0x00A4), (0x00A5, 0x00A5),
    (0x00A6, 0x00A6), (0x00A7, 0x00A7), (0x00A8, 0x00A8), (0x00A9, 0x00A9), (0x00AA, 0x00AA), (0x00AB, 0x00AB),
    (0x00AC, 0x00AC), (0x00AD, 0x00AD), (0x00AE, 0x00AE), (0x00AF, 0x00AF), (0x00B0, 0x00B0), (0x00B1, 0x00B1),
    (0x00B2, 0x00B2), (0x00B3, 0x00B3), (0x00B4, 0x00B4), (0x00B5, 0x00B5), (0x00B6, 0x00B6), (0x00B7, 0x00B7),
    (0x00B8, 0x00B8), (0x00B9, 0x00B9), (0x00BA, 0x00BA), (0x00BB, 0x00BB), (0x00BC, 0x00BC), (0x00BD, 0x00BD),
    (0x00BE, 0x00BE), (0x00BF, 0x00BF)] @
   [(0x00C0, 0x00C0), (0x00C1, 0x00C1), (0x00C2, 0x00C2), (0x00C4, 0x00C4), (0x00C5, 0x00C5), (0x00C6, 0x00C6),
    (0x00C7, 0x00C7), (0x00C8, 0x00C8), (0x00C9, 0x00C9), (0x00CA, 0x00CA), (0x00CB, 0x00CB), (0x00CD, 0x00CD),
    (0x00CE, 0x00CE), (0x00CF, 0x00CF), (0x00D1, 0x00D1), (0x00D3, 0x00D3), (0x00D4, 0x00D4), (0x00D6, 0x00D6),
    (0x00D7, 0x00D7), (0x00D8, 0x00D8), (0x00D9, 0x00D9), (0x00DA, 0x00DA), (0x00DB, 0x00DB), (0x00DC, 0x00DC),
    (0x00DF, 0x00DF), (0x00E0, 0x00E0), (0x00E1, 0x00E1), (0x00E2, 0x00E2), (0x00E4, 0x00E4), (0x00E5, 0x00E5),
    (0x00E6, 0x00E6), (0x00E7, 0x00E7)] @
   [(0x00E8, 0x00E8), (0x00E9, 0x00E9), (0x00EA, 0x00EA), (0x00EB, 0x00EB), (0x00ED, 0x00ED), (0x00EE, 0x00EE),
    (0x00EF, 0x00EF), (0x00F1, 0x00F1), (0x00F3, 0x00F3), (0x00F4, 0x00F4), (0x00F6, 0x00F6), (0x00F7, 0x00F7),
    (0x00F8, 0x00F8), (0x00F9, 0x00F9), (0x00FA, 0x00FA), (0x00FB, 0x00FB), (0x00FC, 0x00FC), (0x00FF, 0x00FF),
    (0x0102, 0x00C3), (0x0103, 0x00E3), (0x0110, 0x00D0), (0x0111, 0x00F0), (0x0152, 0x008C), (0x0153, 0x009C),
    (0x0178, 0x009F), (0x0192, 0x0083), (0x01A0, 0x00D5), (0x01A1, 0x00F5), (0x01AF, 0x00DD), (0x01B0, 0x00FD),
    (0x02C6, 0x0088), (0x02DC, 0x0098)] @
   [(0x0300, 0x00CC), (0x0301, 0x00EC), (0x0303, 0x00DE), (0x0309, 0x00D2), (0x0323, 0x00F2), (0x2013, 0x0096),
    (0x2014, 0x0097), (0x2018, 0x0091), (0x2019, 0x0092), (0x201A, 0x0082), (0x201C, 0x0093), (0x201D, 0x0094),
    (0x201E, 0x0084), (0x2020, 0x0086), (0x2021, 0x0087), (0x2022, 0x0095), (0x2026, 0x0085), (0x2030, 0x0089),
    (0x2039, 0x008B), (0x203A, 0x009B), (0x20AB, 0x00FE), (0x20AC, 0x0080), (0x2122, 0x0099)]"

definition page_1258 :: CpPage where
  "page_1258 = \<lparr> cp = 1258, is_dbcs = False, dec1 = dec1_cp1258, lead = [], leadrow = [], dec2 = [],
     rev_map = rev_cp1258 \<rparr>"

lemmas at_1258 = row_nth [OF dec1_cp1258_def]

lemma ascending_1258: "ascending (map fst rev_cp1258)"
  by (simp add: rev_cp1258_def)

lemma entries_1258: "list_all (sb_entry dec1_cp1258) rev_cp1258"
  by (simp add: rev_cp1258_def sb_entry_def at_1258)

lemma tally_1258: "tally (\<lambda>_. True) 0 dec1_cp1258 = 256"
  "tally (\<lambda>_. True) 0 rev_cp1258 = tally (\<lambda>u. u \<noteq> 65533) 0 dec1_cp1258"
  by (simp_all add: dec1_cp1258_def rev_cp1258_def)

lemma sb_page_1258: "sb_page page_1258"
  by (simp add: sb_page_def sound_tables_def page_1258_def ascending_1258 entries_1258 tally_1258)

lemma ascii_1258: "ascii_from 0 (dec1 page_1258)"
  by (simp add: page_1258_def dec1_cp1258_def)

section \<open>Page 874\<close>

definition dec1_cp874 :: "nat list" where
  "dec1_cp874 =
   [0x0000, 0x0001, 0x0002, 0x0003, 0x0004, 0x0005, 0x0006, 0x0007, 0x0008, 0x0009, 0x000A, 0x000B, 0x000C,
    0x000D, 0x000E, 0x000F, 0x0010, 0x0011, 0x0012, 0x0013, 0x0014, 0x0015, 0x0016, 0x0017, 0x0018, 0x0019,
    0x001A, 0x001B, 0x001C, 0x001D, 0x001E, 0x001F] @
   [0x0020, 0x0021, 0x0022, 0x0023, 0x0024, 0x0025, 0x0026, 0x0027, 0x0028, 0x0029, 0x002A, 0x002B, 0x002C,
    0x002D, 0x002E, 0x002F, 0x0030, 0x0031, 0x0032, 0x0033, 0x0034, 0x0035, 0x0036, 0x0037, 0x0038, 0x0039,
    0x003A, 0x003B, 0x003C, 0x003D, 0x003E, 0x003F] @
   [0x0040, 0x0041, 0x0042, 0x0043, 0x0044, 0x0045, 0x0046, 0x0047, 0x0048, 0x0049, 0x004A, 0x004B, 0x004C,
    0x004D, 0x004E, 0x004F, 0x0050, 0x0051, 0x0052, 0x0053, 0x0054, 0x0055, 0x0056, 0x0057, 0x0058, 0x0059,
    0x005A, 0x005B, 0x005C, 0x005D, 0x005E, 0x005F] @
   [0x0060, 0x0061, 0x0062, 0x0063, 0x0064, 0x0065, 0x0066, 0x0067, 0x0068, 0x0069, 0x006A, 0x006B, 0x006C,
    0x006D, 0x006E, 0x006F, 0x0070, 0x0071, 0x0072, 0x0073, 0x0074, 0x0075, 0x0076, 0x0077, 0x0078, 0x0079,
    0x007A, 0x007B, 0x007C, 0x007D, 0x007E, 0x007F] @
   [0x20AC, 0xFFFD, 0xFFFD, 0xFFFD, 0xFFFD, 0x2026, 0xFFFD, 0xFFFD, 0xFFFD, 0xFFFD, 0xFFFD, 0xFFFD, 0xFFFD,
    0xFFFD, 0xFFFD, 0xFFFD, 0xFFFD, 0x2018, 0x2019, 0x201C, 0x201D, 0x2022, 0x2013, 0x2014, 0xFFFD, 0xFFFD,
    0xFFFD, 0xFFFD, 0xFFFD, 0xFFFD, 0xFFFD, 0xFFFD] @
   [0x00A0, 0x0E01, 0x0E02, 0x0E03, 0x0E04, 0x0E05, 0x0E06, 0x0E07, 0x0E08, 0x0E09, 0x0E0A, 0x0E0B, 0x0E0C,
    0x0E0D, 0x0E0E, 0x0E0F, 0x0E10, 0x0E11, 0x0E12, 0x0E13, 0x0E14, 0x0E15, 0x0E16, 0x0E17, 0x0E18, 0x0E19,
    0x0E1A, 0x0E1B, 0x0E1C, 0x0E1D, 0x0E1E, 0x0E1F] @
   [0x0E20, 0x0E21, 0x0E22, 0x0E23, 0x0E24, 0x0E25, 0x0E26, 0x0E27, 0x0E28, 0x0E29, 0x0E2A, 0x0E2B, 0x0E2C,
    0x0E2D, 0x0E2E, 0x0E2F, 0x0E30, 0x0E31, 0x0E32, 0x0E33, 0x0E34, 0x0E35, 0x0E36, 0x0E37, 0x0E38, 0x0E39,
    0x0E3A, 0xFFFD, 0xFFFD, 0xFFFD, 0xFFFD, 0x0E3F] @
   [0x0E40, 0x0E41, 0x0E42, 0x0E43, 0x0E44, 0x0E45, 0x0E46, 0x0E47, 0x0E48, 0x0E49, 0x0E4A, 0x0E4B, 0x0E4C,
    0x0E4D, 0x0E4E, 0x0E4F, 0x0E50, 0x0E51, 0x0E52, 0x0E53, 0x0E54, 0x0E55, 0x0E56, 0x0E57, 0x0E58, 0x0E59,
    0x0E5A, 0x0E5B, 0xFFFD, 0xFFFD, 0xFFFD, 0xFFFD]"

definition rev_cp874 :: "(nat \<times> nat) list" where
  "rev_cp874 =
   [(0x0000, 0x0000), (0x0001, 0x0001), (0x0002, 0x0002), (0x0003, 0x0003), (0x0004, 0x0004), (0x0005, 0x0005),
    (0x0006, 0x0006), (0x0007, 0x0007), (0x0008, 0x0008), (0x0009, 0x0009), (0x000A, 0x000A), (0x000B, 0x000B),
    (0x000C, 0x000C), (0x000D, 0x000D), (0x000E, 0x000E), (0x000F, 0x000F), (0x0010, 0x0010), (0x0011, 0x0011),
    (0x0012, 0x0012), (0x0013, 0x0013), (0x0014, 0x0014), (0x0015, 0x0015), (0x0016, 0x0016), (0x0017, 0x0017),
    (0x0018, 0x0018), (0x0019, 0x0019), (0x001A, 0x001A), (0x001B, 0x001B), (0x001C, 0x001C), (0x001D, 0x001D),
    (0x001E, 0x001E), (0x001F, 0x001F)] @
   [(0x0020, 0x0020), (0x0021, 0x0021), (0x0022, 0x0022), (0x0023, 0x0023), (0x0024, 0x0024), (0x0025, 0x0025),
    (0x0026, 0x0026), (0x0027, 0x0027), (0x0028, 0x0028), (0x0029, 0x0029), (0x002A, 0x002A), (0x002B, 0x002B),
    (0x002C, 0x002C), (0x002D, 0x002D), (0x002E, 0x002E), (0x002F, 0x002F), (0x0030, 0x0030), (0x0031, 0x0031),
    (0x0032, 0x0032), (0x0033, 0x0033), (0x0034, 0x0034), (0x0035, 0x0035), (0x0036, 0x0036), (0x0037, 0x0037),
    (0x0038, 0x0038), (0x0039, 0x0039), (0x003A, 0x003A), (0x003B, 0x003B), (0x003C, 0x003C), (0x003D, 0x003D),
    (0x003E, 0x003E), (0x003F, 0x003F)] @
   [(0x0040, 0x0040), (0x0041, 0x0041), (0x0042, 0x0042), (0x0043, 0x0043), (0x0044, 0x0044), (0x0045, 0x0045),
    (0x0046, 0x0046), (0x0047, 0x0047), (0x0048, 0x0048), (0x0049, 0x0049), (0x004A, 0x004A), (0x004B, 0x004B),
    (0x004C, 0x004C), (0x004D, 0x004D), (0x004E, 0x004E), (0x004F, 0x004F), (0x0050, 0x0050), (0x0051, 0x0051),
    (0x0052, 0x0052), (0x0053, 0x0053), (0x0054, 0x0054), (0x0055, 0x0055), (0x0056, 0x0056), (0x0057, 0x0057),
    (0x0058, 0x0058), (0x0059, 0x0059), (0x005A, 0x005A), (0x005B, 0x005B), (0x005C, 0x005C), (0x005D, 0x005D),
    (0x005E, 0x005E), (0x005F, 0x005F)] @
   [(0x0060, 0x0060), (0x0061, 0x0061), (0x0062, 0x0062), (0x0063, 0x0063), (0x0064, 0x0064), (0x0065, 0x0065),
    (0x0066, 0x0066), (0x0067, 0x0067), (0x0068, 0x0068), (0x0069, 0x0069), (0x006A, 0x006A), (0x006B, 0x006B),
    (0x006C, 0x006C), (0x006D, 0x006D), (0x006E, 0x006E), (0x006F, 0x006F), (0x0070, 0x0070), (0x0071, 0x0071),
    (0x0072, 0x0072), (0x0073, 0x0073), (0x0074, 0x0074), (0x0075, 0x0075), (0x0076, 0x0076), (0x0077, 0x0077),
    (0x0078, 0x0078), (0x0079, 0x0079), (0x007A, 0x007A), (0x007B, 0x007B), (0x007C, 0x007C), (0x007D, 0x007D),
    (0x007E, 0x007E), (0x007F, 0x007F)] @
   [(0x00A0, 0x00A0), (0x0E01, 0x00A1), (0x0E02, 0x00A2), (0x0E03, 0x00A3), (0x0E04, 0x00A4), (0x0E05, 0x00A5),
    (0x0E06, 0x00A6), (0x0E07, 0x00A7), (0x0E08, 0x00A8), (0x0E09, 0x00A9), (0x0E0A, 0x00AA), (0x0E0B, 0x00AB),
    (0x0E0C, 0x00AC), (0x0E0D, 0x00AD), (0x0E0E, 0x00AE), (0x0E0F, 0x00AF), (0x0E10, 0x00B0), (0x0E11, 0x00B1),
    (0x0E12, 0x00B2), (0x0E13, 0x00B3), (0x0E14, 0x00B4), (0x0E15, 0x00B5), (0x0E16, 0x00B6), (0x0E17, 0x00B7),
    (0x0E18, 0x00B8), (0x0E19, 0x00B9), (0x0E1A, 0x00BA), (0x0E1B, 0x00BB), (0x0E1C, 0x00BC), (0x0E1D, 0x00BD),
    (0x0E1E, 0x00BE), (0x0E1F, 0x00BF)] @
   [(0x0E20, 0x00C0), (0x0E21, 0x00C1), (0x0E22, 0x00C2), (0x0E23, 0x00C3), (0x0E24, 0x00C4), (0x0E25, 0x00C5),
    (0x0E26, 0x00C6), (0x0E27, 0x00C7), (0x0E28, 0x00C8), (0x0E29, 0x00C9), (0x0E2A, 0x00CA), (0x0E2B, 0x00CB),
    (0x0E2C, 0x00CC), (0x0E2D, 0x00CD), (0x0E2E, 0x00CE), (0x0E2F, 0x00CF), (0x0E30, 0x00D0), (0x0E31, 0x00D1),
    (0x0E32, 0x00D2), (0x0E33, 0x00D3), (0x0E34, 0x00D4), (0x0E35, 0x00D5), (0x0E36, 0x00D6), (0x0E37, 0x00D7),
    (0x0E38, 0x00D8), (0x0E39, 0x00D9), (0x0E3A, 0x00DA), (0x0E3F, 0x00DF), (0x0E40, 0x00E0), (0x0E41, 0x00E1),
    (0x0E42, 0x00E2), (0x0E43, 0x00E3)] @
   [(0x0E44, 0x00E4), (0x0E45, 0x00E5), (0x0E46, 0x00E6), (0x0E47, 0x00E7), (0x0E48, 0x00E8), (0x0E49, 0x00E9),
    (0x0E4A, 0x00EA), (0x0E4B, 0x00EB), (0x0E4C, 0x00EC), (0x0E4D, 0x00ED), (0x0E4E, 0x00EE), (0x0E4F, 0x00EF),
    (0x0E50, 0x00F0), (0x0E51, 0x00F1), (0x0E52, 0x00F2), (0x0E53, 0x00F3), (0x0E54, 0x00F4), (0x0E55, 0x00F5),
    (0x0E56, 0x00F6), (0x0E57, 0x00F7), (0x0E58, 0x00F8), (0x0E59, 0x00F9), (0x0E5A, 0x00FA), (0x0E5B, 0x00FB),
    (0x2013, 0x0096), (0x2014, 0x0097), (0x2018, 0x0091), (0x2019, 0x0092), (0x201C, 0x0093), (0x201D, 0x0094),
    (0x2022, 0x0095), (0x2026, 0x0085)] @
   [(0x20AC, 0x0080)]"

definition page_874 :: CpPage where
  "page_874 = \<lparr> cp = 874, is_dbcs = False, dec1 = dec1_cp874, lead = [], leadrow = [], dec2 = [],
     rev_map = rev_cp874 \<rparr>"

lemmas at_874 = row_nth [OF dec1_cp874_def]

lemma ascending_874: "ascending (map fst rev_cp874)"
  by (simp add: rev_cp874_def)

lemma entries_874: "list_all (sb_entry dec1_cp874) rev_cp874"
  by (simp add: rev_cp874_def sb_entry_def at_874)

lemma tally_874: "tally (\<lambda>_. True) 0 dec1_cp874 = 256"
  "tally (\<lambda>_. True) 0 rev_cp874 = tally (\<lambda>u. u \<noteq> 65533) 0 dec1_cp874"
  by (simp_all add: dec1_cp874_def rev_cp874_def)

lemma sb_page_874: "sb_page page_874"
  by (simp add: sb_page_def sound_tables_def page_874_def ascending_874 entries_874 tally_874)

lemma ascii_874: "ascii_from 0 (dec1 page_874)"
  by (simp add: page_874_def dec1_cp874_def)

end
