(* ===== verification/DosPages.thy ===== *)
theory DosPages
  imports SbPage
begin

text \<open>
  The first half of the console pages of \<^verbatim>\<open>src/src/charset_tables_data.c\<close>, transcribed entry
  by entry, with the checks of their tables.
\<close>

section \<open>Page 437\<close>

definition dec1_cp437 :: "nat list" where
  "dec1_cp437 =
   [0x0000, 0x0001, 0x0002, 0x0003, 0x0004, 0x0005, 0x0006, 0x0007, 0x0008, 0x0009, 0x000A, 0x000B, 0x000C,
    0x000D, 0x000E, 0x000F, 0x0010, 0x0011, 0x0012, 0x0013, 0x0014, 0x0015, 0x0016, 0x0017, 0x0018, 0x0019,
    0x001A, 0x001B, 0x001C, 0x001D, 0x001E, 0x001F] @
   [0x0020, 0x0021, 0x0022, 0x0023, 0x0024, 0x0025, 0x0026, 0x0027, 0x0028, 0x0029, 0x002A, 0x002B, 0x002C,
    0x002D, 0x002E, 0x002F, 0x0030, 0x0031, 0x0032, 0x0033, 0x0034, 0x0035, 0x0036, 0x0037, 0x0038, 0x0039,
    0x003A, 0x003B, 0x003C, 0x003D, 0x003E, 0x003F] @
   [0x0040, 0x0041, 0x0042, 0x0043, 0x0044, 0x0045, 0x0046, 0x0047, 0x0048, 0x0049, 0x004A, 0x004B, 0x004C,
    0x004D, 0x004E, 0x004F, 0x0050, 0x0051, 0x0052, 0x0053, 0x0054, 0x0055, 0x0056, 0x0057, 0x0058, 0x0059,
    0x005A, 0x005B, 0x005C, 0x005D, 0x005E, 0x005F] @
   [0x0060, 0x0061, 0x0062, 0x0063, 0x0064, 0x0065, 0x0066, 0x0067, 0x0068, 0x0069, 0x006A, 0x006B, 0x006C,
    0x006D, 0x006E, 0x006F, 0x0070, 0x0071, 0x0072, 0x0073, 0x0074, 0x0075, 0x0076, 0x0077, 0x0078, 0x0079,
    0x007A, 0x007B, 0x007C, 0x007D, 0x007E, 0x007F] @
   [0x00C7, 0x00FC, 0x00E9, 0x00E2, 0x00E4, 0x00E0, 0x00E5, 0x00E7, 0x00EA, 0x00EB, 0x00E8, 0x00EF, 0x00EE,
    0x00EC, 0x00C4, 0x00C5, 0x00C9, 0x00E6, 0x00C6, 0x00F4, 0x00F6, 0x00F2, 0x00FB, 0x00F9, 0x00FF, 0x00D6,
    0x00DC, 0x00A2, 0x00A3, 0x00A5, 0x20A7, 0x0192] @
   [0x00E1, 0x00ED, 0x00F3, 0x00FA, 0x00F1, 0x00D1, 0x00AA, 0x00BA, 0x00BF, 0x2310, 0x00AC, 0x00BD, 0x00BC,
    0x00A1, 0x00AB, 0x00BB, 0x2591, 0x2592, 0x2593, 0x2502, 0x2524, 0x2561, 0x2562, 0x2556, 0x2555, 0x2563,
    0x2551, 0x2557, 0x255D, 0x255C, 0x255B, 0x2510] @
   [0x2514, 0x2534, 0x252C, 0x251C, 0x2500, 0x253C, 0x255E, 0x255F, 0x255A, 0x2554, 0x2569, 0x2566, 0x2560,
    0x2550, 0x256C, 0x2567, 0x2568, 0x2564, 0x2565, 0x2559, 0x2558, 0x2552, 0x2553, 0x256B, 0x256A, 0x2518,
    0x250C, 0x2588, 0x2584, 0x258C, 0x2590, 0x2580] @
   [0x03B1, 0x00DF, 0x0393, 0x03C0, 0x03A3, 0x03C3, 0x00B5, 0x03C4, 0x03A6, 0x0398, 0x03A9, 0x03B4, 0x221E,
    0x03C6, 0x03B5, 0x2229, 0x2261, 0x00B1, 0x2265, 0x2264, 0x2320, 0x2321, 0x00F7, 0x2248, 0x00B0, 0x2219,
    0x00B7, 0x221A, 0x207F, 0x00B2, 0x25A0, 0x00A0]"

definition rev_cp437 :: "(nat \<times> nat) list" where
  "rev_cp437 =
   [(0x0000, 0x0000), (0x0001, 0x0001), (0x0002, 0x0002), (0x0003, 0x0003), (0x0004, 0x0004), (0x0005, 0x0005),
    (0x0006, 0x0006), (0x0007, 0x0007), (0x0008, 0x0008), (0x0009, 0x0009), (0x000A, 0x000A), (0x000B, 0x000B),
    (0x000C, 0x000C), (0x000D, 0x000D), (0x000E, 0x000E), (0x000F, 0x000F), (0x0010, 0x0010), (0x0011, 0x0011),
    (0x0012, 0x0012), (0x0013, 0x0013), (0x0014, 0x0014), (0x0015, 0x0015), (0x0016, 0x0016), (0x0017, 0x0017),
    (0x0018, 0x0018), (0x0019, 0x0019), (0x001A, 0x001A), (0x001B, 0x001B), (0x001C, 0x001C), (0x001D, 0x001D),
    (0x001E, 0x001E), (0x001F, 0x001F)] @
   [(0x0020, 0x0020), (0x0021, 0x0021), (0x0022, 0x0022), (0x0023, 0x0023), (0x0024, 0x0024), (0x0025, 0x0025),
    (0x0026, 0x0026), (0x0027, 0x0027), (0x0028, 0x0028), (0x0029, 0x0029), (0x002A, 0x002A), (0x002B, 0x002B),
    (0x002C, 0x002C), (0x002D, 0x002D), (0x002E, 0x002E), (0x002F, 0x002F), (0x0030, 0x0030), (0x0031, 0x0031),
    (0x0032, 0x0032), (0x0033, 0x0033), (0x0034, 0x0034), (0x0035, 0x0035), (0x0036, 0x0036), (0x0037, 0x0037),
    (0x0038, 0x0038), (0x0039, 0x0039), (0x003A, 0x003A), (0x003B, 0x003B), (0x003C, 0x003C), (0x003D, 0x003D),
    (0x003E, 0x003E), (0x003F, 0x003F)] @
   [(0x0040, 0x0040), (0x0041, 0x0041), (0x0042, 0x0042), (0x0043, 0x0043), (0x0044, 0x0044), (0x0045, 0x0045),
    (0x0046, 0x0046), (0x0047, 0x0047), (0x0048, 0x0048), (0x0049, 0x0049), (0x004A, 0x004A), (0x004B, 0x004B),
    (0x004C, 0x004C), (0x004D, 0x004D), (0x004E, 0x004E), (0x004F, 0x004F), (0x0050, 0x0050), (0x0051, 0x0051),
    (0x0052, 0x0052), (0x0053, 0x0053), (0x0054, 0x0054), (0x0055, 0x0055), (0x0056, 0x0056), (0x0057, 0x0057),
    (0x0058, 0x0058), (0x0059, 0x0059), (0x005A, 0x005A), (0x005B, 0x005B), (0x005C, 0x005C), (0x005D, 0x005D),
    (0x005E, 0x005E), (0x005F, 0x005F)] @
   [(0x0060, 0x0060), (0x0061, 0x0061), (0x0062, 0x0062), (0x0063, 0x0063), (0x0064, 0x0064), (0x0065, 0x0065),
    (0x0066, 0x0066), (0x0067, 0x0067), (0x0068, 0x0068), (0x0069, 0x0069), (0x006A, 0x006A), (0x006B, 0x006B),
    (0x006C, 0x006C), (0x006D, 0x006D), (0x006E, 0x006E), (0x006F, 0x006F), (0x0070, 0x0070), (0x0071, 0x0071),
    (0x0072, 0x0072), (0x0073, 0x0073), (0x0074, 0x0074), (0x0075, 0x0075), (0x0076, 0x0076), (0x0077, 0x0077),
    (0x0078, 0x0078), (0x0079, 0x0079), (0x007A, 0x007A), (0x007B, 0x007B), (0x007C, 0x007C), (0x007D, 0x007D),
    (0x007E, 0x007E), (0x007F, 0x007F)] @
   [(0x00A0, 0x00FF), (0x00A1, 0x00AD), (0x00A2, 0x009B), (0x00A3, 0x009C), (0x00A5, 0x009D), (0x00AA, 0x00A6),
    (0x00AB, 0x00AE), (0x00AC, 0x00AA), (0x00B0, 0x00F8), (0x00B1, 0x00F1), (0x00B2, 0x00FD), (0x00B5, 0x00E6),
    (0x00B7, 0x00FA), (0x00BA, 0x00A7), (0x00BB, 0x00AF), (0x00BC, 0x00AC), (0x00BD, 0x00AB), (0x00BF, 0x00A8),
    (0x00C4, 0x008E), (0x00C5, 0x008F), (0x00C6, 0x0092), (0x00C7, 0x0080), (0x00C9, 0x0090), (0x00D1, 0x00A5),
    (0x00D6, 0x0099), (0x00DC, 0x009A), (0x00DF, 0x00E1), (0x00E0, 0x0085), (0x00E1, 0x00A0), (0x00E2, 0x0083),
    (0x00E4, 0x0084), (0x00E5, 0x0086)] @
   [(0x00E6, 0x0091), (0x00E7, 0x0087), (0x00E8, 0x008A), (0x00E9, 0x0082), (0x00EA, 0x0088), (0x00EB, 0x0089),
    (0x00EC, 0x008D), (0x00ED, 0x00A1), (0x00EE, 0x008C), (0x00EF, 0x008B), (0x00F1, 0x00A4), (0x00F2, 0x0095),
    (0x00F3, 0x00A2), (0x00F4, 0x0093), (0x00F6, 0x0094), (0x00F7, 0x00F6), (0x00F9, 0x0097), (0x00FA, 0x00A3),
    (0x00FB, 0x0096), (0x00FC, 0x0081), (0x00FF, 0x0098), (0x0192, 0x009F), (0x0393, 0x00E2), (0x0398, 0x00E9),
    (0x03A3, 0x00E4), (0x03A6, 0x00E8), (0x03A9, 0x00EA), (0x03B1, 0x00E0), (0x03B4, 0x00EB), (0x03B5, 0x00EE),
    (0x03C0, 0x00E3), (0x03C3, 0x00E5)] @
   [(0x03C4, 0x00E7), (0x03C6, 0x00ED), (0x207F, 0x00FC), (0x20A7, 0x009E), (0x2219, 0x00F9), (0x221A, 0x00FB),
    (0x221E, 0x00EC), (0x2229, 0x00EF), (0x2248, 0x00F7), (0x2261, 0x00F0), (0x2264, 0x00F3), (0x2265, 0x00F2),
    (0x2310, 0x00A9), (0x2320, 0x00F4), (0x2321, 0x00F5), (0x2500, 0x00C4), (0x2502, 0x00B3), (0x250C, 0x00DA),
    (0x2510, 0x00BF), (0x2514, 0x00C0), (0x2518, 0x00D9), (0x251C, 0x00C3), (0x2524, 0x00B4), (0x252C, 0x00C2),
    (0x2534, 0x00C1), (0x253C, 0x00C5), (0x2550, 0x00CD), (0x2551, 0x00BA), (0x2552, 0x00D5), (0x2553, 0x00D6),
    (0x2554, 0x00C9), (0x2555, 0x00B8)] @
   [(0x2556, 0x00B7), (0x2557, 0x00BB), (0x2558, 0x00D4), (0x2559, 0x00D3), (0x255A, 0x00C8), (0x255B, 0x00BE),
    (0x255C, 0x00BD), (0x255D, 0x00BC), (0x255E, 0x00C6), (0x255F, 0x00C7), (0x2560, 0x00CC), (0x2561, 0x00B5),
    (0x2562, 0x00B6), (0x2563, 0x00B9), (0x2564, 0x00D1), (0x2565, 0x00D2), (0x2566, 0x00CB), (0x2567, 0x00CF),
    (0x2568, 0x00D0), (0x2569, 0x00CA), (0x256A, 0x00D8), (0x256B, 0x00D7), (0x256C, 0x00CE), (0x2580, 0x00DF),
    (0x2584, 0x00DC), (0x2588, 0x00DB), (0x258C, 0x00DD), (0x2590, 0x00DE), (0x2591, 0x00B0), (0x2592, 0x00B1),
    (0x2593, 0x00B2), (0x25A0, 0x00FE)]"

definition page_437 :: CpPage where
  "page_437 = \<lparr> cp = 437, is_dbcs = False, dec1 = dec1_cp437, lead = [], leadrow = [], dec2 = [],
     rev_map = rev_cp437 \<rparr>"

lemmas at_437 = row_nth [OF dec1_cp437_def]

lemma ascending_437: "ascending (map fst rev_cp437)"
  by (simp add: rev_cp437_def)

lemma entries_437: "list_all (sb_entry dec1_cp437) rev_cp437"
  by (simp add: rev_cp437_def sb_entry_def at_437)

lemma tally_437: "tally (\<lambda>_. True) 0 dec1_cp437 = 256"
  "tally (\<lambda>_. True) 0 rev_cp437 = tally (\<lambda>u. u \<noteq> 65533) 0 dec1_cp437"
  by (simp_all add: dec1_cp437_def rev_cp437_def)

lemma sb_page_437: "sb_page page_437"
  by (simp add: sb_page_def sound_tables_def page_437_def ascending_437 entries_437 tally_437)

lemma ascii_437: "ascii_from 0 (dec1 page_437)"
  by (simp add: page_437_def dec1_cp437_def)

section \<open>Page 737\<close>

definition dec1_cp737 :: "nat list" where
  "dec1_cp737 =
   [0x0000, 0x0001, 0x0002, 0x0003, 0x0004, 0x0005, 0x0006, 0x0007, 0x0008, 0x0009, 0x000A, 0x000B, 0x000C,
    0x000D, 0x000E, 0x000F, 0x0010, 0x0011, 0x0012, 0x0013, 0x0014, 0x0015, 0x0016, 0x0017, 0x0018, 0x0019,
    0x001A, 0x001B, 0x001C, 0x001D, 0x001E, 0x001F] @
   [0x0020, 0x0021, 0x0022, 0x0023, 0x0024, 0x0025, 0x0026, 0x0027, 0x0028, 0x0029, 0x002A, 0x002B, 0x002C,
    0x002D, 0x002E, 0x002F, 0x0030, 0x0031, 0x0032, 0x0033, 0x0034, 0x0035, 0x0036, 0x0037, 0x0038, 0x0039,
    0x003A, 0x003B, 0x003C, 0x003D, 0x003E, 0x003F] @
   [0x0040, 0x0041, 0x0042, 0x0043, 0x0044, 0x0045, 0x0046, 0x0047, 0x0048, 0x0049, 0x004A, 0x004B, 0x004C,
    0x004D, 0x004E, 0x004F, 0x0050, 0x0051, 0x0052, 0x0053, 0x0054, 0x0055, 0x0056, 0x0057, 0x0058, 0x0059,
    0x005A, 0x005B, 0x005C, 0x005D, 0x005E, 0x005F] @
   [0x0060, 0x0061, 0x0062, 0x0063, 0x0064, 0x0065, 0x0066, 0x0067, 0x0068, 0x0069, 0x006A, 0x006B, 0x006C,
    0x006D, 0x006E, 0x006F, 0x0070, 0x0071, 0x0072, 0x0073, 0x0074, 0x0075, 0x0076, 0x0077, 0x0078, 0x0079,
    0x007A, 0x007B, 0x007C, 0x007D, 0x007E, 0x007F] @
   [0x0391, 0x0392, 0x0393, 0x0394, 0x0395, 0x0396, 0x0397, 0x0398, 0x0399, 0x039A, 0x039B, 0x039C, 0x039D,
    0x039E, 0x039F, 0x03A0, 0x03A1, 0x03A3, 0x03A4, 0x03A5, 0x03A6, 0x03A7, 0x03A8, 0x03A9, 0x03B1, 0x03B2,
    0x03B3, 0x03B4, 0x03B5, 0x03B6, 0x03B7, 0x03B8] @
   [0x03B9, 0x03BA, 0x03BB, 0x03BC, 0x03BD, 0x03BE, 0x03BF, 0x03C0, 0x03C1, 0x03C3, 0x03C2, 0x03C4, 0x03C5,
    0x03C6, 0x03C7, 0x03C8, 0x2591, 0x2592, 0x2593, 0x2502, 0x2524, 0x2561, 0x2562, 0x2556, 0x2555, 0x2563,
    0x2551, 0x2557, 0x255D, 0x255C, 0x255B, 0x2510] @
   [0x2514, 0x2534, 0x252C, 0x251C, 0x2500, 0x253C, 0x255E, 0x255F, 0x255A, 0x2554, 0x2569, 0x2566, 0x2560,
    0x2550, 0x256C, 0x2567, 0x2568, 0x2564, 0x2565, 0x2559, 0x2558, 0x2552, 0x2553, 0x256B, 0x256A, 0x2518,
    0x250C, 0x2588, 0x2584, 0x258C, 0x2590, 0x2580] @
   [0x03C9, 0x03AC, 0x03AD, 0x03AE, 0x03CA, 0x03AF, 0x03CC, 0x03CD, 0x03CB, 0x03CE, 0x0386, 0x0388, 0x0389,
    0x038A, 0x038C, 0x038E, 0x038F, 0x00B1, 0x2265, 0x2264, 0x03AA, 0x03AB, 0x00F7, 0x2248, 0x00B0, 0x2219,
    0x00B7, 0x221A, 0x207F, 0x00B2, 0x25A0, 0x00A0]"

definition rev_cp737 :: "(nat \<times> nat) list" where
  "rev_cp737 =
   [(0x0000, 0x0000), (0x0001, 0x0001), (0x0002, 0x0002), (0x0003, 0x0003), (0x0004, 0x0004), (0x0005, 0x0005),
    (0x0006, 0x0006), (0x0007, 0x0007), (0x0008, 0x0008), (0x0009, 0x0009), (0x000A, 0x000A), (0x000B, 0x000B),
    (0x000C, 0x000C), (0x000D, 0x000D), (0x000E, 0x000E), (0x000F, 0x000F), (0x0010, 0x0010), (0x0011, 0x0011),
    (0x0012, 0x0012), (0x0013, 0x0013), (0x0014, 0x0014), (0x0015, 0x0015), (0x0016, 0x0016), (0x0017, 0x0017),
    (0x0018, 0x0018), (0x0019, 0x0019), (0x001A, 0x001A), (0x001B, 0x001B), (0x001C, 0x001C), (0x001D, 0x001D),
    (0x001E, 0x001E), (0x001F, 0x001F)] @
   [(0x0020, 0x0020), (0x0021, 0x0021), (0x0022, 0x0022), (0x0023, 0x0023), (0x0024, 0x0024), (0x0025, 0x0025),
    (0x0026, 0x0026), (0x0027, 0x0027), (0x0028, 0x0028), (0x0029, 0x0029), (0x002A, 0x002A), (0x002B, 0x002B),
    (0x002C, 0x002C), (0x002D, 0x002D), (0x002E, 0x002E), (0x002F, 0x002F), (0x0030, 0x0030), (0x0031, 0x0031),
    (0x0032, 0x0032), (0x0033, 0x0033), (0x0034, 0x0034), (0x0035, 0x0035), (0x0036, 0x0036), (0x0037, 0x0037),
    (0x0038, 0x0038), (0x0039, 0x0039), (0x003A, 0x003A), (0x003B, 0x003B), (0x003C, 0x003C), (0x003D, 0x003D),
    (0x003E, 0x003E), (0x003F, 0x003F)] @
   [(0x0040, 0x0040), (0x0041, 0x0041), (0x0042, 0x0042), (0x0043, 0x0043), (0x0044, 0x0044), (0x0045, 0x0045),
    (0x0046, 0x0046), (0x0047, 0x0047), (0x0048, 0x0048), (0x0049, 0x0049), (0x004A, 0x004A), (0x004B, 0x004B),
    (0x004C, 0x004C), (0x004D, 0x004D), (0x004E, 0x004E), (0x004F, 0x004F), (0x0050, 0x0050), (0x0051, 0x0051),
    (0x0052, 0x0052), (0x0053, 0x0053), (0x0054, 0x0054), (0x0055, 0x0055), (0x0056, 0x0056), (0x0057, 0x0057),
    (0x0058, 0x0058), (0x0059, 0x0059), (0x005A, 0x005A), (0x005B, 0x005B), (0x005C, 0x005C), (0x005D, 0x005D),
    (0x005E, 0x005E), (0x005F, 0x005F)] @
   [(0x0060, 0x0060), (0x0061, 0x0061), (0x0062, 0x0062), (0x0063, 0x0063), (0x0064, 0x0064), (0x0065, 0x0065),
    (0x0066, 0x0066), (0x0067, 0x0067), (0x0068, 0x0068), (0x0069, 0x0069), (0x006A, 0x006A), (0x006B, 0x006B),
    (0x006C, 0x006C), (0x006D, 0x006D), (0x006E, 0x006E), (0x006F, 0x006F), (0x0070, 0x0070), (0x0071, 0x0071),
    (0x0072, 0x0072), (0x0073, 0x0073), (0x0074, 0x0074), (0x0075, 0x0075), (0x0076, 0x0076), (0x0077, 0x0077),
    (0x0078, 0x0078), (0x0079, 0x0079), (0x007A, 0x007A), (0x007B, 0x007B), (0x007C, 0x007C), (0x007D, 0x007D),
    (0x007E, 0x007E), (0x007F, 0x007F)] @
   [(0x00A0, 0x00FF), (0x00B0, 0x00F8), (0x00B1, 0x00F1), (0x00B2, 0x00FD), (0x00B7, 0x00FA), (0x00F7, 0x00F6),
    (0x0386, 0x00EA), (0x0388, 0x00EB), (0x0389, 0x00EC), (0x038A, 0x00ED), (0x038C, 0x00EE), (0x038E, 0x00EF),
    (0x038F, 0x00F0), (0x0391, 0x0080), (0x0392, 0x0081), (0x0393, 0x0082), (0x0394, 0x0083), (0x0395, 0x0084),
    (0x0396, 0x0085), (0x0397, 0x0086), (0x0398, 0x0087), (0x0399, 0x0088), (0x039A, 0x0089), (0x039B, 0x008A),
    (0x039C, 0x008B), (0x039D, 0x008C), (0x039E, 0x008D), (0x039F, 0x008E), (0x03A0, 0x008F), (0x03A1, 0x0090),
    (0x03A3, 0x0091), (0x03A4, 0x0092)] @
   [(0x03A5, 0x0093), (0x03A6, 0x0094), (0x03A7, 0x0095), (0x03A8, 0x0096), (0x03A9, 0x0097), (0x03AA, 0x00F4),
    (0x03AB, 0x00F5), (0x03AC, 0x00E1), (0x03AD, 0x00E2), (0x03AE, 0x00E3), (0x03AF, 0x00E5), (0x03B1, 0x0098),
    (0x03B2, 0x0099), (0x03B3, 0x009A), (0x03B4, 0x009B), (0x03B5, 0x009C), (0x03B6, 0x009D), (0x03B7, 0x009E),
    (0x03B8, 0x009F), (0x03B9, 0x00A0), (0x03BA, 0x00A1), (0x03BB, 0x00A2), (0x03BC, 0x00A3), (0x03BD, 0x00A4),
    (0x03BE, 0x00A5), (0x03BF, 0x00A6), (0x03C0, 0x00A7), (0x03C1, 0x00A8), (0x03C2, 0x00AA), (0x03C3, 0x00A9),
    (0x03C4, 0x00AB), (0x03C5, 0x00AC)] @
   [(0x03C6, 0x00AD), (0x03C7, 0x00AE), (0x03C8, 0x00AF), (0x03C9, 0x00E0), (0x03CA, 0x00E4), (0x03CB, 0x00E8),
    (0x03CC, 0x00E6), (0x03CD, 0x00E7), (0x03CE, 0x00E9), (0x207F, 0x00FC), (0x2219, 0x00F9), (0x221A, 0x00FB),
    (0x2248, 0x00F7), (0x2264, 0x00F3), (0x2265, 0x00F2), (0x2500, 0x00C4), (0x2502, 0x00B3), (0x250C, 0x00DA),
    (0x2510, 0x00BF), (0x2514, 0x00C0), (0x2518, 0x00D9), (0x251C, 0x00C3), (0x2524, 0x00B4), (0x252C, 0x00C2),
    (0x2534, 0x00C1), (0x253C, 0x00C5), (0x2550, 0x00CD), (0x2551, 0x00BA), (0x2552, 0x00D5), (0x2553, 0x00D6),
    (0x2554, 0x00C9), (0x2555, 0x00B8)] @
   [(0x2556, 0x00B7), (0x2557, 0x00BB), (0x2558, 0x00D4), (0x2559, 0x00D3), (0x255A, 0x00C8), (0x255B, 0x00BE),
    (0x255C, 0x00BD), (0x255D, 0x00BC), (0x255E, 0x00C6), (0x255F, 0x00C7), (0x2560, 0x00CC), (0x2561, 0x00B5),
    (0x2562, 0x00B6), (0x2563, 0x00B9), (0x2564, 0x00D1), (0x2565, 0x00D2), (0x2566, 0x00CB), (0x2567, 0x00CF),
    (0x2568, 0x00D0), (0x2569, 0x00CA), (0x256A, 0x00D8), (0x256B, 0x00D7), (0x256C, 0x00CE), (0x2580, 0x00DF),
    (0x2584, 0x00DC), (0x2588, 0x00DB), (0x258C, 0x00DD), (0x2590, 0x00DE), (0x2591, 0x00B0), (0x2592, 0x00B1),
    (0x2593, 0x00B2), (0x25A0, 0x00FE)]"

definition page_737 :: CpPage where
  "page_737 = \<lparr> cp = 737, is_dbcs = False, dec1 = dec1_cp737, lead = [], leadrow = [], dec2 = [],
     rev_map = rev_cp737 \<rparr>"

lemmas at_737 = row_nth [OF dec1_cp737_def]

lemma ascending_737: "ascending (map fst rev_cp737)"
  by (simp add: rev_cp737_def)

lemma entries_737: "list_all (sb_entry dec1_cp737) rev_cp737"
  by (simp add: rev_cp737_def sb_entry_def at_737)

lemma tally_737: "tally (\<lambda>_. True) 0 dec1_cp737 = 256"
  "tally (\<lambda>_. True) 0 rev_cp737 = tally (\<lambda>u. u \<noteq> 65533) 0 dec1_cp737"
  by (simp_all add: dec1_cp737_def rev_cp737_def)

lemma sb_page_737: "sb_page page_737"
  by (simp add: sb_page_def sound_tables_def page_737_def ascending_737 entries_737 tally_737)

lemma ascii_737: "ascii_from 0 (dec1 page_737)"
  by (simp add: page_737_def dec1_cp737_def)

section \<open>Page 775\<close>

definition dec1_cp775 :: "nat list" where
  "dec1_cp775 =
   [0x0000, 0x0001, 0x0002, 0x0003, 0x0004, 0x0005, 0x0006, 0x0007, 0x0008, 0x0009, 0x000A, 0x000B, 0x000C,
    0x000D, 0x000E, 0x000F, 0x0010, 0x0011, 0x0012, 0x0013, 0x0014, 0x0015, 0x0016, 0x0017, 0x0018, 0x0019,
    0x001A, 0x001B, 0x001C, 0x001D, 0x001E, 0x001F] @
   [0x0020, 0x0021, 0x0022, 0x0023, 0x0024, 0x0025, 0x0026, 0x0027, 0x0028, 0x0029, 0x002A, 0x002B, 0x002C,
    0x002D, 0x002E, 0x002F, 0x0030, 0x0031, 0x0032, 0x0033, 0x0034, 0x0035, 0x0036, 0x0037, 0x0038, 0x0039,
    0x003A, 0x003B, 0x003C, 0x003D, 0x003E, 0x003F] @
   [0x0040, 0x0041, 0x0042, 0x0043, 0x0044, 0x0045, 0x0046, 0x0047, 0x0048, 0x0049, 0x004A, 0x004B, 0x004C,
    0x004D, 0x004E, 0x004F, 0x0050, 0x0051, 0x0052, 0x0053, 0x0054, 0x0055, 0x0056, 0x0057, 0x0058, 0x0059,
    0x005A, 0x005B, 0x005C, 0x005D, 0x005E, 0x005F] @
   [0x0060, 0x0061, 0x0062, 0x0063, 0x0064, 0x0065, 0x0066, 0x0067, 0x0068, 0x0069, 0x006A, 0x006B, 0x006C,
    0x006D, 0x006E, 0x006F, 0x0070, 0x0071, 0x0072, 0x0073, 0x0074, 0x0075, 0x0076, 0x0077, 0x0078, 0x0079,
    0x007A, 0x007B, 0x007C, 0x007D, 0x007E, 0x007F] @
   [0x0106, 0x00FC, 0x00E9, 0x0101, 0x00E4, 0x0123, 0x00E5, 0x0107, 0x0142, 0x0113, 0x0156, 0x0157, 0x012B,
    0x0179, 0x00C4, 0x00C5, 0x00C9, 0x00E6, 0x00C6, 0x014D, 0x00F6, 0x0122, 0x00A2, 0x015A, 0x015B, 0x00D6,
    0x00DC, 0x00F8, 0x00A3, 0x00D8, 0x00D7, 0x00A4] @
   [0x0100, 0x012A, 0x00F3, 0x017B, 0x017C, 0x017A, 0x201D, 0x00A6, 0x00A9, 0x00AE, 0x00AC, 0x00BD, 0x00BC,
    0x0141, 0x00AB, 0x00BB, 0x2591, 0x2592, 0x2593, 0x2502, 0x2524, 0x0104, 0x010C, 0x0118, 0x0116, 0x2563,
    0x2551, 0x2557, 0x255D, 0x012E, 0x0160, 0x2510] @
   [0x2514, 0x2534, 0x252C, 0x251C, 0x2500, 0x253C, 0x0172, 0x016A, 0x255A, 0x2554, 0x2569, 0x2566, 0x2560,
    0x2550, 0x256C, 0x017D, 0x0105, 0x010D, 0x0119, 0x0117, 0x012F, 0x0161, 0x0173, 0x016B, 0x017E, 0x2518,
    0x250C, 0x2588, 0x2584, 0x258C, 0x2590, 0x2580] @
   [0x00D3, 0x00DF, 0x014C, 0x0143, 0x00F5, 0x00D5, 0x00B5, 0x0144, 0x0136, 0x0137, 0x013B, 0x013C, 0x0146,
    0x0112, 0x0145, 0x2019, 0x00AD, 0x00B1, 0x201C, 0x00BE, 0x00B6, 0x00A7, 0x00F7, 0x201E, 0x00B0, 0x2219,
    0x00B7, 0x00B9, 0x00B3, 0x00B2, 0x25A0, 0x00A0]"

definition rev_cp775 :: "(nat \<times> nat) list" where
  "rev_cp775 =
   [(0x0000, 0x0000), (0x0001, 0x0001), (0x0002, 0x0002), (0x0003, 0x0003), (0x0004, 0x0004), (0x0005, 0x0005),
    (0x0006, 0x0006), (0x0007, 0x0007), (0x0008, 0x0008), (0x0009, 0x0009), (0x000A, 0x000A), (0x000B, 0x000B),
    (0x000C, 0x000C), (0x000D, 0x000D), (0x000E, 0x000E), (0x000F, 0x000F), (0x0010, 0x0010), (0x0011, 0x0011),
    (0x0012, 0x0012), (0x0013, 0x0013), (0x0014, 0x0014), (0x0015, 0x0015), (0x0016, 0x0016), (0x0017, 0x0017),
    (0x0018, 0x0018), (0x0019, 0x0019), (0x001A, 0x001A), (0x001B, 0x001B), (0x001C, 0x001C), (0x001D, 0x001D),
    (0x001E, 0x001E), (0x001F, 0x001F)] @
   [(0x0020, 0x0020), (0x0021, 0x0021), (0x0022, 0x0022), (0x0023, 0x0023), (0x0024, 0x0024), (0x0025, 0x0025),
    (0x0026, 0x0026), (0x0027, 0x0027), (0x0028, 0x0028), (0x0029, 0x0029), (0x002A, 0x002A), (0x002B, 0x002B),
    (0x002C, 0x002C), (0x002D, 0x002D), (0x002E, 0x002E), (0x002F, 0x002F), (0x0030, 0x0030), (0x0031, 0x0031),
    (0x0032, 0x0032), (0x0033, 0x0033), (0x0034, 0x0034), (0x0035, 0x0035), (0x0036, 0x0036), (0x0037, 0x0037),
    (0x0038, 0x0038), (0x0039, 0x0039), (0x003A, 0x003A), (0x003B, 0x003B), (0x003C, 0x003C), (0x003D, 0x003D),
    (0x003E, 0x003E), (0x003F, 0x003F)] @
   [(0x0040, 0x0040), (0x0041, 0x0041), (0x0042, 0x0042), (0x0043, 0x0043), (0x0044, 0x0044), (0x0045, 0x0045),
    (0x0046, 0x0046), (0x0047, 0x0047), (0x0048, 0x0048), (0x0049, 0x0049), (0x004A, 0x004A), (0x004B, 0x004B),
    (0x004C, 0x004C), (0x004D, 0x004D), (0x004E, 0x004E), (0x004F, 0x004F), (0x0050, 0x0050), (0x0051, 0x0051),
    (0x0052, 0x0052), (0x0053, 0x0053), (0x0054, 0x0054), (0x0055, 0x0055), (0x0056, 0x0056), (0x0057, 0x0057),
    (0x0058, 0x0058), (0x0059, 0x0059), (0x005A, 0x005A), (0x005B, 0x005B), (0x005C, 0x005C), (0x005D, 0x005D),
    (0x005E, 0x005E), (0x005F, 0x005F)] @
   [(0x0060, 0x0060), (0x0061, 0x0061), (0x0062, 0x0062), (0x0063, 0x0063), (0x0064, 0x0064), (0x0065, 0x0065),
    (0x0066, 0x0066), (0x0067, 0x0067), (0x0068, 0x0068), (0x0069, 0x0069), (0x006A, 0x006A), (0x006B, 0x006B),
    (0x006C, 0x006C), (0x006D, 0x006D), (0x006E, 0x006E), (0x006F, 0x006F), (0x0070, 0x0070), (0x0071, 0x0071),
    (0x0072, 0x0072), (0x0073, 0x0073), (0x0074, 0x0074), (0x0075, 0x0075), (0x0076, 0x0076), (0x0077, 0x0077),
    (0x0078, 0x0078), (0x0079, 0x0079), (0x007A, 0x007A), (0x007B, 0x007B), (0x007C, 0x007C), (0x007D, 0x007D),
    (0x007E, 0x007E), (0x007F, 0x007F)] @
   [(0x00A0, 0x00FF), (0x00A2, 0x0096), (0x00A3, 0x009C), (0x00A4, 0x009F), (0x00A6, 0x00A7), (0x00A7, 0x00F5),
    (0x00A9, 0x00A8), (0x00AB, 0x00AE), (0x00AC, 0x00AA), (0x00AD, 0x00F0), (0x00AE, 0x00A9), (0x00B0, 0x00F8),
    (0x00B1, 0x00F1), (0x00B2, 0x00FD), (0x00B3, 0x00FC), (0x00B5, 0x00E6), (0x00B6, 0x00F4), (0x00B7, 0x00FA),
    (0x00B9, 0x00FB), (0x00BB, 0x00AF), (0x00BC, 0x00AC), (0x00BD, 0x00AB), (0x00BE, 0x00F3), (0x00C4, 0x008E),
    (0x00C5, 0x008F), (0x00C6, 0x0092), (0x00C9, 0x0090), (0x00D3, 0x00E0), (0x00D5, 0x00E5), (0x00D6, 0x0099),
    (0x00D7, 0x009E), (0x00D8, 0x009D)] @
   [(0x00DC, 0x009A), (0x00DF, 0x00E1), (0x00E4, 0x0084), (0x00E5, 0x0086), (0x00E6, 0x0091), (0x00E9, 0x0082),
    (0x00F3, 0x00A2), (0x00F5, 0x00E4), (0x00F6, 0x0094), (0x00F7, 0x00F6), (0x00F8, 0x009B), (0x00FC, 0x0081),
    (0x0100, 0x00A0), (0x0101, 0x0083), (0x0104, 0x00B5), (0x0105, 0x00D0), (0x0106, 0x0080), (0x0107, 0x0087),
    (0x010C, 0x00B6), (0x010D, 0x00D1), (0x0112, 0x00ED), (0x0113, 0x0089), (0x0116, 0x00B8), (0x0117, 0x00D3),
    (0x0118, 0x00B7), (0x0119, 0x00D2), (0x0122, 0x0095), (0x0123, 0x0085), (0x012A, 0x00A1), (0x012B, 0x008C),
    (0x012E, 0x00BD), (0x012F, 0x00D4)] @
   [(0x0136, 0x00E8), (0x0137, 0x00E9), (0x013B, 0x00EA), (0x013C, 0x00EB), (0x0141, 0x00AD), (0x0142, 0x0088),
    (0x0143, 0x00E3), (0x0144, 0x00E7), (0x0145, 0x00EE), (0x0146, 0x00EC), (0x014C, 0x00E2), (0x014D, 0x0093),
    (0x0156, 0x008A), (0x0157, 0x008B), (0x015A, 0x0097), (0x015B, 0x0098), (0x0160, 0x00BE), (0x0161, 0x00D5),
    (0x016A, 0x00C7), (0x016B, 0x00D7), (0x0172, 0x00C6), (0x0173, 0x00D6), (0x0179, 0x008D), (0x017A, 0x00A5),
    (0x017B, 0x00A3), (0x017C, 0x00A4), (0x017D, 0x00CF), (0x017E, 0x00D8), (0x2019, 0x00EF), (0x201C, 0x00F2),
    (0x201D, 0x00A6), (0x201E, 0x00F7)] @
   [(0x2219, 0x00F9), (0x2500, 0x00C4), (0x2502, 0x00B3), (0x250C, 0x00DA), (0x2510, 0x00BF), (0x2514, 0x00C0),
    (0x2518, 0x00D9), (0x251C, 0x00C3), (0x2524, 0x00B4), (0x252C, 0x00C2), (0x2534, 0x00C1), (0x253C, 0x00C5),
    (0x2550, 0x00CD), (0x2551, 0x00BA), (0x2554, 0x00C9), (0x2557, 0x00BB), (0x255A, 0x00C8), (0x255D, 0x00BC),
    (0x2560, 0x00CC), (0x2563, 0x00B9), (0x2566, 0x00CB), (0x2569, 0x00CA), (0x256C, 0x00CE), (0x2580, 0x00DF),
    (0x2584, 0x00DC), (0x2588, 0x00DB), (0x258C, 0x00DD), (0x2590, 0x00DE), (0x2591, 0x00B0), (0x2592, 0x00B1),
    (0x2593, 0x00B2), (0x25A0, 0x00FE)]"

definition page_775 :: CpPage where
  "page_775 = \<lparr> cp = 775, is_dbcs = False, dec1 = dec1_cp775, lead = [], leadrow = [], dec2 = [],
     rev_map = rev_cp775 \<rparr>"

lemmas at_775 = row_nth [OF dec1_cp775_def]

lemma ascending_775: "ascending (map fst rev_cp775)"
  by (simp add: rev_cp775_def)

lemma entries_775: "list_all (sb_entry dec1_cp775) rev_cp775"
  by (simp add: rev_cp775_def sb_entry_def at_775)

lemma tally_775: "tally (\<lambda>_. True) 0 dec1_cp775 = 256"
  "tally (\<lambda>_. True) 0 rev_cp775 = tally (\<lambda>u. u \<noteq> 65533) 0 dec1_cp775"
  by (simp_all add: dec1_cp775_def rev_cp775_def)

lemma sb_page_775: "sb_page page_775"
  by (simp add: sb_page_def sound_tables_def page_775_def ascending_775 entries_775 tally_775)

lemma ascii_775: "ascii_from 0 (dec1 page_775)"
  by (simp add: page_775_def dec1_cp775_def)

section \<open>Page 850\<close>

definition dec1_cp850 :: "nat list" where
  "dec1_cp850 =
   [0x0000, 0x0001, 0x0002, 0x0003, 0x0004, 0x0005, 0x0006, 0x0007, 0x0008, 0x0009, 0x000A, 0x000B, 0x000C,
    0x000D, 0x000E, 0x000F, 0x0010, 0x0011, 0x0012, 0x0013, 0x0014, 0x0015, 0x0016, 0x0017, 0x0018, 0x0019,
    0x001A, 0x001B, 0x001C, 0x001D, 0x001E, 0x001F] @
   [0x0020, 0x0021, 0x0022, 0x0023, 0x0024, 0x0025, 0x0026, 0x0027, 0x0028, 0x0029, 0x002A, 0x002B, 0x002C,
    0x002D, 0x002E, 0x002F, 0x0030, 0x0031, 0x0032, 0x0033, 0x0034, 0x0035, 0x0036, 0x0037, 0x0038, 0x0039,
    0x003A, 0x003B, 0x003C, 0x003D, 0x003E, 0x003F] @
   [0x0040, 0x0041, 0x0042, 0x0043, 0x0044, 0x0045, 0x0046, 0x0047, 0x0048, 0x0049, 0x004A, 0x004B, 0x004C,
    0x004D, 0x004E, 0x004F, 0x0050, 0x0051, 0x0052, 0x0053, 0x0054, 0x0055, 0x0056, 0x0057, 0x0058, 0x0059,
    0x005A, 0x005B, 0x005C, 0x005D, 0x005E, 0x005F] @
   [0x0060, 0x0061, 0x0062, 0x0063, 0x0064, 0x0065, 0x0066, 0x0067, 0x0068, 0x0069, 0x006A, 0x006B, 0x006C,
    0x006D, 0x006E, 0x006F, 0x0070, 0x0071, 0x0072, 0x0073, 0x0074, 0x0075, 0x0076, 0x0077, 0x0078, 0x0079,
    0x007A, 0x007B, 0x007C, 0x007D, 0x007E, 0x007F] @
   [0x00C7, 0x00FC, 0x00E9, 0x00E2, 0x00E4, 0x00E0, 0x00E5, 0x00E7, 0x00EA, 0x00EB, 0x00E8, 0x00EF, 0x00EE,
    0x00EC, 0x00C4, 0x00C5, 0x00C9, 0x00E6, 0x00C6, 0x00F4, 0x00F6, 0x00F2, 0x00FB, 0x00F9, 0x00FF, 0x00D6,
    0x00DC, 0x00F8, 0x00A3, 0x00D8, 0x00D7, 0x0192] @
   [0x00E1, 0x00ED, 0x00F3, 0x00FA, 0x00F1, 0x00D1, 0x00AA, 0x00BA, 0x00BF, 0x00AE, 0x00AC, 0x00BD, 0x00BC,
    0x00A1, 0x00AB, 0x00BB, 0x2591, 0x2592, 0x2593, 0x2502, 0x2524, 0x00C1, 0x00C2, 0x00C0, 0x00A9, 0x2563,
    0x2551, 0x2557, 0x255D, 0x00A2, 0x00A5, 0x2510] @
   [0x2514, 0x2534, 0x252C, 0x251C, 0x2500, 0x253C, 0x00E3, 0x00C3, 0x255A, 0x2554, 0x2569, 0x2566, 0x2560,
    0x2550, 0x256C, 0x00A4, 0x00F0, 0x00D0, 0x00CA, 0x00CB, 0x00C8, 0x0131, 0x00CD, 0x00CE, 0x00CF, 0x2518,
    0x250C, 0x2588, 0x2584, 0x00A6, 0x00CC, 0x2580] @
   [0x00D3, 0x00DF, 0x00D4, 0x00D2, 0x00F5, 0x00D5, 0x00B5, 0x00FE, 0x00DE, 0x00DA, 0x00DB, 0x00D9, 0x00FD,
    0x00DD, 0x00AF, 0x00B4, 0x00AD, 0x00B1, 0x2017, 0x00BE, 0x00B6, 0x00A7, 0x00F7, 0x00B8, 0x00B0, 0x00A8,
    0x00B7, 0x00B9, 0x00B3, 0x00B2, 0x25A0, 0x00A0]"

definition rev_cp850 :: "(nat \<times> nat) list" where
  "rev_cp850 =
   [(0x0000, 0x0000), (0x0001, 0x0001), (0x0002, 0x0002), (0x0003, 0x0003), (0x0004, 0x0004), (0x0005, 0x0005),
    (0x0006, 0x0006), (0x0007, 0x0007), (0x0008, 0x0008), (0x0009, 0x0009), (0x000A, 0x000A), (0x000B, 0x000B),
    (0x000C, 0x000C), (0x000D, 0x000D), (0x000E, 0x000E), (0x000F, 0x000F), (0x0010, 0x0010), (0x0011, 0x0011),
    (0x0012, 0x0012), (0x0013, 0x0013), (0x0014, 0x0014), (0x0015, 0x0015), (0x0016, 0x0016), (0x0017, 0x0017),
    (0x0018, 0x0018), (0x0019, 0x0019), (0x001A, 0x001A), (0x001B, 0x001B), (0x001C, 0x001C), (0x001D, 0x001D),
    (0x001E, 0x001E), (0x001F, 0x001F)] @
   [(0x0020, 0x0020), (0x0021, 0x0021), (0x0022, 0x0022), (0x0023, 0x0023), (0x0024, 0x0024), (0x0025, 0x0025),
    (0x0026, 0x0026), (0x0027, 0x0027), (0x0028, 0x0028), (0x0029, 0x0029), (0x002A, 0x002A), (0x002B, 0x002B),
    (0x002C, 0x002C), (0x002D, 0x002D), (0x002E, 0x002E), (0x002F, 0x002F), (0x0030, 0x0030), (0x0031, 0x0031),
    (0x0032, 0x0032), (0x0033, 0x0033), (0x0034, 0x0034), (0x0035, 0x0035), (0x0036, 0x0036), (0x0037, 0x0037),
    (0x0038, 0x0038), (0x0039, 0x0039), (0x003A, 0x003A), (0x003B, 0x003B), (0x003C, 0x003C), (0x003D, 0x003D),
    (0x003E, 0x003E), (0x003F, 0x003F)] @
   [(0x0040, 0x0040), (0x0041, 0x0041), (0x0042, 0x0042), (0x0043, 0x0043), (0x0044, 0x0044), (0x0045, 0x0045),
    (0x0046, 0x0046), (0x0047, 0x0047), (0x0048, 0x0048), (0x0049, 0x0049), (0x004A, 0x004A), (0x004B, 0x004B),
    (0x004C, 0x004C), (0x004D, 0x004D), (0x004E, 0x004E), (0x004F, 0x004F), (0x0050, 0x0050), (0x0051, 0x0051),
    (0x0052, 0x0052), (0x0053, 0x0053), (0x0054, 0x0054), (0x0055, 0x0055), (0x0056, 0x0056), (0x0057, 0x0057),
    (0x0058, 0x0058), (0x0059, 0x0059), (0x005A, 0x005A), (0x005B, 0x005B), (0x005C, 0x005C), (0x005D, 0x005D),
    (0x005E, 0x005E), (0x005F, 0x005F)] @
   [(0x0060, 0x0060), (0x0061, 0x0061), (0x0062, 0x0062), (0x0063, 0x0063), (0x0064, 0x0064), (0x0065, 0x0065),
    (0x0066, 0x0066), (0x0067, 0x0067), (0x0068, 0x0068), (0x0069, 0x0069), (0x006A, 0x006A), (0x006B, 0x006B),
    (0x006C, 0x006C), (0x006D, 0x006D), (0x006E, 0x006E), (0x006F, 0x006F), (0x0070, 0x0070), (0x0071, 0x0071),
    (0x0072, 0x0072), (0x0073, 0x0073), (0x0074, 0x0074), (0x0075, 0x0075), (0x0076, 0x0076), (0x0077, 0x0077),
    (0x0078, 0x0078), (0x0079, 0x0079), (0x007A, 0x007A), (0x007B, 0x007B), (0x007C, 0x007C), (0x007D, 0x007D),
    (0x007E, 0x007E), (0x007F, 0x007F)] @
   [(0x00A0, 0x00FF), (0x00A1, 0x00AD), (0x00A2, 0x00BD), (0x00A3, 0x009C), (0x00A4, 0x00CF), (0x00A5, 0x00BE),
    (0x00A6, 0x00DD), (0x00A7, 0x00F5), (0x00A8, 0x00F9), (0x00A9, 0x00B8), (0x00AA, 0x00A6), (0x00AB, 0x00AE),
    (0x00AC, 0x00AA), (0x00AD, 0x00F0), (0x00AE, 0x00A9), (0x00AF, 0x00EE), (0x00B0, 0x00F8), (0x00B1, 0x00F1),
    (0x00B2, 0x00FD), (0x00B3, 0x00FC), (0x00B4, 0x00EF), (0x00B5, 0x00E6), (0x00B6, 0x00F4), (0x00B7, 0x00FA),
    (0x00B8, 0x00F7), (0x00B9, 0x00FB), (0x00BA, 0x00A7), (0x00BB, 0x00AF), (0x00BC, 0x00AC), (0x00BD, 0x00AB),
    (0x00BE, 0x00F3), (0x00BF, 0x00A8)] @
   [(0x00C0, 0x00B7), (0x00C1, 0x00B5), (0x00C2, 0x00B6), (0x00C3, 0x00C7), (0x00C4, 0x008E), (0x00C5, 0x008F),
    (0x00C6, 0x0092), (0x00C7, 0x0080), (0x00C8, 0x00D4), (0x00C9, 0x0090), (0x00CA, 0x00D2), (0x00CB, 0x00D3),
    (0x00CC, 0x00DE), (0x00CD, 0x00D6), (0x00CE, 0x00D7), (0x00CF, 0x00D8), (0x00D0, 0x00D1), (0x00D1, 0x00A5),
    (0x00D2, 0x00E3), (0x00D3, 0x00E0), (0x00D4, 0x00E2), (0x00D5, 0x00E5), (0x00D6, 0x0099), (0x00D7, 0x009E),
    (0x00D8, 0x009D), (0x00D9, 0x00EB), (0x00DA, 0x00E9), (0x00DB, 0x00EA), (0x00DC, 0x009A), (0x00DD, 0x00ED),
    (0x00DE, 0x00E8), (0x00DF, 0x00E1)] @
   [(0x00E0, 0x0085), (0x00E1, 0x00A0), (0x00E2, 0x0083), (0x00E3, 0x00C6), (0x00E4, 0x0084), (0x00E5, 0x0086),
    (0x00E6, 0x0091), (0x00E7, 0x0087), (0x00E8, 0x008A), (0x00E9, 0x0082), (0x00EA, 0x0088), (0x00EB, 0x0089),
    (0x00EC, 0x008D), (0x00ED, 0x00A1), (0x00EE, 0x008C), (0x00EF, 0x008B), (0x00F0, 0x00D0), (0x00F1, 0x00A4),
    (0x00F2, 0x0095), (0x00F3, 0x00A2), (0x00F4, 0x0093), (0x00F5, 0x00E4), (0x00F6, 0x0094), (0x00F7, 0x00F6),
    (0x00F8, 0x009B), (0x00F9, 0x0097), (0x00FA, 0x00A3), (0x00FB, 0x0096), (0x00FC, 0x0081), (0x00FD, 0x00EC),
    (0x00FE, 0x00E7), (0x00FF, 0x0098)] @
   [(0x0131, 0x00D5), (0x0192, 0x009F), (0x2017, 0x00F2), (0x2500, 0x00C4), (0x2502, 0x00B3), (0x250C, 0x00DA),
    (0x2510, 0x00BF), (0x2514, 0x00C0), (0x2518, 0x00D9), (0x251C, 0x00C3), (0x2524, 0x00B4), (0x252C, 0x00C2),
    (0x2534, 0x00C1), (0x253C, 0x00C5), (0x2550, 0x00CD), (0x2551, 0x00BA), (0x2554, 0x00C9), (0x2557, 0x00BB),
    (0x255A, 0x00C8), (0x255D, 0x00BC), (0x2560, 0x00CC), (0x2563, 0x00B9), (0x2566, 0x00CB), (0x2569, 0x00CA),
    (0x256C, 0x00CE), (0x2580, 0x00DF), (0x2584, 0x00DC), (0x2588, 0x00DB), (0x2591, 0x00B0), (0x2592, 0x00B1),
    (0x2593, 0x00B2), (0x25A0, 0x00FE)]"

definition page_850 :: CpPage where
  "page_850 = \<lparr> cp = 850, is_dbcs = False, dec1 = dec1_cp850, lead = [], leadrow = [], dec2 = [],
     rev_map = rev_cp850 \<rparr>"

lemmas at_850 = row_nth [OF dec1_cp850_def]

lemma ascending_850: "ascending (map fst rev_cp850)"
  by (simp add: rev_cp850_def)

lemma entries_850: "list_all (sb_entry dec1_cp850) rev_cp850"
  by (simp add: rev_cp850_def sb_entry_def at_850)

lemma tally_850: "tally (\<lambda>_. True) 0 dec1_cp850 = 256"
  "tally (\<lambda>_. True) 0 rev_cp850 = tally (\<lambda>u. u \<noteq> 65533) 0 dec1_cp850"
  by (simp_all add: dec1_cp850_def rev_cp850_def)

lemma sb_page_850: "sb_page page_850"
  by (simp add: sb_page_def sound_tables_def page_850_def ascending_850 entries_850 tally_850)

lemma ascii_850: "ascii_from 0 (dec1 page_850)"
  by (simp add: page_850_def dec1_cp850_def)

section \<open>Page 852\<close>

definition dec1_cp852 :: "nat list" where
  "dec1_cp852 =
   [0x0000, 0x0001, 0x0002, 0x0003, 0x0004, 0x0005, 0x0006, 0x0007, 0x0008, 0x0009, 0x000A, 0x000B, 0x000C,
    0x000D, 0x000E, 0x000F, 0x0010, 0x0011, 0x0012, 0x0013, 0x0014, 0x0015, 0x0016, 0x0017, 0x0018, 0x0019,
    0x001A, 0x001B, 0x001C, 0x001D, 0x001E, 0x001F] @
   [0x0020, 0x0021, 0x0022, 0x0023, 0x0024, 0x0025, 0x0026, 0x0027, 0x0028, 0x0029, 0x002A, 0x002B, 0x002C,
    0x002D, 0x002E, 0x002F, 0x0030, 0x0031, 0x0032, 0x0033, 0x0034, 0x0035, 0x0036, 0x0037, 0x0038, 0x0039,
    0x003A, 0x003B, 0x003C, 0x003D, 0x003E, 0x003F] @
   [0x0040, 0x0041, 0x0042, 0x0043, 0x0044, 0x0045, 0x0046, 0x0047, 0x0048, 0x0049, 0x004A, 0x004B, 0x004C,
    0x004D, 0x004E, 0x004F, 0x0050, 0x0051, 0x0052, 0x0053, 0x0054, 0x0055, 0x0056, 0x0057, 0x0058, 0x0059,
    0x005A, 0x005B, 0x005C, 0x005D, 0x005E, 0x005F] @
   [0x0060, 0x0061, 0x0062, 0x0063, 0x0064, 0x0065, 0x0066, 0x0067, 0x0068, 0x0069, 0x006A, 0x006B, 0x006C,
    0x006D, 0x006E, 0x006F, 0x0070, 0x0071, 0x0072, 0x0073, 0x0074, 0x0075, 0x0076, 0x0077, 0x0078, 0x0079,
    0x007A, 0x007B, 0x007C, 0x007D, 0x007E, 0x007F] @
   [0x00C7, 0x00FC, 0x00E9, 0x00E2, 0x00E4, 0x016F, 0x0107, 0x00E7, 0x0142, 0x00EB, 0x0150, 0x0151, 0x00EE,
    0x0179, 0x00C4, 0x0106, 0x00C9, 0x0139, 0x013A, 0x00F4, 0x00F6, 0x013D, 0x013E, 0x015A, 0x015B, 0x00D6,
    0x00DC, 0x0164, 0x0165, 0x0141, 0x00D7, 0x010D] @
   [0x00E1, 0x00ED, 0x00F3, 0x00FA, 0x0104, 0x0105, 0x017D, 0x017E, 0x0118, 0x0119, 0x00AC, 0x017A, 0x010C,
    0x015F, 0x00AB, 0x00BB, 0x2591, 0x2592, 0x2593, 0x2502, 0x2524, 0x00C1, 0x00C2, 0x011A, 0x015E, 0x2563,
    0x2551, 0x2557, 0x255D, 0x017B, 0x017C, 0x2510] @
   [0x2514, 0x2534, 0x252C, 0x251C, 0x2500, 0x253C, 0x0102, 0x0103, 0x255A, 0x2554, 0x2569, 0x2566, 0x2560,
    0x2550, 0x256C, 0x00A4, 0x0111, 0x0110, 0x010E, 0x00CB, 0x010F, 0x0147, 0x00CD, 0x00CE, 0x011B, 0x2518,
    0x250C, 0x2588, 0x2584, 0x0162, 0x016E, 0x2580] @
   [0x00D3, 0x00DF, 0x00D4, 0x0143, 0x0144, 0x0148, 0x0160, 0x0161, 0x0154, 0x00DA, 0x0155, 0x0170, 0x00FD,
    0x00DD, 0x0163, 0x00B4, 0x00AD, 0x02DD, 0x02DB, 0x02C7, 0x02D8, 0x00A7, 0x00F7, 0x00B8, 0x00B0, 0x00A8,
    0x02D9, 0x0171, 0x0158, 0x0159, 0x25A0, 0x00A0]"

definition rev_cp852 :: "(nat \<times> nat) list" where
  "rev_cp852 =
   [(0x0000, 0x0000), (0x0001, 0x0001), (0x0002, 0x0002), (0x0003, 0x0003), (0x0004, 0x0004), (0x0005, 0x0005),
    (0x0006, 0x0006), (0x0007, 0x0007), (0x0008, 0x0008), (0x0009, 0x0009), (0x000A, 0x000A), (0x000B, 0x000B),
    (0x000C, 0x000C), (0x000D, 0x000D), (0x000E, 0x000E), (0x000F, 0x000F), (0x0010, 0x0010), (0x0011, 0x0011),
    (0x0012, 0x0012), (0x0013, 0x0013), (0x0014, 0x0014), (0x0015, 0x0015), (0x0016, 0x0016), (0x0017, 0x0017),
    (0x0018, 0x0018), (0x0019, 0x0019), (0x001A, 0x001A), (0x001B, 0x001B), (0x001C, 0x001C), (0x001D, 0x001D),
    (0x001E, 0x001E), (0x001F, 0x001F)] @
   [(0x0020, 0x0020), (0x0021, 0x0021), (0x0022, 0x0022), (0x0023, 0x0023), (0x0024, 0x0024), (0x0025, 0x0025),
    (0x0026, 0x0026), (0x0027, 0x0027), (0x0028, 0x0028), (0x0029, 0x0029), (0x002A, 0x002A), (0x002B, 0x002B),
    (0x002C, 0x002C), (0x002D, 0x002D), (0x002E, 0x002E), (0x002F, 0x002F), (0x0030, 0x0030), (0x0031, 0x0031),
    (0x0032, 0x0032), (0x0033, 0x0033), (0x0034, 0x0034), (0x0035, 0x0035), (0x0036, 0x0036), (0x0037, 0x0037),
    (0x0038, 0x0038), (0x0039, 0x0039), (0x003A, 0x003A), (0x003B, 0x003B), (0x003C, 0x003C), (0x003D, 0x003D),
    (0x003E, 0x003E), (0x003F, 0x003F)] @
   [(0x0040, 0x0040), (0x0041, 0x0041), (0x0042, 0x0042), (0x0043, 0x0043), (0x0044, 0x0044), (0x0045, 0x0045),
    (0x0046, 0x0046), (0x0047, 0x0047), (0x0048, 0x0048), (0x0049, 0x0049), (0x004A, 0x004A), (0x004B, 0x004B),
    (0x004C, 0x004C), (0x004D, 0x004D), (0x004E, 0x004E), (0x004F, 0x004F), (0x0050, 0x0050), (0x0051, 0x0051),
    (0x0052, 0x0052), (0x0053, 0x0053), (0x0054, 0x0054), (0x0055, 0x0055), (0x0056, 0x0056), (0x0057, 0x0057),
    (0x0058, 0x0058), (0x0059, 0x0059), (0x005A, 0x005A), (0x005B, 0x005B), (0x005C, 0x005C), (0x005D, 0x005D),
    (0x005E, 0x005E), (0x005F, 0x005F)] @
   [(0x0060, 0x0060), (0x0061, 0x0061), (0x0062, 0x0062), (0x0063, 0x0063), (0x0064, 0x0064), (0x0065, 0x0065),
    (0x0066, 0x0066), (0x0067, 0x0067), (0x0068, 0x0068), (0x0069, 0x0069), (0x006A, 0x006A), (0x006B, 0x006B),
    (0x006C, 0x006C), (0x006D, 0x006D), (0x006E, 0x006E), (0x006F, 0x006F), (0x0070, 0x0070), (0x0071, 0x0071),
    (0x0072, 0x0072), (0x0073, 0x0073), (0x0074, 0x0074), (0x0075, 0x0075), (0x0076, 0x0076), (0x0077, 0x0077),
    (0x0078, 0x0078), (0x0079, 0x0079), (0x007A, 0x007A), (0x007B, 0x007B), (0x007C, 0x007C), (0x007D, 0x007D),
    (0x007E, 0x007E), (0x007F, 0x007F)] @
   [(0x00A0, 0x00FF), (0x00A4, 0x00CF), (0x00A7, 0x00F5), (0x00A8, 0x00F9), (0x00AB, 0x00AE), (0x00AC, 0x00AA),
    (0x00AD, 0x00F0), (0x00B0, 0x00F8), (0x00B4, 0x00EF), (0x00B8, 0x00F7), (0x00BB, 0x00AF), (0x00C1, 0x00B5),
    (0x00C2, 0x00B6), (0x00C4, 0x008E), (0x00C7, 0x0080), (0x00C9, 0x0090), (0x00CB, 0x00D3), (0x00CD, 0x00D6),
    (0x00CE, 0x00D7), (0x00D3, 0x00E0), (0x00D4, 0x00E2), (0x00D6, 0x0099), (0x00D7, 0x009E), (0x00DA, 0x00E9),
    (0x00DC, 0x009A), (0x00DD, 0x00ED), (0x00DF, 0x00E1), (0x00E1, 0x00A0), (0x00E2, 0x0083), (0x00E4, 0x0084),
    (0x00E7, 0x0087), (0x00E9, 0x0082)] @
   [(0x00EB, 0x0089), (0x00ED, 0x00A1), (0x00EE, 0x008C), (0x00F3, 0x00A2), (0x00F4, 0x0093), (0x00F6, 0x0094),
    (0x00F7, 0x00F6), (0x00FA, 0x00A3), (0x00FC, 0x0081), (0x00FD, 0x00EC), (0x0102, 0x00C6), (0x0103, 0x00C7),
    (0x0104, 0x00A4), (0x0105, 0x00A5), (0x0106, 0x008F), (0x0107, 0x0086), (0x010C, 0x00AC), (0x010D, 0x009F),
    (0x010E, 0x00D2), (0x010F, 0x00D4), (0x0110, 0x00D1), (0x0111, 0x00D0), (0x0118, 0x00A8), (0x0119, 0x00A9),
    (0x011A, 0x00B7), (0x011B, 0x00D8), (0x0139, 0x0091), (0x013A, 0x0092), (0x013D, 0x0095), (0x013E, 0x0096),
    (0x0141, 0x009D), (0x0142, 0x0088)] @
   [(0x0143, 0x00E3), (0x0144, 0x00E4), (0x0147, 0x00D5), (0x0148, 0x00E5), (0x0150, 0x008A), (0x0151, 0x008B),
    (0x0154, 0x00E8), (0x0155, 0x00EA), (0x0158, 0x00FC), (0x0159, 0x00FD), (0x015A, 0x0097), (0x015B, 0x0098),
    (0x015E, 0x00B8), (0x015F, 0x00AD), (0x0160, 0x00E6), (0x0161, 0x00E7), (0x0162, 0x00DD), (0x0163, 0x00EE),
    (0x0164, 0x009B), (0x0165, 0x009C), (0x016E, 0x00DE), (0x016F, 0x0085), (0x0170, 0x00EB), (0x0171, 0x00FB),
    (0x0179, 0x008D), (0x017A, 0x00AB), (0x017B, 0x00BD), (0x017C, 0x00BE), (0x017D, 0x00A6), (0x017E, 0x00A7),
    (0x02C7, 0x00F3), (0x02D8, 0x00F4)] @
   [(0x02D9, 0x00FA), (0x02DB, 0x00F2), (0x02DD, 0x00F1), (0x2500, 0x00C4), (0x2502, 0x00B3), (0x250C, 0x00DA),
    (0x2510, 0x00BF), (0x2514, 0x00C0), (0x2518, 0x00D9), (0x251C, 0x00C3), (0x2524, 0x00B4), (0x252C, 0x00C2),
    (0x2534, 0x00C1), (0x253C, 0x00C5), (0x2550, 0x00CD), (0x2551, 0x00BA), (0x2554, 0x00C9), (0x2557, 0x00BB),
    (0x255A, 0x00C8), (0x255D, 0x00BC), (0x2560, 0x00CC), (0x2563, 0x00B9), (0x2566, 0x00CB), (0x2569, 0x00CA),
    (0x256C, 0x00CE), (0x2580, 0x00DF), (0x2584, 0x00DC), (0x2588, 0x00DB), (0x2591, 0x00B0), (0x2592, 0x00B1),
    (0x2593, 0x00B2), (0x25A0, 0x00FE)]"

definition page_852 :: CpPage where
  "page_852 = \<lparr> cp = 852, is_dbcs = False, dec1 = dec1_cp852, lead = [], leadrow = [], dec2 = [],
     rev_map = rev_cp852 \<rparr>"

lemmas at_852 = row_nth [OF dec1_cp852_def]

lemma ascending_852: "ascending (map fst rev_cp852)"
  by (simp add: rev_cp852_def)

lemma entries_852: "list_all (sb_entry dec1_cp852) rev_cp852"
  by (simp add: rev_cp852_def sb_entry_def at_852)

lemma tally_852: "tally (\<lambda>_. True) 0 dec1_cp852 = 256"
  "tally (\<lambda>_. True) 0 rev_cp852 = tally (\<lambda>u. u \<noteq> 65533) 0 dec1_cp852"
  by (simp_all add: dec1_cp852_def rev_cp852_def)

lemma sb_page_852: "sb_page page_852"
  by (simp add: sb_page_def sound_tables_def page_852_def ascending_852 entries_852 tally_852)

lemma ascii_852: "ascii_from 0 (dec1 page_852)"
  by (simp add: page_852_def dec1_cp852_def)

section \<open>Page 855\<close>

definition dec1_cp855 :: "nat list" where
  "dec1_cp855 =
   [0x0000, 0x0001, 0x0002, 0x0003, 0x0004, 0x0005, 0x0006, 0x0007, 0x0008, 0x0009, 0x000A, 0x000B, 0x000C,
    0x000D, 0x000E, 0x000F, 0x0010, 0x0011, 0x0012, 0x0013, 0x0014, 0x0015, 0x0016, 0x0017, 0x0018, 0x0019,
    0x001A, 0x001B, 0x001C, 0x001D, 0x001E, 0x001F] @
   [0x0020, 0x0021, 0x0022, 0x0023, 0x0024, 0x0025, 0x0026, 0x0027, 0x0028, 0x0029, 0x002A, 0x002B, 0x002C,
    0x002D, 0x002E, 0x002F, 0x0030, 0x0031, 0x0032, 0x0033, 0x0034, 0x0035, 0x0036, 0x0037, 0x0038, 0x0039,
    0x003A, 0x003B, 0x003C, 0x003D, 0x003E, 0x003F] @
   [0x0040, 0x0041, 0x0042, 0x0043, 0x0044, 0x0045, 0x0046, 0x0047, 0x0048, 0x0049, 0x004A, 0x004B, 0x004C,
    0x004D, 0x004E, 0x004F, 0x0050, 0x0051, 0x0052, 0x0053, 0x0054, 0x0055, 0x0056, 0x0057, 0x0058, 0x0059,
    0x005A, 0x005B, 0x005C, 0x005D, 0x005E, 0x005F] @
   [0x0060, 0x0061, 0x0062, 0x0063, 0x0064, 0x0065, 0x0066, 0x0067, 0x0068, 0x0069, 0x006A, 0x006B, 0x006C,
    0x006D, 0x006E, 0x006F, 0x0070, 0x0071, 0x0072, 0x0073, 0x0074, 0x0075, 0x0076, 0x0077, 0x0078, 0x0079,
    0x007A, 0x007B, 0x007C, 0x007D, 0x007E, 0x007F] @
   [0x0452, 0x0402, 0x0453, 0x0403, 0x0451, 0x0401, 0x0454, 0x0404, 0x0455, 0x0405, 0x0456, 0x0406, 0x0457,
    0x0407, 0x0458, 0x0408, 0x0459, 0x0409, 0x045A, 0x040A, 0x045B, 0x040B, 0x045C, 0x040C, 0x045E, 0x040E,
    0x045F, 0x040F, 0x044E, 0x042E, 0x044A, 0x042A] @
   [0x0430, 0x0410, 0x0431, 0x0411, 0x0446, 0x0426, 0x0434, 0x0414, 0x0435, 0x0415, 0x0444, 0x0424, 0x0433,
    0x0413, 0x00AB, 0x00BB, 0x2591, 0x2592, 0x2593, 0x2502, 0x2524, 0x0445, 0x0425, 0x0438, 0x0418, 0x2563,
    0x2551, 0x2557, 0x255D, 0x0439, 0x0419, 0x2510] @
   [0x2514, 0x2534, 0x252C, 0x251C, 0x2500, 0x253C, 0x043A, 0x041A, 0x255A, 0x2554, 0x2569, 0x2566, 0x2560,
    0x2550, 0x256C, 0x00A4, 0x043B, 0x041B, 0x043C, 0x041C, 0x043D, 0x041D, 0x043E, 0x041E, 0x043F, 0x2518,
    0x250C, 0x2588, 0x2584, 0x041F, 0x044F, 0x2580] @
   [0x042F, 0x0440, 0x0420, 0x0441, 0x0421, 0x0442, 0x0422, 0x0443, 0x0423, 0x0436, 0x0416, 0x0432, 0x0412,
    0x044C, 0x042C, 0x2116, 0x00AD, 0x044B, 0x042B, 0x0437, 0x0417, 0x0448, 0x0428, 0x044D, 0x042D, 0x0449,
    0x0429, 0x0447, 0x0427, 0x00A7, 0x25A0, 0x00A0]"

definition rev_cp855 :: "(nat \<times> nat) list" where
  "rev_cp855 =
   [(0x0000, 0x0000), (0x0001, 0x0001), (0x0002, 0x0002), (0x0003, 0x0003), (0x0004, 0x0004), (0x0005, 0x0005),
    (0x0006, 0x0006), (0x0007, 0x0007), (0x0008, 0x0008), (0x0009, 0x0009), (0x000A, 0x000A), (0x000B, 0x000B),
    (0x000C, 0x000C), (0x000D, 0x000D), (0x000E, 0x000E), (0x000F, 0x000F), (0x0010, 0x0010), (0x0011, 0x0011),
    (0x0012, 0x0012), (0x0013, 0x0013), (0x0014, 0x0014), (0x0015, 0x0015), (0x0016, 0x0016), (0x0017, 0x0017),
    (0x0018, 0x0018), (0x0019, 0x0019), (0x001A, 0x001A), (0x001B, 0x001B), (0x001C, 0x001C), (0x001D, 0x001D),
    (0x001E, 0x001E), (0x001F, 0x001F)] @
   [(0x0020, 0x0020), (0x0021, 0x0021), (0x0022, 0x0022), (0x0023, 0x0023), (0x0024, 0x0024), (0x0025, 0x0025),
    (0x0026, 0x0026), (0x0027, 0x0027), (0x0028, 0x0028), (0x0029, 0x0029), (0x002A, 0x002A), (0x002B, 0x002B),
    (0x002C, 0x002C), (0x002D, 0x002D), (0x002E, 0x002E), (0x002F, 0x002F), (0x0030, 0x0030), (0x0031, 0x0031),
    (0x0032, 0x0032), (0x0033, 0x0033), (0x0034, 0x0034), (0x0035, 0x0035), (0x0036, 0x0036), (0x0037, 0x0037),
    (0x0038, 0x0038), (0x0039, 0x0039), (0x003A, 0x003A), (0x003B, 0x003B), (0x003C, 0x003C), (0x003D, 0x003D),
    (0x003E, 0x003E), (0x003F, 0x003F)] @
   [(0x0040, 0x0040), (0x0041, 0x0041), (0x0042, 0x0042), (0x0043, 0x0043), (0x0044, 0x0044), (0x0045, 0x0045),
    (0x0046, 0x0046), (0x0047, 0x0047), (0x0048, 0x0048), (0x0049, 0x0049), (0x004A, 0x004A), (0x004B, 0x004B),
    (0x004C, 0x004C), (0x004D, 0x004D), (0x004E, 0x004E), (0x004F, 0x004F), (0x0050, 0x0050), (0x0051, 0x0051),
    (0x0052, 0x0052), (0x0053, 0x0053), (0x0054, 0x0054), (0x0055, 0x0055), (0x0056, 0x0056), (0x0057, 0x0057),
    (0x0058, 0x0058), (0x0059, 0x0059), (0x005A, 0x005A), (0x005B, 0x005B), (0x005C, 0x005C), (0x005D, 0x005D),
    (0x005E, 0x005E), (0x005F, 0x005F)] @
   [(0x0060, 0x0060), (0x0061, 0x0061), (0x0062, 0x0062), (0x0063, 0x0063), (0x0064, 0x0064), (0x0065, 0x0065),
    (0x0066, 0x0066), (0x0067, 0x0067), (0x0068, 0x0068), (0x0069, 0x0069), (0x006A, 0x006A), (0x006B, 0x006B),
    (0x006C, 0x006C), (0x006D, 0x006D), (0x006E, 0x006E), (0x006F, 0x006F), (0x0070, 0x0070), (0x0071, 0x0071),
    (0x0072, 0x0072), (0x0073, 0x0073), (0x0074, 0x0074), (0x0075, 0x0075), (0x0076, 0x0076), (0x0077, 0x0077),
    (0x0078, 0x0078), (0x0079, 0x0079), (0x007A, 0x007A), (0x007B, 0x007B), (0x007C, 0x007C), (0x007D, 0x007D),
    (0x007E, 0x007E), (0x007F, 0x007F)] @
   [(0x00A0, 0x00FF), (0x00A4, 0x00CF), (0x00A7, 0x00FD), (0x00AB, 0x00AE), (0x00AD, 0x00F0), (0x00BB, 0x00AF),
    (0x0401, 0x0085), (0x0402, 0x0081), (0x0403, 0x0083), (0x0404, 0x0087), (0x0405, 0x0089), (0x0406, 0x008B),
    (0x0407, 0x008D), (0x0408, 0x008F), (0x0409, 0x0091), (0x040A, 0x0093), (0x040B, 0x0095), (0x040C, 0x0097),
    (0x040E, 0x0099), (0x040F, 0x009B), (0x0410, 0x00A1), (0x0411, 0x00A3), (0x0412, 0x00EC), (0x0413, 0x00AD),
    (0x0414, 0x00A7), (0x0415, 0x00A9), (0x0416, 0x00EA), (0x0417, 0x00F4), (0x0418, 0x00B8), (0x0419, 0x00BE),
    (0x041A, 0x00C7), (0x041B, 0x00D1)] @
   [(0x041C, 0x00D3), (0x041D, 0x00D5), (0x041E, 0x00D7), (0x041F, 0x00DD), (0x0420, 0x00E2), (0x0421, 0x00E4),
    (0x0422, 0x00E6), (0x0423, 0x00E8), (0x0424, 0x00AB), (0x0425, 0x00B6), (0x0426, 0x00A5), (0x0427, 0x00FC),
    (0x0428, 0x00F6), (0x0429, 0x00FA), (0x042A, 0x009F), (0x042B, 0x00F2), (0x042C, 0x00EE), (0x042D, 0x00F8),
    (0x042E, 0x009D), (0x042F, 0x00E0), (0x0430, 0x00A0), (0x0431, 0x00A2), (0x0432, 0x00EB), (0x0433, 0x00AC),
    (0x0434, 0x00A6), (0x0435, 0x00A8), (0x0436, 0x00E9), (0x0437, 0x00F3), (0x0438, 0x00B7), (0x0439, 0x00BD),
    (0x043A, 0x00C6), (0x043B, 0x00D0)] @
   [(0x043C, 0x00D2), (0x043D, 0x00D4), (0x043E, 0x00D6), (0x043F, 0x00D8), (0x0440, 0x00E1), (0x0441, 0x00E3),
    (0x0442, 0x00E5), (0x0443, 0x00E7), (0x0444, 0x00AA), (0x0445, 0x00B5), (0x0446, 0x00A4), (0x0447, 0x00FB),
    (0x0448, 0x00F5), (0x0449, 0x00F9), (0x044A, 0x009E), (0x044B, 0x00F1), (0x044C, 0x00ED), (0x044D, 0x00F7),
    (0x044E, 0x009C), (0x044F, 0x00DE), (0x0451, 0x0084), (0x0452, 0x0080), (0x0453, 0x0082), (0x0454, 0x0086),
    (0x0455, 0x0088), (0x0456, 0x008A), (0x0457, 0x008C), (0x0458, 0x008E), (0x0459, 0x0090), (0x045A, 0x0092),
    (0x045B, 0x0094), (0x045C, 0x0096)] @
   [(0x045E, 0x0098), (0x045F, 0x009A), (0x2116, 0x00EF), (0x2500, 0x00C4), (0x2502, 0x00B3), (0x250C, 0x00DA),
    (0x2510, 0x00BF), (0x2514, 0x00C0), (0x2518, 0x00D9), (0x251C, 0x00C3), (0x2524, 0x00B4), (0x252C, 0x00C2),
    (0x2534, 0x00C1), (0x253C, 0x00C5), (0x2550, 0x00CD), (0x2551, 0x00BA), (0x2554, 0x00C9), (0x2557, 0x00BB),
    (0x255A, 0x00C8), (0x255D, 0x00BC), (0x2560, 0x00CC), (0x2563, 0x00B9), (0x2566, 0x00CB), (0x2569, 0x00CA),
    (0x256C, 0x00CE), (0x2580, 0x00DF), (0x2584, 0x00DC), (0x2588, 0x00DB), (0x2591, 0x00B0), (0x2592, 0x00B1),
    (0x2593, 0x00B2), (0x25A0, 0x00FE)]"

definition page_855 :: CpPage where
  "page_855 = \<lparr> cp = 855, is_dbcs = False, dec1 = dec1_cp855, lead = [], leadrow = [], dec2 = [],
     rev_map = rev_cp855 \<rparr>"

lemmas at_855 = row_nth [OF dec1_cp855_def]

lemma ascending_855: "ascending (map fst rev_cp855)"
  by (simp add: rev_cp855_def)

lemma entries_855: "list_all (sb_entry dec1_cp855) rev_cp855"
  by (simp add: rev_cp855_def sb_entry_def at_855)

lemma tally_855: "tally (\<lambda>_. True) 0 dec1_cp855 = 256"
  "tally (\<lambda>_. True) 0 rev_cp855 = tally (\<lambda>u. u \<noteq> 65533) 0 dec1_cp855"
  by (simp_all add: dec1_cp855_def rev_cp855_def)

lemma sb_page_855: "sb_page page_855"
  by (simp add: sb_page_def sound_tables_def page_855_def ascending_855 entries_855 tally_855)

lemma ascii_855: "ascii_from 0 (dec1 page_855)"
  by (simp add: page_855_def dec1_cp855_def)

section \<open>Page 857\<close>

definition dec1_cp857 :: "nat list" where
  "dec1_cp857 =
   [0x0000, 0x0001, 0x0002, 0x0003, 0x0004, 0x0005, 0x0006, 0x0007, 0x0008, 0x0009, 0x000A, 0x000B, 0x000C,
    0x000D, 0x000E, 0x000F, 0x0010, 0x0011, 0x0012, 0x0013, 0x0014, 0x0015, 0x0016, 0x0017, 0x0018, 0x0019,
    0x001A, 0x001B, 0x001C, 0x001D, 0x001E, 0x001F] @
   [0x0020, 0x0021, 0x0022, 0x0023, 0x0024, 0x0025, 0x0026, 0x0027, 0x0028, 0x0029, 0x002A, 0x002B, 0x002C,
    0x002D, 0x002E, 0x002F, 0x0030, 0x0031, 0x0032, 0x0033, 0x0034, 0x0035, 0x0036, 0x0037, 0x0038, 0x0039,
    0x003A, 0x003B, 0x003C, 0x003D, 0x003E, 0x003F] @
   [0x0040, 0x0041, 0x0042, 0x0043, 0x0044, 0x0045, 0x0046, 0x0047, 0x0048, 0x0049, 0x004A, 0x004B, 0x004C,
    0x004D, 0x004E, 0x004F, 0x0050, 0x0051, 0x0052, 0x0053, 0x0054, 0x0055, 0x0056, 0x0057, 0x0058, 0x0059,
    0x005A, 0x005B, 0x005C, 0x005D, 0x005E, 0x005F] @
   [0x0060, 0x0061, 0x0062, 0x0063, 0x0064, 0x0065, 0x0066, 0x0067, 0x0068, 0x0069, 0x006A, 0x006B, 0x006C,
    0x006D, 0x006E, 0x006F, 0x0070, 0x0071, 0x0072, 0x0073, 0x0074, 0x0075, 0x0076, 0x0077, 0x0078, 0x0079,
    0x007A, 0x007B, 0x007C, 0x007D, 0x007E, 0x007F] @
   [0x00C7, 0x00FC, 0x00E9, 0x00E2, 0x00E4, 0x00E0, 0x00E5, 0x00E7, 0x00EA, 0x00EB, 0x00E8, 0x00EF, 0x00EE,
    0x0131, 0x00C4, 0x00C5, 0x00C9, 0x00E6, 0x00C6, 0x00F4, 0x00F6, 0x00F2, 0x00FB, 0x00F9, 0x0130, 0x00D6,
    0x00DC, 0x00F8, 0x00A3, 0x00D8, 0x015E, 0x015F] @
   [0x00E1, 0x00ED, 0x00F3, 0x00FA, 0x00F1, 0x00D1, 0x011E, 0x011F, 0x00BF, 0x00AE, 0x00AC, 0x00BD, 0x00BC,
    0x00A1, 0x00AB, 0x00BB, 0x2591, 0x2592, 0x2593, 0x2502, 0x2524, 0x00C1, 0x00C2, 0x00C0, 0x00A9, 0x2563,
    0x2551, 0x2557, 0x255D, 0x00A2, 0x00A5, 0x2510] @
   [0x2514, 0x2534, 0x252C, 0x251C, 0x2500, 0x253C, 0x00E3, 0x00C3, 0x255A, 0x2554, 0x2569, 0x2566, 0x2560,
    0x2550, 0x256C, 0x00A4, 0x00BA, 0x00AA, 0x00CA, 0x00CB, 0x00C8, 0xFFFD, 0x00CD, 0x00CE, 0x00CF, 0x2518,
    0x250C, 0x2588, 0x2584, 0x00A6, 0x00CC, 0x2580] @
   [0x00D3, 0x00DF, 0x00D4, 0x00D2, 0x00F5, 0x00D5, 0x00B5, 0xFFFD, 0x00D7, 0x00DA, 0x00DB, 0x00D9, 0x00EC,
    0x00FF, 0x00AF, 0x00B4, 0x00AD, 0x00B1, 0xFFFD, 0x00BE, 0x00B6, 0x00A7, 0x00F7, 0x00B8, 0x00B0, 0x00A8,
    0x00B7, 0x00B9, 0x00B3, 0x00B2, 0x25A0, 0x00A0]"

definition rev_cp857 :: "(nat \<times> nat) list" where
  "rev_cp857 =
   [(0x0000, 0x0000), (0x0001, 0x0001), (0x0002, 0x0002), (0x0003, 0x0003), (0x0004, 0x0004), (0x0005, 0x0005),
    (0x0006, 0x0006), (0x0007, 0x0007), (0x0008, 0x0008), (0x0009, 0x0009), (0x000A, 0x000A), (0x000B, 0x000B),
    (0x000C, 0x000C), (0x000D, 0x000D), (0x000E, 0x000E), (0x000F, 0x000F), (0x0010, 0x0010), (0x0011, 0x0011),
    (0x0012, 0x0012), (0x0013, 0x0013), (0x0014, 0x0014), (0x0015, 0x0015), (0x0016, 0x0016), (0x0017, 0x0017),
    (0x0018, 0x0018), (0x0019, 0x0019), (0x001A, 0x001A), (0x001B, 0x001B), (0x001C, 0x001C), (0x001D, 0x001D),
    (0x001E, 0x001E), (0x001F, 0x001F)] @
   [(0x0020, 0x0020), (0x0021, 0x0021), (0x0022, 0x0022), (0x0023, 0x0023), (0x0024, 0x0024), (0x0025, 0x0025),
    (0x0026, 0x0026), (0x0027, 0x0027), (0x0028, 0x0028), (0x0029, 0x0029), (0x002A, 0x002A), (0x002B, 0x002B),
    (0x002C, 0x002C), (0x002D, 0x002D), (0x002E, 0x002E), (0x002F, 0x002F), (0x0030, 0x0030), (0x0031, 0x0031),
    (0x0032, 0x0032), (0x0033, 0x0033), (0x0034, 0x0034), (0x0035, 0x0035), (0x0036, 0x0036), (0x0037, 0x0037),
    (0x0038, 0x0038), (0x0039, 0x0039), (0x003A, 0x003A), (0x003B, 0x003B), (0x003C, 0x003C), (0x003D, 0x003D),
    (0x003E, 0x003E), (0x003F, 0x003F)] @
   [(0x0040, 0x0040), (0x0041, 0x0041), (0x0042, 0x0042), (0x0043, 0x0043), (0x0044, 0x0044), (0x0045, 0x0045),
    (0x0046, 0x0046), (0x0047, 0x0047), (0x0048, 0x0048), (0x0049, 0x0049), (0x004A, 0x004A), (0x004B, 0x004B),
    (0x004C, 0x004C), (0x004D, 0x004D), (0x004E, 0x004E), (0x004F, 0x004F), (0x0050, 0x0050), (0x0051, 0x0051),
    (0x0052, 0x0052), (0x0053, 0x0053), (0x0054, 0x0054), (0x0055, 0x0055), (0x0056, 0x0056), (0x0057, 0x0057),
    (0x0058, 0x0058), (0x0059, 0x0059), (0x005A, 0x005A), (0x005B, 0x005B), (0x005C, 0x005C), (0x005D, 0x005D),
    (0x005E, 0x005E), (0x005F, 0x005F)] @
   [(0x0060, 0x0060), (0x0061, 0x0061), (0x0062, 0x0062), (0x0063, 0x0063), (0x0064, 0x0064), (0x0065, 0x0065),
    (0x0066, 0x0066), (0x0067, 0x0067), (0x0068, 0x0068), (0x0069, 0x0069), (0x006A, 0x006A), (0x006B, 0x006B),
    (0x006C, 0x006C), (0x006D, 0x006D), (0x006E, 0x006E), (0x006F, 0x006F), (0x0070, 0x0070), (0x0071, 0x0071),
    (0x0072, 0x0072), (0x0073, 0x0073), (0x0074, 0x0074), (0x0075, 0x0075), (0x0076, 0x0076), (0x0077, 0x0077),
    (0x0078, 0x0078), (0x0079, 0x0079), (0x007A, 0x007A), (0x007B, 0x007B), (0x007C, 0x007C), (0x007D, 0x007D),
    (0x007E, 0x007E), (0x007F, 0x007F)] @
   [(0x00A0, 0x00FF), (0x00A1, 0x00AD), (0x00A2, 0x00BD), (0x00A3, 0x009C), (0x00A4, 0x00CF), (0x00A5, 0x00BE),
    (0x00A6, 0x00DD), (0x00A7, 0x00F5), (0x00A8, 0x00F9), (0x00A9, 0x00B8), (0x00AA, 0x00D1), (0x00AB, 0x00AE),
    (0x00AC, 0x00AA), (0x00AD, 0x00F0), (0x00AE, 0x00A9), (0x00AF, 0x00EE), (0x00B0, 0x00F8), (0x00B1, 0x00F1),
    (0x00B2, 0x00FD), (0x00B3, 0x00FC), (0x00B4, 0x00EF), (0x00B5, 0x00E6), (0x00B6, 0x00F4), (0x00B7, 0x00FA),
    (0x00B8, 0x00F7), (0x00B9, 0x00FB), (0x00BA, 0x00D0), (0x00BB, 0x00AF), (0x00BC, 0x00AC), (0x00BD, 0x00AB),
    (0x00BE, 0x00F3), (0x00BF, 0x00A8)] @
   [(0x00C0, 0x00B7), (0x00C1, 0x00B5), (0x00C2, 0x00B6), (0x00C3, 0x00C7), (0x00C4, 0x008E), (0x00C5, 0x008F),
    (0x00C6, 0x0092), (0x00C7, 0x0080), (0x00C8, 0x00D4), (0x00C9, 0x0090), (0x00CA, 0x00D2), (0x00CB, 0x00D3),
    (0x00CC, 0x00DE), (0x00CD, 0x00D6), (0x00CE, 0x00D7), (0x00CF, 0x00D8), (0x00D1, 0x00A5), (0x00D2, 0x00E3),
    (0x00D3, 0x00E0), (0x00D4, 0x00E2), (0x00D5, 0x00E5), (0x00D6, 0x0099), (0x00D7, 0x00E8), (0x00D8, 0x009D),
    (0x00D9, 0x00EB), (0x00DA, 0x00E9), (0x00DB, 0x00EA), (0x00DC, 0x009A), (0x00DF, 0x00E1), (0x00E0, 0x0085),
    (0x00E1, 0x00A0), (0x00E2, 0x0083)] @
   [(0x00E3, 0x00C6), (0x00E4, 0x0084), (0x00E5, 0x0086), (0x00E6, 0x0091), (0x00E7, 0x0087), (0x00E8, 0x008A),
    (0x00E9, 0x0082), (0x00EA, 0x0088), (0x00EB, 0x0089), (0x00EC, 0x00EC), (0x00ED, 0x00A1), (0x00EE, 0x008C),
    (0x00EF, 0x008B), (0x00F1, 0x00A4), (0x00F2, 0x0095), (0x00F3, 0x00A2), (0x00F4, 0x0093), (0x00F5, 0x00E4),
    (0x00F6, 0x0094), (0x00F7, 0x00F6), (0x00F8, 0x009B), (0x00F9, 0x0097), (0x00FA, 0x00A3), (0x00FB, 0x0096),
    (0x00FC, 0x0081), (0x00FF, 0x00ED), (0x011E, 0x00A6), (0x011F, 0x00A7), (0x0130, 0x0098), (0x0131, 0x008D),
    (0x015E, 0x009E), (0x015F, 0x009F)] @
   [(0x2500, 0x00C4), (0x2502, 0x00B3), (0x250C, 0x00DA), (0x2510, 0x00BF), (0x2514, 0x00C0), (0x2518, 0x00D9),
    (0x251C, 0x00C3), (0x2524, 0x00B4), (0x252C, 0x00C2), (0x2534, 0x00C1), (0x253C, 0x00C5), (0x2550, 0x00CD),
    (0x2551, 0x00BA), (0x2554, 0x00C9), (0x2557, 0x00BB), (0x255A, 0x00C8), (0x255D, 0x00BC), (0x2560, 0x00CC),
    (0x2563, 0x00B9), (0x2566, 0x00CB), (0x2569, 0x00CA), (0x256C, 0x00CE), (0x2580, 0x00DF), (0x2584, 0x00DC),
    (0x2588, 0x00DB), (0x2591, 0x00B0), (0x2592, 0x00B1), (0x2593, 0x00B2), (0x25A0, 0x00FE)]"

definition page_857 :: CpPage where
  "page_857 = \<lparr> cp = 857, is_dbcs = False, dec1 = dec1_cp857, lead = [], leadrow = [], dec2 = [],
     rev_map = rev_cp857 \<rparr>"

lemmas at_857 = row_nth [OF dec1_cp857_def]

lemma ascending_857: "ascending (map fst rev_cp857)"
  by (simp add: rev_cp857_def)

lemma entries_857: "list_all (sb_entry dec1_cp857) rev_cp857"
  by (simp add: rev_cp857_def sb_entry_def at_857)

lemma tally_857: "tally (\<lambda>_. True) 0 dec1_cp857 = 256"
  "tally (\<lambda>_. True) 0 rev_cp857 = tally (\<lambda>u. u \<noteq> 65533) 0 dec1_cp857"
  by (simp_all add: dec1_cp857_def rev_cp857_def)

lemma sb_page_857: "sb_page page_857"
  by (simp add: sb_page_def sound_tables_def page_857_def ascending_857 entries_857 tally_857)

lemma ascii_857: "ascii_from 0 (dec1 page_857)"
  by (simp add: page_857_def dec1_cp857_def)

section \<open>Page 860\<close>

definition dec1_cp860 :: "nat list" where
  "dec1_cp860 =
   [0x0000, 0x0001, 0x0002, 0x0003, 0x0004, 0x0005, 0x0006, 0x0007, 0x0008, 0x0009, 0x000A, 0x000B, 0x000C,
    0x000D, 0x000E, 0x000F, 0x0010, 0x0011, 0x0012, 0x0013, 0x0014, 0x0015, 0x0016, 0x0017, 0x0018, 0x0019,
    0x001A, 0x001B, 0x001C, 0x001D, 0x001E, 0x001F] @
   [0x0020, 0x0021, 0x0022, 0x0023, 0x0024, 0x0025, 0x0026, 0x0027, 0x0028, 0x0029, 0x002A, 0x002B, 0x002C,
    0x002D, 0x002E, 0x002F, 0x0030, 0x0031, 0x0032, 0x0033, 0x0034, 0x0035, 0x0036, 0x0037, 0x0038, 0x0039,
    0x003A, 0x003B, 0x003C, 0x003D, 0x003E, 0x003F] @
   [0x0040, 0x0041, 0x0042, 0x0043, 0x0044, 0x0045, 0x0046, 0x0047, 0x0048, 0x0049, 0x004A, 0x004B, 0x004C,
    0x004D, 0x004E, 0x004F, 0x0050, 0x0051, 0x0052, 0x0053, 0x0054, 0x0055, 0x0056, 0x0057, 0x0058, 0x0059,
    0x005A, 0x005B, 0x005C, 0x005D, 0x005E, 0x005F] @
   [0x0060, 0x0061, 0x0062, 0x0063, 0x0064, 0x0065, 0x0066, 0x0067, 0x0068, 0x0069, 0x006A, 0x006B, 0x006C,
    0x006D, 0x006E, 0x006F, 0x0070, 0x0071, 0x0072, 0x0073, 0x0074, 0x0075, 0x0076, 0x0077, 0x0078, 0x0079,
    0x007A, 0x007B, 0x007C, 0x007D, 0x007E, 0x007F] @
   [0x00C7, 0x00FC, 0x00E9, 0x00E2, 0x00E3, 0x00E0, 0x00C1, 0x00E7, 0x00EA, 0x00CA, 0x00E8, 0x00CD, 0x00D4,
    0x00EC, 0x00C3, 0x00C2, 0x00C9, 0x00C0, 0x00C8, 0x00F4, 0x00F5, 0x00F2, 0x00DA, 0x00F9, 0x00CC, 0x00D5,
    0x00DC, 0x00A2, 0x00A3, 0x00D9, 0x20A7, 0x00D3] @
   [0x00E1, 0x00ED, 0x00F3, 0x00FA, 0x00F1, 0x00D1, 0x00AA, 0x00BA, 0x00BF, 0x00D2, 0x00AC, 0x00BD, 0x00BC,
    0x00A1, 0x00AB, 0x00BB, 0x2591, 0x2592, 0x2593, 0x2502, 0x2524, 0x2561, 0x2562, 0x2556, 0x2555, 0x2563,
    0x2551, 0x2557, 0x255D, 0x255C, 0x255B, 0x2510] @
   [0x2514, 0x2534, 0x252C, 0x251C, 0x2500, 0x253C, 0x255E, 0x255F, 0x255A, 0x2554, 0x2569, 0x2566, 0x2560,
    0x2550, 0x256C, 0x2567, 0x2568, 0x2564, 0x2565, 0x2559, 0x2558, 0x2552, 0x2553, 0x256B, 0x256A, 0x2518,
    0x250C, 0x2588, 0x2584, 0x258C, 0x2590, 0x2580] @
   [0x03B1, 0x00DF, 0x0393, 0x03C0, 0x03A3, 0x03C3, 0x00B5, 0x03C4, 0x03A6, 0x0398, 0x03A9, 0x03B4, 0x221E,
    0x03C6, 0x03B5, 0x2229, 0x2261, 0x00B1, 0x2265, 0x2264, 0x2320, 0x2321, 0x00F7, 0x2248, 0x00B0, 0x2219,
    0x00B7, 0x221A, 0x207F, 0x00B2, 0x25A0, 0x00A0]"

definition rev_cp860 :: "(nat \<times> nat) list" where
  "rev_cp860 =
   [(0x0000, 0x0000), (0x0001, 0x0001), (0x0002, 0x0002), (0x0003, 0x0003), (0x0004, 0x0004), (0x0005, 0x0005),
    (0x0006, 0x0006), (0x0007, 0x0007), (0x0008, 0x0008), (0x0009, 0x0009), (0x000A, 0x000A), (0x000B, 0x000B),
    (0x000C, 0x000C), (0x000D, 0x000D), (0x000E, 0x000E), (0x000F, 0x000F), (0x0010, 0x0010), (0x0011, 0x0011),
    (0x0012, 0x0012), (0x0013, 0x0013), (0x0014, 0x0014), (0x0015, 0x0015), (0x0016, 0x0016), (0x0017, 0x0017),
    (0x0018, 0x0018), (0x0019, 0x0019), (0x001A, 0x001A), (0x001B, 0x001B), (0x001C, 0x001C), (0x001D, 0x001D),
    (0x001E, 0x001E), (0x001F, 0x001F)] @
   [(0x0020, 0x0020), (0x0021, 0x0021), (0x0022, 0x0022), (0x0023, 0x0023), (0x0024, 0x0024), (0x0025, 0x0025),
    (0x0026, 0x0026), (0x0027, 0x0027), (0x0028, 0x0028), (0x0029, 0x0029), (0x002A, 0x002A), (0x002B, 0x002B),
    (0x002C, 0x002C), (0x002D, 0x002D), (0x002E, 0x002E), (0x002F, 0x002F), (0x0030, 0x0030), (0x0031, 0x0031),
    (0x0032, 0x0032), (0x0033, 0x0033), (0x0034, 0x0034), (0x0035, 0x0035), (0x0036, 0x0036), (0x0037, 0x0037),
    (0x0038, 0x0038), (0x0039, 0x0039), (0x003A, 0x003A), (0x003B, 0x003B), (0x003C, 0x003C), (0x003D, 0x003D),
    (0x003E, 0x003E), (0x003F, 0x003F)] @
   [(0x0040, 0x0040), (0x0041, 0x0041), (0x0042, 0x0042), (0x0043, 0x0043), (0x0044, 0x0044), (0x0045, 0x0045),
    (0x0046, 0x0046), (0x0047, 0x0047), (0x0048, 0x0048), (0x0049, 0x0049), (0x004A, 0x004A), (0x004B, 0x004B),
    (0x004C, 0x004C), (0x004D, 0x004D), (0x004E, 0x004E), (0x004F, 0x004F), (0x0050, 0x0050), (0x0051, 0x0051),
    (0x0052, 0x0052), (0x0053, 0x0053), (0x0054, 0x0054), (0x0055, 0x0055), (0x0056, 0x0056), (0x0057, 0x0057),
    (0x0058, 0x0058), (0x0059, 0x0059), (0x005A, 0x005A), (0x005B, 0x005B), (0x005C, 0x005C), (0x005D, 0x005D),
    (0x005E, 0x005E), (0x005F, 0x005F)] @
   [(0x0060, 0x0060), (0x0061, 0x0061), (0x0062, 0x0062), (0x0063, 0x0063), (0x0064, 0x0064), (0x0065, 0x0065),
    (0x0066, 0x0066), (0x0067, 0x0067), (0x0068, 0x0068), (0x0069, 0x0069), (0x006A, 0x006A), (0x006B, 0x006B),
    (0x006C, 0x006C), (0x006D, 0x006D), (0x006E, 0x006E), (0x006F, 0x006F), (0x0070, 0x0070), (0x0071, 0x0071),
    (0x0072, 0x0072), (0x0073, 0x0073), (0x0074, 0x0074), (0x0075, 0x0075), (0x0076, 0x0076), (0x0077, 0x0077),
    (0x0078, 0x0078), (0x0079, 0x0079), (0x007A, 0x007A), (0x007B, 0x007B), (0x007C, 0x007C), (0x007D, 0x007D),
    (0x007E, 0x007E), (0x007F, 0x007F)] @
   [(0x00A0, 0x00FF), (0x00A1, 0x00AD), (0x00A2, 0x009B), (0x00A3, 0x009C), (0x00AA, 0x00A6), (0x00AB, 0x00AE),
    (0x00AC, 0x00AA), (0x00B0, 0x00F8), (0x00B1, 0x00F1), (0x00B2, 0x00FD), (0x00B5, 0x00E6), (0x00B7, 0x00FA),
    (0x00BA, 0x00A7), (0x00BB, 0x00AF), (0x00BC, 0x00AC), (0x00BD, 0x00AB), (0x00BF, 0x00A8), (0x00C0, 0x0091),
    (0x00C1, 0x0086), (0x00C2, 0x008F), (0x00C3, 0x008E), (0x00C7, 0x0080), (0x00C8, 0x0092), (0x00C9, 0x0090),
    (0x00CA, 0x0089), (0x00CC, 0x0098), (0x00CD, 0x008B), (0x00D1, 0x00A5), (0x00D2, 0x00A9), (0x00D3, 0x009F),
    (0x00D4, 0x008C), (0x00D5, 0x0099)] @
   [(0x00D9, 0x009D), (0x00DA, 0x0096), (0x00DC, 0x009A), (0x00DF, 0x00E1), (0x00E0, 0x0085), (0x00E1, 0x00A0),
    (0x00E2, 0x0083), (0x00E3, 0x0084), (0x00E7, 0x0087), (0x00E8, 0x008A), (0x00E9, 0x0082), (0x00EA, 0x0088),
    (0x00EC, 0x008D), (0x00ED, 0x00A1), (0x00F1, 0x00A4), (0x00F2, 0x0095), (0x00F3, 0x00A2), (0x00F4, 0x0093),
    (0x00F5, 0x0094), (0x00F7, 0x00F6), (0x00F9, 0x0097), (0x00FA, 0x00A3), (0x00FC, 0x0081), (0x0393, 0x00E2),
    (0x0398, 0x00E9), (0x03A3, 0x00E4), (0x03A6, 0x00E8), (0x03A9, 0x00EA), (0x03B1, 0x00E0), (0x03B4, 0x00EB),
    (0x03B5, 0x00EE), (0x03C0, 0x00E3)] @
   [(0x03C3, 0x00E5), (0x03C4, 0x00E7), (0x03C6, 0x00ED), (0x207F, 0x00FC), (0x20A7, 0x009E), (0x2219, 0x00F9),
    (0x221A, 0x00FB), (0x221E, 0x00EC), (0x2229, 0x00EF), (0x2248, 0x00F7), (0x2261, 0x00F0), (0x2264, 0x00F3),
    (0x2265, 0x00F2), (0x2320, 0x00F4), (0x2321, 0x00F5), (0x2500, 0x00C4), (0x2502, 0x00B3), (0x250C, 0x00DA),
    (0x2510, 0x00BF), (0x2514, 0x00C0), (0x2518, 0x00D9), (0x251C, 0x00C3), (0x2524, 0x00B4), (0x252C, 0x00C2),
    (0x2534, 0x00C1), (0x253C, 0x00C5), (0x2550, 0x00CD), (0x2551, 0x00BA), (0x2552, 0x00D5), (0x2553, 0x00D6),
    (0x2554, 0x00C9), (0x2555, 0x00B8)] @
   [(0x2556, 0x00B7), (0x2557, 0x00BB), (0x2558, 0x00D4), (0x2559, 0x00D3), (0x255A, 0x00C8), (0x255B, 0x00BE),
    (0x255C, 0x00BD), (0x255D, 0x00BC), (0x255E, 0x00C6), (0x255F, 0x00C7), (0x2560, 0x00CC), (0x2561, 0x00B5),
    (0x2562, 0x00B6), (0x2563, 0x00B9), (0x2564, 0x00D1), (0x2565, 0x00D2), (0x2566, 0x00CB), (0x2567, 0x00CF),
    (0x2568, 0x00D0), (0x2569, 0x00CA), (0x256A, 0x00D8), (0x256B, 0x00D7), (0x256C, 0x00CE), (0x2580, 0x00DF),
    (0x2584, 0x00DC), (0x2588, 0x00DB), (0x258C, 0x00DD), (0x2590, 0x00DE), (0x2591, 0x00B0), (0x2592, 0x00B1),
    (0x2593, 0x00B2), (0x25A0, 0x00FE)]"

definition page_860 :: CpPage where
  "page_860 = \<lparr> cp = 860, is_dbcs = False, dec1 = dec1_cp860, lead = [], leadrow = [], dec2 = [],
     rev_map = rev_cp860 \<rparr>"

lemmas at_860 = row_nth [OF dec1_cp860_def]

lemma ascending_860: "ascending (map fst rev_cp860)"
  by (simp add: rev_cp860_def)

lemma entries_860: "list_all (sb_entry dec1_cp860) rev_cp860"
  by (simp add: rev_cp860_def sb_entry_def at_860)

lemma tally_860: "tally (\<lambda>_. True) 0 dec1_cp860 = 256"
  "tally (\<lambda>_. True) 0 rev_cp860 = tally (\<lambda>u. u \<noteq> 65533) 0 dec1_cp860"
  by (simp_all add: dec1_cp860_def rev_cp860_def)

lemma sb_page_860: "sb_page page_860"
  by (simp add: sb_page_def sound_tables_def page_860_def ascending_860 entries_860 tally_860)

lemma ascii_860: "ascii_from 0 (dec1 page_860)"
  by (simp add: page_860_def dec1_cp860_def)

end
