(* ===== verification/DosPagesB.thy ===== *)
theory DosPagesB
  imports SbPage
begin

text \<open>
  The second half of the console pages of \<^verbatim>\<open>src/src/charset_tables_data.c\<close>, transcribed entry
  by entry, with the checks of their tables.
\<close>

section \<open>Page 861\<close>

definition dec1_cp861 :: "nat list" where
  "dec1_cp861 =
   [0x0000, 0x0001, 0x0002, 0x0003, 0x0004, 0x0005, 0x0006, 0x0007, 0x0008, 0x0009, 0x000A, 0x000B, 0x000C,
    0x000D, 0x000E, 0x000F, 0x0010, 0x0011, 0x0012, 0x0013, 0x0014, 0x0015, 0x0016, 0x0017, 0x0018, 0x0019,
    0x001A, 0x001B, 0x001C, 0x001D, 0x001E, 0x001F] @
   [0x0020, 0x0021, 0x0022, 0x0023, 0x0024, 0x0025, 0x0026, 0x0027, 0x0028, 0x0029, 0x002A, 0x002B, 0x002C,
    0x002D, 0x002E, 0x002F, 0x0030, 0x0031, 0x0032, 0x0033, 0x0034, 0x0035, 0x0036, 0x0037, 0x0038, 0x0039,
    0x003A, 0x003B, 0x003C, 0x003D, 0x003E, 0x003F] @
   [0x0040, 0x0041, 0x0042, 0x0043, 0x0044, 0x0045, 0x0046, 0x0047, 0x0048, 0x0049, 0x004A, 0x004B, 0x004C,
    0x004D, 0x004E, 0x004F, 0x0050, 0x0051, 0x0052, 0x0053, 0x0054, 0x0055, 0x0056, 0x0057, 0x0058, 0x0059,
    0x005A, 0x005B, 0x005C, 0x005D, 0x005E, 0x005F] @
   [0x0060, 0x0061, 0x0062, 0x0063, 0x0064, 0x0065, 0x0066, 0x0067, 0x0068, 0x0069, 0x006A, 0x006B, 0x006C,
    0x006D, 0x006E, 0x006F, 0x0070, 0x0071, 0x0072, 0x0073, 0x0074, 0x0075, 0x0076, 0x0077, 0x0078, 0x0079,
    0x007A, 0x007B, 0x007C, 0x007D, 0x007E, 0x007F] @
   [0x00C7, 0x00FC, 0x00E9, 0x00E2, 0x00E4, 0x00E0, 0x00E5, 0x00E7, 0x00EA, 0x00EB, 0x00E8, 0x00D0, 0x00F0,
    0x00DE, 0x00C4, 0x00C5, 0x00C9, 0x00E6, 0x00C6, 0x00F4, 0x00F6, 0x00FE, 0x00FB, 0x00DD, 0x00FD, 0x00D6,
    0x00DC, 0x00F8, 0x00A3, 0x00D8, 0x20A7, 0x0192] @
   [0x00E1, 0x00ED, 0x00F3, 0x00FA, 0x00C1, 0x00CD, 0x00D3, 0x00DA, 0x00BF, 0x2310, 0x00AC, 0x00BD, 0x00BC,
    0x00A1, 0x00AB, 0x00BB, 0x2591, 0x2592, 0x2593, 0x2502, 0x2524, 0x2561, 0x2562, 0x2556, 0x2555, 0x2563,
    0x2551, 0x2557, 0x255D, 0x255C, 0x255B, 0x2510] @
   [0x2514, 0x2534, 0x252C, 0x251C, 0x2500, 0x253C, 0x255E, 0x255F, 0x255A, 0x2554, 0x2569, 0x2566, 0x2560,
    0x2550, 0x256C, 0x2567, 0x2568, 0x2564, 0x2565, 0x2559, 0x2558, 0x2552, 0x2553, 0x256B, 0x256A, 0x2518,
    0x250C, 0x2588, 0x2584, 0x258C, 0x2590, 0x2580] @
   [0x03B1, 0x00DF, 0x0393, 0x03C0, 0x03A3, 0x03C3, 0x00B5, 0x03C4, 0x03A6, 0x0398, 0x03A9, 0x03B4, 0x221E,
    0x03C6, 0x03B5, 0x2229, 0x2261, 0x00B1, 0x2265, 0x2264, 0x2320, 0x2321, 0x00F7, 0x2248, 0x00B0, 0x2219,
    0x00B7, 0x221A, 0x207F, 0x00B2, 0x25A0, 0x00A0]"

definition rev_cp861 :: "(nat \<times> nat) list" where
  "rev_cp861 =
   [(0x0000, 0x0000), (0x0001, 0x0001), (0x0002, 0x0002), (0x0003, 0x0003), (0x0004, 0x0004), (0x0005, 0x0005),
    (0x0006, 0x0006), (0x0007, 0x0007), (0x0008, 0x0008), (0x0009, 0x0009), (0x000A, 0x000A), (0x000B, 0x000B),
    (0x000C, 0x000C), (0x000D, 0x000D), (0x000E, 0x000E), (0x000F, 0x000F), (0x0010, 0x0010), (0x0011, 0x0011),
    (0x0012, 0x0012), (0x0013, 0x0013), (0x0014, 0x0014), (0x0015, 0x0015), (0x0016, 0x0016), (0x0017, 0x0017),
    (0x0018, 0x0018), (0x0019, 0x0019), (0x001A, 0x001A), (0x001B, 0x001B), (0x001C, 0x001C), (0x001D, 0x001D),
    (0x001E, 0x001E), (0x001F, 0x001F)] @
   [(0x0020, 0x0020), (0x0021, 0x0021), (0x0022, 0x0022), (0x0023, 0x0023), (0x0024, 0x0024), (0x0025, 0x0025),
    (0x0026, 0x0026), (0x0027, 0x0027), (0x0028, 0x0028), (0x0029, 0x0029), (0x002A, 0x002A), (0x002B, 0x002B),
    (0x002C, 0x002C), (0x002D, 0x002D), (0x002E, 0x002E), (0x002F, 0x002F), (0x0030, 0x0030), (0x0031, 0x0031),
    (0x0032, 0x0032), (0x0033, 0x0033), (0x0034, 0x0034), (0x0035, 0x0035), (0x0036, 0x0036), (0x0037, 0x0037),
    (0x0038, 0x0038), (0x0039, 0x0039), (0x003A, 0x003A), (0x003B, 0x003B), (0x003C, 0x003C), (0x003D, 0x003D),
    (0x003E, 0x003E), (0x003F, 0x003F)] @
   [(0x0040, 0x0040), (0x0041, 0x0041), (0x0042, 0x0042), (0x0043, 0x0043), (0x0044, 0x0044), (0x0045, 0x0045),
    (0x0046, 0x0046), (0x0047, 0x0047), (0x0048, 0x0048), (0x0049, 0x0049), (0x004A, 0x004A), (0x004B, 0x004B),
    (0x004C, 0x004C), (0x004D, 0x004D), (0x004E, 0x004E), (0x004F, 0x004F), (0x0050, 0x0050), (0x0051, 0x0051),
    (0x0052, 0x0052), (0x0053, 0x0053), (0x0054, 0x0054), (0x0055, 0x0055), (0x0056, 0x0056), (0x0057, 0x0057),
    (0x0058, 0x0058), (0x0059, 0x0059), (0x005A, 0x005A), (0x005B, 0x005B), (0x005C, 0x005C), (0x005D, 0x005D),
    (0x005E, 0x005E), (0x005F, 0x005F)] @
   [(0x0060, 0x0060), (0x0061, 0x0061), (0x0062, 0x0062), (0x0063, 0x0063), (0x0064, 0x0064), (0x0065, 0x0065),
    (0x0066, 0x0066), (0x0067, 0x0067), (0x0068, 0x0068), (0x0069, 0x0069), (0x006A, 0x006A), (0x006B, 0x006B),
    (0x006C, 0x006C), (0x006D, 0x006D), (0x006E, 0x006E), (0x006F, 0x006F), (0x0070, 0x0070), (0x0071, 0x0071),
    (0x0072, 0x0072), (0x0073, 0x0073), (0x0074, 0x0074), (0x0075, 0x0075), (0x0076, 0x0076), (0x0077, 0x0077),
    (0x0078, 0x0078), (0x0079, 0x0079), (0x007A, 0x007A), (0x007B, 0x007B), (0x007C, 0x007C), (0x007D, 0x007D),
    (0x007E, 0x007E), (0x007F, 0x007F)] @
   [(0x00A0, 0x00FF), (0x00A1, 0x00AD), (0x00A3, 0x009C), (0x00AB, 0x00AE), (0x00AC, 0x00AA), (0x00B0, 0x00F8),
    (0x00B1, 0x00F1), (0x00B2, 0x00FD), (0x00B5, 0x00E6), (0x00B7, 0x00FA), (0x00BB, 0x00AF), (0x00BC, 0x00AC),
    (0x00BD, 0x00AB), (0x00BF, 0x00A8), (0x00C1, 0x00A4), (0x00C4, 0x008E), (0x00C5, 0x008F), (0x00C6, 0x0092),
    (0x00C7, 0x0080), (0x00C9, 0x0090), (0x00CD, 0x00A5), (0x00D0, 0x008B), (0x00D3, 0x00A6), (0x00D6, 0x0099),
    (0x00D8, 0x009D), (0x00DA, 0x00A7), (0x00DC, 0x009A), (0x00DD, 0x0097), (0x00DE, 0x008D), (0x00DF, 0x00E1),
    (0x00E0, 0x0085), (0x00E1, 0x00A0)] @
   [(0x00E2, 0x0083), (0x00E4, 0x0084), (0x00E5, 0x0086), (0x00E6, 0x0091), (0x00E7, 0x0087), (0x00E8, 0x008A),
    (0x00E9, 0x0082), (0x00EA, 0x0088), (0x00EB, 0x0089), (0x00ED, 0x00A1), (0x00F0, 0x008C), (0x00F3, 0x00A2),
    (0x00F4, 0x0093), (0x00F6, 0x0094), (0x00F7, 0x00F6), (0x00F8, 0x009B), (0x00FA, 0x00A3), (0x00FB, 0x0096),
    (0x00FC, 0x0081), (0x00FD, 0x0098), (0x00FE, 0x0095), (0x0192, 0x009F), (0x0393, 0x00E2), (0x0398, 0x00E9),
    (0x03A3, 0x00E4), (0x03A6, 0x00E8), (0x03A9, 0x00EA), (0x03B1, 0x00E0), (0x03B4, 0x00EB), (0x03B5, 0x00EE),
    (0x03C0, 0x00E3), (0x03C3, 0x00E5)] @
   [(0x03C4, 0x00E7), (0x03C6, 0x00ED), (0x207F, 0x00FC), (0x20A7, 0x009E), (0x2219, 0x00F9), (0x221A, 0x00FB),
    (0x221E, 0x00EC), (0x2229, 0x00EF), (0x2248, 0x00F7), (0x2261, 0x00F0), (0x2264, 0x00F3), (0x2265, 0x00F2),
    (0x2310, 0x00A9), (0x2320, 0x00F4), (0x2321, 0x00F5), (0x2500, 0x00C4), (0x2502, 0x00B3), (0x250C, 0x00DA),
    (0x2510, 0x00BF), (0x2514, 0x00C0), (0x2518, 0x00D9), (0x251C, 0x00C3), (0x2524, 0x00B4), (0x252C, 0x00C2),
    (0x2534, 0x00C1), (0x253C, 0x00C5), (0x2550, 0x00CD), (0x2551, 0x00BA), (0x2552, 0x00D5), (0x2553, 0x00D6),
    (0x2554, 0x00C9), (0x2555, 0x00B8)] @
   [(0x2556, 0x00B7), (0x2557, 0x00BB), (0x2558, 0x00D4), (0x2559, 0x00D3), (0x255A, 0x00C8), (0x255B, 0x00BE),
    (0x255C, 0x00BD), (0x255D, 0x00BC), (0x255E, 0x00C6), (0x255F, 0x00C7), (0x2560, 0x00CC), (0x2561, 0x00B5),
    (0x2562, 0x00B6), (0x2563, 0x00B9), (0x2564, 0x00D1), (0x2565, 0x00D2), (0x2566, 0x00CB), (0x2567, 0x00CF),
    (0x2568, 0x00D0), (0x2569, 0x00CA), (0x256A, 0x00D8), (0x256B, 0x00D7), (0x256C, 0x00CE), (0x2580, 0x00DF),
    (0x2584, 0x00DC), (0x2588, 0x00DB), (0x258C, 0x00DD), (0x2590, 0x00DE), (0x2591, 0x00B0), (0x2592, 0x00B1),
    (0x2593, 0x00B2), (0x25A0, 0x00FE)]"

definition page_861 :: CpPage where
  "page_861 = \<lparr> cp = 861, is_dbcs = False, dec1 = dec1_cp861, lead = [], leadrow = [], dec2 = [],
     rev_map = rev_cp861 \<rparr>"

lemmas at_861 = row_nth [OF dec1_cp861_def]

lemma ascending_861: "ascending (map fst rev_cp861)"
  by (simp add: rev_cp861_def)

lemma entries_861: "list_all (sb_entry dec1_cp861) rev_cp861"
  by (simp add: rev_cp861_def sb_entry_def at_861)

lemma tally_861: "tally (\<lambda>_. True) 0 dec1_cp861 = 256"
  "tally (\<lambda>_. True) 0 rev_cp861 = tally (\<lambda>u. u \<noteq> 65533) 0 dec1_cp861"
  by (simp_all add: dec1_cp861_def rev_cp861_def)

lemma sb_page_861: "sb_page page_861"
  by (simp add: sb_page_def sound_tables_def page_861_def ascending_861 entries_861 tally_861)

lemma ascii_861: "ascii_from 0 (dec1 page_861)"
  by (simp add: page_861_def dec1_cp861_def)

section \<open>Page 862\<close>

definition dec1_cp862 :: "nat list" where
  "dec1_cp862 =
   [0x0000, 0x0001, 0x0002, 0x0003, 0x0004, 0x0005, 0x0006, 0x0007, 0x0008, 0x0009, 0x000A, 0x000B, 0x000C,
    0x000D, 0x000E, 0x000F, 0x0010, 0x0011, 0x0012, 0x0013, 0x0014, 0x0015, 0x0016, 0x0017, 0x0018, 0x0019,
    0x001A, 0x001B, 0x001C, 0x001D, 0x001E, 0x001F] @
   [0x0020, 0x0021, 0x0022, 0x0023, 0x0024, 0x0025, 0x0026, 0x0027, 0x0028, 0x0029, 0x002A, 0x002B, 0x002C,
    0x002D, 0x002E, 0x002F, 0x0030, 0x0031, 0x0032, 0x0033, 0x0034, 0x0035, 0x0036, 0x0037, 0x0038, 0x0039,
    0x003A, 0x003B, 0x003C, 0x003D, 0x003E, 0x003F] @
   [0x0040, 0x0041, 0x0042, 0x0043, 0x0044, 0x0045, 0x0046, 0x0047, 0x0048, 0x0049, 0x004A, 0x004B, 0x004C,
    0x004D, 0x004E, 0x004F, 0x0050, 0x0051, 0x0052, 0x0053, 0x0054, 0x0055, 0x0056, 0x0057, 0x0058, 0x0059,
    0x005A, 0x005B, 0x005C, 0x005D, 0x005E, 0x005F] @
   [0x0060, 0x0061, 0x0062, 0x0063, 0x0064, 0x0065, 0x0066, 0x0067, 0x0068, 0x0069, 0x006A, 0x006B, 0x006C,
    0x006D, 0x006E, 0x006F, 0x0070, 0x0071, 0x0072, 0x0073, 0x0074, 0x0075, 0x0076, 0x0077, 0x0078, 0x0079,
    0x007A, 0x007B, 0x007C, 0x007D, 0x007E, 0x007F] @
   [0x05D0, 0x05D1, 0x05D2, 0x05D3, 0x05D4, 0x05D5, 0x05D6, 0x05D7, 0x05D8, 0x05D9, 0x05DA, 0x05DB, 0x05DC,
    0x05DD, 0x05DE, 0x05DF, 0x05E0, 0x05E1, 0x05E2, 0x05E3, 0x05E4, 0x05E5, 0x05E6, 0x05E7, 0x05E8, 0x05E9,
    0x05EA, 0x00A2, 0x00A3, 0x00A5, 0x20A7, 0x0192] @
   [0x00E1, 0x00ED, 0x00F3, 0x00FA, 0x00F1, 0x00D1, 0x00AA, 0x00BA, 0x00BF, 0x2310, 0x00AC, 0x00BD, 0x00BC,
    0x00A1, 0x00AB, 0x00BB, 0x2591, 0x2592, 0x2593, 0x2502, 0x2524, 0x2561, 0x2562, 0x2556, 0x2555, 0x2563,
    0x2551, 0x2557, 0x255D, 0x255C, 0x255B, 0x2510] @
   [0x2514, 0x2534, 0x252C, 0x251C, 0x2500, 0x253C, 0x255E, 0x255F, 0x255A, 0x2554, 0x2569, 0x2566, 0x2560,
    0x2550, 0x256C, 0x2567, 0x2568, 0x2564, 0x2565, 0x2559, 0x2558, 0x2552, 0x2553, 0x256B, 0x256A, 0x2518,
    0x250C, 0x2588, 0x2584, 0x258C, 0x2590, 0x2580] @
   [0x03B1, 0x00DF, 0x0393, 0x03C0, 0x03A3, 0x03C3, 0x00B5, 0x03C4, 0x03A6, 0x0398, 0x03A9, 0x03B4, 0x221E,
    0x03C6, 0x03B5, 0x2229, 0x2261, 0x00B1, 0x2265, 0x2264, 0x2320, 0x2321, 0x00F7, 0x2248, 0x00B0, 0x2219,
    0x00B7, 0x221A, 0x207F, 0x00B2, 0x25A0, 0x00A0]"

definition rev_cp862 :: "(nat \<times> nat) list" where
  "rev_cp862 =
   [(0x0000, 0x0000), (0x0001, 0x0001), (0x0002, 0x0002), (0x0003, 0x0003), (0x0004, 0x0004), (0x0005, 0x0005),
    (0x0006, 0x0006), (0x0007, 0x0007), (0x0008, 0x0008), (0x0009, 0x0009), (0x000A, 0x000A), (0x000B, 0x000B),
    (0x000C, 0x000C), (0x000D, 0x000D), (0x000E, 0x000E), (0x000F, 0x000F), (0x0010, 0x0010), (0x0011, 0x0011),
    (0x0012, 0x0012), (0x0013, 0x0013), (0x0014, 0x0014), (0x0015, 0x0015), (0x0016, 0x0016), (0x0017, 0x0017),
    (0x0018, 0x0018), (0x0019, 0x0019), (0x001A, 0x001A), (0x001B, 0x001B), (0x001C, 0x001C), (0x001D, 0x001D),
    (0x001E, 0x001E), (0x001F, 0x001F)] @
   [(0x0020, 0x0020), (0x0021, 0x0021), (0x0022, 0x0022), (0x0023, 0x0023), (0x0024, 0x0024), (0x0025, 0x0025),
    (0x0026, 0x0026), (0x0027, 0x0027), (0x0028, 0x0028), (0x0029, 0x0029), (0x002A, 0x002A), (0x002B, 0x002B),
    (0x002C, 0x002C), (0x002D, 0x002D), (0x002E, 0x002E), (0x002F, 0x002F), (0x0030, 0x0030), (0x0031, 0x0031),
    (0x0032, 0x0032), (0x0033, 0x0033), (0x0034, 0x0034), (0x0035, 0x0035), (0x0036, 0x0036), (0x0037, 0x0037),
    (0x0038, 0x0038), (0x0039, 0x0039), (0x003A, 0x003A), (0x003B, 0x003B), (0x003C, 0x003C), (0x003D, 0x003D),
    (0x003E, 0x003E), (0x003F, 0x003F)] @
   [(0x0040, 0x0040), (0x0041, 0x0041), (0x0042, 0x0042), (0x0043, 0x0043), (0x0044, 0x0044), (0x0045, 0x0045),
    (0x0046, 0x0046), (0x0047, 0x0047), (0x0048, 0x0048), (0x0049, 0x0049), (0x004A, 0x004A), (0x004B, 0x004B),
    (0x004C, 0x004C), (0x004D, 0x004D), (0x004E, 0x004E), (0x004F, 0x004F), (0x0050, 0x0050), (0x0051, 0x0051),
    (0x0052, 0x0052), (0x0053, 0x0053), (0x0054, 0x0054), (0x0055, 0x0055), (0x0056, 0x0056), (0x0057, 0x0057),
    (0x0058, 0x0058), (0x0059, 0x0059), (0x005A, 0x005A), (0x005B, 0x005B), (0x005C, 0x005C), (0x005D, 0x005D),
    (0x005E, 0x005E), (0x005F, 0x005F)] @
   [(0x0060, 0x0060), (0x0061, 0x0061), (0x0062, 0x0062), (0x0063, 0x0063), (0x0064, 0x0064), (0x0065, 0x0065),
    (0x0066, 0x0066), (0x0067, 0x0067), (0x0068, 0x0068), (0x0069, 0x0069), (0x006A, 0x006A), (0x006B, 0x006B),
    (0x006C, 0x006C), (0x006D, 0x006D), (0x006E, 0x006E), (0x006F, 0x006F), (0x0070, 0x0070), (0x0071, 0x0071),
    (0x0072, 0x0072), (0x0073, 0x0073), (0x0074, 0x0074), (0x0075, 0x0075), (0x0076, 0x0076), (0x0077, 0x0077),
    (0x0078, 0x0078), (0x0079, 0x0079), (0x007A, 0x007A), (0x007B, 0x007B), (0x007C, 0x007C), (0x007D, 0x007D),
    (0x007E, 0x007E), (0x007F, 0x007F)] @
   [(0x00A0, 0x00FF), (0x00A1, 0x00AD), (0x00A2, 0x009B), (0x00A3, 0x009C), (0x00A5, 0x009D), (0x00AA, 0x00A6),
    (0x00AB, 0x00AE), (0x00AC, 0x00AA), (0x00B0, 0x00F8), (0x00B1, 0x00F1), (0x00B2, 0x00FD), (0x00B5, 0x00E6),
    (0x00B7, 0x00FA), (0x00BA, 0x00A7), (0x00BB, 0x00AF), (0x00BC, 0x00AC), (0x00BD, 0x00AB), (0x00BF, 0x00A8),
    (0x00D1, 0x00A5), (0x00DF, 0x00E1), (0x00E1, 0x00A0), (0x00ED, 0x00A1), (0x00F1, 0x00A4), (0x00F3, 0x00A2),
    (0x00F7, 0x00F6), (0x00FA, 0x00A3), (0x0192, 0x009F), (0x0393, 0x00E2), (0x0398, 0x00E9), (0x03A3, 0x00E4),
    (0x03A6, 0x00E8), (0x03A9, 0x00EA)] @
   [(0x03B1, 0x00E0), (0x03B4, 0x00EB), (0x03B5, 0x00EE), (0x03C0, 0x00E3), (0x03C3, 0x00E5), (0x03C4, 0x00E7),
    (0x03C6, 0x00ED), (0x05D0, 0x0080), (0x05D1, 0x0081), (0x05D2, 0x0082), (0x05D3, 0x0083), (0x05D4, 0x0084),
    (0x05D5, 0x0085), (0x05D6, 0x0086), (0x05D7, 0x0087), (0x05D8, 0x0088), (0x05D9, 0x0089), (0x05DA, 0x008A),
    (0x05DB, 0x008B), (0x05DC, 0x008C), (0x05DD, 0x008D), (0x05DE, 0x008E), (0x05DF, 0x008F), (0x05E0, 0x0090),
    (0x05E1, 0x0091), (0x05E2, 0x0092), (0x05E3, 0x0093), (0x05E4, 0x0094), (0x05E5, 0x0095), (0x05E6, 0x0096),
    (0x05E7, 0x0097), (0x05E8, 0x0098)] @
   [(0x05E9, 0x0099), (0x05EA, 0x009A), (0x207F, 0x00FC), (0x20A7, 0x009E), (0x2219, 0x00F9), (0x221A, 0x00FB),
    (0x221E, 0x00EC), (0x2229, 0x00EF), (0x2248, 0x00F7), (0x2261, 0x00F0), (0x2264, 0x00F3), (0x2265, 0x00F2),
    (0x2310, 0x00A9), (0x2320, 0x00F4), (0x2321, 0x00F5), (0x2500, 0x00C4), (0x2502, 0x00B3), (0x250C, 0x00DA),
    (0x2510, 0x00BF), (0x2514, 0x00C0), (0x2518, 0x00D9), (0x251C, 0x00C3), (0x2524, 0x00B4), (0x252C, 0x00C2),
    (0x2534, 0x00C1), (0x253C, 0x00C5), (0x2550, 0x00CD), (0x2551, 0x00BA), (0x2552, 0x00D5), (0x2553, 0x00D6),
    (0x2554, 0x00C9), (0x2555, 0x00B8)] @
   [(0x2556, 0x00B7), (0x2557, 0x00BB), (0x2558, 0x00D4), (0x2559, 0x00D3), (0x255A, 0x00C8), (0x255B, 0x00BE),
    (0x255C, 0x00BD), (0x255D, 0x00BC), (0x255E, 0x00C6), (0x255F, 0x00C7), (0x2560, 0x00CC), (0x2561, 0x00B5),
    (0x2562, 0x00B6), (0x2563, 0x00B9), (0x2564, 0x00D1), (0x2565, 0x00D2), (0x2566, 0x00CB), (0x2567, 0x00CF),
    (0x2568, 0x00D0), (0x2569, 0x00CA), (0x256A, 0x00D8), (0x256B, 0x00D7), (0x256C, 0x00CE), (0x2580, 0x00DF),
    (0x2584, 0x00DC), (0x2588, 0x00DB), (0x258C, 0x00DD), (0x2590, 0x00DE), (0x2591, 0x00B0), (0x2592, 0x00B1),
    (0x2593, 0x00B2), (0x25A0, 0x00FE)]"

definition page_862 :: CpPage where
  "page_862 = \<lparr> cp = 862, is_dbcs = False, dec1 = dec1_cp862, lead = [], leadrow = [], dec2 = [],
     rev_map = rev_cp862 \<rparr>"

lemmas at_862 = row_nth [OF dec1_cp862_def]

lemma ascending_862: "ascending (map fst rev_cp862)"
  by (simp add: rev_cp862_def)

lemma entries_862: "list_all (sb_entry dec1_cp862) rev_cp862"
  by (simp add: rev_cp862_def sb_entry_def at_862)

lemma tally_862: "tally (\<lambda>_. True) 0 dec1_cp862 = 256"
  "tally (\<lambda>_. True) 0 rev_cp862 = tally (\<lambda>u. u \<noteq> 65533) 0 dec1_cp862"
  by (simp_all add: dec1_cp862_def rev_cp862_def)

lemma sb_page_862: "sb_page page_862"
  by (simp add: sb_page_def sound_tables_def page_862_def ascending_862 entries_862 tally_862)

lemma ascii_862: "ascii_from 0 (dec1 page_862)"
  by (simp add: page_862_def dec1_cp862_def)

section \<open>Page 863\<close>

definition dec1_cp863 :: "nat list" where
  "dec1_cp863 =
   [0x0000, 0x0001, 0x0002, 0x0003, 0x0004, 0x0005, 0x0006, 0x0007, 0x0008, 0x0009, 0x000A, 0x000B, 0x000C,
    0x000D, 0x000E, 0x000F, 0x0010, 0x0011, 0x0012, 0x0013, 0x0014, 0x0015, 0x0016, 0x0017, 0x0018, 0x0019,
    0x001A, 0x001B, 0x001C, 0x001D, 0x001E, 0x001F] @
   [0x0020, 0x0021, 0x0022, 0x0023, 0x0024, 0x0025, 0x0026, 0x0027, 0x0028, 0x0029, 0x002A, 0x002B, 0x002C,
    0x002D, 0x002E, 0x002F, 0x0030, 0x0031, 0x0032, 0x0033, 0x0034, 0x0035, 0x0036, 0x0037, 0x0038, 0x0039,
    0x003A, 0x003B, 0x003C, 0x003D, 0x003E, 0x003F] @
   [0x0040, 0x0041, 0x0042, 0x0043, 0x0044, 0x0045, 0x0046, 0x0047, 0x0048, 0x0049, 0x004A, 0x004B, 0x004C,
    0x004D, 0x004E, 0x004F, 0x0050, 0x0051, 0x0052, 0x0053, 0x0054, 0x0055, 0x0056, 0x0057, 0x0058, 0x0059,
    0x005A, 0x005B, 0x005C, 0x005D, 0x005E, 0x005F] @
   [0x0060, 0x0061, 0x0062, 0x0063, 0x0064, 0x0065, 0x0066, 0x0067, 0x0068, 0x0069, 0x006A, 0x006B, 0x006C,
    0x006D, 0x006E, 0x006F, 0x0070, 0x0071, 0x0072, 0x0073, 0x0074, 0x0075, 0x0076, 0x0077, 0x0078, 0x0079,
    0x007A, 0x007B, 0x007C, 0x007D, 0x007E, 0x007F] @
   [0x00C7, 0x00FC, 0x00E9, 0x00E2, 0x00C2, 0x00E0, 0x00B6, 0x00E7, 0x00EA, 0x00EB, 0x00E8, 0x00EF, 0x00EE,
    0x2017, 0x00C0, 0x00A7, 0x00C9, 0x00C8, 0x00CA, 0x00F4, 0x00CB, 0x00CF, 0x00FB, 0x00F9, 0x00A4, 0x00D4,
    0x00DC, 0x00A2, 0x00A3, 0x00D9, 0x00DB, 0x0192] @
   [0x00A6, 0x00B4, 0x00F3, 0x00FA, 0x00A8, 0x00B8, 0x00B3, 0x00AF, 0x00CE, 0x2310, 0x00AC, 0x00BD, 0x00BC,
    0x00BE, 0x00AB, 0x00BB, 0x2591, 0x2592, 0x2593, 0x2502, 0x2524, 0x2561, 0x2562, 0x2556, 0x2555, 0x2563,
    0x2551, 0x2557, 0x255D, 0x255C, 0x255B, 0x2510] @
   [0x2514, 0x2534, 0x252C, 0x251C, 0x2500, 0x253C, 0x255E, 0x255F, 0x255A, 0x2554, 0x2569, 0x2566, 0x2560,
    0x2550, 0x256C, 0x2567, 0x2568, 0x2564, 0x2565, 0x2559, 0x2558, 0x2552, 0x2553, 0x256B, 0x256A, 0x2518,
    0x250C, 0x2588, 0x2584, 0x258C, 0x2590, 0x2580] @
   [0x03B1, 0x00DF, 0x0393, 0x03C0, 0x03A3, 0x03C3, 0x00B5, 0x03C4, 0x03A6, 0x0398, 0x03A9, 0x03B4, 0x221E,
    0x03C6, 0x03B5, 0x2229, 0x2261, 0x00B1, 0x2265, 0x2264, 0x2320, 0x2321, 0x00F7, 0x2248, 0x00B0, 0x2219,
    0x00B7, 0x221A, 0x207F, 0x00B2, 0x25A0, 0x00A0]"

definition rev_cp863 :: "(nat \<times> nat) list" where
  "rev_cp863 =
   [(0x0000, 0x0000), (0x0001, 0x0001), (0x0002, 0x0002), (0x0003, 0x0003), (0x0004, 0x0004), (0x0005, 0x0005),
    (0x0006, 0x0006), (0x0007, 0x0007), (0x0008, 0x0008), (0x0009, 0x0009), (0x000A, 0x000A), (0x000B, 0x000B),
    (0x000C, 0x000C), (0x000D, 0x000D), (0x000E, 0x000E), (0x000F, 0x000F), (0x0010, 0x0010), (0x0011, 0x0011),
    (0x0012, 0x0012), (0x0013, 0x0013), (0x0014, 0x0014), (0x0015, 0x0015), (0x0016, 0x0016), (0x0017, 0x0017),
    (0x0018, 0x0018), (0x0019, 0x0019), (0x001A, 0x001A), (0x001B, 0x001B), (0x001C, 0x001C), (0x001D, 0x001D),
    (0x001E, 0x001E), (0x001F, 0x001F)] @
   [(0x0020, 0x0020), (0x0021, 0x0021), (0x0022, 0x0022), (0x0023, 0x0023), (0x0024, 0x0024), (0x0025, 0x0025),
    (0x0026, 0x0026), (0x0027, 0x0027), (0x0028, 0x0028), (0x0029, 0x0029), (0x002A, 0x002A), (0x002B, 0x002B),
    (0x002C, 0x002C), (0x002D, 0x002D), (0x002E, 0x002E), (0x002F, 0x002F), (0x0030, 0x0030), (0x0031, 0x0031),
    (0x0032, 0x0032), (0x0033, 0x0033), (0x0034, 0x0034), (0x0035, 0x0035), (0x0036, 0x0036), (0x0037, 0x0037),
    (0x0038, 0x0038), (0x0039, 0x0039), (0x003A, 0x003A), (0x003B, 0x003B), (0x003C, 0x003C), (0x003D, 0x003D),
    (0x003E, 0x003E), (0x003F, 0x003F)] @
   [(0x0040, 0x0040), (0x0041, 0x0041), (0x0042, 0x0042), (0x0043, 0x0043), (0x0044, 0x0044), (0x0045, 0x0045),
    (0x0046, 0x0046), (0x0047, 0x0047), (0x0048, 0x0048), (0x0049, 0x0049), (0x004A, 0x004A), (0x004B, 0x004B),
    (0x004C, 0x004C), (0x004D, 0x004D), (0x004E, 0x004E), (0x004F, 0x004F), (0x0050, 0x0050), (0x0051, 0x0051),
    (0x0052, 0x0052), (0x0053, 0x0053), (0x0054, 0x0054), (0x0055, 0x0055), (0x0056, 0x0056), (0x0057, 0x0057),
    (0x0058, 0x0058), (0x0059, 0x0059), (0x005A, 0x005A), (0x005B, 0x005B), (0x005C, 0x005C), (0x005D, 0x005D),
    (0x005E, 0x005E), (0x005F, 0x005F)] @
   [(0x0060, 0x0060), (0x0061, 0x0061), (0x0062, 0x0062), (0x0063, 0x0063), (0x0064, 0x0064), (0x0065, 0x0065),
    (0x0066, 0x0066), (0x0067, 0x0067), (0x0068, 0x0068), (0x0069, 0x0069), (0x006A, 0x006A), (0x006B, 0x006B),
    (0x006C, 0x006C), (0x006D, 0x006D), (0x006E, 0x006E), (0x006F, 0x006F), (0x0070, 0x0070), (0x0071, 0x0071),
    (0x0072, 0x0072), (0x0073, 0x0073), (0x0074, 0x0074), (0x0075, 0x0075), (0x0076, 0x0076), (0x0077, 0x0077),
    (0x0078, 0x0078), (0x0079, 0x0079), (0x007A, 0x007A), (0x007B, 0x007B), (0x007C, 0x007C), (0x007D, 0x007D),
    (0x007E, 0x007E), (0x007F, 0x007F)] @
   [(0x00A0, 0x00FF), (0x00A2, 0x009B), (0x00A3, 0x009C), (0x00A4, 0x0098), (0x00A6, 0x00A0), (0x00A7, 0x008F),
    (0x00A8, 0x00A4), (0x00AB, 0x00AE), (0x00AC, 0x00AA), (0x00AF, 0x00A7), (0x00B0, 0x00F8), (0x00B1, 0x00F1),
    (0x00B2, 0x00FD), (0x00B3, 0x00A6), (0x00B4, 0x00A1), (0x00B5, 0x00E6), (0x00B6, 0x0086), (0x00B7, 0x00FA),
    (0x00B8, 0x00A5), (0x00BB, 0x00AF), (0x00BC, 0x00AC), (0x00BD, 0x00AB), (0x00BE, 0x00AD), (0x00C0, 0x008E),
    (0x00C2, 0x0084), (0x00C7, 0x0080), (0x00C8, 0x0091), (0x00C9, 0x0090), (0x00CA, 0x0092), (0x00CB, 0x0094),
    (0x00CE, 0x00A8), (0x00CF, 0x0095)] @
   [(0x00D4, 0x0099), (0x00D9, 0x009D), (0x00DB, 0x009E), (0x00DC, 0x009A), (0x00DF, 0x00E1), (0x00E0, 0x0085),
    (0x00E2, 0x0083), (0x00E7, 0x0087), (0x00E8, 0x008A), (0x00E9, 0x0082), (0x00EA, 0x0088), (0x00EB, 0x0089),
    (0x00EE, 0x008C), (0x00EF, 0x008B), (0x00F3, 0x00A2), (0x00F4, 0x0093), (0x00F7, 0x00F6), (0x00F9, 0x0097),
    (0x00FA, 0x00A3), (0x00FB, 0x0096), (0x00FC, 0x0081), (0x0192, 0x009F), (0x0393, 0x00E2), (0x0398, 0x00E9),
    (0x03A3, 0x00E4), (0x03A6, 0x00E8), (0x03A9, 0x00EA), (0x03B1, 0x00E0), (0x03B4, 0x00EB), (0x03B5, 0x00EE),
    (0x03C0, 0x00E3), (0x03C3, 0x00E5)] @
   [(0x03C4, 0x00E7), (0x03C6, 0x00ED), (0x2017, 0x008D), (0x207F, 0x00FC), (0x2219, 0x00F9), (0x221A, 0x00FB),
    (0x221E, 0x00EC), (0x2229, 0x00EF), (0x2248, 0x00F7), (0x2261, 0x00F0), (0x2264, 0x00F3), (0x2265, 0x00F2),
    (0x2310, 0x00A9), (0x2320, 0x00F4), (0x2321, 0x00F5), (0x2500, 0x00C4), (0x2502, 0x00B3), (0x250C, 0x00DA),
    (0x2510, 0x00BF), (0x2514, 0x00C0), (0x2518, 0x00D9), (0x251C, 0x00C3), (0x2524, 0x00B4), (0x252C, 0x00C2),
    (0x2534, 0x00C1), (0x253C, 0x00C5), (0x2550, 0x00CD), (0x2551, 0x00BA), (0x2552, 0x00D5), (0x2553, 0x00D6),
    (0x2554, 0x00C9), (0x2555, 0x00B8)] @
   [(0x2556, 0x00B7), (0x2557, 0x00BB), (0x2558, 0x00D4), (0x2559, 0x00D3), (0x255A, 0x00C8), (0x255B, 0x00BE),
    (0x255C, 0x00BD), (0x255D, 0x00BC), (0x255E, 0x00C6), (0x255F, 0x00C7), (0x2560, 0x00CC), (0x2561, 0x00B5),
    (0x2562, 0x00B6), (0x2563, 0x00B9), (0x2564, 0x00D1), (0x2565, 0x00D2), (0x2566, 0x00CB), (0x2567, 0x00CF),
    (0x2568, 0x00D0), (0x2569, 0x00CA), (0x256A, 0x00D8), (0x256B, 0x00D7), (0x256C, 0x00CE), (0x2580, 0x00DF),
    (0x2584, 0x00DC), (0x2588, 0x00DB), (0x258C, 0x00DD), (0x2590, 0x00DE), (0x2591, 0x00B0), (0x2592, 0x00B1),
    (0x2593, 0x00B2), (0x25A0, 0x00FE)]"

definition page_863 :: CpPage where
  "page_863 = \<lparr> cp = 863, is_dbcs = False, dec1 = dec1_cp863, lead = [], leadrow = [], dec2 = [],
     rev_map = rev_cp863 \<rparr>"

lemmas at_863 = row_nth [OF dec1_cp863_def]

lemma ascending_863: "ascending (map fst rev_cp863)"
  by (simp add: rev_cp863_def)

lemma entries_863: "list_all (sb_entry dec1_cp863) rev_cp863"
  by (simp add: rev_cp863_def sb_entry_def at_863)

lemma tally_863: "tally (\<lambda>_. True) 0 dec1_cp863 = 256"
  "tally (\<lambda>_. True) 0 rev_cp863 = tally (\<lambda>u. u \<noteq> 65533) 0 dec1_cp863"
  by (simp_all add: dec1_cp863_def rev_cp863_def)

lemma sb_page_863: "sb_page page_863"
  by (simp add: sb_page_def sound_tables_def page_863_def ascending_863 entries_863 tally_863)

lemma ascii_863: "ascii_from 0 (dec1 page_863)"
  by (simp add: page_863_def dec1_cp863_def)

section \<open>Page 864\<close>

definition dec1_cp864 :: "nat list" where
  "dec1_cp864 =
   [0x0000, 0x0001, 0x0002, 0x0003, 0x0004, 0x0005, 0x0006, 0x0007, 0x0008, 0x0009, 0x000A, 0x000B, 0x000C,
    0x000D, 0x000E, 0x000F, 0x0010, 0x0011, 0x0012, 0x0013, 0x0014, 0x0015, 0x0016, 0x0017, 0x0018, 0x0019,
    0x001A, 0x001B, 0x001C, 0x001D, 0x001E, 0x001F] @
   [0x0020, 0x0021, 0x0022, 0x0023, 0x0024, 0x066A, 0x0026, 0x0027, 0x0028, 0x0029, 0x002A, 0x002B, 0x002C,
    0x002D, 0x002E, 0x002F, 0x0030, 0x0031, 0x0032, 0x0033, 0x0034, 0x0035, 0x0036, 0x0037, 0x0038, 0x0039,
    0x003A, 0x003B, 0x003C, 0x003D, 0x003E, 0x003F] @
   [0x0040, 0x0041, 0x0042, 0x0043, 0x0044, 0x0045, 0x0046, 0x0047, 0x0048, 0x0049, 0x004A, 0x004B, 0x004C,
    0x004D, 0x004E, 0x004F, 0x0050, 0x0051, 0x0052, 0x0053, 0x0054, 0x0055, 0x0056, 0x0057, 0x0058, 0x0059,
    0x005A, 0x005B, 0x005C, 0x005D, 0x005E, 0x005F] @
   [0x0060, 0x0061, 0x0062, 0x0063, 0x0064, 0x0065, 0x0066, 0x0067, 0x0068, 0x0069, 0x006A, 0x006B, 0x006C,
    0x006D, 0x006E, 0x006F, 0x0070, 0x0071, 0x0072, 0x0073, 0x0074, 0x0075, 0x0076, 0x0077, 0x0078, 0x0079,
    0x007A, 0x007B, 0x007C, 0x007D, 0x007E, 0x007F] @
   [0x00B0, 0x00B7, 0x2219, 0x221A, 0x2592, 0x2500, 0x2502, 0x253C, 0x2524, 0x252C, 0x251C, 0x2534, 0x2510,
    0x250C, 0x2514, 0x2518, 0x03B2, 0x221E, 0x03C6, 0x00B1, 0x00BD, 0x00BC, 0x2248, 0x00AB, 0x00BB, 0xFEF7,
    0xFEF8, 0xFFFD, 0xFFFD, 0xFEFB, 0xFEFC, 0xFFFD] @
   [0x00A0, 0x00AD, 0xFE82, 0x00A3, 0x00A4, 0xFE84, 0xFFFD, 0xFFFD, 0xFE8E, 0xFE8F, 0xFE95, 0xFE99, 0x060C,
    0xFE9D, 0xFEA1, 0xFEA5, 0x0660, 0x0661, 0x0662, 0x0663, 0x0664, 0x0665, 0x0666, 0x0667, 0x0668, 0x0669,
    0xFED1, 0x061B, 0xFEB1, 0xFEB5, 0xFEB9, 0x061F] @
   [0x00A2, 0xFE80, 0xFE81, 0xFE83, 0xFE85, 0xFECA, 0xFE8B, 0xFE8D, 0xFE91, 0xFE93, 0xFE97, 0xFE9B, 0xFE9F,
    0xFEA3, 0xFEA7, 0xFEA9, 0xFEAB, 0xFEAD, 0xFEAF, 0xFEB3, 0xFEB7, 0xFEBB, 0xFEBF, 0xFEC1, 0xFEC5, 0xFECB,
    0xFECF, 0x00A6, 0x00AC, 0x00F7, 0x00D7, 0xFEC9] @
   [0x0640, 0xFED3, 0xFED7, 0xFEDB, 0xFEDF, 0xFEE3, 0xFEE7, 0xFEEB, 0xFEED, 0xFEEF, 0xFEF3, 0xFEBD, 0xFECC,
    0xFECE, 0xFECD, 0xFEE1, 0xFE7D, 0x0651, 0xFEE5, 0xFEE9, 0xFEEC, 0xFEF0, 0xFEF2, 0xFED0, 0xFED5, 0xFEF5,
    0xFEF6, 0xFEDD, 0xFED9, 0xFEF1, 0x25A0, 0xFFFD]"

definition rev_cp864 :: "(nat \<times> nat) list" where
  "rev_cp864 =
   [(0x0000, 0x0000), (0x0001, 0x0001), (0x0002, 0x0002), (0x0003, 0x0003), (0x0004, 0x0004), (0x0005, 0x0005),
    (0x0006, 0x0006), (0x0007, 0x0007), (0x0008, 0x0008), (0x0009, 0x0009), (0x000A, 0x000A), (0x000B, 0x000B),
    (0x000C, 0x000C), (0x000D, 0x000D), (0x000E, 0x000E), (0x000F, 0x000F), (0x0010, 0x0010), (0x0011, 0x0011),
    (0x0012, 0x0012), (0x0013, 0x0013), (0x0014, 0x0014), (0x0015, 0x0015), (0x0016, 0x0016), (0x0017, 0x0017),
    (0x0018, 0x0018), (0x0019, 0x0019), (0x001A, 0x001A), (0x001B, 0x001B), (0x001C, 0x001C), (0x001D, 0x001D),
    (0x001E, 0x001E), (0x001F, 0x001F)] @
   [(0x0020, 0x0020), (0x0021, 0x0021), (0x0022, 0x0022), (0x0023, 0x0023), (0x0024, 0x0024), (0x0026, 0x0026),
    (0x0027, 0x0027), (0x0028, 0x0028), (0x0029, 0x0029), (0x002A, 0x002A), (0x002B, 0x002B), (0x002C, 0x002C),
    (0x002D, 0x002D), (0x002E, 0x002E), (0x002F, 0x002F), (0x0030, 0x0030), (0x0031, 0x0031), (0x0032, 0x0032),
    (0x0033, 0x0033), (0x0034, 0x0034), (0x0035, 0x0035), (0x0036, 0x0036), (0x0037, 0x0037), (0x0038, 0x0038),
    (0x0039, 0x0039), (0x003A, 0x003A), (0x003B, 0x003B), (0x003C, 0x003C), (0x003D, 0x003D), (0x003E, 0x003E),
    (0x003F, 0x003F), (0x0040, 0x0040)] @
   [(0x0041, 0x0041), (0x0042, 0x0042), (0x0043, 0x0043), (0x0044, 0x0044), (0x0045, 0x0045), (0x0046, 0x0046),
    (0x0047, 0x0047), (0x0048, 0x0048), (0x0049, 0x0049), (0x004A, 0x004A), (0x004B, 0x004B), (0x004C, 0x004C),
    (0x004D, 0x004D), (0x004E, 0x004E), (0x004F, 0x004F), (0x0050, 0x0050), (0x0051, 0x0051), (0x0052, 0x0052),
    (0x0053, 0x0053), (0x0054, 0x0054), (0x0055, 0x0055), (0x0056, 0x0056), (0x0057, 0x0057), (0x0058, 0x0058),
    (0x0059, 0x0059), (0x005A, 0x005A), (0x005B, 0x005B), (0x005C, 0x005C), (0x005D, 0x005D), (0x005E, 0x005E),
    (0x005F, 0x005F), (0x0060, 0x0060)] @
   [(0x0061, 0x0061), (0x0062, 0x0062), (0x0063, 0x0063), (0x0064, 0x0064), (0x0065, 0x0065), (0x0066, 0x0066),
    (0x0067, 0x0067), (0x0068, 0x0068), (0x0069, 0x0069), (0x006A, 0x006A), (0x006B, 0x006B), (0x006C, 0x006C),
    (0x006D, 0x006D), (0x006E, 0x006E), (0x006F, 0x006F), (0x0070, 0x0070), (0x0071, 0x0071), (0x0072, 0x0072),
    (0x0073, 0x0073), (0x0074, 0x0074), (0x0075, 0x0075), (0x0076, 0x0076), (0x0077, 0x0077), (0x0078, 0x0078),
    (0x0079, 0x0079), (0x007A, 0x007A), (0x007B, 0x007B), (0x007C, 0x007C), (0x007D, 0x007D), (0x007E, 0x007E),
    (0x007F, 0x007F), (0x00A0, 0x00A0)] @
   [(0x00A2, 0x00C0), (0x00A3, 0x00A3), (0x00A4, 0x00A4), (0x00A6, 0x00DB), (0x00AB, 0x0097), (0x00AC, 0x00DC),
    (0x00AD, 0x00A1), (0x00B0, 0x0080), (0x00B1, 0x0093), (0x00B7, 0x0081), (0x00BB, 0x0098), (0x00BC, 0x0095),
    (0x00BD, 0x0094), (0x00D7, 0x00DE), (0x00F7, 0x00DD), (0x03B2, 0x0090), (0x03C6, 0x0092), (0x060C, 0x00AC),
    (0x061B, 0x00BB), (0x061F, 0x00BF), (0x0640, 0x00E0), (0x0651, 0x00F1), (0x0660, 0x00B0), (0x0661, 0x00B1),
    (0x0662, 0x00B2), (0x0663, 0x00B3), (0x0664, 0x00B4), (0x0665, 0x00B5), (0x0666, 0x00B6), (0x0667, 0x00B7),
    (0x0668, 0x00B8), (0x0669, 0x00B9)] @
   [(0x066A, 0x0025), (0x2219, 0x0082), (0x221A, 0x0083), (0x221E, 0x0091), (0x2248, 0x0096), (0x2500, 0x0085),
    (0x2502, 0x0086), (0x250C, 0x008D), (0x2510, 0x008C), (0x2514, 0x008E), (0x2518, 0x008F), (0x251C, 0x008A),
    (0x2524, 0x0088), (0x252C, 0x0089), (0x2534, 0x008B), (0x253C, 0x0087), (0x2592, 0x0084), (0x25A0, 0x00FE),
    (0xFE7D, 0x00F0), (0xFE80, 0x00C1), (0xFE81, 0x00C2), (0xFE82, 0x00A2), (0xFE83, 0x00C3), (0xFE84, 0x00A5),
    (0xFE85, 0x00C4), (0xFE8B, 0x00C6), (0xFE8D, 0x00C7), (0xFE8E, 0x00A8), (0xFE8F, 0x00A9), (0xFE91, 0x00C8),
    (0xFE93, 0x00C9), (0xFE95, 0x00AA)] @
   [(0xFE97, 0x00CA), (0xFE99, 0x00AB), (0xFE9B, 0x00CB), (0xFE9D, 0x00AD), (0xFE9F, 0x00CC), (0xFEA1, 0x00AE),
    (0xFEA3, 0x00CD), (0xFEA5, 0x00AF), (0xFEA7, 0x00CE), (0xFEA9, 0x00CF), (0xFEAB, 0x00D0), (0xFEAD, 0x00D1),
    (0xFEAF, 0x00D2), (0xFEB1, 0x00BC), (0xFEB3, 0x00D3), (0xFEB5, 0x00BD), (0xFEB7, 0x00D4), (0xFEB9, 0x00BE),
    (0xFEBB, 0x00D5), (0xFEBD, 0x00EB), (0xFEBF, 0x00D6), (0xFEC1, 0x00D7), (0xFEC5, 0x00D8), (0xFEC9, 0x00DF),
    (0xFECA, 0x00C5), (0xFECB, 0x00D9), (0xFECC, 0x00EC), (0xFECD, 0x00EE), (0xFECE, 0x00ED), (0xFECF, 0x00DA),
    (0xFED0, 0x00F7), (0xFED1, 0x00BA)] @
   [(0xFED3, 0x00E1), (0xFED5, 0x00F8), (0xFED7, 0x00E2), (0xFED9, 0x00FC), (0xFEDB, 0x00E3), (0xFEDD, 0x00FB),
    (0xFEDF, 0x00E4), (0xFEE1, 0x00EF), (0xFEE3, 0x00E5), (0xFEE5, 0x00F2), (0xFEE7, 0x00E6), (0xFEE9, 0x00F3),
    (0xFEEB, 0x00E7), (0xFEEC, 0x00F4), (0xFEED, 0x00E8), (0xFEEF, 0x00E9), (0xFEF0, 0x00F5), (0xFEF1, 0x00FD),
    (0xFEF2, 0x00F6), (0xFEF3, 0x00EA), (0xFEF5, 0x00F9), (0xFEF6, 0x00FA), (0xFEF7, 0x0099), (0xFEF8, 0x009A),
    (0xFEFB, 0x009D), (0xFEFC, 0x009E)]"

definition page_864 :: CpPage where
  "page_864 = \<lparr> cp = 864, is_dbcs = False, dec1 = dec1_cp864, lead = [], leadrow = [], dec2 = [],
     rev_map = rev_cp864 \<rparr>"

lemmas at_864 = row_nth [OF dec1_cp864_def]

lemma ascending_864: "ascending (map fst rev_cp864)"
  by (simp add: rev_cp864_def)

lemma entries_864: "list_all (sb_entry dec1_cp864) rev_cp864"
  by (simp add: rev_cp864_def sb_entry_def at_864)

lemma tally_864: "tally (\<lambda>_. True) 0 dec1_cp864 = 256"
  "tally (\<lambda>_. True) 0 rev_cp864 = tally (\<lambda>u. u \<noteq> 65533) 0 dec1_cp864"
  by (simp_all add: dec1_cp864_def rev_cp864_def)

lemma sb_page_864: "sb_page page_864"
  by (simp add: sb_page_def sound_tables_def page_864_def ascending_864 entries_864 tally_864)

section \<open>Page 865\<close>

definition dec1_cp865 :: "nat list" where
  "dec1_cp865 =
   [0x0000, 0x0001, 0x0002, 0x0003, 0x0004, 0x0005, 0x0006, 0x0007, 0x0008, 0x0009, 0x000A, 0x000B, 0x000C,
    0x000D, 0x000E, 0x000F, 0x0010, 0x0011, 0x0012, 0x0013, 0x0014, 0x0015, 0x0016, 0x0017, 0x0018, 0x0019,
    0x001A, 0x001B, 0x001C, 0x001D, 0x001E, 0x001F] @
   [0x0020, 0x0021, 0x0022, 0x0023, 0x0024, 0x0025, 0x0026, 0x0027, 0x0028, 0x0029, 0x002A, 0x002B, 0x002C,
    0x002D, 0x002E, 0x002F, 0x0030, 0x0031, 0x0032, 0x0033, 0x0034, 0x0035, 0x0036, 0x0037, 0x0038, 0x0039,
    0x003A, 0x003B, 0x003C, 0x003D, 0x003E, 0x003F] @
   [0x0040, 0x0041, 0x0042, 0x0043, 0x0044, 0x0045, 0x0046, 0x0047, 0x0048, 0x0049, 0x004A, 0x004B, 0x004C,
    0x004D, 0x004E, 0x004F, 0x0050, 0x0051, 0x0052, 0x0053, 0x0054, 0x0055, 0x0056, 0x0057, 0x0058, 0x0059,
    0x005A, 0x005B, 0x005C, 0x005D, 0x005E, 0x005F] @
   [0x0060, 0x0061, 0x0062, 0x0063, 0x0064, 0x0065, 0x0066, 0x0067, 0x0068, 0x0069, 0x006A, 0x006B, 0x006C,
    0x006D, 0x006E, 0x006F, 0x0070, 0x0071, 0x0072, 0x0073, 0x0074, 0x0075, 0x0076, 0x0077, 0x0078, 0x0079,
    0x007A, 0x007B, 0x007C, 0x007D, 0x007E, 0x007F] @
   [0x00C7, 0x00FC, 0x00E9, 0x00E2, 0x00E4, 0x00E0, 0x00E5, 0x00E7, 0x00EA, 0x00EB, 0x00E8, 0x00EF, 0x00EE,
    0x00EC, 0x00C4, 0x00C5, 0x00C9, 0x00E6, 0x00C6, 0x00F4, 0x00F6, 0x00F2, 0x00FB, 0x00F9, 0x00FF, 0x00D6,
    0x00DC, 0x00F8, 0x00A3, 0x00D8, 0x20A7, 0x0192] @
   [0x00E1, 0x00ED, 0x00F3, 0x00FA, 0x00F1, 0x00D1, 0x00AA, 0x00BA, 0x00BF, 0x2310, 0x00AC, 0x00BD, 0x00BC,
    0x00A1, 0x00AB, 0x00A4, 0x2591, 0x2592, 0x2593, 0x2502, 0x2524, 0x2561, 0x2562, 0x2556, 0x2555, 0x2563,
    0x2551, 0x2557, 0x255D, 0x255C, 0x255B, 0x2510] @
   [0x2514, 0x2534, 0x252C, 0x251C, 0x2500, 0x253C, 0x255E, 0x255F, 0x255A, 0x2554, 0x2569, 0x2566, 0x2560,
    0x2550, 0x256C, 0x2567, 0x2568, 0x2564, 0x2565, 0x2559, 0x2558, 0x2552, 0x2553, 0x256B, 0x256A, 0x2518,
    0x250C, 0x2588, 0x2584, 0x258C, 0x2590, 0x2580] @
   [0x03B1, 0x00DF, 0x0393, 0x03C0, 0x03A3, 0x03C3, 0x00B5, 0x03C4, 0x03A6, 0x0398, 0x03A9, 0x03B4, 0x221E,
    0x03C6, 0x03B5, 0x2229, 0x2261, 0x00B1, 0x2265, 0x2264, 0x2320, 0x2321, 0x00F7, 0x2248, 0x00B0, 0x2219,
    0x00B7, 0x221A, 0x207F, 0x00B2, 0x25A0, 0x00A0]"

definition rev_cp865 :: "(nat \<times> nat) list" where
  "rev_cp865 =
   [(0x0000, 0x0000), (0x0001, 0x0001), (0x0002, 0x0002), (0x0003, 0x0003), (0x0004, 0x0004), (0x0005, 0x0005),
    (0x0006, 0x0006), (0x0007, 0x0007), (0x0008, 0x0008), (0x0009, 0x0009), (0x000A, 0x000A), (0x000B, 0x000B),
    (0x000C, 0x000C), (0x000D, 0x000D), (0x000E, 0x000E), (0x000F, 0x000F), (0x0010, 0x0010), (0x0011, 0x0011),
    (0x0012, 0x0012), (0x0013, 0x0013), (0x0014, 0x0014), (0x0015, 0x0015), (0x0016, 0x0016), (0x0017, 0x0017),
    (0x0018, 0x0018), (0x0019, 0x0019), (0x001A, 0x001A), (0x001B, 0x001B), (0x001C, 0x001C), (0x001D, 0x001D),
    (0x001E, 0x001E), (0x001F, 0x001F)] @
   [(0x0020, 0x0020), (0x0021, 0x0021), (0x0022, 0x0022), (0x0023, 0x0023), (0x0024, 0x0024), (0x0025, 0x0025),
    (0x0026, 0x0026), (0x0027, 0x0027), (0x0028, 0x0028), (0x0029, 0x0029), (0x002A, 0x002A), (0x002B, 0x002B),
    (0x002C, 0x002C), (0x002D, 0x002D), (0x002E, 0x002E), (0x002F, 0x002F), (0x0030, 0x0030), (0x0031, 0x0031),
    (0x0032, 0x0032), (0x0033, 0x0033), (0x0034, 0x0034), (0x0035, 0x0035), (0x0036, 0x0036), (0x0037, 0x0037),
    (0x0038, 0x0038), (0x0039, 0x0039), (0x003A, 0x003A), (0x003B, 0x003B), (0x003C, 0x003C), (0x003D, 0x003D),
    (0x003E, 0x003E), (0x003F, 0x003F)] @
   [(0x0040, 0x0040), (0x0041, 0x0041), (0x0042, 0x0042), (0x0043, 0x0043), (0x0044, 0x0044), (0x0045, 0x0045),
    (0x0046, 0x0046), (0x0047, 0x0047), (0x0048, 0x0048), (0x0049, 0x0049), (0x004A, 0x004A), (0x004B, 0x004B),
    (0x004C, 0x004C), (0x004D, 0x004D), (0x004E, 0x004E), (0x004F, 0x004F), (0x0050, 0x0050), (0x0051, 0x0051),
    (0x0052, 0x0052), (0x0053, 0x0053), (0x0054, 0x0054), (0x0055, 0x0055), (0x0056, 0x0056), (0x0057, 0x0057),
    (0x0058, 0x0058), (0x0059, 0x0059), (0x005A, 0x005A), (0x005B, 0x005B), (0x005C, 0x005C), (0x005D, 0x005D),
    (0x005E, 0x005E), (0x005F, 0x005F)] @
   [(0x0060, 0x0060), (0x0061, 0x0061), (0x0062, 0x0062), (0x0063, 0x0063), (0x0064, 0x0064), (0x0065, 0x0065),
    (0x0066, 0x0066), (0x0067, 0x0067), (0x0068, 0x0068), (0x0069, 0x0069), (0x006A, 0x006A), (0x006B, 0x006B),
    (0x006C, 0x006C), (0x006D, 0x006D), (0x006E, 0x006E), (0x006F, 0x006F), (0x0070, 0x0070), (0x0071, 0x0071),
    (0x0072, 0x0072), (0x0073, 0x0073), (0x0074, 0x0074), (0x0075, 0x0075), (0x0076, 0x0076), (0x0077, 0x0077),
    (0x0078, 0x0078), (0x0079, 0x0079), (0x007A, 0x007A), (0x007B, 0x007B), (0x007C, 0x007C), (0x007D, 0x007D),
    (0x007E, 0x007E), (0x007F, 0x007F)] @
   [(0x00A0, 0x00FF), (0x00A1, 0x00AD), (0x00A3, 0x009C), (0x00A4, 0x00AF), (0x00AA, 0x00A6), (0x00AB, 0x00AE),
    (0x00AC, 0x00AA), (0x00B0, 0x00F8), (0x00B1, 0x00F1), (0x00B2, 0x00FD), (0x00B5, 0x00E6), (0x00B7, 0x00FA),
    (0x00BA, 0x00A7), (0x00BC, 0x00AC), (0x00BD, 0x00AB), (0x00BF, 0x00A8), (0x00C4, 0x008E), (0x00C5, 0x008F),
    (0x00C6, 0x0092), (0x00C7, 0x0080), (0x00C9, 0x0090), (0x00D1, 0x00A5), (0x00D6, 0x0099), (0x00D8, 0x009D),
    (0x00DC, 0x009A), (0x00DF, 0x00E1), (0x00E0, 0x0085), (0x00E1, 0x00A0), (0x00E2, 0x0083), (0x00E4, 0x0084),
    (0x00E5, 0x0086), (0x00E6, 0x0091)] @
   [(0x00E7, 0x0087), (0x00E8, 0x008A), (0x00E9, 0x0082), (0x00EA, 0x0088), (0x00EB, 0x0089), (0x00EC, 0x008D),
    (0x00ED, 0x00A1), (0x00EE, 0x008C), (0x00EF, 0x008B), (0x00F1, 0x00A4), (0x00F2, 0x0095), (0x00F3, 0x00A2),
    (0x00F4, 0x0093), (0x00F6, 0x0094), (0x00F7, 0x00F6), (0x00F8, 0x009B), (0x00F9, 0x0097), (0x00FA, 0x00A3),
    (0x00FB, 0x0096), (0x00FC, 0x0081), (0x00FF, 0x0098), (0x0192, 0x009F), (0x0393, 0x00E2), (0x0398, 0x00E9),
    (0x03A3, 0x00E4), (0x03A6, 0x00E8), (0x03A9, 0x00EA), (0x03B1, 0x00E0), (0x03B4, 0x00EB), (0x03B5, 0x00EE),
    (0x03C0, 0x00E3), (0x03C3, 0x00E5)] @
   [(0x03C4, 0x00E7), (0x03C6, 0x00ED), (0x207F, 0x00FC), (0x20A7, 0x009E), (0x2219, 0x00F9), (0x221A, 0x00FB),
    (0x221E, 0x00EC), (0x2229, 0x00EF), (0x2248, 0x00F7), (0x2261, 0x00F0), (0x2264, 0x00F3), (0x2265, 0x00F2),
    (0x2310, 0x00A9), (0x2320, 0x00F4), (0x2321, 0x00F5), (0x2500, 0x00C4), (0x2502, 0x00B3), (0x250C, 0x00DA),
    (0x2510, 0x00BF), (0x2514, 0x00C0), (0x2518, 0x00D9), (0x251C, 0x00C3), (0x2524, 0x00B4), (0x252C, 0x00C2),
    (0x2534, 0x00C1), (0x253C, 0x00C5), (0x2550, 0x00CD), (0x2551, 0x00BA), (0x2552, 0x00D5), (0x2553, 0x00D6),
    (0x2554, 0x00C9), (0x2555, 0x00B8)] @
   [(0x2556, 0x00B7), (0x2557, 0x00BB), (0x2558, 0x00D4), (0x2559, 0x00D3), (0x255A, 0x00C8), (0x255B, 0x00BE),
    (0x255C, 0x00BD), (0x255D, 0x00BC), (0x255E, 0x00C6), (0x255F, 0x00C7), (0x2560, 0x00CC), (0x2561, 0x00B5),
    (0x2562, 0x00B6), (0x2563, 0x00B9), (0x2564, 0x00D1), (0x2565, 0x00D2), (0x2566, 0x00CB), (0x2567, 0x00CF),
    (0x2568, 0x00D0), (0x2569, 0x00CA), (0x256A, 0x00D8), (0x256B, 0x00D7), (0x256C, 0x00CE), (0x2580, 0x00DF),
    (0x2584, 0x00DC), (0x2588, 0x00DB), (0x258C, 0x00DD), (0x2590, 0x00DE), (0x2591, 0x00B0), (0x2592, 0x00B1),
    (0x2593, 0x00B2), (0x25A0, 0x00FE)]"

definition page_865 :: CpPage where
  "page_865 = \<lparr> cp = 865, is_dbcs = False, dec1 = dec1_cp865, lead = [], leadrow = [], dec2 = [],
     rev_map = rev_cp865 \<rparr>"

lemmas at_865 = row_nth [OF dec1_cp865_def]

lemma ascending_865: "ascending (map fst rev_cp865)"
  by (simp add: rev_cp865_def)

lemma entries_865: "list_all (sb_entry dec1_cp865) rev_cp865"
  by (simp add: rev_cp865_def sb_entry_def at_865)

lemma tally_865: "tally (\<lambda>_. True) 0 dec1_cp865 = 256"
  "tally (\<lambda>_. True) 0 rev_cp865 = tally (\<lambda>u. u \<noteq> 65533) 0 dec1_cp865"
  by (simp_all add: dec1_cp865_def rev_cp865_def)

lemma sb_page_865: "sb_page page_865"
  by (simp add: sb_page_def sound_tables_def page_865_def ascending_865 entries_865 tally_865)

lemma ascii_865: "ascii_from 0 (dec1 page_865)"
  by (simp add: page_865_def dec1_cp865_def)

section \<open>Page 866\<close>

definition dec1_cp866 :: "nat list" where
  "dec1_cp866 =
   [0x0000, 0x0001, 0x0002, 0x0003, 0x0004, 0x0005, 0x0006, 0x0007, 0x0008, 0x0009, 0x000A, 0x000B, 0x000C,
    0x000D, 0x000E, 0x000F, 0x0010, 0x0011, 0x0012, 0x0013, 0x0014, 0x0015, 0x0016, 0x0017, 0x0018, 0x0019,
    0x001A, 0x001B, 0x001C, 0x001D, 0x001E, 0x001F] @
   [0x0020, 0x0021, 0x0022, 0x0023, 0x0024, 0x0025, 0x0026, 0x0027, 0x0028, 0x0029, 0x002A, 0x002B, 0x002C,
    0x002D, 0x002E, 0x002F, 0x0030, 0x0031, 0x0032, 0x0033, 0x0034, 0x0035, 0x0036, 0x0037, 0x0038, 0x0039,
    0x003A, 0x003B, 0x003C, 0x003D, 0x003E, 0x003F] @
   [0x0040, 0x0041, 0x0042, 0x0043, 0x0044, 0x0045, 0x0046, 0x0047, 0x0048, 0x0049, 0x004A, 0x004B, 0x004C,
    0x004D, 0x004E, 0x004F, 0x0050, 0x0051, 0x0052, 0x0053, 0x0054, 0x0055, 0x0056, 0x0057, 0x0058, 0x0059,
    0x005A, 0x005B, 0x005C, 0x005D, 0x005E, 0x005F] @
   [0x0060, 0x0061, 0x0062, 0x0063, 0x0064, 0x0065, 0x0066, 0x0067, 0x0068, 0x0069, 0x006A, 0x006B, 0x006C,
    0x006D, 0x006E, 0x006F, 0x0070, 0x0071, 0x0072, 0x0073, 0x0074, 0x0075, 0x0076, 0x0077, 0x0078, 0x0079,
    0x007A, 0x007B, 0x007C, 0x007D, 0x007E, 0x007F] @
   [0x0410, 0x0411, 0x0412, 0x0413, 0x0414, 0x0415, 0x0416, 0x0417, 0x0418, 0x0419, 0x041A, 0x041B, 0x041C,
    0x041D, 0x041E, 0x041F, 0x0420, 0x0421, 0x0422, 0x0423, 0x0424, 0x0425, 0x0426, 0x0427, 0x0428, 0x0429,
    0x042A, 0x042B, 0x042C, 0x042D, 0x042E, 0x042F] @
   [0x0430, 0x0431, 0x0432, 0x0433, 0x0434, 0x0435, 0x0436, 0x0437, 0x0438, 0x0439, 0x043A, 0x043B, 0x043C,
    0x043D, 0x043E, 0x043F, 0x2591, 0x2592, 0x2593, 0x2502, 0x2524, 0x2561, 0x2562, 0x2556, 0x2555, 0x2563,
    0x2551, 0x2557, 0x255D, 0x255C, 0x255B, 0x2510] @
   [0x2514, 0x2534, 0x252C, 0x251C, 0x2500, 0x253C, 0x255E, 0x255F, 0x255A, 0x2554, 0x2569, 0x2566, 0x2560,
    0x2550, 0x256C, 0x2567, 0x2568, 0x2564, 0x2565, 0x2559, 0x2558, 0x2552, 0x2553, 0x256B, 0x256A, 0x2518,
    0x250C, 0x2588, 0x2584, 0x258C, 0x2590, 0x2580] @
   [0x0440, 0x0441, 0x0442, 0x0443, 0x0444, 0x0445, 0x0446, 0x0447, 0x0448, 0x0449, 0x044A, 0x044B, 0x044C,
    0x044D, 0x044E, 0x044F, 0x0401, 0x0451, 0x0404, 0x0454, 0x0407, 0x0457, 0x040E, 0x045E, 0x00B0, 0x2219,
    0x00B7, 0x221A, 0x2116, 0x00A4, 0x25A0, 0x00A0]"

definition rev_cp866 :: "(nat \<times> nat) list" where
  "rev_cp866 =
   [(0x0000, 0x0000), (0x0001, 0x0001), (0x0002, 0x0002), (0x0003, 0x0003), (0x0004, 0x0004), (0x0005, 0x0005),
    (0x0006, 0x0006), (0x0007, 0x0007), (0x0008, 0x0008), (0x0009, 0x0009), (0x000A, 0x000A), (0x000B, 0x000B),
    (0x000C, 0x000C), (0x000D, 0x000D), (0x000E, 0x000E), (0x000F, 0x000F), (0x0010, 0x0010), (0x0011, 0x0011),
    (0x0012, 0x0012), (0x0013, 0x0013), (0x0014, 0x0014), (0x0015, 0x0015), (0x0016, 0x0016), (0x0017, 0x0017),
    (0x0018, 0x0018), (0x0019, 0x0019), (0x001A, 0x001A), (0x001B, 0x001B), (0x001C, 0x001C), (0x001D, 0x001D),
    (0x001E, 0x001E), (0x001F, 0x001F)] @
   [(0x0020, 0x0020), (0x0021, 0x0021), (0x0022, 0x0022), (0x0023, 0x0023), (0x0024, 0x0024), (0x0025, 0x0025),
    (0x0026, 0x0026), (0x0027, 0x0027), (0x0028, 0x0028), (0x0029, 0x0029), (0x002A, 0x002A), (0x002B, 0x002B),
    (0x002C, 0x002C), (0x002D, 0x002D), (0x002E, 0x002E), (0x002F, 0x002F), (0x0030, 0x0030), (0x0031, 0x0031),
    (0x0032, 0x0032), (0x0033, 0x0033), (0x0034, 0x0034), (0x0035, 0x0035), (0x0036, 0x0036), (0x0037, 0x0037),
    (0x0038, 0x0038), (0x0039, 0x0039), (0x003A, 0x003A), (0x003B, 0x003B), (0x003C, 0x003C), (0x003D, 0x003D),
    (0x003E, 0x003E), (0x003F, 0x003F)] @
   [(0x0040, 0x0040), (0x0041, 0x0041), (0x0042, 0x0042), (0x0043, 0x0043), (0x0044, 0x0044), (0x0045, 0x0045),
    (0x0046, 0x0046), (0x0047, 0x0047), (0x0048, 0x0048), (0x0049, 0x0049), (0x004A, 0x004A), (0x004B, 0x004B),
    (0x004C, 0x004C), (0x004D, 0x004D), (0x004E, 0x004E), (0x004F, 0x004F), (0x0050, 0x0050), (0x0051, 0x0051),
    (0x0052, 0x0052), (0x0053, 0x0053), (0x0054, 0x0054), (0x0055, 0x0055), (0x0056, 0x0056), (0x0057, 0x0057),
    (0x0058, 0x0058), (0x0059, 0x0059), (0x005A, 0x005A), (0x005B, 0x005B), (0x005C, 0x005C), (0x005D, 0x005D),
    (0x005E, 0x005E), (0x005F, 0x005F)] @
   [(0x0060, 0x0060), (0x0061, 0x0061), (0x0062, 0x0062), (0x0063, 0x0063), (0x0064, 0x0064), (0x0065, 0x0065),
    (0x0066, 0x0066), (0x0067, 0x0067), (0x0068, 0x0068), (0x0069, 0x0069), (0x006A, 0x006A), (0x006B, 0x006B),
    (0x006C, 0x006C), (0x006D, 0x006D), (0x006E, 0x006E), (0x006F, 0x006F), (0x0070, 0x0070), (0x0071, 0x0071),
    (0x0072, 0x0072), (0x0073, 0x0073), (0x0074, 0x0074), (0x0075, 0x0075), (0x0076, 0x0076), (0x0077, 0x0077),
    (0x0078, 0x0078), (0x0079, 0x0079), (0x007A, 0x007A), (0x007B, 0x007B), (0x007C, 0x007C), (0x007D, 0x007D),
    (0x007E, 0x007E), (0x007F, 0x007F)] @
   [(0x00A0, 0x00FF), (0x00A4, 0x00FD), (0x00B0, 0x00F8), (0x00B7, 0x00FA), (0x0401, 0x00F0), (0x0404, 0x00F2),
    (0x0407, 0x00F4), (0x040E, 0x00F6), (0x0410, 0x0080), (0x0411, 0x0081), (0x0412, 0x0082), (0x0413, 0x0083),
    (0x0414, 0x0084), (0x0415, 0x0085), (0x0416, 0x0086), (0x0417, 0x0087), (0x0418, 0x0088), (0x0419, 0x0089),
    (0x041A, 0x008A), (0x041B, 0x008B), (0x041C, 0x008C), (0x041D, 0x008D), (0x041E, 0x008E), (0x041F, 0x008F),
    (0x0420, 0x0090), (0x0421, 0x0091), (0x0422, 0x0092), (0x0423, 0x0093), (0x0424, 0x0094), (0x0425, 0x0095),
    (0x0426, 0x0096), (0x0427, 0x0097)] @
   [(0x0428, 0x0098), (0x0429, 0x0099), (0x042A, 0x009A), (0x042B, 0x009B), (0x042C, 0x009C), (0x042D, 0x009D),
    (0x042E, 0x009E), (0x042F, 0x009F), (0x0430, 0x00A0), (0x0431, 0x00A1), (0x0432, 0x00A2), (0x0433, 0x00A3),
    (0x0434, 0x00A4), (0x0435, 0x00A5), (0x0436, 0x00A6), (0x0437, 0x00A7), (0x0438, 0x00A8), (0x0439, 0x00A9),
    (0x043A, 0x00AA), (0x043B, 0x00AB), (0x043C, 0x00AC), (0x043D, 0x00AD), (0x043E, 0x00AE), (0x043F, 0x00AF),
    (0x0440, 0x00E0), (0x0441, 0x00E1), (0x0442, 0x00E2), (0x0443, 0x00E3), (0x0444, 0x00E4), (0x0445, 0x00E5),
    (0x0446, 0x00E6), (0x0447, 0x00E7)] @
   [(0x0448, 0x00E8), (0x0449, 0x00E9), (0x044A, 0x00EA), (0x044B, 0x00EB), (0x044C, 0x00EC), (0x044D, 0x00ED),
    (0x044E, 0x00EE), (0x044F, 0x00EF), (0x0451, 0x00F1), (0x0454, 0x00F3), (0x0457, 0x00F5), (0x045E, 0x00F7),
    (0x2116, 0x00FC), (0x2219, 0x00F9), (0x221A, 0x00FB), (0x2500, 0x00C4), (0x2502, 0x00B3), (0x250C, 0x00DA),
    (0x2510, 0x00BF), (0x2514, 0x00C0), (0x2518, 0x00D9), (0x251C, 0x00C3), (0x2524, 0x00B4), (0x252C, 0x00C2),
    (0x2534, 0x00C1), (0x253C, 0x00C5), (0x2550, 0x00CD), (0x2551, 0x00BA), (0x2552, 0x00D5), (0x2553, 0x00D6),
    (0x2554, 0x00C9), (0x2555, 0x00B8)] @
   [(0x2556, 0x00B7), (0x2557, 0x00BB), (0x2558, 0x00D4), (0x2559, 0x00D3), (0x255A, 0x00C8), (0x255B, 0x00BE),
    (0x255C, 0x00BD), (0x255D, 0x00BC), (0x255E, 0x00C6), (0x255F, 0x00C7), (0x2560, 0x00CC), (0x2561, 0x00B5),
    (0x2562, 0x00B6), (0x2563, 0x00B9), (0x2564, 0x00D1), (0x2565, 0x00D2), (0x2566, 0x00CB), (0x2567, 0x00CF),
    (0x2568, 0x00D0), (0x2569, 0x00CA), (0x256A, 0x00D8), (0x256B, 0x00D7), (0x256C, 0x00CE), (0x2580, 0x00DF),
    (0x2584, 0x00DC), (0x2588, 0x00DB), (0x258C, 0x00DD), (0x2590, 0x00DE), (0x2591, 0x00B0), (0x2592, 0x00B1),
    (0x2593, 0x00B2), (0x25A0, 0x00FE)]"

definition page_866 :: CpPage where
  "page_866 = \<lparr> cp = 866, is_dbcs = False, dec1 = dec1_cp866, lead = [], leadrow = [], dec2 = [],
     rev_map = rev_cp866 \<rparr>"

lemmas at_866 = row_nth [OF dec1_cp866_def]

lemma ascending_866: "ascending (map fst rev_cp866)"
  by (simp add: rev_cp866_def)

lemma entries_866: "list_all (sb_entry dec1_cp866) rev_cp866"
  by (simp add: rev_cp866_def sb_entry_def at_866)

lemma tally_866: "tally (\<lambda>_. True) 0 dec1_cp866 = 256"
  "tally (\<lambda>_. True) 0 rev_cp866 = tally (\<lambda>u. u \<noteq> 65533) 0 dec1_cp866"
  by (simp_all add: dec1_cp866_def rev_cp866_def)

lemma sb_page_866: "sb_page page_866"
  by (simp add: sb_page_def sound_tables_def page_866_def ascending_866 entries_866 tally_866)

lemma ascii_866: "ascii_from 0 (dec1 page_866)"
  by (simp add: page_866_def dec1_cp866_def)

section \<open>Page 869\<close>

definition dec1_cp869 :: "nat list" where
  "dec1_cp869 =
   [0x0000, 0x0001, 0x0002, 0x0003, 0x0004, 0x0005, 0x0006, 0x0007, 0x0008, 0x0009, 0x000A, 0x000B, 0x000C,
    0x000D, 0x000E, 0x000F, 0x0010, 0x0011, 0x0012, 0x0013, 0x0014, 0x0015, 0x0016, 0x0017, 0x0018, 0x0019,
    0x001A, 0x001B, 0x001C, 0x001D, 0x001E, 0x001F] @
   [0x0020, 0x0021, 0x0022, 0x0023, 0x0024, 0x0025, 0x0026, 0x0027, 0x0028, 0x0029, 0x002A, 0x002B, 0x002C,
    0x002D, 0x002E, 0x002F, 0x0030, 0x0031, 0x0032, 0x0033, 0x0034, 0x0035, 0x0036, 0x0037, 0x0038, 0x0039,
    0x003A, 0x003B, 0x003C, 0x003D, 0x003E, 0x003F] @
   [0x0040, 0x0041, 0x0042, 0x0043, 0x0044, 0x0045, 0x0046, 0x0047, 0x0048, 0x0049, 0x004A, 0x004B, 0x004C,
    0x004D, 0x004E, 0x004F, 0x0050, 0x0051, 0x0052, 0x0053, 0x0054, 0x0055, 0x0056, 0x0057, 0x0058, 0x0059,
    0x005A, 0x005B, 0x005C, 0x005D, 0x005E, 0x005F] @
   [0x0060, 0x0061, 0x0062, 0x0063, 0x0064, 0x0065, 0x0066, 0x0067, 0x0068, 0x0069, 0x006A, 0x006B, 0x006C,
    0x006D, 0x006E, 0x006F, 0x0070, 0x0071, 0x0072, 0x0073, 0x0074, 0x0075, 0x0076, 0x0077, 0x0078, 0x0079,
    0x007A, 0x007B, 0x007C, 0x007D, 0x007E, 0x007F] @
   [0xFFFD, 0xFFFD, 0xFFFD, 0xFFFD, 0xFFFD, 0xFFFD, 0x0386, 0xFFFD, 0x00B7, 0x00AC, 0x00A6, 0x2018, 0x2019,
    0x0388, 0x2015, 0x0389, 0x038A, 0x03AA, 0x038C, 0xFFFD, 0xFFFD, 0x038E, 0x03AB, 0x00A9, 0x038F, 0x00B2,
    0x00B3, 0x03AC, 0x00A3, 0x03AD, 0x03AE, 0x03AF] @
   [0x03CA, 0x0390, 0x03CC, 0x03CD, 0x0391, 0x0392, 0x0393, 0x0394, 0x0395, 0x0396, 0x0397, 0x00BD, 0x0398,
    0x0399, 0x00AB, 0x00BB, 0x2591, 0x2592, 0x2593, 0x2502, 0x2524, 0x039A, 0x039B, 0x039C, 0x039D, 0x2563,
    0x2551, 0x2557, 0x255D, 0x039E, 0x039F, 0x2510] @
   [0x2514, 0x2534, 0x252C, 0x251C, 0x2500, 0x253C, 0x03A0, 0x03A1, 0x255A, 0x2554, 0x2569, 0x2566, 0x2560,
    0x2550, 0x256C, 0x03A3, 0x03A4, 0x03A5, 0x03A6, 0x03A7, 0x03A8, 0x03A9, 0x03B1, 0x03B2, 0x03B3, 0x2518,
    0x250C, 0x2588, 0x2584, 0x03B4, 0x03B5, 0x2580] @
   [0x03B6, 0x03B7, 0x03B8, 0x03B9, 0x03BA, 0x03BB, 0x03BC, 0x03BD, 0x03BE, 0x03BF, 0x03C0, 0x03C1, 0x03C3,
    0x03C2, 0x03C4, 0x0384, 0x00AD, 0x00B1, 0x03C5, 0x03C6, 0x03C7, 0x00A7, 0x03C8, 0x0385, 0x00B0, 0x00A8,
    0x03C9, 0x03CB, 0x03B0, 0x03CE, 0x25A0, 0x00A0]"

definition rev_cp869 :: "(nat \<times> nat) list" where
  "rev_cp869 =
   [(0x0000, 0x0000), (0x0001, 0x0001), (0x0002, 0x0002), (0x0003, 0x0003), (0x0004, 0x0004), (0x0005, 0x0005),
    (0x0006, 0x0006), (0x0007, 0x0007), (0x0008, 0x0008), (0x0009, 0x0009), (0x000A, 0x000A), (0x000B, 0x000B),
    (0x000C, 0x000C), (0x000D, 0x000D), (0x000E, 0x000E), (0x000F, 0x000F), (0x0010, 0x0010), (0x0011, 0x0011),
    (0x0012, 0x0012), (0x0013, 0x0013), (0x0014, 0x0014), (0x0015, 0x0015), (0x0016, 0x0016), (0x0017, 0x0017),
    (0x0018, 0x0018), (0x0019, 0x0019), (0x001A, 0x001A), (0x001B, 0x001B), (0x001C, 0x001C), (0x001D, 0x001D),
    (0x001E, 0x001E), (0x001F, 0x001F)] @
   [(0x0020, 0x0020), (0x0021, 0x0021), (0x0022, 0x0022), (0x0023, 0x0023), (0x0024, 0x0024), (0x0025, 0x0025),
    (0x0026, 0x0026), (0x0027, 0x0027), (0x0028, 0x0028), (0x0029, 0x0029), (0x002A, 0x002A), (0x002B, 0x002B),
    (0x002C, 0x002C), (0x002D, 0x002D), (0x002E, 0x002E), (0x002F, 0x002F), (0x0030, 0x0030), (0x0031, 0x0031),
    (0x0032, 0x0032), (0x0033, 0x0033), (0x0034, 0x0034), (0x0035, 0x0035), (0x0036, 0x0036), (0x0037, 0x0037),
    (0x0038, 0x0038), (0x0039, 0x0039), (0x003A, 0x003A), (0x003B, 0x003B), (0x003C, 0x003C), (0x003D, 0x003D),
    (0x003E, 0x003E), (0x003F, 0x003F)] @
   [(0x0040, 0x0040), (0x0041, 0x0041), (0x0042, 0x0042), (0x0043, 0x0043), (0x0044, 0x0044), (0x0045, 0x0045),
    (0x0046, 0x0046), (0x0047, 0x0047), (0x0048, 0x0048), (0x0049, 0x0049), (0x004A, 0x004A), (0x004B, 0x004B),
    (0x004C, 0x004C), (0x004D, 0x004D), (0x004E, 0x004E), (0x004F, 0x004F), (0x0050, 0x0050), (0x0051, 0x0051),
    (0x0052, 0x0052), (0x0053, 0x0053), (0x0054, 0x0054), (0x0055, 0x0055), (0x0056, 0x0056), (0x0057, 0x0057),
    (0x0058, 0x0058), (0x0059, 0x0059), (0x005A, 0x005A), (0x005B, 0x005B), (0x005C, 0x005C), (0x005D, 0x005D),
    (0x005E, 0x005E), (0x005F, 0x005F)] @
   [(0x0060, 0x0060), (0x0061, 0x0061), (0x0062, 0x0062), (0x0063, 0x0063), (0x0064, 0x0064), (0x0065, 0x0065),
    (0x0066, 0x0066), (0x0067, 0x0067), (0x0068, 0x0068), (0x0069, 0x0069), (0x006A, 0x006A), (0x006B, 0x006B),
    (0x006C, 0x006C), (0x006D, 0x006D), (0x006E, 0x006E), (0x006F, 0x006F), (0x0070, 0x0070), (0x0071, 0x0071),
    (0x0072, 0x0072), (0x0073, 0x0073), (0x0074, 0x0074), (0x0075, 0x0075), (0x0076, 0x0076), (0x0077, 0x0077),
    (0x0078, 0x0078), (0x0079, 0x0079), (0x007A, 0x007A), (0x007B, 0x007B), (0x007C, 0x007C), (0x007D, 0x007D),
    (0x007E, 0x007E), (0x007F, 0x007F)] @
   [(0x00A0, 0x00FF), (0x00A3, 0x009C), (0x00A6, 0x008A), (0x00A7, 0x00F5), (0x00A8, 0x00F9), (0x00A9, 0x0097),
    (0x00AB, 0x00AE), (0x00AC, 0x0089), (0x00AD, 0x00F0), (0x00B0, 0x00F8), (0x00B1, 0x00F1), (0x00B2, 0x0099),
    (0x00B3, 0x009A), (0x00B7, 0x0088), (0x00BB, 0x00AF), (0x00BD, 0x00AB), (0x0384, 0x00EF), (0x0385, 0x00F7),
    (0x0386, 0x0086), (0x0388, 0x008D), (0x0389, 0x008F), (0x038A, 0x0090), (0x038C, 0x0092), (0x038E, 0x0095),
    (0x038F, 0x0098), (0x0390, 0x00A1), (0x0391, 0x00A4), (0x0392, 0x00A5), (0x0393, 0x00A6), (0x0394, 0x00A7),
    (0x0395, 0x00A8), (0x0396, 0x00A9)] @
   [(0x0397, 0x00AA), (0x0398, 0x00AC), (0x0399, 0x00AD), (0x039A, 0x00B5), (0x039B, 0x00B6), (0x039C, 0x00B7),
    (0x039D, 0x00B8), (0x039E, 0x00BD), (0x039F, 0x00BE), (0x03A0, 0x00C6), (0x03A1, 0x00C7), (0x03A3, 0x00CF),
    (0x03A4, 0x00D0), (0x03A5, 0x00D1), (0x03A6, 0x00D2), (0x03A7, 0x00D3), (0x03A8, 0x00D4), (0x03A9, 0x00D5),
    (0x03AA, 0x0091), (0x03AB, 0x0096), (0x03AC, 0x009B), (0x03AD, 0x009D), (0x03AE, 0x009E), (0x03AF, 0x009F),
    (0x03B0, 0x00FC), (0x03B1, 0x00D6), (0x03B2, 0x00D7), (0x03B3, 0x00D8), (0x03B4, 0x00DD), (0x03B5, 0x00DE),
    (0x03B6, 0x00E0), (0x03B7, 0x00E1)] @
   [(0x03B8, 0x00E2), (0x03B9, 0x00E3), (0x03BA, 0x00E4), (0x03BB, 0x00E5), (0x03BC, 0x00E6), (0x03BD, 0x00E7),
    (0x03BE, 0x00E8), (0x03BF, 0x00E9), (0x03C0, 0x00EA), (0x03C1, 0x00EB), (0x03C2, 0x00ED), (0x03C3, 0x00EC),
    (0x03C4, 0x00EE), (0x03C5, 0x00F2), (0x03C6, 0x00F3), (0x03C7, 0x00F4), (0x03C8, 0x00F6), (0x03C9, 0x00FA),
    (0x03CA, 0x00A0), (0x03CB, 0x00FB), (0x03CC, 0x00A2), (0x03CD, 0x00A3), (0x03CE, 0x00FD), (0x2015, 0x008E),
    (0x2018, 0x008B), (0x2019, 0x008C), (0x2500, 0x00C4), (0x2502, 0x00B3), (0x250C, 0x00DA), (0x2510, 0x00BF),
    (0x2514, 0x00C0), (0x2518, 0x00D9)] @
   [(0x251C, 0x00C3), (0x2524, 0x00B4), (0x252C, 0x00C2), (0x2534, 0x00C1), (0x253C, 0x00C5), (0x2550, 0x00CD),
    (0x2551, 0x00BA), (0x2554, 0x00C9), (0x2557, 0x00BB), (0x255A, 0x00C8), (0x255D, 0x00BC), (0x2560, 0x00CC),
    (0x2563, 0x00B9), (0x2566, 0x00CB), (0x2569, 0x00CA), (0x256C, 0x00CE), (0x2580, 0x00DF), (0x2584, 0x00DC),
    (0x2588, 0x00DB), (0x2591, 0x00B0), (0x2592, 0x00B1), (0x2593, 0x00B2), (0x25A0, 0x00FE)]"

definition page_869 :: CpPage where
  "page_869 = \<lparr> cp = 869, is_dbcs = False, dec1 = dec1_cp869, lead = [], leadrow = [], dec2 = [],
     rev_map = rev_cp869 \<rparr>"

lemmas at_869 = row_nth [OF dec1_cp869_def]

lemma ascending_869: "ascending (map fst rev_cp869)"
  by (simp add: rev_cp869_def)

lemma entries_869: "list_all (sb_entry dec1_cp869) rev_cp869"
  by (simp add: rev_cp869_def sb_entry_def at_869)

lemma tally_869: "tally (\<lambda>_. True) 0 dec1_cp869 = 256"
  "tally (\<lambda>_. True) 0 rev_cp869 = tally (\<lambda>u. u \<noteq> 65533) 0 dec1_cp869"
  by (simp_all add: dec1_cp869_def rev_cp869_def)

lemma sb_page_869: "sb_page page_869"
  by (simp add: sb_page_def sound_tables_def page_869_def ascending_869 entries_869 tally_869)

lemma ascii_869: "ascii_from 0 (dec1 page_869)"
  by (simp add: page_869_def dec1_cp869_def)

section \<open>Page 858\<close>

definition dec1_cp858 :: "nat list" where
  "dec1_cp858 =
   [0x0000, 0x0001, 0x0002, 0x0003, 0x0004, 0x0005, 0x0006, 0x0007, 0x0008, 0x0009, 0x000A, 0x000B, 0x000C,
    0x000D, 0x000E, 0x000F, 0x0010, 0x0011, 0x0012, 0x0013, 0x0014, 0x0015, 0x0016, 0x0017, 0x0018, 0x0019,
    0x001A, 0x001B, 0x001C, 0x001D, 0x001E, 0x001F] @
   [0x0020, 0x0021, 0x0022, 0x0023, 0x0024, 0x0025, 0x0026, 0x0027, 0x0028, 0x0029, 0x002A, 0x002B, 0x002C,
    0x002D, 0x002E, 0x002F, 0x0030, 0x0031, 0x0032, 0x0033, 0x0034, 0x0035, 0x0036, 0x0037, 0x0038, 0x0039,
    0x003A, 0x003B, 0x003C, 0x003D, 0x003E, 0x003F] @
   [0x0040, 0x0041, 0x0042, 0x0043, 0x0044, 0x0045, 0x0046, 0x0047, 0x0048, 0x0049, 0x004A, 0x004B, 0x004C,
    0x004D, 0x004E, 0x004F, 0x0050, 0x0051, 0x0052, 0x0053, 0x0054, 0x0055, 0x0056, 0x0057, 0x0058, 0x0059,
    0x005A, 0x005B, 0x005C, 0x005D, 0x005E, 0x005F] @
   [0x0060, 0x0061, 0x0062, 0x0063, 0x0064, 0x0065, 0x0066, 0x0067, 0x0068, 0x0069, 0x006A, 0x006B, 0x006C,
    0x006D, 0x006E, 0x006F, 0x0070, 0x0071, 0x0072, 0x0073, 0x0074, 0x0075, 0x0076, 0x0077, 0x0078, 0x0079,
    0x007A, 0x007B, 0x007C, 0x007D, 0x007E, 0x007F] @
   [0x00C7, 0x00FC, 0x00E9, 0x00E2, 0x00E4, 0x00E0, 0x00E5, 0x00E7, 0x00EA, 0x00EB, 0x00E8, 0x00EF, 0x00EE,
    0x00EC, 0x00C4, 0x00C5, 0x00C9, 0x00E6, 0x00C6, 0x00F4, 0x00F6, 0x00F2, 0x00FB, 0x00F9, 0x00FF, 0x00D6,
    0x00DC, 0x00F8, 0x00A3, 0x00D8, 0x00D7, 0x0192] @
   [0x00E1, 0x00ED, 0x00F3, 0x00FA, 0x00F1, 0x00D1, 0x00AA, 0x00BA, 0x00BF, 0x00AE, 0x00AC, 0x00BD, 0x00BC,
    0x00A1, 0x00AB, 0x00BB, 0x2591, 0x2592, 0x2593, 0x2502, 0x2524, 0x00C1, 0x00C2, 0x00C0, 0x00A9, 0x2563,
    0x2551, 0x2557, 0x255D, 0x00A2, 0x00A5, 0x2510] @
   [0x2514, 0x2534, 0x252C, 0x251C, 0x2500, 0x253C, 0x00E3, 0x00C3, 0x255A, 0x2554, 0x2569, 0x2566, 0x2560,
    0x2550, 0x256C, 0x00A4, 0x00F0, 0x00D0, 0x00CA, 0x00CB, 0x00C8, 0x20AC, 0x00CD, 0x00CE, 0x00CF, 0x2518,
    0x250C, 0x2588, 0x2584, 0x00A6, 0x00CC, 0x2580] @
   [0x00D3, 0x00DF, 0x00D4, 0x00D2, 0x00F5, 0x00D5, 0x00B5, 0x00FE, 0x00DE, 0x00DA, 0x00DB, 0x00D9, 0x00FD,
    0x00DD, 0x00AF, 0x00B4, 0x00AD, 0x00B1, 0x2017, 0x00BE, 0x00B6, 0x00A7, 0x00F7, 0x00B8, 0x00B0, 0x00A8,
    0x00B7, 0x00B9, 0x00B3, 0x00B2, 0x25A0, 0x00A0]"

definition rev_cp858 :: "(nat \<times> nat) list" where
  "rev_cp858 =
   [(0x0000, 0x0000), (0x0001, 0x0001), (0x0002, 0x0002), (0x0003, 0x0003), (0x0004, 0x0004), (0x0005, 0x0005),
    (0x0006, 0x0006), (0x0007, 0x0007), (0x0008, 0x0008), (0x0009, 0x0009), (0x000A, 0x000A), (0x000B, 0x000B),
    (0x000C, 0x000C), (0x000D, 0x000D), (0x000E, 0x000E), (0x000F, 0x000F), (0x0010, 0x0010), (0x0011, 0x0011),
    (0x0012, 0x0012), (0x0013, 0x0013), (0x0014, 0x0014), (0x0015, 0x0015), (0x0016, 0x0016), (0x0017, 0x0017),
    (0x0018, 0x0018), (0x0019, 0x0019), (0x001A, 0x001A), (0x001B, 0x001B), (0x001C, 0x001C), (0x001D, 0x001D),
    (0x001E, 0x001E), (0x001F, 0x001F)] @
   [(0x0020, 0x0020), (0x0021, 0x0021), (0x0022, 0x0022), (0x0023, 0x0023), (0x0024, 0x0024), (0x0025, 0x0025),
    (0x0026, 0x0026), (0x0027, 0x0027), (0x0028, 0x0028), (0x0029, 0x0029), (0x002A, 0x002A), (0x002B, 0x002B),
    (0x002C, 0x002C), (0x002D, 0x002D), (0x002E, 0x002E), (0x002F, 0x002F), (0x0030, 0x0030), (0x0031, 0x0031),
    (0x0032, 0x0032), (0x0033, 0x0033), (0x0034, 0x0034), (0x0035, 0x0035), (0x0036, 0x0036), (0x0037, 0x0037),
    (0x0038, 0x0038), (0x0039, 0x0039), (0x003A, 0x003A), (0x003B, 0x003B), (0x003C, 0x003C), (0x003D, 0x003D),
    (0x003E, 0x003E), (0x003F, 0x003F)] @
   [(0x0040, 0x0040), (0x0041, 0x0041), (0x0042, 0x0042), (0x0043, 0x0043), (0x0044, 0x0044), (0x0045, 0x0045),
    (0x0046, 0x0046), (0x0047, 0x0047), (0x0048, 0x0048), (0x0049, 0x0049), (0x004A, 0x004A), (0x004B, 0x004B),
    (0x004C, 0x004C), (0x004D, 0x004D), (0x004E, 0x004E), (0x004F, 0x004F), (0x0050, 0x0050), (0x0051, 0x0051),
    (0x0052, 0x0052), (0x0053, 0x0053), (0x0054, 0x0054), (0x0055, 0x0055), (0x0056, 0x0056), (0x0057, 0x0057),
    (0x0058, 0x0058), (0x0059, 0x0059), (0x005A, 0x005A), (0x005B, 0x005B), (0x005C, 0x005C), (0x005D, 0x005D),
    (0x005E, 0x005E), (0x005F, 0x005F)] @
   [(0x0060, 0x0060), (0x0061, 0x0061), (0x0062, 0x0062), (0x0063, 0x0063), (0x0064, 0x0064), (0x0065, 0x0065),
    (0x0066, 0x0066), (0x0067, 0x0067), (0x0068, 0x0068), (0x0069, 0x0069), (0x006A, 0x006A), (0x006B, 0x006B),
    (0x006C, 0x006C), (0x006D, 0x006D), (0x006E, 0x006E), (0x006F, 0x006F), (0x0070, 0x0070), (0x0071, 0x0071),
    (0x0072, 0x0072), (0x0073, 0x0073), (0x0074, 0x0074), (0x0075, 0x0075), (0x0076, 0x0076), (0x0077, 0x0077),
    (0x0078, 0x0078), (0x0079, 0x0079), (0x007A, 0x007A), (0x007B, 0x007B), (0x007C, 0x007C), (0x007D, 0x007D),
    (0x007E, 0x007E), (0x007F, 0x007F)] @
   [(0x00A0, 0x00FF), (0x00A1, 0x00AD), (0x00A2, 0x00BD), (0x00A3, 0x009C), (0x00A4, 0x00CF), (0x00A5, 0x00BE),
    (0x00A6, 0x00DD), (0x00A7, 0x00F5), (0x00A8, 0x00F9), (0x00A9, 0x00B8), (0x00AA, 0x00A6), (0x00AB, 0x00AE),
    (0x00AC, 0x00AA), (0x00AD, 0x00F0), (0x00AE, 0x00A9), (0x00AF, 0x00EE), (0x00B0, 0x00F8), (0x00B1, 0x00F1),
    (0x00B2, 0x00FD), (0x00B3, 0x00FC), (0x00B4, 0x00EF), (0x00B5, 0x00E6), (0x00B6, 0x00F4), (0x00B7, 0x00FA),
    (0x00B8, 0x00F7), (0x00B9, 0x00FB), (0x00BA, 0x00A7), (0x00BB, 0x00AF), (0x00BC, 0x00AC), (0x00BD, 0x00AB),
    (0x00BE, 0x00F3), (0x00BF, 0x00A8)] @
   [(0x00C0, 0x00B7), (0x00C1, 0x00B5), (0x00C2, 0x00B6), (0x00C3, 0x00C7), (0x00C4, 0x008E), (0x00C5, 0x008F),
    (0x00C6, 0x0092), (0x00C7, 0x0080), (0x00C8, 0x00D4), (0x00C9, 0x0090), (0x00CA, 0x00D2), (0x00CB, 0x00D3),
    (0x00CC, 0x00DE), (0x00CD, 0x00D6), (0x00CE, 0x00D7), (0x00CF, 0x00D8), (0x00D0, 0x00D1), (0x00D1, 0x00A5),
    (0x00D2, 0x00E3), (0x00D3, 0x00E0), (0x00D4, 0x00E2), (0x00D5, 0x00E5), (0x00D6, 0x0099), (0x00D7, 0x009E),
    (0x00D8, 0x009D), (0x00D9, 0x00EB), (0x00DA, 0x00E9), (0x00DB, 0x00EA), (0x00DC, 0x009A), (0x00DD, 0x00ED),
    (0x00DE, 0x00E8), (0x00DF, 0x00E1)] @
   [(0x00E0, 0x0085), (0x00E1, 0x00A0), (0x00E2, 0x0083), (0x00E3, 0x00C6), (0x00E4, 0x0084), (0x00E5, 0x0086),
    (0x00E6, 0x0091), (0x00E7, 0x0087), (0x00E8, 0x008A), (0x00E9, 0x0082), (0x00EA, 0x0088), (0x00EB, 0x0089),
    (0x00EC, 0x008D), (0x00ED, 0x00A1), (0x00EE, 0x008C), (0x00EF, 0x008B), (0x00F0, 0x00D0), (0x00F1, 0x00A4),
    (0x00F2, 0x0095), (0x00F3, 0x00A2), (0x00F4, 0x0093), (0x00F5, 0x00E4), (0x00F6, 0x0094), (0x00F7, 0x00F6),
    (0x00F8, 0x009B), (0x00F9, 0x0097), (0x00FA, 0x00A3), (0x00FB, 0x0096), (0x00FC, 0x0081), (0x00FD, 0x00EC),
    (0x00FE, 0x00E7), (0x00FF, 0x0098)] @
   [(0x0192, 0x009F), (0x2017, 0x00F2), (0x20AC, 0x00D5), (0x2500, 0x00C4), (0x2502, 0x00B3), (0x250C, 0x00DA),
    (0x2510, 0x00BF), (0x2514, 0x00C0), (0x2518, 0x00D9), (0x251C, 0x00C3), (0x2524, 0x00B4), (0x252C, 0x00C2),
    (0x2534, 0x00C1), (0x253C, 0x00C5), (0x2550, 0x00CD), (0x2551, 0x00BA), (0x2554, 0x00C9), (0x2557, 0x00BB),
    (0x255A, 0x00C8), (0x255D, 0x00BC), (0x2560, 0x00CC), (0x2563, 0x00B9), (0x2566, 0x00CB), (0x2569, 0x00CA),
    (0x256C, 0x00CE), (0x2580, 0x00DF), (0x2584, 0x00DC), (0x2588, 0x00DB), (0x2591, 0x00B0), (0x2592, 0x00B1),
    (0x2593, 0x00B2), (0x25A0, 0x00FE)]"

definition page_858 :: CpPage where
  "page_858 = \<lparr> cp = 858, is_dbcs = False, dec1 = dec1_cp858, lead = [], leadrow = [], dec2 = [],
     rev_map = rev_cp858 \<rparr>"

lemmas at_858 = row_nth [OF dec1_cp858_def]

lemma ascending_858: "ascending (map fst rev_cp858)"
  by (simp add: rev_cp858_def)

lemma entries_858: "list_all (sb_entry dec1_cp858) rev_cp858"
  by (simp add: rev_cp858_def sb_entry_def at_858)

lemma tally_858: "tally (\<lambda>_. True) 0 dec1_cp858 = 256"
  "tally (\<lambda>_. True) 0 rev_cp858 = tally (\<lambda>u. u \<noteq> 65533) 0 dec1_cp858"
  by (simp_all add: dec1_cp858_def rev_cp858_def)

lemma sb_page_858: "sb_page page_858"
  by (simp add: sb_page_def sound_tables_def page_858_def ascending_858 entries_858 tally_858)

lemma ascii_858: "ascii_from 0 (dec1 page_858)"
  by (simp add: page_858_def dec1_cp858_def)

text \<open>Page 864 has the Arabic percent sign where ASCII has its own, which it lacks.\<close>

lemma percent_864: "dec1 page_864 ! 37 = 1642" "list_all (\<lambda>(cu, mb). cu \<noteq> 37) (rev_map page_864)"
  by (simp_all add: page_864_def rev_cp864_def at_864)

end
