(* ===== verification/DbPage.thy ===== *)
theory DbPage
  imports SbPage
begin

text \<open>
  What the tables of a page with double bytes must satisfy for encoding to be the inverse of
  decoding, as one pass over the reverse table that looks each entry up in the table of its
  lead byte; and the facts that a literal row of 256 numbers gives.
\<close>

section \<open>The pass over the reverse table\<close>

text \<open>
  The rows of the lead bytes and the units of the single bytes are functions here.  An entry
  is what its bytes decode to; the units ascend from the one before.
\<close>

definition looked_up :: "(nat \<Rightarrow> nat list option) \<Rightarrow> (nat \<Rightarrow> nat option) \<Rightarrow> nat \<Rightarrow> nat \<Rightarrow> bool" where
  "looked_up trails single cu mb =
     (case trails (drop_bit 8 mb) of Some row \<Rightarrow> row ! take_bit 8 mb = cu | None \<Rightarrow> single mb = Some cu)"

fun scan_rev ::
    "(nat \<Rightarrow> nat list option) \<Rightarrow> (nat \<Rightarrow> nat option) \<Rightarrow> int \<Rightarrow> (nat \<times> nat) list \<Rightarrow> int \<Rightarrow> bool" where
  "scan_rev trails single lo [] hi = (lo = hi)"
| "scan_rev trails single lo ((cu, mb) # es) hi =
     (lo < int cu \<and> looked_up trails single cu mb \<and> scan_rev trails single (int cu) es hi)"

lemma scan_append:
  "scan_rev t s lo xs mid \<Longrightarrow> scan_rev t s mid ys hi \<Longrightarrow> scan_rev t s lo (xs @ ys) hi"
  by (induction t s lo xs mid rule: scan_rev.induct) auto

lemma scan_rev_sound:
  "scan_rev t s lo es hi \<Longrightarrow>
     ascending (map fst es) \<and> (\<forall>(cu, mb) \<in> set es. lo < int cu \<and> int cu \<le> hi \<and> looked_up t s cu mb) \<and> lo \<le> hi"
proof (induction t s lo es hi rule: scan_rev.induct)
  case (2 t s lo cu mb es hi)
  then have "ascending (map fst es)" "\<forall>(c, m) \<in> set es. cu < c \<and> int c \<le> hi \<and> looked_up t s c m"
    "int cu \<le> hi" "lo < int cu" "looked_up t s cu mb"
    by auto
  moreover have "ascending (cu # map fst es)" using calculation(1,2) by (cases es) auto
  ultimately show ?case by auto
qed simp

section \<open>Sound pages\<close>

text \<open>
  The table of the trail bytes as its rows, and the two lookups that the lead bytes and the
  order of the rows give.
\<close>

definition trail_row :: "nat list \<Rightarrow> int list \<Rightarrow> nat list list \<Rightarrow> nat \<Rightarrow> nat list option" where
  "trail_row leads order rows l = (if l < 256 \<and> leads ! l = 1 then Some (rows ! nat (order ! l)) else None)"

definition single_unit :: "nat list \<Rightarrow> nat list \<Rightarrow> nat \<Rightarrow> nat option" where
  "single_unit leads d b = (if b < 256 \<and> leads ! b = 0 then Some (d ! b) else None)"

text \<open>A page of double bytes from its transcribed tables; a byte that leads nothing has no row.\<close>

definition db_page :: "int \<Rightarrow> nat list \<Rightarrow> nat list \<Rightarrow> int list \<Rightarrow> nat list list \<Rightarrow> (nat \<times> nat) list \<Rightarrow> CpPage" where
  "db_page n d leads order rows r =
     \<lparr>cp = n, is_dbcs = True, dec1 = d, lead = map (\<lambda>x. x \<noteq> 0) leads, leadrow = map nat order, dec2 = concat rows,
      rev_map = r\<rparr>"

lemma concat_rows:
  "\<forall>row \<in> set rows. length row = 256 \<Longrightarrow> k < length rows \<Longrightarrow> t < 256 \<Longrightarrow> concat rows ! (k * 256 + t) = rows ! k ! t"
proof (induction rows arbitrary: k)
  case (Cons row rows)
  then show ?case by (cases k) (auto simp: nth_append)
qed simp

lemma db_page_ok:
  assumes "length leads = 256" "length order = 256" "leads ! 0 = 0" "length d = 256"
    and rows: "list_all (\<lambda>row. length row = 256) rows" "tally (\<lambda>_. True) 0 rows = n"
      "list_all (\<lambda>(x, k). x = 1 \<longrightarrow> k < n) (zip leads order)" "0 < n"
      "list_all (\<lambda>x. x = 0 \<or> x = 1) leads"
    and scan: "scan_rev (trail_row leads order rows) (single_unit leads d) (- 1) r hi" "hi < 65533"
  shows "page_ok (db_page c d leads order rows r)" (is ?ok)
    and "reads_inside (db_page c d leads order rows r) b t" (is ?inside)
proof -
  let ?p = "db_page c d leads order rows r"
  note s = scan_rev_sound [OF scan(1)]
  have len: "\<forall>row \<in> set rows. length row = 256" using rows(1) by (simp add: list_all_iff)
  have inside: "nat (order ! l) < length rows" if "l < 256" "leads ! l = 1" for l
  proof -
    have "(leads ! l, order ! l) \<in> set (zip leads order)"
      using that(1) assms(1,2) by (auto simp: set_zip intro!: exI [of _ l])
    then have "order ! l < n" using rows(3) that(2) by (auto simp: list_all_iff)
    then show ?thesis using rows(2,4) by (simp add: tally_filter nat_less_iff)
  qed
  have "entry_ok ?p (cu, mb)" if "(cu, mb) \<in> set r" for cu mb
  proof -
    have cu: "cu < 65533" and l: "looked_up (trail_row leads order rows) (single_unit leads d) cu mb"
      using s that scan(2) by auto
    let ?l = "mb div 256" and ?t = "mb mod 256"
    show ?thesis
    proof (cases "trail_row leads order rows ?l")
      case None
      then have "mb < 256" "leads ! mb = 0" "d ! mb = cu"
        using l by (auto simp: looked_up_def single_unit_def drop_bit_eq_div split: if_splits)
      then show ?thesis using cu assms(1) by (simp add: entry_ok_def db_page_def CP_REPLACEMENT_def)
    next
      case (Some row)
      then have r: "?l < 256" "leads ! ?l = 1" "row = rows ! nat (order ! ?l)"
        by (auto simp: trail_row_def split: if_splits)
      then have "row ! ?t = cu" using l Some by (simp add: looked_up_def drop_bit_eq_div take_bit_eq_mod)
      moreover have "\<not> mb \<le> 255" using r(2) assms(3) by (cases "mb \<le> 255") auto
      moreover have "mb < 65536" using r(1) by simp
      ultimately show ?thesis
        using cu r inside assms(1,2) concat_rows [OF len, of "nat (order ! ?l)" ?t]
        by (simp add: entry_ok_def db_page_def CP_REPLACEMENT_def)
    qed
  qed
  then show ?ok using s by (auto simp: page_ok_def list_all_iff db_page_def)
  have all: "length (concat rows) = 256 * length rows" using len by (induction rows) auto
  have "leads ! unat b = 1 \<Longrightarrow> nat (order ! unat b) < length rows" using inside byte_small [of b] by blast
  moreover have "k * 256 + unat t < 256 * m" if "k < m" for k m
    using mult_le_mono2 [of "Suc k" m 256] that byte_small [of t] by simp
  moreover have "leads ! unat b = 0 \<or> leads ! unat b = 1"
    using rows(5) assms(1) byte_small [of b] by (simp add: list_all_length)
  ultimately show ?inside
    using byte_small [of b] assms(1,2,4) by (auto simp: reads_inside_def db_page_def all)
qed

section \<open>Looking up a code in a literal row\<close>

text \<open>
  A code of two bytes as a binary literal is its trail byte, four bits and four bits, below the
  literal of its lead byte; so what the row of a lead byte gives at each of its codes is a fact
  about literals, stated once for every literal row.  A code of one byte is looked up directly.
\<close>

abbreviation (input) h0 :: "num \<Rightarrow> num" where
  "h0 m \<equiv> num.Bit0 (num.Bit0 (num.Bit0 (num.Bit0 m)))"

abbreviation (input) h1 :: "num \<Rightarrow> num" where
  "h1 m \<equiv> num.Bit1 (num.Bit0 (num.Bit0 (num.Bit0 m)))"

abbreviation (input) h2 :: "num \<Rightarrow> num" where
  "h2 m \<equiv> num.Bit0 (num.Bit1 (num.Bit0 (num.Bit0 m)))"

abbreviation (input) h3 :: "num \<Rightarrow> num" where
  "h3 m \<equiv> num.Bit1 (num.Bit1 (num.Bit0 (num.Bit0 m)))"

abbreviation (input) h4 :: "num \<Rightarrow> num" where
  "h4 m \<equiv> num.Bit0 (num.Bit0 (num.Bit1 (num.Bit0 m)))"

abbreviation (input) h5 :: "num \<Rightarrow> num" where
  "h5 m \<equiv> num.Bit1 (num.Bit0 (num.Bit1 (num.Bit0 m)))"

abbreviation (input) h6 :: "num \<Rightarrow> num" where
  "h6 m \<equiv> num.Bit0 (num.Bit1 (num.Bit1 (num.Bit0 m)))"

abbreviation (input) h7 :: "num \<Rightarrow> num" where
  "h7 m \<equiv> num.Bit1 (num.Bit1 (num.Bit1 (num.Bit0 m)))"

abbreviation (input) h8 :: "num \<Rightarrow> num" where
  "h8 m \<equiv> num.Bit0 (num.Bit0 (num.Bit0 (num.Bit1 m)))"

abbreviation (input) h9 :: "num \<Rightarrow> num" where
  "h9 m \<equiv> num.Bit1 (num.Bit0 (num.Bit0 (num.Bit1 m)))"

abbreviation (input) hA :: "num \<Rightarrow> num" where
  "hA m \<equiv> num.Bit0 (num.Bit1 (num.Bit0 (num.Bit1 m)))"

abbreviation (input) hB :: "num \<Rightarrow> num" where
  "hB m \<equiv> num.Bit1 (num.Bit1 (num.Bit0 (num.Bit1 m)))"

abbreviation (input) hC :: "num \<Rightarrow> num" where
  "hC m \<equiv> num.Bit0 (num.Bit0 (num.Bit1 (num.Bit1 m)))"

abbreviation (input) hD :: "num \<Rightarrow> num" where
  "hD m \<equiv> num.Bit1 (num.Bit0 (num.Bit1 (num.Bit1 m)))"

abbreviation (input) hE :: "num \<Rightarrow> num" where
  "hE m \<equiv> num.Bit0 (num.Bit1 (num.Bit1 (num.Bit1 m)))"

abbreviation (input) hF :: "num \<Rightarrow> num" where
  "hF m \<equiv> num.Bit1 (num.Bit1 (num.Bit1 (num.Bit1 m)))"

lemma looked_up_single: "mb < 256 \<Longrightarrow> trails 0 = None \<Longrightarrow> looked_up trails single cu mb \<longleftrightarrow> single mb = Some cu"
  by (auto simp: looked_up_def drop_bit_eq_div)

lemma row_look:
  assumes t: "trail_row leads order rows (numeral m) = Some d" and d: "d =
   [v0, v1, v2, v3, v4, v5, v6, v7, v8, v9, v10, v11, v12, v13, v14, v15, v16, v17, v18, v19, v20, v21, v22,
    v23, v24, v25, v26, v27, v28, v29, v30, v31] @
   [v32, v33, v34, v35, v36, v37, v38, v39, v40, v41, v42, v43, v44, v45, v46, v47, v48, v49, v50, v51, v52,
    v53, v54, v55, v56, v57, v58, v59, v60, v61, v62, v63] @
   [v64, v65, v66, v67, v68, v69, v70, v71, v72, v73, v74, v75, v76, v77, v78, v79, v80, v81, v82, v83, v84,
    v85, v86, v87, v88, v89, v90, v91, v92, v93, v94, v95] @
   [v96, v97, v98, v99, v100, v101, v102, v103, v104, v105, v106, v107, v108, v109, v110, v111, v112, v113,
    v114, v115, v116, v117, v118, v119, v120, v121, v122, v123, v124, v125, v126, v127] @
   [v128, v129, v130, v131, v132, v133, v134, v135, v136, v137, v138, v139, v140, v141, v142, v143, v144, v145,
    v146, v147, v148, v149, v150, v151, v152, v153, v154, v155, v156, v157, v158, v159] @
   [v160, v161, v162, v163, v164, v165, v166, v167, v168, v169, v170, v171, v172, v173, v174, v175, v176, v177,
    v178, v179, v180, v181, v182, v183, v184, v185, v186, v187, v188, v189, v190, v191] @
   [v192, v193, v194, v195, v196, v197, v198, v199, v200, v201, v202, v203, v204, v205, v206, v207, v208, v209,
    v210, v211, v212, v213, v214, v215, v216, v217, v218, v219, v220, v221, v222, v223] @
   [v224, v225, v226, v227, v228, v229, v230, v231, v232, v233, v234, v235, v236, v237, v238, v239, v240, v241,
    v242, v243, v244, v245, v246, v247, v248, v249, v250, v251, v252, v253, v254, v255]"
  shows
    "looked_up (trail_row leads order rows) single v0 (numeral (h0 (h0 m))) \<and>
      looked_up (trail_row leads order rows) single v1 (numeral (h1 (h0 m))) \<and>
      looked_up (trail_row leads order rows) single v2 (numeral (h2 (h0 m))) \<and>
      looked_up (trail_row leads order rows) single v3 (numeral (h3 (h0 m))) \<and>
      looked_up (trail_row leads order rows) single v4 (numeral (h4 (h0 m))) \<and>
      looked_up (trail_row leads order rows) single v5 (numeral (h5 (h0 m))) \<and>
      looked_up (trail_row leads order rows) single v6 (numeral (h6 (h0 m))) \<and>
      looked_up (trail_row leads order rows) single v7 (numeral (h7 (h0 m))) \<and>
      looked_up (trail_row leads order rows) single v8 (numeral (h8 (h0 m))) \<and>
      looked_up (trail_row leads order rows) single v9 (numeral (h9 (h0 m))) \<and>
      looked_up (trail_row leads order rows) single v10 (numeral (hA (h0 m))) \<and>
      looked_up (trail_row leads order rows) single v11 (numeral (hB (h0 m))) \<and>
      looked_up (trail_row leads order rows) single v12 (numeral (hC (h0 m))) \<and>
      looked_up (trail_row leads order rows) single v13 (numeral (hD (h0 m))) \<and>
      looked_up (trail_row leads order rows) single v14 (numeral (hE (h0 m))) \<and>
      looked_up (trail_row leads order rows) single v15 (numeral (hF (h0 m)))"
    "looked_up (trail_row leads order rows) single v16 (numeral (h0 (h1 m))) \<and>
      looked_up (trail_row leads order rows) single v17 (numeral (h1 (h1 m))) \<and>
      looked_up (trail_row leads order rows) single v18 (numeral (h2 (h1 m))) \<and>
      looked_up (trail_row leads order rows) single v19 (numeral (h3 (h1 m))) \<and>
      looked_up (trail_row leads order rows) single v20 (numeral (h4 (h1 m))) \<and>
      looked_up (trail_row leads order rows) single v21 (numeral (h5 (h1 m))) \<and>
      looked_up (trail_row leads order rows) single v22 (numeral (h6 (h1 m))) \<and>
      looked_up (trail_row leads order rows) single v23 (numeral (h7 (h1 m))) \<and>
      looked_up (trail_row leads order rows) single v24 (numeral (h8 (h1 m))) \<and>
      looked_up (trail_row leads order rows) single v25 (numeral (h9 (h1 m))) \<and>
      looked_up (trail_row leads order rows) single v26 (numeral (hA (h1 m))) \<and>
      looked_up (trail_row leads order rows) single v27 (numeral (hB (h1 m))) \<and>
      looked_up (trail_row leads order rows) single v28 (numeral (hC (h1 m))) \<and>
      looked_up (trail_row leads order rows) single v29 (numeral (hD (h1 m))) \<and>
      looked_up (trail_row leads order rows) single v30 (numeral (hE (h1 m))) \<and>
      looked_up (trail_row leads order rows) single v31 (numeral (hF (h1 m)))"
    "looked_up (trail_row leads order rows) single v32 (numeral (h0 (h2 m))) \<and>
      looked_up (trail_row leads order rows) single v33 (numeral (h1 (h2 m))) \<and>
      looked_up (trail_row leads order rows) single v34 (numeral (h2 (h2 m))) \<and>
      looked_up (trail_row leads order rows) single v35 (numeral (h3 (h2 m))) \<and>
      looked_up (trail_row leads order rows) single v36 (numeral (h4 (h2 m))) \<and>
      looked_up (trail_row leads order rows) single v37 (numeral (h5 (h2 m))) \<and>
      looked_up (trail_row leads order rows) single v38 (numeral (h6 (h2 m))) \<and>
      looked_up (trail_row leads order rows) single v39 (numeral (h7 (h2 m))) \<and>
      looked_up (trail_row leads order rows) single v40 (numeral (h8 (h2 m))) \<and>
      looked_up (trail_row leads order rows) single v41 (numeral (h9 (h2 m))) \<and>
      looked_up (trail_row leads order rows) single v42 (numeral (hA (h2 m))) \<and>
      looked_up (trail_row leads order rows) single v43 (numeral (hB (h2 m))) \<and>
      looked_up (trail_row leads order rows) single v44 (numeral (hC (h2 m))) \<and>
      looked_up (trail_row leads order rows) single v45 (numeral (hD (h2 m))) \<and>
      looked_up (trail_row leads order rows) single v46 (numeral (hE (h2 m))) \<and>
      looked_up (trail_row leads order rows) single v47 (numeral (hF (h2 m)))"
    "looked_up (trail_row leads order rows) single v48 (numeral (h0 (h3 m))) \<and>
      looked_up (trail_row leads order rows) single v49 (numeral (h1 (h3 m))) \<and>
      looked_up (trail_row leads order rows) single v50 (numeral (h2 (h3 m))) \<and>
      looked_up (trail_row leads order rows) single v51 (numeral (h3 (h3 m))) \<and>
      looked_up (trail_row leads order rows) single v52 (numeral (h4 (h3 m))) \<and>
      looked_up (trail_row leads order rows) single v53 (numeral (h5 (h3 m))) \<and>
      looked_up (trail_row leads order rows) single v54 (numeral (h6 (h3 m))) \<and>
      looked_up (trail_row leads order rows) single v55 (numeral (h7 (h3 m))) \<and>
      looked_up (trail_row leads order rows) single v56 (numeral (h8 (h3 m))) \<and>
      looked_up (trail_row leads order rows) single v57 (numeral (h9 (h3 m))) \<and>
      looked_up (trail_row leads order rows) single v58 (numeral (hA (h3 m))) \<and>
      looked_up (trail_row leads order rows) single v59 (numeral (hB (h3 m))) \<and>
      looked_up (trail_row leads order rows) single v60 (numeral (hC (h3 m))) \<and>
      looked_up (trail_row leads order rows) single v61 (numeral (hD (h3 m))) \<and>
      looked_up (trail_row leads order rows) single v62 (numeral (hE (h3 m))) \<and>
      looked_up (trail_row leads order rows) single v63 (numeral (hF (h3 m)))"
    "looked_up (trail_row leads order rows) single v64 (numeral (h0 (h4 m))) \<and>
      looked_up (trail_row leads order rows) single v65 (numeral (h1 (h4 m))) \<and>
      looked_up (trail_row leads order rows) single v66 (numeral (h2 (h4 m))) \<and>
      looked_up (trail_row leads order rows) single v67 (numeral (h3 (h4 m))) \<and>
      looked_up (trail_row leads order rows) single v68 (numeral (h4 (h4 m))) \<and>
      looked_up (trail_row leads order rows) single v69 (numeral (h5 (h4 m))) \<and>
      looked_up (trail_row leads order rows) single v70 (numeral (h6 (h4 m))) \<and>
      looked_up (trail_row leads order rows) single v71 (numeral (h7 (h4 m))) \<and>
      looked_up (trail_row leads order rows) single v72 (numeral (h8 (h4 m))) \<and>
      looked_up (trail_row leads order rows) single v73 (numeral (h9 (h4 m))) \<and>
      looked_up (trail_row leads order rows) single v74 (numeral (hA (h4 m))) \<and>
      looked_up (trail_row leads order rows) single v75 (numeral (hB (h4 m))) \<and>
      looked_up (trail_row leads order rows) single v76 (numeral (hC (h4 m))) \<and>
      looked_up (trail_row leads order rows) single v77 (numeral (hD (h4 m))) \<and>
      looked_up (trail_row leads order rows) single v78 (numeral (hE (h4 m))) \<and>
      looked_up (trail_row leads order rows) single v79 (numeral (hF (h4 m)))"
    "looked_up (trail_row leads order rows) single v80 (numeral (h0 (h5 m))) \<and>
      looked_up (trail_row leads order rows) single v81 (numeral (h1 (h5 m))) \<and>
      looked_up (trail_row leads order rows) single v82 (numeral (h2 (h5 m))) \<and>
      looked_up (trail_row leads order rows) single v83 (numeral (h3 (h5 m))) \<and>
      looked_up (trail_row leads order rows) single v84 (numeral (h4 (h5 m))) \<and>
      looked_up (trail_row leads order rows) single v85 (numeral (h5 (h5 m))) \<and>
      looked_up (trail_row leads order rows) single v86 (numeral (h6 (h5 m))) \<and>
      looked_up (trail_row leads order rows) single v87 (numeral (h7 (h5 m))) \<and>
      looked_up (trail_row leads order rows) single v88 (numeral (h8 (h5 m))) \<and>
      looked_up (trail_row leads order rows) single v89 (numeral (h9 (h5 m))) \<and>
      looked_up (trail_row leads order rows) single v90 (numeral (hA (h5 m))) \<and>
      looked_up (trail_row leads order rows) single v91 (numeral (hB (h5 m))) \<and>
      looked_up (trail_row leads order rows) single v92 (numeral (hC (h5 m))) \<and>
      looked_up (trail_row leads order rows) single v93 (numeral (hD (h5 m))) \<and>
      looked_up (trail_row leads order rows) single v94 (numeral (hE (h5 m))) \<and>
      looked_up (trail_row leads order rows) single v95 (numeral (hF (h5 m)))"
    "looked_up (trail_row leads order rows) single v96 (numeral (h0 (h6 m))) \<and>
      looked_up (trail_row leads order rows) single v97 (numeral (h1 (h6 m))) \<and>
      looked_up (trail_row leads order rows) single v98 (numeral (h2 (h6 m))) \<and>
      looked_up (trail_row leads order rows) single v99 (numeral (h3 (h6 m))) \<and>
      looked_up (trail_row leads order rows) single v100 (numeral (h4 (h6 m))) \<and>
      looked_up (trail_row leads order rows) single v101 (numeral (h5 (h6 m))) \<and>
      looked_up (trail_row leads order rows) single v102 (numeral (h6 (h6 m))) \<and>
      looked_up (trail_row leads order rows) single v103 (numeral (h7 (h6 m))) \<and>
      looked_up (trail_row leads order rows) single v104 (numeral (h8 (h6 m))) \<and>
      looked_up (trail_row leads order rows) single v105 (numeral (h9 (h6 m))) \<and>
      looked_up (trail_row leads order rows) single v106 (numeral (hA (h6 m))) \<and>
      looked_up (trail_row leads order rows) single v107 (numeral (hB (h6 m))) \<and>
      looked_up (trail_row leads order rows) single v108 (numeral (hC (h6 m))) \<and>
      looked_up (trail_row leads order rows) single v109 (numeral (hD (h6 m))) \<and>
      looked_up (trail_row leads order rows) single v110 (numeral (hE (h6 m))) \<and>
      looked_up (trail_row leads order rows) single v111 (numeral (hF (h6 m)))"
    "looked_up (trail_row leads order rows) single v112 (numeral (h0 (h7 m))) \<and>
      looked_up (trail_row leads order rows) single v113 (numeral (h1 (h7 m))) \<and>
      looked_up (trail_row leads order rows) single v114 (numeral (h2 (h7 m))) \<and>
      looked_up (trail_row leads order rows) single v115 (numeral (h3 (h7 m))) \<and>
      looked_up (trail_row leads order rows) single v116 (numeral (h4 (h7 m))) \<and>
      looked_up (trail_row leads order rows) single v117 (numeral (h5 (h7 m))) \<and>
      looked_up (trail_row leads order rows) single v118 (numeral (h6 (h7 m))) \<and>
      looked_up (trail_row leads order rows) single v119 (numeral (h7 (h7 m))) \<and>
      looked_up (trail_row leads order rows) single v120 (numeral (h8 (h7 m))) \<and>
      looked_up (trail_row leads order rows) single v121 (numeral (h9 (h7 m))) \<and>
      looked_up (trail_row leads order rows) single v122 (numeral (hA (h7 m))) \<and>
      looked_up (trail_row leads order rows) single v123 (numeral (hB (h7 m))) \<and>
      looked_up (trail_row leads order rows) single v124 (numeral (hC (h7 m))) \<and>
      looked_up (trail_row leads order rows) single v125 (numeral (hD (h7 m))) \<and>
      looked_up (trail_row leads order rows) single v126 (numeral (hE (h7 m))) \<and>
      looked_up (trail_row leads order rows) single v127 (numeral (hF (h7 m)))"
    "looked_up (trail_row leads order rows) single v128 (numeral (h0 (h8 m))) \<and>
      looked_up (trail_row leads order rows) single v129 (numeral (h1 (h8 m))) \<and>
      looked_up (trail_row leads order rows) single v130 (numeral (h2 (h8 m))) \<and>
      looked_up (trail_row leads order rows) single v131 (numeral (h3 (h8 m))) \<and>
      looked_up (trail_row leads order rows) single v132 (numeral (h4 (h8 m))) \<and>
      looked_up (trail_row leads order rows) single v133 (numeral (h5 (h8 m))) \<and>
      looked_up (trail_row leads order rows) single v134 (numeral (h6 (h8 m))) \<and>
      looked_up (trail_row leads order rows) single v135 (numeral (h7 (h8 m))) \<and>
      looked_up (trail_row leads order rows) single v136 (numeral (h8 (h8 m))) \<and>
      looked_up (trail_row leads order rows) single v137 (numeral (h9 (h8 m))) \<and>
      looked_up (trail_row leads order rows) single v138 (numeral (hA (h8 m))) \<and>
      looked_up (trail_row leads order rows) single v139 (numeral (hB (h8 m))) \<and>
      looked_up (trail_row leads order rows) single v140 (numeral (hC (h8 m))) \<and>
      looked_up (trail_row leads order rows) single v141 (numeral (hD (h8 m))) \<and>
      looked_up (trail_row leads order rows) single v142 (numeral (hE (h8 m))) \<and>
      looked_up (trail_row leads order rows) single v143 (numeral (hF (h8 m)))"
    "looked_up (trail_row leads order rows) single v144 (numeral (h0 (h9 m))) \<and>
      looked_up (trail_row leads order rows) single v145 (numeral (h1 (h9 m))) \<and>
      looked_up (trail_row leads order rows) single v146 (numeral (h2 (h9 m))) \<and>
      looked_up (trail_row leads order rows) single v147 (numeral (h3 (h9 m))) \<and>
      looked_up (trail_row leads order rows) single v148 (numeral (h4 (h9 m))) \<and>
      looked_up (trail_row leads order rows) single v149 (numeral (h5 (h9 m))) \<and>
      looked_up (trail_row leads order rows) single v150 (numeral (h6 (h9 m))) \<and>
      looked_up (trail_row leads order rows) single v151 (numeral (h7 (h9 m))) \<and>
      looked_up (trail_row leads order rows) single v152 (numeral (h8 (h9 m))) \<and>
      looked_up (trail_row leads order rows) single v153 (numeral (h9 (h9 m))) \<and>
      looked_up (trail_row leads order rows) single v154 (numeral (hA (h9 m))) \<and>
      looked_up (trail_row leads order rows) single v155 (numeral (hB (h9 m))) \<and>
      looked_up (trail_row leads order rows) single v156 (numeral (hC (h9 m))) \<and>
      looked_up (trail_row leads order rows) single v157 (numeral (hD (h9 m))) \<and>
      looked_up (trail_row leads order rows) single v158 (numeral (hE (h9 m))) \<and>
      looked_up (trail_row leads order rows) single v159 (numeral (hF (h9 m)))"
    "looked_up (trail_row leads order rows) single v160 (numeral (h0 (hA m))) \<and>
      looked_up (trail_row leads order rows) single v161 (numeral (h1 (hA m))) \<and>
      looked_up (trail_row leads order rows) single v162 (numeral (h2 (hA m))) \<and>
      looked_up (trail_row leads order rows) single v163 (numeral (h3 (hA m))) \<and>
      looked_up (trail_row leads order rows) single v164 (numeral (h4 (hA m))) \<and>
      looked_up (trail_row leads order rows) single v165 (numeral (h5 (hA m))) \<and>
      looked_up (trail_row leads order rows) single v166 (numeral (h6 (hA m))) \<and>
      looked_up (trail_row leads order rows) single v167 (numeral (h7 (hA m))) \<and>
      looked_up (trail_row leads order rows) single v168 (numeral (h8 (hA m))) \<and>
      looked_up (trail_row leads order rows) single v169 (numeral (h9 (hA m))) \<and>
      looked_up (trail_row leads order rows) single v170 (numeral (hA (hA m))) \<and>
      looked_up (trail_row leads order rows) single v171 (numeral (hB (hA m))) \<and>
      looked_up (trail_row leads order rows) single v172 (numeral (hC (hA m))) \<and>
      looked_up (trail_row leads order rows) single v173 (numeral (hD (hA m))) \<and>
      looked_up (trail_row leads order rows) single v174 (numeral (hE (hA m))) \<and>
      looked_up (trail_row leads order rows) single v175 (numeral (hF (hA m)))"
    "looked_up (trail_row leads order rows) single v176 (numeral (h0 (hB m))) \<and>
      looked_up (trail_row leads order rows) single v177 (numeral (h1 (hB m))) \<and>
      looked_up (trail_row leads order rows) single v178 (numeral (h2 (hB m))) \<and>
      looked_up (trail_row leads order rows) single v179 (numeral (h3 (hB m))) \<and>
      looked_up (trail_row leads order rows) single v180 (numeral (h4 (hB m))) \<and>
      looked_up (trail_row leads order rows) single v181 (numeral (h5 (hB m))) \<and>
      looked_up (trail_row leads order rows) single v182 (numeral (h6 (hB m))) \<and>
      looked_up (trail_row leads order rows) single v183 (numeral (h7 (hB m))) \<and>
      looked_up (trail_row leads order rows) single v184 (numeral (h8 (hB m))) \<and>
      looked_up (trail_row leads order rows) single v185 (numeral (h9 (hB m))) \<and>
      looked_up (trail_row leads order rows) single v186 (numeral (hA (hB m))) \<and>
      looked_up (trail_row leads order rows) single v187 (numeral (hB (hB m))) \<and>
      looked_up (trail_row leads order rows) single v188 (numeral (hC (hB m))) \<and>
      looked_up (trail_row leads order rows) single v189 (numeral (hD (hB m))) \<and>
      looked_up (trail_row leads order rows) single v190 (numeral (hE (hB m))) \<and>
      looked_up (trail_row leads order rows) single v191 (numeral (hF (hB m)))"
    "looked_up (trail_row leads order rows) single v192 (numeral (h0 (hC m))) \<and>
      looked_up (trail_row leads order rows) single v193 (numeral (h1 (hC m))) \<and>
      looked_up (trail_row leads order rows) single v194 (numeral (h2 (hC m))) \<and>
      looked_up (trail_row leads order rows) single v195 (numeral (h3 (hC m))) \<and>
      looked_up (trail_row leads order rows) single v196 (numeral (h4 (hC m))) \<and>
      looked_up (trail_row leads order rows) single v197 (numeral (h5 (hC m))) \<and>
      looked_up (trail_row leads order rows) single v198 (numeral (h6 (hC m))) \<and>
      looked_up (trail_row leads order rows) single v199 (numeral (h7 (hC m))) \<and>
      looked_up (trail_row leads order rows) single v200 (numeral (h8 (hC m))) \<and>
      looked_up (trail_row leads order rows) single v201 (numeral (h9 (hC m))) \<and>
      looked_up (trail_row leads order rows) single v202 (numeral (hA (hC m))) \<and>
      looked_up (trail_row leads order rows) single v203 (numeral (hB (hC m))) \<and>
      looked_up (trail_row leads order rows) single v204 (numeral (hC (hC m))) \<and>
      looked_up (trail_row leads order rows) single v205 (numeral (hD (hC m))) \<and>
      looked_up (trail_row leads order rows) single v206 (numeral (hE (hC m))) \<and>
      looked_up (trail_row leads order rows) single v207 (numeral (hF (hC m)))"
    "looked_up (trail_row leads order rows) single v208 (numeral (h0 (hD m))) \<and>
      looked_up (trail_row leads order rows) single v209 (numeral (h1 (hD m))) \<and>
      looked_up (trail_row leads order rows) single v210 (numeral (h2 (hD m))) \<and>
      looked_up (trail_row leads order rows) single v211 (numeral (h3 (hD m))) \<and>
      looked_up (trail_row leads order rows) single v212 (numeral (h4 (hD m))) \<and>
      looked_up (trail_row leads order rows) single v213 (numeral (h5 (hD m))) \<and>
      looked_up (trail_row leads order rows) single v214 (numeral (h6 (hD m))) \<and>
      looked_up (trail_row leads order rows) single v215 (numeral (h7 (hD m))) \<and>
      looked_up (trail_row leads order rows) single v216 (numeral (h8 (hD m))) \<and>
      looked_up (trail_row leads order rows) single v217 (numeral (h9 (hD m))) \<and>
      looked_up (trail_row leads order rows) single v218 (numeral (hA (hD m))) \<and>
      looked_up (trail_row leads order rows) single v219 (numeral (hB (hD m))) \<and>
      looked_up (trail_row leads order rows) single v220 (numeral (hC (hD m))) \<and>
      looked_up (trail_row leads order rows) single v221 (numeral (hD (hD m))) \<and>
      looked_up (trail_row leads order rows) single v222 (numeral (hE (hD m))) \<and>
      looked_up (trail_row leads order rows) single v223 (numeral (hF (hD m)))"
    "looked_up (trail_row leads order rows) single v224 (numeral (h0 (hE m))) \<and>
      looked_up (trail_row leads order rows) single v225 (numeral (h1 (hE m))) \<and>
      looked_up (trail_row leads order rows) single v226 (numeral (h2 (hE m))) \<and>
      looked_up (trail_row leads order rows) single v227 (numeral (h3 (hE m))) \<and>
      looked_up (trail_row leads order rows) single v228 (numeral (h4 (hE m))) \<and>
      looked_up (trail_row leads order rows) single v229 (numeral (h5 (hE m))) \<and>
      looked_up (trail_row leads order rows) single v230 (numeral (h6 (hE m))) \<and>
      looked_up (trail_row leads order rows) single v231 (numeral (h7 (hE m))) \<and>
      looked_up (trail_row leads order rows) single v232 (numeral (h8 (hE m))) \<and>
      looked_up (trail_row leads order rows) single v233 (numeral (h9 (hE m))) \<and>
      looked_up (trail_row leads order rows) single v234 (numeral (hA (hE m))) \<and>
      looked_up (trail_row leads order rows) single v235 (numeral (hB (hE m))) \<and>
      looked_up (trail_row leads order rows) single v236 (numeral (hC (hE m))) \<and>
      looked_up (trail_row leads order rows) single v237 (numeral (hD (hE m))) \<and>
      looked_up (trail_row leads order rows) single v238 (numeral (hE (hE m))) \<and>
      looked_up (trail_row leads order rows) single v239 (numeral (hF (hE m)))"
    "looked_up (trail_row leads order rows) single v240 (numeral (h0 (hF m))) \<and>
      looked_up (trail_row leads order rows) single v241 (numeral (h1 (hF m))) \<and>
      looked_up (trail_row leads order rows) single v242 (numeral (h2 (hF m))) \<and>
      looked_up (trail_row leads order rows) single v243 (numeral (h3 (hF m))) \<and>
      looked_up (trail_row leads order rows) single v244 (numeral (h4 (hF m))) \<and>
      looked_up (trail_row leads order rows) single v245 (numeral (h5 (hF m))) \<and>
      looked_up (trail_row leads order rows) single v246 (numeral (h6 (hF m))) \<and>
      looked_up (trail_row leads order rows) single v247 (numeral (h7 (hF m))) \<and>
      looked_up (trail_row leads order rows) single v248 (numeral (h8 (hF m))) \<and>
      looked_up (trail_row leads order rows) single v249 (numeral (h9 (hF m))) \<and>
      looked_up (trail_row leads order rows) single v250 (numeral (hA (hF m))) \<and>
      looked_up (trail_row leads order rows) single v251 (numeral (hB (hF m))) \<and>
      looked_up (trail_row leads order rows) single v252 (numeral (hC (hF m))) \<and>
      looked_up (trail_row leads order rows) single v253 (numeral (hD (hF m))) \<and>
      looked_up (trail_row leads order rows) single v254 (numeral (hE (hF m))) \<and>
      looked_up (trail_row leads order rows) single v255 (numeral (hF (hF m)))"
  by (simp_all add: looked_up_def t row_nth [OF d])

end
