(* ===== verification/Cp932Lead.thy ===== *)
theory Cp932Lead
  imports Cp932Rows
begin

text \<open>
  Page 932 of \<^verbatim>\<open>src/src/charset_tables_data.c\<close>: its single bytes, its lead bytes and the order of
  its rows, and the lookups that they give.
\<close>

definition dec1_cp932 :: "nat list" where
  "dec1_cp932 =
   [0x0000, 0x0001, 0x0002, 0x0003, 0x0004, 0x0005, 0x0006, 0x0007, 0x0008, 0x0009, 0x000A, 0x000B, 0x000C,
    0x000D, 0x000E, 0x000F, 0x0010, 0x0011, 0x0012, 0x0013, 0x0014, 0x0015, 0x0016, 0x0017, 0x0018, 0x0019,
    0x001A, 0x001B, 0x001C, 0x001D, 0x001E, 0x001F] @
   [0x0020, 0x0021, 0x0022, 0x0023, 0x0024, 0x0025, 0x0026, 0x0027, 0x0028, 0x0029, 0x002A, 0x002B, 0x002C,
    0x002D, 0x002E, 0x002F, 0x0030, 0x0031, 0x0032, 0x0033, 0x0034, 0x0035, 0x0036, 0x0037, 0x0038, 0x0039,
    0x003A, 0x003B, 0x003C, 0x003D, 0x003E, 0x003F] @
   [0x0040, 0x0041, 0x0042, 0x0043, 0x0044, 0x0045, 0x0046, 0x0047, 0x0048, 0x0049, 0x004A, 0x004B, 0x004C,
    0x004D, 0x004E, 0x004F, 0x0050, 0x0051, 0x0052, 0x0053, 0x0054, 0x0055, 0x0056, 0x0057, 0x0058, 0x0059,
    0x005A, 0x005B, 0x005C, 0x005D, 0x005E, 0x005F] @
   [0x0060, 0x0061, 0x0062, 0x0063, 0x0064, 0x0065, 0x0066, 0x0067, 0x0068, 0x0069, 0x006A, 0x006B, 0x006C,
    0x006D, 0x006E, 0x006F, 0x0070, 0x0071, 0x0072, 0x0073, 0x0074, 0x0075, 0x0076, 0x0077, 0x0078, 0x0079,
    0x007A, 0x007B, 0x007C, 0x007D, 0x007E, 0x007F] @
   [0xFFFD, 0xFFFD, 0xFFFD, 0xFFFD, 0xFFFD, 0xFFFD, 0xFFFD, 0xFFFD, 0xFFFD, 0xFFFD, 0xFFFD, 0xFFFD, 0xFFFD,
    0xFFFD, 0xFFFD, 0xFFFD, 0xFFFD, 0xFFFD, 0xFFFD, 0xFFFD, 0xFFFD, 0xFFFD, 0xFFFD, 0xFFFD, 0xFFFD, 0xFFFD,
    0xFFFD, 0xFFFD, 0xFFFD, 0xFFFD, 0xFFFD, 0xFFFD] @
   [0xFFFD, 0xFF61, 0xFF62, 0xFF63, 0xFF64, 0xFF65, 0xFF66, 0xFF67, 0xFF68, 0xFF69, 0xFF6A, 0xFF6B, 0xFF6C,
    0xFF6D, 0xFF6E, 0xFF6F, 0xFF70, 0xFF71, 0xFF72, 0xFF73, 0xFF74, 0xFF75, 0xFF76, 0xFF77, 0xFF78, 0xFF79,
    0xFF7A, 0xFF7B, 0xFF7C, 0xFF7D, 0xFF7E, 0xFF7F] @
   [0xFF80, 0xFF81, 0xFF82, 0xFF83, 0xFF84, 0xFF85, 0xFF86, 0xFF87, 0xFF88, 0xFF89, 0xFF8A, 0xFF8B, 0xFF8C,
    0xFF8D, 0xFF8E, 0xFF8F, 0xFF90, 0xFF91, 0xFF92, 0xFF93, 0xFF94, 0xFF95, 0xFF96, 0xFF97, 0xFF98, 0xFF99,
    0xFF9A, 0xFF9B, 0xFF9C, 0xFF9D, 0xFF9E, 0xFF9F] @
   [0xFFFD, 0xFFFD, 0xFFFD, 0xFFFD, 0xFFFD, 0xFFFD, 0xFFFD, 0xFFFD, 0xFFFD, 0xFFFD, 0xFFFD, 0xFFFD, 0xFFFD,
    0xFFFD, 0xFFFD, 0xFFFD, 0xFFFD, 0xFFFD, 0xFFFD, 0xFFFD, 0xFFFD, 0xFFFD, 0xFFFD, 0xFFFD, 0xFFFD, 0xFFFD,
    0xFFFD, 0xFFFD, 0xFFFD, 0xFFFD, 0xFFFD, 0xFFFD]"

lemmas dec1_at_932 = row_nth [OF dec1_cp932_def]

definition lead_cp932 :: "nat list" where
  "lead_cp932 =
   [0, 0, 0, 0, 0, 0, 0, 0, 0, 0, 0, 0, 0, 0, 0, 0, 0, 0, 0, 0, 0, 0, 0, 0, 0, 0, 0, 0, 0, 0, 0, 0] @
   [0, 0, 0, 0, 0, 0, 0, 0, 0, 0, 0, 0, 0, 0, 0, 0, 0, 0, 0, 0, 0, 0, 0, 0, 0, 0, 0, 0, 0, 0, 0, 0] @
   [0, 0, 0, 0, 0, 0, 0, 0, 0, 0, 0, 0, 0, 0, 0, 0, 0, 0, 0, 0, 0, 0, 0, 0, 0, 0, 0, 0, 0, 0, 0, 0] @
   [0, 0, 0, 0, 0, 0, 0, 0, 0, 0, 0, 0, 0, 0, 0, 0, 0, 0, 0, 0, 0, 0, 0, 0, 0, 0, 0, 0, 0, 0, 0, 0] @
   [0, 1, 1, 1, 1, 1, 1, 1, 1, 1, 1, 1, 1, 1, 1, 1, 1, 1, 1, 1, 1, 1, 1, 1, 1, 1, 1, 1, 1, 1, 1, 1] @
   [0, 0, 0, 0, 0, 0, 0, 0, 0, 0, 0, 0, 0, 0, 0, 0, 0, 0, 0, 0, 0, 0, 0, 0, 0, 0, 0, 0, 0, 0, 0, 0] @
   [0, 0, 0, 0, 0, 0, 0, 0, 0, 0, 0, 0, 0, 0, 0, 0, 0, 0, 0, 0, 0, 0, 0, 0, 0, 0, 0, 0, 0, 0, 0, 0] @
   [1, 1, 1, 1, 1, 1, 1, 1, 1, 1, 1, 1, 1, 1, 1, 1, 1, 1, 1, 1, 1, 1, 1, 1, 1, 1, 1, 1, 1, 0, 0, 0]"

lemmas lead_at_932 = row_nth [OF lead_cp932_def]

definition leadrow_cp932 :: "int list" where
  "leadrow_cp932 =
   [- 1, - 1, - 1, - 1, - 1, - 1, - 1, - 1, - 1, - 1, - 1, - 1, - 1, - 1, - 1, - 1, - 1, - 1, - 1, - 1, - 1,
    - 1, - 1, - 1, - 1, - 1, - 1, - 1, - 1, - 1, - 1, - 1] @
   [- 1, - 1, - 1, - 1, - 1, - 1, - 1, - 1, - 1, - 1, - 1, - 1, - 1, - 1, - 1, - 1, - 1, - 1, - 1, - 1, - 1,
    - 1, - 1, - 1, - 1, - 1, - 1, - 1, - 1, - 1, - 1, - 1] @
   [- 1, - 1, - 1, - 1, - 1, - 1, - 1, - 1, - 1, - 1, - 1, - 1, - 1, - 1, - 1, - 1, - 1, - 1, - 1, - 1, - 1,
    - 1, - 1, - 1, - 1, - 1, - 1, - 1, - 1, - 1, - 1, - 1] @
   [- 1, - 1, - 1, - 1, - 1, - 1, - 1, - 1, - 1, - 1, - 1, - 1, - 1, - 1, - 1, - 1, - 1, - 1, - 1, - 1, - 1,
    - 1, - 1, - 1, - 1, - 1, - 1, - 1, - 1, - 1, - 1, - 1] @
   [- 1, 0, 1, 2, 3, 4, 5, 6, 7, 8, 9, 10, 11, 12, 13, 14, 15, 16, 17, 18, 19, 20, 21, 22, 23, 24, 25, 26, 27,
    28, 29, 30] @
   [- 1, - 1, - 1, - 1, - 1, - 1, - 1, - 1, - 1, - 1, - 1, - 1, - 1, - 1, - 1, - 1, - 1, - 1, - 1, - 1, - 1,
    - 1, - 1, - 1, - 1, - 1, - 1, - 1, - 1, - 1, - 1, - 1] @
   [- 1, - 1, - 1, - 1, - 1, - 1, - 1, - 1, - 1, - 1, - 1, - 1, - 1, - 1, - 1, - 1, - 1, - 1, - 1, - 1, - 1,
    - 1, - 1, - 1, - 1, - 1, - 1, - 1, - 1, - 1, - 1, - 1] @
   [31, 32, 33, 34, 35, 36, 37, 38, 39, 40, 41, 42, 43, 44, 45, 46, 47, 48, 49, 50, 51, 52, 53, 54, 55, 56, 57,
    58, 59, - 1, - 1, - 1]"

lemmas order_at_932 = row_nth [OF leadrow_cp932_def]

definition rows_cp932 :: "nat list list" where
  "rows_cp932 = [
   dec2_cp932_0, dec2_cp932_1, dec2_cp932_2, dec2_cp932_3, dec2_cp932_4, dec2_cp932_5, dec2_cp932_6,
   dec2_cp932_7, dec2_cp932_8, dec2_cp932_9, dec2_cp932_10, dec2_cp932_11, dec2_cp932_12, dec2_cp932_13,
   dec2_cp932_14, dec2_cp932_15, dec2_cp932_16, dec2_cp932_17, dec2_cp932_18, dec2_cp932_19, dec2_cp932_20,
   dec2_cp932_21, dec2_cp932_22, dec2_cp932_23, dec2_cp932_24, dec2_cp932_25, dec2_cp932_26, dec2_cp932_27,
   dec2_cp932_28, dec2_cp932_29, dec2_cp932_30, dec2_cp932_31, dec2_cp932_32, dec2_cp932_33, dec2_cp932_34,
   dec2_cp932_35, dec2_cp932_36, dec2_cp932_37, dec2_cp932_38, dec2_cp932_39, dec2_cp932_40, dec2_cp932_41,
   dec2_cp932_42, dec2_cp932_43, dec2_cp932_44, dec2_cp932_45, dec2_cp932_46, dec2_cp932_47, dec2_cp932_48,
   dec2_cp932_49, dec2_cp932_50, dec2_cp932_51, dec2_cp932_52, dec2_cp932_53, dec2_cp932_54, dec2_cp932_55,
   dec2_cp932_56, dec2_cp932_57, dec2_cp932_58, dec2_cp932_59]"

abbreviation trails_932 :: "nat \<Rightarrow> nat list option" where
  "trails_932 \<equiv> trail_row lead_cp932 leadrow_cp932 rows_cp932"

abbreviation single_932 :: "nat \<Rightarrow> nat option" where
  "single_932 \<equiv> single_unit lead_cp932 dec1_cp932"

lemma row_at_932:
  "rows_cp932 ! 0 = dec2_cp932_0"
  "rows_cp932 ! Suc 0 = dec2_cp932_1"
  "rows_cp932 ! 2 = dec2_cp932_2"
  "rows_cp932 ! 3 = dec2_cp932_3"
  "rows_cp932 ! 4 = dec2_cp932_4"
  "rows_cp932 ! 5 = dec2_cp932_5"
  "rows_cp932 ! 6 = dec2_cp932_6"
  "rows_cp932 ! 7 = dec2_cp932_7"
  "rows_cp932 ! 8 = dec2_cp932_8"
  "rows_cp932 ! 9 = dec2_cp932_9"
  "rows_cp932 ! 10 = dec2_cp932_10"
  "rows_cp932 ! 11 = dec2_cp932_11"
  "rows_cp932 ! 12 = dec2_cp932_12"
  "rows_cp932 ! 13 = dec2_cp932_13"
  "rows_cp932 ! 14 = dec2_cp932_14"
  "rows_cp932 ! 15 = dec2_cp932_15"
  "rows_cp932 ! 16 = dec2_cp932_16"
  "rows_cp932 ! 17 = dec2_cp932_17"
  "rows_cp932 ! 18 = dec2_cp932_18"
  "rows_cp932 ! 19 = dec2_cp932_19"
  "rows_cp932 ! 20 = dec2_cp932_20"
  "rows_cp932 ! 21 = dec2_cp932_21"
  "rows_cp932 ! 22 = dec2_cp932_22"
  "rows_cp932 ! 23 = dec2_cp932_23"
  "rows_cp932 ! 24 = dec2_cp932_24"
  "rows_cp932 ! 25 = dec2_cp932_25"
  "rows_cp932 ! 26 = dec2_cp932_26"
  "rows_cp932 ! 27 = dec2_cp932_27"
  "rows_cp932 ! 28 = dec2_cp932_28"
  "rows_cp932 ! 29 = dec2_cp932_29"
  "rows_cp932 ! 30 = dec2_cp932_30"
  "rows_cp932 ! 31 = dec2_cp932_31"
  "rows_cp932 ! 32 = dec2_cp932_32"
  "rows_cp932 ! 33 = dec2_cp932_33"
  "rows_cp932 ! 34 = dec2_cp932_34"
  "rows_cp932 ! 35 = dec2_cp932_35"
  "rows_cp932 ! 36 = dec2_cp932_36"
  "rows_cp932 ! 37 = dec2_cp932_37"
  "rows_cp932 ! 38 = dec2_cp932_38"
  "rows_cp932 ! 39 = dec2_cp932_39"
  "rows_cp932 ! 40 = dec2_cp932_40"
  "rows_cp932 ! 41 = dec2_cp932_41"
  "rows_cp932 ! 42 = dec2_cp932_42"
  "rows_cp932 ! 43 = dec2_cp932_43"
  "rows_cp932 ! 44 = dec2_cp932_44"
  "rows_cp932 ! 45 = dec2_cp932_45"
  "rows_cp932 ! 46 = dec2_cp932_46"
  "rows_cp932 ! 47 = dec2_cp932_47"
  "rows_cp932 ! 48 = dec2_cp932_48"
  "rows_cp932 ! 49 = dec2_cp932_49"
  "rows_cp932 ! 50 = dec2_cp932_50"
  "rows_cp932 ! 51 = dec2_cp932_51"
  "rows_cp932 ! 52 = dec2_cp932_52"
  "rows_cp932 ! 53 = dec2_cp932_53"
  "rows_cp932 ! 54 = dec2_cp932_54"
  "rows_cp932 ! 55 = dec2_cp932_55"
  "rows_cp932 ! 56 = dec2_cp932_56"
  "rows_cp932 ! 57 = dec2_cp932_57"
  "rows_cp932 ! 58 = dec2_cp932_58"
  "rows_cp932 ! 59 = dec2_cp932_59"
  by (simp_all add: table_entries [OF rows_cp932_def, simplified])

lemma trail_at_932:
  "trails_932 0 = None"
  "trails_932 129 = Some dec2_cp932_0"
  "trails_932 130 = Some dec2_cp932_1"
  "trails_932 131 = Some dec2_cp932_2"
  "trails_932 132 = Some dec2_cp932_3"
  "trails_932 133 = Some dec2_cp932_4"
  "trails_932 134 = Some dec2_cp932_5"
  "trails_932 135 = Some dec2_cp932_6"
  "trails_932 136 = Some dec2_cp932_7"
  "trails_932 137 = Some dec2_cp932_8"
  "trails_932 138 = Some dec2_cp932_9"
  "trails_932 139 = Some dec2_cp932_10"
  "trails_932 140 = Some dec2_cp932_11"
  "trails_932 141 = Some dec2_cp932_12"
  "trails_932 142 = Some dec2_cp932_13"
  "trails_932 143 = Some dec2_cp932_14"
  "trails_932 144 = Some dec2_cp932_15"
  "trails_932 145 = Some dec2_cp932_16"
  "trails_932 146 = Some dec2_cp932_17"
  "trails_932 147 = Some dec2_cp932_18"
  "trails_932 148 = Some dec2_cp932_19"
  "trails_932 149 = Some dec2_cp932_20"
  "trails_932 150 = Some dec2_cp932_21"
  "trails_932 151 = Some dec2_cp932_22"
  "trails_932 152 = Some dec2_cp932_23"
  "trails_932 153 = Some dec2_cp932_24"
  "trails_932 154 = Some dec2_cp932_25"
  "trails_932 155 = Some dec2_cp932_26"
  "trails_932 156 = Some dec2_cp932_27"
  "trails_932 157 = Some dec2_cp932_28"
  "trails_932 158 = Some dec2_cp932_29"
  "trails_932 159 = Some dec2_cp932_30"
  "trails_932 224 = Some dec2_cp932_31"
  "trails_932 225 = Some dec2_cp932_32"
  "trails_932 226 = Some dec2_cp932_33"
  "trails_932 227 = Some dec2_cp932_34"
  "trails_932 228 = Some dec2_cp932_35"
  "trails_932 229 = Some dec2_cp932_36"
  "trails_932 230 = Some dec2_cp932_37"
  "trails_932 231 = Some dec2_cp932_38"
  "trails_932 232 = Some dec2_cp932_39"
  "trails_932 233 = Some dec2_cp932_40"
  "trails_932 234 = Some dec2_cp932_41"
  "trails_932 235 = Some dec2_cp932_42"
  "trails_932 236 = Some dec2_cp932_43"
  "trails_932 237 = Some dec2_cp932_44"
  "trails_932 238 = Some dec2_cp932_45"
  "trails_932 239 = Some dec2_cp932_46"
  "trails_932 240 = Some dec2_cp932_47"
  "trails_932 241 = Some dec2_cp932_48"
  "trails_932 242 = Some dec2_cp932_49"
  "trails_932 243 = Some dec2_cp932_50"
  "trails_932 244 = Some dec2_cp932_51"
  "trails_932 245 = Some dec2_cp932_52"
  "trails_932 246 = Some dec2_cp932_53"
  "trails_932 247 = Some dec2_cp932_54"
  "trails_932 248 = Some dec2_cp932_55"
  "trails_932 249 = Some dec2_cp932_56"
  "trails_932 250 = Some dec2_cp932_57"
  "trails_932 251 = Some dec2_cp932_58"
  "trails_932 252 = Some dec2_cp932_59"
  by (simp_all add: trail_row_def lead_at_932 order_at_932 row_at_932)

lemma lead_bits_932: "list_all (\<lambda>x. x = 0 \<or> x = 1) lead_cp932"
  by (simp add: lead_cp932_def)

lemma order_sound_932: "list_all (\<lambda>(x, k). x = 1 \<longrightarrow> k < 60) (zip lead_cp932 leadrow_cp932)"
  by (simp add: lead_cp932_def leadrow_cp932_def)

lemma rows_sound_932: "list_all (\<lambda>row. length row = 256) rows_cp932" "tally (\<lambda>_. True) 0 rows_cp932 = 60"
  by (simp_all add: rows_cp932_def
    row_nth(17) [OF dec2_cp932_0_def] row_nth(17) [OF dec2_cp932_1_def] row_nth(17) [OF dec2_cp932_2_def]
    row_nth(17) [OF dec2_cp932_3_def] row_nth(17) [OF dec2_cp932_4_def] row_nth(17) [OF dec2_cp932_5_def]
    row_nth(17) [OF dec2_cp932_6_def] row_nth(17) [OF dec2_cp932_7_def] row_nth(17) [OF dec2_cp932_8_def]
    row_nth(17) [OF dec2_cp932_9_def] row_nth(17) [OF dec2_cp932_10_def] row_nth(17) [OF dec2_cp932_11_def]
    row_nth(17) [OF dec2_cp932_12_def] row_nth(17) [OF dec2_cp932_13_def] row_nth(17) [OF dec2_cp932_14_def]
    row_nth(17) [OF dec2_cp932_15_def] row_nth(17) [OF dec2_cp932_16_def] row_nth(17) [OF dec2_cp932_17_def]
    row_nth(17) [OF dec2_cp932_18_def] row_nth(17) [OF dec2_cp932_19_def] row_nth(17) [OF dec2_cp932_20_def]
    row_nth(17) [OF dec2_cp932_21_def] row_nth(17) [OF dec2_cp932_22_def] row_nth(17) [OF dec2_cp932_23_def]
    row_nth(17) [OF dec2_cp932_24_def] row_nth(17) [OF dec2_cp932_25_def] row_nth(17) [OF dec2_cp932_26_def]
    row_nth(17) [OF dec2_cp932_27_def] row_nth(17) [OF dec2_cp932_28_def] row_nth(17) [OF dec2_cp932_29_def]
    row_nth(17) [OF dec2_cp932_30_def] row_nth(17) [OF dec2_cp932_31_def] row_nth(17) [OF dec2_cp932_32_def]
    row_nth(17) [OF dec2_cp932_33_def] row_nth(17) [OF dec2_cp932_34_def] row_nth(17) [OF dec2_cp932_35_def]
    row_nth(17) [OF dec2_cp932_36_def] row_nth(17) [OF dec2_cp932_37_def] row_nth(17) [OF dec2_cp932_38_def]
    row_nth(17) [OF dec2_cp932_39_def] row_nth(17) [OF dec2_cp932_40_def] row_nth(17) [OF dec2_cp932_41_def]
    row_nth(17) [OF dec2_cp932_42_def] row_nth(17) [OF dec2_cp932_43_def] row_nth(17) [OF dec2_cp932_44_def]
    row_nth(17) [OF dec2_cp932_45_def] row_nth(17) [OF dec2_cp932_46_def] row_nth(17) [OF dec2_cp932_47_def]
    row_nth(17) [OF dec2_cp932_48_def] row_nth(17) [OF dec2_cp932_49_def] row_nth(17) [OF dec2_cp932_50_def]
    row_nth(17) [OF dec2_cp932_51_def] row_nth(17) [OF dec2_cp932_52_def] row_nth(17) [OF dec2_cp932_53_def]
    row_nth(17) [OF dec2_cp932_54_def] row_nth(17) [OF dec2_cp932_55_def] row_nth(17) [OF dec2_cp932_56_def]
    row_nth(17) [OF dec2_cp932_57_def] row_nth(17) [OF dec2_cp932_58_def] row_nth(17) [OF dec2_cp932_59_def])

end
