(* ===== verification/Cp932.thy ===== *)
theory Cp932
  imports Cp932Lead Cp932Rev
begin

text \<open>
  Page 932 of \<^verbatim>\<open>src/src/charset_tables_data.c\<close>, put together.
\<close>

definition rev_cp932 :: "(nat \<times> nat) list" where
  "rev_cp932 = concat [
   rev_cp932_0, rev_cp932_1, rev_cp932_2, rev_cp932_3, rev_cp932_4, rev_cp932_5, rev_cp932_6, rev_cp932_7,
   rev_cp932_8, rev_cp932_9, rev_cp932_10, rev_cp932_11, rev_cp932_12, rev_cp932_13, rev_cp932_14,
   rev_cp932_15, rev_cp932_16, rev_cp932_17, rev_cp932_18, rev_cp932_19, rev_cp932_20, rev_cp932_21,
   rev_cp932_22, rev_cp932_23, rev_cp932_24, rev_cp932_25, rev_cp932_26, rev_cp932_27, rev_cp932_28,
   rev_cp932_29]"

definition page_932 :: CpPage where
  "page_932 = db_page 932 dec1_cp932 lead_cp932 leadrow_cp932 rows_cp932 rev_cp932"

end
