(* ===== verification/Cp936Lead.thy ===== *)
theory Cp936Lead
  imports Cp936RowsA Cp936RowsB
begin

text \<open>
  Page 936 of \<^verbatim>\<open>src/src/charset_tables_data.c\<close>: its single bytes, its lead bytes and the order of
  its rows, and the lookups that they give.
\<close>

definition dec1_cp936 :: "nat list" where
  "dec1_cp936 =
   [0x0000, 0x0001, 0x0002, 0x0003, 0x0004, 0x0005, 0x0006, 0x0007, 0x0008, 0x0009, 0x000A, 0x000B, 0x000C,
    0x000D, 0x000E, 0x000F, 0x0010, 0x0011, 0x0012, 0x0013, 0x0014, 0x0015, 0x0016, 0x0017, 0x0018, 0x0019,
    0x001A, 0x001B, 0x001C, 0x001D, 0x001E, 0x001F] @
   [0x0020, 0x0021, 0x0022, 0x0023, 0x0024, 0x0025, 0x0026, 0x0027, 0x0028, 0x0029, 0x002A, 0x002B, 0x002C,
    0x002D, 0x002E, 0x002F, 0x0030, 0x0031, 0x0032, 0x0033, 0x0034, 0x0035, 0x0036, 0x0037, 0x0038, 0x0039,
    0x003A, 0x003B, 0x003C, 0x003D, 0x003E, 0x003F] @
   [0x0040, 0x0041, 0x0042, 0x0043, 0x0044, 0x0045, 0x0046, 0x0047, 0x0048, 0x0049, 0x004A, 0x004B, 0x004C,
    0x004D, 0x004E, 0x004F, 0x0050, 0x0051, 0x0052, 0x0053, 0x0054, 0x0055, 0x0056, 0x0057, 0x0058, 0x0059,
    0x005A, 0x005B, 0x005C, 0x005D, 0x005E, 0x005F] @
   [0x0060, 0x0061, 0x0062, 0x0063, 0x0064, 0x0065, 0x0066, 0x0067, 0x0068, 0x0069, 0x006A, 0x006B, 0x006C,
    0x006D, 0x006E, 0x006F, 0x0070, 0x0071, 0x0072, 0x0073, 0x0074, 0x0075, 0x0076, 0x0077, 0x0078, 0x0079,
    0x007A, 0x007B, 0x007C, 0x007D, 0x007E, 0x007F] @
   [0x20AC, 0xFFFD, 0xFFFD, 0xFFFD, 0xFFFD, 0xFFFD, 0xFFFD, 0xFFFD, 0xFFFD, 0xFFFD, 0xFFFD, 0xFFFD, 0xFFFD,
    0xFFFD, 0xFFFD, 0xFFFD, 0xFFFD, 0xFFFD, 0xFFFD, 0xFFFD, 0xFFFD, 0xFFFD, 0xFFFD, 0xFFFD, 0xFFFD, 0xFFFD,
    0xFFFD, 0xFFFD, 0xFFFD, 0xFFFD, 0xFFFD, 0xFFFD] @
   [0xFFFD, 0xFFFD, 0xFFFD, 0xFFFD, 0xFFFD, 0xFFFD, 0xFFFD, 0xFFFD, 0xFFFD, 0xFFFD, 0xFFFD, 0xFFFD, 0xFFFD,
    0xFFFD, 0xFFFD, 0xFFFD, 0xFFFD, 0xFFFD, 0xFFFD, 0xFFFD, 0xFFFD, 0xFFFD, 0xFFFD, 0xFFFD, 0xFFFD, 0xFFFD,
    0xFFFD, 0xFFFD, 0xFFFD, 0xFFFD, 0xFFFD, 0xFFFD] @
   [0xFFFD, 0xFFFD, 0xFFFD, 0xFFFD, 0xFFFD, 0xFFFD, 0xFFFD, 0xFFFD, 0xFFFD, 0xFFFD, 0xFFFD, 0xFFFD, 0xFFFD,
    0xFFFD, 0xFFFD, 0xFFFD, 0xFFFD, 0xFFFD, 0xFFFD, 0xFFFD, 0xFFFD, 0xFFFD, 0xFFFD, 0xFFFD, 0xFFFD, 0xFFFD,
    0xFFFD, 0xFFFD, 0xFFFD, 0xFFFD, 0xFFFD, 0xFFFD] @
   [0xFFFD, 0xFFFD, 0xFFFD, 0xFFFD, 0xFFFD, 0xFFFD, 0xFFFD, 0xFFFD, 0xFFFD, 0xFFFD, 0xFFFD, 0xFFFD, 0xFFFD,
    0xFFFD, 0xFFFD, 0xFFFD, 0xFFFD, 0xFFFD, 0xFFFD, 0xFFFD, 0xFFFD, 0xFFFD, 0xFFFD, 0xFFFD, 0xFFFD, 0xFFFD,
    0xFFFD, 0xFFFD, 0xFFFD, 0xFFFD, 0xFFFD, 0xFFFD]"

lemmas dec1_at_936 = row_nth [OF dec1_cp936_def]

definition lead_cp936 :: "nat list" where
  "lead_cp936 =
   [0, 0, 0, 0, 0, 0, 0, 0, 0, 0, 0, 0, 0, 0, 0, 0, 0, 0, 0, 0, 0, 0, 0, 0, 0, 0, 0, 0, 0, 0, 0, 0] @
   [0, 0, 0, 0, 0, 0, 0, 0, 0, 0, 0, 0, 0, 0, 0, 0, 0, 0, 0, 0, 0, 0, 0, 0, 0, 0, 0, 0, 0, 0, 0, 0] @
   [0, 0, 0, 0, 0, 0, 0, 0, 0, 0, 0, 0, 0, 0, 0, 0, 0, 0, 0, 0, 0, 0, 0, 0, 0, 0, 0, 0, 0, 0, 0, 0] @
   [0, 0, 0, 0, 0, 0, 0, 0, 0, 0, 0, 0, 0, 0, 0, 0, 0, 0, 0, 0, 0, 0, 0, 0, 0, 0, 0, 0, 0, 0, 0, 0] @
   [0, 1, 1, 1, 1, 1, 1, 1, 1, 1, 1, 1, 1, 1, 1, 1, 1, 1, 1, 1, 1, 1, 1, 1, 1, 1, 1, 1, 1, 1, 1, 1] @
   [1, 1, 1, 1, 1, 1, 1, 1, 1, 1, 1, 1, 1, 1, 1, 1, 1, 1, 1, 1, 1, 1, 1, 1, 1, 1, 1, 1, 1, 1, 1, 1] @
   [1, 1, 1, 1, 1, 1, 1, 1, 1, 1, 1, 1, 1, 1, 1, 1, 1, 1, 1, 1, 1, 1, 1, 1, 1, 1, 1, 1, 1, 1, 1, 1] @
   [1, 1, 1, 1, 1, 1, 1, 1, 1, 1, 1, 1, 1, 1, 1, 1, 1, 1, 1, 1, 1, 1, 1, 1, 1, 1, 1, 1, 1, 1, 1, 0]"

lemmas lead_at_936 = row_nth [OF lead_cp936_def]

definition leadrow_cp936 :: "int list" where
  "leadrow_cp936 =
   [- 1, - 1, - 1, - 1, - 1, - 1, - 1, - 1, - 1, - 1, - 1, - 1, - 1, - 1, - 1, - 1, - 1, - 1, - 1, - 1, - 1,
    - 1, - 1, - 1, - 1, - 1, - 1, - 1, - 1, - 1, - 1, - 1] @
   [- 1, - 1, - 1, - 1, - 1, - 1, - 1, - 1, - 1, - 1, - 1, - 1, - 1, - 1, - 1, - 1, - 1, - 1, - 1, - 1, - 1,
    - 1, - 1, - 1, - 1, - 1, - 1, - 1, - 1, - 1, - 1, - 1] @
   [- 1, - 1, - 1, - 1, - 1, - 1, - 1, - 1, - 1, - 1, - 1, - 1, - 1, - 1, - 1, - 1, - 1, - 1, - 1, - 1, - 1,
    - 1, - 1, - 1, - 1, - 1, - 1, - 1, - 1, - 1, - 1, - 1] @
   [- 1, - 1, - 1, - 1, - 1, - 1, - 1, - 1, - 1, - 1, - 1, - 1, - 1, - 1, - 1, - 1, - 1, - 1, - 1, - 1, - 1,
    - 1, - 1, - 1, - 1, - 1, - 1, - 1, - 1, - 1, - 1, - 1] @
   [- 1, 0, 1, 2, 3, 4, 5, 6, 7, 8, 9, 10, 11, 12, 13, 14, 15, 16, 17, 18, 19, 20, 21, 22, 23, 24, 25, 26, 27,
    28, 29, 30] @
   [31, 32, 33, 34, 35, 36, 37, 38, 39, 40, 41, 42, 43, 44, 45, 46, 47, 48, 49, 50, 51, 52, 53, 54, 55, 56, 57,
    58, 59, 60, 61, 62] @
   [63, 64, 65, 66, 67, 68, 69, 70, 71, 72, 73, 74, 75, 76, 77, 78, 79, 80, 81, 82, 83, 84, 85, 86, 87, 88, 89,
    90, 91, 92, 93, 94] @
   [95, 96, 97, 98, 99, 100, 101, 102, 103, 104, 105, 106, 107, 108, 109, 110, 111, 112, 113, 114, 115, 116,
    117, 118, 119, 120, 121, 122, 123, 124, 125, - 1]"

lemmas order_at_936 = row_nth [OF leadrow_cp936_def]

definition rows_cp936 :: "nat list list" where
  "rows_cp936 = [
   dec2_cp936_0, dec2_cp936_1, dec2_cp936_2, dec2_cp936_3, dec2_cp936_4, dec2_cp936_5, dec2_cp936_6,
   dec2_cp936_7, dec2_cp936_8, dec2_cp936_9, dec2_cp936_10, dec2_cp936_11, dec2_cp936_12, dec2_cp936_13,
   dec2_cp936_14, dec2_cp936_15, dec2_cp936_16, dec2_cp936_17, dec2_cp936_18, dec2_cp936_19, dec2_cp936_20,
   dec2_cp936_21, dec2_cp936_22, dec2_cp936_23, dec2_cp936_24, dec2_cp936_25, dec2_cp936_26, dec2_cp936_27,
   dec2_cp936_28, dec2_cp936_29, dec2_cp936_30, dec2_cp936_31, dec2_cp936_32, dec2_cp936_33, dec2_cp936_34,
   dec2_cp936_35, dec2_cp936_36, dec2_cp936_37, dec2_cp936_38, dec2_cp936_39, dec2_cp936_40, dec2_cp936_41,
   dec2_cp936_42, dec2_cp936_43, dec2_cp936_44, dec2_cp936_45, dec2_cp936_46, dec2_cp936_47, dec2_cp936_48,
   dec2_cp936_49, dec2_cp936_50, dec2_cp936_51, dec2_cp936_52, dec2_cp936_53, dec2_cp936_54, dec2_cp936_55,
   dec2_cp936_56, dec2_cp936_57, dec2_cp936_58, dec2_cp936_59, dec2_cp936_60, dec2_cp936_61, dec2_cp936_62,
   dec2_cp936_63, dec2_cp936_64, dec2_cp936_65, dec2_cp936_66, dec2_cp936_67, dec2_cp936_68, dec2_cp936_69,
   dec2_cp936_70, dec2_cp936_71, dec2_cp936_72, dec2_cp936_73, dec2_cp936_74, dec2_cp936_75, dec2_cp936_76,
   dec2_cp936_77, dec2_cp936_78, dec2_cp936_79, dec2_cp936_80, dec2_cp936_81, dec2_cp936_82, dec2_cp936_83,
   dec2_cp936_84, dec2_cp936_85, dec2_cp936_86, dec2_cp936_87, dec2_cp936_88, dec2_cp936_89, dec2_cp936_90,
   dec2_cp936_91, dec2_cp936_92, dec2_cp936_93, dec2_cp936_94, dec2_cp936_95, dec2_cp936_96, dec2_cp936_97,
   dec2_cp936_98, dec2_cp936_99, dec2_cp936_100, dec2_cp936_101, dec2_cp936_102, dec2_cp936_103,
   dec2_cp936_104, dec2_cp936_105, dec2_cp936_106, dec2_cp936_107, dec2_cp936_108, dec2_cp936_109,
   dec2_cp936_110, dec2_cp936_111, dec2_cp936_112, dec2_cp936_113, dec2_cp936_114, dec2_cp936_115,
   dec2_cp936_116, dec2_cp936_117, dec2_cp936_118, dec2_cp936_119, dec2_cp936_120, dec2_cp936_121,
   dec2_cp936_122, dec2_cp936_123, dec2_cp936_124, dec2_cp936_125]"

abbreviation trails_936 :: "nat \<Rightarrow> nat list option" where
  "trails_936 \<equiv> trail_row lead_cp936 leadrow_cp936 rows_cp936"

abbreviation single_936 :: "nat \<Rightarrow> nat option" where
  "single_936 \<equiv> single_unit lead_cp936 dec1_cp936"

lemma row_at_936:
  "rows_cp936 ! 0 = dec2_cp936_0"
  "rows_cp936 ! Suc 0 = dec2_cp936_1"
  "rows_cp936 ! 2 = dec2_cp936_2"
  "rows_cp936 ! 3 = dec2_cp936_3"
  "rows_cp936 ! 4 = dec2_cp936_4"
  "rows_cp936 ! 5 = dec2_cp936_5"
  "rows_cp936 ! 6 = dec2_cp936_6"
  "rows_cp936 ! 7 = dec2_cp936_7"
  "rows_cp936 ! 8 = dec2_cp936_8"
  "rows_cp936 ! 9 = dec2_cp936_9"
  "rows_cp936 ! 10 = dec2_cp936_10"
  "rows_cp936 ! 11 = dec2_cp936_11"
  "rows_cp936 ! 12 = dec2_cp936_12"
  "rows_cp936 ! 13 = dec2_cp936_13"
  "rows_cp936 ! 14 = dec2_cp936_14"
  "rows_cp936 ! 15 = dec2_cp936_15"
  "rows_cp936 ! 16 = dec2_cp936_16"
  "rows_cp936 ! 17 = dec2_cp936_17"
  "rows_cp936 ! 18 = dec2_cp936_18"
  "rows_cp936 ! 19 = dec2_cp936_19"
  "rows_cp936 ! 20 = dec2_cp936_20"
  "rows_cp936 ! 21 = dec2_cp936_21"
  "rows_cp936 ! 22 = dec2_cp936_22"
  "rows_cp936 ! 23 = dec2_cp936_23"
  "rows_cp936 ! 24 = dec2_cp936_24"
  "rows_cp936 ! 25 = dec2_cp936_25"
  "rows_cp936 ! 26 = dec2_cp936_26"
  "rows_cp936 ! 27 = dec2_cp936_27"
  "rows_cp936 ! 28 = dec2_cp936_28"
  "rows_cp936 ! 29 = dec2_cp936_29"
  "rows_cp936 ! 30 = dec2_cp936_30"
  "rows_cp936 ! 31 = dec2_cp936_31"
  "rows_cp936 ! 32 = dec2_cp936_32"
  "rows_cp936 ! 33 = dec2_cp936_33"
  "rows_cp936 ! 34 = dec2_cp936_34"
  "rows_cp936 ! 35 = dec2_cp936_35"
  "rows_cp936 ! 36 = dec2_cp936_36"
  "rows_cp936 ! 37 = dec2_cp936_37"
  "rows_cp936 ! 38 = dec2_cp936_38"
  "rows_cp936 ! 39 = dec2_cp936_39"
  "rows_cp936 ! 40 = dec2_cp936_40"
  "rows_cp936 ! 41 = dec2_cp936_41"
  "rows_cp936 ! 42 = dec2_cp936_42"
  "rows_cp936 ! 43 = dec2_cp936_43"
  "rows_cp936 ! 44 = dec2_cp936_44"
  "rows_cp936 ! 45 = dec2_cp936_45"
  "rows_cp936 ! 46 = dec2_cp936_46"
  "rows_cp936 ! 47 = dec2_cp936_47"
  "rows_cp936 ! 48 = dec2_cp936_48"
  "rows_cp936 ! 49 = dec2_cp936_49"
  "rows_cp936 ! 50 = dec2_cp936_50"
  "rows_cp936 ! 51 = dec2_cp936_51"
  "rows_cp936 ! 52 = dec2_cp936_52"
  "rows_cp936 ! 53 = dec2_cp936_53"
  "rows_cp936 ! 54 = dec2_cp936_54"
  "rows_cp936 ! 55 = dec2_cp936_55"
  "rows_cp936 ! 56 = dec2_cp936_56"
  "rows_cp936 ! 57 = dec2_cp936_57"
  "rows_cp936 ! 58 = dec2_cp936_58"
  "rows_cp936 ! 59 = dec2_cp936_59"
  "rows_cp936 ! 60 = dec2_cp936_60"
  "rows_cp936 ! 61 = dec2_cp936_61"
  "rows_cp936 ! 62 = dec2_cp936_62"
  "rows_cp936 ! 63 = dec2_cp936_63"
  "rows_cp936 ! 64 = dec2_cp936_64"
  "rows_cp936 ! 65 = dec2_cp936_65"
  "rows_cp936 ! 66 = dec2_cp936_66"
  "rows_cp936 ! 67 = dec2_cp936_67"
  "rows_cp936 ! 68 = dec2_cp936_68"
  "rows_cp936 ! 69 = dec2_cp936_69"
  "rows_cp936 ! 70 = dec2_cp936_70"
  "rows_cp936 ! 71 = dec2_cp936_71"
  "rows_cp936 ! 72 = dec2_cp936_72"
  "rows_cp936 ! 73 = dec2_cp936_73"
  "rows_cp936 ! 74 = dec2_cp936_74"
  "rows_cp936 ! 75 = dec2_cp936_75"
  "rows_cp936 ! 76 = dec2_cp936_76"
  "rows_cp936 ! 77 = dec2_cp936_77"
  "rows_cp936 ! 78 = dec2_cp936_78"
  "rows_cp936 ! 79 = dec2_cp936_79"
  "rows_cp936 ! 80 = dec2_cp936_80"
  "rows_cp936 ! 81 = dec2_cp936_81"
  "rows_cp936 ! 82 = dec2_cp936_82"
  "rows_cp936 ! 83 = dec2_cp936_83"
  "rows_cp936 ! 84 = dec2_cp936_84"
  "rows_cp936 ! 85 = dec2_cp936_85"
  "rows_cp936 ! 86 = dec2_cp936_86"
  "rows_cp936 ! 87 = dec2_cp936_87"
  "rows_cp936 ! 88 = dec2_cp936_88"
  "rows_cp936 ! 89 = dec2_cp936_89"
  "rows_cp936 ! 90 = dec2_cp936_90"
  "rows_cp936 ! 91 = dec2_cp936_91"
  "rows_cp936 ! 92 = dec2_cp936_92"
  "rows_cp936 ! 93 = dec2_cp936_93"
  "rows_cp936 ! 94 = dec2_cp936_94"
  "rows_cp936 ! 95 = dec2_cp936_95"
  "rows_cp936 ! 96 = dec2_cp936_96"
  "rows_cp936 ! 97 = dec2_cp936_97"
  "rows_cp936 ! 98 = dec2_cp936_98"
  "rows_cp936 ! 99 = dec2_cp936_99"
  "rows_cp936 ! 100 = dec2_cp936_100"
  "rows_cp936 ! 101 = dec2_cp936_101"
  "rows_cp936 ! 102 = dec2_cp936_102"
  "rows_cp936 ! 103 = dec2_cp936_103"
  "rows_cp936 ! 104 = dec2_cp936_104"
  "rows_cp936 ! 105 = dec2_cp936_105"
  "rows_cp936 ! 106 = dec2_cp936_106"
  "rows_cp936 ! 107 = dec2_cp936_107"
  "rows_cp936 ! 108 = dec2_cp936_108"
  "rows_cp936 ! 109 = dec2_cp936_109"
  "rows_cp936 ! 110 = dec2_cp936_110"
  "rows_cp936 ! 111 = dec2_cp936_111"
  "rows_cp936 ! 112 = dec2_cp936_112"
  "rows_cp936 ! 113 = dec2_cp936_113"
  "rows_cp936 ! 114 = dec2_cp936_114"
  "rows_cp936 ! 115 = dec2_cp936_115"
  "rows_cp936 ! 116 = dec2_cp936_116"
  "rows_cp936 ! 117 = dec2_cp936_117"
  "rows_cp936 ! 118 = dec2_cp936_118"
  "rows_cp936 ! 119 = dec2_cp936_119"
  "rows_cp936 ! 120 = dec2_cp936_120"
  "rows_cp936 ! 121 = dec2_cp936_121"
  "rows_cp936 ! 122 = dec2_cp936_122"
  "rows_cp936 ! 123 = dec2_cp936_123"
  "rows_cp936 ! 124 = dec2_cp936_124"
  "rows_cp936 ! 125 = dec2_cp936_125"
  by (simp_all add: table_entries [OF rows_cp936_def, simplified])

lemma trail_at_936:
  "trails_936 0 = None"
  "trails_936 129 = Some dec2_cp936_0"
  "trails_936 130 = Some dec2_cp936_1"
  "trails_936 131 = Some dec2_cp936_2"
  "trails_936 132 = Some dec2_cp936_3"
  "trails_936 133 = Some dec2_cp936_4"
  "trails_936 134 = Some dec2_cp936_5"
  "trails_936 135 = Some dec2_cp936_6"
  "trails_936 136 = Some dec2_cp936_7"
  "trails_936 137 = Some dec2_cp936_8"
  "trails_936 138 = Some dec2_cp936_9"
  "trails_936 139 = Some dec2_cp936_10"
  "trails_936 140 = Some dec2_cp936_11"
  "trails_936 141 = Some dec2_cp936_12"
  "trails_936 142 = Some dec2_cp936_13"
  "trails_936 143 = Some dec2_cp936_14"
  "trails_936 144 = Some dec2_cp936_15"
  "trails_936 145 = Some dec2_cp936_16"
  "trails_936 146 = Some dec2_cp936_17"
  "trails_936 147 = Some dec2_cp936_18"
  "trails_936 148 = Some dec2_cp936_19"
  "trails_936 149 = Some dec2_cp936_20"
  "trails_936 150 = Some dec2_cp936_21"
  "trails_936 151 = Some dec2_cp936_22"
  "trails_936 152 = Some dec2_cp936_23"
  "trails_936 153 = Some dec2_cp936_24"
  "trails_936 154 = Some dec2_cp936_25"
  "trails_936 155 = Some dec2_cp936_26"
  "trails_936 156 = Some dec2_cp936_27"
  "trails_936 157 = Some dec2_cp936_28"
  "trails_936 158 = Some dec2_cp936_29"
  "trails_936 159 = Some dec2_cp936_30"
  "trails_936 160 = Some dec2_cp936_31"
  "trails_936 161 = Some dec2_cp936_32"
  "trails_936 162 = Some dec2_cp936_33"
  "trails_936 163 = Some dec2_cp936_34"
  "trails_936 164 = Some dec2_cp936_35"
  "trails_936 165 = Some dec2_cp936_36"
  "trails_936 166 = Some dec2_cp936_37"
  "trails_936 167 = Some dec2_cp936_38"
  "trails_936 168 = Some dec2_cp936_39"
  "trails_936 169 = Some dec2_cp936_40"
  "trails_936 170 = Some dec2_cp936_41"
  "trails_936 171 = Some dec2_cp936_42"
  "trails_936 172 = Some dec2_cp936_43"
  "trails_936 173 = Some dec2_cp936_44"
  "trails_936 174 = Some dec2_cp936_45"
  "trails_936 175 = Some dec2_cp936_46"
  "trails_936 176 = Some dec2_cp936_47"
  "trails_936 177 = Some dec2_cp936_48"
  "trails_936 178 = Some dec2_cp936_49"
  "trails_936 179 = Some dec2_cp936_50"
  "trails_936 180 = Some dec2_cp936_51"
  "trails_936 181 = Some dec2_cp936_52"
  "trails_936 182 = Some dec2_cp936_53"
  "trails_936 183 = Some dec2_cp936_54"
  "trails_936 184 = Some dec2_cp936_55"
  "trails_936 185 = Some dec2_cp936_56"
  "trails_936 186 = Some dec2_cp936_57"
  "trails_936 187 = Some dec2_cp936_58"
  "trails_936 188 = Some dec2_cp936_59"
  "trails_936 189 = Some dec2_cp936_60"
  "trails_936 190 = Some dec2_cp936_61"
  "trails_936 191 = Some dec2_cp936_62"
  "trails_936 192 = Some dec2_cp936_63"
  "trails_936 193 = Some dec2_cp936_64"
  "trails_936 194 = Some dec2_cp936_65"
  "trails_936 195 = Some dec2_cp936_66"
  "trails_936 196 = Some dec2_cp936_67"
  "trails_936 197 = Some dec2_cp936_68"
  "trails_936 198 = Some dec2_cp936_69"
  "trails_936 199 = Some dec2_cp936_70"
  "trails_936 200 = Some dec2_cp936_71"
  "trails_936 201 = Some dec2_cp936_72"
  "trails_936 202 = Some dec2_cp936_73"
  "trails_936 203 = Some dec2_cp936_74"
  "trails_936 204 = Some dec2_cp936_75"
  "trails_936 205 = Some dec2_cp936_76"
  "trails_936 206 = Some dec2_cp936_77"
  "trails_936 207 = Some dec2_cp936_78"
  "trails_936 208 = Some dec2_cp936_79"
  "trails_936 209 = Some dec2_cp936_80"
  "trails_936 210 = Some dec2_cp936_81"
  "trails_936 211 = Some dec2_cp936_82"
  "trails_936 212 = Some dec2_cp936_83"
  "trails_936 213 = Some dec2_cp936_84"
  "trails_936 214 = Some dec2_cp936_85"
  "trails_936 215 = Some dec2_cp936_86"
  "trails_936 216 = Some dec2_cp936_87"
  "trails_936 217 = Some dec2_cp936_88"
  "trails_936 218 = Some dec2_cp936_89"
  "trails_936 219 = Some dec2_cp936_90"
  "trails_936 220 = Some dec2_cp936_91"
  "trails_936 221 = Some dec2_cp936_92"
  "trails_936 222 = Some dec2_cp936_93"
  "trails_936 223 = Some dec2_cp936_94"
  "trails_936 224 = Some dec2_cp936_95"
  "trails_936 225 = Some dec2_cp936_96"
  "trails_936 226 = Some dec2_cp936_97"
  "trails_936 227 = Some dec2_cp936_98"
  "trails_936 228 = Some dec2_cp936_99"
  "trails_936 229 = Some dec2_cp936_100"
  "trails_936 230 = Some dec2_cp936_101"
  "trails_936 231 = Some dec2_cp936_102"
  "trails_936 232 = Some dec2_cp936_103"
  "trails_936 233 = Some dec2_cp936_104"
  "trails_936 234 = Some dec2_cp936_105"
  "trails_936 235 = Some dec2_cp936_106"
  "trails_936 236 = Some dec2_cp936_107"
  "trails_936 237 = Some dec2_cp936_108"
  "trails_936 238 = Some dec2_cp936_109"
  "trails_936 239 = Some dec2_cp936_110"
  "trails_936 240 = Some dec2_cp936_111"
  "trails_936 241 = Some dec2_cp936_112"
  "trails_936 242 = Some dec2_cp936_113"
  "trails_936 243 = Some dec2_cp936_114"
  "trails_936 244 = Some dec2_cp936_115"
  "trails_936 245 = Some dec2_cp936_116"
  "trails_936 246 = Some dec2_cp936_117"
  "trails_936 247 = Some dec2_cp936_118"
  "trails_936 248 = Some dec2_cp936_119"
  "trails_936 249 = Some dec2_cp936_120"
  "trails_936 250 = Some dec2_cp936_121"
  "trails_936 251 = Some dec2_cp936_122"
  "trails_936 252 = Some dec2_cp936_123"
  "trails_936 253 = Some dec2_cp936_124"
  "trails_936 254 = Some dec2_cp936_125"
  by (simp_all add: trail_row_def lead_at_936 order_at_936 row_at_936)

lemma lead_bits_936: "list_all (\<lambda>x. x = 0 \<or> x = 1) lead_cp936"
  by (simp add: lead_cp936_def)

lemma order_sound_936: "list_all (\<lambda>(x, k). x = 1 \<longrightarrow> k < 126) (zip lead_cp936 leadrow_cp936)"
  by (simp add: lead_cp936_def leadrow_cp936_def)

lemma rows_sound_936: "list_all (\<lambda>row. length row = 256) rows_cp936" "tally (\<lambda>_. True) 0 rows_cp936 = 126"
  by (simp_all add: rows_cp936_def
    row_nth(17) [OF dec2_cp936_0_def] row_nth(17) [OF dec2_cp936_1_def] row_nth(17) [OF dec2_cp936_2_def]
    row_nth(17) [OF dec2_cp936_3_def] row_nth(17) [OF dec2_cp936_4_def] row_nth(17) [OF dec2_cp936_5_def]
    row_nth(17) [OF dec2_cp936_6_def] row_nth(17) [OF dec2_cp936_7_def] row_nth(17) [OF dec2_cp936_8_def]
    row_nth(17) [OF dec2_cp936_9_def] row_nth(17) [OF dec2_cp936_10_def] row_nth(17) [OF dec2_cp936_11_def]
    row_nth(17) [OF dec2_cp936_12_def] row_nth(17) [OF dec2_cp936_13_def] row_nth(17) [OF dec2_cp936_14_def]
    row_nth(17) [OF dec2_cp936_15_def] row_nth(17) [OF dec2_cp936_16_def] row_nth(17) [OF dec2_cp936_17_def]
    row_nth(17) [OF dec2_cp936_18_def] row_nth(17) [OF dec2_cp936_19_def] row_nth(17) [OF dec2_cp936_20_def]
    row_nth(17) [OF dec2_cp936_21_def] row_nth(17) [OF dec2_cp936_22_def] row_nth(17) [OF dec2_cp936_23_def]
    row_nth(17) [OF dec2_cp936_24_def] row_nth(17) [OF dec2_cp936_25_def] row_nth(17) [OF dec2_cp936_26_def]
    row_nth(17) [OF dec2_cp936_27_def] row_nth(17) [OF dec2_cp936_28_def] row_nth(17) [OF dec2_cp936_29_def]
    row_nth(17) [OF dec2_cp936_30_def] row_nth(17) [OF dec2_cp936_31_def] row_nth(17) [OF dec2_cp936_32_def]
    row_nth(17) [OF dec2_cp936_33_def] row_nth(17) [OF dec2_cp936_34_def] row_nth(17) [OF dec2_cp936_35_def]
    row_nth(17) [OF dec2_cp936_36_def] row_nth(17) [OF dec2_cp936_37_def] row_nth(17) [OF dec2_cp936_38_def]
    row_nth(17) [OF dec2_cp936_39_def] row_nth(17) [OF dec2_cp936_40_def] row_nth(17) [OF dec2_cp936_41_def]
    row_nth(17) [OF dec2_cp936_42_def] row_nth(17) [OF dec2_cp936_43_def] row_nth(17) [OF dec2_cp936_44_def]
    row_nth(17) [OF dec2_cp936_45_def] row_nth(17) [OF dec2_cp936_46_def] row_nth(17) [OF dec2_cp936_47_def]
    row_nth(17) [OF dec2_cp936_48_def] row_nth(17) [OF dec2_cp936_49_def] row_nth(17) [OF dec2_cp936_50_def]
    row_nth(17) [OF dec2_cp936_51_def] row_nth(17) [OF dec2_cp936_52_def] row_nth(17) [OF dec2_cp936_53_def]
    row_nth(17) [OF dec2_cp936_54_def] row_nth(17) [OF dec2_cp936_55_def] row_nth(17) [OF dec2_cp936_56_def]
    row_nth(17) [OF dec2_cp936_57_def] row_nth(17) [OF dec2_cp936_58_def] row_nth(17) [OF dec2_cp936_59_def]
    row_nth(17) [OF dec2_cp936_60_def] row_nth(17) [OF dec2_cp936_61_def] row_nth(17) [OF dec2_cp936_62_def]
    row_nth(17) [OF dec2_cp936_63_def] row_nth(17) [OF dec2_cp936_64_def] row_nth(17) [OF dec2_cp936_65_def]
    row_nth(17) [OF dec2_cp936_66_def] row_nth(17) [OF dec2_cp936_67_def] row_nth(17) [OF dec2_cp936_68_def]
    row_nth(17) [OF dec2_cp936_69_def] row_nth(17) [OF dec2_cp936_70_def] row_nth(17) [OF dec2_cp936_71_def]
    row_nth(17) [OF dec2_cp936_72_def] row_nth(17) [OF dec2_cp936_73_def] row_nth(17) [OF dec2_cp936_74_def]
    row_nth(17) [OF dec2_cp936_75_def] row_nth(17) [OF dec2_cp936_76_def] row_nth(17) [OF dec2_cp936_77_def]
    row_nth(17) [OF dec2_cp936_78_def] row_nth(17) [OF dec2_cp936_79_def] row_nth(17) [OF dec2_cp936_80_def]
    row_nth(17) [OF dec2_cp936_81_def] row_nth(17) [OF dec2_cp936_82_def] row_nth(17) [OF dec2_cp936_83_def]
    row_nth(17) [OF dec2_cp936_84_def] row_nth(17) [OF dec2_cp936_85_def] row_nth(17) [OF dec2_cp936_86_def]
    row_nth(17) [OF dec2_cp936_87_def] row_nth(17) [OF dec2_cp936_88_def] row_nth(17) [OF dec2_cp936_89_def]
    row_nth(17) [OF dec2_cp936_90_def] row_nth(17) [OF dec2_cp936_91_def] row_nth(17) [OF dec2_cp936_92_def]
    row_nth(17) [OF dec2_cp936_93_def] row_nth(17) [OF dec2_cp936_94_def] row_nth(17) [OF dec2_cp936_95_def]
    row_nth(17) [OF dec2_cp936_96_def] row_nth(17) [OF dec2_cp936_97_def] row_nth(17) [OF dec2_cp936_98_def]
    row_nth(17) [OF dec2_cp936_99_def] row_nth(17) [OF dec2_cp936_100_def] row_nth(17) [OF dec2_cp936_101_def]
    row_nth(17) [OF dec2_cp936_102_def] row_nth(17) [OF dec2_cp936_103_def] row_nth(17) [OF dec2_cp936_104_def]
    row_nth(17) [OF dec2_cp936_105_def] row_nth(17) [OF dec2_cp936_106_def] row_nth(17) [OF dec2_cp936_107_def]
    row_nth(17) [OF dec2_cp936_108_def] row_nth(17) [OF dec2_cp936_109_def] row_nth(17) [OF dec2_cp936_110_def]
    row_nth(17) [OF dec2_cp936_111_def] row_nth(17) [OF dec2_cp936_112_def] row_nth(17) [OF dec2_cp936_113_def]
    row_nth(17) [OF dec2_cp936_114_def] row_nth(17) [OF dec2_cp936_115_def] row_nth(17) [OF dec2_cp936_116_def]
    row_nth(17) [OF dec2_cp936_117_def] row_nth(17) [OF dec2_cp936_118_def] row_nth(17) [OF dec2_cp936_119_def]
    row_nth(17) [OF dec2_cp936_120_def] row_nth(17) [OF dec2_cp936_121_def] row_nth(17) [OF dec2_cp936_122_def]
    row_nth(17) [OF dec2_cp936_123_def] row_nth(17) [OF dec2_cp936_124_def] row_nth(17) [OF dec2_cp936_125_def])

end
