(* ===== verification/Cp936.thy ===== *)
theory Cp936
  imports Cp936Lead Cp936RevA Cp936RevB
begin

text \<open>
  Page 936 of \<^verbatim>\<open>src/src/charset_tables_data.c\<close>, put together.
\<close>

definition rev_cp936 :: "(nat \<times> nat) list" where
  "rev_cp936 = concat [
   rev_cp936_0, rev_cp936_1, rev_cp936_2, rev_cp936_3, rev_cp936_4, rev_cp936_5, rev_cp936_6, rev_cp936_7,
   rev_cp936_8, rev_cp936_9, rev_cp936_10, rev_cp936_11, rev_cp936_12, rev_cp936_13, rev_cp936_14,
   rev_cp936_15, rev_cp936_16, rev_cp936_17, rev_cp936_18, rev_cp936_19, rev_cp936_20, rev_cp936_21,
   rev_cp936_22, rev_cp936_23, rev_cp936_24, rev_cp936_25, rev_cp936_26, rev_cp936_27, rev_cp936_28,
   rev_cp936_29, rev_cp936_30, rev_cp936_31, rev_cp936_32, rev_cp936_33, rev_cp936_34, rev_cp936_35,
   rev_cp936_36, rev_cp936_37, rev_cp936_38, rev_cp936_39, rev_cp936_40, rev_cp936_41, rev_cp936_42,
   rev_cp936_43, rev_cp936_44, rev_cp936_45, rev_cp936_46, rev_cp936_47, rev_cp936_48, rev_cp936_49,
   rev_cp936_50, rev_cp936_51, rev_cp936_52, rev_cp936_53, rev_cp936_54, rev_cp936_55, rev_cp936_56,
   rev_cp936_57, rev_cp936_58, rev_cp936_59, rev_cp936_60, rev_cp936_61, rev_cp936_62, rev_cp936_63,
   rev_cp936_64, rev_cp936_65, rev_cp936_66, rev_cp936_67, rev_cp936_68, rev_cp936_69, rev_cp936_70,
   rev_cp936_71, rev_cp936_72, rev_cp936_73, rev_cp936_74, rev_cp936_75, rev_cp936_76, rev_cp936_77,
   rev_cp936_78, rev_cp936_79, rev_cp936_80, rev_cp936_81, rev_cp936_82, rev_cp936_83, rev_cp936_84,
   rev_cp936_85]"

definition page_936 :: CpPage where
  "page_936 = db_page 936 dec1_cp936 lead_cp936 leadrow_cp936 rows_cp936 rev_cp936"

end
