(* ===== verification/Cp949Lead.thy ===== *)
theory Cp949Lead
  imports Cp949RowsA Cp949RowsB
begin

text \<open>
  Page 949 of \<^verbatim>\<open>src/src/charset_tables_data.c\<close>: its single bytes, its lead bytes and the order of
  its rows, and the lookups that they give.
\<close>

definition dec1_cp949 :: "nat list" where
  "dec1_cp949 =
   [0x0000, 0x0001, 0x0002, 0x0003, 0x0004, 0x0005, 0x0006, 0x0007, 0x0008, 0x0009, 0x000A, 0x000B, 0x000C,
    0x000D, 0x000E, 0x000F, 0x0010, 0x0011, 0x0012, 0x0013, 0x0014, 0x0015, 0x0016, 0x0017, 0x0018, 0x0019,
    0x001A, 0x001B, 0x001C, 0x001D, 0x001E, 0x001F] @
   [0x0020, 0x0021, 0x0022, 0x0023, 0x0024, 0x0025, 0x0026, 0x0027, 0x0028, 0x0029, 0x002A, 0x002B, 0x002C,
    0x002D, 0x002E, 0x002F, 0x0030, 0x0031, 0x0032, 0x0033, 0x0034, 0x0035, 0x0036, 0x0037, 0x0038, 0x0039,
    0x003A, 0x003B, 0x003C, 0x003D, 0x003E, 0x003F] @
   [0x0040, 0x0041, 0x0042, 0x0043, 0x0044, 0x0045, 0x0046, 0x0047, 0x0048, 0x0049, 0x004A, 0x004B, 0x004C,
    0x004D, 0x004E, 0x004F, 0x0050, 0x0051, 0x0052, 0x0053, 0x0054, 0x0055, 0x0056, 0x0057, 0x0058, 0x0059,
    0x005A, 0x005B, 0x005C, 0x005D, 0x005E, 0x005F] @
   [0x0060, 0x0061, 0x0062, 0x0063, 0x0064, 0x0065, 0x0066, 0x0067, 0x0068, 0x0069, 0x006A, 0x006B, 0x006C,
    0x006D, 0x006E, 0x006F, 0x0070, 0x0071, 0x0072, 0x0073, 0x0074, 0x0075, 0x0076, 0x0077, 0x0078, 0x0079,
    0x007A, 0x007B, 0x007C, 0x007D, 0x007E, 0x007F] @
   [0xFFFD, 0xFFFD, 0xFFFD, 0xFFFD, 0xFFFD, 0xFFFD, 0xFFFD, 0xFFFD, 0xFFFD, 0xFFFD, 0xFFFD, 0xFFFD, 0xFFFD,
    0xFFFD, 0xFFFD, 0xFFFD, 0xFFFD, 0xFFFD, 0xFFFD, 0xFFFD, 0xFFFD, 0xFFFD, 0xFFFD, 0xFFFD, 0xFFFD, 0xFFFD,
    0xFFFD, 0xFFFD, 0xFFFD, 0xFFFD, 0xFFFD, 0xFFFD] @
   [0xFFFD, 0xFFFD, 0xFFFD, 0xFFFD, 0xFFFD, 0xFFFD, 0xFFFD, 0xFFFD, 0xFFFD, 0xFFFD, 0xFFFD, 0xFFFD, 0xFFFD,
    0xFFFD, 0xFFFD, 0xFFFD, 0xFFFD, 0xFFFD, 0xFFFD, 0xFFFD, 0xFFFD, 0xFFFD, 0xFFFD, 0xFFFD, 0xFFFD, 0xFFFD,
    0xFFFD, 0xFFFD, 0xFFFD, 0xFFFD, 0xFFFD, 0xFFFD] @
   [0xFFFD, 0xFFFD, 0xFFFD, 0xFFFD, 0xFFFD, 0xFFFD, 0xFFFD, 0xFFFD, 0xFFFD, 0xFFFD, 0xFFFD, 0xFFFD, 0xFFFD,
    0xFFFD, 0xFFFD, 0xFFFD, 0xFFFD, 0xFFFD, 0xFFFD, 0xFFFD, 0xFFFD, 0xFFFD, 0xFFFD, 0xFFFD, 0xFFFD, 0xFFFD,
    0xFFFD, 0xFFFD, 0xFFFD, 0xFFFD, 0xFFFD, 0xFFFD] @
   [0xFFFD, 0xFFFD, 0xFFFD, 0xFFFD, 0xFFFD, 0xFFFD, 0xFFFD, 0xFFFD, 0xFFFD, 0xFFFD, 0xFFFD, 0xFFFD, 0xFFFD,
    0xFFFD, 0xFFFD, 0xFFFD, 0xFFFD, 0xFFFD, 0xFFFD, 0xFFFD, 0xFFFD, 0xFFFD, 0xFFFD, 0xFFFD, 0xFFFD, 0xFFFD,
    0xFFFD, 0xFFFD, 0xFFFD, 0xFFFD, 0xFFFD, 0xFFFD]"

lemmas dec1_at_949 = row_nth [OF dec1_cp949_def]

definition lead_cp949 :: "nat list" where
  "lead_cp949 =
   [0, 0, 0, 0, 0, 0, 0, 0, 0, 0, 0, 0, 0, 0, 0, 0, 0, 0, 0, 0, 0, 0, 0, 0, 0, 0, 0, 0, 0, 0, 0, 0] @
   [0, 0, 0, 0, 0, 0, 0, 0, 0, 0, 0, 0, 0, 0, 0, 0, 0, 0, 0, 0, 0, 0, 0, 0, 0, 0, 0, 0, 0, 0, 0, 0] @
   [0, 0, 0, 0, 0, 0, 0, 0, 0, 0, 0, 0, 0, 0, 0, 0, 0, 0, 0, 0, 0, 0, 0, 0, 0, 0, 0, 0, 0, 0, 0, 0] @
   [0, 0, 0, 0, 0, 0, 0, 0, 0, 0, 0, 0, 0, 0, 0, 0, 0, 0, 0, 0, 0, 0, 0, 0, 0, 0, 0, 0, 0, 0, 0, 0] @
   [0, 1, 1, 1, 1, 1, 1, 1, 1, 1, 1, 1, 1, 1, 1, 1, 1, 1, 1, 1, 1, 1, 1, 1, 1, 1, 1, 1, 1, 1, 1, 1] @
   [1, 1, 1, 1, 1, 1, 1, 1, 1, 1, 1, 1, 1, 1, 1, 1, 1, 1, 1, 1, 1, 1, 1, 1, 1, 1, 1, 1, 1, 1, 1, 1] @
   [1, 1, 1, 1, 1, 1, 1, 1, 1, 1, 1, 1, 1, 1, 1, 1, 1, 1, 1, 1, 1, 1, 1, 1, 1, 1, 1, 1, 1, 1, 1, 1] @
   [1, 1, 1, 1, 1, 1, 1, 1, 1, 1, 1, 1, 1, 1, 1, 1, 1, 1, 1, 1, 1, 1, 1, 1, 1, 1, 1, 1, 1, 1, 1, 0]"

lemmas lead_at_949 = row_nth [OF lead_cp949_def]

definition leadrow_cp949 :: "int list" where
  "leadrow_cp949 =
   [- 1, - 1, - 1, - 1, - 1, - 1, - 1, - 1, - 1, - 1, - 1, - 1, - 1, - 1, - 1, - 1, - 1, - 1, - 1, - 1, - 1,
    - 1, - 1, - 1, - 1, - 1, - 1, - 1, - 1, - 1, - 1, - 1] @
   [- 1, - 1, - 1, - 1, - 1, - 1, - 1, - 1, - 1, - 1, - 1, - 1, - 1, - 1, - 1, - 1, - 1, - 1, - 1, - 1, - 1,
    - 1, - 1, - 1, - 1, - 1, - 1, - 1, - 1, - 1, - 1, - 1] @
   [- 1, - 1, - 1, - 1, - 1, - 1, - 1, - 1, - 1, - 1, - 1, - 1, - 1, - 1, - 1, - 1, - 1, - 1, - 1, - 1, - 1,
    - 1, - 1, - 1, - 1, - 1, - 1, - 1, - 1, - 1, - 1, - 1] @
   [- 1, - 1, - 1, - 1, - 1, - 1, - 1, - 1, - 1, - 1, - 1, - 1, - 1, - 1, - 1, - 1, - 1, - 1, - 1, - 1, - 1,
    - 1, - 1, - 1, - 1, - 1, - 1, - 1, - 1, - 1, - 1, - 1] @
   [- 1, 0, 1, 2, 3, 4, 5, 6, 7, 8, 9, 10, 11, 12, 13, 14, 15, 16, 17, 18, 19, 20, 21, 22, 23, 24, 25, 26, 27,
    28, 29, 30] @
   [31, 32, 33, 34, 35, 36, 37, 38, 39, 40, 41, 42, 43, 44, 45, 46, 47, 48, 49, 50, 51, 52, 53, 54, 55, 56, 57,
    58, 59, 60, 61, 62] @
   [63, 64, 65, 66, 67, 68, 69, 70, 71, 72, 73, 74, 75, 76, 77, 78, 79, 80, 81, 82, 83, 84, 85, 86, 87, 88, 89,
    90, 91, 92, 93, 94] @
   [95, 96, 97, 98, 99, 100, 101, 102, 103, 104, 105, 106, 107, 108, 109, 110, 111, 112, 113, 114, 115, 116,
    117, 118, 119, 120, 121, 122, 123, 124, 125, - 1]"

lemmas order_at_949 = row_nth [OF leadrow_cp949_def]

definition rows_cp949 :: "nat list list" where
  "rows_cp949 = [
   dec2_cp949_0, dec2_cp949_1, dec2_cp949_2, dec2_cp949_3, dec2_cp949_4, dec2_cp949_5, dec2_cp949_6,
   dec2_cp949_7, dec2_cp949_8, dec2_cp949_9, dec2_cp949_10, dec2_cp949_11, dec2_cp949_12, dec2_cp949_13,
   dec2_cp949_14, dec2_cp949_15, dec2_cp949_16, dec2_cp949_17, dec2_cp949_18, dec2_cp949_19, dec2_cp949_20,
   dec2_cp949_21, dec2_cp949_22, dec2_cp949_23, dec2_cp949_24, dec2_cp949_25, dec2_cp949_26, dec2_cp949_27,
   dec2_cp949_28, dec2_cp949_29, dec2_cp949_30, dec2_cp949_31, dec2_cp949_32, dec2_cp949_33, dec2_cp949_34,
   dec2_cp949_35, dec2_cp949_36, dec2_cp949_37, dec2_cp949_38, dec2_cp949_39, dec2_cp949_40, dec2_cp949_41,
   dec2_cp949_42, dec2_cp949_43, dec2_cp949_44, dec2_cp949_45, dec2_cp949_46, dec2_cp949_47, dec2_cp949_48,
   dec2_cp949_49, dec2_cp949_50, dec2_cp949_51, dec2_cp949_52, dec2_cp949_53, dec2_cp949_54, dec2_cp949_55,
   dec2_cp949_56, dec2_cp949_57, dec2_cp949_58, dec2_cp949_59, dec2_cp949_60, dec2_cp949_61, dec2_cp949_62,
   dec2_cp949_63, dec2_cp949_64, dec2_cp949_65, dec2_cp949_66, dec2_cp949_67, dec2_cp949_68, dec2_cp949_69,
   dec2_cp949_70, dec2_cp949_71, dec2_cp949_72, dec2_cp949_73, dec2_cp949_74, dec2_cp949_75, dec2_cp949_76,
   dec2_cp949_77, dec2_cp949_78, dec2_cp949_79, dec2_cp949_80, dec2_cp949_81, dec2_cp949_82, dec2_cp949_83,
   dec2_cp949_84, dec2_cp949_85, dec2_cp949_86, dec2_cp949_87, dec2_cp949_88, dec2_cp949_89, dec2_cp949_90,
   dec2_cp949_91, dec2_cp949_92, dec2_cp949_93, dec2_cp949_94, dec2_cp949_95, dec2_cp949_96, dec2_cp949_97,
   dec2_cp949_98, dec2_cp949_99, dec2_cp949_100, dec2_cp949_101, dec2_cp949_102, dec2_cp949_103,
   dec2_cp949_104, dec2_cp949_105, dec2_cp949_106, dec2_cp949_107, dec2_cp949_108, dec2_cp949_109,
   dec2_cp949_110, dec2_cp949_111, dec2_cp949_112, dec2_cp949_113, dec2_cp949_114, dec2_cp949_115,
   dec2_cp949_116, dec2_cp949_117, dec2_cp949_118, dec2_cp949_119, dec2_cp949_120, dec2_cp949_121,
   dec2_cp949_122, dec2_cp949_123, dec2_cp949_124, dec2_cp949_125]"

abbreviation trails_949 :: "nat \<Rightarrow> nat list option" where
  "trails_949 \<equiv> trail_row lead_cp949 leadrow_cp949 rows_cp949"

abbreviation single_949 :: "nat \<Rightarrow> nat option" where
  "single_949 \<equiv> single_unit lead_cp949 dec1_cp949"

lemma row_at_949:
  "rows_cp949 ! 0 = dec2_cp949_0"
  "rows_cp949 ! Suc 0 = dec2_cp949_1"
  "rows_cp949 ! 2 = dec2_cp949_2"
  "rows_cp949 ! 3 = dec2_cp949_3"
  "rows_cp949 ! 4 = dec2_cp949_4"
  "rows_cp949 ! 5 = dec2_cp949_5"
  "rows_cp949 ! 6 = dec2_cp949_6"
  "rows_cp949 ! 7 = dec2_cp949_7"
  "rows_cp949 ! 8 = dec2_cp949_8"
  "rows_cp949 ! 9 = dec2_cp949_9"
  "rows_cp949 ! 10 = dec2_cp949_10"
  "rows_cp949 ! 11 = dec2_cp949_11"
  "rows_cp949 ! 12 = dec2_cp949_12"
  "rows_cp949 ! 13 = dec2_cp949_13"
  "rows_cp949 ! 14 = dec2_cp949_14"
  "rows_cp949 ! 15 = dec2_cp949_15"
  "rows_cp949 ! 16 = dec2_cp949_16"
  "rows_cp949 ! 17 = dec2_cp949_17"
  "rows_cp949 ! 18 = dec2_cp949_18"
  "rows_cp949 ! 19 = dec2_cp949_19"
  "rows_cp949 ! 20 = dec2_cp949_20"
  "rows_cp949 ! 21 = dec2_cp949_21"
  "rows_cp949 ! 22 = dec2_cp949_22"
  "rows_cp949 ! 23 = dec2_cp949_23"
  "rows_cp949 ! 24 = dec2_cp949_24"
  "rows_cp949 ! 25 = dec2_cp949_25"
  "rows_cp949 ! 26 = dec2_cp949_26"
  "rows_cp949 ! 27 = dec2_cp949_27"
  "rows_cp949 ! 28 = dec2_cp949_28"
  "rows_cp949 ! 29 = dec2_cp949_29"
  "rows_cp949 ! 30 = dec2_cp949_30"
  "rows_cp949 ! 31 = dec2_cp949_31"
  "rows_cp949 ! 32 = dec2_cp949_32"
  "rows_cp949 ! 33 = dec2_cp949_33"
  "rows_cp949 ! 34 = dec2_cp949_34"
  "rows_cp949 ! 35 = dec2_cp949_35"
  "rows_cp949 ! 36 = dec2_cp949_36"
  "rows_cp949 ! 37 = dec2_cp949_37"
  "rows_cp949 ! 38 = dec2_cp949_38"
  "rows_cp949 ! 39 = dec2_cp949_39"
  "rows_cp949 ! 40 = dec2_cp949_40"
  "rows_cp949 ! 41 = dec2_cp949_41"
  "rows_cp949 ! 42 = dec2_cp949_42"
  "rows_cp949 ! 43 = dec2_cp949_43"
  "rows_cp949 ! 44 = dec2_cp949_44"
  "rows_cp949 ! 45 = dec2_cp949_45"
  "rows_cp949 ! 46 = dec2_cp949_46"
  "rows_cp949 ! 47 = dec2_cp949_47"
  "rows_cp949 ! 48 = dec2_cp949_48"
  "rows_cp949 ! 49 = dec2_cp949_49"
  "rows_cp949 ! 50 = dec2_cp949_50"
  "rows_cp949 ! 51 = dec2_cp949_51"
  "rows_cp949 ! 52 = dec2_cp949_52"
  "rows_cp949 ! 53 = dec2_cp949_53"
  "rows_cp949 ! 54 = dec2_cp949_54"
  "rows_cp949 ! 55 = dec2_cp949_55"
  "rows_cp949 ! 56 = dec2_cp949_56"
  "rows_cp949 ! 57 = dec2_cp949_57"
  "rows_cp949 ! 58 = dec2_cp949_58"
  "rows_cp949 ! 59 = dec2_cp949_59"
  "rows_cp949 ! 60 = dec2_cp949_60"
  "rows_cp949 ! 61 = dec2_cp949_61"
  "rows_cp949 ! 62 = dec2_cp949_62"
  "rows_cp949 ! 63 = dec2_cp949_63"
  "rows_cp949 ! 64 = dec2_cp949_64"
  "rows_cp949 ! 65 = dec2_cp949_65"
  "rows_cp949 ! 66 = dec2_cp949_66"
  "rows_cp949 ! 67 = dec2_cp949_67"
  "rows_cp949 ! 68 = dec2_cp949_68"
  "rows_cp949 ! 69 = dec2_cp949_69"
  "rows_cp949 ! 70 = dec2_cp949_70"
  "rows_cp949 ! 71 = dec2_cp949_71"
  "rows_cp949 ! 72 = dec2_cp949_72"
  "rows_cp949 ! 73 = dec2_cp949_73"
  "rows_cp949 ! 74 = dec2_cp949_74"
  "rows_cp949 ! 75 = dec2_cp949_75"
  "rows_cp949 ! 76 = dec2_cp949_76"
  "rows_cp949 ! 77 = dec2_cp949_77"
  "rows_cp949 ! 78 = dec2_cp949_78"
  "rows_cp949 ! 79 = dec2_cp949_79"
  "rows_cp949 ! 80 = dec2_cp949_80"
  "rows_cp949 ! 81 = dec2_cp949_81"
  "rows_cp949 ! 82 = dec2_cp949_82"
  "rows_cp949 ! 83 = dec2_cp949_83"
  "rows_cp949 ! 84 = dec2_cp949_84"
  "rows_cp949 ! 85 = dec2_cp949_85"
  "rows_cp949 ! 86 = dec2_cp949_86"
  "rows_cp949 ! 87 = dec2_cp949_87"
  "rows_cp949 ! 88 = dec2_cp949_88"
  "rows_cp949 ! 89 = dec2_cp949_89"
  "rows_cp949 ! 90 = dec2_cp949_90"
  "rows_cp949 ! 91 = dec2_cp949_91"
  "rows_cp949 ! 92 = dec2_cp949_92"
  "rows_cp949 ! 93 = dec2_cp949_93"
  "rows_cp949 ! 94 = dec2_cp949_94"
  "rows_cp949 ! 95 = dec2_cp949_95"
  "rows_cp949 ! 96 = dec2_cp949_96"
  "rows_cp949 ! 97 = dec2_cp949_97"
  "rows_cp949 ! 98 = dec2_cp949_98"
  "rows_cp949 ! 99 = dec2_cp949_99"
  "rows_cp949 ! 100 = dec2_cp949_100"
  "rows_cp949 ! 101 = dec2_cp949_101"
  "rows_cp949 ! 102 = dec2_cp949_102"
  "rows_cp949 ! 103 = dec2_cp949_103"
  "rows_cp949 ! 104 = dec2_cp949_104"
  "rows_cp949 ! 105 = dec2_cp949_105"
  "rows_cp949 ! 106 = dec2_cp949_106"
  "rows_cp949 ! 107 = dec2_cp949_107"
  "rows_cp949 ! 108 = dec2_cp949_108"
  "rows_cp949 ! 109 = dec2_cp949_109"
  "rows_cp949 ! 110 = dec2_cp949_110"
  "rows_cp949 ! 111 = dec2_cp949_111"
  "rows_cp949 ! 112 = dec2_cp949_112"
  "rows_cp949 ! 113 = dec2_cp949_113"
  "rows_cp949 ! 114 = dec2_cp949_114"
  "rows_cp949 ! 115 = dec2_cp949_115"
  "rows_cp949 ! 116 = dec2_cp949_116"
  "rows_cp949 ! 117 = dec2_cp949_117"
  "rows_cp949 ! 118 = dec2_cp949_118"
  "rows_cp949 ! 119 = dec2_cp949_119"
  "rows_cp949 ! 120 = dec2_cp949_120"
  "rows_cp949 ! 121 = dec2_cp949_121"
  "rows_cp949 ! 122 = dec2_cp949_122"
  "rows_cp949 ! 123 = dec2_cp949_123"
  "rows_cp949 ! 124 = dec2_cp949_124"
  "rows_cp949 ! 125 = dec2_cp949_125"
  by (simp_all add: table_entries [OF rows_cp949_def, simplified])

lemma trail_at_949:
  "trails_949 0 = None"
  "trails_949 129 = Some dec2_cp949_0"
  "trails_949 130 = Some dec2_cp949_1"
  "trails_949 131 = Some dec2_cp949_2"
  "trails_949 132 = Some dec2_cp949_3"
  "trails_949 133 = Some dec2_cp949_4"
  "trails_949 134 = Some dec2_cp949_5"
  "trails_949 135 = Some dec2_cp949_6"
  "trails_949 136 = Some dec2_cp949_7"
  "trails_949 137 = Some dec2_cp949_8"
  "trails_949 138 = Some dec2_cp949_9"
  "trails_949 139 = Some dec2_cp949_10"
  "trails_949 140 = Some dec2_cp949_11"
  "trails_949 141 = Some dec2_cp949_12"
  "trails_949 142 = Some dec2_cp949_13"
  "trails_949 143 = Some dec2_cp949_14"
  "trails_949 144 = Some dec2_cp949_15"
  "trails_949 145 = Some dec2_cp949_16"
  "trails_949 146 = Some dec2_cp949_17"
  "trails_949 147 = Some dec2_cp949_18"
  "trails_949 148 = Some dec2_cp949_19"
  "trails_949 149 = Some dec2_cp949_20"
  "trails_949 150 = Some dec2_cp949_21"
  "trails_949 151 = Some dec2_cp949_22"
  "trails_949 152 = Some dec2_cp949_23"
  "trails_949 153 = Some dec2_cp949_24"
  "trails_949 154 = Some dec2_cp949_25"
  "trails_949 155 = Some dec2_cp949_26"
  "trails_949 156 = Some dec2_cp949_27"
  "trails_949 157 = Some dec2_cp949_28"
  "trails_949 158 = Some dec2_cp949_29"
  "trails_949 159 = Some dec2_cp949_30"
  "trails_949 160 = Some dec2_cp949_31"
  "trails_949 161 = Some dec2_cp949_32"
  "trails_949 162 = Some dec2_cp949_33"
  "trails_949 163 = Some dec2_cp949_34"
  "trails_949 164 = Some dec2_cp949_35"
  "trails_949 165 = Some dec2_cp949_36"
  "trails_949 166 = Some dec2_cp949_37"
  "trails_949 167 = Some dec2_cp949_38"
  "trails_949 168 = Some dec2_cp949_39"
  "trails_949 169 = Some dec2_cp949_40"
  "trails_949 170 = Some dec2_cp949_41"
  "trails_949 171 = Some dec2_cp949_42"
  "trails_949 172 = Some dec2_cp949_43"
  "trails_949 173 = Some dec2_cp949_44"
  "trails_949 174 = Some dec2_cp949_45"
  "trails_949 175 = Some dec2_cp949_46"
  "trails_949 176 = Some dec2_cp949_47"
  "trails_949 177 = Some dec2_cp949_48"
  "trails_949 178 = Some dec2_cp949_49"
  "trails_949 179 = Some dec2_cp949_50"
  "trails_949 180 = Some dec2_cp949_51"
  "trails_949 181 = Some dec2_cp949_52"
  "trails_949 182 = Some dec2_cp949_53"
  "trails_949 183 = Some dec2_cp949_54"
  "trails_949 184 = Some dec2_cp949_55"
  "trails_949 185 = Some dec2_cp949_56"
  "trails_949 186 = Some dec2_cp949_57"
  "trails_949 187 = Some dec2_cp949_58"
  "trails_949 188 = Some dec2_cp949_59"
  "trails_949 189 = Some dec2_cp949_60"
  "trails_949 190 = Some dec2_cp949_61"
  "trails_949 191 = Some dec2_cp949_62"
  "trails_949 192 = Some dec2_cp949_63"
  "trails_949 193 = Some dec2_cp949_64"
  "trails_949 194 = Some dec2_cp949_65"
  "trails_949 195 = Some dec2_cp949_66"
  "trails_949 196 = Some dec2_cp949_67"
  "trails_949 197 = Some dec2_cp949_68"
  "trails_949 198 = Some dec2_cp949_69"
  "trails_949 199 = Some dec2_cp949_70"
  "trails_949 200 = Some dec2_cp949_71"
  "trails_949 201 = Some dec2_cp949_72"
  "trails_949 202 = Some dec2_cp949_73"
  "trails_949 203 = Some dec2_cp949_74"
  "trails_949 204 = Some dec2_cp949_75"
  "trails_949 205 = Some dec2_cp949_76"
  "trails_949 206 = Some dec2_cp949_77"
  "trails_949 207 = Some dec2_cp949_78"
  "trails_949 208 = Some dec2_cp949_79"
  "trails_949 209 = Some dec2_cp949_80"
  "trails_949 210 = Some dec2_cp949_81"
  "trails_949 211 = Some dec2_cp949_82"
  "trails_949 212 = Some dec2_cp949_83"
  "trails_949 213 = Some dec2_cp949_84"
  "trails_949 214 = Some dec2_cp949_85"
  "trails_949 215 = Some dec2_cp949_86"
  "trails_949 216 = Some dec2_cp949_87"
  "trails_949 217 = Some dec2_cp949_88"
  "trails_949 218 = Some dec2_cp949_89"
  "trails_949 219 = Some dec2_cp949_90"
  "trails_949 220 = Some dec2_cp949_91"
  "trails_949 221 = Some dec2_cp949_92"
  "trails_949 222 = Some dec2_cp949_93"
  "trails_949 223 = Some dec2_cp949_94"
  "trails_949 224 = Some dec2_cp949_95"
  "trails_949 225 = Some dec2_cp949_96"
  "trails_949 226 = Some dec2_cp949_97"
  "trails_949 227 = Some dec2_cp949_98"
  "trails_949 228 = Some dec2_cp949_99"
  "trails_949 229 = Some dec2_cp949_100"
  "trails_949 230 = Some dec2_cp949_101"
  "trails_949 231 = Some dec2_cp949_102"
  "trails_949 232 = Some dec2_cp949_103"
  "trails_949 233 = Some dec2_cp949_104"
  "trails_949 234 = Some dec2_cp949_105"
  "trails_949 235 = Some dec2_cp949_106"
  "trails_949 236 = Some dec2_cp949_107"
  "trails_949 237 = Some dec2_cp949_108"
  "trails_949 238 = Some dec2_cp949_109"
  "trails_949 239 = Some dec2_cp949_110"
  "trails_949 240 = Some dec2_cp949_111"
  "trails_949 241 = Some dec2_cp949_112"
  "trails_949 242 = Some dec2_cp949_113"
  "trails_949 243 = Some dec2_cp949_114"
  "trails_949 244 = Some dec2_cp949_115"
  "trails_949 245 = Some dec2_cp949_116"
  "trails_949 246 = Some dec2_cp949_117"
  "trails_949 247 = Some dec2_cp949_118"
  "trails_949 248 = Some dec2_cp949_119"
  "trails_949 249 = Some dec2_cp949_120"
  "trails_949 250 = Some dec2_cp949_121"
  "trails_949 251 = Some dec2_cp949_122"
  "trails_949 252 = Some dec2_cp949_123"
  "trails_949 253 = Some dec2_cp949_124"
  "trails_949 254 = Some dec2_cp949_125"
  by (simp_all add: trail_row_def lead_at_949 order_at_949 row_at_949)

lemma lead_bits_949: "list_all (\<lambda>x. x = 0 \<or> x = 1) lead_cp949"
  by (simp add: lead_cp949_def)

lemma order_sound_949: "list_all (\<lambda>(x, k). x = 1 \<longrightarrow> k < 126) (zip lead_cp949 leadrow_cp949)"
  by (simp add: lead_cp949_def leadrow_cp949_def)

lemma rows_sound_949: "list_all (\<lambda>row. length row = 256) rows_cp949" "tally (\<lambda>_. True) 0 rows_cp949 = 126"
  by (simp_all add: rows_cp949_def
    row_nth(17) [OF dec2_cp949_0_def] row_nth(17) [OF dec2_cp949_1_def] row_nth(17) [OF dec2_cp949_2_def]
    row_nth(17) [OF dec2_cp949_3_def] row_nth(17) [OF dec2_cp949_4_def] row_nth(17) [OF dec2_cp949_5_def]
    row_nth(17) [OF dec2_cp949_6_def] row_nth(17) [OF dec2_cp949_7_def] row_nth(17) [OF dec2_cp949_8_def]
    row_nth(17) [OF dec2_cp949_9_def] row_nth(17) [OF dec2_cp949_10_def] row_nth(17) [OF dec2_cp949_11_def]
    row_nth(17) [OF dec2_cp949_12_def] row_nth(17) [OF dec2_cp949_13_def] row_nth(17) [OF dec2_cp949_14_def]
    row_nth(17) [OF dec2_cp949_15_def] row_nth(17) [OF dec2_cp949_16_def] row_nth(17) [OF dec2_cp949_17_def]
    row_nth(17) [OF dec2_cp949_18_def] row_nth(17) [OF dec2_cp949_19_def] row_nth(17) [OF dec2_cp949_20_def]
    row_nth(17) [OF dec2_cp949_21_def] row_nth(17) [OF dec2_cp949_22_def] row_nth(17) [OF dec2_cp949_23_def]
    row_nth(17) [OF dec2_cp949_24_def] row_nth(17) [OF dec2_cp949_25_def] row_nth(17) [OF dec2_cp949_26_def]
    row_nth(17) [OF dec2_cp949_27_def] row_nth(17) [OF dec2_cp949_28_def] row_nth(17) [OF dec2_cp949_29_def]
    row_nth(17) [OF dec2_cp949_30_def] row_nth(17) [OF dec2_cp949_31_def] row_nth(17) [OF dec2_cp949_32_def]
    row_nth(17) [OF dec2_cp949_33_def] row_nth(17) [OF dec2_cp949_34_def] row_nth(17) [OF dec2_cp949_35_def]
    row_nth(17) [OF dec2_cp949_36_def] row_nth(17) [OF dec2_cp949_37_def] row_nth(17) [OF dec2_cp949_38_def]
    row_nth(17) [OF dec2_cp949_39_def] row_nth(17) [OF dec2_cp949_40_def] row_nth(17) [OF dec2_cp949_41_def]
    row_nth(17) [OF dec2_cp949_42_def] row_nth(17) [OF dec2_cp949_43_def] row_nth(17) [OF dec2_cp949_44_def]
    row_nth(17) [OF dec2_cp949_45_def] row_nth(17) [OF dec2_cp949_46_def] row_nth(17) [OF dec2_cp949_47_def]
    row_nth(17) [OF dec2_cp949_48_def] row_nth(17) [OF dec2_cp949_49_def] row_nth(17) [OF dec2_cp949_50_def]
    row_nth(17) [OF dec2_cp949_51_def] row_nth(17) [OF dec2_cp949_52_def] row_nth(17) [OF dec2_cp949_53_def]
    row_nth(17) [OF dec2_cp949_54_def] row_nth(17) [OF dec2_cp949_55_def] row_nth(17) [OF dec2_cp949_56_def]
    row_nth(17) [OF dec2_cp949_57_def] row_nth(17) [OF dec2_cp949_58_def] row_nth(17) [OF dec2_cp949_59_def]
    row_nth(17) [OF dec2_cp949_60_def] row_nth(17) [OF dec2_cp949_61_def] row_nth(17) [OF dec2_cp949_62_def]
    row_nth(17) [OF dec2_cp949_63_def] row_nth(17) [OF dec2_cp949_64_def] row_nth(17) [OF dec2_cp949_65_def]
    row_nth(17) [OF dec2_cp949_66_def] row_nth(17) [OF dec2_cp949_67_def] row_nth(17) [OF dec2_cp949_68_def]
    row_nth(17) [OF dec2_cp949_69_def] row_nth(17) [OF dec2_cp949_70_def] row_nth(17) [OF dec2_cp949_71_def]
    row_nth(17) [OF dec2_cp949_72_def] row_nth(17) [OF dec2_cp949_73_def] row_nth(17) [OF dec2_cp949_74_def]
    row_nth(17) [OF dec2_cp949_75_def] row_nth(17) [OF dec2_cp949_76_def] row_nth(17) [OF dec2_cp949_77_def]
    row_nth(17) [OF dec2_cp949_78_def] row_nth(17) [OF dec2_cp949_79_def] row_nth(17) [OF dec2_cp949_80_def]
    row_nth(17) [OF dec2_cp949_81_def] row_nth(17) [OF dec2_cp949_82_def] row_nth(17) [OF dec2_cp949_83_def]
    row_nth(17) [OF dec2_cp949_84_def] row_nth(17) [OF dec2_cp949_85_def] row_nth(17) [OF dec2_cp949_86_def]
    row_nth(17) [OF dec2_cp949_87_def] row_nth(17) [OF dec2_cp949_88_def] row_nth(17) [OF dec2_cp949_89_def]
    row_nth(17) [OF dec2_cp949_90_def] row_nth(17) [OF dec2_cp949_91_def] row_nth(17) [OF dec2_cp949_92_def]
    row_nth(17) [OF dec2_cp949_93_def] row_nth(17) [OF dec2_cp949_94_def] row_nth(17) [OF dec2_cp949_95_def]
    row_nth(17) [OF dec2_cp949_96_def] row_nth(17) [OF dec2_cp949_97_def] row_nth(17) [OF dec2_cp949_98_def]
    row_nth(17) [OF dec2_cp949_99_def] row_nth(17) [OF dec2_cp949_100_def] row_nth(17) [OF dec2_cp949_101_def]
    row_nth(17) [OF dec2_cp949_102_def] row_nth(17) [OF dec2_cp949_103_def] row_nth(17) [OF dec2_cp949_104_def]
    row_nth(17) [OF dec2_cp949_105_def] row_nth(17) [OF dec2_cp949_106_def] row_nth(17) [OF dec2_cp949_107_def]
    row_nth(17) [OF dec2_cp949_108_def] row_nth(17) [OF dec2_cp949_109_def] row_nth(17) [OF dec2_cp949_110_def]
    row_nth(17) [OF dec2_cp949_111_def] row_nth(17) [OF dec2_cp949_112_def] row_nth(17) [OF dec2_cp949_113_def]
    row_nth(17) [OF dec2_cp949_114_def] row_nth(17) [OF dec2_cp949_115_def] row_nth(17) [OF dec2_cp949_116_def]
    row_nth(17) [OF dec2_cp949_117_def] row_nth(17) [OF dec2_cp949_118_def] row_nth(17) [OF dec2_cp949_119_def]
    row_nth(17) [OF dec2_cp949_120_def] row_nth(17) [OF dec2_cp949_121_def] row_nth(17) [OF dec2_cp949_122_def]
    row_nth(17) [OF dec2_cp949_123_def] row_nth(17) [OF dec2_cp949_124_def] row_nth(17) [OF dec2_cp949_125_def])

end
