(* ===== verification/Cp949RevB.thy ===== *)
theory Cp949RevB
  imports DbPage
begin

text \<open>
  Page 949 of \<^verbatim>\<open>src/src/charset_tables_data.c\<close>: parts 34 to 67 of the reverse table, entry by
  entry, in parts of 256 entries.
\<close>

definition rev_cp949_34 :: "(nat \<times> nat) list" where
  "rev_cp949_34 =
   [(0xB7FC, 0xB7B3), (0xB7FD, 0xB7B4), (0xB7FE, 0x8E9B), (0xB7FF, 0xB7B5), (0xB800, 0xB7B6), (0xB801, 0xB7B7),
    (0xB802, 0x8E9C), (0xB803, 0x8E9D)] @
   [(0xB804, 0x8E9E), (0xB805, 0x8E9F), (0xB806, 0x8EA0), (0xB807, 0xB7B8), (0xB808, 0xB7B9), (0xB809, 0xB7BA),
    (0xB80A, 0x8EA1), (0xB80B, 0x8EA2)] @
   [(0xB80C, 0xB7BB), (0xB80D, 0x8EA3), (0xB80E, 0x8EA4), (0xB80F, 0x8EA5), (0xB810, 0xB7BC), (0xB811, 0x8EA6),
    (0xB812, 0x8EA7), (0xB813, 0x8EA8)] @
   [(0xB814, 0x8EA9), (0xB815, 0x8EAA), (0xB816, 0x8EAB), (0xB817, 0x8EAC), (0xB818, 0xB7BD), (0xB819, 0xB7BE),
    (0xB81A, 0x8EAD), (0xB81B, 0xB7BF)] @
   [(0xB81C, 0x8EAE), (0xB81D, 0xB7C0), (0xB81E, 0x8EAF), (0xB81F, 0x8EB0), (0xB820, 0x8EB1), (0xB821, 0x8EB2),
    (0xB822, 0x8EB3), (0xB823, 0x8EB4)] @
   [(0xB824, 0xB7C1), (0xB825, 0xB7C2), (0xB826, 0x8EB5), (0xB827, 0x8EB6), (0xB828, 0xB7C3), (0xB829, 0x8EB7),
    (0xB82A, 0x8EB8), (0xB82B, 0x8EB9)] @
   [(0xB82C, 0xB7C4), (0xB82D, 0x8EBA), (0xB82E, 0x8EBB), (0xB82F, 0x8EBC), (0xB830, 0x8EBD), (0xB831, 0x8EBE),
    (0xB832, 0x8EBF), (0xB833, 0x8EC0)] @
   [(0xB834, 0xB7C5), (0xB835, 0xB7C6), (0xB836, 0x8EC1), (0xB837, 0xB7C7), (0xB838, 0xB7C8), (0xB839, 0xB7C9),
    (0xB83A, 0x8EC2), (0xB83B, 0x8EC3)] @
   [(0xB83C, 0x8EC4), (0xB83D, 0x8EC5), (0xB83E, 0x8EC6), (0xB83F, 0x8EC7), (0xB840, 0xB7CA), (0xB841, 0x8EC8),
    (0xB842, 0x8EC9), (0xB843, 0x8ECA)] @
   [(0xB844, 0xB7CB), (0xB845, 0x8ECB), (0xB846, 0x8ECC), (0xB847, 0x8ECD), (0xB848, 0x8ECE), (0xB849, 0x8ECF),
    (0xB84A, 0x8ED0), (0xB84B, 0x8ED1)] @
   [(0xB84C, 0x8ED2), (0xB84D, 0x8ED3), (0xB84E, 0x8ED4), (0xB84F, 0x8ED5), (0xB850, 0x8ED6), (0xB851, 0xB7CC),
    (0xB852, 0x8ED7), (0xB853, 0xB7CD)] @
   [(0xB854, 0x8ED8), (0xB855, 0x8ED9), (0xB856, 0x8EDA), (0xB857, 0x8EDB), (0xB858, 0x8EDC), (0xB859, 0x8EDD),
    (0xB85A, 0x8EDE), (0xB85B, 0x8EDF)] @
   [(0xB85C, 0xB7CE), (0xB85D, 0xB7CF), (0xB85E, 0x8EE0), (0xB85F, 0x8EE1), (0xB860, 0xB7D0), (0xB861, 0x8EE2),
    (0xB862, 0x8EE3), (0xB863, 0x8EE4)] @
   [(0xB864, 0xB7D1), (0xB865, 0x8EE5), (0xB866, 0x8EE6), (0xB867, 0x8EE7), (0xB868, 0x8EE8), (0xB869, 0x8EE9),
    (0xB86A, 0x8EEA), (0xB86B, 0x8EEB)] @
   [(0xB86C, 0xB7D2), (0xB86D, 0xB7D3), (0xB86E, 0x8EEC), (0xB86F, 0xB7D4), (0xB870, 0x8EED), (0xB871, 0xB7D5),
    (0xB872, 0x8EEE), (0xB873, 0x8EEF)] @
   [(0xB874, 0x8EF0), (0xB875, 0x8EF1), (0xB876, 0x8EF2), (0xB877, 0x8EF3), (0xB878, 0xB7D6), (0xB879, 0x8EF4),
    (0xB87A, 0x8EF5), (0xB87B, 0x8EF6)] @
   [(0xB87C, 0xB7D7), (0xB87D, 0x8EF7), (0xB87E, 0x8EF8), (0xB87F, 0x8EF9), (0xB880, 0x8EFA), (0xB881, 0x8EFB),
    (0xB882, 0x8EFC), (0xB883, 0x8EFD)] @
   [(0xB884, 0x8EFE), (0xB885, 0x8F41), (0xB886, 0x8F42), (0xB887, 0x8F43), (0xB888, 0x8F44), (0xB889, 0x8F45),
    (0xB88A, 0x8F46), (0xB88B, 0x8F47)] @
   [(0xB88C, 0x8F48), (0xB88D, 0xB7D8), (0xB88E, 0x8F49), (0xB88F, 0x8F4A), (0xB890, 0x8F4B), (0xB891, 0x8F4C),
    (0xB892, 0x8F4D), (0xB893, 0x8F4E)] @
   [(0xB894, 0x8F4F), (0xB895, 0x8F50), (0xB896, 0x8F51), (0xB897, 0x8F52), (0xB898, 0x8F53), (0xB899, 0x8F54),
    (0xB89A, 0x8F55), (0xB89B, 0x8F56)] @
   [(0xB89C, 0x8F57), (0xB89D, 0x8F58), (0xB89E, 0x8F59), (0xB89F, 0x8F5A), (0xB8A0, 0x8F61), (0xB8A1, 0x8F62),
    (0xB8A2, 0x8F63), (0xB8A3, 0x8F64)] @
   [(0xB8A4, 0x8F65), (0xB8A5, 0x8F66), (0xB8A6, 0x8F67), (0xB8A7, 0x8F68), (0xB8A8, 0xB7D9), (0xB8A9, 0x8F69),
    (0xB8AA, 0x8F6A), (0xB8AB, 0x8F6B)] @
   [(0xB8AC, 0x8F6C), (0xB8AD, 0x8F6D), (0xB8AE, 0x8F6E), (0xB8AF, 0x8F6F), (0xB8B0, 0xB7DA), (0xB8B1, 0x8F70),
    (0xB8B2, 0x8F71), (0xB8B3, 0x8F72)] @
   [(0xB8B4, 0xB7DB), (0xB8B5, 0x8F73), (0xB8B6, 0x8F74), (0xB8B7, 0x8F75), (0xB8B8, 0xB7DC), (0xB8B9, 0x8F76),
    (0xB8BA, 0x8F77), (0xB8BB, 0x8F78)] @
   [(0xB8BC, 0x8F79), (0xB8BD, 0x8F7A), (0xB8BE, 0x8F81), (0xB8BF, 0x8F82), (0xB8C0, 0xB7DD), (0xB8C1, 0xB7DE),
    (0xB8C2, 0x8F83), (0xB8C3, 0xB7DF)] @
   [(0xB8C4, 0x8F84), (0xB8C5, 0xB7E0), (0xB8C6, 0x8F85), (0xB8C7, 0x8F86), (0xB8C8, 0x8F87), (0xB8C9, 0x8F88),
    (0xB8CA, 0x8F89), (0xB8CB, 0x8F8A)] @
   [(0xB8CC, 0xB7E1), (0xB8CD, 0x8F8B), (0xB8CE, 0x8F8C), (0xB8CF, 0x8F8D), (0xB8D0, 0xB7E2), (0xB8D1, 0x8F8E),
    (0xB8D2, 0x8F8F), (0xB8D3, 0x8F90)] @
   [(0xB8D4, 0xB7E3), (0xB8D5, 0x8F91), (0xB8D6, 0x8F92), (0xB8D7, 0x8F93), (0xB8D8, 0x8F94), (0xB8D9, 0x8F95),
    (0xB8DA, 0x8F96), (0xB8DB, 0x8F97)] @
   [(0xB8DC, 0x8F98), (0xB8DD, 0xB7E4), (0xB8DE, 0x8F99), (0xB8DF, 0xB7E5), (0xB8E0, 0x8F9A), (0xB8E1, 0xB7E6),
    (0xB8E2, 0x8F9B), (0xB8E3, 0x8F9C)] @
   [(0xB8E4, 0x8F9D), (0xB8E5, 0x8F9E), (0xB8E6, 0x8F9F), (0xB8E7, 0x8FA0), (0xB8E8, 0xB7E7), (0xB8E9, 0xB7E8),
    (0xB8EA, 0x8FA1), (0xB8EB, 0x8FA2)] @
   [(0xB8EC, 0xB7E9), (0xB8ED, 0x8FA3), (0xB8EE, 0x8FA4), (0xB8EF, 0x8FA5), (0xB8F0, 0xB7EA), (0xB8F1, 0x8FA6),
    (0xB8F2, 0x8FA7), (0xB8F3, 0x8FA8)] @
   [(0xB8F4, 0x8FA9), (0xB8F5, 0x8FAA), (0xB8F6, 0x8FAB), (0xB8F7, 0x8FAC), (0xB8F8, 0xB7EB), (0xB8F9, 0xB7EC),
    (0xB8FA, 0x8FAD), (0xB8FB, 0xB7ED)]"

definition rev_cp949_35 :: "(nat \<times> nat) list" where
  "rev_cp949_35 =
   [(0xB8FC, 0x8FAE), (0xB8FD, 0xB7EE), (0xB8FE, 0x8FAF), (0xB8FF, 0x8FB0), (0xB900, 0x8FB1), (0xB901, 0x8FB2),
    (0xB902, 0x8FB3), (0xB903, 0x8FB4)] @
   [(0xB904, 0xB7EF), (0xB905, 0x8FB5), (0xB906, 0x8FB6), (0xB907, 0x8FB7), (0xB908, 0x8FB8), (0xB909, 0x8FB9),
    (0xB90A, 0x8FBA), (0xB90B, 0x8FBB)] @
   [(0xB90C, 0x8FBC), (0xB90D, 0x8FBD), (0xB90E, 0x8FBE), (0xB90F, 0x8FBF), (0xB910, 0x8FC0), (0xB911, 0x8FC1),
    (0xB912, 0x8FC2), (0xB913, 0x8FC3)] @
   [(0xB914, 0x8FC4), (0xB915, 0x8FC5), (0xB916, 0x8FC6), (0xB917, 0x8FC7), (0xB918, 0xB7F0), (0xB919, 0x8FC8),
    (0xB91A, 0x8FC9), (0xB91B, 0x8FCA)] @
   [(0xB91C, 0x8FCB), (0xB91D, 0x8FCC), (0xB91E, 0x8FCD), (0xB91F, 0x8FCE), (0xB920, 0xB7F1), (0xB921, 0x8FCF),
    (0xB922, 0x8FD0), (0xB923, 0x8FD1)] @
   [(0xB924, 0x8FD2), (0xB925, 0x8FD3), (0xB926, 0x8FD4), (0xB927, 0x8FD5), (0xB928, 0x8FD6), (0xB929, 0x8FD7),
    (0xB92A, 0x8FD8), (0xB92B, 0x8FD9)] @
   [(0xB92C, 0x8FDA), (0xB92D, 0x8FDB), (0xB92E, 0x8FDC), (0xB92F, 0x8FDD), (0xB930, 0x8FDE), (0xB931, 0x8FDF),
    (0xB932, 0x8FE0), (0xB933, 0x8FE1)] @
   [(0xB934, 0x8FE2), (0xB935, 0x8FE3), (0xB936, 0x8FE4), (0xB937, 0x8FE5), (0xB938, 0x8FE6), (0xB939, 0x8FE7),
    (0xB93A, 0x8FE8), (0xB93B, 0x8FE9)] @
   [(0xB93C, 0xB7F2), (0xB93D, 0xB7F3), (0xB93E, 0x8FEA), (0xB93F, 0x8FEB), (0xB940, 0xB7F4), (0xB941, 0x8FEC),
    (0xB942, 0x8FED), (0xB943, 0x8FEE)] @
   [(0xB944, 0xB7F5), (0xB945, 0x8FEF), (0xB946, 0x8FF0), (0xB947, 0x8FF1), (0xB948, 0x8FF2), (0xB949, 0x8FF3),
    (0xB94A, 0x8FF4), (0xB94B, 0x8FF5)] @
   [(0xB94C, 0xB7F6), (0xB94D, 0x8FF6), (0xB94E, 0x8FF7), (0xB94F, 0xB7F7), (0xB950, 0x8FF8), (0xB951, 0xB7F8),
    (0xB952, 0x8FF9), (0xB953, 0x8FFA)] @
   [(0xB954, 0x8FFB), (0xB955, 0x8FFC), (0xB956, 0x8FFD), (0xB957, 0x8FFE), (0xB958, 0xB7F9), (0xB959, 0xB7FA),
    (0xB95A, 0x9041), (0xB95B, 0x9042)] @
   [(0xB95C, 0xB7FB), (0xB95D, 0x9043), (0xB95E, 0x9044), (0xB95F, 0x9045), (0xB960, 0xB7FC), (0xB961, 0x9046),
    (0xB962, 0x9047), (0xB963, 0x9048)] @
   [(0xB964, 0x9049), (0xB965, 0x904A), (0xB966, 0x904B), (0xB967, 0x904C), (0xB968, 0xB7FD), (0xB969, 0xB7FE),
    (0xB96A, 0x904D), (0xB96B, 0xB8A1)] @
   [(0xB96C, 0x904E), (0xB96D, 0xB8A2), (0xB96E, 0x904F), (0xB96F, 0x9050), (0xB970, 0x9051), (0xB971, 0x9052),
    (0xB972, 0x9053), (0xB973, 0x9054)] @
   [(0xB974, 0xB8A3), (0xB975, 0xB8A4), (0xB976, 0x9055), (0xB977, 0x9056), (0xB978, 0xB8A5), (0xB979, 0x9057),
    (0xB97A, 0x9058), (0xB97B, 0x9059)] @
   [(0xB97C, 0xB8A6), (0xB97D, 0x905A), (0xB97E, 0x9061), (0xB97F, 0x9062), (0xB980, 0x9063), (0xB981, 0x9064),
    (0xB982, 0x9065), (0xB983, 0x9066)] @
   [(0xB984, 0xB8A7), (0xB985, 0xB8A8), (0xB986, 0x9067), (0xB987, 0xB8A9), (0xB988, 0x9068), (0xB989, 0xB8AA),
    (0xB98A, 0xB8AB), (0xB98B, 0x9069)] @
   [(0xB98C, 0x906A), (0xB98D, 0xB8AC), (0xB98E, 0xB8AD), (0xB98F, 0x906B), (0xB990, 0x906C), (0xB991, 0x906D),
    (0xB992, 0x906E), (0xB993, 0x906F)] @
   [(0xB994, 0x9070), (0xB995, 0x9071), (0xB996, 0x9072), (0xB997, 0x9073), (0xB998, 0x9074), (0xB999, 0x9075),
    (0xB99A, 0x9076), (0xB99B, 0x9077)] @
   [(0xB99C, 0x9078), (0xB99D, 0x9079), (0xB99E, 0x907A), (0xB99F, 0x9081), (0xB9A0, 0x9082), (0xB9A1, 0x9083),
    (0xB9A2, 0x9084), (0xB9A3, 0x9085)] @
   [(0xB9A4, 0x9086), (0xB9A5, 0x9087), (0xB9A6, 0x9088), (0xB9A7, 0x9089), (0xB9A8, 0x908A), (0xB9A9, 0x908B),
    (0xB9AA, 0x908C), (0xB9AB, 0x908D)] @
   [(0xB9AC, 0xB8AE), (0xB9AD, 0xB8AF), (0xB9AE, 0x908E), (0xB9AF, 0x908F), (0xB9B0, 0xB8B0), (0xB9B1, 0x9090),
    (0xB9B2, 0x9091), (0xB9B3, 0x9092)] @
   [(0xB9B4, 0xB8B1), (0xB9B5, 0x9093), (0xB9B6, 0x9094), (0xB9B7, 0x9095), (0xB9B8, 0x9096), (0xB9B9, 0x9097),
    (0xB9BA, 0x9098), (0xB9BB, 0x9099)] @
   [(0xB9BC, 0xB8B2), (0xB9BD, 0xB8B3), (0xB9BE, 0x909A), (0xB9BF, 0xB8B4), (0xB9C0, 0x909B), (0xB9C1, 0xB8B5),
    (0xB9C2, 0x909C), (0xB9C3, 0x909D)] @
   [(0xB9C4, 0x909E), (0xB9C5, 0x909F), (0xB9C6, 0x90A0), (0xB9C7, 0x90A1), (0xB9C8, 0xB8B6), (0xB9C9, 0xB8B7),
    (0xB9CA, 0x90A2), (0xB9CB, 0x90A3)] @
   [(0xB9CC, 0xB8B8), (0xB9CD, 0x90A4), (0xB9CE, 0xB8B9), (0xB9CF, 0xB8BA), (0xB9D0, 0xB8BB), (0xB9D1, 0xB8BC),
    (0xB9D2, 0xB8BD), (0xB9D3, 0x90A5)] @
   [(0xB9D4, 0x90A6), (0xB9D5, 0x90A7), (0xB9D6, 0x90A8), (0xB9D7, 0x90A9), (0xB9D8, 0xB8BE), (0xB9D9, 0xB8BF),
    (0xB9DA, 0x90AA), (0xB9DB, 0xB8C0)] @
   [(0xB9DC, 0x90AB), (0xB9DD, 0xB8C1), (0xB9DE, 0xB8C2), (0xB9DF, 0x90AC), (0xB9E0, 0x90AD), (0xB9E1, 0xB8C3),
    (0xB9E2, 0x90AE), (0xB9E3, 0xB8C4)] @
   [(0xB9E4, 0xB8C5), (0xB9E5, 0xB8C6), (0xB9E6, 0x90AF), (0xB9E7, 0x90B0), (0xB9E8, 0xB8C7), (0xB9E9, 0x90B1),
    (0xB9EA, 0x90B2), (0xB9EB, 0x90B3)] @
   [(0xB9EC, 0xB8C8), (0xB9ED, 0x90B4), (0xB9EE, 0x90B5), (0xB9EF, 0x90B6), (0xB9F0, 0x90B7), (0xB9F1, 0x90B8),
    (0xB9F2, 0x90B9), (0xB9F3, 0x90BA)] @
   [(0xB9F4, 0xB8C9), (0xB9F5, 0xB8CA), (0xB9F6, 0x90BB), (0xB9F7, 0xB8CB), (0xB9F8, 0xB8CC), (0xB9F9, 0xB8CD),
    (0xB9FA, 0xB8CE), (0xB9FB, 0x90BC)]"

definition rev_cp949_36 :: "(nat \<times> nat) list" where
  "rev_cp949_36 =
   [(0xB9FC, 0x90BD), (0xB9FD, 0x90BE), (0xB9FE, 0x90BF), (0xB9FF, 0x90C0), (0xBA00, 0xB8CF), (0xBA01, 0xB8D0),
    (0xBA02, 0x90C1), (0xBA03, 0x90C2)] @
   [(0xBA04, 0x90C3), (0xBA05, 0x90C4), (0xBA06, 0x90C5), (0xBA07, 0x90C6), (0xBA08, 0xB8D1), (0xBA09, 0x90C7),
    (0xBA0A, 0x90C8), (0xBA0B, 0x90C9)] @
   [(0xBA0C, 0x90CA), (0xBA0D, 0x90CB), (0xBA0E, 0x90CC), (0xBA0F, 0x90CD), (0xBA10, 0x90CE), (0xBA11, 0x90CF),
    (0xBA12, 0x90D0), (0xBA13, 0x90D1)] @
   [(0xBA14, 0x90D2), (0xBA15, 0xB8D2), (0xBA16, 0x90D3), (0xBA17, 0x90D4), (0xBA18, 0x90D5), (0xBA19, 0x90D6),
    (0xBA1A, 0x90D7), (0xBA1B, 0x90D8)] @
   [(0xBA1C, 0x90D9), (0xBA1D, 0x90DA), (0xBA1E, 0x90DB), (0xBA1F, 0x90DC), (0xBA20, 0x90DD), (0xBA21, 0x90DE),
    (0xBA22, 0x90DF), (0xBA23, 0x90E0)] @
   [(0xBA24, 0x90E1), (0xBA25, 0x90E2), (0xBA26, 0x90E3), (0xBA27, 0x90E4), (0xBA28, 0x90E5), (0xBA29, 0x90E6),
    (0xBA2A, 0x90E7), (0xBA2B, 0x90E8)] @
   [(0xBA2C, 0x90E9), (0xBA2D, 0x90EA), (0xBA2E, 0x90EB), (0xBA2F, 0x90EC), (0xBA30, 0x90ED), (0xBA31, 0x90EE),
    (0xBA32, 0x90EF), (0xBA33, 0x90F0)] @
   [(0xBA34, 0x90F1), (0xBA35, 0x90F2), (0xBA36, 0x90F3), (0xBA37, 0x90F4), (0xBA38, 0xB8D3), (0xBA39, 0xB8D4),
    (0xBA3A, 0x90F5), (0xBA3B, 0x90F6)] @
   [(0xBA3C, 0xB8D5), (0xBA3D, 0x90F7), (0xBA3E, 0x90F8), (0xBA3F, 0x90F9), (0xBA40, 0xB8D6), (0xBA41, 0x90FA),
    (0xBA42, 0xB8D7), (0xBA43, 0x90FB)] @
   [(0xBA44, 0x90FC), (0xBA45, 0x90FD), (0xBA46, 0x90FE), (0xBA47, 0x9141), (0xBA48, 0xB8D8), (0xBA49, 0xB8D9),
    (0xBA4A, 0x9142), (0xBA4B, 0xB8DA)] @
   [(0xBA4C, 0x9143), (0xBA4D, 0xB8DB), (0xBA4E, 0xB8DC), (0xBA4F, 0x9144), (0xBA50, 0x9145), (0xBA51, 0x9146),
    (0xBA52, 0x9147), (0xBA53, 0xB8DD)] @
   [(0xBA54, 0xB8DE), (0xBA55, 0xB8DF), (0xBA56, 0x9148), (0xBA57, 0x9149), (0xBA58, 0xB8E0), (0xBA59, 0x914A),
    (0xBA5A, 0x914B), (0xBA5B, 0x914C)] @
   [(0xBA5C, 0xB8E1), (0xBA5D, 0x914D), (0xBA5E, 0x914E), (0xBA5F, 0x914F), (0xBA60, 0x9150), (0xBA61, 0x9151),
    (0xBA62, 0x9152), (0xBA63, 0x9153)] @
   [(0xBA64, 0xB8E2), (0xBA65, 0xB8E3), (0xBA66, 0x9154), (0xBA67, 0xB8E4), (0xBA68, 0xB8E5), (0xBA69, 0xB8E6),
    (0xBA6A, 0x9155), (0xBA6B, 0x9156)] @
   [(0xBA6C, 0x9157), (0xBA6D, 0x9158), (0xBA6E, 0x9159), (0xBA6F, 0x915A), (0xBA70, 0xB8E7), (0xBA71, 0xB8E8),
    (0xBA72, 0x9161), (0xBA73, 0x9162)] @
   [(0xBA74, 0xB8E9), (0xBA75, 0x9163), (0xBA76, 0x9164), (0xBA77, 0x9165), (0xBA78, 0xB8EA), (0xBA79, 0x9166),
    (0xBA7A, 0x9167), (0xBA7B, 0x9168)] @
   [(0xBA7C, 0x9169), (0xBA7D, 0x916A), (0xBA7E, 0x916B), (0xBA7F, 0x916C), (0xBA80, 0x916D), (0xBA81, 0x916E),
    (0xBA82, 0x916F), (0xBA83, 0xB8EB)] @
   [(0xBA84, 0xB8EC), (0xBA85, 0xB8ED), (0xBA86, 0x9170), (0xBA87, 0xB8EE), (0xBA88, 0x9171), (0xBA89, 0x9172),
    (0xBA8A, 0x9173), (0xBA8B, 0x9174)] @
   [(0xBA8C, 0xB8EF), (0xBA8D, 0x9175), (0xBA8E, 0x9176), (0xBA8F, 0x9177), (0xBA90, 0x9178), (0xBA91, 0x9179),
    (0xBA92, 0x917A), (0xBA93, 0x9181)] @
   [(0xBA94, 0x9182), (0xBA95, 0x9183), (0xBA96, 0x9184), (0xBA97, 0x9185), (0xBA98, 0x9186), (0xBA99, 0x9187),
    (0xBA9A, 0x9188), (0xBA9B, 0x9189)] @
   [(0xBA9C, 0x918A), (0xBA9D, 0x918B), (0xBA9E, 0x918C), (0xBA9F, 0x918D), (0xBAA0, 0x918E), (0xBAA1, 0x918F),
    (0xBAA2, 0x9190), (0xBAA3, 0x9191)] @
   [(0xBAA4, 0x9192), (0xBAA5, 0x9193), (0xBAA6, 0x9194), (0xBAA7, 0x9195), (0xBAA8, 0xB8F0), (0xBAA9, 0xB8F1),
    (0xBAAA, 0x9196), (0xBAAB, 0xB8F2)] @
   [(0xBAAC, 0xB8F3), (0xBAAD, 0x9197), (0xBAAE, 0x9198), (0xBAAF, 0x9199), (0xBAB0, 0xB8F4), (0xBAB1, 0x919A),
    (0xBAB2, 0xB8F5), (0xBAB3, 0x919B)] @
   [(0xBAB4, 0x919C), (0xBAB5, 0x919D), (0xBAB6, 0x919E), (0xBAB7, 0x919F), (0xBAB8, 0xB8F6), (0xBAB9, 0xB8F7),
    (0xBABA, 0x91A0), (0xBABB, 0xB8F8)] @
   [(0xBABC, 0x91A1), (0xBABD, 0xB8F9), (0xBABE, 0x91A2), (0xBABF, 0x91A3), (0xBAC0, 0x91A4), (0xBAC1, 0x91A5),
    (0xBAC2, 0x91A6), (0xBAC3, 0x91A7)] @
   [(0xBAC4, 0xB8FA), (0xBAC5, 0x91A8), (0xBAC6, 0x91A9), (0xBAC7, 0x91AA), (0xBAC8, 0xB8FB), (0xBAC9, 0x91AB),
    (0xBACA, 0x91AC), (0xBACB, 0x91AD)] @
   [(0xBACC, 0x91AE), (0xBACD, 0x91AF), (0xBACE, 0x91B0), (0xBACF, 0x91B1), (0xBAD0, 0x91B2), (0xBAD1, 0x91B3),
    (0xBAD2, 0x91B4), (0xBAD3, 0x91B5)] @
   [(0xBAD4, 0x91B6), (0xBAD5, 0x91B7), (0xBAD6, 0x91B8), (0xBAD7, 0x91B9), (0xBAD8, 0xB8FC), (0xBAD9, 0xB8FD),
    (0xBADA, 0x91BA), (0xBADB, 0x91BB)] @
   [(0xBADC, 0x91BC), (0xBADD, 0x91BD), (0xBADE, 0x91BE), (0xBADF, 0x91BF), (0xBAE0, 0x91C0), (0xBAE1, 0x91C1),
    (0xBAE2, 0x91C2), (0xBAE3, 0x91C3)] @
   [(0xBAE4, 0x91C4), (0xBAE5, 0x91C5), (0xBAE6, 0x91C6), (0xBAE7, 0x91C7), (0xBAE8, 0x91C8), (0xBAE9, 0x91C9),
    (0xBAEA, 0x91CA), (0xBAEB, 0x91CB)] @
   [(0xBAEC, 0x91CC), (0xBAED, 0x91CD), (0xBAEE, 0x91CE), (0xBAEF, 0x91CF), (0xBAF0, 0x91D0), (0xBAF1, 0x91D1),
    (0xBAF2, 0x91D2), (0xBAF3, 0x91D3)] @
   [(0xBAF4, 0x91D4), (0xBAF5, 0x91D5), (0xBAF6, 0x91D6), (0xBAF7, 0x91D7), (0xBAF8, 0x91D8), (0xBAF9, 0x91D9),
    (0xBAFA, 0x91DA), (0xBAFB, 0x91DB)]"

definition rev_cp949_37 :: "(nat \<times> nat) list" where
  "rev_cp949_37 =
   [(0xBAFC, 0xB8FE), (0xBAFD, 0x91DC), (0xBAFE, 0x91DD), (0xBAFF, 0x91DE), (0xBB00, 0xB9A1), (0xBB01, 0x91DF),
    (0xBB02, 0x91E0), (0xBB03, 0x91E1)] @
   [(0xBB04, 0xB9A2), (0xBB05, 0x91E2), (0xBB06, 0x91E3), (0xBB07, 0x91E4), (0xBB08, 0x91E5), (0xBB09, 0x91E6),
    (0xBB0A, 0x91E7), (0xBB0B, 0x91E8)] @
   [(0xBB0C, 0x91E9), (0xBB0D, 0xB9A3), (0xBB0E, 0x91EA), (0xBB0F, 0xB9A4), (0xBB10, 0x91EB), (0xBB11, 0xB9A5),
    (0xBB12, 0x91EC), (0xBB13, 0x91ED)] @
   [(0xBB14, 0x91EE), (0xBB15, 0x91EF), (0xBB16, 0x91F0), (0xBB17, 0x91F1), (0xBB18, 0xB9A6), (0xBB19, 0x91F2),
    (0xBB1A, 0x91F3), (0xBB1B, 0x91F4)] @
   [(0xBB1C, 0xB9A7), (0xBB1D, 0x91F5), (0xBB1E, 0x91F6), (0xBB1F, 0x91F7), (0xBB20, 0xB9A8), (0xBB21, 0x91F8),
    (0xBB22, 0x91F9), (0xBB23, 0x91FA)] @
   [(0xBB24, 0x91FB), (0xBB25, 0x91FC), (0xBB26, 0x91FD), (0xBB27, 0x91FE), (0xBB28, 0x9241), (0xBB29, 0xB9A9),
    (0xBB2A, 0x9242), (0xBB2B, 0xB9AA)] @
   [(0xBB2C, 0x9243), (0xBB2D, 0x9244), (0xBB2E, 0x9245), (0xBB2F, 0x9246), (0xBB30, 0x9247), (0xBB31, 0x9248),
    (0xBB32, 0x9249), (0xBB33, 0x924A)] @
   [(0xBB34, 0xB9AB), (0xBB35, 0xB9AC), (0xBB36, 0xB9AD), (0xBB37, 0x924B), (0xBB38, 0xB9AE), (0xBB39, 0x924C),
    (0xBB3A, 0x924D), (0xBB3B, 0xB9AF)] @
   [(0xBB3C, 0xB9B0), (0xBB3D, 0xB9B1), (0xBB3E, 0xB9B2), (0xBB3F, 0x924E), (0xBB40, 0x924F), (0xBB41, 0x9250),
    (0xBB42, 0x9251), (0xBB43, 0x9252)] @
   [(0xBB44, 0xB9B3), (0xBB45, 0xB9B4), (0xBB46, 0x9253), (0xBB47, 0xB9B5), (0xBB48, 0x9254), (0xBB49, 0xB9B6),
    (0xBB4A, 0x9255), (0xBB4B, 0x9256)] @
   [(0xBB4C, 0x9257), (0xBB4D, 0xB9B7), (0xBB4E, 0x9258), (0xBB4F, 0xB9B8), (0xBB50, 0xB9B9), (0xBB51, 0x9259),
    (0xBB52, 0x925A), (0xBB53, 0x9261)] @
   [(0xBB54, 0xB9BA), (0xBB55, 0x9262), (0xBB56, 0x9263), (0xBB57, 0x9264), (0xBB58, 0xB9BB), (0xBB59, 0x9265),
    (0xBB5A, 0x9266), (0xBB5B, 0x9267)] @
   [(0xBB5C, 0x9268), (0xBB5D, 0x9269), (0xBB5E, 0x926A), (0xBB5F, 0x926B), (0xBB60, 0x926C), (0xBB61, 0xB9BC),
    (0xBB62, 0x926D), (0xBB63, 0xB9BD)] @
   [(0xBB64, 0x926E), (0xBB65, 0x926F), (0xBB66, 0x9270), (0xBB67, 0x9271), (0xBB68, 0x9272), (0xBB69, 0x9273),
    (0xBB6A, 0x9274), (0xBB6B, 0x9275)] @
   [(0xBB6C, 0xB9BE), (0xBB6D, 0x9276), (0xBB6E, 0x9277), (0xBB6F, 0x9278), (0xBB70, 0x9279), (0xBB71, 0x927A),
    (0xBB72, 0x9281), (0xBB73, 0x9282)] @
   [(0xBB74, 0x9283), (0xBB75, 0x9284), (0xBB76, 0x9285), (0xBB77, 0x9286), (0xBB78, 0x9287), (0xBB79, 0x9288),
    (0xBB7A, 0x9289), (0xBB7B, 0x928A)] @
   [(0xBB7C, 0x928B), (0xBB7D, 0x928C), (0xBB7E, 0x928D), (0xBB7F, 0x928E), (0xBB80, 0x928F), (0xBB81, 0x9290),
    (0xBB82, 0x9291), (0xBB83, 0x9292)] @
   [(0xBB84, 0x9293), (0xBB85, 0x9294), (0xBB86, 0x9295), (0xBB87, 0x9296), (0xBB88, 0xB9BF), (0xBB89, 0x9297),
    (0xBB8A, 0x9298), (0xBB8B, 0x9299)] @
   [(0xBB8C, 0xB9C0), (0xBB8D, 0x929A), (0xBB8E, 0x929B), (0xBB8F, 0x929C), (0xBB90, 0xB9C1), (0xBB91, 0x929D),
    (0xBB92, 0x929E), (0xBB93, 0x929F)] @
   [(0xBB94, 0x92A0), (0xBB95, 0x92A1), (0xBB96, 0x92A2), (0xBB97, 0x92A3), (0xBB98, 0x92A4), (0xBB99, 0x92A5),
    (0xBB9A, 0x92A6), (0xBB9B, 0x92A7)] @
   [(0xBB9C, 0x92A8), (0xBB9D, 0x92A9), (0xBB9E, 0x92AA), (0xBB9F, 0x92AB), (0xBBA0, 0x92AC), (0xBBA1, 0x92AD),
    (0xBBA2, 0x92AE), (0xBBA3, 0x92AF)] @
   [(0xBBA4, 0xB9C2), (0xBBA5, 0x92B0), (0xBBA6, 0x92B1), (0xBBA7, 0x92B2), (0xBBA8, 0xB9C3), (0xBBA9, 0x92B3),
    (0xBBAA, 0x92B4), (0xBBAB, 0x92B5)] @
   [(0xBBAC, 0xB9C4), (0xBBAD, 0x92B6), (0xBBAE, 0x92B7), (0xBBAF, 0x92B8), (0xBBB0, 0x92B9), (0xBBB1, 0x92BA),
    (0xBBB2, 0x92BB), (0xBBB3, 0x92BC)] @
   [(0xBBB4, 0xB9C5), (0xBBB5, 0x92BD), (0xBBB6, 0x92BE), (0xBBB7, 0xB9C6), (0xBBB8, 0x92BF), (0xBBB9, 0x92C0),
    (0xBBBA, 0x92C1), (0xBBBB, 0x92C2)] @
   [(0xBBBC, 0x92C3), (0xBBBD, 0x92C4), (0xBBBE, 0x92C5), (0xBBBF, 0x92C6), (0xBBC0, 0xB9C7), (0xBBC1, 0x92C7),
    (0xBBC2, 0x92C8), (0xBBC3, 0x92C9)] @
   [(0xBBC4, 0xB9C8), (0xBBC5, 0x92CA), (0xBBC6, 0x92CB), (0xBBC7, 0x92CC), (0xBBC8, 0xB9C9), (0xBBC9, 0x92CD),
    (0xBBCA, 0x92CE), (0xBBCB, 0x92CF)] @
   [(0xBBCC, 0x92D0), (0xBBCD, 0x92D1), (0xBBCE, 0x92D2), (0xBBCF, 0x92D3), (0xBBD0, 0xB9CA), (0xBBD1, 0x92D4),
    (0xBBD2, 0x92D5), (0xBBD3, 0xB9CB)] @
   [(0xBBD4, 0x92D6), (0xBBD5, 0x92D7), (0xBBD6, 0x92D8), (0xBBD7, 0x92D9), (0xBBD8, 0x92DA), (0xBBD9, 0x92DB),
    (0xBBDA, 0x92DC), (0xBBDB, 0x92DD)] @
   [(0xBBDC, 0x92DE), (0xBBDD, 0x92DF), (0xBBDE, 0x92E0), (0xBBDF, 0x92E1), (0xBBE0, 0x92E2), (0xBBE1, 0x92E3),
    (0xBBE2, 0x92E4), (0xBBE3, 0x92E5)] @
   [(0xBBE4, 0x92E6), (0xBBE5, 0x92E7), (0xBBE6, 0x92E8), (0xBBE7, 0x92E9), (0xBBE8, 0x92EA), (0xBBE9, 0x92EB),
    (0xBBEA, 0x92EC), (0xBBEB, 0x92ED)] @
   [(0xBBEC, 0x92EE), (0xBBED, 0x92EF), (0xBBEE, 0x92F0), (0xBBEF, 0x92F1), (0xBBF0, 0x92F2), (0xBBF1, 0x92F3),
    (0xBBF2, 0x92F4), (0xBBF3, 0x92F5)] @
   [(0xBBF4, 0x92F6), (0xBBF5, 0x92F7), (0xBBF6, 0x92F8), (0xBBF7, 0x92F9), (0xBBF8, 0xB9CC), (0xBBF9, 0xB9CD),
    (0xBBFA, 0x92FA), (0xBBFB, 0x92FB)]"

definition rev_cp949_38 :: "(nat \<times> nat) list" where
  "rev_cp949_38 =
   [(0xBBFC, 0xB9CE), (0xBBFD, 0x92FC), (0xBBFE, 0x92FD), (0xBBFF, 0xB9CF), (0xBC00, 0xB9D0), (0xBC01, 0x92FE),
    (0xBC02, 0xB9D1), (0xBC03, 0x9341)] @
   [(0xBC04, 0x9342), (0xBC05, 0x9343), (0xBC06, 0x9344), (0xBC07, 0x9345), (0xBC08, 0xB9D2), (0xBC09, 0xB9D3),
    (0xBC0A, 0x9346), (0xBC0B, 0xB9D4)] @
   [(0xBC0C, 0xB9D5), (0xBC0D, 0xB9D6), (0xBC0E, 0x9347), (0xBC0F, 0xB9D7), (0xBC10, 0x9348), (0xBC11, 0xB9D8),
    (0xBC12, 0x9349), (0xBC13, 0x934A)] @
   [(0xBC14, 0xB9D9), (0xBC15, 0xB9DA), (0xBC16, 0xB9DB), (0xBC17, 0xB9DC), (0xBC18, 0xB9DD), (0xBC19, 0x934B),
    (0xBC1A, 0x934C), (0xBC1B, 0xB9DE)] @
   [(0xBC1C, 0xB9DF), (0xBC1D, 0xB9E0), (0xBC1E, 0xB9E1), (0xBC1F, 0xB9E2), (0xBC20, 0x934D), (0xBC21, 0x934E),
    (0xBC22, 0x934F), (0xBC23, 0x9350)] @
   [(0xBC24, 0xB9E3), (0xBC25, 0xB9E4), (0xBC26, 0x9351), (0xBC27, 0xB9E5), (0xBC28, 0x9352), (0xBC29, 0xB9E6),
    (0xBC2A, 0x9353), (0xBC2B, 0x9354)] @
   [(0xBC2C, 0x9355), (0xBC2D, 0xB9E7), (0xBC2E, 0x9356), (0xBC2F, 0x9357), (0xBC30, 0xB9E8), (0xBC31, 0xB9E9),
    (0xBC32, 0x9358), (0xBC33, 0x9359)] @
   [(0xBC34, 0xB9EA), (0xBC35, 0x935A), (0xBC36, 0x9361), (0xBC37, 0x9362), (0xBC38, 0xB9EB), (0xBC39, 0x9363),
    (0xBC3A, 0x9364), (0xBC3B, 0x9365)] @
   [(0xBC3C, 0x9366), (0xBC3D, 0x9367), (0xBC3E, 0x9368), (0xBC3F, 0x9369), (0xBC40, 0xB9EC), (0xBC41, 0xB9ED),
    (0xBC42, 0x936A), (0xBC43, 0xB9EE)] @
   [(0xBC44, 0xB9EF), (0xBC45, 0xB9F0), (0xBC46, 0x936B), (0xBC47, 0x936C), (0xBC48, 0x936D), (0xBC49, 0xB9F1),
    (0xBC4A, 0x936E), (0xBC4B, 0x936F)] @
   [(0xBC4C, 0xB9F2), (0xBC4D, 0xB9F3), (0xBC4E, 0x9370), (0xBC4F, 0x9371), (0xBC50, 0xB9F4), (0xBC51, 0x9372),
    (0xBC52, 0x9373), (0xBC53, 0x9374)] @
   [(0xBC54, 0x9375), (0xBC55, 0x9376), (0xBC56, 0x9377), (0xBC57, 0x9378), (0xBC58, 0x9379), (0xBC59, 0x937A),
    (0xBC5A, 0x9381), (0xBC5B, 0x9382)] @
   [(0xBC5C, 0x9383), (0xBC5D, 0xB9F5), (0xBC5E, 0x9384), (0xBC5F, 0x9385), (0xBC60, 0x9386), (0xBC61, 0x9387),
    (0xBC62, 0x9388), (0xBC63, 0x9389)] @
   [(0xBC64, 0x938A), (0xBC65, 0x938B), (0xBC66, 0x938C), (0xBC67, 0x938D), (0xBC68, 0x938E), (0xBC69, 0x938F),
    (0xBC6A, 0x9390), (0xBC6B, 0x9391)] @
   [(0xBC6C, 0x9392), (0xBC6D, 0x9393), (0xBC6E, 0x9394), (0xBC6F, 0x9395), (0xBC70, 0x9396), (0xBC71, 0x9397),
    (0xBC72, 0x9398), (0xBC73, 0x9399)] @
   [(0xBC74, 0x939A), (0xBC75, 0x939B), (0xBC76, 0x939C), (0xBC77, 0x939D), (0xBC78, 0x939E), (0xBC79, 0x939F),
    (0xBC7A, 0x93A0), (0xBC7B, 0x93A1)] @
   [(0xBC7C, 0x93A2), (0xBC7D, 0x93A3), (0xBC7E, 0x93A4), (0xBC7F, 0x93A5), (0xBC80, 0x93A6), (0xBC81, 0x93A7),
    (0xBC82, 0x93A8), (0xBC83, 0x93A9)] @
   [(0xBC84, 0xB9F6), (0xBC85, 0xB9F7), (0xBC86, 0x93AA), (0xBC87, 0x93AB), (0xBC88, 0xB9F8), (0xBC89, 0x93AC),
    (0xBC8A, 0x93AD), (0xBC8B, 0xB9F9)] @
   [(0xBC8C, 0xB9FA), (0xBC8D, 0x93AE), (0xBC8E, 0xB9FB), (0xBC8F, 0x93AF), (0xBC90, 0x93B0), (0xBC91, 0x93B1),
    (0xBC92, 0x93B2), (0xBC93, 0x93B3)] @
   [(0xBC94, 0xB9FC), (0xBC95, 0xB9FD), (0xBC96, 0x93B4), (0xBC97, 0xB9FE), (0xBC98, 0x93B5), (0xBC99, 0xBAA1),
    (0xBC9A, 0xBAA2), (0xBC9B, 0x93B6)] @
   [(0xBC9C, 0x93B7), (0xBC9D, 0x93B8), (0xBC9E, 0x93B9), (0xBC9F, 0x93BA), (0xBCA0, 0xBAA3), (0xBCA1, 0xBAA4),
    (0xBCA2, 0x93BB), (0xBCA3, 0x93BC)] @
   [(0xBCA4, 0xBAA5), (0xBCA5, 0x93BD), (0xBCA6, 0x93BE), (0xBCA7, 0xBAA6), (0xBCA8, 0xBAA7), (0xBCA9, 0x93BF),
    (0xBCAA, 0x93C0), (0xBCAB, 0x93C1)] @
   [(0xBCAC, 0x93C2), (0xBCAD, 0x93C3), (0xBCAE, 0x93C4), (0xBCAF, 0x93C5), (0xBCB0, 0xBAA8), (0xBCB1, 0xBAA9),
    (0xBCB2, 0x93C6), (0xBCB3, 0xBAAA)] @
   [(0xBCB4, 0xBAAB), (0xBCB5, 0xBAAC), (0xBCB6, 0x93C7), (0xBCB7, 0x93C8), (0xBCB8, 0x93C9), (0xBCB9, 0x93CA),
    (0xBCBA, 0x93CB), (0xBCBB, 0x93CC)] @
   [(0xBCBC, 0xBAAD), (0xBCBD, 0xBAAE), (0xBCBE, 0x93CD), (0xBCBF, 0x93CE), (0xBCC0, 0xBAAF), (0xBCC1, 0x93CF),
    (0xBCC2, 0x93D0), (0xBCC3, 0x93D1)] @
   [(0xBCC4, 0xBAB0), (0xBCC5, 0x93D2), (0xBCC6, 0x93D3), (0xBCC7, 0x93D4), (0xBCC8, 0x93D5), (0xBCC9, 0x93D6),
    (0xBCCA, 0x93D7), (0xBCCB, 0x93D8)] @
   [(0xBCCC, 0x93D9), (0xBCCD, 0xBAB1), (0xBCCE, 0x93DA), (0xBCCF, 0xBAB2), (0xBCD0, 0xBAB3), (0xBCD1, 0xBAB4),
    (0xBCD2, 0x93DB), (0xBCD3, 0x93DC)] @
   [(0xBCD4, 0x93DD), (0xBCD5, 0xBAB5), (0xBCD6, 0x93DE), (0xBCD7, 0x93DF), (0xBCD8, 0xBAB6), (0xBCD9, 0x93E0),
    (0xBCDA, 0x93E1), (0xBCDB, 0x93E2)] @
   [(0xBCDC, 0xBAB7), (0xBCDD, 0x93E3), (0xBCDE, 0x93E4), (0xBCDF, 0x93E5), (0xBCE0, 0x93E6), (0xBCE1, 0x93E7),
    (0xBCE2, 0x93E8), (0xBCE3, 0x93E9)] @
   [(0xBCE4, 0x93EA), (0xBCE5, 0x93EB), (0xBCE6, 0x93EC), (0xBCE7, 0x93ED), (0xBCE8, 0x93EE), (0xBCE9, 0x93EF),
    (0xBCEA, 0x93F0), (0xBCEB, 0x93F1)] @
   [(0xBCEC, 0x93F2), (0xBCED, 0x93F3), (0xBCEE, 0x93F4), (0xBCEF, 0x93F5), (0xBCF0, 0x93F6), (0xBCF1, 0x93F7),
    (0xBCF2, 0x93F8), (0xBCF3, 0x93F9)] @
   [(0xBCF4, 0xBAB8), (0xBCF5, 0xBAB9), (0xBCF6, 0xBABA), (0xBCF7, 0x93FA), (0xBCF8, 0xBABB), (0xBCF9, 0x93FB),
    (0xBCFA, 0x93FC), (0xBCFB, 0x93FD)]"

definition rev_cp949_39 :: "(nat \<times> nat) list" where
  "rev_cp949_39 =
   [(0xBCFC, 0xBABC), (0xBCFD, 0x93FE), (0xBCFE, 0x9441), (0xBCFF, 0x9442), (0xBD00, 0x9443), (0xBD01, 0x9444),
    (0xBD02, 0x9445), (0xBD03, 0x9446)] @
   [(0xBD04, 0xBABD), (0xBD05, 0xBABE), (0xBD06, 0x9447), (0xBD07, 0xBABF), (0xBD08, 0x9448), (0xBD09, 0xBAC0),
    (0xBD0A, 0x9449), (0xBD0B, 0x944A)] @
   [(0xBD0C, 0x944B), (0xBD0D, 0x944C), (0xBD0E, 0x944D), (0xBD0F, 0x944E), (0xBD10, 0xBAC1), (0xBD11, 0x944F),
    (0xBD12, 0x9450), (0xBD13, 0x9451)] @
   [(0xBD14, 0xBAC2), (0xBD15, 0x9452), (0xBD16, 0x9453), (0xBD17, 0x9454), (0xBD18, 0x9455), (0xBD19, 0x9456),
    (0xBD1A, 0x9457), (0xBD1B, 0x9458)] @
   [(0xBD1C, 0x9459), (0xBD1D, 0x945A), (0xBD1E, 0x9461), (0xBD1F, 0x9462), (0xBD20, 0x9463), (0xBD21, 0x9464),
    (0xBD22, 0x9465), (0xBD23, 0x9466)] @
   [(0xBD24, 0xBAC3), (0xBD25, 0x9467), (0xBD26, 0x9468), (0xBD27, 0x9469), (0xBD28, 0x946A), (0xBD29, 0x946B),
    (0xBD2A, 0x946C), (0xBD2B, 0x946D)] @
   [(0xBD2C, 0xBAC4), (0xBD2D, 0x946E), (0xBD2E, 0x946F), (0xBD2F, 0x9470), (0xBD30, 0x9471), (0xBD31, 0x9472),
    (0xBD32, 0x9473), (0xBD33, 0x9474)] @
   [(0xBD34, 0x9475), (0xBD35, 0x9476), (0xBD36, 0x9477), (0xBD37, 0x9478), (0xBD38, 0x9479), (0xBD39, 0x947A),
    (0xBD3A, 0x9481), (0xBD3B, 0x9482)] @
   [(0xBD3C, 0x9483), (0xBD3D, 0x9484), (0xBD3E, 0x9485), (0xBD3F, 0x9486), (0xBD40, 0xBAC5), (0xBD41, 0x9487),
    (0xBD42, 0x9488), (0xBD43, 0x9489)] @
   [(0xBD44, 0x948A), (0xBD45, 0x948B), (0xBD46, 0x948C), (0xBD47, 0x948D), (0xBD48, 0xBAC6), (0xBD49, 0xBAC7),
    (0xBD4A, 0x948E), (0xBD4B, 0x948F)] @
   [(0xBD4C, 0xBAC8), (0xBD4D, 0x9490), (0xBD4E, 0x9491), (0xBD4F, 0x9492), (0xBD50, 0xBAC9), (0xBD51, 0x9493),
    (0xBD52, 0x9494), (0xBD53, 0x9495)] @
   [(0xBD54, 0x9496), (0xBD55, 0x9497), (0xBD56, 0x9498), (0xBD57, 0x9499), (0xBD58, 0xBACA), (0xBD59, 0xBACB),
    (0xBD5A, 0x949A), (0xBD5B, 0x949B)] @
   [(0xBD5C, 0x949C), (0xBD5D, 0x949D), (0xBD5E, 0x949E), (0xBD5F, 0x949F), (0xBD60, 0x94A0), (0xBD61, 0x94A1),
    (0xBD62, 0x94A2), (0xBD63, 0x94A3)] @
   [(0xBD64, 0xBACC), (0xBD65, 0x94A4), (0xBD66, 0x94A5), (0xBD67, 0x94A6), (0xBD68, 0xBACD), (0xBD69, 0x94A7),
    (0xBD6A, 0x94A8), (0xBD6B, 0x94A9)] @
   [(0xBD6C, 0x94AA), (0xBD6D, 0x94AB), (0xBD6E, 0x94AC), (0xBD6F, 0x94AD), (0xBD70, 0x94AE), (0xBD71, 0x94AF),
    (0xBD72, 0x94B0), (0xBD73, 0x94B1)] @
   [(0xBD74, 0x94B2), (0xBD75, 0x94B3), (0xBD76, 0x94B4), (0xBD77, 0x94B5), (0xBD78, 0x94B6), (0xBD79, 0x94B7),
    (0xBD7A, 0x94B8), (0xBD7B, 0x94B9)] @
   [(0xBD7C, 0x94BA), (0xBD7D, 0x94BB), (0xBD7E, 0x94BC), (0xBD7F, 0x94BD), (0xBD80, 0xBACE), (0xBD81, 0xBACF),
    (0xBD82, 0x94BE), (0xBD83, 0x94BF)] @
   [(0xBD84, 0xBAD0), (0xBD85, 0x94C0), (0xBD86, 0x94C1), (0xBD87, 0xBAD1), (0xBD88, 0xBAD2), (0xBD89, 0xBAD3),
    (0xBD8A, 0xBAD4), (0xBD8B, 0x94C2)] @
   [(0xBD8C, 0x94C3), (0xBD8D, 0x94C4), (0xBD8E, 0x94C5), (0xBD8F, 0x94C6), (0xBD90, 0xBAD5), (0xBD91, 0xBAD6),
    (0xBD92, 0x94C7), (0xBD93, 0xBAD7)] @
   [(0xBD94, 0x94C8), (0xBD95, 0xBAD8), (0xBD96, 0x94C9), (0xBD97, 0x94CA), (0xBD98, 0x94CB), (0xBD99, 0xBAD9),
    (0xBD9A, 0xBADA), (0xBD9B, 0x94CC)] @
   [(0xBD9C, 0xBADB), (0xBD9D, 0x94CD), (0xBD9E, 0x94CE), (0xBD9F, 0x94CF), (0xBDA0, 0x94D0), (0xBDA1, 0x94D1),
    (0xBDA2, 0x94D2), (0xBDA3, 0x94D3)] @
   [(0xBDA4, 0xBADC), (0xBDA5, 0x94D4), (0xBDA6, 0x94D5), (0xBDA7, 0x94D6), (0xBDA8, 0x94D7), (0xBDA9, 0x94D8),
    (0xBDAA, 0x94D9), (0xBDAB, 0x94DA)] @
   [(0xBDAC, 0x94DB), (0xBDAD, 0x94DC), (0xBDAE, 0x94DD), (0xBDAF, 0x94DE), (0xBDB0, 0xBADD), (0xBDB1, 0x94DF),
    (0xBDB2, 0x94E0), (0xBDB3, 0x94E1)] @
   [(0xBDB4, 0x94E2), (0xBDB5, 0x94E3), (0xBDB6, 0x94E4), (0xBDB7, 0x94E5), (0xBDB8, 0xBADE), (0xBDB9, 0x94E6),
    (0xBDBA, 0x94E7), (0xBDBB, 0x94E8)] @
   [(0xBDBC, 0x94E9), (0xBDBD, 0x94EA), (0xBDBE, 0x94EB), (0xBDBF, 0x94EC), (0xBDC0, 0x94ED), (0xBDC1, 0x94EE),
    (0xBDC2, 0x94EF), (0xBDC3, 0x94F0)] @
   [(0xBDC4, 0x94F1), (0xBDC5, 0x94F2), (0xBDC6, 0x94F3), (0xBDC7, 0x94F4), (0xBDC8, 0x94F5), (0xBDC9, 0x94F6),
    (0xBDCA, 0x94F7), (0xBDCB, 0x94F8)] @
   [(0xBDCC, 0x94F9), (0xBDCD, 0x94FA), (0xBDCE, 0x94FB), (0xBDCF, 0x94FC), (0xBDD0, 0x94FD), (0xBDD1, 0x94FE),
    (0xBDD2, 0x9541), (0xBDD3, 0x9542)] @
   [(0xBDD4, 0xBADF), (0xBDD5, 0xBAE0), (0xBDD6, 0x9543), (0xBDD7, 0x9544), (0xBDD8, 0xBAE1), (0xBDD9, 0x9545),
    (0xBDDA, 0x9546), (0xBDDB, 0x9547)] @
   [(0xBDDC, 0xBAE2), (0xBDDD, 0x9548), (0xBDDE, 0x9549), (0xBDDF, 0x954A), (0xBDE0, 0x954B), (0xBDE1, 0x954C),
    (0xBDE2, 0x954D), (0xBDE3, 0x954E)] @
   [(0xBDE4, 0x954F), (0xBDE5, 0x9550), (0xBDE6, 0x9551), (0xBDE7, 0x9552), (0xBDE8, 0x9553), (0xBDE9, 0xBAE3),
    (0xBDEA, 0x9554), (0xBDEB, 0x9555)] @
   [(0xBDEC, 0x9556), (0xBDED, 0x9557), (0xBDEE, 0x9558), (0xBDEF, 0x9559), (0xBDF0, 0xBAE4), (0xBDF1, 0x955A),
    (0xBDF2, 0x9561), (0xBDF3, 0x9562)] @
   [(0xBDF4, 0xBAE5), (0xBDF5, 0x9563), (0xBDF6, 0x9564), (0xBDF7, 0x9565), (0xBDF8, 0xBAE6), (0xBDF9, 0x9566),
    (0xBDFA, 0x9567), (0xBDFB, 0x9568)]"

definition rev_cp949_40 :: "(nat \<times> nat) list" where
  "rev_cp949_40 =
   [(0xBDFC, 0x9569), (0xBDFD, 0x956A), (0xBDFE, 0x956B), (0xBDFF, 0x956C), (0xBE00, 0xBAE7), (0xBE01, 0x956D),
    (0xBE02, 0x956E), (0xBE03, 0xBAE8)] @
   [(0xBE04, 0x956F), (0xBE05, 0xBAE9), (0xBE06, 0x9570), (0xBE07, 0x9571), (0xBE08, 0x9572), (0xBE09, 0x9573),
    (0xBE0A, 0x9574), (0xBE0B, 0x9575)] @
   [(0xBE0C, 0xBAEA), (0xBE0D, 0xBAEB), (0xBE0E, 0x9576), (0xBE0F, 0x9577), (0xBE10, 0xBAEC), (0xBE11, 0x9578),
    (0xBE12, 0x9579), (0xBE13, 0x957A)] @
   [(0xBE14, 0xBAED), (0xBE15, 0x9581), (0xBE16, 0x9582), (0xBE17, 0x9583), (0xBE18, 0x9584), (0xBE19, 0x9585),
    (0xBE1A, 0x9586), (0xBE1B, 0x9587)] @
   [(0xBE1C, 0xBAEE), (0xBE1D, 0xBAEF), (0xBE1E, 0x9588), (0xBE1F, 0xBAF0), (0xBE20, 0x9589), (0xBE21, 0x958A),
    (0xBE22, 0x958B), (0xBE23, 0x958C)] @
   [(0xBE24, 0x958D), (0xBE25, 0x958E), (0xBE26, 0x958F), (0xBE27, 0x9590), (0xBE28, 0x9591), (0xBE29, 0x9592),
    (0xBE2A, 0x9593), (0xBE2B, 0x9594)] @
   [(0xBE2C, 0x9595), (0xBE2D, 0x9596), (0xBE2E, 0x9597), (0xBE2F, 0x9598), (0xBE30, 0x9599), (0xBE31, 0x959A),
    (0xBE32, 0x959B), (0xBE33, 0x959C)] @
   [(0xBE34, 0x959D), (0xBE35, 0x959E), (0xBE36, 0x959F), (0xBE37, 0x95A0), (0xBE38, 0x95A1), (0xBE39, 0x95A2),
    (0xBE3A, 0x95A3), (0xBE3B, 0x95A4)] @
   [(0xBE3C, 0x95A5), (0xBE3D, 0x95A6), (0xBE3E, 0x95A7), (0xBE3F, 0x95A8), (0xBE40, 0x95A9), (0xBE41, 0x95AA),
    (0xBE42, 0x95AB), (0xBE43, 0x95AC)] @
   [(0xBE44, 0xBAF1), (0xBE45, 0xBAF2), (0xBE46, 0x95AD), (0xBE47, 0x95AE), (0xBE48, 0xBAF3), (0xBE49, 0x95AF),
    (0xBE4A, 0x95B0), (0xBE4B, 0x95B1)] @
   [(0xBE4C, 0xBAF4), (0xBE4D, 0x95B2), (0xBE4E, 0xBAF5), (0xBE4F, 0x95B3), (0xBE50, 0x95B4), (0xBE51, 0x95B5),
    (0xBE52, 0x95B6), (0xBE53, 0x95B7)] @
   [(0xBE54, 0xBAF6), (0xBE55, 0xBAF7), (0xBE56, 0x95B8), (0xBE57, 0xBAF8), (0xBE58, 0x95B9), (0xBE59, 0xBAF9),
    (0xBE5A, 0xBAFA), (0xBE5B, 0xBAFB)] @
   [(0xBE5C, 0x95BA), (0xBE5D, 0x95BB), (0xBE5E, 0x95BC), (0xBE5F, 0x95BD), (0xBE60, 0xBAFC), (0xBE61, 0xBAFD),
    (0xBE62, 0x95BE), (0xBE63, 0x95BF)] @
   [(0xBE64, 0xBAFE), (0xBE65, 0x95C0), (0xBE66, 0x95C1), (0xBE67, 0x95C2), (0xBE68, 0xBBA1), (0xBE69, 0x95C3),
    (0xBE6A, 0xBBA2), (0xBE6B, 0x95C4)] @
   [(0xBE6C, 0x95C5), (0xBE6D, 0x95C6), (0xBE6E, 0x95C7), (0xBE6F, 0x95C8), (0xBE70, 0xBBA3), (0xBE71, 0xBBA4),
    (0xBE72, 0x95C9), (0xBE73, 0xBBA5)] @
   [(0xBE74, 0xBBA6), (0xBE75, 0xBBA7), (0xBE76, 0x95CA), (0xBE77, 0x95CB), (0xBE78, 0x95CC), (0xBE79, 0x95CD),
    (0xBE7A, 0x95CE), (0xBE7B, 0xBBA8)] @
   [(0xBE7C, 0xBBA9), (0xBE7D, 0xBBAA), (0xBE7E, 0x95CF), (0xBE7F, 0x95D0), (0xBE80, 0xBBAB), (0xBE81, 0x95D1),
    (0xBE82, 0x95D2), (0xBE83, 0x95D3)] @
   [(0xBE84, 0xBBAC), (0xBE85, 0x95D4), (0xBE86, 0x95D5), (0xBE87, 0x95D6), (0xBE88, 0x95D7), (0xBE89, 0x95D8),
    (0xBE8A, 0x95D9), (0xBE8B, 0x95DA)] @
   [(0xBE8C, 0xBBAD), (0xBE8D, 0xBBAE), (0xBE8E, 0x95DB), (0xBE8F, 0xBBAF), (0xBE90, 0xBBB0), (0xBE91, 0xBBB1),
    (0xBE92, 0x95DC), (0xBE93, 0x95DD)] @
   [(0xBE94, 0x95DE), (0xBE95, 0x95DF), (0xBE96, 0x95E0), (0xBE97, 0x95E1), (0xBE98, 0xBBB2), (0xBE99, 0xBBB3),
    (0xBE9A, 0x95E2), (0xBE9B, 0x95E3)] @
   [(0xBE9C, 0x95E4), (0xBE9D, 0x95E5), (0xBE9E, 0x95E6), (0xBE9F, 0x95E7), (0xBEA0, 0x95E8), (0xBEA1, 0x95E9),
    (0xBEA2, 0x95EA), (0xBEA3, 0x95EB)] @
   [(0xBEA4, 0x95EC), (0xBEA5, 0x95ED), (0xBEA6, 0x95EE), (0xBEA7, 0x95EF), (0xBEA8, 0xBBB4), (0xBEA9, 0x95F0),
    (0xBEAA, 0x95F1), (0xBEAB, 0x95F2)] @
   [(0xBEAC, 0x95F3), (0xBEAD, 0x95F4), (0xBEAE, 0x95F5), (0xBEAF, 0x95F6), (0xBEB0, 0x95F7), (0xBEB1, 0x95F8),
    (0xBEB2, 0x95F9), (0xBEB3, 0x95FA)] @
   [(0xBEB4, 0x95FB), (0xBEB5, 0x95FC), (0xBEB6, 0x95FD), (0xBEB7, 0x95FE), (0xBEB8, 0x9641), (0xBEB9, 0x9642),
    (0xBEBA, 0x9643), (0xBEBB, 0x9644)] @
   [(0xBEBC, 0x9645), (0xBEBD, 0x9646), (0xBEBE, 0x9647), (0xBEBF, 0x9648), (0xBEC0, 0x9649), (0xBEC1, 0x964A),
    (0xBEC2, 0x964B), (0xBEC3, 0x964C)] @
   [(0xBEC4, 0x964D), (0xBEC5, 0x964E), (0xBEC6, 0x964F), (0xBEC7, 0x9650), (0xBEC8, 0x9651), (0xBEC9, 0x9652),
    (0xBECA, 0x9653), (0xBECB, 0x9654)] @
   [(0xBECC, 0x9655), (0xBECD, 0x9656), (0xBECE, 0x9657), (0xBECF, 0x9658), (0xBED0, 0xBBB5), (0xBED1, 0xBBB6),
    (0xBED2, 0x9659), (0xBED3, 0x965A)] @
   [(0xBED4, 0xBBB7), (0xBED5, 0x9661), (0xBED6, 0x9662), (0xBED7, 0xBBB8), (0xBED8, 0xBBB9), (0xBED9, 0x9663),
    (0xBEDA, 0x9664), (0xBEDB, 0x9665)] @
   [(0xBEDC, 0x9666), (0xBEDD, 0x9667), (0xBEDE, 0x9668), (0xBEDF, 0x9669), (0xBEE0, 0xBBBA), (0xBEE1, 0x966A),
    (0xBEE2, 0x966B), (0xBEE3, 0xBBBB)] @
   [(0xBEE4, 0xBBBC), (0xBEE5, 0xBBBD), (0xBEE6, 0x966C), (0xBEE7, 0x966D), (0xBEE8, 0x966E), (0xBEE9, 0x966F),
    (0xBEEA, 0x9670), (0xBEEB, 0x9671)] @
   [(0xBEEC, 0xBBBE), (0xBEED, 0x9672), (0xBEEE, 0x9673), (0xBEEF, 0x9674), (0xBEF0, 0x9675), (0xBEF1, 0x9676),
    (0xBEF2, 0x9677), (0xBEF3, 0x9678)] @
   [(0xBEF4, 0x9679), (0xBEF5, 0x967A), (0xBEF6, 0x9681), (0xBEF7, 0x9682), (0xBEF8, 0x9683), (0xBEF9, 0x9684),
    (0xBEFA, 0x9685), (0xBEFB, 0x9686)]"

definition rev_cp949_41 :: "(nat \<times> nat) list" where
  "rev_cp949_41 =
   [(0xBEFC, 0x9687), (0xBEFD, 0x9688), (0xBEFE, 0x9689), (0xBEFF, 0x968A), (0xBF00, 0x968B), (0xBF01, 0xBBBF),
    (0xBF02, 0x968C), (0xBF03, 0x968D)] @
   [(0xBF04, 0x968E), (0xBF05, 0x968F), (0xBF06, 0x9690), (0xBF07, 0x9691), (0xBF08, 0xBBC0), (0xBF09, 0xBBC1),
    (0xBF0A, 0x9692), (0xBF0B, 0x9693)] @
   [(0xBF0C, 0x9694), (0xBF0D, 0x9695), (0xBF0E, 0x9696), (0xBF0F, 0x9697), (0xBF10, 0x9698), (0xBF11, 0x9699),
    (0xBF12, 0x969A), (0xBF13, 0x969B)] @
   [(0xBF14, 0x969C), (0xBF15, 0x969D), (0xBF16, 0x969E), (0xBF17, 0x969F), (0xBF18, 0xBBC2), (0xBF19, 0xBBC3),
    (0xBF1A, 0x96A0), (0xBF1B, 0xBBC4)] @
   [(0xBF1C, 0xBBC5), (0xBF1D, 0xBBC6), (0xBF1E, 0x96A1), (0xBF1F, 0x96A2), (0xBF20, 0x96A3), (0xBF21, 0x96A4),
    (0xBF22, 0x96A5), (0xBF23, 0x96A6)] @
   [(0xBF24, 0x96A7), (0xBF25, 0x96A8), (0xBF26, 0x96A9), (0xBF27, 0x96AA), (0xBF28, 0x96AB), (0xBF29, 0x96AC),
    (0xBF2A, 0x96AD), (0xBF2B, 0x96AE)] @
   [(0xBF2C, 0x96AF), (0xBF2D, 0x96B0), (0xBF2E, 0x96B1), (0xBF2F, 0x96B2), (0xBF30, 0x96B3), (0xBF31, 0x96B4),
    (0xBF32, 0x96B5), (0xBF33, 0x96B6)] @
   [(0xBF34, 0x96B7), (0xBF35, 0x96B8), (0xBF36, 0x96B9), (0xBF37, 0x96BA), (0xBF38, 0x96BB), (0xBF39, 0x96BC),
    (0xBF3A, 0x96BD), (0xBF3B, 0x96BE)] @
   [(0xBF3C, 0x96BF), (0xBF3D, 0x96C0), (0xBF3E, 0x96C1), (0xBF3F, 0x96C2), (0xBF40, 0xBBC7), (0xBF41, 0xBBC8),
    (0xBF42, 0x96C3), (0xBF43, 0x96C4)] @
   [(0xBF44, 0xBBC9), (0xBF45, 0x96C5), (0xBF46, 0x96C6), (0xBF47, 0x96C7), (0xBF48, 0xBBCA), (0xBF49, 0x96C8),
    (0xBF4A, 0x96C9), (0xBF4B, 0x96CA)] @
   [(0xBF4C, 0x96CB), (0xBF4D, 0x96CC), (0xBF4E, 0x96CD), (0xBF4F, 0x96CE), (0xBF50, 0xBBCB), (0xBF51, 0xBBCC),
    (0xBF52, 0x96CF), (0xBF53, 0x96D0)] @
   [(0xBF54, 0x96D1), (0xBF55, 0xBBCD), (0xBF56, 0x96D2), (0xBF57, 0x96D3), (0xBF58, 0x96D4), (0xBF59, 0x96D5),
    (0xBF5A, 0x96D6), (0xBF5B, 0x96D7)] @
   [(0xBF5C, 0x96D8), (0xBF5D, 0x96D9), (0xBF5E, 0x96DA), (0xBF5F, 0x96DB), (0xBF60, 0x96DC), (0xBF61, 0x96DD),
    (0xBF62, 0x96DE), (0xBF63, 0x96DF)] @
   [(0xBF64, 0x96E0), (0xBF65, 0x96E1), (0xBF66, 0x96E2), (0xBF67, 0x96E3), (0xBF68, 0x96E4), (0xBF69, 0x96E5),
    (0xBF6A, 0x96E6), (0xBF6B, 0x96E7)] @
   [(0xBF6C, 0x96E8), (0xBF6D, 0x96E9), (0xBF6E, 0x96EA), (0xBF6F, 0x96EB), (0xBF70, 0x96EC), (0xBF71, 0x96ED),
    (0xBF72, 0x96EE), (0xBF73, 0x96EF)] @
   [(0xBF74, 0x96F0), (0xBF75, 0x96F1), (0xBF76, 0x96F2), (0xBF77, 0x96F3), (0xBF78, 0x96F4), (0xBF79, 0x96F5),
    (0xBF7A, 0x96F6), (0xBF7B, 0x96F7)] @
   [(0xBF7C, 0x96F8), (0xBF7D, 0x96F9), (0xBF7E, 0x96FA), (0xBF7F, 0x96FB), (0xBF80, 0x96FC), (0xBF81, 0x96FD),
    (0xBF82, 0x96FE), (0xBF83, 0x9741)] @
   [(0xBF84, 0x9742), (0xBF85, 0x9743), (0xBF86, 0x9744), (0xBF87, 0x9745), (0xBF88, 0x9746), (0xBF89, 0x9747),
    (0xBF8A, 0x9748), (0xBF8B, 0x9749)] @
   [(0xBF8C, 0x974A), (0xBF8D, 0x974B), (0xBF8E, 0x974C), (0xBF8F, 0x974D), (0xBF90, 0x974E), (0xBF91, 0x974F),
    (0xBF92, 0x9750), (0xBF93, 0x9751)] @
   [(0xBF94, 0xBBCE), (0xBF95, 0x9752), (0xBF96, 0x9753), (0xBF97, 0x9754), (0xBF98, 0x9755), (0xBF99, 0x9756),
    (0xBF9A, 0x9757), (0xBF9B, 0x9758)] @
   [(0xBF9C, 0x9759), (0xBF9D, 0x975A), (0xBF9E, 0x9761), (0xBF9F, 0x9762), (0xBFA0, 0x9763), (0xBFA1, 0x9764),
    (0xBFA2, 0x9765), (0xBFA3, 0x9766)] @
   [(0xBFA4, 0x9767), (0xBFA5, 0x9768), (0xBFA6, 0x9769), (0xBFA7, 0x976A), (0xBFA8, 0x976B), (0xBFA9, 0x976C),
    (0xBFAA, 0x976D), (0xBFAB, 0x976E)] @
   [(0xBFAC, 0x976F), (0xBFAD, 0x9770), (0xBFAE, 0x9771), (0xBFAF, 0x9772), (0xBFB0, 0xBBCF), (0xBFB1, 0x9773),
    (0xBFB2, 0x9774), (0xBFB3, 0x9775)] @
   [(0xBFB4, 0x9776), (0xBFB5, 0x9777), (0xBFB6, 0x9778), (0xBFB7, 0x9779), (0xBFB8, 0x977A), (0xBFB9, 0x9781),
    (0xBFBA, 0x9782), (0xBFBB, 0x9783)] @
   [(0xBFBC, 0x9784), (0xBFBD, 0x9785), (0xBFBE, 0x9786), (0xBFBF, 0x9787), (0xBFC0, 0x9788), (0xBFC1, 0x9789),
    (0xBFC2, 0x978A), (0xBFC3, 0x978B)] @
   [(0xBFC4, 0x978C), (0xBFC5, 0xBBD0), (0xBFC6, 0x978D), (0xBFC7, 0x978E), (0xBFC8, 0x978F), (0xBFC9, 0x9790),
    (0xBFCA, 0x9791), (0xBFCB, 0x9792)] @
   [(0xBFCC, 0xBBD1), (0xBFCD, 0xBBD2), (0xBFCE, 0x9793), (0xBFCF, 0x9794), (0xBFD0, 0xBBD3), (0xBFD1, 0x9795),
    (0xBFD2, 0x9796), (0xBFD3, 0x9797)] @
   [(0xBFD4, 0xBBD4), (0xBFD5, 0x9798), (0xBFD6, 0x9799), (0xBFD7, 0x979A), (0xBFD8, 0x979B), (0xBFD9, 0x979C),
    (0xBFDA, 0x979D), (0xBFDB, 0x979E)] @
   [(0xBFDC, 0xBBD5), (0xBFDD, 0x979F), (0xBFDE, 0x97A0), (0xBFDF, 0xBBD6), (0xBFE0, 0x97A1), (0xBFE1, 0xBBD7),
    (0xBFE2, 0x97A2), (0xBFE3, 0x97A3)] @
   [(0xBFE4, 0x97A4), (0xBFE5, 0x97A5), (0xBFE6, 0x97A6), (0xBFE7, 0x97A7), (0xBFE8, 0x97A8), (0xBFE9, 0x97A9),
    (0xBFEA, 0x97AA), (0xBFEB, 0x97AB)] @
   [(0xBFEC, 0x97AC), (0xBFED, 0x97AD), (0xBFEE, 0x97AE), (0xBFEF, 0x97AF), (0xBFF0, 0x97B0), (0xBFF1, 0x97B1),
    (0xBFF2, 0x97B2), (0xBFF3, 0x97B3)] @
   [(0xBFF4, 0x97B4), (0xBFF5, 0x97B5), (0xBFF6, 0x97B6), (0xBFF7, 0x97B7), (0xBFF8, 0x97B8), (0xBFF9, 0x97B9),
    (0xBFFA, 0x97BA), (0xBFFB, 0x97BB)]"

definition rev_cp949_42 :: "(nat \<times> nat) list" where
  "rev_cp949_42 =
   [(0xBFFC, 0x97BC), (0xBFFD, 0x97BD), (0xBFFE, 0x97BE), (0xBFFF, 0x97BF), (0xC000, 0x97C0), (0xC001, 0x97C1),
    (0xC002, 0x97C2), (0xC003, 0x97C3)] @
   [(0xC004, 0x97C4), (0xC005, 0x97C5), (0xC006, 0x97C6), (0xC007, 0x97C7), (0xC008, 0x97C8), (0xC009, 0x97C9),
    (0xC00A, 0x97CA), (0xC00B, 0x97CB)] @
   [(0xC00C, 0x97CC), (0xC00D, 0x97CD), (0xC00E, 0x97CE), (0xC00F, 0x97CF), (0xC010, 0x97D0), (0xC011, 0x97D1),
    (0xC012, 0x97D2), (0xC013, 0x97D3)] @
   [(0xC014, 0x97D4), (0xC015, 0x97D5), (0xC016, 0x97D6), (0xC017, 0x97D7), (0xC018, 0x97D8), (0xC019, 0x97D9),
    (0xC01A, 0x97DA), (0xC01B, 0x97DB)] @
   [(0xC01C, 0x97DC), (0xC01D, 0x97DD), (0xC01E, 0x97DE), (0xC01F, 0x97DF), (0xC020, 0x97E0), (0xC021, 0x97E1),
    (0xC022, 0x97E2), (0xC023, 0x97E3)] @
   [(0xC024, 0x97E4), (0xC025, 0x97E5), (0xC026, 0x97E6), (0xC027, 0x97E7), (0xC028, 0x97E8), (0xC029, 0x97E9),
    (0xC02A, 0x97EA), (0xC02B, 0x97EB)] @
   [(0xC02C, 0x97EC), (0xC02D, 0x97ED), (0xC02E, 0x97EE), (0xC02F, 0x97EF), (0xC030, 0x97F0), (0xC031, 0x97F1),
    (0xC032, 0x97F2), (0xC033, 0x97F3)] @
   [(0xC034, 0x97F4), (0xC035, 0x97F5), (0xC036, 0x97F6), (0xC037, 0x97F7), (0xC038, 0x97F8), (0xC039, 0x97F9),
    (0xC03A, 0x97FA), (0xC03B, 0x97FB)] @
   [(0xC03C, 0xBBD8), (0xC03D, 0x97FC), (0xC03E, 0x97FD), (0xC03F, 0x97FE), (0xC040, 0x9841), (0xC041, 0x9842),
    (0xC042, 0x9843), (0xC043, 0x9844)] @
   [(0xC044, 0x9845), (0xC045, 0x9846), (0xC046, 0x9847), (0xC047, 0x9848), (0xC048, 0x9849), (0xC049, 0x984A),
    (0xC04A, 0x984B), (0xC04B, 0x984C)] @
   [(0xC04C, 0x984D), (0xC04D, 0x984E), (0xC04E, 0x984F), (0xC04F, 0x9850), (0xC050, 0x9851), (0xC051, 0xBBD9),
    (0xC052, 0x9852), (0xC053, 0x9853)] @
   [(0xC054, 0x9854), (0xC055, 0x9855), (0xC056, 0x9856), (0xC057, 0x9857), (0xC058, 0xBBDA), (0xC059, 0x9858),
    (0xC05A, 0x9859), (0xC05B, 0x985A)] @
   [(0xC05C, 0xBBDB), (0xC05D, 0x9861), (0xC05E, 0x9862), (0xC05F, 0x9863), (0xC060, 0xBBDC), (0xC061, 0x9864),
    (0xC062, 0x9865), (0xC063, 0x9866)] @
   [(0xC064, 0x9867), (0xC065, 0x9868), (0xC066, 0x9869), (0xC067, 0x986A), (0xC068, 0xBBDD), (0xC069, 0xBBDE),
    (0xC06A, 0x986B), (0xC06B, 0x986C)] @
   [(0xC06C, 0x986D), (0xC06D, 0x986E), (0xC06E, 0x986F), (0xC06F, 0x9870), (0xC070, 0x9871), (0xC071, 0x9872),
    (0xC072, 0x9873), (0xC073, 0x9874)] @
   [(0xC074, 0x9875), (0xC075, 0x9876), (0xC076, 0x9877), (0xC077, 0x9878), (0xC078, 0x9879), (0xC079, 0x987A),
    (0xC07A, 0x9881), (0xC07B, 0x9882)] @
   [(0xC07C, 0x9883), (0xC07D, 0x9884), (0xC07E, 0x9885), (0xC07F, 0x9886), (0xC080, 0x9887), (0xC081, 0x9888),
    (0xC082, 0x9889), (0xC083, 0x988A)] @
   [(0xC084, 0x988B), (0xC085, 0x988C), (0xC086, 0x988D), (0xC087, 0x988E), (0xC088, 0x988F), (0xC089, 0x9890),
    (0xC08A, 0x9891), (0xC08B, 0x9892)] @
   [(0xC08C, 0x9893), (0xC08D, 0x9894), (0xC08E, 0x9895), (0xC08F, 0x9896), (0xC090, 0xBBDF), (0xC091, 0xBBE0),
    (0xC092, 0x9897), (0xC093, 0x9898)] @
   [(0xC094, 0xBBE1), (0xC095, 0x9899), (0xC096, 0x989A), (0xC097, 0x989B), (0xC098, 0xBBE2), (0xC099, 0x989C),
    (0xC09A, 0x989D), (0xC09B, 0x989E)] @
   [(0xC09C, 0x989F), (0xC09D, 0x98A0), (0xC09E, 0x98A1), (0xC09F, 0x98A2), (0xC0A0, 0xBBE3), (0xC0A1, 0xBBE4),
    (0xC0A2, 0x98A3), (0xC0A3, 0xBBE5)] @
   [(0xC0A4, 0x98A4), (0xC0A5, 0xBBE6), (0xC0A6, 0x98A5), (0xC0A7, 0x98A6), (0xC0A8, 0x98A7), (0xC0A9, 0x98A8),
    (0xC0AA, 0x98A9), (0xC0AB, 0x98AA)] @
   [(0xC0AC, 0xBBE7), (0xC0AD, 0xBBE8), (0xC0AE, 0x98AB), (0xC0AF, 0xBBE9), (0xC0B0, 0xBBEA), (0xC0B1, 0x98AC),
    (0xC0B2, 0x98AD), (0xC0B3, 0xBBEB)] @
   [(0xC0B4, 0xBBEC), (0xC0B5, 0xBBED), (0xC0B6, 0xBBEE), (0xC0B7, 0x98AE), (0xC0B8, 0x98AF), (0xC0B9, 0x98B0),
    (0xC0BA, 0x98B1), (0xC0BB, 0x98B2)] @
   [(0xC0BC, 0xBBEF), (0xC0BD, 0xBBF0), (0xC0BE, 0x98B3), (0xC0BF, 0xBBF1), (0xC0C0, 0xBBF2), (0xC0C1, 0xBBF3),
    (0xC0C2, 0x98B4), (0xC0C3, 0x98B5)] @
   [(0xC0C4, 0x98B6), (0xC0C5, 0xBBF4), (0xC0C6, 0x98B7), (0xC0C7, 0x98B8), (0xC0C8, 0xBBF5), (0xC0C9, 0xBBF6),
    (0xC0CA, 0x98B9), (0xC0CB, 0x98BA)] @
   [(0xC0CC, 0xBBF7), (0xC0CD, 0x98BB), (0xC0CE, 0x98BC), (0xC0CF, 0x98BD), (0xC0D0, 0xBBF8), (0xC0D1, 0x98BE),
    (0xC0D2, 0x98BF), (0xC0D3, 0x98C0)] @
   [(0xC0D4, 0x98C1), (0xC0D5, 0x98C2), (0xC0D6, 0x98C3), (0xC0D7, 0x98C4), (0xC0D8, 0xBBF9), (0xC0D9, 0xBBFA),
    (0xC0DA, 0x98C5), (0xC0DB, 0xBBFB)] @
   [(0xC0DC, 0xBBFC), (0xC0DD, 0xBBFD), (0xC0DE, 0x98C6), (0xC0DF, 0x98C7), (0xC0E0, 0x98C8), (0xC0E1, 0x98C9),
    (0xC0E2, 0x98CA), (0xC0E3, 0x98CB)] @
   [(0xC0E4, 0xBBFE), (0xC0E5, 0xBCA1), (0xC0E6, 0x98CC), (0xC0E7, 0x98CD), (0xC0E8, 0xBCA2), (0xC0E9, 0x98CE),
    (0xC0EA, 0x98CF), (0xC0EB, 0x98D0)] @
   [(0xC0EC, 0xBCA3), (0xC0ED, 0x98D1), (0xC0EE, 0x98D2), (0xC0EF, 0x98D3), (0xC0F0, 0x98D4), (0xC0F1, 0x98D5),
    (0xC0F2, 0x98D6), (0xC0F3, 0x98D7)] @
   [(0xC0F4, 0xBCA4), (0xC0F5, 0xBCA5), (0xC0F6, 0x98D8), (0xC0F7, 0xBCA6), (0xC0F8, 0x98D9), (0xC0F9, 0xBCA7),
    (0xC0FA, 0x98DA), (0xC0FB, 0x98DB)]"

definition rev_cp949_43 :: "(nat \<times> nat) list" where
  "rev_cp949_43 =
   [(0xC0FC, 0x98DC), (0xC0FD, 0x98DD), (0xC0FE, 0x98DE), (0xC0FF, 0x98DF), (0xC100, 0xBCA8), (0xC101, 0x98E0),
    (0xC102, 0x98E1), (0xC103, 0x98E2)] @
   [(0xC104, 0xBCA9), (0xC105, 0x98E3), (0xC106, 0x98E4), (0xC107, 0x98E5), (0xC108, 0xBCAA), (0xC109, 0x98E6),
    (0xC10A, 0x98E7), (0xC10B, 0x98E8)] @
   [(0xC10C, 0x98E9), (0xC10D, 0x98EA), (0xC10E, 0x98EB), (0xC10F, 0x98EC), (0xC110, 0xBCAB), (0xC111, 0x98ED),
    (0xC112, 0x98EE), (0xC113, 0x98EF)] @
   [(0xC114, 0x98F0), (0xC115, 0xBCAC), (0xC116, 0x98F1), (0xC117, 0x98F2), (0xC118, 0x98F3), (0xC119, 0x98F4),
    (0xC11A, 0x98F5), (0xC11B, 0x98F6)] @
   [(0xC11C, 0xBCAD), (0xC11D, 0xBCAE), (0xC11E, 0xBCAF), (0xC11F, 0xBCB0), (0xC120, 0xBCB1), (0xC121, 0x98F7),
    (0xC122, 0x98F8), (0xC123, 0xBCB2)] @
   [(0xC124, 0xBCB3), (0xC125, 0x98F9), (0xC126, 0xBCB4), (0xC127, 0xBCB5), (0xC128, 0x98FA), (0xC129, 0x98FB),
    (0xC12A, 0x98FC), (0xC12B, 0x98FD)] @
   [(0xC12C, 0xBCB6), (0xC12D, 0xBCB7), (0xC12E, 0x98FE), (0xC12F, 0xBCB8), (0xC130, 0xBCB9), (0xC131, 0xBCBA),
    (0xC132, 0x9941), (0xC133, 0x9942)] @
   [(0xC134, 0x9943), (0xC135, 0x9944), (0xC136, 0xBCBB), (0xC137, 0x9945), (0xC138, 0xBCBC), (0xC139, 0xBCBD),
    (0xC13A, 0x9946), (0xC13B, 0x9947)] @
   [(0xC13C, 0xBCBE), (0xC13D, 0x9948), (0xC13E, 0x9949), (0xC13F, 0x994A), (0xC140, 0xBCBF), (0xC141, 0x994B),
    (0xC142, 0x994C), (0xC143, 0x994D)] @
   [(0xC144, 0x994E), (0xC145, 0x994F), (0xC146, 0x9950), (0xC147, 0x9951), (0xC148, 0xBCC0), (0xC149, 0xBCC1),
    (0xC14A, 0x9952), (0xC14B, 0xBCC2)] @
   [(0xC14C, 0xBCC3), (0xC14D, 0xBCC4), (0xC14E, 0x9953), (0xC14F, 0x9954), (0xC150, 0x9955), (0xC151, 0x9956),
    (0xC152, 0x9957), (0xC153, 0x9958)] @
   [(0xC154, 0xBCC5), (0xC155, 0xBCC6), (0xC156, 0x9959), (0xC157, 0x995A), (0xC158, 0xBCC7), (0xC159, 0x9961),
    (0xC15A, 0x9962), (0xC15B, 0x9963)] @
   [(0xC15C, 0xBCC8), (0xC15D, 0x9964), (0xC15E, 0x9965), (0xC15F, 0x9966), (0xC160, 0x9967), (0xC161, 0x9968),
    (0xC162, 0x9969), (0xC163, 0x996A)] @
   [(0xC164, 0xBCC9), (0xC165, 0xBCCA), (0xC166, 0x996B), (0xC167, 0xBCCB), (0xC168, 0xBCCC), (0xC169, 0xBCCD),
    (0xC16A, 0x996C), (0xC16B, 0x996D)] @
   [(0xC16C, 0x996E), (0xC16D, 0x996F), (0xC16E, 0x9970), (0xC16F, 0x9971), (0xC170, 0xBCCE), (0xC171, 0x9972),
    (0xC172, 0x9973), (0xC173, 0x9974)] @
   [(0xC174, 0xBCCF), (0xC175, 0x9975), (0xC176, 0x9976), (0xC177, 0x9977), (0xC178, 0xBCD0), (0xC179, 0x9978),
    (0xC17A, 0x9979), (0xC17B, 0x997A)] @
   [(0xC17C, 0x9981), (0xC17D, 0x9982), (0xC17E, 0x9983), (0xC17F, 0x9984), (0xC180, 0x9985), (0xC181, 0x9986),
    (0xC182, 0x9987), (0xC183, 0x9988)] @
   [(0xC184, 0x9989), (0xC185, 0xBCD1), (0xC186, 0x998A), (0xC187, 0x998B), (0xC188, 0x998C), (0xC189, 0x998D),
    (0xC18A, 0x998E), (0xC18B, 0x998F)] @
   [(0xC18C, 0xBCD2), (0xC18D, 0xBCD3), (0xC18E, 0xBCD4), (0xC18F, 0x9990), (0xC190, 0xBCD5), (0xC191, 0x9991),
    (0xC192, 0x9992), (0xC193, 0x9993)] @
   [(0xC194, 0xBCD6), (0xC195, 0x9994), (0xC196, 0xBCD7), (0xC197, 0x9995), (0xC198, 0x9996), (0xC199, 0x9997),
    (0xC19A, 0x9998), (0xC19B, 0x9999)] @
   [(0xC19C, 0xBCD8), (0xC19D, 0xBCD9), (0xC19E, 0x999A), (0xC19F, 0xBCDA), (0xC1A0, 0x999B), (0xC1A1, 0xBCDB),
    (0xC1A2, 0x999C), (0xC1A3, 0x999D)] @
   [(0xC1A4, 0x999E), (0xC1A5, 0xBCDC), (0xC1A6, 0x999F), (0xC1A7, 0x99A0), (0xC1A8, 0xBCDD), (0xC1A9, 0xBCDE),
    (0xC1AA, 0x99A1), (0xC1AB, 0x99A2)] @
   [(0xC1AC, 0xBCDF), (0xC1AD, 0x99A3), (0xC1AE, 0x99A4), (0xC1AF, 0x99A5), (0xC1B0, 0xBCE0), (0xC1B1, 0x99A6),
    (0xC1B2, 0x99A7), (0xC1B3, 0x99A8)] @
   [(0xC1B4, 0x99A9), (0xC1B5, 0x99AA), (0xC1B6, 0x99AB), (0xC1B7, 0x99AC), (0xC1B8, 0x99AD), (0xC1B9, 0x99AE),
    (0xC1BA, 0x99AF), (0xC1BB, 0x99B0)] @
   [(0xC1BC, 0x99B1), (0xC1BD, 0xBCE1), (0xC1BE, 0x99B2), (0xC1BF, 0x99B3), (0xC1C0, 0x99B4), (0xC1C1, 0x99B5),
    (0xC1C2, 0x99B6), (0xC1C3, 0x99B7)] @
   [(0xC1C4, 0xBCE2), (0xC1C5, 0x99B8), (0xC1C6, 0x99B9), (0xC1C7, 0x99BA), (0xC1C8, 0xBCE3), (0xC1C9, 0x99BB),
    (0xC1CA, 0x99BC), (0xC1CB, 0x99BD)] @
   [(0xC1CC, 0xBCE4), (0xC1CD, 0x99BE), (0xC1CE, 0x99BF), (0xC1CF, 0x99C0), (0xC1D0, 0x99C1), (0xC1D1, 0x99C2),
    (0xC1D2, 0x99C3), (0xC1D3, 0x99C4)] @
   [(0xC1D4, 0xBCE5), (0xC1D5, 0x99C5), (0xC1D6, 0x99C6), (0xC1D7, 0xBCE6), (0xC1D8, 0xBCE7), (0xC1D9, 0x99C7),
    (0xC1DA, 0x99C8), (0xC1DB, 0x99C9)] @
   [(0xC1DC, 0x99CA), (0xC1DD, 0x99CB), (0xC1DE, 0x99CC), (0xC1DF, 0x99CD), (0xC1E0, 0xBCE8), (0xC1E1, 0x99CE),
    (0xC1E2, 0x99CF), (0xC1E3, 0x99D0)] @
   [(0xC1E4, 0xBCE9), (0xC1E5, 0x99D1), (0xC1E6, 0x99D2), (0xC1E7, 0x99D3), (0xC1E8, 0xBCEA), (0xC1E9, 0x99D4),
    (0xC1EA, 0x99D5), (0xC1EB, 0x99D6)] @
   [(0xC1EC, 0x99D7), (0xC1ED, 0x99D8), (0xC1EE, 0x99D9), (0xC1EF, 0x99DA), (0xC1F0, 0xBCEB), (0xC1F1, 0xBCEC),
    (0xC1F2, 0x99DB), (0xC1F3, 0xBCED)] @
   [(0xC1F4, 0x99DC), (0xC1F5, 0x99DD), (0xC1F6, 0x99DE), (0xC1F7, 0x99DF), (0xC1F8, 0x99E0), (0xC1F9, 0x99E1),
    (0xC1FA, 0x99E2), (0xC1FB, 0x99E3)]"

definition rev_cp949_44 :: "(nat \<times> nat) list" where
  "rev_cp949_44 =
   [(0xC1FC, 0xBCEE), (0xC1FD, 0xBCEF), (0xC1FE, 0x99E4), (0xC1FF, 0x99E5), (0xC200, 0xBCF0), (0xC201, 0x99E6),
    (0xC202, 0x99E7), (0xC203, 0x99E8)] @
   [(0xC204, 0xBCF1), (0xC205, 0x99E9), (0xC206, 0x99EA), (0xC207, 0x99EB), (0xC208, 0x99EC), (0xC209, 0x99ED),
    (0xC20A, 0x99EE), (0xC20B, 0x99EF)] @
   [(0xC20C, 0xBCF2), (0xC20D, 0xBCF3), (0xC20E, 0x99F0), (0xC20F, 0xBCF4), (0xC210, 0x99F1), (0xC211, 0xBCF5),
    (0xC212, 0x99F2), (0xC213, 0x99F3)] @
   [(0xC214, 0x99F4), (0xC215, 0x99F5), (0xC216, 0x99F6), (0xC217, 0x99F7), (0xC218, 0xBCF6), (0xC219, 0xBCF7),
    (0xC21A, 0x99F8), (0xC21B, 0x99F9)] @
   [(0xC21C, 0xBCF8), (0xC21D, 0x99FA), (0xC21E, 0x99FB), (0xC21F, 0xBCF9), (0xC220, 0xBCFA), (0xC221, 0x99FC),
    (0xC222, 0x99FD), (0xC223, 0x99FE)] @
   [(0xC224, 0x9A41), (0xC225, 0x9A42), (0xC226, 0x9A43), (0xC227, 0x9A44), (0xC228, 0xBCFB), (0xC229, 0xBCFC),
    (0xC22A, 0x9A45), (0xC22B, 0xBCFD)] @
   [(0xC22C, 0x9A46), (0xC22D, 0xBCFE), (0xC22E, 0x9A47), (0xC22F, 0xBDA1), (0xC230, 0x9A48), (0xC231, 0xBDA2),
    (0xC232, 0xBDA3), (0xC233, 0x9A49)] @
   [(0xC234, 0xBDA4), (0xC235, 0x9A4A), (0xC236, 0x9A4B), (0xC237, 0x9A4C), (0xC238, 0x9A4D), (0xC239, 0x9A4E),
    (0xC23A, 0x9A4F), (0xC23B, 0x9A50)] @
   [(0xC23C, 0x9A51), (0xC23D, 0x9A52), (0xC23E, 0x9A53), (0xC23F, 0x9A54), (0xC240, 0x9A55), (0xC241, 0x9A56),
    (0xC242, 0x9A57), (0xC243, 0x9A58)] @
   [(0xC244, 0x9A59), (0xC245, 0x9A5A), (0xC246, 0x9A61), (0xC247, 0x9A62), (0xC248, 0xBDA5), (0xC249, 0x9A63),
    (0xC24A, 0x9A64), (0xC24B, 0x9A65)] @
   [(0xC24C, 0x9A66), (0xC24D, 0x9A67), (0xC24E, 0x9A68), (0xC24F, 0x9A69), (0xC250, 0xBDA6), (0xC251, 0xBDA7),
    (0xC252, 0x9A6A), (0xC253, 0x9A6B)] @
   [(0xC254, 0xBDA8), (0xC255, 0x9A6C), (0xC256, 0x9A6D), (0xC257, 0x9A6E), (0xC258, 0xBDA9), (0xC259, 0x9A6F),
    (0xC25A, 0x9A70), (0xC25B, 0x9A71)] @
   [(0xC25C, 0x9A72), (0xC25D, 0x9A73), (0xC25E, 0x9A74), (0xC25F, 0x9A75), (0xC260, 0xBDAA), (0xC261, 0x9A76),
    (0xC262, 0x9A77), (0xC263, 0x9A78)] @
   [(0xC264, 0x9A79), (0xC265, 0xBDAB), (0xC266, 0x9A7A), (0xC267, 0x9A81), (0xC268, 0x9A82), (0xC269, 0x9A83),
    (0xC26A, 0x9A84), (0xC26B, 0x9A85)] @
   [(0xC26C, 0xBDAC), (0xC26D, 0xBDAD), (0xC26E, 0x9A86), (0xC26F, 0x9A87), (0xC270, 0xBDAE), (0xC271, 0x9A88),
    (0xC272, 0x9A89), (0xC273, 0x9A8A)] @
   [(0xC274, 0xBDAF), (0xC275, 0x9A8B), (0xC276, 0x9A8C), (0xC277, 0x9A8D), (0xC278, 0x9A8E), (0xC279, 0x9A8F),
    (0xC27A, 0x9A90), (0xC27B, 0x9A91)] @
   [(0xC27C, 0xBDB0), (0xC27D, 0xBDB1), (0xC27E, 0x9A92), (0xC27F, 0xBDB2), (0xC280, 0x9A93), (0xC281, 0xBDB3),
    (0xC282, 0x9A94), (0xC283, 0x9A95)] @
   [(0xC284, 0x9A96), (0xC285, 0x9A97), (0xC286, 0x9A98), (0xC287, 0x9A99), (0xC288, 0xBDB4), (0xC289, 0xBDB5),
    (0xC28A, 0x9A9A), (0xC28B, 0x9A9B)] @
   [(0xC28C, 0x9A9C), (0xC28D, 0x9A9D), (0xC28E, 0x9A9E), (0xC28F, 0x9A9F), (0xC290, 0xBDB6), (0xC291, 0x9AA0),
    (0xC292, 0x9AA1), (0xC293, 0x9AA2)] @
   [(0xC294, 0x9AA3), (0xC295, 0x9AA4), (0xC296, 0x9AA5), (0xC297, 0x9AA6), (0xC298, 0xBDB7), (0xC299, 0x9AA7),
    (0xC29A, 0x9AA8), (0xC29B, 0xBDB8)] @
   [(0xC29C, 0x9AA9), (0xC29D, 0xBDB9), (0xC29E, 0x9AAA), (0xC29F, 0x9AAB), (0xC2A0, 0x9AAC), (0xC2A1, 0x9AAD),
    (0xC2A2, 0x9AAE), (0xC2A3, 0x9AAF)] @
   [(0xC2A4, 0xBDBA), (0xC2A5, 0xBDBB), (0xC2A6, 0x9AB0), (0xC2A7, 0x9AB1), (0xC2A8, 0xBDBC), (0xC2A9, 0x9AB2),
    (0xC2AA, 0x9AB3), (0xC2AB, 0x9AB4)] @
   [(0xC2AC, 0xBDBD), (0xC2AD, 0xBDBE), (0xC2AE, 0x9AB5), (0xC2AF, 0x9AB6), (0xC2B0, 0x9AB7), (0xC2B1, 0x9AB8),
    (0xC2B2, 0x9AB9), (0xC2B3, 0x9ABA)] @
   [(0xC2B4, 0xBDBF), (0xC2B5, 0xBDC0), (0xC2B6, 0x9ABB), (0xC2B7, 0xBDC1), (0xC2B8, 0x9ABC), (0xC2B9, 0xBDC2),
    (0xC2BA, 0x9ABD), (0xC2BB, 0x9ABE)] @
   [(0xC2BC, 0x9ABF), (0xC2BD, 0x9AC0), (0xC2BE, 0x9AC1), (0xC2BF, 0x9AC2), (0xC2C0, 0x9AC3), (0xC2C1, 0x9AC4),
    (0xC2C2, 0x9AC5), (0xC2C3, 0x9AC6)] @
   [(0xC2C4, 0x9AC7), (0xC2C5, 0x9AC8), (0xC2C6, 0x9AC9), (0xC2C7, 0x9ACA), (0xC2C8, 0x9ACB), (0xC2C9, 0x9ACC),
    (0xC2CA, 0x9ACD), (0xC2CB, 0x9ACE)] @
   [(0xC2CC, 0x9ACF), (0xC2CD, 0x9AD0), (0xC2CE, 0x9AD1), (0xC2CF, 0x9AD2), (0xC2D0, 0x9AD3), (0xC2D1, 0x9AD4),
    (0xC2D2, 0x9AD5), (0xC2D3, 0x9AD6)] @
   [(0xC2D4, 0x9AD7), (0xC2D5, 0x9AD8), (0xC2D6, 0x9AD9), (0xC2D7, 0x9ADA), (0xC2D8, 0x9ADB), (0xC2D9, 0x9ADC),
    (0xC2DA, 0x9ADD), (0xC2DB, 0x9ADE)] @
   [(0xC2DC, 0xBDC3), (0xC2DD, 0xBDC4), (0xC2DE, 0x9ADF), (0xC2DF, 0x9AE0), (0xC2E0, 0xBDC5), (0xC2E1, 0x9AE1),
    (0xC2E2, 0x9AE2), (0xC2E3, 0xBDC6)] @
   [(0xC2E4, 0xBDC7), (0xC2E5, 0x9AE3), (0xC2E6, 0x9AE4), (0xC2E7, 0x9AE5), (0xC2E8, 0x9AE6), (0xC2E9, 0x9AE7),
    (0xC2EA, 0x9AE8), (0xC2EB, 0xBDC8)] @
   [(0xC2EC, 0xBDC9), (0xC2ED, 0xBDCA), (0xC2EE, 0x9AE9), (0xC2EF, 0xBDCB), (0xC2F0, 0x9AEA), (0xC2F1, 0xBDCC),
    (0xC2F2, 0x9AEB), (0xC2F3, 0x9AEC)] @
   [(0xC2F4, 0x9AED), (0xC2F5, 0x9AEE), (0xC2F6, 0xBDCD), (0xC2F7, 0x9AEF), (0xC2F8, 0xBDCE), (0xC2F9, 0xBDCF),
    (0xC2FA, 0x9AF0), (0xC2FB, 0xBDD0)]"

definition rev_cp949_45 :: "(nat \<times> nat) list" where
  "rev_cp949_45 =
   [(0xC2FC, 0xBDD1), (0xC2FD, 0x9AF1), (0xC2FE, 0x9AF2), (0xC2FF, 0x9AF3), (0xC300, 0xBDD2), (0xC301, 0x9AF4),
    (0xC302, 0x9AF5), (0xC303, 0x9AF6)] @
   [(0xC304, 0x9AF7), (0xC305, 0x9AF8), (0xC306, 0x9AF9), (0xC307, 0x9AFA), (0xC308, 0xBDD3), (0xC309, 0xBDD4),
    (0xC30A, 0x9AFB), (0xC30B, 0x9AFC)] @
   [(0xC30C, 0xBDD5), (0xC30D, 0xBDD6), (0xC30E, 0x9AFD), (0xC30F, 0x9AFE), (0xC310, 0x9B41), (0xC311, 0x9B42),
    (0xC312, 0x9B43), (0xC313, 0xBDD7)] @
   [(0xC314, 0xBDD8), (0xC315, 0xBDD9), (0xC316, 0x9B44), (0xC317, 0x9B45), (0xC318, 0xBDDA), (0xC319, 0x9B46),
    (0xC31A, 0x9B47), (0xC31B, 0x9B48)] @
   [(0xC31C, 0xBDDB), (0xC31D, 0x9B49), (0xC31E, 0x9B4A), (0xC31F, 0x9B4B), (0xC320, 0x9B4C), (0xC321, 0x9B4D),
    (0xC322, 0x9B4E), (0xC323, 0x9B4F)] @
   [(0xC324, 0xBDDC), (0xC325, 0xBDDD), (0xC326, 0x9B50), (0xC327, 0x9B51), (0xC328, 0xBDDE), (0xC329, 0xBDDF),
    (0xC32A, 0x9B52), (0xC32B, 0x9B53)] @
   [(0xC32C, 0x9B54), (0xC32D, 0x9B55), (0xC32E, 0x9B56), (0xC32F, 0x9B57), (0xC330, 0x9B58), (0xC331, 0x9B59),
    (0xC332, 0x9B5A), (0xC333, 0x9B61)] @
   [(0xC334, 0x9B62), (0xC335, 0x9B63), (0xC336, 0x9B64), (0xC337, 0x9B65), (0xC338, 0x9B66), (0xC339, 0x9B67),
    (0xC33A, 0x9B68), (0xC33B, 0x9B69)] @
   [(0xC33C, 0x9B6A), (0xC33D, 0x9B6B), (0xC33E, 0x9B6C), (0xC33F, 0x9B6D), (0xC340, 0x9B6E), (0xC341, 0x9B6F),
    (0xC342, 0x9B70), (0xC343, 0x9B71)] @
   [(0xC344, 0x9B72), (0xC345, 0xBDE0), (0xC346, 0x9B73), (0xC347, 0x9B74), (0xC348, 0x9B75), (0xC349, 0x9B76),
    (0xC34A, 0x9B77), (0xC34B, 0x9B78)] @
   [(0xC34C, 0x9B79), (0xC34D, 0x9B7A), (0xC34E, 0x9B81), (0xC34F, 0x9B82), (0xC350, 0x9B83), (0xC351, 0x9B84),
    (0xC352, 0x9B85), (0xC353, 0x9B86)] @
   [(0xC354, 0x9B87), (0xC355, 0x9B88), (0xC356, 0x9B89), (0xC357, 0x9B8A), (0xC358, 0x9B8B), (0xC359, 0x9B8C),
    (0xC35A, 0x9B8D), (0xC35B, 0x9B8E)] @
   [(0xC35C, 0x9B8F), (0xC35D, 0x9B90), (0xC35E, 0x9B91), (0xC35F, 0x9B92), (0xC360, 0x9B93), (0xC361, 0x9B94),
    (0xC362, 0x9B95), (0xC363, 0x9B96)] @
   [(0xC364, 0x9B97), (0xC365, 0x9B98), (0xC366, 0x9B99), (0xC367, 0x9B9A), (0xC368, 0xBDE1), (0xC369, 0xBDE2),
    (0xC36A, 0x9B9B), (0xC36B, 0x9B9C)] @
   [(0xC36C, 0xBDE3), (0xC36D, 0x9B9D), (0xC36E, 0x9B9E), (0xC36F, 0x9B9F), (0xC370, 0xBDE4), (0xC371, 0x9BA0),
    (0xC372, 0xBDE5), (0xC373, 0x9BA1)] @
   [(0xC374, 0x9BA2), (0xC375, 0x9BA3), (0xC376, 0x9BA4), (0xC377, 0x9BA5), (0xC378, 0xBDE6), (0xC379, 0xBDE7),
    (0xC37A, 0x9BA6), (0xC37B, 0x9BA7)] @
   [(0xC37C, 0xBDE8), (0xC37D, 0xBDE9), (0xC37E, 0x9BA8), (0xC37F, 0x9BA9), (0xC380, 0x9BAA), (0xC381, 0x9BAB),
    (0xC382, 0x9BAC), (0xC383, 0x9BAD)] @
   [(0xC384, 0xBDEA), (0xC385, 0x9BAE), (0xC386, 0x9BAF), (0xC387, 0x9BB0), (0xC388, 0xBDEB), (0xC389, 0x9BB1),
    (0xC38A, 0x9BB2), (0xC38B, 0x9BB3)] @
   [(0xC38C, 0xBDEC), (0xC38D, 0x9BB4), (0xC38E, 0x9BB5), (0xC38F, 0x9BB6), (0xC390, 0x9BB7), (0xC391, 0x9BB8),
    (0xC392, 0x9BB9), (0xC393, 0x9BBA)] @
   [(0xC394, 0x9BBB), (0xC395, 0x9BBC), (0xC396, 0x9BBD), (0xC397, 0x9BBE), (0xC398, 0x9BBF), (0xC399, 0x9BC0),
    (0xC39A, 0x9BC1), (0xC39B, 0x9BC2)] @
   [(0xC39C, 0x9BC3), (0xC39D, 0x9BC4), (0xC39E, 0x9BC5), (0xC39F, 0x9BC6), (0xC3A0, 0x9BC7), (0xC3A1, 0x9BC8),
    (0xC3A2, 0x9BC9), (0xC3A3, 0x9BCA)] @
   [(0xC3A4, 0x9BCB), (0xC3A5, 0x9BCC), (0xC3A6, 0x9BCD), (0xC3A7, 0x9BCE), (0xC3A8, 0x9BCF), (0xC3A9, 0x9BD0),
    (0xC3AA, 0x9BD1), (0xC3AB, 0x9BD2)] @
   [(0xC3AC, 0x9BD3), (0xC3AD, 0x9BD4), (0xC3AE, 0x9BD5), (0xC3AF, 0x9BD6), (0xC3B0, 0x9BD7), (0xC3B1, 0x9BD8),
    (0xC3B2, 0x9BD9), (0xC3B3, 0x9BDA)] @
   [(0xC3B4, 0x9BDB), (0xC3B5, 0x9BDC), (0xC3B6, 0x9BDD), (0xC3B7, 0x9BDE), (0xC3B8, 0x9BDF), (0xC3B9, 0x9BE0),
    (0xC3BA, 0x9BE1), (0xC3BB, 0x9BE2)] @
   [(0xC3BC, 0x9BE3), (0xC3BD, 0x9BE4), (0xC3BE, 0x9BE5), (0xC3BF, 0x9BE6), (0xC3C0, 0xBDED), (0xC3C1, 0x9BE7),
    (0xC3C2, 0x9BE8), (0xC3C3, 0x9BE9)] @
   [(0xC3C4, 0x9BEA), (0xC3C5, 0x9BEB), (0xC3C6, 0x9BEC), (0xC3C7, 0x9BED), (0xC3C8, 0x9BEE), (0xC3C9, 0x9BEF),
    (0xC3CA, 0x9BF0), (0xC3CB, 0x9BF1)] @
   [(0xC3CC, 0x9BF2), (0xC3CD, 0x9BF3), (0xC3CE, 0x9BF4), (0xC3CF, 0x9BF5), (0xC3D0, 0x9BF6), (0xC3D1, 0x9BF7),
    (0xC3D2, 0x9BF8), (0xC3D3, 0x9BF9)] @
   [(0xC3D4, 0x9BFA), (0xC3D5, 0x9BFB), (0xC3D6, 0x9BFC), (0xC3D7, 0x9BFD), (0xC3D8, 0xBDEE), (0xC3D9, 0xBDEF),
    (0xC3DA, 0x9BFE), (0xC3DB, 0x9C41)] @
   [(0xC3DC, 0xBDF0), (0xC3DD, 0x9C42), (0xC3DE, 0x9C43), (0xC3DF, 0xBDF1), (0xC3E0, 0xBDF2), (0xC3E1, 0x9C44),
    (0xC3E2, 0xBDF3), (0xC3E3, 0x9C45)] @
   [(0xC3E4, 0x9C46), (0xC3E5, 0x9C47), (0xC3E6, 0x9C48), (0xC3E7, 0x9C49), (0xC3E8, 0xBDF4), (0xC3E9, 0xBDF5),
    (0xC3EA, 0x9C4A), (0xC3EB, 0x9C4B)] @
   [(0xC3EC, 0x9C4C), (0xC3ED, 0xBDF6), (0xC3EE, 0x9C4D), (0xC3EF, 0x9C4E), (0xC3F0, 0x9C4F), (0xC3F1, 0x9C50),
    (0xC3F2, 0x9C51), (0xC3F3, 0x9C52)] @
   [(0xC3F4, 0xBDF7), (0xC3F5, 0xBDF8), (0xC3F6, 0x9C53), (0xC3F7, 0x9C54), (0xC3F8, 0xBDF9), (0xC3F9, 0x9C55),
    (0xC3FA, 0x9C56), (0xC3FB, 0x9C57)]"

definition rev_cp949_46 :: "(nat \<times> nat) list" where
  "rev_cp949_46 =
   [(0xC3FC, 0x9C58), (0xC3FD, 0x9C59), (0xC3FE, 0x9C5A), (0xC3FF, 0x9C61), (0xC400, 0x9C62), (0xC401, 0x9C63),
    (0xC402, 0x9C64), (0xC403, 0x9C65)] @
   [(0xC404, 0x9C66), (0xC405, 0x9C67), (0xC406, 0x9C68), (0xC407, 0x9C69), (0xC408, 0xBDFA), (0xC409, 0x9C6A),
    (0xC40A, 0x9C6B), (0xC40B, 0x9C6C)] @
   [(0xC40C, 0x9C6D), (0xC40D, 0x9C6E), (0xC40E, 0x9C6F), (0xC40F, 0x9C70), (0xC410, 0xBDFB), (0xC411, 0x9C71),
    (0xC412, 0x9C72), (0xC413, 0x9C73)] @
   [(0xC414, 0x9C74), (0xC415, 0x9C75), (0xC416, 0x9C76), (0xC417, 0x9C77), (0xC418, 0x9C78), (0xC419, 0x9C79),
    (0xC41A, 0x9C7A), (0xC41B, 0x9C81)] @
   [(0xC41C, 0x9C82), (0xC41D, 0x9C83), (0xC41E, 0x9C84), (0xC41F, 0x9C85), (0xC420, 0x9C86), (0xC421, 0x9C87),
    (0xC422, 0x9C88), (0xC423, 0x9C89)] @
   [(0xC424, 0xBDFC), (0xC425, 0x9C8A), (0xC426, 0x9C8B), (0xC427, 0x9C8C), (0xC428, 0x9C8D), (0xC429, 0x9C8E),
    (0xC42A, 0x9C8F), (0xC42B, 0x9C90)] @
   [(0xC42C, 0xBDFD), (0xC42D, 0x9C91), (0xC42E, 0x9C92), (0xC42F, 0x9C93), (0xC430, 0xBDFE), (0xC431, 0x9C94),
    (0xC432, 0x9C95), (0xC433, 0x9C96)] @
   [(0xC434, 0xBEA1), (0xC435, 0x9C97), (0xC436, 0x9C98), (0xC437, 0x9C99), (0xC438, 0x9C9A), (0xC439, 0x9C9B),
    (0xC43A, 0x9C9C), (0xC43B, 0x9C9D)] @
   [(0xC43C, 0xBEA2), (0xC43D, 0xBEA3), (0xC43E, 0x9C9E), (0xC43F, 0x9C9F), (0xC440, 0x9CA0), (0xC441, 0x9CA1),
    (0xC442, 0x9CA2), (0xC443, 0x9CA3)] @
   [(0xC444, 0x9CA4), (0xC445, 0x9CA5), (0xC446, 0x9CA6), (0xC447, 0x9CA7), (0xC448, 0xBEA4), (0xC449, 0x9CA8),
    (0xC44A, 0x9CA9), (0xC44B, 0x9CAA)] @
   [(0xC44C, 0x9CAB), (0xC44D, 0x9CAC), (0xC44E, 0x9CAD), (0xC44F, 0x9CAE), (0xC450, 0x9CAF), (0xC451, 0x9CB0),
    (0xC452, 0x9CB1), (0xC453, 0x9CB2)] @
   [(0xC454, 0x9CB3), (0xC455, 0x9CB4), (0xC456, 0x9CB5), (0xC457, 0x9CB6), (0xC458, 0x9CB7), (0xC459, 0x9CB8),
    (0xC45A, 0x9CB9), (0xC45B, 0x9CBA)] @
   [(0xC45C, 0x9CBB), (0xC45D, 0x9CBC), (0xC45E, 0x9CBD), (0xC45F, 0x9CBE), (0xC460, 0x9CBF), (0xC461, 0x9CC0),
    (0xC462, 0x9CC1), (0xC463, 0x9CC2)] @
   [(0xC464, 0xBEA5), (0xC465, 0xBEA6), (0xC466, 0x9CC3), (0xC467, 0x9CC4), (0xC468, 0xBEA7), (0xC469, 0x9CC5),
    (0xC46A, 0x9CC6), (0xC46B, 0x9CC7)] @
   [(0xC46C, 0xBEA8), (0xC46D, 0x9CC8), (0xC46E, 0x9CC9), (0xC46F, 0x9CCA), (0xC470, 0x9CCB), (0xC471, 0x9CCC),
    (0xC472, 0x9CCD), (0xC473, 0x9CCE)] @
   [(0xC474, 0xBEA9), (0xC475, 0xBEAA), (0xC476, 0x9CCF), (0xC477, 0x9CD0), (0xC478, 0x9CD1), (0xC479, 0xBEAB),
    (0xC47A, 0x9CD2), (0xC47B, 0x9CD3)] @
   [(0xC47C, 0x9CD4), (0xC47D, 0x9CD5), (0xC47E, 0x9CD6), (0xC47F, 0x9CD7), (0xC480, 0xBEAC), (0xC481, 0x9CD8),
    (0xC482, 0x9CD9), (0xC483, 0x9CDA)] @
   [(0xC484, 0x9CDB), (0xC485, 0x9CDC), (0xC486, 0x9CDD), (0xC487, 0x9CDE), (0xC488, 0x9CDF), (0xC489, 0x9CE0),
    (0xC48A, 0x9CE1), (0xC48B, 0x9CE2)] @
   [(0xC48C, 0x9CE3), (0xC48D, 0x9CE4), (0xC48E, 0x9CE5), (0xC48F, 0x9CE6), (0xC490, 0x9CE7), (0xC491, 0x9CE8),
    (0xC492, 0x9CE9), (0xC493, 0x9CEA)] @
   [(0xC494, 0xBEAD), (0xC495, 0x9CEB), (0xC496, 0x9CEC), (0xC497, 0x9CED), (0xC498, 0x9CEE), (0xC499, 0x9CEF),
    (0xC49A, 0x9CF0), (0xC49B, 0x9CF1)] @
   [(0xC49C, 0xBEAE), (0xC49D, 0x9CF2), (0xC49E, 0x9CF3), (0xC49F, 0x9CF4), (0xC4A0, 0x9CF5), (0xC4A1, 0x9CF6),
    (0xC4A2, 0x9CF7), (0xC4A3, 0x9CF8)] @
   [(0xC4A4, 0x9CF9), (0xC4A5, 0x9CFA), (0xC4A6, 0x9CFB), (0xC4A7, 0x9CFC), (0xC4A8, 0x9CFD), (0xC4A9, 0x9CFE),
    (0xC4AA, 0x9D41), (0xC4AB, 0x9D42)] @
   [(0xC4AC, 0x9D43), (0xC4AD, 0x9D44), (0xC4AE, 0x9D45), (0xC4AF, 0x9D46), (0xC4B0, 0x9D47), (0xC4B1, 0x9D48),
    (0xC4B2, 0x9D49), (0xC4B3, 0x9D4A)] @
   [(0xC4B4, 0x9D4B), (0xC4B5, 0x9D4C), (0xC4B6, 0x9D4D), (0xC4B7, 0x9D4E), (0xC4B8, 0xBEAF), (0xC4B9, 0x9D4F),
    (0xC4BA, 0x9D50), (0xC4BB, 0x9D51)] @
   [(0xC4BC, 0xBEB0), (0xC4BD, 0x9D52), (0xC4BE, 0x9D53), (0xC4BF, 0x9D54), (0xC4C0, 0x9D55), (0xC4C1, 0x9D56),
    (0xC4C2, 0x9D57), (0xC4C3, 0x9D58)] @
   [(0xC4C4, 0x9D59), (0xC4C5, 0x9D5A), (0xC4C6, 0x9D61), (0xC4C7, 0x9D62), (0xC4C8, 0x9D63), (0xC4C9, 0x9D64),
    (0xC4CA, 0x9D65), (0xC4CB, 0x9D66)] @
   [(0xC4CC, 0x9D67), (0xC4CD, 0x9D68), (0xC4CE, 0x9D69), (0xC4CF, 0x9D6A), (0xC4D0, 0x9D6B), (0xC4D1, 0x9D6C),
    (0xC4D2, 0x9D6D), (0xC4D3, 0x9D6E)] @
   [(0xC4D4, 0x9D6F), (0xC4D5, 0x9D70), (0xC4D6, 0x9D71), (0xC4D7, 0x9D72), (0xC4D8, 0x9D73), (0xC4D9, 0x9D74),
    (0xC4DA, 0x9D75), (0xC4DB, 0x9D76)] @
   [(0xC4DC, 0x9D77), (0xC4DD, 0x9D78), (0xC4DE, 0x9D79), (0xC4DF, 0x9D7A), (0xC4E0, 0x9D81), (0xC4E1, 0x9D82),
    (0xC4E2, 0x9D83), (0xC4E3, 0x9D84)] @
   [(0xC4E4, 0x9D85), (0xC4E5, 0x9D86), (0xC4E6, 0x9D87), (0xC4E7, 0x9D88), (0xC4E8, 0x9D89), (0xC4E9, 0xBEB1),
    (0xC4EA, 0x9D8A), (0xC4EB, 0x9D8B)] @
   [(0xC4EC, 0x9D8C), (0xC4ED, 0x9D8D), (0xC4EE, 0x9D8E), (0xC4EF, 0x9D8F), (0xC4F0, 0xBEB2), (0xC4F1, 0xBEB3),
    (0xC4F2, 0x9D90), (0xC4F3, 0x9D91)] @
   [(0xC4F4, 0xBEB4), (0xC4F5, 0x9D92), (0xC4F6, 0x9D93), (0xC4F7, 0x9D94), (0xC4F8, 0xBEB5), (0xC4F9, 0x9D95),
    (0xC4FA, 0xBEB6), (0xC4FB, 0x9D96)]"

definition rev_cp949_47 :: "(nat \<times> nat) list" where
  "rev_cp949_47 =
   [(0xC4FC, 0x9D97), (0xC4FD, 0x9D98), (0xC4FE, 0x9D99), (0xC4FF, 0xBEB7), (0xC500, 0xBEB8), (0xC501, 0xBEB9),
    (0xC502, 0x9D9A), (0xC503, 0x9D9B)] @
   [(0xC504, 0x9D9C), (0xC505, 0x9D9D), (0xC506, 0x9D9E), (0xC507, 0x9D9F), (0xC508, 0x9DA0), (0xC509, 0x9DA1),
    (0xC50A, 0x9DA2), (0xC50B, 0x9DA3)] @
   [(0xC50C, 0xBEBA), (0xC50D, 0x9DA4), (0xC50E, 0x9DA5), (0xC50F, 0x9DA6), (0xC510, 0xBEBB), (0xC511, 0x9DA7),
    (0xC512, 0x9DA8), (0xC513, 0x9DA9)] @
   [(0xC514, 0xBEBC), (0xC515, 0x9DAA), (0xC516, 0x9DAB), (0xC517, 0x9DAC), (0xC518, 0x9DAD), (0xC519, 0x9DAE),
    (0xC51A, 0x9DAF), (0xC51B, 0x9DB0)] @
   [(0xC51C, 0xBEBD), (0xC51D, 0x9DB1), (0xC51E, 0x9DB2), (0xC51F, 0x9DB3), (0xC520, 0x9DB4), (0xC521, 0x9DB5),
    (0xC522, 0x9DB6), (0xC523, 0x9DB7)] @
   [(0xC524, 0x9DB8), (0xC525, 0x9DB9), (0xC526, 0x9DBA), (0xC527, 0x9DBB), (0xC528, 0xBEBE), (0xC529, 0xBEBF),
    (0xC52A, 0x9DBC), (0xC52B, 0x9DBD)] @
   [(0xC52C, 0xBEC0), (0xC52D, 0x9DBE), (0xC52E, 0x9DBF), (0xC52F, 0x9DC0), (0xC530, 0xBEC1), (0xC531, 0x9DC1),
    (0xC532, 0x9DC2), (0xC533, 0x9DC3)] @
   [(0xC534, 0x9DC4), (0xC535, 0x9DC5), (0xC536, 0x9DC6), (0xC537, 0x9DC7), (0xC538, 0xBEC2), (0xC539, 0xBEC3),
    (0xC53A, 0x9DC8), (0xC53B, 0xBEC4)] @
   [(0xC53C, 0x9DC9), (0xC53D, 0xBEC5), (0xC53E, 0x9DCA), (0xC53F, 0x9DCB), (0xC540, 0x9DCC), (0xC541, 0x9DCD),
    (0xC542, 0x9DCE), (0xC543, 0x9DCF)] @
   [(0xC544, 0xBEC6), (0xC545, 0xBEC7), (0xC546, 0x9DD0), (0xC547, 0x9DD1), (0xC548, 0xBEC8), (0xC549, 0xBEC9),
    (0xC54A, 0xBECA), (0xC54B, 0x9DD2)] @
   [(0xC54C, 0xBECB), (0xC54D, 0xBECC), (0xC54E, 0xBECD), (0xC54F, 0x9DD3), (0xC550, 0x9DD4), (0xC551, 0x9DD5),
    (0xC552, 0x9DD6), (0xC553, 0xBECE)] @
   [(0xC554, 0xBECF), (0xC555, 0xBED0), (0xC556, 0x9DD7), (0xC557, 0xBED1), (0xC558, 0xBED2), (0xC559, 0xBED3),
    (0xC55A, 0x9DD8), (0xC55B, 0x9DD9)] @
   [(0xC55C, 0x9DDA), (0xC55D, 0xBED4), (0xC55E, 0xBED5), (0xC55F, 0x9DDB), (0xC560, 0xBED6), (0xC561, 0xBED7),
    (0xC562, 0x9DDC), (0xC563, 0x9DDD)] @
   [(0xC564, 0xBED8), (0xC565, 0x9DDE), (0xC566, 0x9DDF), (0xC567, 0x9DE0), (0xC568, 0xBED9), (0xC569, 0x9DE1),
    (0xC56A, 0x9DE2), (0xC56B, 0x9DE3)] @
   [(0xC56C, 0x9DE4), (0xC56D, 0x9DE5), (0xC56E, 0x9DE6), (0xC56F, 0x9DE7), (0xC570, 0xBEDA), (0xC571, 0xBEDB),
    (0xC572, 0x9DE8), (0xC573, 0xBEDC)] @
   [(0xC574, 0xBEDD), (0xC575, 0xBEDE), (0xC576, 0x9DE9), (0xC577, 0x9DEA), (0xC578, 0x9DEB), (0xC579, 0x9DEC),
    (0xC57A, 0x9DED), (0xC57B, 0x9DEE)] @
   [(0xC57C, 0xBEDF), (0xC57D, 0xBEE0), (0xC57E, 0x9DEF), (0xC57F, 0x9DF0), (0xC580, 0xBEE1), (0xC581, 0x9DF1),
    (0xC582, 0x9DF2), (0xC583, 0x9DF3)] @
   [(0xC584, 0xBEE2), (0xC585, 0x9DF4), (0xC586, 0x9DF5), (0xC587, 0xBEE3), (0xC588, 0x9DF6), (0xC589, 0x9DF7),
    (0xC58A, 0x9DF8), (0xC58B, 0x9DF9)] @
   [(0xC58C, 0xBEE4), (0xC58D, 0xBEE5), (0xC58E, 0x9DFA), (0xC58F, 0xBEE6), (0xC590, 0x9DFB), (0xC591, 0xBEE7),
    (0xC592, 0x9DFC), (0xC593, 0x9DFD)] @
   [(0xC594, 0x9DFE), (0xC595, 0xBEE8), (0xC596, 0x9E41), (0xC597, 0xBEE9), (0xC598, 0xBEEA), (0xC599, 0x9E42),
    (0xC59A, 0x9E43), (0xC59B, 0x9E44)] @
   [(0xC59C, 0xBEEB), (0xC59D, 0x9E45), (0xC59E, 0x9E46), (0xC59F, 0x9E47), (0xC5A0, 0xBEEC), (0xC5A1, 0x9E48),
    (0xC5A2, 0x9E49), (0xC5A3, 0x9E4A)] @
   [(0xC5A4, 0x9E4B), (0xC5A5, 0x9E4C), (0xC5A6, 0x9E4D), (0xC5A7, 0x9E4E), (0xC5A8, 0x9E4F), (0xC5A9, 0xBEED),
    (0xC5AA, 0x9E50), (0xC5AB, 0x9E51)] @
   [(0xC5AC, 0x9E52), (0xC5AD, 0x9E53), (0xC5AE, 0x9E54), (0xC5AF, 0x9E55), (0xC5B0, 0x9E56), (0xC5B1, 0x9E57),
    (0xC5B2, 0x9E58), (0xC5B3, 0x9E59)] @
   [(0xC5B4, 0xBEEE), (0xC5B5, 0xBEEF), (0xC5B6, 0x9E5A), (0xC5B7, 0x9E61), (0xC5B8, 0xBEF0), (0xC5B9, 0xBEF1),
    (0xC5BA, 0x9E62), (0xC5BB, 0xBEF2)] @
   [(0xC5BC, 0xBEF3), (0xC5BD, 0xBEF4), (0xC5BE, 0xBEF5), (0xC5BF, 0x9E63), (0xC5C0, 0x9E64), (0xC5C1, 0x9E65),
    (0xC5C2, 0x9E66), (0xC5C3, 0x9E67)] @
   [(0xC5C4, 0xBEF6), (0xC5C5, 0xBEF7), (0xC5C6, 0xBEF8), (0xC5C7, 0xBEF9), (0xC5C8, 0xBEFA), (0xC5C9, 0xBEFB),
    (0xC5CA, 0xBEFC), (0xC5CB, 0x9E68)] @
   [(0xC5CC, 0xBEFD), (0xC5CD, 0x9E69), (0xC5CE, 0xBEFE), (0xC5CF, 0x9E6A), (0xC5D0, 0xBFA1), (0xC5D1, 0xBFA2),
    (0xC5D2, 0x9E6B), (0xC5D3, 0x9E6C)] @
   [(0xC5D4, 0xBFA3), (0xC5D5, 0x9E6D), (0xC5D6, 0x9E6E), (0xC5D7, 0x9E6F), (0xC5D8, 0xBFA4), (0xC5D9, 0x9E70),
    (0xC5DA, 0x9E71), (0xC5DB, 0x9E72)] @
   [(0xC5DC, 0x9E73), (0xC5DD, 0x9E74), (0xC5DE, 0x9E75), (0xC5DF, 0x9E76), (0xC5E0, 0xBFA5), (0xC5E1, 0xBFA6),
    (0xC5E2, 0x9E77), (0xC5E3, 0xBFA7)] @
   [(0xC5E4, 0x9E78), (0xC5E5, 0xBFA8), (0xC5E6, 0x9E79), (0xC5E7, 0x9E7A), (0xC5E8, 0x9E81), (0xC5E9, 0x9E82),
    (0xC5EA, 0x9E83), (0xC5EB, 0x9E84)] @
   [(0xC5EC, 0xBFA9), (0xC5ED, 0xBFAA), (0xC5EE, 0xBFAB), (0xC5EF, 0x9E85), (0xC5F0, 0xBFAC), (0xC5F1, 0x9E86),
    (0xC5F2, 0x9E87), (0xC5F3, 0x9E88)] @
   [(0xC5F4, 0xBFAD), (0xC5F5, 0x9E89), (0xC5F6, 0xBFAE), (0xC5F7, 0xBFAF), (0xC5F8, 0x9E8A), (0xC5F9, 0x9E8B),
    (0xC5FA, 0x9E8C), (0xC5FB, 0x9E8D)]"

definition rev_cp949_48 :: "(nat \<times> nat) list" where
  "rev_cp949_48 =
   [(0xC5FC, 0xBFB0), (0xC5FD, 0xBFB1), (0xC5FE, 0xBFB2), (0xC5FF, 0xBFB3), (0xC600, 0xBFB4), (0xC601, 0xBFB5),
    (0xC602, 0x9E8E), (0xC603, 0x9E8F)] @
   [(0xC604, 0x9E90), (0xC605, 0xBFB6), (0xC606, 0xBFB7), (0xC607, 0xBFB8), (0xC608, 0xBFB9), (0xC609, 0x9E91),
    (0xC60A, 0x9E92), (0xC60B, 0x9E93)] @
   [(0xC60C, 0xBFBA), (0xC60D, 0x9E94), (0xC60E, 0x9E95), (0xC60F, 0x9E96), (0xC610, 0xBFBB), (0xC611, 0x9E97),
    (0xC612, 0x9E98), (0xC613, 0x9E99)] @
   [(0xC614, 0x9E9A), (0xC615, 0x9E9B), (0xC616, 0x9E9C), (0xC617, 0x9E9D), (0xC618, 0xBFBC), (0xC619, 0xBFBD),
    (0xC61A, 0x9E9E), (0xC61B, 0xBFBE)] @
   [(0xC61C, 0xBFBF), (0xC61D, 0x9E9F), (0xC61E, 0x9EA0), (0xC61F, 0x9EA1), (0xC620, 0x9EA2), (0xC621, 0x9EA3),
    (0xC622, 0x9EA4), (0xC623, 0x9EA5)] @
   [(0xC624, 0xBFC0), (0xC625, 0xBFC1), (0xC626, 0x9EA6), (0xC627, 0x9EA7), (0xC628, 0xBFC2), (0xC629, 0x9EA8),
    (0xC62A, 0x9EA9), (0xC62B, 0x9EAA)] @
   [(0xC62C, 0xBFC3), (0xC62D, 0xBFC4), (0xC62E, 0xBFC5), (0xC62F, 0x9EAB), (0xC630, 0xBFC6), (0xC631, 0x9EAC),
    (0xC632, 0x9EAD), (0xC633, 0xBFC7)] @
   [(0xC634, 0xBFC8), (0xC635, 0xBFC9), (0xC636, 0x9EAE), (0xC637, 0xBFCA), (0xC638, 0x9EAF), (0xC639, 0xBFCB),
    (0xC63A, 0x9EB0), (0xC63B, 0xBFCC)] @
   [(0xC63C, 0x9EB1), (0xC63D, 0x9EB2), (0xC63E, 0x9EB3), (0xC63F, 0x9EB4), (0xC640, 0xBFCD), (0xC641, 0xBFCE),
    (0xC642, 0x9EB5), (0xC643, 0x9EB6)] @
   [(0xC644, 0xBFCF), (0xC645, 0x9EB7), (0xC646, 0x9EB8), (0xC647, 0x9EB9), (0xC648, 0xBFD0), (0xC649, 0x9EBA),
    (0xC64A, 0x9EBB), (0xC64B, 0x9EBC)] @
   [(0xC64C, 0x9EBD), (0xC64D, 0x9EBE), (0xC64E, 0x9EBF), (0xC64F, 0x9EC0), (0xC650, 0xBFD1), (0xC651, 0xBFD2),
    (0xC652, 0x9EC1), (0xC653, 0xBFD3)] @
   [(0xC654, 0xBFD4), (0xC655, 0xBFD5), (0xC656, 0x9EC2), (0xC657, 0x9EC3), (0xC658, 0x9EC4), (0xC659, 0x9EC5),
    (0xC65A, 0x9EC6), (0xC65B, 0x9EC7)] @
   [(0xC65C, 0xBFD6), (0xC65D, 0xBFD7), (0xC65E, 0x9EC8), (0xC65F, 0x9EC9), (0xC660, 0xBFD8), (0xC661, 0x9ECA),
    (0xC662, 0x9ECB), (0xC663, 0x9ECC)] @
   [(0xC664, 0x9ECD), (0xC665, 0x9ECE), (0xC666, 0x9ECF), (0xC667, 0x9ED0), (0xC668, 0x9ED1), (0xC669, 0x9ED2),
    (0xC66A, 0x9ED3), (0xC66B, 0x9ED4)] @
   [(0xC66C, 0xBFD9), (0xC66D, 0x9ED5), (0xC66E, 0x9ED6), (0xC66F, 0xBFDA), (0xC670, 0x9ED7), (0xC671, 0xBFDB),
    (0xC672, 0x9ED8), (0xC673, 0x9ED9)] @
   [(0xC674, 0x9EDA), (0xC675, 0x9EDB), (0xC676, 0x9EDC), (0xC677, 0x9EDD), (0xC678, 0xBFDC), (0xC679, 0xBFDD),
    (0xC67A, 0x9EDE), (0xC67B, 0x9EDF)] @
   [(0xC67C, 0xBFDE), (0xC67D, 0x9EE0), (0xC67E, 0x9EE1), (0xC67F, 0x9EE2), (0xC680, 0xBFDF), (0xC681, 0x9EE3),
    (0xC682, 0x9EE4), (0xC683, 0x9EE5)] @
   [(0xC684, 0x9EE6), (0xC685, 0x9EE7), (0xC686, 0x9EE8), (0xC687, 0x9EE9), (0xC688, 0xBFE0), (0xC689, 0xBFE1),
    (0xC68A, 0x9EEA), (0xC68B, 0xBFE2)] @
   [(0xC68C, 0x9EEB), (0xC68D, 0xBFE3), (0xC68E, 0x9EEC), (0xC68F, 0x9EED), (0xC690, 0x9EEE), (0xC691, 0x9EEF),
    (0xC692, 0x9EF0), (0xC693, 0x9EF1)] @
   [(0xC694, 0xBFE4), (0xC695, 0xBFE5), (0xC696, 0x9EF2), (0xC697, 0x9EF3), (0xC698, 0xBFE6), (0xC699, 0x9EF4),
    (0xC69A, 0x9EF5), (0xC69B, 0x9EF6)] @
   [(0xC69C, 0xBFE7), (0xC69D, 0x9EF7), (0xC69E, 0x9EF8), (0xC69F, 0x9EF9), (0xC6A0, 0x9EFA), (0xC6A1, 0x9EFB),
    (0xC6A2, 0x9EFC), (0xC6A3, 0x9EFD)] @
   [(0xC6A4, 0xBFE8), (0xC6A5, 0xBFE9), (0xC6A6, 0x9EFE), (0xC6A7, 0xBFEA), (0xC6A8, 0x9F41), (0xC6A9, 0xBFEB),
    (0xC6AA, 0x9F42), (0xC6AB, 0x9F43)] @
   [(0xC6AC, 0x9F44), (0xC6AD, 0x9F45), (0xC6AE, 0x9F46), (0xC6AF, 0x9F47), (0xC6B0, 0xBFEC), (0xC6B1, 0xBFED),
    (0xC6B2, 0x9F48), (0xC6B3, 0x9F49)] @
   [(0xC6B4, 0xBFEE), (0xC6B5, 0x9F4A), (0xC6B6, 0x9F4B), (0xC6B7, 0x9F4C), (0xC6B8, 0xBFEF), (0xC6B9, 0xBFF0),
    (0xC6BA, 0xBFF1), (0xC6BB, 0x9F4D)] @
   [(0xC6BC, 0x9F4E), (0xC6BD, 0x9F4F), (0xC6BE, 0x9F50), (0xC6BF, 0x9F51), (0xC6C0, 0xBFF2), (0xC6C1, 0xBFF3),
    (0xC6C2, 0x9F52), (0xC6C3, 0xBFF4)] @
   [(0xC6C4, 0x9F53), (0xC6C5, 0xBFF5), (0xC6C6, 0x9F54), (0xC6C7, 0x9F55), (0xC6C8, 0x9F56), (0xC6C9, 0x9F57),
    (0xC6CA, 0x9F58), (0xC6CB, 0x9F59)] @
   [(0xC6CC, 0xBFF6), (0xC6CD, 0xBFF7), (0xC6CE, 0x9F5A), (0xC6CF, 0x9F61), (0xC6D0, 0xBFF8), (0xC6D1, 0x9F62),
    (0xC6D2, 0x9F63), (0xC6D3, 0x9F64)] @
   [(0xC6D4, 0xBFF9), (0xC6D5, 0x9F65), (0xC6D6, 0x9F66), (0xC6D7, 0x9F67), (0xC6D8, 0x9F68), (0xC6D9, 0x9F69),
    (0xC6DA, 0x9F6A), (0xC6DB, 0x9F6B)] @
   [(0xC6DC, 0xBFFA), (0xC6DD, 0xBFFB), (0xC6DE, 0x9F6C), (0xC6DF, 0x9F6D), (0xC6E0, 0xBFFC), (0xC6E1, 0xBFFD),
    (0xC6E2, 0x9F6E), (0xC6E3, 0x9F6F)] @
   [(0xC6E4, 0x9F70), (0xC6E5, 0x9F71), (0xC6E6, 0x9F72), (0xC6E7, 0x9F73), (0xC6E8, 0xBFFE), (0xC6E9, 0xC0A1),
    (0xC6EA, 0x9F74), (0xC6EB, 0x9F75)] @
   [(0xC6EC, 0xC0A2), (0xC6ED, 0x9F76), (0xC6EE, 0x9F77), (0xC6EF, 0x9F78), (0xC6F0, 0xC0A3), (0xC6F1, 0x9F79),
    (0xC6F2, 0x9F7A), (0xC6F3, 0x9F81)] @
   [(0xC6F4, 0x9F82), (0xC6F5, 0x9F83), (0xC6F6, 0x9F84), (0xC6F7, 0x9F85), (0xC6F8, 0xC0A4), (0xC6F9, 0xC0A5),
    (0xC6FA, 0x9F86), (0xC6FB, 0x9F87)]"

definition rev_cp949_49 :: "(nat \<times> nat) list" where
  "rev_cp949_49 =
   [(0xC6FC, 0x9F88), (0xC6FD, 0xC0A6), (0xC6FE, 0x9F89), (0xC6FF, 0x9F8A), (0xC700, 0x9F8B), (0xC701, 0x9F8C),
    (0xC702, 0x9F8D), (0xC703, 0x9F8E)] @
   [(0xC704, 0xC0A7), (0xC705, 0xC0A8), (0xC706, 0x9F8F), (0xC707, 0x9F90), (0xC708, 0xC0A9), (0xC709, 0x9F91),
    (0xC70A, 0x9F92), (0xC70B, 0x9F93)] @
   [(0xC70C, 0xC0AA), (0xC70D, 0x9F94), (0xC70E, 0x9F95), (0xC70F, 0x9F96), (0xC710, 0x9F97), (0xC711, 0x9F98),
    (0xC712, 0x9F99), (0xC713, 0x9F9A)] @
   [(0xC714, 0xC0AB), (0xC715, 0xC0AC), (0xC716, 0x9F9B), (0xC717, 0xC0AD), (0xC718, 0x9F9C), (0xC719, 0xC0AE),
    (0xC71A, 0x9F9D), (0xC71B, 0x9F9E)] @
   [(0xC71C, 0x9F9F), (0xC71D, 0x9FA0), (0xC71E, 0x9FA1), (0xC71F, 0x9FA2), (0xC720, 0xC0AF), (0xC721, 0xC0B0),
    (0xC722, 0x9FA3), (0xC723, 0x9FA4)] @
   [(0xC724, 0xC0B1), (0xC725, 0x9FA5), (0xC726, 0x9FA6), (0xC727, 0x9FA7), (0xC728, 0xC0B2), (0xC729, 0x9FA8),
    (0xC72A, 0x9FA9), (0xC72B, 0x9FAA)] @
   [(0xC72C, 0x9FAB), (0xC72D, 0x9FAC), (0xC72E, 0x9FAD), (0xC72F, 0x9FAE), (0xC730, 0xC0B3), (0xC731, 0xC0B4),
    (0xC732, 0x9FAF), (0xC733, 0xC0B5)] @
   [(0xC734, 0x9FB0), (0xC735, 0xC0B6), (0xC736, 0x9FB1), (0xC737, 0xC0B7), (0xC738, 0x9FB2), (0xC739, 0x9FB3),
    (0xC73A, 0x9FB4), (0xC73B, 0x9FB5)] @
   [(0xC73C, 0xC0B8), (0xC73D, 0xC0B9), (0xC73E, 0x9FB6), (0xC73F, 0x9FB7), (0xC740, 0xC0BA), (0xC741, 0x9FB8),
    (0xC742, 0x9FB9), (0xC743, 0x9FBA)] @
   [(0xC744, 0xC0BB), (0xC745, 0x9FBB), (0xC746, 0x9FBC), (0xC747, 0x9FBD), (0xC748, 0x9FBE), (0xC749, 0x9FBF),
    (0xC74A, 0xC0BC), (0xC74B, 0x9FC0)] @
   [(0xC74C, 0xC0BD), (0xC74D, 0xC0BE), (0xC74E, 0x9FC1), (0xC74F, 0xC0BF), (0xC750, 0x9FC2), (0xC751, 0xC0C0),
    (0xC752, 0xC0C1), (0xC753, 0xC0C2)] @
   [(0xC754, 0xC0C3), (0xC755, 0xC0C4), (0xC756, 0xC0C5), (0xC757, 0xC0C6), (0xC758, 0xC0C7), (0xC759, 0x9FC3),
    (0xC75A, 0x9FC4), (0xC75B, 0x9FC5)] @
   [(0xC75C, 0xC0C8), (0xC75D, 0x9FC6), (0xC75E, 0x9FC7), (0xC75F, 0x9FC8), (0xC760, 0xC0C9), (0xC761, 0x9FC9),
    (0xC762, 0x9FCA), (0xC763, 0x9FCB)] @
   [(0xC764, 0x9FCC), (0xC765, 0x9FCD), (0xC766, 0x9FCE), (0xC767, 0x9FCF), (0xC768, 0xC0CA), (0xC769, 0x9FD0),
    (0xC76A, 0x9FD1), (0xC76B, 0xC0CB)] @
   [(0xC76C, 0x9FD2), (0xC76D, 0x9FD3), (0xC76E, 0x9FD4), (0xC76F, 0x9FD5), (0xC770, 0x9FD6), (0xC771, 0x9FD7),
    (0xC772, 0x9FD8), (0xC773, 0x9FD9)] @
   [(0xC774, 0xC0CC), (0xC775, 0xC0CD), (0xC776, 0x9FDA), (0xC777, 0x9FDB), (0xC778, 0xC0CE), (0xC779, 0x9FDC),
    (0xC77A, 0x9FDD), (0xC77B, 0x9FDE)] @
   [(0xC77C, 0xC0CF), (0xC77D, 0xC0D0), (0xC77E, 0xC0D1), (0xC77F, 0x9FDF), (0xC780, 0x9FE0), (0xC781, 0x9FE1),
    (0xC782, 0x9FE2), (0xC783, 0xC0D2)] @
   [(0xC784, 0xC0D3), (0xC785, 0xC0D4), (0xC786, 0x9FE3), (0xC787, 0xC0D5), (0xC788, 0xC0D6), (0xC789, 0xC0D7),
    (0xC78A, 0xC0D8), (0xC78B, 0x9FE4)] @
   [(0xC78C, 0x9FE5), (0xC78D, 0x9FE6), (0xC78E, 0xC0D9), (0xC78F, 0x9FE7), (0xC790, 0xC0DA), (0xC791, 0xC0DB),
    (0xC792, 0x9FE8), (0xC793, 0x9FE9)] @
   [(0xC794, 0xC0DC), (0xC795, 0x9FEA), (0xC796, 0xC0DD), (0xC797, 0xC0DE), (0xC798, 0xC0DF), (0xC799, 0x9FEB),
    (0xC79A, 0xC0E0), (0xC79B, 0x9FEC)] @
   [(0xC79C, 0x9FED), (0xC79D, 0x9FEE), (0xC79E, 0x9FEF), (0xC79F, 0x9FF0), (0xC7A0, 0xC0E1), (0xC7A1, 0xC0E2),
    (0xC7A2, 0x9FF1), (0xC7A3, 0xC0E3)] @
   [(0xC7A4, 0xC0E4), (0xC7A5, 0xC0E5), (0xC7A6, 0xC0E6), (0xC7A7, 0x9FF2), (0xC7A8, 0x9FF3), (0xC7A9, 0x9FF4),
    (0xC7AA, 0x9FF5), (0xC7AB, 0x9FF6)] @
   [(0xC7AC, 0xC0E7), (0xC7AD, 0xC0E8), (0xC7AE, 0x9FF7), (0xC7AF, 0x9FF8), (0xC7B0, 0xC0E9), (0xC7B1, 0x9FF9),
    (0xC7B2, 0x9FFA), (0xC7B3, 0x9FFB)] @
   [(0xC7B4, 0xC0EA), (0xC7B5, 0x9FFC), (0xC7B6, 0x9FFD), (0xC7B7, 0x9FFE), (0xC7B8, 0xA041), (0xC7B9, 0xA042),
    (0xC7BA, 0xA043), (0xC7BB, 0xA044)] @
   [(0xC7BC, 0xC0EB), (0xC7BD, 0xC0EC), (0xC7BE, 0xA045), (0xC7BF, 0xC0ED), (0xC7C0, 0xC0EE), (0xC7C1, 0xC0EF),
    (0xC7C2, 0xA046), (0xC7C3, 0xA047)] @
   [(0xC7C4, 0xA048), (0xC7C5, 0xA049), (0xC7C6, 0xA04A), (0xC7C7, 0xA04B), (0xC7C8, 0xC0F0), (0xC7C9, 0xC0F1),
    (0xC7CA, 0xA04C), (0xC7CB, 0xA04D)] @
   [(0xC7CC, 0xC0F2), (0xC7CD, 0xA04E), (0xC7CE, 0xC0F3), (0xC7CF, 0xA04F), (0xC7D0, 0xC0F4), (0xC7D1, 0xA050),
    (0xC7D2, 0xA051), (0xC7D3, 0xA052)] @
   [(0xC7D4, 0xA053), (0xC7D5, 0xA054), (0xC7D6, 0xA055), (0xC7D7, 0xA056), (0xC7D8, 0xC0F5), (0xC7D9, 0xA057),
    (0xC7DA, 0xA058), (0xC7DB, 0xA059)] @
   [(0xC7DC, 0xA05A), (0xC7DD, 0xC0F6), (0xC7DE, 0xA061), (0xC7DF, 0xA062), (0xC7E0, 0xA063), (0xC7E1, 0xA064),
    (0xC7E2, 0xA065), (0xC7E3, 0xA066)] @
   [(0xC7E4, 0xC0F7), (0xC7E5, 0xA067), (0xC7E6, 0xA068), (0xC7E7, 0xA069), (0xC7E8, 0xC0F8), (0xC7E9, 0xA06A),
    (0xC7EA, 0xA06B), (0xC7EB, 0xA06C)] @
   [(0xC7EC, 0xC0F9), (0xC7ED, 0xA06D), (0xC7EE, 0xA06E), (0xC7EF, 0xA06F), (0xC7F0, 0xA070), (0xC7F1, 0xA071),
    (0xC7F2, 0xA072), (0xC7F3, 0xA073)] @
   [(0xC7F4, 0xA074), (0xC7F5, 0xA075), (0xC7F6, 0xA076), (0xC7F7, 0xA077), (0xC7F8, 0xA078), (0xC7F9, 0xA079),
    (0xC7FA, 0xA07A), (0xC7FB, 0xA081)]"

definition rev_cp949_50 :: "(nat \<times> nat) list" where
  "rev_cp949_50 =
   [(0xC7FC, 0xA082), (0xC7FD, 0xA083), (0xC7FE, 0xA084), (0xC7FF, 0xA085), (0xC800, 0xC0FA), (0xC801, 0xC0FB),
    (0xC802, 0xA086), (0xC803, 0xA087)] @
   [(0xC804, 0xC0FC), (0xC805, 0xA088), (0xC806, 0xA089), (0xC807, 0xA08A), (0xC808, 0xC0FD), (0xC809, 0xA08B),
    (0xC80A, 0xC0FE), (0xC80B, 0xA08C)] @
   [(0xC80C, 0xA08D), (0xC80D, 0xA08E), (0xC80E, 0xA08F), (0xC80F, 0xA090), (0xC810, 0xC1A1), (0xC811, 0xC1A2),
    (0xC812, 0xA091), (0xC813, 0xC1A3)] @
   [(0xC814, 0xA092), (0xC815, 0xC1A4), (0xC816, 0xC1A5), (0xC817, 0xA093), (0xC818, 0xA094), (0xC819, 0xA095),
    (0xC81A, 0xA096), (0xC81B, 0xA097)] @
   [(0xC81C, 0xC1A6), (0xC81D, 0xC1A7), (0xC81E, 0xA098), (0xC81F, 0xA099), (0xC820, 0xC1A8), (0xC821, 0xA09A),
    (0xC822, 0xA09B), (0xC823, 0xA09C)] @
   [(0xC824, 0xC1A9), (0xC825, 0xA09D), (0xC826, 0xA09E), (0xC827, 0xA09F), (0xC828, 0xA0A0), (0xC829, 0xA0A1),
    (0xC82A, 0xA0A2), (0xC82B, 0xA0A3)] @
   [(0xC82C, 0xC1AA), (0xC82D, 0xC1AB), (0xC82E, 0xA0A4), (0xC82F, 0xC1AC), (0xC830, 0xA0A5), (0xC831, 0xC1AD),
    (0xC832, 0xA0A6), (0xC833, 0xA0A7)] @
   [(0xC834, 0xA0A8), (0xC835, 0xA0A9), (0xC836, 0xA0AA), (0xC837, 0xA0AB), (0xC838, 0xC1AE), (0xC839, 0xA0AC),
    (0xC83A, 0xA0AD), (0xC83B, 0xA0AE)] @
   [(0xC83C, 0xC1AF), (0xC83D, 0xA0AF), (0xC83E, 0xA0B0), (0xC83F, 0xA0B1), (0xC840, 0xC1B0), (0xC841, 0xA0B2),
    (0xC842, 0xA0B3), (0xC843, 0xA0B4)] @
   [(0xC844, 0xA0B5), (0xC845, 0xA0B6), (0xC846, 0xA0B7), (0xC847, 0xA0B8), (0xC848, 0xC1B1), (0xC849, 0xC1B2),
    (0xC84A, 0xA0B9), (0xC84B, 0xA0BA)] @
   [(0xC84C, 0xC1B3), (0xC84D, 0xC1B4), (0xC84E, 0xA0BB), (0xC84F, 0xA0BC), (0xC850, 0xA0BD), (0xC851, 0xA0BE),
    (0xC852, 0xA0BF), (0xC853, 0xA0C0)] @
   [(0xC854, 0xC1B5), (0xC855, 0xA0C1), (0xC856, 0xA0C2), (0xC857, 0xA0C3), (0xC858, 0xA0C4), (0xC859, 0xA0C5),
    (0xC85A, 0xA0C6), (0xC85B, 0xA0C7)] @
   [(0xC85C, 0xA0C8), (0xC85D, 0xA0C9), (0xC85E, 0xA0CA), (0xC85F, 0xA0CB), (0xC860, 0xA0CC), (0xC861, 0xA0CD),
    (0xC862, 0xA0CE), (0xC863, 0xA0CF)] @
   [(0xC864, 0xA0D0), (0xC865, 0xA0D1), (0xC866, 0xA0D2), (0xC867, 0xA0D3), (0xC868, 0xA0D4), (0xC869, 0xA0D5),
    (0xC86A, 0xA0D6), (0xC86B, 0xA0D7)] @
   [(0xC86C, 0xA0D8), (0xC86D, 0xA0D9), (0xC86E, 0xA0DA), (0xC86F, 0xA0DB), (0xC870, 0xC1B6), (0xC871, 0xC1B7),
    (0xC872, 0xA0DC), (0xC873, 0xA0DD)] @
   [(0xC874, 0xC1B8), (0xC875, 0xA0DE), (0xC876, 0xA0DF), (0xC877, 0xA0E0), (0xC878, 0xC1B9), (0xC879, 0xA0E1),
    (0xC87A, 0xC1BA), (0xC87B, 0xA0E2)] @
   [(0xC87C, 0xA0E3), (0xC87D, 0xA0E4), (0xC87E, 0xA0E5), (0xC87F, 0xA0E6), (0xC880, 0xC1BB), (0xC881, 0xC1BC),
    (0xC882, 0xA0E7), (0xC883, 0xC1BD)] @
   [(0xC884, 0xA0E8), (0xC885, 0xC1BE), (0xC886, 0xC1BF), (0xC887, 0xC1C0), (0xC888, 0xA0E9), (0xC889, 0xA0EA),
    (0xC88A, 0xA0EB), (0xC88B, 0xC1C1)] @
   [(0xC88C, 0xC1C2), (0xC88D, 0xC1C3), (0xC88E, 0xA0EC), (0xC88F, 0xA0ED), (0xC890, 0xA0EE), (0xC891, 0xA0EF),
    (0xC892, 0xA0F0), (0xC893, 0xA0F1)] @
   [(0xC894, 0xC1C4), (0xC895, 0xA0F2), (0xC896, 0xA0F3), (0xC897, 0xA0F4), (0xC898, 0xA0F5), (0xC899, 0xA0F6),
    (0xC89A, 0xA0F7), (0xC89B, 0xA0F8)] @
   [(0xC89C, 0xA0F9), (0xC89D, 0xC1C5), (0xC89E, 0xA0FA), (0xC89F, 0xC1C6), (0xC8A0, 0xA0FB), (0xC8A1, 0xC1C7),
    (0xC8A2, 0xA0FC), (0xC8A3, 0xA0FD)] @
   [(0xC8A4, 0xA0FE), (0xC8A5, 0xA141), (0xC8A6, 0xA142), (0xC8A7, 0xA143), (0xC8A8, 0xC1C8), (0xC8A9, 0xA144),
    (0xC8AA, 0xA145), (0xC8AB, 0xA146)] @
   [(0xC8AC, 0xA147), (0xC8AD, 0xA148), (0xC8AE, 0xA149), (0xC8AF, 0xA14A), (0xC8B0, 0xA14B), (0xC8B1, 0xA14C),
    (0xC8B2, 0xA14D), (0xC8B3, 0xA14E)] @
   [(0xC8B4, 0xA14F), (0xC8B5, 0xA150), (0xC8B6, 0xA151), (0xC8B7, 0xA152), (0xC8B8, 0xA153), (0xC8B9, 0xA154),
    (0xC8BA, 0xA155), (0xC8BB, 0xA156)] @
   [(0xC8BC, 0xC1C9), (0xC8BD, 0xC1CA), (0xC8BE, 0xA157), (0xC8BF, 0xA158), (0xC8C0, 0xA159), (0xC8C1, 0xA15A),
    (0xC8C2, 0xA161), (0xC8C3, 0xA162)] @
   [(0xC8C4, 0xC1CB), (0xC8C5, 0xA163), (0xC8C6, 0xA164), (0xC8C7, 0xA165), (0xC8C8, 0xC1CC), (0xC8C9, 0xA166),
    (0xC8CA, 0xA167), (0xC8CB, 0xA168)] @
   [(0xC8CC, 0xC1CD), (0xC8CD, 0xA169), (0xC8CE, 0xA16A), (0xC8CF, 0xA16B), (0xC8D0, 0xA16C), (0xC8D1, 0xA16D),
    (0xC8D2, 0xA16E), (0xC8D3, 0xA16F)] @
   [(0xC8D4, 0xC1CE), (0xC8D5, 0xC1CF), (0xC8D6, 0xA170), (0xC8D7, 0xC1D0), (0xC8D8, 0xA171), (0xC8D9, 0xC1D1),
    (0xC8DA, 0xA172), (0xC8DB, 0xA173)] @
   [(0xC8DC, 0xA174), (0xC8DD, 0xA175), (0xC8DE, 0xA176), (0xC8DF, 0xA177), (0xC8E0, 0xC1D2), (0xC8E1, 0xC1D3),
    (0xC8E2, 0xA178), (0xC8E3, 0xA179)] @
   [(0xC8E4, 0xC1D4), (0xC8E5, 0xA17A), (0xC8E6, 0xA181), (0xC8E7, 0xA182), (0xC8E8, 0xA183), (0xC8E9, 0xA184),
    (0xC8EA, 0xA185), (0xC8EB, 0xA186)] @
   [(0xC8EC, 0xA187), (0xC8ED, 0xA188), (0xC8EE, 0xA189), (0xC8EF, 0xA18A), (0xC8F0, 0xA18B), (0xC8F1, 0xA18C),
    (0xC8F2, 0xA18D), (0xC8F3, 0xA18E)] @
   [(0xC8F4, 0xA18F), (0xC8F5, 0xC1D5), (0xC8F6, 0xA190), (0xC8F7, 0xA191), (0xC8F8, 0xA192), (0xC8F9, 0xA193),
    (0xC8FA, 0xA194), (0xC8FB, 0xA195)]"

definition rev_cp949_51 :: "(nat \<times> nat) list" where
  "rev_cp949_51 =
   [(0xC8FC, 0xC1D6), (0xC8FD, 0xC1D7), (0xC8FE, 0xA196), (0xC8FF, 0xA197), (0xC900, 0xC1D8), (0xC901, 0xA198),
    (0xC902, 0xA199), (0xC903, 0xA19A)] @
   [(0xC904, 0xC1D9), (0xC905, 0xC1DA), (0xC906, 0xC1DB), (0xC907, 0xA19B), (0xC908, 0xA19C), (0xC909, 0xA19D),
    (0xC90A, 0xA19E), (0xC90B, 0xA19F)] @
   [(0xC90C, 0xC1DC), (0xC90D, 0xC1DD), (0xC90E, 0xA1A0), (0xC90F, 0xC1DE), (0xC910, 0xA241), (0xC911, 0xC1DF),
    (0xC912, 0xA242), (0xC913, 0xA243)] @
   [(0xC914, 0xA244), (0xC915, 0xA245), (0xC916, 0xA246), (0xC917, 0xA247), (0xC918, 0xC1E0), (0xC919, 0xA248),
    (0xC91A, 0xA249), (0xC91B, 0xA24A)] @
   [(0xC91C, 0xA24B), (0xC91D, 0xA24C), (0xC91E, 0xA24D), (0xC91F, 0xA24E), (0xC920, 0xA24F), (0xC921, 0xA250),
    (0xC922, 0xA251), (0xC923, 0xA252)] @
   [(0xC924, 0xA253), (0xC925, 0xA254), (0xC926, 0xA255), (0xC927, 0xA256), (0xC928, 0xA257), (0xC929, 0xA258),
    (0xC92A, 0xA259), (0xC92B, 0xA25A)] @
   [(0xC92C, 0xC1E1), (0xC92D, 0xA261), (0xC92E, 0xA262), (0xC92F, 0xA263), (0xC930, 0xA264), (0xC931, 0xA265),
    (0xC932, 0xA266), (0xC933, 0xA267)] @
   [(0xC934, 0xC1E2), (0xC935, 0xA268), (0xC936, 0xA269), (0xC937, 0xA26A), (0xC938, 0xA26B), (0xC939, 0xA26C),
    (0xC93A, 0xA26D), (0xC93B, 0xA26E)] @
   [(0xC93C, 0xA26F), (0xC93D, 0xA270), (0xC93E, 0xA271), (0xC93F, 0xA272), (0xC940, 0xA273), (0xC941, 0xA274),
    (0xC942, 0xA275), (0xC943, 0xA276)] @
   [(0xC944, 0xA277), (0xC945, 0xA278), (0xC946, 0xA279), (0xC947, 0xA27A), (0xC948, 0xA281), (0xC949, 0xA282),
    (0xC94A, 0xA283), (0xC94B, 0xA284)] @
   [(0xC94C, 0xA285), (0xC94D, 0xA286), (0xC94E, 0xA287), (0xC94F, 0xA288), (0xC950, 0xC1E3), (0xC951, 0xC1E4),
    (0xC952, 0xA289), (0xC953, 0xA28A)] @
   [(0xC954, 0xC1E5), (0xC955, 0xA28B), (0xC956, 0xA28C), (0xC957, 0xA28D), (0xC958, 0xC1E6), (0xC959, 0xA28E),
    (0xC95A, 0xA28F), (0xC95B, 0xA290)] @
   [(0xC95C, 0xA291), (0xC95D, 0xA292), (0xC95E, 0xA293), (0xC95F, 0xA294), (0xC960, 0xC1E7), (0xC961, 0xC1E8),
    (0xC962, 0xA295), (0xC963, 0xC1E9)] @
   [(0xC964, 0xA296), (0xC965, 0xA297), (0xC966, 0xA298), (0xC967, 0xA299), (0xC968, 0xA29A), (0xC969, 0xA29B),
    (0xC96A, 0xA29C), (0xC96B, 0xA29D)] @
   [(0xC96C, 0xC1EA), (0xC96D, 0xA29E), (0xC96E, 0xA29F), (0xC96F, 0xA2A0), (0xC970, 0xC1EB), (0xC971, 0xA341),
    (0xC972, 0xA342), (0xC973, 0xA343)] @
   [(0xC974, 0xC1EC), (0xC975, 0xA344), (0xC976, 0xA345), (0xC977, 0xA346), (0xC978, 0xA347), (0xC979, 0xA348),
    (0xC97A, 0xA349), (0xC97B, 0xA34A)] @
   [(0xC97C, 0xC1ED), (0xC97D, 0xA34B), (0xC97E, 0xA34C), (0xC97F, 0xA34D), (0xC980, 0xA34E), (0xC981, 0xA34F),
    (0xC982, 0xA350), (0xC983, 0xA351)] @
   [(0xC984, 0xA352), (0xC985, 0xA353), (0xC986, 0xA354), (0xC987, 0xA355), (0xC988, 0xC1EE), (0xC989, 0xC1EF),
    (0xC98A, 0xA356), (0xC98B, 0xA357)] @
   [(0xC98C, 0xC1F0), (0xC98D, 0xA358), (0xC98E, 0xA359), (0xC98F, 0xA35A), (0xC990, 0xC1F1), (0xC991, 0xA361),
    (0xC992, 0xA362), (0xC993, 0xA363)] @
   [(0xC994, 0xA364), (0xC995, 0xA365), (0xC996, 0xA366), (0xC997, 0xA367), (0xC998, 0xC1F2), (0xC999, 0xC1F3),
    (0xC99A, 0xA368), (0xC99B, 0xC1F4)] @
   [(0xC99C, 0xA369), (0xC99D, 0xC1F5), (0xC99E, 0xA36A), (0xC99F, 0xA36B), (0xC9A0, 0xA36C), (0xC9A1, 0xA36D),
    (0xC9A2, 0xA36E), (0xC9A3, 0xA36F)] @
   [(0xC9A4, 0xA370), (0xC9A5, 0xA371), (0xC9A6, 0xA372), (0xC9A7, 0xA373), (0xC9A8, 0xA374), (0xC9A9, 0xA375),
    (0xC9AA, 0xA376), (0xC9AB, 0xA377)] @
   [(0xC9AC, 0xA378), (0xC9AD, 0xA379), (0xC9AE, 0xA37A), (0xC9AF, 0xA381), (0xC9B0, 0xA382), (0xC9B1, 0xA383),
    (0xC9B2, 0xA384), (0xC9B3, 0xA385)] @
   [(0xC9B4, 0xA386), (0xC9B5, 0xA387), (0xC9B6, 0xA388), (0xC9B7, 0xA389), (0xC9B8, 0xA38A), (0xC9B9, 0xA38B),
    (0xC9BA, 0xA38C), (0xC9BB, 0xA38D)] @
   [(0xC9BC, 0xA38E), (0xC9BD, 0xA38F), (0xC9BE, 0xA390), (0xC9BF, 0xA391), (0xC9C0, 0xC1F6), (0xC9C1, 0xC1F7),
    (0xC9C2, 0xA392), (0xC9C3, 0xA393)] @
   [(0xC9C4, 0xC1F8), (0xC9C5, 0xA394), (0xC9C6, 0xA395), (0xC9C7, 0xC1F9), (0xC9C8, 0xC1FA), (0xC9C9, 0xA396),
    (0xC9CA, 0xC1FB), (0xC9CB, 0xA397)] @
   [(0xC9CC, 0xA398), (0xC9CD, 0xA399), (0xC9CE, 0xA39A), (0xC9CF, 0xA39B), (0xC9D0, 0xC1FC), (0xC9D1, 0xC1FD),
    (0xC9D2, 0xA39C), (0xC9D3, 0xC1FE)] @
   [(0xC9D4, 0xA39D), (0xC9D5, 0xC2A1), (0xC9D6, 0xC2A2), (0xC9D7, 0xA39E), (0xC9D8, 0xA39F), (0xC9D9, 0xC2A3),
    (0xC9DA, 0xC2A4), (0xC9DB, 0xA3A0)] @
   [(0xC9DC, 0xC2A5), (0xC9DD, 0xC2A6), (0xC9DE, 0xA441), (0xC9DF, 0xA442), (0xC9E0, 0xC2A7), (0xC9E1, 0xA443),
    (0xC9E2, 0xC2A8), (0xC9E3, 0xA444)] @
   [(0xC9E4, 0xC2A9), (0xC9E5, 0xA445), (0xC9E6, 0xA446), (0xC9E7, 0xC2AA), (0xC9E8, 0xA447), (0xC9E9, 0xA448),
    (0xC9EA, 0xA449), (0xC9EB, 0xA44A)] @
   [(0xC9EC, 0xC2AB), (0xC9ED, 0xC2AC), (0xC9EE, 0xA44B), (0xC9EF, 0xC2AD), (0xC9F0, 0xC2AE), (0xC9F1, 0xC2AF),
    (0xC9F2, 0xA44C), (0xC9F3, 0xA44D)] @
   [(0xC9F4, 0xA44E), (0xC9F5, 0xA44F), (0xC9F6, 0xA450), (0xC9F7, 0xA451), (0xC9F8, 0xC2B0), (0xC9F9, 0xC2B1),
    (0xC9FA, 0xA452), (0xC9FB, 0xA453)]"

definition rev_cp949_52 :: "(nat \<times> nat) list" where
  "rev_cp949_52 =
   [(0xC9FC, 0xC2B2), (0xC9FD, 0xA454), (0xC9FE, 0xA455), (0xC9FF, 0xA456), (0xCA00, 0xC2B3), (0xCA01, 0xA457),
    (0xCA02, 0xA458), (0xCA03, 0xA459)] @
   [(0xCA04, 0xA45A), (0xCA05, 0xA461), (0xCA06, 0xA462), (0xCA07, 0xA463), (0xCA08, 0xC2B4), (0xCA09, 0xC2B5),
    (0xCA0A, 0xA464), (0xCA0B, 0xC2B6)] @
   [(0xCA0C, 0xC2B7), (0xCA0D, 0xC2B8), (0xCA0E, 0xA465), (0xCA0F, 0xA466), (0xCA10, 0xA467), (0xCA11, 0xA468),
    (0xCA12, 0xA469), (0xCA13, 0xA46A)] @
   [(0xCA14, 0xC2B9), (0xCA15, 0xA46B), (0xCA16, 0xA46C), (0xCA17, 0xA46D), (0xCA18, 0xC2BA), (0xCA19, 0xA46E),
    (0xCA1A, 0xA46F), (0xCA1B, 0xA470)] @
   [(0xCA1C, 0xA471), (0xCA1D, 0xA472), (0xCA1E, 0xA473), (0xCA1F, 0xA474), (0xCA20, 0xA475), (0xCA21, 0xA476),
    (0xCA22, 0xA477), (0xCA23, 0xA478)] @
   [(0xCA24, 0xA479), (0xCA25, 0xA47A), (0xCA26, 0xA481), (0xCA27, 0xA482), (0xCA28, 0xA483), (0xCA29, 0xC2BB),
    (0xCA2A, 0xA484), (0xCA2B, 0xA485)] @
   [(0xCA2C, 0xA486), (0xCA2D, 0xA487), (0xCA2E, 0xA488), (0xCA2F, 0xA489), (0xCA30, 0xA48A), (0xCA31, 0xA48B),
    (0xCA32, 0xA48C), (0xCA33, 0xA48D)] @
   [(0xCA34, 0xA48E), (0xCA35, 0xA48F), (0xCA36, 0xA490), (0xCA37, 0xA491), (0xCA38, 0xA492), (0xCA39, 0xA493),
    (0xCA3A, 0xA494), (0xCA3B, 0xA495)] @
   [(0xCA3C, 0xA496), (0xCA3D, 0xA497), (0xCA3E, 0xA498), (0xCA3F, 0xA499), (0xCA40, 0xA49A), (0xCA41, 0xA49B),
    (0xCA42, 0xA49C), (0xCA43, 0xA49D)] @
   [(0xCA44, 0xA49E), (0xCA45, 0xA49F), (0xCA46, 0xA4A0), (0xCA47, 0xA541), (0xCA48, 0xA542), (0xCA49, 0xA543),
    (0xCA4A, 0xA544), (0xCA4B, 0xA545)] @
   [(0xCA4C, 0xC2BC), (0xCA4D, 0xC2BD), (0xCA4E, 0xA546), (0xCA4F, 0xA547), (0xCA50, 0xC2BE), (0xCA51, 0xA548),
    (0xCA52, 0xA549), (0xCA53, 0xA54A)] @
   [(0xCA54, 0xC2BF), (0xCA55, 0xA54B), (0xCA56, 0xA54C), (0xCA57, 0xA54D), (0xCA58, 0xA54E), (0xCA59, 0xA54F),
    (0xCA5A, 0xA550), (0xCA5B, 0xA551)] @
   [(0xCA5C, 0xC2C0), (0xCA5D, 0xC2C1), (0xCA5E, 0xA552), (0xCA5F, 0xC2C2), (0xCA60, 0xC2C3), (0xCA61, 0xC2C4),
    (0xCA62, 0xA553), (0xCA63, 0xA554)] @
   [(0xCA64, 0xA555), (0xCA65, 0xA556), (0xCA66, 0xA557), (0xCA67, 0xA558), (0xCA68, 0xC2C5), (0xCA69, 0xA559),
    (0xCA6A, 0xA55A), (0xCA6B, 0xA561)] @
   [(0xCA6C, 0xA562), (0xCA6D, 0xA563), (0xCA6E, 0xA564), (0xCA6F, 0xA565), (0xCA70, 0xA566), (0xCA71, 0xA567),
    (0xCA72, 0xA568), (0xCA73, 0xA569)] @
   [(0xCA74, 0xA56A), (0xCA75, 0xA56B), (0xCA76, 0xA56C), (0xCA77, 0xA56D), (0xCA78, 0xA56E), (0xCA79, 0xA56F),
    (0xCA7A, 0xA570), (0xCA7B, 0xA571)] @
   [(0xCA7C, 0xA572), (0xCA7D, 0xC2C6), (0xCA7E, 0xA573), (0xCA7F, 0xA574), (0xCA80, 0xA575), (0xCA81, 0xA576),
    (0xCA82, 0xA577), (0xCA83, 0xA578)] @
   [(0xCA84, 0xC2C7), (0xCA85, 0xA579), (0xCA86, 0xA57A), (0xCA87, 0xA581), (0xCA88, 0xA582), (0xCA89, 0xA583),
    (0xCA8A, 0xA584), (0xCA8B, 0xA585)] @
   [(0xCA8C, 0xA586), (0xCA8D, 0xA587), (0xCA8E, 0xA588), (0xCA8F, 0xA589), (0xCA90, 0xA58A), (0xCA91, 0xA58B),
    (0xCA92, 0xA58C), (0xCA93, 0xA58D)] @
   [(0xCA94, 0xA58E), (0xCA95, 0xA58F), (0xCA96, 0xA590), (0xCA97, 0xA591), (0xCA98, 0xC2C8), (0xCA99, 0xA592),
    (0xCA9A, 0xA593), (0xCA9B, 0xA594)] @
   [(0xCA9C, 0xA595), (0xCA9D, 0xA596), (0xCA9E, 0xA597), (0xCA9F, 0xA598), (0xCAA0, 0xA599), (0xCAA1, 0xA59A),
    (0xCAA2, 0xA59B), (0xCAA3, 0xA59C)] @
   [(0xCAA4, 0xA59D), (0xCAA5, 0xA59E), (0xCAA6, 0xA59F), (0xCAA7, 0xA5A0), (0xCAA8, 0xA641), (0xCAA9, 0xA642),
    (0xCAAA, 0xA643), (0xCAAB, 0xA644)] @
   [(0xCAAC, 0xA645), (0xCAAD, 0xA646), (0xCAAE, 0xA647), (0xCAAF, 0xA648), (0xCAB0, 0xA649), (0xCAB1, 0xA64A),
    (0xCAB2, 0xA64B), (0xCAB3, 0xA64C)] @
   [(0xCAB4, 0xA64D), (0xCAB5, 0xA64E), (0xCAB6, 0xA64F), (0xCAB7, 0xA650), (0xCAB8, 0xA651), (0xCAB9, 0xA652),
    (0xCABA, 0xA653), (0xCABB, 0xA654)] @
   [(0xCABC, 0xC2C9), (0xCABD, 0xC2CA), (0xCABE, 0xA655), (0xCABF, 0xA656), (0xCAC0, 0xC2CB), (0xCAC1, 0xA657),
    (0xCAC2, 0xA658), (0xCAC3, 0xA659)] @
   [(0xCAC4, 0xC2CC), (0xCAC5, 0xA65A), (0xCAC6, 0xA661), (0xCAC7, 0xA662), (0xCAC8, 0xA663), (0xCAC9, 0xA664),
    (0xCACA, 0xA665), (0xCACB, 0xA666)] @
   [(0xCACC, 0xC2CD), (0xCACD, 0xC2CE), (0xCACE, 0xA667), (0xCACF, 0xC2CF), (0xCAD0, 0xA668), (0xCAD1, 0xC2D0),
    (0xCAD2, 0xA669), (0xCAD3, 0xC2D1)] @
   [(0xCAD4, 0xA66A), (0xCAD5, 0xA66B), (0xCAD6, 0xA66C), (0xCAD7, 0xA66D), (0xCAD8, 0xC2D2), (0xCAD9, 0xC2D3),
    (0xCADA, 0xA66E), (0xCADB, 0xA66F)] @
   [(0xCADC, 0xA670), (0xCADD, 0xA671), (0xCADE, 0xA672), (0xCADF, 0xA673), (0xCAE0, 0xC2D4), (0xCAE1, 0xA674),
    (0xCAE2, 0xA675), (0xCAE3, 0xA676)] @
   [(0xCAE4, 0xA677), (0xCAE5, 0xA678), (0xCAE6, 0xA679), (0xCAE7, 0xA67A), (0xCAE8, 0xA681), (0xCAE9, 0xA682),
    (0xCAEA, 0xA683), (0xCAEB, 0xA684)] @
   [(0xCAEC, 0xC2D5), (0xCAED, 0xA685), (0xCAEE, 0xA686), (0xCAEF, 0xA687), (0xCAF0, 0xA688), (0xCAF1, 0xA689),
    (0xCAF2, 0xA68A), (0xCAF3, 0xA68B)] @
   [(0xCAF4, 0xC2D6), (0xCAF5, 0xA68C), (0xCAF6, 0xA68D), (0xCAF7, 0xA68E), (0xCAF8, 0xA68F), (0xCAF9, 0xA690),
    (0xCAFA, 0xA691), (0xCAFB, 0xA692)]"

definition rev_cp949_53 :: "(nat \<times> nat) list" where
  "rev_cp949_53 =
   [(0xCAFC, 0xA693), (0xCAFD, 0xA694), (0xCAFE, 0xA695), (0xCAFF, 0xA696), (0xCB00, 0xA697), (0xCB01, 0xA698),
    (0xCB02, 0xA699), (0xCB03, 0xA69A)] @
   [(0xCB04, 0xA69B), (0xCB05, 0xA69C), (0xCB06, 0xA69D), (0xCB07, 0xA69E), (0xCB08, 0xC2D7), (0xCB09, 0xA69F),
    (0xCB0A, 0xA6A0), (0xCB0B, 0xA741)] @
   [(0xCB0C, 0xA742), (0xCB0D, 0xA743), (0xCB0E, 0xA744), (0xCB0F, 0xA745), (0xCB10, 0xC2D8), (0xCB11, 0xA746),
    (0xCB12, 0xA747), (0xCB13, 0xA748)] @
   [(0xCB14, 0xC2D9), (0xCB15, 0xA749), (0xCB16, 0xA74A), (0xCB17, 0xA74B), (0xCB18, 0xC2DA), (0xCB19, 0xA74C),
    (0xCB1A, 0xA74D), (0xCB1B, 0xA74E)] @
   [(0xCB1C, 0xA74F), (0xCB1D, 0xA750), (0xCB1E, 0xA751), (0xCB1F, 0xA752), (0xCB20, 0xC2DB), (0xCB21, 0xC2DC),
    (0xCB22, 0xA753), (0xCB23, 0xA754)] @
   [(0xCB24, 0xA755), (0xCB25, 0xA756), (0xCB26, 0xA757), (0xCB27, 0xA758), (0xCB28, 0xA759), (0xCB29, 0xA75A),
    (0xCB2A, 0xA761), (0xCB2B, 0xA762)] @
   [(0xCB2C, 0xA763), (0xCB2D, 0xA764), (0xCB2E, 0xA765), (0xCB2F, 0xA766), (0xCB30, 0xA767), (0xCB31, 0xA768),
    (0xCB32, 0xA769), (0xCB33, 0xA76A)] @
   [(0xCB34, 0xA76B), (0xCB35, 0xA76C), (0xCB36, 0xA76D), (0xCB37, 0xA76E), (0xCB38, 0xA76F), (0xCB39, 0xA770),
    (0xCB3A, 0xA771), (0xCB3B, 0xA772)] @
   [(0xCB3C, 0xA773), (0xCB3D, 0xA774), (0xCB3E, 0xA775), (0xCB3F, 0xA776), (0xCB40, 0xA777), (0xCB41, 0xC2DD),
    (0xCB42, 0xA778), (0xCB43, 0xA779)] @
   [(0xCB44, 0xA77A), (0xCB45, 0xA781), (0xCB46, 0xA782), (0xCB47, 0xA783), (0xCB48, 0xC2DE), (0xCB49, 0xC2DF),
    (0xCB4A, 0xA784), (0xCB4B, 0xA785)] @
   [(0xCB4C, 0xC2E0), (0xCB4D, 0xA786), (0xCB4E, 0xA787), (0xCB4F, 0xA788), (0xCB50, 0xC2E1), (0xCB51, 0xA789),
    (0xCB52, 0xA78A), (0xCB53, 0xA78B)] @
   [(0xCB54, 0xA78C), (0xCB55, 0xA78D), (0xCB56, 0xA78E), (0xCB57, 0xA78F), (0xCB58, 0xC2E2), (0xCB59, 0xC2E3),
    (0xCB5A, 0xA790), (0xCB5B, 0xA791)] @
   [(0xCB5C, 0xA792), (0xCB5D, 0xC2E4), (0xCB5E, 0xA793), (0xCB5F, 0xA794), (0xCB60, 0xA795), (0xCB61, 0xA796),
    (0xCB62, 0xA797), (0xCB63, 0xA798)] @
   [(0xCB64, 0xC2E5), (0xCB65, 0xA799), (0xCB66, 0xA79A), (0xCB67, 0xA79B), (0xCB68, 0xA79C), (0xCB69, 0xA79D),
    (0xCB6A, 0xA79E), (0xCB6B, 0xA79F)] @
   [(0xCB6C, 0xA7A0), (0xCB6D, 0xA841), (0xCB6E, 0xA842), (0xCB6F, 0xA843), (0xCB70, 0xA844), (0xCB71, 0xA845),
    (0xCB72, 0xA846), (0xCB73, 0xA847)] @
   [(0xCB74, 0xA848), (0xCB75, 0xA849), (0xCB76, 0xA84A), (0xCB77, 0xA84B), (0xCB78, 0xC2E6), (0xCB79, 0xC2E7),
    (0xCB7A, 0xA84C), (0xCB7B, 0xA84D)] @
   [(0xCB7C, 0xA84E), (0xCB7D, 0xA84F), (0xCB7E, 0xA850), (0xCB7F, 0xA851), (0xCB80, 0xA852), (0xCB81, 0xA853),
    (0xCB82, 0xA854), (0xCB83, 0xA855)] @
   [(0xCB84, 0xA856), (0xCB85, 0xA857), (0xCB86, 0xA858), (0xCB87, 0xA859), (0xCB88, 0xA85A), (0xCB89, 0xA861),
    (0xCB8A, 0xA862), (0xCB8B, 0xA863)] @
   [(0xCB8C, 0xA864), (0xCB8D, 0xA865), (0xCB8E, 0xA866), (0xCB8F, 0xA867), (0xCB90, 0xA868), (0xCB91, 0xA869),
    (0xCB92, 0xA86A), (0xCB93, 0xA86B)] @
   [(0xCB94, 0xA86C), (0xCB95, 0xA86D), (0xCB96, 0xA86E), (0xCB97, 0xA86F), (0xCB98, 0xA870), (0xCB99, 0xA871),
    (0xCB9A, 0xA872), (0xCB9B, 0xA873)] @
   [(0xCB9C, 0xC2E8), (0xCB9D, 0xA874), (0xCB9E, 0xA875), (0xCB9F, 0xA876), (0xCBA0, 0xA877), (0xCBA1, 0xA878),
    (0xCBA2, 0xA879), (0xCBA3, 0xA87A)] @
   [(0xCBA4, 0xA881), (0xCBA5, 0xA882), (0xCBA6, 0xA883), (0xCBA7, 0xA884), (0xCBA8, 0xA885), (0xCBA9, 0xA886),
    (0xCBAA, 0xA887), (0xCBAB, 0xA888)] @
   [(0xCBAC, 0xA889), (0xCBAD, 0xA88A), (0xCBAE, 0xA88B), (0xCBAF, 0xA88C), (0xCBB0, 0xA88D), (0xCBB1, 0xA88E),
    (0xCBB2, 0xA88F), (0xCBB3, 0xA890)] @
   [(0xCBB4, 0xA891), (0xCBB5, 0xA892), (0xCBB6, 0xA893), (0xCBB7, 0xA894), (0xCBB8, 0xC2E9), (0xCBB9, 0xA895),
    (0xCBBA, 0xA896), (0xCBBB, 0xA897)] @
   [(0xCBBC, 0xA898), (0xCBBD, 0xA899), (0xCBBE, 0xA89A), (0xCBBF, 0xA89B), (0xCBC0, 0xA89C), (0xCBC1, 0xA89D),
    (0xCBC2, 0xA89E), (0xCBC3, 0xA89F)] @
   [(0xCBC4, 0xA8A0), (0xCBC5, 0xA941), (0xCBC6, 0xA942), (0xCBC7, 0xA943), (0xCBC8, 0xA944), (0xCBC9, 0xA945),
    (0xCBCA, 0xA946), (0xCBCB, 0xA947)] @
   [(0xCBCC, 0xA948), (0xCBCD, 0xA949), (0xCBCE, 0xA94A), (0xCBCF, 0xA94B), (0xCBD0, 0xA94C), (0xCBD1, 0xA94D),
    (0xCBD2, 0xA94E), (0xCBD3, 0xA94F)] @
   [(0xCBD4, 0xC2EA), (0xCBD5, 0xA950), (0xCBD6, 0xA951), (0xCBD7, 0xA952), (0xCBD8, 0xA953), (0xCBD9, 0xA954),
    (0xCBDA, 0xA955), (0xCBDB, 0xA956)] @
   [(0xCBDC, 0xA957), (0xCBDD, 0xA958), (0xCBDE, 0xA959), (0xCBDF, 0xA95A), (0xCBE0, 0xA961), (0xCBE1, 0xA962),
    (0xCBE2, 0xA963), (0xCBE3, 0xA964)] @
   [(0xCBE4, 0xC2EB), (0xCBE5, 0xA965), (0xCBE6, 0xA966), (0xCBE7, 0xC2EC), (0xCBE8, 0xA967), (0xCBE9, 0xC2ED),
    (0xCBEA, 0xA968), (0xCBEB, 0xA969)] @
   [(0xCBEC, 0xA96A), (0xCBED, 0xA96B), (0xCBEE, 0xA96C), (0xCBEF, 0xA96D), (0xCBF0, 0xA96E), (0xCBF1, 0xA96F),
    (0xCBF2, 0xA970), (0xCBF3, 0xA971)] @
   [(0xCBF4, 0xA972), (0xCBF5, 0xA973), (0xCBF6, 0xA974), (0xCBF7, 0xA975), (0xCBF8, 0xA976), (0xCBF9, 0xA977),
    (0xCBFA, 0xA978), (0xCBFB, 0xA979)]"

definition rev_cp949_54 :: "(nat \<times> nat) list" where
  "rev_cp949_54 =
   [(0xCBFC, 0xA97A), (0xCBFD, 0xA981), (0xCBFE, 0xA982), (0xCBFF, 0xA983), (0xCC00, 0xA984), (0xCC01, 0xA985),
    (0xCC02, 0xA986), (0xCC03, 0xA987)] @
   [(0xCC04, 0xA988), (0xCC05, 0xA989), (0xCC06, 0xA98A), (0xCC07, 0xA98B), (0xCC08, 0xA98C), (0xCC09, 0xA98D),
    (0xCC0A, 0xA98E), (0xCC0B, 0xA98F)] @
   [(0xCC0C, 0xC2EE), (0xCC0D, 0xC2EF), (0xCC0E, 0xA990), (0xCC0F, 0xA991), (0xCC10, 0xC2F0), (0xCC11, 0xA992),
    (0xCC12, 0xA993), (0xCC13, 0xA994)] @
   [(0xCC14, 0xC2F1), (0xCC15, 0xA995), (0xCC16, 0xA996), (0xCC17, 0xA997), (0xCC18, 0xA998), (0xCC19, 0xA999),
    (0xCC1A, 0xA99A), (0xCC1B, 0xA99B)] @
   [(0xCC1C, 0xC2F2), (0xCC1D, 0xC2F3), (0xCC1E, 0xA99C), (0xCC1F, 0xA99D), (0xCC20, 0xA99E), (0xCC21, 0xC2F4),
    (0xCC22, 0xC2F5), (0xCC23, 0xA99F)] @
   [(0xCC24, 0xA9A0), (0xCC25, 0xAA41), (0xCC26, 0xAA42), (0xCC27, 0xC2F6), (0xCC28, 0xC2F7), (0xCC29, 0xC2F8),
    (0xCC2A, 0xAA43), (0xCC2B, 0xAA44)] @
   [(0xCC2C, 0xC2F9), (0xCC2D, 0xAA45), (0xCC2E, 0xC2FA), (0xCC2F, 0xAA46), (0xCC30, 0xC2FB), (0xCC31, 0xAA47),
    (0xCC32, 0xAA48), (0xCC33, 0xAA49)] @
   [(0xCC34, 0xAA4A), (0xCC35, 0xAA4B), (0xCC36, 0xAA4C), (0xCC37, 0xAA4D), (0xCC38, 0xC2FC), (0xCC39, 0xC2FD),
    (0xCC3A, 0xAA4E), (0xCC3B, 0xC2FE)] @
   [(0xCC3C, 0xC3A1), (0xCC3D, 0xC3A2), (0xCC3E, 0xC3A3), (0xCC3F, 0xAA4F), (0xCC40, 0xAA50), (0xCC41, 0xAA51),
    (0xCC42, 0xAA52), (0xCC43, 0xAA53)] @
   [(0xCC44, 0xC3A4), (0xCC45, 0xC3A5), (0xCC46, 0xAA54), (0xCC47, 0xAA55), (0xCC48, 0xC3A6), (0xCC49, 0xAA56),
    (0xCC4A, 0xAA57), (0xCC4B, 0xAA58)] @
   [(0xCC4C, 0xC3A7), (0xCC4D, 0xAA59), (0xCC4E, 0xAA5A), (0xCC4F, 0xAA61), (0xCC50, 0xAA62), (0xCC51, 0xAA63),
    (0xCC52, 0xAA64), (0xCC53, 0xAA65)] @
   [(0xCC54, 0xC3A8), (0xCC55, 0xC3A9), (0xCC56, 0xAA66), (0xCC57, 0xC3AA), (0xCC58, 0xC3AB), (0xCC59, 0xC3AC),
    (0xCC5A, 0xAA67), (0xCC5B, 0xAA68)] @
   [(0xCC5C, 0xAA69), (0xCC5D, 0xAA6A), (0xCC5E, 0xAA6B), (0xCC5F, 0xAA6C), (0xCC60, 0xC3AD), (0xCC61, 0xAA6D),
    (0xCC62, 0xAA6E), (0xCC63, 0xAA6F)] @
   [(0xCC64, 0xC3AE), (0xCC65, 0xAA70), (0xCC66, 0xC3AF), (0xCC67, 0xAA71), (0xCC68, 0xC3B0), (0xCC69, 0xAA72),
    (0xCC6A, 0xAA73), (0xCC6B, 0xAA74)] @
   [(0xCC6C, 0xAA75), (0xCC6D, 0xAA76), (0xCC6E, 0xAA77), (0xCC6F, 0xAA78), (0xCC70, 0xC3B1), (0xCC71, 0xAA79),
    (0xCC72, 0xAA7A), (0xCC73, 0xAA81)] @
   [(0xCC74, 0xAA82), (0xCC75, 0xC3B2), (0xCC76, 0xAA83), (0xCC77, 0xAA84), (0xCC78, 0xAA85), (0xCC79, 0xAA86),
    (0xCC7A, 0xAA87), (0xCC7B, 0xAA88)] @
   [(0xCC7C, 0xAA89), (0xCC7D, 0xAA8A), (0xCC7E, 0xAA8B), (0xCC7F, 0xAA8C), (0xCC80, 0xAA8D), (0xCC81, 0xAA8E),
    (0xCC82, 0xAA8F), (0xCC83, 0xAA90)] @
   [(0xCC84, 0xAA91), (0xCC85, 0xAA92), (0xCC86, 0xAA93), (0xCC87, 0xAA94), (0xCC88, 0xAA95), (0xCC89, 0xAA96),
    (0xCC8A, 0xAA97), (0xCC8B, 0xAA98)] @
   [(0xCC8C, 0xAA99), (0xCC8D, 0xAA9A), (0xCC8E, 0xAA9B), (0xCC8F, 0xAA9C), (0xCC90, 0xAA9D), (0xCC91, 0xAA9E),
    (0xCC92, 0xAA9F), (0xCC93, 0xAAA0)] @
   [(0xCC94, 0xAB41), (0xCC95, 0xAB42), (0xCC96, 0xAB43), (0xCC97, 0xAB44), (0xCC98, 0xC3B3), (0xCC99, 0xC3B4),
    (0xCC9A, 0xAB45), (0xCC9B, 0xAB46)] @
   [(0xCC9C, 0xC3B5), (0xCC9D, 0xAB47), (0xCC9E, 0xAB48), (0xCC9F, 0xAB49), (0xCCA0, 0xC3B6), (0xCCA1, 0xAB4A),
    (0xCCA2, 0xAB4B), (0xCCA3, 0xAB4C)] @
   [(0xCCA4, 0xAB4D), (0xCCA5, 0xAB4E), (0xCCA6, 0xAB4F), (0xCCA7, 0xAB50), (0xCCA8, 0xC3B7), (0xCCA9, 0xC3B8),
    (0xCCAA, 0xAB51), (0xCCAB, 0xC3B9)] @
   [(0xCCAC, 0xC3BA), (0xCCAD, 0xC3BB), (0xCCAE, 0xAB52), (0xCCAF, 0xAB53), (0xCCB0, 0xAB54), (0xCCB1, 0xAB55),
    (0xCCB2, 0xAB56), (0xCCB3, 0xAB57)] @
   [(0xCCB4, 0xC3BC), (0xCCB5, 0xC3BD), (0xCCB6, 0xAB58), (0xCCB7, 0xAB59), (0xCCB8, 0xC3BE), (0xCCB9, 0xAB5A),
    (0xCCBA, 0xAB61), (0xCCBB, 0xAB62)] @
   [(0xCCBC, 0xC3BF), (0xCCBD, 0xAB63), (0xCCBE, 0xAB64), (0xCCBF, 0xAB65), (0xCCC0, 0xAB66), (0xCCC1, 0xAB67),
    (0xCCC2, 0xAB68), (0xCCC3, 0xAB69)] @
   [(0xCCC4, 0xC3C0), (0xCCC5, 0xC3C1), (0xCCC6, 0xAB6A), (0xCCC7, 0xC3C2), (0xCCC8, 0xAB6B), (0xCCC9, 0xC3C3),
    (0xCCCA, 0xAB6C), (0xCCCB, 0xAB6D)] @
   [(0xCCCC, 0xAB6E), (0xCCCD, 0xAB6F), (0xCCCE, 0xAB70), (0xCCCF, 0xAB71), (0xCCD0, 0xC3C4), (0xCCD1, 0xAB72),
    (0xCCD2, 0xAB73), (0xCCD3, 0xAB74)] @
   [(0xCCD4, 0xC3C5), (0xCCD5, 0xAB75), (0xCCD6, 0xAB76), (0xCCD7, 0xAB77), (0xCCD8, 0xAB78), (0xCCD9, 0xAB79),
    (0xCCDA, 0xAB7A), (0xCCDB, 0xAB81)] @
   [(0xCCDC, 0xAB82), (0xCCDD, 0xAB83), (0xCCDE, 0xAB84), (0xCCDF, 0xAB85), (0xCCE0, 0xAB86), (0xCCE1, 0xAB87),
    (0xCCE2, 0xAB88), (0xCCE3, 0xAB89)] @
   [(0xCCE4, 0xC3C6), (0xCCE5, 0xAB8A), (0xCCE6, 0xAB8B), (0xCCE7, 0xAB8C), (0xCCE8, 0xAB8D), (0xCCE9, 0xAB8E),
    (0xCCEA, 0xAB8F), (0xCCEB, 0xAB90)] @
   [(0xCCEC, 0xC3C7), (0xCCED, 0xAB91), (0xCCEE, 0xAB92), (0xCCEF, 0xAB93), (0xCCF0, 0xC3C8), (0xCCF1, 0xAB94),
    (0xCCF2, 0xAB95), (0xCCF3, 0xAB96)] @
   [(0xCCF4, 0xAB97), (0xCCF5, 0xAB98), (0xCCF6, 0xAB99), (0xCCF7, 0xAB9A), (0xCCF8, 0xAB9B), (0xCCF9, 0xAB9C),
    (0xCCFA, 0xAB9D), (0xCCFB, 0xAB9E)]"

definition rev_cp949_55 :: "(nat \<times> nat) list" where
  "rev_cp949_55 =
   [(0xCCFC, 0xAB9F), (0xCCFD, 0xABA0), (0xCCFE, 0xAC41), (0xCCFF, 0xAC42), (0xCD00, 0xAC43), (0xCD01, 0xC3C9),
    (0xCD02, 0xAC44), (0xCD03, 0xAC45)] @
   [(0xCD04, 0xAC46), (0xCD05, 0xAC47), (0xCD06, 0xAC48), (0xCD07, 0xAC49), (0xCD08, 0xC3CA), (0xCD09, 0xC3CB),
    (0xCD0A, 0xAC4A), (0xCD0B, 0xAC4B)] @
   [(0xCD0C, 0xC3CC), (0xCD0D, 0xAC4C), (0xCD0E, 0xAC4D), (0xCD0F, 0xAC4E), (0xCD10, 0xC3CD), (0xCD11, 0xAC4F),
    (0xCD12, 0xAC50), (0xCD13, 0xAC51)] @
   [(0xCD14, 0xAC52), (0xCD15, 0xAC53), (0xCD16, 0xAC54), (0xCD17, 0xAC55), (0xCD18, 0xC3CE), (0xCD19, 0xC3CF),
    (0xCD1A, 0xAC56), (0xCD1B, 0xC3D0)] @
   [(0xCD1C, 0xAC57), (0xCD1D, 0xC3D1), (0xCD1E, 0xAC58), (0xCD1F, 0xAC59), (0xCD20, 0xAC5A), (0xCD21, 0xAC61),
    (0xCD22, 0xAC62), (0xCD23, 0xAC63)] @
   [(0xCD24, 0xC3D2), (0xCD25, 0xAC64), (0xCD26, 0xAC65), (0xCD27, 0xAC66), (0xCD28, 0xC3D3), (0xCD29, 0xAC67),
    (0xCD2A, 0xAC68), (0xCD2B, 0xAC69)] @
   [(0xCD2C, 0xC3D4), (0xCD2D, 0xAC6A), (0xCD2E, 0xAC6B), (0xCD2F, 0xAC6C), (0xCD30, 0xAC6D), (0xCD31, 0xAC6E),
    (0xCD32, 0xAC6F), (0xCD33, 0xAC70)] @
   [(0xCD34, 0xAC71), (0xCD35, 0xAC72), (0xCD36, 0xAC73), (0xCD37, 0xAC74), (0xCD38, 0xAC75), (0xCD39, 0xC3D5),
    (0xCD3A, 0xAC76), (0xCD3B, 0xAC77)] @
   [(0xCD3C, 0xAC78), (0xCD3D, 0xAC79), (0xCD3E, 0xAC7A), (0xCD3F, 0xAC81), (0xCD40, 0xAC82), (0xCD41, 0xAC83),
    (0xCD42, 0xAC84), (0xCD43, 0xAC85)] @
   [(0xCD44, 0xAC86), (0xCD45, 0xAC87), (0xCD46, 0xAC88), (0xCD47, 0xAC89), (0xCD48, 0xAC8A), (0xCD49, 0xAC8B),
    (0xCD4A, 0xAC8C), (0xCD4B, 0xAC8D)] @
   [(0xCD4C, 0xAC8E), (0xCD4D, 0xAC8F), (0xCD4E, 0xAC90), (0xCD4F, 0xAC91), (0xCD50, 0xAC92), (0xCD51, 0xAC93),
    (0xCD52, 0xAC94), (0xCD53, 0xAC95)] @
   [(0xCD54, 0xAC96), (0xCD55, 0xAC97), (0xCD56, 0xAC98), (0xCD57, 0xAC99), (0xCD58, 0xAC9A), (0xCD59, 0xAC9B),
    (0xCD5A, 0xAC9C), (0xCD5B, 0xAC9D)] @
   [(0xCD5C, 0xC3D6), (0xCD5D, 0xAC9E), (0xCD5E, 0xAC9F), (0xCD5F, 0xACA0), (0xCD60, 0xC3D7), (0xCD61, 0xAD41),
    (0xCD62, 0xAD42), (0xCD63, 0xAD43)] @
   [(0xCD64, 0xC3D8), (0xCD65, 0xAD44), (0xCD66, 0xAD45), (0xCD67, 0xAD46), (0xCD68, 0xAD47), (0xCD69, 0xAD48),
    (0xCD6A, 0xAD49), (0xCD6B, 0xAD4A)] @
   [(0xCD6C, 0xC3D9), (0xCD6D, 0xC3DA), (0xCD6E, 0xAD4B), (0xCD6F, 0xC3DB), (0xCD70, 0xAD4C), (0xCD71, 0xC3DC),
    (0xCD72, 0xAD4D), (0xCD73, 0xAD4E)] @
   [(0xCD74, 0xAD4F), (0xCD75, 0xAD50), (0xCD76, 0xAD51), (0xCD77, 0xAD52), (0xCD78, 0xC3DD), (0xCD79, 0xAD53),
    (0xCD7A, 0xAD54), (0xCD7B, 0xAD55)] @
   [(0xCD7C, 0xAD56), (0xCD7D, 0xAD57), (0xCD7E, 0xAD58), (0xCD7F, 0xAD59), (0xCD80, 0xAD5A), (0xCD81, 0xAD61),
    (0xCD82, 0xAD62), (0xCD83, 0xAD63)] @
   [(0xCD84, 0xAD64), (0xCD85, 0xAD65), (0xCD86, 0xAD66), (0xCD87, 0xAD67), (0xCD88, 0xC3DE), (0xCD89, 0xAD68),
    (0xCD8A, 0xAD69), (0xCD8B, 0xAD6A)] @
   [(0xCD8C, 0xAD6B), (0xCD8D, 0xAD6C), (0xCD8E, 0xAD6D), (0xCD8F, 0xAD6E), (0xCD90, 0xAD6F), (0xCD91, 0xAD70),
    (0xCD92, 0xAD71), (0xCD93, 0xAD72)] @
   [(0xCD94, 0xC3DF), (0xCD95, 0xC3E0), (0xCD96, 0xAD73), (0xCD97, 0xAD74), (0xCD98, 0xC3E1), (0xCD99, 0xAD75),
    (0xCD9A, 0xAD76), (0xCD9B, 0xAD77)] @
   [(0xCD9C, 0xC3E2), (0xCD9D, 0xAD78), (0xCD9E, 0xAD79), (0xCD9F, 0xAD7A), (0xCDA0, 0xAD81), (0xCDA1, 0xAD82),
    (0xCDA2, 0xAD83), (0xCDA3, 0xAD84)] @
   [(0xCDA4, 0xC3E3), (0xCDA5, 0xC3E4), (0xCDA6, 0xAD85), (0xCDA7, 0xC3E5), (0xCDA8, 0xAD86), (0xCDA9, 0xC3E6),
    (0xCDAA, 0xAD87), (0xCDAB, 0xAD88)] @
   [(0xCDAC, 0xAD89), (0xCDAD, 0xAD8A), (0xCDAE, 0xAD8B), (0xCDAF, 0xAD8C), (0xCDB0, 0xC3E7), (0xCDB1, 0xAD8D),
    (0xCDB2, 0xAD8E), (0xCDB3, 0xAD8F)] @
   [(0xCDB4, 0xAD90), (0xCDB5, 0xAD91), (0xCDB6, 0xAD92), (0xCDB7, 0xAD93), (0xCDB8, 0xAD94), (0xCDB9, 0xAD95),
    (0xCDBA, 0xAD96), (0xCDBB, 0xAD97)] @
   [(0xCDBC, 0xAD98), (0xCDBD, 0xAD99), (0xCDBE, 0xAD9A), (0xCDBF, 0xAD9B), (0xCDC0, 0xAD9C), (0xCDC1, 0xAD9D),
    (0xCDC2, 0xAD9E), (0xCDC3, 0xAD9F)] @
   [(0xCDC4, 0xC3E8), (0xCDC5, 0xADA0), (0xCDC6, 0xAE41), (0xCDC7, 0xAE42), (0xCDC8, 0xAE43), (0xCDC9, 0xAE44),
    (0xCDCA, 0xAE45), (0xCDCB, 0xAE46)] @
   [(0xCDCC, 0xC3E9), (0xCDCD, 0xAE47), (0xCDCE, 0xAE48), (0xCDCF, 0xAE49), (0xCDD0, 0xC3EA), (0xCDD1, 0xAE4A),
    (0xCDD2, 0xAE4B), (0xCDD3, 0xAE4C)] @
   [(0xCDD4, 0xAE4D), (0xCDD5, 0xAE4E), (0xCDD6, 0xAE4F), (0xCDD7, 0xAE50), (0xCDD8, 0xAE51), (0xCDD9, 0xAE52),
    (0xCDDA, 0xAE53), (0xCDDB, 0xAE54)] @
   [(0xCDDC, 0xAE55), (0xCDDD, 0xAE56), (0xCDDE, 0xAE57), (0xCDDF, 0xAE58), (0xCDE0, 0xAE59), (0xCDE1, 0xAE5A),
    (0xCDE2, 0xAE61), (0xCDE3, 0xAE62)] @
   [(0xCDE4, 0xAE63), (0xCDE5, 0xAE64), (0xCDE6, 0xAE65), (0xCDE7, 0xAE66), (0xCDE8, 0xC3EB), (0xCDE9, 0xAE67),
    (0xCDEA, 0xAE68), (0xCDEB, 0xAE69)] @
   [(0xCDEC, 0xC3EC), (0xCDED, 0xAE6A), (0xCDEE, 0xAE6B), (0xCDEF, 0xAE6C), (0xCDF0, 0xC3ED), (0xCDF1, 0xAE6D),
    (0xCDF2, 0xAE6E), (0xCDF3, 0xAE6F)] @
   [(0xCDF4, 0xAE70), (0xCDF5, 0xAE71), (0xCDF6, 0xAE72), (0xCDF7, 0xAE73), (0xCDF8, 0xC3EE), (0xCDF9, 0xC3EF),
    (0xCDFA, 0xAE74), (0xCDFB, 0xC3F0)]"

definition rev_cp949_56 :: "(nat \<times> nat) list" where
  "rev_cp949_56 =
   [(0xCDFC, 0xAE75), (0xCDFD, 0xC3F1), (0xCDFE, 0xAE76), (0xCDFF, 0xAE77), (0xCE00, 0xAE78), (0xCE01, 0xAE79),
    (0xCE02, 0xAE7A), (0xCE03, 0xAE81)] @
   [(0xCE04, 0xC3F2), (0xCE05, 0xAE82), (0xCE06, 0xAE83), (0xCE07, 0xAE84), (0xCE08, 0xC3F3), (0xCE09, 0xAE85),
    (0xCE0A, 0xAE86), (0xCE0B, 0xAE87)] @
   [(0xCE0C, 0xC3F4), (0xCE0D, 0xAE88), (0xCE0E, 0xAE89), (0xCE0F, 0xAE8A), (0xCE10, 0xAE8B), (0xCE11, 0xAE8C),
    (0xCE12, 0xAE8D), (0xCE13, 0xAE8E)] @
   [(0xCE14, 0xC3F5), (0xCE15, 0xAE8F), (0xCE16, 0xAE90), (0xCE17, 0xAE91), (0xCE18, 0xAE92), (0xCE19, 0xC3F6),
    (0xCE1A, 0xAE93), (0xCE1B, 0xAE94)] @
   [(0xCE1C, 0xAE95), (0xCE1D, 0xAE96), (0xCE1E, 0xAE97), (0xCE1F, 0xAE98), (0xCE20, 0xC3F7), (0xCE21, 0xC3F8),
    (0xCE22, 0xAE99), (0xCE23, 0xAE9A)] @
   [(0xCE24, 0xC3F9), (0xCE25, 0xAE9B), (0xCE26, 0xAE9C), (0xCE27, 0xAE9D), (0xCE28, 0xC3FA), (0xCE29, 0xAE9E),
    (0xCE2A, 0xAE9F), (0xCE2B, 0xAEA0)] @
   [(0xCE2C, 0xAF41), (0xCE2D, 0xAF42), (0xCE2E, 0xAF43), (0xCE2F, 0xAF44), (0xCE30, 0xC3FB), (0xCE31, 0xC3FC),
    (0xCE32, 0xAF45), (0xCE33, 0xC3FD)] @
   [(0xCE34, 0xAF46), (0xCE35, 0xC3FE), (0xCE36, 0xAF47), (0xCE37, 0xAF48), (0xCE38, 0xAF49), (0xCE39, 0xAF4A),
    (0xCE3A, 0xAF4B), (0xCE3B, 0xAF4C)] @
   [(0xCE3C, 0xAF4D), (0xCE3D, 0xAF4E), (0xCE3E, 0xAF4F), (0xCE3F, 0xAF50), (0xCE40, 0xAF51), (0xCE41, 0xAF52),
    (0xCE42, 0xAF53), (0xCE43, 0xAF54)] @
   [(0xCE44, 0xAF55), (0xCE45, 0xAF56), (0xCE46, 0xAF57), (0xCE47, 0xAF58), (0xCE48, 0xAF59), (0xCE49, 0xAF5A),
    (0xCE4A, 0xAF61), (0xCE4B, 0xAF62)] @
   [(0xCE4C, 0xAF63), (0xCE4D, 0xAF64), (0xCE4E, 0xAF65), (0xCE4F, 0xAF66), (0xCE50, 0xAF67), (0xCE51, 0xAF68),
    (0xCE52, 0xAF69), (0xCE53, 0xAF6A)] @
   [(0xCE54, 0xAF6B), (0xCE55, 0xAF6C), (0xCE56, 0xAF6D), (0xCE57, 0xAF6E), (0xCE58, 0xC4A1), (0xCE59, 0xC4A2),
    (0xCE5A, 0xAF6F), (0xCE5B, 0xAF70)] @
   [(0xCE5C, 0xC4A3), (0xCE5D, 0xAF71), (0xCE5E, 0xAF72), (0xCE5F, 0xC4A4), (0xCE60, 0xC4A5), (0xCE61, 0xC4A6),
    (0xCE62, 0xAF73), (0xCE63, 0xAF74)] @
   [(0xCE64, 0xAF75), (0xCE65, 0xAF76), (0xCE66, 0xAF77), (0xCE67, 0xAF78), (0xCE68, 0xC4A7), (0xCE69, 0xC4A8),
    (0xCE6A, 0xAF79), (0xCE6B, 0xC4A9)] @
   [(0xCE6C, 0xAF7A), (0xCE6D, 0xC4AA), (0xCE6E, 0xAF81), (0xCE6F, 0xAF82), (0xCE70, 0xAF83), (0xCE71, 0xAF84),
    (0xCE72, 0xAF85), (0xCE73, 0xAF86)] @
   [(0xCE74, 0xC4AB), (0xCE75, 0xC4AC), (0xCE76, 0xAF87), (0xCE77, 0xAF88), (0xCE78, 0xC4AD), (0xCE79, 0xAF89),
    (0xCE7A, 0xAF8A), (0xCE7B, 0xAF8B)] @
   [(0xCE7C, 0xC4AE), (0xCE7D, 0xAF8C), (0xCE7E, 0xAF8D), (0xCE7F, 0xAF8E), (0xCE80, 0xAF8F), (0xCE81, 0xAF90),
    (0xCE82, 0xAF91), (0xCE83, 0xAF92)] @
   [(0xCE84, 0xC4AF), (0xCE85, 0xC4B0), (0xCE86, 0xAF93), (0xCE87, 0xC4B1), (0xCE88, 0xAF94), (0xCE89, 0xC4B2),
    (0xCE8A, 0xAF95), (0xCE8B, 0xAF96)] @
   [(0xCE8C, 0xAF97), (0xCE8D, 0xAF98), (0xCE8E, 0xAF99), (0xCE8F, 0xAF9A), (0xCE90, 0xC4B3), (0xCE91, 0xC4B4),
    (0xCE92, 0xAF9B), (0xCE93, 0xAF9C)] @
   [(0xCE94, 0xC4B5), (0xCE95, 0xAF9D), (0xCE96, 0xAF9E), (0xCE97, 0xAF9F), (0xCE98, 0xC4B6), (0xCE99, 0xAFA0),
    (0xCE9A, 0xB041), (0xCE9B, 0xB042)] @
   [(0xCE9C, 0xB043), (0xCE9D, 0xB044), (0xCE9E, 0xB045), (0xCE9F, 0xB046), (0xCEA0, 0xC4B7), (0xCEA1, 0xC4B8),
    (0xCEA2, 0xB047), (0xCEA3, 0xC4B9)] @
   [(0xCEA4, 0xC4BA), (0xCEA5, 0xC4BB), (0xCEA6, 0xB048), (0xCEA7, 0xB049), (0xCEA8, 0xB04A), (0xCEA9, 0xB04B),
    (0xCEAA, 0xB04C), (0xCEAB, 0xB04D)] @
   [(0xCEAC, 0xC4BC), (0xCEAD, 0xC4BD), (0xCEAE, 0xB04E), (0xCEAF, 0xB04F), (0xCEB0, 0xB050), (0xCEB1, 0xB051),
    (0xCEB2, 0xB052), (0xCEB3, 0xB053)] @
   [(0xCEB4, 0xB054), (0xCEB5, 0xB055), (0xCEB6, 0xB056), (0xCEB7, 0xB057), (0xCEB8, 0xB058), (0xCEB9, 0xB059),
    (0xCEBA, 0xB05A), (0xCEBB, 0xB061)] @
   [(0xCEBC, 0xB062), (0xCEBD, 0xB063), (0xCEBE, 0xB064), (0xCEBF, 0xB065), (0xCEC0, 0xB066), (0xCEC1, 0xC4BE),
    (0xCEC2, 0xB067), (0xCEC3, 0xB068)] @
   [(0xCEC4, 0xB069), (0xCEC5, 0xB06A), (0xCEC6, 0xB06B), (0xCEC7, 0xB06C), (0xCEC8, 0xB06D), (0xCEC9, 0xB06E),
    (0xCECA, 0xB06F), (0xCECB, 0xB070)] @
   [(0xCECC, 0xB071), (0xCECD, 0xB072), (0xCECE, 0xB073), (0xCECF, 0xB074), (0xCED0, 0xB075), (0xCED1, 0xB076),
    (0xCED2, 0xB077), (0xCED3, 0xB078)] @
   [(0xCED4, 0xB079), (0xCED5, 0xB07A), (0xCED6, 0xB081), (0xCED7, 0xB082), (0xCED8, 0xB083), (0xCED9, 0xB084),
    (0xCEDA, 0xB085), (0xCEDB, 0xB086)] @
   [(0xCEDC, 0xB087), (0xCEDD, 0xB088), (0xCEDE, 0xB089), (0xCEDF, 0xB08A), (0xCEE0, 0xB08B), (0xCEE1, 0xB08C),
    (0xCEE2, 0xB08D), (0xCEE3, 0xB08E)] @
   [(0xCEE4, 0xC4BF), (0xCEE5, 0xC4C0), (0xCEE6, 0xB08F), (0xCEE7, 0xB090), (0xCEE8, 0xC4C1), (0xCEE9, 0xB091),
    (0xCEEA, 0xB092), (0xCEEB, 0xC4C2)] @
   [(0xCEEC, 0xC4C3), (0xCEED, 0xB093), (0xCEEE, 0xB094), (0xCEEF, 0xB095), (0xCEF0, 0xB096), (0xCEF1, 0xB097),
    (0xCEF2, 0xB098), (0xCEF3, 0xB099)] @
   [(0xCEF4, 0xC4C4), (0xCEF5, 0xC4C5), (0xCEF6, 0xB09A), (0xCEF7, 0xC4C6), (0xCEF8, 0xC4C7), (0xCEF9, 0xC4C8),
    (0xCEFA, 0xB09B), (0xCEFB, 0xB09C)]"

definition rev_cp949_57 :: "(nat \<times> nat) list" where
  "rev_cp949_57 =
   [(0xCEFC, 0xB09D), (0xCEFD, 0xB09E), (0xCEFE, 0xB09F), (0xCEFF, 0xB0A0), (0xCF00, 0xC4C9), (0xCF01, 0xC4CA),
    (0xCF02, 0xB141), (0xCF03, 0xB142)] @
   [(0xCF04, 0xC4CB), (0xCF05, 0xB143), (0xCF06, 0xB144), (0xCF07, 0xB145), (0xCF08, 0xC4CC), (0xCF09, 0xB146),
    (0xCF0A, 0xB147), (0xCF0B, 0xB148)] @
   [(0xCF0C, 0xB149), (0xCF0D, 0xB14A), (0xCF0E, 0xB14B), (0xCF0F, 0xB14C), (0xCF10, 0xC4CD), (0xCF11, 0xC4CE),
    (0xCF12, 0xB14D), (0xCF13, 0xC4CF)] @
   [(0xCF14, 0xB14E), (0xCF15, 0xC4D0), (0xCF16, 0xB14F), (0xCF17, 0xB150), (0xCF18, 0xB151), (0xCF19, 0xB152),
    (0xCF1A, 0xB153), (0xCF1B, 0xB154)] @
   [(0xCF1C, 0xC4D1), (0xCF1D, 0xB155), (0xCF1E, 0xB156), (0xCF1F, 0xB157), (0xCF20, 0xC4D2), (0xCF21, 0xB158),
    (0xCF22, 0xB159), (0xCF23, 0xB15A)] @
   [(0xCF24, 0xC4D3), (0xCF25, 0xB161), (0xCF26, 0xB162), (0xCF27, 0xB163), (0xCF28, 0xB164), (0xCF29, 0xB165),
    (0xCF2A, 0xB166), (0xCF2B, 0xB167)] @
   [(0xCF2C, 0xC4D4), (0xCF2D, 0xC4D5), (0xCF2E, 0xB168), (0xCF2F, 0xC4D6), (0xCF30, 0xC4D7), (0xCF31, 0xC4D8),
    (0xCF32, 0xB169), (0xCF33, 0xB16A)] @
   [(0xCF34, 0xB16B), (0xCF35, 0xB16C), (0xCF36, 0xB16D), (0xCF37, 0xB16E), (0xCF38, 0xC4D9), (0xCF39, 0xB16F),
    (0xCF3A, 0xB170), (0xCF3B, 0xB171)] @
   [(0xCF3C, 0xB172), (0xCF3D, 0xB173), (0xCF3E, 0xB174), (0xCF3F, 0xB175), (0xCF40, 0xB176), (0xCF41, 0xB177),
    (0xCF42, 0xB178), (0xCF43, 0xB179)] @
   [(0xCF44, 0xB17A), (0xCF45, 0xB181), (0xCF46, 0xB182), (0xCF47, 0xB183), (0xCF48, 0xB184), (0xCF49, 0xB185),
    (0xCF4A, 0xB186), (0xCF4B, 0xB187)] @
   [(0xCF4C, 0xB188), (0xCF4D, 0xB189), (0xCF4E, 0xB18A), (0xCF4F, 0xB18B), (0xCF50, 0xB18C), (0xCF51, 0xB18D),
    (0xCF52, 0xB18E), (0xCF53, 0xB18F)] @
   [(0xCF54, 0xC4DA), (0xCF55, 0xC4DB), (0xCF56, 0xB190), (0xCF57, 0xB191), (0xCF58, 0xC4DC), (0xCF59, 0xB192),
    (0xCF5A, 0xB193), (0xCF5B, 0xB194)] @
   [(0xCF5C, 0xC4DD), (0xCF5D, 0xB195), (0xCF5E, 0xB196), (0xCF5F, 0xB197), (0xCF60, 0xB198), (0xCF61, 0xB199),
    (0xCF62, 0xB19A), (0xCF63, 0xB19B)] @
   [(0xCF64, 0xC4DE), (0xCF65, 0xC4DF), (0xCF66, 0xB19C), (0xCF67, 0xC4E0), (0xCF68, 0xB19D), (0xCF69, 0xC4E1),
    (0xCF6A, 0xB19E), (0xCF6B, 0xB19F)] @
   [(0xCF6C, 0xB1A0), (0xCF6D, 0xB241), (0xCF6E, 0xB242), (0xCF6F, 0xB243), (0xCF70, 0xC4E2), (0xCF71, 0xC4E3),
    (0xCF72, 0xB244), (0xCF73, 0xB245)] @
   [(0xCF74, 0xC4E4), (0xCF75, 0xB246), (0xCF76, 0xB247), (0xCF77, 0xB248), (0xCF78, 0xC4E5), (0xCF79, 0xB249),
    (0xCF7A, 0xB24A), (0xCF7B, 0xB24B)] @
   [(0xCF7C, 0xB24C), (0xCF7D, 0xB24D), (0xCF7E, 0xB24E), (0xCF7F, 0xB24F), (0xCF80, 0xC4E6), (0xCF81, 0xB250),
    (0xCF82, 0xB251), (0xCF83, 0xB252)] @
   [(0xCF84, 0xB253), (0xCF85, 0xC4E7), (0xCF86, 0xB254), (0xCF87, 0xB255), (0xCF88, 0xB256), (0xCF89, 0xB257),
    (0xCF8A, 0xB258), (0xCF8B, 0xB259)] @
   [(0xCF8C, 0xC4E8), (0xCF8D, 0xB25A), (0xCF8E, 0xB261), (0xCF8F, 0xB262), (0xCF90, 0xB263), (0xCF91, 0xB264),
    (0xCF92, 0xB265), (0xCF93, 0xB266)] @
   [(0xCF94, 0xB267), (0xCF95, 0xB268), (0xCF96, 0xB269), (0xCF97, 0xB26A), (0xCF98, 0xB26B), (0xCF99, 0xB26C),
    (0xCF9A, 0xB26D), (0xCF9B, 0xB26E)] @
   [(0xCF9C, 0xB26F), (0xCF9D, 0xB270), (0xCF9E, 0xB271), (0xCF9F, 0xB272), (0xCFA0, 0xB273), (0xCFA1, 0xC4E9),
    (0xCFA2, 0xB274), (0xCFA3, 0xB275)] @
   [(0xCFA4, 0xB276), (0xCFA5, 0xB277), (0xCFA6, 0xB278), (0xCFA7, 0xB279), (0xCFA8, 0xC4EA), (0xCFA9, 0xB27A),
    (0xCFAA, 0xB281), (0xCFAB, 0xB282)] @
   [(0xCFAC, 0xB283), (0xCFAD, 0xB284), (0xCFAE, 0xB285), (0xCFAF, 0xB286), (0xCFB0, 0xC4EB), (0xCFB1, 0xB287),
    (0xCFB2, 0xB288), (0xCFB3, 0xB289)] @
   [(0xCFB4, 0xB28A), (0xCFB5, 0xB28B), (0xCFB6, 0xB28C), (0xCFB7, 0xB28D), (0xCFB8, 0xB28E), (0xCFB9, 0xB28F),
    (0xCFBA, 0xB290), (0xCFBB, 0xB291)] @
   [(0xCFBC, 0xB292), (0xCFBD, 0xB293), (0xCFBE, 0xB294), (0xCFBF, 0xB295), (0xCFC0, 0xB296), (0xCFC1, 0xB297),
    (0xCFC2, 0xB298), (0xCFC3, 0xB299)] @
   [(0xCFC4, 0xC4EC), (0xCFC5, 0xB29A), (0xCFC6, 0xB29B), (0xCFC7, 0xB29C), (0xCFC8, 0xB29D), (0xCFC9, 0xB29E),
    (0xCFCA, 0xB29F), (0xCFCB, 0xB2A0)] @
   [(0xCFCC, 0xB341), (0xCFCD, 0xB342), (0xCFCE, 0xB343), (0xCFCF, 0xB344), (0xCFD0, 0xB345), (0xCFD1, 0xB346),
    (0xCFD2, 0xB347), (0xCFD3, 0xB348)] @
   [(0xCFD4, 0xB349), (0xCFD5, 0xB34A), (0xCFD6, 0xB34B), (0xCFD7, 0xB34C), (0xCFD8, 0xB34D), (0xCFD9, 0xB34E),
    (0xCFDA, 0xB34F), (0xCFDB, 0xB350)] @
   [(0xCFDC, 0xB351), (0xCFDD, 0xB352), (0xCFDE, 0xB353), (0xCFDF, 0xB354), (0xCFE0, 0xC4ED), (0xCFE1, 0xC4EE),
    (0xCFE2, 0xB355), (0xCFE3, 0xB356)] @
   [(0xCFE4, 0xC4EF), (0xCFE5, 0xB357), (0xCFE6, 0xB358), (0xCFE7, 0xB359), (0xCFE8, 0xC4F0), (0xCFE9, 0xB35A),
    (0xCFEA, 0xB361), (0xCFEB, 0xB362)] @
   [(0xCFEC, 0xB363), (0xCFED, 0xB364), (0xCFEE, 0xB365), (0xCFEF, 0xB366), (0xCFF0, 0xC4F1), (0xCFF1, 0xC4F2),
    (0xCFF2, 0xB367), (0xCFF3, 0xC4F3)] @
   [(0xCFF4, 0xB368), (0xCFF5, 0xC4F4), (0xCFF6, 0xB369), (0xCFF7, 0xB36A), (0xCFF8, 0xB36B), (0xCFF9, 0xB36C),
    (0xCFFA, 0xB36D), (0xCFFB, 0xB36E)]"

definition rev_cp949_58 :: "(nat \<times> nat) list" where
  "rev_cp949_58 =
   [(0xCFFC, 0xC4F5), (0xCFFD, 0xB36F), (0xCFFE, 0xB370), (0xCFFF, 0xB371), (0xD000, 0xC4F6), (0xD001, 0xB372),
    (0xD002, 0xB373), (0xD003, 0xB374)] @
   [(0xD004, 0xC4F7), (0xD005, 0xB375), (0xD006, 0xB376), (0xD007, 0xB377), (0xD008, 0xB378), (0xD009, 0xB379),
    (0xD00A, 0xB37A), (0xD00B, 0xB381)] @
   [(0xD00C, 0xB382), (0xD00D, 0xB383), (0xD00E, 0xB384), (0xD00F, 0xB385), (0xD010, 0xB386), (0xD011, 0xC4F8),
    (0xD012, 0xB387), (0xD013, 0xB388)] @
   [(0xD014, 0xB389), (0xD015, 0xB38A), (0xD016, 0xB38B), (0xD017, 0xB38C), (0xD018, 0xC4F9), (0xD019, 0xB38D),
    (0xD01A, 0xB38E), (0xD01B, 0xB38F)] @
   [(0xD01C, 0xB390), (0xD01D, 0xB391), (0xD01E, 0xB392), (0xD01F, 0xB393), (0xD020, 0xB394), (0xD021, 0xB395),
    (0xD022, 0xB396), (0xD023, 0xB397)] @
   [(0xD024, 0xB398), (0xD025, 0xB399), (0xD026, 0xB39A), (0xD027, 0xB39B), (0xD028, 0xB39C), (0xD029, 0xB39D),
    (0xD02A, 0xB39E), (0xD02B, 0xB39F)] @
   [(0xD02C, 0xB3A0), (0xD02D, 0xC4FA), (0xD02E, 0xB441), (0xD02F, 0xB442), (0xD030, 0xB443), (0xD031, 0xB444),
    (0xD032, 0xB445), (0xD033, 0xB446)] @
   [(0xD034, 0xC4FB), (0xD035, 0xC4FC), (0xD036, 0xB447), (0xD037, 0xB448), (0xD038, 0xC4FD), (0xD039, 0xB449),
    (0xD03A, 0xB44A), (0xD03B, 0xB44B)] @
   [(0xD03C, 0xC4FE), (0xD03D, 0xB44C), (0xD03E, 0xB44D), (0xD03F, 0xB44E), (0xD040, 0xB44F), (0xD041, 0xB450),
    (0xD042, 0xB451), (0xD043, 0xB452)] @
   [(0xD044, 0xC5A1), (0xD045, 0xC5A2), (0xD046, 0xB453), (0xD047, 0xC5A3), (0xD048, 0xB454), (0xD049, 0xC5A4),
    (0xD04A, 0xB455), (0xD04B, 0xB456)] @
   [(0xD04C, 0xB457), (0xD04D, 0xB458), (0xD04E, 0xB459), (0xD04F, 0xB45A), (0xD050, 0xC5A5), (0xD051, 0xB461),
    (0xD052, 0xB462), (0xD053, 0xB463)] @
   [(0xD054, 0xC5A6), (0xD055, 0xB464), (0xD056, 0xB465), (0xD057, 0xB466), (0xD058, 0xC5A7), (0xD059, 0xB467),
    (0xD05A, 0xB468), (0xD05B, 0xB469)] @
   [(0xD05C, 0xB46A), (0xD05D, 0xB46B), (0xD05E, 0xB46C), (0xD05F, 0xB46D), (0xD060, 0xC5A8), (0xD061, 0xB46E),
    (0xD062, 0xB46F), (0xD063, 0xB470)] @
   [(0xD064, 0xB471), (0xD065, 0xB472), (0xD066, 0xB473), (0xD067, 0xB474), (0xD068, 0xB475), (0xD069, 0xB476),
    (0xD06A, 0xB477), (0xD06B, 0xB478)] @
   [(0xD06C, 0xC5A9), (0xD06D, 0xC5AA), (0xD06E, 0xB479), (0xD06F, 0xB47A), (0xD070, 0xC5AB), (0xD071, 0xB481),
    (0xD072, 0xB482), (0xD073, 0xB483)] @
   [(0xD074, 0xC5AC), (0xD075, 0xB484), (0xD076, 0xB485), (0xD077, 0xB486), (0xD078, 0xB487), (0xD079, 0xB488),
    (0xD07A, 0xB489), (0xD07B, 0xB48A)] @
   [(0xD07C, 0xC5AD), (0xD07D, 0xC5AE), (0xD07E, 0xB48B), (0xD07F, 0xB48C), (0xD080, 0xB48D), (0xD081, 0xC5AF),
    (0xD082, 0xB48E), (0xD083, 0xB48F)] @
   [(0xD084, 0xB490), (0xD085, 0xB491), (0xD086, 0xB492), (0xD087, 0xB493), (0xD088, 0xB494), (0xD089, 0xB495),
    (0xD08A, 0xB496), (0xD08B, 0xB497)] @
   [(0xD08C, 0xB498), (0xD08D, 0xB499), (0xD08E, 0xB49A), (0xD08F, 0xB49B), (0xD090, 0xB49C), (0xD091, 0xB49D),
    (0xD092, 0xB49E), (0xD093, 0xB49F)] @
   [(0xD094, 0xB4A0), (0xD095, 0xB541), (0xD096, 0xB542), (0xD097, 0xB543), (0xD098, 0xB544), (0xD099, 0xB545),
    (0xD09A, 0xB546), (0xD09B, 0xB547)] @
   [(0xD09C, 0xB548), (0xD09D, 0xB549), (0xD09E, 0xB54A), (0xD09F, 0xB54B), (0xD0A0, 0xB54C), (0xD0A1, 0xB54D),
    (0xD0A2, 0xB54E), (0xD0A3, 0xB54F)] @
   [(0xD0A4, 0xC5B0), (0xD0A5, 0xC5B1), (0xD0A6, 0xB550), (0xD0A7, 0xB551), (0xD0A8, 0xC5B2), (0xD0A9, 0xB552),
    (0xD0AA, 0xB553), (0xD0AB, 0xB554)] @
   [(0xD0AC, 0xC5B3), (0xD0AD, 0xB555), (0xD0AE, 0xB556), (0xD0AF, 0xB557), (0xD0B0, 0xB558), (0xD0B1, 0xB559),
    (0xD0B2, 0xB55A), (0xD0B3, 0xB561)] @
   [(0xD0B4, 0xC5B4), (0xD0B5, 0xC5B5), (0xD0B6, 0xB562), (0xD0B7, 0xC5B6), (0xD0B8, 0xB563), (0xD0B9, 0xC5B7),
    (0xD0BA, 0xB564), (0xD0BB, 0xB565)] @
   [(0xD0BC, 0xB566), (0xD0BD, 0xB567), (0xD0BE, 0xB568), (0xD0BF, 0xB569), (0xD0C0, 0xC5B8), (0xD0C1, 0xC5B9),
    (0xD0C2, 0xB56A), (0xD0C3, 0xB56B)] @
   [(0xD0C4, 0xC5BA), (0xD0C5, 0xB56C), (0xD0C6, 0xB56D), (0xD0C7, 0xB56E), (0xD0C8, 0xC5BB), (0xD0C9, 0xC5BC),
    (0xD0CA, 0xB56F), (0xD0CB, 0xB570)] @
   [(0xD0CC, 0xB571), (0xD0CD, 0xB572), (0xD0CE, 0xB573), (0xD0CF, 0xB574), (0xD0D0, 0xC5BD), (0xD0D1, 0xC5BE),
    (0xD0D2, 0xB575), (0xD0D3, 0xC5BF)] @
   [(0xD0D4, 0xC5C0), (0xD0D5, 0xC5C1), (0xD0D6, 0xB576), (0xD0D7, 0xB577), (0xD0D8, 0xB578), (0xD0D9, 0xB579),
    (0xD0DA, 0xB57A), (0xD0DB, 0xB581)] @
   [(0xD0DC, 0xC5C2), (0xD0DD, 0xC5C3), (0xD0DE, 0xB582), (0xD0DF, 0xB583), (0xD0E0, 0xC5C4), (0xD0E1, 0xB584),
    (0xD0E2, 0xB585), (0xD0E3, 0xB586)] @
   [(0xD0E4, 0xC5C5), (0xD0E5, 0xB587), (0xD0E6, 0xB588), (0xD0E7, 0xB589), (0xD0E8, 0xB58A), (0xD0E9, 0xB58B),
    (0xD0EA, 0xB58C), (0xD0EB, 0xB58D)] @
   [(0xD0EC, 0xC5C6), (0xD0ED, 0xC5C7), (0xD0EE, 0xB58E), (0xD0EF, 0xC5C8), (0xD0F0, 0xC5C9), (0xD0F1, 0xC5CA),
    (0xD0F2, 0xB58F), (0xD0F3, 0xB590)] @
   [(0xD0F4, 0xB591), (0xD0F5, 0xB592), (0xD0F6, 0xB593), (0xD0F7, 0xB594), (0xD0F8, 0xC5CB), (0xD0F9, 0xB595),
    (0xD0FA, 0xB596), (0xD0FB, 0xB597)]"

definition rev_cp949_59 :: "(nat \<times> nat) list" where
  "rev_cp949_59 =
   [(0xD0FC, 0xB598), (0xD0FD, 0xB599), (0xD0FE, 0xB59A), (0xD0FF, 0xB59B), (0xD100, 0xB59C), (0xD101, 0xB59D),
    (0xD102, 0xB59E), (0xD103, 0xB59F)] @
   [(0xD104, 0xB5A0), (0xD105, 0xB641), (0xD106, 0xB642), (0xD107, 0xB643), (0xD108, 0xB644), (0xD109, 0xB645),
    (0xD10A, 0xB646), (0xD10B, 0xB647)] @
   [(0xD10C, 0xB648), (0xD10D, 0xC5CC), (0xD10E, 0xB649), (0xD10F, 0xB64A), (0xD110, 0xB64B), (0xD111, 0xB64C),
    (0xD112, 0xB64D), (0xD113, 0xB64E)] @
   [(0xD114, 0xB64F), (0xD115, 0xB650), (0xD116, 0xB651), (0xD117, 0xB652), (0xD118, 0xB653), (0xD119, 0xB654),
    (0xD11A, 0xB655), (0xD11B, 0xB656)] @
   [(0xD11C, 0xB657), (0xD11D, 0xB658), (0xD11E, 0xB659), (0xD11F, 0xB65A), (0xD120, 0xB661), (0xD121, 0xB662),
    (0xD122, 0xB663), (0xD123, 0xB664)] @
   [(0xD124, 0xB665), (0xD125, 0xB666), (0xD126, 0xB667), (0xD127, 0xB668), (0xD128, 0xB669), (0xD129, 0xB66A),
    (0xD12A, 0xB66B), (0xD12B, 0xB66C)] @
   [(0xD12C, 0xB66D), (0xD12D, 0xB66E), (0xD12E, 0xB66F), (0xD12F, 0xB670), (0xD130, 0xC5CD), (0xD131, 0xC5CE),
    (0xD132, 0xB671), (0xD133, 0xB672)] @
   [(0xD134, 0xC5CF), (0xD135, 0xB673), (0xD136, 0xB674), (0xD137, 0xB675), (0xD138, 0xC5D0), (0xD139, 0xB676),
    (0xD13A, 0xC5D1), (0xD13B, 0xB677)] @
   [(0xD13C, 0xB678), (0xD13D, 0xB679), (0xD13E, 0xB67A), (0xD13F, 0xB681), (0xD140, 0xC5D2), (0xD141, 0xC5D3),
    (0xD142, 0xB682), (0xD143, 0xC5D4)] @
   [(0xD144, 0xC5D5), (0xD145, 0xC5D6), (0xD146, 0xB683), (0xD147, 0xB684), (0xD148, 0xB685), (0xD149, 0xB686),
    (0xD14A, 0xB687), (0xD14B, 0xB688)] @
   [(0xD14C, 0xC5D7), (0xD14D, 0xC5D8), (0xD14E, 0xB689), (0xD14F, 0xB68A), (0xD150, 0xC5D9), (0xD151, 0xB68B),
    (0xD152, 0xB68C), (0xD153, 0xB68D)] @
   [(0xD154, 0xC5DA), (0xD155, 0xB68E), (0xD156, 0xB68F), (0xD157, 0xB690), (0xD158, 0xB691), (0xD159, 0xB692),
    (0xD15A, 0xB693), (0xD15B, 0xB694)] @
   [(0xD15C, 0xC5DB), (0xD15D, 0xC5DC), (0xD15E, 0xB695), (0xD15F, 0xC5DD), (0xD160, 0xB696), (0xD161, 0xC5DE),
    (0xD162, 0xB697), (0xD163, 0xB698)] @
   [(0xD164, 0xB699), (0xD165, 0xB69A), (0xD166, 0xB69B), (0xD167, 0xB69C), (0xD168, 0xC5DF), (0xD169, 0xB69D),
    (0xD16A, 0xB69E), (0xD16B, 0xB69F)] @
   [(0xD16C, 0xC5E0), (0xD16D, 0xB6A0), (0xD16E, 0xB741), (0xD16F, 0xB742), (0xD170, 0xB743), (0xD171, 0xB744),
    (0xD172, 0xB745), (0xD173, 0xB746)] @
   [(0xD174, 0xB747), (0xD175, 0xB748), (0xD176, 0xB749), (0xD177, 0xB74A), (0xD178, 0xB74B), (0xD179, 0xB74C),
    (0xD17A, 0xB74D), (0xD17B, 0xB74E)] @
   [(0xD17C, 0xC5E1), (0xD17D, 0xB74F), (0xD17E, 0xB750), (0xD17F, 0xB751), (0xD180, 0xB752), (0xD181, 0xB753),
    (0xD182, 0xB754), (0xD183, 0xB755)] @
   [(0xD184, 0xC5E2), (0xD185, 0xB756), (0xD186, 0xB757), (0xD187, 0xB758), (0xD188, 0xC5E3), (0xD189, 0xB759),
    (0xD18A, 0xB75A), (0xD18B, 0xB761)] @
   [(0xD18C, 0xB762), (0xD18D, 0xB763), (0xD18E, 0xB764), (0xD18F, 0xB765), (0xD190, 0xB766), (0xD191, 0xB767),
    (0xD192, 0xB768), (0xD193, 0xB769)] @
   [(0xD194, 0xB76A), (0xD195, 0xB76B), (0xD196, 0xB76C), (0xD197, 0xB76D), (0xD198, 0xB76E), (0xD199, 0xB76F),
    (0xD19A, 0xB770), (0xD19B, 0xB771)] @
   [(0xD19C, 0xB772), (0xD19D, 0xB773), (0xD19E, 0xB774), (0xD19F, 0xB775), (0xD1A0, 0xC5E4), (0xD1A1, 0xC5E5),
    (0xD1A2, 0xB776), (0xD1A3, 0xB777)] @
   [(0xD1A4, 0xC5E6), (0xD1A5, 0xB778), (0xD1A6, 0xB779), (0xD1A7, 0xB77A), (0xD1A8, 0xC5E7), (0xD1A9, 0xB781),
    (0xD1AA, 0xB782), (0xD1AB, 0xB783)] @
   [(0xD1AC, 0xB784), (0xD1AD, 0xB785), (0xD1AE, 0xB786), (0xD1AF, 0xB787), (0xD1B0, 0xC5E8), (0xD1B1, 0xC5E9),
    (0xD1B2, 0xB788), (0xD1B3, 0xC5EA)] @
   [(0xD1B4, 0xB789), (0xD1B5, 0xC5EB), (0xD1B6, 0xB78A), (0xD1B7, 0xB78B), (0xD1B8, 0xB78C), (0xD1B9, 0xB78D),
    (0xD1BA, 0xC5EC), (0xD1BB, 0xB78E)] @
   [(0xD1BC, 0xC5ED), (0xD1BD, 0xB78F), (0xD1BE, 0xB790), (0xD1BF, 0xB791), (0xD1C0, 0xC5EE), (0xD1C1, 0xB792),
    (0xD1C2, 0xB793), (0xD1C3, 0xB794)] @
   [(0xD1C4, 0xB795), (0xD1C5, 0xB796), (0xD1C6, 0xB797), (0xD1C7, 0xB798), (0xD1C8, 0xB799), (0xD1C9, 0xB79A),
    (0xD1CA, 0xB79B), (0xD1CB, 0xB79C)] @
   [(0xD1CC, 0xB79D), (0xD1CD, 0xB79E), (0xD1CE, 0xB79F), (0xD1CF, 0xB7A0), (0xD1D0, 0xB841), (0xD1D1, 0xB842),
    (0xD1D2, 0xB843), (0xD1D3, 0xB844)] @
   [(0xD1D4, 0xB845), (0xD1D5, 0xB846), (0xD1D6, 0xB847), (0xD1D7, 0xB848), (0xD1D8, 0xC5EF), (0xD1D9, 0xB849),
    (0xD1DA, 0xB84A), (0xD1DB, 0xB84B)] @
   [(0xD1DC, 0xB84C), (0xD1DD, 0xB84D), (0xD1DE, 0xB84E), (0xD1DF, 0xB84F), (0xD1E0, 0xB850), (0xD1E1, 0xB851),
    (0xD1E2, 0xB852), (0xD1E3, 0xB853)] @
   [(0xD1E4, 0xB854), (0xD1E5, 0xB855), (0xD1E6, 0xB856), (0xD1E7, 0xB857), (0xD1E8, 0xB858), (0xD1E9, 0xB859),
    (0xD1EA, 0xB85A), (0xD1EB, 0xB861)] @
   [(0xD1EC, 0xB862), (0xD1ED, 0xB863), (0xD1EE, 0xB864), (0xD1EF, 0xB865), (0xD1F0, 0xB866), (0xD1F1, 0xB867),
    (0xD1F2, 0xB868), (0xD1F3, 0xB869)] @
   [(0xD1F4, 0xC5F0), (0xD1F5, 0xB86A), (0xD1F6, 0xB86B), (0xD1F7, 0xB86C), (0xD1F8, 0xC5F1), (0xD1F9, 0xB86D),
    (0xD1FA, 0xB86E), (0xD1FB, 0xB86F)]"

definition rev_cp949_60 :: "(nat \<times> nat) list" where
  "rev_cp949_60 =
   [(0xD1FC, 0xB870), (0xD1FD, 0xB871), (0xD1FE, 0xB872), (0xD1FF, 0xB873), (0xD200, 0xB874), (0xD201, 0xB875),
    (0xD202, 0xB876), (0xD203, 0xB877)] @
   [(0xD204, 0xB878), (0xD205, 0xB879), (0xD206, 0xB87A), (0xD207, 0xC5F2), (0xD208, 0xB881), (0xD209, 0xC5F3),
    (0xD20A, 0xB882), (0xD20B, 0xB883)] @
   [(0xD20C, 0xB884), (0xD20D, 0xB885), (0xD20E, 0xB886), (0xD20F, 0xB887), (0xD210, 0xC5F4), (0xD211, 0xB888),
    (0xD212, 0xB889), (0xD213, 0xB88A)] @
   [(0xD214, 0xB88B), (0xD215, 0xB88C), (0xD216, 0xB88D), (0xD217, 0xB88E), (0xD218, 0xB88F), (0xD219, 0xB890),
    (0xD21A, 0xB891), (0xD21B, 0xB892)] @
   [(0xD21C, 0xB893), (0xD21D, 0xB894), (0xD21E, 0xB895), (0xD21F, 0xB896), (0xD220, 0xB897), (0xD221, 0xB898),
    (0xD222, 0xB899), (0xD223, 0xB89A)] @
   [(0xD224, 0xB89B), (0xD225, 0xB89C), (0xD226, 0xB89D), (0xD227, 0xB89E), (0xD228, 0xB89F), (0xD229, 0xB8A0),
    (0xD22A, 0xB941), (0xD22B, 0xB942)] @
   [(0xD22C, 0xC5F5), (0xD22D, 0xC5F6), (0xD22E, 0xB943), (0xD22F, 0xB944), (0xD230, 0xC5F7), (0xD231, 0xB945),
    (0xD232, 0xB946), (0xD233, 0xB947)] @
   [(0xD234, 0xC5F8), (0xD235, 0xB948), (0xD236, 0xB949), (0xD237, 0xB94A), (0xD238, 0xB94B), (0xD239, 0xB94C),
    (0xD23A, 0xB94D), (0xD23B, 0xB94E)] @
   [(0xD23C, 0xC5F9), (0xD23D, 0xC5FA), (0xD23E, 0xB94F), (0xD23F, 0xC5FB), (0xD240, 0xB950), (0xD241, 0xC5FC),
    (0xD242, 0xB951), (0xD243, 0xB952)] @
   [(0xD244, 0xB953), (0xD245, 0xB954), (0xD246, 0xB955), (0xD247, 0xB956), (0xD248, 0xC5FD), (0xD249, 0xB957),
    (0xD24A, 0xB958), (0xD24B, 0xB959)] @
   [(0xD24C, 0xB95A), (0xD24D, 0xB961), (0xD24E, 0xB962), (0xD24F, 0xB963), (0xD250, 0xB964), (0xD251, 0xB965),
    (0xD252, 0xB966), (0xD253, 0xB967)] @
   [(0xD254, 0xB968), (0xD255, 0xB969), (0xD256, 0xB96A), (0xD257, 0xB96B), (0xD258, 0xB96C), (0xD259, 0xB96D),
    (0xD25A, 0xB96E), (0xD25B, 0xB96F)] @
   [(0xD25C, 0xC5FE), (0xD25D, 0xB970), (0xD25E, 0xB971), (0xD25F, 0xB972), (0xD260, 0xB973), (0xD261, 0xB974),
    (0xD262, 0xB975), (0xD263, 0xB976)] @
   [(0xD264, 0xC6A1), (0xD265, 0xB977), (0xD266, 0xB978), (0xD267, 0xB979), (0xD268, 0xB97A), (0xD269, 0xB981),
    (0xD26A, 0xB982), (0xD26B, 0xB983)] @
   [(0xD26C, 0xB984), (0xD26D, 0xB985), (0xD26E, 0xB986), (0xD26F, 0xB987), (0xD270, 0xB988), (0xD271, 0xB989),
    (0xD272, 0xB98A), (0xD273, 0xB98B)] @
   [(0xD274, 0xB98C), (0xD275, 0xB98D), (0xD276, 0xB98E), (0xD277, 0xB98F), (0xD278, 0xB990), (0xD279, 0xB991),
    (0xD27A, 0xB992), (0xD27B, 0xB993)] @
   [(0xD27C, 0xB994), (0xD27D, 0xB995), (0xD27E, 0xB996), (0xD27F, 0xB997), (0xD280, 0xC6A2), (0xD281, 0xC6A3),
    (0xD282, 0xB998), (0xD283, 0xB999)] @
   [(0xD284, 0xC6A4), (0xD285, 0xB99A), (0xD286, 0xB99B), (0xD287, 0xB99C), (0xD288, 0xC6A5), (0xD289, 0xB99D),
    (0xD28A, 0xB99E), (0xD28B, 0xB99F)] @
   [(0xD28C, 0xB9A0), (0xD28D, 0xBA41), (0xD28E, 0xBA42), (0xD28F, 0xBA43), (0xD290, 0xC6A6), (0xD291, 0xC6A7),
    (0xD292, 0xBA44), (0xD293, 0xBA45)] @
   [(0xD294, 0xBA46), (0xD295, 0xC6A8), (0xD296, 0xBA47), (0xD297, 0xBA48), (0xD298, 0xBA49), (0xD299, 0xBA4A),
    (0xD29A, 0xBA4B), (0xD29B, 0xBA4C)] @
   [(0xD29C, 0xC6A9), (0xD29D, 0xBA4D), (0xD29E, 0xBA4E), (0xD29F, 0xBA4F), (0xD2A0, 0xC6AA), (0xD2A1, 0xBA50),
    (0xD2A2, 0xBA51), (0xD2A3, 0xBA52)] @
   [(0xD2A4, 0xC6AB), (0xD2A5, 0xBA53), (0xD2A6, 0xBA54), (0xD2A7, 0xBA55), (0xD2A8, 0xBA56), (0xD2A9, 0xBA57),
    (0xD2AA, 0xBA58), (0xD2AB, 0xBA59)] @
   [(0xD2AC, 0xC6AC), (0xD2AD, 0xBA5A), (0xD2AE, 0xBA61), (0xD2AF, 0xBA62), (0xD2B0, 0xBA63), (0xD2B1, 0xC6AD),
    (0xD2B2, 0xBA64), (0xD2B3, 0xBA65)] @
   [(0xD2B4, 0xBA66), (0xD2B5, 0xBA67), (0xD2B6, 0xBA68), (0xD2B7, 0xBA69), (0xD2B8, 0xC6AE), (0xD2B9, 0xC6AF),
    (0xD2BA, 0xBA6A), (0xD2BB, 0xBA6B)] @
   [(0xD2BC, 0xC6B0), (0xD2BD, 0xBA6C), (0xD2BE, 0xBA6D), (0xD2BF, 0xC6B1), (0xD2C0, 0xC6B2), (0xD2C1, 0xBA6E),
    (0xD2C2, 0xC6B3), (0xD2C3, 0xBA6F)] @
   [(0xD2C4, 0xBA70), (0xD2C5, 0xBA71), (0xD2C6, 0xBA72), (0xD2C7, 0xBA73), (0xD2C8, 0xC6B4), (0xD2C9, 0xC6B5),
    (0xD2CA, 0xBA74), (0xD2CB, 0xC6B6)] @
   [(0xD2CC, 0xBA75), (0xD2CD, 0xBA76), (0xD2CE, 0xBA77), (0xD2CF, 0xBA78), (0xD2D0, 0xBA79), (0xD2D1, 0xBA7A),
    (0xD2D2, 0xBA81), (0xD2D3, 0xBA82)] @
   [(0xD2D4, 0xC6B7), (0xD2D5, 0xBA83), (0xD2D6, 0xBA84), (0xD2D7, 0xBA85), (0xD2D8, 0xC6B8), (0xD2D9, 0xBA86),
    (0xD2DA, 0xBA87), (0xD2DB, 0xBA88)] @
   [(0xD2DC, 0xC6B9), (0xD2DD, 0xBA89), (0xD2DE, 0xBA8A), (0xD2DF, 0xBA8B), (0xD2E0, 0xBA8C), (0xD2E1, 0xBA8D),
    (0xD2E2, 0xBA8E), (0xD2E3, 0xBA8F)] @
   [(0xD2E4, 0xC6BA), (0xD2E5, 0xC6BB), (0xD2E6, 0xBA90), (0xD2E7, 0xBA91), (0xD2E8, 0xBA92), (0xD2E9, 0xBA93),
    (0xD2EA, 0xBA94), (0xD2EB, 0xBA95)] @
   [(0xD2EC, 0xBA96), (0xD2ED, 0xBA97), (0xD2EE, 0xBA98), (0xD2EF, 0xBA99), (0xD2F0, 0xC6BC), (0xD2F1, 0xC6BD),
    (0xD2F2, 0xBA9A), (0xD2F3, 0xBA9B)] @
   [(0xD2F4, 0xC6BE), (0xD2F5, 0xBA9C), (0xD2F6, 0xBA9D), (0xD2F7, 0xBA9E), (0xD2F8, 0xC6BF), (0xD2F9, 0xBA9F),
    (0xD2FA, 0xBAA0), (0xD2FB, 0xBB41)]"

definition rev_cp949_61 :: "(nat \<times> nat) list" where
  "rev_cp949_61 =
   [(0xD2FC, 0xBB42), (0xD2FD, 0xBB43), (0xD2FE, 0xBB44), (0xD2FF, 0xBB45), (0xD300, 0xC6C0), (0xD301, 0xC6C1),
    (0xD302, 0xBB46), (0xD303, 0xC6C2)] @
   [(0xD304, 0xBB47), (0xD305, 0xC6C3), (0xD306, 0xBB48), (0xD307, 0xBB49), (0xD308, 0xBB4A), (0xD309, 0xBB4B),
    (0xD30A, 0xBB4C), (0xD30B, 0xBB4D)] @
   [(0xD30C, 0xC6C4), (0xD30D, 0xC6C5), (0xD30E, 0xC6C6), (0xD30F, 0xBB4E), (0xD310, 0xC6C7), (0xD311, 0xBB4F),
    (0xD312, 0xBB50), (0xD313, 0xBB51)] @
   [(0xD314, 0xC6C8), (0xD315, 0xBB52), (0xD316, 0xC6C9), (0xD317, 0xBB53), (0xD318, 0xBB54), (0xD319, 0xBB55),
    (0xD31A, 0xBB56), (0xD31B, 0xBB57)] @
   [(0xD31C, 0xC6CA), (0xD31D, 0xC6CB), (0xD31E, 0xBB58), (0xD31F, 0xC6CC), (0xD320, 0xC6CD), (0xD321, 0xC6CE),
    (0xD322, 0xBB59), (0xD323, 0xBB5A)] @
   [(0xD324, 0xBB61), (0xD325, 0xC6CF), (0xD326, 0xBB62), (0xD327, 0xBB63), (0xD328, 0xC6D0), (0xD329, 0xC6D1),
    (0xD32A, 0xBB64), (0xD32B, 0xBB65)] @
   [(0xD32C, 0xC6D2), (0xD32D, 0xBB66), (0xD32E, 0xBB67), (0xD32F, 0xBB68), (0xD330, 0xC6D3), (0xD331, 0xBB69),
    (0xD332, 0xBB6A), (0xD333, 0xBB6B)] @
   [(0xD334, 0xBB6C), (0xD335, 0xBB6D), (0xD336, 0xBB6E), (0xD337, 0xBB6F), (0xD338, 0xC6D4), (0xD339, 0xC6D5),
    (0xD33A, 0xBB70), (0xD33B, 0xC6D6)] @
   [(0xD33C, 0xC6D7), (0xD33D, 0xC6D8), (0xD33E, 0xBB71), (0xD33F, 0xBB72), (0xD340, 0xBB73), (0xD341, 0xBB74),
    (0xD342, 0xBB75), (0xD343, 0xBB76)] @
   [(0xD344, 0xC6D9), (0xD345, 0xC6DA), (0xD346, 0xBB77), (0xD347, 0xBB78), (0xD348, 0xBB79), (0xD349, 0xBB7A),
    (0xD34A, 0xBB81), (0xD34B, 0xBB82)] @
   [(0xD34C, 0xBB83), (0xD34D, 0xBB84), (0xD34E, 0xBB85), (0xD34F, 0xBB86), (0xD350, 0xBB87), (0xD351, 0xBB88),
    (0xD352, 0xBB89), (0xD353, 0xBB8A)] @
   [(0xD354, 0xBB8B), (0xD355, 0xBB8C), (0xD356, 0xBB8D), (0xD357, 0xBB8E), (0xD358, 0xBB8F), (0xD359, 0xBB90),
    (0xD35A, 0xBB91), (0xD35B, 0xBB92)] @
   [(0xD35C, 0xBB93), (0xD35D, 0xBB94), (0xD35E, 0xBB95), (0xD35F, 0xBB96), (0xD360, 0xBB97), (0xD361, 0xBB98),
    (0xD362, 0xBB99), (0xD363, 0xBB9A)] @
   [(0xD364, 0xBB9B), (0xD365, 0xBB9C), (0xD366, 0xBB9D), (0xD367, 0xBB9E), (0xD368, 0xBB9F), (0xD369, 0xBBA0),
    (0xD36A, 0xBC41), (0xD36B, 0xBC42)] @
   [(0xD36C, 0xBC43), (0xD36D, 0xBC44), (0xD36E, 0xBC45), (0xD36F, 0xBC46), (0xD370, 0xBC47), (0xD371, 0xBC48),
    (0xD372, 0xBC49), (0xD373, 0xBC4A)] @
   [(0xD374, 0xBC4B), (0xD375, 0xBC4C), (0xD376, 0xBC4D), (0xD377, 0xBC4E), (0xD378, 0xBC4F), (0xD379, 0xBC50),
    (0xD37A, 0xBC51), (0xD37B, 0xBC52)] @
   [(0xD37C, 0xC6DB), (0xD37D, 0xC6DC), (0xD37E, 0xBC53), (0xD37F, 0xBC54), (0xD380, 0xC6DD), (0xD381, 0xBC55),
    (0xD382, 0xBC56), (0xD383, 0xBC57)] @
   [(0xD384, 0xC6DE), (0xD385, 0xBC58), (0xD386, 0xBC59), (0xD387, 0xBC5A), (0xD388, 0xBC61), (0xD389, 0xBC62),
    (0xD38A, 0xBC63), (0xD38B, 0xBC64)] @
   [(0xD38C, 0xC6DF), (0xD38D, 0xC6E0), (0xD38E, 0xBC65), (0xD38F, 0xC6E1), (0xD390, 0xC6E2), (0xD391, 0xC6E3),
    (0xD392, 0xBC66), (0xD393, 0xBC67)] @
   [(0xD394, 0xBC68), (0xD395, 0xBC69), (0xD396, 0xBC6A), (0xD397, 0xBC6B), (0xD398, 0xC6E4), (0xD399, 0xC6E5),
    (0xD39A, 0xBC6C), (0xD39B, 0xBC6D)] @
   [(0xD39C, 0xC6E6), (0xD39D, 0xBC6E), (0xD39E, 0xBC6F), (0xD39F, 0xBC70), (0xD3A0, 0xC6E7), (0xD3A1, 0xBC71),
    (0xD3A2, 0xBC72), (0xD3A3, 0xBC73)] @
   [(0xD3A4, 0xBC74), (0xD3A5, 0xBC75), (0xD3A6, 0xBC76), (0xD3A7, 0xBC77), (0xD3A8, 0xC6E8), (0xD3A9, 0xC6E9),
    (0xD3AA, 0xBC78), (0xD3AB, 0xC6EA)] @
   [(0xD3AC, 0xBC79), (0xD3AD, 0xC6EB), (0xD3AE, 0xBC7A), (0xD3AF, 0xBC81), (0xD3B0, 0xBC82), (0xD3B1, 0xBC83),
    (0xD3B2, 0xBC84), (0xD3B3, 0xBC85)] @
   [(0xD3B4, 0xC6EC), (0xD3B5, 0xBC86), (0xD3B6, 0xBC87), (0xD3B7, 0xBC88), (0xD3B8, 0xC6ED), (0xD3B9, 0xBC89),
    (0xD3BA, 0xBC8A), (0xD3BB, 0xBC8B)] @
   [(0xD3BC, 0xC6EE), (0xD3BD, 0xBC8C), (0xD3BE, 0xBC8D), (0xD3BF, 0xBC8E), (0xD3C0, 0xBC8F), (0xD3C1, 0xBC90),
    (0xD3C2, 0xBC91), (0xD3C3, 0xBC92)] @
   [(0xD3C4, 0xC6EF), (0xD3C5, 0xC6F0), (0xD3C6, 0xBC93), (0xD3C7, 0xBC94), (0xD3C8, 0xC6F1), (0xD3C9, 0xC6F2),
    (0xD3CA, 0xBC95), (0xD3CB, 0xBC96)] @
   [(0xD3CC, 0xBC97), (0xD3CD, 0xBC98), (0xD3CE, 0xBC99), (0xD3CF, 0xBC9A), (0xD3D0, 0xC6F3), (0xD3D1, 0xBC9B),
    (0xD3D2, 0xBC9C), (0xD3D3, 0xBC9D)] @
   [(0xD3D4, 0xBC9E), (0xD3D5, 0xBC9F), (0xD3D6, 0xBCA0), (0xD3D7, 0xBD41), (0xD3D8, 0xC6F4), (0xD3D9, 0xBD42),
    (0xD3DA, 0xBD43), (0xD3DB, 0xBD44)] @
   [(0xD3DC, 0xBD45), (0xD3DD, 0xBD46), (0xD3DE, 0xBD47), (0xD3DF, 0xBD48), (0xD3E0, 0xBD49), (0xD3E1, 0xC6F5),
    (0xD3E2, 0xBD4A), (0xD3E3, 0xC6F6)] @
   [(0xD3E4, 0xBD4B), (0xD3E5, 0xBD4C), (0xD3E6, 0xBD4D), (0xD3E7, 0xBD4E), (0xD3E8, 0xBD4F), (0xD3E9, 0xBD50),
    (0xD3EA, 0xBD51), (0xD3EB, 0xBD52)] @
   [(0xD3EC, 0xC6F7), (0xD3ED, 0xC6F8), (0xD3EE, 0xBD53), (0xD3EF, 0xBD54), (0xD3F0, 0xC6F9), (0xD3F1, 0xBD55),
    (0xD3F2, 0xBD56), (0xD3F3, 0xBD57)] @
   [(0xD3F4, 0xC6FA), (0xD3F5, 0xBD58), (0xD3F6, 0xBD59), (0xD3F7, 0xBD5A), (0xD3F8, 0xBD61), (0xD3F9, 0xBD62),
    (0xD3FA, 0xBD63), (0xD3FB, 0xBD64)]"

definition rev_cp949_62 :: "(nat \<times> nat) list" where
  "rev_cp949_62 =
   [(0xD3FC, 0xC6FB), (0xD3FD, 0xC6FC), (0xD3FE, 0xBD65), (0xD3FF, 0xC6FD), (0xD400, 0xBD66), (0xD401, 0xC6FE),
    (0xD402, 0xBD67), (0xD403, 0xBD68)] @
   [(0xD404, 0xBD69), (0xD405, 0xBD6A), (0xD406, 0xBD6B), (0xD407, 0xBD6C), (0xD408, 0xC7A1), (0xD409, 0xBD6D),
    (0xD40A, 0xBD6E), (0xD40B, 0xBD6F)] @
   [(0xD40C, 0xBD70), (0xD40D, 0xBD71), (0xD40E, 0xBD72), (0xD40F, 0xBD73), (0xD410, 0xBD74), (0xD411, 0xBD75),
    (0xD412, 0xBD76), (0xD413, 0xBD77)] @
   [(0xD414, 0xBD78), (0xD415, 0xBD79), (0xD416, 0xBD7A), (0xD417, 0xBD81), (0xD418, 0xBD82), (0xD419, 0xBD83),
    (0xD41A, 0xBD84), (0xD41B, 0xBD85)] @
   [(0xD41C, 0xBD86), (0xD41D, 0xC7A2), (0xD41E, 0xBD87), (0xD41F, 0xBD88), (0xD420, 0xBD89), (0xD421, 0xBD8A),
    (0xD422, 0xBD8B), (0xD423, 0xBD8C)] @
   [(0xD424, 0xBD8D), (0xD425, 0xBD8E), (0xD426, 0xBD8F), (0xD427, 0xBD90), (0xD428, 0xBD91), (0xD429, 0xBD92),
    (0xD42A, 0xBD93), (0xD42B, 0xBD94)] @
   [(0xD42C, 0xBD95), (0xD42D, 0xBD96), (0xD42E, 0xBD97), (0xD42F, 0xBD98), (0xD430, 0xBD99), (0xD431, 0xBD9A),
    (0xD432, 0xBD9B), (0xD433, 0xBD9C)] @
   [(0xD434, 0xBD9D), (0xD435, 0xBD9E), (0xD436, 0xBD9F), (0xD437, 0xBDA0), (0xD438, 0xBE41), (0xD439, 0xBE42),
    (0xD43A, 0xBE43), (0xD43B, 0xBE44)] @
   [(0xD43C, 0xBE45), (0xD43D, 0xBE46), (0xD43E, 0xBE47), (0xD43F, 0xBE48), (0xD440, 0xC7A3), (0xD441, 0xBE49),
    (0xD442, 0xBE4A), (0xD443, 0xBE4B)] @
   [(0xD444, 0xC7A4), (0xD445, 0xBE4C), (0xD446, 0xBE4D), (0xD447, 0xBE4E), (0xD448, 0xBE4F), (0xD449, 0xBE50),
    (0xD44A, 0xBE51), (0xD44B, 0xBE52)] @
   [(0xD44C, 0xBE53), (0xD44D, 0xBE54), (0xD44E, 0xBE55), (0xD44F, 0xBE56), (0xD450, 0xBE57), (0xD451, 0xBE58),
    (0xD452, 0xBE59), (0xD453, 0xBE5A)] @
   [(0xD454, 0xBE61), (0xD455, 0xBE62), (0xD456, 0xBE63), (0xD457, 0xBE64), (0xD458, 0xBE65), (0xD459, 0xBE66),
    (0xD45A, 0xBE67), (0xD45B, 0xBE68)] @
   [(0xD45C, 0xC7A5), (0xD45D, 0xBE69), (0xD45E, 0xBE6A), (0xD45F, 0xBE6B), (0xD460, 0xC7A6), (0xD461, 0xBE6C),
    (0xD462, 0xBE6D), (0xD463, 0xBE6E)] @
   [(0xD464, 0xC7A7), (0xD465, 0xBE6F), (0xD466, 0xBE70), (0xD467, 0xBE71), (0xD468, 0xBE72), (0xD469, 0xBE73),
    (0xD46A, 0xBE74), (0xD46B, 0xBE75)] @
   [(0xD46C, 0xBE76), (0xD46D, 0xC7A8), (0xD46E, 0xBE77), (0xD46F, 0xC7A9), (0xD470, 0xBE78), (0xD471, 0xBE79),
    (0xD472, 0xBE7A), (0xD473, 0xBE81)] @
   [(0xD474, 0xBE82), (0xD475, 0xBE83), (0xD476, 0xBE84), (0xD477, 0xBE85), (0xD478, 0xC7AA), (0xD479, 0xC7AB),
    (0xD47A, 0xBE86), (0xD47B, 0xBE87)] @
   [(0xD47C, 0xC7AC), (0xD47D, 0xBE88), (0xD47E, 0xBE89), (0xD47F, 0xC7AD), (0xD480, 0xC7AE), (0xD481, 0xBE8A),
    (0xD482, 0xC7AF), (0xD483, 0xBE8B)] @
   [(0xD484, 0xBE8C), (0xD485, 0xBE8D), (0xD486, 0xBE8E), (0xD487, 0xBE8F), (0xD488, 0xC7B0), (0xD489, 0xC7B1),
    (0xD48A, 0xBE90), (0xD48B, 0xC7B2)] @
   [(0xD48C, 0xBE91), (0xD48D, 0xC7B3), (0xD48E, 0xBE92), (0xD48F, 0xBE93), (0xD490, 0xBE94), (0xD491, 0xBE95),
    (0xD492, 0xBE96), (0xD493, 0xBE97)] @
   [(0xD494, 0xC7B4), (0xD495, 0xBE98), (0xD496, 0xBE99), (0xD497, 0xBE9A), (0xD498, 0xBE9B), (0xD499, 0xBE9C),
    (0xD49A, 0xBE9D), (0xD49B, 0xBE9E)] @
   [(0xD49C, 0xBE9F), (0xD49D, 0xBEA0), (0xD49E, 0xBF41), (0xD49F, 0xBF42), (0xD4A0, 0xBF43), (0xD4A1, 0xBF44),
    (0xD4A2, 0xBF45), (0xD4A3, 0xBF46)] @
   [(0xD4A4, 0xBF47), (0xD4A5, 0xBF48), (0xD4A6, 0xBF49), (0xD4A7, 0xBF4A), (0xD4A8, 0xBF4B), (0xD4A9, 0xC7B5),
    (0xD4AA, 0xBF4C), (0xD4AB, 0xBF4D)] @
   [(0xD4AC, 0xBF4E), (0xD4AD, 0xBF4F), (0xD4AE, 0xBF50), (0xD4AF, 0xBF51), (0xD4B0, 0xBF52), (0xD4B1, 0xBF53),
    (0xD4B2, 0xBF54), (0xD4B3, 0xBF55)] @
   [(0xD4B4, 0xBF56), (0xD4B5, 0xBF57), (0xD4B6, 0xBF58), (0xD4B7, 0xBF59), (0xD4B8, 0xBF5A), (0xD4B9, 0xBF61),
    (0xD4BA, 0xBF62), (0xD4BB, 0xBF63)] @
   [(0xD4BC, 0xBF64), (0xD4BD, 0xBF65), (0xD4BE, 0xBF66), (0xD4BF, 0xBF67), (0xD4C0, 0xBF68), (0xD4C1, 0xBF69),
    (0xD4C2, 0xBF6A), (0xD4C3, 0xBF6B)] @
   [(0xD4C4, 0xBF6C), (0xD4C5, 0xBF6D), (0xD4C6, 0xBF6E), (0xD4C7, 0xBF6F), (0xD4C8, 0xBF70), (0xD4C9, 0xBF71),
    (0xD4CA, 0xBF72), (0xD4CB, 0xBF73)] @
   [(0xD4CC, 0xC7B6), (0xD4CD, 0xBF74), (0xD4CE, 0xBF75), (0xD4CF, 0xBF76), (0xD4D0, 0xC7B7), (0xD4D1, 0xBF77),
    (0xD4D2, 0xBF78), (0xD4D3, 0xBF79)] @
   [(0xD4D4, 0xC7B8), (0xD4D5, 0xBF7A), (0xD4D6, 0xBF81), (0xD4D7, 0xBF82), (0xD4D8, 0xBF83), (0xD4D9, 0xBF84),
    (0xD4DA, 0xBF85), (0xD4DB, 0xBF86)] @
   [(0xD4DC, 0xC7B9), (0xD4DD, 0xBF87), (0xD4DE, 0xBF88), (0xD4DF, 0xC7BA), (0xD4E0, 0xBF89), (0xD4E1, 0xBF8A),
    (0xD4E2, 0xBF8B), (0xD4E3, 0xBF8C)] @
   [(0xD4E4, 0xBF8D), (0xD4E5, 0xBF8E), (0xD4E6, 0xBF8F), (0xD4E7, 0xBF90), (0xD4E8, 0xC7BB), (0xD4E9, 0xBF91),
    (0xD4EA, 0xBF92), (0xD4EB, 0xBF93)] @
   [(0xD4EC, 0xC7BC), (0xD4ED, 0xBF94), (0xD4EE, 0xBF95), (0xD4EF, 0xBF96), (0xD4F0, 0xC7BD), (0xD4F1, 0xBF97),
    (0xD4F2, 0xBF98), (0xD4F3, 0xBF99)] @
   [(0xD4F4, 0xBF9A), (0xD4F5, 0xBF9B), (0xD4F6, 0xBF9C), (0xD4F7, 0xBF9D), (0xD4F8, 0xC7BE), (0xD4F9, 0xBF9E),
    (0xD4FA, 0xBF9F), (0xD4FB, 0xC7BF)]"

definition rev_cp949_63 :: "(nat \<times> nat) list" where
  "rev_cp949_63 =
   [(0xD4FC, 0xBFA0), (0xD4FD, 0xC7C0), (0xD4FE, 0xC041), (0xD4FF, 0xC042), (0xD500, 0xC043), (0xD501, 0xC044),
    (0xD502, 0xC045), (0xD503, 0xC046)] @
   [(0xD504, 0xC7C1), (0xD505, 0xC047), (0xD506, 0xC048), (0xD507, 0xC049), (0xD508, 0xC7C2), (0xD509, 0xC04A),
    (0xD50A, 0xC04B), (0xD50B, 0xC04C)] @
   [(0xD50C, 0xC7C3), (0xD50D, 0xC04D), (0xD50E, 0xC04E), (0xD50F, 0xC04F), (0xD510, 0xC050), (0xD511, 0xC051),
    (0xD512, 0xC052), (0xD513, 0xC053)] @
   [(0xD514, 0xC7C4), (0xD515, 0xC7C5), (0xD516, 0xC054), (0xD517, 0xC7C6), (0xD518, 0xC055), (0xD519, 0xC056),
    (0xD51A, 0xC057), (0xD51B, 0xC058)] @
   [(0xD51C, 0xC059), (0xD51D, 0xC05A), (0xD51E, 0xC061), (0xD51F, 0xC062), (0xD520, 0xC063), (0xD521, 0xC064),
    (0xD522, 0xC065), (0xD523, 0xC066)] @
   [(0xD524, 0xC067), (0xD525, 0xC068), (0xD526, 0xC069), (0xD527, 0xC06A), (0xD528, 0xC06B), (0xD529, 0xC06C),
    (0xD52A, 0xC06D), (0xD52B, 0xC06E)] @
   [(0xD52C, 0xC06F), (0xD52D, 0xC070), (0xD52E, 0xC071), (0xD52F, 0xC072), (0xD530, 0xC073), (0xD531, 0xC074),
    (0xD532, 0xC075), (0xD533, 0xC076)] @
   [(0xD534, 0xC077), (0xD535, 0xC078), (0xD536, 0xC079), (0xD537, 0xC07A), (0xD538, 0xC081), (0xD539, 0xC082),
    (0xD53A, 0xC083), (0xD53B, 0xC084)] @
   [(0xD53C, 0xC7C7), (0xD53D, 0xC7C8), (0xD53E, 0xC085), (0xD53F, 0xC086), (0xD540, 0xC7C9), (0xD541, 0xC087),
    (0xD542, 0xC088), (0xD543, 0xC089)] @
   [(0xD544, 0xC7CA), (0xD545, 0xC08A), (0xD546, 0xC08B), (0xD547, 0xC08C), (0xD548, 0xC08D), (0xD549, 0xC08E),
    (0xD54A, 0xC08F), (0xD54B, 0xC090)] @
   [(0xD54C, 0xC7CB), (0xD54D, 0xC7CC), (0xD54E, 0xC091), (0xD54F, 0xC7CD), (0xD550, 0xC092), (0xD551, 0xC7CE),
    (0xD552, 0xC093), (0xD553, 0xC094)] @
   [(0xD554, 0xC095), (0xD555, 0xC096), (0xD556, 0xC097), (0xD557, 0xC098), (0xD558, 0xC7CF), (0xD559, 0xC7D0),
    (0xD55A, 0xC099), (0xD55B, 0xC09A)] @
   [(0xD55C, 0xC7D1), (0xD55D, 0xC09B), (0xD55E, 0xC09C), (0xD55F, 0xC09D), (0xD560, 0xC7D2), (0xD561, 0xC09E),
    (0xD562, 0xC09F), (0xD563, 0xC0A0)] @
   [(0xD564, 0xC141), (0xD565, 0xC7D3), (0xD566, 0xC142), (0xD567, 0xC143), (0xD568, 0xC7D4), (0xD569, 0xC7D5),
    (0xD56A, 0xC144), (0xD56B, 0xC7D6)] @
   [(0xD56C, 0xC145), (0xD56D, 0xC7D7), (0xD56E, 0xC146), (0xD56F, 0xC147), (0xD570, 0xC148), (0xD571, 0xC149),
    (0xD572, 0xC14A), (0xD573, 0xC14B)] @
   [(0xD574, 0xC7D8), (0xD575, 0xC7D9), (0xD576, 0xC14C), (0xD577, 0xC14D), (0xD578, 0xC7DA), (0xD579, 0xC14E),
    (0xD57A, 0xC14F), (0xD57B, 0xC150)] @
   [(0xD57C, 0xC7DB), (0xD57D, 0xC151), (0xD57E, 0xC152), (0xD57F, 0xC153), (0xD580, 0xC154), (0xD581, 0xC155),
    (0xD582, 0xC156), (0xD583, 0xC157)] @
   [(0xD584, 0xC7DC), (0xD585, 0xC7DD), (0xD586, 0xC158), (0xD587, 0xC7DE), (0xD588, 0xC7DF), (0xD589, 0xC7E0),
    (0xD58A, 0xC159), (0xD58B, 0xC15A)] @
   [(0xD58C, 0xC161), (0xD58D, 0xC162), (0xD58E, 0xC163), (0xD58F, 0xC164), (0xD590, 0xC7E1), (0xD591, 0xC165),
    (0xD592, 0xC166), (0xD593, 0xC167)] @
   [(0xD594, 0xC168), (0xD595, 0xC169), (0xD596, 0xC16A), (0xD597, 0xC16B), (0xD598, 0xC16C), (0xD599, 0xC16D),
    (0xD59A, 0xC16E), (0xD59B, 0xC16F)] @
   [(0xD59C, 0xC170), (0xD59D, 0xC171), (0xD59E, 0xC172), (0xD59F, 0xC173), (0xD5A0, 0xC174), (0xD5A1, 0xC175),
    (0xD5A2, 0xC176), (0xD5A3, 0xC177)] @
   [(0xD5A4, 0xC178), (0xD5A5, 0xC7E2), (0xD5A6, 0xC179), (0xD5A7, 0xC17A), (0xD5A8, 0xC181), (0xD5A9, 0xC182),
    (0xD5AA, 0xC183), (0xD5AB, 0xC184)] @
   [(0xD5AC, 0xC185), (0xD5AD, 0xC186), (0xD5AE, 0xC187), (0xD5AF, 0xC188), (0xD5B0, 0xC189), (0xD5B1, 0xC18A),
    (0xD5B2, 0xC18B), (0xD5B3, 0xC18C)] @
   [(0xD5B4, 0xC18D), (0xD5B5, 0xC18E), (0xD5B6, 0xC18F), (0xD5B7, 0xC190), (0xD5B8, 0xC191), (0xD5B9, 0xC192),
    (0xD5BA, 0xC193), (0xD5BB, 0xC194)] @
   [(0xD5BC, 0xC195), (0xD5BD, 0xC196), (0xD5BE, 0xC197), (0xD5BF, 0xC198), (0xD5C0, 0xC199), (0xD5C1, 0xC19A),
    (0xD5C2, 0xC19B), (0xD5C3, 0xC19C)] @
   [(0xD5C4, 0xC19D), (0xD5C5, 0xC19E), (0xD5C6, 0xC19F), (0xD5C7, 0xC1A0), (0xD5C8, 0xC7E3), (0xD5C9, 0xC7E4),
    (0xD5CA, 0xC241), (0xD5CB, 0xC242)] @
   [(0xD5CC, 0xC7E5), (0xD5CD, 0xC243), (0xD5CE, 0xC244), (0xD5CF, 0xC245), (0xD5D0, 0xC7E6), (0xD5D1, 0xC246),
    (0xD5D2, 0xC7E7), (0xD5D3, 0xC247)] @
   [(0xD5D4, 0xC248), (0xD5D5, 0xC249), (0xD5D6, 0xC24A), (0xD5D7, 0xC24B), (0xD5D8, 0xC7E8), (0xD5D9, 0xC7E9),
    (0xD5DA, 0xC24C), (0xD5DB, 0xC7EA)] @
   [(0xD5DC, 0xC24D), (0xD5DD, 0xC7EB), (0xD5DE, 0xC24E), (0xD5DF, 0xC24F), (0xD5E0, 0xC250), (0xD5E1, 0xC251),
    (0xD5E2, 0xC252), (0xD5E3, 0xC253)] @
   [(0xD5E4, 0xC7EC), (0xD5E5, 0xC7ED), (0xD5E6, 0xC254), (0xD5E7, 0xC255), (0xD5E8, 0xC7EE), (0xD5E9, 0xC256),
    (0xD5EA, 0xC257), (0xD5EB, 0xC258)] @
   [(0xD5EC, 0xC7EF), (0xD5ED, 0xC259), (0xD5EE, 0xC25A), (0xD5EF, 0xC261), (0xD5F0, 0xC262), (0xD5F1, 0xC263),
    (0xD5F2, 0xC264), (0xD5F3, 0xC265)] @
   [(0xD5F4, 0xC7F0), (0xD5F5, 0xC7F1), (0xD5F6, 0xC266), (0xD5F7, 0xC7F2), (0xD5F8, 0xC267), (0xD5F9, 0xC7F3),
    (0xD5FA, 0xC268), (0xD5FB, 0xC269)]"

definition rev_cp949_64 :: "(nat \<times> nat) list" where
  "rev_cp949_64 =
   [(0xD5FC, 0xC26A), (0xD5FD, 0xC26B), (0xD5FE, 0xC26C), (0xD5FF, 0xC26D), (0xD600, 0xC7F4), (0xD601, 0xC7F5),
    (0xD602, 0xC26E), (0xD603, 0xC26F)] @
   [(0xD604, 0xC7F6), (0xD605, 0xC270), (0xD606, 0xC271), (0xD607, 0xC272), (0xD608, 0xC7F7), (0xD609, 0xC273),
    (0xD60A, 0xC274), (0xD60B, 0xC275)] @
   [(0xD60C, 0xC276), (0xD60D, 0xC277), (0xD60E, 0xC278), (0xD60F, 0xC279), (0xD610, 0xC7F8), (0xD611, 0xC7F9),
    (0xD612, 0xC27A), (0xD613, 0xC7FA)] @
   [(0xD614, 0xC7FB), (0xD615, 0xC7FC), (0xD616, 0xC281), (0xD617, 0xC282), (0xD618, 0xC283), (0xD619, 0xC284),
    (0xD61A, 0xC285), (0xD61B, 0xC286)] @
   [(0xD61C, 0xC7FD), (0xD61D, 0xC287), (0xD61E, 0xC288), (0xD61F, 0xC289), (0xD620, 0xC7FE), (0xD621, 0xC28A),
    (0xD622, 0xC28B), (0xD623, 0xC28C)] @
   [(0xD624, 0xC8A1), (0xD625, 0xC28D), (0xD626, 0xC28E), (0xD627, 0xC28F), (0xD628, 0xC290), (0xD629, 0xC291),
    (0xD62A, 0xC292), (0xD62B, 0xC293)] @
   [(0xD62C, 0xC294), (0xD62D, 0xC8A2), (0xD62E, 0xC295), (0xD62F, 0xC296), (0xD630, 0xC297), (0xD631, 0xC298),
    (0xD632, 0xC299), (0xD633, 0xC29A)] @
   [(0xD634, 0xC29B), (0xD635, 0xC29C), (0xD636, 0xC29D), (0xD637, 0xC29E), (0xD638, 0xC8A3), (0xD639, 0xC8A4),
    (0xD63A, 0xC29F), (0xD63B, 0xC2A0)] @
   [(0xD63C, 0xC8A5), (0xD63D, 0xC341), (0xD63E, 0xC342), (0xD63F, 0xC343), (0xD640, 0xC8A6), (0xD641, 0xC344),
    (0xD642, 0xC345), (0xD643, 0xC346)] @
   [(0xD644, 0xC347), (0xD645, 0xC8A7), (0xD646, 0xC348), (0xD647, 0xC349), (0xD648, 0xC8A8), (0xD649, 0xC8A9),
    (0xD64A, 0xC34A), (0xD64B, 0xC8AA)] @
   [(0xD64C, 0xC34B), (0xD64D, 0xC8AB), (0xD64E, 0xC34C), (0xD64F, 0xC34D), (0xD650, 0xC34E), (0xD651, 0xC8AC),
    (0xD652, 0xC34F), (0xD653, 0xC350)] @
   [(0xD654, 0xC8AD), (0xD655, 0xC8AE), (0xD656, 0xC351), (0xD657, 0xC352), (0xD658, 0xC8AF), (0xD659, 0xC353),
    (0xD65A, 0xC354), (0xD65B, 0xC355)] @
   [(0xD65C, 0xC8B0), (0xD65D, 0xC356), (0xD65E, 0xC357), (0xD65F, 0xC358), (0xD660, 0xC359), (0xD661, 0xC35A),
    (0xD662, 0xC361), (0xD663, 0xC362)] @
   [(0xD664, 0xC363), (0xD665, 0xC364), (0xD666, 0xC365), (0xD667, 0xC8B1), (0xD668, 0xC366), (0xD669, 0xC8B2),
    (0xD66A, 0xC367), (0xD66B, 0xC368)] @
   [(0xD66C, 0xC369), (0xD66D, 0xC36A), (0xD66E, 0xC36B), (0xD66F, 0xC36C), (0xD670, 0xC8B3), (0xD671, 0xC8B4),
    (0xD672, 0xC36D), (0xD673, 0xC36E)] @
   [(0xD674, 0xC8B5), (0xD675, 0xC36F), (0xD676, 0xC370), (0xD677, 0xC371), (0xD678, 0xC372), (0xD679, 0xC373),
    (0xD67A, 0xC374), (0xD67B, 0xC375)] @
   [(0xD67C, 0xC376), (0xD67D, 0xC377), (0xD67E, 0xC378), (0xD67F, 0xC379), (0xD680, 0xC37A), (0xD681, 0xC381),
    (0xD682, 0xC382), (0xD683, 0xC8B6)] @
   [(0xD684, 0xC383), (0xD685, 0xC8B7), (0xD686, 0xC384), (0xD687, 0xC385), (0xD688, 0xC386), (0xD689, 0xC387),
    (0xD68A, 0xC388), (0xD68B, 0xC389)] @
   [(0xD68C, 0xC8B8), (0xD68D, 0xC8B9), (0xD68E, 0xC38A), (0xD68F, 0xC38B), (0xD690, 0xC8BA), (0xD691, 0xC38C),
    (0xD692, 0xC38D), (0xD693, 0xC38E)] @
   [(0xD694, 0xC8BB), (0xD695, 0xC38F), (0xD696, 0xC390), (0xD697, 0xC391), (0xD698, 0xC392), (0xD699, 0xC393),
    (0xD69A, 0xC394), (0xD69B, 0xC395)] @
   [(0xD69C, 0xC396), (0xD69D, 0xC8BC), (0xD69E, 0xC397), (0xD69F, 0xC8BD), (0xD6A0, 0xC398), (0xD6A1, 0xC8BE),
    (0xD6A2, 0xC399), (0xD6A3, 0xC39A)] @
   [(0xD6A4, 0xC39B), (0xD6A5, 0xC39C), (0xD6A6, 0xC39D), (0xD6A7, 0xC39E), (0xD6A8, 0xC8BF), (0xD6A9, 0xC39F),
    (0xD6AA, 0xC3A0), (0xD6AB, 0xC441)] @
   [(0xD6AC, 0xC8C0), (0xD6AD, 0xC442), (0xD6AE, 0xC443), (0xD6AF, 0xC444), (0xD6B0, 0xC8C1), (0xD6B1, 0xC445),
    (0xD6B2, 0xC446), (0xD6B3, 0xC447)] @
   [(0xD6B4, 0xC448), (0xD6B5, 0xC449), (0xD6B6, 0xC44A), (0xD6B7, 0xC44B), (0xD6B8, 0xC44C), (0xD6B9, 0xC8C2),
    (0xD6BA, 0xC44D), (0xD6BB, 0xC8C3)] @
   [(0xD6BC, 0xC44E), (0xD6BD, 0xC44F), (0xD6BE, 0xC450), (0xD6BF, 0xC451), (0xD6C0, 0xC452), (0xD6C1, 0xC453),
    (0xD6C2, 0xC454), (0xD6C3, 0xC455)] @
   [(0xD6C4, 0xC8C4), (0xD6C5, 0xC8C5), (0xD6C6, 0xC456), (0xD6C7, 0xC457), (0xD6C8, 0xC8C6), (0xD6C9, 0xC458),
    (0xD6CA, 0xC459), (0xD6CB, 0xC45A)] @
   [(0xD6CC, 0xC8C7), (0xD6CD, 0xC461), (0xD6CE, 0xC462), (0xD6CF, 0xC463), (0xD6D0, 0xC464), (0xD6D1, 0xC8C8),
    (0xD6D2, 0xC465), (0xD6D3, 0xC466)] @
   [(0xD6D4, 0xC8C9), (0xD6D5, 0xC467), (0xD6D6, 0xC468), (0xD6D7, 0xC8CA), (0xD6D8, 0xC469), (0xD6D9, 0xC8CB),
    (0xD6DA, 0xC46A), (0xD6DB, 0xC46B)] @
   [(0xD6DC, 0xC46C), (0xD6DD, 0xC46D), (0xD6DE, 0xC46E), (0xD6DF, 0xC46F), (0xD6E0, 0xC8CC), (0xD6E1, 0xC470),
    (0xD6E2, 0xC471), (0xD6E3, 0xC472)] @
   [(0xD6E4, 0xC8CD), (0xD6E5, 0xC473), (0xD6E6, 0xC474), (0xD6E7, 0xC475), (0xD6E8, 0xC8CE), (0xD6E9, 0xC476),
    (0xD6EA, 0xC477), (0xD6EB, 0xC478)] @
   [(0xD6EC, 0xC479), (0xD6ED, 0xC47A), (0xD6EE, 0xC481), (0xD6EF, 0xC482), (0xD6F0, 0xC8CF), (0xD6F1, 0xC483),
    (0xD6F2, 0xC484), (0xD6F3, 0xC485)] @
   [(0xD6F4, 0xC486), (0xD6F5, 0xC8D0), (0xD6F6, 0xC487), (0xD6F7, 0xC488), (0xD6F8, 0xC489), (0xD6F9, 0xC48A),
    (0xD6FA, 0xC48B), (0xD6FB, 0xC48C)]"

definition rev_cp949_65 :: "(nat \<times> nat) list" where
  "rev_cp949_65 =
   [(0xD6FC, 0xC8D1), (0xD6FD, 0xC8D2), (0xD6FE, 0xC48D), (0xD6FF, 0xC48E), (0xD700, 0xC8D3), (0xD701, 0xC48F),
    (0xD702, 0xC490), (0xD703, 0xC491)] @
   [(0xD704, 0xC8D4), (0xD705, 0xC492), (0xD706, 0xC493), (0xD707, 0xC494), (0xD708, 0xC495), (0xD709, 0xC496),
    (0xD70A, 0xC497), (0xD70B, 0xC498)] @
   [(0xD70C, 0xC499), (0xD70D, 0xC49A), (0xD70E, 0xC49B), (0xD70F, 0xC49C), (0xD710, 0xC49D), (0xD711, 0xC8D5),
    (0xD712, 0xC49E), (0xD713, 0xC49F)] @
   [(0xD714, 0xC4A0), (0xD715, 0xC541), (0xD716, 0xC542), (0xD717, 0xC543), (0xD718, 0xC8D6), (0xD719, 0xC8D7),
    (0xD71A, 0xC544), (0xD71B, 0xC545)] @
   [(0xD71C, 0xC8D8), (0xD71D, 0xC546), (0xD71E, 0xC547), (0xD71F, 0xC548), (0xD720, 0xC8D9), (0xD721, 0xC549),
    (0xD722, 0xC54A), (0xD723, 0xC54B)] @
   [(0xD724, 0xC54C), (0xD725, 0xC54D), (0xD726, 0xC54E), (0xD727, 0xC54F), (0xD728, 0xC8DA), (0xD729, 0xC8DB),
    (0xD72A, 0xC550), (0xD72B, 0xC8DC)] @
   [(0xD72C, 0xC551), (0xD72D, 0xC8DD), (0xD72E, 0xC552), (0xD72F, 0xC553), (0xD730, 0xC554), (0xD731, 0xC555),
    (0xD732, 0xC556), (0xD733, 0xC557)] @
   [(0xD734, 0xC8DE), (0xD735, 0xC8DF), (0xD736, 0xC558), (0xD737, 0xC559), (0xD738, 0xC8E0), (0xD739, 0xC55A),
    (0xD73A, 0xC561), (0xD73B, 0xC562)] @
   [(0xD73C, 0xC8E1), (0xD73D, 0xC563), (0xD73E, 0xC564), (0xD73F, 0xC565), (0xD740, 0xC566), (0xD741, 0xC567),
    (0xD742, 0xC568), (0xD743, 0xC569)] @
   [(0xD744, 0xC8E2), (0xD745, 0xC56A), (0xD746, 0xC56B), (0xD747, 0xC8E3), (0xD748, 0xC56C), (0xD749, 0xC8E4),
    (0xD74A, 0xC56D), (0xD74B, 0xC56E)] @
   [(0xD74C, 0xC56F), (0xD74D, 0xC570), (0xD74E, 0xC571), (0xD74F, 0xC572), (0xD750, 0xC8E5), (0xD751, 0xC8E6),
    (0xD752, 0xC573), (0xD753, 0xC574)] @
   [(0xD754, 0xC8E7), (0xD755, 0xC575), (0xD756, 0xC8E8), (0xD757, 0xC8E9), (0xD758, 0xC8EA), (0xD759, 0xC8EB),
    (0xD75A, 0xC576), (0xD75B, 0xC577)] @
   [(0xD75C, 0xC578), (0xD75D, 0xC579), (0xD75E, 0xC57A), (0xD75F, 0xC581), (0xD760, 0xC8EC), (0xD761, 0xC8ED),
    (0xD762, 0xC582), (0xD763, 0xC8EE)] @
   [(0xD764, 0xC583), (0xD765, 0xC8EF), (0xD766, 0xC584), (0xD767, 0xC585), (0xD768, 0xC586), (0xD769, 0xC8F0),
    (0xD76A, 0xC587), (0xD76B, 0xC588)] @
   [(0xD76C, 0xC8F1), (0xD76D, 0xC589), (0xD76E, 0xC58A), (0xD76F, 0xC58B), (0xD770, 0xC8F2), (0xD771, 0xC58C),
    (0xD772, 0xC58D), (0xD773, 0xC58E)] @
   [(0xD774, 0xC8F3), (0xD775, 0xC58F), (0xD776, 0xC590), (0xD777, 0xC591), (0xD778, 0xC592), (0xD779, 0xC593),
    (0xD77A, 0xC594), (0xD77B, 0xC595)] @
   [(0xD77C, 0xC8F4), (0xD77D, 0xC8F5), (0xD77E, 0xC596), (0xD77F, 0xC597), (0xD780, 0xC598), (0xD781, 0xC8F6),
    (0xD782, 0xC599), (0xD783, 0xC59A)] @
   [(0xD784, 0xC59B), (0xD785, 0xC59C), (0xD786, 0xC59D), (0xD787, 0xC59E), (0xD788, 0xC8F7), (0xD789, 0xC8F8),
    (0xD78A, 0xC59F), (0xD78B, 0xC5A0)] @
   [(0xD78C, 0xC8F9), (0xD78D, 0xC641), (0xD78E, 0xC642), (0xD78F, 0xC643), (0xD790, 0xC8FA), (0xD791, 0xC644),
    (0xD792, 0xC645), (0xD793, 0xC646)] @
   [(0xD794, 0xC647), (0xD795, 0xC648), (0xD796, 0xC649), (0xD797, 0xC64A), (0xD798, 0xC8FB), (0xD799, 0xC8FC),
    (0xD79A, 0xC64B), (0xD79B, 0xC8FD)] @
   [(0xD79C, 0xC64C), (0xD79D, 0xC8FE), (0xD79E, 0xC64D), (0xD79F, 0xC64E), (0xD7A0, 0xC64F), (0xD7A1, 0xC650),
    (0xD7A2, 0xC651), (0xD7A3, 0xC652)] @
   [(0xF900, 0xCBD0), (0xF901, 0xCBD6), (0xF902, 0xCBE7), (0xF903, 0xCDCF), (0xF904, 0xCDE8), (0xF905, 0xCEAD),
    (0xF906, 0xCFFB), (0xF907, 0xD0A2)] @
   [(0xF908, 0xD0B8), (0xF909, 0xD0D0), (0xF90A, 0xD0DD), (0xF90B, 0xD1D4), (0xF90C, 0xD1D5), (0xF90D, 0xD1D8),
    (0xF90E, 0xD1DB), (0xF90F, 0xD1DC)] @
   [(0xF910, 0xD1DD), (0xF911, 0xD1DE), (0xF912, 0xD1DF), (0xF913, 0xD1E0), (0xF914, 0xD1E2), (0xF915, 0xD1E3),
    (0xF916, 0xD1E4), (0xF917, 0xD1E5)] @
   [(0xF918, 0xD1E6), (0xF919, 0xD1E8), (0xF91A, 0xD1E9), (0xF91B, 0xD1EA), (0xF91C, 0xD1EB), (0xF91D, 0xD1ED),
    (0xF91E, 0xD1EF), (0xF91F, 0xD1F0)] @
   [(0xF920, 0xD1F2), (0xF921, 0xD1F6), (0xF922, 0xD1FA), (0xF923, 0xD1FC), (0xF924, 0xD1FD), (0xF925, 0xD1FE),
    (0xF926, 0xD2A2), (0xF927, 0xD2A3)] @
   [(0xF928, 0xD2A7), (0xF929, 0xD2A8), (0xF92A, 0xD2A9), (0xF92B, 0xD2AA), (0xF92C, 0xD2AB), (0xF92D, 0xD2AD),
    (0xF92E, 0xD2B2), (0xF92F, 0xD2BE)] @
   [(0xF930, 0xD2C2), (0xF931, 0xD2C3), (0xF932, 0xD2C4), (0xF933, 0xD2C6), (0xF934, 0xD2C7), (0xF935, 0xD2C8),
    (0xF936, 0xD2C9), (0xF937, 0xD2CA)] @
   [(0xF938, 0xD2CB), (0xF939, 0xD2CD), (0xF93A, 0xD2CE), (0xF93B, 0xD2CF), (0xF93C, 0xD2D0), (0xF93D, 0xD2D1),
    (0xF93E, 0xD2D2), (0xF93F, 0xD2D3)] @
   [(0xF940, 0xD2D4), (0xF941, 0xD2D5), (0xF942, 0xD2D6), (0xF943, 0xD2D7), (0xF944, 0xD2D9), (0xF945, 0xD2DA),
    (0xF946, 0xD2DE), (0xF947, 0xD2DF)] @
   [(0xF948, 0xD2E1), (0xF949, 0xD2E2), (0xF94A, 0xD2E4), (0xF94B, 0xD2E5), (0xF94C, 0xD2E6), (0xF94D, 0xD2E7),
    (0xF94E, 0xD2E8), (0xF94F, 0xD2E9)] @
   [(0xF950, 0xD2EA), (0xF951, 0xD2EB), (0xF952, 0xD2F0), (0xF953, 0xD2F1), (0xF954, 0xD2F2), (0xF955, 0xD2F3),
    (0xF956, 0xD2F4), (0xF957, 0xD2F5)]"

definition rev_cp949_66 :: "(nat \<times> nat) list" where
  "rev_cp949_66 =
   [(0xF958, 0xD2F7), (0xF959, 0xD2F8), (0xF95A, 0xD4E6), (0xF95B, 0xD4FC), (0xF95C, 0xD5A5), (0xF95D, 0xD5AB),
    (0xF95E, 0xD5AE), (0xF95F, 0xD6B8)] @
   [(0xF960, 0xD6CD), (0xF961, 0xD7CB), (0xF962, 0xD7E4), (0xF963, 0xDBC5), (0xF964, 0xDBE4), (0xF965, 0xDCA5),
    (0xF966, 0xDDA5), (0xF967, 0xDDD5)] @
   [(0xF968, 0xDDF4), (0xF969, 0xDEFC), (0xF96A, 0xDEFE), (0xF96B, 0xDFB3), (0xF96C, 0xDFE1), (0xF96D, 0xDFE8),
    (0xF96E, 0xE0F1), (0xF96F, 0xE1AD)] @
   [(0xF970, 0xE1ED), (0xF971, 0xE3F5), (0xF972, 0xE4A1), (0xF973, 0xE4A9), (0xF974, 0xE5AE), (0xF975, 0xE5B1),
    (0xF976, 0xE5B2), (0xF977, 0xE5B9)] @
   [(0xF978, 0xE5BB), (0xF979, 0xE5BC), (0xF97A, 0xE5C4), (0xF97B, 0xE5CE), (0xF97C, 0xE5D0), (0xF97D, 0xE5D2),
    (0xF97E, 0xE5D6), (0xF97F, 0xE5FA)] @
   [(0xF980, 0xE5FB), (0xF981, 0xE5FC), (0xF982, 0xE5FE), (0xF983, 0xE6A1), (0xF984, 0xE6A4), (0xF985, 0xE6A7),
    (0xF986, 0xE6AD), (0xF987, 0xE6AF)] @
   [(0xF988, 0xE6B0), (0xF989, 0xE6B1), (0xF98A, 0xE6B3), (0xF98B, 0xE6B7), (0xF98C, 0xE6B8), (0xF98D, 0xE6BC),
    (0xF98E, 0xE6C4), (0xF98F, 0xE6C6)] @
   [(0xF990, 0xE6C7), (0xF991, 0xE6CA), (0xF992, 0xE6D2), (0xF993, 0xE6D6), (0xF994, 0xE6D9), (0xF995, 0xE6DC),
    (0xF996, 0xE6DF), (0xF997, 0xE6E1)] @
   [(0xF998, 0xE6E4), (0xF999, 0xE6E5), (0xF99A, 0xE6E6), (0xF99B, 0xE6E8), (0xF99C, 0xE6EA), (0xF99D, 0xE6EB),
    (0xF99E, 0xE6EC), (0xF99F, 0xE6EF)] @
   [(0xF9A0, 0xE6F1), (0xF9A1, 0xE6F2), (0xF9A2, 0xE6F5), (0xF9A3, 0xE6F6), (0xF9A4, 0xE6F7), (0xF9A5, 0xE6F9),
    (0xF9A6, 0xE7A1), (0xF9A7, 0xE7A6)] @
   [(0xF9A8, 0xE7A9), (0xF9A9, 0xE7AA), (0xF9AA, 0xE7AC), (0xF9AB, 0xE7AD), (0xF9AC, 0xE7B0), (0xF9AD, 0xE7BF),
    (0xF9AE, 0xE7C1), (0xF9AF, 0xE7C6)] @
   [(0xF9B0, 0xE7C7), (0xF9B1, 0xE7CB), (0xF9B2, 0xE7CD), (0xF9B3, 0xE7CF), (0xF9B4, 0xE7D0), (0xF9B5, 0xE7D3),
    (0xF9B6, 0xE7DF), (0xF9B7, 0xE7E4)] @
   [(0xF9B8, 0xE7E6), (0xF9B9, 0xE7F7), (0xF9BA, 0xE8E7), (0xF9BB, 0xE8E8), (0xF9BC, 0xE8F0), (0xF9BD, 0xE8F1),
    (0xF9BE, 0xE8F7), (0xF9BF, 0xE8F9)] @
   [(0xF9C0, 0xE8FB), (0xF9C1, 0xE8FE), (0xF9C2, 0xE9A7), (0xF9C3, 0xE9AC), (0xF9C4, 0xE9CC), (0xF9C5, 0xE9F7),
    (0xF9C6, 0xEAC1), (0xF9C7, 0xEAE5)] @
   [(0xF9C8, 0xEAF4), (0xF9C9, 0xEAF7), (0xF9CA, 0xEAFC), (0xF9CB, 0xEAFE), (0xF9CC, 0xEBA4), (0xF9CD, 0xEBA7),
    (0xF9CE, 0xEBA9), (0xF9CF, 0xEBAA)] @
   [(0xF9D0, 0xEBBA), (0xF9D1, 0xEBBB), (0xF9D2, 0xEBBD), (0xF9D3, 0xEBC1), (0xF9D4, 0xEBC2), (0xF9D5, 0xEBC6),
    (0xF9D6, 0xEBC7), (0xF9D7, 0xEBCC)] @
   [(0xF9D8, 0xEBCF), (0xF9D9, 0xEBD0), (0xF9DA, 0xEBD1), (0xF9DB, 0xEBD2), (0xF9DC, 0xEBD8), (0xF9DD, 0xECA6),
    (0xF9DE, 0xECA7), (0xF9DF, 0xECAA)] @
   [(0xF9E0, 0xECAF), (0xF9E1, 0xECB0), (0xF9E2, 0xECB1), (0xF9E3, 0xECB2), (0xF9E4, 0xECB5), (0xF9E5, 0xECB8),
    (0xF9E6, 0xECBA), (0xF9E7, 0xECC0)] @
   [(0xF9E8, 0xECC1), (0xF9E9, 0xECC5), (0xF9EA, 0xECC6), (0xF9EB, 0xECC9), (0xF9EC, 0xECCA), (0xF9ED, 0xECD5),
    (0xF9EE, 0xECDD), (0xF9EF, 0xECDE)] @
   [(0xF9F0, 0xECE1), (0xF9F1, 0xECE4), (0xF9F2, 0xECE7), (0xF9F3, 0xECE8), (0xF9F4, 0xECF7), (0xF9F5, 0xECF8),
    (0xF9F6, 0xECFA), (0xF9F7, 0xEDA1)] @
   [(0xF9F8, 0xEDA2), (0xF9F9, 0xEDA3), (0xF9FA, 0xEDEE), (0xF9FB, 0xEEDB), (0xF9FC, 0xF2BD), (0xF9FD, 0xF2FA),
    (0xF9FE, 0xF3B1), (0xF9FF, 0xF4A7)] @
   [(0xFA00, 0xF4EE), (0xFA01, 0xF6F4), (0xFA02, 0xF6F6), (0xFA03, 0xF7B8), (0xFA04, 0xF7C8), (0xFA05, 0xF7D3),
    (0xFA06, 0xF8DB), (0xFA07, 0xF8F0)] @
   [(0xFA08, 0xFAA1), (0xFA09, 0xFAA2), (0xFA0A, 0xFAE6), (0xFA0B, 0xFCA9), (0xFF01, 0xA3A1), (0xFF02, 0xA3A2),
    (0xFF03, 0xA3A3), (0xFF04, 0xA3A4)] @
   [(0xFF05, 0xA3A5), (0xFF06, 0xA3A6), (0xFF07, 0xA3A7), (0xFF08, 0xA3A8), (0xFF09, 0xA3A9), (0xFF0A, 0xA3AA),
    (0xFF0B, 0xA3AB), (0xFF0C, 0xA3AC)] @
   [(0xFF0D, 0xA3AD), (0xFF0E, 0xA3AE), (0xFF0F, 0xA3AF), (0xFF10, 0xA3B0), (0xFF11, 0xA3B1), (0xFF12, 0xA3B2),
    (0xFF13, 0xA3B3), (0xFF14, 0xA3B4)] @
   [(0xFF15, 0xA3B5), (0xFF16, 0xA3B6), (0xFF17, 0xA3B7), (0xFF18, 0xA3B8), (0xFF19, 0xA3B9), (0xFF1A, 0xA3BA),
    (0xFF1B, 0xA3BB), (0xFF1C, 0xA3BC)] @
   [(0xFF1D, 0xA3BD), (0xFF1E, 0xA3BE), (0xFF1F, 0xA3BF), (0xFF20, 0xA3C0), (0xFF21, 0xA3C1), (0xFF22, 0xA3C2),
    (0xFF23, 0xA3C3), (0xFF24, 0xA3C4)] @
   [(0xFF25, 0xA3C5), (0xFF26, 0xA3C6), (0xFF27, 0xA3C7), (0xFF28, 0xA3C8), (0xFF29, 0xA3C9), (0xFF2A, 0xA3CA),
    (0xFF2B, 0xA3CB), (0xFF2C, 0xA3CC)] @
   [(0xFF2D, 0xA3CD), (0xFF2E, 0xA3CE), (0xFF2F, 0xA3CF), (0xFF30, 0xA3D0), (0xFF31, 0xA3D1), (0xFF32, 0xA3D2),
    (0xFF33, 0xA3D3), (0xFF34, 0xA3D4)] @
   [(0xFF35, 0xA3D5), (0xFF36, 0xA3D6), (0xFF37, 0xA3D7), (0xFF38, 0xA3D8), (0xFF39, 0xA3D9), (0xFF3A, 0xA3DA),
    (0xFF3B, 0xA3DB), (0xFF3C, 0xA1AC)] @
   [(0xFF3D, 0xA3DD), (0xFF3E, 0xA3DE), (0xFF3F, 0xA3DF), (0xFF40, 0xA3E0), (0xFF41, 0xA3E1), (0xFF42, 0xA3E2),
    (0xFF43, 0xA3E3), (0xFF44, 0xA3E4)] @
   [(0xFF45, 0xA3E5), (0xFF46, 0xA3E6), (0xFF47, 0xA3E7), (0xFF48, 0xA3E8), (0xFF49, 0xA3E9), (0xFF4A, 0xA3EA),
    (0xFF4B, 0xA3EB), (0xFF4C, 0xA3EC)]"

definition rev_cp949_67 :: "(nat \<times> nat) list" where
  "rev_cp949_67 =
   [(0xFF4D, 0xA3ED), (0xFF4E, 0xA3EE), (0xFF4F, 0xA3EF), (0xFF50, 0xA3F0), (0xFF51, 0xA3F1), (0xFF52, 0xA3F2),
    (0xFF53, 0xA3F3), (0xFF54, 0xA3F4)] @
   [(0xFF55, 0xA3F5), (0xFF56, 0xA3F6), (0xFF57, 0xA3F7), (0xFF58, 0xA3F8), (0xFF59, 0xA3F9), (0xFF5A, 0xA3FA),
    (0xFF5B, 0xA3FB), (0xFF5C, 0xA3FC)] @
   [(0xFF5D, 0xA3FD), (0xFF5E, 0xA2A6), (0xFFE0, 0xA1CB), (0xFFE1, 0xA1CC), (0xFFE2, 0xA1FE), (0xFFE3, 0xA3FE),
    (0xFFE5, 0xA1CD), (0xFFE6, 0xA3DC)]"

end
