(* ===== verification/Cp949.thy ===== *)
theory Cp949
  imports Cp949Lead Cp949RevA Cp949RevB
begin

text \<open>
  Page 949 of \<^verbatim>\<open>src/src/charset_tables_data.c\<close>, put together.
\<close>

definition rev_cp949 :: "(nat \<times> nat) list" where
  "rev_cp949 = concat [
   rev_cp949_0, rev_cp949_1, rev_cp949_2, rev_cp949_3, rev_cp949_4, rev_cp949_5, rev_cp949_6, rev_cp949_7,
   rev_cp949_8, rev_cp949_9, rev_cp949_10, rev_cp949_11, rev_cp949_12, rev_cp949_13, rev_cp949_14,
   rev_cp949_15, rev_cp949_16, rev_cp949_17, rev_cp949_18, rev_cp949_19, rev_cp949_20, rev_cp949_21,
   rev_cp949_22, rev_cp949_23, rev_cp949_24, rev_cp949_25, rev_cp949_26, rev_cp949_27, rev_cp949_28,
   rev_cp949_29, rev_cp949_30, rev_cp949_31, rev_cp949_32, rev_cp949_33, rev_cp949_34, rev_cp949_35,
   rev_cp949_36, rev_cp949_37, rev_cp949_38, rev_cp949_39, rev_cp949_40, rev_cp949_41, rev_cp949_42,
   rev_cp949_43, rev_cp949_44, rev_cp949_45, rev_cp949_46, rev_cp949_47, rev_cp949_48, rev_cp949_49,
   rev_cp949_50, rev_cp949_51, rev_cp949_52, rev_cp949_53, rev_cp949_54, rev_cp949_55, rev_cp949_56,
   rev_cp949_57, rev_cp949_58, rev_cp949_59, rev_cp949_60, rev_cp949_61, rev_cp949_62, rev_cp949_63,
   rev_cp949_64, rev_cp949_65, rev_cp949_66, rev_cp949_67]"

definition page_949 :: CpPage where
  "page_949 = db_page 949 dec1_cp949 lead_cp949 leadrow_cp949 rows_cp949 rev_cp949"

end
