(* ===== verification/Cp950Lead.thy ===== *)
theory Cp950Lead
  imports Cp950RowsA Cp950RowsB
begin

text \<open>
  Page 950 of \<^verbatim>\<open>src/src/charset_tables_data.c\<close>: its single bytes, its lead bytes and the order of
  its rows, and the lookups that they give.
\<close>

definition dec1_cp950 :: "nat list" where
  "dec1_cp950 =
   [0x0000, 0x0001, 0x0002, 0x0003, 0x0004, 0x0005, 0x0006, 0x0007, 0x0008, 0x0009, 0x000A, 0x000B, 0x000C,
    0x000D, 0x000E, 0x000F, 0x0010, 0x0011, 0x0012, 0x0013, 0x0014, 0x0015, 0x0016, 0x0017, 0x0018, 0x0019,
    0x001A, 0x001B, 0x001C, 0x001D, 0x001E, 0x001F] @
   [0x0020, 0x0021, 0x0022, 0x0023, 0x0024, 0x0025, 0x0026, 0x0027, 0x0028, 0x0029, 0x002A, 0x002B, 0x002C,
    0x002D, 0x002E, 0x002F, 0x0030, 0x0031, 0x0032, 0x0033, 0x0034, 0x0035, 0x0036, 0x0037, 0x0038, 0x0039,
    0x003A, 0x003B, 0x003C, 0x003D, 0x003E, 0x003F] @
   [0x0040, 0x0041, 0x0042, 0x0043, 0x0044, 0x0045, 0x0046, 0x0047, 0x0048, 0x0049, 0x004A, 0x004B, 0x004C,
    0x004D, 0x004E, 0x004F, 0x0050, 0x0051, 0x0052, 0x0053, 0x0054, 0x0055, 0x0056, 0x0057, 0x0058, 0x0059,
    0x005A, 0x005B, 0x005C, 0x005D, 0x005E, 0x005F] @
   [0x0060, 0x0061, 0x0062, 0x0063, 0x0064, 0x0065, 0x0066, 0x0067, 0x0068, 0x0069, 0x006A, 0x006B, 0x006C,
    0x006D, 0x006E, 0x006F, 0x0070, 0x0071, 0x0072, 0x0073, 0x0074, 0x0075, 0x0076, 0x0077, 0x0078, 0x0079,
    0x007A, 0x007B, 0x007C, 0x007D, 0x007E, 0x007F] @
   [0xFFFD, 0xFFFD, 0xFFFD, 0xFFFD, 0xFFFD, 0xFFFD, 0xFFFD, 0xFFFD, 0xFFFD, 0xFFFD, 0xFFFD, 0xFFFD, 0xFFFD,
    0xFFFD, 0xFFFD, 0xFFFD, 0xFFFD, 0xFFFD, 0xFFFD, 0xFFFD, 0xFFFD, 0xFFFD, 0xFFFD, 0xFFFD, 0xFFFD, 0xFFFD,
    0xFFFD, 0xFFFD, 0xFFFD, 0xFFFD, 0xFFFD, 0xFFFD] @
   [0xFFFD, 0xFFFD, 0xFFFD, 0xFFFD, 0xFFFD, 0xFFFD, 0xFFFD, 0xFFFD, 0xFFFD, 0xFFFD, 0xFFFD, 0xFFFD, 0xFFFD,
    0xFFFD, 0xFFFD, 0xFFFD, 0xFFFD, 0xFFFD, 0xFFFD, 0xFFFD, 0xFFFD, 0xFFFD, 0xFFFD, 0xFFFD, 0xFFFD, 0xFFFD,
    0xFFFD, 0xFFFD, 0xFFFD, 0xFFFD, 0xFFFD, 0xFFFD] @
   [0xFFFD, 0xFFFD, 0xFFFD, 0xFFFD, 0xFFFD, 0xFFFD, 0xFFFD, 0xFFFD, 0xFFFD, 0xFFFD, 0xFFFD, 0xFFFD, 0xFFFD,
    0xFFFD, 0xFFFD, 0xFFFD, 0xFFFD, 0xFFFD, 0xFFFD, 0xFFFD, 0xFFFD, 0xFFFD, 0xFFFD, 0xFFFD, 0xFFFD, 0xFFFD,
    0xFFFD, 0xFFFD, 0xFFFD, 0xFFFD, 0xFFFD, 0xFFFD] @
   [0xFFFD, 0xFFFD, 0xFFFD, 0xFFFD, 0xFFFD, 0xFFFD, 0xFFFD, 0xFFFD, 0xFFFD, 0xFFFD, 0xFFFD, 0xFFFD, 0xFFFD,
    0xFFFD, 0xFFFD, 0xFFFD, 0xFFFD, 0xFFFD, 0xFFFD, 0xFFFD, 0xFFFD, 0xFFFD, 0xFFFD, 0xFFFD, 0xFFFD, 0xFFFD,
    0xFFFD, 0xFFFD, 0xFFFD, 0xFFFD, 0xFFFD, 0xFFFD]"

lemmas dec1_at_950 = row_nth [OF dec1_cp950_def]

definition lead_cp950 :: "nat list" where
  "lead_cp950 =
   [0, 0, 0, 0, 0, 0, 0, 0, 0, 0, 0, 0, 0, 0, 0, 0, 0, 0, 0, 0, 0, 0, 0, 0, 0, 0, 0, 0, 0, 0, 0, 0] @
   [0, 0, 0, 0, 0, 0, 0, 0, 0, 0, 0, 0, 0, 0, 0, 0, 0, 0, 0, 0, 0, 0, 0, 0, 0, 0, 0, 0, 0, 0, 0, 0] @
   [0, 0, 0, 0, 0, 0, 0, 0, 0, 0, 0, 0, 0, 0, 0, 0, 0, 0, 0, 0, 0, 0, 0, 0, 0, 0, 0, 0, 0, 0, 0, 0] @
   [0, 0, 0, 0, 0, 0, 0, 0, 0, 0, 0, 0, 0, 0, 0, 0, 0, 0, 0, 0, 0, 0, 0, 0, 0, 0, 0, 0, 0, 0, 0, 0] @
   [0, 1, 1, 1, 1, 1, 1, 1, 1, 1, 1, 1, 1, 1, 1, 1, 1, 1, 1, 1, 1, 1, 1, 1, 1, 1, 1, 1, 1, 1, 1, 1] @
   [1, 1, 1, 1, 1, 1, 1, 1, 1, 1, 1, 1, 1, 1, 1, 1, 1, 1, 1, 1, 1, 1, 1, 1, 1, 1, 1, 1, 1, 1, 1, 1] @
   [1, 1, 1, 1, 1, 1, 1, 1, 1, 1, 1, 1, 1, 1, 1, 1, 1, 1, 1, 1, 1, 1, 1, 1, 1, 1, 1, 1, 1, 1, 1, 1] @
   [1, 1, 1, 1, 1, 1, 1, 1, 1, 1, 1, 1, 1, 1, 1, 1, 1, 1, 1, 1, 1, 1, 1, 1, 1, 1, 1, 1, 1, 1, 1, 0]"

lemmas lead_at_950 = row_nth [OF lead_cp950_def]

definition leadrow_cp950 :: "int list" where
  "leadrow_cp950 =
   [- 1, - 1, - 1, - 1, - 1, - 1, - 1, - 1, - 1, - 1, - 1, - 1, - 1, - 1, - 1, - 1, - 1, - 1, - 1, - 1, - 1,
    - 1, - 1, - 1, - 1, - 1, - 1, - 1, - 1, - 1, - 1, - 1] @
   [- 1, - 1, - 1, - 1, - 1, - 1, - 1, - 1, - 1, - 1, - 1, - 1, - 1, - 1, - 1, - 1, - 1, - 1, - 1, - 1, - 1,
    - 1, - 1, - 1, - 1, - 1, - 1, - 1, - 1, - 1, - 1, - 1] @
   [- 1, - 1, - 1, - 1, - 1, - 1, - 1, - 1, - 1, - 1, - 1, - 1, - 1, - 1, - 1, - 1, - 1, - 1, - 1, - 1, - 1,
    - 1, - 1, - 1, - 1, - 1, - 1, - 1, - 1, - 1, - 1, - 1] @
   [- 1, - 1, - 1, - 1, - 1, - 1, - 1, - 1, - 1, - 1, - 1, - 1, - 1, - 1, - 1, - 1, - 1, - 1, - 1, - 1, - 1,
    - 1, - 1, - 1, - 1, - 1, - 1, - 1, - 1, - 1, - 1, - 1] @
   [- 1, 0, 1, 2, 3, 4, 5, 6, 7, 8, 9, 10, 11, 12, 13, 14, 15, 16, 17, 18, 19, 20, 21, 22, 23, 24, 25, 26, 27,
    28, 29, 30] @
   [31, 32, 33, 34, 35, 36, 37, 38, 39, 40, 41, 42, 43, 44, 45, 46, 47, 48, 49, 50, 51, 52, 53, 54, 55, 56, 57,
    58, 59, 60, 61, 62] @
   [63, 64, 65, 66, 67, 68, 69, 70, 71, 72, 73, 74, 75, 76, 77, 78, 79, 80, 81, 82, 83, 84, 85, 86, 87, 88, 89,
    90, 91, 92, 93, 94] @
   [95, 96, 97, 98, 99, 100, 101, 102, 103, 104, 105, 106, 107, 108, 109, 110, 111, 112, 113, 114, 115, 116,
    117, 118, 119, 120, 121, 122, 123, 124, 125, - 1]"

lemmas order_at_950 = row_nth [OF leadrow_cp950_def]

definition rows_cp950 :: "nat list list" where
  "rows_cp950 = [
   dec2_cp950_0, dec2_cp950_1, dec2_cp950_2, dec2_cp950_3, dec2_cp950_4, dec2_cp950_5, dec2_cp950_6,
   dec2_cp950_7, dec2_cp950_8, dec2_cp950_9, dec2_cp950_10, dec2_cp950_11, dec2_cp950_12, dec2_cp950_13,
   dec2_cp950_14, dec2_cp950_15, dec2_cp950_16, dec2_cp950_17, dec2_cp950_18, dec2_cp950_19, dec2_cp950_20,
   dec2_cp950_21, dec2_cp950_22, dec2_cp950_23, dec2_cp950_24, dec2_cp950_25, dec2_cp950_26, dec2_cp950_27,
   dec2_cp950_28, dec2_cp950_29, dec2_cp950_30, dec2_cp950_31, dec2_cp950_32, dec2_cp950_33, dec2_cp950_34,
   dec2_cp950_35, dec2_cp950_36, dec2_cp950_37, dec2_cp950_38, dec2_cp950_39, dec2_cp950_40, dec2_cp950_41,
   dec2_cp950_42, dec2_cp950_43, dec2_cp950_44, dec2_cp950_45, dec2_cp950_46, dec2_cp950_47, dec2_cp950_48,
   dec2_cp950_49, dec2_cp950_50, dec2_cp950_51, dec2_cp950_52, dec2_cp950_53, dec2_cp950_54, dec2_cp950_55,
   dec2_cp950_56, dec2_cp950_57, dec2_cp950_58, dec2_cp950_59, dec2_cp950_60, dec2_cp950_61, dec2_cp950_62,
   dec2_cp950_63, dec2_cp950_64, dec2_cp950_65, dec2_cp950_66, dec2_cp950_67, dec2_cp950_68, dec2_cp950_69,
   dec2_cp950_70, dec2_cp950_71, dec2_cp950_72, dec2_cp950_73, dec2_cp950_74, dec2_cp950_75, dec2_cp950_76,
   dec2_cp950_77, dec2_cp950_78, dec2_cp950_79, dec2_cp950_80, dec2_cp950_81, dec2_cp950_82, dec2_cp950_83,
   dec2_cp950_84, dec2_cp950_85, dec2_cp950_86, dec2_cp950_87, dec2_cp950_88, dec2_cp950_89, dec2_cp950_90,
   dec2_cp950_91, dec2_cp950_92, dec2_cp950_93, dec2_cp950_94, dec2_cp950_95, dec2_cp950_96, dec2_cp950_97,
   dec2_cp950_98, dec2_cp950_99, dec2_cp950_100, dec2_cp950_101, dec2_cp950_102, dec2_cp950_103,
   dec2_cp950_104, dec2_cp950_105, dec2_cp950_106, dec2_cp950_107, dec2_cp950_108, dec2_cp950_109,
   dec2_cp950_110, dec2_cp950_111, dec2_cp950_112, dec2_cp950_113, dec2_cp950_114, dec2_cp950_115,
   dec2_cp950_116, dec2_cp950_117, dec2_cp950_118, dec2_cp950_119, dec2_cp950_120, dec2_cp950_121,
   dec2_cp950_122, dec2_cp950_123, dec2_cp950_124, dec2_cp950_125]"

abbreviation trails_950 :: "nat \<Rightarrow> nat list option" where
  "trails_950 \<equiv> trail_row lead_cp950 leadrow_cp950 rows_cp950"

abbreviation single_950 :: "nat \<Rightarrow> nat option" where
  "single_950 \<equiv> single_unit lead_cp950 dec1_cp950"

lemma row_at_950:
  "rows_cp950 ! 0 = dec2_cp950_0"
  "rows_cp950 ! Suc 0 = dec2_cp950_1"
  "rows_cp950 ! 2 = dec2_cp950_2"
  "rows_cp950 ! 3 = dec2_cp950_3"
  "rows_cp950 ! 4 = dec2_cp950_4"
  "rows_cp950 ! 5 = dec2_cp950_5"
  "rows_cp950 ! 6 = dec2_cp950_6"
  "rows_cp950 ! 7 = dec2_cp950_7"
  "rows_cp950 ! 8 = dec2_cp950_8"
  "rows_cp950 ! 9 = dec2_cp950_9"
  "rows_cp950 ! 10 = dec2_cp950_10"
  "rows_cp950 ! 11 = dec2_cp950_11"
  "rows_cp950 ! 12 = dec2_cp950_12"
  "rows_cp950 ! 13 = dec2_cp950_13"
  "rows_cp950 ! 14 = dec2_cp950_14"
  "rows_cp950 ! 15 = dec2_cp950_15"
  "rows_cp950 ! 16 = dec2_cp950_16"
  "rows_cp950 ! 17 = dec2_cp950_17"
  "rows_cp950 ! 18 = dec2_cp950_18"
  "rows_cp950 ! 19 = dec2_cp950_19"
  "rows_cp950 ! 20 = dec2_cp950_20"
  "rows_cp950 ! 21 = dec2_cp950_21"
  "rows_cp950 ! 22 = dec2_cp950_22"
  "rows_cp950 ! 23 = dec2_cp950_23"
  "rows_cp950 ! 24 = dec2_cp950_24"
  "rows_cp950 ! 25 = dec2_cp950_25"
  "rows_cp950 ! 26 = dec2_cp950_26"
  "rows_cp950 ! 27 = dec2_cp950_27"
  "rows_cp950 ! 28 = dec2_cp950_28"
  "rows_cp950 ! 29 = dec2_cp950_29"
  "rows_cp950 ! 30 = dec2_cp950_30"
  "rows_cp950 ! 31 = dec2_cp950_31"
  "rows_cp950 ! 32 = dec2_cp950_32"
  "rows_cp950 ! 33 = dec2_cp950_33"
  "rows_cp950 ! 34 = dec2_cp950_34"
  "rows_cp950 ! 35 = dec2_cp950_35"
  "rows_cp950 ! 36 = dec2_cp950_36"
  "rows_cp950 ! 37 = dec2_cp950_37"
  "rows_cp950 ! 38 = dec2_cp950_38"
  "rows_cp950 ! 39 = dec2_cp950_39"
  "rows_cp950 ! 40 = dec2_cp950_40"
  "rows_cp950 ! 41 = dec2_cp950_41"
  "rows_cp950 ! 42 = dec2_cp950_42"
  "rows_cp950 ! 43 = dec2_cp950_43"
  "rows_cp950 ! 44 = dec2_cp950_44"
  "rows_cp950 ! 45 = dec2_cp950_45"
  "rows_cp950 ! 46 = dec2_cp950_46"
  "rows_cp950 ! 47 = dec2_cp950_47"
  "rows_cp950 ! 48 = dec2_cp950_48"
  "rows_cp950 ! 49 = dec2_cp950_49"
  "rows_cp950 ! 50 = dec2_cp950_50"
  "rows_cp950 ! 51 = dec2_cp950_51"
  "rows_cp950 ! 52 = dec2_cp950_52"
  "rows_cp950 ! 53 = dec2_cp950_53"
  "rows_cp950 ! 54 = dec2_cp950_54"
  "rows_cp950 ! 55 = dec2_cp950_55"
  "rows_cp950 ! 56 = dec2_cp950_56"
  "rows_cp950 ! 57 = dec2_cp950_57"
  "rows_cp950 ! 58 = dec2_cp950_58"
  "rows_cp950 ! 59 = dec2_cp950_59"
  "rows_cp950 ! 60 = dec2_cp950_60"
  "rows_cp950 ! 61 = dec2_cp950_61"
  "rows_cp950 ! 62 = dec2_cp950_62"
  "rows_cp950 ! 63 = dec2_cp950_63"
  "rows_cp950 ! 64 = dec2_cp950_64"
  "rows_cp950 ! 65 = dec2_cp950_65"
  "rows_cp950 ! 66 = dec2_cp950_66"
  "rows_cp950 ! 67 = dec2_cp950_67"
  "rows_cp950 ! 68 = dec2_cp950_68"
  "rows_cp950 ! 69 = dec2_cp950_69"
  "rows_cp950 ! 70 = dec2_cp950_70"
  "rows_cp950 ! 71 = dec2_cp950_71"
  "rows_cp950 ! 72 = dec2_cp950_72"
  "rows_cp950 ! 73 = dec2_cp950_73"
  "rows_cp950 ! 74 = dec2_cp950_74"
  "rows_cp950 ! 75 = dec2_cp950_75"
  "rows_cp950 ! 76 = dec2_cp950_76"
  "rows_cp950 ! 77 = dec2_cp950_77"
  "rows_cp950 ! 78 = dec2_cp950_78"
  "rows_cp950 ! 79 = dec2_cp950_79"
  "rows_cp950 ! 80 = dec2_cp950_80"
  "rows_cp950 ! 81 = dec2_cp950_81"
  "rows_cp950 ! 82 = dec2_cp950_82"
  "rows_cp950 ! 83 = dec2_cp950_83"
  "rows_cp950 ! 84 = dec2_cp950_84"
  "rows_cp950 ! 85 = dec2_cp950_85"
  "rows_cp950 ! 86 = dec2_cp950_86"
  "rows_cp950 ! 87 = dec2_cp950_87"
  "rows_cp950 ! 88 = dec2_cp950_88"
  "rows_cp950 ! 89 = dec2_cp950_89"
  "rows_cp950 ! 90 = dec2_cp950_90"
  "rows_cp950 ! 91 = dec2_cp950_91"
  "rows_cp950 ! 92 = dec2_cp950_92"
  "rows_cp950 ! 93 = dec2_cp950_93"
  "rows_cp950 ! 94 = dec2_cp950_94"
  "rows_cp950 ! 95 = dec2_cp950_95"
  "rows_cp950 ! 96 = dec2_cp950_96"
  "rows_cp950 ! 97 = dec2_cp950_97"
  "rows_cp950 ! 98 = dec2_cp950_98"
  "rows_cp950 ! 99 = dec2_cp950_99"
  "rows_cp950 ! 100 = dec2_cp950_100"
  "rows_cp950 ! 101 = dec2_cp950_101"
  "rows_cp950 ! 102 = dec2_cp950_102"
  "rows_cp950 ! 103 = dec2_cp950_103"
  "rows_cp950 ! 104 = dec2_cp950_104"
  "rows_cp950 ! 105 = dec2_cp950_105"
  "rows_cp950 ! 106 = dec2_cp950_106"
  "rows_cp950 ! 107 = dec2_cp950_107"
  "rows_cp950 ! 108 = dec2_cp950_108"
  "rows_cp950 ! 109 = dec2_cp950_109"
  "rows_cp950 ! 110 = dec2_cp950_110"
  "rows_cp950 ! 111 = dec2_cp950_111"
  "rows_cp950 ! 112 = dec2_cp950_112"
  "rows_cp950 ! 113 = dec2_cp950_113"
  "rows_cp950 ! 114 = dec2_cp950_114"
  "rows_cp950 ! 115 = dec2_cp950_115"
  "rows_cp950 ! 116 = dec2_cp950_116"
  "rows_cp950 ! 117 = dec2_cp950_117"
  "rows_cp950 ! 118 = dec2_cp950_118"
  "rows_cp950 ! 119 = dec2_cp950_119"
  "rows_cp950 ! 120 = dec2_cp950_120"
  "rows_cp950 ! 121 = dec2_cp950_121"
  "rows_cp950 ! 122 = dec2_cp950_122"
  "rows_cp950 ! 123 = dec2_cp950_123"
  "rows_cp950 ! 124 = dec2_cp950_124"
  "rows_cp950 ! 125 = dec2_cp950_125"
  by (simp_all add: table_entries [OF rows_cp950_def, simplified])

lemma trail_at_950:
  "trails_950 0 = None"
  "trails_950 129 = Some dec2_cp950_0"
  "trails_950 130 = Some dec2_cp950_1"
  "trails_950 131 = Some dec2_cp950_2"
  "trails_950 132 = Some dec2_cp950_3"
  "trails_950 133 = Some dec2_cp950_4"
  "trails_950 134 = Some dec2_cp950_5"
  "trails_950 135 = Some dec2_cp950_6"
  "trails_950 136 = Some dec2_cp950_7"
  "trails_950 137 = Some dec2_cp950_8"
  "trails_950 138 = Some dec2_cp950_9"
  "trails_950 139 = Some dec2_cp950_10"
  "trails_950 140 = Some dec2_cp950_11"
  "trails_950 141 = Some dec2_cp950_12"
  "trails_950 142 = Some dec2_cp950_13"
  "trails_950 143 = Some dec2_cp950_14"
  "trails_950 144 = Some dec2_cp950_15"
  "trails_950 145 = Some dec2_cp950_16"
  "trails_950 146 = Some dec2_cp950_17"
  "trails_950 147 = Some dec2_cp950_18"
  "trails_950 148 = Some dec2_cp950_19"
  "trails_950 149 = Some dec2_cp950_20"
  "trails_950 150 = Some dec2_cp950_21"
  "trails_950 151 = Some dec2_cp950_22"
  "trails_950 152 = Some dec2_cp950_23"
  "trails_950 153 = Some dec2_cp950_24"
  "trails_950 154 = Some dec2_cp950_25"
  "trails_950 155 = Some dec2_cp950_26"
  "trails_950 156 = Some dec2_cp950_27"
  "trails_950 157 = Some dec2_cp950_28"
  "trails_950 158 = Some dec2_cp950_29"
  "trails_950 159 = Some dec2_cp950_30"
  "trails_950 160 = Some dec2_cp950_31"
  "trails_950 161 = Some dec2_cp950_32"
  "trails_950 162 = Some dec2_cp950_33"
  "trails_950 163 = Some dec2_cp950_34"
  "trails_950 164 = Some dec2_cp950_35"
  "trails_950 165 = Some dec2_cp950_36"
  "trails_950 166 = Some dec2_cp950_37"
  "trails_950 167 = Some dec2_cp950_38"
  "trails_950 168 = Some dec2_cp950_39"
  "trails_950 169 = Some dec2_cp950_40"
  "trails_950 170 = Some dec2_cp950_41"
  "trails_950 171 = Some dec2_cp950_42"
  "trails_950 172 = Some dec2_cp950_43"
  "trails_950 173 = Some dec2_cp950_44"
  "trails_950 174 = Some dec2_cp950_45"
  "trails_950 175 = Some dec2_cp950_46"
  "trails_950 176 = Some dec2_cp950_47"
  "trails_950 177 = Some dec2_cp950_48"
  "trails_950 178 = Some dec2_cp950_49"
  "trails_950 179 = Some dec2_cp950_50"
  "trails_950 180 = Some dec2_cp950_51"
  "trails_950 181 = Some dec2_cp950_52"
  "trails_950 182 = Some dec2_cp950_53"
  "trails_950 183 = Some dec2_cp950_54"
  "trails_950 184 = Some dec2_cp950_55"
  "trails_950 185 = Some dec2_cp950_56"
  "trails_950 186 = Some dec2_cp950_57"
  "trails_950 187 = Some dec2_cp950_58"
  "trails_950 188 = Some dec2_cp950_59"
  "trails_950 189 = Some dec2_cp950_60"
  "trails_950 190 = Some dec2_cp950_61"
  "trails_950 191 = Some dec2_cp950_62"
  "trails_950 192 = Some dec2_cp950_63"
  "trails_950 193 = Some dec2_cp950_64"
  "trails_950 194 = Some dec2_cp950_65"
  "trails_950 195 = Some dec2_cp950_66"
  "trails_950 196 = Some dec2_cp950_67"
  "trails_950 197 = Some dec2_cp950_68"
  "trails_950 198 = Some dec2_cp950_69"
  "trails_950 199 = Some dec2_cp950_70"
  "trails_950 200 = Some dec2_cp950_71"
  "trails_950 201 = Some dec2_cp950_72"
  "trails_950 202 = Some dec2_cp950_73"
  "trails_950 203 = Some dec2_cp950_74"
  "trails_950 204 = Some dec2_cp950_75"
  "trails_950 205 = Some dec2_cp950_76"
  "trails_950 206 = Some dec2_cp950_77"
  "trails_950 207 = Some dec2_cp950_78"
  "trails_950 208 = Some dec2_cp950_79"
  "trails_950 209 = Some dec2_cp950_80"
  "trails_950 210 = Some dec2_cp950_81"
  "trails_950 211 = Some dec2_cp950_82"
  "trails_950 212 = Some dec2_cp950_83"
  "trails_950 213 = Some dec2_cp950_84"
  "trails_950 214 = Some dec2_cp950_85"
  "trails_950 215 = Some dec2_cp950_86"
  "trails_950 216 = Some dec2_cp950_87"
  "trails_950 217 = Some dec2_cp950_88"
  "trails_950 218 = Some dec2_cp950_89"
  "trails_950 219 = Some dec2_cp950_90"
  "trails_950 220 = Some dec2_cp950_91"
  "trails_950 221 = Some dec2_cp950_92"
  "trails_950 222 = Some dec2_cp950_93"
  "trails_950 223 = Some dec2_cp950_94"
  "trails_950 224 = Some dec2_cp950_95"
  "trails_950 225 = Some dec2_cp950_96"
  "trails_950 226 = Some dec2_cp950_97"
  "trails_950 227 = Some dec2_cp950_98"
  "trails_950 228 = Some dec2_cp950_99"
  "trails_950 229 = Some dec2_cp950_100"
  "trails_950 230 = Some dec2_cp950_101"
  "trails_950 231 = Some dec2_cp950_102"
  "trails_950 232 = Some dec2_cp950_103"
  "trails_950 233 = Some dec2_cp950_104"
  "trails_950 234 = Some dec2_cp950_105"
  "trails_950 235 = Some dec2_cp950_106"
  "trails_950 236 = Some dec2_cp950_107"
  "trails_950 237 = Some dec2_cp950_108"
  "trails_950 238 = Some dec2_cp950_109"
  "trails_950 239 = Some dec2_cp950_110"
  "trails_950 240 = Some dec2_cp950_111"
  "trails_950 241 = Some dec2_cp950_112"
  "trails_950 242 = Some dec2_cp950_113"
  "trails_950 243 = Some dec2_cp950_114"
  "trails_950 244 = Some dec2_cp950_115"
  "trails_950 245 = Some dec2_cp950_116"
  "trails_950 246 = Some dec2_cp950_117"
  "trails_950 247 = Some dec2_cp950_118"
  "trails_950 248 = Some dec2_cp950_119"
  "trails_950 249 = Some dec2_cp950_120"
  "trails_950 250 = Some dec2_cp950_121"
  "trails_950 251 = Some dec2_cp950_122"
  "trails_950 252 = Some dec2_cp950_123"
  "trails_950 253 = Some dec2_cp950_124"
  "trails_950 254 = Some dec2_cp950_125"
  by (simp_all add: trail_row_def lead_at_950 order_at_950 row_at_950)

lemma lead_bits_950: "list_all (\<lambda>x. x = 0 \<or> x = 1) lead_cp950"
  by (simp add: lead_cp950_def)

lemma order_sound_950: "list_all (\<lambda>(x, k). x = 1 \<longrightarrow> k < 126) (zip lead_cp950 leadrow_cp950)"
  by (simp add: lead_cp950_def leadrow_cp950_def)

lemma rows_sound_950: "list_all (\<lambda>row. length row = 256) rows_cp950" "tally (\<lambda>_. True) 0 rows_cp950 = 126"
  by (simp_all add: rows_cp950_def
    row_nth(17) [OF dec2_cp950_0_def] row_nth(17) [OF dec2_cp950_1_def] row_nth(17) [OF dec2_cp950_2_def]
    row_nth(17) [OF dec2_cp950_3_def] row_nth(17) [OF dec2_cp950_4_def] row_nth(17) [OF dec2_cp950_5_def]
    row_nth(17) [OF dec2_cp950_6_def] row_nth(17) [OF dec2_cp950_7_def] row_nth(17) [OF dec2_cp950_8_def]
    row_nth(17) [OF dec2_cp950_9_def] row_nth(17) [OF dec2_cp950_10_def] row_nth(17) [OF dec2_cp950_11_def]
    row_nth(17) [OF dec2_cp950_12_def] row_nth(17) [OF dec2_cp950_13_def] row_nth(17) [OF dec2_cp950_14_def]
    row_nth(17) [OF dec2_cp950_15_def] row_nth(17) [OF dec2_cp950_16_def] row_nth(17) [OF dec2_cp950_17_def]
    row_nth(17) [OF dec2_cp950_18_def] row_nth(17) [OF dec2_cp950_19_def] row_nth(17) [OF dec2_cp950_20_def]
    row_nth(17) [OF dec2_cp950_21_def] row_nth(17) [OF dec2_cp950_22_def] row_nth(17) [OF dec2_cp950_23_def]
    row_nth(17) [OF dec2_cp950_24_def] row_nth(17) [OF dec2_cp950_25_def] row_nth(17) [OF dec2_cp950_26_def]
    row_nth(17) [OF dec2_cp950_27_def] row_nth(17) [OF dec2_cp950_28_def] row_nth(17) [OF dec2_cp950_29_def]
    row_nth(17) [OF dec2_cp950_30_def] row_nth(17) [OF dec2_cp950_31_def] row_nth(17) [OF dec2_cp950_32_def]
    row_nth(17) [OF dec2_cp950_33_def] row_nth(17) [OF dec2_cp950_34_def] row_nth(17) [OF dec2_cp950_35_def]
    row_nth(17) [OF dec2_cp950_36_def] row_nth(17) [OF dec2_cp950_37_def] row_nth(17) [OF dec2_cp950_38_def]
    row_nth(17) [OF dec2_cp950_39_def] row_nth(17) [OF dec2_cp950_40_def] row_nth(17) [OF dec2_cp950_41_def]
    row_nth(17) [OF dec2_cp950_42_def] row_nth(17) [OF dec2_cp950_43_def] row_nth(17) [OF dec2_cp950_44_def]
    row_nth(17) [OF dec2_cp950_45_def] row_nth(17) [OF dec2_cp950_46_def] row_nth(17) [OF dec2_cp950_47_def]
    row_nth(17) [OF dec2_cp950_48_def] row_nth(17) [OF dec2_cp950_49_def] row_nth(17) [OF dec2_cp950_50_def]
    row_nth(17) [OF dec2_cp950_51_def] row_nth(17) [OF dec2_cp950_52_def] row_nth(17) [OF dec2_cp950_53_def]
    row_nth(17) [OF dec2_cp950_54_def] row_nth(17) [OF dec2_cp950_55_def] row_nth(17) [OF dec2_cp950_56_def]
    row_nth(17) [OF dec2_cp950_57_def] row_nth(17) [OF dec2_cp950_58_def] row_nth(17) [OF dec2_cp950_59_def]
    row_nth(17) [OF dec2_cp950_60_def] row_nth(17) [OF dec2_cp950_61_def] row_nth(17) [OF dec2_cp950_62_def]
    row_nth(17) [OF dec2_cp950_63_def] row_nth(17) [OF dec2_cp950_64_def] row_nth(17) [OF dec2_cp950_65_def]
    row_nth(17) [OF dec2_cp950_66_def] row_nth(17) [OF dec2_cp950_67_def] row_nth(17) [OF dec2_cp950_68_def]
    row_nth(17) [OF dec2_cp950_69_def] row_nth(17) [OF dec2_cp950_70_def] row_nth(17) [OF dec2_cp950_71_def]
    row_nth(17) [OF dec2_cp950_72_def] row_nth(17) [OF dec2_cp950_73_def] row_nth(17) [OF dec2_cp950_74_def]
    row_nth(17) [OF dec2_cp950_75_def] row_nth(17) [OF dec2_cp950_76_def] row_nth(17) [OF dec2_cp950_77_def]
    row_nth(17) [OF dec2_cp950_78_def] row_nth(17) [OF dec2_cp950_79_def] row_nth(17) [OF dec2_cp950_80_def]
    row_nth(17) [OF dec2_cp950_81_def] row_nth(17) [OF dec2_cp950_82_def] row_nth(17) [OF dec2_cp950_83_def]
    row_nth(17) [OF dec2_cp950_84_def] row_nth(17) [OF dec2_cp950_85_def] row_nth(17) [OF dec2_cp950_86_def]
    row_nth(17) [OF dec2_cp950_87_def] row_nth(17) [OF dec2_cp950_88_def] row_nth(17) [OF dec2_cp950_89_def]
    row_nth(17) [OF dec2_cp950_90_def] row_nth(17) [OF dec2_cp950_91_def] row_nth(17) [OF dec2_cp950_92_def]
    row_nth(17) [OF dec2_cp950_93_def] row_nth(17) [OF dec2_cp950_94_def] row_nth(17) [OF dec2_cp950_95_def]
    row_nth(17) [OF dec2_cp950_96_def] row_nth(17) [OF dec2_cp950_97_def] row_nth(17) [OF dec2_cp950_98_def]
    row_nth(17) [OF dec2_cp950_99_def] row_nth(17) [OF dec2_cp950_100_def] row_nth(17) [OF dec2_cp950_101_def]
    row_nth(17) [OF dec2_cp950_102_def] row_nth(17) [OF dec2_cp950_103_def] row_nth(17) [OF dec2_cp950_104_def]
    row_nth(17) [OF dec2_cp950_105_def] row_nth(17) [OF dec2_cp950_106_def] row_nth(17) [OF dec2_cp950_107_def]
    row_nth(17) [OF dec2_cp950_108_def] row_nth(17) [OF dec2_cp950_109_def] row_nth(17) [OF dec2_cp950_110_def]
    row_nth(17) [OF dec2_cp950_111_def] row_nth(17) [OF dec2_cp950_112_def] row_nth(17) [OF dec2_cp950_113_def]
    row_nth(17) [OF dec2_cp950_114_def] row_nth(17) [OF dec2_cp950_115_def] row_nth(17) [OF dec2_cp950_116_def]
    row_nth(17) [OF dec2_cp950_117_def] row_nth(17) [OF dec2_cp950_118_def] row_nth(17) [OF dec2_cp950_119_def]
    row_nth(17) [OF dec2_cp950_120_def] row_nth(17) [OF dec2_cp950_121_def] row_nth(17) [OF dec2_cp950_122_def]
    row_nth(17) [OF dec2_cp950_123_def] row_nth(17) [OF dec2_cp950_124_def] row_nth(17) [OF dec2_cp950_125_def])

end
