(* ===== verification/Cp950RevA.thy ===== *)
theory Cp950RevA
  imports DbPage
begin

text \<open>
  Page 950 of \<^verbatim>\<open>src/src/charset_tables_data.c\<close>: parts 0 to 26 of the reverse table, entry by
  entry, in parts of 256 entries.
\<close>

definition rev_cp950_0 :: "(nat \<times> nat) list" where
  "rev_cp950_0 =
   [(0x0000, 0x0000), (0x0001, 0x0001), (0x0002, 0x0002), (0x0003, 0x0003), (0x0004, 0x0004), (0x0005, 0x0005),
    (0x0006, 0x0006), (0x0007, 0x0007)] @
   [(0x0008, 0x0008), (0x0009, 0x0009), (0x000A, 0x000A), (0x000B, 0x000B), (0x000C, 0x000C), (0x000D, 0x000D),
    (0x000E, 0x000E), (0x000F, 0x000F)] @
   [(0x0010, 0x0010), (0x0011, 0x0011), (0x0012, 0x0012), (0x0013, 0x0013), (0x0014, 0x0014), (0x0015, 0x0015),
    (0x0016, 0x0016), (0x0017, 0x0017)] @
   [(0x0018, 0x0018), (0x0019, 0x0019), (0x001A, 0x001A), (0x001B, 0x001B), (0x001C, 0x001C), (0x001D, 0x001D),
    (0x001E, 0x001E), (0x001F, 0x001F)] @
   [(0x0020, 0x0020), (0x0021, 0x0021), (0x0022, 0x0022), (0x0023, 0x0023), (0x0024, 0x0024), (0x0025, 0x0025),
    (0x0026, 0x0026), (0x0027, 0x0027)] @
   [(0x0028, 0x0028), (0x0029, 0x0029), (0x002A, 0x002A), (0x002B, 0x002B), (0x002C, 0x002C), (0x002D, 0x002D),
    (0x002E, 0x002E), (0x002F, 0x002F)] @
   [(0x0030, 0x0030), (0x0031, 0x0031), (0x0032, 0x0032), (0x0033, 0x0033), (0x0034, 0x0034), (0x0035, 0x0035),
    (0x0036, 0x0036), (0x0037, 0x0037)] @
   [(0x0038, 0x0038), (0x0039, 0x0039), (0x003A, 0x003A), (0x003B, 0x003B), (0x003C, 0x003C), (0x003D, 0x003D),
    (0x003E, 0x003E), (0x003F, 0x003F)] @
   [(0x0040, 0x0040), (0x0041, 0x0041), (0x0042, 0x0042), (0x0043, 0x0043), (0x0044, 0x0044), (0x0045, 0x0045),
    (0x0046, 0x0046), (0x0047, 0x0047)] @
   [(0x0048, 0x0048), (0x0049, 0x0049), (0x004A, 0x004A), (0x004B, 0x004B), (0x004C, 0x004C), (0x004D, 0x004D),
    (0x004E, 0x004E), (0x004F, 0x004F)] @
   [(0x0050, 0x0050), (0x0051, 0x0051), (0x0052, 0x0052), (0x0053, 0x0053), (0x0054, 0x0054), (0x0055, 0x0055),
    (0x0056, 0x0056), (0x0057, 0x0057)] @
   [(0x0058, 0x0058), (0x0059, 0x0059), (0x005A, 0x005A), (0x005B, 0x005B), (0x005C, 0x005C), (0x005D, 0x005D),
    (0x005E, 0x005E), (0x005F, 0x005F)] @
   [(0x0060, 0x0060), (0x0061, 0x0061), (0x0062, 0x0062), (0x0063, 0x0063), (0x0064, 0x0064), (0x0065, 0x0065),
    (0x0066, 0x0066), (0x0067, 0x0067)] @
   [(0x0068, 0x0068), (0x0069, 0x0069), (0x006A, 0x006A), (0x006B, 0x006B), (0x006C, 0x006C), (0x006D, 0x006D),
    (0x006E, 0x006E), (0x006F, 0x006F)] @
   [(0x0070, 0x0070), (0x0071, 0x0071), (0x0072, 0x0072), (0x0073, 0x0073), (0x0074, 0x0074), (0x0075, 0x0075),
    (0x0076, 0x0076), (0x0077, 0x0077)] @
   [(0x0078, 0x0078), (0x0079, 0x0079), (0x007A, 0x007A), (0x007B, 0x007B), (0x007C, 0x007C), (0x007D, 0x007D),
    (0x007E, 0x007E), (0x007F, 0x007F)] @
   [(0x00A7, 0xA1B1), (0x00AF, 0xA1C2), (0x00B0, 0xA258), (0x00B1, 0xA1D3), (0x00B7, 0xA150), (0x00D7, 0xA1D1),
    (0x00F7, 0xA1D2), (0x02C7, 0xA3BE)] @
   [(0x02C9, 0xA3BC), (0x02CA, 0xA3BD), (0x02CB, 0xA3BF), (0x02CD, 0xA1C5), (0x02D9, 0xA3BB), (0x0391, 0xA344),
    (0x0392, 0xA345), (0x0393, 0xA346)] @
   [(0x0394, 0xA347), (0x0395, 0xA348), (0x0396, 0xA349), (0x0397, 0xA34A), (0x0398, 0xA34B), (0x0399, 0xA34C),
    (0x039A, 0xA34D), (0x039B, 0xA34E)] @
   [(0x039C, 0xA34F), (0x039D, 0xA350), (0x039E, 0xA351), (0x039F, 0xA352), (0x03A0, 0xA353), (0x03A1, 0xA354),
    (0x03A3, 0xA355), (0x03A4, 0xA356)] @
   [(0x03A5, 0xA357), (0x03A6, 0xA358), (0x03A7, 0xA359), (0x03A8, 0xA35A), (0x03A9, 0xA35B), (0x03B1, 0xA35C),
    (0x03B2, 0xA35D), (0x03B3, 0xA35E)] @
   [(0x03B4, 0xA35F), (0x03B5, 0xA360), (0x03B6, 0xA361), (0x03B7, 0xA362), (0x03B8, 0xA363), (0x03B9, 0xA364),
    (0x03BA, 0xA365), (0x03BB, 0xA366)] @
   [(0x03BC, 0xA367), (0x03BD, 0xA368), (0x03BE, 0xA369), (0x03BF, 0xA36A), (0x03C0, 0xA36B), (0x03C1, 0xA36C),
    (0x03C3, 0xA36D), (0x03C4, 0xA36E)] @
   [(0x03C5, 0xA36F), (0x03C6, 0xA370), (0x03C7, 0xA371), (0x03C8, 0xA372), (0x03C9, 0xA373), (0x2013, 0xA156),
    (0x2014, 0xA158), (0x2018, 0xA1A5)] @
   [(0x2019, 0xA1A6), (0x201C, 0xA1A7), (0x201D, 0xA1A8), (0x2025, 0xA14C), (0x2026, 0xA14B), (0x2027, 0xA145),
    (0x2032, 0xA1AC), (0x2035, 0xA1AB)] @
   [(0x203B, 0xA1B0), (0x20AC, 0xA3E1), (0x2103, 0xA24A), (0x2105, 0xA1C1), (0x2109, 0xA24B), (0x2160, 0xA2B9),
    (0x2161, 0xA2BA), (0x2162, 0xA2BB)] @
   [(0x2163, 0xA2BC), (0x2164, 0xA2BD), (0x2165, 0xA2BE), (0x2166, 0xA2BF), (0x2167, 0xA2C0), (0x2168, 0xA2C1),
    (0x2169, 0xA2C2), (0x2190, 0xA1F6)] @
   [(0x2191, 0xA1F4), (0x2192, 0xA1F7), (0x2193, 0xA1F5), (0x2196, 0xA1F8), (0x2197, 0xA1F9), (0x2198, 0xA1FB),
    (0x2199, 0xA1FA), (0x2215, 0xA241)] @
   [(0x221A, 0xA1D4), (0x221E, 0xA1DB), (0x221F, 0xA1E8), (0x2220, 0xA1E7), (0x2223, 0xA1FD), (0x2225, 0xA1FC),
    (0x2229, 0xA1E4), (0x222A, 0xA1E5)] @
   [(0x222B, 0xA1EC), (0x222E, 0xA1ED), (0x2234, 0xA1EF), (0x2235, 0xA1EE), (0x2252, 0xA1DC), (0x2260, 0xA1DA),
    (0x2261, 0xA1DD), (0x2266, 0xA1D8)] @
   [(0x2267, 0xA1D9), (0x2295, 0xA1F2), (0x2299, 0xA1F3), (0x22A5, 0xA1E6), (0x22BF, 0xA1E9), (0x2500, 0xA277),
    (0x2502, 0xA278), (0x250C, 0xA27A)] @
   [(0x2510, 0xA27B), (0x2514, 0xA27C), (0x2518, 0xA27D), (0x251C, 0xA275), (0x2524, 0xA274), (0x252C, 0xA273),
    (0x2534, 0xA272), (0x253C, 0xA271)]"

definition rev_cp950_1 :: "(nat \<times> nat) list" where
  "rev_cp950_1 =
   [(0x2550, 0xA2A4), (0x2551, 0xF9F8), (0x2552, 0xF9E6), (0x2553, 0xF9EF), (0x2554, 0xF9DD), (0x2555, 0xF9E8),
    (0x2556, 0xF9F1), (0x2557, 0xF9DF)] @
   [(0x2558, 0xF9EC), (0x2559, 0xF9F5), (0x255A, 0xF9E3), (0x255B, 0xF9EE), (0x255C, 0xF9F7), (0x255D, 0xF9E5),
    (0x255E, 0xA2A5), (0x255F, 0xF9F2)] @
   [(0x2560, 0xF9E0), (0x2561, 0xA2A7), (0x2562, 0xF9F4), (0x2563, 0xF9E2), (0x2564, 0xF9E7), (0x2565, 0xF9F0),
    (0x2566, 0xF9DE), (0x2567, 0xF9ED)] @
   [(0x2568, 0xF9F6), (0x2569, 0xF9E4), (0x256A, 0xA2A6), (0x256B, 0xF9F3), (0x256C, 0xF9E1), (0x256D, 0xA27E),
    (0x256E, 0xA2A1), (0x256F, 0xA2A3)] @
   [(0x2570, 0xA2A2), (0x2571, 0xA2AC), (0x2572, 0xA2AD), (0x2573, 0xA2AE), (0x2574, 0xA15A), (0x2581, 0xA262),
    (0x2582, 0xA263), (0x2583, 0xA264)] @
   [(0x2584, 0xA265), (0x2585, 0xA266), (0x2586, 0xA267), (0x2587, 0xA268), (0x2588, 0xA269), (0x2589, 0xA270),
    (0x258A, 0xA26F), (0x258B, 0xA26E)] @
   [(0x258C, 0xA26D), (0x258D, 0xA26C), (0x258E, 0xA26B), (0x258F, 0xA26A), (0x2593, 0xF9FE), (0x2594, 0xA276),
    (0x2595, 0xA279), (0x25A0, 0xA1BD)] @
   [(0x25A1, 0xA1BC), (0x25B2, 0xA1B6), (0x25B3, 0xA1B5), (0x25BC, 0xA1BF), (0x25BD, 0xA1BE), (0x25C6, 0xA1BB),
    (0x25C7, 0xA1BA), (0x25CB, 0xA1B3)] @
   [(0x25CE, 0xA1B7), (0x25CF, 0xA1B4), (0x25E2, 0xA2A8), (0x25E3, 0xA2A9), (0x25E4, 0xA2AB), (0x25E5, 0xA2AA),
    (0x2605, 0xA1B9), (0x2606, 0xA1B8)] @
   [(0x2640, 0xA1F0), (0x2642, 0xA1F1), (0x3000, 0xA140), (0x3001, 0xA142), (0x3002, 0xA143), (0x3003, 0xA1B2),
    (0x3008, 0xA171), (0x3009, 0xA172)] @
   [(0x300A, 0xA16D), (0x300B, 0xA16E), (0x300C, 0xA175), (0x300D, 0xA176), (0x300E, 0xA179), (0x300F, 0xA17A),
    (0x3010, 0xA169), (0x3011, 0xA16A)] @
   [(0x3012, 0xA245), (0x3014, 0xA165), (0x3015, 0xA166), (0x301D, 0xA1A9), (0x301E, 0xA1AA), (0x3021, 0xA2C3),
    (0x3022, 0xA2C4), (0x3023, 0xA2C5)] @
   [(0x3024, 0xA2C6), (0x3025, 0xA2C7), (0x3026, 0xA2C8), (0x3027, 0xA2C9), (0x3028, 0xA2CA), (0x3029, 0xA2CB),
    (0x3105, 0xA374), (0x3106, 0xA375)] @
   [(0x3107, 0xA376), (0x3108, 0xA377), (0x3109, 0xA378), (0x310A, 0xA379), (0x310B, 0xA37A), (0x310C, 0xA37B),
    (0x310D, 0xA37C), (0x310E, 0xA37D)] @
   [(0x310F, 0xA37E), (0x3110, 0xA3A1), (0x3111, 0xA3A2), (0x3112, 0xA3A3), (0x3113, 0xA3A4), (0x3114, 0xA3A5),
    (0x3115, 0xA3A6), (0x3116, 0xA3A7)] @
   [(0x3117, 0xA3A8), (0x3118, 0xA3A9), (0x3119, 0xA3AA), (0x311A, 0xA3AB), (0x311B, 0xA3AC), (0x311C, 0xA3AD),
    (0x311D, 0xA3AE), (0x311E, 0xA3AF)] @
   [(0x311F, 0xA3B0), (0x3120, 0xA3B1), (0x3121, 0xA3B2), (0x3122, 0xA3B3), (0x3123, 0xA3B4), (0x3124, 0xA3B5),
    (0x3125, 0xA3B6), (0x3126, 0xA3B7)] @
   [(0x3127, 0xA3B8), (0x3128, 0xA3B9), (0x3129, 0xA3BA), (0x32A3, 0xA1C0), (0x338E, 0xA255), (0x338F, 0xA256),
    (0x339C, 0xA250), (0x339D, 0xA251)] @
   [(0x339E, 0xA252), (0x33A1, 0xA254), (0x33C4, 0xA257), (0x33CE, 0xA253), (0x33D1, 0xA1EB), (0x33D2, 0xA1EA),
    (0x33D5, 0xA24F), (0x4E00, 0xA440)] @
   [(0x4E01, 0xA442), (0x4E03, 0xA443), (0x4E07, 0xC945), (0x4E08, 0xA456), (0x4E09, 0xA454), (0x4E0A, 0xA457),
    (0x4E0B, 0xA455), (0x4E0C, 0xC946)] @
   [(0x4E0D, 0xA4A3), (0x4E0E, 0xC94F), (0x4E0F, 0xC94D), (0x4E10, 0xA4A2), (0x4E11, 0xA4A1), (0x4E14, 0xA542),
    (0x4E15, 0xA541), (0x4E16, 0xA540)] @
   [(0x4E18, 0xA543), (0x4E19, 0xA4FE), (0x4E1E, 0xA5E0), (0x4E1F, 0xA5E1), (0x4E26, 0xA8C3), (0x4E2B, 0xA458),
    (0x4E2D, 0xA4A4), (0x4E2E, 0xC950)] @
   [(0x4E30, 0xA4A5), (0x4E31, 0xC963), (0x4E32, 0xA6EA), (0x4E33, 0xCBB1), (0x4E38, 0xA459), (0x4E39, 0xA4A6),
    (0x4E3B, 0xA544), (0x4E3C, 0xC964)] @
   [(0x4E42, 0xC940), (0x4E43, 0xA444), (0x4E45, 0xA45B), (0x4E47, 0xC947), (0x4E48, 0xA45C), (0x4E4B, 0xA4A7),
    (0x4E4D, 0xA545), (0x4E4E, 0xA547)] @
   [(0x4E4F, 0xA546), (0x4E52, 0xA5E2), (0x4E53, 0xA5E3), (0x4E56, 0xA8C4), (0x4E58, 0xADBC), (0x4E59, 0xA441),
    (0x4E5C, 0xC941), (0x4E5D, 0xA445)] @
   [(0x4E5E, 0xA45E), (0x4E5F, 0xA45D), (0x4E69, 0xA5E4), (0x4E73, 0xA8C5), (0x4E7E, 0xB0AE), (0x4E7F, 0xD44B),
    (0x4E82, 0xB6C3), (0x4E83, 0xDCB1)] @
   [(0x4E84, 0xDCB2), (0x4E86, 0xA446), (0x4E88, 0xA4A9), (0x4E8B, 0xA8C6), (0x4E8C, 0xA447), (0x4E8D, 0xC948),
    (0x4E8E, 0xA45F), (0x4E91, 0xA4AA)] @
   [(0x4E92, 0xA4AC), (0x4E93, 0xC951), (0x4E94, 0xA4AD), (0x4E95, 0xA4AB), (0x4E99, 0xA5E5), (0x4E9B, 0xA8C7),
    (0x4E9E, 0xA8C8), (0x4E9F, 0xAB45)] @
   [(0x4EA1, 0xA460), (0x4EA2, 0xA4AE), (0x4EA4, 0xA5E6), (0x4EA5, 0xA5E8), (0x4EA6, 0xA5E7), (0x4EA8, 0xA6EB),
    (0x4EAB, 0xA8C9), (0x4EAC, 0xA8CA)] @
   [(0x4EAD, 0xAB46), (0x4EAE, 0xAB47), (0x4EB3, 0xADBD), (0x4EB6, 0xDCB3), (0x4EB9, 0xF6D6), (0x4EBA, 0xA448),
    (0x4EC0, 0xA4B0), (0x4EC1, 0xA4AF)] @
   [(0x4EC2, 0xC952), (0x4EC3, 0xA4B1), (0x4EC4, 0xA4B7), (0x4EC6, 0xA4B2), (0x4EC7, 0xA4B3), (0x4EC8, 0xC954),
    (0x4EC9, 0xC953), (0x4ECA, 0xA4B5)] @
   [(0x4ECB, 0xA4B6), (0x4ECD, 0xA4B4), (0x4ED4, 0xA54A), (0x4ED5, 0xA54B), (0x4ED6, 0xA54C), (0x4ED7, 0xA54D),
    (0x4ED8, 0xA549), (0x4ED9, 0xA550)]"

definition rev_cp950_2 :: "(nat \<times> nat) list" where
  "rev_cp950_2 =
   [(0x4EDA, 0xC96A), (0x4EDC, 0xC966), (0x4EDD, 0xC969), (0x4EDE, 0xA551), (0x4EDF, 0xA561), (0x4EE1, 0xC968),
    (0x4EE3, 0xA54E), (0x4EE4, 0xA54F)] @
   [(0x4EE5, 0xA548), (0x4EE8, 0xC965), (0x4EE9, 0xC967), (0x4EF0, 0xA5F5), (0x4EF1, 0xC9B0), (0x4EF2, 0xA5F2),
    (0x4EF3, 0xA5F6), (0x4EF4, 0xC9BA)] @
   [(0x4EF5, 0xC9AE), (0x4EF6, 0xA5F3), (0x4EF7, 0xC9B2), (0x4EFB, 0xA5F4), (0x4EFD, 0xA5F7), (0x4EFF, 0xA5E9),
    (0x4F00, 0xC9B1), (0x4F01, 0xA5F8)] @
   [(0x4F02, 0xC9B5), (0x4F04, 0xC9B9), (0x4F05, 0xC9B6), (0x4F08, 0xC9B3), (0x4F09, 0xA5EA), (0x4F0A, 0xA5EC),
    (0x4F0B, 0xA5F9), (0x4F0D, 0xA5EE)] @
   [(0x4F0E, 0xC9AB), (0x4F0F, 0xA5F1), (0x4F10, 0xA5EF), (0x4F11, 0xA5F0), (0x4F12, 0xC9BB), (0x4F13, 0xC9B8),
    (0x4F14, 0xC9AF), (0x4F15, 0xA5ED)] @
   [(0x4F18, 0xC9AC), (0x4F19, 0xA5EB), (0x4F1D, 0xC9B4), (0x4F22, 0xC9B7), (0x4F2C, 0xC9AD), (0x4F2D, 0xCA66),
    (0x4F2F, 0xA742), (0x4F30, 0xA6F4)] @
   [(0x4F33, 0xCA67), (0x4F34, 0xA6F1), (0x4F36, 0xA744), (0x4F38, 0xA6F9), (0x4F3A, 0xA6F8), (0x4F3B, 0xCA5B),
    (0x4F3C, 0xA6FC), (0x4F3D, 0xA6F7)] @
   [(0x4F3E, 0xCA60), (0x4F3F, 0xCA68), (0x4F41, 0xCA64), (0x4F43, 0xA6FA), (0x4F46, 0xA6FD), (0x4F47, 0xA6EE),
    (0x4F48, 0xA747), (0x4F49, 0xCA5D)] @
   [(0x4F4C, 0xCBBD), (0x4F4D, 0xA6EC), (0x4F4E, 0xA743), (0x4F4F, 0xA6ED), (0x4F50, 0xA6F5), (0x4F51, 0xA6F6),
    (0x4F52, 0xCA62), (0x4F53, 0xCA5E)] @
   [(0x4F54, 0xA6FB), (0x4F55, 0xA6F3), (0x4F56, 0xCA5A), (0x4F57, 0xA6EF), (0x4F58, 0xCA65), (0x4F59, 0xA745),
    (0x4F5A, 0xA748), (0x4F5B, 0xA6F2)] @
   [(0x4F5C, 0xA740), (0x4F5D, 0xA746), (0x4F5E, 0xA6F0), (0x4F5F, 0xCA63), (0x4F60, 0xA741), (0x4F61, 0xCA69),
    (0x4F62, 0xCA5C), (0x4F63, 0xA6FE)] @
   [(0x4F64, 0xCA5F), (0x4F67, 0xCA61), (0x4F69, 0xA8D8), (0x4F6A, 0xCBBF), (0x4F6B, 0xCBCB), (0x4F6C, 0xA8D0),
    (0x4F6E, 0xCBCC), (0x4F6F, 0xA8CB)] @
   [(0x4F70, 0xA8D5), (0x4F73, 0xA8CE), (0x4F74, 0xCBB9), (0x4F75, 0xA8D6), (0x4F76, 0xCBB8), (0x4F77, 0xCBBC),
    (0x4F78, 0xCBC3), (0x4F79, 0xCBC1)] @
   [(0x4F7A, 0xA8DE), (0x4F7B, 0xA8D9), (0x4F7C, 0xCBB3), (0x4F7D, 0xCBB5), (0x4F7E, 0xA8DB), (0x4F7F, 0xA8CF),
    (0x4F80, 0xCBB6), (0x4F81, 0xCBC2)] @
   [(0x4F82, 0xCBC9), (0x4F83, 0xA8D4), (0x4F84, 0xCBBB), (0x4F85, 0xCBB4), (0x4F86, 0xA8D3), (0x4F87, 0xCBB7),
    (0x4F88, 0xA8D7), (0x4F89, 0xCBBA)] @
   [(0x4F8B, 0xA8D2), (0x4F8D, 0xA8CD), (0x4F8F, 0xA8DC), (0x4F90, 0xCBC4), (0x4F91, 0xA8DD), (0x4F92, 0xCBC8),
    (0x4F94, 0xCBC6), (0x4F95, 0xCBCA)] @
   [(0x4F96, 0xA8DA), (0x4F97, 0xCBBE), (0x4F98, 0xCBB2), (0x4F9A, 0xCBC0), (0x4F9B, 0xA8D1), (0x4F9C, 0xCBC5),
    (0x4F9D, 0xA8CC), (0x4F9E, 0xCBC7)] @
   [(0x4FAE, 0xAB56), (0x4FAF, 0xAB4A), (0x4FB2, 0xCDE0), (0x4FB3, 0xCDE8), (0x4FB5, 0xAB49), (0x4FB6, 0xAB51),
    (0x4FB7, 0xAB5D), (0x4FB9, 0xCDEE)] @
   [(0x4FBA, 0xCDEC), (0x4FBB, 0xCDE7), (0x4FBF, 0xAB4B), (0x4FC0, 0xCDED), (0x4FC1, 0xCDE3), (0x4FC2, 0xAB59),
    (0x4FC3, 0xAB50), (0x4FC4, 0xAB58)] @
   [(0x4FC5, 0xCDDE), (0x4FC7, 0xCDEA), (0x4FC9, 0xCDE1), (0x4FCA, 0xAB54), (0x4FCB, 0xCDE2), (0x4FCD, 0xCDDD),
    (0x4FCE, 0xAB5B), (0x4FCF, 0xAB4E)] @
   [(0x4FD0, 0xAB57), (0x4FD1, 0xAB4D), (0x4FD3, 0xCDDF), (0x4FD4, 0xCDE4), (0x4FD6, 0xCDEB), (0x4FD7, 0xAB55),
    (0x4FD8, 0xAB52), (0x4FD9, 0xCDE6)] @
   [(0x4FDA, 0xAB5A), (0x4FDB, 0xCDE9), (0x4FDC, 0xCDE5), (0x4FDD, 0xAB4F), (0x4FDE, 0xAB5C), (0x4FDF, 0xAB53),
    (0x4FE0, 0xAB4C), (0x4FE1, 0xAB48)] @
   [(0x4FEC, 0xCDEF), (0x4FEE, 0xADD7), (0x4FEF, 0xADC1), (0x4FF1, 0xADD1), (0x4FF3, 0xADD6), (0x4FF4, 0xD0D0),
    (0x4FF5, 0xD0CF), (0x4FF6, 0xD0D4)] @
   [(0x4FF7, 0xD0D5), (0x4FF8, 0xADC4), (0x4FFA, 0xADCD), (0x4FFE, 0xADDA), (0x5000, 0xADCE), (0x5005, 0xD0C9),
    (0x5006, 0xADC7), (0x5007, 0xD0CA)] @
   [(0x5009, 0xADDC), (0x500B, 0xADD3), (0x500C, 0xADBE), (0x500D, 0xADBF), (0x500E, 0xD0DD), (0x500F, 0xB0BF),
    (0x5011, 0xADCC), (0x5012, 0xADCB)] @
   [(0x5013, 0xD0CB), (0x5014, 0xADCF), (0x5015, 0xD45B), (0x5016, 0xADC6), (0x5017, 0xD0D6), (0x5018, 0xADD5),
    (0x5019, 0xADD4), (0x501A, 0xADCA)] @
   [(0x501B, 0xD0CE), (0x501C, 0xD0D7), (0x501E, 0xD0C8), (0x501F, 0xADC9), (0x5020, 0xD0D8), (0x5021, 0xADD2),
    (0x5022, 0xD0CC), (0x5023, 0xADC0)] @
   [(0x5025, 0xADC3), (0x5026, 0xADC2), (0x5027, 0xD0D9), (0x5028, 0xADD0), (0x5029, 0xADC5), (0x502A, 0xADD9),
    (0x502B, 0xADDB), (0x502C, 0xD0D3)] @
   [(0x502D, 0xADD8), (0x502F, 0xD0DB), (0x5030, 0xD0CD), (0x5031, 0xD0DC), (0x5033, 0xD0D1), (0x5035, 0xD0DA),
    (0x5037, 0xD0D2), (0x503C, 0xADC8)] @
   [(0x5040, 0xD463), (0x5041, 0xD457), (0x5043, 0xB0B3), (0x5045, 0xD45C), (0x5046, 0xD462), (0x5047, 0xB0B2),
    (0x5048, 0xD455), (0x5049, 0xB0B6)] @
   [(0x504A, 0xD459), (0x504B, 0xD452), (0x504C, 0xB0B4), (0x504D, 0xD456), (0x504E, 0xB0B9), (0x504F, 0xB0BE),
    (0x5051, 0xD467), (0x5053, 0xD451)] @
   [(0x5055, 0xB0BA), (0x5057, 0xD466), (0x505A, 0xB0B5), (0x505B, 0xD458), (0x505C, 0xB0B1), (0x505D, 0xD453),
    (0x505E, 0xD44F), (0x505F, 0xD45D)]"

definition rev_cp950_3 :: "(nat \<times> nat) list" where
  "rev_cp950_3 =
   [(0x5060, 0xD450), (0x5061, 0xD44E), (0x5062, 0xD45A), (0x5063, 0xD460), (0x5064, 0xD461), (0x5065, 0xB0B7),
    (0x5068, 0xD85B), (0x5069, 0xD45E)] @
   [(0x506A, 0xD44D), (0x506B, 0xD45F), (0x506D, 0xB0C1), (0x506E, 0xD464), (0x506F, 0xB0C0), (0x5070, 0xD44C),
    (0x5072, 0xD454), (0x5073, 0xD465)] @
   [(0x5074, 0xB0BC), (0x5075, 0xB0BB), (0x5076, 0xB0B8), (0x5077, 0xB0BD), (0x507A, 0xB0AF), (0x507D, 0xB0B0),
    (0x5080, 0xB3C8), (0x5082, 0xD85E)] @
   [(0x5083, 0xD857), (0x5085, 0xB3C5), (0x5087, 0xD85F), (0x508B, 0xD855), (0x508C, 0xD858), (0x508D, 0xB3C4),
    (0x508E, 0xD859), (0x5091, 0xB3C7)] @
   [(0x5092, 0xD85D), (0x5094, 0xD853), (0x5095, 0xD852), (0x5096, 0xB3C9), (0x5098, 0xB3CA), (0x5099, 0xB3C6),
    (0x509A, 0xB3CB), (0x509B, 0xD851)] @
   [(0x509C, 0xD85C), (0x509D, 0xD85A), (0x509E, 0xD854), (0x50A2, 0xB3C3), (0x50A3, 0xD856), (0x50AC, 0xB6CA),
    (0x50AD, 0xB6C4), (0x50AE, 0xDCB7)] @
   [(0x50AF, 0xB6CD), (0x50B0, 0xDCBD), (0x50B1, 0xDCC0), (0x50B2, 0xB6C6), (0x50B3, 0xB6C7), (0x50B4, 0xDCBA),
    (0x50B5, 0xB6C5), (0x50B6, 0xDCC3)] @
   [(0x50B7, 0xB6CB), (0x50B8, 0xDCC4), (0x50BA, 0xDCBF), (0x50BB, 0xB6CC), (0x50BD, 0xDCB4), (0x50BE, 0xB6C9),
    (0x50BF, 0xDCB5), (0x50C1, 0xDCBE)] @
   [(0x50C2, 0xDCBC), (0x50C4, 0xDCB8), (0x50C5, 0xB6C8), (0x50C6, 0xDCB6), (0x50C7, 0xB6CE), (0x50C8, 0xDCBB),
    (0x50C9, 0xDCC2), (0x50CA, 0xDCB9)] @
   [(0x50CB, 0xDCC1), (0x50CE, 0xB9B6), (0x50CF, 0xB9B3), (0x50D1, 0xB9B4), (0x50D3, 0xE0F9), (0x50D4, 0xE0F1),
    (0x50D5, 0xB9B2), (0x50D6, 0xB9AF)] @
   [(0x50D7, 0xE0F2), (0x50DA, 0xB9B1), (0x50DB, 0xE0F5), (0x50DD, 0xE0F7), (0x50E0, 0xE0FE), (0x50E3, 0xE0FD),
    (0x50E4, 0xE0F8), (0x50E5, 0xB9AE)] @
   [(0x50E6, 0xE0F0), (0x50E7, 0xB9AC), (0x50E8, 0xE0F3), (0x50E9, 0xB9B7), (0x50EA, 0xE0F6), (0x50EC, 0xE0FA),
    (0x50ED, 0xB9B0), (0x50EE, 0xB9AD)] @
   [(0x50EF, 0xE0FC), (0x50F0, 0xE0FB), (0x50F1, 0xB9B5), (0x50F3, 0xE0F4), (0x50F5, 0xBBF8), (0x50F6, 0xE4EC),
    (0x50F8, 0xE4E9), (0x50F9, 0xBBF9)] @
   [(0x50FB, 0xBBF7), (0x50FD, 0xE4F0), (0x50FE, 0xE4ED), (0x50FF, 0xE4E6), (0x5100, 0xBBF6), (0x5102, 0xBBFA),
    (0x5103, 0xE4E7), (0x5104, 0xBBF5)] @
   [(0x5105, 0xBBFD), (0x5106, 0xE4EA), (0x5107, 0xE4EB), (0x5108, 0xBBFB), (0x5109, 0xBBFC), (0x510A, 0xE4F1),
    (0x510B, 0xE4EE), (0x510C, 0xE4EF)] @
   [(0x5110, 0xBEAA), (0x5111, 0xE8F8), (0x5112, 0xBEA7), (0x5113, 0xE8F5), (0x5114, 0xBEA9), (0x5115, 0xBEAB),
    (0x5117, 0xE8F6), (0x5118, 0xBEA8)] @
   [(0x511A, 0xE8F7), (0x511C, 0xE8F4), (0x511F, 0xC076), (0x5120, 0xECBD), (0x5121, 0xC077), (0x5122, 0xECBB),
    (0x5124, 0xECBC), (0x5125, 0xECBA)] @
   [(0x5126, 0xECB9), (0x5129, 0xECBE), (0x512A, 0xC075), (0x512D, 0xEFB8), (0x512E, 0xEFB9), (0x5130, 0xE4E8),
    (0x5131, 0xEFB7), (0x5132, 0xC078)] @
   [(0x5133, 0xC35F), (0x5134, 0xF1EB), (0x5135, 0xF1EC), (0x5137, 0xC4D7), (0x5138, 0xC4D8), (0x5139, 0xF5C1),
    (0x513A, 0xF5C0), (0x513B, 0xC56C)] @
   [(0x513C, 0xC56B), (0x513D, 0xF7D0), (0x513F, 0xA449), (0x5140, 0xA461), (0x5141, 0xA4B9), (0x5143, 0xA4B8),
    (0x5144, 0xA553), (0x5145, 0xA552)] @
   [(0x5146, 0xA5FC), (0x5147, 0xA5FB), (0x5148, 0xA5FD), (0x5149, 0xA5FA), (0x514B, 0xA74A), (0x514C, 0xA749),
    (0x514D, 0xA74B), (0x5152, 0xA8E0)] @
   [(0x5154, 0xA8DF), (0x5155, 0xA8E1), (0x5157, 0xAB5E), (0x5159, 0xA259), (0x515A, 0xD0DE), (0x515B, 0xA25A),
    (0x515C, 0xB0C2), (0x515D, 0xA25C)] @
   [(0x515E, 0xA25B), (0x515F, 0xD860), (0x5161, 0xA25D), (0x5162, 0xB9B8), (0x5163, 0xA25E), (0x5165, 0xA44A),
    (0x5167, 0xA4BA), (0x5168, 0xA5FE)] @
   [(0x5169, 0xA8E2), (0x516B, 0xA44B), (0x516C, 0xA4BD), (0x516D, 0xA4BB), (0x516E, 0xA4BC), (0x5171, 0xA640),
    (0x5175, 0xA74C), (0x5176, 0xA8E4)] @
   [(0x5177, 0xA8E3), (0x5178, 0xA8E5), (0x517C, 0xADDD), (0x5180, 0xBEAC), (0x5187, 0xC94E), (0x5189, 0xA554),
    (0x518A, 0xA555), (0x518D, 0xA641)] @
   [(0x518F, 0xCA6A), (0x5191, 0xAB60), (0x5192, 0xAB5F), (0x5193, 0xD0E0), (0x5194, 0xD0DF), (0x5195, 0xB0C3),
    (0x5197, 0xA4BE), (0x5198, 0xC955)] @
   [(0x519E, 0xCBCD), (0x51A0, 0xAB61), (0x51A2, 0xADE0), (0x51A4, 0xADDE), (0x51A5, 0xADDF), (0x51AA, 0xBEAD),
    (0x51AC, 0xA556), (0x51B0, 0xA642)] @
   [(0x51B1, 0xC9BC), (0x51B6, 0xA74D), (0x51B7, 0xA74E), (0x51B9, 0xCA6B), (0x51BC, 0xCBCE), (0x51BD, 0xA8E6),
    (0x51BE, 0xCBCF), (0x51C4, 0xD0E2)] @
   [(0x51C5, 0xD0E3), (0x51C6, 0xADE3), (0x51C8, 0xD0E4), (0x51CA, 0xD0E1), (0x51CB, 0xADE4), (0x51CC, 0xADE2),
    (0x51CD, 0xADE1), (0x51CE, 0xD0E5)] @
   [(0x51D0, 0xD468), (0x51D4, 0xD861), (0x51D7, 0xDCC5), (0x51D8, 0xE140), (0x51DC, 0xBBFE), (0x51DD, 0xBEAE),
    (0x51DE, 0xE8F9), (0x51E0, 0xA44C)] @
   [(0x51E1, 0xA45A), (0x51F0, 0xB0C4), (0x51F1, 0xB3CD), (0x51F3, 0xB9B9), (0x51F5, 0xC942), (0x51F6, 0xA4BF),
    (0x51F8, 0xA559), (0x51F9, 0xA557)] @
   [(0x51FA, 0xA558), (0x51FD, 0xA8E7), (0x5200, 0xA44D), (0x5201, 0xA44E), (0x5203, 0xA462), (0x5206, 0xA4C0),
    (0x5207, 0xA4C1), (0x5208, 0xA4C2)]"

definition rev_cp950_4 :: "(nat \<times> nat) list" where
  "rev_cp950_4 =
   [(0x5209, 0xC9BE), (0x520A, 0xA55A), (0x520C, 0xC96B), (0x520E, 0xA646), (0x5210, 0xC9BF), (0x5211, 0xA644),
    (0x5212, 0xA645), (0x5213, 0xC9BD)] @
   [(0x5216, 0xA647), (0x5217, 0xA643), (0x521C, 0xCA6C), (0x521D, 0xAAEC), (0x521E, 0xCA6D), (0x5221, 0xCA6E),
    (0x5224, 0xA750), (0x5225, 0xA74F)] @
   [(0x5228, 0xA753), (0x5229, 0xA751), (0x522A, 0xA752), (0x522E, 0xA8ED), (0x5230, 0xA8EC), (0x5231, 0xCBD4),
    (0x5232, 0xCBD1), (0x5233, 0xCBD2)] @
   [(0x5235, 0xCBD0), (0x5236, 0xA8EE), (0x5237, 0xA8EA), (0x5238, 0xA8E9), (0x523A, 0xA8EB), (0x523B, 0xA8E8),
    (0x5241, 0xA8EF), (0x5243, 0xAB63)] @
   [(0x5244, 0xCDF0), (0x5246, 0xCBD3), (0x5247, 0xAB68), (0x5249, 0xCDF1), (0x524A, 0xAB64), (0x524B, 0xAB67),
    (0x524C, 0xAB66), (0x524D, 0xAB65)] @
   [(0x524E, 0xAB62), (0x5252, 0xD0E8), (0x5254, 0xADE7), (0x5255, 0xD0EB), (0x5256, 0xADE5), (0x525A, 0xD0E7),
    (0x525B, 0xADE8), (0x525C, 0xADE6)] @
   [(0x525D, 0xADE9), (0x525E, 0xD0E9), (0x525F, 0xD0EA), (0x5261, 0xD0E6), (0x5262, 0xD0EC), (0x5269, 0xB3D1),
    (0x526A, 0xB0C5), (0x526B, 0xD469)] @
   [(0x526C, 0xD46B), (0x526D, 0xD46A), (0x526E, 0xD46C), (0x526F, 0xB0C6), (0x5272, 0xB3CE), (0x5274, 0xB3CF),
    (0x5275, 0xB3D0), (0x5277, 0xB6D0)] @
   [(0x5278, 0xDCC7), (0x527A, 0xDCC6), (0x527B, 0xDCC8), (0x527C, 0xDCC9), (0x527D, 0xB6D1), (0x527F, 0xB6CF),
    (0x5280, 0xE141), (0x5281, 0xE142)] @
   [(0x5282, 0xB9BB), (0x5283, 0xB9BA), (0x5284, 0xE35A), (0x5287, 0xBC40), (0x5288, 0xBC41), (0x5289, 0xBC42),
    (0x528A, 0xBC44), (0x528B, 0xE4F2)] @
   [(0x528C, 0xE4F3), (0x528D, 0xBC43), (0x5291, 0xBEAF), (0x5293, 0xBEB0), (0x5296, 0xF1ED), (0x5297, 0xF5C3),
    (0x5298, 0xF5C2), (0x5299, 0xF7D1)] @
   [(0x529B, 0xA44F), (0x529F, 0xA55C), (0x52A0, 0xA55B), (0x52A3, 0xA648), (0x52A6, 0xC9C0), (0x52A9, 0xA755),
    (0x52AA, 0xA756), (0x52AB, 0xA754)] @
   [(0x52AC, 0xA757), (0x52AD, 0xCA6F), (0x52AE, 0xCA70), (0x52BB, 0xA8F1), (0x52BC, 0xCBD5), (0x52BE, 0xA8F0),
    (0x52C0, 0xCDF2), (0x52C1, 0xAB6C)] @
   [(0x52C2, 0xCDF3), (0x52C3, 0xAB6B), (0x52C7, 0xAB69), (0x52C9, 0xAB6A), (0x52CD, 0xD0ED), (0x52D2, 0xB0C7),
    (0x52D3, 0xD46E), (0x52D5, 0xB0CA)] @
   [(0x52D6, 0xD46D), (0x52D7, 0xB1E5), (0x52D8, 0xB0C9), (0x52D9, 0xB0C8), (0x52DB, 0xB3D4), (0x52DD, 0xB3D3),
    (0x52DE, 0xB3D2), (0x52DF, 0xB6D2)] @
   [(0x52E2, 0xB6D5), (0x52E3, 0xB6D6), (0x52E4, 0xB6D4), (0x52E6, 0xB6D3), (0x52E9, 0xE143), (0x52EB, 0xE144),
    (0x52EF, 0xE4F5), (0x52F0, 0xBC45)] @
   [(0x52F1, 0xE4F4), (0x52F3, 0xBEB1), (0x52F4, 0xECBF), (0x52F5, 0xC079), (0x52F7, 0xF1EE), (0x52F8, 0xC455),
    (0x52FA, 0xA463), (0x52FB, 0xA4C3)] @
   [(0x52FC, 0xC956), (0x52FE, 0xA4C4), (0x52FF, 0xA4C5), (0x5305, 0xA55D), (0x5306, 0xA55E), (0x5308, 0xA649),
    (0x5309, 0xCA71), (0x530A, 0xCBD6)] @
   [(0x530B, 0xCBD7), (0x530D, 0xAB6D), (0x530E, 0xD0EE), (0x530F, 0xB0CC), (0x5310, 0xB0CB), (0x5311, 0xD863),
    (0x5312, 0xD862), (0x5315, 0xA450)] @
   [(0x5316, 0xA4C6), (0x5317, 0xA55F), (0x5319, 0xB0CD), (0x531A, 0xC943), (0x531C, 0xC96C), (0x531D, 0xA560),
    (0x531F, 0xC9C2), (0x5320, 0xA64B)] @
   [(0x5321, 0xA64A), (0x5322, 0xC9C1), (0x5323, 0xA758), (0x532A, 0xADEA), (0x532D, 0xD46F), (0x532F, 0xB6D7),
    (0x5330, 0xE145), (0x5331, 0xB9BC)] @
   [(0x5334, 0xE8FA), (0x5337, 0xF3FD), (0x5339, 0xA4C7), (0x533C, 0xCBD8), (0x533D, 0xCDF4), (0x533E, 0xB0D0),
    (0x533F, 0xB0CE), (0x5340, 0xB0CF)] @
   [(0x5341, 0xA2CC), (0x5343, 0xA464), (0x5344, 0xA2CD), (0x5345, 0xA2CE), (0x5347, 0xA4C9), (0x5348, 0xA4C8),
    (0x5349, 0xA563), (0x534A, 0xA562)] @
   [(0x534C, 0xC96D), (0x534D, 0xC9C3), (0x5351, 0xA8F5), (0x5352, 0xA8F2), (0x5353, 0xA8F4), (0x5354, 0xA8F3),
    (0x5357, 0xAB6E), (0x535A, 0xB3D5)] @
   [(0x535C, 0xA452), (0x535E, 0xA4CB), (0x5360, 0xA565), (0x5361, 0xA564), (0x5363, 0xCA72), (0x5366, 0xA8F6),
    (0x536C, 0xC957), (0x536E, 0xA567)] @
   [(0x536F, 0xA566), (0x5370, 0xA64C), (0x5371, 0xA64D), (0x5372, 0xCA73), (0x5373, 0xA759), (0x5375, 0xA75A),
    (0x5377, 0xA8F7), (0x5378, 0xA8F8)] @
   [(0x5379, 0xA8F9), (0x537B, 0xAB6F), (0x537C, 0xCDF5), (0x537F, 0xADEB), (0x5382, 0xC944), (0x5384, 0xA4CC),
    (0x538A, 0xC9C4), (0x538E, 0xCA74)] @
   [(0x538F, 0xCA75), (0x5392, 0xCBD9), (0x5394, 0xCBDA), (0x5396, 0xCDF7), (0x5397, 0xCDF6), (0x5398, 0xCDF9),
    (0x5399, 0xCDF8), (0x539A, 0xAB70)] @
   [(0x539C, 0xD470), (0x539D, 0xADED), (0x539E, 0xD0EF), (0x539F, 0xADEC), (0x53A4, 0xD864), (0x53A5, 0xB3D6),
    (0x53A7, 0xD865), (0x53AC, 0xE146)] @
   [(0x53AD, 0xB9BD), (0x53B2, 0xBC46), (0x53B4, 0xF1EF), (0x53B9, 0xC958), (0x53BB, 0xA568), (0x53C3, 0xB0D1),
    (0x53C8, 0xA453), (0x53C9, 0xA465)] @
   [(0x53CA, 0xA4CE), (0x53CB, 0xA4CD), (0x53CD, 0xA4CF), (0x53D4, 0xA8FB), (0x53D6, 0xA8FA), (0x53D7, 0xA8FC),
    (0x53DB, 0xAB71), (0x53DF, 0xADEE)] @
   [(0x53E1, 0xE8FB), (0x53E2, 0xC24F), (0x53E3, 0xA466), (0x53E4, 0xA56A), (0x53E5, 0xA579), (0x53E6, 0xA574),
    (0x53E8, 0xA56F), (0x53E9, 0xA56E)]"

definition rev_cp950_5 :: "(nat \<times> nat) list" where
  "rev_cp950_5 =
   [(0x53EA, 0xA575), (0x53EB, 0xA573), (0x53EC, 0xA56C), (0x53ED, 0xA57A), (0x53EE, 0xA56D), (0x53EF, 0xA569),
    (0x53F0, 0xA578), (0x53F1, 0xA577)] @
   [(0x53F2, 0xA576), (0x53F3, 0xA56B), (0x53F5, 0xA572), (0x53F8, 0xA571), (0x53FB, 0xA57B), (0x53FC, 0xA570),
    (0x5401, 0xA653), (0x5403, 0xA659)] @
   [(0x5404, 0xA655), (0x5406, 0xA65B), (0x5407, 0xC9C5), (0x5408, 0xA658), (0x5409, 0xA64E), (0x540A, 0xA651),
    (0x540B, 0xA654), (0x540C, 0xA650)] @
   [(0x540D, 0xA657), (0x540E, 0xA65A), (0x540F, 0xA64F), (0x5410, 0xA652), (0x5411, 0xA656), (0x5412, 0xA65C),
    (0x5418, 0xCA7E), (0x5419, 0xCA7B)] @
   [(0x541B, 0xA767), (0x541C, 0xCA7C), (0x541D, 0xA75B), (0x541E, 0xA75D), (0x541F, 0xA775), (0x5420, 0xA770),
    (0x5424, 0xCAA5), (0x5425, 0xCA7D)] @
   [(0x5426, 0xA75F), (0x5427, 0xA761), (0x5428, 0xCAA4), (0x5429, 0xA768), (0x542A, 0xCA78), (0x542B, 0xA774),
    (0x542C, 0xA776), (0x542D, 0xA75C)] @
   [(0x542E, 0xA76D), (0x5430, 0xCA76), (0x5431, 0xA773), (0x5433, 0xA764), (0x5435, 0xA76E), (0x5436, 0xA76F),
    (0x5437, 0xCA77), (0x5438, 0xA76C)] @
   [(0x5439, 0xA76A), (0x543B, 0xA76B), (0x543C, 0xA771), (0x543D, 0xCAA1), (0x543E, 0xA75E), (0x5440, 0xA772),
    (0x5441, 0xCAA3), (0x5442, 0xA766)] @
   [(0x5443, 0xA763), (0x5445, 0xCA7A), (0x5446, 0xA762), (0x5447, 0xCAA6), (0x5448, 0xA765), (0x544A, 0xA769),
    (0x544E, 0xA760), (0x544F, 0xCAA2)] @
   [(0x5454, 0xCA79), (0x5460, 0xCBEB), (0x5461, 0xCBEA), (0x5462, 0xA94F), (0x5463, 0xCBED), (0x5464, 0xCBEF),
    (0x5465, 0xCBE4), (0x5466, 0xCBE7)] @
   [(0x5467, 0xCBEE), (0x5468, 0xA950), (0x546B, 0xCBE1), (0x546C, 0xCBE5), (0x546F, 0xCBE9), (0x5470, 0xCE49),
    (0x5471, 0xA94B), (0x5472, 0xCE4D)] @
   [(0x5473, 0xA8FD), (0x5474, 0xCBE6), (0x5475, 0xA8FE), (0x5476, 0xA94C), (0x5477, 0xA945), (0x5478, 0xA941),
    (0x547A, 0xCBE2), (0x547B, 0xA944)] @
   [(0x547C, 0xA949), (0x547D, 0xA952), (0x547E, 0xCBE3), (0x547F, 0xCBDC), (0x5480, 0xA943), (0x5481, 0xCBDD),
    (0x5482, 0xCBDF), (0x5484, 0xA946)] @
   [(0x5486, 0xA948), (0x5487, 0xCBDB), (0x5488, 0xCBE0), (0x548B, 0xA951), (0x548C, 0xA94D), (0x548D, 0xCBE8),
    (0x548E, 0xA953), (0x5490, 0xA94A)] @
   [(0x5491, 0xCBDE), (0x5492, 0xA947), (0x5495, 0xA942), (0x5496, 0xA940), (0x5498, 0xCBEC), (0x549A, 0xA94E),
    (0x54A0, 0xCE48), (0x54A1, 0xCDFB)] @
   [(0x54A2, 0xCE4B), (0x54A5, 0xCDFD), (0x54A6, 0xAB78), (0x54A7, 0xABA8), (0x54A8, 0xAB74), (0x54A9, 0xABA7),
    (0x54AA, 0xAB7D), (0x54AB, 0xABA4)] @
   [(0x54AC, 0xAB72), (0x54AD, 0xCDFC), (0x54AE, 0xCE43), (0x54AF, 0xABA3), (0x54B0, 0xCE4F), (0x54B1, 0xABA5),
    (0x54B3, 0xAB79), (0x54B6, 0xCE45)] @
   [(0x54B7, 0xCE42), (0x54B8, 0xAB77), (0x54BA, 0xCDFA), (0x54BB, 0xABA6), (0x54BC, 0xCE4A), (0x54BD, 0xAB7C),
    (0x54BE, 0xCE4C), (0x54BF, 0xABA9)] @
   [(0x54C0, 0xAB73), (0x54C1, 0xAB7E), (0x54C2, 0xAB7B), (0x54C3, 0xCE40), (0x54C4, 0xABA1), (0x54C5, 0xCE46),
    (0x54C6, 0xCE47), (0x54C7, 0xAB7A)] @
   [(0x54C8, 0xABA2), (0x54C9, 0xAB76), (0x54CE, 0xAB75), (0x54CF, 0xCDFE), (0x54D6, 0xCE44), (0x54DE, 0xCE4E),
    (0x54E0, 0xD144), (0x54E1, 0xADFB)] @
   [(0x54E2, 0xD0F1), (0x54E4, 0xD0F6), (0x54E5, 0xADF4), (0x54E6, 0xAE40), (0x54E7, 0xD0F4), (0x54E8, 0xADEF),
    (0x54E9, 0xADF9), (0x54EA, 0xADFE)] @
   [(0x54EB, 0xD0FB), (0x54ED, 0xADFA), (0x54EE, 0xADFD), (0x54F1, 0xD0FE), (0x54F2, 0xADF5), (0x54F3, 0xD0F5),
    (0x54F7, 0xD142), (0x54F8, 0xD143)] @
   [(0x54FA, 0xADF7), (0x54FB, 0xD141), (0x54FC, 0xADF3), (0x54FD, 0xAE43), (0x54FF, 0xD0F8), (0x5501, 0xADF1),
    (0x5503, 0xD146), (0x5504, 0xD0F9)] @
   [(0x5505, 0xD0FD), (0x5506, 0xADF6), (0x5507, 0xAE42), (0x5508, 0xD0FA), (0x5509, 0xADFC), (0x550A, 0xD140),
    (0x550B, 0xD147), (0x550C, 0xD4A1)] @
   [(0x550E, 0xD145), (0x550F, 0xAE44), (0x5510, 0xADF0), (0x5511, 0xD0FC), (0x5512, 0xD0F3), (0x5514, 0xADF8),
    (0x5517, 0xD0F2), (0x551A, 0xD0F7)] @
   [(0x5526, 0xD0F0), (0x5527, 0xAE41), (0x552A, 0xD477), (0x552C, 0xB0E4), (0x552D, 0xD4A7), (0x552E, 0xB0E2),
    (0x552F, 0xB0DF), (0x5530, 0xD47C)] @
   [(0x5531, 0xB0DB), (0x5532, 0xD4A2), (0x5533, 0xB0E6), (0x5534, 0xD476), (0x5535, 0xD47B), (0x5536, 0xD47A),
    (0x5537, 0xADF2), (0x5538, 0xB0E1)] @
   [(0x5539, 0xD4A5), (0x553B, 0xD4A8), (0x553C, 0xD473), (0x553E, 0xB3E8), (0x5540, 0xD4A9), (0x5541, 0xB0E7),
    (0x5543, 0xB0D9), (0x5544, 0xB0D6)] @
   [(0x5545, 0xD47E), (0x5546, 0xB0D3), (0x5548, 0xD4A6), (0x554A, 0xB0DA), (0x554B, 0xD4AA), (0x554D, 0xD474),
    (0x554E, 0xD4A4), (0x554F, 0xB0DD)] @
   [(0x5550, 0xD475), (0x5551, 0xD478), (0x5552, 0xD47D), (0x5555, 0xB0DE), (0x5556, 0xB0DC), (0x5557, 0xB0E8),
    (0x555C, 0xB0E3), (0x555E, 0xB0D7)] @
   [(0x555F, 0xB1D2), (0x5561, 0xB0D8), (0x5562, 0xD479), (0x5563, 0xB0E5), (0x5564, 0xB0E0), (0x5565, 0xD4A3),
    (0x5566, 0xB0D5), (0x556A, 0xB0D4)] @
   [(0x5575, 0xD471), (0x5576, 0xD472), (0x5577, 0xD86A), (0x557B, 0xB3D7), (0x557C, 0xB3DA), (0x557D, 0xD875),
    (0x557E, 0xB3EE), (0x557F, 0xD878)]"

definition rev_cp950_6 :: "(nat \<times> nat) list" where
  "rev_cp950_6 =
   [(0x5580, 0xB3D8), (0x5581, 0xD871), (0x5582, 0xB3DE), (0x5583, 0xB3E4), (0x5584, 0xB5BD), (0x5587, 0xB3E2),
    (0x5588, 0xD86E), (0x5589, 0xB3EF)] @
   [(0x558A, 0xB3DB), (0x558B, 0xB3E3), (0x558C, 0xD876), (0x558D, 0xDCD7), (0x558E, 0xD87B), (0x558F, 0xD86F),
    (0x5591, 0xD866), (0x5592, 0xD873)] @
   [(0x5593, 0xD86D), (0x5594, 0xB3E1), (0x5595, 0xD879), (0x5598, 0xB3DD), (0x5599, 0xB3F1), (0x559A, 0xB3EA),
    (0x559C, 0xB3DF), (0x559D, 0xB3DC)] @
   [(0x559F, 0xB3E7), (0x55A1, 0xD87A), (0x55A2, 0xD86C), (0x55A3, 0xD872), (0x55A4, 0xD874), (0x55A5, 0xD868),
    (0x55A6, 0xD877), (0x55A7, 0xB3D9)] @
   [(0x55A8, 0xD867), (0x55AA, 0xB3E0), (0x55AB, 0xB3F0), (0x55AC, 0xB3EC), (0x55AD, 0xD869), (0x55AE, 0xB3E6),
    (0x55B1, 0xB3ED), (0x55B2, 0xB3E9)] @
   [(0x55B3, 0xB3E5), (0x55B5, 0xD870), (0x55BB, 0xB3EB), (0x55BF, 0xDCD5), (0x55C0, 0xDCD1), (0x55C2, 0xDCE0),
    (0x55C3, 0xDCCA), (0x55C4, 0xDCD3)] @
   [(0x55C5, 0xB6E5), (0x55C6, 0xB6E6), (0x55C7, 0xB6DE), (0x55C8, 0xDCDC), (0x55C9, 0xB6E8), (0x55CA, 0xDCCF),
    (0x55CB, 0xDCCE), (0x55CC, 0xDCCC)] @
   [(0x55CD, 0xDCDE), (0x55CE, 0xB6DC), (0x55CF, 0xDCD8), (0x55D0, 0xDCCD), (0x55D1, 0xB6DF), (0x55D2, 0xDCD6),
    (0x55D3, 0xB6DA), (0x55D4, 0xDCD2)] @
   [(0x55D5, 0xDCD9), (0x55D6, 0xDCDB), (0x55D9, 0xDCDF), (0x55DA, 0xB6E3), (0x55DB, 0xDCCB), (0x55DC, 0xB6DD),
    (0x55DD, 0xDCD0), (0x55DF, 0xB6D8)] @
   [(0x55E1, 0xB6E4), (0x55E2, 0xDCDA), (0x55E3, 0xB6E0), (0x55E4, 0xB6E1), (0x55E5, 0xB6E7), (0x55E6, 0xB6DB),
    (0x55E7, 0xA25F), (0x55E8, 0xB6D9)] @
   [(0x55E9, 0xDCD4), (0x55EF, 0xB6E2), (0x55F2, 0xDCDD), (0x55F6, 0xB9CD), (0x55F7, 0xB9C8), (0x55F9, 0xE155),
    (0x55FA, 0xE151), (0x55FC, 0xE14B)] @
   [(0x55FD, 0xB9C2), (0x55FE, 0xB9BE), (0x55FF, 0xE154), (0x5600, 0xB9BF), (0x5601, 0xE14E), (0x5602, 0xE150),
    (0x5604, 0xE153), (0x5606, 0xB9C4)] @
   [(0x5608, 0xB9CB), (0x5609, 0xB9C5), (0x560C, 0xE149), (0x560D, 0xB9C6), (0x560E, 0xB9C7), (0x560F, 0xE14C),
    (0x5610, 0xB9CC), (0x5612, 0xE14A)] @
   [(0x5613, 0xE14F), (0x5614, 0xB9C3), (0x5615, 0xE148), (0x5616, 0xB9C9), (0x5617, 0xB9C1), (0x561B, 0xB9C0),
    (0x561C, 0xE14D), (0x561D, 0xE152)] @
   [(0x561F, 0xB9CA), (0x5627, 0xE147), (0x5629, 0xBC4D), (0x562A, 0xE547), (0x562C, 0xE544), (0x562E, 0xBC47),
    (0x562F, 0xBC53), (0x5630, 0xBC54)] @
   [(0x5632, 0xBC4A), (0x5633, 0xE542), (0x5634, 0xBC4C), (0x5635, 0xE4F9), (0x5636, 0xBC52), (0x5638, 0xE546),
    (0x5639, 0xBC49), (0x563A, 0xE548)] @
   [(0x563B, 0xBC48), (0x563D, 0xE543), (0x563E, 0xE545), (0x563F, 0xBC4B), (0x5640, 0xE541), (0x5641, 0xE4FA),
    (0x5642, 0xE4F7), (0x5645, 0xD86B)] @
   [(0x5646, 0xE4FD), (0x5648, 0xE4F6), (0x5649, 0xE4FC), (0x564A, 0xE4FB), (0x564C, 0xE4F8), (0x564E, 0xBC4F),
    (0x5653, 0xBC4E), (0x5657, 0xBC50)] @
   [(0x5658, 0xE4FE), (0x5659, 0xBEB2), (0x565A, 0xE540), (0x565E, 0xE945), (0x5660, 0xE8FD), (0x5662, 0xBEBE),
    (0x5663, 0xE942), (0x5664, 0xBEB6)] @
   [(0x5665, 0xBEBA), (0x5666, 0xE941), (0x5668, 0xBEB9), (0x5669, 0xBEB5), (0x566A, 0xBEB8), (0x566B, 0xBEB3),
    (0x566C, 0xBEBD), (0x566D, 0xE943)] @
   [(0x566E, 0xE8FE), (0x566F, 0xBEBC), (0x5670, 0xE8FC), (0x5671, 0xBEBB), (0x5672, 0xE944), (0x5673, 0xE940),
    (0x5674, 0xBC51), (0x5676, 0xBEBF)] @
   [(0x5677, 0xE946), (0x5678, 0xBEB7), (0x5679, 0xBEB4), (0x567E, 0xECC6), (0x567F, 0xECC8), (0x5680, 0xC07B),
    (0x5681, 0xECC9), (0x5682, 0xECC7)] @
   [(0x5683, 0xECC5), (0x5684, 0xECC4), (0x5685, 0xC07D), (0x5686, 0xECC3), (0x5687, 0xC07E), (0x568C, 0xECC1),
    (0x568D, 0xECC2), (0x568E, 0xC07A)] @
   [(0x568F, 0xC0A1), (0x5690, 0xC07C), (0x5693, 0xECC0), (0x5695, 0xC250), (0x5697, 0xEFBC), (0x5698, 0xEFBA),
    (0x5699, 0xEFBF), (0x569A, 0xEFBD)] @
   [(0x569C, 0xEFBB), (0x569D, 0xEFBE), (0x56A5, 0xC360), (0x56A6, 0xF1F2), (0x56A7, 0xF1F3), (0x56A8, 0xC456),
    (0x56AA, 0xF1F4), (0x56AB, 0xF1F0)] @
   [(0x56AC, 0xF1F5), (0x56AD, 0xF1F1), (0x56AE, 0xC251), (0x56B2, 0xF3FE), (0x56B3, 0xF441), (0x56B4, 0xC459),
    (0x56B5, 0xF440), (0x56B6, 0xC458)] @
   [(0x56B7, 0xC457), (0x56BC, 0xC45A), (0x56BD, 0xF5C5), (0x56BE, 0xF5C6), (0x56C0, 0xC4DA), (0x56C1, 0xC4D9),
    (0x56C2, 0xC4DB), (0x56C3, 0xF5C4)] @
   [(0x56C5, 0xF6D8), (0x56C6, 0xF6D7), (0x56C8, 0xC56D), (0x56C9, 0xC56F), (0x56CA, 0xC56E), (0x56CB, 0xF6D9),
    (0x56CC, 0xC5C8), (0x56CD, 0xF8A6)] @
   [(0x56D1, 0xC5F1), (0x56D3, 0xF8A5), (0x56D4, 0xF8EE), (0x56D7, 0xC949), (0x56DA, 0xA57D), (0x56DB, 0xA57C),
    (0x56DD, 0xA65F), (0x56DE, 0xA65E)] @
   [(0x56DF, 0xC9C7), (0x56E0, 0xA65D), (0x56E1, 0xC9C6), (0x56E4, 0xA779), (0x56E5, 0xCAA9), (0x56E7, 0xCAA8),
    (0x56EA, 0xA777), (0x56EB, 0xA77A)] @
   [(0x56EE, 0xCAA7), (0x56F0, 0xA778), (0x56F7, 0xCBF0), (0x56F9, 0xCBF1), (0x56FA, 0xA954), (0x56FF, 0xABAA),
    (0x5701, 0xD148), (0x5702, 0xD149)] @
   [(0x5703, 0xAE45), (0x5704, 0xAE46), (0x5707, 0xD4AC), (0x5708, 0xB0E9), (0x5709, 0xB0EB), (0x570A, 0xD4AB),
    (0x570B, 0xB0EA), (0x570C, 0xD87C)]"

definition rev_cp950_7 :: "(nat \<times> nat) list" where
  "rev_cp950_7 =
   [(0x570D, 0xB3F2), (0x5712, 0xB6E9), (0x5713, 0xB6EA), (0x5714, 0xDCE1), (0x5716, 0xB9CF), (0x5718, 0xB9CE),
    (0x571A, 0xE549), (0x571B, 0xE948)] @
   [(0x571C, 0xE947), (0x571E, 0xF96B), (0x571F, 0xA467), (0x5720, 0xC959), (0x5722, 0xC96E), (0x5723, 0xC96F),
    (0x5728, 0xA662), (0x5729, 0xA666)] @
   [(0x572A, 0xC9C9), (0x572C, 0xA664), (0x572D, 0xA663), (0x572E, 0xC9C8), (0x572F, 0xA665), (0x5730, 0xA661),
    (0x5733, 0xA660), (0x5734, 0xC9CA)] @
   [(0x573B, 0xA7A6), (0x573E, 0xA7A3), (0x5740, 0xA77D), (0x5741, 0xCAAA), (0x5745, 0xCAAB), (0x5747, 0xA7A1),
    (0x5749, 0xCAAD), (0x574A, 0xA77B)] @
   [(0x574B, 0xCAAE), (0x574C, 0xCAAC), (0x574D, 0xA77E), (0x574E, 0xA7A2), (0x574F, 0xA7A5), (0x5750, 0xA7A4),
    (0x5751, 0xA77C), (0x5752, 0xCAAF)] @
   [(0x5761, 0xA959), (0x5762, 0xCBFE), (0x5764, 0xA95B), (0x5766, 0xA95A), (0x5768, 0xCC40), (0x5769, 0xA958),
    (0x576A, 0xA957), (0x576B, 0xCBF5)] @
   [(0x576D, 0xCBF4), (0x576F, 0xCBF2), (0x5770, 0xCBF7), (0x5771, 0xCBF6), (0x5772, 0xCBF3), (0x5773, 0xCBFC),
    (0x5774, 0xCBFD), (0x5775, 0xCBFA)] @
   [(0x5776, 0xCBF8), (0x5777, 0xA956), (0x577B, 0xCBFB), (0x577C, 0xA95C), (0x577D, 0xCC41), (0x5780, 0xCBF9),
    (0x5782, 0xABAB), (0x5783, 0xA955)] @
   [(0x578B, 0xABAC), (0x578C, 0xCE54), (0x578F, 0xCE5A), (0x5793, 0xABB2), (0x5794, 0xCE58), (0x5795, 0xCE5E),
    (0x5797, 0xCE55), (0x5798, 0xCE59)] @
   [(0x5799, 0xCE5B), (0x579A, 0xCE5D), (0x579B, 0xCE57), (0x579D, 0xCE56), (0x579E, 0xCE51), (0x579F, 0xCE52),
    (0x57A0, 0xABAD), (0x57A2, 0xABAF)] @
   [(0x57A3, 0xABAE), (0x57A4, 0xCE53), (0x57A5, 0xCE5C), (0x57AE, 0xABB1), (0x57B5, 0xCE50), (0x57B6, 0xD153),
    (0x57B8, 0xD152), (0x57B9, 0xD157)] @
   [(0x57BA, 0xD14E), (0x57BC, 0xD151), (0x57BD, 0xD150), (0x57BF, 0xD154), (0x57C1, 0xD158), (0x57C2, 0xAE47),
    (0x57C3, 0xAE4A), (0x57C6, 0xD14F)] @
   [(0x57C7, 0xD155), (0x57CB, 0xAE49), (0x57CC, 0xD14A), (0x57CE, 0xABB0), (0x57CF, 0xD4BA), (0x57D0, 0xD156),
    (0x57D2, 0xD14D), (0x57D4, 0xAE48)] @
   [(0x57D5, 0xD14C), (0x57DC, 0xD4B1), (0x57DF, 0xB0EC), (0x57E0, 0xB0F0), (0x57E1, 0xD4C1), (0x57E2, 0xD4AF),
    (0x57E3, 0xD4BD), (0x57E4, 0xB0F1)] @
   [(0x57E5, 0xD4BF), (0x57E7, 0xD4C5), (0x57E9, 0xD4C9), (0x57EC, 0xD4C0), (0x57ED, 0xD4B4), (0x57EE, 0xD4BC),
    (0x57F0, 0xD4CA), (0x57F1, 0xD4C8)] @
   [(0x57F2, 0xD4BE), (0x57F3, 0xD4B9), (0x57F4, 0xD4B2), (0x57F5, 0xD8A6), (0x57F6, 0xD4B0), (0x57F7, 0xB0F5),
    (0x57F8, 0xD4B7), (0x57F9, 0xB0F6)] @
   [(0x57FA, 0xB0F2), (0x57FB, 0xD4AD), (0x57FC, 0xD4C3), (0x57FD, 0xD4B5), (0x5800, 0xD4B3), (0x5801, 0xD4C6),
    (0x5802, 0xB0F3), (0x5804, 0xD4CC)] @
   [(0x5805, 0xB0ED), (0x5806, 0xB0EF), (0x5807, 0xD4BB), (0x5808, 0xD4B6), (0x5809, 0xAE4B), (0x580A, 0xB0EE),
    (0x580B, 0xD4B8), (0x580C, 0xD4C7)] @
   [(0x580D, 0xD4CB), (0x580E, 0xD4C2), (0x5810, 0xD4C4), (0x5814, 0xD4AE), (0x5819, 0xD8A1), (0x581B, 0xD8AA),
    (0x581C, 0xD8A9), (0x581D, 0xB3FA)] @
   [(0x581E, 0xD8A2), (0x5820, 0xB3FB), (0x5821, 0xB3F9), (0x5823, 0xD8A4), (0x5824, 0xB3F6), (0x5825, 0xD8A8),
    (0x5827, 0xD8A3), (0x5828, 0xD8A5)] @
   [(0x5829, 0xD87D), (0x582A, 0xB3F4), (0x582C, 0xD8B2), (0x582D, 0xD8B1), (0x582E, 0xD8AE), (0x582F, 0xB3F3),
    (0x5830, 0xB3F7), (0x5831, 0xB3F8)] @
   [(0x5832, 0xD14B), (0x5833, 0xD8AB), (0x5834, 0xB3F5), (0x5835, 0xB0F4), (0x5836, 0xD8AD), (0x5837, 0xD87E),
    (0x5838, 0xD8B0), (0x5839, 0xD8AF)] @
   [(0x583B, 0xD8B3), (0x583D, 0xDCEF), (0x583F, 0xD8AC), (0x5848, 0xD8A7), (0x5849, 0xDCE7), (0x584A, 0xB6F4),
    (0x584B, 0xB6F7), (0x584C, 0xB6F2)] @
   [(0x584D, 0xDCE6), (0x584E, 0xDCEA), (0x584F, 0xDCE5), (0x5851, 0xB6EC), (0x5852, 0xB6F6), (0x5853, 0xDCE2),
    (0x5854, 0xB6F0), (0x5855, 0xDCE9)] @
   [(0x5857, 0xB6EE), (0x5858, 0xB6ED), (0x5859, 0xDCEC), (0x585A, 0xB6EF), (0x585B, 0xDCEE), (0x585D, 0xDCEB),
    (0x585E, 0xB6EB), (0x5862, 0xB6F5)] @
   [(0x5863, 0xDCF0), (0x5864, 0xDCE4), (0x5865, 0xDCED), (0x5868, 0xDCE3), (0x586B, 0xB6F1), (0x586D, 0xB6F3),
    (0x586F, 0xDCE8), (0x5871, 0xDCF1)] @
   [(0x5874, 0xE15D), (0x5875, 0xB9D0), (0x5876, 0xE163), (0x5879, 0xB9D5), (0x587A, 0xE15F), (0x587B, 0xE166),
    (0x587C, 0xE157), (0x587D, 0xB9D7)] @
   [(0x587E, 0xB9D1), (0x587F, 0xE15C), (0x5880, 0xBC55), (0x5881, 0xE15B), (0x5882, 0xE164), (0x5883, 0xB9D2),
    (0x5885, 0xB9D6), (0x5886, 0xE15A)] @
   [(0x5887, 0xE160), (0x5888, 0xE165), (0x5889, 0xE156), (0x588A, 0xB9D4), (0x588B, 0xE15E), (0x588E, 0xE162),
    (0x588F, 0xE168), (0x5890, 0xE158)] @
   [(0x5891, 0xE161), (0x5893, 0xB9D3), (0x5894, 0xE167), (0x5898, 0xE159), (0x589C, 0xBC59), (0x589D, 0xE54B),
    (0x589E, 0xBC57), (0x589F, 0xBC56)] @
   [(0x58A0, 0xE54D), (0x58A1, 0xE552), (0x58A3, 0xE54E), (0x58A5, 0xE551), (0x58A6, 0xBC5C), (0x58A8, 0xBEA5),
    (0x58A9, 0xBC5B), (0x58AB, 0xE54A)] @
   [(0x58AC, 0xE550), (0x58AE, 0xBC5A), (0x58AF, 0xE54F), (0x58B1, 0xE54C), (0x58B3, 0xBC58), (0x58BA, 0xE94D),
    (0x58BB, 0xF9D9), (0x58BC, 0xE94F)]"

definition rev_cp950_8 :: "(nat \<times> nat) list" where
  "rev_cp950_8 =
   [(0x58BD, 0xE94A), (0x58BE, 0xBEC1), (0x58BF, 0xE94C), (0x58C1, 0xBEC0), (0x58C2, 0xE94E), (0x58C5, 0xBEC3),
    (0x58C6, 0xE950), (0x58C7, 0xBEC2)] @
   [(0x58C8, 0xE949), (0x58C9, 0xE94B), (0x58CE, 0xC0A5), (0x58CF, 0xECCC), (0x58D1, 0xC0A4), (0x58D2, 0xECCD),
    (0x58D3, 0xC0A3), (0x58D4, 0xECCB)] @
   [(0x58D5, 0xC0A2), (0x58D6, 0xECCA), (0x58D8, 0xC253), (0x58D9, 0xC252), (0x58DA, 0xF1F6), (0x58DB, 0xF1F8),
    (0x58DD, 0xF1F7), (0x58DE, 0xC361)] @
   [(0x58DF, 0xC362), (0x58E2, 0xC363), (0x58E3, 0xF442), (0x58E4, 0xC45B), (0x58E7, 0xF7D3), (0x58E8, 0xF7D2),
    (0x58E9, 0xC5F2), (0x58EB, 0xA468)] @
   [(0x58EC, 0xA4D0), (0x58EF, 0xA7A7), (0x58F4, 0xCE5F), (0x58F9, 0xB3FC), (0x58FA, 0xB3FD), (0x58FC, 0xDCF2),
    (0x58FD, 0xB9D8), (0x58FE, 0xE169)] @
   [(0x58FF, 0xE553), (0x5903, 0xC95A), (0x5906, 0xCAB0), (0x590C, 0xCC42), (0x590D, 0xCE60), (0x590E, 0xD159),
    (0x590F, 0xAE4C), (0x5912, 0xF1F9)] @
   [(0x5914, 0xC4DC), (0x5915, 0xA469), (0x5916, 0xA57E), (0x5917, 0xC970), (0x5919, 0xA667), (0x591A, 0xA668),
    (0x591C, 0xA95D), (0x5920, 0xB0F7)] @
   [(0x5922, 0xB9DA), (0x5924, 0xB9DB), (0x5925, 0xB9D9), (0x5927, 0xA46A), (0x5929, 0xA4D1), (0x592A, 0xA4D3),
    (0x592B, 0xA4D2), (0x592C, 0xC95B)] @
   [(0x592D, 0xA4D4), (0x592E, 0xA5A1), (0x592F, 0xC971), (0x5931, 0xA5A2), (0x5937, 0xA669), (0x5938, 0xA66A),
    (0x593C, 0xC9CB), (0x593E, 0xA7A8)] @
   [(0x5940, 0xCAB1), (0x5944, 0xA961), (0x5945, 0xCC43), (0x5947, 0xA95F), (0x5948, 0xA960), (0x5949, 0xA95E),
    (0x594A, 0xD15A), (0x594E, 0xABB6)] @
   [(0x594F, 0xABB5), (0x5950, 0xABB7), (0x5951, 0xABB4), (0x5953, 0xCE61), (0x5954, 0xA962), (0x5955, 0xABB3),
    (0x5957, 0xAE4D), (0x5958, 0xAE4E)] @
   [(0x595A, 0xAE4F), (0x595C, 0xD4CD), (0x5960, 0xB3FE), (0x5961, 0xD8B4), (0x5962, 0xB0F8), (0x5967, 0xB6F8),
    (0x5969, 0xB9DD), (0x596A, 0xB9DC)] @
   [(0x596B, 0xE16A), (0x596D, 0xBC5D), (0x596E, 0xBEC4), (0x5970, 0xEFC0), (0x5971, 0xF6DA), (0x5972, 0xF7D4),
    (0x5973, 0xA46B), (0x5974, 0xA5A3)] @
   [(0x5976, 0xA5A4), (0x5977, 0xC9D1), (0x5978, 0xA66C), (0x5979, 0xA66F), (0x597B, 0xC9CF), (0x597C, 0xC9CD),
    (0x597D, 0xA66E), (0x597E, 0xC9D0)] @
   [(0x597F, 0xC9D2), (0x5980, 0xC9CC), (0x5981, 0xA671), (0x5982, 0xA670), (0x5983, 0xA66D), (0x5984, 0xA66B),
    (0x5985, 0xC9CE), (0x598A, 0xA7B3)] @
   [(0x598D, 0xA7B0), (0x598E, 0xCAB6), (0x598F, 0xCAB9), (0x5990, 0xCAB8), (0x5992, 0xA7AA), (0x5993, 0xA7B2),
    (0x5996, 0xA7AF), (0x5997, 0xCAB5)] @
   [(0x5998, 0xCAB3), (0x5999, 0xA7AE), (0x599D, 0xA7A9), (0x599E, 0xA7AC), (0x59A0, 0xCAB4), (0x59A1, 0xCABB),
    (0x59A2, 0xCAB7), (0x59A3, 0xA7AD)] @
   [(0x59A4, 0xA7B1), (0x59A5, 0xA7B4), (0x59A6, 0xCAB2), (0x59A7, 0xCABA), (0x59A8, 0xA7AB), (0x59AE, 0xA967),
    (0x59AF, 0xA96F), (0x59B1, 0xCC4F)] @
   [(0x59B2, 0xCC48), (0x59B3, 0xA970), (0x59B4, 0xCC53), (0x59B5, 0xCC44), (0x59B6, 0xCC4B), (0x59B9, 0xA966),
    (0x59BA, 0xCC45), (0x59BB, 0xA964)] @
   [(0x59BC, 0xCC4C), (0x59BD, 0xCC50), (0x59BE, 0xA963), (0x59C0, 0xCC51), (0x59C1, 0xCC4A), (0x59C3, 0xCC4D),
    (0x59C5, 0xA972), (0x59C6, 0xA969)] @
   [(0x59C7, 0xCC54), (0x59C8, 0xCC52), (0x59CA, 0xA96E), (0x59CB, 0xA96C), (0x59CC, 0xCC49), (0x59CD, 0xA96B),
    (0x59CE, 0xCC47), (0x59CF, 0xCC46)] @
   [(0x59D0, 0xA96A), (0x59D1, 0xA968), (0x59D2, 0xA971), (0x59D3, 0xA96D), (0x59D4, 0xA965), (0x59D6, 0xCC4E),
    (0x59D8, 0xABB9), (0x59DA, 0xABC0)] @
   [(0x59DB, 0xCE6F), (0x59DC, 0xABB8), (0x59DD, 0xCE67), (0x59DE, 0xCE63), (0x59E0, 0xCE73), (0x59E1, 0xCE62),
    (0x59E3, 0xABBB), (0x59E4, 0xCE6C)] @
   [(0x59E5, 0xABBE), (0x59E6, 0xABC1), (0x59E8, 0xABBC), (0x59E9, 0xCE70), (0x59EA, 0xABBF), (0x59EC, 0xAE56),
    (0x59ED, 0xCE76), (0x59EE, 0xCE64)] @
   [(0x59F1, 0xCE66), (0x59F2, 0xCE6D), (0x59F3, 0xCE71), (0x59F4, 0xCE75), (0x59F5, 0xCE72), (0x59F6, 0xCE6B),
    (0x59F7, 0xCE6E), (0x59FA, 0xCE68)] @
   [(0x59FB, 0xABC3), (0x59FC, 0xCE6A), (0x59FD, 0xCE69), (0x59FE, 0xCE74), (0x59FF, 0xABBA), (0x5A00, 0xCE65),
    (0x5A01, 0xABC2), (0x5A03, 0xABBD)] @
   [(0x5A09, 0xAE5C), (0x5A0A, 0xD162), (0x5A0C, 0xAE5B), (0x5A0F, 0xD160), (0x5A11, 0xAE50), (0x5A13, 0xAE55),
    (0x5A15, 0xD15F), (0x5A16, 0xD15C)] @
   [(0x5A17, 0xD161), (0x5A18, 0xAE51), (0x5A19, 0xD15B), (0x5A1B, 0xAE54), (0x5A1C, 0xAE52), (0x5A1E, 0xD163),
    (0x5A1F, 0xAE53), (0x5A20, 0xAE57)] @
   [(0x5A23, 0xAE58), (0x5A25, 0xAE5A), (0x5A29, 0xAE59), (0x5A2D, 0xD15D), (0x5A2E, 0xD15E), (0x5A33, 0xD164),
    (0x5A35, 0xD4D4), (0x5A36, 0xB0F9)] @
   [(0x5A37, 0xD8C2), (0x5A38, 0xD4D3), (0x5A39, 0xD4E6), (0x5A3C, 0xB140), (0x5A3E, 0xD4E4), (0x5A40, 0xB0FE),
    (0x5A41, 0xB0FA), (0x5A42, 0xD4ED)] @
   [(0x5A43, 0xD4DD), (0x5A44, 0xD4E0), (0x5A46, 0xB143), (0x5A47, 0xD4EA), (0x5A48, 0xD4E2), (0x5A49, 0xB0FB),
    (0x5A4A, 0xB144), (0x5A4C, 0xD4E7)] @
   [(0x5A4D, 0xD4E5), (0x5A50, 0xD4D6), (0x5A51, 0xD4EB), (0x5A52, 0xD4DF), (0x5A53, 0xD4DA), (0x5A55, 0xD4D0),
    (0x5A56, 0xD4EC), (0x5A57, 0xD4DC)]"

definition rev_cp950_9 :: "(nat \<times> nat) list" where
  "rev_cp950_9 =
   [(0x5A58, 0xD4CF), (0x5A5A, 0xB142), (0x5A5B, 0xD4E1), (0x5A5C, 0xD4EE), (0x5A5D, 0xD4DE), (0x5A5E, 0xD4D2),
    (0x5A5F, 0xD4D7), (0x5A60, 0xD4CE)] @
   [(0x5A62, 0xB141), (0x5A64, 0xD4DB), (0x5A65, 0xD4D8), (0x5A66, 0xB0FC), (0x5A67, 0xD4D1), (0x5A69, 0xD4E9),
    (0x5A6A, 0xB0FD), (0x5A6C, 0xD4D9)] @
   [(0x5A6D, 0xD4D5), (0x5A70, 0xD4E8), (0x5A77, 0xB440), (0x5A78, 0xD8BB), (0x5A7A, 0xD8B8), (0x5A7B, 0xD8C9),
    (0x5A7C, 0xD8BD), (0x5A7D, 0xD8CA)] @
   [(0x5A7F, 0xB442), (0x5A83, 0xD8C6), (0x5A84, 0xD8C3), (0x5A8A, 0xD8C4), (0x5A8B, 0xD8C7), (0x5A8C, 0xD8CB),
    (0x5A8E, 0xD4E3), (0x5A8F, 0xD8CD)] @
   [(0x5A90, 0xDD47), (0x5A92, 0xB443), (0x5A93, 0xD8CE), (0x5A94, 0xD8B6), (0x5A95, 0xD8C0), (0x5A97, 0xD8C5),
    (0x5A9A, 0xB441), (0x5A9B, 0xB444)] @
   [(0x5A9C, 0xD8CC), (0x5A9D, 0xD8CF), (0x5A9E, 0xD8BA), (0x5A9F, 0xD8B7), (0x5AA2, 0xD8B9), (0x5AA5, 0xD8BE),
    (0x5AA6, 0xD8BC), (0x5AA7, 0xB445)] @
   [(0x5AA9, 0xD8C8), (0x5AAC, 0xD8BF), (0x5AAE, 0xD8C1), (0x5AAF, 0xD8B5), (0x5AB0, 0xDCFA), (0x5AB1, 0xDCF8),
    (0x5AB2, 0xB742), (0x5AB3, 0xB740)] @
   [(0x5AB4, 0xDD43), (0x5AB5, 0xDCF9), (0x5AB6, 0xDD44), (0x5AB7, 0xDD40), (0x5AB8, 0xDCF7), (0x5AB9, 0xDD46),
    (0x5ABA, 0xDCF6), (0x5ABB, 0xDCFD)] @
   [(0x5ABC, 0xB6FE), (0x5ABD, 0xB6FD), (0x5ABE, 0xB6FC), (0x5ABF, 0xDCFB), (0x5AC0, 0xDD41), (0x5AC1, 0xB6F9),
    (0x5AC2, 0xB741), (0x5AC4, 0xDCF4)] @
   [(0x5AC6, 0xDCFE), (0x5AC7, 0xDCF3), (0x5AC8, 0xDCFC), (0x5AC9, 0xB6FA), (0x5ACA, 0xDD42), (0x5ACB, 0xDCF5),
    (0x5ACC, 0xB6FB), (0x5ACD, 0xDD45)] @
   [(0x5AD5, 0xE16E), (0x5AD6, 0xB9E2), (0x5AD7, 0xB9E1), (0x5AD8, 0xB9E3), (0x5AD9, 0xE17A), (0x5ADA, 0xE170),
    (0x5ADB, 0xE176), (0x5ADC, 0xE16B)] @
   [(0x5ADD, 0xE179), (0x5ADE, 0xE178), (0x5ADF, 0xE17C), (0x5AE0, 0xE175), (0x5AE1, 0xB9DE), (0x5AE2, 0xE174),
    (0x5AE3, 0xB9E4), (0x5AE5, 0xE16D)] @
   [(0x5AE6, 0xB9DF), (0x5AE8, 0xE17B), (0x5AE9, 0xB9E0), (0x5AEA, 0xE16F), (0x5AEB, 0xE172), (0x5AEC, 0xE177),
    (0x5AED, 0xE171), (0x5AEE, 0xE16C)] @
   [(0x5AF3, 0xE173), (0x5AF4, 0xE555), (0x5AF5, 0xBC61), (0x5AF6, 0xE558), (0x5AF7, 0xE557), (0x5AF8, 0xE55A),
    (0x5AF9, 0xE55C), (0x5AFA, 0xF9DC)] @
   [(0x5AFB, 0xBC5F), (0x5AFD, 0xE556), (0x5AFF, 0xE554), (0x5B01, 0xE55D), (0x5B02, 0xE55B), (0x5B03, 0xE559),
    (0x5B05, 0xE55F), (0x5B07, 0xE55E)] @
   [(0x5B08, 0xBC63), (0x5B09, 0xBC5E), (0x5B0B, 0xBC60), (0x5B0C, 0xBC62), (0x5B0F, 0xE560), (0x5B10, 0xE957),
    (0x5B13, 0xE956), (0x5B14, 0xE955)] @
   [(0x5B16, 0xE958), (0x5B17, 0xE951), (0x5B19, 0xE952), (0x5B1A, 0xE95A), (0x5B1B, 0xE953), (0x5B1D, 0xBEC5),
    (0x5B1E, 0xE95C), (0x5B20, 0xE95B)] @
   [(0x5B21, 0xE954), (0x5B23, 0xECD1), (0x5B24, 0xC0A8), (0x5B25, 0xECCF), (0x5B26, 0xECD4), (0x5B27, 0xECD3),
    (0x5B28, 0xE959), (0x5B2A, 0xC0A7)] @
   [(0x5B2C, 0xECD2), (0x5B2D, 0xECCE), (0x5B2E, 0xECD6), (0x5B2F, 0xECD5), (0x5B30, 0xC0A6), (0x5B32, 0xECD0),
    (0x5B34, 0xBEC6), (0x5B38, 0xC254)] @
   [(0x5B3C, 0xEFC1), (0x5B3D, 0xF1FA), (0x5B3E, 0xF1FB), (0x5B3F, 0xF1FC), (0x5B40, 0xC45C), (0x5B43, 0xC45D),
    (0x5B45, 0xF443), (0x5B47, 0xF5C8)] @
   [(0x5B48, 0xF5C7), (0x5B4B, 0xF6DB), (0x5B4C, 0xF6DC), (0x5B4D, 0xF7D5), (0x5B4E, 0xF8A7), (0x5B50, 0xA46C),
    (0x5B51, 0xA46D), (0x5B53, 0xA46E)] @
   [(0x5B54, 0xA4D5), (0x5B55, 0xA5A5), (0x5B56, 0xC9D3), (0x5B57, 0xA672), (0x5B58, 0xA673), (0x5B5A, 0xA7B7),
    (0x5B5B, 0xA7B8), (0x5B5C, 0xA7B6)] @
   [(0x5B5D, 0xA7B5), (0x5B5F, 0xA973), (0x5B62, 0xCC55), (0x5B63, 0xA975), (0x5B64, 0xA974), (0x5B65, 0xCC56),
    (0x5B69, 0xABC4), (0x5B6B, 0xAE5D)] @
   [(0x5B6C, 0xD165), (0x5B6E, 0xD4F0), (0x5B70, 0xB145), (0x5B71, 0xB447), (0x5B72, 0xD4EF), (0x5B73, 0xB446),
    (0x5B75, 0xB9E5), (0x5B77, 0xE17D)] @
   [(0x5B78, 0xBEC7), (0x5B7A, 0xC0A9), (0x5B7B, 0xECD7), (0x5B7D, 0xC45E), (0x5B7F, 0xC570), (0x5B81, 0xC972),
    (0x5B83, 0xA5A6), (0x5B84, 0xC973)] @
   [(0x5B85, 0xA676), (0x5B87, 0xA674), (0x5B88, 0xA675), (0x5B89, 0xA677), (0x5B8B, 0xA7BA), (0x5B8C, 0xA7B9),
    (0x5B8E, 0xCABC), (0x5B8F, 0xA7BB)] @
   [(0x5B92, 0xCABD), (0x5B93, 0xCC57), (0x5B95, 0xCC58), (0x5B97, 0xA976), (0x5B98, 0xA978), (0x5B99, 0xA97A),
    (0x5B9A, 0xA977), (0x5B9B, 0xA97B)] @
   [(0x5B9C, 0xA979), (0x5BA2, 0xABC8), (0x5BA3, 0xABC5), (0x5BA4, 0xABC7), (0x5BA5, 0xABC9), (0x5BA6, 0xABC6),
    (0x5BA7, 0xD166), (0x5BA8, 0xCE77)] @
   [(0x5BAC, 0xD168), (0x5BAD, 0xD167), (0x5BAE, 0xAE63), (0x5BB0, 0xAE5F), (0x5BB3, 0xAE60), (0x5BB4, 0xAE62),
    (0x5BB5, 0xAE64), (0x5BB6, 0xAE61)] @
   [(0x5BB8, 0xAE66), (0x5BB9, 0xAE65), (0x5BBF, 0xB14A), (0x5BC0, 0xD4F2), (0x5BC1, 0xD4F1), (0x5BC2, 0xB149),
    (0x5BC4, 0xB148), (0x5BC5, 0xB147)] @
   [(0x5BC6, 0xB14B), (0x5BC7, 0xB146), (0x5BCA, 0xD8D5), (0x5BCB, 0xD8D2), (0x5BCC, 0xB449), (0x5BCD, 0xD8D1),
    (0x5BCE, 0xD8D6), (0x5BD0, 0xB44B)] @
   [(0x5BD1, 0xD8D4), (0x5BD2, 0xB448), (0x5BD3, 0xB44A), (0x5BD4, 0xD8D3), (0x5BD6, 0xDD48), (0x5BD8, 0xDD49),
    (0x5BD9, 0xDD4A), (0x5BDE, 0xB9E6)]"

definition rev_cp950_10 :: "(nat \<times> nat) list" where
  "rev_cp950_10 =
   [(0x5BDF, 0xB9EE), (0x5BE0, 0xE17E), (0x5BE1, 0xB9E8), (0x5BE2, 0xB9EC), (0x5BE3, 0xE1A1), (0x5BE4, 0xB9ED),
    (0x5BE5, 0xB9E9), (0x5BE6, 0xB9EA)] @
   [(0x5BE7, 0xB9E7), (0x5BE8, 0xB9EB), (0x5BE9, 0xBC66), (0x5BEA, 0xD8D0), (0x5BEB, 0xBC67), (0x5BEC, 0xBC65),
    (0x5BEE, 0xBC64), (0x5BEF, 0xE95D)] @
   [(0x5BF0, 0xBEC8), (0x5BF1, 0xECD8), (0x5BF2, 0xECD9), (0x5BF5, 0xC364), (0x5BF6, 0xC45F), (0x5BF8, 0xA46F),
    (0x5BFA, 0xA678), (0x5C01, 0xABCA)] @
   [(0x5C03, 0xD169), (0x5C04, 0xAE67), (0x5C07, 0xB14E), (0x5C08, 0xB14D), (0x5C09, 0xB14C), (0x5C0A, 0xB44C),
    (0x5C0B, 0xB44D), (0x5C0C, 0xD8D7)] @
   [(0x5C0D, 0xB9EF), (0x5C0E, 0xBEC9), (0x5C0F, 0xA470), (0x5C10, 0xC95C), (0x5C11, 0xA4D6), (0x5C12, 0xC974),
    (0x5C15, 0xC9D4), (0x5C16, 0xA679)] @
   [(0x5C1A, 0xA97C), (0x5C1F, 0xDD4B), (0x5C22, 0xA471), (0x5C24, 0xA4D7), (0x5C25, 0xC9D5), (0x5C28, 0xCABE),
    (0x5C2A, 0xCABF), (0x5C2C, 0xA7BC)] @
   [(0x5C30, 0xD8D8), (0x5C31, 0xB44E), (0x5C33, 0xDD4C), (0x5C37, 0xC0AA), (0x5C38, 0xA472), (0x5C39, 0xA4A8),
    (0x5C3A, 0xA4D8), (0x5C3B, 0xC975)] @
   [(0x5C3C, 0xA5A7), (0x5C3E, 0xA7C0), (0x5C3F, 0xA7BF), (0x5C40, 0xA7BD), (0x5C41, 0xA7BE), (0x5C44, 0xCC59),
    (0x5C45, 0xA97E), (0x5C46, 0xA9A1)] @
   [(0x5C47, 0xCC5A), (0x5C48, 0xA97D), (0x5C4B, 0xABCE), (0x5C4C, 0xCE78), (0x5C4D, 0xABCD), (0x5C4E, 0xABCB),
    (0x5C4F, 0xABCC), (0x5C50, 0xAE6A)] @
   [(0x5C51, 0xAE68), (0x5C54, 0xD16B), (0x5C55, 0xAE69), (0x5C56, 0xD16A), (0x5C58, 0xAE5E), (0x5C59, 0xD4F3),
    (0x5C5C, 0xB150), (0x5C5D, 0xB151)] @
   [(0x5C60, 0xB14F), (0x5C62, 0xB9F0), (0x5C63, 0xE1A2), (0x5C64, 0xBC68), (0x5C65, 0xBC69), (0x5C67, 0xE561),
    (0x5C68, 0xC0AB), (0x5C69, 0xEFC2)] @
   [(0x5C6A, 0xEFC3), (0x5C6C, 0xC4DD), (0x5C6D, 0xF8A8), (0x5C6E, 0xC94B), (0x5C6F, 0xA4D9), (0x5C71, 0xA473),
    (0x5C73, 0xC977), (0x5C74, 0xC976)] @
   [(0x5C79, 0xA67A), (0x5C7A, 0xC9D7), (0x5C7B, 0xC9D8), (0x5C7C, 0xC9D6), (0x5C7E, 0xC9D9), (0x5C86, 0xCAC7),
    (0x5C88, 0xCAC2), (0x5C89, 0xCAC4)] @
   [(0x5C8A, 0xCAC6), (0x5C8B, 0xCAC3), (0x5C8C, 0xA7C4), (0x5C8D, 0xCAC0), (0x5C8F, 0xCAC1), (0x5C90, 0xA7C1),
    (0x5C91, 0xA7C2), (0x5C92, 0xCAC5)] @
   [(0x5C93, 0xCAC8), (0x5C94, 0xA7C3), (0x5C95, 0xCAC9), (0x5C9D, 0xCC68), (0x5C9F, 0xCC62), (0x5CA0, 0xCC5D),
    (0x5CA1, 0xA9A3), (0x5CA2, 0xCC65)] @
   [(0x5CA3, 0xCC63), (0x5CA4, 0xCC5C), (0x5CA5, 0xCC69), (0x5CA6, 0xCC6C), (0x5CA7, 0xCC67), (0x5CA8, 0xCC60),
    (0x5CA9, 0xA9A5), (0x5CAA, 0xCC66)] @
   [(0x5CAB, 0xA9A6), (0x5CAC, 0xCC61), (0x5CAD, 0xCC64), (0x5CAE, 0xCC5B), (0x5CAF, 0xCC5F), (0x5CB0, 0xCC6B),
    (0x5CB1, 0xA9A7), (0x5CB3, 0xA9A8)] @
   [(0x5CB5, 0xCC5E), (0x5CB6, 0xCC6A), (0x5CB7, 0xA9A2), (0x5CB8, 0xA9A4), (0x5CC6, 0xCEAB), (0x5CC7, 0xCEA4),
    (0x5CC8, 0xCEAA), (0x5CC9, 0xCEA3)] @
   [(0x5CCA, 0xCEA5), (0x5CCB, 0xCE7D), (0x5CCC, 0xCE7B), (0x5CCE, 0xCEAC), (0x5CCF, 0xCEA9), (0x5CD0, 0xCE79),
    (0x5CD2, 0xABD0), (0x5CD3, 0xCEA7)] @
   [(0x5CD4, 0xCEA8), (0x5CD6, 0xCEA6), (0x5CD7, 0xCE7C), (0x5CD8, 0xCE7A), (0x5CD9, 0xABCF), (0x5CDA, 0xCEA2),
    (0x5CDB, 0xCE7E), (0x5CDE, 0xCEA1)] @
   [(0x5CDF, 0xCEAD), (0x5CE8, 0xAE6F), (0x5CEA, 0xAE6E), (0x5CEC, 0xD16C), (0x5CED, 0xAE6B), (0x5CEE, 0xD16E),
    (0x5CF0, 0xAE70), (0x5CF1, 0xD16F)] @
   [(0x5CF4, 0xAE73), (0x5CF6, 0xAE71), (0x5CF7, 0xD170), (0x5CF8, 0xCEAE), (0x5CF9, 0xD172), (0x5CFB, 0xAE6D),
    (0x5CFD, 0xAE6C), (0x5CFF, 0xD16D)] @
   [(0x5D00, 0xD171), (0x5D01, 0xAE72), (0x5D06, 0xB153), (0x5D07, 0xB152), (0x5D0B, 0xD4F5), (0x5D0C, 0xD4F9),
    (0x5D0D, 0xD4FB), (0x5D0E, 0xB154)] @
   [(0x5D0F, 0xD4FE), (0x5D11, 0xB158), (0x5D12, 0xD541), (0x5D14, 0xB15A), (0x5D16, 0xB156), (0x5D17, 0xB15E),
    (0x5D19, 0xB15B), (0x5D1A, 0xD4F7)] @
   [(0x5D1B, 0xB155), (0x5D1D, 0xD4F6), (0x5D1E, 0xD4F4), (0x5D1F, 0xD543), (0x5D20, 0xD4F8), (0x5D22, 0xB157),
    (0x5D23, 0xD542), (0x5D24, 0xB15C)] @
   [(0x5D25, 0xD4FD), (0x5D26, 0xD4FC), (0x5D27, 0xB15D), (0x5D28, 0xD4FA), (0x5D29, 0xB159), (0x5D2E, 0xD544),
    (0x5D30, 0xD540), (0x5D31, 0xD8E7)] @
   [(0x5D32, 0xD8EE), (0x5D33, 0xD8E3), (0x5D34, 0xB451), (0x5D35, 0xD8DF), (0x5D36, 0xD8EF), (0x5D37, 0xD8D9),
    (0x5D38, 0xD8EC), (0x5D39, 0xD8EA)] @
   [(0x5D3A, 0xD8E4), (0x5D3C, 0xD8ED), (0x5D3D, 0xD8E6), (0x5D3F, 0xD8DE), (0x5D40, 0xD8F0), (0x5D41, 0xD8DC),
    (0x5D42, 0xD8E9), (0x5D43, 0xD8DA)] @
   [(0x5D45, 0xD8F1), (0x5D47, 0xB452), (0x5D49, 0xD8EB), (0x5D4A, 0xDD4F), (0x5D4B, 0xD8DD), (0x5D4C, 0xB44F),
    (0x5D4E, 0xD8E1), (0x5D50, 0xB450)] @
   [(0x5D51, 0xD8E0), (0x5D52, 0xD8E5), (0x5D55, 0xD8E2), (0x5D59, 0xD8E8), (0x5D5E, 0xDD53), (0x5D62, 0xDD56),
    (0x5D63, 0xDD4E), (0x5D65, 0xDD50)] @
   [(0x5D67, 0xDD55), (0x5D68, 0xDD54), (0x5D69, 0xB743), (0x5D6B, 0xD8DB), (0x5D6C, 0xDD52), (0x5D6F, 0xB744),
    (0x5D71, 0xDD4D), (0x5D72, 0xDD51)] @
   [(0x5D77, 0xE1A9), (0x5D79, 0xE1B0), (0x5D7A, 0xE1A7), (0x5D7C, 0xE1AE), (0x5D7D, 0xE1A5), (0x5D7E, 0xE1AD),
    (0x5D7F, 0xE1B1), (0x5D80, 0xE1A4)]"

definition rev_cp950_11 :: "(nat \<times> nat) list" where
  "rev_cp950_11 =
   [(0x5D81, 0xE1A8), (0x5D82, 0xE1A3), (0x5D84, 0xB9F1), (0x5D86, 0xE1A6), (0x5D87, 0xB9F2), (0x5D88, 0xE1AC),
    (0x5D89, 0xE1AB), (0x5D8A, 0xE1AA)] @
   [(0x5D8D, 0xE1AF), (0x5D92, 0xE565), (0x5D93, 0xE567), (0x5D94, 0xBC6B), (0x5D95, 0xE568), (0x5D97, 0xE563),
    (0x5D99, 0xE562), (0x5D9A, 0xE56C)] @
   [(0x5D9C, 0xE56A), (0x5D9D, 0xBC6A), (0x5D9E, 0xE56D), (0x5D9F, 0xE564), (0x5DA0, 0xE569), (0x5DA1, 0xE56B),
    (0x5DA2, 0xE566), (0x5DA7, 0xE961)] @
   [(0x5DA8, 0xE966), (0x5DA9, 0xE960), (0x5DAA, 0xE965), (0x5DAC, 0xE95E), (0x5DAD, 0xE968), (0x5DAE, 0xE964),
    (0x5DAF, 0xE969), (0x5DB0, 0xE963)] @
   [(0x5DB1, 0xE95F), (0x5DB2, 0xE967), (0x5DB4, 0xE96A), (0x5DB5, 0xE962), (0x5DB7, 0xECDA), (0x5DB8, 0xC0AF),
    (0x5DBA, 0xC0AD), (0x5DBC, 0xC0AC)] @
   [(0x5DBD, 0xC0AE), (0x5DC0, 0xEFC4), (0x5DC2, 0xF172), (0x5DC3, 0xF1FD), (0x5DC6, 0xF444), (0x5DC7, 0xF445),
    (0x5DC9, 0xC460), (0x5DCB, 0xF5C9)] @
   [(0x5DCD, 0xC4DE), (0x5DCF, 0xF5CA), (0x5DD1, 0xF6DE), (0x5DD2, 0xC572), (0x5DD4, 0xC571), (0x5DD5, 0xF6DD),
    (0x5DD6, 0xC5C9), (0x5DD8, 0xF7D6)] @
   [(0x5DDD, 0xA474), (0x5DDE, 0xA67B), (0x5DDF, 0xC9DA), (0x5DE0, 0xCACA), (0x5DE1, 0xA8B5), (0x5DE2, 0xB15F),
    (0x5DE5, 0xA475), (0x5DE6, 0xA5AA)] @
   [(0x5DE7, 0xA5A9), (0x5DE8, 0xA5A8), (0x5DEB, 0xA7C5), (0x5DEE, 0xAE74), (0x5DF0, 0xDD57), (0x5DF1, 0xA476),
    (0x5DF2, 0xA477), (0x5DF3, 0xA478)] @
   [(0x5DF4, 0xA4DA), (0x5DF7, 0xABD1), (0x5DF9, 0xCEAF), (0x5DFD, 0xB453), (0x5DFE, 0xA479), (0x5DFF, 0xC95D),
    (0x5E02, 0xA5AB), (0x5E03, 0xA5AC)] @
   [(0x5E04, 0xC978), (0x5E06, 0xA67C), (0x5E0A, 0xCACB), (0x5E0C, 0xA7C6), (0x5E0E, 0xCACC), (0x5E11, 0xA9AE),
    (0x5E14, 0xCC6E), (0x5E15, 0xA9AC)] @
   [(0x5E16, 0xA9AB), (0x5E17, 0xCC6D), (0x5E18, 0xA9A9), (0x5E19, 0xCC6F), (0x5E1A, 0xA9AA), (0x5E1B, 0xA9AD),
    (0x5E1D, 0xABD2), (0x5E1F, 0xABD4)] @
   [(0x5E20, 0xCEB3), (0x5E21, 0xCEB0), (0x5E22, 0xCEB1), (0x5E23, 0xCEB2), (0x5E24, 0xCEB4), (0x5E25, 0xABD3),
    (0x5E28, 0xD174), (0x5E29, 0xD173)] @
   [(0x5E2B, 0xAE76), (0x5E2D, 0xAE75), (0x5E33, 0xB162), (0x5E34, 0xD546), (0x5E36, 0xB161), (0x5E37, 0xB163),
    (0x5E38, 0xB160), (0x5E3D, 0xB455)] @
   [(0x5E3E, 0xD545), (0x5E40, 0xB456), (0x5E41, 0xD8F3), (0x5E43, 0xB457), (0x5E44, 0xD8F2), (0x5E45, 0xB454),
    (0x5E4A, 0xDD5A), (0x5E4B, 0xDD5C)] @
   [(0x5E4C, 0xB745), (0x5E4D, 0xDD5B), (0x5E4E, 0xDD59), (0x5E4F, 0xDD58), (0x5E53, 0xE1B4), (0x5E54, 0xB9F7),
    (0x5E55, 0xB9F5), (0x5E57, 0xB9F6)] @
   [(0x5E58, 0xE1B2), (0x5E59, 0xE1B3), (0x5E5B, 0xB9F3), (0x5E5C, 0xE571), (0x5E5D, 0xE56F), (0x5E5F, 0xBC6D),
    (0x5E60, 0xE570), (0x5E61, 0xBC6E)] @
   [(0x5E62, 0xBC6C), (0x5E63, 0xB9F4), (0x5E66, 0xE96D), (0x5E67, 0xE96B), (0x5E68, 0xE96C), (0x5E69, 0xE56E),
    (0x5E6A, 0xECDC), (0x5E6B, 0xC0B0)] @
   [(0x5E6C, 0xECDB), (0x5E6D, 0xEFC5), (0x5E6E, 0xEFC6), (0x5E6F, 0xE96E), (0x5E70, 0xF1FE), (0x5E72, 0xA47A),
    (0x5E73, 0xA5AD), (0x5E74, 0xA67E)] @
   [(0x5E75, 0xC9DB), (0x5E76, 0xA67D), (0x5E78, 0xA9AF), (0x5E79, 0xB746), (0x5E7B, 0xA4DB), (0x5E7C, 0xA5AE),
    (0x5E7D, 0xABD5), (0x5E7E, 0xB458)] @
   [(0x5E80, 0xC979), (0x5E82, 0xC97A), (0x5E84, 0xC9DC), (0x5E87, 0xA7C8), (0x5E88, 0xCAD0), (0x5E89, 0xCACE),
    (0x5E8A, 0xA7C9), (0x5E8B, 0xCACD)] @
   [(0x5E8C, 0xCACF), (0x5E8D, 0xCAD1), (0x5E8F, 0xA7C7), (0x5E95, 0xA9B3), (0x5E96, 0xA9B4), (0x5E97, 0xA9B1),
    (0x5E9A, 0xA9B0), (0x5E9B, 0xCEB8)] @
   [(0x5E9C, 0xA9B2), (0x5EA0, 0xABD6), (0x5EA2, 0xCEB7), (0x5EA3, 0xCEB9), (0x5EA4, 0xCEB6), (0x5EA5, 0xCEBA),
    (0x5EA6, 0xABD7), (0x5EA7, 0xAE79)] @
   [(0x5EA8, 0xD175), (0x5EAA, 0xD177), (0x5EAB, 0xAE77), (0x5EAC, 0xD178), (0x5EAD, 0xAE78), (0x5EAE, 0xD176),
    (0x5EB0, 0xCEB5), (0x5EB1, 0xD547)] @
   [(0x5EB2, 0xD54A), (0x5EB3, 0xD54B), (0x5EB4, 0xD548), (0x5EB5, 0xB167), (0x5EB6, 0xB166), (0x5EB7, 0xB164),
    (0x5EB8, 0xB165), (0x5EB9, 0xD549)] @
   [(0x5EBE, 0xB168), (0x5EC1, 0xB45A), (0x5EC2, 0xB45B), (0x5EC4, 0xB45C), (0x5EC5, 0xDD5D), (0x5EC6, 0xDD5F),
    (0x5EC7, 0xDD61), (0x5EC8, 0xB748)] @
   [(0x5EC9, 0xB747), (0x5ECA, 0xB459), (0x5ECB, 0xDD60), (0x5ECC, 0xDD5E), (0x5ECE, 0xE1B8), (0x5ED1, 0xE1B6),
    (0x5ED2, 0xE1BC), (0x5ED3, 0xB9F8)] @
   [(0x5ED4, 0xE1BD), (0x5ED5, 0xE1BA), (0x5ED6, 0xB9F9), (0x5ED7, 0xE1B7), (0x5ED8, 0xE1B5), (0x5ED9, 0xE1BB),
    (0x5EDA, 0xBC70), (0x5EDB, 0xE573)] @
   [(0x5EDC, 0xE1B9), (0x5EDD, 0xBC72), (0x5EDE, 0xE574), (0x5EDF, 0xBC71), (0x5EE0, 0xBC74), (0x5EE1, 0xE575),
    (0x5EE2, 0xBC6F), (0x5EE3, 0xBC73)] @
   [(0x5EE5, 0xE973), (0x5EE6, 0xE971), (0x5EE7, 0xE970), (0x5EE8, 0xE972), (0x5EE9, 0xE96F), (0x5EEC, 0xC366),
    (0x5EEE, 0xF446), (0x5EEF, 0xF447)] @
   [(0x5EF1, 0xF5CB), (0x5EF2, 0xF6DF), (0x5EF3, 0xC655), (0x5EF6, 0xA9B5), (0x5EF7, 0xA7CA), (0x5EFA, 0xABD8),
    (0x5EFE, 0xA47B), (0x5EFF, 0xA4DC)] @
   [(0x5F01, 0xA5AF), (0x5F02, 0xC9DD), (0x5F04, 0xA7CB), (0x5F05, 0xCAD2), (0x5F07, 0xCEBB), (0x5F08, 0xABD9),
    (0x5F0A, 0xB9FA), (0x5F0B, 0xA47C)]"

definition rev_cp950_12 :: "(nat \<times> nat) list" where
  "rev_cp950_12 =
   [(0x5F0F, 0xA6A1), (0x5F12, 0xB749), (0x5F13, 0xA47D), (0x5F14, 0xA4DD), (0x5F15, 0xA4DE), (0x5F17, 0xA5B1),
    (0x5F18, 0xA5B0), (0x5F1A, 0xC9DE)] @
   [(0x5F1B, 0xA6A2), (0x5F1D, 0xCAD3), (0x5F1F, 0xA7CC), (0x5F22, 0xCC71), (0x5F23, 0xCC72), (0x5F24, 0xCC73),
    (0x5F26, 0xA9B6), (0x5F27, 0xA9B7)] @
   [(0x5F28, 0xCC70), (0x5F29, 0xA9B8), (0x5F2D, 0xABDA), (0x5F2E, 0xCEBC), (0x5F30, 0xD17A), (0x5F31, 0xAE7A),
    (0x5F33, 0xD179), (0x5F35, 0xB169)] @
   [(0x5F36, 0xD54C), (0x5F37, 0xB16A), (0x5F38, 0xD54D), (0x5F3C, 0xB45D), (0x5F40, 0xDD62), (0x5F43, 0xE1BF),
    (0x5F44, 0xE1BE), (0x5F46, 0xB9FB)] @
   [(0x5F48, 0xBC75), (0x5F49, 0xE576), (0x5F4A, 0xBECA), (0x5F4B, 0xE974), (0x5F4C, 0xC0B1), (0x5F4E, 0xC573),
    (0x5F4F, 0xF7D8), (0x5F54, 0xCC74)] @
   [(0x5F56, 0xCEBD), (0x5F57, 0xB16B), (0x5F58, 0xD8F4), (0x5F59, 0xB74A), (0x5F5D, 0xC255), (0x5F62, 0xA7CE),
    (0x5F64, 0xA7CD), (0x5F65, 0xABDB)] @
   [(0x5F67, 0xD17B), (0x5F69, 0xB16D), (0x5F6A, 0xB343), (0x5F6B, 0xB16E), (0x5F6C, 0xB16C), (0x5F6D, 0xB45E),
    (0x5F6F, 0xE1C0), (0x5F70, 0xB9FC)] @
   [(0x5F71, 0xBC76), (0x5F73, 0xC94C), (0x5F74, 0xC9DF), (0x5F76, 0xCAD5), (0x5F77, 0xA7CF), (0x5F78, 0xCAD4),
    (0x5F79, 0xA7D0), (0x5F7C, 0xA9BC)] @
   [(0x5F7D, 0xCC77), (0x5F7E, 0xCC76), (0x5F7F, 0xA9BB), (0x5F80, 0xA9B9), (0x5F81, 0xA9BA), (0x5F82, 0xCC75),
    (0x5F85, 0xABDD), (0x5F86, 0xCEBE)] @
   [(0x5F87, 0xABE0), (0x5F88, 0xABDC), (0x5F89, 0xABE2), (0x5F8A, 0xABDE), (0x5F8B, 0xABDF), (0x5F8C, 0xABE1),
    (0x5F90, 0xAE7D), (0x5F91, 0xAE7C)] @
   [(0x5F92, 0xAE7B), (0x5F96, 0xD54F), (0x5F97, 0xB16F), (0x5F98, 0xB172), (0x5F99, 0xB170), (0x5F9B, 0xD54E),
    (0x5F9C, 0xB175), (0x5F9E, 0xB171)] @
   [(0x5F9F, 0xD550), (0x5FA0, 0xB174), (0x5FA1, 0xB173), (0x5FA5, 0xD8F6), (0x5FA6, 0xD8F5), (0x5FA8, 0xB461),
    (0x5FA9, 0xB45F), (0x5FAA, 0xB460)] @
   [(0x5FAB, 0xD8F7), (0x5FAC, 0xB74B), (0x5FAD, 0xDD64), (0x5FAE, 0xB74C), (0x5FAF, 0xDD63), (0x5FB2, 0xE577),
    (0x5FB5, 0xBC78), (0x5FB6, 0xE1C1)] @
   [(0x5FB7, 0xBC77), (0x5FB9, 0xB9FD), (0x5FBB, 0xECDE), (0x5FBC, 0xE975), (0x5FBD, 0xC0B2), (0x5FBE, 0xECDD),
    (0x5FBF, 0xF240), (0x5FC0, 0xF448)] @
   [(0x5FC1, 0xF449), (0x5FC3, 0xA4DF), (0x5FC5, 0xA5B2), (0x5FC9, 0xC97B), (0x5FCC, 0xA7D2), (0x5FCD, 0xA7D4),
    (0x5FCF, 0xC9E2), (0x5FD0, 0xCAD8)] @
   [(0x5FD1, 0xCAD7), (0x5FD2, 0xCAD6), (0x5FD4, 0xC9E1), (0x5FD5, 0xC9E0), (0x5FD6, 0xA6A4), (0x5FD7, 0xA7D3),
    (0x5FD8, 0xA7D1), (0x5FD9, 0xA6A3)] @
   [(0x5FDD, 0xA9BD), (0x5FDE, 0xCC78), (0x5FE0, 0xA9BE), (0x5FE1, 0xCADD), (0x5FE3, 0xCADF), (0x5FE4, 0xCADE),
    (0x5FE5, 0xCC79), (0x5FE8, 0xCADA)] @
   [(0x5FEA, 0xA7D8), (0x5FEB, 0xA7D6), (0x5FED, 0xCAD9), (0x5FEE, 0xCADB), (0x5FEF, 0xCAE1), (0x5FF1, 0xA7D5),
    (0x5FF3, 0xCADC), (0x5FF4, 0xCAE5)] @
   [(0x5FF5, 0xA9C0), (0x5FF7, 0xCAE2), (0x5FF8, 0xA7D7), (0x5FFA, 0xCAE0), (0x5FFB, 0xCAE3), (0x5FFD, 0xA9BF),
    (0x5FFF, 0xA9C1), (0x6000, 0xCAE4)] @
   [(0x6009, 0xCCAF), (0x600A, 0xCCA2), (0x600B, 0xCC7E), (0x600C, 0xCCAE), (0x600D, 0xCCA9), (0x600E, 0xABE7),
    (0x600F, 0xA9C2), (0x6010, 0xCCAA)] @
   [(0x6011, 0xCCAD), (0x6012, 0xABE3), (0x6013, 0xCCAC), (0x6014, 0xA9C3), (0x6015, 0xA9C8), (0x6016, 0xA9C6),
    (0x6017, 0xCCA3), (0x6019, 0xCC7C)] @
   [(0x601A, 0xCCA5), (0x601B, 0xA9CD), (0x601C, 0xCCB0), (0x601D, 0xABE4), (0x601E, 0xCCA6), (0x6020, 0xABE5),
    (0x6021, 0xA9C9), (0x6022, 0xCCA8)] @
   [(0x6024, 0xCECD), (0x6025, 0xABE6), (0x6026, 0xCC7B), (0x6027, 0xA9CA), (0x6028, 0xABE8), (0x6029, 0xA9CB),
    (0x602A, 0xA9C7), (0x602B, 0xA9CC)] @
   [(0x602C, 0xCCA7), (0x602D, 0xCC7A), (0x602E, 0xCCAB), (0x602F, 0xA9C4), (0x6032, 0xCC7D), (0x6033, 0xCCA4),
    (0x6034, 0xCCA1), (0x6035, 0xA9C5)] @
   [(0x6037, 0xCEBF), (0x6039, 0xCEC0), (0x6040, 0xCECA), (0x6041, 0xD1A1), (0x6042, 0xCECB), (0x6043, 0xABEE),
    (0x6044, 0xCECE), (0x6045, 0xCEC4)] @
   [(0x6046, 0xABED), (0x6047, 0xCEC6), (0x6049, 0xCEC7), (0x604C, 0xCEC9), (0x604D, 0xABE9), (0x6050, 0xAEA3),
    (0x6052, 0xF9DA), (0x6053, 0xCEC5)] @
   [(0x6054, 0xCEC1), (0x6055, 0xAEA4), (0x6058, 0xCECF), (0x6059, 0xAE7E), (0x605A, 0xD17D), (0x605B, 0xCEC8),
    (0x605D, 0xD17C), (0x605E, 0xCEC3)] @
   [(0x605F, 0xCECC), (0x6062, 0xABEC), (0x6063, 0xAEA1), (0x6064, 0xABF2), (0x6065, 0xAEA2), (0x6066, 0xCED0),
    (0x6067, 0xD17E), (0x6068, 0xABEB)] @
   [(0x6069, 0xAEA6), (0x606A, 0xABF1), (0x606B, 0xABF0), (0x606C, 0xABEF), (0x606D, 0xAEA5), (0x606E, 0xCED1),
    (0x606F, 0xAEA7), (0x6070, 0xABEA)] @
   [(0x6072, 0xCEC2), (0x607F, 0xB176), (0x6080, 0xD1A4), (0x6081, 0xD1A6), (0x6083, 0xD1A8), (0x6084, 0xAEA8),
    (0x6085, 0xAEAE), (0x6086, 0xD553)] @
   [(0x6087, 0xD1AC), (0x6088, 0xD1A3), (0x6089, 0xB178), (0x608A, 0xD551), (0x608C, 0xAEAD), (0x608D, 0xAEAB),
    (0x608E, 0xD1AE), (0x6090, 0xD552)] @
   [(0x6092, 0xD1A5), (0x6094, 0xAEAC), (0x6095, 0xD1A9), (0x6096, 0xAEAF), (0x6097, 0xD1AB), (0x609A, 0xAEAA),
    (0x609B, 0xD1AA), (0x609C, 0xD1AD)]"

definition rev_cp950_13 :: "(nat \<times> nat) list" where
  "rev_cp950_13 =
   [(0x609D, 0xD1A7), (0x609F, 0xAEA9), (0x60A0, 0xB179), (0x60A2, 0xD1A2), (0x60A3, 0xB177), (0x60A8, 0xB17A),
    (0x60B0, 0xD555), (0x60B1, 0xD55E)] @
   [(0x60B2, 0xB464), (0x60B4, 0xB17C), (0x60B5, 0xB1A3), (0x60B6, 0xB465), (0x60B7, 0xD560), (0x60B8, 0xB1AA),
    (0x60B9, 0xD8F9), (0x60BA, 0xD556)] @
   [(0x60BB, 0xB1A2), (0x60BC, 0xB1A5), (0x60BD, 0xB17E), (0x60BE, 0xD554), (0x60BF, 0xD562), (0x60C0, 0xD565),
    (0x60C1, 0xD949), (0x60C3, 0xD563)] @
   [(0x60C4, 0xD8FD), (0x60C5, 0xB1A1), (0x60C6, 0xB1A8), (0x60C7, 0xB1AC), (0x60C8, 0xD55D), (0x60C9, 0xD8F8),
    (0x60CA, 0xD561), (0x60CB, 0xB17B)] @
   [(0x60CC, 0xD8FA), (0x60CD, 0xD564), (0x60CE, 0xD8FC), (0x60CF, 0xD559), (0x60D1, 0xB462), (0x60D3, 0xD557),
    (0x60D4, 0xD558), (0x60D5, 0xB1A7)] @
   [(0x60D8, 0xB1A6), (0x60D9, 0xD55B), (0x60DA, 0xB1AB), (0x60DB, 0xD55F), (0x60DC, 0xB1A4), (0x60DD, 0xD55C),
    (0x60DF, 0xB1A9), (0x60E0, 0xB466)] @
   [(0x60E1, 0xB463), (0x60E2, 0xD8FB), (0x60E4, 0xD55A), (0x60E6, 0xB17D), (0x60F0, 0xB46B), (0x60F1, 0xB46F),
    (0x60F2, 0xD940), (0x60F3, 0xB751)] @
   [(0x60F4, 0xB46D), (0x60F5, 0xD944), (0x60F6, 0xB471), (0x60F7, 0xDD65), (0x60F8, 0xD946), (0x60F9, 0xB753),
    (0x60FA, 0xB469), (0x60FB, 0xB46C)] @
   [(0x60FC, 0xD947), (0x60FE, 0xD948), (0x60FF, 0xD94E), (0x6100, 0xB473), (0x6101, 0xB754), (0x6103, 0xD94A),
    (0x6104, 0xD94F), (0x6105, 0xD943)] @
   [(0x6106, 0xB75E), (0x6108, 0xB755), (0x6109, 0xB472), (0x610A, 0xD941), (0x610B, 0xD950), (0x610D, 0xB75D),
    (0x610E, 0xB470), (0x610F, 0xB74E)] @
   [(0x6110, 0xD94D), (0x6112, 0xB474), (0x6113, 0xD945), (0x6114, 0xD8FE), (0x6115, 0xB46A), (0x6116, 0xD942),
    (0x6118, 0xD94B), (0x611A, 0xB74D)] @
   [(0x611B, 0xB752), (0x611C, 0xB467), (0x611D, 0xD94C), (0x611F, 0xB750), (0x6123, 0xB468), (0x6127, 0xB75C),
    (0x6128, 0xE1C3), (0x6129, 0xDD70)] @
   [(0x612B, 0xDD68), (0x612C, 0xE1C2), (0x612E, 0xDD6C), (0x612F, 0xDD6E), (0x6132, 0xDD6B), (0x6134, 0xB75B),
    (0x6136, 0xDD6A), (0x6137, 0xB75F)] @
   [(0x613B, 0xE1D2), (0x613E, 0xB75A), (0x613F, 0xBA40), (0x6140, 0xDD71), (0x6141, 0xE1C4), (0x6144, 0xB758),
    (0x6145, 0xDD69), (0x6146, 0xDD6D)] @
   [(0x6147, 0xB9FE), (0x6148, 0xB74F), (0x6149, 0xDD66), (0x614A, 0xDD67), (0x614B, 0xBA41), (0x614C, 0xB757),
    (0x614D, 0xB759), (0x614E, 0xB756)] @
   [(0x614F, 0xDD6F), (0x6152, 0xE1C8), (0x6153, 0xE1C9), (0x6154, 0xE1CE), (0x6155, 0xBC7D), (0x6156, 0xE1D5),
    (0x6158, 0xBA47), (0x615A, 0xBA46)] @
   [(0x615B, 0xE1D0), (0x615D, 0xBC7C), (0x615E, 0xE1C5), (0x615F, 0xBA45), (0x6161, 0xE1D4), (0x6162, 0xBA43),
    (0x6163, 0xBA44), (0x6165, 0xE1D1)] @
   [(0x6166, 0xE5AA), (0x6167, 0xBC7A), (0x6168, 0xB46E), (0x616A, 0xE1D3), (0x616B, 0xBCA3), (0x616C, 0xE1CB),
    (0x616E, 0xBC7B), (0x6170, 0xBCA2)] @
   [(0x6171, 0xE1C6), (0x6172, 0xE1CA), (0x6173, 0xE1C7), (0x6174, 0xE1CD), (0x6175, 0xBA48), (0x6176, 0xBC79),
    (0x6177, 0xBA42), (0x6179, 0xE57A)] @
   [(0x617A, 0xE1CF), (0x617C, 0xBCA1), (0x617E, 0xBCA4), (0x6180, 0xE1CC), (0x6182, 0xBC7E), (0x6183, 0xE579),
    (0x6189, 0xE57E), (0x618A, 0xBECE)] @
   [(0x618B, 0xE578), (0x618C, 0xE9A3), (0x618D, 0xE5A9), (0x618E, 0xBCA8), (0x6190, 0xBCA6), (0x6191, 0xBECC),
    (0x6192, 0xE5A6), (0x6193, 0xE5A2)] @
   [(0x6194, 0xBCAC), (0x6196, 0xE978), (0x619A, 0xBCAA), (0x619B, 0xE5A1), (0x619D, 0xE976), (0x619F, 0xE5A5),
    (0x61A1, 0xE5A8), (0x61A2, 0xE57D)] @
   [(0x61A4, 0xBCAB), (0x61A7, 0xBCA5), (0x61A8, 0xE977), (0x61A9, 0xBECD), (0x61AA, 0xE5A7), (0x61AB, 0xBCA7),
    (0x61AC, 0xBCA9), (0x61AD, 0xE5A4)] @
   [(0x61AE, 0xBCAD), (0x61AF, 0xE5A3), (0x61B0, 0xE57C), (0x61B1, 0xE57B), (0x61B2, 0xBECB), (0x61B3, 0xE5AB),
    (0x61B4, 0xE97A), (0x61B5, 0xECE0)] @
   [(0x61B6, 0xBED0), (0x61B8, 0xE9A2), (0x61BA, 0xE97E), (0x61BC, 0xECE1), (0x61BE, 0xBED1), (0x61BF, 0xE9A1),
    (0x61C1, 0xE97C), (0x61C2, 0xC0B4)] @
   [(0x61C3, 0xECDF), (0x61C5, 0xE979), (0x61C6, 0xE97B), (0x61C7, 0xC0B5), (0x61C8, 0xBED3), (0x61C9, 0xC0B3),
    (0x61CA, 0xBED2), (0x61CB, 0xC0B7)] @
   [(0x61CC, 0xE97D), (0x61CD, 0xBECF), (0x61D6, 0xEFCF), (0x61D8, 0xEFC7), (0x61DE, 0xECE7), (0x61DF, 0xEFC8),
    (0x61E0, 0xECE3), (0x61E3, 0xC256)] @
   [(0x61E4, 0xECE5), (0x61E5, 0xECE4), (0x61E6, 0xC0B6), (0x61E7, 0xECE2), (0x61E8, 0xECE6), (0x61E9, 0xEFD0),
    (0x61EA, 0xEFCC), (0x61EB, 0xEFCE)] @
   [(0x61ED, 0xEFC9), (0x61EE, 0xEFCA), (0x61F0, 0xEFCD), (0x61F1, 0xEFCB), (0x61F2, 0xC367), (0x61F5, 0xC36A),
    (0x61F6, 0xC369), (0x61F7, 0xC368)] @
   [(0x61F8, 0xC461), (0x61F9, 0xF44A), (0x61FA, 0xC462), (0x61FB, 0xF241), (0x61FC, 0xC4DF), (0x61FD, 0xF5CC),
    (0x61FE, 0xC4E0), (0x61FF, 0xC574)] @
   [(0x6200, 0xC5CA), (0x6201, 0xF7D9), (0x6203, 0xF7DA), (0x6204, 0xF7DB), (0x6207, 0xF9BA), (0x6208, 0xA4E0),
    (0x6209, 0xC97C), (0x620A, 0xA5B3)] @
   [(0x620C, 0xA6A6), (0x620D, 0xA6A7), (0x620E, 0xA6A5), (0x6210, 0xA6A8), (0x6211, 0xA7DA), (0x6212, 0xA7D9),
    (0x6214, 0xCCB1), (0x6215, 0xA9CF)]"

definition rev_cp950_14 :: "(nat \<times> nat) list" where
  "rev_cp950_14 =
   [(0x6216, 0xA9CE), (0x6219, 0xD1AF), (0x621A, 0xB1AD), (0x621B, 0xB1AE), (0x621F, 0xB475), (0x6220, 0xDD72),
    (0x6221, 0xB760), (0x6222, 0xB761)] @
   [(0x6223, 0xDD74), (0x6224, 0xDD76), (0x6225, 0xDD75), (0x6227, 0xE1D7), (0x6229, 0xE1D6), (0x622A, 0xBA49),
    (0x622B, 0xE1D8), (0x622D, 0xE5AC)] @
   [(0x622E, 0xBCAE), (0x6230, 0xBED4), (0x6232, 0xC0B8), (0x6233, 0xC257), (0x6234, 0xC0B9), (0x6236, 0xA4E1),
    (0x623A, 0xCAE6), (0x623D, 0xCCB2)] @
   [(0x623E, 0xA9D1), (0x623F, 0xA9D0), (0x6240, 0xA9D2), (0x6241, 0xABF3), (0x6242, 0xCED2), (0x6243, 0xCED3),
    (0x6246, 0xD1B0), (0x6247, 0xAEB0)] @
   [(0x6248, 0xB1AF), (0x6249, 0xB476), (0x624A, 0xD951), (0x624B, 0xA4E2), (0x624D, 0xA47E), (0x624E, 0xA4E3),
    (0x6250, 0xC97D), (0x6251, 0xA5B7)] @
   [(0x6252, 0xA5B6), (0x6253, 0xA5B4), (0x6254, 0xA5B5), (0x6258, 0xA6AB), (0x6259, 0xC9E9), (0x625A, 0xC9EB),
    (0x625B, 0xA6AA), (0x625C, 0xC9E3)] @
   [(0x625E, 0xC9E4), (0x6260, 0xC9EA), (0x6261, 0xC9E6), (0x6262, 0xC9E8), (0x6263, 0xA6A9), (0x6264, 0xC9E5),
    (0x6265, 0xC9EC), (0x6266, 0xC9E7)] @
   [(0x626D, 0xA7E1), (0x626E, 0xA7EA), (0x626F, 0xA7E8), (0x6270, 0xCAF0), (0x6271, 0xCAED), (0x6272, 0xCAF5),
    (0x6273, 0xA7E6), (0x6274, 0xCAF6)] @
   [(0x6276, 0xA7DF), (0x6277, 0xCAF3), (0x6279, 0xA7E5), (0x627A, 0xCAEF), (0x627B, 0xCAEE), (0x627C, 0xA7E3),
    (0x627D, 0xCAF4), (0x627E, 0xA7E4)] @
   [(0x627F, 0xA9D3), (0x6280, 0xA7DE), (0x6281, 0xCAF1), (0x6283, 0xCAE7), (0x6284, 0xA7DB), (0x6286, 0xA7EE),
    (0x6287, 0xCAEC), (0x6288, 0xCAF2)] @
   [(0x6289, 0xA7E0), (0x628A, 0xA7E2), (0x628C, 0xCAE8), (0x628E, 0xCAE9), (0x628F, 0xCAEA), (0x6291, 0xA7ED),
    (0x6292, 0xA7E7), (0x6293, 0xA7EC)] @
   [(0x6294, 0xCAEB), (0x6295, 0xA7EB), (0x6296, 0xA7DD), (0x6297, 0xA7DC), (0x6298, 0xA7E9), (0x62A8, 0xA9E1),
    (0x62A9, 0xCCBE), (0x62AA, 0xCCB7)] @
   [(0x62AB, 0xA9DC), (0x62AC, 0xA9EF), (0x62AD, 0xCCB3), (0x62AE, 0xCCBA), (0x62AF, 0xCCBC), (0x62B0, 0xCCBF),
    (0x62B1, 0xA9EA), (0x62B3, 0xCCBB)] @
   [(0x62B4, 0xCCB4), (0x62B5, 0xA9E8), (0x62B6, 0xCCB8), (0x62B8, 0xCCC0), (0x62B9, 0xA9D9), (0x62BB, 0xCCBD),
    (0x62BC, 0xA9E3), (0x62BD, 0xA9E2)] @
   [(0x62BE, 0xCCB6), (0x62BF, 0xA9D7), (0x62C2, 0xA9D8), (0x62C4, 0xA9D6), (0x62C6, 0xA9EE), (0x62C7, 0xA9E6),
    (0x62C8, 0xA9E0), (0x62C9, 0xA9D4)] @
   [(0x62CA, 0xCCB9), (0x62CB, 0xA9DF), (0x62CC, 0xA9D5), (0x62CD, 0xA9E7), (0x62CE, 0xA9F0), (0x62CF, 0xCED4),
    (0x62D0, 0xA9E4), (0x62D1, 0xCCB5)] @
   [(0x62D2, 0xA9DA), (0x62D3, 0xA9DD), (0x62D4, 0xA9DE), (0x62D6, 0xA9EC), (0x62D7, 0xA9ED), (0x62D8, 0xA9EB),
    (0x62D9, 0xA9E5), (0x62DA, 0xA9E9)] @
   [(0x62DB, 0xA9DB), (0x62DC, 0xABF4), (0x62EB, 0xCEDA), (0x62EC, 0xAC41), (0x62ED, 0xABF8), (0x62EE, 0xABFA),
    (0x62EF, 0xAC40), (0x62F0, 0xCEE6)] @
   [(0x62F1, 0xABFD), (0x62F2, 0xD1B1), (0x62F3, 0xAEB1), (0x62F4, 0xAC43), (0x62F5, 0xCED7), (0x62F6, 0xCEDF),
    (0x62F7, 0xABFE), (0x62F8, 0xCEDE)] @
   [(0x62F9, 0xCEDB), (0x62FA, 0xCEE3), (0x62FB, 0xCEE5), (0x62FC, 0xABF7), (0x62FD, 0xABFB), (0x62FE, 0xAC42),
    (0x62FF, 0xAEB3), (0x6300, 0xCEE0)] @
   [(0x6301, 0xABF9), (0x6302, 0xAC45), (0x6303, 0xCED9), (0x6307, 0xABFC), (0x6308, 0xAEB2), (0x6309, 0xABF6),
    (0x630B, 0xCED6), (0x630C, 0xCEDD)] @
   [(0x630D, 0xCED5), (0x630E, 0xCED8), (0x630F, 0xCEDC), (0x6310, 0xD1B2), (0x6311, 0xAC44), (0x6313, 0xCEE1),
    (0x6314, 0xCEE2), (0x6315, 0xCEE4)] @
   [(0x6316, 0xABF5), (0x6328, 0xAEC1), (0x6329, 0xD1BE), (0x632A, 0xAEBF), (0x632B, 0xAEC0), (0x632C, 0xD1B4),
    (0x632D, 0xD1C4), (0x632F, 0xAEB6)] @
   [(0x6332, 0xD566), (0x6333, 0xD1C6), (0x6334, 0xD1C0), (0x6336, 0xD1B7), (0x6338, 0xD1C9), (0x6339, 0xD1BA),
    (0x633A, 0xAEBC), (0x633B, 0xD57D)] @
   [(0x633C, 0xD1BD), (0x633D, 0xAEBE), (0x633E, 0xAEB5), (0x6340, 0xD1CB), (0x6341, 0xD1BF), (0x6342, 0xAEB8),
    (0x6343, 0xD1B8), (0x6344, 0xD1B5)] @
   [(0x6345, 0xD1B6), (0x6346, 0xAEB9), (0x6347, 0xD1C5), (0x6348, 0xD1CC), (0x6349, 0xAEBB), (0x634A, 0xD1BC),
    (0x634B, 0xD1BB), (0x634C, 0xAEC3)] @
   [(0x634D, 0xAEC2), (0x634E, 0xAEB4), (0x634F, 0xAEBA), (0x6350, 0xAEBD), (0x6351, 0xD1C8), (0x6354, 0xD1C2),
    (0x6355, 0xAEB7), (0x6356, 0xD1B3)] @
   [(0x6357, 0xD1CA), (0x6358, 0xD1C1), (0x6359, 0xD1C3), (0x635A, 0xD1C7), (0x6365, 0xD567), (0x6367, 0xB1B7),
    (0x6368, 0xB1CB), (0x6369, 0xB1CA)] @
   [(0x636B, 0xB1BF), (0x636D, 0xD579), (0x636E, 0xD575), (0x636F, 0xD572), (0x6370, 0xD5A6), (0x6371, 0xB1BA),
    (0x6372, 0xB1B2), (0x6375, 0xD577)] @
   [(0x6376, 0xB4A8), (0x6377, 0xB1B6), (0x6378, 0xD5A1), (0x637A, 0xB1CC), (0x637B, 0xB1C9), (0x637C, 0xD57B),
    (0x637D, 0xD56A), (0x6380, 0xB1C8)] @
   [(0x6381, 0xD5A3), (0x6382, 0xD569), (0x6383, 0xB1BD), (0x6384, 0xB1C1), (0x6385, 0xD5A2), (0x6387, 0xD573),
    (0x6388, 0xB1C2), (0x6389, 0xB1BC)] @
   [(0x638A, 0xD568), (0x638C, 0xB478), (0x638D, 0xD5A5), (0x638E, 0xD571), (0x638F, 0xB1C7), (0x6390, 0xD574),
    (0x6391, 0xD5A4), (0x6392, 0xB1C6)]"

definition rev_cp950_15 :: "(nat \<times> nat) list" where
  "rev_cp950_15 =
   [(0x6394, 0xD952), (0x6396, 0xB1B3), (0x6397, 0xD56F), (0x6398, 0xB1B8), (0x6399, 0xB1C3), (0x639B, 0xB1BE),
    (0x639C, 0xD578), (0x639D, 0xD56E)] @
   [(0x639E, 0xD56C), (0x639F, 0xD57E), (0x63A0, 0xB1B0), (0x63A1, 0xB1C4), (0x63A2, 0xB1B4), (0x63A3, 0xB477),
    (0x63A4, 0xD57C), (0x63A5, 0xB1B5)] @
   [(0x63A7, 0xB1B1), (0x63A8, 0xB1C0), (0x63A9, 0xB1BB), (0x63AA, 0xB1B9), (0x63AB, 0xD570), (0x63AC, 0xB1C5),
    (0x63AD, 0xD56D), (0x63AE, 0xD57A)] @
   [(0x63AF, 0xD576), (0x63B0, 0xD954), (0x63B1, 0xD953), (0x63BD, 0xD56B), (0x63BE, 0xD964), (0x63C0, 0xB47A),
    (0x63C2, 0xD96A), (0x63C3, 0xD959)] @
   [(0x63C4, 0xD967), (0x63C5, 0xDD77), (0x63C6, 0xB47D), (0x63C7, 0xD96B), (0x63C8, 0xD96E), (0x63C9, 0xB47C),
    (0x63CA, 0xD95C), (0x63CB, 0xD96D)] @
   [(0x63CC, 0xD96C), (0x63CD, 0xB47E), (0x63CE, 0xD955), (0x63CF, 0xB479), (0x63D0, 0xB4A3), (0x63D2, 0xB4A1),
    (0x63D3, 0xD969), (0x63D5, 0xD95F)] @
   [(0x63D6, 0xB4A5), (0x63D7, 0xD970), (0x63D8, 0xD968), (0x63D9, 0xD971), (0x63DA, 0xB4AD), (0x63DB, 0xB4AB),
    (0x63DC, 0xD966), (0x63DD, 0xD965)] @
   [(0x63DF, 0xD963), (0x63E0, 0xD95D), (0x63E1, 0xB4A4), (0x63E3, 0xB4A2), (0x63E4, 0xD1B9), (0x63E5, 0xD956),
    (0x63E7, 0xDDB7), (0x63E8, 0xD957)] @
   [(0x63E9, 0xB47B), (0x63EA, 0xB4AA), (0x63EB, 0xDD79), (0x63ED, 0xB4A6), (0x63EE, 0xB4A7), (0x63EF, 0xD958),
    (0x63F0, 0xD96F), (0x63F1, 0xDD78)] @
   [(0x63F2, 0xD960), (0x63F3, 0xD95B), (0x63F4, 0xB4A9), (0x63F5, 0xD961), (0x63F6, 0xD95E), (0x63F9, 0xB4AE),
    (0x6406, 0xB770), (0x6409, 0xDD7C)] @
   [(0x640A, 0xDDB1), (0x640B, 0xDDB6), (0x640C, 0xDDAA), (0x640D, 0xB76C), (0x640E, 0xDDBB), (0x640F, 0xB769),
    (0x6410, 0xDD7A), (0x6412, 0xDD7B)] @
   [(0x6413, 0xB762), (0x6414, 0xB76B), (0x6415, 0xDDA4), (0x6416, 0xB76E), (0x6417, 0xB76F), (0x6418, 0xDDA5),
    (0x641A, 0xDDB2), (0x641B, 0xDDB8)] @
   [(0x641C, 0xB76A), (0x641E, 0xB764), (0x641F, 0xDDA3), (0x6420, 0xDD7D), (0x6421, 0xDDBA), (0x6422, 0xDDA8),
    (0x6423, 0xDDA9), (0x6424, 0xDD7E)] @
   [(0x6425, 0xDDB4), (0x6426, 0xDDAB), (0x6427, 0xDDB5), (0x6428, 0xDDAD), (0x642A, 0xB765), (0x642B, 0xE1D9),
    (0x642C, 0xB768), (0x642D, 0xB766)] @
   [(0x642E, 0xDDB9), (0x642F, 0xDDB0), (0x6430, 0xDDAC), (0x6433, 0xDDA1), (0x6434, 0xBA53), (0x6435, 0xDDAF),
    (0x6436, 0xB76D), (0x6437, 0xDDA7)] @
   [(0x6439, 0xDDA6), (0x643D, 0xB767), (0x643E, 0xB763), (0x643F, 0xE1EE), (0x6440, 0xDDB3), (0x6441, 0xDDAE),
    (0x6443, 0xDDA2), (0x644B, 0xE1E9)] @
   [(0x644D, 0xE1DA), (0x644E, 0xE1E5), (0x6450, 0xE1EC), (0x6451, 0xBA51), (0x6452, 0xB4AC), (0x6453, 0xE1EA),
    (0x6454, 0xBA4C), (0x6458, 0xBA4B)] @
   [(0x6459, 0xE1F1), (0x645B, 0xE1DB), (0x645C, 0xE1E8), (0x645D, 0xE1DC), (0x645E, 0xE1E7), (0x645F, 0xBA4F),
    (0x6460, 0xE1EB), (0x6461, 0xD962)] @
   [(0x6465, 0xE1F2), (0x6466, 0xE1E3), (0x6467, 0xBA52), (0x6468, 0xE5BA), (0x6469, 0xBCAF), (0x646B, 0xE1F0),
    (0x646C, 0xE1EF), (0x646D, 0xBA54)] @
   [(0x646E, 0xE5AD), (0x646F, 0xBCB0), (0x6470, 0xE5AE), (0x6472, 0xE1DF), (0x6473, 0xE1E0), (0x6474, 0xE1DD),
    (0x6475, 0xE1E2), (0x6476, 0xE1DE)] @
   [(0x6477, 0xE1F3), (0x6478, 0xBA4E), (0x6479, 0xBCB1), (0x647A, 0xBA50), (0x647B, 0xBA55), (0x647D, 0xE1E1),
    (0x647F, 0xE1ED), (0x6482, 0xE1E6)] @
   [(0x6485, 0xE5B1), (0x6487, 0xBA4A), (0x6488, 0xBCB4), (0x6489, 0xE9AA), (0x648A, 0xE5B6), (0x648B, 0xE5B5),
    (0x648C, 0xE5B7), (0x648F, 0xE5B4)] @
   [(0x6490, 0xBCB5), (0x6492, 0xBCBB), (0x6493, 0xBCB8), (0x6495, 0xBCB9), (0x6496, 0xE5AF), (0x6497, 0xE5B2),
    (0x6498, 0xE5BC), (0x6499, 0xBCC1)] @
   [(0x649A, 0xBCBF), (0x649C, 0xE5B3), (0x649D, 0xD95A), (0x649E, 0xBCB2), (0x649F, 0xE5B9), (0x64A0, 0xE5B0),
    (0x64A2, 0xBCC2), (0x64A3, 0xE5B8)] @
   [(0x64A4, 0xBA4D), (0x64A5, 0xBCB7), (0x64A6, 0xE1E4), (0x64A9, 0xBCBA), (0x64AB, 0xBCBE), (0x64AC, 0xBCC0),
    (0x64AD, 0xBCBD), (0x64AE, 0xBCBC)] @
   [(0x64B0, 0xBCB6), (0x64B1, 0xE5BB), (0x64B2, 0xBCB3), (0x64B3, 0xBCC3), (0x64BB, 0xBED8), (0x64BC, 0xBED9),
    (0x64BD, 0xE9A9), (0x64BE, 0xBEE2)] @
   [(0x64BF, 0xBEDF), (0x64C1, 0xBED6), (0x64C2, 0xBEDD), (0x64C3, 0xE9AB), (0x64C4, 0xBEDB), (0x64C5, 0xBED5),
    (0x64C7, 0xBEDC), (0x64C9, 0xE9A8)] @
   [(0x64CA, 0xC0BB), (0x64CB, 0xBED7), (0x64CD, 0xBEDE), (0x64CE, 0xC0BA), (0x64CF, 0xE9A7), (0x64D0, 0xE9A6),
    (0x64D2, 0xBEE0), (0x64D4, 0xBEE1)] @
   [(0x64D6, 0xE9A5), (0x64D7, 0xE9A4), (0x64D8, 0xC0BC), (0x64D9, 0xE9AE), (0x64DA, 0xBEDA), (0x64DB, 0xE9AC),
    (0x64E0, 0xC0BD), (0x64E2, 0xC0C2)] @
   [(0x64E3, 0xECEA), (0x64E4, 0xECEC), (0x64E6, 0xC0BF), (0x64E8, 0xECED), (0x64E9, 0xECE9), (0x64EB, 0xECEB),
    (0x64EC, 0xC0C0), (0x64ED, 0xC0C3)] @
   [(0x64EF, 0xECE8), (0x64F0, 0xC0BE), (0x64F1, 0xC0C1), (0x64F2, 0xC259), (0x64F3, 0xE9AD), (0x64F4, 0xC258),
    (0x64F7, 0xC25E), (0x64F8, 0xEFD4)] @
   [(0x64FA, 0xC25C), (0x64FB, 0xC25D), (0x64FC, 0xEFD7), (0x64FD, 0xEFD3), (0x64FE, 0xC25A), (0x64FF, 0xEFD1),
    (0x6500, 0xC36B), (0x6501, 0xEFD5)]"

definition rev_cp950_16 :: "(nat \<times> nat) list" where
  "rev_cp950_16 =
   [(0x6503, 0xEFD6), (0x6504, 0xEFD2), (0x6506, 0xC25B), (0x6507, 0xF242), (0x6509, 0xF245), (0x650C, 0xF246),
    (0x650D, 0xF244), (0x650E, 0xF247)] @
   [(0x650F, 0xC36C), (0x6510, 0xF243), (0x6513, 0xF44E), (0x6514, 0xC464), (0x6515, 0xF44D), (0x6516, 0xF44C),
    (0x6517, 0xF44B), (0x6518, 0xC463)] @
   [(0x6519, 0xC465), (0x651B, 0xF5CD), (0x651C, 0xC4E2), (0x651D, 0xC4E1), (0x6520, 0xF6E1), (0x6521, 0xF6E0),
    (0x6522, 0xF6E3), (0x6523, 0xC5CB)] @
   [(0x6524, 0xC575), (0x6525, 0xF7DD), (0x6526, 0xF6E2), (0x6529, 0xF7DC), (0x652A, 0xC5CD), (0x652B, 0xC5CC),
    (0x652C, 0xC5F3), (0x652D, 0xF8A9)] @
   [(0x652E, 0xF8EF), (0x652F, 0xA4E4), (0x6532, 0xD972), (0x6533, 0xE9AF), (0x6536, 0xA6AC), (0x6537, 0xCAF7),
    (0x6538, 0xA7F1), (0x6539, 0xA7EF)] @
   [(0x653B, 0xA7F0), (0x653D, 0xCCC1), (0x653E, 0xA9F1), (0x653F, 0xAC46), (0x6541, 0xCEE7), (0x6543, 0xCEE8),
    (0x6545, 0xAC47), (0x6546, 0xD1CE)] @
   [(0x6548, 0xAEC4), (0x6549, 0xAEC5), (0x654A, 0xD1CD), (0x654F, 0xB1D3), (0x6551, 0xB1CF), (0x6553, 0xD5A7),
    (0x6554, 0xB1D6), (0x6555, 0xB1D5)] @
   [(0x6556, 0xB1CE), (0x6557, 0xB1D1), (0x6558, 0xB1D4), (0x6559, 0xB1D0), (0x655C, 0xD976), (0x655D, 0xB1CD),
    (0x655E, 0xB4AF), (0x6562, 0xB4B1)] @
   [(0x6563, 0xB4B2), (0x6564, 0xD975), (0x6565, 0xD978), (0x6566, 0xB4B0), (0x6567, 0xD973), (0x6568, 0xD977),
    (0x656A, 0xD974), (0x656C, 0xB771)] @
   [(0x656F, 0xDDBC), (0x6572, 0xBA56), (0x6573, 0xE1F4), (0x6574, 0xBEE3), (0x6575, 0xBCC4), (0x6576, 0xE5BD),
    (0x6577, 0xBCC5), (0x6578, 0xBCC6)] @
   [(0x6579, 0xE5BF), (0x657A, 0xE5BE), (0x657B, 0xE5C0), (0x657C, 0xE9B1), (0x657F, 0xE9B0), (0x6580, 0xECEF),
    (0x6581, 0xECEE), (0x6582, 0xC0C4)] @
   [(0x6583, 0xC0C5), (0x6584, 0xF248), (0x6587, 0xA4E5), (0x658C, 0xD979), (0x6590, 0xB4B4), (0x6591, 0xB4B3),
    (0x6592, 0xDDBD), (0x6594, 0xEFD8)] @
   [(0x6595, 0xC4E3), (0x6596, 0xF7DE), (0x6597, 0xA4E6), (0x6599, 0xAEC6), (0x659B, 0xB1D8), (0x659C, 0xB1D7),
    (0x659D, 0xD97A), (0x659E, 0xD97B)] @
   [(0x659F, 0xB772), (0x65A0, 0xE1F5), (0x65A1, 0xBA57), (0x65A2, 0xE9B2), (0x65A4, 0xA4E7), (0x65A5, 0xA5B8),
    (0x65A7, 0xA9F2), (0x65A8, 0xCCC2)] @
   [(0x65AA, 0xCEE9), (0x65AB, 0xAC48), (0x65AC, 0xB1D9), (0x65AE, 0xD97C), (0x65AF, 0xB4B5), (0x65B0, 0xB773),
    (0x65B2, 0xE5C1), (0x65B3, 0xE5C2)] @
   [(0x65B6, 0xECF0), (0x65B7, 0xC25F), (0x65B8, 0xF8F0), (0x65B9, 0xA4E8), (0x65BB, 0xCCC3), (0x65BC, 0xA9F3),
    (0x65BD, 0xAC49), (0x65BF, 0xCEEA)] @
   [(0x65C1, 0xAEC7), (0x65C2, 0xD1D2), (0x65C3, 0xD1D0), (0x65C4, 0xD1D1), (0x65C5, 0xAEC8), (0x65C6, 0xD1CF),
    (0x65CB, 0xB1DB), (0x65CC, 0xB1DC)] @
   [(0x65CD, 0xD5A8), (0x65CE, 0xB1DD), (0x65CF, 0xB1DA), (0x65D0, 0xD97D), (0x65D2, 0xD97E), (0x65D3, 0xDDBE),
    (0x65D6, 0xBA59), (0x65D7, 0xBA58)] @
   [(0x65DA, 0xECF1), (0x65DB, 0xEFD9), (0x65DD, 0xF24A), (0x65DE, 0xF249), (0x65DF, 0xF44F), (0x65E1, 0xC95E),
    (0x65E2, 0xAC4A), (0x65E5, 0xA4E9)] @
   [(0x65E6, 0xA5B9), (0x65E8, 0xA6AE), (0x65E9, 0xA6AD), (0x65EC, 0xA6AF), (0x65ED, 0xA6B0), (0x65EE, 0xC9EE),
    (0x65EF, 0xC9ED), (0x65F0, 0xCAF8)] @
   [(0x65F1, 0xA7F2), (0x65F2, 0xCAFB), (0x65F3, 0xCAFA), (0x65F4, 0xCAF9), (0x65F5, 0xCAFC), (0x65FA, 0xA9F4),
    (0x65FB, 0xCCC9), (0x65FC, 0xCCC5)] @
   [(0x65FD, 0xCCCE), (0x6600, 0xA9FB), (0x6602, 0xA9F9), (0x6603, 0xCCCA), (0x6604, 0xCCC6), (0x6605, 0xCCCD),
    (0x6606, 0xA9F8), (0x6607, 0xAA40)] @
   [(0x6608, 0xCCC8), (0x6609, 0xCCC4), (0x660A, 0xA9FE), (0x660B, 0xCCCB), (0x660C, 0xA9F7), (0x660D, 0xCCCC),
    (0x660E, 0xA9FA), (0x660F, 0xA9FC)] @
   [(0x6610, 0xCCD0), (0x6611, 0xCCCF), (0x6612, 0xCCC7), (0x6613, 0xA9F6), (0x6614, 0xA9F5), (0x6615, 0xA9FD),
    (0x661C, 0xCEEF), (0x661D, 0xCEF5)] @
   [(0x661F, 0xAC50), (0x6620, 0xAC4D), (0x6621, 0xCEEC), (0x6622, 0xCEF1), (0x6624, 0xAC53), (0x6625, 0xAC4B),
    (0x6626, 0xCEF0), (0x6627, 0xAC4E)] @
   [(0x6628, 0xAC51), (0x662B, 0xCEF3), (0x662D, 0xAC4C), (0x662E, 0xCEF8), (0x662F, 0xAC4F), (0x6631, 0xAC52),
    (0x6632, 0xCEED), (0x6633, 0xCEF2)] @
   [(0x6634, 0xCEF6), (0x6635, 0xCEEE), (0x6636, 0xCEEB), (0x6639, 0xCEF7), (0x663A, 0xCEF4), (0x6641, 0xAED0),
    (0x6642, 0xAEC9), (0x6643, 0xAECC)] @
   [(0x6645, 0xAECF), (0x6647, 0xD1D5), (0x6649, 0xAECA), (0x664A, 0xD1D3), (0x664C, 0xAECE), (0x664F, 0xAECB),
    (0x6651, 0xD1D6), (0x6652, 0xAECD)] @
   [(0x6659, 0xD5AC), (0x665A, 0xB1DF), (0x665B, 0xD5AB), (0x665C, 0xD5AD), (0x665D, 0xB1DE), (0x665E, 0xB1E3),
    (0x665F, 0xD1D4), (0x6661, 0xD5AA)] @
   [(0x6662, 0xD5AE), (0x6664, 0xB1E0), (0x6665, 0xD5A9), (0x6666, 0xB1E2), (0x6668, 0xB1E1), (0x666A, 0xD9A7),
    (0x666C, 0xD9A2), (0x666E, 0xB4B6)] @
   [(0x666F, 0xB4BA), (0x6670, 0xB4B7), (0x6671, 0xD9A5), (0x6672, 0xD9A8), (0x6674, 0xB4B8), (0x6676, 0xB4B9),
    (0x6677, 0xB4BE), (0x6678, 0xDDC7)] @
   [(0x6679, 0xD9A6), (0x667A, 0xB4BC), (0x667B, 0xD9A3), (0x667C, 0xD9A1), (0x667E, 0xB4BD), (0x6680, 0xD9A4),
    (0x6684, 0xB779), (0x6686, 0xDDBF)]"

definition rev_cp950_17 :: "(nat \<times> nat) list" where
  "rev_cp950_17 =
   [(0x6687, 0xB776), (0x6688, 0xB777), (0x6689, 0xB775), (0x668A, 0xDDC4), (0x668B, 0xDDC3), (0x668C, 0xDDC0),
    (0x668D, 0xB77B), (0x6690, 0xDDC2)] @
   [(0x6691, 0xB4BB), (0x6694, 0xDDC6), (0x6695, 0xDDC1), (0x6696, 0xB778), (0x6697, 0xB774), (0x6698, 0xB77A),
    (0x6699, 0xDDC5), (0x669D, 0xBA5C)] @
   [(0x669F, 0xE1F8), (0x66A0, 0xE1F7), (0x66A1, 0xE1F6), (0x66A2, 0xBA5A), (0x66A8, 0xBA5B), (0x66A9, 0xE5C5),
    (0x66AA, 0xE5C8), (0x66AB, 0xBCC8)] @
   [(0x66AE, 0xBCC7), (0x66AF, 0xE5C9), (0x66B0, 0xE5C4), (0x66B1, 0xBCCA), (0x66B2, 0xE5C6), (0x66B4, 0xBCC9),
    (0x66B5, 0xE5C3), (0x66B7, 0xE5C7)] @
   [(0x66B8, 0xBEE9), (0x66B9, 0xBEE6), (0x66BA, 0xE9BB), (0x66BB, 0xE9BA), (0x66BD, 0xE9B9), (0x66BE, 0xE9B4),
    (0x66C0, 0xE9B5), (0x66C4, 0xBEE7)] @
   [(0x66C6, 0xBEE4), (0x66C7, 0xBEE8), (0x66C8, 0xE9B3), (0x66C9, 0xBEE5), (0x66CA, 0xE9B6), (0x66CB, 0xE9B7),
    (0x66CC, 0xE9BC), (0x66CF, 0xE9B8)] @
   [(0x66D2, 0xECF2), (0x66D6, 0xC0C7), (0x66D8, 0xEFDC), (0x66D9, 0xC0C6), (0x66DA, 0xEFDA), (0x66DB, 0xEFDB),
    (0x66DC, 0xC260), (0x66DD, 0xC36E)] @
   [(0x66DE, 0xF24B), (0x66E0, 0xC36D), (0x66E3, 0xF451), (0x66E4, 0xF452), (0x66E6, 0xC466), (0x66E8, 0xF450),
    (0x66E9, 0xC4E4), (0x66EB, 0xF7DF)] @
   [(0x66EC, 0xC5CE), (0x66ED, 0xF8AA), (0x66EE, 0xF8AB), (0x66F0, 0xA4EA), (0x66F2, 0xA6B1), (0x66F3, 0xA6B2),
    (0x66F4, 0xA7F3), (0x66F6, 0xCCD1)] @
   [(0x66F7, 0xAC54), (0x66F8, 0xAED1), (0x66F9, 0xB1E4), (0x66FC, 0xB0D2), (0x66FE, 0xB4BF), (0x66FF, 0xB4C0),
    (0x6700, 0xB3CC), (0x6701, 0xD9A9)] @
   [(0x6703, 0xB77C), (0x6704, 0xE1FA), (0x6705, 0xE1F9), (0x6708, 0xA4EB), (0x6709, 0xA6B3), (0x670A, 0xCCD2),
    (0x670B, 0xAA42), (0x670D, 0xAA41)] @
   [(0x670F, 0xCEF9), (0x6710, 0xCEFA), (0x6712, 0xD1D7), (0x6713, 0xD1D8), (0x6714, 0xAED2), (0x6715, 0xAED3),
    (0x6717, 0xAED4), (0x6718, 0xD5AF)] @
   [(0x671B, 0xB1E6), (0x671D, 0xB4C2), (0x671F, 0xB4C1), (0x6720, 0xDDC8), (0x6721, 0xDF7A), (0x6722, 0xE1FB),
    (0x6723, 0xE9BD), (0x6726, 0xC261)] @
   [(0x6727, 0xC467), (0x6728, 0xA4EC), (0x672A, 0xA5BC), (0x672B, 0xA5BD), (0x672C, 0xA5BB), (0x672D, 0xA5BE),
    (0x672E, 0xA5BA), (0x6731, 0xA6B6)] @
   [(0x6733, 0xC9F6), (0x6734, 0xA6B5), (0x6735, 0xA6B7), (0x6738, 0xC9F1), (0x6739, 0xC9F0), (0x673A, 0xC9F3),
    (0x673B, 0xC9F2), (0x673C, 0xC9F5)] @
   [(0x673D, 0xA6B4), (0x673E, 0xC9EF), (0x673F, 0xC9F4), (0x6745, 0xCAFD), (0x6746, 0xA7FD), (0x6747, 0xCAFE),
    (0x6748, 0xCB43), (0x6749, 0xA7FC)] @
   [(0x674B, 0xCB47), (0x674C, 0xCB42), (0x674D, 0xCB45), (0x674E, 0xA7F5), (0x674F, 0xA7F6), (0x6750, 0xA7F7),
    (0x6751, 0xA7F8), (0x6753, 0xA840)] @
   [(0x6755, 0xCB41), (0x6756, 0xA7FA), (0x6757, 0xA841), (0x6759, 0xCB40), (0x675A, 0xCB46), (0x675C, 0xA7F9),
    (0x675D, 0xCB44), (0x675E, 0xA7FB)] @
   [(0x675F, 0xA7F4), (0x6760, 0xA7FE), (0x676A, 0xAA57), (0x676C, 0xCCD4), (0x676D, 0xAA43), (0x676F, 0xAA4D),
    (0x6770, 0xAA4E), (0x6771, 0xAA46)] @
   [(0x6772, 0xAA58), (0x6773, 0xAA48), (0x6774, 0xCCDC), (0x6775, 0xAA53), (0x6776, 0xCCD7), (0x6777, 0xAA49),
    (0x6778, 0xCCE6), (0x6779, 0xCCE7)] @
   [(0x677A, 0xCCDF), (0x677B, 0xCCD8), (0x677C, 0xAA56), (0x677D, 0xCCE4), (0x677E, 0xAA51), (0x677F, 0xAA4F),
    (0x6781, 0xCCE5), (0x6783, 0xCCE3)] @
   [(0x6784, 0xCCDB), (0x6785, 0xCCD3), (0x6786, 0xCCDA), (0x6787, 0xAA4A), (0x6789, 0xAA50), (0x678B, 0xAA44),
    (0x678C, 0xCCDE), (0x678D, 0xCCDD)] @
   [(0x678E, 0xCCD5), (0x6790, 0xAA52), (0x6791, 0xCCE1), (0x6792, 0xCCD6), (0x6793, 0xAA55), (0x6794, 0xCCE8),
    (0x6795, 0xAA45), (0x6797, 0xAA4C)] @
   [(0x6798, 0xCCD9), (0x6799, 0xCCE2), (0x679A, 0xAA54), (0x679C, 0xAA47), (0x679D, 0xAA4B), (0x679F, 0xCCE0),
    (0x67AE, 0xCF5B), (0x67AF, 0xAC5C)] @
   [(0x67B0, 0xAC69), (0x67B2, 0xCF56), (0x67B3, 0xCF4C), (0x67B4, 0xAC62), (0x67B5, 0xCF4A), (0x67B6, 0xAC5B),
    (0x67B7, 0xCF45), (0x67B8, 0xAC65)] @
   [(0x67B9, 0xCF52), (0x67BA, 0xCEFE), (0x67BB, 0xCF41), (0x67C0, 0xCF44), (0x67C1, 0xCEFB), (0x67C2, 0xCF51),
    (0x67C3, 0xCF61), (0x67C4, 0xAC60)] @
   [(0x67C5, 0xCF46), (0x67C6, 0xCF58), (0x67C8, 0xCEFD), (0x67C9, 0xCF5F), (0x67CA, 0xCF60), (0x67CB, 0xCF63),
    (0x67CC, 0xCF5A), (0x67CD, 0xCF4B)] @
   [(0x67CE, 0xCF53), (0x67CF, 0xAC66), (0x67D0, 0xAC59), (0x67D1, 0xAC61), (0x67D2, 0xAC6D), (0x67D3, 0xAC56),
    (0x67D4, 0xAC58), (0x67D8, 0xCF43)] @
   [(0x67D9, 0xAC6A), (0x67DA, 0xAC63), (0x67DB, 0xCF5D), (0x67DC, 0xCF40), (0x67DD, 0xAC6C), (0x67DE, 0xAC67),
    (0x67DF, 0xCF49), (0x67E2, 0xAC6B)] @
   [(0x67E3, 0xCF50), (0x67E4, 0xCF48), (0x67E5, 0xAC64), (0x67E6, 0xCF5C), (0x67E7, 0xCF54), (0x67E9, 0xAC5E),
    (0x67EA, 0xCF62), (0x67EB, 0xCF47)] @
   [(0x67EC, 0xAC5A), (0x67ED, 0xCF59), (0x67EE, 0xCF4F), (0x67EF, 0xAC5F), (0x67F0, 0xCF55), (0x67F1, 0xAC57),
    (0x67F2, 0xCEFC), (0x67F3, 0xAC68)] @
   [(0x67F4, 0xAEE3), (0x67F5, 0xAC5D), (0x67F6, 0xCF4E), (0x67F7, 0xCF4D), (0x67F8, 0xCF42), (0x67FA, 0xCF5E),
    (0x67FC, 0xCF57), (0x67FF, 0xAC55)]"

definition rev_cp950_18 :: "(nat \<times> nat) list" where
  "rev_cp950_18 =
   [(0x6812, 0xD1EC), (0x6813, 0xAEEA), (0x6814, 0xD1ED), (0x6816, 0xD1E1), (0x6817, 0xAEDF), (0x6818, 0xAEEB),
    (0x681A, 0xD1DA), (0x681C, 0xD1E3)] @
   [(0x681D, 0xD1EB), (0x681F, 0xD1D9), (0x6820, 0xD1F4), (0x6821, 0xAED5), (0x6825, 0xD1F3), (0x6826, 0xD1EE),
    (0x6828, 0xD1EF), (0x6829, 0xAEDD)] @
   [(0x682A, 0xAEE8), (0x682B, 0xD1E5), (0x682D, 0xD1E6), (0x682E, 0xD1F0), (0x682F, 0xD1E7), (0x6831, 0xD1E2),
    (0x6832, 0xD1DC), (0x6833, 0xD1DD)] @
   [(0x6834, 0xD1EA), (0x6835, 0xD1E4), (0x6838, 0xAED6), (0x6839, 0xAEDA), (0x683A, 0xD1F2), (0x683B, 0xD1DE),
    (0x683C, 0xAEE6), (0x683D, 0xAEE2)] @
   [(0x6840, 0xAEE5), (0x6841, 0xAEEC), (0x6842, 0xAEDB), (0x6843, 0xAEE7), (0x6844, 0xD1E9), (0x6845, 0xAEE9),
    (0x6846, 0xAED8), (0x6848, 0xAED7)] @
   [(0x6849, 0xD1DB), (0x684B, 0xD1DF), (0x684C, 0xAEE0), (0x684D, 0xD1F1), (0x684E, 0xD1E8), (0x684F, 0xD1E0),
    (0x6850, 0xAEE4), (0x6851, 0xAEE1)] @
   [(0x6853, 0xAED9), (0x6854, 0xAEDC), (0x686B, 0xD5C4), (0x686D, 0xD5B4), (0x686E, 0xD5B5), (0x686F, 0xD5B9),
    (0x6871, 0xD5C8), (0x6872, 0xD5C5)] @
   [(0x6874, 0xD5BE), (0x6875, 0xD5BD), (0x6876, 0xB1ED), (0x6877, 0xD5C1), (0x6878, 0xD5D0), (0x6879, 0xD5B0),
    (0x687B, 0xD5D1), (0x687C, 0xD5C3)] @
   [(0x687D, 0xD5D5), (0x687E, 0xD5C9), (0x687F, 0xB1EC), (0x6880, 0xD5C7), (0x6881, 0xB1E7), (0x6882, 0xB1FC),
    (0x6883, 0xB1F2), (0x6885, 0xB1F6)] @
   [(0x6886, 0xB1F5), (0x6887, 0xD5B1), (0x6889, 0xD5CE), (0x688A, 0xD5D4), (0x688B, 0xD5CC), (0x688C, 0xD5D3),
    (0x688F, 0xD5C0), (0x6890, 0xD5B2)] @
   [(0x6891, 0xD5D2), (0x6892, 0xD5C2), (0x6893, 0xB1EA), (0x6894, 0xB1F7), (0x6896, 0xD5CB), (0x6897, 0xB1F0),
    (0x689B, 0xD5CA), (0x689C, 0xD5B3)] @
   [(0x689D, 0xB1F8), (0x689F, 0xB1FA), (0x68A0, 0xD5CD), (0x68A1, 0xB1FB), (0x68A2, 0xB1E9), (0x68A3, 0xD5BA),
    (0x68A4, 0xD5CF), (0x68A7, 0xB1EF)] @
   [(0x68A8, 0xB1F9), (0x68A9, 0xD5BC), (0x68AA, 0xD5C6), (0x68AB, 0xD5B7), (0x68AC, 0xD5BB), (0x68AD, 0xB1F4),
    (0x68AE, 0xD5B6), (0x68AF, 0xB1E8)] @
   [(0x68B0, 0xB1F1), (0x68B1, 0xB1EE), (0x68B2, 0xD5BF), (0x68B3, 0xAEDE), (0x68B4, 0xD9C0), (0x68B5, 0xB1EB),
    (0x68C4, 0xB1F3), (0x68C6, 0xD9C3)] @
   [(0x68C7, 0xD9D9), (0x68C8, 0xD9CE), (0x68C9, 0xB4D6), (0x68CB, 0xB4D1), (0x68CC, 0xD9BD), (0x68CD, 0xB4D2),
    (0x68CE, 0xD9CD), (0x68D0, 0xD9C6)] @
   [(0x68D1, 0xD9D3), (0x68D2, 0xB4CE), (0x68D3, 0xD9AB), (0x68D4, 0xD9D5), (0x68D5, 0xB4C4), (0x68D6, 0xD9B3),
    (0x68D7, 0xB4C7), (0x68D8, 0xB4C6)] @
   [(0x68DA, 0xB4D7), (0x68DC, 0xD9AD), (0x68DD, 0xD9CF), (0x68DE, 0xD9D0), (0x68DF, 0xB4C9), (0x68E0, 0xB4C5),
    (0x68E1, 0xD9BB), (0x68E3, 0xB4D0)] @
   [(0x68E4, 0xD9B6), (0x68E6, 0xD9D1), (0x68E7, 0xB4CC), (0x68E8, 0xD9C9), (0x68E9, 0xD9D6), (0x68EA, 0xD9B0),
    (0x68EB, 0xD9B5), (0x68EC, 0xD9AF)] @
   [(0x68EE, 0xB4CB), (0x68EF, 0xD9C2), (0x68F0, 0xDDDE), (0x68F1, 0xD9B1), (0x68F2, 0xB4CF), (0x68F3, 0xD9BA),
    (0x68F4, 0xD9D2), (0x68F5, 0xB4CA)] @
   [(0x68F6, 0xD9B7), (0x68F7, 0xD9B4), (0x68F8, 0xD9C5), (0x68F9, 0xB4CD), (0x68FA, 0xB4C3), (0x68FB, 0xB4D9),
    (0x68FC, 0xD9C8), (0x68FD, 0xD9C7)] @
   [(0x6904, 0xD9AC), (0x6905, 0xB4C8), (0x6906, 0xD9D4), (0x6907, 0xD9BC), (0x6908, 0xD9BE), (0x690A, 0xD9CB),
    (0x690B, 0xD9CA), (0x690C, 0xD9AA)] @
   [(0x690D, 0xB4D3), (0x690E, 0xB4D5), (0x690F, 0xD9B2), (0x6910, 0xD9B9), (0x6911, 0xD9C1), (0x6912, 0xB4D4),
    (0x6913, 0xD9B8), (0x6914, 0xD9C4)] @
   [(0x6915, 0xD9D7), (0x6917, 0xD9CC), (0x6925, 0xD9D8), (0x692A, 0xD9AE), (0x692F, 0xDDF2), (0x6930, 0xB7A6),
    (0x6932, 0xDDF0), (0x6933, 0xDDDB)] @
   [(0x6934, 0xDDE0), (0x6935, 0xDDD9), (0x6937, 0xDDEC), (0x6938, 0xDDCB), (0x6939, 0xDDD2), (0x693B, 0xDDEA),
    (0x693C, 0xDDF4), (0x693D, 0xDDDC)] @
   [(0x693F, 0xDDCF), (0x6940, 0xDDE2), (0x6941, 0xDDE7), (0x6942, 0xDDD3), (0x6944, 0xDDE4), (0x6945, 0xDDD0),
    (0x6948, 0xDDD7), (0x6949, 0xDDD8)] @
   [(0x694A, 0xB7A8), (0x694B, 0xDDEB), (0x694C, 0xDDE9), (0x694E, 0xDDCC), (0x694F, 0xDDEE), (0x6951, 0xDDEF),
    (0x6952, 0xDDF1), (0x6953, 0xB7AC)] @
   [(0x6954, 0xB7A4), (0x6956, 0xD5B8), (0x6957, 0xDDD4), (0x6958, 0xDDE6), (0x6959, 0xDDD5), (0x695A, 0xB7A1),
    (0x695B, 0xB7B1), (0x695C, 0xDDED)] @
   [(0x695D, 0xB7AF), (0x695E, 0xB7AB), (0x695F, 0xDDCA), (0x6960, 0xB7A3), (0x6962, 0xDDCD), (0x6963, 0xB7B0),
    (0x6965, 0xDDDD), (0x6966, 0xDDC9)] @
   [(0x6968, 0xB7A9), (0x6969, 0xDDE1), (0x696A, 0xDDD1), (0x696B, 0xB7AA), (0x696C, 0xDDDA), (0x696D, 0xB77E),
    (0x696E, 0xB4D8), (0x696F, 0xDDE3)] @
   [(0x6970, 0xD9BF), (0x6971, 0xDDCE), (0x6974, 0xDDE8), (0x6975, 0xB7A5), (0x6976, 0xDDE5), (0x6977, 0xB7A2),
    (0x6978, 0xDDDF), (0x6979, 0xB7AD)] @
   [(0x697A, 0xDDD6), (0x697B, 0xDDF3), (0x6982, 0xB7A7), (0x6983, 0xDEC6), (0x6986, 0xB7AE), (0x698D, 0xE24A),
    (0x698E, 0xE248), (0x6990, 0xE25E)] @
   [(0x6991, 0xE246), (0x6993, 0xE258), (0x6994, 0xB77D), (0x6995, 0xBA5F), (0x6996, 0xE242), (0x6997, 0xE25D),
    (0x6999, 0xE247), (0x699A, 0xE255)]"

definition rev_cp950_19 :: "(nat \<times> nat) list" where
  "rev_cp950_19 =
   [(0x699B, 0xBA64), (0x699C, 0xBA5D), (0x699E, 0xE25B), (0x69A0, 0xE240), (0x69A1, 0xE25A), (0x69A3, 0xBA6F),
    (0x69A4, 0xE251), (0x69A5, 0xE261)] @
   [(0x69A6, 0xBA6D), (0x69A7, 0xE249), (0x69A8, 0xBA5E), (0x69A9, 0xE24B), (0x69AA, 0xE259), (0x69AB, 0xBA67),
    (0x69AC, 0xE244), (0x69AD, 0xBA6B)] @
   [(0x69AE, 0xBA61), (0x69AF, 0xE24D), (0x69B0, 0xE243), (0x69B1, 0xE1FC), (0x69B3, 0xE257), (0x69B4, 0xBA68),
    (0x69B5, 0xE260), (0x69B6, 0xE1FD)] @
   [(0x69B7, 0xBA65), (0x69B9, 0xE253), (0x69BB, 0xBA66), (0x69BC, 0xE245), (0x69BD, 0xE250), (0x69BE, 0xE24C),
    (0x69BF, 0xE24E), (0x69C1, 0xBA60)] @
   [(0x69C2, 0xE25F), (0x69C3, 0xBA6E), (0x69C4, 0xE24F), (0x69C6, 0xE262), (0x69C9, 0xE1FE), (0x69CA, 0xE254),
    (0x69CB, 0xBA63), (0x69CC, 0xBA6C)] @
   [(0x69CD, 0xBA6A), (0x69CE, 0xE241), (0x69CF, 0xE256), (0x69D0, 0xBA69), (0x69D3, 0xBA62), (0x69D4, 0xE252),
    (0x69D9, 0xE25C), (0x69E2, 0xE5D5)] @
   [(0x69E4, 0xE5D1), (0x69E5, 0xE5CD), (0x69E6, 0xE5E1), (0x69E7, 0xE5DE), (0x69E8, 0xBCCD), (0x69EB, 0xE5E5),
    (0x69EC, 0xE5D4), (0x69ED, 0xBCD8)] @
   [(0x69EE, 0xE5DB), (0x69F1, 0xE5D0), (0x69F2, 0xE5DA), (0x69F3, 0xBCD5), (0x69F4, 0xE5EE), (0x69F6, 0xE5EB),
    (0x69F7, 0xE5DD), (0x69F8, 0xE5CE)] @
   [(0x69FB, 0xE5E2), (0x69FC, 0xE5E4), (0x69FD, 0xBCD1), (0x69FE, 0xE5D8), (0x69FF, 0xE5D3), (0x6A00, 0xE5CA),
    (0x6A01, 0xBCCE), (0x6A02, 0xBCD6)] @
   [(0x6A04, 0xE5E7), (0x6A05, 0xBCD7), (0x6A06, 0xE5CB), (0x6A07, 0xE5ED), (0x6A08, 0xE5E0), (0x6A09, 0xE5E6),
    (0x6A0A, 0xBCD4), (0x6A0D, 0xE5E3)] @
   [(0x6A0F, 0xE5EA), (0x6A11, 0xBCD9), (0x6A13, 0xBCD3), (0x6A14, 0xE5DC), (0x6A15, 0xE5CF), (0x6A16, 0xE5EF),
    (0x6A17, 0xE5CC), (0x6A18, 0xE5E8)] @
   [(0x6A19, 0xBCD0), (0x6A1B, 0xE5D6), (0x6A1D, 0xE5D7), (0x6A1E, 0xBCCF), (0x6A1F, 0xBCCC), (0x6A20, 0xE5D2),
    (0x6A21, 0xBCD2), (0x6A23, 0xBCCB)] @
   [(0x6A25, 0xE5E9), (0x6A26, 0xE5EC), (0x6A27, 0xE5D9), (0x6A28, 0xE9CA), (0x6A32, 0xE9C2), (0x6A34, 0xE9BE),
    (0x6A35, 0xBEF6), (0x6A38, 0xBEEB)] @
   [(0x6A39, 0xBEF0), (0x6A3A, 0xBEEC), (0x6A3B, 0xE9CC), (0x6A3C, 0xE9D7), (0x6A3D, 0xBEEA), (0x6A3E, 0xE9C4),
    (0x6A3F, 0xE9CD), (0x6A40, 0xE5DF)] @
   [(0x6A41, 0xE9CE), (0x6A44, 0xBEF1), (0x6A46, 0xE9DD), (0x6A47, 0xBEF5), (0x6A48, 0xBEF8), (0x6A49, 0xE9C0),
    (0x6A4B, 0xBEF4), (0x6A4D, 0xE9DB)] @
   [(0x6A4E, 0xE9DC), (0x6A4F, 0xE9D2), (0x6A50, 0xE9D1), (0x6A51, 0xE9C9), (0x6A54, 0xE9D3), (0x6A55, 0xE9DA),
    (0x6A56, 0xE9D9), (0x6A58, 0xBEEF)] @
   [(0x6A59, 0xBEED), (0x6A5A, 0xE9CB), (0x6A5B, 0xE9C8), (0x6A5D, 0xE9C5), (0x6A5E, 0xE9D8), (0x6A5F, 0xBEF7),
    (0x6A60, 0xE9D6), (0x6A61, 0xBEF3)] @
   [(0x6A62, 0xBEF2), (0x6A64, 0xE9D0), (0x6A66, 0xE9BF), (0x6A67, 0xE9C1), (0x6A68, 0xE9C3), (0x6A69, 0xE9D5),
    (0x6A6A, 0xE9CF), (0x6A6B, 0xBEEE)] @
   [(0x6A6D, 0xE9C6), (0x6A6F, 0xE9D4), (0x6A76, 0xE9C7), (0x6A7E, 0xC0CF), (0x6A7F, 0xED45), (0x6A80, 0xC0C8),
    (0x6A81, 0xECF5), (0x6A83, 0xED41)] @
   [(0x6A84, 0xC0CA), (0x6A85, 0xED48), (0x6A87, 0xECFC), (0x6A89, 0xECF7), (0x6A8C, 0xED49), (0x6A8D, 0xECF3),
    (0x6A8E, 0xECFE), (0x6A90, 0xC0D1)] @
   [(0x6A91, 0xED44), (0x6A92, 0xED4A), (0x6A93, 0xECFD), (0x6A94, 0xC0C9), (0x6A95, 0xED40), (0x6A96, 0xECF4),
    (0x6A97, 0xC0D0), (0x6A9A, 0xED47)] @
   [(0x6A9B, 0xECF9), (0x6A9C, 0xC0CC), (0x6A9E, 0xECFB), (0x6A9F, 0xECF8), (0x6AA0, 0xC0D2), (0x6AA1, 0xECFA),
    (0x6AA2, 0xC0CB), (0x6AA3, 0xC0CE)] @
   [(0x6AA4, 0xED43), (0x6AA5, 0xECF6), (0x6AA6, 0xED46), (0x6AA8, 0xED42), (0x6AAC, 0xC263), (0x6AAD, 0xEFE7),
    (0x6AAE, 0xC268), (0x6AAF, 0xC269)] @
   [(0x6AB3, 0xC262), (0x6AB4, 0xEFE6), (0x6AB6, 0xEFE3), (0x6AB7, 0xEFE4), (0x6AB8, 0xC266), (0x6AB9, 0xEFDE),
    (0x6ABA, 0xEFE2), (0x6ABB, 0xC265)] @
   [(0x6ABD, 0xEFDF), (0x6AC2, 0xC267), (0x6AC3, 0xC264), (0x6AC5, 0xEFDD), (0x6AC6, 0xEFE1), (0x6AC7, 0xEFE5),
    (0x6ACB, 0xF251), (0x6ACC, 0xF24E)] @
   [(0x6ACD, 0xF257), (0x6ACF, 0xF256), (0x6AD0, 0xF254), (0x6AD1, 0xF24F), (0x6AD3, 0xC372), (0x6AD9, 0xF250),
    (0x6ADA, 0xC371), (0x6ADB, 0xC0CD)] @
   [(0x6ADC, 0xF253), (0x6ADD, 0xC370), (0x6ADE, 0xF258), (0x6ADF, 0xF252), (0x6AE0, 0xF24D), (0x6AE1, 0xEFE0),
    (0x6AE5, 0xC36F), (0x6AE7, 0xF24C)] @
   [(0x6AE8, 0xF456), (0x6AEA, 0xF455), (0x6AEB, 0xF255), (0x6AEC, 0xC468), (0x6AEE, 0xF459), (0x6AEF, 0xF45A),
    (0x6AF0, 0xF454), (0x6AF1, 0xF458)] @
   [(0x6AF3, 0xF453), (0x6AF8, 0xF5D1), (0x6AF9, 0xF457), (0x6AFA, 0xC4E7), (0x6AFB, 0xC4E5), (0x6AFC, 0xF5CF),
    (0x6B00, 0xF5D2), (0x6B02, 0xF5CE)] @
   [(0x6B03, 0xF5D0), (0x6B04, 0xC4E6), (0x6B08, 0xF6E5), (0x6B09, 0xF6E6), (0x6B0A, 0xC576), (0x6B0B, 0xF6E4),
    (0x6B0F, 0xF7E2), (0x6B10, 0xC5CF)] @
   [(0x6B11, 0xF7E0), (0x6B12, 0xF7E1), (0x6B13, 0xF8AC), (0x6B16, 0xC656), (0x6B17, 0xF8F3), (0x6B18, 0xF8F1),
    (0x6B19, 0xF8F2), (0x6B1A, 0xF8F4)] @
   [(0x6B1E, 0xF9BB), (0x6B20, 0xA4ED), (0x6B21, 0xA6B8), (0x6B23, 0xAA59), (0x6B25, 0xCCE9), (0x6B28, 0xCF64),
    (0x6B2C, 0xD1F5), (0x6B2D, 0xD1F7)]"

definition rev_cp950_20 :: "(nat \<times> nat) list" where
  "rev_cp950_20 =
   [(0x6B2F, 0xD1F6), (0x6B31, 0xD1F8), (0x6B32, 0xB1FD), (0x6B33, 0xD5D7), (0x6B34, 0xD1F9), (0x6B36, 0xD5D6),
    (0x6B37, 0xD5D8), (0x6B38, 0xD5D9)] @
   [(0x6B39, 0xD9DA), (0x6B3A, 0xB4DB), (0x6B3B, 0xD9DB), (0x6B3C, 0xD9DD), (0x6B3D, 0xB4DC), (0x6B3E, 0xB4DA),
    (0x6B3F, 0xD9DC), (0x6B41, 0xDDFA)] @
   [(0x6B42, 0xDDF8), (0x6B43, 0xDDF7), (0x6B45, 0xDDF6), (0x6B46, 0xDDF5), (0x6B47, 0xB7B2), (0x6B48, 0xDDF9),
    (0x6B49, 0xBA70), (0x6B4A, 0xE263)] @
   [(0x6B4B, 0xE265), (0x6B4C, 0xBA71), (0x6B4D, 0xE264), (0x6B4E, 0xBCDB), (0x6B50, 0xBCDA), (0x6B51, 0xE5F0),
    (0x6B54, 0xE9DF), (0x6B55, 0xE9DE)] @
   [(0x6B56, 0xE9E0), (0x6B59, 0xBEF9), (0x6B5B, 0xED4B), (0x6B5C, 0xC0D3), (0x6B5E, 0xEFE8), (0x6B5F, 0xC26A),
    (0x6B60, 0xF259), (0x6B61, 0xC577)] @
   [(0x6B62, 0xA4EE), (0x6B63, 0xA5BF), (0x6B64, 0xA6B9), (0x6B65, 0xA842), (0x6B66, 0xAA5A), (0x6B67, 0xAA5B),
    (0x6B6A, 0xAC6E), (0x6B6D, 0xD1FA)] @
   [(0x6B72, 0xB7B3), (0x6B76, 0xE6D1), (0x6B77, 0xBEFA), (0x6B78, 0xC26B), (0x6B79, 0xA4EF), (0x6B7B, 0xA6BA),
    (0x6B7E, 0xCCEB), (0x6B7F, 0xAA5C)] @
   [(0x6B80, 0xCCEA), (0x6B82, 0xCF65), (0x6B83, 0xAC6F), (0x6B84, 0xCF66), (0x6B86, 0xAC70), (0x6B88, 0xD1FC),
    (0x6B89, 0xAEEE), (0x6B8A, 0xAEED)] @
   [(0x6B8C, 0xD5DE), (0x6B8D, 0xD5DC), (0x6B8E, 0xD5DD), (0x6B8F, 0xD5DB), (0x6B91, 0xD5DA), (0x6B94, 0xD9DE),
    (0x6B95, 0xD9E1), (0x6B96, 0xB4DE)] @
   [(0x6B97, 0xD9DF), (0x6B98, 0xB4DD), (0x6B99, 0xD9E0), (0x6B9B, 0xDDFB), (0x6B9E, 0xE266), (0x6B9F, 0xE267),
    (0x6BA0, 0xE268), (0x6BA2, 0xE5F3)] @
   [(0x6BA3, 0xE5F2), (0x6BA4, 0xBCDC), (0x6BA5, 0xE5F1), (0x6BA6, 0xE5F4), (0x6BA7, 0xE9E1), (0x6BAA, 0xE9E2),
    (0x6BAB, 0xE9E3), (0x6BAD, 0xED4C)] @
   [(0x6BAE, 0xC0D4), (0x6BAF, 0xC26C), (0x6BB0, 0xF25A), (0x6BB2, 0xC4E8), (0x6BB3, 0xC95F), (0x6BB5, 0xAC71),
    (0x6BB6, 0xCF67), (0x6BB7, 0xAEEF)] @
   [(0x6BBA, 0xB1FE), (0x6BBC, 0xB4DF), (0x6BBD, 0xD9E2), (0x6BBF, 0xB7B5), (0x6BC0, 0xB7B4), (0x6BC3, 0xE269),
    (0x6BC4, 0xE26A), (0x6BC5, 0xBCDD)] @
   [(0x6BC6, 0xBCDE), (0x6BC7, 0xE9E5), (0x6BC8, 0xE9E4), (0x6BC9, 0xEFE9), (0x6BCA, 0xF7E3), (0x6BCB, 0xA4F0),
    (0x6BCC, 0xC960), (0x6BCD, 0xA5C0)] @
   [(0x6BCF, 0xA843), (0x6BD0, 0xCB48), (0x6BD2, 0xAC72), (0x6BD3, 0xB7B6), (0x6BD4, 0xA4F1), (0x6BD6, 0xCF68),
    (0x6BD7, 0xAC73), (0x6BD8, 0xCF69)] @
   [(0x6BDA, 0xC0D5), (0x6BDB, 0xA4F2), (0x6BDE, 0xCCEC), (0x6BE0, 0xCF6A), (0x6BE2, 0xD242), (0x6BE3, 0xD241),
    (0x6BE4, 0xD1FE), (0x6BE6, 0xD1FD)] @
   [(0x6BE7, 0xD243), (0x6BE8, 0xD240), (0x6BEB, 0xB240), (0x6BEC, 0xB241), (0x6BEF, 0xB4E0), (0x6BF0, 0xD9E3),
    (0x6BF2, 0xD9E4), (0x6BF3, 0xD9E5)] @
   [(0x6BF7, 0xDE41), (0x6BF8, 0xDE42), (0x6BF9, 0xDE40), (0x6BFB, 0xDDFD), (0x6BFC, 0xDDFE), (0x6BFD, 0xB7B7),
    (0x6BFE, 0xE26B), (0x6BFF, 0xE5F7)] @
   [(0x6C00, 0xE5F6), (0x6C01, 0xE5F5), (0x6C02, 0xE5F8), (0x6C03, 0xE9E7), (0x6C04, 0xE9E6), (0x6C05, 0xBEFB),
    (0x6C06, 0xE9E8), (0x6C08, 0xC0D6)] @
   [(0x6C09, 0xED4D), (0x6C0B, 0xEFEA), (0x6C0C, 0xF25B), (0x6C0D, 0xF6E7), (0x6C0F, 0xA4F3), (0x6C10, 0xA5C2),
    (0x6C11, 0xA5C1), (0x6C13, 0xAA5D)] @
   [(0x6C14, 0xC961), (0x6C15, 0xC97E), (0x6C16, 0xA6BB), (0x6C18, 0xC9F7), (0x6C19, 0xCB49), (0x6C1A, 0xCB4A),
    (0x6C1B, 0xAA5E), (0x6C1D, 0xCCED)] @
   [(0x6C1F, 0xAC74), (0x6C20, 0xCF6B), (0x6C21, 0xCF6C), (0x6C23, 0xAEF0), (0x6C24, 0xAEF4), (0x6C25, 0xD244),
    (0x6C26, 0xAEF3), (0x6C27, 0xAEF1)] @
   [(0x6C28, 0xAEF2), (0x6C2A, 0xD5DF), (0x6C2B, 0xB242), (0x6C2C, 0xB4E3), (0x6C2E, 0xB4E1), (0x6C2F, 0xB4E2),
    (0x6C30, 0xD9E6), (0x6C33, 0xBA72)] @
   [(0x6C34, 0xA4F4), (0x6C36, 0xC9A1), (0x6C38, 0xA5C3), (0x6C3B, 0xC9A4), (0x6C3E, 0xA5C6), (0x6C3F, 0xC9A3),
    (0x6C40, 0xA5C5), (0x6C41, 0xA5C4)] @
   [(0x6C42, 0xA844), (0x6C43, 0xC9A2), (0x6C46, 0xC9F8), (0x6C4A, 0xC9FC), (0x6C4B, 0xC9FE), (0x6C4C, 0xCA40),
    (0x6C4D, 0xA6C5), (0x6C4E, 0xA6C6)] @
   [(0x6C4F, 0xC9FB), (0x6C50, 0xA6C1), (0x6C52, 0xC9F9), (0x6C54, 0xC9FD), (0x6C55, 0xA6C2), (0x6C57, 0xA6BD),
    (0x6C59, 0xA6BE), (0x6C5B, 0xA6C4)] @
   [(0x6C5C, 0xC9FA), (0x6C5D, 0xA6BC), (0x6C5E, 0xA845), (0x6C5F, 0xA6BF), (0x6C60, 0xA6C0), (0x6C61, 0xA6C3),
    (0x6C65, 0xCB5B), (0x6C66, 0xCB59)] @
   [(0x6C67, 0xCB4C), (0x6C68, 0xA851), (0x6C69, 0xCB53), (0x6C6A, 0xA84C), (0x6C6B, 0xCB4D), (0x6C6D, 0xCB55),
    (0x6C6F, 0xCB52), (0x6C70, 0xA84F)] @
   [(0x6C71, 0xCB51), (0x6C72, 0xA856), (0x6C73, 0xCB5A), (0x6C74, 0xA858), (0x6C76, 0xA85A), (0x6C78, 0xCB4B),
    (0x6C7A, 0xA84D), (0x6C7B, 0xCB5C)] @
   [(0x6C7D, 0xA854), (0x6C7E, 0xA857), (0x6C80, 0xCD45), (0x6C81, 0xA847), (0x6C82, 0xA85E), (0x6C83, 0xA855),
    (0x6C84, 0xCB4E), (0x6C85, 0xA84A)] @
   [(0x6C86, 0xA859), (0x6C87, 0xCB56), (0x6C88, 0xA848), (0x6C89, 0xA849), (0x6C8A, 0xCD43), (0x6C8B, 0xCB4F),
    (0x6C8C, 0xA850), (0x6C8D, 0xA85B)] @
   [(0x6C8E, 0xCB5D), (0x6C8F, 0xCB50), (0x6C90, 0xA84E), (0x6C92, 0xA853), (0x6C93, 0xCCEE), (0x6C94, 0xA85C),
    (0x6C95, 0xCB57), (0x6C96, 0xA852)]"

definition rev_cp950_21 :: "(nat \<times> nat) list" where
  "rev_cp950_21 =
   [(0x6C98, 0xA85D), (0x6C99, 0xA846), (0x6C9A, 0xCB54), (0x6C9B, 0xA84B), (0x6C9C, 0xCB58), (0x6C9D, 0xCD44),
    (0x6CAB, 0xAA6A), (0x6CAC, 0xAA7A)] @
   [(0x6CAD, 0xCCF5), (0x6CAE, 0xAA71), (0x6CB0, 0xCD4B), (0x6CB1, 0xAA62), (0x6CB3, 0xAA65), (0x6CB4, 0xCD42),
    (0x6CB6, 0xCCF3), (0x6CB7, 0xCCF7)] @
   [(0x6CB8, 0xAA6D), (0x6CB9, 0xAA6F), (0x6CBA, 0xCCFA), (0x6CBB, 0xAA76), (0x6CBC, 0xAA68), (0x6CBD, 0xAA66),
    (0x6CBE, 0xAA67), (0x6CBF, 0xAA75)] @
   [(0x6CC0, 0xCD47), (0x6CC1, 0xAA70), (0x6CC2, 0xCCF9), (0x6CC3, 0xCCFB), (0x6CC4, 0xAA6E), (0x6CC5, 0xAA73),
    (0x6CC6, 0xCCFC), (0x6CC7, 0xCD4A)] @
   [(0x6CC9, 0xAC75), (0x6CCA, 0xAA79), (0x6CCC, 0xAA63), (0x6CCD, 0xCD49), (0x6CCF, 0xCD4D), (0x6CD0, 0xCCF8),
    (0x6CD1, 0xCD4F), (0x6CD2, 0xCD40)] @
   [(0x6CD3, 0xAA6C), (0x6CD4, 0xCCF4), (0x6CD5, 0xAA6B), (0x6CD6, 0xAA7D), (0x6CD7, 0xAA72), (0x6CD9, 0xCCF2),
    (0x6CDA, 0xCF75), (0x6CDB, 0xAA78)] @
   [(0x6CDC, 0xAA7C), (0x6CDD, 0xCD41), (0x6CDE, 0xCD46), (0x6CE0, 0xAA7E), (0x6CE1, 0xAA77), (0x6CE2, 0xAA69),
    (0x6CE3, 0xAA5F), (0x6CE5, 0xAA64)] @
   [(0x6CE7, 0xCCF6), (0x6CE8, 0xAA60), (0x6CE9, 0xCD4E), (0x6CEB, 0xCCF0), (0x6CEC, 0xCCEF), (0x6CED, 0xCCFD),
    (0x6CEE, 0xCCF1), (0x6CEF, 0xAA7B)] @
   [(0x6CF0, 0xAEF5), (0x6CF1, 0xAA74), (0x6CF2, 0xCCFE), (0x6CF3, 0xAA61), (0x6CF5, 0xACA6), (0x6CF9, 0xCD4C),
    (0x6D00, 0xCF7C), (0x6D01, 0xCFA1)] @
   [(0x6D03, 0xCFA4), (0x6D04, 0xCF77), (0x6D07, 0xCFA7), (0x6D08, 0xCFAA), (0x6D09, 0xCFAC), (0x6D0A, 0xCF74),
    (0x6D0B, 0xAC76), (0x6D0C, 0xAC7B)] @
   [(0x6D0D, 0xD249), (0x6D0E, 0xACAD), (0x6D0F, 0xCFA5), (0x6D10, 0xCFAD), (0x6D11, 0xCF7B), (0x6D12, 0xCF73),
    (0x6D16, 0xD264), (0x6D17, 0xAC7E)] @
   [(0x6D18, 0xCFA2), (0x6D19, 0xCF78), (0x6D1A, 0xCF7A), (0x6D1B, 0xACA5), (0x6D1D, 0xCF7D), (0x6D1E, 0xAC7D),
    (0x6D1F, 0xCF70), (0x6D20, 0xCFA8)] @
   [(0x6D22, 0xCFAB), (0x6D25, 0xAC7A), (0x6D27, 0xACA8), (0x6D28, 0xCF6D), (0x6D29, 0xACAA), (0x6D2A, 0xAC78),
    (0x6D2B, 0xACAE), (0x6D2C, 0xCFA9)] @
   [(0x6D2D, 0xCF6F), (0x6D2E, 0xACAB), (0x6D2F, 0xD25E), (0x6D30, 0xCD48), (0x6D31, 0xAC7C), (0x6D32, 0xAC77),
    (0x6D33, 0xCF76), (0x6D34, 0xCF6E)] @
   [(0x6D35, 0xACAC), (0x6D36, 0xACA4), (0x6D37, 0xCFA3), (0x6D38, 0xACA9), (0x6D39, 0xACA7), (0x6D3A, 0xCF79),
    (0x6D3B, 0xACA1), (0x6D3C, 0xCF71)] @
   [(0x6D3D, 0xACA2), (0x6D3E, 0xACA3), (0x6D3F, 0xCF72), (0x6D40, 0xCFA6), (0x6D41, 0xAC79), (0x6D42, 0xCF7E),
    (0x6D58, 0xD24C), (0x6D59, 0xAEFD)] @
   [(0x6D5A, 0xAF43), (0x6D5E, 0xD255), (0x6D5F, 0xD25B), (0x6D60, 0xD257), (0x6D61, 0xD24A), (0x6D62, 0xD24D),
    (0x6D63, 0xD246), (0x6D64, 0xD247)] @
   [(0x6D65, 0xAF4A), (0x6D66, 0xAEFA), (0x6D67, 0xD256), (0x6D68, 0xD25F), (0x6D69, 0xAF45), (0x6D6A, 0xAEF6),
    (0x6D6C, 0xAF40), (0x6D6D, 0xD24E)] @
   [(0x6D6E, 0xAF42), (0x6D6F, 0xD24F), (0x6D70, 0xD259), (0x6D74, 0xAF44), (0x6D75, 0xD268), (0x6D76, 0xD248),
    (0x6D77, 0xAEFC), (0x6D78, 0xAEFB)] @
   [(0x6D79, 0xAF48), (0x6D7A, 0xD245), (0x6D7B, 0xD266), (0x6D7C, 0xD25A), (0x6D7D, 0xD267), (0x6D7E, 0xD261),
    (0x6D7F, 0xD253), (0x6D80, 0xD262)] @
   [(0x6D82, 0xD25C), (0x6D83, 0xD265), (0x6D84, 0xD263), (0x6D85, 0xAF49), (0x6D86, 0xD254), (0x6D87, 0xAEF9),
    (0x6D88, 0xAEF8), (0x6D89, 0xAF41)] @
   [(0x6D8A, 0xAF47), (0x6D8B, 0xD260), (0x6D8C, 0xAF46), (0x6D8D, 0xD251), (0x6D8E, 0xB243), (0x6D90, 0xD269),
    (0x6D91, 0xD250), (0x6D92, 0xD24B)] @
   [(0x6D93, 0xAEFE), (0x6D94, 0xAF4B), (0x6D95, 0xAEF7), (0x6D97, 0xD258), (0x6D98, 0xD25D), (0x6DAA, 0xB265),
    (0x6DAB, 0xD5E1), (0x6DAC, 0xD5E5)] @
   [(0x6DAE, 0xB252), (0x6DAF, 0xB250), (0x6DB2, 0xB247), (0x6DB3, 0xD5E3), (0x6DB4, 0xD5E2), (0x6DB5, 0xB25B),
    (0x6DB7, 0xD5E8), (0x6DB8, 0xB255)] @
   [(0x6DBA, 0xD5FA), (0x6DBB, 0xD647), (0x6DBC, 0xB244), (0x6DBD, 0xD5F7), (0x6DBE, 0xD5F0), (0x6DBF, 0xB267),
    (0x6DC0, 0xD5E0), (0x6DC2, 0xD5FC)] @
   [(0x6DC4, 0xB264), (0x6DC5, 0xB258), (0x6DC6, 0xB263), (0x6DC7, 0xB24E), (0x6DC8, 0xD5EC), (0x6DC9, 0xD5FE),
    (0x6DCA, 0xD5F6), (0x6DCB, 0xB24F)] @
   [(0x6DCC, 0xB249), (0x6DCD, 0xD645), (0x6DCF, 0xD5FD), (0x6DD0, 0xD640), (0x6DD1, 0xB251), (0x6DD2, 0xB259),
    (0x6DD3, 0xD642), (0x6DD4, 0xD5EA)] @
   [(0x6DD5, 0xD5FB), (0x6DD6, 0xD5EF), (0x6DD7, 0xD644), (0x6DD8, 0xB25E), (0x6DD9, 0xB246), (0x6DDA, 0xB25C),
    (0x6DDB, 0xD5F4), (0x6DDC, 0xD5F2)] @
   [(0x6DDD, 0xD5F3), (0x6DDE, 0xB253), (0x6DDF, 0xD5EE), (0x6DE0, 0xD5ED), (0x6DE1, 0xB248), (0x6DE2, 0xD5E7),
    (0x6DE3, 0xD646), (0x6DE4, 0xB24A)] @
   [(0x6DE5, 0xD5F1), (0x6DE6, 0xB268), (0x6DE8, 0xB262), (0x6DE9, 0xD5E6), (0x6DEA, 0xB25F), (0x6DEB, 0xB25D),
    (0x6DEC, 0xB266), (0x6DED, 0xD5F8)] @
   [(0x6DEE, 0xB261), (0x6DEF, 0xD252), (0x6DF0, 0xD5F9), (0x6DF1, 0xB260), (0x6DF2, 0xD641), (0x6DF3, 0xB245),
    (0x6DF4, 0xD5F5), (0x6DF5, 0xB257)] @
   [(0x6DF6, 0xD5E9), (0x6DF7, 0xB256), (0x6DF9, 0xB254), (0x6DFA, 0xB24C), (0x6DFB, 0xB24B), (0x6DFC, 0xD9E7),
    (0x6DFD, 0xD643), (0x6E00, 0xD5EB)]"

definition rev_cp950_22 :: "(nat \<times> nat) list" where
  "rev_cp950_22 =
   [(0x6E03, 0xD9FC), (0x6E05, 0xB24D), (0x6E19, 0xB541), (0x6E1A, 0xB25A), (0x6E1B, 0xB4EE), (0x6E1C, 0xD9F6),
    (0x6E1D, 0xB4FC), (0x6E1F, 0xD9EA)] @
   [(0x6E20, 0xB4EB), (0x6E21, 0xB4E7), (0x6E22, 0xDA49), (0x6E23, 0xB4ED), (0x6E24, 0xB4F1), (0x6E25, 0xB4EC),
    (0x6E26, 0xB4F5), (0x6E27, 0xDA4D)] @
   [(0x6E28, 0xDA44), (0x6E2B, 0xD9F1), (0x6E2C, 0xB4FA), (0x6E2D, 0xB4F4), (0x6E2E, 0xD9FD), (0x6E2F, 0xB4E4),
    (0x6E30, 0xDA4A), (0x6E31, 0xDA43)] @
   [(0x6E32, 0xB4E8), (0x6E33, 0xD9F7), (0x6E34, 0xB4F7), (0x6E35, 0xDA55), (0x6E36, 0xDA56), (0x6E38, 0xB4E5),
    (0x6E39, 0xDA48), (0x6E3A, 0xB4F9)] @
   [(0x6E3B, 0xD9FB), (0x6E3C, 0xD9ED), (0x6E3D, 0xD9EE), (0x6E3E, 0xB4FD), (0x6E3F, 0xD9F2), (0x6E40, 0xD9F9),
    (0x6E41, 0xD9F3), (0x6E43, 0xB4FB)] @
   [(0x6E44, 0xB544), (0x6E45, 0xD9EF), (0x6E46, 0xD9E8), (0x6E47, 0xD9E9), (0x6E49, 0xD9EB), (0x6E4A, 0xB4EA),
    (0x6E4B, 0xD9F8), (0x6E4D, 0xB4F8)] @
   [(0x6E4E, 0xB542), (0x6E51, 0xD9FA), (0x6E52, 0xDA53), (0x6E53, 0xDA4B), (0x6E54, 0xB4E6), (0x6E55, 0xDA51),
    (0x6E56, 0xB4F2), (0x6E58, 0xB4F0)] @
   [(0x6E5A, 0xDA57), (0x6E5B, 0xB4EF), (0x6E5C, 0xDA41), (0x6E5D, 0xD9F4), (0x6E5E, 0xD9FE), (0x6E5F, 0xB547),
    (0x6E60, 0xDA45), (0x6E61, 0xDA42)] @
   [(0x6E62, 0xD9F0), (0x6E63, 0xB543), (0x6E64, 0xDA4F), (0x6E65, 0xDA4C), (0x6E66, 0xDA54), (0x6E67, 0xB4E9),
    (0x6E68, 0xDA40), (0x6E69, 0xB546)] @
   [(0x6E6B, 0xDA47), (0x6E6E, 0xB4F3), (0x6E6F, 0xB4F6), (0x6E71, 0xDA46), (0x6E72, 0xB545), (0x6E73, 0xD9F5),
    (0x6E74, 0xD5E4), (0x6E77, 0xDA50)] @
   [(0x6E78, 0xDA4E), (0x6E79, 0xDA52), (0x6E88, 0xD9EC), (0x6E89, 0xB540), (0x6E8D, 0xDE61), (0x6E8E, 0xDE60),
    (0x6E8F, 0xDE46), (0x6E90, 0xB7BD)] @
   [(0x6E92, 0xDE5F), (0x6E93, 0xDE49), (0x6E94, 0xDE4A), (0x6E96, 0xB7C7), (0x6E97, 0xDE68), (0x6E98, 0xB7C2),
    (0x6E99, 0xDE5E), (0x6E9B, 0xDE43)] @
   [(0x6E9C, 0xB7C8), (0x6E9D, 0xB7BE), (0x6E9E, 0xDE52), (0x6E9F, 0xDE48), (0x6EA0, 0xDE4B), (0x6EA1, 0xDE63),
    (0x6EA2, 0xB7B8), (0x6EA3, 0xDE6A)] @
   [(0x6EA4, 0xDE62), (0x6EA5, 0xB7C1), (0x6EA6, 0xDE57), (0x6EA7, 0xB7CC), (0x6EAA, 0xB7CB), (0x6EAB, 0xB7C5),
    (0x6EAE, 0xDE69), (0x6EAF, 0xB7B9)] @
   [(0x6EB0, 0xDE55), (0x6EB1, 0xDE4C), (0x6EB2, 0xDE59), (0x6EB3, 0xDE65), (0x6EB4, 0xB7CD), (0x6EB6, 0xB7BB),
    (0x6EB7, 0xDE54), (0x6EB9, 0xDE4D)] @
   [(0x6EBA, 0xB7C4), (0x6EBC, 0xB7C3), (0x6EBD, 0xDE50), (0x6EBE, 0xDE5A), (0x6EBF, 0xDE64), (0x6EC0, 0xDE47),
    (0x6EC1, 0xDE51), (0x6EC2, 0xB7BC)] @
   [(0x6EC3, 0xDE5B), (0x6EC4, 0xB7C9), (0x6EC5, 0xB7C0), (0x6EC6, 0xDE4E), (0x6EC7, 0xB7BF), (0x6EC8, 0xDE45),
    (0x6EC9, 0xDE53), (0x6ECA, 0xDE67)] @
   [(0x6ECB, 0xB4FE), (0x6ECC, 0xBAB0), (0x6ECD, 0xDE56), (0x6ECE, 0xE26C), (0x6ECF, 0xDE58), (0x6ED0, 0xDE66),
    (0x6ED1, 0xB7C6), (0x6ED2, 0xDE4F)] @
   [(0x6ED3, 0xB7BA), (0x6ED4, 0xB7CA), (0x6ED5, 0xBCF0), (0x6ED6, 0xDE44), (0x6ED8, 0xDE5D), (0x6EDC, 0xDE5C),
    (0x6EEB, 0xE2AA), (0x6EEC, 0xBAAD)] @
   [(0x6EED, 0xE27D), (0x6EEE, 0xE2A4), (0x6EEF, 0xBAA2), (0x6EF1, 0xE26E), (0x6EF2, 0xBAAF), (0x6EF4, 0xBA77),
    (0x6EF5, 0xE26D), (0x6EF6, 0xE2B0)] @
   [(0x6EF7, 0xBAB1), (0x6EF8, 0xE271), (0x6EF9, 0xE2A3), (0x6EFB, 0xE273), (0x6EFC, 0xE2B3), (0x6EFD, 0xE2AF),
    (0x6EFE, 0xBA75), (0x6EFF, 0xBAA1)] @
   [(0x6F00, 0xE653), (0x6F01, 0xBAAE), (0x6F02, 0xBA7D), (0x6F03, 0xE26F), (0x6F05, 0xE2AE), (0x6F06, 0xBAA3),
    (0x6F07, 0xE2AB), (0x6F08, 0xE2B8)] @
   [(0x6F09, 0xE275), (0x6F0A, 0xE27E), (0x6F0D, 0xE2B6), (0x6F0E, 0xE2AC), (0x6F0F, 0xBA7C), (0x6F12, 0xE27C),
    (0x6F13, 0xBA76), (0x6F14, 0xBA74)] @
   [(0x6F15, 0xBAA8), (0x6F18, 0xE27A), (0x6F19, 0xE277), (0x6F1A, 0xE278), (0x6F1C, 0xE2B2), (0x6F1E, 0xE2B7),
    (0x6F1F, 0xE2B5), (0x6F20, 0xBA7A)] @
   [(0x6F21, 0xE2B9), (0x6F22, 0xBA7E), (0x6F23, 0xBAA7), (0x6F25, 0xE270), (0x6F26, 0xE5FA), (0x6F27, 0xE279),
    (0x6F29, 0xBA78), (0x6F2A, 0xBAAC)] @
   [(0x6F2B, 0xBAA9), (0x6F2C, 0xBA7B), (0x6F2D, 0xE2A5), (0x6F2E, 0xE274), (0x6F2F, 0xBAAA), (0x6F30, 0xE2A7),
    (0x6F31, 0xBAA4), (0x6F32, 0xBAA6)] @
   [(0x6F33, 0xBA73), (0x6F35, 0xE2A9), (0x6F36, 0xE2A1), (0x6F37, 0xE272), (0x6F38, 0xBAA5), (0x6F39, 0xE2B1),
    (0x6F3A, 0xE2B4), (0x6F3B, 0xE27B)] @
   [(0x6F3C, 0xE2A8), (0x6F3E, 0xBA79), (0x6F3F, 0xBCDF), (0x6F40, 0xE2A6), (0x6F41, 0xE5F9), (0x6F43, 0xE2AD),
    (0x6F4E, 0xE276), (0x6F4F, 0xE644)] @
   [(0x6F50, 0xE64E), (0x6F51, 0xBCE2), (0x6F52, 0xE64D), (0x6F53, 0xE659), (0x6F54, 0xBCE4), (0x6F55, 0xE64B),
    (0x6F57, 0xE64F), (0x6F58, 0xBCEF)] @
   [(0x6F5A, 0xE646), (0x6F5B, 0xBCE7), (0x6F5D, 0xE652), (0x6F5E, 0xE9F0), (0x6F5F, 0xBCF3), (0x6F60, 0xBCF2),
    (0x6F61, 0xE654), (0x6F62, 0xE643)] @
   [(0x6F63, 0xE65E), (0x6F64, 0xBCED), (0x6F66, 0xBCE3), (0x6F67, 0xE657), (0x6F69, 0xE65B), (0x6F6A, 0xE660),
    (0x6F6B, 0xE655), (0x6F6C, 0xE649)] @
   [(0x6F6D, 0xBCE6), (0x6F6E, 0xBCE9), (0x6F6F, 0xBCF1), (0x6F70, 0xBCEC), (0x6F72, 0xE64C), (0x6F73, 0xE2A2),
    (0x6F76, 0xE648), (0x6F77, 0xE65F)]"

definition rev_cp950_23 :: "(nat \<times> nat) list" where
  "rev_cp950_23 =
   [(0x6F78, 0xBCE8), (0x6F7A, 0xBCEB), (0x6F7B, 0xE661), (0x6F7C, 0xBCE0), (0x6F7D, 0xE656), (0x6F7E, 0xE5FB),
    (0x6F7F, 0xE65C), (0x6F80, 0xC0DF)] @
   [(0x6F82, 0xE64A), (0x6F84, 0xBCE1), (0x6F85, 0xE645), (0x6F86, 0xBCE5), (0x6F87, 0xE5FC), (0x6F88, 0xBAAB),
    (0x6F89, 0xE641), (0x6F8B, 0xE65A)] @
   [(0x6F8C, 0xE642), (0x6F8D, 0xE640), (0x6F8E, 0xBCEA), (0x6F90, 0xE658), (0x6F92, 0xE5FE), (0x6F93, 0xE651),
    (0x6F94, 0xE650), (0x6F95, 0xE65D)] @
   [(0x6F96, 0xE647), (0x6F97, 0xBCEE), (0x6F9E, 0xE9F3), (0x6FA0, 0xBF49), (0x6FA1, 0xBEFE), (0x6FA2, 0xEA40),
    (0x6FA3, 0xE9EB), (0x6FA4, 0xBF41)] @
   [(0x6FA5, 0xE9F7), (0x6FA6, 0xBF48), (0x6FA7, 0xBF43), (0x6FA8, 0xE9F5), (0x6FA9, 0xED4F), (0x6FAA, 0xE9FB),
    (0x6FAB, 0xEA42), (0x6FAC, 0xE9FA)] @
   [(0x6FAD, 0xE9E9), (0x6FAE, 0xE9F8), (0x6FAF, 0xEA44), (0x6FB0, 0xEA46), (0x6FB1, 0xBEFD), (0x6FB2, 0xEA45),
    (0x6FB3, 0xBF44), (0x6FB4, 0xBF4A)] @
   [(0x6FB6, 0xBF47), (0x6FB8, 0xE9FE), (0x6FB9, 0xBF46), (0x6FBA, 0xE9F9), (0x6FBC, 0xE9ED), (0x6FBD, 0xE9F2),
    (0x6FBF, 0xE9FD), (0x6FC0, 0xBF45)] @
   [(0x6FC1, 0xBF42), (0x6FC2, 0xBEFC), (0x6FC3, 0xBF40), (0x6FC4, 0xE9F1), (0x6FC6, 0xE5FD), (0x6FC7, 0xE9EC),
    (0x6FC8, 0xE9EF), (0x6FC9, 0xEA41)] @
   [(0x6FCA, 0xE9F4), (0x6FCB, 0xE9EA), (0x6FCC, 0xED4E), (0x6FCD, 0xEA43), (0x6FCE, 0xE9EE), (0x6FCF, 0xE9FC),
    (0x6FD4, 0xED51), (0x6FD5, 0xC0E3)] @
   [(0x6FD8, 0xC0D7), (0x6FDB, 0xC0DB), (0x6FDC, 0xED53), (0x6FDD, 0xED59), (0x6FDE, 0xED57), (0x6FDF, 0xC0D9),
    (0x6FE0, 0xC0DA), (0x6FE1, 0xC0E1)] @
   [(0x6FE2, 0xED5A), (0x6FE3, 0xED52), (0x6FE4, 0xC0DC), (0x6FE6, 0xED56), (0x6FE7, 0xED55), (0x6FE8, 0xED5B),
    (0x6FE9, 0xC0E2), (0x6FEB, 0xC0DD)] @
   [(0x6FEC, 0xC0E0), (0x6FED, 0xED54), (0x6FEE, 0xC0E4), (0x6FEF, 0xC0DE), (0x6FF0, 0xC0E5), (0x6FF1, 0xC0D8),
    (0x6FF2, 0xED58), (0x6FF4, 0xED50)] @
   [(0x6FF7, 0xEFF7), (0x6FFA, 0xC271), (0x6FFB, 0xEFF4), (0x6FFC, 0xEFF6), (0x6FFE, 0xC26F), (0x6FFF, 0xEFF2),
    (0x7000, 0xEFF3), (0x7001, 0xEFEE)] @
   [(0x7004, 0xE9F6), (0x7005, 0xEFEF), (0x7006, 0xC270), (0x7007, 0xEFEB), (0x7009, 0xC26D), (0x700A, 0xEFF8),
    (0x700B, 0xC26E), (0x700C, 0xEFEC)] @
   [(0x700D, 0xEFED), (0x700E, 0xEFF1), (0x700F, 0xC273), (0x7011, 0xC272), (0x7014, 0xEFF0), (0x7015, 0xC378),
    (0x7016, 0xF25F), (0x7017, 0xF265)] @
   [(0x7018, 0xC379), (0x7019, 0xF25C), (0x701A, 0xC376), (0x701B, 0xC373), (0x701C, 0xF267), (0x701D, 0xC377),
    (0x701F, 0xC374), (0x7020, 0xF25E)] @
   [(0x7021, 0xF261), (0x7022, 0xF262), (0x7023, 0xF263), (0x7024, 0xF266), (0x7026, 0xEFF5), (0x7027, 0xF25D),
    (0x7028, 0xC375), (0x7029, 0xF264)] @
   [(0x702A, 0xF268), (0x702B, 0xF260), (0x702F, 0xF45D), (0x7030, 0xC46A), (0x7031, 0xF460), (0x7032, 0xC46B),
    (0x7033, 0xF468), (0x7034, 0xF45F)] @
   [(0x7035, 0xF45C), (0x7037, 0xF45E), (0x7038, 0xF462), (0x7039, 0xF465), (0x703A, 0xF464), (0x703B, 0xF467),
    (0x703C, 0xF45B), (0x703E, 0xC469)] @
   [(0x703F, 0xF463), (0x7040, 0xF466), (0x7041, 0xF469), (0x7042, 0xF461), (0x7043, 0xF5D3), (0x7044, 0xF5D4),
    (0x7045, 0xF5D8), (0x7046, 0xF5D9)] @
   [(0x7048, 0xF5D6), (0x7049, 0xF5D7), (0x704A, 0xF5D5), (0x704C, 0xC4E9), (0x7051, 0xC578), (0x7052, 0xF6EB),
    (0x7055, 0xF6E8), (0x7056, 0xF6E9)] @
   [(0x7057, 0xF6EA), (0x7058, 0xC579), (0x705A, 0xF7E5), (0x705B, 0xF7E4), (0x705D, 0xF8AF), (0x705E, 0xC5F4),
    (0x705F, 0xF8AD), (0x7060, 0xF8B0)] @
   [(0x7061, 0xF8AE), (0x7062, 0xF8F5), (0x7063, 0xC657), (0x7064, 0xC665), (0x7065, 0xF9A3), (0x7066, 0xF96C),
    (0x7068, 0xF9A2), (0x7069, 0xF9D0)] @
   [(0x706A, 0xF9D1), (0x706B, 0xA4F5), (0x7070, 0xA6C7), (0x7071, 0xCA41), (0x7074, 0xCB5E), (0x7076, 0xA85F),
    (0x7078, 0xA862), (0x707A, 0xCB5F)] @
   [(0x707C, 0xA860), (0x707D, 0xA861), (0x7082, 0xCD58), (0x7083, 0xCD5A), (0x7084, 0xCD55), (0x7085, 0xCD52),
    (0x7086, 0xCD54), (0x708A, 0xAAA4)] @
   [(0x708E, 0xAAA2), (0x7091, 0xCD56), (0x7092, 0xAAA3), (0x7093, 0xCD53), (0x7094, 0xCD50), (0x7095, 0xAAA1),
    (0x7096, 0xCD57), (0x7098, 0xCD51)] @
   [(0x7099, 0xAAA5), (0x709A, 0xCD59), (0x709F, 0xCFAF), (0x70A1, 0xCFB3), (0x70A4, 0xACB7), (0x70A9, 0xCFB6),
    (0x70AB, 0xACAF), (0x70AC, 0xACB2)] @
   [(0x70AD, 0xACB4), (0x70AE, 0xACB6), (0x70AF, 0xACB3), (0x70B0, 0xCFB2), (0x70B1, 0xCFB1), (0x70B3, 0xACB1),
    (0x70B4, 0xCFB4), (0x70B5, 0xCFB5)] @
   [(0x70B7, 0xCFAE), (0x70B8, 0xACB5), (0x70BA, 0xACB0), (0x70BE, 0xCFB0), (0x70C5, 0xD277), (0x70C6, 0xD278),
    (0x70C7, 0xD279), (0x70C8, 0xAF50)] @
   [(0x70CA, 0xAF4C), (0x70CB, 0xD26E), (0x70CD, 0xD276), (0x70CE, 0xD27B), (0x70CF, 0xAF51), (0x70D1, 0xD26C),
    (0x70D2, 0xD272), (0x70D3, 0xD26B)] @
   [(0x70D4, 0xD275), (0x70D7, 0xD271), (0x70D8, 0xAF4D), (0x70D9, 0xAF4F), (0x70DA, 0xD27A), (0x70DC, 0xD26A),
    (0x70DD, 0xD26D), (0x70DE, 0xD273)] @
   [(0x70E0, 0xD274), (0x70E1, 0xD27C), (0x70E2, 0xD270), (0x70E4, 0xAF4E), (0x70EF, 0xB26D), (0x70F0, 0xD64E),
    (0x70F3, 0xD650), (0x70F4, 0xD64C)]"

definition rev_cp950_24 :: "(nat \<times> nat) list" where
  "rev_cp950_24 =
   [(0x70F6, 0xD658), (0x70F7, 0xD64A), (0x70F8, 0xD657), (0x70F9, 0xB269), (0x70FA, 0xD648), (0x70FB, 0xDA5B),
    (0x70FC, 0xD652), (0x70FD, 0xB26C)] @
   [(0x70FF, 0xD653), (0x7100, 0xD656), (0x7102, 0xD65A), (0x7104, 0xD64F), (0x7106, 0xD654), (0x7109, 0xB26A),
    (0x710A, 0xB26B), (0x710B, 0xD659)] @
   [(0x710C, 0xD64D), (0x710D, 0xD649), (0x710E, 0xD65B), (0x7110, 0xD651), (0x7113, 0xD655), (0x7117, 0xD64B),
    (0x7119, 0xB548), (0x711A, 0xB549)] @
   [(0x711B, 0xDA65), (0x711C, 0xB54F), (0x711E, 0xDA59), (0x711F, 0xDA62), (0x7120, 0xDA58), (0x7121, 0xB54C),
    (0x7122, 0xDA60), (0x7123, 0xDA5E)] @
   [(0x7125, 0xDA5F), (0x7126, 0xB54A), (0x7128, 0xDA63), (0x712E, 0xDA5C), (0x712F, 0xDA5A), (0x7130, 0xB54B),
    (0x7131, 0xDA5D), (0x7132, 0xDA61)] @
   [(0x7136, 0xB54D), (0x713A, 0xDA64), (0x7141, 0xDE70), (0x7142, 0xDE77), (0x7143, 0xDE79), (0x7144, 0xDEA1),
    (0x7146, 0xB7DA), (0x7147, 0xDE6B)] @
   [(0x7149, 0xB7D2), (0x714B, 0xDE7A), (0x714C, 0xB7D7), (0x714D, 0xDEA2), (0x714E, 0xB7CE), (0x7150, 0xDE7D),
    (0x7152, 0xDE6D), (0x7153, 0xDE7E)] @
   [(0x7154, 0xDE6C), (0x7156, 0xB7DC), (0x7158, 0xDE78), (0x7159, 0xB7CF), (0x715A, 0xDEA3), (0x715C, 0xB7D4),
    (0x715D, 0xDE71), (0x715E, 0xB7D9)] @
   [(0x715F, 0xDE7C), (0x7160, 0xDE6F), (0x7161, 0xDE76), (0x7162, 0xDE72), (0x7163, 0xDE6E), (0x7164, 0xB7D1),
    (0x7165, 0xB7D8), (0x7166, 0xB7D6)] @
   [(0x7167, 0xB7D3), (0x7168, 0xB7DB), (0x7169, 0xB7D0), (0x716A, 0xDE75), (0x716C, 0xB7D5), (0x716E, 0xB54E),
    (0x7170, 0xDE7B), (0x7172, 0xDE73)] @
   [(0x7178, 0xDE74), (0x717B, 0xE2C1), (0x717D, 0xBAB4), (0x7180, 0xE2BD), (0x7181, 0xE2C3), (0x7182, 0xE2BF),
    (0x7184, 0xBAB6), (0x7185, 0xE2BE)] @
   [(0x7186, 0xE2C2), (0x7187, 0xE2BA), (0x7189, 0xE2BC), (0x718A, 0xBAB5), (0x718F, 0xE2C0), (0x7190, 0xE2BB),
    (0x7192, 0xBAB7), (0x7194, 0xBAB2)] @
   [(0x7197, 0xE2C4), (0x7199, 0xBAB3), (0x719A, 0xE667), (0x719B, 0xE664), (0x719C, 0xE670), (0x719D, 0xE66A),
    (0x719E, 0xE66C), (0x719F, 0xBCF4)] @
   [(0x71A0, 0xE666), (0x71A1, 0xE66E), (0x71A4, 0xE66D), (0x71A5, 0xE66B), (0x71A7, 0xE671), (0x71A8, 0xBCF7),
    (0x71A9, 0xE668), (0x71AA, 0xE66F)] @
   [(0x71AC, 0xBCF5), (0x71AF, 0xE663), (0x71B0, 0xE665), (0x71B1, 0xBCF6), (0x71B2, 0xE662), (0x71B3, 0xE672),
    (0x71B5, 0xE669), (0x71B8, 0xEA4A)] @
   [(0x71B9, 0xBF51), (0x71BC, 0xEA55), (0x71BD, 0xEA53), (0x71BE, 0xBF4B), (0x71BF, 0xEA49), (0x71C0, 0xEA4C),
    (0x71C1, 0xEA4D), (0x71C2, 0xEA48)] @
   [(0x71C3, 0xBF55), (0x71C4, 0xBF56), (0x71C5, 0xEA47), (0x71C6, 0xEA56), (0x71C7, 0xEA51), (0x71C8, 0xBF4F),
    (0x71C9, 0xBF4C), (0x71CA, 0xEA50)] @
   [(0x71CB, 0xEA4E), (0x71CE, 0xBF52), (0x71CF, 0xEA52), (0x71D0, 0xBF4D), (0x71D2, 0xBF4E), (0x71D4, 0xEA4F),
    (0x71D5, 0xBF50), (0x71D6, 0xEA4B)] @
   [(0x71D8, 0xEA54), (0x71D9, 0xBF53), (0x71DA, 0xEA57), (0x71DB, 0xEA58), (0x71DC, 0xBF54), (0x71DF, 0xC0E7),
    (0x71E0, 0xC0EE), (0x71E1, 0xED5C)] @
   [(0x71E2, 0xED62), (0x71E4, 0xED60), (0x71E5, 0xC0EA), (0x71E6, 0xC0E9), (0x71E7, 0xC0E6), (0x71E8, 0xED5E),
    (0x71EC, 0xC0EC), (0x71ED, 0xC0EB)] @
   [(0x71EE, 0xC0E8), (0x71F0, 0xED61), (0x71F1, 0xED5D), (0x71F2, 0xED5F), (0x71F4, 0xC0ED), (0x71F8, 0xC277),
    (0x71F9, 0xEFFB), (0x71FB, 0xC274)] @
   [(0x71FC, 0xC275), (0x71FD, 0xEFFD), (0x71FE, 0xC276), (0x71FF, 0xEFFA), (0x7201, 0xEFF9), (0x7202, 0xF26C),
    (0x7203, 0xEFFC), (0x7205, 0xF26D)] @
   [(0x7206, 0xC37A), (0x7207, 0xF26B), (0x720A, 0xF26A), (0x720C, 0xF269), (0x720D, 0xC37B), (0x7210, 0xC46C),
    (0x7213, 0xF46A), (0x7214, 0xF46B)] @
   [(0x7219, 0xF5DC), (0x721A, 0xF5DB), (0x721B, 0xC4EA), (0x721D, 0xF5DA), (0x721E, 0xF6EC), (0x721F, 0xF6ED),
    (0x7222, 0xF7E6), (0x7223, 0xF8B1)] @
   [(0x7226, 0xF8F6), (0x7227, 0xF9BC), (0x7228, 0xC679), (0x7229, 0xF9C6), (0x722A, 0xA4F6), (0x722C, 0xAAA6),
    (0x722D, 0xAAA7), (0x7230, 0xACB8)] @
   [(0x7235, 0xC0EF), (0x7236, 0xA4F7), (0x7238, 0xAAA8), (0x7239, 0xAF52), (0x723A, 0xB7DD), (0x723B, 0xA4F8),
    (0x723D, 0xB26E), (0x723E, 0xBAB8)] @
   [(0x723F, 0xC962), (0x7241, 0xCFB7), (0x7242, 0xD27D), (0x7244, 0xE2C5), (0x7246, 0xC0F0), (0x7247, 0xA4F9),
    (0x7248, 0xAAA9), (0x7249, 0xCFB8)] @
   [(0x724A, 0xCFB9), (0x724B, 0xDA66), (0x724C, 0xB550), (0x724F, 0xDEA4), (0x7252, 0xB7DE), (0x7253, 0xE2C6),
    (0x7256, 0xBCF8), (0x7258, 0xC37C)] @
   [(0x7259, 0xA4FA), (0x725A, 0xDA67), (0x725B, 0xA4FB), (0x725D, 0xA6C9), (0x725E, 0xCA42), (0x725F, 0xA6C8),
    (0x7260, 0xA865), (0x7261, 0xA864)] @
   [(0x7262, 0xA863), (0x7263, 0xCB60), (0x7267, 0xAAAA), (0x7269, 0xAAAB), (0x726A, 0xCD5B), (0x726C, 0xCFBA),
    (0x726E, 0xCFBD), (0x726F, 0xACBA)] @
   [(0x7270, 0xCFBB), (0x7272, 0xACB9), (0x7273, 0xCFBC), (0x7274, 0xACBB), (0x7276, 0xD2A2), (0x7277, 0xD2A1),
    (0x7278, 0xD27E), (0x7279, 0xAF53)] @
   [(0x727B, 0xD65D), (0x727C, 0xD65E), (0x727D, 0xB26F), (0x727E, 0xD65C), (0x727F, 0xD65F), (0x7280, 0xB552),
    (0x7281, 0xB270), (0x7284, 0xB551)]"

definition rev_cp950_25 :: "(nat \<times> nat) list" where
  "rev_cp950_25 =
   [(0x7285, 0xDA6B), (0x7286, 0xDA6A), (0x7288, 0xDA68), (0x7289, 0xDA69), (0x728B, 0xDA6C), (0x728C, 0xDEA6),
    (0x728D, 0xDEA5), (0x728E, 0xDEA9)] @
   [(0x7290, 0xDEA8), (0x7291, 0xDEA7), (0x7292, 0xBAB9), (0x7293, 0xE2C9), (0x7295, 0xE2C8), (0x7296, 0xBABA),
    (0x7297, 0xE2C7), (0x7298, 0xE673)] @
   [(0x729A, 0xE674), (0x729B, 0xBCF9), (0x729D, 0xEA59), (0x729E, 0xEA5A), (0x72A1, 0xF272), (0x72A2, 0xC37D),
    (0x72A3, 0xF271), (0x72A4, 0xF270)] @
   [(0x72A5, 0xF26E), (0x72A6, 0xF26F), (0x72A7, 0xC4EB), (0x72A8, 0xF46C), (0x72A9, 0xF6EE), (0x72AA, 0xF8F7),
    (0x72AC, 0xA4FC), (0x72AE, 0xC9A5)] @
   [(0x72AF, 0xA5C7), (0x72B0, 0xC9A6), (0x72B4, 0xCA43), (0x72B5, 0xCA44), (0x72BA, 0xCB66), (0x72BD, 0xCB62),
    (0x72BF, 0xCB61), (0x72C0, 0xAAAC)] @
   [(0x72C1, 0xCB65), (0x72C2, 0xA867), (0x72C3, 0xCB63), (0x72C4, 0xA866), (0x72C5, 0xCB67), (0x72C6, 0xCB64),
    (0x72C9, 0xCD5F), (0x72CA, 0xCFBE)] @
   [(0x72CB, 0xCD5D), (0x72CC, 0xCD64), (0x72CE, 0xAAAD), (0x72D0, 0xAAB0), (0x72D1, 0xCD65), (0x72D2, 0xCD61),
    (0x72D4, 0xCD62), (0x72D6, 0xCD5C)] @
   [(0x72D7, 0xAAAF), (0x72D8, 0xCD5E), (0x72D9, 0xAAAE), (0x72DA, 0xCD63), (0x72DC, 0xCD60), (0x72DF, 0xCFC2),
    (0x72E0, 0xACBD), (0x72E1, 0xACBE)] @
   [(0x72E3, 0xCFC5), (0x72E4, 0xCFBF), (0x72E6, 0xCFC4), (0x72E8, 0xCFC0), (0x72E9, 0xACBC), (0x72EA, 0xCFC3),
    (0x72EB, 0xCFC1), (0x72F3, 0xD2A8)] @
   [(0x72F4, 0xD2A5), (0x72F6, 0xD2A7), (0x72F7, 0xAF58), (0x72F8, 0xAF57), (0x72F9, 0xAF55), (0x72FA, 0xD2A4),
    (0x72FB, 0xD2A9), (0x72FC, 0xAF54)] @
   [(0x72FD, 0xAF56), (0x72FE, 0xD2A6), (0x72FF, 0xD667), (0x7300, 0xD2A3), (0x7301, 0xD2AA), (0x7307, 0xD662),
    (0x7308, 0xD666), (0x730A, 0xD665)] @
   [(0x730B, 0xDA6E), (0x730C, 0xDA79), (0x730F, 0xD668), (0x7311, 0xD663), (0x7312, 0xDA6D), (0x7313, 0xB274),
    (0x7316, 0xB273), (0x7317, 0xD661)] @
   [(0x7318, 0xD664), (0x7319, 0xB275), (0x731B, 0xB272), (0x731C, 0xB271), (0x731D, 0xD660), (0x731E, 0xD669),
    (0x7322, 0xDA70), (0x7323, 0xDA77)] @
   [(0x7325, 0xB554), (0x7326, 0xDA76), (0x7327, 0xDA73), (0x7329, 0xB556), (0x732D, 0xDA75), (0x7330, 0xDA6F),
    (0x7331, 0xDA71), (0x7332, 0xDA74)] @
   [(0x7333, 0xDA72), (0x7334, 0xB555), (0x7335, 0xDA78), (0x7336, 0xB553), (0x7337, 0xB7DF), (0x733A, 0xDEAD),
    (0x733B, 0xDEAC), (0x733C, 0xDEAA)] @
   [(0x733E, 0xB7E2), (0x733F, 0xB7E1), (0x7340, 0xDEAE), (0x7342, 0xDEAB), (0x7343, 0xE2CA), (0x7344, 0xBABB),
    (0x7345, 0xB7E0), (0x7349, 0xDEB0)] @
   [(0x734A, 0xDEAF), (0x734C, 0xE2CD), (0x734D, 0xE2CB), (0x734E, 0xBCFA), (0x7350, 0xBABC), (0x7351, 0xE2CC),
    (0x7352, 0xE676), (0x7357, 0xBCFB)] @
   [(0x7358, 0xE675), (0x7359, 0xE67E), (0x735A, 0xE67D), (0x735B, 0xE67B), (0x735D, 0xE67A), (0x735E, 0xE677),
    (0x735F, 0xE678), (0x7360, 0xE679)] @
   [(0x7361, 0xE67C), (0x7362, 0xE6A1), (0x7365, 0xEA5F), (0x7366, 0xEA5C), (0x7367, 0xEA5D), (0x7368, 0xBF57),
    (0x7369, 0xEA5B), (0x736A, 0xEA61)] @
   [(0x736B, 0xEA60), (0x736C, 0xEA5E), (0x736E, 0xED64), (0x736F, 0xED65), (0x7370, 0xC0F1), (0x7372, 0xC0F2),
    (0x7373, 0xED63), (0x7375, 0xC279)] @
   [(0x7376, 0xEFFE), (0x7377, 0xC278), (0x7378, 0xC37E), (0x737A, 0xC3A1), (0x737B, 0xC46D), (0x737C, 0xF46E),
    (0x737D, 0xF46D), (0x737E, 0xF5DD)] @
   [(0x737F, 0xF6EF), (0x7380, 0xC57A), (0x7381, 0xF7E8), (0x7382, 0xF7E7), (0x7383, 0xF7E9), (0x7384, 0xA5C8),
    (0x7385, 0xCFC6), (0x7386, 0xAF59)] @
   [(0x7387, 0xB276), (0x7388, 0xD66A), (0x7389, 0xA5C9), (0x738A, 0xC9A7), (0x738B, 0xA4FD), (0x738E, 0xCA45),
    (0x7392, 0xCB6C), (0x7393, 0xCB6A)] @
   [(0x7394, 0xCB6B), (0x7395, 0xCB68), (0x7396, 0xA868), (0x7397, 0xCB69), (0x739D, 0xCD6D), (0x739F, 0xAAB3),
    (0x73A0, 0xCD6B), (0x73A1, 0xCD67)] @
   [(0x73A2, 0xCD6A), (0x73A4, 0xCD66), (0x73A5, 0xAAB5), (0x73A6, 0xCD69), (0x73A8, 0xAAB2), (0x73A9, 0xAAB1),
    (0x73AB, 0xAAB4), (0x73AC, 0xCD6C)] @
   [(0x73AD, 0xCD68), (0x73B2, 0xACC2), (0x73B3, 0xACC5), (0x73B4, 0xCFCE), (0x73B5, 0xCFCD), (0x73B6, 0xCFCC),
    (0x73B7, 0xACBF), (0x73B8, 0xCFD5)] @
   [(0x73B9, 0xCFCB), (0x73BB, 0xACC1), (0x73BC, 0xD2AF), (0x73BE, 0xCFD2), (0x73BF, 0xCFD0), (0x73C0, 0xACC4),
    (0x73C2, 0xCFC8), (0x73C3, 0xCFD3)] @
   [(0x73C5, 0xCFCA), (0x73C6, 0xCFD4), (0x73C7, 0xCFD1), (0x73C8, 0xCFC9), (0x73CA, 0xACC0), (0x73CB, 0xCFD6),
    (0x73CC, 0xCFC7), (0x73CD, 0xACC3)] @
   [(0x73D2, 0xD2B4), (0x73D3, 0xD2AB), (0x73D4, 0xD2B6), (0x73D6, 0xD2AE), (0x73D7, 0xD2B9), (0x73D8, 0xD2BA),
    (0x73D9, 0xD2AC), (0x73DA, 0xD2B8)] @
   [(0x73DB, 0xD2B5), (0x73DC, 0xD2B3), (0x73DD, 0xD2B7), (0x73DE, 0xAF5F), (0x73E0, 0xAF5D), (0x73E3, 0xD2B1),
    (0x73E5, 0xD2AD), (0x73E7, 0xD2B0)] @
   [(0x73E8, 0xD2BB), (0x73E9, 0xD2B2), (0x73EA, 0xAF5E), (0x73EB, 0xCFCF), (0x73ED, 0xAF5A), (0x73EE, 0xAF5C),
    (0x73F4, 0xD678), (0x73F5, 0xD66D)] @
   [(0x73F6, 0xD66B), (0x73F8, 0xD66C), (0x73FA, 0xD673), (0x73FC, 0xD674), (0x73FD, 0xD670), (0x73FE, 0xB27B),
    (0x73FF, 0xD675), (0x7400, 0xD672)]"

definition rev_cp950_26 :: "(nat \<times> nat) list" where
  "rev_cp950_26 =
   [(0x7401, 0xD66F), (0x7403, 0xB279), (0x7404, 0xD66E), (0x7405, 0xB277), (0x7406, 0xB27A), (0x7407, 0xD671),
    (0x7408, 0xD679), (0x7409, 0xAF5B)] @
   [(0x740A, 0xB278), (0x740B, 0xD677), (0x740C, 0xD676), (0x740D, 0xB27C), (0x7416, 0xDA7E), (0x741A, 0xDAA1),
    (0x741B, 0xB560), (0x741D, 0xDAA7)] @
   [(0x7420, 0xDAA9), (0x7421, 0xDAA2), (0x7422, 0xB55A), (0x7423, 0xDAA6), (0x7424, 0xDAA5), (0x7425, 0xB55B),
    (0x7426, 0xB561), (0x7428, 0xB562)] @
   [(0x7429, 0xDAA8), (0x742A, 0xB558), (0x742B, 0xDA7D), (0x742C, 0xDA7B), (0x742D, 0xDAA3), (0x742E, 0xDA7A),
    (0x742F, 0xB55F), (0x7430, 0xDA7C)] @
   [(0x7431, 0xDAA4), (0x7432, 0xDAAA), (0x7433, 0xB559), (0x7434, 0xB55E), (0x7435, 0xB55C), (0x7436, 0xB55D),
    (0x743A, 0xB557), (0x743F, 0xB7E9)] @
   [(0x7440, 0xDEB7), (0x7441, 0xB7E8), (0x7442, 0xDEBB), (0x7444, 0xDEB1), (0x7446, 0xDEBC), (0x744A, 0xDEB2),
    (0x744B, 0xDEB3), (0x744D, 0xDEBD)] @
   [(0x744E, 0xDEBA), (0x744F, 0xDEB8), (0x7450, 0xDEB9), (0x7451, 0xDEB5), (0x7452, 0xDEB4), (0x7454, 0xDEBE),
    (0x7455, 0xB7E5), (0x7457, 0xDEB6)] @
   [(0x7459, 0xB7EA), (0x745A, 0xB7E4), (0x745B, 0xB7EB), (0x745C, 0xB7EC), (0x745E, 0xB7E7), (0x745F, 0xB7E6),
    (0x7462, 0xE2CE), (0x7463, 0xBABE)] @
   [(0x7464, 0xBABD), (0x7467, 0xE2D3), (0x7469, 0xBCFC), (0x746A, 0xBABF), (0x746D, 0xBAC1), (0x746E, 0xE2D4),
    (0x746F, 0xB7E3), (0x7470, 0xBAC0)] @
   [(0x7471, 0xE2D0), (0x7472, 0xE2D2), (0x7473, 0xE2CF), (0x7475, 0xE2D1), (0x7479, 0xE6AB), (0x747C, 0xE6AA),
    (0x747D, 0xE6A7), (0x747E, 0xBD40)] @
   [(0x747F, 0xEA62), (0x7480, 0xBD41), (0x7481, 0xE6A6), (0x7483, 0xBCFE), (0x7485, 0xE6A8), (0x7486, 0xE6A5),
    (0x7487, 0xE6A2), (0x7488, 0xE6A9)] @
   [(0x7489, 0xE6A3), (0x748A, 0xE6A4), (0x748B, 0xBCFD), (0x7490, 0xED69), (0x7492, 0xEA66), (0x7494, 0xEA65),
    (0x7495, 0xEA67), (0x7497, 0xED66)] @
   [(0x7498, 0xBF5A), (0x749A, 0xEA63), (0x749C, 0xBF58), (0x749E, 0xBF5C), (0x749F, 0xBF5B), (0x74A0, 0xEA64),
    (0x74A1, 0xEA68), (0x74A3, 0xBF59)] @
   [(0x74A5, 0xED6D), (0x74A6, 0xC0F5), (0x74A7, 0xC27A), (0x74A8, 0xC0F6), (0x74A9, 0xC0F3), (0x74AA, 0xED6A),
    (0x74AB, 0xED68), (0x74AD, 0xED6B)] @
   [(0x74AF, 0xED6E), (0x74B0, 0xC0F4), (0x74B1, 0xED6C), (0x74B2, 0xED67), (0x74B5, 0xF042), (0x74B6, 0xF045),
    (0x74B7, 0xF275), (0x74B8, 0xF040)] @
   [(0x74BA, 0xF46F), (0x74BB, 0xF046), (0x74BD, 0xC3A2), (0x74BE, 0xF044), (0x74BF, 0xC27B), (0x74C0, 0xF041),
    (0x74C1, 0xF043), (0x74C2, 0xF047)] @
   [(0x74C3, 0xF276), (0x74C5, 0xF274), (0x74CA, 0xC3A3), (0x74CB, 0xF273), (0x74CF, 0xC46E), (0x74D4, 0xC4ED),
    (0x74D5, 0xF6F1), (0x74D6, 0xC4EC)] @
   [(0x74D7, 0xF6F3), (0x74D8, 0xF6F0), (0x74D9, 0xF6F2), (0x74DA, 0xC5D0), (0x74DB, 0xF8B2), (0x74DC, 0xA5CA),
    (0x74DD, 0xCD6E), (0x74DE, 0xD2BC)] @
   [(0x74DF, 0xD2BD), (0x74E0, 0xB27D), (0x74E1, 0xDEBF), (0x74E2, 0xBF5D), (0x74E3, 0xC3A4), (0x74E4, 0xC57B),
    (0x74E5, 0xF8B3), (0x74E6, 0xA5CB)] @
   [(0x74E8, 0xCD6F), (0x74E9, 0xA260), (0x74EC, 0xCFD7), (0x74EE, 0xCFD8), (0x74F4, 0xD2BE), (0x74F5, 0xD2BF),
    (0x74F6, 0xB27E), (0x74F7, 0xB2A1)] @
   [(0x74FB, 0xDAAB), (0x74FD, 0xDEC2), (0x74FE, 0xDEC1), (0x74FF, 0xDEC0), (0x7500, 0xE2D5), (0x7502, 0xE2D6),
    (0x7503, 0xE2D7), (0x7504, 0xBAC2)] @
   [(0x7507, 0xE6AD), (0x7508, 0xE6AC), (0x750B, 0xEA69), (0x750C, 0xBF5E), (0x750D, 0xBF5F), (0x750F, 0xED72),
    (0x7510, 0xED6F), (0x7511, 0xED70)] @
   [(0x7512, 0xED71), (0x7513, 0xF049), (0x7514, 0xF048), (0x7515, 0xC27C), (0x7516, 0xF277), (0x7517, 0xF5DE),
    (0x7518, 0xA5CC), (0x751A, 0xACC6)] @
   [(0x751C, 0xB2A2), (0x751D, 0xDEC3), (0x751F, 0xA5CD), (0x7521, 0xD2C0), (0x7522, 0xB2A3), (0x7525, 0xB563),
    (0x7526, 0xB564), (0x7528, 0xA5CE)] @
   [(0x7529, 0xA5CF), (0x752A, 0xCA46), (0x752B, 0xA86A), (0x752C, 0xA869), (0x752D, 0xACC7), (0x752E, 0xCFD9),
    (0x752F, 0xDAAC), (0x7530, 0xA5D0)] @
   [(0x7531, 0xA5D1), (0x7532, 0xA5D2), (0x7533, 0xA5D3), (0x7537, 0xA86B), (0x7538, 0xA86C), (0x7539, 0xCB6E),
    (0x753A, 0xCB6D), (0x753D, 0xAAB6)] @
   [(0x753E, 0xCD72), (0x753F, 0xCD70), (0x7540, 0xCD71), (0x7547, 0xCFDA), (0x7548, 0xCFDB), (0x754B, 0xACCB),
    (0x754C, 0xACC9), (0x754E, 0xACCA)] @
   [(0x754F, 0xACC8), (0x7554, 0xAF60), (0x7559, 0xAF64), (0x755A, 0xAF63), (0x755B, 0xD2C1), (0x755C, 0xAF62),
    (0x755D, 0xAF61), (0x755F, 0xD2C2)] @
   [(0x7562, 0xB2A6), (0x7563, 0xD67B), (0x7564, 0xD67A), (0x7565, 0xB2A4), (0x7566, 0xB2A5), (0x756A, 0xB566),
    (0x756B, 0xB565), (0x756C, 0xDAAE)] @
   [(0x756F, 0xDAAD), (0x7570, 0xB2A7), (0x7576, 0xB7ED), (0x7577, 0xDEC5), (0x7578, 0xB7EE), (0x7579, 0xDEC4),
    (0x757D, 0xE2D8), (0x757E, 0xE6AE)] @
   [(0x757F, 0xBD42), (0x7580, 0xEA6A), (0x7584, 0xED73), (0x7586, 0xC3A6), (0x7587, 0xC3A5), (0x758A, 0xC57C),
    (0x758B, 0xA5D4), (0x758C, 0xCD73)] @
   [(0x758F, 0xB2A8), (0x7590, 0xE2D9), (0x7591, 0xBAC3), (0x7594, 0xCB6F), (0x7595, 0xCB70), (0x7598, 0xCD74),
    (0x7599, 0xAAB8), (0x759A, 0xAAB9)]"

end
