(* ===== verification/Cp950RevB.thy ===== *)
theory Cp950RevB
  imports DbPage
begin

text \<open>
  Page 950 of \<^verbatim>\<open>src/src/charset_tables_data.c\<close>: parts 27 to 53 of the reverse table, entry by
  entry, in parts of 256 entries.
\<close>

definition rev_cp950_27 :: "(nat \<times> nat) list" where
  "rev_cp950_27 =
   [(0x759D, 0xAAB7), (0x75A2, 0xACCF), (0x75A3, 0xACD0), (0x75A4, 0xACCD), (0x75A5, 0xACCE), (0x75A7, 0xCFDC),
    (0x75AA, 0xCFDD), (0x75AB, 0xACCC)] @
   [(0x75B0, 0xD2C3), (0x75B2, 0xAF68), (0x75B3, 0xAF69), (0x75B5, 0xB2AB), (0x75B6, 0xD2C9), (0x75B8, 0xAF6E),
    (0x75B9, 0xAF6C), (0x75BA, 0xD2CA)] @
   [(0x75BB, 0xD2C5), (0x75BC, 0xAF6B), (0x75BD, 0xAF6A), (0x75BE, 0xAF65), (0x75BF, 0xD2C8), (0x75C0, 0xD2C7),
    (0x75C1, 0xD2C4), (0x75C2, 0xAF6D)] @
   [(0x75C4, 0xD2C6), (0x75C5, 0xAF66), (0x75C7, 0xAF67), (0x75CA, 0xB2AC), (0x75CB, 0xD6A1), (0x75CC, 0xD6A2),
    (0x75CD, 0xB2AD), (0x75CE, 0xD67C)] @
   [(0x75CF, 0xD67E), (0x75D0, 0xD6A4), (0x75D1, 0xD6A3), (0x75D2, 0xD67D), (0x75D4, 0xB2A9), (0x75D5, 0xB2AA),
    (0x75D7, 0xDAB6), (0x75D8, 0xB56B)] @
   [(0x75D9, 0xB56A), (0x75DA, 0xDAB0), (0x75DB, 0xB568), (0x75DD, 0xDAB3), (0x75DE, 0xB56C), (0x75DF, 0xDAB4),
    (0x75E0, 0xB56D), (0x75E1, 0xDAB1)] @
   [(0x75E2, 0xB567), (0x75E3, 0xB569), (0x75E4, 0xDAB5), (0x75E6, 0xDAB2), (0x75E7, 0xDAAF), (0x75ED, 0xDED2),
    (0x75EF, 0xDEC7), (0x75F0, 0xB7F0)] @
   [(0x75F1, 0xB7F3), (0x75F2, 0xB7F2), (0x75F3, 0xB7F7), (0x75F4, 0xB7F6), (0x75F5, 0xDED3), (0x75F6, 0xDED1),
    (0x75F7, 0xDECA), (0x75F8, 0xDECE)] @
   [(0x75F9, 0xDECD), (0x75FA, 0xB7F4), (0x75FB, 0xDED0), (0x75FC, 0xDECC), (0x75FD, 0xDED4), (0x75FE, 0xDECB),
    (0x75FF, 0xB7F5), (0x7600, 0xB7EF)] @
   [(0x7601, 0xB7F1), (0x7603, 0xDEC9), (0x7608, 0xE2DB), (0x7609, 0xBAC7), (0x760A, 0xE2DF), (0x760B, 0xBAC6),
    (0x760C, 0xE2DC), (0x760D, 0xBAC5)] @
   [(0x760F, 0xDEC8), (0x7610, 0xDECF), (0x7611, 0xE2DE), (0x7613, 0xBAC8), (0x7614, 0xE2E0), (0x7615, 0xE2DD),
    (0x7616, 0xE2DA), (0x7619, 0xE6B1)] @
   [(0x761A, 0xE6B5), (0x761B, 0xE6B7), (0x761C, 0xE6B3), (0x761D, 0xE6B2), (0x761E, 0xE6B0), (0x761F, 0xBD45),
    (0x7620, 0xBD43), (0x7621, 0xBD48)] @
   [(0x7622, 0xBD49), (0x7623, 0xE6B4), (0x7624, 0xBD46), (0x7625, 0xE6AF), (0x7626, 0xBD47), (0x7627, 0xBAC4),
    (0x7628, 0xE6B6), (0x7629, 0xBD44)] @
   [(0x762D, 0xEA6C), (0x762F, 0xEA6B), (0x7630, 0xEA73), (0x7631, 0xEA6D), (0x7632, 0xEA72), (0x7633, 0xEA6F),
    (0x7634, 0xBF60), (0x7635, 0xEA71)] @
   [(0x7638, 0xBF61), (0x763A, 0xBF62), (0x763C, 0xEA70), (0x763D, 0xEA6E), (0x7642, 0xC0F8), (0x7643, 0xED74),
    (0x7646, 0xC0F7), (0x7647, 0xED77)] @
   [(0x7648, 0xED75), (0x7649, 0xED76), (0x764C, 0xC0F9), (0x7650, 0xF04D), (0x7652, 0xC2A1), (0x7653, 0xF04E),
    (0x7656, 0xC27D), (0x7657, 0xF04F)] @
   [(0x7658, 0xC27E), (0x7659, 0xF04C), (0x765A, 0xF050), (0x765C, 0xF04A), (0x765F, 0xC3A7), (0x7660, 0xF278),
    (0x7661, 0xC3A8), (0x7662, 0xC46F)] @
   [(0x7664, 0xF04B), (0x7665, 0xC470), (0x7669, 0xC4EE), (0x766A, 0xF5DF), (0x766C, 0xC57E), (0x766D, 0xF6F4),
    (0x766E, 0xC57D), (0x7670, 0xF7EA)] @
   [(0x7671, 0xC5F5), (0x7672, 0xC5F6), (0x7675, 0xF9CC), (0x7678, 0xACD1), (0x7679, 0xCFDE), (0x767B, 0xB56E),
    (0x767C, 0xB56F), (0x767D, 0xA5D5)] @
   [(0x767E, 0xA6CA), (0x767F, 0xCA47), (0x7681, 0xCB71), (0x7682, 0xA86D), (0x7684, 0xAABA), (0x7686, 0xACD2),
    (0x7687, 0xACD3), (0x7688, 0xACD4)] @
   [(0x7689, 0xD6A6), (0x768A, 0xD2CB), (0x768B, 0xAF6F), (0x768E, 0xB2AE), (0x768F, 0xD6A5), (0x7692, 0xDAB8),
    (0x7693, 0xB571), (0x7695, 0xDAB7)] @
   [(0x7696, 0xB570), (0x7699, 0xDED5), (0x769A, 0xBD4A), (0x769B, 0xE6BB), (0x769C, 0xE6B8), (0x769D, 0xE6B9),
    (0x769E, 0xE6BA), (0x76A4, 0xED78)] @
   [(0x76A6, 0xF051), (0x76AA, 0xF471), (0x76AB, 0xF470), (0x76AD, 0xF6F5), (0x76AE, 0xA5D6), (0x76AF, 0xCD75),
    (0x76B0, 0xAF70), (0x76B4, 0xB572)] @
   [(0x76B5, 0xDED6), (0x76B8, 0xE2E1), (0x76BA, 0xBD4B), (0x76BB, 0xEA74), (0x76BD, 0xF052), (0x76BE, 0xF472),
    (0x76BF, 0xA5D7), (0x76C2, 0xAABB)] @
   [(0x76C3, 0xACD7), (0x76C4, 0xCFDF), (0x76C5, 0xACD8), (0x76C6, 0xACD6), (0x76C8, 0xACD5), (0x76C9, 0xD2CC),
    (0x76CA, 0xAF71), (0x76CD, 0xAF72)] @
   [(0x76CE, 0xAF73), (0x76D2, 0xB2B0), (0x76D3, 0xD6A7), (0x76D4, 0xB2AF), (0x76DA, 0xDAB9), (0x76DB, 0xB2B1),
    (0x76DC, 0xB573), (0x76DD, 0xDED7)] @
   [(0x76DE, 0xB7F8), (0x76DF, 0xB7F9), (0x76E1, 0xBAC9), (0x76E3, 0xBACA), (0x76E4, 0xBD4C), (0x76E5, 0xBF64),
    (0x76E6, 0xEA75), (0x76E7, 0xBF63)] @
   [(0x76E9, 0xED79), (0x76EA, 0xC0FA), (0x76EC, 0xF053), (0x76ED, 0xF473), (0x76EE, 0xA5D8), (0x76EF, 0xA86E),
    (0x76F0, 0xCD78), (0x76F1, 0xCD77)] @
   [(0x76F2, 0xAABC), (0x76F3, 0xCD76), (0x76F4, 0xAABD), (0x76F5, 0xCD79), (0x76F7, 0xCFE5), (0x76F8, 0xACDB),
    (0x76F9, 0xACDA), (0x76FA, 0xCFE7)] @
   [(0x76FB, 0xCFE6), (0x76FC, 0xACDF), (0x76FE, 0xACDE), (0x7701, 0xACD9), (0x7703, 0xCFE1), (0x7704, 0xCFE2),
    (0x7705, 0xCFE3), (0x7707, 0xACE0)] @
   [(0x7708, 0xCFE0), (0x7709, 0xACDC), (0x770A, 0xCFE4), (0x770B, 0xACDD), (0x7710, 0xD2CF), (0x7711, 0xD2D3),
    (0x7712, 0xD2D1), (0x7713, 0xD2D0)] @
   [(0x7715, 0xD2D4), (0x7719, 0xD2D5), (0x771A, 0xD2D6), (0x771B, 0xD2CE), (0x771D, 0xD2CD), (0x771F, 0xAF75),
    (0x7720, 0xAF76), (0x7722, 0xD2D7)]"

definition rev_cp950_28 :: "(nat \<times> nat) list" where
  "rev_cp950_28 =
   [(0x7723, 0xD2D2), (0x7725, 0xD6B0), (0x7727, 0xD2D8), (0x7728, 0xAF77), (0x7729, 0xAF74), (0x772D, 0xD6AA),
    (0x772F, 0xD6A9), (0x7731, 0xD6AB)] @
   [(0x7732, 0xD6AC), (0x7733, 0xD6AE), (0x7734, 0xD6AD), (0x7735, 0xD6B2), (0x7736, 0xB2B5), (0x7737, 0xB2B2),
    (0x7738, 0xB2B6), (0x7739, 0xD6A8)] @
   [(0x773A, 0xB2B7), (0x773B, 0xD6B1), (0x773C, 0xB2B4), (0x773D, 0xD6AF), (0x773E, 0xB2B3), (0x7744, 0xDABC),
    (0x7745, 0xDABE), (0x7746, 0xDABA)] @
   [(0x7747, 0xDABB), (0x774A, 0xDABF), (0x774B, 0xDAC1), (0x774C, 0xDAC2), (0x774D, 0xDABD), (0x774E, 0xDAC0),
    (0x774F, 0xB574), (0x7752, 0xDEDB)] @
   [(0x7754, 0xDEE0), (0x7755, 0xDED8), (0x7756, 0xDEDC), (0x7759, 0xDEE1), (0x775A, 0xDEDD), (0x775B, 0xB7FA),
    (0x775C, 0xB843), (0x775E, 0xB7FD)] @
   [(0x775F, 0xDED9), (0x7760, 0xDEDA), (0x7761, 0xBACE), (0x7762, 0xB846), (0x7763, 0xB7FE), (0x7765, 0xB844),
    (0x7766, 0xB7FC), (0x7767, 0xDEDF)] @
   [(0x7768, 0xB845), (0x7769, 0xDEDE), (0x776A, 0xB841), (0x776B, 0xB7FB), (0x776C, 0xB842), (0x776D, 0xDEE2),
    (0x776E, 0xE2E6), (0x776F, 0xE2E8)] @
   [(0x7779, 0xB840), (0x777C, 0xE2E3), (0x777D, 0xBACC), (0x777E, 0xE2E9), (0x777F, 0xBACD), (0x7780, 0xE2E7),
    (0x7781, 0xE2E2), (0x7782, 0xE2E5)] @
   [(0x7783, 0xE2EA), (0x7784, 0xBACB), (0x7785, 0xE2E4), (0x7787, 0xBD4E), (0x7788, 0xE6BF), (0x7789, 0xE6BE),
    (0x778B, 0xBD51), (0x778C, 0xBD4F)] @
   [(0x778D, 0xE6BC), (0x778E, 0xBD4D), (0x778F, 0xE6BD), (0x7791, 0xBD50), (0x7795, 0xEA7D), (0x7797, 0xEAA1),
    (0x7799, 0xEA7E), (0x779A, 0xEA76)] @
   [(0x779B, 0xEA7A), (0x779C, 0xEA79), (0x779D, 0xEA77), (0x779E, 0xBF66), (0x779F, 0xBF67), (0x77A0, 0xBF65),
    (0x77A1, 0xEA78), (0x77A2, 0xEA7B)] @
   [(0x77A3, 0xEA7C), (0x77A5, 0xBF68), (0x77A7, 0xC140), (0x77A8, 0xEDA3), (0x77AA, 0xC0FC), (0x77AB, 0xED7B),
    (0x77AC, 0xC0FE), (0x77AD, 0xC141)] @
   [(0x77B0, 0xC0FD), (0x77B1, 0xEDA2), (0x77B2, 0xED7C), (0x77B3, 0xC0FB), (0x77B4, 0xEDA1), (0x77B5, 0xED7A),
    (0x77B6, 0xED7E), (0x77B7, 0xED7D)] @
   [(0x77BA, 0xF055), (0x77BB, 0xC2A4), (0x77BC, 0xC2A5), (0x77BD, 0xC2A2), (0x77BF, 0xC2A3), (0x77C2, 0xF054),
    (0x77C4, 0xF27B), (0x77C7, 0xC3A9)] @
   [(0x77C9, 0xF279), (0x77CA, 0xF27A), (0x77CC, 0xF474), (0x77CD, 0xF477), (0x77CE, 0xF475), (0x77CF, 0xF476),
    (0x77D0, 0xF5E0), (0x77D3, 0xC4EF)] @
   [(0x77D4, 0xF7EB), (0x77D5, 0xF8B4), (0x77D7, 0xC5F7), (0x77D8, 0xF8F8), (0x77D9, 0xF8F9), (0x77DA, 0xC666),
    (0x77DB, 0xA5D9), (0x77DC, 0xACE1)] @
   [(0x77DE, 0xDAC3), (0x77E0, 0xDEE3), (0x77E2, 0xA5DA), (0x77E3, 0xA86F), (0x77E5, 0xAABE), (0x77E7, 0xCFE8),
    (0x77E8, 0xCFE9), (0x77E9, 0xAF78)] @
   [(0x77EC, 0xDAC4), (0x77ED, 0xB575), (0x77EE, 0xB847), (0x77EF, 0xC142), (0x77F0, 0xEDA4), (0x77F1, 0xF27C),
    (0x77F2, 0xF478), (0x77F3, 0xA5DB)] @
   [(0x77F7, 0xCDA1), (0x77F8, 0xCD7A), (0x77F9, 0xCD7C), (0x77FA, 0xCD7E), (0x77FB, 0xCD7D), (0x77FC, 0xCD7B),
    (0x77FD, 0xAABF), (0x7802, 0xACE2)] @
   [(0x7803, 0xCFF2), (0x7805, 0xCFED), (0x7806, 0xCFEA), (0x7809, 0xCFF1), (0x780C, 0xACE4), (0x780D, 0xACE5),
    (0x780E, 0xCFF0), (0x780F, 0xCFEF)] @
   [(0x7810, 0xCFEE), (0x7811, 0xCFEB), (0x7812, 0xCFEC), (0x7813, 0xCFF3), (0x7814, 0xACE3), (0x781D, 0xAF7C),
    (0x781F, 0xAFA4), (0x7820, 0xAFA3)] @
   [(0x7821, 0xD2E1), (0x7822, 0xD2DB), (0x7823, 0xD2D9), (0x7825, 0xAFA1), (0x7826, 0xD6B9), (0x7827, 0xAF7A),
    (0x7828, 0xD2DE), (0x7829, 0xD2E2)] @
   [(0x782A, 0xD2E4), (0x782B, 0xD2E0), (0x782C, 0xD2DA), (0x782D, 0xAFA2), (0x782E, 0xD2DF), (0x782F, 0xD2DD),
    (0x7830, 0xAF79), (0x7831, 0xD2E5)] @
   [(0x7832, 0xAFA5), (0x7833, 0xD2E3), (0x7834, 0xAF7D), (0x7835, 0xD2DC), (0x7837, 0xAF7E), (0x7838, 0xAF7B),
    (0x7843, 0xB2B9), (0x7845, 0xD6BA)] @
   [(0x7848, 0xD6B3), (0x7849, 0xD6B5), (0x784A, 0xD6B7), (0x784C, 0xD6B8), (0x784D, 0xD6B6), (0x784E, 0xB2BA),
    (0x7850, 0xD6BB), (0x7852, 0xD6B4)] @
   [(0x785C, 0xDAC8), (0x785D, 0xB576), (0x785E, 0xDAD0), (0x7860, 0xDAC5), (0x7862, 0xDAD1), (0x7864, 0xDAC6),
    (0x7865, 0xDAC7), (0x7868, 0xDACF)] @
   [(0x7869, 0xDACE), (0x786A, 0xDACB), (0x786B, 0xB2B8), (0x786C, 0xB577), (0x786D, 0xDAC9), (0x786E, 0xDACC),
    (0x786F, 0xB578), (0x7870, 0xDACD)] @
   [(0x7871, 0xDACA), (0x7879, 0xDEEE), (0x787B, 0xDEF2), (0x787C, 0xB84E), (0x787E, 0xE2F0), (0x787F, 0xB851),
    (0x7880, 0xDEF0), (0x7881, 0xF9D6)] @
   [(0x7883, 0xDEED), (0x7884, 0xDEE8), (0x7885, 0xDEEA), (0x7886, 0xDEEB), (0x7887, 0xDEE4), (0x7889, 0xB84D),
    (0x788C, 0xB84C), (0x788E, 0xB848)] @
   [(0x788F, 0xDEE7), (0x7891, 0xB84F), (0x7893, 0xB850), (0x7894, 0xDEE6), (0x7895, 0xDEE9), (0x7896, 0xDEF1),
    (0x7897, 0xB84A), (0x7898, 0xB84B)] @
   [(0x7899, 0xDEEF), (0x789A, 0xDEE5), (0x789E, 0xE2F2), (0x789F, 0xBAD0), (0x78A0, 0xE2F4), (0x78A1, 0xDEEC),
    (0x78A2, 0xE2F6), (0x78A3, 0xBAD4)] @
   [(0x78A4, 0xE2F7), (0x78A5, 0xE2F3), (0x78A7, 0xBAD1), (0x78A8, 0xE2EF), (0x78A9, 0xBAD3), (0x78AA, 0xE2EC),
    (0x78AB, 0xE2F1), (0x78AC, 0xE2F5)]"

definition rev_cp950_29 :: "(nat \<times> nat) list" where
  "rev_cp950_29 =
   [(0x78AD, 0xE2EE), (0x78B0, 0xB849), (0x78B2, 0xE2EB), (0x78B3, 0xBAD2), (0x78B4, 0xE2ED), (0x78BA, 0xBD54),
    (0x78BB, 0xE6C1), (0x78BC, 0xBD58)] @
   [(0x78BE, 0xBD56), (0x78C1, 0xBACF), (0x78C3, 0xE6C8), (0x78C4, 0xE6C9), (0x78C5, 0xBD53), (0x78C8, 0xE6C7),
    (0x78C9, 0xE6CA), (0x78CA, 0xBD55)] @
   [(0x78CB, 0xBD52), (0x78CC, 0xE6C3), (0x78CD, 0xE6C0), (0x78CE, 0xE6C5), (0x78CF, 0xE6C2), (0x78D0, 0xBD59),
    (0x78D1, 0xE6C4), (0x78D4, 0xE6C6)] @
   [(0x78D5, 0xBD57), (0x78DA, 0xBF6A), (0x78DB, 0xEAA8), (0x78DD, 0xEAA2), (0x78DE, 0xEAA6), (0x78DF, 0xEAAC),
    (0x78E0, 0xEAAD), (0x78E1, 0xEAA9)] @
   [(0x78E2, 0xEAAA), (0x78E3, 0xEAA7), (0x78E5, 0xEAA4), (0x78E7, 0xBF6C), (0x78E8, 0xBF69), (0x78E9, 0xEAA3),
    (0x78EA, 0xEAA5), (0x78EC, 0xBF6B)] @
   [(0x78ED, 0xEAAB), (0x78EF, 0xC146), (0x78F2, 0xEDAA), (0x78F3, 0xEDA5), (0x78F4, 0xC145), (0x78F7, 0xC143),
    (0x78F9, 0xEDAC), (0x78FA, 0xC144)] @
   [(0x78FB, 0xEDA8), (0x78FC, 0xEDA9), (0x78FD, 0xEDA6), (0x78FE, 0xEDAD), (0x78FF, 0xF056), (0x7901, 0xC147),
    (0x7902, 0xEDA7), (0x7904, 0xEDAE)] @
   [(0x7905, 0xEDAB), (0x7909, 0xF05A), (0x790C, 0xF057), (0x790E, 0xC2A6), (0x7910, 0xF05B), (0x7911, 0xF05D),
    (0x7912, 0xF05C), (0x7913, 0xF058)] @
   [(0x7914, 0xF059), (0x7917, 0xF2A3), (0x7919, 0xC3AA), (0x791B, 0xF27E), (0x791C, 0xF2A2), (0x791D, 0xF27D),
    (0x791E, 0xF2A4), (0x7921, 0xF2A1)] @
   [(0x7923, 0xF47A), (0x7924, 0xF47D), (0x7925, 0xF479), (0x7926, 0xC471), (0x7927, 0xF47B), (0x7928, 0xF47C),
    (0x7929, 0xF47E), (0x792A, 0xC472)] @
   [(0x792B, 0xC474), (0x792C, 0xC473), (0x792D, 0xF5E1), (0x792F, 0xF5E3), (0x7931, 0xF5E2), (0x7935, 0xF6F6),
    (0x7938, 0xF8B5), (0x7939, 0xF8FA)] @
   [(0x793A, 0xA5DC), (0x793D, 0xCB72), (0x793E, 0xAAC0), (0x793F, 0xCDA3), (0x7940, 0xAAC1), (0x7941, 0xAAC2),
    (0x7942, 0xCDA2), (0x7944, 0xCFF8)] @
   [(0x7945, 0xCFF7), (0x7946, 0xACE6), (0x7947, 0xACE9), (0x7948, 0xACE8), (0x7949, 0xACE7), (0x794A, 0xCFF4),
    (0x794B, 0xCFF6), (0x794C, 0xCFF5)] @
   [(0x794F, 0xD2E8), (0x7950, 0xAFA7), (0x7951, 0xD2EC), (0x7952, 0xD2EB), (0x7953, 0xD2EA), (0x7954, 0xD2E6),
    (0x7955, 0xAFA6), (0x7956, 0xAFAA)] @
   [(0x7957, 0xAFAD), (0x795A, 0xAFAE), (0x795B, 0xD2E7), (0x795C, 0xD2E9), (0x795D, 0xAFAC), (0x795E, 0xAFAB),
    (0x795F, 0xAFA9), (0x7960, 0xAFA8)] @
   [(0x7961, 0xD6C2), (0x7963, 0xD6C0), (0x7964, 0xD6BC), (0x7965, 0xB2BB), (0x7967, 0xD6BD), (0x7968, 0xB2BC),
    (0x7969, 0xD6BE), (0x796A, 0xD6BF)] @
   [(0x796B, 0xD6C1), (0x796D, 0xB2BD), (0x7970, 0xDAD5), (0x7972, 0xDAD4), (0x7973, 0xDAD3), (0x7974, 0xDAD2),
    (0x7979, 0xDEF6), (0x797A, 0xB852)] @
   [(0x797C, 0xDEF3), (0x797D, 0xDEF5), (0x797F, 0xB853), (0x7981, 0xB854), (0x7982, 0xDEF4), (0x7988, 0xE341),
    (0x798A, 0xE2F9), (0x798B, 0xE2FA)] @
   [(0x798D, 0xBAD7), (0x798E, 0xBAD5), (0x798F, 0xBAD6), (0x7990, 0xE343), (0x7992, 0xE342), (0x7993, 0xE2FE),
    (0x7994, 0xE2FD), (0x7995, 0xE2FC)] @
   [(0x7996, 0xE2FB), (0x7997, 0xE340), (0x7998, 0xE2F8), (0x799A, 0xE6CB), (0x799B, 0xE6D0), (0x799C, 0xE6CE),
    (0x79A0, 0xE6CD), (0x79A1, 0xE6CC)] @
   [(0x79A2, 0xE6CF), (0x79A4, 0xEAAE), (0x79A6, 0xBF6D), (0x79A7, 0xC148), (0x79A8, 0xEDB0), (0x79AA, 0xC149),
    (0x79AB, 0xEDAF), (0x79AC, 0xF05F)] @
   [(0x79AD, 0xF05E), (0x79AE, 0xC2A7), (0x79B0, 0xF2A5), (0x79B1, 0xC3AB), (0x79B2, 0xF4A1), (0x79B3, 0xC5A1),
    (0x79B4, 0xF6F7), (0x79B6, 0xF8B7)] @
   [(0x79B7, 0xF8B6), (0x79B8, 0xC9A8), (0x79B9, 0xACEA), (0x79BA, 0xACEB), (0x79BB, 0xD6C3), (0x79BD, 0xB856),
    (0x79BE, 0xA5DD), (0x79BF, 0xA872)] @
   [(0x79C0, 0xA871), (0x79C1, 0xA870), (0x79C5, 0xCDA4), (0x79C8, 0xAAC4), (0x79C9, 0xAAC3), (0x79CB, 0xACEE),
    (0x79CD, 0xCFFA), (0x79CE, 0xCFFD)] @
   [(0x79CF, 0xCFFB), (0x79D1, 0xACEC), (0x79D2, 0xACED), (0x79D5, 0xCFF9), (0x79D6, 0xCFFC), (0x79D8, 0xAFB5),
    (0x79DC, 0xD2F3), (0x79DD, 0xD2F5)] @
   [(0x79DE, 0xD2F4), (0x79DF, 0xAFB2), (0x79E0, 0xD2EF), (0x79E3, 0xAFB0), (0x79E4, 0xAFAF), (0x79E6, 0xAFB3),
    (0x79E7, 0xAFB1), (0x79E9, 0xAFB4)] @
   [(0x79EA, 0xD2F2), (0x79EB, 0xD2ED), (0x79EC, 0xD2EE), (0x79ED, 0xD2F1), (0x79EE, 0xD2F0), (0x79F6, 0xD6C6),
    (0x79F7, 0xD6C7), (0x79F8, 0xD6C5)] @
   [(0x79FA, 0xD6C4), (0x79FB, 0xB2BE), (0x7A00, 0xB57D), (0x7A02, 0xDAD6), (0x7A03, 0xDAD8), (0x7A04, 0xDADA),
    (0x7A05, 0xB57C), (0x7A08, 0xB57A)] @
   [(0x7A0A, 0xDAD7), (0x7A0B, 0xB57B), (0x7A0C, 0xDAD9), (0x7A0D, 0xB579), (0x7A10, 0xDF41), (0x7A11, 0xDEF7),
    (0x7A12, 0xDEFA), (0x7A13, 0xDEFE)] @
   [(0x7A14, 0xB85A), (0x7A15, 0xDEFC), (0x7A17, 0xDEFB), (0x7A18, 0xDEF8), (0x7A19, 0xDEF9), (0x7A1A, 0xB858),
    (0x7A1B, 0xDF40), (0x7A1C, 0xB857)] @
   [(0x7A1E, 0xB85C), (0x7A1F, 0xB85B), (0x7A20, 0xB859), (0x7A22, 0xDEFD), (0x7A26, 0xE349), (0x7A28, 0xE348),
    (0x7A2B, 0xE344), (0x7A2E, 0xBAD8)] @
   [(0x7A2F, 0xE347), (0x7A30, 0xE346), (0x7A31, 0xBAD9), (0x7A37, 0xBD5E), (0x7A39, 0xE6D2), (0x7A3B, 0xBD5F),
    (0x7A3C, 0xBD5B), (0x7A3D, 0xBD5D)]"

definition rev_cp950_30 :: "(nat \<times> nat) list" where
  "rev_cp950_30 =
   [(0x7A3F, 0xBD5A), (0x7A40, 0xBD5C), (0x7A44, 0xEAAF), (0x7A46, 0xBF70), (0x7A47, 0xEAB1), (0x7A48, 0xEAB0),
    (0x7A4A, 0xE345), (0x7A4B, 0xBF72)] @
   [(0x7A4C, 0xBF71), (0x7A4D, 0xBF6E), (0x7A4E, 0xBF6F), (0x7A54, 0xEDB5), (0x7A56, 0xEDB3), (0x7A57, 0xC14A),
    (0x7A58, 0xEDB4), (0x7A5A, 0xEDB6)] @
   [(0x7A5B, 0xEDB2), (0x7A5C, 0xEDB1), (0x7A5F, 0xF060), (0x7A60, 0xC2AA), (0x7A61, 0xC2A8), (0x7A62, 0xC2A9),
    (0x7A67, 0xF2A6), (0x7A68, 0xF2A7)] @
   [(0x7A69, 0xC3AD), (0x7A6B, 0xC3AC), (0x7A6C, 0xF4A3), (0x7A6D, 0xF4A4), (0x7A6E, 0xF4A2), (0x7A70, 0xF6F8),
    (0x7A71, 0xF6F9), (0x7A74, 0xA5DE)] @
   [(0x7A75, 0xCA48), (0x7A76, 0xA873), (0x7A78, 0xCDA5), (0x7A79, 0xAAC6), (0x7A7A, 0xAAC5), (0x7A7B, 0xCDA6),
    (0x7A7E, 0xD040), (0x7A7F, 0xACEF)] @
   [(0x7A80, 0xCFFE), (0x7A81, 0xACF0), (0x7A84, 0xAFB6), (0x7A85, 0xD2F8), (0x7A86, 0xD2F6), (0x7A87, 0xD2FC),
    (0x7A88, 0xAFB7), (0x7A89, 0xD2F7)] @
   [(0x7A8A, 0xD2FB), (0x7A8B, 0xD2F9), (0x7A8C, 0xD2FA), (0x7A8F, 0xD6C8), (0x7A90, 0xD6CA), (0x7A92, 0xB2BF),
    (0x7A94, 0xD6C9), (0x7A95, 0xB2C0)] @
   [(0x7A96, 0xB5A2), (0x7A97, 0xB5A1), (0x7A98, 0xB57E), (0x7A99, 0xDADB), (0x7A9E, 0xDF44), (0x7A9F, 0xB85D),
    (0x7AA0, 0xB85E), (0x7AA2, 0xDF43)] @
   [(0x7AA3, 0xDF42), (0x7AA8, 0xE34A), (0x7AA9, 0xBADB), (0x7AAA, 0xBADA), (0x7AAB, 0xE34B), (0x7AAC, 0xE34C),
    (0x7AAE, 0xBD61), (0x7AAF, 0xBD60)] @
   [(0x7AB1, 0xEAB5), (0x7AB2, 0xE6D3), (0x7AB3, 0xE6D5), (0x7AB4, 0xE6D4), (0x7AB5, 0xEAB4), (0x7AB6, 0xEAB2),
    (0x7AB7, 0xEAB6), (0x7AB8, 0xEAB3)] @
   [(0x7ABA, 0xBF73), (0x7ABE, 0xEDB7), (0x7ABF, 0xC14B), (0x7AC0, 0xEDB8), (0x7AC1, 0xEDB9), (0x7AC4, 0xC2AB),
    (0x7AC5, 0xC2AC), (0x7AC7, 0xC475)] @
   [(0x7ACA, 0xC5D1), (0x7ACB, 0xA5DF), (0x7AD1, 0xD041), (0x7AD8, 0xD2FD), (0x7AD9, 0xAFB8), (0x7ADF, 0xB3BA),
    (0x7AE0, 0xB3B9), (0x7AE3, 0xB5A4)] @
   [(0x7AE4, 0xDADD), (0x7AE5, 0xB5A3), (0x7AE6, 0xDADC), (0x7AEB, 0xDF45), (0x7AED, 0xBADC), (0x7AEE, 0xE34D),
    (0x7AEF, 0xBADD), (0x7AF6, 0xC476)] @
   [(0x7AF7, 0xF4A5), (0x7AF9, 0xA6CB), (0x7AFA, 0xAAC7), (0x7AFB, 0xCDA7), (0x7AFD, 0xACF2), (0x7AFF, 0xACF1),
    (0x7B00, 0xD042), (0x7B01, 0xD043)] @
   [(0x7B04, 0xD340), (0x7B05, 0xD342), (0x7B06, 0xAFB9), (0x7B08, 0xD344), (0x7B09, 0xD347), (0x7B0A, 0xD345),
    (0x7B0E, 0xD346), (0x7B0F, 0xD343)] @
   [(0x7B10, 0xD2FE), (0x7B11, 0xAFBA), (0x7B12, 0xD348), (0x7B13, 0xD341), (0x7B18, 0xD6D3), (0x7B19, 0xB2C6),
    (0x7B1A, 0xD6DC), (0x7B1B, 0xB2C3)] @
   [(0x7B1D, 0xD6D5), (0x7B1E, 0xB2C7), (0x7B20, 0xB2C1), (0x7B22, 0xD6D0), (0x7B23, 0xD6DD), (0x7B24, 0xD6D1),
    (0x7B25, 0xD6CE), (0x7B26, 0xB2C5)] @
   [(0x7B28, 0xB2C2), (0x7B2A, 0xD6D4), (0x7B2B, 0xD6D7), (0x7B2C, 0xB2C4), (0x7B2D, 0xD6D8), (0x7B2E, 0xB2C8),
    (0x7B2F, 0xD6D9), (0x7B30, 0xD6CF)] @
   [(0x7B31, 0xD6D6), (0x7B32, 0xD6DA), (0x7B33, 0xD6D2), (0x7B34, 0xD6CD), (0x7B35, 0xD6CB), (0x7B38, 0xD6DB),
    (0x7B3B, 0xDADF), (0x7B40, 0xDAE4)] @
   [(0x7B44, 0xDAE0), (0x7B45, 0xDAE6), (0x7B46, 0xB5A7), (0x7B47, 0xD6CC), (0x7B48, 0xDAE1), (0x7B49, 0xB5A5),
    (0x7B4A, 0xDADE), (0x7B4B, 0xB5AC)] @
   [(0x7B4C, 0xDAE2), (0x7B4D, 0xB5AB), (0x7B4E, 0xDAE3), (0x7B4F, 0xB5AD), (0x7B50, 0xB5A8), (0x7B51, 0xB5AE),
    (0x7B52, 0xB5A9), (0x7B54, 0xB5AA)] @
   [(0x7B56, 0xB5A6), (0x7B58, 0xDAE5), (0x7B60, 0xB861), (0x7B61, 0xDF50), (0x7B63, 0xDF53), (0x7B64, 0xDF47),
    (0x7B65, 0xDF4C), (0x7B66, 0xDF46)] @
   [(0x7B67, 0xB863), (0x7B69, 0xDF4A), (0x7B6D, 0xDF48), (0x7B6E, 0xB862), (0x7B70, 0xDF4F), (0x7B71, 0xDF4E),
    (0x7B72, 0xDF4B), (0x7B73, 0xDF4D)] @
   [(0x7B74, 0xDF49), (0x7B75, 0xBAE1), (0x7B76, 0xDF52), (0x7B77, 0xB85F), (0x7B78, 0xDF51), (0x7B82, 0xE35D),
    (0x7B84, 0xBAE8), (0x7B85, 0xE358)] @
   [(0x7B87, 0xBAE7), (0x7B88, 0xE34E), (0x7B8A, 0xE350), (0x7B8B, 0xBAE0), (0x7B8C, 0xE355), (0x7B8D, 0xE354),
    (0x7B8E, 0xE357), (0x7B8F, 0xBAE5)] @
   [(0x7B90, 0xE352), (0x7B91, 0xE351), (0x7B94, 0xBAE4), (0x7B95, 0xBADF), (0x7B96, 0xE353), (0x7B97, 0xBAE2),
    (0x7B98, 0xE359), (0x7B99, 0xE35B)] @
   [(0x7B9B, 0xE356), (0x7B9C, 0xE34F), (0x7B9D, 0xBAE3), (0x7BA0, 0xBD69), (0x7BA1, 0xBADE), (0x7BA4, 0xE35C),
    (0x7BAC, 0xE6D9), (0x7BAD, 0xBD62)] @
   [(0x7BAF, 0xE6DB), (0x7BB1, 0xBD63), (0x7BB4, 0xBD65), (0x7BB5, 0xE6DE), (0x7BB7, 0xE6D6), (0x7BB8, 0xBAE6),
    (0x7BB9, 0xE6DC), (0x7BBE, 0xE6D8)] @
   [(0x7BC0, 0xB860), (0x7BC1, 0xBD68), (0x7BC4, 0xBD64), (0x7BC6, 0xBD66), (0x7BC7, 0xBD67), (0x7BC9, 0xBF76),
    (0x7BCA, 0xE6DD), (0x7BCB, 0xE6D7)] @
   [(0x7BCC, 0xBD6A), (0x7BCE, 0xE6DA), (0x7BD4, 0xEAC0), (0x7BD5, 0xEABB), (0x7BD8, 0xEAC5), (0x7BD9, 0xBF74),
    (0x7BDA, 0xEABD), (0x7BDB, 0xBF78)] @
   [(0x7BDC, 0xEAC3), (0x7BDD, 0xEABA), (0x7BDE, 0xEAB7), (0x7BDF, 0xEAC6), (0x7BE0, 0xC151), (0x7BE1, 0xBF79),
    (0x7BE2, 0xEAC2), (0x7BE3, 0xEAB8)] @
   [(0x7BE4, 0xBF77), (0x7BE5, 0xEABC), (0x7BE6, 0xBF7B), (0x7BE7, 0xEAB9), (0x7BE8, 0xEABE), (0x7BE9, 0xBF7A),
    (0x7BEA, 0xEAC1), (0x7BEB, 0xEAC4)]"

definition rev_cp950_31 :: "(nat \<times> nat) list" where
  "rev_cp950_31 =
   [(0x7BF0, 0xEDCB), (0x7BF1, 0xEDCC), (0x7BF2, 0xEDBC), (0x7BF3, 0xEDC3), (0x7BF4, 0xEDC1), (0x7BF7, 0xC14F),
    (0x7BF8, 0xEDC8), (0x7BF9, 0xEABF)] @
   [(0x7BFB, 0xEDBF), (0x7BFD, 0xEDC9), (0x7BFE, 0xC14E), (0x7BFF, 0xEDBE), (0x7C00, 0xEDBD), (0x7C01, 0xEDC7),
    (0x7C02, 0xEDC4), (0x7C03, 0xEDC6)] @
   [(0x7C05, 0xEDBA), (0x7C06, 0xEDCA), (0x7C07, 0xC14C), (0x7C09, 0xEDC5), (0x7C0A, 0xEDCE), (0x7C0B, 0xEDC2),
    (0x7C0C, 0xC150), (0x7C0D, 0xC14D)] @
   [(0x7C0E, 0xEDC0), (0x7C0F, 0xEDBB), (0x7C10, 0xEDCD), (0x7C11, 0xBF75), (0x7C19, 0xF063), (0x7C1C, 0xF061),
    (0x7C1D, 0xF067), (0x7C1E, 0xC2B0)] @
   [(0x7C1F, 0xF065), (0x7C20, 0xF064), (0x7C21, 0xC2B2), (0x7C22, 0xF06A), (0x7C23, 0xC2B1), (0x7C25, 0xF06B),
    (0x7C26, 0xF068), (0x7C27, 0xC2AE)] @
   [(0x7C28, 0xF069), (0x7C29, 0xF062), (0x7C2A, 0xC2AF), (0x7C2B, 0xC2AD), (0x7C2C, 0xF2AB), (0x7C2D, 0xF066),
    (0x7C30, 0xF06C), (0x7C33, 0xF2A8)] @
   [(0x7C37, 0xC3B2), (0x7C38, 0xC3B0), (0x7C39, 0xF2AA), (0x7C3B, 0xF2AC), (0x7C3C, 0xF2A9), (0x7C3D, 0xC3B1),
    (0x7C3E, 0xC3AE), (0x7C3F, 0xC3AF)] @
   [(0x7C40, 0xC3B3), (0x7C43, 0xC478), (0x7C45, 0xF4AA), (0x7C47, 0xF4A9), (0x7C48, 0xF4A7), (0x7C49, 0xF4A6),
    (0x7C4A, 0xF4A8), (0x7C4C, 0xC477)] @
   [(0x7C4D, 0xC479), (0x7C50, 0xC4F0), (0x7C53, 0xF5E5), (0x7C54, 0xF5E4), (0x7C57, 0xF6FA), (0x7C59, 0xF6FC),
    (0x7C5A, 0xF6FE), (0x7C5B, 0xF6FD)] @
   [(0x7C5C, 0xF6FB), (0x7C5F, 0xC5A3), (0x7C60, 0xC5A2), (0x7C63, 0xC5D3), (0x7C64, 0xC5D2), (0x7C65, 0xC5D4),
    (0x7C66, 0xF7ED), (0x7C67, 0xF7EC)] @
   [(0x7C69, 0xF8FB), (0x7C6A, 0xF8B8), (0x7C6B, 0xF8FC), (0x7C6C, 0xC658), (0x7C6E, 0xC659), (0x7C6F, 0xF96D),
    (0x7C72, 0xC67E), (0x7C73, 0xA6CC)] @
   [(0x7C75, 0xCDA8), (0x7C78, 0xD045), (0x7C79, 0xD046), (0x7C7A, 0xD044), (0x7C7D, 0xACF3), (0x7C7F, 0xD047),
    (0x7C80, 0xD048), (0x7C81, 0xD049)] @
   [(0x7C84, 0xD349), (0x7C85, 0xD34F), (0x7C88, 0xD34D), (0x7C89, 0xAFBB), (0x7C8A, 0xD34B), (0x7C8C, 0xD34C),
    (0x7C8D, 0xD34E), (0x7C91, 0xD34A)] @
   [(0x7C92, 0xB2C9), (0x7C94, 0xD6DE), (0x7C95, 0xB2CB), (0x7C96, 0xD6E0), (0x7C97, 0xB2CA), (0x7C98, 0xD6DF),
    (0x7C9E, 0xDAE8), (0x7C9F, 0xB5AF)] @
   [(0x7CA1, 0xDAEA), (0x7CA2, 0xDAE7), (0x7CA3, 0xD6E1), (0x7CA5, 0xB5B0), (0x7CA7, 0xF9DB), (0x7CA8, 0xDAE9),
    (0x7CAF, 0xDF56), (0x7CB1, 0xB864)] @
   [(0x7CB2, 0xDF54), (0x7CB3, 0xB865), (0x7CB4, 0xDF55), (0x7CB5, 0xB866), (0x7CB9, 0xBAE9), (0x7CBA, 0xE361),
    (0x7CBB, 0xE35E), (0x7CBC, 0xE360)] @
   [(0x7CBD, 0xBAEA), (0x7CBE, 0xBAEB), (0x7CBF, 0xE35F), (0x7CC5, 0xE6DF), (0x7CC8, 0xE6E0), (0x7CCA, 0xBD6B),
    (0x7CCB, 0xE6E2), (0x7CCC, 0xE6E1)] @
   [(0x7CCE, 0xA261), (0x7CD0, 0xEACA), (0x7CD1, 0xEACB), (0x7CD2, 0xEAC7), (0x7CD4, 0xEAC8), (0x7CD5, 0xBF7C),
    (0x7CD6, 0xBF7D), (0x7CD7, 0xEAC9)] @
   [(0x7CD9, 0xC157), (0x7CDC, 0xC153), (0x7CDD, 0xC158), (0x7CDE, 0xC154), (0x7CDF, 0xC156), (0x7CE0, 0xC152),
    (0x7CE2, 0xC155), (0x7CE7, 0xC2B3)] @
   [(0x7CE8, 0xEDCF), (0x7CEA, 0xF2AE), (0x7CEC, 0xF2AD), (0x7CEE, 0xF4AB), (0x7CEF, 0xC47A), (0x7CF0, 0xC47B),
    (0x7CF1, 0xF741), (0x7CF2, 0xF5E6)] @
   [(0x7CF4, 0xF740), (0x7CF6, 0xF8FD), (0x7CF7, 0xF9A4), (0x7CF8, 0xA6CD), (0x7CFB, 0xA874), (0x7CFD, 0xCDA9),
    (0x7CFE, 0xAAC8), (0x7D00, 0xACF6)] @
   [(0x7D01, 0xD04C), (0x7D02, 0xACF4), (0x7D03, 0xD04A), (0x7D04, 0xACF9), (0x7D05, 0xACF5), (0x7D06, 0xACFA),
    (0x7D07, 0xACF8), (0x7D08, 0xD04B)] @
   [(0x7D09, 0xACF7), (0x7D0A, 0xAFBF), (0x7D0B, 0xAFBE), (0x7D0C, 0xD35A), (0x7D0D, 0xAFC7), (0x7D0E, 0xD353),
    (0x7D0F, 0xD359), (0x7D10, 0xAFC3)] @
   [(0x7D11, 0xD352), (0x7D12, 0xD358), (0x7D13, 0xD356), (0x7D14, 0xAFC2), (0x7D15, 0xAFC4), (0x7D16, 0xD355),
    (0x7D17, 0xAFBD), (0x7D18, 0xD354)] @
   [(0x7D19, 0xAFC8), (0x7D1A, 0xAFC5), (0x7D1B, 0xAFC9), (0x7D1C, 0xAFC6), (0x7D1D, 0xD351), (0x7D1E, 0xD350),
    (0x7D1F, 0xD357), (0x7D20, 0xAFC0)] @
   [(0x7D21, 0xAFBC), (0x7D22, 0xAFC1), (0x7D28, 0xD6F0), (0x7D29, 0xD6E9), (0x7D2B, 0xB5B5), (0x7D2C, 0xD6E8),
    (0x7D2E, 0xB2CF), (0x7D2F, 0xB2D6)] @
   [(0x7D30, 0xB2D3), (0x7D31, 0xB2D9), (0x7D32, 0xB2D8), (0x7D33, 0xB2D4), (0x7D35, 0xD6E2), (0x7D36, 0xD6E5),
    (0x7D38, 0xD6E4), (0x7D39, 0xB2D0)] @
   [(0x7D3A, 0xD6E6), (0x7D3B, 0xD6EF), (0x7D3C, 0xB2D1), (0x7D3D, 0xD6E3), (0x7D3E, 0xD6EC), (0x7D3F, 0xD6ED),
    (0x7D40, 0xB2D2), (0x7D41, 0xD6EA)] @
   [(0x7D42, 0xB2D7), (0x7D43, 0xB2CD), (0x7D44, 0xB2D5), (0x7D45, 0xD6E7), (0x7D46, 0xB2CC), (0x7D47, 0xD6EB),
    (0x7D4A, 0xD6EE), (0x7D4E, 0xDAFB)] @
   [(0x7D4F, 0xDAF2), (0x7D50, 0xB5B2), (0x7D51, 0xDAF9), (0x7D52, 0xDAF6), (0x7D53, 0xDAEE), (0x7D54, 0xDAF7),
    (0x7D55, 0xB5B4), (0x7D56, 0xDAEF)] @
   [(0x7D58, 0xDAEB), (0x7D5B, 0xB86C), (0x7D5C, 0xDAF4), (0x7D5E, 0xB5B1), (0x7D5F, 0xDAFA), (0x7D61, 0xB5B8),
    (0x7D62, 0xB5BA), (0x7D63, 0xDAED)] @
   [(0x7D66, 0xB5B9), (0x7D67, 0xDAF0), (0x7D68, 0xB5B3), (0x7D69, 0xDAF8), (0x7D6A, 0xDAF1), (0x7D6B, 0xDAF5),
    (0x7D6D, 0xDAF3), (0x7D6E, 0xB5B6)]"

definition rev_cp950_32 :: "(nat \<times> nat) list" where
  "rev_cp950_32 =
   [(0x7D6F, 0xDAEC), (0x7D70, 0xB5BB), (0x7D71, 0xB2CE), (0x7D72, 0xB5B7), (0x7D73, 0xB5BC), (0x7D79, 0xB868),
    (0x7D7A, 0xDF5D), (0x7D7B, 0xDF5F)] @
   [(0x7D7C, 0xDF61), (0x7D7D, 0xDF65), (0x7D7F, 0xDF5B), (0x7D80, 0xDF59), (0x7D81, 0xB86A), (0x7D83, 0xDF60),
    (0x7D84, 0xDF64), (0x7D85, 0xDF5C)] @
   [(0x7D86, 0xDF58), (0x7D88, 0xDF57), (0x7D8C, 0xDF62), (0x7D8D, 0xDF5A), (0x7D8E, 0xDF5E), (0x7D8F, 0xB86B),
    (0x7D91, 0xB869), (0x7D92, 0xDF66)] @
   [(0x7D93, 0xB867), (0x7D94, 0xDF63), (0x7D96, 0xE372), (0x7D9C, 0xBAEE), (0x7D9D, 0xE36A), (0x7D9E, 0xBD78),
    (0x7D9F, 0xE374), (0x7DA0, 0xBAF1)] @
   [(0x7DA1, 0xE378), (0x7DA2, 0xBAF7), (0x7DA3, 0xE365), (0x7DA6, 0xE375), (0x7DA7, 0xE362), (0x7DA9, 0xE377),
    (0x7DAA, 0xE366), (0x7DAC, 0xBAFE)] @
   [(0x7DAD, 0xBAFB), (0x7DAE, 0xE376), (0x7DAF, 0xE370), (0x7DB0, 0xBAED), (0x7DB1, 0xBAF5), (0x7DB2, 0xBAF4),
    (0x7DB4, 0xBAF3), (0x7DB5, 0xBAF9)] @
   [(0x7DB7, 0xE363), (0x7DB8, 0xBAFA), (0x7DB9, 0xE371), (0x7DBA, 0xBAF6), (0x7DBB, 0xBAEC), (0x7DBC, 0xE373),
    (0x7DBD, 0xBAEF), (0x7DBE, 0xBAF0)] @
   [(0x7DBF, 0xBAF8), (0x7DC0, 0xE368), (0x7DC1, 0xE367), (0x7DC2, 0xE364), (0x7DC4, 0xE36C), (0x7DC5, 0xE369),
    (0x7DC6, 0xE36D), (0x7DC7, 0xBAFD)] @
   [(0x7DC9, 0xE379), (0x7DCA, 0xBAF2), (0x7DCB, 0xE36E), (0x7DCC, 0xE36F), (0x7DCE, 0xE36B), (0x7DD2, 0xBAFC),
    (0x7DD7, 0xE6E7), (0x7DD8, 0xBD70)] @
   [(0x7DD9, 0xBD79), (0x7DDA, 0xBD75), (0x7DDB, 0xE6E4), (0x7DDD, 0xBD72), (0x7DDE, 0xBD76), (0x7DDF, 0xE6F0),
    (0x7DE0, 0xBD6C), (0x7DE1, 0xE6E8)] @
   [(0x7DE3, 0xBD74), (0x7DE6, 0xE6EB), (0x7DE7, 0xE6E6), (0x7DE8, 0xBD73), (0x7DE9, 0xBD77), (0x7DEA, 0xE6E5),
    (0x7DEC, 0xBD71), (0x7DEE, 0xE6EF)] @
   [(0x7DEF, 0xBD6E), (0x7DF0, 0xE6EE), (0x7DF1, 0xE6ED), (0x7DF2, 0xBD7A), (0x7DF3, 0xE572), (0x7DF4, 0xBD6D),
    (0x7DF6, 0xE6EC), (0x7DF7, 0xE6E3)] @
   [(0x7DF9, 0xBD7B), (0x7DFA, 0xE6EA), (0x7DFB, 0xBD6F), (0x7E03, 0xE6E9), (0x7E08, 0xBFA2), (0x7E09, 0xBFA7),
    (0x7E0A, 0xBF7E), (0x7E0B, 0xEAD8)] @
   [(0x7E0C, 0xEACF), (0x7E0D, 0xEADB), (0x7E0E, 0xEAD3), (0x7E0F, 0xEAD9), (0x7E10, 0xBFA8), (0x7E11, 0xBFA1),
    (0x7E12, 0xEACC), (0x7E13, 0xEAD2)] @
   [(0x7E14, 0xEADC), (0x7E15, 0xEAD5), (0x7E16, 0xEADA), (0x7E17, 0xEACE), (0x7E1A, 0xEAD6), (0x7E1B, 0xBFA3),
    (0x7E1C, 0xEAD4), (0x7E1D, 0xBFA6)] @
   [(0x7E1E, 0xBFA5), (0x7E1F, 0xEAD0), (0x7E20, 0xEAD1), (0x7E21, 0xEACD), (0x7E22, 0xEAD7), (0x7E23, 0xBFA4),
    (0x7E24, 0xEADE), (0x7E25, 0xEADD)] @
   [(0x7E29, 0xEDDA), (0x7E2A, 0xEDD6), (0x7E2B, 0xC15F), (0x7E2D, 0xEDD0), (0x7E2E, 0xC159), (0x7E2F, 0xC169),
    (0x7E30, 0xEDDC), (0x7E31, 0xC161)] @
   [(0x7E32, 0xC15D), (0x7E33, 0xEDD3), (0x7E34, 0xC164), (0x7E35, 0xC167), (0x7E36, 0xEDDE), (0x7E37, 0xC15C),
    (0x7E38, 0xEDD5), (0x7E39, 0xC165)] @
   [(0x7E3A, 0xEDE0), (0x7E3B, 0xEDDD), (0x7E3C, 0xEDD1), (0x7E3D, 0xC160), (0x7E3E, 0xC15A), (0x7E3F, 0xC168),
    (0x7E40, 0xEDD8), (0x7E41, 0xC163)] @
   [(0x7E42, 0xEDD2), (0x7E43, 0xC15E), (0x7E44, 0xEDDF), (0x7E45, 0xC162), (0x7E46, 0xC15B), (0x7E47, 0xEDD9),
    (0x7E48, 0xC166), (0x7E49, 0xEDD7)] @
   [(0x7E4C, 0xEDDB), (0x7E50, 0xF06E), (0x7E51, 0xF074), (0x7E52, 0xC2B9), (0x7E53, 0xF077), (0x7E54, 0xC2B4),
    (0x7E55, 0xC2B5), (0x7E56, 0xF06F)] @
   [(0x7E57, 0xF076), (0x7E58, 0xF071), (0x7E59, 0xC2BA), (0x7E5A, 0xC2B7), (0x7E5C, 0xF06D), (0x7E5E, 0xC2B6),
    (0x7E5F, 0xF073), (0x7E60, 0xF075)] @
   [(0x7E61, 0xC2B8), (0x7E62, 0xF072), (0x7E63, 0xF070), (0x7E68, 0xF2B8), (0x7E69, 0xC3B7), (0x7E6A, 0xC3B8),
    (0x7E6B, 0xC3B4), (0x7E6D, 0xC3B5)] @
   [(0x7E6F, 0xF2B4), (0x7E70, 0xF2B2), (0x7E72, 0xF2B6), (0x7E73, 0xC3BA), (0x7E74, 0xF2B7), (0x7E75, 0xF2B0),
    (0x7E76, 0xF2AF), (0x7E77, 0xF2B3)] @
   [(0x7E78, 0xF2B1), (0x7E79, 0xC3B6), (0x7E7A, 0xF2B5), (0x7E7B, 0xF4AC), (0x7E7C, 0xC47E), (0x7E7D, 0xC47D),
    (0x7E7E, 0xF4AD), (0x7E80, 0xF4AF)] @
   [(0x7E81, 0xF4AE), (0x7E82, 0xC4A1), (0x7E86, 0xF5EB), (0x7E87, 0xF5E8), (0x7E88, 0xF5E9), (0x7E8A, 0xF5E7),
    (0x7E8B, 0xF5EA), (0x7E8C, 0xC4F2)] @
   [(0x7E8D, 0xF5EC), (0x7E8F, 0xC4F1), (0x7E91, 0xF742), (0x7E93, 0xC5D5), (0x7E94, 0xC5D7), (0x7E95, 0xF7EE),
    (0x7E96, 0xC5D6), (0x7E97, 0xF8B9)] @
   [(0x7E98, 0xF940), (0x7E99, 0xF942), (0x7E9A, 0xF8FE), (0x7E9B, 0xF941), (0x7E9C, 0xC66C), (0x7F36, 0xA6CE),
    (0x7F38, 0xACFB), (0x7F39, 0xD26F)] @
   [(0x7F3A, 0xAFCA), (0x7F3D, 0xB2DA), (0x7F3E, 0xDAFC), (0x7F3F, 0xDAFD), (0x7F43, 0xEADF), (0x7F44, 0xC16A),
    (0x7F45, 0xEDE1), (0x7F48, 0xC2BB)] @
   [(0x7F4A, 0xF2BA), (0x7F4B, 0xF2B9), (0x7F4C, 0xC4A2), (0x7F4D, 0xF5ED), (0x7F4F, 0xF743), (0x7F50, 0xC5F8),
    (0x7F51, 0xCA49), (0x7F54, 0xAAC9)] @
   [(0x7F55, 0xA875), (0x7F58, 0xD04D), (0x7F5B, 0xD360), (0x7F5C, 0xD35B), (0x7F5D, 0xD35F), (0x7F5E, 0xD35D),
    (0x7F5F, 0xAFCB), (0x7F60, 0xD35E)] @
   [(0x7F61, 0xD35C), (0x7F63, 0xD6F1), (0x7F65, 0xDAFE), (0x7F66, 0xDB40), (0x7F67, 0xDF69), (0x7F68, 0xDF6A),
    (0x7F69, 0xB86E), (0x7F6A, 0xB86F)]"

definition rev_cp950_33 :: "(nat \<times> nat) list" where
  "rev_cp950_33 =
   [(0x7F6B, 0xDF68), (0x7F6C, 0xDF6B), (0x7F6D, 0xDF67), (0x7F6E, 0xB86D), (0x7F70, 0xBB40), (0x7F72, 0xB870),
    (0x7F73, 0xE37A), (0x7F75, 0xBD7C)] @
   [(0x7F76, 0xE6F1), (0x7F77, 0xBD7D), (0x7F79, 0xBFA9), (0x7F7A, 0xEAE2), (0x7F7B, 0xEAE0), (0x7F7C, 0xEAE1),
    (0x7F7D, 0xEDE4), (0x7F7E, 0xEDE3)] @
   [(0x7F7F, 0xEDE2), (0x7F83, 0xF2BB), (0x7F85, 0xC3B9), (0x7F86, 0xF2BC), (0x7F87, 0xF744), (0x7F88, 0xC5F9),
    (0x7F89, 0xF8BA), (0x7F8A, 0xA6CF)] @
   [(0x7F8B, 0xAACB), (0x7F8C, 0xAACA), (0x7F8D, 0xD04F), (0x7F8E, 0xACFC), (0x7F91, 0xD04E), (0x7F92, 0xD362),
    (0x7F94, 0xAFCC), (0x7F95, 0xD6F2)] @
   [(0x7F96, 0xD361), (0x7F9A, 0xB2DC), (0x7F9B, 0xD6F5), (0x7F9C, 0xD6F3), (0x7F9D, 0xD6F4), (0x7F9E, 0xB2DB),
    (0x7FA0, 0xDB42), (0x7FA1, 0xDB43)] @
   [(0x7FA2, 0xDB41), (0x7FA4, 0xB873), (0x7FA5, 0xDF6D), (0x7FA6, 0xDF6C), (0x7FA7, 0xDF6E), (0x7FA8, 0xB872),
    (0x7FA9, 0xB871), (0x7FAC, 0xE6F2)] @
   [(0x7FAD, 0xE6F4), (0x7FAF, 0xBD7E), (0x7FB0, 0xE6F3), (0x7FB1, 0xEAE3), (0x7FB2, 0xBFAA), (0x7FB3, 0xF079),
    (0x7FB5, 0xF078), (0x7FB6, 0xC3BB)] @
   [(0x7FB7, 0xF2BD), (0x7FB8, 0xC3BD), (0x7FB9, 0xC3BC), (0x7FBA, 0xF4B0), (0x7FBB, 0xF5EE), (0x7FBC, 0xC4F3),
    (0x7FBD, 0xA6D0), (0x7FBE, 0xD050)] @
   [(0x7FBF, 0xACFD), (0x7FC0, 0xD365), (0x7FC1, 0xAFCE), (0x7FC2, 0xD364), (0x7FC3, 0xD363), (0x7FC5, 0xAFCD),
    (0x7FC7, 0xD6FB), (0x7FC9, 0xD6FD)] @
   [(0x7FCA, 0xD6F6), (0x7FCB, 0xD6F7), (0x7FCC, 0xB2DD), (0x7FCD, 0xD6F8), (0x7FCE, 0xB2DE), (0x7FCF, 0xD6FC),
    (0x7FD0, 0xD6F9), (0x7FD1, 0xD6FA)] @
   [(0x7FD2, 0xB2DF), (0x7FD4, 0xB5BE), (0x7FD5, 0xB5BF), (0x7FD7, 0xDB44), (0x7FDB, 0xDF6F), (0x7FDC, 0xDF70),
    (0x7FDE, 0xE37E), (0x7FDF, 0xBB43)] @
   [(0x7FE0, 0xBB41), (0x7FE1, 0xBB42), (0x7FE2, 0xE37B), (0x7FE3, 0xE37C), (0x7FE5, 0xE37D), (0x7FE6, 0xE6F9),
    (0x7FE8, 0xE6FA), (0x7FE9, 0xBDA1)] @
   [(0x7FEA, 0xE6F7), (0x7FEB, 0xE6F6), (0x7FEC, 0xE6F8), (0x7FED, 0xE6F5), (0x7FEE, 0xBFAD), (0x7FEF, 0xEAE4),
    (0x7FF0, 0xBFAB), (0x7FF1, 0xBFAC)] @
   [(0x7FF2, 0xEDE6), (0x7FF3, 0xC16B), (0x7FF4, 0xEDE5), (0x7FF5, 0xEFA8), (0x7FF7, 0xF07A), (0x7FF8, 0xF07B),
    (0x7FF9, 0xC2BC), (0x7FFB, 0xC2BD)] @
   [(0x7FFC, 0xC16C), (0x7FFD, 0xF2BE), (0x7FFE, 0xF2BF), (0x7FFF, 0xF4B1), (0x8000, 0xC4A3), (0x8001, 0xA6D1),
    (0x8003, 0xA6D2), (0x8004, 0xACFE)] @
   [(0x8005, 0xAACC), (0x8006, 0xAFCF), (0x8007, 0xD051), (0x800B, 0xB5C0), (0x800C, 0xA6D3), (0x800D, 0xAD41),
    (0x800E, 0xD052), (0x800F, 0xD053)] @
   [(0x8010, 0xAD40), (0x8011, 0xAD42), (0x8012, 0xA6D4), (0x8014, 0xD054), (0x8015, 0xAFD1), (0x8016, 0xD366),
    (0x8017, 0xAFD3), (0x8018, 0xAFD0)] @
   [(0x8019, 0xAFD2), (0x801B, 0xD741), (0x801C, 0xB2E0), (0x801E, 0xD740), (0x801F, 0xD6FE), (0x8021, 0xDF71),
    (0x8024, 0xE3A1), (0x8026, 0xBDA2)] @
   [(0x8028, 0xBFAE), (0x8029, 0xEAE6), (0x802A, 0xEAE5), (0x802C, 0xEDE7), (0x8030, 0xF5EF), (0x8033, 0xA6D5),
    (0x8034, 0xCB73), (0x8035, 0xCDAA)] @
   [(0x8036, 0xAD43), (0x8037, 0xD055), (0x8039, 0xD368), (0x803D, 0xAFD4), (0x803E, 0xD367), (0x803F, 0xAFD5),
    (0x8043, 0xD743), (0x8046, 0xB2E2)] @
   [(0x8047, 0xD742), (0x8048, 0xD744), (0x804A, 0xB2E1), (0x804F, 0xDB46), (0x8050, 0xDB47), (0x8051, 0xDB45),
    (0x8052, 0xB5C1), (0x8056, 0xB874)] @
   [(0x8058, 0xB875), (0x805A, 0xBB45), (0x805C, 0xE3A3), (0x805D, 0xE3A2), (0x805E, 0xBB44), (0x8064, 0xE6FB),
    (0x8067, 0xE6FC), (0x806C, 0xEAE7)] @
   [(0x806F, 0xC170), (0x8070, 0xC16F), (0x8071, 0xC16D), (0x8072, 0xC16E), (0x8073, 0xC171), (0x8075, 0xF07C),
    (0x8076, 0xC2BF), (0x8077, 0xC2BE)] @
   [(0x8078, 0xF2C0), (0x8079, 0xF4B2), (0x807D, 0xC5A5), (0x807E, 0xC5A4), (0x807F, 0xA6D6), (0x8082, 0xD1FB),
    (0x8084, 0xB877), (0x8085, 0xB5C2)] @
   [(0x8086, 0xB876), (0x8087, 0xBB46), (0x8089, 0xA6D7), (0x808A, 0xC9A9), (0x808B, 0xA6D8), (0x808C, 0xA6D9),
    (0x808F, 0xCDAB), (0x8090, 0xCB76)] @
   [(0x8092, 0xCB77), (0x8093, 0xA877), (0x8095, 0xCB74), (0x8096, 0xA876), (0x8098, 0xA879), (0x8099, 0xCB75),
    (0x809A, 0xA87B), (0x809B, 0xA87A)] @
   [(0x809C, 0xCB78), (0x809D, 0xA878), (0x80A1, 0xAAD1), (0x80A2, 0xAACF), (0x80A3, 0xCDAD), (0x80A5, 0xAACE),
    (0x80A9, 0xAAD3), (0x80AA, 0xAAD5)] @
   [(0x80AB, 0xAAD2), (0x80AD, 0xCDB0), (0x80AE, 0xCDAC), (0x80AF, 0xAAD6), (0x80B1, 0xAAD0), (0x80B2, 0xA87C),
    (0x80B4, 0xAAD4), (0x80B5, 0xCDAF)] @
   [(0x80B8, 0xCDAE), (0x80BA, 0xAACD), (0x80C2, 0xD05B), (0x80C3, 0xAD47), (0x80C4, 0xAD48), (0x80C5, 0xD05D),
    (0x80C7, 0xD057), (0x80C8, 0xD05A)] @
   [(0x80C9, 0xD063), (0x80CA, 0xD061), (0x80CC, 0xAD49), (0x80CD, 0xD067), (0x80CE, 0xAD4C), (0x80CF, 0xD064),
    (0x80D0, 0xD05C), (0x80D1, 0xD059)] @
   [(0x80D4, 0xDB49), (0x80D5, 0xD062), (0x80D6, 0xAD44), (0x80D7, 0xD065), (0x80D8, 0xD056), (0x80D9, 0xD05F),
    (0x80DA, 0xAD46), (0x80DB, 0xAD4B)] @
   [(0x80DC, 0xD060), (0x80DD, 0xAD4F), (0x80DE, 0xAD4D), (0x80E0, 0xD058), (0x80E1, 0xAD4A), (0x80E3, 0xD05E),
    (0x80E4, 0xAD4E), (0x80E5, 0xAD45)]"

definition rev_cp950_34 :: "(nat \<times> nat) list" where
  "rev_cp950_34 =
   [(0x80E6, 0xD066), (0x80ED, 0xAFDA), (0x80EF, 0xAFE3), (0x80F0, 0xAFD8), (0x80F1, 0xAFD6), (0x80F2, 0xD36A),
    (0x80F3, 0xAFDE), (0x80F4, 0xAFDB)] @
   [(0x80F5, 0xD36C), (0x80F8, 0xAFDD), (0x80F9, 0xD36B), (0x80FA, 0xD369), (0x80FB, 0xD36E), (0x80FC, 0xAFE2),
    (0x80FD, 0xAFE0), (0x80FE, 0xDB48)] @
   [(0x8100, 0xD36F), (0x8101, 0xD36D), (0x8102, 0xAFD7), (0x8105, 0xAFD9), (0x8106, 0xAFDC), (0x8108, 0xAFDF),
    (0x810A, 0xAFE1), (0x8115, 0xD74E)] @
   [(0x8116, 0xB2E4), (0x8118, 0xD745), (0x8119, 0xD747), (0x811B, 0xD748), (0x811D, 0xD750), (0x811E, 0xD74C),
    (0x811F, 0xD74A), (0x8121, 0xD74D)] @
   [(0x8122, 0xD751), (0x8123, 0xB2E5), (0x8124, 0xB2E9), (0x8125, 0xD746), (0x8127, 0xD74F), (0x8129, 0xB2E7),
    (0x812B, 0xB2E6), (0x812C, 0xD74B)] @
   [(0x812D, 0xD749), (0x812F, 0xB2E3), (0x8130, 0xB2E8), (0x8139, 0xB5C8), (0x813A, 0xDB51), (0x813D, 0xDB4F),
    (0x813E, 0xB5CA), (0x8143, 0xDB4A)] @
   [(0x8144, 0xDFA1), (0x8146, 0xB5C9), (0x8147, 0xDB4E), (0x814A, 0xDB4B), (0x814B, 0xB5C5), (0x814C, 0xB5CB),
    (0x814D, 0xDB50), (0x814E, 0xB5C7)] @
   [(0x814F, 0xDB4D), (0x8150, 0xBB47), (0x8151, 0xB5C6), (0x8152, 0xDB4C), (0x8153, 0xB5CC), (0x8154, 0xB5C4),
    (0x8155, 0xB5C3), (0x815B, 0xDF77)] @
   [(0x815C, 0xDF75), (0x815E, 0xDF7B), (0x8160, 0xDF73), (0x8161, 0xDFA2), (0x8162, 0xDF78), (0x8164, 0xDF72),
    (0x8165, 0xB87B), (0x8166, 0xB8A3)] @
   [(0x8167, 0xDF7D), (0x8169, 0xDF76), (0x816B, 0xB87E), (0x816E, 0xB87C), (0x816F, 0xDF7E), (0x8170, 0xB879),
    (0x8171, 0xB878), (0x8172, 0xDF79)] @
   [(0x8173, 0xB87D), (0x8174, 0xB5CD), (0x8176, 0xDF7C), (0x8177, 0xDF74), (0x8178, 0xB87A), (0x8179, 0xB8A1),
    (0x817A, 0xB8A2), (0x817F, 0xBB4C)] @
   [(0x8180, 0xBB48), (0x8182, 0xBB4D), (0x8183, 0xE3A6), (0x8186, 0xE3A5), (0x8187, 0xE3A7), (0x8188, 0xBB4A),
    (0x8189, 0xE3A4), (0x818A, 0xBB4B)] @
   [(0x818B, 0xE3AA), (0x818C, 0xE3A9), (0x818D, 0xE3A8), (0x818F, 0xBB49), (0x8195, 0xE741), (0x8197, 0xE744),
    (0x8198, 0xBDA8), (0x8199, 0xE743)] @
   [(0x819A, 0xBDA7), (0x819B, 0xBDA3), (0x819C, 0xBDA4), (0x819D, 0xBDA5), (0x819E, 0xE740), (0x819F, 0xE6FE),
    (0x81A0, 0xBDA6), (0x81A2, 0xE742)] @
   [(0x81A3, 0xE6FD), (0x81A6, 0xEAE9), (0x81A7, 0xEAF3), (0x81A8, 0xBFB1), (0x81A9, 0xBFB0), (0x81AB, 0xEAED),
    (0x81AC, 0xEAEF), (0x81AE, 0xEAEA)] @
   [(0x81B0, 0xEAEE), (0x81B1, 0xEAE8), (0x81B2, 0xEAF1), (0x81B3, 0xBFAF), (0x81B4, 0xEAF0), (0x81B5, 0xEAEC),
    (0x81B7, 0xEAF2), (0x81B9, 0xEAEB)] @
   [(0x81BA, 0xC174), (0x81BB, 0xEDE8), (0x81BC, 0xEDEE), (0x81BD, 0xC178), (0x81BE, 0xC17A), (0x81BF, 0xC177),
    (0x81C0, 0xC176), (0x81C2, 0xC175)] @
   [(0x81C3, 0xC173), (0x81C4, 0xEDE9), (0x81C5, 0xEDEC), (0x81C6, 0xC172), (0x81C7, 0xEDED), (0x81C9, 0xC179),
    (0x81CA, 0xEDEB), (0x81CC, 0xEDEA)] @
   [(0x81CD, 0xC2C0), (0x81CF, 0xC2C1), (0x81D0, 0xF0A1), (0x81D1, 0xF07D), (0x81D2, 0xF07E), (0x81D5, 0xF2C2),
    (0x81D7, 0xF2C1), (0x81D8, 0xC3BE)] @
   [(0x81D9, 0xF4B4), (0x81DA, 0xC4A4), (0x81DB, 0xF4B3), (0x81DD, 0xF5F0), (0x81DE, 0xF745), (0x81DF, 0xC5A6),
    (0x81E0, 0xF943), (0x81E1, 0xF944)] @
   [(0x81E2, 0xC5D8), (0x81E3, 0xA6DA), (0x81E5, 0xAAD7), (0x81E6, 0xDB52), (0x81E7, 0xBB4E), (0x81E8, 0xC17B),
    (0x81E9, 0xEDEF), (0x81EA, 0xA6DB)] @
   [(0x81EC, 0xAFE5), (0x81ED, 0xAFE4), (0x81EE, 0xDB53), (0x81F2, 0xEAF4), (0x81F3, 0xA6DC), (0x81F4, 0xAD50),
    (0x81F7, 0xDB54), (0x81F8, 0xDB55)] @
   [(0x81F9, 0xDB56), (0x81FA, 0xBB4F), (0x81FB, 0xBFB2), (0x81FC, 0xA6DD), (0x81FE, 0xAAD8), (0x81FF, 0xD068),
    (0x8200, 0xAFE6), (0x8201, 0xD370)] @
   [(0x8202, 0xB2EA), (0x8204, 0xDB57), (0x8205, 0xB8A4), (0x8207, 0xBB50), (0x8208, 0xBFB3), (0x8209, 0xC17C),
    (0x820A, 0xC2C2), (0x820B, 0xF4B5)] @
   [(0x820C, 0xA6DE), (0x820D, 0xAAD9), (0x8210, 0xAFE7), (0x8211, 0xD752), (0x8212, 0xB5CE), (0x8214, 0xBB51),
    (0x8215, 0xE3AB), (0x8216, 0xE745)] @
   [(0x821B, 0xA6DF), (0x821C, 0xB5CF), (0x821D, 0xDFA3), (0x821E, 0xBB52), (0x821F, 0xA6E0), (0x8220, 0xCDB1),
    (0x8221, 0xD069), (0x8222, 0xAD51)] @
   [(0x8225, 0xD372), (0x8228, 0xAFEA), (0x822A, 0xAFE8), (0x822B, 0xAFE9), (0x822C, 0xAFEB), (0x822F, 0xD371),
    (0x8232, 0xD757), (0x8233, 0xD754)] @
   [(0x8234, 0xD756), (0x8235, 0xB2EB), (0x8236, 0xB2ED), (0x8237, 0xB2EC), (0x8238, 0xD753), (0x8239, 0xB2EE),
    (0x823A, 0xD755), (0x823C, 0xDB58)] @
   [(0x823D, 0xDB59), (0x823F, 0xDB5A), (0x8240, 0xDFA6), (0x8242, 0xDFA7), (0x8244, 0xDFA5), (0x8245, 0xDFA8),
    (0x8247, 0xB8A5), (0x8249, 0xDFA4)] @
   [(0x824B, 0xBB53), (0x824E, 0xE74A), (0x824F, 0xE746), (0x8250, 0xE749), (0x8251, 0xE74B), (0x8252, 0xE748),
    (0x8253, 0xE747), (0x8255, 0xEAF5)] @
   [(0x8256, 0xEAF6), (0x8257, 0xEAF7), (0x8258, 0xBFB4), (0x8259, 0xBFB5), (0x825A, 0xEDF1), (0x825B, 0xEDF0),
    (0x825C, 0xEDF2), (0x825E, 0xF0A3)] @
   [(0x825F, 0xF0A2), (0x8261, 0xF2C4), (0x8263, 0xF2C5), (0x8264, 0xF2C3), (0x8266, 0xC4A5), (0x8268, 0xF4B6),
    (0x8269, 0xF4B7), (0x826B, 0xF746)]"

definition rev_cp950_35 :: "(nat \<times> nat) list" where
  "rev_cp950_35 =
   [(0x826C, 0xF7EF), (0x826D, 0xF8BB), (0x826E, 0xA6E1), (0x826F, 0xA87D), (0x8271, 0xC17D), (0x8272, 0xA6E2),
    (0x8274, 0xD758), (0x8275, 0xDB5B)] @
   [(0x8277, 0xC641), (0x8278, 0xCA4A), (0x827C, 0xCA4B), (0x827D, 0xCA4D), (0x827E, 0xA6E3), (0x827F, 0xCA4E),
    (0x8280, 0xCA4C), (0x8283, 0xCBA2)] @
   [(0x8284, 0xCBA3), (0x8285, 0xCB7B), (0x828A, 0xCBA1), (0x828B, 0xA8A1), (0x828D, 0xA8A2), (0x828E, 0xCB7C),
    (0x828F, 0xCB7A), (0x8290, 0xCB79)] @
   [(0x8291, 0xCB7D), (0x8292, 0xA87E), (0x8293, 0xCB7E), (0x8294, 0xD06A), (0x8298, 0xCDB6), (0x8299, 0xAADC),
    (0x829A, 0xCDB5), (0x829B, 0xCDB7)] @
   [(0x829D, 0xAADB), (0x829E, 0xCDBC), (0x829F, 0xAADF), (0x82A0, 0xCDB2), (0x82A1, 0xCDC0), (0x82A2, 0xCDC6),
    (0x82A3, 0xAAE6), (0x82A4, 0xCDC3)] @
   [(0x82A5, 0xAAE3), (0x82A7, 0xCDB9), (0x82A8, 0xCDBF), (0x82A9, 0xCDC1), (0x82AB, 0xCDB4), (0x82AC, 0xAAE2),
    (0x82AD, 0xAADD), (0x82AE, 0xCDBA)] @
   [(0x82AF, 0xAAE4), (0x82B0, 0xAAE7), (0x82B1, 0xAAE1), (0x82B3, 0xAADA), (0x82B4, 0xCDBE), (0x82B5, 0xCDB8),
    (0x82B6, 0xCDC5), (0x82B7, 0xAAE9)] @
   [(0x82B8, 0xAAE5), (0x82B9, 0xAAE0), (0x82BA, 0xCDBD), (0x82BB, 0xAFEC), (0x82BC, 0xCDBB), (0x82BD, 0xAADE),
    (0x82BE, 0xAAE8), (0x82C0, 0xCDB3)] @
   [(0x82C2, 0xCDC2), (0x82C3, 0xCDC4), (0x82D1, 0xAD62), (0x82D2, 0xAD5C), (0x82D3, 0xAD64), (0x82D4, 0xAD61),
    (0x82D5, 0xD071), (0x82D6, 0xD074)] @
   [(0x82D7, 0xAD5D), (0x82D9, 0xD06B), (0x82DB, 0xAD56), (0x82DC, 0xAD60), (0x82DE, 0xAD63), (0x82DF, 0xAD65),
    (0x82E0, 0xD0A2), (0x82E1, 0xD077)] @
   [(0x82E3, 0xAD55), (0x82E4, 0xD0A1), (0x82E5, 0xAD59), (0x82E6, 0xAD57), (0x82E7, 0xAD52), (0x82E8, 0xD06F),
    (0x82EA, 0xD07E), (0x82EB, 0xD073)] @
   [(0x82EC, 0xD076), (0x82ED, 0xD0A5), (0x82EF, 0xAD66), (0x82F0, 0xD07D), (0x82F1, 0xAD5E), (0x82F2, 0xD078),
    (0x82F3, 0xD0A4), (0x82F4, 0xD075)] @
   [(0x82F5, 0xD079), (0x82F6, 0xD07C), (0x82F9, 0xD06D), (0x82FA, 0xD0A3), (0x82FB, 0xD07B), (0x82FE, 0xD06C),
    (0x8300, 0xD070), (0x8301, 0xAD5F)] @
   [(0x8302, 0xAD5A), (0x8303, 0xAD53), (0x8304, 0xAD58), (0x8305, 0xAD54), (0x8306, 0xAD67), (0x8307, 0xD06E),
    (0x8308, 0xD3A5), (0x8309, 0xAD5B)] @
   [(0x830C, 0xD07A), (0x830D, 0xCE41), (0x8316, 0xD3A8), (0x8317, 0xAFFA), (0x8319, 0xD376), (0x831B, 0xD3A3),
    (0x831C, 0xD37D), (0x831E, 0xD3B2)] @
   [(0x8320, 0xD3AA), (0x8322, 0xD37E), (0x8324, 0xD3A9), (0x8325, 0xD378), (0x8326, 0xD37C), (0x8327, 0xD3B5),
    (0x8328, 0xAFFD), (0x8329, 0xD3AD)] @
   [(0x832A, 0xD3A4), (0x832B, 0xAFED), (0x832C, 0xD3B3), (0x832D, 0xD374), (0x832F, 0xD3AC), (0x8331, 0xAFFC),
    (0x8332, 0xAFF7), (0x8333, 0xD373)] @
   [(0x8334, 0xAFF5), (0x8335, 0xAFF4), (0x8336, 0xAFF9), (0x8337, 0xD3AB), (0x8338, 0xAFF1), (0x8339, 0xAFF8),
    (0x833A, 0xD072), (0x833B, 0xDB5C)] @
   [(0x833C, 0xD3A6), (0x833F, 0xD37A), (0x8340, 0xAFFB), (0x8341, 0xD37B), (0x8342, 0xD3A1), (0x8343, 0xAFFE),
    (0x8344, 0xD375), (0x8345, 0xD3AF)] @
   [(0x8347, 0xD3AE), (0x8348, 0xD3B6), (0x8349, 0xAFF3), (0x834A, 0xAFF0), (0x834B, 0xD3B4), (0x834C, 0xD3B0),
    (0x834D, 0xD3A7), (0x834E, 0xD3A2)] @
   [(0x834F, 0xAFF6), (0x8350, 0xAFF2), (0x8351, 0xD377), (0x8352, 0xAFEE), (0x8353, 0xD3B1), (0x8354, 0xAFEF),
    (0x8356, 0xD379), (0x8373, 0xD75E)] @
   [(0x8374, 0xD760), (0x8375, 0xD765), (0x8376, 0xD779), (0x8377, 0xB2FC), (0x8378, 0xB2F2), (0x837A, 0xD75D),
    (0x837B, 0xB2FD), (0x837C, 0xB2FE)] @
   [(0x837D, 0xD768), (0x837E, 0xD76F), (0x837F, 0xD775), (0x8381, 0xD762), (0x8383, 0xD769), (0x8386, 0xB340),
    (0x8387, 0xD777), (0x8388, 0xD772)] @
   [(0x8389, 0xB2FA), (0x838A, 0xB2F8), (0x838B, 0xD76E), (0x838C, 0xD76A), (0x838D, 0xD75C), (0x838E, 0xB2EF),
    (0x838F, 0xD761), (0x8390, 0xD759)] @
   [(0x8392, 0xB2F7), (0x8393, 0xB2F9), (0x8394, 0xD766), (0x8395, 0xD763), (0x8396, 0xB2F4), (0x8397, 0xD773),
    (0x8398, 0xB2F1), (0x8399, 0xD764)] @
   [(0x839A, 0xD77A), (0x839B, 0xD76C), (0x839D, 0xD76B), (0x839E, 0xB2F0), (0x83A0, 0xB2FB), (0x83A2, 0xB2F3),
    (0x83A3, 0xD75A), (0x83A4, 0xD75F)] @
   [(0x83A5, 0xD770), (0x83A6, 0xD776), (0x83A7, 0xB341), (0x83A8, 0xD75B), (0x83A9, 0xD767), (0x83AA, 0xD76D),
    (0x83AB, 0xB2F6), (0x83AE, 0xD778)] @
   [(0x83AF, 0xD771), (0x83B0, 0xD774), (0x83BD, 0xB2F5), (0x83BF, 0xDB6C), (0x83C0, 0xDB60), (0x83C1, 0xB5D7),
    (0x83C2, 0xDB7D), (0x83C3, 0xDBA7)] @
   [(0x83C4, 0xDBAA), (0x83C5, 0xB5D5), (0x83C6, 0xDB68), (0x83C7, 0xDBA3), (0x83C8, 0xDB69), (0x83C9, 0xDB77),
    (0x83CA, 0xB5E2), (0x83CB, 0xDB73)] @
   [(0x83CC, 0xB5DF), (0x83CE, 0xDB74), (0x83CF, 0xDB5D), (0x83D1, 0xDBA4), (0x83D4, 0xB5E8), (0x83D5, 0xDBA1),
    (0x83D6, 0xDB75), (0x83D7, 0xDBAC)] @
   [(0x83D8, 0xDB70), (0x83D9, 0xDFC8), (0x83DB, 0xDBAF), (0x83DC, 0xB5E6), (0x83DD, 0xDB6E), (0x83DE, 0xDB7A),
    (0x83DF, 0xB5E9), (0x83E0, 0xB5D4)] @
   [(0x83E1, 0xDB72), (0x83E2, 0xDBAD), (0x83E3, 0xDB6B), (0x83E4, 0xDB64), (0x83E5, 0xDB6F), (0x83E7, 0xDB63),
    (0x83E8, 0xDB61), (0x83E9, 0xB5D0)]"

definition rev_cp950_36 :: "(nat \<times> nat) list" where
  "rev_cp950_36 =
   [(0x83EA, 0xDBA5), (0x83EB, 0xDB6A), (0x83EC, 0xDBA8), (0x83EE, 0xDBA9), (0x83EF, 0xB5D8), (0x83F0, 0xB5DD),
    (0x83F1, 0xB5D9), (0x83F2, 0xB5E1)] @
   [(0x83F3, 0xDB7E), (0x83F4, 0xB5DA), (0x83F5, 0xDB76), (0x83F6, 0xDB66), (0x83F8, 0xB5D2), (0x83F9, 0xDB5E),
    (0x83FA, 0xDBA2), (0x83FB, 0xDBAB)] @
   [(0x83FC, 0xDB65), (0x83FD, 0xB5E0), (0x83FE, 0xDBB0), (0x83FF, 0xDB71), (0x8401, 0xDB6D), (0x8403, 0xB5D1),
    (0x8404, 0xB5E5), (0x8406, 0xDB7C)] @
   [(0x8407, 0xB5E7), (0x8409, 0xDB78), (0x840A, 0xB5DC), (0x840B, 0xB5D6), (0x840C, 0xB5DE), (0x840D, 0xB5D3),
    (0x840E, 0xB5E4), (0x840F, 0xDB79)] @
   [(0x8410, 0xDB67), (0x8411, 0xDB7B), (0x8412, 0xDB62), (0x8413, 0xDBA6), (0x841B, 0xDBAE), (0x8423, 0xDB5F),
    (0x8429, 0xDFC7), (0x842B, 0xDFDD)] @
   [(0x842C, 0xB855), (0x842D, 0xDFCC), (0x842F, 0xDFCA), (0x8430, 0xDFB5), (0x8431, 0xB8A9), (0x8432, 0xDFC5),
    (0x8433, 0xDFD9), (0x8434, 0xDFC1)] @
   [(0x8435, 0xB8B1), (0x8436, 0xDFD8), (0x8437, 0xDFBF), (0x8438, 0xB5E3), (0x8439, 0xDFCF), (0x843A, 0xDFC0),
    (0x843B, 0xDFD6), (0x843C, 0xB8B0)] @
   [(0x843D, 0xB8A8), (0x843F, 0xDFAA), (0x8440, 0xDFB2), (0x8442, 0xDFCB), (0x8443, 0xDFC3), (0x8444, 0xDFDC),
    (0x8445, 0xDFC6), (0x8446, 0xB8B6)] @
   [(0x8447, 0xDFD7), (0x8449, 0xB8AD), (0x844B, 0xDFC9), (0x844C, 0xDFD1), (0x844D, 0xDFB6), (0x844E, 0xDFD0),
    (0x8450, 0xDFE1), (0x8451, 0xDFB1)] @
   [(0x8452, 0xDFD2), (0x8454, 0xDFDF), (0x8456, 0xDFAB), (0x8457, 0xB5DB), (0x8459, 0xDFB9), (0x845A, 0xDFB8),
    (0x845B, 0xB8AF), (0x845D, 0xDFBC)] @
   [(0x845E, 0xDFBE), (0x845F, 0xDFCD), (0x8460, 0xDFDE), (0x8461, 0xB8B2), (0x8463, 0xB8B3), (0x8465, 0xDFB0),
    (0x8466, 0xB8AB), (0x8467, 0xDFB4)] @
   [(0x8468, 0xDFDA), (0x8469, 0xB8B4), (0x846B, 0xB8AC), (0x846C, 0xB8AE), (0x846D, 0xB8B5), (0x846E, 0xDFE0),
    (0x846F, 0xDFD3), (0x8470, 0xDFCE)] @
   [(0x8473, 0xDFBB), (0x8474, 0xDFBA), (0x8475, 0xB8AA), (0x8476, 0xDFAC), (0x8477, 0xB8A7), (0x8478, 0xDFC4),
    (0x8479, 0xDFAD), (0x847A, 0xDFC2)] @
   [(0x847D, 0xDFB7), (0x847E, 0xDFDB), (0x8482, 0xB8A6), (0x8486, 0xDFB3), (0x848D, 0xDFAF), (0x848E, 0xDFD5),
    (0x848F, 0xDFAE), (0x8490, 0xBB60)] @
   [(0x8491, 0xE3D3), (0x8494, 0xE3C2), (0x8497, 0xE3AC), (0x8498, 0xE3CA), (0x8499, 0xBB58), (0x849A, 0xE3BB),
    (0x849B, 0xE3C5), (0x849C, 0xBB5B)] @
   [(0x849D, 0xE3BE), (0x849E, 0xBB59), (0x849F, 0xE3AF), (0x84A0, 0xE3CD), (0x84A1, 0xE3AE), (0x84A2, 0xE3C1),
    (0x84A4, 0xE3AD), (0x84A7, 0xE3BF)] @
   [(0x84A8, 0xE3C8), (0x84A9, 0xE3C6), (0x84AA, 0xE3BA), (0x84AB, 0xE3B5), (0x84AC, 0xE3B3), (0x84AE, 0xE3B4),
    (0x84AF, 0xE3C7), (0x84B0, 0xE3D2)] @
   [(0x84B1, 0xE3BC), (0x84B2, 0xBB5A), (0x84B4, 0xE3B7), (0x84B6, 0xE3CB), (0x84B8, 0xBB5D), (0x84B9, 0xE3B6),
    (0x84BA, 0xE3B0), (0x84BB, 0xE3C0)] @
   [(0x84BC, 0xBB61), (0x84BF, 0xBB55), (0x84C0, 0xBB5E), (0x84C1, 0xE3B8), (0x84C2, 0xE3B2), (0x84C4, 0xBB57),
    (0x84C5, 0xDFD4), (0x84C6, 0xBB56)] @
   [(0x84C7, 0xE3C3), (0x84C9, 0xBB54), (0x84CA, 0xBB63), (0x84CB, 0xBB5C), (0x84CC, 0xE3C4), (0x84CD, 0xE3B9),
    (0x84CE, 0xE3B1), (0x84CF, 0xE3CC)] @
   [(0x84D0, 0xE3BD), (0x84D1, 0xBB62), (0x84D2, 0xE3D0), (0x84D3, 0xBB5F), (0x84D4, 0xE3CF), (0x84D6, 0xE3C9),
    (0x84D7, 0xE3CE), (0x84DB, 0xE3D1)] @
   [(0x84E7, 0xE773), (0x84E8, 0xE774), (0x84E9, 0xE767), (0x84EA, 0xE766), (0x84EB, 0xE762), (0x84EC, 0xBDB4),
    (0x84EE, 0xBDAC), (0x84EF, 0xE776)] @
   [(0x84F0, 0xE775), (0x84F1, 0xDFA9), (0x84F2, 0xE75F), (0x84F3, 0xE763), (0x84F4, 0xE75D), (0x84F6, 0xE770),
    (0x84F7, 0xE761), (0x84F9, 0xE777)] @
   [(0x84FA, 0xE75A), (0x84FB, 0xE758), (0x84FC, 0xE764), (0x84FD, 0xE76E), (0x84FE, 0xE769), (0x84FF, 0xBDB6),
    (0x8500, 0xE74F), (0x8502, 0xE76D)] @
   [(0x8506, 0xBDB7), (0x8507, 0xDFBD), (0x8508, 0xE75B), (0x8509, 0xE752), (0x850A, 0xE755), (0x850B, 0xE77B),
    (0x850C, 0xE75C), (0x850D, 0xE753)] @
   [(0x850E, 0xE751), (0x850F, 0xE74E), (0x8511, 0xBDB0), (0x8512, 0xE765), (0x8513, 0xBDAF), (0x8514, 0xBDB3),
    (0x8515, 0xE760), (0x8516, 0xE768)] @
   [(0x8517, 0xBDA9), (0x8518, 0xE778), (0x8519, 0xE77C), (0x851A, 0xBDAB), (0x851C, 0xE757), (0x851D, 0xE76B),
    (0x851E, 0xE76F), (0x851F, 0xE754)] @
   [(0x8520, 0xE779), (0x8521, 0xBDB2), (0x8523, 0xBDB1), (0x8524, 0xE74C), (0x8525, 0xBDB5), (0x8526, 0xE772),
    (0x8527, 0xE756), (0x8528, 0xE76A)] @
   [(0x8529, 0xE750), (0x852A, 0xE75E), (0x852B, 0xE759), (0x852C, 0xBDAD), (0x852D, 0xBDAE), (0x852E, 0xE76C),
    (0x852F, 0xE77D), (0x8530, 0xE77A)] @
   [(0x8531, 0xE771), (0x853B, 0xE74D), (0x853D, 0xBDAA), (0x853E, 0xEB49), (0x8540, 0xEB40), (0x8541, 0xEB43),
    (0x8543, 0xBFBB), (0x8544, 0xEB45)] @
   [(0x8545, 0xEAF9), (0x8546, 0xEB41), (0x8547, 0xEB47), (0x8548, 0xBFB8), (0x8549, 0xBFBC), (0x854A, 0xBFB6),
    (0x854D, 0xEAFB), (0x854E, 0xEB4C)] @
   [(0x8551, 0xEB46), (0x8553, 0xEAFC), (0x8554, 0xEB55), (0x8555, 0xEB4F), (0x8556, 0xEAF8), (0x8557, 0xEE46),
    (0x8558, 0xEAFE), (0x8559, 0xBFB7)]"

definition rev_cp950_37 :: "(nat \<times> nat) list" where
  "rev_cp950_37 =
   [(0x855B, 0xEB4A), (0x855D, 0xEB54), (0x855E, 0xBFBF), (0x8560, 0xEB51), (0x8561, 0xEAFD), (0x8562, 0xEB44),
    (0x8563, 0xEB48), (0x8564, 0xEB42)] @
   [(0x8565, 0xEB56), (0x8566, 0xEB53), (0x8567, 0xEB50), (0x8568, 0xBFB9), (0x8569, 0xBFBA), (0x856A, 0xBFBE),
    (0x856B, 0xEAFA), (0x856C, 0xEB57)] @
   [(0x856D, 0xBFBD), (0x856E, 0xEB4D), (0x8571, 0xEB4B), (0x8575, 0xEB4E), (0x8576, 0xEE53), (0x8577, 0xEE40),
    (0x8578, 0xEE45), (0x8579, 0xEE52)] @
   [(0x857A, 0xEE44), (0x857B, 0xEDFB), (0x857C, 0xEE41), (0x857E, 0xC1A2), (0x8580, 0xEDF4), (0x8581, 0xEE4D),
    (0x8582, 0xEE4F), (0x8583, 0xEDF3)] @
   [(0x8584, 0xC1A1), (0x8585, 0xEE51), (0x8586, 0xEE49), (0x8587, 0xC1A8), (0x8588, 0xEE50), (0x8589, 0xEE42),
    (0x858A, 0xC1AA), (0x858B, 0xEDF9)] @
   [(0x858C, 0xEB52), (0x858D, 0xEE4A), (0x858E, 0xEE47), (0x858F, 0xEDF5), (0x8590, 0xEE55), (0x8591, 0xC1A4),
    (0x8594, 0xC1A5), (0x8595, 0xEDF7)] @
   [(0x8596, 0xEE48), (0x8598, 0xEE54), (0x8599, 0xEE4B), (0x859A, 0xEDFD), (0x859B, 0xC1A7), (0x859C, 0xC1A3),
    (0x859D, 0xEE4C), (0x859E, 0xEDFE)] @
   [(0x859F, 0xEE56), (0x85A0, 0xEDF8), (0x85A1, 0xEE43), (0x85A2, 0xEE4E), (0x85A3, 0xEDFA), (0x85A4, 0xEDFC),
    (0x85A6, 0xC2CB), (0x85A7, 0xEDF6)] @
   [(0x85A8, 0xC1A9), (0x85A9, 0xC2C4), (0x85AA, 0xC17E), (0x85AF, 0xC1A6), (0x85B0, 0xC2C8), (0x85B1, 0xF0B3),
    (0x85B3, 0xF0A9), (0x85B4, 0xF0A4)] @
   [(0x85B5, 0xF0AA), (0x85B6, 0xF0B4), (0x85B7, 0xF0B8), (0x85B8, 0xF0B7), (0x85B9, 0xC2CA), (0x85BA, 0xC2C9),
    (0x85BD, 0xF0AB), (0x85BE, 0xF0B9)] @
   [(0x85BF, 0xF0AE), (0x85C0, 0xF0A6), (0x85C2, 0xF0A8), (0x85C3, 0xF0A7), (0x85C4, 0xF0AD), (0x85C5, 0xF0B2),
    (0x85C6, 0xF0A5), (0x85C7, 0xF0AC)] @
   [(0x85C8, 0xF0B1), (0x85C9, 0xC2C7), (0x85CB, 0xF0AF), (0x85CD, 0xC2C5), (0x85CE, 0xF0B0), (0x85CF, 0xC2C3),
    (0x85D0, 0xC2C6), (0x85D1, 0xF2D5)] @
   [(0x85D2, 0xF0B5), (0x85D5, 0xC3C2), (0x85D7, 0xF2CD), (0x85D8, 0xF2D1), (0x85D9, 0xF2C9), (0x85DA, 0xF2CC),
    (0x85DC, 0xF2D4), (0x85DD, 0xC3C0)] @
   [(0x85DE, 0xF2D9), (0x85DF, 0xF2D2), (0x85E1, 0xF2CA), (0x85E2, 0xF2DA), (0x85E3, 0xF2D3), (0x85E4, 0xC3C3),
    (0x85E5, 0xC3C4), (0x85E6, 0xF2D7)] @
   [(0x85E8, 0xF2CB), (0x85E9, 0xC3BF), (0x85EA, 0xC3C1), (0x85EB, 0xF2C6), (0x85EC, 0xF2CE), (0x85ED, 0xF2C8),
    (0x85EF, 0xF2D8), (0x85F0, 0xF2D6)] @
   [(0x85F1, 0xF2C7), (0x85F2, 0xF2CF), (0x85F6, 0xF4BE), (0x85F7, 0xC3C5), (0x85F8, 0xF2D0), (0x85F9, 0xC4A7),
    (0x85FA, 0xC4A9), (0x85FB, 0xC4A6)] @
   [(0x85FD, 0xF4C3), (0x85FE, 0xF4BB), (0x85FF, 0xF4B9), (0x8600, 0xF4BD), (0x8601, 0xF4BA), (0x8604, 0xF4BF),
    (0x8605, 0xF4C1), (0x8606, 0xC4AA)] @
   [(0x8607, 0xC4AC), (0x8609, 0xF4C0), (0x860A, 0xC4AD), (0x860B, 0xC4AB), (0x860C, 0xF4C2), (0x8611, 0xC4A8),
    (0x8617, 0xC4F4), (0x8618, 0xF5F1)] @
   [(0x8619, 0xF5F7), (0x861A, 0xC4F6), (0x861B, 0xF4BC), (0x861C, 0xF5F6), (0x861E, 0xF5FD), (0x861F, 0xF5F4),
    (0x8620, 0xF5FB), (0x8621, 0xF5FA)] @
   [(0x8622, 0xF4B8), (0x8623, 0xF5F5), (0x8624, 0xF0B6), (0x8625, 0xF5FE), (0x8626, 0xF5F3), (0x8627, 0xF5F8),
    (0x8629, 0xF5FC), (0x862A, 0xF5F2)] @
   [(0x862C, 0xF74A), (0x862D, 0xC4F5), (0x862E, 0xF5F9), (0x8631, 0xF7F4), (0x8632, 0xF74B), (0x8633, 0xF749),
    (0x8634, 0xF747), (0x8635, 0xF748)] @
   [(0x8636, 0xF74C), (0x8638, 0xC5D9), (0x8639, 0xF7F2), (0x863A, 0xF7F0), (0x863B, 0xF7F5), (0x863C, 0xF7F3),
    (0x863E, 0xF7F6), (0x863F, 0xC5DA)] @
   [(0x8640, 0xF7F1), (0x8643, 0xF8BC), (0x8646, 0xF945), (0x8647, 0xF946), (0x8648, 0xF947), (0x864B, 0xF9C7),
    (0x864C, 0xF9BD), (0x864D, 0xCA4F)] @
   [(0x864E, 0xAAEA), (0x8650, 0xAD68), (0x8652, 0xD3B8), (0x8653, 0xD3B7), (0x8654, 0xB040), (0x8655, 0xB342),
    (0x8656, 0xD77C), (0x8659, 0xD77B)] @
   [(0x865B, 0xB5EA), (0x865C, 0xB8B8), (0x865E, 0xB8B7), (0x865F, 0xB8B9), (0x8661, 0xE3D4), (0x8662, 0xE77E),
    (0x8663, 0xEB58), (0x8664, 0xEB5A)] @
   [(0x8665, 0xEB59), (0x8667, 0xC1AB), (0x8668, 0xEE57), (0x8669, 0xF0BA), (0x866A, 0xF9A5), (0x866B, 0xA6E4),
    (0x866D, 0xCDC9), (0x866E, 0xCDCA)] @
   [(0x866F, 0xCDC8), (0x8670, 0xCDC7), (0x8671, 0xAAEB), (0x8673, 0xD0A9), (0x8674, 0xD0A7), (0x8677, 0xD0A6),
    (0x8679, 0xAD69), (0x867A, 0xAD6B)] @
   [(0x867B, 0xAD6A), (0x867C, 0xD0A8), (0x8685, 0xD3C4), (0x8686, 0xD3C1), (0x8687, 0xD3BF), (0x868A, 0xB041),
    (0x868B, 0xD3C2), (0x868C, 0xB046)] @
   [(0x868D, 0xD3BC), (0x868E, 0xD3CB), (0x8690, 0xD3CD), (0x8691, 0xD3BD), (0x8693, 0xB043), (0x8694, 0xD3CE),
    (0x8695, 0xD3C9), (0x8696, 0xD3BB)] @
   [(0x8697, 0xD3C0), (0x8698, 0xD3CA), (0x8699, 0xD3C6), (0x869A, 0xD3C3), (0x869C, 0xB048), (0x869D, 0xD3CC),
    (0x869E, 0xD3BE), (0x86A1, 0xD3C7)] @
   [(0x86A2, 0xD3B9), (0x86A3, 0xB047), (0x86A4, 0xB044), (0x86A5, 0xD3C5), (0x86A7, 0xD3C8), (0x86A8, 0xD3BA),
    (0x86A9, 0xB045), (0x86AA, 0xB042)] @
   [(0x86AF, 0xB34C), (0x86B0, 0xD7A5), (0x86B1, 0xB34B), (0x86B3, 0xD7A8), (0x86B4, 0xD7AB), (0x86B5, 0xB348),
    (0x86B6, 0xB346), (0x86B7, 0xD77E)]"

definition rev_cp950_38 :: "(nat \<times> nat) list" where
  "rev_cp950_38 =
   [(0x86B8, 0xD7A9), (0x86B9, 0xD7A7), (0x86BA, 0xD7A4), (0x86BB, 0xD7AC), (0x86BC, 0xD7AD), (0x86BD, 0xD7AF),
    (0x86BE, 0xD7B0), (0x86BF, 0xD77D)] @
   [(0x86C0, 0xB345), (0x86C1, 0xD7A2), (0x86C2, 0xD7A1), (0x86C3, 0xD7AE), (0x86C4, 0xB347), (0x86C5, 0xD7A3),
    (0x86C6, 0xB349), (0x86C7, 0xB344)] @
   [(0x86C8, 0xD7A6), (0x86C9, 0xB34D), (0x86CB, 0xB34A), (0x86CC, 0xD7AA), (0x86D0, 0xB5F1), (0x86D1, 0xDBBF),
    (0x86D3, 0xDBB4), (0x86D4, 0xB5EE)] @
   [(0x86D6, 0xDFE7), (0x86D7, 0xDBBD), (0x86D8, 0xDBB1), (0x86D9, 0xB5EC), (0x86DA, 0xDBB6), (0x86DB, 0xB5EF),
    (0x86DC, 0xDBBA), (0x86DD, 0xDBB8)] @
   [(0x86DE, 0xB5F2), (0x86DF, 0xB5EB), (0x86E2, 0xDBB2), (0x86E3, 0xDBB5), (0x86E4, 0xB5F0), (0x86E6, 0xDBB3),
    (0x86E8, 0xDBBE), (0x86E9, 0xDBBC)] @
   [(0x86EA, 0xDBB7), (0x86EB, 0xDBB9), (0x86EC, 0xDBBB), (0x86ED, 0xB5ED), (0x86F5, 0xDFE8), (0x86F6, 0xDFEE),
    (0x86F7, 0xDFE4), (0x86F8, 0xDFEA)] @
   [(0x86F9, 0xB8BA), (0x86FA, 0xDFE6), (0x86FB, 0xB8C0), (0x86FE, 0xB8BF), (0x8700, 0xB8BE), (0x8701, 0xDFED),
    (0x8702, 0xB8C1), (0x8703, 0xB8C2)] @
   [(0x8704, 0xDFE3), (0x8705, 0xDFF0), (0x8706, 0xB8C3), (0x8707, 0xB8BD), (0x8708, 0xB8BC), (0x8709, 0xDFEC),
    (0x870A, 0xB8C4), (0x870B, 0xDFE2)] @
   [(0x870C, 0xDFE5), (0x870D, 0xDFEF), (0x870E, 0xDFEB), (0x8711, 0xE3F4), (0x8712, 0xE3E9), (0x8713, 0xB8BB),
    (0x8718, 0xBB6A), (0x8719, 0xE3DD)] @
   [(0x871A, 0xE3F2), (0x871B, 0xE3DE), (0x871C, 0xBB65), (0x871E, 0xE3DB), (0x8720, 0xE3E4), (0x8721, 0xE3DC),
    (0x8722, 0xBB67), (0x8723, 0xE3D6)] @
   [(0x8724, 0xE3F1), (0x8725, 0xBB68), (0x8726, 0xE3EE), (0x8727, 0xE3EF), (0x8728, 0xE3D7), (0x8729, 0xBB6D),
    (0x872A, 0xE3E6), (0x872C, 0xE3E0)] @
   [(0x872D, 0xE3E7), (0x872E, 0xE3DA), (0x8730, 0xE3F3), (0x8731, 0xE3EB), (0x8732, 0xE3E5), (0x8733, 0xE3D5),
    (0x8734, 0xBB69), (0x8735, 0xE3EC)] @
   [(0x8737, 0xBB6C), (0x8738, 0xE3F0), (0x873A, 0xE3EA), (0x873B, 0xBB66), (0x873C, 0xE3E8), (0x873E, 0xE3E2),
    (0x873F, 0xBB64), (0x8740, 0xE3D9)] @
   [(0x8741, 0xE3E1), (0x8742, 0xE3ED), (0x8743, 0xE3DF), (0x8746, 0xE3E3), (0x874C, 0xBDC1), (0x874D, 0xDFE9),
    (0x874E, 0xE7B2), (0x874F, 0xE7BB)] @
   [(0x8750, 0xE7B1), (0x8751, 0xE7AD), (0x8752, 0xE7AA), (0x8753, 0xBDC2), (0x8754, 0xE7A8), (0x8755, 0xBB6B),
    (0x8756, 0xE7A1), (0x8757, 0xBDC0)] @
   [(0x8758, 0xE7A7), (0x8759, 0xBDBF), (0x875A, 0xE7AC), (0x875B, 0xE7A9), (0x875C, 0xE7B9), (0x875D, 0xE7B4),
    (0x875E, 0xE7AE), (0x875F, 0xE7B3)] @
   [(0x8760, 0xBDBB), (0x8761, 0xE7AB), (0x8762, 0xE7BE), (0x8763, 0xE7A2), (0x8764, 0xE7A3), (0x8765, 0xE7BA),
    (0x8766, 0xBDBC), (0x8767, 0xE7BF)] @
   [(0x8768, 0xBDBE), (0x8769, 0xE7C0), (0x876A, 0xE7B0), (0x876B, 0xE3D8), (0x876C, 0xE7B6), (0x876D, 0xE7AF),
    (0x876E, 0xE7B8), (0x876F, 0xE7B5)] @
   [(0x8773, 0xE7A6), (0x8774, 0xBDB9), (0x8775, 0xE7BD), (0x8776, 0xBDBA), (0x8777, 0xE7A4), (0x8778, 0xBDBD),
    (0x8779, 0xEB64), (0x877A, 0xE7B7)] @
   [(0x877B, 0xE7BC), (0x8781, 0xEB61), (0x8782, 0xBDB8), (0x8783, 0xBFC0), (0x8784, 0xEB6B), (0x8785, 0xEB67),
    (0x8787, 0xEB65), (0x8788, 0xEB60)] @
   [(0x8789, 0xEB6F), (0x878D, 0xBFC4), (0x878F, 0xEB5C), (0x8790, 0xEB68), (0x8791, 0xEB69), (0x8792, 0xEB5F),
    (0x8793, 0xEB5E), (0x8794, 0xEB6C)] @
   [(0x8796, 0xEB62), (0x8797, 0xEB5D), (0x8798, 0xEB63), (0x879A, 0xEB6E), (0x879B, 0xEB5B), (0x879C, 0xEB6D),
    (0x879D, 0xEB6A), (0x879E, 0xBFC2)] @
   [(0x879F, 0xBFC1), (0x87A2, 0xBFC3), (0x87A3, 0xEB66), (0x87A4, 0xF0CB), (0x87AA, 0xEE59), (0x87AB, 0xC1B1),
    (0x87AC, 0xEE5D), (0x87AD, 0xEE5A)] @
   [(0x87AE, 0xEE61), (0x87AF, 0xEE67), (0x87B0, 0xEE5C), (0x87B2, 0xEE70), (0x87B3, 0xC1AE), (0x87B4, 0xEE6A),
    (0x87B5, 0xEE5F), (0x87B6, 0xEE6B)] @
   [(0x87B7, 0xEE66), (0x87B8, 0xEE6D), (0x87B9, 0xEE5E), (0x87BA, 0xC1B3), (0x87BB, 0xC1B2), (0x87BC, 0xEE60),
    (0x87BD, 0xEE6E), (0x87BE, 0xEE58)] @
   [(0x87BF, 0xEE6C), (0x87C0, 0xC1AC), (0x87C2, 0xEE64), (0x87C3, 0xEE63), (0x87C4, 0xEE68), (0x87C5, 0xEE5B),
    (0x87C6, 0xC1B0), (0x87C8, 0xC1B4)] @
   [(0x87C9, 0xEE62), (0x87CA, 0xEE69), (0x87CB, 0xC1B5), (0x87CC, 0xEE65), (0x87D1, 0xC1AD), (0x87D2, 0xC1AF),
    (0x87D3, 0xF0C7), (0x87D4, 0xF0C5)] @
   [(0x87D7, 0xF0CC), (0x87D8, 0xF0C9), (0x87D9, 0xF0CD), (0x87DB, 0xF0BE), (0x87DC, 0xF0C6), (0x87DD, 0xF0D1),
    (0x87DE, 0xEE6F), (0x87DF, 0xF0C2)] @
   [(0x87E0, 0xC2CF), (0x87E1, 0xE7A5), (0x87E2, 0xF0BD), (0x87E3, 0xF0CA), (0x87E4, 0xF0C4), (0x87E5, 0xF0C1),
    (0x87E6, 0xF0BC), (0x87E7, 0xF0BB)] @
   [(0x87E8, 0xF0D0), (0x87EA, 0xF0C0), (0x87EB, 0xF0BF), (0x87EC, 0xC2CD), (0x87ED, 0xF0C8), (0x87EF, 0xC2CC),
    (0x87F2, 0xC2CE), (0x87F3, 0xF0C3)] @
   [(0x87F4, 0xF0CF), (0x87F6, 0xF2DE), (0x87F7, 0xF2DF), (0x87F9, 0xC3C9), (0x87FA, 0xF2DC), (0x87FB, 0xC3C6),
    (0x87FC, 0xF2E4), (0x87FE, 0xC3CA)] @
   [(0x87FF, 0xF2E6), (0x8800, 0xF2DB), (0x8801, 0xF0CE), (0x8802, 0xF2E8), (0x8803, 0xF2DD), (0x8805, 0xC3C7),
    (0x8806, 0xF2E3), (0x8808, 0xF2E5)]"

definition rev_cp950_39 :: "(nat \<times> nat) list" where
  "rev_cp950_39 =
   [(0x8809, 0xF2E0), (0x880A, 0xF2E7), (0x880B, 0xF2E2), (0x880C, 0xF2E1), (0x880D, 0xC3C8), (0x8810, 0xF4C5),
    (0x8811, 0xF4C6), (0x8813, 0xF4C8)] @
   [(0x8814, 0xC4AE), (0x8815, 0xC4AF), (0x8816, 0xF4C9), (0x8817, 0xF4C7), (0x8819, 0xF4C4), (0x881B, 0xF642),
    (0x881C, 0xF645), (0x881D, 0xF641)] @
   [(0x881F, 0xC4FA), (0x8820, 0xF643), (0x8821, 0xC4F9), (0x8822, 0xC4F8), (0x8823, 0xC4F7), (0x8824, 0xF644),
    (0x8825, 0xF751), (0x8826, 0xF74F)] @
   [(0x8828, 0xF74E), (0x8829, 0xF640), (0x882A, 0xF750), (0x882B, 0xF646), (0x882C, 0xF74D), (0x882E, 0xF7F9),
    (0x882F, 0xF7D7), (0x8830, 0xF7F7)] @
   [(0x8831, 0xC5DB), (0x8832, 0xF7F8), (0x8833, 0xF7FA), (0x8835, 0xF8BF), (0x8836, 0xC5FA), (0x8837, 0xF8BE),
    (0x8838, 0xF8BD), (0x8839, 0xC5FB)] @
   [(0x883B, 0xC65A), (0x883C, 0xF96E), (0x883D, 0xF9A7), (0x883E, 0xF9A6), (0x883F, 0xF9A8), (0x8840, 0xA6E5),
    (0x8841, 0xD0AA), (0x8843, 0xD3CF)] @
   [(0x8844, 0xD3D0), (0x8848, 0xDBC0), (0x884A, 0xF647), (0x884B, 0xF8C0), (0x884C, 0xA6E6), (0x884D, 0xAD6C),
    (0x884E, 0xD0AB), (0x8852, 0xD7B1)] @
   [(0x8853, 0xB34E), (0x8855, 0xDBC2), (0x8856, 0xDBC1), (0x8857, 0xB5F3), (0x8859, 0xB8C5), (0x885A, 0xE7C1),
    (0x885B, 0xBDC3), (0x885D, 0xBDC4)] @
   [(0x8861, 0xBFC5), (0x8862, 0xC5FC), (0x8863, 0xA6E7), (0x8867, 0xD0AC), (0x8868, 0xAAED), (0x8869, 0xD0AE),
    (0x886A, 0xD0AD), (0x886B, 0xAD6D)] @
   [(0x886D, 0xD3D1), (0x886F, 0xD3D8), (0x8870, 0xB049), (0x8871, 0xD3D6), (0x8872, 0xD3D4), (0x8874, 0xD3DB),
    (0x8875, 0xD3D2), (0x8876, 0xD3D3)] @
   [(0x8877, 0xB04A), (0x8879, 0xB04E), (0x887C, 0xD3DC), (0x887D, 0xB04D), (0x887E, 0xD3DA), (0x887F, 0xD3D7),
    (0x8880, 0xD3D5), (0x8881, 0xB04B)] @
   [(0x8882, 0xB04C), (0x8883, 0xD3D9), (0x8888, 0xB350), (0x8889, 0xD7B2), (0x888B, 0xB355), (0x888C, 0xD7C2),
    (0x888D, 0xB354), (0x888E, 0xD7C4)] @
   [(0x8891, 0xD7B8), (0x8892, 0xB352), (0x8893, 0xD7C3), (0x8895, 0xD7B3), (0x8896, 0xB353), (0x8897, 0xD7BF),
    (0x8898, 0xD7BB), (0x8899, 0xD7BD)] @
   [(0x889A, 0xD7B7), (0x889B, 0xD7BE), (0x889E, 0xB34F), (0x889F, 0xD7BA), (0x88A1, 0xD7B9), (0x88A2, 0xD7B5),
    (0x88A4, 0xD7C0), (0x88A7, 0xD7BC)] @
   [(0x88A8, 0xD7B4), (0x88AA, 0xD7B6), (0x88AB, 0xB351), (0x88AC, 0xD7C1), (0x88B1, 0xB5F6), (0x88B2, 0xDBCD),
    (0x88B6, 0xDBC9), (0x88B7, 0xDBCB)] @
   [(0x88B8, 0xDBC6), (0x88B9, 0xDBC5), (0x88BA, 0xDBC3), (0x88BC, 0xDBCA), (0x88BD, 0xDBCC), (0x88BE, 0xDBC8),
    (0x88C0, 0xDBC7), (0x88C1, 0xB5F4)] @
   [(0x88C2, 0xB5F5), (0x88C9, 0xDBCF), (0x88CA, 0xB8CD), (0x88CB, 0xDFF2), (0x88CC, 0xDFF8), (0x88CD, 0xDFF3),
    (0x88CE, 0xDFF4), (0x88CF, 0xF9D8)] @
   [(0x88D0, 0xDFF9), (0x88D2, 0xB8CF), (0x88D4, 0xB8C7), (0x88D5, 0xB8CE), (0x88D6, 0xDFF1), (0x88D7, 0xDBC4),
    (0x88D8, 0xB8CA), (0x88D9, 0xB8C8)] @
   [(0x88DA, 0xDFF7), (0x88DB, 0xDFF6), (0x88DC, 0xB8C9), (0x88DD, 0xB8CB), (0x88DE, 0xDFF5), (0x88DF, 0xB8C6),
    (0x88E1, 0xB8CC), (0x88E7, 0xE3F6)] @
   [(0x88E8, 0xBB74), (0x88EB, 0xE442), (0x88EC, 0xE441), (0x88EE, 0xE3FB), (0x88EF, 0xBB76), (0x88F0, 0xE440),
    (0x88F1, 0xE3F7), (0x88F2, 0xE3F8)] @
   [(0x88F3, 0xBB6E), (0x88F4, 0xBB70), (0x88F6, 0xE3FD), (0x88F7, 0xE3F5), (0x88F8, 0xBB72), (0x88F9, 0xBB71),
    (0x88FA, 0xE3F9), (0x88FB, 0xE3FE)] @
   [(0x88FC, 0xE3FC), (0x88FD, 0xBB73), (0x88FE, 0xE3FA), (0x8901, 0xDBCE), (0x8902, 0xBB6F), (0x8905, 0xE7C2),
    (0x8906, 0xE7C9), (0x8907, 0xBDC6)] @
   [(0x8909, 0xE7CD), (0x890A, 0xBDCA), (0x890B, 0xE7C5), (0x890C, 0xE7C3), (0x890E, 0xE7CC), (0x8910, 0xBDC5),
    (0x8911, 0xE7CB), (0x8912, 0xBDC7)] @
   [(0x8913, 0xBDC8), (0x8914, 0xE7C4), (0x8915, 0xBDC9), (0x8916, 0xE7CA), (0x8917, 0xE7C6), (0x8918, 0xE7C7),
    (0x8919, 0xE7C8), (0x891A, 0xBB75)] @
   [(0x891E, 0xEB70), (0x891F, 0xEB7C), (0x8921, 0xBFCA), (0x8922, 0xEB77), (0x8923, 0xEB79), (0x8925, 0xBFC8),
    (0x8926, 0xEB71), (0x8927, 0xEB75)] @
   [(0x8929, 0xEB78), (0x892A, 0xBFC6), (0x892B, 0xBFC9), (0x892C, 0xEB7B), (0x892D, 0xEB73), (0x892E, 0xEB74),
    (0x892F, 0xEB7A), (0x8930, 0xEB72)] @
   [(0x8931, 0xEB76), (0x8932, 0xBFC7), (0x8933, 0xEE72), (0x8935, 0xEE71), (0x8936, 0xC1B7), (0x8937, 0xEE77),
    (0x8938, 0xC1B9), (0x893B, 0xC1B6)] @
   [(0x893C, 0xEE73), (0x893D, 0xC1BA), (0x893E, 0xEE74), (0x8941, 0xEE75), (0x8942, 0xEE78), (0x8944, 0xC1B8),
    (0x8946, 0xF0D6), (0x8949, 0xF0D9)] @
   [(0x894B, 0xF0D3), (0x894C, 0xF0D5), (0x894F, 0xF0D4), (0x8950, 0xF0D7), (0x8951, 0xF0D8), (0x8952, 0xEE76),
    (0x8953, 0xF0D2), (0x8956, 0xC3CD)] @
   [(0x8957, 0xF2EC), (0x8958, 0xF2EF), (0x8959, 0xF2F1), (0x895A, 0xF2EA), (0x895B, 0xF2EB), (0x895C, 0xF2EE),
    (0x895D, 0xF2F0), (0x895E, 0xC3CE)] @
   [(0x895F, 0xC3CC), (0x8960, 0xC3CB), (0x8961, 0xF2ED), (0x8962, 0xF2E9), (0x8963, 0xF4CA), (0x8964, 0xC4B0),
    (0x8966, 0xF4CB), (0x8969, 0xF649)] @
   [(0x896A, 0xC4FB), (0x896B, 0xF64B), (0x896C, 0xC4FC), (0x896D, 0xF648), (0x896E, 0xF64A), (0x896F, 0xC5A8),
    (0x8971, 0xF752), (0x8972, 0xC5A7)]"

definition rev_cp950_40 :: "(nat \<times> nat) list" where
  "rev_cp950_40 =
   [(0x8973, 0xF7FD), (0x8974, 0xF7FC), (0x8976, 0xF7FB), (0x8979, 0xF948), (0x897A, 0xF949), (0x897B, 0xF94B),
    (0x897C, 0xF94A), (0x897E, 0xCA50)] @
   [(0x897F, 0xA6E8), (0x8981, 0xAD6E), (0x8982, 0xD7C5), (0x8983, 0xB5F7), (0x8985, 0xDFFA), (0x8986, 0xC2D0),
    (0x8988, 0xF2F2), (0x898B, 0xA8A3)] @
   [(0x898F, 0xB357), (0x8993, 0xB356), (0x8995, 0xDBD0), (0x8996, 0xB5F8), (0x8997, 0xDBD2), (0x8998, 0xDBD1),
    (0x899B, 0xDFFB), (0x899C, 0xB8D0)] @
   [(0x899D, 0xE443), (0x899E, 0xE446), (0x899F, 0xE445), (0x89A1, 0xE444), (0x89A2, 0xE7CE), (0x89A3, 0xE7D0),
    (0x89A4, 0xE7CF), (0x89A6, 0xBFCC)] @
   [(0x89AA, 0xBFCB), (0x89AC, 0xC1BB), (0x89AD, 0xEE79), (0x89AE, 0xEE7B), (0x89AF, 0xEE7A), (0x89B2, 0xC2D1),
    (0x89B6, 0xF2F4), (0x89B7, 0xF2F3)] @
   [(0x89B9, 0xF4CC), (0x89BA, 0xC4B1), (0x89BD, 0xC4FD), (0x89BE, 0xF754), (0x89BF, 0xF753), (0x89C0, 0xC65B),
    (0x89D2, 0xA8A4), (0x89D3, 0xD0AF)] @
   [(0x89D4, 0xAD6F), (0x89D5, 0xD7C8), (0x89D6, 0xD7C6), (0x89D9, 0xD7C7), (0x89DA, 0xDBD4), (0x89DB, 0xDBD5),
    (0x89DC, 0xE043), (0x89DD, 0xDBD3)] @
   [(0x89DF, 0xDFFC), (0x89E0, 0xE041), (0x89E1, 0xE040), (0x89E2, 0xE042), (0x89E3, 0xB8D1), (0x89E4, 0xDFFE),
    (0x89E5, 0xDFFD), (0x89E6, 0xE044)] @
   [(0x89E8, 0xE449), (0x89E9, 0xE447), (0x89EB, 0xE448), (0x89EC, 0xE7D3), (0x89ED, 0xE7D1), (0x89F0, 0xE7D2),
    (0x89F1, 0xEB7D), (0x89F2, 0xEE7C)] @
   [(0x89F3, 0xEE7D), (0x89F4, 0xC2D2), (0x89F6, 0xF2F5), (0x89F7, 0xF4CD), (0x89F8, 0xC4B2), (0x89FA, 0xF64C),
    (0x89FB, 0xF755), (0x89FC, 0xC5A9)] @
   [(0x89FE, 0xF7FE), (0x89FF, 0xF94C), (0x8A00, 0xA8A5), (0x8A02, 0xAD71), (0x8A03, 0xAD72), (0x8A04, 0xD0B0),
    (0x8A07, 0xD0B1), (0x8A08, 0xAD70)] @
   [(0x8A0A, 0xB054), (0x8A0C, 0xB052), (0x8A0E, 0xB051), (0x8A0F, 0xB058), (0x8A10, 0xB050), (0x8A11, 0xB059),
    (0x8A12, 0xD3DD), (0x8A13, 0xB056)] @
   [(0x8A15, 0xB053), (0x8A16, 0xB057), (0x8A17, 0xB055), (0x8A18, 0xB04F), (0x8A1B, 0xB35F), (0x8A1D, 0xB359),
    (0x8A1E, 0xD7CC), (0x8A1F, 0xB35E)] @
   [(0x8A22, 0xB360), (0x8A23, 0xB35A), (0x8A25, 0xB35B), (0x8A27, 0xD7CA), (0x8A2A, 0xB358), (0x8A2C, 0xD7CB),
    (0x8A2D, 0xB35D), (0x8A30, 0xD7C9)] @
   [(0x8A31, 0xB35C), (0x8A34, 0xB644), (0x8A36, 0xB646), (0x8A39, 0xDBD8), (0x8A3A, 0xB645), (0x8A3B, 0xB5F9),
    (0x8A3C, 0xB5FD), (0x8A3E, 0xB8E4)] @
   [(0x8A3F, 0xE049), (0x8A40, 0xDBDA), (0x8A41, 0xB5FE), (0x8A44, 0xDBDD), (0x8A45, 0xDBDE), (0x8A46, 0xB643),
    (0x8A48, 0xDBE0), (0x8A4A, 0xDBE2)] @
   [(0x8A4C, 0xDBE3), (0x8A4D, 0xDBD7), (0x8A4E, 0xDBD6), (0x8A4F, 0xDBE4), (0x8A50, 0xB642), (0x8A51, 0xDBE1),
    (0x8A52, 0xDBDF), (0x8A54, 0xB640)] @
   [(0x8A55, 0xB5FB), (0x8A56, 0xB647), (0x8A57, 0xDBDB), (0x8A58, 0xDBDC), (0x8A59, 0xDBD9), (0x8A5B, 0xB641),
    (0x8A5E, 0xB5FC), (0x8A60, 0xB5FA)] @
   [(0x8A61, 0xE048), (0x8A62, 0xB8DF), (0x8A63, 0xB8DA), (0x8A66, 0xB8D5), (0x8A68, 0xB8E5), (0x8A69, 0xB8D6),
    (0x8A6B, 0xB8D2), (0x8A6C, 0xB8E1)] @
   [(0x8A6D, 0xB8DE), (0x8A6E, 0xB8E0), (0x8A70, 0xB8D7), (0x8A71, 0xB8DC), (0x8A72, 0xB8D3), (0x8A73, 0xB8D4),
    (0x8A74, 0xE050), (0x8A75, 0xE04D)] @
   [(0x8A76, 0xE045), (0x8A77, 0xE04A), (0x8A79, 0xB8E2), (0x8A7A, 0xE051), (0x8A7B, 0xB8E3), (0x8A7C, 0xB8D9),
    (0x8A7F, 0xE047), (0x8A81, 0xE04F)] @
   [(0x8A82, 0xE04B), (0x8A83, 0xE04E), (0x8A84, 0xE04C), (0x8A85, 0xB8DD), (0x8A86, 0xE046), (0x8A87, 0xB8D8),
    (0x8A8B, 0xE44C), (0x8A8C, 0xBB78)] @
   [(0x8A8D, 0xBB7B), (0x8A8F, 0xE44E), (0x8A91, 0xBBA5), (0x8A92, 0xE44D), (0x8A93, 0xBB7D), (0x8A95, 0xBDCF),
    (0x8A96, 0xE44F), (0x8A98, 0xBBA4)] @
   [(0x8A99, 0xE44B), (0x8A9A, 0xBBA6), (0x8A9E, 0xBB79), (0x8AA0, 0xB8DB), (0x8AA1, 0xBB7C), (0x8AA3, 0xBB7A),
    (0x8AA4, 0xBB7E), (0x8AA5, 0xBBA2)] @
   [(0x8AA6, 0xBB77), (0x8AA7, 0xBBA7), (0x8AA8, 0xBBA3), (0x8AAA, 0xBBA1), (0x8AAB, 0xE44A), (0x8AB0, 0xBDD6),
    (0x8AB2, 0xBDD2), (0x8AB6, 0xBDD9)] @
   [(0x8AB8, 0xE7D6), (0x8AB9, 0xBDDA), (0x8ABA, 0xE7E2), (0x8ABB, 0xE7DB), (0x8ABC, 0xBDCB), (0x8ABD, 0xE7E3),
    (0x8ABE, 0xE7DD), (0x8ABF, 0xBDD5)] @
   [(0x8AC0, 0xE7DE), (0x8AC2, 0xBDD4), (0x8AC3, 0xE7E1), (0x8AC4, 0xBDCE), (0x8AC5, 0xE7DF), (0x8AC6, 0xE7D5),
    (0x8AC7, 0xBDCD), (0x8AC8, 0xEBAA)] @
   [(0x8AC9, 0xBDD3), (0x8ACB, 0xBDD0), (0x8ACD, 0xBDD8), (0x8ACF, 0xE7D4), (0x8AD1, 0xE7D8), (0x8AD2, 0xBDCC),
    (0x8AD3, 0xE7D7), (0x8AD4, 0xE7D9)] @
   [(0x8AD5, 0xE7DA), (0x8AD6, 0xBDD7), (0x8AD7, 0xE7DC), (0x8AD8, 0xE7E0), (0x8AD9, 0xE7E4), (0x8ADB, 0xBDDB),
    (0x8ADC, 0xBFD2), (0x8ADD, 0xEBA5)] @
   [(0x8ADE, 0xEBAB), (0x8ADF, 0xEBA8), (0x8AE0, 0xEB7E), (0x8AE1, 0xEBAC), (0x8AE2, 0xEBA1), (0x8AE4, 0xEBA7),
    (0x8AE6, 0xBFCD), (0x8AE7, 0xBFD3)] @
   [(0x8AE8, 0xEBAD), (0x8AEB, 0xBFCF), (0x8AED, 0xBFD9), (0x8AEE, 0xBFD4), (0x8AEF, 0xEBAF), (0x8AF0, 0xEBA9),
    (0x8AF1, 0xBFD0), (0x8AF2, 0xEBA2)] @
   [(0x8AF3, 0xBFDA), (0x8AF4, 0xEBA3), (0x8AF5, 0xEBA4), (0x8AF6, 0xBFDB), (0x8AF7, 0xBFD8), (0x8AF8, 0xBDD1),
    (0x8AFA, 0xBFCE), (0x8AFB, 0xEBB0)]"

definition rev_cp950_41 :: "(nat \<times> nat) list" where
  "rev_cp950_41 =
   [(0x8AFC, 0xBFDC), (0x8AFE, 0xBFD5), (0x8AFF, 0xEBAE), (0x8B00, 0xBFD1), (0x8B01, 0xBFD6), (0x8B02, 0xBFD7),
    (0x8B04, 0xC1C3), (0x8B05, 0xEEA4)] @
   [(0x8B06, 0xEEAD), (0x8B07, 0xEEAA), (0x8B08, 0xEEAC), (0x8B0A, 0xC1C0), (0x8B0B, 0xEEA5), (0x8B0D, 0xEEAB),
    (0x8B0E, 0xC1BC), (0x8B0F, 0xEEA7)] @
   [(0x8B10, 0xC1C4), (0x8B11, 0xEEA3), (0x8B12, 0xEEA8), (0x8B13, 0xEEAF), (0x8B14, 0xEBA6), (0x8B15, 0xEEA9),
    (0x8B16, 0xEEA2), (0x8B17, 0xC1BD)] @
   [(0x8B18, 0xEEA1), (0x8B19, 0xC1BE), (0x8B1A, 0xEEB0), (0x8B1B, 0xC1BF), (0x8B1C, 0xEEAE), (0x8B1D, 0xC1C2),
    (0x8B1E, 0xEE7E), (0x8B20, 0xC1C1)] @
   [(0x8B22, 0xEEA6), (0x8B23, 0xF0DC), (0x8B24, 0xF0EA), (0x8B25, 0xF0E5), (0x8B26, 0xF0E7), (0x8B27, 0xF0DB),
    (0x8B28, 0xC2D3), (0x8B2A, 0xF0DA)] @
   [(0x8B2B, 0xC2D6), (0x8B2C, 0xC2D5), (0x8B2E, 0xF0E9), (0x8B2F, 0xF0E1), (0x8B30, 0xF0DE), (0x8B31, 0xF0E4),
    (0x8B33, 0xF0DD), (0x8B35, 0xF0DF)] @
   [(0x8B36, 0xF0E8), (0x8B37, 0xF0E6), (0x8B39, 0xC2D4), (0x8B3A, 0xF0ED), (0x8B3B, 0xF0EB), (0x8B3C, 0xF0E2),
    (0x8B3D, 0xF0EC), (0x8B3E, 0xF0E3)] @
   [(0x8B40, 0xF2F9), (0x8B41, 0xC3CF), (0x8B42, 0xF341), (0x8B45, 0xF64F), (0x8B46, 0xC3D6), (0x8B47, 0xF0E0),
    (0x8B48, 0xF2F7), (0x8B49, 0xC3D2)] @
   [(0x8B4A, 0xF2F8), (0x8B4B, 0xF2FD), (0x8B4E, 0xC3D4), (0x8B4F, 0xC3D5), (0x8B50, 0xF2F6), (0x8B51, 0xF340),
    (0x8B52, 0xF342), (0x8B53, 0xF2FA)] @
   [(0x8B54, 0xF2FC), (0x8B55, 0xF2FE), (0x8B56, 0xF2FB), (0x8B57, 0xF343), (0x8B58, 0xC3D1), (0x8B59, 0xC3D7),
    (0x8B5A, 0xC3D3), (0x8B5C, 0xC3D0)] @
   [(0x8B5D, 0xF4D0), (0x8B5F, 0xC4B7), (0x8B60, 0xF4CE), (0x8B63, 0xF4D2), (0x8B65, 0xF4D3), (0x8B66, 0xC4B5),
    (0x8B67, 0xF4D4), (0x8B68, 0xF4D1)] @
   [(0x8B6A, 0xF4CF), (0x8B6B, 0xC4B8), (0x8B6C, 0xC4B4), (0x8B6D, 0xF4D5), (0x8B6F, 0xC4B6), (0x8B70, 0xC4B3),
    (0x8B74, 0xC4FE), (0x8B77, 0xC540)] @
   [(0x8B78, 0xF64E), (0x8B79, 0xF64D), (0x8B7A, 0xF650), (0x8B7B, 0xF651), (0x8B7D, 0xC541), (0x8B7E, 0xF756),
    (0x8B7F, 0xF75B), (0x8B80, 0xC5AA)] @
   [(0x8B82, 0xF758), (0x8B84, 0xF757), (0x8B85, 0xF75A), (0x8B86, 0xF759), (0x8B88, 0xF843), (0x8B8A, 0xC5DC),
    (0x8B8B, 0xF842), (0x8B8C, 0xF840)] @
   [(0x8B8E, 0xF841), (0x8B92, 0xC5FE), (0x8B93, 0xC5FD), (0x8B94, 0xF8C1), (0x8B95, 0xF8C2), (0x8B96, 0xC640),
    (0x8B98, 0xF94D), (0x8B99, 0xF94E)] @
   [(0x8B9A, 0xC667), (0x8B9C, 0xC66D), (0x8B9E, 0xF9A9), (0x8B9F, 0xF9C8), (0x8C37, 0xA8A6), (0x8C39, 0xD7CD),
    (0x8C3B, 0xD7CE), (0x8C3C, 0xE052)] @
   [(0x8C3D, 0xE450), (0x8C3E, 0xE7E5), (0x8C3F, 0xC1C6), (0x8C41, 0xC1C5), (0x8C42, 0xF0EE), (0x8C43, 0xF344),
    (0x8C45, 0xF844), (0x8C46, 0xA8A7)] @
   [(0x8C47, 0xD3DE), (0x8C48, 0xB05A), (0x8C49, 0xB361), (0x8C4A, 0xE054), (0x8C4B, 0xE053), (0x8C4C, 0xBDDC),
    (0x8C4D, 0xE7E6), (0x8C4E, 0xBDDD)] @
   [(0x8C4F, 0xEEB1), (0x8C50, 0xC2D7), (0x8C54, 0xC676), (0x8C55, 0xA8A8), (0x8C56, 0xCDCB), (0x8C57, 0xD3DF),
    (0x8C5A, 0xB362), (0x8C5C, 0xD7CF)] @
   [(0x8C5D, 0xD7D0), (0x8C5F, 0xDBE5), (0x8C61, 0xB648), (0x8C62, 0xB8E6), (0x8C64, 0xE056), (0x8C65, 0xE055),
    (0x8C66, 0xE057), (0x8C68, 0xE451)] @
   [(0x8C69, 0xE452), (0x8C6A, 0xBBA8), (0x8C6B, 0xBFDD), (0x8C6C, 0xBDDE), (0x8C6D, 0xBFDE), (0x8C6F, 0xEEB5),
    (0x8C70, 0xEEB2), (0x8C71, 0xEEB4)] @
   [(0x8C72, 0xEEB3), (0x8C73, 0xC1C7), (0x8C75, 0xF0EF), (0x8C76, 0xF346), (0x8C77, 0xF345), (0x8C78, 0xCBA4),
    (0x8C79, 0xB05C), (0x8C7A, 0xB05B)] @
   [(0x8C7B, 0xD3E0), (0x8C7D, 0xD7D1), (0x8C80, 0xDBE7), (0x8C81, 0xDBE6), (0x8C82, 0xB649), (0x8C84, 0xE059),
    (0x8C85, 0xE05A), (0x8C86, 0xE058)] @
   [(0x8C89, 0xB8E8), (0x8C8A, 0xB8E7), (0x8C8C, 0xBBAA), (0x8C8D, 0xBBA9), (0x8C8F, 0xE7E7), (0x8C90, 0xEBB3),
    (0x8C91, 0xEBB1), (0x8C92, 0xEBB2)] @
   [(0x8C93, 0xBFDF), (0x8C94, 0xEEB7), (0x8C95, 0xEEB6), (0x8C97, 0xF0F2), (0x8C98, 0xF0F1), (0x8C99, 0xF0F0),
    (0x8C9A, 0xF347), (0x8C9C, 0xF9AA)] @
   [(0x8C9D, 0xA8A9), (0x8C9E, 0xAD73), (0x8CA0, 0xAD74), (0x8CA1, 0xB05D), (0x8CA2, 0xB05E), (0x8CA3, 0xD3E2),
    (0x8CA4, 0xD3E1), (0x8CA5, 0xD7D2)] @
   [(0x8CA7, 0xB368), (0x8CA8, 0xB366), (0x8CA9, 0xB363), (0x8CAA, 0xB367), (0x8CAB, 0xB365), (0x8CAC, 0xB364),
    (0x8CAF, 0xB64A), (0x8CB0, 0xDBEA)] @
   [(0x8CB2, 0xB8ED), (0x8CB3, 0xB64C), (0x8CB4, 0xB651), (0x8CB5, 0xDBEC), (0x8CB6, 0xB653), (0x8CB7, 0xB652),
    (0x8CB8, 0xB655), (0x8CB9, 0xDBEB)] @
   [(0x8CBA, 0xDBE8), (0x8CBB, 0xB64F), (0x8CBC, 0xB64B), (0x8CBD, 0xB64D), (0x8CBE, 0xDBE9), (0x8CBF, 0xB654),
    (0x8CC0, 0xB650), (0x8CC1, 0xB64E)] @
   [(0x8CC2, 0xB8EF), (0x8CC3, 0xB8EE), (0x8CC4, 0xB8EC), (0x8CC5, 0xB8F0), (0x8CC7, 0xB8EA), (0x8CC8, 0xB8EB),
    (0x8CCA, 0xB8E9), (0x8CCC, 0xE05B)] @
   [(0x8CCF, 0xE454), (0x8CD1, 0xBBAC), (0x8CD2, 0xBBAD), (0x8CD3, 0xBBAB), (0x8CD5, 0xE453), (0x8CD7, 0xE455),
    (0x8CD9, 0xE7EA), (0x8CDA, 0xE7EC)] @
   [(0x8CDC, 0xBDE7), (0x8CDD, 0xE7ED), (0x8CDE, 0xBDE0), (0x8CDF, 0xE7E9), (0x8CE0, 0xBDDF), (0x8CE1, 0xBDE9),
    (0x8CE2, 0xBDE5), (0x8CE3, 0xBDE6)]"

definition rev_cp950_42 :: "(nat \<times> nat) list" where
  "rev_cp950_42 =
   [(0x8CE4, 0xBDE2), (0x8CE5, 0xE7E8), (0x8CE6, 0xBDE1), (0x8CE7, 0xE7EE), (0x8CE8, 0xE7EB), (0x8CEA, 0xBDE8),
    (0x8CEC, 0xBDE3), (0x8CED, 0xBDE4)] @
   [(0x8CEE, 0xEBB5), (0x8CF0, 0xEBB7), (0x8CF1, 0xEBB6), (0x8CF3, 0xEBB8), (0x8CF4, 0xBFE0), (0x8CF5, 0xEBB4),
    (0x8CF8, 0xC1CB), (0x8CF9, 0xEEB8)] @
   [(0x8CFA, 0xC1C8), (0x8CFB, 0xC1CC), (0x8CFC, 0xC1CA), (0x8CFD, 0xC1C9), (0x8CFE, 0xF0F3), (0x8D00, 0xF0F6),
    (0x8D02, 0xF0F5), (0x8D04, 0xF0F4)] @
   [(0x8D05, 0xC2D8), (0x8D06, 0xF348), (0x8D07, 0xF349), (0x8D08, 0xC3D8), (0x8D09, 0xF34A), (0x8D0A, 0xC3D9),
    (0x8D0D, 0xC4BA), (0x8D0F, 0xC4B9)] @
   [(0x8D10, 0xF652), (0x8D13, 0xC542), (0x8D14, 0xF653), (0x8D15, 0xF75C), (0x8D16, 0xC5AB), (0x8D17, 0xC5AC),
    (0x8D19, 0xF845), (0x8D1B, 0xC642)] @
   [(0x8D64, 0xA8AA), (0x8D66, 0xB36A), (0x8D67, 0xB369), (0x8D68, 0xE05C), (0x8D69, 0xE05D), (0x8D6B, 0xBBAE),
    (0x8D6C, 0xEBB9), (0x8D6D, 0xBDEA)] @
   [(0x8D6E, 0xEBBA), (0x8D6F, 0xEEB9), (0x8D70, 0xA8AB), (0x8D72, 0xD0B2), (0x8D73, 0xAD76), (0x8D74, 0xAD75),
    (0x8D76, 0xD3E3), (0x8D77, 0xB05F)] @
   [(0x8D78, 0xD3E4), (0x8D79, 0xD7D5), (0x8D7B, 0xD7D4), (0x8D7D, 0xD7D3), (0x8D80, 0xDBEE), (0x8D81, 0xB658),
    (0x8D84, 0xDBED), (0x8D85, 0xB657)] @
   [(0x8D89, 0xDBEF), (0x8D8A, 0xB656), (0x8D8C, 0xE05F), (0x8D8D, 0xE062), (0x8D8E, 0xE060), (0x8D8F, 0xE061),
    (0x8D90, 0xE065), (0x8D91, 0xE05E)] @
   [(0x8D92, 0xE066), (0x8D93, 0xE063), (0x8D94, 0xE064), (0x8D95, 0xBBB0), (0x8D96, 0xE456), (0x8D99, 0xBBAF),
    (0x8D9B, 0xE7F2), (0x8D9C, 0xE7F0)] @
   [(0x8D9F, 0xBDEB), (0x8DA0, 0xE7EF), (0x8DA1, 0xE7F1), (0x8DA3, 0xBDEC), (0x8DA5, 0xEBBB), (0x8DA7, 0xEBBC),
    (0x8DA8, 0xC1CD), (0x8DAA, 0xF34C)] @
   [(0x8DAB, 0xF34E), (0x8DAC, 0xF34B), (0x8DAD, 0xF34D), (0x8DAE, 0xF4D6), (0x8DAF, 0xF654), (0x8DB2, 0xF96F),
    (0x8DB3, 0xA8AC), (0x8DB4, 0xAD77)] @
   [(0x8DB5, 0xD3E5), (0x8DB6, 0xD3E7), (0x8DB7, 0xD3E6), (0x8DB9, 0xD7D8), (0x8DBA, 0xB36C), (0x8DBC, 0xD7D6),
    (0x8DBE, 0xB36B), (0x8DBF, 0xD7D9)] @
   [(0x8DC1, 0xD7DA), (0x8DC2, 0xD7D7), (0x8DC5, 0xDBFB), (0x8DC6, 0xB660), (0x8DC7, 0xDBF3), (0x8DC8, 0xDBF9),
    (0x8DCB, 0xB65B), (0x8DCC, 0xB65E)] @
   [(0x8DCD, 0xDBF2), (0x8DCE, 0xB659), (0x8DCF, 0xDBF6), (0x8DD0, 0xE06C), (0x8DD1, 0xB65D), (0x8DD3, 0xDBF1),
    (0x8DD5, 0xDBF7), (0x8DD6, 0xDBF4)] @
   [(0x8DD7, 0xDBFA), (0x8DD8, 0xDBF0), (0x8DD9, 0xDBF8), (0x8DDA, 0xB65C), (0x8DDB, 0xB65F), (0x8DDC, 0xDBF5),
    (0x8DDD, 0xB65A), (0x8DDF, 0xB8F2)] @
   [(0x8DE0, 0xE068), (0x8DE1, 0xB8F1), (0x8DE2, 0xE06F), (0x8DE3, 0xE06E), (0x8DE4, 0xB8F8), (0x8DE6, 0xB8F9),
    (0x8DE7, 0xE070), (0x8DE8, 0xB8F3)] @
   [(0x8DE9, 0xE06D), (0x8DEA, 0xB8F7), (0x8DEB, 0xE072), (0x8DEC, 0xE069), (0x8DEE, 0xE06B), (0x8DEF, 0xB8F4),
    (0x8DF0, 0xE067), (0x8DF1, 0xE06A)] @
   [(0x8DF2, 0xE071), (0x8DF3, 0xB8F5), (0x8DF4, 0xE073), (0x8DFA, 0xB8F6), (0x8DFC, 0xBBB1), (0x8DFD, 0xE45B),
    (0x8DFE, 0xE461), (0x8DFF, 0xE459)] @
   [(0x8E00, 0xE462), (0x8E02, 0xE458), (0x8E03, 0xE45D), (0x8E04, 0xE463), (0x8E05, 0xE460), (0x8E06, 0xE45F),
    (0x8E07, 0xE45E), (0x8E09, 0xE457)] @
   [(0x8E0A, 0xE45C), (0x8E0D, 0xE45A), (0x8E0F, 0xBDF1), (0x8E10, 0xBDEE), (0x8E11, 0xE7FB), (0x8E12, 0xE841),
    (0x8E13, 0xE843), (0x8E14, 0xE840)] @
   [(0x8E15, 0xE7F8), (0x8E16, 0xE7FA), (0x8E17, 0xE845), (0x8E18, 0xE842), (0x8E19, 0xE7FC), (0x8E1A, 0xE846),
    (0x8E1B, 0xE7F9), (0x8E1C, 0xE844)] @
   [(0x8E1D, 0xBDEF), (0x8E1E, 0xBDF5), (0x8E1F, 0xBDF3), (0x8E20, 0xE7F3), (0x8E21, 0xBDF4), (0x8E22, 0xBDF0),
    (0x8E23, 0xE7F4), (0x8E24, 0xE7F6)] @
   [(0x8E25, 0xE7F5), (0x8E26, 0xE7FD), (0x8E27, 0xE7FE), (0x8E29, 0xBDF2), (0x8E2B, 0xBDED), (0x8E2E, 0xE7F7),
    (0x8E30, 0xEBC6), (0x8E31, 0xBFE2)] @
   [(0x8E33, 0xEBBD), (0x8E34, 0xBFE3), (0x8E35, 0xBFE6), (0x8E36, 0xEBC2), (0x8E38, 0xEBBF), (0x8E39, 0xBFE5),
    (0x8E3C, 0xEBC3), (0x8E3D, 0xEBC4)] @
   [(0x8E3E, 0xEBBE), (0x8E3F, 0xEBC7), (0x8E40, 0xEBC0), (0x8E41, 0xEBC5), (0x8E42, 0xBFE4), (0x8E44, 0xBFE1),
    (0x8E45, 0xEBC1), (0x8E47, 0xEEBF)] @
   [(0x8E48, 0xC1D0), (0x8E49, 0xC1CE), (0x8E4A, 0xC1D1), (0x8E4B, 0xC1CF), (0x8E4C, 0xEEBE), (0x8E4D, 0xEEBB),
    (0x8E4E, 0xEEBA), (0x8E50, 0xEEBD)] @
   [(0x8E53, 0xEEBC), (0x8E54, 0xF145), (0x8E55, 0xC2DE), (0x8E56, 0xF0FB), (0x8E57, 0xF0FA), (0x8E59, 0xC2D9),
    (0x8E5A, 0xF141), (0x8E5B, 0xF140)] @
   [(0x8E5C, 0xF0F7), (0x8E5D, 0xF143), (0x8E5E, 0xF0FC), (0x8E5F, 0xC2DD), (0x8E60, 0xF0F9), (0x8E61, 0xF142),
    (0x8E62, 0xF0F8), (0x8E63, 0xC2DA)] @
   [(0x8E64, 0xC2DC), (0x8E65, 0xF0FD), (0x8E66, 0xC2DB), (0x8E67, 0xF0FE), (0x8E69, 0xF144), (0x8E6A, 0xF352),
    (0x8E6C, 0xC3DE), (0x8E6D, 0xF34F)] @
   [(0x8E6F, 0xF353), (0x8E72, 0xC3DB), (0x8E73, 0xF351), (0x8E74, 0xC3E0), (0x8E76, 0xC3DD), (0x8E78, 0xF350),
    (0x8E7A, 0xC3DF), (0x8E7B, 0xF354)] @
   [(0x8E7C, 0xC3DA), (0x8E81, 0xC4BC), (0x8E82, 0xC4BE), (0x8E84, 0xF4D9), (0x8E85, 0xC4BD), (0x8E86, 0xF4D7),
    (0x8E87, 0xC3DC), (0x8E88, 0xF4D8)]"

definition rev_cp950_43 :: "(nat \<times> nat) list" where
  "rev_cp950_43 =
   [(0x8E89, 0xC4BB), (0x8E8A, 0xC543), (0x8E8B, 0xC545), (0x8E8C, 0xF656), (0x8E8D, 0xC544), (0x8E8E, 0xF655),
    (0x8E90, 0xF761), (0x8E91, 0xC5AD)] @
   [(0x8E92, 0xF760), (0x8E93, 0xC5AE), (0x8E94, 0xF75E), (0x8E95, 0xF75D), (0x8E96, 0xF762), (0x8E97, 0xF763),
    (0x8E98, 0xF846), (0x8E9A, 0xF75F)] @
   [(0x8E9D, 0xF8C6), (0x8E9E, 0xF8C3), (0x8E9F, 0xF8C4), (0x8EA0, 0xF8C5), (0x8EA1, 0xC65C), (0x8EA3, 0xF951),
    (0x8EA4, 0xF950), (0x8EA5, 0xF94F)] @
   [(0x8EA6, 0xF970), (0x8EA8, 0xF9BE), (0x8EA9, 0xF9AB), (0x8EAA, 0xC66E), (0x8EAB, 0xA8AD), (0x8EAC, 0xB060),
    (0x8EB2, 0xB8FA), (0x8EBA, 0xBDF6)] @
   [(0x8EBD, 0xEBC8), (0x8EC0, 0xC2DF), (0x8EC2, 0xF355), (0x8EC9, 0xF9AC), (0x8ECA, 0xA8AE), (0x8ECB, 0xAAEE),
    (0x8ECC, 0xAD79), (0x8ECD, 0xAD78)] @
   [(0x8ECF, 0xB063), (0x8ED1, 0xD3E8), (0x8ED2, 0xB061), (0x8ED3, 0xD3E9), (0x8ED4, 0xB062), (0x8ED7, 0xD7DF),
    (0x8ED8, 0xD7DB), (0x8EDB, 0xB36D)] @
   [(0x8EDC, 0xD7DE), (0x8EDD, 0xD7DD), (0x8EDE, 0xD7DC), (0x8EDF, 0xB36E), (0x8EE0, 0xD7E0), (0x8EE1, 0xD7E1),
    (0x8EE5, 0xDC43), (0x8EE6, 0xDC41)] @
   [(0x8EE7, 0xDC45), (0x8EE8, 0xDC46), (0x8EE9, 0xDC4C), (0x8EEB, 0xDC48), (0x8EEC, 0xDC4A), (0x8EEE, 0xDC42),
    (0x8EEF, 0xDBFC), (0x8EF1, 0xDC49)] @
   [(0x8EF4, 0xDC4B), (0x8EF5, 0xDC44), (0x8EF6, 0xDC47), (0x8EF7, 0xDBFD), (0x8EF8, 0xB662), (0x8EF9, 0xDC40),
    (0x8EFA, 0xDBFE), (0x8EFB, 0xB661)] @
   [(0x8EFC, 0xB663), (0x8EFE, 0xB8FD), (0x8EFF, 0xE075), (0x8F00, 0xE077), (0x8F01, 0xE076), (0x8F02, 0xE07B),
    (0x8F03, 0xB8FB), (0x8F05, 0xE078)] @
   [(0x8F06, 0xE074), (0x8F07, 0xE079), (0x8F08, 0xE07A), (0x8F09, 0xB8FC), (0x8F0A, 0xB8FE), (0x8F0B, 0xE07C),
    (0x8F0D, 0xE467), (0x8F0E, 0xE466)] @
   [(0x8F10, 0xE464), (0x8F11, 0xE465), (0x8F12, 0xBBB3), (0x8F13, 0xBBB5), (0x8F14, 0xBBB2), (0x8F15, 0xBBB4),
    (0x8F16, 0xE84D), (0x8F17, 0xE84E)] @
   [(0x8F18, 0xE849), (0x8F1A, 0xE84A), (0x8F1B, 0xBDF8), (0x8F1C, 0xBDFD), (0x8F1D, 0xBDF7), (0x8F1E, 0xBDFE),
    (0x8F1F, 0xBDF9), (0x8F20, 0xE84B)] @
   [(0x8F23, 0xE84C), (0x8F24, 0xE848), (0x8F25, 0xBE40), (0x8F26, 0xBDFB), (0x8F29, 0xBDFA), (0x8F2A, 0xBDFC),
    (0x8F2C, 0xE847), (0x8F2E, 0xEBCA)] @
   [(0x8F2F, 0xBFE8), (0x8F32, 0xEBCC), (0x8F33, 0xBFEA), (0x8F34, 0xEBCF), (0x8F35, 0xEBCB), (0x8F36, 0xEBC9),
    (0x8F37, 0xEBCE), (0x8F38, 0xBFE9)] @
   [(0x8F39, 0xEBCD), (0x8F3B, 0xBFE7), (0x8F3E, 0xC1D3), (0x8F3F, 0xC1D6), (0x8F40, 0xEEC1), (0x8F42, 0xC1D4),
    (0x8F43, 0xEEC0), (0x8F44, 0xC1D2)] @
   [(0x8F45, 0xC1D5), (0x8F46, 0xF146), (0x8F47, 0xF147), (0x8F48, 0xF148), (0x8F49, 0xC2E0), (0x8F4B, 0xF149),
    (0x8F4D, 0xC2E1), (0x8F4E, 0xC3E2)] @
   [(0x8F4F, 0xF358), (0x8F50, 0xF359), (0x8F51, 0xF357), (0x8F52, 0xF356), (0x8F53, 0xF35A), (0x8F54, 0xC3E1),
    (0x8F55, 0xF4DD), (0x8F56, 0xF4DB)] @
   [(0x8F57, 0xF4DC), (0x8F58, 0xF4DE), (0x8F59, 0xF4DA), (0x8F5A, 0xF4DF), (0x8F5B, 0xF658), (0x8F5D, 0xF659),
    (0x8F5E, 0xF657), (0x8F5F, 0xC546)] @
   [(0x8F60, 0xF764), (0x8F61, 0xC5AF), (0x8F62, 0xF765), (0x8F63, 0xF848), (0x8F64, 0xF847), (0x8F9B, 0xA8AF),
    (0x8F9C, 0xB664), (0x8F9F, 0xB940)] @
   [(0x8FA3, 0xBBB6), (0x8FA6, 0xBFEC), (0x8FA8, 0xBFEB), (0x8FAD, 0xC3E3), (0x8FAE, 0xC47C), (0x8FAF, 0xC547),
    (0x8FB0, 0xA8B0), (0x8FB1, 0xB064)] @
   [(0x8FB2, 0xB941), (0x8FB4, 0xF35B), (0x8FBF, 0xCBA6), (0x8FC2, 0xA8B1), (0x8FC4, 0xA8B4), (0x8FC5, 0xA8B3),
    (0x8FC6, 0xA8B2), (0x8FC9, 0xCBA5)] @
   [(0x8FCB, 0xCDCD), (0x8FCD, 0xCDCF), (0x8FCE, 0xAAEF), (0x8FD1, 0xAAF1), (0x8FD2, 0xCDCC), (0x8FD3, 0xCDCE),
    (0x8FD4, 0xAAF0), (0x8FD5, 0xCDD1)] @
   [(0x8FD6, 0xCDD0), (0x8FD7, 0xCDD2), (0x8FE0, 0xD0B6), (0x8FE1, 0xD0B4), (0x8FE2, 0xAD7C), (0x8FE3, 0xD0B3),
    (0x8FE4, 0xADA3), (0x8FE5, 0xAD7E)] @
   [(0x8FE6, 0xAD7B), (0x8FE8, 0xADA4), (0x8FEA, 0xAD7D), (0x8FEB, 0xADA2), (0x8FED, 0xADA1), (0x8FEE, 0xD0B5),
    (0x8FF0, 0xAD7A), (0x8FF4, 0xB06A)] @
   [(0x8FF5, 0xD3EB), (0x8FF6, 0xD3F1), (0x8FF7, 0xB067), (0x8FF8, 0xB06E), (0x8FFA, 0xB069), (0x8FFB, 0xD3EE),
    (0x8FFC, 0xD3F0), (0x8FFD, 0xB06C)] @
   [(0x8FFE, 0xD3EA), (0x8FFF, 0xD3ED), (0x9000, 0xB068), (0x9001, 0xB065), (0x9002, 0xD3EC), (0x9003, 0xB06B),
    (0x9004, 0xD3EF), (0x9005, 0xB06D)] @
   [(0x9006, 0xB066), (0x900B, 0xD7E3), (0x900C, 0xD7E6), (0x900D, 0xB370), (0x900F, 0xB37A), (0x9010, 0xB376),
    (0x9011, 0xD7E4), (0x9014, 0xB37E)] @
   [(0x9015, 0xB377), (0x9016, 0xB37C), (0x9017, 0xB372), (0x9019, 0xB36F), (0x901A, 0xB371), (0x901B, 0xB37D),
    (0x901C, 0xD7E5), (0x901D, 0xB375)] @
   [(0x901E, 0xB378), (0x901F, 0xB374), (0x9020, 0xB379), (0x9021, 0xD7E7), (0x9022, 0xB37B), (0x9023, 0xB373),
    (0x9024, 0xD7E2), (0x902D, 0xDC4D)] @
   [(0x902E, 0xB665), (0x902F, 0xDC4F), (0x9031, 0xB667), (0x9032, 0xB669), (0x9034, 0xDC4E), (0x9035, 0xB666),
    (0x9036, 0xB66A), (0x9038, 0xB668)] @
   [(0x903C, 0xB947), (0x903D, 0xE0A3), (0x903E, 0xB94F), (0x903F, 0xE07E), (0x9041, 0xB950), (0x9042, 0xB945),
    (0x9044, 0xE0A1), (0x9047, 0xB94A)]"

definition rev_cp950_44 :: "(nat \<times> nat) list" where
  "rev_cp950_44 =
   [(0x9049, 0xE0A2), (0x904A, 0xB943), (0x904B, 0xB942), (0x904D, 0xB94D), (0x904E, 0xB94C), (0x904F, 0xB94B),
    (0x9050, 0xB949), (0x9051, 0xB94E)] @
   [(0x9052, 0xE07D), (0x9053, 0xB944), (0x9054, 0xB946), (0x9055, 0xB948), (0x9058, 0xBBB8), (0x9059, 0xBBBB),
    (0x905B, 0xBBBF), (0x905C, 0xBBB9)] @
   [(0x905D, 0xBBBE), (0x905E, 0xBBBC), (0x9060, 0xBBB7), (0x9062, 0xBBBD), (0x9063, 0xBBBA), (0x9067, 0xE852),
    (0x9068, 0xBE43), (0x9069, 0xBE41)] @
   [(0x906B, 0xE853), (0x906D, 0xBE44), (0x906E, 0xBE42), (0x906F, 0xE851), (0x9070, 0xE850), (0x9072, 0xBFF0),
    (0x9073, 0xE84F), (0x9074, 0xBFEE)] @
   [(0x9075, 0xBFED), (0x9076, 0xEBD0), (0x9077, 0xBE45), (0x9078, 0xBFEF), (0x9079, 0xEBD1), (0x907A, 0xBFF2),
    (0x907B, 0xEBD2), (0x907C, 0xBFF1)] @
   [(0x907D, 0xC1D8), (0x907E, 0xEEC3), (0x907F, 0xC1D7), (0x9080, 0xC1DC), (0x9081, 0xC1DA), (0x9082, 0xC1DB),
    (0x9083, 0xC2E3), (0x9084, 0xC1D9)] @
   [(0x9085, 0xEEC2), (0x9086, 0xEBD3), (0x9087, 0xC2E2), (0x9088, 0xC2E4), (0x908A, 0xC3E4), (0x908B, 0xC3E5),
    (0x908D, 0xF4E0), (0x908F, 0xC5DE)] @
   [(0x9090, 0xC5DD), (0x9091, 0xA8B6), (0x9094, 0xCA55), (0x9095, 0xB06F), (0x9097, 0xCA52), (0x9098, 0xCA53),
    (0x9099, 0xCA51), (0x909B, 0xCA54)] @
   [(0x909E, 0xCBAA), (0x909F, 0xCBA7), (0x90A0, 0xCBAC), (0x90A1, 0xCBA8), (0x90A2, 0xA8B7), (0x90A3, 0xA8BA),
    (0x90A5, 0xCBA9), (0x90A6, 0xA8B9)] @
   [(0x90A7, 0xCBAB), (0x90AA, 0xA8B8), (0x90AF, 0xCDD5), (0x90B0, 0xCDD7), (0x90B1, 0xAAF4), (0x90B2, 0xCDD3),
    (0x90B3, 0xCDD6), (0x90B4, 0xCDD4)] @
   [(0x90B5, 0xAAF2), (0x90B6, 0xAAF5), (0x90B8, 0xAAF3), (0x90BD, 0xD0B8), (0x90BE, 0xD0BC), (0x90BF, 0xD0B9),
    (0x90C1, 0xADA7), (0x90C3, 0xADA8)] @
   [(0x90C5, 0xD0BB), (0x90C7, 0xD0BD), (0x90C8, 0xD0BF), (0x90CA, 0xADA5), (0x90CB, 0xD0BE), (0x90CE, 0xADA6),
    (0x90D4, 0xD7EE), (0x90D5, 0xD0BA)] @
   [(0x90D6, 0xD3F2), (0x90D7, 0xD3FB), (0x90D8, 0xD3F9), (0x90D9, 0xD3F4), (0x90DA, 0xD3F5), (0x90DB, 0xD3FA),
    (0x90DC, 0xD3FC), (0x90DD, 0xB071)] @
   [(0x90DF, 0xD3F7), (0x90E0, 0xD3F3), (0x90E1, 0xB070), (0x90E2, 0xB072), (0x90E3, 0xD3F6), (0x90E4, 0xD3FD),
    (0x90E5, 0xD3F8), (0x90E8, 0xB3A1)] @
   [(0x90E9, 0xD7F1), (0x90EA, 0xD7E9), (0x90EB, 0xD7EF), (0x90EC, 0xD7F0), (0x90ED, 0xB3A2), (0x90EF, 0xD7E8),
    (0x90F0, 0xD7EA), (0x90F1, 0xD0B7)] @
   [(0x90F2, 0xD7EC), (0x90F3, 0xD7ED), (0x90F4, 0xD7EB), (0x90F5, 0xB66C), (0x90F9, 0xDC56), (0x90FA, 0xEBD4),
    (0x90FB, 0xDC57), (0x90FC, 0xDC54)] @
   [(0x90FD, 0xB3A3), (0x90FE, 0xB66E), (0x90FF, 0xDC53), (0x9100, 0xDC59), (0x9101, 0xDC58), (0x9102, 0xB66B),
    (0x9103, 0xDC5C), (0x9104, 0xDC52)] @
   [(0x9105, 0xDC5B), (0x9106, 0xDC50), (0x9107, 0xDC5A), (0x9108, 0xDC55), (0x9109, 0xB66D), (0x910B, 0xE0AA),
    (0x910D, 0xE0A5), (0x910E, 0xE0AB)] @
   [(0x910F, 0xE0A6), (0x9110, 0xE0A4), (0x9111, 0xE0A7), (0x9112, 0xB951), (0x9114, 0xE0A9), (0x9116, 0xE0A8),
    (0x9117, 0xB952), (0x9118, 0xBBC1)] @
   [(0x9119, 0xBBC0), (0x911A, 0xE46E), (0x911B, 0xE471), (0x911C, 0xE469), (0x911D, 0xE46D), (0x911E, 0xBBC2),
    (0x911F, 0xE46C), (0x9120, 0xE46A)] @
   [(0x9121, 0xE470), (0x9122, 0xE46B), (0x9123, 0xE468), (0x9124, 0xE46F), (0x9126, 0xE859), (0x9127, 0xBE48),
    (0x9128, 0xF14A), (0x9129, 0xE856)] @
   [(0x912A, 0xE857), (0x912B, 0xE855), (0x912C, 0xDC51), (0x912D, 0xBE47), (0x912E, 0xE85A), (0x912F, 0xE854),
    (0x9130, 0xBE46), (0x9131, 0xBE49)] @
   [(0x9132, 0xE858), (0x9133, 0xEBD5), (0x9134, 0xBFF3), (0x9135, 0xEBD6), (0x9136, 0xEBD7), (0x9138, 0xEEC4),
    (0x9139, 0xC1DD), (0x913A, 0xF14B)] @
   [(0x913B, 0xF14C), (0x913E, 0xF14D), (0x913F, 0xF35D), (0x9140, 0xF35C), (0x9141, 0xF4E2), (0x9143, 0xF4E1),
    (0x9144, 0xF65B), (0x9145, 0xF65C)] @
   [(0x9146, 0xF65A), (0x9147, 0xF766), (0x9148, 0xC5B0), (0x9149, 0xA8BB), (0x914A, 0xADAA), (0x914B, 0xADA9),
    (0x914C, 0xB075), (0x914D, 0xB074)] @
   [(0x914E, 0xD440), (0x914F, 0xD441), (0x9150, 0xD3FE), (0x9152, 0xB073), (0x9153, 0xD7F5), (0x9155, 0xD7F6),
    (0x9156, 0xD7F2), (0x9157, 0xB3A4)] @
   [(0x9158, 0xD7F3), (0x915A, 0xD7F4), (0x915F, 0xDC5F), (0x9160, 0xDC61), (0x9161, 0xDC5D), (0x9162, 0xDC60),
    (0x9163, 0xB66F), (0x9164, 0xDC5E)] @
   [(0x9165, 0xB670), (0x9168, 0xDD73), (0x9169, 0xB955), (0x916A, 0xB954), (0x916C, 0xB953), (0x916E, 0xE0AC),
    (0x916F, 0xE0AD), (0x9172, 0xE473)] @
   [(0x9173, 0xE475), (0x9174, 0xBBC6), (0x9175, 0xBBC3), (0x9177, 0xBBC5), (0x9178, 0xBBC4), (0x9179, 0xE474),
    (0x917A, 0xE472), (0x9180, 0xE861)] @
   [(0x9181, 0xE85E), (0x9182, 0xE85F), (0x9183, 0xBE4D), (0x9184, 0xE860), (0x9185, 0xE85B), (0x9186, 0xE85C),
    (0x9187, 0xBE4A), (0x9189, 0xBE4B)] @
   [(0x918A, 0xE85D), (0x918B, 0xBE4C), (0x918D, 0xEBDB), (0x918F, 0xEBDC), (0x9190, 0xEBD9), (0x9191, 0xEBDA),
    (0x9192, 0xBFF4), (0x9193, 0xEBD8)] @
   [(0x9199, 0xEEC8), (0x919A, 0xEEC5), (0x919B, 0xEEC7), (0x919C, 0xC1E0), (0x919D, 0xEECB), (0x919E, 0xC1DF),
    (0x919F, 0xEEC9), (0x91A0, 0xEECC)]"

definition rev_cp950_45 :: "(nat \<times> nat) list" where
  "rev_cp950_45 =
   [(0x91A1, 0xEECA), (0x91A2, 0xEEC6), (0x91A3, 0xC1DE), (0x91A5, 0xF14F), (0x91A7, 0xF150), (0x91A8, 0xF14E),
    (0x91AA, 0xF152), (0x91AB, 0xC2E5)] @
   [(0x91AC, 0xC2E6), (0x91AD, 0xF35F), (0x91AE, 0xC3E7), (0x91AF, 0xF151), (0x91B0, 0xF35E), (0x91B1, 0xC3E6),
    (0x91B2, 0xF4E5), (0x91B3, 0xF4E6)] @
   [(0x91B4, 0xC4BF), (0x91B5, 0xF4E4), (0x91B7, 0xF4E3), (0x91B9, 0xF65D), (0x91BA, 0xC548), (0x91BC, 0xF849),
    (0x91BD, 0xF8C8), (0x91BE, 0xF8C7)] @
   [(0x91C0, 0xC643), (0x91C1, 0xC65D), (0x91C2, 0xF8C9), (0x91C3, 0xF971), (0x91C5, 0xC66F), (0x91C6, 0xA8BC),
    (0x91C7, 0xAAF6), (0x91C9, 0xB956)] @
   [(0x91CB, 0xC4C0), (0x91CC, 0xA8BD), (0x91CD, 0xADAB), (0x91CE, 0xB3A5), (0x91CF, 0xB671), (0x91D0, 0xC2E7),
    (0x91D1, 0xAAF7), (0x91D3, 0xD0C1)] @
   [(0x91D4, 0xD0C0), (0x91D5, 0xD442), (0x91D7, 0xB078), (0x91D8, 0xB076), (0x91D9, 0xB07A), (0x91DA, 0xD444),
    (0x91DC, 0xB079), (0x91DD, 0xB077)] @
   [(0x91E2, 0xD443), (0x91E3, 0xB3A8), (0x91E4, 0xD7FC), (0x91E6, 0xB3A7), (0x91E7, 0xB3A9), (0x91E8, 0xD842),
    (0x91E9, 0xB3AB), (0x91EA, 0xD7FE)] @
   [(0x91EB, 0xD840), (0x91EC, 0xD7F7), (0x91ED, 0xB3AA), (0x91EE, 0xD843), (0x91F1, 0xD7F9), (0x91F3, 0xD7FA),
    (0x91F4, 0xD7F8), (0x91F5, 0xB3A6)] @
   [(0x91F7, 0xD841), (0x91F8, 0xD7FB), (0x91F9, 0xD7FD), (0x91FD, 0xDC6D), (0x91FF, 0xDC6C), (0x9200, 0xDC6A),
    (0x9201, 0xDC62), (0x9202, 0xDC71)] @
   [(0x9203, 0xDC65), (0x9204, 0xDC6F), (0x9205, 0xDC76), (0x9206, 0xDC6E), (0x9207, 0xB679), (0x9209, 0xB675),
    (0x920A, 0xDC63), (0x920C, 0xDC69)] @
   [(0x920D, 0xB677), (0x920F, 0xDC68), (0x9210, 0xB678), (0x9211, 0xB67A), (0x9212, 0xDC6B), (0x9214, 0xB672),
    (0x9215, 0xB673), (0x9216, 0xDC77)] @
   [(0x9217, 0xDC75), (0x9219, 0xDC74), (0x921A, 0xDC66), (0x921C, 0xDC72), (0x921E, 0xB676), (0x9223, 0xB674),
    (0x9224, 0xDC73), (0x9225, 0xDC64)] @
   [(0x9226, 0xDC67), (0x9227, 0xDC70), (0x922D, 0xE4BA), (0x922E, 0xE0B7), (0x9230, 0xE0B0), (0x9231, 0xE0C3),
    (0x9232, 0xE0CC), (0x9233, 0xE0B3)] @
   [(0x9234, 0xB961), (0x9236, 0xE0C0), (0x9237, 0xB957), (0x9238, 0xB959), (0x9239, 0xB965), (0x923A, 0xE0B1),
    (0x923D, 0xB95A), (0x923E, 0xB95C)] @
   [(0x923F, 0xB966), (0x9240, 0xB95B), (0x9245, 0xB964), (0x9246, 0xE0B9), (0x9248, 0xE0AE), (0x9249, 0xB962),
    (0x924A, 0xE0B8), (0x924B, 0xB95E)] @
   [(0x924C, 0xE0CA), (0x924D, 0xB963), (0x924E, 0xE0C8), (0x924F, 0xE0BC), (0x9250, 0xE0C6), (0x9251, 0xB960),
    (0x9252, 0xE0AF), (0x9253, 0xE0C9)] @
   [(0x9254, 0xE0C4), (0x9256, 0xE0CB), (0x9257, 0xB958), (0x925A, 0xB967), (0x925B, 0xB95D), (0x925E, 0xE0B5),
    (0x9260, 0xE0BD), (0x9261, 0xE0C1)] @
   [(0x9263, 0xE0C5), (0x9264, 0xB95F), (0x9265, 0xE0B4), (0x9266, 0xE0B2), (0x9267, 0xE0BE), (0x926C, 0xE0BB),
    (0x926D, 0xE0BA), (0x926F, 0xE0BF)] @
   [(0x9270, 0xE0C2), (0x9272, 0xE0C7), (0x9276, 0xE478), (0x9278, 0xBBC7), (0x9279, 0xE4A4), (0x927A, 0xE47A),
    (0x927B, 0xBBCC), (0x927C, 0xBBD0)] @
   [(0x927D, 0xE4AD), (0x927E, 0xE4B5), (0x927F, 0xE4A6), (0x9280, 0xBBC8), (0x9282, 0xE4AA), (0x9283, 0xE0B6),
    (0x9285, 0xBBC9), (0x9286, 0xE4B1)] @
   [(0x9287, 0xE4B6), (0x9288, 0xE4AE), (0x928A, 0xE4B0), (0x928B, 0xE4B9), (0x928C, 0xE4B2), (0x928D, 0xE47E),
    (0x928E, 0xE4A9), (0x9291, 0xBBD1)] @
   [(0x9293, 0xBBCD), (0x9294, 0xE47C), (0x9295, 0xE4AB), (0x9296, 0xBBCB), (0x9297, 0xE4A5), (0x9298, 0xBBCA),
    (0x9299, 0xE4B3), (0x929A, 0xE4A2)] @
   [(0x929B, 0xE479), (0x929C, 0xBBCE), (0x929D, 0xE4B8), (0x92A0, 0xE47B), (0x92A1, 0xE4AF), (0x92A2, 0xE4AC),
    (0x92A3, 0xE4A7), (0x92A4, 0xE477)] @
   [(0x92A5, 0xE476), (0x92A6, 0xE4A1), (0x92A7, 0xE4B4), (0x92A8, 0xBBCF), (0x92A9, 0xE4B7), (0x92AA, 0xE47D),
    (0x92AB, 0xE4A3), (0x92AC, 0xBE52)] @
   [(0x92B2, 0xBE5A), (0x92B3, 0xBE55), (0x92B4, 0xE8A4), (0x92B5, 0xE8A1), (0x92B6, 0xE867), (0x92B7, 0xBE50),
    (0x92B9, 0xF9D7), (0x92BB, 0xBE4F)] @
   [(0x92BC, 0xBE56), (0x92C0, 0xE865), (0x92C1, 0xBE54), (0x92C2, 0xE871), (0x92C3, 0xE863), (0x92C4, 0xE864),
    (0x92C5, 0xBE4E), (0x92C6, 0xE8A3)] @
   [(0x92C7, 0xBE58), (0x92C8, 0xE874), (0x92C9, 0xE879), (0x92CA, 0xE873), (0x92CB, 0xEBEE), (0x92CC, 0xE86F),
    (0x92CD, 0xE877), (0x92CE, 0xE875)] @
   [(0x92CF, 0xE868), (0x92D0, 0xE862), (0x92D1, 0xE87D), (0x92D2, 0xBE57), (0x92D3, 0xE87E), (0x92D5, 0xE878),
    (0x92D7, 0xE86D), (0x92D8, 0xE86B)] @
   [(0x92D9, 0xE866), (0x92DD, 0xE86E), (0x92DE, 0xE87B), (0x92DF, 0xE86A), (0x92E0, 0xE87A), (0x92E1, 0xE8A2),
    (0x92E4, 0xBE53), (0x92E6, 0xE876)] @
   [(0x92E7, 0xE87C), (0x92E8, 0xE872), (0x92E9, 0xE86C), (0x92EA, 0xBE51), (0x92EE, 0xE4A8), (0x92EF, 0xE870),
    (0x92F0, 0xBE59), (0x92F1, 0xE869)] @
   [(0x92F7, 0xEBF4), (0x92F8, 0xBFF7), (0x92F9, 0xEBF3), (0x92FA, 0xEBF0), (0x92FB, 0xEC44), (0x92FC, 0xBFFB),
    (0x92FE, 0xEC41), (0x92FF, 0xEBF8)] @
   [(0x9300, 0xEC43), (0x9301, 0xEBE9), (0x9302, 0xEBF6), (0x9304, 0xBFFD), (0x9306, 0xEBE1), (0x9308, 0xEBDF),
    (0x9309, 0xEC42), (0x930B, 0xEC40)]"

definition rev_cp950_46 :: "(nat \<times> nat) list" where
  "rev_cp950_46 =
   [(0x930C, 0xEBFE), (0x930D, 0xEBED), (0x930E, 0xEBEC), (0x930F, 0xEBE2), (0x9310, 0xC040), (0x9312, 0xEBE8),
    (0x9313, 0xEBF2), (0x9314, 0xEBFD)] @
   [(0x9315, 0xC043), (0x9316, 0xEC45), (0x9318, 0xC1E8), (0x9319, 0xC045), (0x931A, 0xBFFE), (0x931B, 0xEBE6),
    (0x931D, 0xEBEF), (0x931E, 0xEBDE)] @
   [(0x931F, 0xEBE0), (0x9320, 0xBFF5), (0x9321, 0xC042), (0x9322, 0xBFFA), (0x9323, 0xEBE7), (0x9324, 0xEBF7),
    (0x9325, 0xEBF1), (0x9326, 0xC041)] @
   [(0x9327, 0xEBDD), (0x9328, 0xC1E3), (0x9329, 0xEBF9), (0x932A, 0xEBFC), (0x932B, 0xBFFC), (0x932D, 0xEBEB),
    (0x932E, 0xC044), (0x932F, 0xBFF9)] @
   [(0x9333, 0xBFF8), (0x9334, 0xEBF5), (0x9335, 0xEBFB), (0x9336, 0xBFF6), (0x9338, 0xEBE4), (0x9339, 0xEBFA),
    (0x933C, 0xEBE5), (0x9346, 0xEBEA)] @
   [(0x9347, 0xEED2), (0x9349, 0xEED7), (0x934A, 0xC1E5), (0x934B, 0xC1E7), (0x934C, 0xEEDD), (0x934D, 0xC1E1),
    (0x934E, 0xEEEC), (0x934F, 0xEEE3)] @
   [(0x9350, 0xEED8), (0x9351, 0xEED9), (0x9352, 0xEEE2), (0x9354, 0xC1EE), (0x9355, 0xEEE1), (0x9356, 0xEED1),
    (0x9357, 0xEEE0), (0x9358, 0xEED4)] @
   [(0x9359, 0xEEED), (0x935A, 0xC1ED), (0x935B, 0xC1EB), (0x935C, 0xEED5), (0x935E, 0xEEE8), (0x9360, 0xEEDA),
    (0x9361, 0xEEE7), (0x9363, 0xEEE9)] @
   [(0x9364, 0xEED0), (0x9365, 0xC1E6), (0x9367, 0xEEEA), (0x936A, 0xEEDE), (0x936C, 0xC1EA), (0x936D, 0xEEDB),
    (0x9370, 0xC1EC), (0x9371, 0xEEE4)] @
   [(0x9375, 0xC1E4), (0x9376, 0xEED6), (0x9377, 0xEEE5), (0x9379, 0xEEDF), (0x937A, 0xEBE3), (0x937B, 0xEEE6),
    (0x937C, 0xEED3), (0x937E, 0xC1E9)] @
   [(0x9380, 0xEEEB), (0x9382, 0xC1E2), (0x9383, 0xEECE), (0x9388, 0xF160), (0x9389, 0xF159), (0x938A, 0xC2E9),
    (0x938C, 0xF154), (0x938D, 0xF163)] @
   [(0x938E, 0xF15B), (0x938F, 0xEEDC), (0x9391, 0xF165), (0x9392, 0xF155), (0x9394, 0xC2E8), (0x9395, 0xF15F),
    (0x9396, 0xC2EA), (0x9397, 0xC2F2)] @
   [(0x9398, 0xC2F0), (0x9399, 0xF161), (0x939A, 0xC2F1), (0x939B, 0xF157), (0x939D, 0xF158), (0x939E, 0xF15D),
    (0x939F, 0xF162), (0x93A1, 0xEECD)] @
   [(0x93A2, 0xC2EB), (0x93A3, 0xF16A), (0x93A4, 0xF167), (0x93A5, 0xF16B), (0x93A6, 0xF15E), (0x93A7, 0xF15A),
    (0x93A8, 0xF168), (0x93A9, 0xF36A)] @
   [(0x93AA, 0xF15C), (0x93AC, 0xC2EE), (0x93AE, 0xC2ED), (0x93AF, 0xEECF), (0x93B0, 0xC2EF), (0x93B1, 0xF164),
    (0x93B2, 0xF166), (0x93B3, 0xC2EC)] @
   [(0x93B4, 0xF169), (0x93B5, 0xF153), (0x93B7, 0xF156), (0x93C0, 0xF373), (0x93C2, 0xF363), (0x93C3, 0xC3EB),
    (0x93C4, 0xF371), (0x93C7, 0xF361)] @
   [(0x93C8, 0xC3EC), (0x93CA, 0xF36C), (0x93CC, 0xF368), (0x93CD, 0xC3F1), (0x93CE, 0xF372), (0x93CF, 0xF362),
    (0x93D0, 0xF365), (0x93D1, 0xC3E9)] @
   [(0x93D2, 0xF374), (0x93D4, 0xF36D), (0x93D5, 0xF370), (0x93D6, 0xC3EF), (0x93D7, 0xC3F4), (0x93D8, 0xC3F2),
    (0x93D9, 0xF369), (0x93DA, 0xF364)] @
   [(0x93DC, 0xC3ED), (0x93DD, 0xC3EE), (0x93DE, 0xF360), (0x93DF, 0xC3EA), (0x93E1, 0xC3E8), (0x93E2, 0xC3F0),
    (0x93E3, 0xF36F), (0x93E4, 0xC3F3)] @
   [(0x93E6, 0xF36B), (0x93E7, 0xF375), (0x93E8, 0xC3F5), (0x93EC, 0xF367), (0x93EE, 0xF36E), (0x93F5, 0xF4F3),
    (0x93F6, 0xF542), (0x93F7, 0xF4F5)] @
   [(0x93F8, 0xF4FC), (0x93F9, 0xF366), (0x93FA, 0xF4FA), (0x93FB, 0xF4E9), (0x93FC, 0xF540), (0x93FD, 0xC4C3),
    (0x93FE, 0xF4ED), (0x93FF, 0xF4FE)] @
   [(0x9400, 0xF4F4), (0x9403, 0xC4C2), (0x9406, 0xF544), (0x9407, 0xF4F6), (0x9409, 0xF4FB), (0x940A, 0xF4FD),
    (0x940B, 0xF4E7), (0x940C, 0xF541)] @
   [(0x940D, 0xF4F2), (0x940E, 0xF4F7), (0x940F, 0xF4EB), (0x9410, 0xF4EF), (0x9411, 0xF543), (0x9412, 0xF4F9),
    (0x9413, 0xF4E8), (0x9414, 0xF4EC)] @
   [(0x9415, 0xF4EE), (0x9416, 0xF4F8), (0x9418, 0xC4C1), (0x9419, 0xF4F1), (0x9420, 0xF4EA), (0x9428, 0xF4F0),
    (0x9429, 0xF661), (0x942A, 0xF666)] @
   [(0x942B, 0xC54F), (0x942C, 0xF668), (0x942E, 0xC549), (0x9430, 0xF664), (0x9431, 0xF66A), (0x9432, 0xC54E),
    (0x9433, 0xC54A), (0x9435, 0xC54B)] @
   [(0x9436, 0xF660), (0x9437, 0xF667), (0x9438, 0xC54D), (0x9439, 0xF665), (0x943A, 0xC54C), (0x943B, 0xF65F),
    (0x943C, 0xF663), (0x943D, 0xF662)] @
   [(0x943F, 0xF65E), (0x9440, 0xF669), (0x9444, 0xC5B1), (0x9445, 0xF76D), (0x9446, 0xF770), (0x9447, 0xF76C),
    (0x9448, 0xF76E), (0x9449, 0xF76F)] @
   [(0x944A, 0xF769), (0x944B, 0xF76A), (0x944C, 0xF767), (0x944F, 0xF76B), (0x9450, 0xF768), (0x9451, 0xC5B2),
    (0x9452, 0xC5B3), (0x9455, 0xF84B)] @
   [(0x9457, 0xF84D), (0x945D, 0xF84C), (0x945E, 0xF84E), (0x9460, 0xC5E0), (0x9462, 0xF84A), (0x9463, 0xC5DF),
    (0x9464, 0xC5E1), (0x9468, 0xF8CB)] @
   [(0x9469, 0xF8CC), (0x946A, 0xC644), (0x946B, 0xF8CA), (0x946D, 0xF953), (0x946E, 0xF952), (0x946F, 0xF954),
    (0x9470, 0xC65F), (0x9471, 0xF955)] @
   [(0x9472, 0xC65E), (0x9473, 0xF956), (0x9474, 0xF972), (0x9475, 0xF975), (0x9476, 0xF974), (0x9477, 0xC668),
    (0x9478, 0xF973), (0x947C, 0xC672)] @
   [(0x947D, 0xC670), (0x947E, 0xC671), (0x947F, 0xC677), (0x9480, 0xF9C0), (0x9481, 0xF9C1), (0x9482, 0xF9BF),
    (0x9483, 0xF9C9), (0x9577, 0xAAF8)]"

definition rev_cp950_47 :: "(nat \<times> nat) list" where
  "rev_cp950_47 =
   [(0x957A, 0xD844), (0x957B, 0xDC78), (0x957C, 0xE8A5), (0x957D, 0xF376), (0x9580, 0xAAF9), (0x9582, 0xADAC),
    (0x9583, 0xB07B), (0x9586, 0xD845)] @
   [(0x9588, 0xD846), (0x9589, 0xB3AC), (0x958B, 0xB67D), (0x958C, 0xDC7A), (0x958D, 0xDC79), (0x958E, 0xB6A3),
    (0x958F, 0xB67C), (0x9590, 0xDC7B)] @
   [(0x9591, 0xB67E), (0x9592, 0xB6A2), (0x9593, 0xB6A1), (0x9594, 0xB67B), (0x9598, 0xB968), (0x959B, 0xE0D0),
    (0x959C, 0xE0CE), (0x959E, 0xE0CF)] @
   [(0x959F, 0xE0CD), (0x95A1, 0xBBD2), (0x95A3, 0xBBD5), (0x95A4, 0xBBD7), (0x95A5, 0xBBD6), (0x95A8, 0xBBD3),
    (0x95A9, 0xBBD4), (0x95AB, 0xE8A7)] @
   [(0x95AC, 0xE8A6), (0x95AD, 0xBE5B), (0x95AE, 0xE8A8), (0x95B0, 0xE8A9), (0x95B1, 0xBE5C), (0x95B5, 0xEC4D),
    (0x95B6, 0xEC4B), (0x95B7, 0xEEF3)] @
   [(0x95B9, 0xEC49), (0x95BA, 0xEC4A), (0x95BB, 0xC046), (0x95BC, 0xEC46), (0x95BD, 0xEC4E), (0x95BE, 0xEC48),
    (0x95BF, 0xEC4C), (0x95C0, 0xEEEF)] @
   [(0x95C3, 0xEEF1), (0x95C5, 0xEEF2), (0x95C6, 0xC1F3), (0x95C7, 0xEEEE), (0x95C8, 0xC1F2), (0x95C9, 0xEEF0),
    (0x95CA, 0xC1EF), (0x95CB, 0xC1F0)] @
   [(0x95CC, 0xC1F1), (0x95CD, 0xEC47), (0x95D0, 0xC2F5), (0x95D1, 0xF16E), (0x95D2, 0xF16C), (0x95D3, 0xF16D),
    (0x95D4, 0xC2F3), (0x95D5, 0xC2F6)] @
   [(0x95D6, 0xC2F4), (0x95DA, 0xF377), (0x95DB, 0xF378), (0x95DC, 0xC3F6), (0x95DE, 0xF545), (0x95DF, 0xF547),
    (0x95E0, 0xF546), (0x95E1, 0xC4C4)] @
   [(0x95E2, 0xC550), (0x95E3, 0xF66D), (0x95E4, 0xF66C), (0x95E5, 0xF66B), (0x961C, 0xAAFA), (0x961E, 0xC9AA),
    (0x9620, 0xCA58), (0x9621, 0xA6E9)] @
   [(0x9622, 0xCA56), (0x9623, 0xCA59), (0x9624, 0xCA57), (0x9628, 0xCBAE), (0x962A, 0xA8C1), (0x962C, 0xA8C2),
    (0x962D, 0xCBB0), (0x962E, 0xA8BF)] @
   [(0x962F, 0xCBAF), (0x9630, 0xCBAD), (0x9631, 0xA8C0), (0x9632, 0xA8BE), (0x9639, 0xCDD8), (0x963A, 0xCDDB),
    (0x963B, 0xAAFD), (0x963C, 0xCDDA)] @
   [(0x963D, 0xCDD9), (0x963F, 0xAAFC), (0x9640, 0xAAFB), (0x9642, 0xAB40), (0x9643, 0xCDDC), (0x9644, 0xAAFE),
    (0x964A, 0xD0C6), (0x964B, 0xADAE)] @
   [(0x964C, 0xADAF), (0x964D, 0xADB0), (0x964E, 0xD0C7), (0x964F, 0xD0C3), (0x9650, 0xADAD), (0x9651, 0xD0C4),
    (0x9653, 0xD0C5), (0x9654, 0xD0C2)] @
   [(0x9658, 0xB0A4), (0x965B, 0xB0A1), (0x965C, 0xD445), (0x965D, 0xB0A2), (0x965E, 0xB0A5), (0x965F, 0xD446),
    (0x9661, 0xB07E), (0x9662, 0xB07C)] @
   [(0x9663, 0xB07D), (0x9664, 0xB0A3), (0x966A, 0xB3AD), (0x966B, 0xD849), (0x966C, 0xB3B5), (0x966D, 0xD848),
    (0x966F, 0xD84B), (0x9670, 0xB3B1)] @
   [(0x9671, 0xD84A), (0x9672, 0xB6AB), (0x9673, 0xB3AF), (0x9674, 0xB3B2), (0x9675, 0xB3AE), (0x9676, 0xB3B3),
    (0x9677, 0xB3B4), (0x9678, 0xB3B0)] @
   [(0x967C, 0xD847), (0x967D, 0xB6A7), (0x967E, 0xDC7D), (0x9680, 0xDCA3), (0x9683, 0xDCA2), (0x9684, 0xB6AC),
    (0x9685, 0xB6A8), (0x9686, 0xB6A9)] @
   [(0x9687, 0xDC7C), (0x9688, 0xDC7E), (0x9689, 0xDCA1), (0x968A, 0xB6A4), (0x968B, 0xB6A6), (0x968D, 0xB6AA),
    (0x968E, 0xB6A5), (0x9691, 0xE0D3)] @
   [(0x9692, 0xE0D1), (0x9693, 0xE0D2), (0x9694, 0xB96A), (0x9695, 0xB96B), (0x9697, 0xE0D4), (0x9698, 0xB969),
    (0x9699, 0xBBD8), (0x969B, 0xBBDA)] @
   [(0x969C, 0xBBD9), (0x969E, 0xE4BB), (0x96A1, 0xE4BC), (0x96A2, 0xE8AB), (0x96A4, 0xE8AA), (0x96A7, 0xC047),
    (0x96A8, 0xC048), (0x96A9, 0xEC4F)] @
   [(0x96AA, 0xC049), (0x96AC, 0xEEF6), (0x96AE, 0xEEF4), (0x96B0, 0xEEF5), (0x96B1, 0xC1F4), (0x96B3, 0xF16F),
    (0x96B4, 0xC3F7), (0x96B8, 0xC1F5)] @
   [(0x96B9, 0xAB41), (0x96BB, 0xB0A6), (0x96BC, 0xD447), (0x96BF, 0xD84C), (0x96C0, 0xB3B6), (0x96C1, 0xB6AD),
    (0x96C2, 0xDCA4), (0x96C3, 0xDCA6)] @
   [(0x96C4, 0xB6AF), (0x96C5, 0xB6AE), (0x96C6, 0xB6B0), (0x96C7, 0xB6B1), (0x96C8, 0xDCA5), (0x96C9, 0xB96E),
    (0x96CA, 0xB96F), (0x96CB, 0xB96D)] @
   [(0x96CC, 0xBBDB), (0x96CD, 0xB96C), (0x96CE, 0xE0D5), (0x96D2, 0xBBDC), (0x96D3, 0xE8AC), (0x96D4, 0xEC50),
    (0x96D5, 0xC04A), (0x96D6, 0xC1F6)] @
   [(0x96D7, 0xF170), (0x96D8, 0xF174), (0x96D9, 0xC2F9), (0x96DA, 0xF171), (0x96DB, 0xC2FA), (0x96DC, 0xC2F8),
    (0x96DD, 0xF175), (0x96DE, 0xC2FB)] @
   [(0x96DF, 0xF173), (0x96E1, 0xF379), (0x96E2, 0xC2F7), (0x96E3, 0xC3F8), (0x96E5, 0xF8CD), (0x96E8, 0xAB42),
    (0x96E9, 0xB3B8), (0x96EA, 0xB3B7)] @
   [(0x96EF, 0xB6B2), (0x96F0, 0xDCA8), (0x96F1, 0xDCA7), (0x96F2, 0xB6B3), (0x96F5, 0xE0D9), (0x96F6, 0xB973),
    (0x96F7, 0xB970), (0x96F8, 0xE0D8)] @
   [(0x96F9, 0xB972), (0x96FA, 0xE0D6), (0x96FB, 0xB971), (0x96FD, 0xE0D7), (0x96FF, 0xE4BD), (0x9700, 0xBBDD),
    (0x9702, 0xE8AF), (0x9704, 0xBE5D)] @
   [(0x9705, 0xE8AD), (0x9706, 0xBE5E), (0x9707, 0xBE5F), (0x9708, 0xE8AE), (0x9709, 0xBE60), (0x970B, 0xEC51),
    (0x970D, 0xC04E), (0x970E, 0xC04B)] @
   [(0x970F, 0xC050), (0x9710, 0xEC53), (0x9711, 0xC04C), (0x9712, 0xEC52), (0x9713, 0xC04F), (0x9716, 0xC04D),
    (0x9718, 0xEEF9), (0x9719, 0xEEFB)] @
   [(0x971C, 0xC1F7), (0x971D, 0xEEFA), (0x971E, 0xC1F8), (0x971F, 0xEEF8), (0x9720, 0xEEF7), (0x9722, 0xF177),
    (0x9723, 0xF176), (0x9724, 0xC2FC)]"

definition rev_cp950_48 :: "(nat \<times> nat) list" where
  "rev_cp950_48 =
   [(0x9725, 0xF178), (0x9726, 0xF37E), (0x9727, 0xC3FA), (0x9728, 0xF37D), (0x9729, 0xF37A), (0x972A, 0xC3F9),
    (0x972B, 0xF37B), (0x972C, 0xF37C)] @
   [(0x972E, 0xF548), (0x972F, 0xF549), (0x9730, 0xC4C5), (0x9732, 0xC553), (0x9735, 0xF66E), (0x9738, 0xC551),
    (0x9739, 0xC552), (0x973A, 0xF66F)] @
   [(0x973D, 0xC5B4), (0x973E, 0xC5B5), (0x973F, 0xF771), (0x9742, 0xC645), (0x9743, 0xF8CF), (0x9744, 0xC647),
    (0x9746, 0xF8CE), (0x9747, 0xF8D0)] @
   [(0x9748, 0xC646), (0x9749, 0xF957), (0x974B, 0xF9AD), (0x9752, 0xAB43), (0x9756, 0xB974), (0x9758, 0xE4BE),
    (0x975A, 0xE8B0), (0x975B, 0xC051)] @
   [(0x975C, 0xC052), (0x975E, 0xAB44), (0x9760, 0xBE61), (0x9761, 0xC3FB), (0x9762, 0xADB1), (0x9766, 0xC053),
    (0x9768, 0xC5E2), (0x9769, 0xADB2)] @
   [(0x976A, 0xD84D), (0x976C, 0xDCA9), (0x976E, 0xDCAB), (0x9770, 0xDCAA), (0x9772, 0xE0DD), (0x9773, 0xE0DA),
    (0x9774, 0xB975), (0x9776, 0xB976)] @
   [(0x9777, 0xE0DB), (0x9778, 0xE0DC), (0x977A, 0xE4C0), (0x977B, 0xE4C5), (0x977C, 0xBBDE), (0x977D, 0xE4BF),
    (0x977E, 0xE4C1), (0x977F, 0xE4C8)] @
   [(0x9780, 0xE4C3), (0x9781, 0xE4C7), (0x9782, 0xE4C4), (0x9783, 0xE4C2), (0x9784, 0xE4C6), (0x9785, 0xBBDF),
    (0x9788, 0xE8B3), (0x978A, 0xE8B1)] @
   [(0x978B, 0xBE63), (0x978D, 0xBE62), (0x978E, 0xE8B2), (0x978F, 0xBE64), (0x9794, 0xEC56), (0x9797, 0xEC55),
    (0x9798, 0xC054), (0x9799, 0xEC54)] @
   [(0x979A, 0xEEFC), (0x979C, 0xEEFE), (0x979D, 0xEF41), (0x979E, 0xEF40), (0x97A0, 0xC1F9), (0x97A1, 0xEEFD),
    (0x97A2, 0xF1A1), (0x97A3, 0xC2FD)] @
   [(0x97A4, 0xF17D), (0x97A5, 0xF1A2), (0x97A6, 0xC2FE), (0x97A8, 0xF17B), (0x97AA, 0xF17E), (0x97AB, 0xF17C),
    (0x97AC, 0xF179), (0x97AD, 0xC340)] @
   [(0x97AE, 0xF17A), (0x97B3, 0xF3A1), (0x97B6, 0xF3A3), (0x97B7, 0xF3A2), (0x97B9, 0xF54A), (0x97BB, 0xF54B),
    (0x97BF, 0xF670), (0x97C1, 0xC5B7)] @
   [(0x97C3, 0xC5B6), (0x97C4, 0xF84F), (0x97C5, 0xF850), (0x97C6, 0xC648), (0x97C7, 0xF8D1), (0x97C9, 0xC669),
    (0x97CB, 0xADB3), (0x97CC, 0xB6B4)] @
   [(0x97CD, 0xE4CA), (0x97CE, 0xE4C9), (0x97CF, 0xE8B5), (0x97D0, 0xE8B4), (0x97D3, 0xC1FA), (0x97D4, 0xEF43),
    (0x97D5, 0xEF42), (0x97D6, 0xF1A5)] @
   [(0x97D7, 0xF1A3), (0x97D8, 0xF1A6), (0x97D9, 0xF1A4), (0x97DC, 0xC3FC), (0x97DD, 0xF3A4), (0x97DE, 0xF3A5),
    (0x97DF, 0xF3A6), (0x97E1, 0xF671)] @
   [(0x97E3, 0xF772), (0x97E5, 0xF8D2), (0x97ED, 0xADB4), (0x97F0, 0xEC57), (0x97F1, 0xEF44), (0x97F3, 0xADB5),
    (0x97F6, 0xBBE0), (0x97F8, 0xEC58)] @
   [(0x97F9, 0xC341), (0x97FA, 0xF1A7), (0x97FB, 0xC3FD), (0x97FD, 0xF54C), (0x97FE, 0xF54D), (0x97FF, 0xC554),
    (0x9800, 0xF851), (0x9801, 0xADB6)] @
   [(0x9802, 0xB3BB), (0x9803, 0xB3BC), (0x9804, 0xD84E), (0x9805, 0xB6B5), (0x9806, 0xB6B6), (0x9807, 0xDCAC),
    (0x9808, 0xB6B7), (0x980A, 0xB97A)] @
   [(0x980C, 0xB97C), (0x980D, 0xE0DF), (0x980E, 0xE0E0), (0x980F, 0xE0DE), (0x9810, 0xB977), (0x9811, 0xB978),
    (0x9812, 0xB97B), (0x9813, 0xB979)] @
   [(0x9816, 0xE4CB), (0x9817, 0xBBE1), (0x9818, 0xBBE2), (0x981B, 0xE8BC), (0x981C, 0xBE67), (0x981D, 0xE8B7),
    (0x981E, 0xE8B6), (0x9820, 0xE8BB)] @
   [(0x9821, 0xBE65), (0x9824, 0xC05B), (0x9826, 0xE8B8), (0x9827, 0xE8BD), (0x9828, 0xE8BA), (0x9829, 0xE8B9),
    (0x982B, 0xBE66), (0x982D, 0xC059)] @
   [(0x982F, 0xEC5A), (0x9830, 0xC055), (0x9832, 0xEC5B), (0x9835, 0xEC59), (0x9837, 0xC058), (0x9838, 0xC056),
    (0x9839, 0xC05A), (0x983B, 0xC057)] @
   [(0x9841, 0xEF45), (0x9843, 0xEF4A), (0x9844, 0xEF46), (0x9845, 0xEF49), (0x9846, 0xC1FB), (0x9848, 0xEDD4),
    (0x9849, 0xEF48), (0x984A, 0xEF47)] @
   [(0x984C, 0xC344), (0x984D, 0xC342), (0x984E, 0xC345), (0x984F, 0xC343), (0x9850, 0xF1A8), (0x9851, 0xF1A9),
    (0x9852, 0xF1AA), (0x9853, 0xC346)] @
   [(0x9857, 0xF3AA), (0x9858, 0xC440), (0x9859, 0xF3A8), (0x985B, 0xC441), (0x985C, 0xF3A7), (0x985D, 0xF3A9),
    (0x985E, 0xC3FE), (0x985F, 0xF551)] @
   [(0x9860, 0xF54E), (0x9862, 0xF54F), (0x9863, 0xF550), (0x9864, 0xF672), (0x9865, 0xC556), (0x9867, 0xC555),
    (0x9869, 0xF774), (0x986A, 0xF773)] @
   [(0x986B, 0xC5B8), (0x986F, 0xC5E3), (0x9870, 0xC649), (0x9871, 0xC660), (0x9872, 0xF958), (0x9873, 0xF9AE),
    (0x9874, 0xF9AF), (0x98A8, 0xADB7)] @
   [(0x98A9, 0xDCAD), (0x98AC, 0xE0E1), (0x98AD, 0xE4CC), (0x98AE, 0xE4CD), (0x98AF, 0xBBE3), (0x98B1, 0xBBE4),
    (0x98B2, 0xE8BE), (0x98B3, 0xBE68)] @
   [(0x98B6, 0xC1FC), (0x98B8, 0xF1AB), (0x98BA, 0xC347), (0x98BB, 0xF3AD), (0x98BC, 0xC442), (0x98BD, 0xF3AC),
    (0x98BE, 0xF3AE), (0x98BF, 0xF3AB)] @
   [(0x98C0, 0xF675), (0x98C1, 0xF552), (0x98C2, 0xF553), (0x98C4, 0xC4C6), (0x98C6, 0xF674), (0x98C9, 0xF673),
    (0x98CB, 0xF775), (0x98CC, 0xF9B0)] @
   [(0x98DB, 0xADB8), (0x98DF, 0xADB9), (0x98E2, 0xB0A7), (0x98E3, 0xD448), (0x98E5, 0xD84F), (0x98E7, 0xB6B8),
    (0x98E9, 0xB6BB), (0x98EA, 0xB6B9)] @
   [(0x98EB, 0xDCAE), (0x98ED, 0xB6BD), (0x98EF, 0xB6BA), (0x98F2, 0xB6BC), (0x98F4, 0xB97E), (0x98F6, 0xE0E2),
    (0x98F9, 0xE0E3), (0x98FA, 0xE8C0)]"

definition rev_cp950_49 :: "(nat \<times> nat) list" where
  "rev_cp950_49 =
   [(0x98FC, 0xB97D), (0x98FD, 0xB9A1), (0x98FE, 0xB9A2), (0x9900, 0xE4CF), (0x9902, 0xE4CE), (0x9903, 0xBBE5),
    (0x9905, 0xBBE6), (0x9907, 0xE4D0)] @
   [(0x9908, 0xE8BF), (0x9909, 0xBBE8), (0x990A, 0xBE69), (0x990C, 0xBBE7), (0x9910, 0xC05C), (0x9911, 0xE8C1),
    (0x9912, 0xBE6B), (0x9913, 0xBE6A)] @
   [(0x9914, 0xE8C2), (0x9915, 0xE8C5), (0x9916, 0xE8C3), (0x9917, 0xE8C4), (0x9918, 0xBE6C), (0x991A, 0xC061),
    (0x991B, 0xC05F), (0x991E, 0xC05E)] @
   [(0x991F, 0xEC5D), (0x9921, 0xC060), (0x9924, 0xEC5C), (0x9925, 0xEF4B), (0x9927, 0xEC5E), (0x9928, 0xC05D),
    (0x9929, 0xEC5F), (0x992A, 0xEF4E)] @
   [(0x992B, 0xEF4C), (0x992C, 0xEF4D), (0x992D, 0xEF52), (0x992E, 0xC34B), (0x992F, 0xEF51), (0x9930, 0xEF54),
    (0x9931, 0xEF53), (0x9932, 0xEF50)] @
   [(0x9933, 0xEF4F), (0x9935, 0xC1FD), (0x993A, 0xF1AE), (0x993C, 0xF1AD), (0x993D, 0xC34A), (0x993E, 0xC348),
    (0x993F, 0xC349), (0x9941, 0xF1AC)] @
   [(0x9943, 0xF3B1), (0x9945, 0xC443), (0x9947, 0xF3B0), (0x9948, 0xF3AF), (0x9949, 0xC444), (0x994B, 0xF558),
    (0x994C, 0xF557), (0x994E, 0xF555)] @
   [(0x9950, 0xF554), (0x9951, 0xC4C8), (0x9952, 0xC4C7), (0x9953, 0xF559), (0x9954, 0xF776), (0x9955, 0xC5B9),
    (0x9956, 0xF677), (0x9957, 0xC557)] @
   [(0x9958, 0xF676), (0x9959, 0xF556), (0x995B, 0xF777), (0x995C, 0xC5E4), (0x995E, 0xC661), (0x995F, 0xF959),
    (0x9961, 0xF9B1), (0x9996, 0xADBA)] @
   [(0x9997, 0xD850), (0x9998, 0xEF55), (0x9999, 0xADBB), (0x999C, 0xE4D2), (0x999D, 0xE4D1), (0x999E, 0xEC60),
    (0x99A1, 0xEF57), (0x99A3, 0xEF56)] @
   [(0x99A5, 0xC34C), (0x99A6, 0xF3B2), (0x99A7, 0xF3B3), (0x99A8, 0xC4C9), (0x99AB, 0xF9B2), (0x99AC, 0xB0A8),
    (0x99AD, 0xB6BF), (0x99AE, 0xB6BE)] @
   [(0x99AF, 0xE0E4), (0x99B0, 0xE0E6), (0x99B1, 0xB9A4), (0x99B2, 0xE0E5), (0x99B3, 0xB9A3), (0x99B4, 0xB9A5),
    (0x99B5, 0xE0E7), (0x99B9, 0xE4D4)] @
   [(0x99BA, 0xE4D6), (0x99BB, 0xE4D5), (0x99BD, 0xE4D8), (0x99C1, 0xBBE9), (0x99C2, 0xE4D7), (0x99C3, 0xE4D3),
    (0x99C7, 0xE4D9), (0x99C9, 0xE8CC)] @
   [(0x99CB, 0xE8CF), (0x99CC, 0xE8D1), (0x99CD, 0xE8C7), (0x99CE, 0xE8CB), (0x99CF, 0xE8C8), (0x99D0, 0xBE6E),
    (0x99D1, 0xBE71), (0x99D2, 0xBE73)] @
   [(0x99D3, 0xE8C9), (0x99D4, 0xE8CA), (0x99D5, 0xBE72), (0x99D6, 0xE8CD), (0x99D7, 0xE8D0), (0x99D8, 0xE8CE),
    (0x99D9, 0xBE74), (0x99DB, 0xBE70)] @
   [(0x99DC, 0xE8C6), (0x99DD, 0xBE6D), (0x99DF, 0xBE6F), (0x99E2, 0xC063), (0x99E3, 0xEC66), (0x99E4, 0xEC64),
    (0x99E5, 0xEC63), (0x99E7, 0xEC69)] @
   [(0x99E9, 0xEC68), (0x99EA, 0xEC67), (0x99EC, 0xEC62), (0x99ED, 0xC062), (0x99EE, 0xEC61), (0x99F0, 0xEC65),
    (0x99F1, 0xC064), (0x99F4, 0xEF5A)] @
   [(0x99F6, 0xEF5E), (0x99F7, 0xEF5B), (0x99F8, 0xEF5D), (0x99F9, 0xEF5C), (0x99FA, 0xEF59), (0x99FB, 0xEF5F),
    (0x99FC, 0xEF62), (0x99FD, 0xEF60)] @
   [(0x99FE, 0xEF61), (0x99FF, 0xC240), (0x9A01, 0xC1FE), (0x9A02, 0xEF58), (0x9A03, 0xEF63), (0x9A04, 0xF1B3),
    (0x9A05, 0xF1B6), (0x9A06, 0xF1B8)] @
   [(0x9A07, 0xF1B7), (0x9A09, 0xF1B1), (0x9A0A, 0xF1B5), (0x9A0B, 0xF1B0), (0x9A0D, 0xF1B2), (0x9A0E, 0xC34D),
    (0x9A0F, 0xF1AF), (0x9A11, 0xF1B4)] @
   [(0x9A14, 0xF3C0), (0x9A15, 0xF3B5), (0x9A16, 0xC445), (0x9A19, 0xC446), (0x9A1A, 0xF3B4), (0x9A1B, 0xF3B9),
    (0x9A1C, 0xF3BF), (0x9A1D, 0xF3B7)] @
   [(0x9A1E, 0xF3BE), (0x9A20, 0xF3BB), (0x9A22, 0xF3BA), (0x9A23, 0xF3BD), (0x9A24, 0xF3B8), (0x9A25, 0xF3B6),
    (0x9A27, 0xF3BC), (0x9A29, 0xF560)] @
   [(0x9A2A, 0xF55E), (0x9A2B, 0xC4CA), (0x9A2C, 0xF55D), (0x9A2D, 0xF563), (0x9A2E, 0xF561), (0x9A30, 0xC4CB),
    (0x9A31, 0xF55C), (0x9A32, 0xF55A)] @
   [(0x9A34, 0xF55B), (0x9A35, 0xC4CD), (0x9A36, 0xF55F), (0x9A37, 0xC4CC), (0x9A38, 0xF562), (0x9A39, 0xF678),
    (0x9A3A, 0xF67E), (0x9A3D, 0xF679)] @
   [(0x9A3E, 0xC55B), (0x9A3F, 0xF6A1), (0x9A40, 0xC55A), (0x9A41, 0xF67D), (0x9A42, 0xF67C), (0x9A43, 0xC559),
    (0x9A44, 0xF67B), (0x9A45, 0xC558)] @
   [(0x9A46, 0xF67A), (0x9A48, 0xF77D), (0x9A49, 0xF7A1), (0x9A4A, 0xF77E), (0x9A4C, 0xF77B), (0x9A4D, 0xC5BB),
    (0x9A4E, 0xF778), (0x9A4F, 0xF77C)] @
   [(0x9A50, 0xF7A3), (0x9A52, 0xF7A2), (0x9A53, 0xF779), (0x9A54, 0xF77A), (0x9A55, 0xC5BA), (0x9A56, 0xF852),
    (0x9A57, 0xC5E7), (0x9A59, 0xF853)] @
   [(0x9A5A, 0xC5E5), (0x9A5B, 0xC5E6), (0x9A5E, 0xF8D3), (0x9A5F, 0xC64A), (0x9A60, 0xF976), (0x9A62, 0xC66A),
    (0x9A64, 0xF9B3), (0x9A65, 0xC66B)] @
   [(0x9A66, 0xF9B4), (0x9A67, 0xF9B5), (0x9A68, 0xF9C3), (0x9A69, 0xF9C2), (0x9A6A, 0xC67A), (0x9A6B, 0xF9CD),
    (0x9AA8, 0xB0A9), (0x9AAB, 0xE0E9)] @
   [(0x9AAD, 0xE0E8), (0x9AAF, 0xBBEA), (0x9AB0, 0xBBEB), (0x9AB1, 0xE4DA), (0x9AB3, 0xE8D2), (0x9AB4, 0xEC6C),
    (0x9AB7, 0xBE75), (0x9AB8, 0xC065)] @
   [(0x9AB9, 0xEC6A), (0x9ABB, 0xEC6D), (0x9ABC, 0xC066), (0x9ABE, 0xEF64), (0x9ABF, 0xEC6B), (0x9AC0, 0xF1B9),
    (0x9AC1, 0xC34E), (0x9AC2, 0xF3C1)] @
   [(0x9AC6, 0xF566), (0x9AC7, 0xF564), (0x9ACA, 0xF565), (0x9ACD, 0xF6A2), (0x9ACF, 0xC55C), (0x9AD0, 0xF7A4),
    (0x9AD1, 0xC5EA), (0x9AD2, 0xC5BC)]"

definition rev_cp950_50 :: "(nat \<times> nat) list" where
  "rev_cp950_50 =
   [(0x9AD3, 0xC5E8), (0x9AD4, 0xC5E9), (0x9AD5, 0xF8D4), (0x9AD6, 0xC662), (0x9AD8, 0xB0AA), (0x9ADC, 0xF1BA),
    (0x9ADF, 0xD449), (0x9AE1, 0xB9A6)] @
   [(0x9AE3, 0xE4DB), (0x9AE6, 0xBBEC), (0x9AE7, 0xE4DC), (0x9AEB, 0xE8D4), (0x9AEC, 0xE8D3), (0x9AED, 0xC068),
    (0x9AEE, 0xBE76), (0x9AEF, 0xBE77)] @
   [(0x9AF1, 0xE8D7), (0x9AF2, 0xE8D6), (0x9AF3, 0xE8D5), (0x9AF6, 0xEC6E), (0x9AF7, 0xEC71), (0x9AF9, 0xEC70),
    (0x9AFA, 0xEC6F), (0x9AFB, 0xC067)] @
   [(0x9AFC, 0xEF68), (0x9AFD, 0xEF66), (0x9AFE, 0xEF65), (0x9B01, 0xEF67), (0x9B03, 0xC34F), (0x9B04, 0xF1BC),
    (0x9B05, 0xF1BD), (0x9B06, 0xC350)] @
   [(0x9B08, 0xF1BB), (0x9B0A, 0xF3C3), (0x9B0B, 0xF3C2), (0x9B0C, 0xF3C5), (0x9B0D, 0xC447), (0x9B0E, 0xF3C4),
    (0x9B10, 0xF567), (0x9B11, 0xF569)] @
   [(0x9B12, 0xF568), (0x9B15, 0xF6A3), (0x9B16, 0xF6A6), (0x9B17, 0xF6A4), (0x9B18, 0xF6A5), (0x9B19, 0xF7A5),
    (0x9B1A, 0xC5BD), (0x9B1E, 0xF854)] @
   [(0x9B1F, 0xF855), (0x9B20, 0xF856), (0x9B22, 0xC64B), (0x9B23, 0xC663), (0x9B24, 0xF9B6), (0x9B25, 0xB0AB),
    (0x9B27, 0xBE78), (0x9B28, 0xC069)] @
   [(0x9B29, 0xF1BE), (0x9B2B, 0xF7A6), (0x9B2E, 0xF9C4), (0x9B2F, 0xD44A), (0x9B31, 0xC67B), (0x9B32, 0xB0AC),
    (0x9B33, 0xEC72), (0x9B35, 0xF1BF)] @
   [(0x9B37, 0xF3C6), (0x9B3A, 0xF6A7), (0x9B3B, 0xF7A7), (0x9B3C, 0xB0AD), (0x9B3E, 0xE4DD), (0x9B3F, 0xE4DE),
    (0x9B41, 0xBBED), (0x9B42, 0xBBEE)] @
   [(0x9B43, 0xE8D9), (0x9B44, 0xBE7A), (0x9B45, 0xBE79), (0x9B46, 0xE8D8), (0x9B48, 0xEF69), (0x9B4A, 0xF1C0),
    (0x9B4B, 0xF1C2), (0x9B4C, 0xF1C1)] @
   [(0x9B4D, 0xC353), (0x9B4E, 0xC352), (0x9B4F, 0xC351), (0x9B51, 0xC55E), (0x9B52, 0xF6A8), (0x9B54, 0xC55D),
    (0x9B55, 0xF7A9), (0x9B56, 0xF7A8)] @
   [(0x9B58, 0xC64C), (0x9B59, 0xF8D5), (0x9B5A, 0xB3BD), (0x9B5B, 0xE0EA), (0x9B5F, 0xE4E1), (0x9B60, 0xE4DF),
    (0x9B61, 0xE4E0), (0x9B64, 0xE8E2)] @
   [(0x9B66, 0xE8DD), (0x9B67, 0xE8DA), (0x9B68, 0xE8E1), (0x9B6C, 0xE8E3), (0x9B6F, 0xBE7C), (0x9B70, 0xE8E0),
    (0x9B71, 0xE8DC), (0x9B74, 0xE8DB)] @
   [(0x9B75, 0xE8DF), (0x9B76, 0xE8DE), (0x9B77, 0xBE7B), (0x9B7A, 0xEC7D), (0x9B7B, 0xEC78), (0x9B7C, 0xEC76),
    (0x9B7D, 0xECA1), (0x9B7E, 0xEC77)] @
   [(0x9B80, 0xEC73), (0x9B82, 0xEC79), (0x9B85, 0xEC74), (0x9B86, 0xEF72), (0x9B87, 0xEC75), (0x9B88, 0xECA2),
    (0x9B90, 0xEC7C), (0x9B91, 0xC06A)] @
   [(0x9B92, 0xEC7B), (0x9B93, 0xEC7A), (0x9B95, 0xEC7E), (0x9B9A, 0xEF6A), (0x9B9B, 0xEF6D), (0x9B9E, 0xEF6C),
    (0x9BA0, 0xEF74), (0x9BA1, 0xEF6F)] @
   [(0x9BA2, 0xEF73), (0x9BA4, 0xEF71), (0x9BA5, 0xEF70), (0x9BA6, 0xEF6E), (0x9BA8, 0xEF6B), (0x9BAA, 0xC243),
    (0x9BAB, 0xC242), (0x9BAD, 0xC244)] @
   [(0x9BAE, 0xC241), (0x9BAF, 0xEF75), (0x9BB5, 0xF1C8), (0x9BB6, 0xF1CB), (0x9BB8, 0xF1C9), (0x9BB9, 0xF1CD),
    (0x9BBD, 0xF1CE), (0x9BBF, 0xF1C6)] @
   [(0x9BC0, 0xC358), (0x9BC1, 0xF1C7), (0x9BC3, 0xF1C5), (0x9BC4, 0xF1CC), (0x9BC6, 0xF1C4), (0x9BC7, 0xF1C3),
    (0x9BC8, 0xC357), (0x9BC9, 0xC355)] @
   [(0x9BCA, 0xC354), (0x9BD3, 0xF1CA), (0x9BD4, 0xF3CF), (0x9BD5, 0xF3D5), (0x9BD6, 0xC44A), (0x9BD7, 0xF3D0),
    (0x9BD9, 0xF3D3), (0x9BDA, 0xF3D7)] @
   [(0x9BDB, 0xC44B), (0x9BDC, 0xF3D2), (0x9BDE, 0xF3CA), (0x9BE0, 0xF3C9), (0x9BE1, 0xF3D6), (0x9BE2, 0xF3CD),
    (0x9BE4, 0xF3CB), (0x9BE5, 0xF3D4)] @
   [(0x9BE6, 0xF3CC), (0x9BE7, 0xC449), (0x9BE8, 0xC448), (0x9BEA, 0xF3C7), (0x9BEB, 0xF3C8), (0x9BEC, 0xF3D1),
    (0x9BF0, 0xF3CE), (0x9BF7, 0xF56C)] @
   [(0x9BF8, 0xF56F), (0x9BFD, 0xC356), (0x9C05, 0xF56D), (0x9C06, 0xF573), (0x9C07, 0xF571), (0x9C08, 0xF56B),
    (0x9C09, 0xF576), (0x9C0B, 0xF56A)] @
   [(0x9C0D, 0xC4CF), (0x9C0E, 0xF572), (0x9C12, 0xF56E), (0x9C13, 0xC4CE), (0x9C14, 0xF575), (0x9C17, 0xF574),
    (0x9C1C, 0xF6AB), (0x9C1D, 0xF6AA)] @
   [(0x9C21, 0xF6B1), (0x9C23, 0xF6AD), (0x9C24, 0xF6B0), (0x9C25, 0xC560), (0x9C28, 0xF6AE), (0x9C29, 0xF6AF),
    (0x9C2B, 0xF6A9), (0x9C2C, 0xF6AC)] @
   [(0x9C2D, 0xC55F), (0x9C31, 0xC5BF), (0x9C32, 0xF7B4), (0x9C33, 0xF7AF), (0x9C34, 0xF7B3), (0x9C36, 0xF7B6),
    (0x9C37, 0xF7B2), (0x9C39, 0xF7AE)] @
   [(0x9C3B, 0xC5C1), (0x9C3C, 0xF7B1), (0x9C3D, 0xF7B5), (0x9C3E, 0xC5C0), (0x9C3F, 0xF7AC), (0x9C40, 0xF570),
    (0x9C41, 0xF7B0), (0x9C44, 0xF7AD)] @
   [(0x9C46, 0xF7AA), (0x9C48, 0xF7AB), (0x9C49, 0xC5BE), (0x9C4A, 0xF85A), (0x9C4B, 0xF85C), (0x9C4C, 0xF85F),
    (0x9C4D, 0xF85B), (0x9C4E, 0xF860)] @
   [(0x9C50, 0xF859), (0x9C52, 0xF857), (0x9C54, 0xC5EB), (0x9C55, 0xF85D), (0x9C56, 0xC5ED), (0x9C57, 0xC5EC),
    (0x9C58, 0xF858), (0x9C59, 0xF85E)] @
   [(0x9C5E, 0xF8DA), (0x9C5F, 0xC64D), (0x9C60, 0xF8DB), (0x9C62, 0xF8D9), (0x9C63, 0xF8D6), (0x9C66, 0xF8D8),
    (0x9C67, 0xF8D7), (0x9C68, 0xF95A)] @
   [(0x9C6D, 0xF95C), (0x9C6E, 0xF95B), (0x9C71, 0xF979), (0x9C73, 0xF978), (0x9C74, 0xF977), (0x9C75, 0xF97A),
    (0x9C77, 0xC673), (0x9C78, 0xC674)] @
   [(0x9C79, 0xF9CA), (0x9C7A, 0xF9CE), (0x9CE5, 0xB3BE), (0x9CE6, 0xDCAF), (0x9CE7, 0xE0ED), (0x9CE9, 0xB9A7),
    (0x9CEA, 0xE0EB), (0x9CED, 0xE0EC)]"

definition rev_cp950_51 :: "(nat \<times> nat) list" where
  "rev_cp950_51 =
   [(0x9CF1, 0xE4E2), (0x9CF2, 0xE4E3), (0x9CF3, 0xBBF1), (0x9CF4, 0xBBEF), (0x9CF5, 0xE4E4), (0x9CF6, 0xBBF0),
    (0x9CF7, 0xE8E8), (0x9CF9, 0xE8EB)] @
   [(0x9CFA, 0xE8E5), (0x9CFB, 0xE8EC), (0x9CFC, 0xE8E4), (0x9CFD, 0xE8E6), (0x9CFF, 0xE8E7), (0x9D00, 0xE8EA),
    (0x9D03, 0xBEA1), (0x9D04, 0xE8EF)] @
   [(0x9D05, 0xE8EE), (0x9D06, 0xBE7D), (0x9D07, 0xE8E9), (0x9D08, 0xE8ED), (0x9D09, 0xBE7E), (0x9D10, 0xECAC),
    (0x9D12, 0xC06F), (0x9D14, 0xECA7)] @
   [(0x9D15, 0xC06B), (0x9D17, 0xECA4), (0x9D18, 0xECAA), (0x9D19, 0xECAD), (0x9D1B, 0xC070), (0x9D1D, 0xECA9),
    (0x9D1E, 0xECA6), (0x9D1F, 0xECAE)] @
   [(0x9D20, 0xECA5), (0x9D22, 0xECAB), (0x9D23, 0xC06C), (0x9D25, 0xECA3), (0x9D26, 0xC06D), (0x9D28, 0xC06E),
    (0x9D29, 0xECA8), (0x9D2D, 0xEFA9)] @
   [(0x9D2E, 0xEF7A), (0x9D2F, 0xEF7B), (0x9D30, 0xEF7E), (0x9D31, 0xEF7C), (0x9D33, 0xEF76), (0x9D36, 0xEF79),
    (0x9D37, 0xEFA5), (0x9D38, 0xEF7D)] @
   [(0x9D3B, 0xC245), (0x9D3D, 0xEFA7), (0x9D3E, 0xEFA4), (0x9D3F, 0xC246), (0x9D40, 0xEFA6), (0x9D41, 0xEF77),
    (0x9D42, 0xEFA2), (0x9D43, 0xEFA3)] @
   [(0x9D45, 0xEFA1), (0x9D4A, 0xF1D2), (0x9D4B, 0xF1D4), (0x9D4C, 0xF1D7), (0x9D4F, 0xF1D1), (0x9D51, 0xC359),
    (0x9D52, 0xF1D9), (0x9D53, 0xF1D0)] @
   [(0x9D54, 0xF1DA), (0x9D56, 0xF1D6), (0x9D57, 0xF1D8), (0x9D58, 0xF1DC), (0x9D59, 0xF1D5), (0x9D5A, 0xF1DD),
    (0x9D5B, 0xF1D3), (0x9D5C, 0xF1CF)] @
   [(0x9D5D, 0xC35A), (0x9D5F, 0xF1DB), (0x9D60, 0xC35B), (0x9D61, 0xC44D), (0x9D67, 0xEF78), (0x9D68, 0xF3F1),
    (0x9D69, 0xF3E8), (0x9D6A, 0xC44F)] @
   [(0x9D6B, 0xF3E4), (0x9D6C, 0xC450), (0x9D6F, 0xF3ED), (0x9D70, 0xF3E7), (0x9D71, 0xF3DD), (0x9D72, 0xC44E),
    (0x9D73, 0xF3EA), (0x9D74, 0xF3E5)] @
   [(0x9D75, 0xF3E6), (0x9D77, 0xF3D8), (0x9D78, 0xF3DF), (0x9D79, 0xF3EE), (0x9D7B, 0xF3EB), (0x9D7D, 0xF3E3),
    (0x9D7F, 0xF3EF), (0x9D80, 0xF3DE)] @
   [(0x9D81, 0xF3D9), (0x9D82, 0xF3EC), (0x9D84, 0xF3DB), (0x9D85, 0xF3E9), (0x9D86, 0xF3E0), (0x9D87, 0xF3F0),
    (0x9D88, 0xF3DC), (0x9D89, 0xC44C)] @
   [(0x9D8A, 0xF3DA), (0x9D8B, 0xF3E1), (0x9D8C, 0xF3E2), (0x9D90, 0xF57D), (0x9D92, 0xF57B), (0x9D94, 0xF5A2),
    (0x9D96, 0xF5AE), (0x9D97, 0xF5A5)] @
   [(0x9D98, 0xF57C), (0x9D99, 0xF578), (0x9D9A, 0xF5A7), (0x9D9B, 0xF57E), (0x9D9C, 0xF5A3), (0x9D9D, 0xF57A),
    (0x9D9E, 0xF5AA), (0x9D9F, 0xF577)] @
   [(0x9DA0, 0xF5A1), (0x9DA1, 0xF5A6), (0x9DA2, 0xF5A8), (0x9DA3, 0xF5AB), (0x9DA4, 0xF579), (0x9DA6, 0xF5AF),
    (0x9DA7, 0xF5B0), (0x9DA8, 0xF5A9)] @
   [(0x9DA9, 0xF5AD), (0x9DAA, 0xF5A4), (0x9DAC, 0xF6C1), (0x9DAD, 0xF6C4), (0x9DAF, 0xC561), (0x9DB1, 0xF6C3),
    (0x9DB2, 0xF6C8), (0x9DB3, 0xF6C6)] @
   [(0x9DB4, 0xC562), (0x9DB5, 0xF6BD), (0x9DB6, 0xF6B3), (0x9DB7, 0xF6B2), (0x9DB8, 0xC564), (0x9DB9, 0xF6BF),
    (0x9DBA, 0xF6C0), (0x9DBB, 0xF6BC)] @
   [(0x9DBC, 0xF6B4), (0x9DBE, 0xF6B9), (0x9DBF, 0xF5AC), (0x9DC1, 0xF6B5), (0x9DC2, 0xC563), (0x9DC3, 0xF6BB),
    (0x9DC5, 0xF6BA), (0x9DC7, 0xF6B6)] @
   [(0x9DC8, 0xF6C2), (0x9DCA, 0xF6B7), (0x9DCB, 0xF7BB), (0x9DCC, 0xF6C5), (0x9DCD, 0xF6C7), (0x9DCE, 0xF6BE),
    (0x9DCF, 0xF6B8), (0x9DD0, 0xF7BC)] @
   [(0x9DD1, 0xF7BE), (0x9DD2, 0xF7B8), (0x9DD3, 0xC5C2), (0x9DD5, 0xF7C5), (0x9DD6, 0xF7C3), (0x9DD7, 0xC5C3),
    (0x9DD8, 0xF7C2), (0x9DD9, 0xF7C1)] @
   [(0x9DDA, 0xF7BA), (0x9DDB, 0xF7B7), (0x9DDC, 0xF7BD), (0x9DDD, 0xF7C6), (0x9DDE, 0xF7B9), (0x9DDF, 0xF7BF),
    (0x9DE1, 0xF869), (0x9DE2, 0xF86E)] @
   [(0x9DE3, 0xF864), (0x9DE4, 0xF867), (0x9DE5, 0xC5EE), (0x9DE6, 0xF86B), (0x9DE8, 0xF872), (0x9DE9, 0xF7C0),
    (0x9DEB, 0xF865), (0x9DEC, 0xF86F)] @
   [(0x9DED, 0xF873), (0x9DEE, 0xF86A), (0x9DEF, 0xF863), (0x9DF0, 0xF86D), (0x9DF2, 0xF86C), (0x9DF3, 0xF871),
    (0x9DF4, 0xF870), (0x9DF5, 0xF7C4)] @
   [(0x9DF6, 0xF868), (0x9DF7, 0xF862), (0x9DF8, 0xF866), (0x9DF9, 0xC64E), (0x9DFA, 0xC64F), (0x9DFB, 0xF861),
    (0x9DFD, 0xF8E6), (0x9DFE, 0xF8DD)] @
   [(0x9DFF, 0xF8E5), (0x9E00, 0xF8E2), (0x9E01, 0xF8E3), (0x9E02, 0xF8DC), (0x9E03, 0xF8DF), (0x9E04, 0xF8E7),
    (0x9E05, 0xF8E1), (0x9E06, 0xF8E0)] @
   [(0x9E07, 0xF8DE), (0x9E09, 0xF8E4), (0x9E0B, 0xF95D), (0x9E0D, 0xF95E), (0x9E0F, 0xF960), (0x9E10, 0xF95F),
    (0x9E11, 0xF962), (0x9E12, 0xF961)] @
   [(0x9E13, 0xF97C), (0x9E14, 0xF97B), (0x9E15, 0xF9B7), (0x9E17, 0xF9B8), (0x9E19, 0xF9C5), (0x9E1A, 0xC678),
    (0x9E1B, 0xC67C), (0x9E1D, 0xF9CF)] @
   [(0x9E1E, 0xC67D), (0x9E75, 0xB3BF), (0x9E79, 0xC4D0), (0x9E7A, 0xF6C9), (0x9E7C, 0xC650), (0x9E7D, 0xC651),
    (0x9E7F, 0xB3C0), (0x9E80, 0xE0EE)] @
   [(0x9E82, 0xB9A8), (0x9E83, 0xE8F0), (0x9E86, 0xECB0), (0x9E87, 0xECB1), (0x9E88, 0xECAF), (0x9E89, 0xEFAB),
    (0x9E8A, 0xEFAA), (0x9E8B, 0xC247)] @
   [(0x9E8C, 0xF1DF), (0x9E8D, 0xEFAC), (0x9E8E, 0xF1DE), (0x9E91, 0xF3F3), (0x9E92, 0xC451), (0x9E93, 0xC453),
    (0x9E94, 0xF3F2), (0x9E97, 0xC452)] @
   [(0x9E99, 0xF5B1), (0x9E9A, 0xF5B3), (0x9E9B, 0xF5B2), (0x9E9C, 0xF6CA), (0x9E9D, 0xC565), (0x9E9F, 0xC5EF),
    (0x9EA0, 0xF8E8), (0x9EA1, 0xF963)]"

definition rev_cp950_52 :: "(nat \<times> nat) list" where
  "rev_cp950_52 =
   [(0x9EA4, 0xF9D2), (0x9EA5, 0xB3C1), (0x9EA7, 0xE4E5), (0x9EA9, 0xBEA2), (0x9EAD, 0xECB3), (0x9EAE, 0xECB2),
    (0x9EB0, 0xEFAD), (0x9EB4, 0xC454)] @
   [(0x9EB5, 0xC4D1), (0x9EB6, 0xF7C7), (0x9EB7, 0xF9CB), (0x9EBB, 0xB3C2), (0x9EBC, 0xBBF2), (0x9EBE, 0xBEA3),
    (0x9EC0, 0xF3F4), (0x9EC2, 0xF874)] @
   [(0x9EC3, 0xB6C0), (0x9EC8, 0xEFAE), (0x9ECC, 0xC664), (0x9ECD, 0xB6C1), (0x9ECE, 0xBEA4), (0x9ECF, 0xC248),
    (0x9ED0, 0xF875), (0x9ED1, 0xB6C2)] @
   [(0x9ED3, 0xE8F1), (0x9ED4, 0xC072), (0x9ED5, 0xECB4), (0x9ED6, 0xECB5), (0x9ED8, 0xC071), (0x9EDA, 0xEFAF),
    (0x9EDB, 0xC24C), (0x9EDC, 0xC24A)] @
   [(0x9EDD, 0xC24B), (0x9EDE, 0xC249), (0x9EDF, 0xF1E0), (0x9EE0, 0xC35C), (0x9EE4, 0xF5B5), (0x9EE5, 0xF5B4),
    (0x9EE6, 0xF5B7), (0x9EE7, 0xF5B6)] @
   [(0x9EE8, 0xC4D2), (0x9EEB, 0xF6CB), (0x9EED, 0xF6CD), (0x9EEE, 0xF6CC), (0x9EEF, 0xC566), (0x9EF0, 0xF7C8),
    (0x9EF2, 0xF876), (0x9EF3, 0xF877)] @
   [(0x9EF4, 0xC5F0), (0x9EF5, 0xF964), (0x9EF6, 0xF97D), (0x9EF7, 0xC675), (0x9EF9, 0xDCB0), (0x9EFA, 0xECB6),
    (0x9EFB, 0xEFB0), (0x9EFC, 0xF3F5)] @
   [(0x9EFD, 0xE0EF), (0x9EFF, 0xEFB1), (0x9F00, 0xF1E2), (0x9F01, 0xF1E1), (0x9F06, 0xF878), (0x9F07, 0xC652),
    (0x9F09, 0xF965), (0x9F0A, 0xF97E)] @
   [(0x9F0E, 0xB9A9), (0x9F0F, 0xE8F2), (0x9F10, 0xE8F3), (0x9F12, 0xECB7), (0x9F13, 0xB9AA), (0x9F15, 0xC35D),
    (0x9F16, 0xF1E3), (0x9F18, 0xF6CF)] @
   [(0x9F19, 0xC567), (0x9F1A, 0xF6D0), (0x9F1B, 0xF6CE), (0x9F1C, 0xF879), (0x9F1E, 0xF8E9), (0x9F20, 0xB9AB),
    (0x9F22, 0xEFB4), (0x9F23, 0xEFB3)] @
   [(0x9F24, 0xEFB2), (0x9F25, 0xF1E4), (0x9F28, 0xF1E8), (0x9F29, 0xF1E7), (0x9F2A, 0xF1E6), (0x9F2B, 0xF1E5),
    (0x9F2C, 0xC35E), (0x9F2D, 0xF3F6)] @
   [(0x9F2E, 0xF5B9), (0x9F2F, 0xC4D3), (0x9F30, 0xF5B8), (0x9F31, 0xF6D1), (0x9F32, 0xF7CB), (0x9F33, 0xF7CA),
    (0x9F34, 0xC5C4), (0x9F35, 0xF7C9)] @
   [(0x9F36, 0xF87C), (0x9F37, 0xF87B), (0x9F38, 0xF87A), (0x9F3B, 0xBBF3), (0x9F3D, 0xECB8), (0x9F3E, 0xC24D),
    (0x9F40, 0xF3F7), (0x9F41, 0xF3F8)] @
   [(0x9F42, 0xF7CC), (0x9F43, 0xF87D), (0x9F46, 0xF8EA), (0x9F47, 0xF966), (0x9F48, 0xF9B9), (0x9F49, 0xF9D4),
    (0x9F4A, 0xBBF4), (0x9F4B, 0xC24E)] @
   [(0x9F4C, 0xF1E9), (0x9F4D, 0xF3F9), (0x9F4E, 0xF6D2), (0x9F4F, 0xF87E), (0x9F52, 0xBEA6), (0x9F54, 0xEFB5),
    (0x9F55, 0xF1EA), (0x9F56, 0xF3FA)] @
   [(0x9F57, 0xF3FB), (0x9F58, 0xF3FC), (0x9F59, 0xF5BE), (0x9F5B, 0xF5BA), (0x9F5C, 0xC568), (0x9F5D, 0xF5BD),
    (0x9F5E, 0xF5BC), (0x9F5F, 0xC4D4)] @
   [(0x9F60, 0xF5BB), (0x9F61, 0xC4D6), (0x9F63, 0xC4D5), (0x9F64, 0xF6D4), (0x9F65, 0xF6D3), (0x9F66, 0xC569),
    (0x9F67, 0xC56A), (0x9F6A, 0xC5C6)] @
   [(0x9F6B, 0xF7CD), (0x9F6C, 0xC5C5), (0x9F6E, 0xF8A3), (0x9F6F, 0xF8A4), (0x9F70, 0xF8A2), (0x9F71, 0xF8A1),
    (0x9F72, 0xC654), (0x9F74, 0xF8EB)] @
   [(0x9F75, 0xF8EC), (0x9F76, 0xF8ED), (0x9F77, 0xC653), (0x9F78, 0xF967), (0x9F79, 0xF96A), (0x9F7A, 0xF969),
    (0x9F7B, 0xF968), (0x9F7E, 0xF9D3)] @
   [(0x9F8D, 0xC073), (0x9F90, 0xC365), (0x9F91, 0xF5BF), (0x9F92, 0xF6D5), (0x9F94, 0xC5C7), (0x9F95, 0xF7CE),
    (0x9F98, 0xF9D5), (0x9F9C, 0xC074)] @
   [(0x9FA0, 0xEFB6), (0x9FA2, 0xF7CF), (0x9FA4, 0xF9A1), (0xFA0C, 0xC94A), (0xFA0D, 0xDDFC), (0xFE30, 0xA14A),
    (0xFE31, 0xA157), (0xFE33, 0xA159)] @
   [(0xFE34, 0xA15B), (0xFE35, 0xA15F), (0xFE36, 0xA160), (0xFE37, 0xA163), (0xFE38, 0xA164), (0xFE39, 0xA167),
    (0xFE3A, 0xA168), (0xFE3B, 0xA16B)] @
   [(0xFE3C, 0xA16C), (0xFE3D, 0xA16F), (0xFE3E, 0xA170), (0xFE3F, 0xA173), (0xFE40, 0xA174), (0xFE41, 0xA177),
    (0xFE42, 0xA178), (0xFE43, 0xA17B)] @
   [(0xFE44, 0xA17C), (0xFE49, 0xA1C6), (0xFE4A, 0xA1C7), (0xFE4B, 0xA1CA), (0xFE4C, 0xA1CB), (0xFE4D, 0xA1C8),
    (0xFE4E, 0xA1C9), (0xFE4F, 0xA15C)] @
   [(0xFE50, 0xA14D), (0xFE51, 0xA14E), (0xFE52, 0xA14F), (0xFE54, 0xA151), (0xFE55, 0xA152), (0xFE56, 0xA153),
    (0xFE57, 0xA154), (0xFE59, 0xA17D)] @
   [(0xFE5A, 0xA17E), (0xFE5B, 0xA1A1), (0xFE5C, 0xA1A2), (0xFE5D, 0xA1A3), (0xFE5E, 0xA1A4), (0xFE5F, 0xA1CC),
    (0xFE60, 0xA1CD), (0xFE61, 0xA1CE)] @
   [(0xFE62, 0xA1DE), (0xFE63, 0xA1DF), (0xFE64, 0xA1E0), (0xFE65, 0xA1E1), (0xFE66, 0xA1E2), (0xFE68, 0xA242),
    (0xFE69, 0xA24C), (0xFE6A, 0xA24D)] @
   [(0xFE6B, 0xA24E), (0xFF01, 0xA149), (0xFF03, 0xA1AD), (0xFF04, 0xA243), (0xFF05, 0xA248), (0xFF06, 0xA1AE),
    (0xFF08, 0xA15D), (0xFF09, 0xA15E)] @
   [(0xFF0A, 0xA1AF), (0xFF0B, 0xA1CF), (0xFF0C, 0xA141), (0xFF0D, 0xA1D0), (0xFF0E, 0xA144), (0xFF0F, 0xA1FE),
    (0xFF10, 0xA2AF), (0xFF11, 0xA2B0)] @
   [(0xFF12, 0xA2B1), (0xFF13, 0xA2B2), (0xFF14, 0xA2B3), (0xFF15, 0xA2B4), (0xFF16, 0xA2B5), (0xFF17, 0xA2B6),
    (0xFF18, 0xA2B7), (0xFF19, 0xA2B8)] @
   [(0xFF1A, 0xA147), (0xFF1B, 0xA146), (0xFF1C, 0xA1D5), (0xFF1D, 0xA1D7), (0xFF1E, 0xA1D6), (0xFF1F, 0xA148),
    (0xFF20, 0xA249), (0xFF21, 0xA2CF)] @
   [(0xFF22, 0xA2D0), (0xFF23, 0xA2D1), (0xFF24, 0xA2D2), (0xFF25, 0xA2D3), (0xFF26, 0xA2D4), (0xFF27, 0xA2D5),
    (0xFF28, 0xA2D6), (0xFF29, 0xA2D7)]"

definition rev_cp950_53 :: "(nat \<times> nat) list" where
  "rev_cp950_53 =
   [(0xFF2A, 0xA2D8), (0xFF2B, 0xA2D9), (0xFF2C, 0xA2DA), (0xFF2D, 0xA2DB), (0xFF2E, 0xA2DC), (0xFF2F, 0xA2DD),
    (0xFF30, 0xA2DE), (0xFF31, 0xA2DF)] @
   [(0xFF32, 0xA2E0), (0xFF33, 0xA2E1), (0xFF34, 0xA2E2), (0xFF35, 0xA2E3), (0xFF36, 0xA2E4), (0xFF37, 0xA2E5),
    (0xFF38, 0xA2E6), (0xFF39, 0xA2E7)] @
   [(0xFF3A, 0xA2E8), (0xFF3C, 0xA240), (0xFF3F, 0xA1C4), (0xFF41, 0xA2E9), (0xFF42, 0xA2EA), (0xFF43, 0xA2EB),
    (0xFF44, 0xA2EC), (0xFF45, 0xA2ED)] @
   [(0xFF46, 0xA2EE), (0xFF47, 0xA2EF), (0xFF48, 0xA2F0), (0xFF49, 0xA2F1), (0xFF4A, 0xA2F2), (0xFF4B, 0xA2F3),
    (0xFF4C, 0xA2F4), (0xFF4D, 0xA2F5)] @
   [(0xFF4E, 0xA2F6), (0xFF4F, 0xA2F7), (0xFF50, 0xA2F8), (0xFF51, 0xA2F9), (0xFF52, 0xA2FA), (0xFF53, 0xA2FB),
    (0xFF54, 0xA2FC), (0xFF55, 0xA2FD)] @
   [(0xFF56, 0xA2FE), (0xFF57, 0xA340), (0xFF58, 0xA341), (0xFF59, 0xA342), (0xFF5A, 0xA343), (0xFF5B, 0xA161),
    (0xFF5C, 0xA155), (0xFF5D, 0xA162)] @
   [(0xFF5E, 0xA1E3), (0xFFE0, 0xA246), (0xFFE1, 0xA247), (0xFFE3, 0xA1C3), (0xFFE5, 0xA244)]"

end
