(* ===== verification/Cp950.thy ===== *)
theory Cp950
  imports Cp950Lead Cp950RevA Cp950RevB
begin

text \<open>
  Page 950 of \<^verbatim>\<open>src/src/charset_tables_data.c\<close>, put together.
\<close>

definition rev_cp950 :: "(nat \<times> nat) list" where
  "rev_cp950 = concat [
   rev_cp950_0, rev_cp950_1, rev_cp950_2, rev_cp950_3, rev_cp950_4, rev_cp950_5, rev_cp950_6, rev_cp950_7,
   rev_cp950_8, rev_cp950_9, rev_cp950_10, rev_cp950_11, rev_cp950_12, rev_cp950_13, rev_cp950_14,
   rev_cp950_15, rev_cp950_16, rev_cp950_17, rev_cp950_18, rev_cp950_19, rev_cp950_20, rev_cp950_21,
   rev_cp950_22, rev_cp950_23, rev_cp950_24, rev_cp950_25, rev_cp950_26, rev_cp950_27, rev_cp950_28,
   rev_cp950_29, rev_cp950_30, rev_cp950_31, rev_cp950_32, rev_cp950_33, rev_cp950_34, rev_cp950_35,
   rev_cp950_36, rev_cp950_37, rev_cp950_38, rev_cp950_39, rev_cp950_40, rev_cp950_41, rev_cp950_42,
   rev_cp950_43, rev_cp950_44, rev_cp950_45, rev_cp950_46, rev_cp950_47, rev_cp950_48, rev_cp950_49,
   rev_cp950_50, rev_cp950_51, rev_cp950_52, rev_cp950_53]"

definition page_950 :: CpPage where
  "page_950 = db_page 950 dec1_cp950 lead_cp950 leadrow_cp950 rows_cp950 rev_cp950"

end
