(* ===== verification/DbPages.thy ===== *)
theory DbPages
  imports Cp932 Cp936 Cp949 Cp950
begin

text \<open>
  The four pages of double bytes are sound: one pass over each reverse table finds every entry
  in the row of its lead byte or among the single bytes, in ascending order of the units.
\<close>

section \<open>Page 932\<close>

lemma scan_parts_932:
  "scan_rev trails_932 single_932 (- 1) rev_cp932_0 8221"
  "scan_rev trails_932 single_932 8221 rev_cp932_1 12446"
  "scan_rev trails_932 single_932 12446 rev_cp932_2 20252"
  "scan_rev trails_932 single_932 20252 rev_cp932_3 20904"
  "scan_rev trails_932 single_932 20904 rev_cp932_4 21480"
  "scan_rev trails_932 single_932 21480 rev_cp932_5 22312"
  "scan_rev trails_932 single_932 22312 rev_cp932_6 23138"
  "scan_rev trails_932 single_932 23138 rev_cp932_7 23940"
  "scan_rev trails_932 single_932 23940 rev_cp932_8 24571"
  "scan_rev trails_932 single_932 24571 rev_cp932_9 25192"
  "scan_rev trails_932 single_932 25192 rev_cp932_10 25968"
  "scan_rev trails_932 single_932 25968 rev_cp932_11 26561"
  "scan_rev trails_932 single_932 26561 rev_cp932_12 27234"
  "scan_rev trails_932 single_932 27234 rev_cp932_13 28046"
  "scan_rev trails_932 single_932 28046 rev_cp932_14 28875"
  "scan_rev trails_932 single_932 28875 rev_cp932_15 29858"
  "scan_rev trails_932 single_932 29858 rev_cp932_16 30606"
  "scan_rev trails_932 single_932 30606 rev_cp932_17 31467"
  "scan_rev trails_932 single_932 31467 rev_cp932_18 32177"
  "scan_rev trails_932 single_932 32177 rev_cp932_19 33020"
  "scan_rev trails_932 single_932 33020 rev_cp932_20 33787"
  "scan_rev trails_932 single_932 33787 rev_cp932_21 34690"
  "scan_rev trails_932 single_932 34690 rev_cp932_22 35501"
  "scan_rev trails_932 single_932 35501 rev_cp932_23 36452"
  "scan_rev trails_932 single_932 36452 rev_cp932_24 37240"
  "scan_rev trails_932 single_932 37240 rev_cp932_25 38322"
  "scan_rev trails_932 single_932 38322 rev_cp932_26 39131"
  "scan_rev trails_932 single_932 39131 rev_cp932_27 40201"
  "scan_rev trails_932 single_932 40201 rev_cp932_28 65350"
  "scan_rev trails_932 single_932 65350 rev_cp932_29 65509"
  by (simp_all add: looked_up_single trail_at_932(1) single_unit_def lead_at_932 dec1_at_932
    row_look [OF trail_at_932(2) dec2_cp932_0_def] row_look [OF trail_at_932(3) dec2_cp932_1_def]
    row_look [OF trail_at_932(4) dec2_cp932_2_def] row_look [OF trail_at_932(5) dec2_cp932_3_def]
    row_look [OF trail_at_932(6) dec2_cp932_4_def] row_look [OF trail_at_932(7) dec2_cp932_5_def]
    row_look [OF trail_at_932(8) dec2_cp932_6_def] row_look [OF trail_at_932(9) dec2_cp932_7_def]
    row_look [OF trail_at_932(10) dec2_cp932_8_def] row_look [OF trail_at_932(11) dec2_cp932_9_def]
    row_look [OF trail_at_932(12) dec2_cp932_10_def] row_look [OF trail_at_932(13) dec2_cp932_11_def]
    row_look [OF trail_at_932(14) dec2_cp932_12_def] row_look [OF trail_at_932(15) dec2_cp932_13_def]
    row_look [OF trail_at_932(16) dec2_cp932_14_def] row_look [OF trail_at_932(17) dec2_cp932_15_def]
    row_look [OF trail_at_932(18) dec2_cp932_16_def] row_look [OF trail_at_932(19) dec2_cp932_17_def]
    row_look [OF trail_at_932(20) dec2_cp932_18_def] row_look [OF trail_at_932(21) dec2_cp932_19_def]
    row_look [OF trail_at_932(22) dec2_cp932_20_def] row_look [OF trail_at_932(23) dec2_cp932_21_def]
    row_look [OF trail_at_932(24) dec2_cp932_22_def] row_look [OF trail_at_932(25) dec2_cp932_23_def]
    row_look [OF trail_at_932(26) dec2_cp932_24_def] row_look [OF trail_at_932(27) dec2_cp932_25_def]
    row_look [OF trail_at_932(28) dec2_cp932_26_def] row_look [OF trail_at_932(29) dec2_cp932_27_def]
    row_look [OF trail_at_932(30) dec2_cp932_28_def] row_look [OF trail_at_932(31) dec2_cp932_29_def]
    row_look [OF trail_at_932(32) dec2_cp932_30_def] row_look [OF trail_at_932(33) dec2_cp932_31_def]
    row_look [OF trail_at_932(34) dec2_cp932_32_def] row_look [OF trail_at_932(35) dec2_cp932_33_def]
    row_look [OF trail_at_932(36) dec2_cp932_34_def] row_look [OF trail_at_932(37) dec2_cp932_35_def]
    row_look [OF trail_at_932(38) dec2_cp932_36_def] row_look [OF trail_at_932(39) dec2_cp932_37_def]
    row_look [OF trail_at_932(40) dec2_cp932_38_def] row_look [OF trail_at_932(41) dec2_cp932_39_def]
    row_look [OF trail_at_932(42) dec2_cp932_40_def] row_look [OF trail_at_932(43) dec2_cp932_41_def]
    row_look [OF trail_at_932(44) dec2_cp932_42_def] row_look [OF trail_at_932(45) dec2_cp932_43_def]
    row_look [OF trail_at_932(46) dec2_cp932_44_def] row_look [OF trail_at_932(47) dec2_cp932_45_def]
    row_look [OF trail_at_932(48) dec2_cp932_46_def] row_look [OF trail_at_932(49) dec2_cp932_47_def]
    row_look [OF trail_at_932(50) dec2_cp932_48_def] row_look [OF trail_at_932(51) dec2_cp932_49_def]
    row_look [OF trail_at_932(52) dec2_cp932_50_def] row_look [OF trail_at_932(53) dec2_cp932_51_def]
    row_look [OF trail_at_932(54) dec2_cp932_52_def] row_look [OF trail_at_932(55) dec2_cp932_53_def]
    row_look [OF trail_at_932(56) dec2_cp932_54_def] row_look [OF trail_at_932(57) dec2_cp932_55_def]
    row_look [OF trail_at_932(58) dec2_cp932_56_def] row_look [OF trail_at_932(59) dec2_cp932_57_def]
    row_look [OF trail_at_932(60) dec2_cp932_58_def] row_look [OF trail_at_932(61) dec2_cp932_59_def]
    rev_cp932_0_def rev_cp932_1_def rev_cp932_2_def rev_cp932_3_def rev_cp932_4_def rev_cp932_5_def
    rev_cp932_6_def rev_cp932_7_def rev_cp932_8_def rev_cp932_9_def rev_cp932_10_def rev_cp932_11_def
    rev_cp932_12_def rev_cp932_13_def rev_cp932_14_def rev_cp932_15_def rev_cp932_16_def rev_cp932_17_def
    rev_cp932_18_def rev_cp932_19_def rev_cp932_20_def rev_cp932_21_def rev_cp932_22_def rev_cp932_23_def
    rev_cp932_24_def rev_cp932_25_def rev_cp932_26_def rev_cp932_27_def rev_cp932_28_def rev_cp932_29_def)

lemma scan_932: "scan_rev trails_932 single_932 (- 1) rev_cp932 65509"
  unfolding rev_cp932_def concat.simps by (rule scan_append scan_parts_932 scan_rev.simps(1) [THEN iffD2] refl)+

lemma page_932_ok: "page_ok page_932" "reads_inside page_932 b t"
  unfolding page_932_def
  by (rule db_page_ok [OF _ _ _ _ rows_sound_932 order_sound_932 _ lead_bits_932 scan_932];
      simp add: lead_at_932 order_at_932 dec1_at_932)+

section \<open>Page 936\<close>

lemma scan_parts_936:
  "scan_rev trails_936 single_936 (- 1) rev_cp936_0 1075"
  "scan_rev trails_936 single_936 1075 rev_cp936_1 9562"
  "scan_rev trails_936 single_936 9562 rev_cp936_2 12520"
  "scan_rev trails_936 single_936 12520 rev_cp936_3 20146"
  "scan_rev trails_936 single_936 20146 rev_cp936_4 20402"
  "scan_rev trails_936 single_936 20402 rev_cp936_5 20658"
  "scan_rev trails_936 single_936 20658 rev_cp936_6 20914"
  "scan_rev trails_936 single_936 20914 rev_cp936_7 21170"
  "scan_rev trails_936 single_936 21170 rev_cp936_8 21426"
  "scan_rev trails_936 single_936 21426 rev_cp936_9 21682"
  "scan_rev trails_936 single_936 21682 rev_cp936_10 21938"
  "scan_rev trails_936 single_936 21938 rev_cp936_11 22194"
  "scan_rev trails_936 single_936 22194 rev_cp936_12 22450"
  "scan_rev trails_936 single_936 22450 rev_cp936_13 22706"
  "scan_rev trails_936 single_936 22706 rev_cp936_14 22962"
  "scan_rev trails_936 single_936 22962 rev_cp936_15 23218"
  "scan_rev trails_936 single_936 23218 rev_cp936_16 23474"
  "scan_rev trails_936 single_936 23474 rev_cp936_17 23730"
  "scan_rev trails_936 single_936 23730 rev_cp936_18 23986"
  "scan_rev trails_936 single_936 23986 rev_cp936_19 24242"
  "scan_rev trails_936 single_936 24242 rev_cp936_20 24498"
  "scan_rev trails_936 single_936 24498 rev_cp936_21 24754"
  "scan_rev trails_936 single_936 24754 rev_cp936_22 25010"
  "scan_rev trails_936 single_936 25010 rev_cp936_23 25266"
  "scan_rev trails_936 single_936 25266 rev_cp936_24 25522"
  "scan_rev trails_936 single_936 25522 rev_cp936_25 25778"
  "scan_rev trails_936 single_936 25778 rev_cp936_26 26034"
  "scan_rev trails_936 single_936 26034 rev_cp936_27 26290"
  "scan_rev trails_936 single_936 26290 rev_cp936_28 26546"
  "scan_rev trails_936 single_936 26546 rev_cp936_29 26802"
  "scan_rev trails_936 single_936 26802 rev_cp936_30 27058"
  "scan_rev trails_936 single_936 27058 rev_cp936_31 27314"
  "scan_rev trails_936 single_936 27314 rev_cp936_32 27570"
  "scan_rev trails_936 single_936 27570 rev_cp936_33 27826"
  "scan_rev trails_936 single_936 27826 rev_cp936_34 28082"
  "scan_rev trails_936 single_936 28082 rev_cp936_35 28338"
  "scan_rev trails_936 single_936 28338 rev_cp936_36 28594"
  "scan_rev trails_936 single_936 28594 rev_cp936_37 28850"
  "scan_rev trails_936 single_936 28850 rev_cp936_38 29106"
  "scan_rev trails_936 single_936 29106 rev_cp936_39 29362"
  "scan_rev trails_936 single_936 29362 rev_cp936_40 29618"
  "scan_rev trails_936 single_936 29618 rev_cp936_41 29874"
  "scan_rev trails_936 single_936 29874 rev_cp936_42 30130"
  "scan_rev trails_936 single_936 30130 rev_cp936_43 30386"
  "scan_rev trails_936 single_936 30386 rev_cp936_44 30642"
  "scan_rev trails_936 single_936 30642 rev_cp936_45 30898"
  "scan_rev trails_936 single_936 30898 rev_cp936_46 31154"
  "scan_rev trails_936 single_936 31154 rev_cp936_47 31410"
  "scan_rev trails_936 single_936 31410 rev_cp936_48 31666"
  "scan_rev trails_936 single_936 31666 rev_cp936_49 31922"
  "scan_rev trails_936 single_936 31922 rev_cp936_50 32178"
  "scan_rev trails_936 single_936 32178 rev_cp936_51 32434"
  "scan_rev trails_936 single_936 32434 rev_cp936_52 32690"
  "scan_rev trails_936 single_936 32690 rev_cp936_53 32946"
  "scan_rev trails_936 single_936 32946 rev_cp936_54 33202"
  "scan_rev trails_936 single_936 33202 rev_cp936_55 33458"
  "scan_rev trails_936 single_936 33458 rev_cp936_56 33714"
  "scan_rev trails_936 single_936 33714 rev_cp936_57 33970"
  "scan_rev trails_936 single_936 33970 rev_cp936_58 34226"
  "scan_rev trails_936 single_936 34226 rev_cp936_59 34482"
  "scan_rev trails_936 single_936 34482 rev_cp936_60 34738"
  "scan_rev trails_936 single_936 34738 rev_cp936_61 34994"
  "scan_rev trails_936 single_936 34994 rev_cp936_62 35250"
  "scan_rev trails_936 single_936 35250 rev_cp936_63 35506"
  "scan_rev trails_936 single_936 35506 rev_cp936_64 35762"
  "scan_rev trails_936 single_936 35762 rev_cp936_65 36018"
  "scan_rev trails_936 single_936 36018 rev_cp936_66 36274"
  "scan_rev trails_936 single_936 36274 rev_cp936_67 36530"
  "scan_rev trails_936 single_936 36530 rev_cp936_68 36786"
  "scan_rev trails_936 single_936 36786 rev_cp936_69 37042"
  "scan_rev trails_936 single_936 37042 rev_cp936_70 37298"
  "scan_rev trails_936 single_936 37298 rev_cp936_71 37554"
  "scan_rev trails_936 single_936 37554 rev_cp936_72 37810"
  "scan_rev trails_936 single_936 37810 rev_cp936_73 38066"
  "scan_rev trails_936 single_936 38066 rev_cp936_74 38322"
  "scan_rev trails_936 single_936 38322 rev_cp936_75 38578"
  "scan_rev trails_936 single_936 38578 rev_cp936_76 38834"
  "scan_rev trails_936 single_936 38834 rev_cp936_77 39090"
  "scan_rev trails_936 single_936 39090 rev_cp936_78 39346"
  "scan_rev trails_936 single_936 39346 rev_cp936_79 39602"
  "scan_rev trails_936 single_936 39602 rev_cp936_80 39858"
  "scan_rev trails_936 single_936 39858 rev_cp936_81 40114"
  "scan_rev trails_936 single_936 40114 rev_cp936_82 40370"
  "scan_rev trails_936 single_936 40370 rev_cp936_83 40626"
  "scan_rev trails_936 single_936 40626 rev_cp936_84 64024"
  "scan_rev trails_936 single_936 64024 rev_cp936_85 65509"
  by (simp_all add: looked_up_single trail_at_936(1) single_unit_def lead_at_936 dec1_at_936
    row_look [OF trail_at_936(2) dec2_cp936_0_def] row_look [OF trail_at_936(3) dec2_cp936_1_def]
    row_look [OF trail_at_936(4) dec2_cp936_2_def] row_look [OF trail_at_936(5) dec2_cp936_3_def]
    row_look [OF trail_at_936(6) dec2_cp936_4_def] row_look [OF trail_at_936(7) dec2_cp936_5_def]
    row_look [OF trail_at_936(8) dec2_cp936_6_def] row_look [OF trail_at_936(9) dec2_cp936_7_def]
    row_look [OF trail_at_936(10) dec2_cp936_8_def] row_look [OF trail_at_936(11) dec2_cp936_9_def]
    row_look [OF trail_at_936(12) dec2_cp936_10_def] row_look [OF trail_at_936(13) dec2_cp936_11_def]
    row_look [OF trail_at_936(14) dec2_cp936_12_def] row_look [OF trail_at_936(15) dec2_cp936_13_def]
    row_look [OF trail_at_936(16) dec2_cp936_14_def] row_look [OF trail_at_936(17) dec2_cp936_15_def]
    row_look [OF trail_at_936(18) dec2_cp936_16_def] row_look [OF trail_at_936(19) dec2_cp936_17_def]
    row_look [OF trail_at_936(20) dec2_cp936_18_def] row_look [OF trail_at_936(21) dec2_cp936_19_def]
    row_look [OF trail_at_936(22) dec2_cp936_20_def] row_look [OF trail_at_936(23) dec2_cp936_21_def]
    row_look [OF trail_at_936(24) dec2_cp936_22_def] row_look [OF trail_at_936(25) dec2_cp936_23_def]
    row_look [OF trail_at_936(26) dec2_cp936_24_def] row_look [OF trail_at_936(27) dec2_cp936_25_def]
    row_look [OF trail_at_936(28) dec2_cp936_26_def] row_look [OF trail_at_936(29) dec2_cp936_27_def]
    row_look [OF trail_at_936(30) dec2_cp936_28_def] row_look [OF trail_at_936(31) dec2_cp936_29_def]
    row_look [OF trail_at_936(32) dec2_cp936_30_def] row_look [OF trail_at_936(33) dec2_cp936_31_def]
    row_look [OF trail_at_936(34) dec2_cp936_32_def] row_look [OF trail_at_936(35) dec2_cp936_33_def]
    row_look [OF trail_at_936(36) dec2_cp936_34_def] row_look [OF trail_at_936(37) dec2_cp936_35_def]
    row_look [OF trail_at_936(38) dec2_cp936_36_def] row_look [OF trail_at_936(39) dec2_cp936_37_def]
    row_look [OF trail_at_936(40) dec2_cp936_38_def] row_look [OF trail_at_936(41) dec2_cp936_39_def]
    row_look [OF trail_at_936(42) dec2_cp936_40_def] row_look [OF trail_at_936(43) dec2_cp936_41_def]
    row_look [OF trail_at_936(44) dec2_cp936_42_def] row_look [OF trail_at_936(45) dec2_cp936_43_def]
    row_look [OF trail_at_936(46) dec2_cp936_44_def] row_look [OF trail_at_936(47) dec2_cp936_45_def]
    row_look [OF trail_at_936(48) dec2_cp936_46_def] row_look [OF trail_at_936(49) dec2_cp936_47_def]
    row_look [OF trail_at_936(50) dec2_cp936_48_def] row_look [OF trail_at_936(51) dec2_cp936_49_def]
    row_look [OF trail_at_936(52) dec2_cp936_50_def] row_look [OF trail_at_936(53) dec2_cp936_51_def]
    row_look [OF trail_at_936(54) dec2_cp936_52_def] row_look [OF trail_at_936(55) dec2_cp936_53_def]
    row_look [OF trail_at_936(56) dec2_cp936_54_def] row_look [OF trail_at_936(57) dec2_cp936_55_def]
    row_look [OF trail_at_936(58) dec2_cp936_56_def] row_look [OF trail_at_936(59) dec2_cp936_57_def]
    row_look [OF trail_at_936(60) dec2_cp936_58_def] row_look [OF trail_at_936(61) dec2_cp936_59_def]
    row_look [OF trail_at_936(62) dec2_cp936_60_def] row_look [OF trail_at_936(63) dec2_cp936_61_def]
    row_look [OF trail_at_936(64) dec2_cp936_62_def] row_look [OF trail_at_936(65) dec2_cp936_63_def]
    row_look [OF trail_at_936(66) dec2_cp936_64_def] row_look [OF trail_at_936(67) dec2_cp936_65_def]
    row_look [OF trail_at_936(68) dec2_cp936_66_def] row_look [OF trail_at_936(69) dec2_cp936_67_def]
    row_look [OF trail_at_936(70) dec2_cp936_68_def] row_look [OF trail_at_936(71) dec2_cp936_69_def]
    row_look [OF trail_at_936(72) dec2_cp936_70_def] row_look [OF trail_at_936(73) dec2_cp936_71_def]
    row_look [OF trail_at_936(74) dec2_cp936_72_def] row_look [OF trail_at_936(75) dec2_cp936_73_def]
    row_look [OF trail_at_936(76) dec2_cp936_74_def] row_look [OF trail_at_936(77) dec2_cp936_75_def]
    row_look [OF trail_at_936(78) dec2_cp936_76_def] row_look [OF trail_at_936(79) dec2_cp936_77_def]
    row_look [OF trail_at_936(80) dec2_cp936_78_def] row_look [OF trail_at_936(81) dec2_cp936_79_def]
    row_look [OF trail_at_936(82) dec2_cp936_80_def] row_look [OF trail_at_936(83) dec2_cp936_81_def]
    row_look [OF trail_at_936(84) dec2_cp936_82_def] row_look [OF trail_at_936(85) dec2_cp936_83_def]
    row_look [OF trail_at_936(86) dec2_cp936_84_def] row_look [OF trail_at_936(87) dec2_cp936_85_def]
    row_look [OF trail_at_936(88) dec2_cp936_86_def] row_look [OF trail_at_936(89) dec2_cp936_87_def]
    row_look [OF trail_at_936(90) dec2_cp936_88_def] row_look [OF trail_at_936(91) dec2_cp936_89_def]
    row_look [OF trail_at_936(92) dec2_cp936_90_def] row_look [OF trail_at_936(93) dec2_cp936_91_def]
    row_look [OF trail_at_936(94) dec2_cp936_92_def] row_look [OF trail_at_936(95) dec2_cp936_93_def]
    row_look [OF trail_at_936(96) dec2_cp936_94_def] row_look [OF trail_at_936(97) dec2_cp936_95_def]
    row_look [OF trail_at_936(98) dec2_cp936_96_def] row_look [OF trail_at_936(99) dec2_cp936_97_def]
    row_look [OF trail_at_936(100) dec2_cp936_98_def] row_look [OF trail_at_936(101) dec2_cp936_99_def]
    row_look [OF trail_at_936(102) dec2_cp936_100_def] row_look [OF trail_at_936(103) dec2_cp936_101_def]
    row_look [OF trail_at_936(104) dec2_cp936_102_def] row_look [OF trail_at_936(105) dec2_cp936_103_def]
    row_look [OF trail_at_936(106) dec2_cp936_104_def] row_look [OF trail_at_936(107) dec2_cp936_105_def]
    row_look [OF trail_at_936(108) dec2_cp936_106_def] row_look [OF trail_at_936(109) dec2_cp936_107_def]
    row_look [OF trail_at_936(110) dec2_cp936_108_def] row_look [OF trail_at_936(111) dec2_cp936_109_def]
    row_look [OF trail_at_936(112) dec2_cp936_110_def] row_look [OF trail_at_936(113) dec2_cp936_111_def]
    row_look [OF trail_at_936(114) dec2_cp936_112_def] row_look [OF trail_at_936(115) dec2_cp936_113_def]
    row_look [OF trail_at_936(116) dec2_cp936_114_def] row_look [OF trail_at_936(117) dec2_cp936_115_def]
    row_look [OF trail_at_936(118) dec2_cp936_116_def] row_look [OF trail_at_936(119) dec2_cp936_117_def]
    row_look [OF trail_at_936(120) dec2_cp936_118_def] row_look [OF trail_at_936(121) dec2_cp936_119_def]
    row_look [OF trail_at_936(122) dec2_cp936_120_def] row_look [OF trail_at_936(123) dec2_cp936_121_def]
    row_look [OF trail_at_936(124) dec2_cp936_122_def] row_look [OF trail_at_936(125) dec2_cp936_123_def]
    row_look [OF trail_at_936(126) dec2_cp936_124_def] row_look [OF trail_at_936(127) dec2_cp936_125_def]
    rev_cp936_0_def rev_cp936_1_def rev_cp936_2_def rev_cp936_3_def rev_cp936_4_def rev_cp936_5_def
    rev_cp936_6_def rev_cp936_7_def rev_cp936_8_def rev_cp936_9_def rev_cp936_10_def rev_cp936_11_def
    rev_cp936_12_def rev_cp936_13_def rev_cp936_14_def rev_cp936_15_def rev_cp936_16_def rev_cp936_17_def
    rev_cp936_18_def rev_cp936_19_def rev_cp936_20_def rev_cp936_21_def rev_cp936_22_def rev_cp936_23_def
    rev_cp936_24_def rev_cp936_25_def rev_cp936_26_def rev_cp936_27_def rev_cp936_28_def rev_cp936_29_def
    rev_cp936_30_def rev_cp936_31_def rev_cp936_32_def rev_cp936_33_def rev_cp936_34_def rev_cp936_35_def
    rev_cp936_36_def rev_cp936_37_def rev_cp936_38_def rev_cp936_39_def rev_cp936_40_def rev_cp936_41_def
    rev_cp936_42_def rev_cp936_43_def rev_cp936_44_def rev_cp936_45_def rev_cp936_46_def rev_cp936_47_def
    rev_cp936_48_def rev_cp936_49_def rev_cp936_50_def rev_cp936_51_def rev_cp936_52_def rev_cp936_53_def
    rev_cp936_54_def rev_cp936_55_def rev_cp936_56_def rev_cp936_57_def rev_cp936_58_def rev_cp936_59_def
    rev_cp936_60_def rev_cp936_61_def rev_cp936_62_def rev_cp936_63_def rev_cp936_64_def rev_cp936_65_def
    rev_cp936_66_def rev_cp936_67_def rev_cp936_68_def rev_cp936_69_def rev_cp936_70_def rev_cp936_71_def
    rev_cp936_72_def rev_cp936_73_def rev_cp936_74_def rev_cp936_75_def rev_cp936_76_def rev_cp936_77_def
    rev_cp936_78_def rev_cp936_79_def rev_cp936_80_def rev_cp936_81_def rev_cp936_82_def rev_cp936_83_def
    rev_cp936_84_def rev_cp936_85_def)

lemma scan_936: "scan_rev trails_936 single_936 (- 1) rev_cp936 65509"
  unfolding rev_cp936_def concat.simps by (rule scan_append scan_parts_936 scan_rev.simps(1) [THEN iffD2] refl)+

lemma page_936_ok: "page_ok page_936" "reads_inside page_936 b t"
  unfolding page_936_def
  by (rule db_page_ok [OF _ _ _ _ rows_sound_936 order_sound_936 _ lead_bits_936 scan_936];
      simp add: lead_at_936 order_at_936 dec1_at_936)+

section \<open>Page 949\<close>

lemma scan_parts_949:
  "scan_rev trails_949 single_949 (- 1) rev_cp949_0 1061"
  "scan_rev trails_949 single_949 1061 rev_cp949_1 9506"
  "scan_rev trails_949 single_949 9506 rev_cp949_2 12518"
  "scan_rev trails_949 single_949 12518 rev_cp949_3 19979"
  "scan_rev trails_949 single_949 19979 rev_cp949_4 20839"
  "scan_rev trails_949 single_949 20839 rev_cp949_5 21700"
  "scan_rev trails_949 single_949 21700 rev_cp949_6 22982"
  "scan_rev trails_949 single_949 22982 rev_cp949_7 24091"
  "scan_rev trails_949 single_949 24091 rev_cp949_8 24961"
  "scan_rev trails_949 single_949 24961 rev_cp949_9 25987"
  "scan_rev trails_949 single_949 25987 rev_cp949_10 26781"
  "scan_rev trails_949 single_949 26781 rev_cp949_11 27883"
  "scan_rev trails_949 single_949 27883 rev_cp949_12 28844"
  "scan_rev trails_949 single_949 28844 rev_cp949_13 29861"
  "scan_rev trails_949 single_949 29861 rev_cp949_14 31067"
  "scan_rev trails_949 single_949 31067 rev_cp949_15 32180"
  "scan_rev trails_949 single_949 32180 rev_cp949_16 33334"
  "scan_rev trails_949 single_949 33334 rev_cp949_17 34676"
  "scan_rev trails_949 single_949 34676 rev_cp949_18 36007"
  "scan_rev trails_949 single_949 36007 rev_cp949_19 37109"
  "scan_rev trails_949 single_949 37109 rev_cp949_20 38686"
  "scan_rev trails_949 single_949 38686 rev_cp949_21 40823"
  "scan_rev trails_949 single_949 40823 rev_cp949_22 44283"
  "scan_rev trails_949 single_949 44283 rev_cp949_23 44539"
  "scan_rev trails_949 single_949 44539 rev_cp949_24 44795"
  "scan_rev trails_949 single_949 44795 rev_cp949_25 45051"
  "scan_rev trails_949 single_949 45051 rev_cp949_26 45307"
  "scan_rev trails_949 single_949 45307 rev_cp949_27 45563"
  "scan_rev trails_949 single_949 45563 rev_cp949_28 45819"
  "scan_rev trails_949 single_949 45819 rev_cp949_29 46075"
  "scan_rev trails_949 single_949 46075 rev_cp949_30 46331"
  "scan_rev trails_949 single_949 46331 rev_cp949_31 46587"
  "scan_rev trails_949 single_949 46587 rev_cp949_32 46843"
  "scan_rev trails_949 single_949 46843 rev_cp949_33 47099"
  "scan_rev trails_949 single_949 47099 rev_cp949_34 47355"
  "scan_rev trails_949 single_949 47355 rev_cp949_35 47611"
  "scan_rev trails_949 single_949 47611 rev_cp949_36 47867"
  "scan_rev trails_949 single_949 47867 rev_cp949_37 48123"
  "scan_rev trails_949 single_949 48123 rev_cp949_38 48379"
  "scan_rev trails_949 single_949 48379 rev_cp949_39 48635"
  "scan_rev trails_949 single_949 48635 rev_cp949_40 48891"
  "scan_rev trails_949 single_949 48891 rev_cp949_41 49147"
  "scan_rev trails_949 single_949 49147 rev_cp949_42 49403"
  "scan_rev trails_949 single_949 49403 rev_cp949_43 49659"
  "scan_rev trails_949 single_949 49659 rev_cp949_44 49915"
  "scan_rev trails_949 single_949 49915 rev_cp949_45 50171"
  "scan_rev trails_949 single_949 50171 rev_cp949_46 50427"
  "scan_rev trails_949 single_949 50427 rev_cp949_47 50683"
  "scan_rev trails_949 single_949 50683 rev_cp949_48 50939"
  "scan_rev trails_949 single_949 50939 rev_cp949_49 51195"
  "scan_rev trails_949 single_949 51195 rev_cp949_50 51451"
  "scan_rev trails_949 single_949 51451 rev_cp949_51 51707"
  "scan_rev trails_949 single_949 51707 rev_cp949_52 51963"
  "scan_rev trails_949 single_949 51963 rev_cp949_53 52219"
  "scan_rev trails_949 single_949 52219 rev_cp949_54 52475"
  "scan_rev trails_949 single_949 52475 rev_cp949_55 52731"
  "scan_rev trails_949 single_949 52731 rev_cp949_56 52987"
  "scan_rev trails_949 single_949 52987 rev_cp949_57 53243"
  "scan_rev trails_949 single_949 53243 rev_cp949_58 53499"
  "scan_rev trails_949 single_949 53499 rev_cp949_59 53755"
  "scan_rev trails_949 single_949 53755 rev_cp949_60 54011"
  "scan_rev trails_949 single_949 54011 rev_cp949_61 54267"
  "scan_rev trails_949 single_949 54267 rev_cp949_62 54523"
  "scan_rev trails_949 single_949 54523 rev_cp949_63 54779"
  "scan_rev trails_949 single_949 54779 rev_cp949_64 55035"
  "scan_rev trails_949 single_949 55035 rev_cp949_65 63831"
  "scan_rev trails_949 single_949 63831 rev_cp949_66 65356"
  "scan_rev trails_949 single_949 65356 rev_cp949_67 65510"
  by (simp_all add: looked_up_single trail_at_949(1) single_unit_def lead_at_949 dec1_at_949
    row_look [OF trail_at_949(2) dec2_cp949_0_def] row_look [OF trail_at_949(3) dec2_cp949_1_def]
    row_look [OF trail_at_949(4) dec2_cp949_2_def] row_look [OF trail_at_949(5) dec2_cp949_3_def]
    row_look [OF trail_at_949(6) dec2_cp949_4_def] row_look [OF trail_at_949(7) dec2_cp949_5_def]
    row_look [OF trail_at_949(8) dec2_cp949_6_def] row_look [OF trail_at_949(9) dec2_cp949_7_def]
    row_look [OF trail_at_949(10) dec2_cp949_8_def] row_look [OF trail_at_949(11) dec2_cp949_9_def]
    row_look [OF trail_at_949(12) dec2_cp949_10_def] row_look [OF trail_at_949(13) dec2_cp949_11_def]
    row_look [OF trail_at_949(14) dec2_cp949_12_def] row_look [OF trail_at_949(15) dec2_cp949_13_def]
    row_look [OF trail_at_949(16) dec2_cp949_14_def] row_look [OF trail_at_949(17) dec2_cp949_15_def]
    row_look [OF trail_at_949(18) dec2_cp949_16_def] row_look [OF trail_at_949(19) dec2_cp949_17_def]
    row_look [OF trail_at_949(20) dec2_cp949_18_def] row_look [OF trail_at_949(21) dec2_cp949_19_def]
    row_look [OF trail_at_949(22) dec2_cp949_20_def] row_look [OF trail_at_949(23) dec2_cp949_21_def]
    row_look [OF trail_at_949(24) dec2_cp949_22_def] row_look [OF trail_at_949(25) dec2_cp949_23_def]
    row_look [OF trail_at_949(26) dec2_cp949_24_def] row_look [OF trail_at_949(27) dec2_cp949_25_def]
    row_look [OF trail_at_949(28) dec2_cp949_26_def] row_look [OF trail_at_949(29) dec2_cp949_27_def]
    row_look [OF trail_at_949(30) dec2_cp949_28_def] row_look [OF trail_at_949(31) dec2_cp949_29_def]
    row_look [OF trail_at_949(32) dec2_cp949_30_def] row_look [OF trail_at_949(33) dec2_cp949_31_def]
    row_look [OF trail_at_949(34) dec2_cp949_32_def] row_look [OF trail_at_949(35) dec2_cp949_33_def]
    row_look [OF trail_at_949(36) dec2_cp949_34_def] row_look [OF trail_at_949(37) dec2_cp949_35_def]
    row_look [OF trail_at_949(38) dec2_cp949_36_def] row_look [OF trail_at_949(39) dec2_cp949_37_def]
    row_look [OF trail_at_949(40) dec2_cp949_38_def] row_look [OF trail_at_949(41) dec2_cp949_39_def]
    row_look [OF trail_at_949(42) dec2_cp949_40_def] row_look [OF trail_at_949(43) dec2_cp949_41_def]
    row_look [OF trail_at_949(44) dec2_cp949_42_def] row_look [OF trail_at_949(45) dec2_cp949_43_def]
    row_look [OF trail_at_949(46) dec2_cp949_44_def] row_look [OF trail_at_949(47) dec2_cp949_45_def]
    row_look [OF trail_at_949(48) dec2_cp949_46_def] row_look [OF trail_at_949(49) dec2_cp949_47_def]
    row_look [OF trail_at_949(50) dec2_cp949_48_def] row_look [OF trail_at_949(51) dec2_cp949_49_def]
    row_look [OF trail_at_949(52) dec2_cp949_50_def] row_look [OF trail_at_949(53) dec2_cp949_51_def]
    row_look [OF trail_at_949(54) dec2_cp949_52_def] row_look [OF trail_at_949(55) dec2_cp949_53_def]
    row_look [OF trail_at_949(56) dec2_cp949_54_def] row_look [OF trail_at_949(57) dec2_cp949_55_def]
    row_look [OF trail_at_949(58) dec2_cp949_56_def] row_look [OF trail_at_949(59) dec2_cp949_57_def]
    row_look [OF trail_at_949(60) dec2_cp949_58_def] row_look [OF trail_at_949(61) dec2_cp949_59_def]
    row_look [OF trail_at_949(62) dec2_cp949_60_def] row_look [OF trail_at_949(63) dec2_cp949_61_def]
    row_look [OF trail_at_949(64) dec2_cp949_62_def] row_look [OF trail_at_949(65) dec2_cp949_63_def]
    row_look [OF trail_at_949(66) dec2_cp949_64_def] row_look [OF trail_at_949(67) dec2_cp949_65_def]
    row_look [OF trail_at_949(68) dec2_cp949_66_def] row_look [OF trail_at_949(69) dec2_cp949_67_def]
    row_look [OF trail_at_949(70) dec2_cp949_68_def] row_look [OF trail_at_949(71) dec2_cp949_69_def]
    row_look [OF trail_at_949(72) dec2_cp949_70_def] row_look [OF trail_at_949(73) dec2_cp949_71_def]
    row_look [OF trail_at_949(74) dec2_cp949_72_def] row_look [OF trail_at_949(75) dec2_cp949_73_def]
    row_look [OF trail_at_949(76) dec2_cp949_74_def] row_look [OF trail_at_949(77) dec2_cp949_75_def]
    row_look [OF trail_at_949(78) dec2_cp949_76_def] row_look [OF trail_at_949(79) dec2_cp949_77_def]
    row_look [OF trail_at_949(80) dec2_cp949_78_def] row_look [OF trail_at_949(81) dec2_cp949_79_def]
    row_look [OF trail_at_949(82) dec2_cp949_80_def] row_look [OF trail_at_949(83) dec2_cp949_81_def]
    row_look [OF trail_at_949(84) dec2_cp949_82_def] row_look [OF trail_at_949(85) dec2_cp949_83_def]
    row_look [OF trail_at_949(86) dec2_cp949_84_def] row_look [OF trail_at_949(87) dec2_cp949_85_def]
    row_look [OF trail_at_949(88) dec2_cp949_86_def] row_look [OF trail_at_949(89) dec2_cp949_87_def]
    row_look [OF trail_at_949(90) dec2_cp949_88_def] row_look [OF trail_at_949(91) dec2_cp949_89_def]
    row_look [OF trail_at_949(92) dec2_cp949_90_def] row_look [OF trail_at_949(93) dec2_cp949_91_def]
    row_look [OF trail_at_949(94) dec2_cp949_92_def] row_look [OF trail_at_949(95) dec2_cp949_93_def]
    row_look [OF trail_at_949(96) dec2_cp949_94_def] row_look [OF trail_at_949(97) dec2_cp949_95_def]
    row_look [OF trail_at_949(98) dec2_cp949_96_def] row_look [OF trail_at_949(99) dec2_cp949_97_def]
    row_look [OF trail_at_949(100) dec2_cp949_98_def] row_look [OF trail_at_949(101) dec2_cp949_99_def]
    row_look [OF trail_at_949(102) dec2_cp949_100_def] row_look [OF trail_at_949(103) dec2_cp949_101_def]
    row_look [OF trail_at_949(104) dec2_cp949_102_def] row_look [OF trail_at_949(105) dec2_cp949_103_def]
    row_look [OF trail_at_949(106) dec2_cp949_104_def] row_look [OF trail_at_949(107) dec2_cp949_105_def]
    row_look [OF trail_at_949(108) dec2_cp949_106_def] row_look [OF trail_at_949(109) dec2_cp949_107_def]
    row_look [OF trail_at_949(110) dec2_cp949_108_def] row_look [OF trail_at_949(111) dec2_cp949_109_def]
    row_look [OF trail_at_949(112) dec2_cp949_110_def] row_look [OF trail_at_949(113) dec2_cp949_111_def]
    row_look [OF trail_at_949(114) dec2_cp949_112_def] row_look [OF trail_at_949(115) dec2_cp949_113_def]
    row_look [OF trail_at_949(116) dec2_cp949_114_def] row_look [OF trail_at_949(117) dec2_cp949_115_def]
    row_look [OF trail_at_949(118) dec2_cp949_116_def] row_look [OF trail_at_949(119) dec2_cp949_117_def]
    row_look [OF trail_at_949(120) dec2_cp949_118_def] row_look [OF trail_at_949(121) dec2_cp949_119_def]
    row_look [OF trail_at_949(122) dec2_cp949_120_def] row_look [OF trail_at_949(123) dec2_cp949_121_def]
    row_look [OF trail_at_949(124) dec2_cp949_122_def] row_look [OF trail_at_949(125) dec2_cp949_123_def]
    row_look [OF trail_at_949(126) dec2_cp949_124_def] row_look [OF trail_at_949(127) dec2_cp949_125_def]
    rev_cp949_0_def rev_cp949_1_def rev_cp949_2_def rev_cp949_3_def rev_cp949_4_def rev_cp949_5_def
    rev_cp949_6_def rev_cp949_7_def rev_cp949_8_def rev_cp949_9_def rev_cp949_10_def rev_cp949_11_def
    rev_cp949_12_def rev_cp949_13_def rev_cp949_14_def rev_cp949_15_def rev_cp949_16_def rev_cp949_17_def
    rev_cp949_18_def rev_cp949_19_def rev_cp949_20_def rev_cp949_21_def rev_cp949_22_def rev_cp949_23_def
    rev_cp949_24_def rev_cp949_25_def rev_cp949_26_def rev_cp949_27_def rev_cp949_28_def rev_cp949_29_def
    rev_cp949_30_def rev_cp949_31_def rev_cp949_32_def rev_cp949_33_def rev_cp949_34_def rev_cp949_35_def
    rev_cp949_36_def rev_cp949_37_def rev_cp949_38_def rev_cp949_39_def rev_cp949_40_def rev_cp949_41_def
    rev_cp949_42_def rev_cp949_43_def rev_cp949_44_def rev_cp949_45_def rev_cp949_46_def rev_cp949_47_def
    rev_cp949_48_def rev_cp949_49_def rev_cp949_50_def rev_cp949_51_def rev_cp949_52_def rev_cp949_53_def
    rev_cp949_54_def rev_cp949_55_def rev_cp949_56_def rev_cp949_57_def rev_cp949_58_def rev_cp949_59_def
    rev_cp949_60_def rev_cp949_61_def rev_cp949_62_def rev_cp949_63_def rev_cp949_64_def rev_cp949_65_def
    rev_cp949_66_def rev_cp949_67_def)

lemma scan_949: "scan_rev trails_949 single_949 (- 1) rev_cp949 65510"
  unfolding rev_cp949_def concat.simps by (rule scan_append scan_parts_949 scan_rev.simps(1) [THEN iffD2] refl)+

lemma page_949_ok: "page_ok page_949" "reads_inside page_949 b t"
  unfolding page_949_def
  by (rule db_page_ok [OF _ _ _ _ rows_sound_949 order_sound_949 _ lead_bits_949 scan_949];
      simp add: lead_at_949 order_at_949 dec1_at_949)+

section \<open>Page 950\<close>

lemma scan_parts_950:
  "scan_rev trails_950 single_950 (- 1) rev_cp950_0 9532"
  "scan_rev trails_950 single_950 9532 rev_cp950_1 20185"
  "scan_rev trails_950 single_950 20185 rev_cp950_2 20575"
  "scan_rev trails_950 single_950 20575 rev_cp950_3 21000"
  "scan_rev trails_950 single_950 21000 rev_cp950_4 21481"
  "scan_rev trails_950 single_950 21481 rev_cp950_5 21887"
  "scan_rev trails_950 single_950 21887 rev_cp950_6 22284"
  "scan_rev trails_950 single_950 22284 rev_cp950_7 22716"
  "scan_rev trails_950 single_950 22716 rev_cp950_8 23127"
  "scan_rev trails_950 single_950 23127 rev_cp950_9 23518"
  "scan_rev trails_950 single_950 23518 rev_cp950_10 23936"
  "scan_rev trails_950 single_950 23936 rev_cp950_11 24331"
  "scan_rev trails_950 single_950 24331 rev_cp950_12 24732"
  "scan_rev trails_950 single_950 24732 rev_cp950_13 25109"
  "scan_rev trails_950 single_950 25109 rev_cp950_14 25490"
  "scan_rev trails_950 single_950 25490 rev_cp950_15 25857"
  "scan_rev trails_950 single_950 25857 rev_cp950_16 26246"
  "scan_rev trails_950 single_950 26246 rev_cp950_17 26623"
  "scan_rev trails_950 single_950 26623 rev_cp950_18 27034"
  "scan_rev trails_950 single_950 27034 rev_cp950_19 27437"
  "scan_rev trails_950 single_950 27437 rev_cp950_20 27798"
  "scan_rev trails_950 single_950 27798 rev_cp950_21 28160"
  "scan_rev trails_950 single_950 28160 rev_cp950_22 28535"
  "scan_rev trails_950 single_950 28535 rev_cp950_23 28916"
  "scan_rev trails_950 single_950 28916 rev_cp950_24 29316"
  "scan_rev trails_950 single_950 29316 rev_cp950_25 29696"
  "scan_rev trails_950 single_950 29696 rev_cp950_26 30106"
  "scan_rev trails_950 single_950 30106 rev_cp950_27 30498"
  "scan_rev trails_950 single_950 30498 rev_cp950_28 30892"
  "scan_rev trails_950 single_950 30892 rev_cp950_29 31293"
  "scan_rev trails_950 single_950 31293 rev_cp950_30 31723"
  "scan_rev trails_950 single_950 31723 rev_cp950_31 32110"
  "scan_rev trails_950 single_950 32110 rev_cp950_32 32618"
  "scan_rev trails_950 single_950 32618 rev_cp950_33 32997"
  "scan_rev trails_950 single_950 32997 rev_cp950_34 33387"
  "scan_rev trails_950 single_950 33387 rev_cp950_35 33769"
  "scan_rev trails_950 single_950 33769 rev_cp950_36 34137"
  "scan_rev trails_950 single_950 34137 rev_cp950_37 34487"
  "scan_rev trails_950 single_950 34487 rev_cp950_38 34824"
  "scan_rev trails_950 single_950 34824 rev_cp950_39 35186"
  "scan_rev trails_950 single_950 35186 rev_cp950_40 35579"
  "scan_rev trails_950 single_950 35579 rev_cp950_41 36067"
  "scan_rev trails_950 single_950 36067 rev_cp950_42 36488"
  "scan_rev trails_950 single_950 36488 rev_cp950_43 36935"
  "scan_rev trails_950 single_950 36935 rev_cp950_44 37280"
  "scan_rev trails_950 single_950 37280 rev_cp950_45 37643"
  "scan_rev trails_950 single_950 37643 rev_cp950_46 38263"
  "scan_rev trails_950 single_950 38263 rev_cp950_47 38692"
  "scan_rev trails_950 single_950 38692 rev_cp950_48 39162"
  "scan_rev trails_950 single_950 39162 rev_cp950_49 39634"
  "scan_rev trails_950 single_950 39634 rev_cp950_50 40173"
  "scan_rev trails_950 single_950 40173 rev_cp950_51 40609"
  "scan_rev trails_950 single_950 40609 rev_cp950_52 65321"
  "scan_rev trails_950 single_950 65321 rev_cp950_53 65509"
  by (simp_all add: looked_up_single trail_at_950(1) single_unit_def lead_at_950 dec1_at_950
    row_look [OF trail_at_950(2) dec2_cp950_0_def] row_look [OF trail_at_950(3) dec2_cp950_1_def]
    row_look [OF trail_at_950(4) dec2_cp950_2_def] row_look [OF trail_at_950(5) dec2_cp950_3_def]
    row_look [OF trail_at_950(6) dec2_cp950_4_def] row_look [OF trail_at_950(7) dec2_cp950_5_def]
    row_look [OF trail_at_950(8) dec2_cp950_6_def] row_look [OF trail_at_950(9) dec2_cp950_7_def]
    row_look [OF trail_at_950(10) dec2_cp950_8_def] row_look [OF trail_at_950(11) dec2_cp950_9_def]
    row_look [OF trail_at_950(12) dec2_cp950_10_def] row_look [OF trail_at_950(13) dec2_cp950_11_def]
    row_look [OF trail_at_950(14) dec2_cp950_12_def] row_look [OF trail_at_950(15) dec2_cp950_13_def]
    row_look [OF trail_at_950(16) dec2_cp950_14_def] row_look [OF trail_at_950(17) dec2_cp950_15_def]
    row_look [OF trail_at_950(18) dec2_cp950_16_def] row_look [OF trail_at_950(19) dec2_cp950_17_def]
    row_look [OF trail_at_950(20) dec2_cp950_18_def] row_look [OF trail_at_950(21) dec2_cp950_19_def]
    row_look [OF trail_at_950(22) dec2_cp950_20_def] row_look [OF trail_at_950(23) dec2_cp950_21_def]
    row_look [OF trail_at_950(24) dec2_cp950_22_def] row_look [OF trail_at_950(25) dec2_cp950_23_def]
    row_look [OF trail_at_950(26) dec2_cp950_24_def] row_look [OF trail_at_950(27) dec2_cp950_25_def]
    row_look [OF trail_at_950(28) dec2_cp950_26_def] row_look [OF trail_at_950(29) dec2_cp950_27_def]
    row_look [OF trail_at_950(30) dec2_cp950_28_def] row_look [OF trail_at_950(31) dec2_cp950_29_def]
    row_look [OF trail_at_950(32) dec2_cp950_30_def] row_look [OF trail_at_950(33) dec2_cp950_31_def]
    row_look [OF trail_at_950(34) dec2_cp950_32_def] row_look [OF trail_at_950(35) dec2_cp950_33_def]
    row_look [OF trail_at_950(36) dec2_cp950_34_def] row_look [OF trail_at_950(37) dec2_cp950_35_def]
    row_look [OF trail_at_950(38) dec2_cp950_36_def] row_look [OF trail_at_950(39) dec2_cp950_37_def]
    row_look [OF trail_at_950(40) dec2_cp950_38_def] row_look [OF trail_at_950(41) dec2_cp950_39_def]
    row_look [OF trail_at_950(42) dec2_cp950_40_def] row_look [OF trail_at_950(43) dec2_cp950_41_def]
    row_look [OF trail_at_950(44) dec2_cp950_42_def] row_look [OF trail_at_950(45) dec2_cp950_43_def]
    row_look [OF trail_at_950(46) dec2_cp950_44_def] row_look [OF trail_at_950(47) dec2_cp950_45_def]
    row_look [OF trail_at_950(48) dec2_cp950_46_def] row_look [OF trail_at_950(49) dec2_cp950_47_def]
    row_look [OF trail_at_950(50) dec2_cp950_48_def] row_look [OF trail_at_950(51) dec2_cp950_49_def]
    row_look [OF trail_at_950(52) dec2_cp950_50_def] row_look [OF trail_at_950(53) dec2_cp950_51_def]
    row_look [OF trail_at_950(54) dec2_cp950_52_def] row_look [OF trail_at_950(55) dec2_cp950_53_def]
    row_look [OF trail_at_950(56) dec2_cp950_54_def] row_look [OF trail_at_950(57) dec2_cp950_55_def]
    row_look [OF trail_at_950(58) dec2_cp950_56_def] row_look [OF trail_at_950(59) dec2_cp950_57_def]
    row_look [OF trail_at_950(60) dec2_cp950_58_def] row_look [OF trail_at_950(61) dec2_cp950_59_def]
    row_look [OF trail_at_950(62) dec2_cp950_60_def] row_look [OF trail_at_950(63) dec2_cp950_61_def]
    row_look [OF trail_at_950(64) dec2_cp950_62_def] row_look [OF trail_at_950(65) dec2_cp950_63_def]
    row_look [OF trail_at_950(66) dec2_cp950_64_def] row_look [OF trail_at_950(67) dec2_cp950_65_def]
    row_look [OF trail_at_950(68) dec2_cp950_66_def] row_look [OF trail_at_950(69) dec2_cp950_67_def]
    row_look [OF trail_at_950(70) dec2_cp950_68_def] row_look [OF trail_at_950(71) dec2_cp950_69_def]
    row_look [OF trail_at_950(72) dec2_cp950_70_def] row_look [OF trail_at_950(73) dec2_cp950_71_def]
    row_look [OF trail_at_950(74) dec2_cp950_72_def] row_look [OF trail_at_950(75) dec2_cp950_73_def]
    row_look [OF trail_at_950(76) dec2_cp950_74_def] row_look [OF trail_at_950(77) dec2_cp950_75_def]
    row_look [OF trail_at_950(78) dec2_cp950_76_def] row_look [OF trail_at_950(79) dec2_cp950_77_def]
    row_look [OF trail_at_950(80) dec2_cp950_78_def] row_look [OF trail_at_950(81) dec2_cp950_79_def]
    row_look [OF trail_at_950(82) dec2_cp950_80_def] row_look [OF trail_at_950(83) dec2_cp950_81_def]
    row_look [OF trail_at_950(84) dec2_cp950_82_def] row_look [OF trail_at_950(85) dec2_cp950_83_def]
    row_look [OF trail_at_950(86) dec2_cp950_84_def] row_look [OF trail_at_950(87) dec2_cp950_85_def]
    row_look [OF trail_at_950(88) dec2_cp950_86_def] row_look [OF trail_at_950(89) dec2_cp950_87_def]
    row_look [OF trail_at_950(90) dec2_cp950_88_def] row_look [OF trail_at_950(91) dec2_cp950_89_def]
    row_look [OF trail_at_950(92) dec2_cp950_90_def] row_look [OF trail_at_950(93) dec2_cp950_91_def]
    row_look [OF trail_at_950(94) dec2_cp950_92_def] row_look [OF trail_at_950(95) dec2_cp950_93_def]
    row_look [OF trail_at_950(96) dec2_cp950_94_def] row_look [OF trail_at_950(97) dec2_cp950_95_def]
    row_look [OF trail_at_950(98) dec2_cp950_96_def] row_look [OF trail_at_950(99) dec2_cp950_97_def]
    row_look [OF trail_at_950(100) dec2_cp950_98_def] row_look [OF trail_at_950(101) dec2_cp950_99_def]
    row_look [OF trail_at_950(102) dec2_cp950_100_def] row_look [OF trail_at_950(103) dec2_cp950_101_def]
    row_look [OF trail_at_950(104) dec2_cp950_102_def] row_look [OF trail_at_950(105) dec2_cp950_103_def]
    row_look [OF trail_at_950(106) dec2_cp950_104_def] row_look [OF trail_at_950(107) dec2_cp950_105_def]
    row_look [OF trail_at_950(108) dec2_cp950_106_def] row_look [OF trail_at_950(109) dec2_cp950_107_def]
    row_look [OF trail_at_950(110) dec2_cp950_108_def] row_look [OF trail_at_950(111) dec2_cp950_109_def]
    row_look [OF trail_at_950(112) dec2_cp950_110_def] row_look [OF trail_at_950(113) dec2_cp950_111_def]
    row_look [OF trail_at_950(114) dec2_cp950_112_def] row_look [OF trail_at_950(115) dec2_cp950_113_def]
    row_look [OF trail_at_950(116) dec2_cp950_114_def] row_look [OF trail_at_950(117) dec2_cp950_115_def]
    row_look [OF trail_at_950(118) dec2_cp950_116_def] row_look [OF trail_at_950(119) dec2_cp950_117_def]
    row_look [OF trail_at_950(120) dec2_cp950_118_def] row_look [OF trail_at_950(121) dec2_cp950_119_def]
    row_look [OF trail_at_950(122) dec2_cp950_120_def] row_look [OF trail_at_950(123) dec2_cp950_121_def]
    row_look [OF trail_at_950(124) dec2_cp950_122_def] row_look [OF trail_at_950(125) dec2_cp950_123_def]
    row_look [OF trail_at_950(126) dec2_cp950_124_def] row_look [OF trail_at_950(127) dec2_cp950_125_def]
    rev_cp950_0_def rev_cp950_1_def rev_cp950_2_def rev_cp950_3_def rev_cp950_4_def rev_cp950_5_def
    rev_cp950_6_def rev_cp950_7_def rev_cp950_8_def rev_cp950_9_def rev_cp950_10_def rev_cp950_11_def
    rev_cp950_12_def rev_cp950_13_def rev_cp950_14_def rev_cp950_15_def rev_cp950_16_def rev_cp950_17_def
    rev_cp950_18_def rev_cp950_19_def rev_cp950_20_def rev_cp950_21_def rev_cp950_22_def rev_cp950_23_def
    rev_cp950_24_def rev_cp950_25_def rev_cp950_26_def rev_cp950_27_def rev_cp950_28_def rev_cp950_29_def
    rev_cp950_30_def rev_cp950_31_def rev_cp950_32_def rev_cp950_33_def rev_cp950_34_def rev_cp950_35_def
    rev_cp950_36_def rev_cp950_37_def rev_cp950_38_def rev_cp950_39_def rev_cp950_40_def rev_cp950_41_def
    rev_cp950_42_def rev_cp950_43_def rev_cp950_44_def rev_cp950_45_def rev_cp950_46_def rev_cp950_47_def
    rev_cp950_48_def rev_cp950_49_def rev_cp950_50_def rev_cp950_51_def rev_cp950_52_def rev_cp950_53_def)

lemma scan_950: "scan_rev trails_950 single_950 (- 1) rev_cp950 65509"
  unfolding rev_cp950_def concat.simps by (rule scan_append scan_parts_950 scan_rev.simps(1) [THEN iffD2] refl)+

lemma page_950_ok: "page_ok page_950" "reads_inside page_950 b t"
  unfolding page_950_def
  by (rule db_page_ok [OF _ _ _ _ rows_sound_950 order_sound_950 _ lead_bits_950 scan_950];
      simp add: lead_at_950 order_at_950 dec1_at_950)+

end
