(* ===== verification/CodePages.thy ===== *)
theory CodePages
  imports Cp1252 WinPages DosPages DosPagesB DbPages
begin

text \<open>
  The table of the code pages that the program carries, in its order, and what holds of all
  of them.
\<close>

definition charset_pages :: "CpPage list" where
  "charset_pages =
     [page_1250, page_1251, page_1252, page_1253, page_1254, page_1255, page_1256, page_1257, page_1258,
      page_874, page_932, page_936, page_949, page_950, page_437, page_737, page_775, page_850, page_852,
      page_855, page_857, page_860, page_861, page_862, page_863, page_864, page_865, page_866, page_869,
      page_858]"

lemmas sb_pages = sb_page_1252 sb_page_1250 sb_page_1251 sb_page_1253 sb_page_1254 sb_page_1255
  sb_page_1256 sb_page_1257 sb_page_1258 sb_page_874 sb_page_437 sb_page_737 sb_page_775 sb_page_850
  sb_page_852 sb_page_855 sb_page_857 sb_page_860 sb_page_861 sb_page_862 sb_page_863 sb_page_864
  sb_page_865 sb_page_866 sb_page_869 sb_page_858

lemmas ascii_pages = ascii_1252 ascii_1250 ascii_1251 ascii_1253 ascii_1254 ascii_1255 ascii_1256
  ascii_1257 ascii_1258 ascii_874 ascii_437 ascii_737 ascii_775 ascii_850 ascii_852 ascii_855 ascii_857
  ascii_860 ascii_861 ascii_862 ascii_863 ascii_865 ascii_866 ascii_869 ascii_858

lemmas page_defs = page_1252_def page_1250_def page_1251_def page_1253_def page_1254_def page_1255_def
  page_1256_def page_1257_def page_1258_def page_874_def page_437_def page_737_def page_775_def
  page_850_def page_852_def page_855_def page_857_def page_860_def page_861_def page_862_def page_863_def
  page_864_def page_865_def page_866_def page_869_def page_858_def

lemmas db_pages_ok = page_932_ok page_936_ok page_949_ok page_950_ok

lemmas db_page_defs = page_932_def page_936_def page_949_def page_950_def

lemma page_ids:
  "map cp charset_pages =
     [1250, 1251, 1252, 1253, 1254, 1255, 1256, 1257, 1258, 874, 932, 936, 949, 950,
      437, 737, 775, 850, 852, 855, 857, 860, 861, 862, 863, 864, 865, 866, 869, 858]"
  by (simp add: charset_pages_def page_defs db_page_defs db_page_def)

lemma is_dbcs_db_page [simp]: "is_dbcs (db_page c d leads order rows r)"
  by (simp add: db_page_def)

lemma pages_sound: "list_all (\<lambda>p. is_dbcs p \<or> sb_page p) charset_pages"
  by (simp add: charset_pages_def sb_pages) (simp add: db_page_defs)

lemma pages_ascii: "list_all (\<lambda>p. is_dbcs p \<or> cp p = 864 \<or> ascii_from 0 (dec1 p)) charset_pages"
  by (simp add: charset_pages_def ascii_pages) (simp add: page_defs db_page_defs)

lemma pages_ok: "list_all page_ok charset_pages"
  by (simp add: charset_pages_def sb_pages [THEN sb_page_ok] db_pages_ok)

lemma pages_inside: "list_all (\<lambda>p. reads_inside p b t) charset_pages"
  by (simp add: charset_pages_def sb_pages [THEN sb_page_inside] db_pages_ok)

lemma find_page_mem: "distinct (map cp ps) \<Longrightarrow> p \<in> set ps \<Longrightarrow> find_page ps (cp p) = Some p"
  by (induction ps) force+

lemma find_carried: "p \<in> set charset_pages \<Longrightarrow> find_page charset_pages (cp p) = Some p"
  by (rule find_page_mem) (unfold page_ids, simp)

lemma cp_1252: "cp page_1252 = 1252"
  by (simp add: page_1252_def)

lemma find_page_set: "find_page ps n = Some p \<Longrightarrow> p \<in> set ps"
  by (induction ps) (auto split: if_splits)

lemma CpSupported_ids: "CpSupported ps n \<longleftrightarrow> n \<in> cp ` set ps"
  by (induction ps) (auto simp: CpSupported_def)

lemma carried_ok: "find_page charset_pages n = Some p \<Longrightarrow> page_ok p \<and> reads_inside p b t"
  using pages_ok pages_inside by (auto simp: list_all_iff dest: find_page_set)

text \<open>
  C12: narrowing through the program's own pages is strict and loses nothing: when it
  succeeds every unit is representable, the bytes fit, and widening them gives the units
  back with no substitution and every byte consumed; when it rejects, the index is the first
  unit that the page lacks; it finds the buffer too small only when that holds less than two
  bytes a unit; and widening reads inside the tables of the page whatever the bytes.  A page
  that the program does not carry is refused by both, without touching the output.
\<close>

theorem CpEncode_carried:
  "if CpSupported charset_pages codepage
   then (case CpEncode charset_pages codepage units outCap of
       CpBytes bs \<Rightarrow> CpRepresentable charset_pages codepage units \<and> length bs \<le> outCap \<and>
         CpDecode charset_pages codepage bs (length units) = (units, False, length bs)
     | CpReject k \<Rightarrow> k < length units \<and> CpRepresentable charset_pages codepage (take k units) \<and>
         \<not> CpRepresentable charset_pages codepage [units ! k]
     | CpOverflow \<Rightarrow> outCap < 2 * length units) \<and>
     (case find_page charset_pages codepage of Some p \<Rightarrow> reads_inside p b t | None \<Rightarrow> False)
   else CpEncode charset_pages codepage units outCap = CpReject 0 \<and>
     CpDecode charset_pages codepage bytes outCap = ([], False, 0)"
proof (cases "find_page charset_pages codepage")
  case (Some p)
  then show ?thesis using CpEncode_strict [OF Some, of units outCap] carried_ok [OF Some, of b t]
    by (simp add: CpSupported_def)
qed (simp add: CpSupported_def CpEncode_def CpDecode_def)

lemma sb_unit_small:
  assumes "sb_page p" "b < 256"
  shows "dec1 p ! b < 65536"
proof (cases "dec1 p ! b = 65533")
  case False
  from sb_complete [OF assms False] show ?thesis
    using assms(1) by (fastforce simp: sb_page_def sound_tables_def list_all_iff sb_entry_def)
qed simp

text \<open>
  C13: the pages that the program carries lose nothing: on each of its pages of single bytes
  every byte gives one unit, a text is marked as lossy exactly when it has a byte without a
  character, one that is not is encoded back to the same bytes, and on all of them but 864
  a byte of ASCII is itself.
\<close>

theorem CpDecode_reencodes:
  assumes "p \<in> set charset_pages" "\<not> is_dbcs p"
  shows "case CpDecode charset_pages (cp p) bytes (length bytes) of (units, lossy, used) \<Rightarrow>
    used = length bytes \<and> length units = length bytes \<and> (lossy \<longleftrightarrow> 0xFFFD \<in> set units) \<and>
    (\<not> lossy \<longrightarrow> CpEncode charset_pages (cp p) units (length units) = CpBytes bytes) \<and>
    (cp p \<noteq> 864 \<longrightarrow> (\<forall>i < length bytes. bytes ! i < 128 \<longrightarrow> units ! i = ucast (bytes ! i)))"
proof -
  have p: "sb_page p" using pages_sound assms by (auto simp: list_all_iff)
  let ?u = "\<lambda>b. word_of_nat (dec1 p ! unat b) :: u16"
  have dec: "CpDecode charset_pages (cp p) bytes (length bytes) =
      (map ?u bytes, \<exists>b \<in> set bytes. dec1 p ! unat b = 65533, length bytes)"
    using sb_decode [OF p, of "[]" bytes False] by (simp add: CpDecode_def find_carried [OF assms(1)])
  have lost: "?u b = 0xFFFD \<longleftrightarrow> dec1 p ! unat b = 65533" for b :: u8
    using unat_unit [OF sb_unit_small [OF p byte_small, of b]] by (simp add: word_unat_eq_iff)
  have enc: "CpEncode charset_pages (cp p) (map ?u bytes) (length bytes) = CpBytes bytes"
    if "\<forall>b \<in> set bytes. dec1 p ! unat b \<noteq> 65533"
    using sb_encode [OF p that, of "[]" 0] by (simp add: CpEncode_def find_carried [OF assms(1)])
  have ascii: "?u b = ucast b" if "cp p \<noteq> 864" "b < 128" for b :: u8
  proof -
    have a: "ascii_from 0 (dec1 p)" using pages_ascii assms that(1) by (auto simp: list_all_iff)
    have n: "unat b < 128" using that(2) by (simp add: word_less_nat_alt)
    have "unat b < length (dec1 p)" using p n by (simp add: sb_page_def sound_tables_def tally_filter)
    from ascii_nth [OF a this] n have "dec1 p ! unat b = unat b" by linarith
    then show ?thesis by simp
  qed
  show ?thesis unfolding dec using lost enc ascii by (auto simp: image_iff)
qed

lemma cp_437: "page_437 \<in> set charset_pages" "\<not> is_dbcs page_437" "cp page_437 = 437"
  by (simp_all add: charset_pages_def) (simp_all add: page_437_def)

lemma CpDecode_reencodes_witness:
  "case CpDecode charset_pages 437 [0x41, 0x9B] (length [0x41, 0x9B :: u8]) of (units, lossy, used) \<Rightarrow>
    used = length [0x41, 0x9B :: u8] \<and> length units = length [0x41, 0x9B :: u8] \<and> (lossy = (0xFFFD \<in> set units)) \<and>
    (\<not> lossy \<longrightarrow> CpEncode charset_pages 437 units (length units) = CpBytes [0x41, 0x9B]) \<and>
    ((437 :: int) \<noteq> 864 \<longrightarrow>
      (\<forall>i < length [0x41, 0x9B :: u8]. [0x41, 0x9B :: u8] ! i < 128 \<longrightarrow> units ! i = ucast ([0x41, 0x9B :: u8] ! i)))"
  by (rule CpDecode_reencodes [OF cp_437(1,2), of "[0x41, 0x9B]", unfolded cp_437(3)])

end
