(* ===== verification/Catalog.thy ===== *)
theory Catalog
  imports Json StrUtil "HOL-Library.Monad_Syntax"
begin

text \<open>
  The command whitelist, \<^verbatim>\<open>src/src/catalog.c\<close>: its recursive-descent scanner, the
  load of a catalog file, the lookup of a command, the check of its arguments and
  the serialisation for the wire.  The scanner's position is the text left up to
  \<^verbatim>\<open>end\<close>, which may contain NULs; what it stores is read back as C strings.  Its
  nesting is recursion on a fuel that the text bounds, and running out of it would be
  an error of its own, shown never to occur.

  \<^verbatim>\<open>lstrcmpA\<close> and \<^verbatim>\<open>lstrcmpiA\<close> are services of kernel32 and arguments of the
  operations.
\<close>

section \<open>String comparison services\<close>

record StrApi =
  lstrcmpA :: "string \<Rightarrow> string \<Rightarrow> int"
  lstrcmpiA :: "string \<Rightarrow> string \<Rightarrow> int"

text \<open>What the catalog relies on, and the comparison of the host harness that has it.\<close>

locale str_api =
  fixes api :: StrApi
  assumes cmp_eq: "lstrcmpA api a b = 0 \<longleftrightarrow> a = b"
    and cmpi_refl: "lstrcmpiA api a a = 0"
    and cmpi_sym: "lstrcmpiA api a b = 0 \<Longrightarrow> lstrcmpiA api b a = 0"
    and cmpi_trans: "lstrcmpiA api a b = 0 \<Longrightarrow> lstrcmpiA api b c = 0 \<Longrightarrow> lstrcmpiA api a c = 0"

definition ascii_lower :: "char \<Rightarrow> char" where
  "ascii_lower c = (if CHR ''A'' \<le> c \<and> c \<le> CHR ''Z'' then char_of (of_char c + (32 :: nat)) else c)"

fun str_compare :: "string \<Rightarrow> string \<Rightarrow> int" where
  "str_compare [] [] = 0"
| "str_compare [] (b # bs) = - 1"
| "str_compare (a # as) [] = 1"
| "str_compare (a # as) (b # bs) = (if a = b then str_compare as bs else if a < b then - 1 else 1)"

definition shim_api :: StrApi where
  "shim_api = \<lparr> lstrcmpA = str_compare, lstrcmpiA = (\<lambda>a b. str_compare (map ascii_lower a) (map ascii_lower b)) \<rparr>"

lemma str_compare_zero: "str_compare a b = 0 \<longleftrightarrow> a = b"
  by (induction a b rule: str_compare.induct) auto

interpretation shim_cmp: str_api shim_api
  by unfold_locales (simp_all add: shim_api_def str_compare_zero)

section \<open>Data\<close>

definition CATALOG_MAX_ENTRIES :: nat where "CATALOG_MAX_ENTRIES = 64"
definition CATALOG_MAX_OPTIONS :: nat where "CATALOG_MAX_OPTIONS = 16"
definition CATALOG_NAME_LEN :: nat where "CATALOG_NAME_LEN = 64"
definition CATALOG_FLAG_LEN :: nat where "CATALOG_FLAG_LEN = 32"
definition CATALOG_SHELL_LEN :: nat where "CATALOG_SHELL_LEN = 128"
definition CATALOG_FILE_MAX :: nat where "CATALOG_FILE_MAX = 65536"

lemmas catalog_sizes = CATALOG_MAX_ENTRIES_def CATALOG_MAX_OPTIONS_def CATALOG_NAME_LEN_def
  CATALOG_FLAG_LEN_def CATALOG_SHELL_LEN_def CATALOG_FILE_MAX_def

record CatalogOption =
  flag :: string
  has_arg :: bool

record CatalogEntry =
  entry_name :: string
  is_builtin :: bool
  supports_win32s :: bool
  shell_modern :: string
  shell_win32s :: string
  options :: "CatalogOption list"

text \<open>A catalog is the array of its entries in use.\<close>

type_synonym Catalog = "CatalogEntry list"

section \<open>Scanner\<close>

datatype scan_error = OutOfFuel | ScanErr string

type_synonym 'a scan = "scan_error + 'a \<times> string"

text \<open>The contents of a string after its opening quote, unescaped, and what follows it.\<close>

definition catalog_escape :: "char \<Rightarrow> char" where
  "catalog_escape e =
     (if e = CHR ''n'' then CHR 0x0A else if e = CHR ''r'' then CHR 0x0D
      else if e = CHR ''t'' then CHR 0x09 else if e = CHR ''b'' then CHR 0x08
      else if e = CHR ''f'' then CHR 0x0C else e)"

fun scan_body :: "string \<Rightarrow> (string \<times> string) option" where
  "scan_body [] = None"
| "scan_body [c] = (if c = dq then Some ([], []) else None)"
| "scan_body (c # e # p) =
     (if c = dq then Some ([], e # p)
      else if c = bsl then map_option (\<lambda>(t, r). (catalog_escape e # t, r)) (scan_body p)
      else map_option (\<lambda>(t, r). (c # t, r)) (scan_body (e # p)))"

definition scanString :: "nat \<Rightarrow> string \<Rightarrow> string scan" where
  "scanString outSize s =
     (case dropWhile json_ws s of
        [] \<Rightarrow> Inl (ScanErr ''expected string'')
      | c # p \<Rightarrow>
          if c \<noteq> dq then Inl (ScanErr ''expected string'')
          else (case scan_body p of
                  None \<Rightarrow> Inl (ScanErr ''unterminated string'')
                | Some (t, r) \<Rightarrow> Inr (cstr (take (outSize - 1) t), r)))"

definition literal_end :: "char \<Rightarrow> bool" where
  "literal_end c \<longleftrightarrow> c = CHR '','' \<or> c = CHR ''}'' \<or> c = CHR '']'' \<or> json_ws c"

definition skipLiteral :: "string \<Rightarrow> unit scan" where
  "skipLiteral s =
     (case dropWhile json_ws s of
        [] \<Rightarrow> Inl (ScanErr ''unexpected end of input'')
      | p \<Rightarrow> Inr ((), dropWhile (\<lambda>c. \<not> literal_end c) p))"

definition quote_mark :: "char \<Rightarrow> string" where "quote_mark c = [CHR 0x27, c, CHR 0x27]"
definition expected_colon :: string where "expected_colon = ''expected '' @ quote_mark (CHR '':'')"
definition expected_obj :: string where
  "expected_obj = ''expected '' @ quote_mark (CHR '','') @ '' or '' @ quote_mark (CHR ''}'')"
definition expected_arr :: string where
  "expected_arr = ''expected '' @ quote_mark (CHR '','') @ '' or '' @ quote_mark (CHR '']'')"

text \<open>
  The loops of the scanner: items separated by commas up to a closing character; a
  bracketed group, empty or such a loop; and an item that starts with a key.
\<close>

primrec sep_loop :: "nat \<Rightarrow> char \<Rightarrow> string \<Rightarrow> ('a \<Rightarrow> string \<Rightarrow> 'a scan) \<Rightarrow> 'a \<Rightarrow> string \<Rightarrow> 'a scan" where
  "sep_loop 0 cl msg item a s = Inl OutOfFuel"
| "sep_loop (Suc n) cl msg item a s =
     (case item a s of
        Inl e \<Rightarrow> Inl e
      | Inr (a', s') \<Rightarrow>
          (case dropWhile json_ws s' of
             [] \<Rightarrow> Inl (ScanErr msg)
           | c # r \<Rightarrow>
               if c = CHR '','' then sep_loop n cl msg item a' r
               else if c = cl then Inr (a', r)
               else Inl (ScanErr msg)))"

definition block ::
    "char \<Rightarrow> char \<Rightarrow> string \<Rightarrow> string \<Rightarrow> ('a \<Rightarrow> string \<Rightarrow> 'a scan) \<Rightarrow> 'a \<Rightarrow> string \<Rightarrow> 'a scan" where
  "block op cl msg0 msg item a s =
     (case dropWhile json_ws s of
        [] \<Rightarrow> Inl (ScanErr msg0)
      | c # p \<Rightarrow>
          if c \<noteq> op then Inl (ScanErr msg0)
          else (case dropWhile json_ws p of
                  [] \<Rightarrow> sep_loop (Suc (length p)) cl msg item a []
                | d # q \<Rightarrow>
                    if d = cl then Inr (a, q)
                    else sep_loop (Suc (length p)) cl msg item a (d # q)))"

definition keyed :: "nat \<Rightarrow> (string \<Rightarrow> 'a \<Rightarrow> string \<Rightarrow> 'a scan) \<Rightarrow> 'a \<Rightarrow> string \<Rightarrow> 'a scan" where
  "keyed keySize f a s =
     (case scanString keySize s of
        Inl e \<Rightarrow> Inl e
      | Inr (key, s1) \<Rightarrow>
          (case dropWhile json_ws s1 of
             [] \<Rightarrow> Inl (ScanErr expected_colon)
           | c # p \<Rightarrow> if c \<noteq> CHR '':'' then Inl (ScanErr expected_colon) else f key a p))"

primrec skipValueN :: "nat \<Rightarrow> string \<Rightarrow> unit scan" where
  "skipValueN 0 s = Inl OutOfFuel"
| "skipValueN (Suc n) s =
     (case dropWhile json_ws s of
        [] \<Rightarrow> Inl (ScanErr ''unexpected end of input'')
      | c # p \<Rightarrow>
          if c = dq then map_sum id (\<lambda>(t, r). ((), r)) (scanString 0 (c # p))
          else if c = CHR ''{'' then
            block (CHR ''{'') (CHR ''}'') ''expected object'' expected_obj
              (keyed 0 (\<lambda>key. \<lambda>_. skipValueN n)) () (c # p)
          else if c = CHR ''['' then
            block (CHR ''['') (CHR '']'') ''expected array'' expected_arr
              (\<lambda>_. skipValueN n) () (c # p)
          else skipLiteral (c # p))"

definition skipValue :: "string \<Rightarrow> unit scan" where
  "skipValue s = skipValueN (Suc (length s)) s"

text \<open>A field whose value is skipped.\<close>

definition skip_field :: "'a \<Rightarrow> string \<Rightarrow> 'a scan" where
  "skip_field a s = map_sum id (\<lambda>(u, r). (a, r)) (skipValue s)"

definition string_field :: "nat \<Rightarrow> (string \<Rightarrow> 'a) \<Rightarrow> string \<Rightarrow> 'a scan" where
  "string_field outSize upd s = map_sum id (\<lambda>(t, r). (upd t, r)) (scanString outSize s)"

section \<open>The catalog grammar\<close>

definition option_field :: "StrApi \<Rightarrow> string \<Rightarrow> CatalogOption \<Rightarrow> string \<Rightarrow> CatalogOption scan" where
  "option_field api key opt p =
     (if lstrcmpA api key ''flag'' = 0 then string_field CATALOG_FLAG_LEN (\<lambda>t. opt\<lparr>flag := t\<rparr>) p
      else if lstrcmpA api key ''arg'' = 0 then skip_field (opt\<lparr>has_arg := True\<rparr>) p
      else skip_field opt p)"

definition parseOption :: "StrApi \<Rightarrow> string \<Rightarrow> CatalogOption scan" where
  "parseOption api s =
     block (CHR ''{'') (CHR ''}'') ''expected option object'' expected_obj
       (keyed 32 (option_field api))
       \<lparr> flag = [], has_arg = False \<rparr> s"

definition options_item :: "StrApi \<Rightarrow> CatalogEntry \<Rightarrow> string \<Rightarrow> CatalogEntry scan" where
  "options_item api e p =
     (if length (options e) < CATALOG_MAX_OPTIONS
      then map_sum id (\<lambda>(opt, r). (e\<lparr>options := options e @ [opt]\<rparr>, r)) (parseOption api p)
      else skip_field e p)"

definition parseOptions :: "StrApi \<Rightarrow> CatalogEntry \<Rightarrow> string \<Rightarrow> CatalogEntry scan" where
  "parseOptions api e s =
     block (CHR ''['') (CHR '']'') ''expected options array'' expected_arr (options_item api) e s"

definition entry_field :: "StrApi \<Rightarrow> string \<Rightarrow> CatalogEntry \<Rightarrow> string \<Rightarrow> CatalogEntry scan" where
  "entry_field api key e p =
     (if lstrcmpA api key ''kind'' = 0 then
        string_field 32 (\<lambda>kind. e\<lparr>is_builtin := (lstrcmpA api kind ''shell-builtin'' = 0)\<rparr>) p
      else if lstrcmpA api key ''shell_modern'' = 0 then
        string_field CATALOG_SHELL_LEN (\<lambda>t. e\<lparr>shell_modern := t\<rparr>) p
      else if lstrcmpA api key ''shell_win32s'' = 0 then
        string_field CATALOG_SHELL_LEN (\<lambda>t. e\<lparr>shell_win32s := t\<rparr>) p
      else if lstrcmpA api key ''supports_win32s'' = 0 then
        (let e' = (case dropWhile json_ws p of
                     [] \<Rightarrow> e
                   | c # _ \<Rightarrow> if c = CHR ''t'' then e\<lparr>supports_win32s := True\<rparr> else e)
         in map_sum id (\<lambda>(u, r). (e', r)) (skipLiteral p))
      else if lstrcmpA api key ''options'' = 0 then parseOptions api e p
      else skip_field e p)"

definition new_entry :: "string \<Rightarrow> CatalogEntry" where
  "new_entry name = \<lparr> entry_name = name, is_builtin = False, supports_win32s = False,
     shell_modern = [], shell_win32s = [], options = [] \<rparr>"

definition parseEntry :: "StrApi \<Rightarrow> string \<Rightarrow> string \<Rightarrow> CatalogEntry scan" where
  "parseEntry api name s =
     block (CHR ''{'') (CHR ''}'') ''expected entry object'' expected_obj
       (keyed 32 (entry_field api)) (new_entry name) s"

text \<open>
  The name is at most 63 characters, so that \<^verbatim>\<open>McpStrCpyN\<close> into the entry's 64
  copies the whole of it.
\<close>

definition commands_entry :: "StrApi \<Rightarrow> string \<Rightarrow> Catalog \<Rightarrow> string \<Rightarrow> Catalog scan" where
  "commands_entry api name cat p =
     (if length cat < CATALOG_MAX_ENTRIES
      then map_sum id (\<lambda>(e, r). (cat @ [e], r)) (parseEntry api name p)
      else Inl (ScanErr ''too many catalog entries''))"

definition parseCommands :: "StrApi \<Rightarrow> Catalog \<Rightarrow> string \<Rightarrow> Catalog scan" where
  "parseCommands api cat s =
     block (CHR ''{'') (CHR ''}'') ''expected commands object'' expected_obj
       (keyed CATALOG_NAME_LEN (commands_entry api)) cat s"

definition top_field :: "StrApi \<Rightarrow> string \<Rightarrow> Catalog \<Rightarrow> string \<Rightarrow> Catalog scan" where
  "top_field api key cat p =
     (if lstrcmpA api key ''commands'' = 0 then parseCommands api cat p else skip_field cat p)"

definition parseTop :: "StrApi \<Rightarrow> string \<Rightarrow> Catalog scan" where
  "parseTop api s =
     block (CHR ''{'') (CHR ''}'') ''expected top-level object'' expected_obj
       (keyed 32 (top_field api))
       [] s"

text \<open>The read of the file: refused when it does not leave room for the terminator.\<close>

definition catalog_readFile :: "string option \<Rightarrow> string option" where
  "catalog_readFile file =
     (case file of
        None \<Rightarrow> None
      | Some bytes \<Rightarrow> if length bytes \<ge> CATALOG_FILE_MAX - 1 then None else Some bytes)"

definition CatalogLoad :: "StrApi \<Rightarrow> string option \<Rightarrow> scan_error + Catalog" where
  "CatalogLoad api file =
     (case catalog_readFile file of
        None \<Rightarrow> Inl (ScanErr ''catalog file not found or unreadable'')
      | Some bytes \<Rightarrow>
          (case parseTop api bytes of
             Inl e \<Rightarrow> Inl e
           | Inr (cat, _) \<Rightarrow>
               if cat = [] then Inl (ScanErr ''no commands in catalog'') else Inr cat))"

section \<open>Lookup and validation\<close>

definition CatalogLookup :: "StrApi \<Rightarrow> Catalog \<Rightarrow> string \<Rightarrow> CatalogEntry option" where
  "CatalogLookup api cat cmdName = find (\<lambda>e. lstrcmpiA api (entry_name e) cmdName = 0) cat"

definition isFlagToken :: "string \<Rightarrow> bool" where
  "isFlagToken tok \<longleftrightarrow> tok \<noteq> [] \<and> (hd tok = CHR ''/'' \<or> hd tok = CHR ''-'')"

text \<open>Whether an option takes a token, whole or glued to its value.\<close>

definition option_matches :: "StrApi \<Rightarrow> CatalogOption \<Rightarrow> string \<Rightarrow> bool" where
  "option_matches api opt tok \<longleftrightarrow>
     lstrcmpiA api (flag opt) tok = 0 \<or>
     (has_arg opt \<and> length (flag opt) > 0 \<and> length tok > length (flag opt) \<and>
      lstrcmpiA api (take (min (length (flag opt)) (CATALOG_FLAG_LEN - 1)) tok) (flag opt) = 0)"

definition findOption :: "StrApi \<Rightarrow> CatalogEntry \<Rightarrow> string \<Rightarrow> CatalogOption option" where
  "findOption api e tok = find (\<lambda>opt. option_matches api opt tok) (options e)"

text \<open>The scan of the tokens after the command name; an argument flag takes the next token with it.\<close>

fun validate_tokens :: "StrApi \<Rightarrow> CatalogEntry \<Rightarrow> string list \<Rightarrow> bool" where
  "validate_tokens api e [] = True"
| "validate_tokens api e (tok # toks) =
     (if isFlagToken tok then
        (case findOption api e tok of
           None \<Rightarrow> False
         | Some opt \<Rightarrow>
             if has_arg opt \<and> lstrcmpiA api (flag opt) tok = 0 then
               (case toks of
                  [] \<Rightarrow> True
                | t # ts \<Rightarrow> if \<not> isFlagToken t then validate_tokens api e ts else validate_tokens api e toks)
             else validate_tokens api e toks)
      else validate_tokens api e toks)"

definition CatalogValidateArgs :: "StrApi \<Rightarrow> CatalogEntry option \<Rightarrow> string list \<Rightarrow> string + unit" where
  "CatalogValidateArgs api entry args =
     (case entry of
        None \<Rightarrow> Inl ''no catalog entry''
      | Some e \<Rightarrow> if validate_tokens api e (drop 1 args) then Inr () else Inl ''argument not allowed'')"

section \<open>Totality of the scanner\<close>

text \<open>
  A scanner is tame below a length when, on every text shorter than it, it does not
  run out of fuel and leaves no more text than it was given.
\<close>

definition tame :: "nat \<Rightarrow> ('a \<Rightarrow> string \<Rightarrow> 'a scan) \<Rightarrow> bool" where
  "tame N f \<longleftrightarrow> (\<forall>a s. length s < N \<longrightarrow> f a s \<noteq> Inl OutOfFuel \<and> (\<forall>a' r. f a s = Inr (a', r) \<longrightarrow> length r \<le> length s))"

lemma tameI:
  assumes "\<And>a s. length s < N \<Longrightarrow> f a s \<noteq> Inl OutOfFuel"
    and "\<And>a s a' r. length s < N \<Longrightarrow> f a s = Inr (a', r) \<Longrightarrow> length r \<le> length s"
  shows "tame N f"
  using assms unfolding tame_def by blast

lemma tameD:
  assumes "tame N f" "length s < N"
  shows "f a s \<noteq> Inl OutOfFuel" "f a s = Inr (a', r) \<Longrightarrow> length r \<le> length s"
  using assms unfolding tame_def by blast+

lemma sep_loop_tame:
  assumes "tame N item" "length s < N" "length s < n"
  shows "sep_loop n cl msg item a s \<noteq> Inl OutOfFuel \<and>
    (\<forall>a' r. sep_loop n cl msg item a s = Inr (a', r) \<longrightarrow> length r \<le> length s)"
  using assms(2,3)
proof (induction n arbitrary: a s)
  case (Suc n)
  show ?case
  proof (cases "item a s")
    case (Inl e)
    then show ?thesis using tameD(1) [OF assms(1) Suc.prems(1), of a] by auto
  next
    case (Inr q)
    obtain a1 s1 where q: "q = (a1, s1)" by fastforce
    have s1: "length s1 \<le> length s" using tameD(2) [OF assms(1) Suc.prems(1)] Inr q by blast
    show ?thesis
    proof (cases "dropWhile json_ws s1")
      case Nil
      then show ?thesis using Inr q by (simp del: dropWhile_eq_Nil_conv)
    next
      case (Cons c r)
      then have lt: "length r < length s" using s1 dropWhile_tail_shorter [OF Cons] by simp
      then have IH: "sep_loop n cl msg item a1 r \<noteq> Inl OutOfFuel \<and>
          (\<forall>a' r'. sep_loop n cl msg item a1 r = Inr (a', r') \<longrightarrow> length r' \<le> length r)"
        using Suc.IH [of r a1] Suc.prems by simp
      have "sep_loop (Suc n) cl msg item a s =
          (if c = CHR '','' then sep_loop n cl msg item a1 r
           else if c = cl then Inr (a1, r) else Inl (ScanErr msg))"
        using Inr q Cons by simp
      then show ?thesis using IH lt by auto
    qed
  qed
qed simp

text \<open>The three ways a bracketed group ends.\<close>

lemma block_cases:
  obtains e where "block op cl msg0 msg item a s = Inl (ScanErr e)"
  | c p d q where "block op cl msg0 msg item a s = Inr (a, q)" "dropWhile json_ws s = c # p" "dropWhile json_ws p = d # q"
  | c p where "block op cl msg0 msg item a s = sep_loop (Suc (length p)) cl msg item a (dropWhile json_ws p)"
      "dropWhile json_ws s = c # p"
proof (cases "dropWhile json_ws s")
  case Nil
  then show thesis using that(1) by (simp add: block_def del: dropWhile_eq_Nil_conv)
next
  case (Cons c p)
  show thesis
  proof (cases "c = op")
    case True
    show thesis
    proof (cases "dropWhile json_ws p")
      case Nil
      then show thesis using that(3) [OF _ Cons] Cons True
        by (simp add: block_def del: sep_loop.simps dropWhile_eq_Nil_conv)
    next
      case (Cons d q)
      then show thesis using that(2) [OF _ \<open>dropWhile json_ws s = c # p\<close> Cons] that(3) [OF _ \<open>dropWhile json_ws s = c # p\<close>]
          \<open>dropWhile json_ws s = c # p\<close> True
        by (cases "d = cl") (simp_all add: block_def del: sep_loop.simps)
    qed
  qed (use Cons that(1) in \<open>simp add: block_def\<close>)
qed

lemma block_tame:
  assumes "tame N item"
  shows "tame (Suc N) (block op cl msg0 msg item)"
proof (rule tameI)
  fix a :: 'a and s :: string assume s: "length s < Suc N"
  have loop: "sep_loop (Suc (length p)) cl msg item a q \<noteq> Inl OutOfFuel \<and>
      (\<forall>a' r. sep_loop (Suc (length p)) cl msg item a q = Inr (a', r) \<longrightarrow> length r \<le> length q)"
    if "length p < length s" "length q \<le> length p" for p q
    using sep_loop_tame [OF assms, of q "Suc (length p)"] that s by simp
  have le: "length (dropWhile json_ws p) \<le> length p" for p by (rule length_dropWhile_le)
  show "block op cl msg0 msg item a s \<noteq> Inl OutOfFuel"
  proof (cases rule: block_cases [of op cl msg0 msg item a s])
    case (3 c p)
    then show ?thesis using loop [OF dropWhile_tail_shorter [OF 3(2)] le] by simp
  qed simp_all
  fix a' r assume r: "block op cl msg0 msg item a s = Inr (a', r)"
  show "length r \<le> length s"
  proof (cases rule: block_cases [of op cl msg0 msg item a s])
    case (2 c p d q)
    then show ?thesis using r dropWhile_tail_shorter [OF 2(2)] dropWhile_tail_shorter [OF 2(3)] by simp
  next
    case (3 c p)
    have "length r \<le> length (dropWhile json_ws p)"
      using loop [OF dropWhile_tail_shorter [OF 3(2)] le] r unfolding 3(1) by blast
    then show ?thesis using le [of p] dropWhile_tail_shorter [OF 3(2)] by linarith
  qed (use r in simp)
qed

lemma scan_body_shorter: "scan_body p = Some (t, r) \<Longrightarrow> length r < length p"
  by (induction p arbitrary: t rule: scan_body.induct) (auto split: if_splits)

lemma scanString_tame: "scanString n s \<noteq> Inl OutOfFuel" "scanString n s = Inr (t, r) \<Longrightarrow> length r < length s"
  by (auto simp: scanString_def split: list.splits if_splits option.splits
      dest!: dropWhile_tail_shorter scan_body_shorter)

lemma keyed_tame:
  assumes "\<And>key. tame N (f key)"
  shows "tame N (keyed k f)"
proof (rule tameI)
  fix a :: 'a and s :: string assume s: "length s < N"
  have cont: "f key a p \<noteq> Inl OutOfFuel \<and> (\<forall>a' r. f key a p = Inr (a', r) \<longrightarrow> length r \<le> length p)"
    if "length p < length s" for key p
    using tameD [OF assms, of p] that s by (meson less_trans)
  have "length p < length s" if "scanString k s = Inr (t, s1)" "dropWhile json_ws s1 = c # p" for t s1 c p
    using scanString_tame(2) [OF that(1)] dropWhile_tail_shorter [OF that(2)] by simp
  note short = this
  show "keyed k f a s \<noteq> Inl OutOfFuel"
    using scanString_tame(1) [of k s] cont short
    by (auto simp: keyed_def split: sum.splits list.splits)
  fix a' r assume "keyed k f a s = Inr (a', r)"
  then obtain t s1 c p where "scanString k s = Inr (t, s1)" "dropWhile json_ws s1 = c # p" "f t a p = Inr (a', r)"
    by (auto simp: keyed_def split: sum.splits list.splits if_splits)
  then show "length r \<le> length s" using short cont by (meson less_imp_le le_trans)
qed

lemma skipLiteral_tame: "skipLiteral s \<noteq> Inl OutOfFuel" "skipLiteral s = Inr (u, r) \<Longrightarrow> length r \<le> length s"
proof -
  show "skipLiteral s \<noteq> Inl OutOfFuel" by (simp add: skipLiteral_def split: list.splits)
  assume "skipLiteral s = Inr (u, r)"
  then have "r = dropWhile (\<lambda>c. \<not> literal_end c) (dropWhile json_ws s)"
    by (auto simp: skipLiteral_def split: list.splits)
  then show "length r \<le> length s" by (metis length_dropWhile_le le_trans)
qed

lemma skipValueN_tame: "tame n (\<lambda>u. skipValueN n)"
proof (induction n)
  case (Suc n)
  note obj = block_tame [OF keyed_tame [OF Suc.IH], of "CHR ''{''" "CHR ''}''" "''expected object''" expected_obj 0]
  note arr = block_tame [OF Suc.IH, of "CHR ''[''" "CHR '']''" "''expected array''" expected_arr]
  show ?case
  proof (rule tameI)
    fix a :: unit and s :: string assume s: "length s < Suc n"
    note unfold = skipValueN.simps(2) [of n s]
    have "skipValueN (Suc n) s \<noteq> Inl OutOfFuel \<and>
      (\<forall>a' r. skipValueN (Suc n) s = Inr (a', r) \<longrightarrow> length r \<le> length s)"
    proof (cases "dropWhile json_ws s")
      case Nil
      then show ?thesis by (simp add: unfold del: skipValueN.simps dropWhile_eq_Nil_conv)
    next
      case (Cons c p)
      have le: "length (c # p) \<le> length s" using length_dropWhile_le [of json_ws s] Cons by simp
      then have lt: "length (c # p) < Suc n" using s by simp
      consider "c = dq" | "c = CHR ''{''" | "c = CHR ''[''" | "c \<notin> {dq, CHR ''{'', CHR ''[''}" by blast
      then show ?thesis
      proof cases
        case 1
        then show ?thesis using Cons le scanString_tame [of 0 "c # p"]
          by (cases "scanString 0 (c # p)") (fastforce simp: unfold simp del: skipValueN.simps)+
      next
        case 2
        then show ?thesis using Cons le tameD [OF obj lt] by (fastforce simp: unfold simp del: skipValueN.simps)
      next
        case 3
        then show ?thesis using Cons le tameD [OF arr lt] by (fastforce simp: unfold simp del: skipValueN.simps)
      next
        case 4
        then show ?thesis using Cons le skipLiteral_tame [of "c # p"] by (fastforce simp: unfold simp del: skipValueN.simps)
      qed
    qed
    then show "skipValueN (Suc n) s \<noteq> Inl OutOfFuel" "\<And>a' r. skipValueN (Suc n) s = Inr (a', r) \<Longrightarrow> length r \<le> length s"
      by blast+
  qed
qed (simp add: tame_def)

lemma skipValue_tame: "tame N (\<lambda>u. skipValue)"
proof (rule tameI)
  fix u :: unit and s :: string
  show "skipValue s \<noteq> Inl OutOfFuel"
    using tameD(1) [OF skipValueN_tame, of s "Suc (length s)"] by (simp add: skipValue_def del: skipValueN.simps)
  fix u' :: unit and r assume "skipValue s = Inr (u', r)"
  then show "length r \<le> length s"
    using tameD(2) [OF skipValueN_tame, of s "Suc (length s)"] by (simp add: skipValue_def del: skipValueN.simps)
qed

lemma skip_field_tame: "tame N (\<lambda>a. skip_field (g a))"
  using skipValue_tame
  by (intro tameI; fastforce simp: skip_field_def map_sum_def tame_def split: sum.splits)

lemma string_field_tame: "tame N (\<lambda>a. string_field n (g a))"
  using scanString_tame [of n]
  by (intro tameI; fastforce simp: string_field_def map_sum_def split: sum.splits)

lemma skipLiteral_field_tame: "tame N (\<lambda>a s. map_sum id (\<lambda>(u, r). (g a s, r)) (skipLiteral s))"
  using skipLiteral_tame
  by (intro tameI; fastforce simp: map_sum_def split: sum.splits)

lemma tame_if: "(P \<Longrightarrow> tame N f) \<Longrightarrow> (\<not> P \<Longrightarrow> tame N g) \<Longrightarrow> tame N (\<lambda>a s. if P then f a s else g a s)"
  by (cases P) simp_all

lemma tame_Suc: "tame (Suc N) f \<Longrightarrow> tame N f"
  unfolding tame_def by (meson less_SucI)

lemma option_field_tame: "tame N (option_field api key)"
  unfolding option_field_def by (intro tame_if skip_field_tame string_field_tame)

lemma tame_const: "tame N f \<Longrightarrow> tame N (\<lambda>_. f a)"
  unfolding tame_def by blast

lemma parseOption_tame: "tame N (\<lambda>_. parseOption api)"
  unfolding parseOption_def
  by (rule tame_const [OF tame_Suc [OF block_tame [OF keyed_tame [OF option_field_tame]]]])

lemma map_scan_tame: "tame N (\<lambda>_. f) \<Longrightarrow> tame N (\<lambda>a s. map_sum id (\<lambda>(x, r). (g a x, r)) (f s))"
  by (intro tameI; fastforce simp: map_sum_def tame_def split: sum.splits)

lemma options_item_tame: "tame N (options_item api)"
  using map_scan_tame [OF parseOption_tame, of N "\<lambda>e opt. e\<lparr>options := options e @ [opt]\<rparr>" api]
    skip_field_tame [of N "\<lambda>e. e"]
  unfolding tame_def options_item_def by auto

lemma entry_field_tame: "tame N (entry_field api key)"
  unfolding entry_field_def Let_def
  by (intro tame_if skip_field_tame string_field_tame skipLiteral_field_tame)
     (unfold parseOptions_def, rule tame_Suc [OF block_tame [OF options_item_tame]])

lemma parseEntry_tame: "tame N (\<lambda>_. parseEntry api name)"
  unfolding parseEntry_def
  by (rule tame_const [OF tame_Suc [OF block_tame [OF keyed_tame [OF entry_field_tame]]]])

lemma commands_entry_tame: "tame N (commands_entry api name)"
  using map_scan_tame [OF parseEntry_tame, of N "\<lambda>cat e. cat @ [e]" api name]
  unfolding tame_def commands_entry_def by auto

lemma parseTop_total: "parseTop api s \<noteq> Inl OutOfFuel"
proof -
  have cmds: "tame N (parseCommands api)" for N
    unfolding parseCommands_def by (rule tame_Suc [OF block_tame [OF keyed_tame [OF commands_entry_tame]]])
  have "tame (length s) (top_field api key)" for key
    unfolding top_field_def by (intro tame_if cmds skip_field_tame)
  then have "tame (Suc (length s)) (block (CHR ''{'') (CHR ''}'') ''expected top-level object'' expected_obj (keyed 32 (top_field api)))"
    by (intro block_tame keyed_tame)
  from tameD(1) [OF this] show ?thesis
    unfolding parseTop_def by blast
qed

section \<open>Serialisation\<close>

definition serialAppend :: "int \<Rightarrow> string \<Rightarrow> string \<Rightarrow> string option" where
  "serialAppend outSize out src =
     (if int (length out + length src) \<ge> outSize then None else Some (out @ src))"

definition serialAppendEscaped :: "int \<Rightarrow> string \<Rightarrow> string \<Rightarrow> string option" where
  "serialAppendEscaped outSize out src =
     (case JsonEscape src (int (CATALOG_NAME_LEN * 6 + 2)) of
        None \<Rightarrow> None
      | Some e \<Rightarrow> serialAppend outSize out e)"

definition json_bool :: "bool \<Rightarrow> string" where
  "json_bool b = (if b then ''true'' else ''false'')"

definition json_key :: "string \<Rightarrow> string" where
  "json_key k = dq # k @ [dq, CHR '':'']"

fun serial_options :: "int \<Rightarrow> bool \<Rightarrow> CatalogOption list \<Rightarrow> string \<Rightarrow> string option" where
  "serial_options n later [] out = Some out"
| "serial_options n later (opt # opts) out =
     do { o1 \<leftarrow> (if later then serialAppend n out '','' else Some out);
          o2 \<leftarrow> serialAppend n o1 (CHR ''{'' # json_key ''flag'' @ [dq]);
          o3 \<leftarrow> serialAppendEscaped n o2 (flag opt);
          o4 \<leftarrow> serialAppend n o3 (dq # CHR '','' # json_key ''takes_value'');
          o5 \<leftarrow> serialAppend n o4 (json_bool (has_arg opt));
          o6 \<leftarrow> serialAppend n o5 (CHR '','' # json_key ''description'' @ [dq, dq, CHR ''}'']);
          serial_options n True opts o6 }"

fun serial_entries :: "int \<Rightarrow> bool \<Rightarrow> Catalog \<Rightarrow> string \<Rightarrow> string option" where
  "serial_entries n later [] out = Some out"
| "serial_entries n later (e # es) out =
     do { o1 \<leftarrow> (if later then serialAppend n out '','' else Some out);
          o2 \<leftarrow> serialAppend n o1 (CHR ''{'' # json_key ''name'' @ [dq]);
          o3 \<leftarrow> serialAppendEscaped n o2 (entry_name e);
          o4 \<leftarrow> serialAppend n o3 (dq # CHR '','' # json_key ''description'' @ [dq, dq, CHR '','']);
          o5 \<leftarrow> serialAppend n o4 (json_key ''builtin'');
          o6 \<leftarrow> serialAppend n o5 (json_bool (is_builtin e));
          o7 \<leftarrow> serialAppend n o6 (CHR '','' # json_key ''destructive'' @ ''false,'' @ json_key ''flags'' @ ''['');
          o8 \<leftarrow> serial_options n False (options e) o7;
          o9 \<leftarrow> serialAppend n o8 '']}'';
          serial_entries n True es o9 }"

text \<open>The catalog is absent (\<^const>\<open>None\<close>) when none was loaded.\<close>

definition CatalogSerializeJson :: "Catalog option \<Rightarrow> int \<Rightarrow> string option" where
  "CatalogSerializeJson cat outSize =
     (if outSize < 1 then None
      else do { o1 \<leftarrow> serialAppend outSize [] ''['';
                o2 \<leftarrow> serial_entries outSize False (case cat of None \<Rightarrow> [] | Some es \<Rightarrow> es) o1;
                serialAppend outSize o2 '']'' })"

section \<open>The shape of a loaded catalog\<close>

definition wf_option :: "CatalogOption \<Rightarrow> bool" where
  "wf_option opt \<longleftrightarrow> length (flag opt) < CATALOG_FLAG_LEN"

definition wf_entry :: "CatalogEntry \<Rightarrow> bool" where
  "wf_entry e \<longleftrightarrow> length (entry_name e) < CATALOG_NAME_LEN \<and> length (shell_modern e) < CATALOG_SHELL_LEN \<and>
     length (shell_win32s e) < CATALOG_SHELL_LEN \<and> length (options e) \<le> CATALOG_MAX_OPTIONS \<and>
     list_all wf_option (options e)"

definition wf_catalog :: "Catalog \<Rightarrow> bool" where
  "wf_catalog cat \<longleftrightarrow> length cat \<le> CATALOG_MAX_ENTRIES \<and> list_all wf_entry cat"

text \<open>A scanner keeps a predicate of what it fills.\<close>

definition keeps :: "('a \<Rightarrow> bool) \<Rightarrow> ('a \<Rightarrow> string \<Rightarrow> 'a scan) \<Rightarrow> bool" where
  "keeps P f \<longleftrightarrow> (\<forall>a s a' r. P a \<longrightarrow> f a s = Inr (a', r) \<longrightarrow> P a')"

lemma keepsD: "keeps P f \<Longrightarrow> P a \<Longrightarrow> f a s = Inr (a', r) \<Longrightarrow> P a'"
  unfolding keeps_def by blast

lemma sep_loop_keeps: "keeps P item \<Longrightarrow> keeps P (sep_loop n cl msg item)"
proof (induction n)
  case (Suc n)
  note IH = keepsD [OF Suc.IH [OF Suc.prems]] and it = keepsD [OF Suc.prems]
  show ?case unfolding keeps_def
  proof (intro allI impI)
    fix a s a' r assume "P a" and run: "sep_loop (Suc n) cl msg item a s = Inr (a', r)"
    then obtain a1 s1 c q where 1: "item a s = Inr (a1, s1)" "dropWhile json_ws s1 = c # q"
      by (auto split: sum.splits list.splits)
    then have "(if c = CHR '','' then sep_loop n cl msg item a1 q
        else if c = cl then Inr (a1, q) else Inl (ScanErr msg)) = Inr (a', r)"
      using run by simp
    then show "P a'" using it [OF \<open>P a\<close> 1(1)] IH by (cases "c = CHR '',''"; cases "c = cl") auto
  qed
qed (simp add: keeps_def)

lemma block_keeps:
  assumes "keeps P item" shows "keeps P (block op cl msg0 msg item)"
  unfolding keeps_def
proof (intro allI impI)
  fix a s a' r assume "P a" "block op cl msg0 msg item a s = Inr (a', r)"
  then show "P a'"
    by (cases rule: block_cases [of op cl msg0 msg item a s])
       (auto dest: keepsD [OF sep_loop_keeps [OF assms]] simp del: sep_loop.simps)
qed

lemma keyed_keeps: "(\<And>key. keeps P (f key)) \<Longrightarrow> keeps P (keyed k f)"
  unfolding keeps_def by (auto simp: keyed_def split: sum.splits list.splits if_splits)

lemma skip_field_Inr: "skip_field a s = Inr (a', r) \<Longrightarrow> a' = a"
  by (auto simp: skip_field_def map_sum_def split: sum.splits)

lemma string_field_Inr:
  assumes "string_field n upd s = Inr (a, r)" "0 < n"
  shows "\<exists>t. a = upd t \<and> length t < n"
proof -
  obtain t where t: "scanString n s = Inr (t, r)" "a = upd t"
    using assms(1) by (auto simp: string_field_def map_sum_def split: sum.splits)
  then obtain u where "t = cstr (take (n - 1) u)"
    by (auto simp: scanString_def split: list.splits if_splits option.splits)
  then have "length t \<le> length (take (n - 1) u)" unfolding cstr_def by (metis length_takeWhile_le)
  moreover have "length (take (n - 1) u) < n" using assms(2) by auto
  ultimately have "length t < n" by linarith
  then show ?thesis using t(2) by blast
qed

lemma keyed_name:
  assumes "keyed n f a s = Inr (a', r)" "0 < n"
  shows "\<exists>key p. length key < n \<and> f key a p = Inr (a', r)"
proof -
  obtain key s1 c p where k: "scanString n s = Inr (key, s1)" "f key a p = Inr (a', r)"
    using assms(1) by (auto simp: keyed_def split: sum.splits list.splits if_splits)
  then have "string_field n id s = Inr (key, s1)" by (simp add: string_field_def)
  from string_field_Inr [OF this assms(2)] show ?thesis using k(2) by auto
qed

lemma option_field_keeps: "keeps wf_option (option_field api key)"
  unfolding keeps_def
  by (auto simp: option_field_def wf_option_def CATALOG_FLAG_LEN_def split: if_splits
      dest!: skip_field_Inr string_field_Inr)

lemma parseOption_wf: "parseOption api s = Inr (opt, r) \<Longrightarrow> wf_option opt"
  unfolding parseOption_def
  by (erule keepsD [OF block_keeps [OF keyed_keeps [OF option_field_keeps]], rotated])
     (simp add: wf_option_def CATALOG_FLAG_LEN_def)

lemma options_item_keeps: "keeps wf_entry (options_item api)"
  unfolding keeps_def
  by (auto simp: options_item_def wf_entry_def map_sum_def split: if_splits sum.splits
      dest!: skip_field_Inr dest: parseOption_wf)

lemma parseOptions_wf: "parseOptions api e p = Inr (e', r) \<Longrightarrow> wf_entry e \<Longrightarrow> wf_entry e'"
  unfolding parseOptions_def by (rule keepsD [OF block_keeps [OF options_item_keeps]])

lemma entry_field_keeps: "keeps wf_entry (entry_field api key)"
  unfolding keeps_def
proof (intro allI impI)
  fix e s e' r assume wf: "wf_entry e" and run: "entry_field api key e s = Inr (e', r)"
  have upd: "wf_entry (e\<lparr>is_builtin := b\<rparr>)" "wf_entry (e\<lparr>supports_win32s := b\<rparr>)"
    "length t < CATALOG_SHELL_LEN \<Longrightarrow> wf_entry (e\<lparr>shell_modern := t\<rparr>)"
    "length t < CATALOG_SHELL_LEN \<Longrightarrow> wf_entry (e\<lparr>shell_win32s := t\<rparr>)" for b t
    using wf by (simp_all add: wf_entry_def)
  show "wf_entry e'"
    using run wf upd unfolding entry_field_def Let_def
    by (auto split: if_splits list.splits sum.splits simp: map_sum_def CATALOG_SHELL_LEN_def
        dest!: skip_field_Inr string_field_Inr dest: parseOptions_wf)
qed

lemma parseEntry_wf: "parseEntry api name s = Inr (e, r) \<Longrightarrow> length name < CATALOG_NAME_LEN \<Longrightarrow> wf_entry e"
  unfolding parseEntry_def
  by (erule keepsD [OF block_keeps [OF keyed_keeps [OF entry_field_keeps]], rotated])
     (simp add: wf_entry_def new_entry_def catalog_sizes)

lemma commands_keeps: "keeps wf_catalog (keyed CATALOG_NAME_LEN (commands_entry api))"
  unfolding keeps_def
proof (intro allI impI)
  fix cat s cat' r assume wf: "wf_catalog cat" and "keyed CATALOG_NAME_LEN (commands_entry api) cat s = Inr (cat', r)"
  then obtain name p where "length name < CATALOG_NAME_LEN" "commands_entry api name cat p = Inr (cat', r)"
    using keyed_name by (metis CATALOG_NAME_LEN_def zero_less_numeral)
  then show "wf_catalog cat'" using wf
    by (auto simp: commands_entry_def wf_catalog_def map_sum_def split: if_splits sum.splits dest: parseEntry_wf)
qed

lemma top_field_keeps: "keeps wf_catalog (top_field api key)"
  unfolding keeps_def top_field_def parseCommands_def
  by (auto split: if_splits dest!: skip_field_Inr intro: keepsD [OF block_keeps [OF commands_keeps]])

lemma parseTop_wf: "parseTop api s = Inr (cat, r) \<Longrightarrow> wf_catalog cat"
  unfolding parseTop_def
  by (erule keepsD [OF block_keeps [OF keyed_keeps [OF top_field_keeps]], rotated]) (simp add: wf_catalog_def)

section \<open>Properties\<close>

text \<open>
  C11: loading is total: whatever the file holds, however deep its nesting, the scanner
  ends with a message or a catalog; and a catalog it returns is not empty and has at
  most 64 entries of at most 16 options, every name, flag and shell within its buffer.
\<close>

theorem CatalogLoad_sound:
  "CatalogLoad api file \<noteq> Inl OutOfFuel \<and>
   (case CatalogLoad api file of Inl _ \<Rightarrow> True | Inr cat \<Rightarrow> cat \<noteq> [] \<and> wf_catalog cat)"
  using parseTop_total parseTop_wf
  by (auto simp: CatalogLoad_def split: option.splits sum.splits)

text \<open>
  C10: the arguments of a command pass exactly when every token after the name that
  starts with a slash or a dash is a flag of the entry, whole, or glued to its value
  where the flag takes one; that an argument flag may take the next token with it
  never lets an unlisted flag through.
\<close>

theorem CatalogValidateArgs_flags:
  "CatalogValidateArgs api (Some e) args = Inr () \<longleftrightarrow>
     (\<forall>tok \<in> set (drop 1 args). isFlagToken tok \<longrightarrow> (\<exists>opt \<in> set (options e). option_matches api opt tok))"
proof -
  have find: "findOption api e tok = None \<longleftrightarrow> \<not> (\<exists>opt \<in> set (options e). option_matches api opt tok)" for tok
    by (auto simp: findOption_def find_None_iff)
  have "validate_tokens api e toks \<longleftrightarrow> (\<forall>tok \<in> set toks. isFlagToken tok \<longrightarrow> findOption api e tok \<noteq> None)" for toks
    by (induction api e toks rule: validate_tokens.induct) (auto split: option.splits list.splits)
  then show ?thesis by (auto simp: CatalogValidateArgs_def find)
qed

lemma CatalogValidateArgs_flags_witness:
  "CatalogValidateArgs shim_api
     (Some ((new_entry ''dir'')\<lparr>options := [\<lparr> flag = ''/a'', has_arg = False \<rparr>]\<rparr>)) [''dir'', ''/A'', ''x''] = Inr ()"
  unfolding CatalogValidateArgs_flags
  by code_simp

section \<open>What is serialised\<close>

definition option_json :: "CatalogOption \<Rightarrow> string" where
  "option_json opt = CHR ''{'' # json_key ''flag'' @ quoted (flag opt) @ CHR '','' # json_key ''takes_value'' @
     json_bool (has_arg opt) @ CHR '','' # json_key ''description'' @ quoted [] @ ''}''"

definition entry_json :: "CatalogEntry \<Rightarrow> string" where
  "entry_json e = CHR ''{'' # json_key ''name'' @ quoted (entry_name e) @ CHR '','' # json_key ''description'' @ quoted [] @
     CHR '','' # json_key ''builtin'' @ json_bool (is_builtin e) @ CHR '','' # json_key ''destructive'' @ ''false,'' @
     json_key ''flags'' @ CHR ''['' # commas (map option_json (options e)) @ '']}''"

definition catalog_json :: "Catalog \<Rightarrow> string" where
  "catalog_json cat = CHR ''['' # commas (map entry_json cat) @ '']''"

interpretation serial_out: bounded_append serialAppend
  by unfold_locales (simp add: serialAppend_def writes_def)

lemma serial_writes: "serialAppend n out src = writes n out src"
  by (simp add: serialAppend_def writes_def)

lemma length_esc: "length (esc s) \<le> 6 * length s"
proof (induction s)
  case (Cons c s)
  have "length (esc_piece c) \<le> 6" by (simp add: esc_piece_def Let_def)
  then show ?case using Cons by simp
qed simp

text \<open>The escape buffer is large enough for every name and flag.\<close>

lemma escaped_writes:
  assumes "length src \<le> CATALOG_NAME_LEN" "int (length out) < n"
  shows "serialAppendEscaped n out src = writes n out (esc src)"
proof -
  have "length (esc src) < CATALOG_NAME_LEN * 6 + 2" using length_esc [of src] assms(1) by simp
  then show ?thesis using assms(2)
    by (auto simp: serialAppendEscaped_def escape_writes serial_writes writes_def CATALOG_NAME_LEN_def)
qed

fun later_text :: "bool \<Rightarrow> string list \<Rightarrow> string" where
  "later_text later [] = []"
| "later_text later (t # ts) = (if later then '','' else []) @ t @ later_text True ts"

lemma later_more: "later_text True ts = (if ts = [] then [] else CHR '','' # commas ts)"
  by (induction ts rule: commas.induct) simp_all

lemma later_commas: "later_text False ts = commas ts"
proof (cases ts)
  case (Cons t us)
  then show ?thesis using later_more [of us] by (cases us) simp_all
qed simp

lemma escaped_then:
  assumes "int (length d) < n" "length src \<le> CATALOG_NAME_LEN"
    and "\<And>d'. int (length d') < n \<Longrightarrow> f d' = writes n d' t"
  shows "Option.bind (serialAppendEscaped n d src) f = writes n d (esc src @ t)"
  using escaped_writes [OF assms(2,1)] writes_then [OF assms(3)] by simp

lemma later_bind:
  assumes "int (length d) < n" "\<And>d'. int (length d') < n \<Longrightarrow> f d' = writes n d' t"
  shows "Option.bind (if later then writes n d s else Some d) f = writes n d ((if later then s else []) @ t)"
  using assms writes_then [OF assms(2)] by simp

lemma serial_options_writes:
  assumes "list_all wf_option opts" "int (length d) < n"
  shows "serial_options n later opts d = writes n d (later_text later (map option_json opts))"
  using assms
proof (induction opts arbitrary: later d)
  case (Cons opt opts)
  have f: "length (flag opt) \<le> CATALOG_NAME_LEN" using Cons.prems(1) by (simp add: wf_option_def catalog_sizes)
  have "serial_options n later (opt # opts) d = writes n d ((if later then '','' else []) @
      (CHR ''{'' # json_key ''flag'' @ [dq]) @ esc (flag opt) @ (dq # CHR '','' # json_key ''takes_value'') @
      json_bool (has_arg opt) @ (CHR '','' # json_key ''description'' @ [dq, dq, CHR ''}'']) @
      later_text True (map option_json opts))"
    unfolding serial_options.simps serial_writes
    by (intro later_bind writes_then escaped_then Cons.IH f Cons.prems(2)) (use Cons.prems(1) in simp_all)
  then show ?case by (simp add: option_json_def [of opt] quoted_def)
qed (simp add: writes_Nil)

lemma serial_entries_writes:
  assumes "list_all wf_entry es" "int (length d) < n"
  shows "serial_entries n later es d = writes n d (later_text later (map entry_json es))"
  using assms
proof (induction es arbitrary: later d)
  case (Cons e es)
  have f: "length (entry_name e) \<le> CATALOG_NAME_LEN" and o: "list_all wf_option (options e)"
    using Cons.prems(1) by (simp_all add: wf_entry_def)
  have "serial_entries n later (e # es) d = writes n d ((if later then '','' else []) @
      (CHR ''{'' # json_key ''name'' @ [dq]) @ esc (entry_name e) @ (dq # CHR '','' # json_key ''description'' @ [dq, dq, CHR '','']) @
      json_key ''builtin'' @ json_bool (is_builtin e) @
      (CHR '','' # json_key ''destructive'' @ ''false,'' @ json_key ''flags'' @ ''['') @
      later_text False (map option_json (options e)) @ '']}'' @ later_text True (map entry_json es))"
    unfolding serial_entries.simps serial_writes
  proof (intro later_bind writes_then escaped_then f Cons.prems(2))
    fix d' :: string assume d': "int (length d') < n"
    have "Option.bind (serial_options n False (options e) d') (\<lambda>o8. Option.bind (writes n o8 '']}'') (serial_entries n True es)) =
        Option.bind (writes n d' (later_text False (map option_json (options e))))
          (\<lambda>o8. Option.bind (writes n o8 '']}'') (serial_entries n True es))"
      using serial_options_writes [OF o d'] by simp
    also have "\<dots> = writes n d' (later_text False (map option_json (options e)) @ '']}'' @ later_text True (map entry_json es))"
      by (intro writes_then Cons.IH) (use Cons.prems(1) in simp_all)
    finally show "Option.bind (serial_options n False (options e) d') (\<lambda>o8. Option.bind (writes n o8 '']}'') (serial_entries n True es)) =
        writes n d' (later_text False (map option_json (options e)) @ '']}'' @ later_text True (map entry_json es))" .
  qed
  then show ?case by (simp add: entry_json_def [of e] quoted_def later_commas)
qed (simp add: writes_Nil)

text \<open>
  A catalog as loaded serialises whole or not at all: the text is the JSON array of
  its entries, each with its name, its flags and whether they take a value, all
  escaped, and it is refused exactly when the text and its NUL do not fit; no name or
  flag is ever too long for the escape buffer.
\<close>

theorem CatalogSerializeJson_text:
  assumes "wf_catalog cat"
  shows "CatalogSerializeJson (Some cat) n =
    (if int (length (catalog_json cat)) < n then Some (catalog_json cat) else None)"
proof (cases "n < 1")
  case False
  have "CatalogSerializeJson (Some cat) n = writes n [] (''['' @ later_text False (map entry_json cat) @ '']'')"
    unfolding CatalogSerializeJson_def serial_writes option.case
    by (simp only: False if_False, intro writes_then)
       (use serial_entries_writes [of cat] writes_then [of n "\<lambda>o2. writes n o2 '']''" "'']''"] assms in \<open>simp add: wf_catalog_def\<close>)
  then show ?thesis by (simp add: catalog_json_def later_commas writes_def)
qed (simp add: CatalogSerializeJson_def)

lemma CatalogSerializeJson_text_witness:
  "CatalogSerializeJson (Some [\<lparr> entry_name = ''dir'', is_builtin = True, supports_win32s = False, shell_modern = [],
       shell_win32s = [], options = [\<lparr> flag = ''/A'', has_arg = True \<rparr>] \<rparr>]) 10 =
    (if int (length (catalog_json [\<lparr> entry_name = ''dir'', is_builtin = True, supports_win32s = False, shell_modern = [],
       shell_win32s = [], options = [\<lparr> flag = ''/A'', has_arg = True \<rparr>] \<rparr>])) < 10
     then Some (catalog_json [\<lparr> entry_name = ''dir'', is_builtin = True, supports_win32s = False, shell_modern = [],
       shell_win32s = [], options = [\<lparr> flag = ''/A'', has_arg = True \<rparr>] \<rparr>]) else None)"
  by (rule CatalogSerializeJson_text) (simp add: wf_catalog_def wf_entry_def wf_option_def catalog_sizes)

end
