(* ===== verification/Feat.thy ===== *)
theory Feat
  imports Prelude
begin

text \<open>
  The host probe of \<^verbatim>\<open>src/src/feat.c\<close>: the version word decoded, threads tried, and
  every optional entry point of \<^verbatim>\<open>kernel32\<close> resolved by name.  A function pointer
  \<^verbatim>\<open>pX\<close> of the C record is the membership of its name in \<open>procs\<close>: the code never
  uses anything of a pointer but whether it is NULL, apart from the call itself.
\<close>

section \<open>State\<close>

record Features =
  win_major :: nat
  win_minor :: nat
  win_build :: nat
  is_win32s :: bool
  is_win9x :: bool
  is_nt :: bool
  is_wow64 :: bool
  has_threads :: bool
  has_create_job_object :: bool
  has_get_binary_type :: bool
  has_is_wow64_process :: bool
  has_generate_ctrl_event :: bool
  has_query_full_image_name :: bool
  has_create_pseudo_console :: bool
  has_proc_thread_attr_list :: bool
  has_set_process_mitigation :: bool
  has_wide_fileapi :: bool
  has_wide_createprocess :: bool
  procs :: "string set"

text \<open>
  The host: the version word, whether \<^verbatim>\<open>CreateThread\<close> works, the module handle of
  \<^verbatim>\<open>kernel32\<close>, its export names, and the answer of \<^verbatim>\<open>IsWow64Process\<close>
  (\<^const>\<open>None\<close> when the call fails).
\<close>

record Host =
  GetVersion :: u32
  CreateThread_works :: bool
  kernel32_loaded :: bool
  exports :: "string \<Rightarrow> bool"
  IsWow64 :: "bool option"

definition no_features :: Features where
  "no_features = \<lparr> win_major = 0, win_minor = 0, win_build = 0, is_win32s = False, is_win9x = False,
     is_nt = False, is_wow64 = False, has_threads = False, has_create_job_object = False,
     has_get_binary_type = False, has_is_wow64_process = False, has_generate_ctrl_event = False,
     has_query_full_image_name = False, has_create_pseudo_console = False,
     has_proc_thread_attr_list = False, has_set_process_mitigation = False,
     has_wide_fileapi = False, has_wide_createprocess = False, procs = {} \<rparr>"

section \<open>The names\<close>

definition job_procs :: "string list" where
  "job_procs = [''CreateJobObjectA'', ''AssignProcessToJobObject'', ''SetInformationJobObject'']"

definition pty_procs :: "string list" where
  "pty_procs = [''CreatePseudoConsole'', ''ClosePseudoConsole'', ''ResizePseudoConsole'']"

definition attr_procs :: "string list" where
  "attr_procs = [''InitializeProcThreadAttributeList'', ''UpdateProcThreadAttribute'',
     ''DeleteProcThreadAttributeList'']"

definition wide_procs :: "string list" where
  "wide_procs = [''CreateFileW'', ''FindFirstFileW'', ''FindNextFileW'', ''DeleteFileW'', ''CopyFileW'',
     ''MoveFileW'', ''CreateDirectoryW'', ''RemoveDirectoryW'']"

section \<open>Operations\<close>

text \<open>\<^verbatim>\<open>GetProcAddress\<close> on a name, its pointer kept when there is one.\<close>

definition resolve :: "Host \<Rightarrow> string \<Rightarrow> Features \<Rightarrow> Features" where
  "resolve h name f = (if exports h name then f\<lparr>procs := insert name (procs f)\<rparr> else f)"

text \<open>A capability of one name: its flag mirrors its pointer.\<close>

definition flagged :: "Host \<Rightarrow> string \<Rightarrow> (Features \<Rightarrow> Features) \<Rightarrow> Features \<Rightarrow> Features" where
  "flagged h name raise_flag f = (if exports h name then raise_flag (resolve h name f) else f)"

definition all_resolved :: "Features \<Rightarrow> string list \<Rightarrow> bool" where
  "all_resolved f names \<longleftrightarrow> list_all (\<lambda>n. n \<in> procs f) names"

definition feat_version :: "Host \<Rightarrow> Features \<Rightarrow> Features" where
  "feat_version h f =
     (let ver = GetVersion h;
          nt = (ver AND 0x80000000 = 0);
          major = unat (ver AND 0xFF);
          minor = unat (drop_bit 8 ver AND 0xFF);
          build = (if nt then unat (drop_bit 16 ver AND 0xFFFF) else 0);
          f1 = f\<lparr>is_nt := nt, win_major := major, win_minor := minor, win_build := build\<rparr>;
          f2 = (if \<not> nt \<and> major = 4 then f1\<lparr>is_win9x := True\<rparr> else f1)
      in if \<not> nt \<and> major = 3 then f2\<lparr>is_win32s := True\<rparr> else f2)"

definition feat_threads :: "Host \<Rightarrow> Features \<Rightarrow> Features" where
  "feat_threads h f =
     (if CreateThread_works h then f\<lparr>has_threads := True\<rparr>
      else f\<lparr>has_threads := False, is_win32s := True\<rparr>)"

text \<open>A capability of several names: its flag is raised when every pointer is there.\<close>

definition group :: "Host \<Rightarrow> string list \<Rightarrow> (Features \<Rightarrow> Features) \<Rightarrow> Features \<Rightarrow> Features" where
  "group h names raise_flag f =
     (let f' = fold (resolve h) names f in if all_resolved f' names then raise_flag f' else f')"

definition feat_jobs :: "Host \<Rightarrow> Features \<Rightarrow> Features" where
  "feat_jobs h f = group h job_procs (has_create_job_object_update (\<lambda>_. True)) f"

definition feat_singles :: "Host \<Rightarrow> Features \<Rightarrow> Features" where
  "feat_singles h f =
     flagged h ''QueryFullProcessImageNameA'' (has_query_full_image_name_update (\<lambda>_. True))
     (flagged h ''GenerateConsoleCtrlEvent'' (has_generate_ctrl_event_update (\<lambda>_. True))
     (flagged h ''IsWow64Process'' (has_is_wow64_process_update (\<lambda>_. True))
     (resolve h ''SetHandleInformation''
     (flagged h ''GetBinaryTypeA'' (has_get_binary_type_update (\<lambda>_. True)) f))))"

definition feat_pty :: "Host \<Rightarrow> Features \<Rightarrow> Features" where
  "feat_pty h f =
     flagged h ''SetProcessMitigationPolicy'' (has_set_process_mitigation_update (\<lambda>_. True))
     (group h attr_procs (has_proc_thread_attr_list_update (\<lambda>_. True))
     (group h pty_procs (has_create_pseudo_console_update (\<lambda>_. True)) f))"

definition feat_wide :: "Host \<Rightarrow> Features \<Rightarrow> Features" where
  "feat_wide h f =
     flagged h ''CreateProcessW'' (has_wide_createprocess_update (\<lambda>_. True))
     (group h wide_procs (has_wide_fileapi_update (\<lambda>_. True)) f)"

definition feat_wow64 :: "Host \<Rightarrow> Features \<Rightarrow> Features" where
  "feat_wow64 h f =
     (if has_is_wow64_process f
      then (case IsWow64 h of None \<Rightarrow> f | Some w \<Rightarrow> f\<lparr>is_wow64 := w\<rparr>) else f)"

definition FeatInit :: "Host \<Rightarrow> Features" where
  "FeatInit h =
     (let f = feat_threads h (feat_version h no_features);
          f' = (if kernel32_loaded h then feat_wide h (feat_pty h (feat_singles h (feat_jobs h f))) else f)
      in feat_wow64 h f')"

definition FeatVersionString :: "Features \<Rightarrow> string" where
  "FeatVersionString f =
     (let kind = (if is_win32s f then ''Win32s'' else if is_win9x f then ''9x''
                  else if is_nt f then ''NT'' else ''Win16'')
      in ''Windows '' @ dec (win_major f) @ ''.'' @ dec (win_minor f) @
         (if is_nt f then ''.'' @ dec (win_build f) else []) @ '' ('' @ kind @ '')'')"

text \<open>The test switches: a flag is cleared together with the pointers behind it.\<close>

definition force :: "int \<Rightarrow> nat \<Rightarrow> string list \<Rightarrow> (Features \<Rightarrow> Features) \<Rightarrow> Features \<Rightarrow> Features" where
  "force flagsMask k names clear f =
     (if bit flagsMask k then (clear f)\<lparr>procs := procs f - set names\<rparr> else f)"

definition FeatForceFallback :: "int \<Rightarrow> Features \<Rightarrow> Features" where
  "FeatForceFallback flagsMask f =
     force flagsMask 6 [''CreateProcessW''] (has_wide_createprocess_update (\<lambda>_. False))
     (force flagsMask 5 wide_procs (has_wide_fileapi_update (\<lambda>_. False))
     (force flagsMask 4 [''GetBinaryTypeA''] (has_get_binary_type_update (\<lambda>_. False))
     (force flagsMask 3 pty_procs (has_create_pseudo_console_update (\<lambda>_. False))
     (force flagsMask 2 [''GenerateConsoleCtrlEvent''] (has_generate_ctrl_event_update (\<lambda>_. False))
     (force flagsMask 1 job_procs (has_create_job_object_update (\<lambda>_. False))
     (force flagsMask 0 [] (has_threads_update (\<lambda>_. False)) f))))))"

section \<open>A flag promises its pointers\<close>

text \<open>What every user of the record relies on: a call through a pointer is guarded by its flag.\<close>

definition flag_promises :: "Features \<Rightarrow> bool" where
  "flag_promises f \<longleftrightarrow>
     (has_create_job_object f \<longleftrightarrow> set job_procs \<subseteq> procs f) \<and>
     (has_create_pseudo_console f \<longleftrightarrow> set pty_procs \<subseteq> procs f) \<and>
     (has_proc_thread_attr_list f \<longleftrightarrow> set attr_procs \<subseteq> procs f) \<and>
     (has_wide_fileapi f \<longleftrightarrow> set wide_procs \<subseteq> procs f) \<and>
     (has_wide_createprocess f \<longleftrightarrow> ''CreateProcessW'' \<in> procs f) \<and>
     (has_get_binary_type f \<longleftrightarrow> ''GetBinaryTypeA'' \<in> procs f) \<and>
     (has_is_wow64_process f \<longleftrightarrow> ''IsWow64Process'' \<in> procs f) \<and>
     (has_generate_ctrl_event f \<longleftrightarrow> ''GenerateConsoleCtrlEvent'' \<in> procs f) \<and>
     (has_query_full_image_name f \<longleftrightarrow> ''QueryFullProcessImageNameA'' \<in> procs f) \<and>
     (has_set_process_mitigation f \<longleftrightarrow> ''SetProcessMitigationPolicy'' \<in> procs f)"

text \<open>Everything the probe asks for, and what a stage does to a field, without a case split.\<close>

definition asked :: "string set" where
  "asked = set job_procs \<union> set pty_procs \<union> set attr_procs \<union> set wide_procs \<union>
     {''GetBinaryTypeA'', ''SetHandleInformation'', ''IsWow64Process'', ''GenerateConsoleCtrlEvent'',
      ''QueryFullProcessImageNameA'', ''SetProcessMitigationPolicy'', ''CreateProcessW''}"

lemma resolve_update: "resolve h n f = f\<lparr>procs := procs f \<union> ({n} \<inter> Collect (exports h))\<rparr>"
  by (auto simp: resolve_def)

lemma fold_resolve: "fold (resolve h) ns f = f\<lparr>procs := procs f \<union> (set ns \<inter> Collect (exports h))\<rparr>"
proof (induction ns arbitrary: f)
  case (Cons n ns)
  have "procs f \<union> ({n} \<inter> Collect (exports h)) \<union> (set ns \<inter> Collect (exports h))
    = procs f \<union> (set (n # ns) \<inter> Collect (exports h))" by auto
  then show ?case by (simp add: Cons.IH resolve_update [of h n])
qed simp

lemma group_update:
  assumes "procs f \<subseteq> Collect (exports h)"
  shows "group h ns g f =
    (if set ns \<subseteq> Collect (exports h) then g (f\<lparr>procs := procs f \<union> (set ns \<inter> Collect (exports h))\<rparr>)
     else f\<lparr>procs := procs f \<union> (set ns \<inter> Collect (exports h))\<rparr>)"
proof -
  have "all_resolved (fold (resolve h) ns f) ns \<longleftrightarrow> set ns \<subseteq> Collect (exports h)"
    using assms by (auto simp: all_resolved_def list_all_iff fold_resolve)
  then show ?thesis by (simp add: group_def fold_resolve)
qed

lemmas field_if = if_distrib [of procs] if_distrib [of has_create_job_object] if_distrib [of has_get_binary_type]
  if_distrib [of has_is_wow64_process] if_distrib [of has_generate_ctrl_event]
  if_distrib [of has_query_full_image_name] if_distrib [of has_create_pseudo_console]
  if_distrib [of has_proc_thread_attr_list] if_distrib [of has_set_process_mitigation]
  if_distrib [of has_wide_fileapi] if_distrib [of has_wide_createprocess]

lemma start_state:
  fixes h :: Host
  defines "f \<equiv> feat_threads h (feat_version h no_features)"
  shows "procs f = {}" "\<not> has_create_job_object f" "\<not> has_get_binary_type f" "\<not> has_is_wow64_process f"
    "\<not> has_generate_ctrl_event f" "\<not> has_query_full_image_name f" "\<not> has_create_pseudo_console f"
    "\<not> has_proc_thread_attr_list f" "\<not> has_set_process_mitigation f" "\<not> has_wide_fileapi f"
    "\<not> has_wide_createprocess f"
  by (simp_all add: f_def feat_threads_def feat_version_def no_features_def Let_def field_if)

text \<open>
  The fields after a stage that starts from a record holding only exported names: the
  names it asked for, its own flags, and every other flag as it was.
\<close>

definition sound :: "Host \<Rightarrow> Features \<Rightarrow> bool" where
  "sound h f \<longleftrightarrow> procs f \<subseteq> Collect (exports h)"

lemma field_jobs:
  assumes "sound h f"
  shows "procs (feat_jobs h f) = procs f \<union> ((set job_procs) \<inter> Collect (exports h))"
    "has_create_job_object (feat_jobs h f) \<longleftrightarrow> has_create_job_object f \<or> set job_procs \<subseteq> Collect (exports h)"
    "has_get_binary_type (feat_jobs h f) \<longleftrightarrow> has_get_binary_type f"
    "has_is_wow64_process (feat_jobs h f) \<longleftrightarrow> has_is_wow64_process f"
    "has_generate_ctrl_event (feat_jobs h f) \<longleftrightarrow> has_generate_ctrl_event f"
    "has_query_full_image_name (feat_jobs h f) \<longleftrightarrow> has_query_full_image_name f"
    "has_create_pseudo_console (feat_jobs h f) \<longleftrightarrow> has_create_pseudo_console f"
    "has_proc_thread_attr_list (feat_jobs h f) \<longleftrightarrow> has_proc_thread_attr_list f"
    "has_set_process_mitigation (feat_jobs h f) \<longleftrightarrow> has_set_process_mitigation f"
    "has_wide_fileapi (feat_jobs h f) \<longleftrightarrow> has_wide_fileapi f"
    "has_wide_createprocess (feat_jobs h f) \<longleftrightarrow> has_wide_createprocess f"
  using assms by (simp_all add: feat_jobs_def group_update sound_def)

lemma field_singles:
  shows "procs (feat_singles h f) = procs f \<union> (({''GetBinaryTypeA'', ''SetHandleInformation'', ''IsWow64Process'', ''GenerateConsoleCtrlEvent'', ''QueryFullProcessImageNameA''}) \<inter> Collect (exports h))"
    "has_create_job_object (feat_singles h f) \<longleftrightarrow> has_create_job_object f"
    "has_get_binary_type (feat_singles h f) \<longleftrightarrow> has_get_binary_type f \<or> exports h ''GetBinaryTypeA''"
    "has_is_wow64_process (feat_singles h f) \<longleftrightarrow> has_is_wow64_process f \<or> exports h ''IsWow64Process''"
    "has_generate_ctrl_event (feat_singles h f) \<longleftrightarrow> has_generate_ctrl_event f \<or> exports h ''GenerateConsoleCtrlEvent''"
    "has_query_full_image_name (feat_singles h f) \<longleftrightarrow> has_query_full_image_name f \<or> exports h ''QueryFullProcessImageNameA''"
    "has_create_pseudo_console (feat_singles h f) \<longleftrightarrow> has_create_pseudo_console f"
    "has_proc_thread_attr_list (feat_singles h f) \<longleftrightarrow> has_proc_thread_attr_list f"
    "has_set_process_mitigation (feat_singles h f) \<longleftrightarrow> has_set_process_mitigation f"
    "has_wide_fileapi (feat_singles h f) \<longleftrightarrow> has_wide_fileapi f"
    "has_wide_createprocess (feat_singles h f) \<longleftrightarrow> has_wide_createprocess f"
  by (auto simp: feat_singles_def flagged_def resolve_update field_if)

lemma field_pty:
  assumes "sound h f"
  shows "procs (feat_pty h f) = procs f \<union> ((set pty_procs \<union> set attr_procs \<union> {''SetProcessMitigationPolicy''}) \<inter> Collect (exports h))"
    "has_create_job_object (feat_pty h f) \<longleftrightarrow> has_create_job_object f"
    "has_get_binary_type (feat_pty h f) \<longleftrightarrow> has_get_binary_type f"
    "has_is_wow64_process (feat_pty h f) \<longleftrightarrow> has_is_wow64_process f"
    "has_generate_ctrl_event (feat_pty h f) \<longleftrightarrow> has_generate_ctrl_event f"
    "has_query_full_image_name (feat_pty h f) \<longleftrightarrow> has_query_full_image_name f"
    "has_create_pseudo_console (feat_pty h f) \<longleftrightarrow> has_create_pseudo_console f \<or> set pty_procs \<subseteq> Collect (exports h)"
    "has_proc_thread_attr_list (feat_pty h f) \<longleftrightarrow> has_proc_thread_attr_list f \<or> set attr_procs \<subseteq> Collect (exports h)"
    "has_set_process_mitigation (feat_pty h f) \<longleftrightarrow> has_set_process_mitigation f \<or> exports h ''SetProcessMitigationPolicy''"
    "has_wide_fileapi (feat_pty h f) \<longleftrightarrow> has_wide_fileapi f"
    "has_wide_createprocess (feat_pty h f) \<longleftrightarrow> has_wide_createprocess f"
  using assms by (auto simp: feat_pty_def flagged_def resolve_update group_update sound_def field_if)

lemma field_wide:
  assumes "sound h f"
  shows "procs (feat_wide h f) = procs f \<union> ((set wide_procs \<union> {''CreateProcessW''}) \<inter> Collect (exports h))"
    "has_create_job_object (feat_wide h f) \<longleftrightarrow> has_create_job_object f"
    "has_get_binary_type (feat_wide h f) \<longleftrightarrow> has_get_binary_type f"
    "has_is_wow64_process (feat_wide h f) \<longleftrightarrow> has_is_wow64_process f"
    "has_generate_ctrl_event (feat_wide h f) \<longleftrightarrow> has_generate_ctrl_event f"
    "has_query_full_image_name (feat_wide h f) \<longleftrightarrow> has_query_full_image_name f"
    "has_create_pseudo_console (feat_wide h f) \<longleftrightarrow> has_create_pseudo_console f"
    "has_proc_thread_attr_list (feat_wide h f) \<longleftrightarrow> has_proc_thread_attr_list f"
    "has_set_process_mitigation (feat_wide h f) \<longleftrightarrow> has_set_process_mitigation f"
    "has_wide_fileapi (feat_wide h f) \<longleftrightarrow> has_wide_fileapi f \<or> set wide_procs \<subseteq> Collect (exports h)"
    "has_wide_createprocess (feat_wide h f) \<longleftrightarrow> has_wide_createprocess f \<or> exports h ''CreateProcessW''"
  using assms by (auto simp: feat_wide_def flagged_def resolve_update group_update sound_def field_if)

lemma sound_stages:
  assumes "sound h f"
  shows "sound h (feat_jobs h f)" "sound h (feat_singles h f)" "sound h (feat_pty h f)"
  using assms field_jobs(1) [OF assms] field_singles(1) [of h f] field_pty(1) [OF assms]
  by (auto simp: sound_def)

text \<open>The probed record, field by field, when \<^verbatim>\<open>kernel32\<close> is there and when it is not.\<close>

lemma wow64_keeps [simp]: "flag_promises (feat_wow64 h f) \<longleftrightarrow> flag_promises f"
  by (simp add: feat_wow64_def flag_promises_def split: option.split)

lemma in_asked: "A \<subseteq> B \<Longrightarrow> A \<subseteq> B \<inter> C \<longleftrightarrow> A \<subseteq> C"
  by blast

lemma probed_promises:
  fixes h :: Host
  defines "f \<equiv> feat_threads h (feat_version h no_features)"
  shows "flag_promises (feat_wide h (feat_pty h (feat_singles h (feat_jobs h f))))" (is "flag_promises ?g")
proof -
  note z = start_state [of h, folded f_def]
  have s0: "sound h f" by (simp add: sound_def z)
  note s1 = sound_stages(1) [OF s0]
  note s2 = sound_stages(2) [OF s1]
  note s3 = sound_stages(3) [OF s2]
  have procs: "procs ?g = asked \<inter> Collect (exports h)"
    by (auto simp: field_wide [OF s3] field_pty [OF s2] field_singles field_jobs [OF s0] z asked_def)
  have sub: "set job_procs \<subseteq> asked" "set pty_procs \<subseteq> asked" "set attr_procs \<subseteq> asked" "set wide_procs \<subseteq> asked"
    by (auto simp: asked_def)
  have mem: "''CreateProcessW'' \<in> asked" "''GetBinaryTypeA'' \<in> asked" "''IsWow64Process'' \<in> asked"
    "''GenerateConsoleCtrlEvent'' \<in> asked" "''QueryFullProcessImageNameA'' \<in> asked"
    "''SetProcessMitigationPolicy'' \<in> asked"
    by (simp_all add: asked_def)
  show ?thesis
    unfolding flag_promises_def procs in_asked [OF sub(1)] in_asked [OF sub(2)] in_asked [OF sub(3)] in_asked [OF sub(4)]
    by (simp add: field_wide [OF s3] field_pty [OF s2] field_singles field_jobs [OF s0] z mem)
qed

lemma start_promises: "flag_promises (feat_threads h (feat_version h no_features))"
  using start_state [of h] by (simp add: flag_promises_def job_procs_def pty_procs_def attr_procs_def wide_procs_def)

lemma flags_of_init: "flag_promises (FeatInit h)"
  using probed_promises [of h] start_promises [of h] by (simp add: FeatInit_def Let_def)

text \<open>The names of two capabilities never meet, so clearing one leaves the others.\<close>

lemma subset_Diff_disjoint: "A \<inter> B = {} \<Longrightarrow> A \<subseteq> P - B \<longleftrightarrow> A \<subseteq> P"
  by blast

lemmas proc_names = job_procs_def pty_procs_def attr_procs_def wide_procs_def

lemma force_promises:
  assumes "flag_promises f"
  shows "flag_promises (force m k [''CreateProcessW''] (has_wide_createprocess_update (\<lambda>_. False)) f)"
    "flag_promises (force m k wide_procs (has_wide_fileapi_update (\<lambda>_. False)) f)"
    "flag_promises (force m k [''GetBinaryTypeA''] (has_get_binary_type_update (\<lambda>_. False)) f)"
    "flag_promises (force m k pty_procs (has_create_pseudo_console_update (\<lambda>_. False)) f)"
    "flag_promises (force m k [''GenerateConsoleCtrlEvent''] (has_generate_ctrl_event_update (\<lambda>_. False)) f)"
    "flag_promises (force m k job_procs (has_create_job_object_update (\<lambda>_. False)) f)"
    "flag_promises (force m k [] (has_threads_update (\<lambda>_. False)) f)"
  using assms unfolding flag_promises_def force_def
  by (simp_all add: proc_names)

text \<open>
  Whatever the host exports, and whatever capabilities the test switches take away
  afterwards, a capability flag is set exactly when every pointer behind it is there;
  so a call guarded by its flag never goes through a NULL pointer, and no capability
  the host offers is missed.
\<close>

theorem FeatInit_flags: "flag_promises (FeatInit h) \<and> flag_promises (FeatForceFallback flagsMask (FeatInit h))"
  unfolding FeatForceFallback_def by (intro conjI force_promises flags_of_init)

end
