(* ===== verification/MemGuard.thy ===== *)
theory MemGuard
  imports Json
begin

text \<open>
  The arithmetic guards of \<^verbatim>\<open>src/src/mem_ops.c\<close>: the parser of wire addresses, the
  range check, and the decision over a \<^verbatim>\<open>VirtualQuery\<close> answer.  Values are 32-bit
  words, as \<^verbatim>\<open>unsigned long\<close> is on every Windows target.
\<close>

section \<open>Wire numbers\<close>

definition mem_digit :: "bool \<Rightarrow> char \<Rightarrow> u32 option" where
  "mem_digit isHex c =
     (if CHR ''0'' \<le> c \<and> c \<le> CHR ''9'' then Some (word_of_nat (of_char c - 48))
      else if isHex \<and> CHR ''a'' \<le> c \<and> c \<le> CHR ''f'' then Some (word_of_nat (of_char c - 97 + 10))
      else if isHex \<and> CHR ''A'' \<le> c \<and> c \<le> CHR ''F'' then Some (word_of_nat (of_char c - 65 + 10))
      else None)"

fun mem_parse_loop :: "bool \<Rightarrow> string \<Rightarrow> u32 \<Rightarrow> u32 option" where
  "mem_parse_loop isHex [] val = Some val"
| "mem_parse_loop isHex (c # s) val =
     (case mem_digit isHex c of
        None \<Rightarrow> None
      | Some digit \<Rightarrow>
          if isHex then
            (if val > drop_bit 4 0xFFFFFFFF then None
             else mem_parse_loop isHex s (push_bit 4 val OR digit))
          else
            (if val > 0xFFFFFFFF div 10 then None
             else let v = val * 10 in
               if v > 0xFFFFFFFF - digit then None else mem_parse_loop isHex s (v + digit)))"

definition hex_prefixed :: "string \<Rightarrow> bool" where
  "hex_prefixed s \<longleftrightarrow> starts ''0x'' s \<or> starts ''0X'' s"

definition MemParseU32 :: "string \<Rightarrow> u32 option" where
  "MemParseU32 s =
     (if s = [] then None
      else if hex_prefixed s then (if drop 2 s = [] then None else mem_parse_loop True (drop 2 s) 0)
      else mem_parse_loop False s 0)"

section \<open>Ranges and regions\<close>

definition MemRangeInBounds :: "u32 \<Rightarrow> u32 \<Rightarrow> u32 \<Rightarrow> bool" where
  "MemRangeInBounds addr len cap \<longleftrightarrow>
     (if len > cap then False else if addr > 0xFFFFFFFF - len then False else True)"

record MBI =
  BaseAddress :: u32
  RegionSize :: u32
  State :: u32
  Protect :: u32

definition MEM_COMMIT :: u32 where "MEM_COMMIT = 0x1000"
definition PAGE_NOACCESS :: u32 where "PAGE_NOACCESS = 0x01"
definition PAGE_READWRITE :: u32 where "PAGE_READWRITE = 0x04"
definition PAGE_WRITECOPY :: u32 where "PAGE_WRITECOPY = 0x08"
definition PAGE_EXECUTE_READWRITE :: u32 where "PAGE_EXECUTE_READWRITE = 0x40"
definition PAGE_EXECUTE_WRITECOPY :: u32 where "PAGE_EXECUTE_WRITECOPY = 0x80"
definition PAGE_GUARD :: u32 where "PAGE_GUARD = 0x100"

definition MemRegionAccessibleDecision :: "MBI option \<Rightarrow> u32 \<Rightarrow> u32 \<Rightarrow> bool \<Rightarrow> u32" where
  "MemRegionAccessibleDecision mbi addr len forWrite =
     (case mbi of
        None \<Rightarrow> 0
      | Some m \<Rightarrow>
          if State m \<noteq> MEM_COMMIT then 0
          else let prot = Protect m in
            if prot AND PAGE_GUARD \<noteq> 0 then 0
            else if prot = PAGE_NOACCESS then 0
            else if forWrite \<and> \<not> (prot = PAGE_READWRITE \<or> prot = PAGE_WRITECOPY \<or>
                prot = PAGE_EXECUTE_READWRITE \<or> prot = PAGE_EXECUTE_WRITECOPY) then 0
            else let regionBase = BaseAddress m; regionEnd = regionBase + RegionSize m in
              if addr < regionBase \<or> addr \<ge> regionEnd then 0
              else let avail = regionEnd - addr in
                if avail \<ge> len then len else avail)"

section \<open>The numbers a wire text stands for\<close>

definition hex_value :: "char \<Rightarrow> nat" where
  "hex_value c = (if is_digit c then of_char c - 48
     else if CHR ''a'' \<le> c \<and> c \<le> CHR ''f'' then of_char c - 87 else of_char c - 55)"

definition is_hex :: "char \<Rightarrow> bool" where
  "is_hex c \<longleftrightarrow> is_digit c \<or> CHR ''a'' \<le> c \<and> c \<le> CHR ''f'' \<or> CHR ''A'' \<le> c \<and> c \<le> CHR ''F''"

definition number :: "nat \<Rightarrow> nat \<Rightarrow> string \<Rightarrow> nat" where
  "number base v s = foldl (\<lambda>v c. base * v + hex_value c) v s"

text \<open>The unbounded reading: the base and the digits, when the text is well formed.\<close>

definition wire_number :: "string \<Rightarrow> nat option" where
  "wire_number s =
     (if hex_prefixed s then
        (if drop 2 s \<noteq> [] \<and> list_all is_hex (drop 2 s) then Some (number 16 0 (drop 2 s)) else None)
      else if s \<noteq> [] \<and> list_all is_digit s then Some (number 10 0 s) else None)"

lemma number_simps [simp]:
  "number b v [] = v" "number b v (c # s) = number b (b * v + hex_value c) s"
  by (simp_all add: number_def)

lemma number_grows: "1 \<le> b \<Longrightarrow> v \<le> number b v s"
proof (induction s arbitrary: v)
  case (Cons c s)
  have "v \<le> b * v + hex_value c" using Cons.prems by (simp add: trans_le_add1)
  then show ?case using Cons.IH [of "b * v + hex_value c"] Cons.prems by simp
qed simp

lemma digit_value:
  "is_digit c \<Longrightarrow> mem_digit isHex c = Some (word_of_nat (hex_value c)) \<and> hex_value c < 10"
  by (auto simp: is_digit_def mem_digit_def hex_value_def less_eq_char_def)

lemma hex_digit_value:
  "is_hex c \<Longrightarrow> mem_digit True c = Some (word_of_nat (hex_value c)) \<and> hex_value c < 16"
  by (auto simp: is_hex_def is_digit_def mem_digit_def hex_value_def less_eq_char_def)

lemma no_digit: "\<not> is_digit c \<Longrightarrow> mem_digit False c = None" "\<not> is_hex c \<Longrightarrow> mem_digit True c = None"
  by (auto simp: is_hex_def is_digit_def mem_digit_def)

lemma word_lt: "unat (x :: u32) < 4294967296"
proof -
  have "unat x < 2 ^ LENGTH(32)" by (rule unsigned_less)
  then show ?thesis by simp
qed

lemma unat_32: "n < 4294967296 \<Longrightarrow> unat (word_of_nat n :: u32) = n"
  by (simp add: unsigned_of_nat take_bit_nat_eq_self)

lemma nibble_or:
  assumes "d < 16"
  shows "(push_bit 4 v OR d :: nat) = 16 * v + d"
proof -
  have d: "drop_bit 4 d = 0" "take_bit 4 d = d"
    using assms by (simp_all add: drop_bit_eq_div take_bit_nat_eq_self)
  have v: "drop_bit 4 (push_bit 4 v) = v" "take_bit 4 (push_bit 4 v) = 0"
    by (simp_all add: push_bit_eq_mult drop_bit_eq_div take_bit_eq_mod)
  have "take_bit 4 (push_bit 4 v OR d) = d" "drop_bit 4 (push_bit 4 v OR d) = v"
    by (simp_all only: take_bit_or drop_bit_or d v or.right_neutral or.left_neutral)
  then show ?thesis using bits_ident [of 4 "push_bit 4 v OR d"] by (simp add: push_bit_eq_mult)
qed

lemma nibble_word:
  assumes "unat (val :: u32) \<le> 268435455" "d < 16"
  shows "unat (push_bit 4 val OR word_of_nat d) = 16 * unat val + d"
proof -
  have "16 * unat val < 4294967296" using assms(1) by simp
  then have "unat (push_bit 4 val) = push_bit 4 (unat val)"
    by (simp only: unsigned_push_bit_eq) (simp add: push_bit_eq_mult take_bit_nat_eq_self)
  moreover have "unat (word_of_nat d :: u32) = d" using assms(2) by (simp add: unat_32)
  ultimately show ?thesis by (simp only: unsigned_or_eq nibble_or [OF assms(2)])
qed

lemma hex_loop:
  "mem_parse_loop True s val =
     (if list_all is_hex s \<and> number 16 (unat val) s < 4294967296 then Some (word_of_nat (number 16 (unat val) s)) else None)"
proof (induction s arbitrary: val)
  case (Cons c s)
  show ?case
  proof (cases "is_hex c")
    case True
    have d: "mem_digit True c = Some (word_of_nat (hex_value c))" "hex_value c < 16"
      using hex_digit_value [OF True] by auto
    show ?thesis
    proof (cases "unat val \<le> 268435455")
      case fits: True
      have small: "val \<le> 0xFFFFFFF" using fits by (simp add: word_le_nat_alt)
      have "unat (push_bit 4 val OR word_of_nat (hex_value c)) = 16 * unat val + hex_value c"
        using nibble_word fits d(2) by blast
      then show ?thesis using Cons.IH True d small by (simp add: not_less)
    next
      case False
      then have "\<not> val \<le> 0xFFFFFFF" by (simp add: word_le_nat_alt)
      moreover have "\<not> number 16 (16 * unat val + hex_value c) s < 4294967296"
        using number_grows [of 16 "16 * unat val + hex_value c" s] False by simp
      ultimately show ?thesis using True d by (simp add: not_less)
    qed
  qed (simp add: no_digit)
qed (simp add: word_lt)

lemma ten_word:
  assumes "unat (val :: u32) \<le> 429496729"
  shows "unat (val * 10) = 10 * unat val"
proof -
  have "10 * unat val < 4294967296" using assms by simp
  then show ?thesis by (simp add: unat_word_ariths)
qed

lemma add_fits: "(v :: u32) > 0xFFFFFFFF - w \<longleftrightarrow> 4294967296 \<le> unat v + unat w"
proof -
  have "unat (0xFFFFFFFF - w) = 4294967295 - unat w"
    using word_lt [of w] by (subst unat_sub) (simp_all add: word_le_nat_alt)
  then show ?thesis using word_lt [of w] by (simp add: word_less_nat_alt) linarith
qed

lemma unat_add_fits: "unat (v :: u32) + unat w < 4294967296 \<Longrightarrow> unat (v + w) = unat v + unat w"
  by (simp add: unat_word_ariths)

lemma dec_loop:
  "mem_parse_loop False s val =
     (if list_all is_digit s \<and> number 10 (unat val) s < 4294967296 then Some (word_of_nat (number 10 (unat val) s)) else None)"
proof (induction s arbitrary: val)
  case (Cons c s)
  show ?case
  proof (cases "is_digit c")
    case True
    have d: "mem_digit False c = Some (word_of_nat (hex_value c))" "hex_value c < 10"
      using digit_value [OF True] by auto
    define w :: u32 where "w = word_of_nat (hex_value c)"
    have w: "unat w = hex_value c" using d(2) by (simp add: w_def unat_32)
    have grow: "10 * unat val + hex_value c \<le> number 10 (10 * unat val + hex_value c) s"
      by (rule number_grows) simp
    consider "429496729 < unat val" | "unat val \<le> 429496729" "4294967296 \<le> 10 * unat val + hex_value c"
      | "unat val \<le> 429496729" "10 * unat val + hex_value c < 4294967296"
      by linarith
    then show ?thesis
    proof cases
      case 1
      then have "\<not> val \<le> 429496729" by (simp add: word_le_nat_alt)
      then show ?thesis using True d grow 1 by (simp add: not_less)
    next
      case 2
      then have "val \<le> 429496729" by (simp add: word_le_nat_alt)
      then show ?thesis using True d(1) grow 2 ten_word [OF 2(1)] w add_fits [of w "val * 10"]
        by (simp add: Let_def not_less flip: w_def)
    next
      case 3
      then have "val \<le> 429496729" by (simp add: word_le_nat_alt)
      moreover have "unat (val * 10 + w) = 10 * unat val + hex_value c"
        using 3 ten_word [OF 3(1)] w by (simp add: unat_add_fits)
      ultimately show ?thesis using True d(1) 3 ten_word [OF 3(1)] w add_fits [of w "val * 10"] Cons.IH
        by (simp add: Let_def not_less flip: w_def)
    qed
  qed (simp add: no_digit)
qed (simp add: word_lt)

text \<open>
  A wire address is accepted exactly when it is a decimal number, or a hexadecimal
  one behind \<^verbatim>\<open>0x\<close>, of any number of digits whose value fits 32 bits, and the word is
  that value: the checks against overflow never let a wrapped value through and never
  refuse one that fits.
\<close>

theorem MemParseU32_value:
  "MemParseU32 s =
     (case wire_number s of
        None \<Rightarrow> None
      | Some n \<Rightarrow> if n < 2 ^ 32 then Some (word_of_nat n) else None)"
  by (simp add: MemParseU32_def wire_number_def hex_loop dec_loop)

section \<open>The range check and the region decision over the integers\<close>

text \<open>
  The range check computed in 32-bit words is the one over the integers: the
  length is within the cap and the range ends within the address space.
\<close>

theorem MemRangeInBounds_exact:
  "MemRangeInBounds addr len cap \<longleftrightarrow> unat len \<le> unat cap \<and> unat addr + unat len < 2 ^ 32"
  using add_fits [of len addr] by (auto simp: MemRangeInBounds_def word_less_nat_alt)

definition protection_ok :: "bool \<Rightarrow> u32 \<Rightarrow> bool" where
  "protection_ok forWrite prot \<longleftrightarrow>
     prot AND PAGE_GUARD = 0 \<and> prot \<noteq> PAGE_NOACCESS \<and>
     (forWrite \<longrightarrow> prot \<in> {PAGE_READWRITE, PAGE_WRITECOPY, PAGE_EXECUTE_READWRITE, PAGE_EXECUTE_WRITECOPY})"

lemma region_end:
  fixes base sz addr :: u32
  shows "(base \<le> addr \<and> addr < base + sz) \<longleftrightarrow>
    unat base \<le> unat addr \<and> unat addr < unat base + unat sz \<and> unat base + unat sz < 4294967296"
proof (cases "unat base + unat sz < 4294967296")
  case True
  then show ?thesis by (simp add: word_le_nat_alt word_less_nat_alt unat_add_fits)
next
  case False
  then have "unat (base + sz) = unat base + unat sz - 4294967296"
    using word_lt [of base] word_lt [of sz] by (simp add: unat_word_ariths mod_if)
  moreover have "unat base + unat sz - 4294967296 \<le> unat base" using word_lt [of sz] by linarith
  ultimately show ?thesis using False by (auto simp: word_le_nat_alt word_less_nat_alt)
qed

text \<open>
  The accessible prefix, over the integers: the part of the range that lies in a
  committed region with the right protection, nothing for a guarded, absent or
  read-only one, and nothing where the region reaches the end of the address space.
\<close>

theorem MemRegionAccessibleDecision_exact:
  "unat (MemRegionAccessibleDecision (Some m) addr len forWrite) =
     (let base = unat (BaseAddress m); stop = base + unat (RegionSize m) in
      if State m = MEM_COMMIT \<and> protection_ok forWrite (Protect m) \<and>
         base \<le> unat addr \<and> unat addr < stop \<and> stop < 2 ^ 32
      then min (unat len) (stop - unat addr) else 0)"
proof -
  let ?fin = "BaseAddress m + RegionSize m"
  have avail: "unat (?fin - addr) = unat (BaseAddress m) + unat (RegionSize m) - unat addr"
    if "addr < ?fin" "unat (BaseAddress m) + unat (RegionSize m) < 4294967296"
    using that by (simp add: unat_sub order_less_imp_le unat_add_fits)
  show ?thesis
    using region_end [of "BaseAddress m" addr "RegionSize m"]
    by (auto simp: MemRegionAccessibleDecision_def Let_def protection_ok_def not_le not_less avail
        word_le_nat_alt [of len] word_less_nat_alt [of _ len] min_def)
qed

end
