(* ===== verification/AuditLog.thy ===== *)
theory AuditLog
  imports StrUtil
begin

text \<open>
  The audit log of memory writes, \<^verbatim>\<open>src/src/audit.c\<close>.  The file services of
  Windows are an argument: functions over a world of any type, each returning the
  world after the call.  A NULL string and an empty one are both the empty list, as
  the code treats them alike.
\<close>

record 'w FileOs =
  GetModuleFileNameA :: "'w \<Rightarrow> string"
  OpenAlways :: "string \<Rightarrow> 'w \<Rightarrow> u32 option \<times> 'w"
  SeekEnd :: "u32 \<Rightarrow> 'w \<Rightarrow> bool \<times> 'w"
  WriteFile :: "u32 \<Rightarrow> string \<Rightarrow> 'w \<Rightarrow> nat option \<times> 'w"
  FlushFileBuffers :: "u32 \<Rightarrow> 'w \<Rightarrow> 'w"
  CloseHandle :: "u32 \<Rightarrow> 'w \<Rightarrow> 'w"
  GetTickCount :: "'w \<Rightarrow> u32 \<times> 'w"

record Audit =
  g_armed :: bool
  g_auditPath :: string

definition AUDIT_DEFAULT_NAME :: string where "AUDIT_DEFAULT_NAME = ''audit-mem.log''"

section \<open>The sink\<close>

text \<open>The directory of the executable, by the scan back to its last separator.\<close>

definition resolve_default_path :: "string \<Rightarrow> string" where
  "resolve_default_path exe =
     rev (dropWhile (\<lambda>c. c \<noteq> bsl \<and> c \<noteq> CHR ''/'') (rev exe)) @ AUDIT_DEFAULT_NAME"

definition open_for_append :: "'w FileOs \<Rightarrow> Audit \<Rightarrow> 'w \<Rightarrow> u32 option \<times> 'w" where
  "open_for_append os a w =
     (if g_auditPath a = [] then (None, w)
      else case OpenAlways os (g_auditPath a) w of
        (None, w1) \<Rightarrow> (None, w1)
      | (Some h, w1) \<Rightarrow>
          (case SeekEnd os h w1 of
             (False, w2) \<Rightarrow> (None, CloseHandle os h w2)
           | (True, w2) \<Rightarrow> (Some h, w2)))"

definition AuditIsWritable :: "'w FileOs \<Rightarrow> Audit \<Rightarrow> 'w \<Rightarrow> bool \<times> 'w" where
  "AuditIsWritable os a w =
     (case open_for_append os a w of
        (None, w1) \<Rightarrow> (False, w1)
      | (Some h, w1) \<Rightarrow> (True, CloseHandle os h w1))"

text \<open>
  \<open>cn\<close> is \<^verbatim>\<open>CharNextA\<close>; the copy of the path into its 260 bytes is the one of
  \<^verbatim>\<open>McpStrCpyN\<close>, \<^const>\<open>None\<close> only where that does not return.
\<close>

definition AuditConfigure ::
    "(string \<Rightarrow> string) \<Rightarrow> 'w FileOs \<Rightarrow> bool \<Rightarrow> string \<Rightarrow> 'w \<Rightarrow> (Audit \<times> 'w) option" where
  "AuditConfigure cn os armRequested path w =
     map_option (\<lambda>p.
       (let a = \<lparr> g_armed = False, g_auditPath = p \<rparr> in
        if armRequested then
          (case AuditIsWritable os a w of (ok, w1) \<Rightarrow> (if ok then a\<lparr>g_armed := True\<rparr> else a, w1))
        else (a, w)))
     (if path \<noteq> [] then McpStrCpyN cn [] path 260
      else Some (resolve_default_path (GetModuleFileNameA os w)))"

definition AuditIsArmed :: "Audit \<Rightarrow> bool" where
  "AuditIsArmed a = g_armed a"

section \<open>The record\<close>

definition hex_digit :: "nat \<Rightarrow> char" where
  "hex_digit d = ''0123456789ABCDEF'' ! d"

text \<open>\<^verbatim>\<open>%08lX\<close> and \<^verbatim>\<open>%d\<close>.\<close>

definition hex8 :: "u32 \<Rightarrow> string" where
  "hex8 v = map (\<lambda>k. hex_digit (unat (drop_bit (4 * k) v AND 0xF))) [7, 6, 5, 4, 3, 2, 1, 0]"

definition dec_signed :: "u32 \<Rightarrow> string" where
  "dec_signed v = (if sint v < 0 then CHR ''-'' # dec (nat (- sint v)) else dec (nat (sint v)))"

text \<open>The text of a record, at most the 1024 characters \<^verbatim>\<open>wsprintfA\<close> produces.\<close>

definition audit_line ::
    "u32 \<Rightarrow> string \<Rightarrow> string \<Rightarrow> u32 \<Rightarrow> string \<Rightarrow> u32 \<Rightarrow> u32 \<Rightarrow> u32 \<Rightarrow> bool \<Rightarrow> string" where
  "audit_line ticks tier token pid command addr len written partial =
     take 1024
       (dec (unat ticks) @ '' POKE tier='' @ tier @ '' token='' @ token @ '' pid='' @ dec_signed pid @
        '' addr=0x'' @ hex8 addr @ '' len='' @ dec (unat len) @ '' written='' @ dec (unat written) @
        '' partial='' @ dec (of_bool partial) @ '' cmd='' @ command @ [CHR 0x0D, CHR 0x0A])"

text \<open>
  It is formatted into a buffer of 640 bytes without a check: so many bytes, the NUL among
  them, are written behind its end.  The length and the text that are given to \<^verbatim>\<open>WriteFile\<close>
  are then read back from there; what else the bytes behind the buffer were is not modelled,
  and a record that overruns is told apart by their number.
\<close>

definition AUDIT_LINE_SIZE :: nat where "AUDIT_LINE_SIZE = 640"

definition line_overrun :: "string \<Rightarrow> nat" where
  "line_overrun line = length line + 1 - AUDIT_LINE_SIZE"

text \<open>The answer, and the bytes the record took behind its buffer.\<close>

definition AuditWritePoke ::
    "'w FileOs \<Rightarrow> Audit \<Rightarrow> string \<Rightarrow> string \<Rightarrow> u32 \<Rightarrow> string \<Rightarrow> u32 \<Rightarrow> u32 \<Rightarrow> u32 \<Rightarrow> bool \<Rightarrow> 'w \<Rightarrow>
     (nat \<times> bool) \<times> 'w" where
  "AuditWritePoke os a tier token pid command addr len written partial w =
     (case GetTickCount os w of
        (ticks, w1) \<Rightarrow>
          (let line = audit_line ticks tier token pid command addr len written partial; over = line_overrun line in
           case open_for_append os a w1 of
             (None, w2) \<Rightarrow> ((over, False), w2)
           | (Some h, w2) \<Rightarrow>
               (case WriteFile os h line w2 of
                  (n, w3) \<Rightarrow>
                    if n \<noteq> Some (length line) then ((over, False), CloseHandle os h w3)
                    else ((over, True), CloseHandle os h (FlushFileBuffers os h w3)))))"

text \<open>
  What a record that was written is: the services it went through, from the world before to
  the world after, and the text that \<^verbatim>\<open>WriteFile\<close> was given at the end of the log and took
  whole.
\<close>

definition recorded :: "'w FileOs \<Rightarrow> Audit \<Rightarrow> (u32 \<Rightarrow> string) \<Rightarrow> 'w \<Rightarrow> 'w \<Rightarrow> nat \<Rightarrow> bool" where
  "recorded os a line_at w w' over \<longleftrightarrow>
     (\<exists>ticks w1 h w2 w3 w4. GetTickCount os w = (ticks, w1) \<and>
        g_auditPath a \<noteq> [] \<and> OpenAlways os (g_auditPath a) w1 = (Some h, w2) \<and> SeekEnd os h w2 = (True, w3) \<and>
        WriteFile os h (line_at ticks) w3 = (Some (length (line_at ticks)), w4) \<and>
        w' = CloseHandle os h (FlushFileBuffers os h w4) \<and> over = length (line_at ticks) + 1 - 640)"

lemma AuditWritePoke_recorded:
  "AuditWritePoke os a tier token pid command addr len written partial w = ((over, True), w') \<longleftrightarrow>
     recorded os a (\<lambda>ticks. audit_line ticks tier token pid command addr len written partial) w w' over"
proof -
  have opens: "open_for_append os a w1 = (Some h, w3) \<longleftrightarrow>
      (\<exists>w2. g_auditPath a \<noteq> [] \<and> OpenAlways os (g_auditPath a) w1 = (Some h, w2) \<and> SeekEnd os h w2 = (True, w3))" for w1 h w3
    by (auto simp: open_for_append_def split: prod.splits option.splits bool.splits if_splits)
  have "recorded os a line w w' over \<longleftrightarrow>
      (\<exists>ticks w1 h w3 w4. GetTickCount os w = (ticks, w1) \<and> open_for_append os a w1 = (Some h, w3) \<and>
         WriteFile os h (line ticks) w3 = (Some (length (line ticks)), w4) \<and>
         w' = CloseHandle os h (FlushFileBuffers os h w4) \<and> over = length (line ticks) + 1 - 640)" for line
    unfolding recorded_def opens by blast
  then show ?thesis
    by (auto simp: AuditWritePoke_def line_overrun_def AUDIT_LINE_SIZE_def Let_def
        split: prod.splits option.splits if_splits)
qed

section \<open>The arm\<close>

lemma copy_path:
  assumes "char_stepper cn"
  obtains p where "McpStrCpyN cn dst path 260 = Some p" "length p < 260" "length path < 260 \<Longrightarrow> p = path"
proof -
  obtain p where p: "McpStrCpyN cn dst path 260 = Some p" "int (length p) < 260"
    using char_stepper.copy_spec [OF assms, of 260 dst path] by auto
  moreover have "p = path" if "length path < 260"
    using char_stepper.copy_fits [OF assms, of path 260 dst] p(1) that by simp
  ultimately show ?thesis using that by simp
qed

text \<open>
  The write arm is up only when it was asked for and the sink that will hold the
  records was opened for appending at that moment; with a path on the command line the
  sink is that path, whole when it fits its 260 bytes, and otherwise the default beside
  the executable.
\<close>

theorem AuditConfigure_fail_closed:
  assumes "char_stepper cn"
  shows "\<exists>a w'. AuditConfigure cn os armRequested path w = Some (a, w') \<and>
    (AuditIsArmed a \<longleftrightarrow> armRequested \<and>
       fst (AuditIsWritable os \<lparr> g_armed = False, g_auditPath = g_auditPath a \<rparr> w)) \<and>
    (if path = [] then g_auditPath a = resolve_default_path (GetModuleFileNameA os w)
     else length (g_auditPath a) < 260 \<and> (length path < 260 \<longrightarrow> g_auditPath a = path))"
proof -
  obtain p where p: "McpStrCpyN cn [] path 260 = Some p" "length p < 260" "length path < 260 \<Longrightarrow> p = path"
    using copy_path [OF assms] by blast
  define q where "q = (if path = [] then resolve_default_path (GetModuleFileNameA os w) else p)"
  obtain ok w1 where ok: "AuditIsWritable os \<lparr> g_armed = False, g_auditPath = q \<rparr> w = (ok, w1)" by fastforce
  have "AuditConfigure cn os armRequested path w =
      Some (if armRequested then (\<lparr> g_armed = ok, g_auditPath = q \<rparr>, w1) else (\<lparr> g_armed = False, g_auditPath = q \<rparr>, w))"
    using ok p(1) by (auto simp: AuditConfigure_def q_def Let_def)
  then show ?thesis using ok p by (auto simp: AuditIsArmed_def q_def)
qed

text \<open>A file system of one file that takes every append: its world is the text of the file.\<close>

definition log_os :: "string FileOs" where
  "log_os = \<lparr> GetModuleFileNameA = (\<lambda>_. ''C:/mcp-w32s.exe''), OpenAlways = (\<lambda>_ w. (Some 4, w)),
     SeekEnd = (\<lambda>_ w. (True, w)), WriteFile = (\<lambda>_ s w. (Some (length s), w @ s)),
     FlushFileBuffers = (\<lambda>_ w. w), CloseHandle = (\<lambda>_ w. w), GetTickCount = (\<lambda>w. (1000, w)) \<rparr>"

lemma AuditConfigure_fail_closed_witness:
  "\<exists>a w'. AuditConfigure shim_CharNextA log_os True ''a.log'' [] = Some (a, w') \<and> g_auditPath a = ''a.log'' \<and> g_armed a"
  using AuditConfigure_fail_closed [OF shim.char_stepper_axioms, of log_os True "''a.log''" "[]"]
  by (auto simp: AuditIsArmed_def AuditIsWritable_def open_for_append_def log_os_def)

text \<open>
  A record of a long command line does not fit the 640 bytes of its buffer: the command of a
  retained child is at most 32765 characters.
\<close>

lemma audit_line_overruns:
  assumes "640 \<le> length command"
  shows "0 < line_overrun (audit_line ticks tier token pid command addr len written partial)"
  using assms by (simp add: audit_line_def line_overrun_def AUDIT_LINE_SIZE_def)

end
