(* ===== verification/Mem.thy ===== *)
theory Mem
  imports MemGuard AuditLog Feat Catalog Argv
begin

text \<open>
  The memory operations of \<^verbatim>\<open>src/src/mem_ops.c\<close>: the table of retained processes,
  whose tokens are the only way to a target on NT, and the guarded reads and writes.

  The services of Windows are an argument, functions over a world of any type.  The
  record \<open>calls\<close> keeps the calls that matter for safety in the order they are
  made; the code has no such list, and no operation reads it.
\<close>

section \<open>State\<close>

definition MEM_PROC_SLOTS :: nat where "MEM_PROC_SLOTS = 8"
definition MEM_MAX_ACCESS :: u32 where "MEM_MAX_ACCESS = 65536"
definition MEM_MAX_CMDLINE :: int where "MEM_MAX_CMDLINE = 32766"

datatype MemTier = MEM_TIER_NONE | MEM_TIER_PROCESS | MEM_TIER_ARENA | MEM_TIER_SHARED_VM

text \<open>The answer of a cross-process transfer: done, a prefix with \<^verbatim>\<open>ERROR_PARTIAL_COPY\<close>, or failed.\<close>

datatype 'a MemIo = IoDone 'a | IoPartial 'a | IoFailed

record 'w MemOs = "'w FileOs" +
  CreateProcessA :: "string \<Rightarrow> 'w \<Rightarrow> (u32 + u32 \<times> u32 \<times> u32) \<times> 'w"
  TerminateProcess :: "u32 \<Rightarrow> 'w \<Rightarrow> 'w"
  has_ReadProcessMemory :: bool
  has_WriteProcessMemory :: bool
  ReadProcessMemory :: "u32 \<Rightarrow> u32 \<Rightarrow> u32 \<Rightarrow> 'w \<Rightarrow> u8 list MemIo \<times> 'w"
  WriteProcessMemory :: "u32 \<Rightarrow> u32 \<Rightarrow> u8 list \<Rightarrow> 'w \<Rightarrow> u32 MemIo \<times> 'w"
  VirtualQuery :: "u32 \<Rightarrow> 'w \<Rightarrow> MBI option"
  LoadLocal :: "u32 \<Rightarrow> nat \<Rightarrow> 'w \<Rightarrow> u8 list"
  StoreLocal :: "u32 \<Rightarrow> u8 list \<Rightarrow> 'w \<Rightarrow> 'w"

text \<open>
  What was started, with the process and thread handles that came back; and of a record the
  bytes it took behind its buffer, and whether it was written.
\<close>

datatype MemCall =
    CallSpawn string "(u32 \<times> u32) option"
  | CallClose u32
  | CallTerminate u32
  | CallRead u32 u32 u32
  | CallWrite u32 u32 "u8 list"
  | CallLoad u32 nat
  | CallStore u32 "u8 list"
  | CallAudit nat bool

record MemSlot =
  in_use :: bool
  slot_token :: string
  handle :: u32
  slot_pid :: u32
  slot_command :: string

text \<open>
  The globals of the module, the audit state, the features, the world and the calls.
  The pointers \<^verbatim>\<open>MemResolveNt\<close> keeps hold after the first use what the two
  \<open>has_\<close> fields say, since every operation that reads them resolves them first.
\<close>

record 'w MemState =
  g_slots :: "MemSlot list"
  g_seq :: u32
  audit :: Audit
  feat :: Features
  world :: 'w
  calls :: "MemCall list"

definition empty_slot :: MemSlot where
  "empty_slot = \<lparr> in_use = False, slot_token = [], handle = 0, slot_pid = 0, slot_command = [] \<rparr>"

text \<open>The state at the start of the program, over its world, audit state and features.\<close>

definition mem_start :: "Audit \<Rightarrow> Features \<Rightarrow> 'w \<Rightarrow> 'w MemState" where
  "mem_start a f w = \<lparr> g_slots = replicate MEM_PROC_SLOTS empty_slot, g_seq = 0, audit = a, feat = f,
     world = w, calls = [] \<rparr>"

section \<open>Tiers and tokens\<close>

definition MemTierCurrent :: "Features \<Rightarrow> MemTier" where
  "MemTierCurrent f =
     (if is_nt f then MEM_TIER_PROCESS else if is_win9x f then MEM_TIER_ARENA
      else if is_win32s f then MEM_TIER_SHARED_VM else MEM_TIER_NONE)"

fun MemTierName :: "MemTier \<Rightarrow> string" where
  "MemTierName MEM_TIER_PROCESS = ''process''"
| "MemTierName MEM_TIER_ARENA = ''arena''"
| "MemTierName MEM_TIER_SHARED_VM = ''shared_vm''"
| "MemTierName MEM_TIER_NONE = ''none''"

definition MemMakeToken :: "u32 \<Rightarrow> u32 \<Rightarrow> u32 \<Rightarrow> string" where
  "MemMakeToken seq pid ticks =
     (let lcg = ticks + seq + pid; lcg1 = lcg * 1103515245 + 12345; lcg2 = lcg1 mod 100000
      in ''m'' @ dec (unat seq) @ ''-'' @ dec (unat lcg2))"

text \<open>The index of the first live slot with the token.\<close>

definition MemFindSlot :: "StrApi \<Rightarrow> 'w MemState \<Rightarrow> string \<Rightarrow> nat option" where
  "MemFindSlot api st token =
     (if token = [] then None
      else find (\<lambda>i. in_use (g_slots st ! i) \<and> lstrcmpA api (slot_token (g_slots st ! i)) token = 0)
             [0..<MEM_PROC_SLOTS])"

definition slot_of :: "StrApi \<Rightarrow> 'w MemState \<Rightarrow> string \<Rightarrow> MemSlot option" where
  "slot_of api st token = map_option (\<lambda>i. g_slots st ! i) (MemFindSlot api st token)"

definition MemTokenHandle :: "StrApi \<Rightarrow> 'w MemState \<Rightarrow> string \<Rightarrow> u32" where
  "MemTokenHandle api st token = (case slot_of api st token of None \<Rightarrow> 0 | Some s \<Rightarrow> handle s)"

definition MemTokenPid :: "StrApi \<Rightarrow> 'w MemState \<Rightarrow> string \<Rightarrow> u32" where
  "MemTokenPid api st token = (case slot_of api st token of None \<Rightarrow> 0 | Some s \<Rightarrow> slot_pid s)"

definition MemTokenCommand :: "StrApi \<Rightarrow> 'w MemState \<Rightarrow> string \<Rightarrow> string" where
  "MemTokenCommand api st token = (case slot_of api st token of None \<Rightarrow> [] | Some s \<Rightarrow> slot_command s)"

section \<open>The process table\<close>

record MemSpawnResult =
  spawn_ok :: bool
  spawn_token :: string
  spawn_pid :: u32
  spawn_reason :: string

definition spawn_refused :: "string \<Rightarrow> MemSpawnResult" where
  "spawn_refused why = \<lparr> spawn_ok = False, spawn_token = [], spawn_pid = 0, spawn_reason = why \<rparr>"

text \<open>The catalog gate: \<^const>\<open>None\<close> lets the command through.\<close>

definition spawn_gate :: "StrApi \<Rightarrow> Catalog option \<Rightarrow> bool \<Rightarrow> string \<Rightarrow> string option" where
  "spawn_gate api cat unsafeMode name =
     (if \<not> unsafeMode then
        (case cat of
           None \<Rightarrow> None
         | Some c \<Rightarrow>
             (case CatalogLookup api c name of
                None \<Rightarrow> Some ''command not in catalog''
              | Some e \<Rightarrow> if is_builtin e then Some ''shell builtin is not a spawn-retain target'' else None))
      else None)"

definition free_slot :: "'w MemState \<Rightarrow> nat option" where
  "free_slot st = find (\<lambda>i. \<not> in_use (g_slots st ! i)) [0..<MEM_PROC_SLOTS]"

text \<open>The entry of a child into the table, under the next token.\<close>

definition mem_retain :: "nat \<Rightarrow> u32 \<Rightarrow> u32 \<Rightarrow> string \<Rightarrow> u32 \<Rightarrow> 'w MemState \<Rightarrow> 'w MemState" where
  "mem_retain i hProcess pid cmdLine ticks st =
     (let seq = g_seq st + 1 in
      st\<lparr>g_seq := seq,
         g_slots := (g_slots st)[i := \<lparr> in_use = True, slot_token = MemMakeToken seq pid ticks,
           handle = hProcess, slot_pid = pid, slot_command = cmdLine \<rparr>]\<rparr>)"

definition note_call :: "MemCall \<Rightarrow> 'w MemState \<Rightarrow> 'w MemState" where
  "note_call c st = st\<lparr>calls := calls st @ [c]\<rparr>"

definition mem_close :: "('w, 'm) MemOs_scheme \<Rightarrow> u32 \<Rightarrow> 'w MemState \<Rightarrow> 'w MemState" where
  "mem_close os h st = note_call (CallClose h) (st\<lparr>world := CloseHandle os h (world st)\<rparr>)"

definition MemSpawnRetain ::
    "StrApi \<Rightarrow> ('w, 'm) MemOs_scheme \<Rightarrow> Catalog option \<Rightarrow> bool \<Rightarrow> string list \<Rightarrow> 'w MemState \<Rightarrow>
     MemSpawnResult \<times> 'w MemState" where
  "MemSpawnRetain api os cat unsafeMode args st =
     (if args = [] \<or> hd args = [] then (spawn_refused ''empty command'', st)
      else case spawn_gate api cat unsafeMode (hd args) of
        Some why \<Rightarrow> (spawn_refused why, st)
      | None \<Rightarrow>
          (case free_slot st of
             None \<Rightarrow> (spawn_refused ''process table full'', st)
           | Some i \<Rightarrow>
               (case ArgvJoin args MEM_MAX_CMDLINE of
                  None \<Rightarrow> (spawn_refused ''command line too long'', st)
                | Some cmdLine \<Rightarrow>
                    (case CreateProcessA os cmdLine (world st) of
                       (Inl err, w1) \<Rightarrow>
                         (spawn_refused (''spawn failed: '' @ dec (unat err)),
                          note_call (CallSpawn cmdLine None) (st\<lparr>world := w1\<rparr>))
                     | (Inr (hProcess, hThread, pid), w1) \<Rightarrow>
                         (let st1 = mem_close os hThread (note_call (CallSpawn cmdLine (Some (hProcess, hThread))) (st\<lparr>world := w1\<rparr>)) in
                          case GetTickCount os (world st1) of
                            (ticks, w2) \<Rightarrow>
                              (let st2 = mem_retain i hProcess pid cmdLine ticks (st1\<lparr>world := w2\<rparr>);
                                   s = g_slots st2 ! i
                               in (\<lparr> spawn_ok = True, spawn_token = slot_token s, spawn_pid = slot_pid s,
                                     spawn_reason = [] \<rparr>, st2)))))))"

definition free_the_slot :: "nat \<Rightarrow> 'w MemState \<Rightarrow> 'w MemState" where
  "free_the_slot i st = st\<lparr>g_slots := (g_slots st)[i := (g_slots st ! i)\<lparr>in_use := False, handle := 0\<rparr>]\<rparr>"

definition MemRelease :: "StrApi \<Rightarrow> ('w, 'm) MemOs_scheme \<Rightarrow> string \<Rightarrow> 'w MemState \<Rightarrow> bool \<times> 'w MemState" where
  "MemRelease api os token st =
     (case MemFindSlot api st token of
        None \<Rightarrow> (False, st)
      | Some i \<Rightarrow> (True, free_the_slot i (mem_close os (handle (g_slots st ! i)) st)))"

definition MemTerminate :: "StrApi \<Rightarrow> ('w, 'm) MemOs_scheme \<Rightarrow> string \<Rightarrow> 'w MemState \<Rightarrow> bool \<times> 'w MemState" where
  "MemTerminate api os token st =
     (case MemFindSlot api st token of
        None \<Rightarrow> (False, st)
      | Some i \<Rightarrow>
          (let h = handle (g_slots st ! i);
               st1 = note_call (CallTerminate h) (st\<lparr>world := TerminateProcess os h (world st)\<rparr>)
           in (True, free_the_slot i (mem_close os h st1))))"

definition MemReleaseAll :: "('w, 'm) MemOs_scheme \<Rightarrow> 'w MemState \<Rightarrow> 'w MemState" where
  "MemReleaseAll os st =
     fold (\<lambda>i st. if in_use (g_slots st ! i) then free_the_slot i (mem_close os (handle (g_slots st ! i)) st) else st)
       [0..<MEM_PROC_SLOTS] st"

text \<open>The reset between two tests.\<close>

definition MemResetForTest :: "'w MemState \<Rightarrow> 'w MemState" where
  "MemResetForTest st = st\<lparr>g_slots := replicate MEM_PROC_SLOTS empty_slot, g_seq := 0\<rparr>"

section \<open>Peek\<close>

record MemPeekResult =
  peek_ok :: bool
  peek_has_process :: bool
  bytes_read :: nat
  truncated :: bool
  peek_reason :: string

definition peek_refused :: "bool \<Rightarrow> string \<Rightarrow> MemPeekResult" where
  "peek_refused proc why = \<lparr> peek_ok = False, peek_has_process = proc, bytes_read = 0, truncated = False,
     peek_reason = why \<rparr>"

text \<open>
  The result, the bytes stored in \<^verbatim>\<open>out\<close>, and the state.  The bytes of a failed
  transfer are whatever the service left there; the caller does not look at them.
\<close>

definition MemPeek ::
    "StrApi \<Rightarrow> ('w, 'm) MemOs_scheme \<Rightarrow> string \<Rightarrow> u32 \<Rightarrow> u32 \<Rightarrow> 'w MemState \<Rightarrow>
     (MemPeekResult \<times> u8 list) \<times> 'w MemState" where
  "MemPeek api os token addr len st =
     (if \<not> MemRangeInBounds addr len MEM_MAX_ACCESS then ((peek_refused False ''range out of bounds'', []), st)
      else let tier = MemTierCurrent (feat st) in
        if tier = MEM_TIER_NONE then ((peek_refused False ''no memory capability'', []), st)
        else if tier = MEM_TIER_PROCESS then
          (if token = [] then ((peek_refused False ''token required on the process tier'', []), st)
           else let h = MemTokenHandle api st token in
             if h = 0 then ((peek_refused False ''invalid token'', []), st)
             else if \<not> has_ReadProcessMemory os then
               ((peek_refused False ''ReadProcessMemory unavailable'', []), st)
             else (case ReadProcessMemory os h addr len (world st) of
                 (io, w) \<Rightarrow>
                   (let st' = note_call (CallRead h addr len) (st\<lparr>world := w\<rparr>) in
                    case io of
                      IoDone bs \<Rightarrow> ((\<lparr> peek_ok = True, peek_has_process = True, bytes_read = length bs,
                        truncated = False, peek_reason = [] \<rparr>, bs), st')
                    | IoPartial bs \<Rightarrow> ((\<lparr> peek_ok = True, peek_has_process = True, bytes_read = length bs,
                        truncated = True, peek_reason = [] \<rparr>, bs), st')
                    | IoFailed \<Rightarrow> ((peek_refused True ''read failed'', []), st'))))
        else (case VirtualQuery os addr (world st) of
            None \<Rightarrow> ((peek_refused False ''address not accessible'', []), st)
          | Some mbi \<Rightarrow>
              (let n = MemRegionAccessibleDecision (Some mbi) addr len False in
               if n = 0 then ((peek_refused False ''address not accessible'', []), st)
               else ((\<lparr> peek_ok = True, peek_has_process = False, bytes_read = unat n, truncated = (n < len),
                       peek_reason = [] \<rparr>, LoadLocal os addr (unat n) (world st)),
                     note_call (CallLoad addr (unat n)) st))))"

section \<open>Poke\<close>

record MemPokeResult =
  poke_ok :: bool
  poke_has_process :: bool
  bytes_written :: u32
  partial :: bool
  poke_reason :: string

definition poke_refused :: "bool \<Rightarrow> string \<Rightarrow> MemPokeResult" where
  "poke_refused proc why = \<lparr> poke_ok = False, poke_has_process = proc, bytes_written = 0, partial = False,
     poke_reason = why \<rparr>"

text \<open>
  The target floor: the reason of the refusal, or the handle to write through,
  \<^const>\<open>None\<close> for the local store of the tiers without processes.
\<close>

definition poke_target ::
    "StrApi \<Rightarrow> ('w, 'm) MemOs_scheme \<Rightarrow> string \<Rightarrow> u32 \<Rightarrow> u32 \<Rightarrow> 'w MemState \<Rightarrow> string + u32 option" where
  "poke_target api os token addr len st =
     (let tier = MemTierCurrent (feat st) in
      if tier = MEM_TIER_NONE then Inl ''no memory capability''
      else if tier = MEM_TIER_PROCESS then
        (if token = [] then Inl ''token required on the process tier''
         else let h = MemTokenHandle api st token in
           if h = 0 then Inl ''invalid token''
           else if \<not> has_WriteProcessMemory os then Inl ''WriteProcessMemory unavailable''
           else Inr (Some h))
      else (case VirtualQuery os addr (world st) of
          None \<Rightarrow> Inl ''address not writable''
        | Some mbi \<Rightarrow>
            if MemRegionAccessibleDecision (Some mbi) addr len True < len then Inl ''address not writable''
            else Inr None))"

text \<open>The write: the bytes written and whether only a prefix was, or a failure.\<close>

definition poke_write ::
    "('w, 'm) MemOs_scheme \<Rightarrow> u32 option \<Rightarrow> u32 \<Rightarrow> u8 list \<Rightarrow> u32 \<Rightarrow> 'w MemState \<Rightarrow>
     (u32 \<times> bool) option \<times> 'w MemState" where
  "poke_write os target addr src len st =
     (case target of
        Some h \<Rightarrow>
          (case WriteProcessMemory os h addr src (world st) of
             (io, w) \<Rightarrow>
               (case io of IoDone n \<Rightarrow> Some (n, False) | IoPartial n \<Rightarrow> Some (n, True) | IoFailed \<Rightarrow> None,
                note_call (CallWrite h addr src) (st\<lparr>world := w\<rparr>)))
      | None \<Rightarrow>
          (Some (len, False), note_call (CallStore addr src) (st\<lparr>world := StoreLocal os addr src (world st)\<rparr>)))"

text \<open>The record of the write, attributed to the child, or to the tier where there is none.\<close>

definition poke_audit ::
    "StrApi \<Rightarrow> ('w, 'm) MemOs_scheme \<Rightarrow> bool \<Rightarrow> string \<Rightarrow> u32 \<Rightarrow> u32 \<Rightarrow> u32 \<Rightarrow> bool \<Rightarrow> 'w MemState \<Rightarrow>
     bool \<times> 'w MemState" where
  "poke_audit api os proc token addr len written part st =
     (let tier = MemTierName (MemTierCurrent (feat st));
          cmd0 = (if proc then MemTokenCommand api st token else tier);
          cmd = (if cmd0 = [] then tier else cmd0)
      in case AuditWritePoke (FileOs.truncate os) (audit st) tier token (MemTokenPid api st token) cmd addr len written part
             (world st) of
           ((over, ok), w) \<Rightarrow> (ok, note_call (CallAudit over ok) (st\<lparr>world := w\<rparr>)))"

definition MemPoke ::
    "StrApi \<Rightarrow> ('w, 'm) MemOs_scheme \<Rightarrow> string \<Rightarrow> u32 \<Rightarrow> u8 list \<Rightarrow> u32 \<Rightarrow> 'w MemState \<Rightarrow>
     MemPokeResult \<times> 'w MemState" where
  "MemPoke api os token addr src len st =
     (if \<not> AuditIsArmed (audit st) then (poke_refused False ''memory writes not armed (/ALLOWMEMWRITE)'', st)
      else if \<not> MemRangeInBounds addr len MEM_MAX_ACCESS then (poke_refused False ''range out of bounds'', st)
      else case poke_target api os token addr len st of
        Inl why \<Rightarrow> (poke_refused False why, st)
      | Inr target \<Rightarrow>
          (let proc = (target \<noteq> None) in
           case AuditIsWritable (FileOs.truncate os) (audit st) (world st) of
             (False, w) \<Rightarrow> (poke_refused proc ''audit sink not writable'', st\<lparr>world := w\<rparr>)
           | (True, w) \<Rightarrow>
               (case poke_write os target addr (take (unat len) src) len (st\<lparr>world := w\<rparr>) of
                  (None, st1) \<Rightarrow> (poke_refused proc ''write failed'', st1)
                | (Some (n, part), st1) \<Rightarrow>
                    (let r = \<lparr> poke_ok = False, poke_has_process = proc, bytes_written = n, partial = part,
                               poke_reason = [] \<rparr> in
                     case poke_audit api os proc token addr len n part st1 of
                       (False, st2) \<Rightarrow> (r\<lparr>poke_reason :=
                         ''audit write failed after the memory was modified - investigate the audit log''\<rparr>, st2)
                     | (True, st2) \<Rightarrow> (r\<lparr>poke_ok := True\<rparr>, st2)))))"

section \<open>The floor under a write\<close>

fun changes_memory :: "MemCall \<Rightarrow> bool" where
  "changes_memory (CallWrite h a bs) = True"
| "changes_memory (CallStore a bs) = True"
| "changes_memory c = False"

text \<open>The target a write may have: a live token's handle on NT, a wholly writable region before it.\<close>

definition target_floor ::
    "StrApi \<Rightarrow> ('w, 'm) MemOs_scheme \<Rightarrow> string \<Rightarrow> u32 \<Rightarrow> u8 list \<Rightarrow> u32 \<Rightarrow> 'w MemState \<Rightarrow> MemCall \<Rightarrow> bool" where
  "target_floor api os token addr src len st c \<longleftrightarrow>
     (if is_nt (feat st)
      then \<exists>s. slot_of api st token = Some s \<and> handle s \<noteq> 0 \<and> c = CallWrite (handle s) addr (take (unat len) src)
      else (is_win9x (feat st) \<or> is_win32s (feat st)) \<and> c = CallStore addr (take (unat len) src) \<and>
        (\<exists>mbi. VirtualQuery os addr (world st) = Some mbi \<and> len \<le> MemRegionAccessibleDecision (Some mbi) addr len True))"

lemma poke_target_Inr:
  assumes "poke_target api os token addr len st = Inr target"
  shows "case target of
     Some h \<Rightarrow> target_floor api os token addr src len st (CallWrite h addr (take (unat len) src))
   | None \<Rightarrow> target_floor api os token addr src len st (CallStore addr (take (unat len) src))"
  using assms
  by (auto simp: poke_target_def target_floor_def MemTierCurrent_def MemTokenHandle_def Let_def
      split: if_splits option.splits)

definition write_call :: "u32 option \<Rightarrow> u32 \<Rightarrow> u8 list \<Rightarrow> MemCall" where
  "write_call target addr bs = (case target of Some h \<Rightarrow> CallWrite h addr bs | None \<Rightarrow> CallStore addr bs)"

lemma poke_write_calls:
  "calls (snd (poke_write os target addr src len st)) = calls st @ [write_call target addr src]"
  "g_slots (snd (poke_write os target addr src len st)) = g_slots st"
  "feat (snd (poke_write os target addr src len st)) = feat st"
  by (auto simp: poke_write_def write_call_def note_call_def split: option.splits prod.splits)

text \<open>The line of a record: whom it names, and what it says was written.\<close>

definition attribution :: "StrApi \<Rightarrow> 'w MemState \<Rightarrow> bool \<Rightarrow> string \<Rightarrow> string" where
  "attribution api st proc token =
     (if proc \<and> MemTokenCommand api st token \<noteq> [] then MemTokenCommand api st token
      else MemTierName (MemTierCurrent (feat st)))"

definition poke_line :: "StrApi \<Rightarrow> 'w MemState \<Rightarrow> string \<Rightarrow> u32 \<Rightarrow> u32 \<Rightarrow> MemPokeResult \<Rightarrow> u32 \<Rightarrow> string" where
  "poke_line api st token addr len res ticks =
     take 1024
       (dec (unat ticks) @ '' POKE tier='' @ MemTierName (MemTierCurrent (feat st)) @ '' token='' @ token @
        '' pid='' @ dec_signed (MemTokenPid api st token) @ '' addr=0x'' @ hex8 addr @ '' len='' @ dec (unat len) @
        '' written='' @ dec (unat (bytes_written res)) @ '' partial='' @ (if partial res then ''1'' else ''0'') @
        '' cmd='' @ attribution api st (poke_has_process res) token @ [CHR 0x0D, CHR 0x0A])"

lemma poke_line_audit:
  "poke_line api st token addr len res ticks =
     audit_line ticks (MemTierName (MemTierCurrent (feat st))) token (MemTokenPid api st token)
       (attribution api st (poke_has_process res) token) addr len (bytes_written res) (partial res)"
proof -
  have "dec 0 = ''0''" "dec 1 = ''1''" by code_simp+
  then show ?thesis by (simp add: poke_line_def audit_line_def)
qed

lemma tier_name_not_Nil [simp]: "MemTierName t \<noteq> []"
  by (cases t) simp_all

lemma poke_audit_calls:
  "\<exists>over. calls (snd (poke_audit api os proc token addr len n part st)) =
     calls st @ [CallAudit over (fst (poke_audit api os proc token addr len n part st))]"
  by (auto simp: poke_audit_def Let_def note_call_def split: prod.splits)

lemma poke_audit_recorded:
  assumes "poke_audit api os proc token addr len n part st = (True, st')"
  obtains over where "calls st' = calls st @ [CallAudit over True]"
    "recorded (FileOs.truncate os) (audit st) (\<lambda>ticks. audit_line ticks (MemTierName (MemTierCurrent (feat st))) token
       (MemTokenPid api st token) (attribution api st proc token) addr len n part) (world st) (world st') over"
  using assms AuditWritePoke_recorded
  by (fastforce simp: poke_audit_def Let_def note_call_def attribution_def split: prod.splits if_splits)

lemma slot_of_cong: "g_slots st1 = g_slots st \<Longrightarrow> slot_of api st1 = slot_of api st"
  by (simp add: slot_of_def MemFindSlot_def fun_eq_iff)

lemma poke_line_cong:
  assumes "g_slots st1 = g_slots st" "feat st1 = feat st"
  shows "MemTokenPid api st1 = MemTokenPid api st" "attribution api st1 = attribution api st"
  using slot_of_cong [OF assms(1)] assms(2)
  by (simp_all add: MemTokenPid_def attribution_def MemTokenCommand_def fun_eq_iff)

lemma changes_write_call [simp]: "changes_memory (write_call target addr bs)"
  by (simp add: write_call_def split: option.splits)

lemma audit_not_write [simp]: "CallAudit line ok \<noteq> write_call target addr bs"
  by (simp add: write_call_def split: option.splits)

text \<open>The three outcomes of a poke: refused with nothing done, failed, or written and put to the log.\<close>

lemma poke_cases:
  obtains (refused) "calls (snd (MemPoke api os token addr src len st)) = calls st"
      "\<not> poke_ok (fst (MemPoke api os token addr src len st))"
    | (tried) target new where
      "AuditIsArmed (audit st)" "MemRangeInBounds addr len MEM_MAX_ACCESS"
      "poke_target api os token addr len st = Inr target"
      "fst (AuditIsWritable (FileOs.truncate os) (audit st) (world st))"
      "calls (snd (MemPoke api os token addr src len st)) =
         calls st @ write_call target addr (take (unat len) src) # new"
      "new = [] \<and> \<not> poke_ok (fst (MemPoke api os token addr src len st)) \<and>
         poke_reason (fst (MemPoke api os token addr src len st)) = ''write failed'' \<or>
       (\<exists>over. new = [CallAudit over (poke_ok (fst (MemPoke api os token addr src len st)))] \<and>
          (\<not> poke_ok (fst (MemPoke api os token addr src len st)) \<longrightarrow>
           poke_reason (fst (MemPoke api os token addr src len st)) \<noteq> []))"
proof -
  let ?r = "MemPoke api os token addr src len st"
  have *: "calls (snd ?r) = calls st \<and> \<not> poke_ok (fst ?r) \<Longrightarrow> thesis" using refused by blast
  show thesis
  proof (cases "AuditIsArmed (audit st) \<and> MemRangeInBounds addr len MEM_MAX_ACCESS")
    case False
    then show ?thesis by (intro *) (auto simp: MemPoke_def poke_refused_def)
  next
    case floor: True
    show ?thesis
    proof (cases "poke_target api os token addr len st")
      case (Inl why)
      then show ?thesis using floor by (intro *) (simp add: MemPoke_def poke_refused_def)
    next
      case (Inr target)
      obtain b w where w: "AuditIsWritable (FileOs.truncate os) (audit st) (world st) = (b, w)" by fastforce
      show ?thesis
      proof (cases b)
        case False
        then show ?thesis using floor Inr w by (intro *) (simp add: MemPoke_def poke_refused_def Let_def)
      next
        case True
        obtain r st1 where r: "poke_write os target addr (take (unat len) src) len (st\<lparr>world := w\<rparr>) = (r, st1)" by fastforce
        have c1: "calls st1 = calls st @ [write_call target addr (take (unat len) src)]"
          using poke_write_calls(1) [of os target addr "take (unat len) src" len "st\<lparr>world := w\<rparr>"] r by simp
        show ?thesis
        proof (cases r)
          case None
          then show ?thesis using floor Inr w r True c1
            by (intro tried [of target "[]"]) (simp_all add: MemPoke_def poke_refused_def Let_def)
        next
          case (Some np)
          obtain n part where np: "np = (n, part)" by fastforce
          obtain ok st2 where ok: "poke_audit api os (target \<noteq> None) token addr len n part st1 = (ok, st2)" by fastforce
          obtain over where c2: "calls st2 = calls st1 @ [CallAudit over ok]"
            using poke_audit_calls [of api os "target \<noteq> None" token addr len n part st1] ok by auto
          have "?r = (\<lparr> poke_ok = ok, poke_has_process = (target \<noteq> None), bytes_written = n, partial = part,
              poke_reason = (if ok then [] else
                ''audit write failed after the memory was modified - investigate the audit log'') \<rparr>, st2)"
            using floor Inr w r True Some np ok by (cases ok) (simp_all add: MemPoke_def Let_def)
          then show ?thesis using floor Inr w True c1 c2
            by (intro tried [of target "[CallAudit over ok]"]) auto
        qed
      qed
    qed
  qed
qed

text \<open>What the write of a poke is, by the services it uses: the world after it and what it reports.\<close>

definition written ::
    "('w, 'm) MemOs_scheme \<Rightarrow> u32 option \<Rightarrow> u32 \<Rightarrow> u8 list \<Rightarrow> u32 \<Rightarrow> 'w \<Rightarrow> 'w \<Rightarrow> u32 \<Rightarrow> bool \<Rightarrow> bool" where
  "written os target addr bytes len w w' n part \<longleftrightarrow>
     (case target of
        Some h \<Rightarrow> WriteProcessMemory os h addr bytes w = ((if part then IoPartial n else IoDone n), w')
      | None \<Rightarrow> w' = StoreLocal os addr bytes w \<and> n = len \<and> \<not> part)"

lemma poke_write_done:
  assumes "poke_write os target addr bytes len st = (Some (n, part), st')"
  shows "written os target addr bytes len (world st) (world st') n part" "audit st' = audit st"
  using assms by (auto simp: poke_write_def written_def note_call_def split: option.splits prod.splits MemIo.splits)

lemma poke_done:
  assumes "MemPoke api os token addr src len st = (res, st')" "poke_ok res"
  obtains target w0 w1 over where
    "AuditIsWritable (FileOs.truncate os) (audit st) (world st) = (True, w0)"
    "poke_target api os token addr len st = Inr target"
    "written os target addr (take (unat len) src) len w0 w1 (bytes_written res) (partial res)"
    "recorded (FileOs.truncate os) (audit st) (poke_line api st token addr len res) w1 (world st') over"
    "calls st' = calls st @ [write_call target addr (take (unat len) src), CallAudit over True]"
proof -
  have a: "AuditIsArmed (audit st)" "MemRangeInBounds addr len MEM_MAX_ACCESS"
    using assms by (auto simp: MemPoke_def poke_refused_def split: if_splits)
  obtain target where t: "poke_target api os token addr len st = Inr target"
    using assms a by (auto simp: MemPoke_def poke_refused_def split: sum.splits)
  obtain w0 where w0: "AuditIsWritable (FileOs.truncate os) (audit st) (world st) = (True, w0)"
    using assms a t by (auto simp: MemPoke_def poke_refused_def Let_def split: prod.splits bool.splits)
  obtain n part st1 where p: "poke_write os target addr (take (unat len) src) len (st\<lparr>world := w0\<rparr>) = (Some (n, part), st1)"
    using assms a t w0 by (auto simp: MemPoke_def poke_refused_def Let_def split: prod.splits option.splits)
  obtain st2 where r: "poke_audit api os (target \<noteq> None) token addr len n part st1 = (True, st2)"
    "res = \<lparr>poke_ok = True, poke_has_process = (target \<noteq> None), bytes_written = n, partial = part, poke_reason = []\<rparr>" "st' = st2"
    using assms a t w0 p by (auto simp: MemPoke_def Let_def split: prod.splits bool.splits)
  have st1: "g_slots st1 = g_slots st" "feat st1 = feat st"
    "calls st1 = calls st @ [write_call target addr (take (unat len) src)]"
    using poke_write_calls [of os target addr "take (unat len) src" len "st\<lparr>world := w0\<rparr>"] p by simp_all
  note w = poke_write_done [OF p]
  from r(1) obtain over where "calls st2 = calls st1 @ [CallAudit over True]"
    "recorded (FileOs.truncate os) (audit st1) (\<lambda>ticks. audit_line ticks (MemTierName (MemTierCurrent (feat st1))) token
       (MemTokenPid api st1 token) (attribution api st1 (target \<noteq> None) token) addr len n part) (world st1) (world st2) over"
    by (rule poke_audit_recorded)
  then show thesis
    using that [OF w0 t, of "world st1" over] w r st1(3)
    by (simp add: poke_line_audit [abs_def] poke_line_cong [OF st1(1,2)] st1(1,2))
qed

text \<open>
  C15: whatever the request, a poke that touches memory at all had the write arm up, a
  length within the cap and a range that does not wrap, an audit sink that was open a
  moment before, and on NT the handle of a live token for its target, before NT a
  region wholly committed and writable; it makes at most one write, of the bytes given,
  and every other call it makes is the record of that write.
\<close>

theorem MemPoke_floor:
  "case MemPoke api os token addr src len st of (res, st') \<Rightarrow>
     calls st' = calls st \<and> \<not> poke_ok res \<or>
     (\<exists>c new. calls st' = calls st @ c # new \<and> (\<forall>d \<in> set new. \<not> changes_memory d) \<and>
        AuditIsArmed (audit st) \<and> unat len \<le> 65536 \<and> unat addr + unat len < 2 ^ 32 \<and>
        fst (AuditIsWritable (FileOs.truncate os) (audit st) (world st)) \<and>
        target_floor api os token addr src len st c)"
proof (rule poke_cases [of api os token addr src len st])
  fix target new
  assume *: "AuditIsArmed (audit st)" "MemRangeInBounds addr len MEM_MAX_ACCESS"
    "poke_target api os token addr len st = Inr target"
    "fst (AuditIsWritable (FileOs.truncate os) (audit st) (world st))"
    "calls (snd (MemPoke api os token addr src len st)) =
       calls st @ write_call target addr (take (unat len) src) # new"
    "new = [] \<and> \<not> poke_ok (fst (MemPoke api os token addr src len st)) \<and>
         poke_reason (fst (MemPoke api os token addr src len st)) = ''write failed'' \<or>
       (\<exists>over. new = [CallAudit over (poke_ok (fst (MemPoke api os token addr src len st)))] \<and>
          (\<not> poke_ok (fst (MemPoke api os token addr src len st)) \<longrightarrow>
           poke_reason (fst (MemPoke api os token addr src len st)) \<noteq> []))"
  have "target_floor api os token addr src len st (write_call target addr (take (unat len) src))"
    using poke_target_Inr [OF *(3), of src] by (simp add: write_call_def split: option.splits)
  moreover have "unat len \<le> 65536" "unat addr + unat len < 2 ^ 32"
    using *(2) add_fits [of len addr] by (auto simp: MemRangeInBounds_def MEM_MAX_ACCESS_def word_less_nat_alt split: if_splits)
  moreover have "\<forall>d \<in> set new. \<not> changes_memory d" using *(6) by auto
  ultimately show ?thesis using *(1,4,5)
    by (simp add: case_prod_beta)
qed (simp add: case_prod_beta)

text \<open>
  C18: a poke reported as done has made its write and then put it to the log: the sink was
  opened for appending, \<^verbatim>\<open>WriteFile\<close> was given the whole line and took all of it, and it was
  flushed, in this order and with nothing between.  The line names the token, the process,
  its command or the tier, the range, and exactly the bytes that the write reported; what it
  took behind the 640 bytes of its buffer is noted.  A write that did not get its record,
  or failed, is reported as an error with a reason, never as done.
\<close>

theorem MemPoke_audited:
  "case MemPoke api os token addr src len st of (res, st') \<Rightarrow>
     (if poke_ok res
      then \<exists>target w0 w1 over.
        AuditIsWritable (FileOs.truncate os) (audit st) (world st) = (True, w0) \<and>
        written os target addr (take (unat len) src) len w0 w1 (bytes_written res) (partial res) \<and>
        recorded (FileOs.truncate os) (audit st) (poke_line api st token addr len res) w1 (world st') over \<and>
        calls st' = calls st @ [write_call target addr (take (unat len) src), CallAudit over True]
      else calls st' = calls st \<or>
        poke_reason res \<noteq> [] \<and> (\<forall>over. CallAudit over True \<notin> set (drop (length (calls st)) (calls st'))))"
proof -
  obtain res st' where r: "MemPoke api os token addr src len st = (res, st')" by fastforce
  show ?thesis
  proof (cases "poke_ok res")
    case True
    then show ?thesis using r by (auto elim!: poke_done)
  next
    case False
    then show ?thesis using r by (rule_tac poke_cases [of api os token addr src len st]) (auto simp: case_prod_beta)
  qed
qed

section \<open>Tokens as capabilities\<close>

text \<open>
  A table whose keys are given out by its own steps: a step may drop bindings and may
  bind keys never given out before, while it has any left to give.  \<open>room\<close> counts them.
\<close>

locale capability_table =
  fixes inv :: "'s \<Rightarrow> bool"
    and issued :: "'s \<Rightarrow> 'k set"
    and resolve :: "'s \<Rightarrow> 'k \<Rightarrow> 'v option"
    and room :: "'s \<Rightarrow> nat"
    and step :: "'a \<Rightarrow> 's \<Rightarrow> 's"
  assumes step_inv: "inv s \<Longrightarrow> 0 < room s \<Longrightarrow> inv (step a s)"
    and step_room: "inv s \<Longrightarrow> 0 < room s \<Longrightarrow> room s \<le> Suc (room (step a s))"
    and step_issued: "inv s \<Longrightarrow> 0 < room s \<Longrightarrow> issued s \<subseteq> issued (step a s)"
    and step_resolve: "inv s \<Longrightarrow> 0 < room s \<Longrightarrow> k \<in> issued s \<Longrightarrow> resolve (step a s) k = Some v \<Longrightarrow> resolve s k = Some v"
begin

lemma run_stable:
  assumes "inv s" "length acts \<le> room s" "k \<in> issued s" "resolve (fold step acts s) k = Some v"
  shows "resolve s k = Some v"
  using assms
proof (induction acts arbitrary: s)
  case (Cons a acts)
  have r: "0 < room s" using Cons.prems(2) by simp
  have "resolve (step a s) k = Some v"
  proof (rule Cons.IH)
    show "inv (step a s)" by (rule step_inv [OF Cons.prems(1) r])
    show "length acts \<le> room (step a s)" using step_room [OF Cons.prems(1) r, of a] Cons.prems(2) by simp
    show "k \<in> issued (step a s)" using step_issued [OF Cons.prems(1) r] Cons.prems(3) by blast
  qed (use Cons.prems(4) in simp)
  then show ?case by (rule step_resolve [OF Cons.prems(1) r Cons.prems(3)])
qed simp

lemma dead_for_good:
  assumes "inv s" "length acts \<le> room s" "k \<in> issued s" "resolve s k = None"
  shows "resolve (fold step acts s) k = None"
  using run_stable [OF assms(1-3)] assms(4) by (cases "resolve (fold step acts s) k") auto

lemma run_inv:
  assumes "inv s" "length acts \<le> room s"
  shows "inv (fold step acts s)"
  using assms
proof (induction acts arbitrary: s)
  case (Cons a acts)
  then have "inv (step a s)" "length acts \<le> room (step a s)"
    using step_inv [of s a] step_room [of s a] by auto
  then show ?case using Cons.IH by simp
qed simp

end

text \<open>The requests a client makes of the table, and the step each is.\<close>

datatype MemReq =
    ReqSpawn "Catalog option" bool "string list"
  | ReqRelease string
  | ReqTerminate string
  | ReqReleaseAll
  | ReqPeek string u32 u32
  | ReqPoke string u32 "u8 list" u32

fun mem_step :: "StrApi \<Rightarrow> ('w, 'm) MemOs_scheme \<Rightarrow> MemReq \<Rightarrow> 'w MemState \<Rightarrow> 'w MemState" where
  "mem_step api os (ReqSpawn cat unsafeMode args) st = snd (MemSpawnRetain api os cat unsafeMode args st)"
| "mem_step api os (ReqRelease token) st = snd (MemRelease api os token st)"
| "mem_step api os (ReqTerminate token) st = snd (MemTerminate api os token st)"
| "mem_step api os ReqReleaseAll st = MemReleaseAll os st"
| "mem_step api os (ReqPeek token addr len) st = snd (MemPeek api os token addr len st)"
| "mem_step api os (ReqPoke token addr src len) st = snd (MemPoke api os token addr src len st)"

text \<open>The tokens that the first n spawns can have been given.\<close>

definition tokens_upto :: "nat \<Rightarrow> string set" where
  "tokens_upto n = {''m'' @ dec k @ ''-'' @ dec l | k l. 0 < k \<and> k \<le> n}"

definition table_ok :: "'w MemState \<Rightarrow> bool" where
  "table_ok st \<longleftrightarrow> length (g_slots st) = MEM_PROC_SLOTS \<and>
     (\<forall>i < MEM_PROC_SLOTS. in_use (g_slots st ! i) \<longrightarrow> slot_token (g_slots st ! i) \<in> tokens_upto (unat (g_seq st))) \<and>
     (\<forall>i < MEM_PROC_SLOTS. \<forall>j < MEM_PROC_SLOTS. in_use (g_slots st ! i) \<longrightarrow> in_use (g_slots st ! j) \<longrightarrow>
        slot_token (g_slots st ! i) = slot_token (g_slots st ! j) \<longrightarrow> i = j)"

lemma number_append: "number b v (s @ t) = number b (number b v s) t"
  by (simp add: number_def)

lemma number_dec: "number 10 0 (dec n) = n"
proof (induction n rule: dec.induct)
  case (1 n)
  have digit: "hex_value (digit_char d) = d" if "d < 10" for d
    using that by (simp add: hex_value_def is_digit_def less_eq_char_def)
  show ?case
  proof (cases "n < 10")
    case True
    then show ?thesis by (subst dec.simps) (simp add: digit)
  next
    case False
    then have "number 10 0 (dec n) = number 10 (n div 10) [digit_char (n mod 10)]"
      using 1 by (subst dec.simps) (simp add: number_append)
    then show ?thesis by (simp add: digit)
  qed
qed

lemma token_seq: "takeWhile is_digit (tl (''m'' @ dec k @ ''-'' @ x)) = dec k"
proof -
  have "takeWhile is_digit (dec k @ ''-'' @ x) = dec k @ takeWhile is_digit (''-'' @ x)"
    by (rule takeWhile_append2) (rule dec_digits)
  moreover have "\<not> is_digit (CHR ''-'')" by (simp add: is_digit_def less_eq_char_def)
  ultimately show ?thesis by simp
qed

lemma token_inject: "''m'' @ dec k @ ''-'' @ x = ''m'' @ dec l @ ''-'' @ y \<Longrightarrow> k = l"
proof -
  assume e: "''m'' @ dec k @ ''-'' @ x = ''m'' @ dec l @ ''-'' @ y"
  have "dec k = dec l" by (rule trans [OF token_seq [of k x, symmetric]]) (simp only: e token_seq)
  then have "number 10 0 (dec k) = number 10 0 (dec l)" by (rule arg_cong)
  then show "k = l" by (simp only: number_dec)
qed

lemma fresh_token: "n < k \<Longrightarrow> ''m'' @ dec k @ ''-'' @ x \<notin> tokens_upto n"
  unfolding tokens_upto_def using token_inject [of k x] by force

lemma tokens_mono: "m \<le> n \<Longrightarrow> tokens_upto m \<subseteq> tokens_upto n"
  unfolding tokens_upto_def by fastforce

context str_api
begin

lemma find_slot_Some:
  assumes "MemFindSlot api st token = Some i"
  shows "i < MEM_PROC_SLOTS" "in_use (g_slots st ! i)" "slot_token (g_slots st ! i) = token" "token \<noteq> []"
  using assms by (auto simp: MemFindSlot_def find_Some_iff cmp_eq split: if_splits)

lemma find_slot_None:
  assumes "MemFindSlot api st token = None" "token \<noteq> []" "i < MEM_PROC_SLOTS" "in_use (g_slots st ! i)"
  shows "slot_token (g_slots st ! i) \<noteq> token"
  using assms by (auto simp: MemFindSlot_def find_None_iff cmp_eq)

lemma find_slot_unique:
  assumes "table_ok st" "i < MEM_PROC_SLOTS" "in_use (g_slots st ! i)" "slot_token (g_slots st ! i) \<noteq> []"
  shows "MemFindSlot api st (slot_token (g_slots st ! i)) = Some i"
proof (cases "MemFindSlot api st (slot_token (g_slots st ! i))")
  case None
  then show ?thesis using find_slot_None [OF None assms(4,2,3)] by simp
next
  case (Some j)
  then show ?thesis using find_slot_Some [OF Some] assms(1-3) by (auto simp: table_ok_def)
qed

end

text \<open>A table that has lost slots and gained none.\<close>

definition sub_table :: "'w MemState \<Rightarrow> 'w MemState \<Rightarrow> bool" where
  "sub_table st' st \<longleftrightarrow> g_seq st' = g_seq st \<and> length (g_slots st') = length (g_slots st) \<and>
     (\<forall>i < MEM_PROC_SLOTS. in_use (g_slots st' ! i) \<longrightarrow> g_slots st' ! i = g_slots st ! i)"

lemma sub_table_same: "g_slots st' = g_slots st \<Longrightarrow> g_seq st' = g_seq st \<Longrightarrow> sub_table st' st"
  by (simp add: sub_table_def)

lemma sub_table_trans [trans]: "sub_table st'' st' \<Longrightarrow> sub_table st' st \<Longrightarrow> sub_table st'' st"
  by (auto simp: sub_table_def)

lemma sub_table_ok: "sub_table st' st \<Longrightarrow> table_ok st \<Longrightarrow> table_ok st'"
  unfolding table_ok_def sub_table_def by (metis (no_types, lifting))

lemma mem_close_table [simp]:
  "g_slots (mem_close os h st) = g_slots st" "g_seq (mem_close os h st) = g_seq st"
  "g_slots (note_call c st) = g_slots st" "g_seq (note_call c st) = g_seq st"
  by (simp_all add: mem_close_def note_call_def)

lemma sub_table_free: "length (g_slots st) = MEM_PROC_SLOTS \<Longrightarrow> sub_table (free_the_slot i st) st"
  by (cases "i < MEM_PROC_SLOTS") (auto simp: sub_table_def free_the_slot_def nth_list_update)

lemma sub_table_close_free:
  "length (g_slots st) = MEM_PROC_SLOTS \<Longrightarrow> g_slots st1 = g_slots st \<Longrightarrow> g_seq st1 = g_seq st \<Longrightarrow>
   sub_table (free_the_slot i st1) st"
  using sub_table_free [of st1 i] by (auto simp: sub_table_def)

lemma sub_table_release: "length (g_slots st) = MEM_PROC_SLOTS \<Longrightarrow> sub_table (snd (MemRelease api os token st)) st"
  by (auto simp: MemRelease_def sub_table_same intro: sub_table_close_free split: option.split)

lemma sub_table_terminate: "length (g_slots st) = MEM_PROC_SLOTS \<Longrightarrow> sub_table (snd (MemTerminate api os token st)) st"
  by (auto simp: MemTerminate_def Let_def sub_table_same intro: sub_table_close_free split: option.split)

lemma sub_table_release_all: "length (g_slots st) = MEM_PROC_SLOTS \<Longrightarrow> sub_table (MemReleaseAll os st) st"
proof -
  have "sub_table (fold (\<lambda>i st. if in_use (g_slots st ! i) then free_the_slot i (mem_close os (handle (g_slots st ! i)) st) else st)
      is st) st" if "length (g_slots st) = MEM_PROC_SLOTS" for "is" and st :: "'a MemState"
    using that
  proof (induction "is" arbitrary: st)
    case (Cons i "is")
    let ?st = "if in_use (g_slots st ! i) then free_the_slot i (mem_close os (handle (g_slots st ! i)) st) else st"
    have s: "sub_table ?st st" using Cons.prems by (auto intro: sub_table_close_free sub_table_same)
    then have "length (g_slots ?st) = MEM_PROC_SLOTS" using Cons.prems unfolding sub_table_def by argo
    from sub_table_trans [OF Cons.IH [OF this] s] show ?case by simp
  qed (simp add: sub_table_same)
  then show "length (g_slots st) = MEM_PROC_SLOTS \<Longrightarrow> sub_table (MemReleaseAll os st) st"
    unfolding MemReleaseAll_def by blast
qed

lemma sub_table_peek: "sub_table (snd (MemPeek api os token addr len st)) st"
  by (auto simp: MemPeek_def Let_def intro!: sub_table_same split: prod.split MemIo.split option.split)

lemma poke_write_table:
  "poke_write os target addr src len st = (r, st1) \<Longrightarrow> g_slots st1 = g_slots st \<and> g_seq st1 = g_seq st"
  by (auto simp: poke_write_def split: option.splits prod.splits)

lemma poke_audit_table:
  "poke_audit api os proc token addr len n part st = (r, st1) \<Longrightarrow> g_slots st1 = g_slots st \<and> g_seq st1 = g_seq st"
  by (auto simp: poke_audit_def Let_def split: prod.splits)

lemma sub_table_poke: "sub_table (snd (MemPoke api os token addr src len st)) st"
  by (auto simp: MemPoke_def Let_def intro!: sub_table_same split: prod.split bool.split option.split sum.split
      dest!: poke_write_table poke_audit_table)

lemma find_Some_D: "find P xs = Some x \<Longrightarrow> x \<in> set xs \<and> P x"
  by (auto simp: find_Some_iff)

text \<open>A spawn leaves the table alone, or puts a child into a slot not in use.\<close>

lemma spawn_table:
  obtains "g_slots (snd (MemSpawnRetain api os cat unsafeMode args st)) = g_slots st"
      "g_seq (snd (MemSpawnRetain api os cat unsafeMode args st)) = g_seq st"
      "\<not> spawn_ok (fst (MemSpawnRetain api os cat unsafeMode args st))"
    | i h pid line ticks where "i < MEM_PROC_SLOTS" "\<not> in_use (g_slots st ! i)"
      "g_slots (snd (MemSpawnRetain api os cat unsafeMode args st)) = g_slots (mem_retain i h pid line ticks st)"
      "g_seq (snd (MemSpawnRetain api os cat unsafeMode args st)) = g_seq st + 1"
      "spawn_token (fst (MemSpawnRetain api os cat unsafeMode args st)) =
         slot_token (g_slots (snd (MemSpawnRetain api os cat unsafeMode args st)) ! i)"
      "spawn_pid (fst (MemSpawnRetain api os cat unsafeMode args st)) =
         slot_pid (g_slots (snd (MemSpawnRetain api os cat unsafeMode args st)) ! i)"
proof -
  note * = that
  let ?r = "MemSpawnRetain api os cat unsafeMode args st"
  have same: "g_slots (snd ?r) = g_slots st \<Longrightarrow> g_seq (snd ?r) = g_seq st \<Longrightarrow> \<not> spawn_ok (fst ?r) \<Longrightarrow> thesis" using *(1) .
  show thesis
  proof (cases "args = [] \<or> hd args = [] \<or> spawn_gate api cat unsafeMode (hd args) \<noteq> None \<or> free_slot st = None \<or>
      ArgvJoin args MEM_MAX_CMDLINE = None")
    case True
    then show ?thesis by (intro same) (auto simp: MemSpawnRetain_def spawn_refused_def split: option.splits)
  next
    case False
    then obtain i line where i: "free_slot st = Some i" "ArgvJoin args MEM_MAX_CMDLINE = Some line" by auto
    obtain c w where c: "CreateProcessA os line (world st) = (c, w)" by fastforce
    show ?thesis
    proof (cases c)
      case (Inl e)
      then show ?thesis using False i c by (intro same) (auto simp: MemSpawnRetain_def note_call_def spawn_refused_def)
    next
      case (Inr x)
      obtain h t pid where x: "x = (h, t, pid)" by (cases x)
      let ?st1 = "mem_close os t (note_call (CallSpawn line (Some (h, t))) (st\<lparr>world := w\<rparr>))"
      obtain ticks w2 where t: "GetTickCount os (world ?st1) = (ticks, w2)" by fastforce
      have r: "snd ?r = mem_retain i h pid line ticks (?st1\<lparr>world := w2\<rparr>)"
        "spawn_token (fst ?r) = slot_token (g_slots (snd ?r) ! i)" "spawn_pid (fst ?r) = slot_pid (g_slots (snd ?r) ! i)"
        using False i c Inr x t by (auto simp: MemSpawnRetain_def Let_def)
      have "i < MEM_PROC_SLOTS" "\<not> in_use (g_slots st ! i)"
        using i(1) by (auto simp: free_slot_def dest: find_Some_D)
      moreover have "g_slots (snd ?r) = g_slots (mem_retain i h pid line ticks st)" "g_seq (snd ?r) = g_seq st + 1"
        by (simp_all add: r(1) mem_retain_def Let_def)
      ultimately show ?thesis by (rule *(2) [OF _ _ _ _ r(2,3)])
    qed
  qed
qed

definition issues_left :: "'w MemState \<Rightarrow> nat" where
  "issues_left st = 2 ^ 32 - 1 - unat (g_seq st)"

definition issued_tokens :: "'w MemState \<Rightarrow> string set" where
  "issued_tokens st = tokens_upto (unat (g_seq st))"

lemma next_seq: "0 < issues_left st \<Longrightarrow> unat (g_seq st + 1) = Suc (unat (g_seq st))"
  using unat_add_fits [of "g_seq st" 1] by (simp add: issues_left_def)

lemma new_token: "\<exists>x. MemMakeToken seq pid ticks = ''m'' @ dec (unat seq) @ ''-'' @ x"
  by (simp add: MemMakeToken_def Let_def)

lemma retain_slot:
  assumes "i < MEM_PROC_SLOTS" "length (g_slots st) = MEM_PROC_SLOTS"
    "slots' = g_slots (mem_retain i h pid line ticks st)"
  shows "length slots' = MEM_PROC_SLOTS" "in_use (slots' ! i)"
    "slot_token (slots' ! i) = MemMakeToken (g_seq st + 1) pid ticks" "j \<noteq> i \<Longrightarrow> slots' ! j = g_slots st ! j"
  using assms by (simp_all add: mem_retain_def Let_def)

lemma retain_ok:
  assumes "table_ok st" "0 < issues_left st" "i < MEM_PROC_SLOTS"
    "g_slots st' = g_slots (mem_retain i h pid line ticks st)" "g_seq st' = g_seq st + 1"
  shows "table_ok st'"
proof -
  let ?t = "MemMakeToken (g_seq st + 1) pid ticks"
  have len: "length (g_slots st) = MEM_PROC_SLOTS" using assms(1) by (simp add: table_ok_def)
  note new = retain_slot [OF assms(3) len assms(4)]
  have old: "tokens_upto (unat (g_seq st)) \<subseteq> tokens_upto (unat (g_seq st'))"
    using next_seq [OF assms(2)] assms(5) by (intro tokens_mono) simp
  obtain x where x: "?t = ''m'' @ dec (unat (g_seq st + 1)) @ ''-'' @ x" using new_token by blast
  have fresh: "?t \<notin> tokens_upto (unat (g_seq st))"
    unfolding x by (rule fresh_token) (simp add: next_seq [OF assms(2)])
  have mem: "?t \<in> tokens_upto (unat (g_seq st'))"
    unfolding tokens_upto_def assms(5) MemMakeToken_def Let_def using next_seq [OF assms(2)] by auto
  have other: "in_use (g_slots st ! j) \<Longrightarrow> j < MEM_PROC_SLOTS \<Longrightarrow> slot_token (g_slots st ! j) \<in> tokens_upto (unat (g_seq st))" for j
    using assms(1) by (auto simp: table_ok_def)
  have "slot_token (g_slots st' ! j) \<in> tokens_upto (unat (g_seq st'))" if "j < MEM_PROC_SLOTS" "in_use (g_slots st' ! j)" for j
    using that other [of j] new(3,4) mem old by (cases "j = i") auto
  moreover have "j = k" if "j < MEM_PROC_SLOTS" "k < MEM_PROC_SLOTS" "in_use (g_slots st' ! j)" "in_use (g_slots st' ! k)"
    "slot_token (g_slots st' ! j) = slot_token (g_slots st' ! k)" for j k
  proof (cases "j = i \<or> k = i")
    case True
    then show ?thesis using that new(3,4) fresh other by metis
  next
    case False
    then show ?thesis using that new(4) assms(1) unfolding table_ok_def by metis
  qed
  ultimately show ?thesis unfolding table_ok_def using new(1) by blast
qed

lemma step_table:
  assumes "table_ok st"
  obtains "sub_table (mem_step api os a st) st"
    | i h pid line ticks where "i < MEM_PROC_SLOTS" "\<not> in_use (g_slots st ! i)"
      "g_slots (mem_step api os a st) = g_slots (mem_retain i h pid line ticks st)"
      "g_seq (mem_step api os a st) = g_seq st + 1"
proof (cases "\<exists>cat unsafeMode args. a = ReqSpawn cat unsafeMode args")
  case True
  then obtain cat unsafeMode args where a: "a = ReqSpawn cat unsafeMode args" by blast
  show ?thesis
    by (rule spawn_table [of api os cat unsafeMode args st]) (use that a sub_table_same in auto)
next
  case False
  have "length (g_slots st) = MEM_PROC_SLOTS" using assms by (simp add: table_ok_def)
  then have "sub_table (mem_step api os a st) st"
    using False by (cases a) (simp_all add: sub_table_release sub_table_terminate sub_table_release_all
        sub_table_peek sub_table_poke)
  then show ?thesis by (rule that(1))
qed

context str_api
begin

lemma slot_of_Some:
  "slot_of api st token = Some s \<Longrightarrow>
     \<exists>i < MEM_PROC_SLOTS. in_use (g_slots st ! i) \<and> slot_token (g_slots st ! i) = token \<and> token \<noteq> [] \<and> s = g_slots st ! i"
  using find_slot_Some [of st token] by (auto simp: slot_of_def)

lemma slot_of_index:
  assumes "table_ok st" "i < MEM_PROC_SLOTS" "in_use (g_slots st ! i)" "slot_token (g_slots st ! i) \<noteq> []"
  shows "slot_of api st (slot_token (g_slots st ! i)) = Some (g_slots st ! i)"
  using find_slot_unique [OF assms] by (simp add: slot_of_def)

lemma table_law:
  assumes "table_ok st" "0 < issues_left st"
  shows "table_ok (mem_step api os a st)" "issues_left st \<le> Suc (issues_left (mem_step api os a st))"
    "issued_tokens st \<subseteq> issued_tokens (mem_step api os a st)"
    "k \<in> issued_tokens st \<Longrightarrow> slot_of api (mem_step api os a st) k = Some v \<Longrightarrow> slot_of api st k = Some v"
proof -
  let ?st' = "mem_step api os a st"
  have "table_ok ?st' \<and> issues_left st \<le> Suc (issues_left ?st') \<and> issued_tokens st \<subseteq> issued_tokens ?st' \<and>
    (k \<in> issued_tokens st \<longrightarrow> slot_of api ?st' k = Some v \<longrightarrow> slot_of api st k = Some v)"
    using assms(1)
  proof (cases rule: step_table [of st api os a])
    case 1
    have "slot_of api st k = Some v" if s: "slot_of api ?st' k = Some v"
    proof -
      obtain i where i: "i < MEM_PROC_SLOTS" "in_use (g_slots ?st' ! i)" "slot_token (g_slots ?st' ! i) = k" "k \<noteq> []"
        "v = g_slots ?st' ! i" using slot_of_Some [OF s] by blast
      then have "g_slots ?st' ! i = g_slots st ! i" using 1 by (simp add: sub_table_def)
      then show ?thesis using slot_of_index [OF assms(1) i(1)] i by auto
    qed
    then show ?thesis using 1 sub_table_ok [OF 1 assms(1)]
      by (auto simp: issues_left_def issued_tokens_def sub_table_def)
  next
    case (2 i h pid line ticks)
    have len: "length (g_slots st) = MEM_PROC_SLOTS" using assms(1) by (simp add: table_ok_def)
    note new = retain_slot [OF 2(1) len 2(3)]
    have u: "unat (g_seq ?st') = Suc (unat (g_seq st))" using next_seq [OF assms(2)] 2(4) by simp
    obtain x where x: "MemMakeToken (g_seq st + 1) pid ticks = ''m'' @ dec (unat (g_seq st + 1)) @ ''-'' @ x"
      using new_token by blast
    have fresh: "MemMakeToken (g_seq st + 1) pid ticks \<notin> tokens_upto (unat (g_seq st))"
      unfolding x by (rule fresh_token) (simp add: next_seq [OF assms(2)])
    have "slot_of api st k = Some v" if k: "k \<in> issued_tokens st" and s: "slot_of api ?st' k = Some v"
    proof -
      obtain j where j: "j < MEM_PROC_SLOTS" "in_use (g_slots ?st' ! j)" "slot_token (g_slots ?st' ! j) = k" "k \<noteq> []"
        "v = g_slots ?st' ! j" using slot_of_Some [OF s] by blast
      have "j \<noteq> i" using j(3) new(3) fresh k by (auto simp: issued_tokens_def)
      then have "g_slots ?st' ! j = g_slots st ! j" by (rule new(4))
      then show ?thesis using slot_of_index [OF assms(1) j(1)] j by auto
    qed
    moreover have "issued_tokens st \<subseteq> issued_tokens ?st'"
      unfolding issued_tokens_def u by (rule tokens_mono) simp
    ultimately show ?thesis using retain_ok [OF assms 2(1,3,4)] u
      by (auto simp: issues_left_def)
  qed
  then show "table_ok ?st'" "issues_left st \<le> Suc (issues_left ?st')" "issued_tokens st \<subseteq> issued_tokens ?st'"
    "k \<in> issued_tokens st \<Longrightarrow> slot_of api ?st' k = Some v \<Longrightarrow> slot_of api st k = Some v"
    by auto
qed

end

sublocale str_api \<subseteq> cap: capability_table table_ok issued_tokens "slot_of api" issues_left "mem_step api os"
  for os
  by unfold_locales (rule table_law, assumption+)+

lemma start_ok: "table_ok (mem_start a f w)"
  by (simp add: table_ok_def mem_start_def empty_slot_def)

context str_api
begin

lemma live_issued: "table_ok st \<Longrightarrow> slot_of api st token = Some s \<Longrightarrow> token \<in> issued_tokens st"
  using slot_of_Some [of st token s] by (auto simp: table_ok_def issued_tokens_def)

lemma freed_slot:
  fixes st st1 :: "'w MemState"
  assumes "table_ok st" "MemFindSlot api st token = Some i" "g_slots st1 = g_slots st" "g_seq st1 = g_seq st"
  shows "slot_of api (free_the_slot i st1) token = None" "table_ok (free_the_slot i st1)"
proof -
  have len: "length (g_slots st) = MEM_PROC_SLOTS" using assms(1) by (simp add: table_ok_def)
  have sub: "sub_table (free_the_slot i st1) st" by (rule sub_table_close_free [OF len assms(3,4)])
  then show "table_ok (free_the_slot i st1)" using assms(1) by (rule sub_table_ok)
  note i = find_slot_Some [OF assms(2)]
  show "slot_of api (free_the_slot i st1) token = None"
  proof (rule ccontr)
    assume "\<not> slot_of api (free_the_slot i st1) token = None"
    then obtain s where "slot_of api (free_the_slot i st1) token = Some s" by blast
    then obtain j where j: "j < MEM_PROC_SLOTS" "in_use (g_slots (free_the_slot i st1) ! j)"
      "slot_token (g_slots (free_the_slot i st1) ! j) = token" using slot_of_Some by blast
    then have "g_slots (free_the_slot i st1) ! j = g_slots st ! j" using sub by (simp add: sub_table_def)
    then have "j = i" using j i assms(1) by (simp add: table_ok_def)
    then show False using j(2) i(1) len assms(3) by (simp add: free_the_slot_def)
  qed
qed

lemma consumed:
  assumes "table_ok st" "MemRelease api os token st = (True, st') \<or> MemTerminate api os token st = (True, st')"
  shows "slot_of api st' token = None" "table_ok st'" "token \<in> issued_tokens st'" "issues_left st' = issues_left st"
proof -
  obtain i where i: "MemFindSlot api st token = Some i"
    using assms(2) by (auto simp: MemRelease_def MemTerminate_def split: option.splits)
  obtain st1 where st1: "st' = free_the_slot i st1" "g_slots st1 = g_slots st" "g_seq st1 = g_seq st"
    using assms(2) i by (auto simp: MemRelease_def MemTerminate_def Let_def)
  show "slot_of api st' token = None" "table_ok st'"
    unfolding st1(1) by (rule freed_slot [OF assms(1) i st1(2,3)])+
  have seq: "g_seq st' = g_seq st" unfolding st1(1) using st1(3) by (simp add: free_the_slot_def)
  have "slot_of api st token = Some (g_slots st ! i)" by (simp add: slot_of_def i)
  from live_issued [OF assms(1) this] seq show "token \<in> issued_tokens st'" "issues_left st' = issues_left st"
    by (simp_all add: issued_tokens_def issues_left_def)
qed

lemma dead_run:
  assumes "table_ok st" "length reqs \<le> issues_left st"
    "MemRelease api os token st = (True, st') \<or> MemTerminate api os token st = (True, st')"
  shows "slot_of api (fold (mem_step api os) reqs st') token = None"
proof -
  note c = consumed [OF assms(1,3)]
  show ?thesis by (rule cap.dead_for_good [OF c(2) _ c(3,1)]) (use assms(2) c(4) in simp)
qed

lemma live_run:
  assumes "table_ok st" "length reqs \<le> issues_left st" "slot_of api st token = Some s"
    "slot_of api (fold (mem_step api os) reqs st) token = Some s'"
  shows "s' = s"
  using cap.run_stable [OF assms(1,2) live_issued [OF assms(1,3)] assms(4)] assms(3) by simp

end

text \<open>
  C16: a token that was released or whose process was terminated is dead for good:
  after any requests, spawns included, up to the number of tokens the counter has
  left, it resolves to no process, and releasing or terminating it again does nothing.
\<close>

theorem consumed_token_dead:
  assumes "str_api api" "table_ok st" "length reqs \<le> issues_left st"
    "MemRelease api os token st = (True, st') \<or> MemTerminate api os token st = (True, st')"
  shows "MemTokenHandle api (fold (mem_step api os) reqs st') token = 0 \<and>
    MemRelease api os token (fold (mem_step api os) reqs st') = (False, fold (mem_step api os) reqs st') \<and>
    MemTerminate api os token (fold (mem_step api os) reqs st') = (False, fold (mem_step api os) reqs st')"
proof -
  have "slot_of api (fold (mem_step api os) reqs st') token = None"
    by (rule str_api.dead_run [OF assms(1-4)])
  then show ?thesis
    by (auto simp: MemTokenHandle_def MemRelease_def MemTerminate_def slot_of_def)
qed

text \<open>The host comparison, a table with one child in it, and services that work,
  all but the disk where it has no room.\<close>

interpretation retained: capability_table table_ok issued_tokens "slot_of shim_api" issues_left "mem_step shim_api os"
  for os
  by (rule shim_cmp.cap.capability_table_axioms)

definition one_child :: "string MemState" where
  "one_child = (mem_start \<lparr> g_armed = True, g_auditPath = ''a.log'' \<rparr> (no_features\<lparr>is_nt := True\<rparr>) [])
     \<lparr>g_seq := 1, g_slots := \<lparr> in_use = True, slot_token = ''m1-7'', handle = 100, slot_pid = 42,
       slot_command = ''calc.exe'' \<rparr> # replicate 7 empty_slot\<rparr>"

definition disk_os :: "bool \<Rightarrow> string MemOs" where
  "disk_os has_room = FileOs.extend
     (log_os\<lparr>WriteFile := \<lambda>_ s w. if has_room then (Some (length s), w @ s) else (None, w)\<rparr>)
     \<lparr> CreateProcessA = (\<lambda>_ w. (Inr (200, 201, 77), w)), TerminateProcess = (\<lambda>_ w. w),
       has_ReadProcessMemory = True, has_WriteProcessMemory = True,
       ReadProcessMemory = (\<lambda>_ _ n w. (IoDone (replicate (unat n) 0), w)),
       WriteProcessMemory = (\<lambda>_ _ bs w. (IoDone (word_of_nat (length bs)), w)),
       VirtualQuery = (\<lambda>_ _. None), LoadLocal = (\<lambda>_ n _. replicate n 0), StoreLocal = (\<lambda>_ _ w. w) \<rparr>"

lemma slots_upto: "[0..<MEM_PROC_SLOTS] = [0, 1, 2, 3, 4, 5, 6, 7]"
  by (simp add: MEM_PROC_SLOTS_def upt_conv_Cons)

lemma one_child_table: "table_ok one_child"
proof -
  have tok: "''m1-7'' = ''m'' @ dec 1 @ ''-'' @ dec 7"
    by code_simp
  have t: "''m1-7'' \<in> tokens_upto 1"
    unfolding tokens_upto_def tok by (intro CollectI exI conjI) (rule refl, simp_all)
  show ?thesis
    using t by (auto simp: table_ok_def one_child_def mem_start_def empty_slot_def MEM_PROC_SLOTS_def nth_Cons')
qed

lemma one_child_slot: "MemFindSlot shim_api one_child ''m1-7'' = Some 0"
  by (simp add: MemFindSlot_def slots_upto one_child_def shim_api_def)

lemma consumed_token_dead_witness:
  "MemTokenHandle shim_api
     (fold (mem_step shim_api (disk_os True)) [ReqSpawn None True [''calc.exe''], ReqPeek ''m1-7'' 0 4]
       (snd (MemRelease shim_api (disk_os True) ''m1-7'' one_child))) ''m1-7'' = 0"
proof -
  have "fst (MemRelease shim_api (disk_os True) ''m1-7'' one_child)"
    by (simp add: MemRelease_def one_child_slot)
  then show ?thesis
    using consumed_token_dead [OF shim_cmp.str_api_axioms one_child_table,
        of "[ReqSpawn None True [''calc.exe''], ReqPeek ''m1-7'' 0 4]" "disk_os True" "''m1-7''"
          "snd (MemRelease shim_api (disk_os True) ''m1-7'' one_child)"]
    by (simp add: issues_left_def prod_eq_iff) (simp add: one_child_def)
qed

text \<open>
  C17: a live token names one process for as long as it lives: whatever requests follow,
  it resolves to the same handle, process id and command, or to nothing.
\<close>

theorem live_token_stable:
  assumes "str_api api" "table_ok st" "length reqs \<le> issues_left st" "slot_of api st token = Some s"
  shows "slot_of api (fold (mem_step api os) reqs st) token \<in> {None, Some s}"
  using str_api.live_run [OF assms] by (cases "slot_of api (fold (mem_step api os) reqs st) token") auto

lemma live_token_stable_witness:
  "slot_of shim_api (fold (mem_step shim_api (disk_os True)) [ReqSpawn None True [''calc.exe''], ReqTerminate ''m2-1'']
     one_child) ''m1-7'' \<in> {None, Some (hd (g_slots one_child))}"
  by (rule live_token_stable [OF shim_cmp.str_api_axioms one_child_table])
    (simp_all add: issues_left_def slot_of_def one_child_slot, simp_all add: one_child_def)

text \<open>A poke that is recorded, and one whose record finds no room on the disk.\<close>

lemma poke_runs: "poke_ok (fst (MemPoke shim_api (disk_os has_room) ''m1-7'' 0x1000 [0xAA, 0xBB] 2 one_child)) = has_room \<and>
    length (calls (snd (MemPoke shim_api (disk_os has_room) ''m1-7'' 0x1000 [0xAA, 0xBB] 2 one_child))) = 2"
proof -
  have "slot_of shim_api st ''m1-7'' = Some (hd (g_slots one_child))" if "g_slots st = g_slots one_child"
    for st :: "string MemState"
    using slot_of_cong [OF that, of shim_api] by (simp add: slot_of_def one_child_slot) (simp add: one_child_def)
  then have h: "MemTokenHandle shim_api st ''m1-7'' = 100" if "g_slots st = g_slots one_child" for st :: "string MemState"
    using that by (simp add: MemTokenHandle_def) (simp add: one_child_def)
  have "snd (fst (AuditWritePoke (FileOs.truncate (disk_os has_room)) (audit one_child) tier token pid cmd addr len n part w)) = has_room"
    for tier token pid cmd addr len n part w
    by (simp add: AuditWritePoke_def open_for_append_def disk_os_def FileOs.defs log_os_def one_child_def mem_start_def Let_def)
  then have p: "fst (poke_audit shim_api (disk_os has_room) True ''m1-7'' addr len n part st) = has_room"
    if "audit st = audit one_child" for addr len n part st
    using that by (simp add: poke_audit_def Let_def case_prod_beta)
  have l: "length (calls (snd (poke_audit shim_api (os :: string MemOs) True token addr len n part st))) = Suc (length (calls st))"
    for os token addr len n part st
    by (simp add: poke_audit_def Let_def case_prod_beta note_call_def)
  have "AuditIsWritable (FileOs.truncate (disk_os has_room)) (audit one_child) w = (True, w)" for w
    by (simp add: AuditIsWritable_def open_for_append_def disk_os_def FileOs.defs log_os_def one_child_def mem_start_def)
  moreover have "WriteProcessMemory (disk_os has_room) hh a bs w = (IoDone (word_of_nat (length bs)), w)"
    "has_WriteProcessMemory (disk_os has_room)" for hh a bs w
    by (simp_all add: disk_os_def FileOs.defs)
  moreover have "AuditIsArmed (audit one_child)" "MemTierCurrent (feat one_child) = MEM_TIER_PROCESS" "calls one_child = []"
    by (simp_all add: AuditIsArmed_def one_child_def mem_start_def MemTierCurrent_def no_features_def)
  ultimately show ?thesis
    using h [of one_child]
    by (simp add: MemPoke_def poke_target_def poke_write_def note_call_def Let_def
        MemRangeInBounds_def MEM_MAX_ACCESS_def case_prod_beta p l split: bool.split)
qed

lemma MemPoke_floor_witness:
  "\<exists>c new. target_floor shim_api (disk_os True) ''m1-7'' 0x1000 [0xAA, 0xBB] 2 one_child c \<and>
     calls (snd (MemPoke shim_api (disk_os True) ''m1-7'' 0x1000 [0xAA, 0xBB] 2 one_child)) = calls one_child @ c # new"
  using MemPoke_floor [where api = shim_api and os = "disk_os True" and token = "''m1-7''" and addr = "0x1000"
      and src = "[0xAA, 0xBB]" and len = 2 and st = one_child] poke_runs [of True]
  by (auto simp: case_prod_beta)

lemma MemPoke_audited_witness:
  "\<exists>w0 w1 over target. recorded (FileOs.truncate (disk_os True)) (audit one_child)
       (poke_line shim_api one_child ''m1-7'' 0x1000 2
          (fst (MemPoke shim_api (disk_os True) ''m1-7'' 0x1000 [0xAA, 0xBB] 2 one_child))) w1
       (world (snd (MemPoke shim_api (disk_os True) ''m1-7'' 0x1000 [0xAA, 0xBB] 2 one_child))) over \<and>
     written (disk_os True) target 0x1000 (take (unat (2 :: u32)) [0xAA, 0xBB]) 2 w0 w1
       (bytes_written (fst (MemPoke shim_api (disk_os True) ''m1-7'' 0x1000 [0xAA, 0xBB] 2 one_child)))
       (partial (fst (MemPoke shim_api (disk_os True) ''m1-7'' 0x1000 [0xAA, 0xBB] 2 one_child)))"
  using MemPoke_audited [where api = shim_api and os = "disk_os True" and token = "''m1-7''" and addr = "0x1000"
      and src = "[0xAA, 0xBB]" and len = 2 and st = one_child] poke_runs [of True]
  by (auto simp only: case_prod_beta if_True)

text \<open>
  The record follows the write: with a sink that opens but takes no data, memory is
  changed and no record of it is left.
\<close>

lemma poke_without_record:
  "\<exists>c over. changes_memory c \<and>
     calls (snd (MemPoke shim_api (disk_os False) ''m1-7'' 0x1000 [0xAA, 0xBB] 2 one_child)) = calls one_child @ [c, CallAudit over False]"
proof -
  have ok: "\<not> poke_ok (fst (MemPoke shim_api (disk_os False) ''m1-7'' 0x1000 [0xAA, 0xBB] 2 one_child))"
    and n: "length (calls (snd (MemPoke shim_api (disk_os False) ''m1-7'' 0x1000 [0xAA, 0xBB] 2 one_child))) = 2"
    using poke_runs [of False] by auto
  show ?thesis
    by (rule poke_cases [where api = shim_api and os = "disk_os False" and token = "''m1-7''" and addr = "0x1000"
        and src = "[0xAA, 0xBB]" and len = 2 and st = one_child])
      (use ok n in \<open>auto simp: one_child_def mem_start_def intro: changes_write_call\<close>)
qed

section \<open>Spawning\<close>

lemma join_tokens: "ArgvJoin args n = Some line \<Longrightarrow> ref_tokenize line False False [] = args"
  by (auto simp: join_writes writes_def tok_join split: if_splits)

text \<open>
  C19: with a catalog and without the override, nothing is started but a command of the
  catalog that is no shell builtin, once, on a command line that is read back as exactly
  the arguments given, with a slot free for it.  A failed start changes nothing else; after
  a good one the thread handle is closed and the process stands in that slot, under the
  token of the answer; and every refusal before leaves the state as it was.
\<close>

theorem MemSpawnRetain_gated:
  "case MemSpawnRetain api os (Some cat) False args st of (res, st') \<Rightarrow>
     st' = st \<and> \<not> spawn_ok res \<or>
     (\<exists>e line i. CatalogLookup api cat (hd args) = Some e \<and> \<not> is_builtin e \<and> free_slot st = Some i \<and>
        ref_tokenize line False False [] = args \<and>
        (case CreateProcessA os line (world st) of
           (Inl err, w) \<Rightarrow> \<not> spawn_ok res \<and> st' = st\<lparr>world := w, calls := calls st @ [CallSpawn line None]\<rparr>
         | (Inr (h, t, pid), w) \<Rightarrow>
             (case GetTickCount os (CloseHandle os t w) of (ticks, w') \<Rightarrow>
                spawn_ok res \<and> spawn_token res = slot_token (g_slots st' ! i) \<and> spawn_pid res = slot_pid (g_slots st' ! i) \<and>
                st' = st\<lparr>world := w', g_seq := g_seq st + 1,
                  calls := calls st @ [CallSpawn line (Some (h, t)), CallClose t],
                  g_slots := (g_slots st)[i := \<lparr>in_use = True, slot_token = MemMakeToken (g_seq st + 1) pid ticks,
                    handle = h, slot_pid = pid, slot_command = line\<rparr>]\<rparr>)))"
proof (cases "args = [] \<or> hd args = [] \<or> spawn_gate api (Some cat) False (hd args) \<noteq> None \<or> free_slot st = None \<or>
    ArgvJoin args MEM_MAX_CMDLINE = None")
  case True
  then show ?thesis by (auto simp: MemSpawnRetain_def spawn_refused_def split: option.splits)
next
  case False
  then obtain i line where i: "free_slot st = Some i" "ArgvJoin args MEM_MAX_CMDLINE = Some line" by auto
  obtain e where e: "CatalogLookup api cat (hd args) = Some e" "\<not> is_builtin e"
    using False by (auto simp: spawn_gate_def split: option.splits if_splits)
  obtain c w where c: "CreateProcessA os line (world st) = (c, w)" by fastforce
  show ?thesis using False i e c join_tokens [OF i(2)]
    by (auto simp: MemSpawnRetain_def spawn_refused_def note_call_def mem_close_def mem_retain_def Let_def case_prod_beta
        intro!: exI [of _ line] split: sum.split)
qed

context str_api
begin

lemma retained_resolves:
  assumes "table_ok st" "0 < issues_left st" "i < MEM_PROC_SLOTS" "\<not> in_use (g_slots st ! i)"
    "g_slots st' = g_slots (mem_retain i h pid line ticks st)" "g_seq st' = g_seq st + 1"
  defines "t \<equiv> slot_token (g_slots st' ! i)"
  shows "t \<notin> issued_tokens st" "t \<in> issued_tokens st'" "slot_of api st' t = Some (g_slots st' ! i)"
    "slot_of api st k = Some s \<Longrightarrow> slot_of api st' k = Some s"
proof -
  have len: "length (g_slots st) = MEM_PROC_SLOTS" using assms(1) by (simp add: table_ok_def)
  note new = retain_slot [OF assms(3) len assms(5)]
  have ok: "table_ok st'" by (rule retain_ok [OF assms(1-3,5,6)])
  obtain x where x: "t = ''m'' @ dec (unat (g_seq st + 1)) @ ''-'' @ x" using new_token new(3) t_def by metis
  show "t \<notin> issued_tokens st"
    unfolding x issued_tokens_def by (rule fresh_token) (simp add: next_seq [OF assms(2)])
  show r: "slot_of api st' t = Some (g_slots st' ! i)"
    unfolding t_def by (rule slot_of_index [OF ok assms(3) new(2)]) (use x t_def in simp)
  show "t \<in> issued_tokens st'" by (rule live_issued [OF ok r])
  show "slot_of api st' k = Some s" if k: "slot_of api st k = Some s"
  proof -
    obtain j where j: "j < MEM_PROC_SLOTS" "in_use (g_slots st ! j)" "slot_token (g_slots st ! j) = k" "k \<noteq> []"
      "s = g_slots st ! j" using slot_of_Some [OF k] by blast
    then have "g_slots st' ! j = g_slots st ! j" using assms(4) new(4) by metis
    then show ?thesis using slot_of_index [OF ok j(1)] j by auto
  qed
qed

end

text \<open>
  The token handed out with a spawn is new, resolves to the child that was started
  from then on, and carries its process id; the tokens already out keep their meaning.
\<close>

theorem spawn_token_resolves:
  assumes "str_api api" "table_ok st" "0 < issues_left st"
    "MemSpawnRetain api os cat unsafeMode args st = (res, st')" "spawn_ok res"
  shows "spawn_token res \<notin> issued_tokens st \<and> spawn_token res \<in> issued_tokens st' \<and>
    (\<exists>s. slot_of api st' (spawn_token res) = Some s \<and> slot_pid s = spawn_pid res) \<and>
    (\<forall>k s. slot_of api st k = Some s \<longrightarrow> slot_of api st' k = Some s)"
proof -
  obtain i h pid line ticks where r: "i < MEM_PROC_SLOTS" "\<not> in_use (g_slots st ! i)"
    "g_slots st' = g_slots (mem_retain i h pid line ticks st)" "g_seq st' = g_seq st + 1"
    "spawn_token res = slot_token (g_slots st' ! i)" "spawn_pid res = slot_pid (g_slots st' ! i)"
    by (rule spawn_table [of api os cat unsafeMode args st]) (use assms(4,5) in auto)
  note new = str_api.retained_resolves [OF assms(1-3) r(1-4)]
  show ?thesis unfolding r(5,6) using new by blast
qed

lemma spawn_token_resolves_witness:
  "\<exists>s. slot_of shim_api (snd (MemSpawnRetain shim_api (disk_os True) None True [''calc.exe''] one_child))
     (spawn_token (fst (MemSpawnRetain shim_api (disk_os True) None True [''calc.exe''] one_child))) = Some s"
proof -
  let ?r = "MemSpawnRetain shim_api (disk_os True) None True [''calc.exe''] one_child"
  have "free_slot one_child = Some 1"
    by (simp add: free_slot_def slots_upto one_child_def empty_slot_def)
  moreover have "\<exists>line. ArgvJoin [''calc.exe''] MEM_MAX_CMDLINE = Some line"
    by (simp add: join_writes writes_def MEM_MAX_CMDLINE_def esc_arg_def ArgvNeedsQuoting_def)
  ultimately have ok: "spawn_ok (fst ?r)"
    by (auto simp: MemSpawnRetain_def spawn_gate_def disk_os_def FileOs.defs log_os_def Let_def case_prod_beta)
  have "0 < issues_left one_child" by (simp add: issues_left_def one_child_def)
  from spawn_token_resolves [OF shim_cmp.str_api_axioms one_child_table this prod.collapse [symmetric] ok]
  show ?thesis by blast
qed

section \<open>The floor under a read\<close>

lemma region_le: "MemRegionAccessibleDecision m addr len w \<le> len"
  by (auto simp: MemRegionAccessibleDecision_def Let_def split: option.split)

text \<open>
  A peek reads at most once, within the cap and without a wrap: on NT through the
  handle of a live token, before NT exactly the prefix of the range that its region
  lets it read, which is what it reports, as cut when it is shorter than asked; in
  every other case it reads nothing and is an error.
\<close>

theorem MemPeek_floor:
  "case MemPeek api os token addr len st of ((res, out), st') \<Rightarrow>
     calls st' = calls st \<and> \<not> peek_ok res \<or>
     unat len \<le> 65536 \<and> unat addr + unat len < 2 ^ 32 \<and>
     (if is_nt (feat st)
      then \<exists>s. slot_of api st token = Some s \<and> handle s \<noteq> 0 \<and> calls st' = calls st @ [CallRead (handle s) addr len]
      else \<exists>mbi n. VirtualQuery os addr (world st) = Some mbi \<and> n = unat (MemRegionAccessibleDecision (Some mbi) addr len False) \<and>
        0 < n \<and> n \<le> unat len \<and> calls st' = calls st @ [CallLoad addr n] \<and> bytes_read res = n \<and>
        truncated res = (n < unat len))"
proof (cases "MemRangeInBounds addr len MEM_MAX_ACCESS")
  case True
  then have "unat len \<le> 65536" "unat addr + unat len < 2 ^ 32"
    using add_fits [of len addr] by (auto simp: MemRangeInBounds_def MEM_MAX_ACCESS_def word_less_nat_alt split: if_splits)
  then show ?thesis using True region_le
    by (auto simp: MemPeek_def peek_refused_def note_call_def Let_def MemTierCurrent_def MemTokenHandle_def
        word_less_nat_alt word_le_nat_alt unat_gt_0 split: option.splits prod.splits MemIo.splits if_splits)
qed (simp add: MemPeek_def peek_refused_def)

end
