(* ===== verification/MemHold.thy ===== *)
theory MemHold
  imports Mem
begin

text \<open>
  The handles of the retained processes, counted over the calls that the memory operations
  make: what is held is what the slots in use name, and every call on a process or a handle is
  made while it is held.
\<close>

section \<open>The count\<close>

fun opened :: "MemCall \<Rightarrow> u32 \<Rightarrow> int" where
  "opened (CallSpawn line (Some (h, t))) x = of_bool (x = h) + of_bool (x = t)"
| "opened (CallClose h) x = - of_bool (x = h)"
| "opened c x = 0"

definition held_by :: "MemCall list \<Rightarrow> u32 \<Rightarrow> int" where
  "held_by cs x = (\<Sum>c\<leftarrow>cs. opened c x)"

text \<open>The handle that a call is made on.\<close>

fun call_on :: "MemCall \<Rightarrow> u32 option" where
  "call_on (CallClose h) = Some h"
| "call_on (CallTerminate h) = Some h"
| "call_on (CallRead h a n) = Some h"
| "call_on (CallWrite h a bs) = Some h"
| "call_on c = None"

fun held_when_used :: "MemCall list \<Rightarrow> MemCall list \<Rightarrow> bool" where
  "held_when_used before [] = True"
| "held_when_used before (c # cs) =
     ((case call_on c of None \<Rightarrow> True | Some h \<Rightarrow> 0 < held_by before h) \<and> held_when_used (before @ [c]) cs)"

lemma held_by_simps [simp]:
  "held_by [] x = 0" "held_by (cs @ ds) x = held_by cs x + held_by ds x" "held_by [c] x = opened c x"
  "held_by (c # cs) x = opened c x + held_by cs x"
  by (simp_all add: held_by_def)

lemma held_append: "held_when_used b (cs @ ds) \<longleftrightarrow> held_when_used b cs \<and> held_when_used (b @ cs) ds"
  by (induction cs arbitrary: b) auto

definition slots_on :: "MemSlot list \<Rightarrow> u32 \<Rightarrow> int" where
  "slots_on ss x = (\<Sum>s\<leftarrow>ss. of_bool (in_use s \<and> handle s = x))"

lemma slots_on_update:
  "i < length ss \<Longrightarrow> slots_on (ss[i := s]) x =
     slots_on ss x + of_bool (in_use s \<and> handle s = x) - of_bool (in_use (ss ! i) \<and> handle (ss ! i) = x)"
proof (induction ss arbitrary: i)
  case (Cons a ss)
  then show ?case by (cases i) (simp_all add: slots_on_def)
qed simp

lemma slots_on_nonneg: "0 \<le> slots_on ss x"
  by (induction ss) (auto simp: slots_on_def)

lemma slots_on_pos: "i < length ss \<Longrightarrow> in_use (ss ! i) \<Longrightarrow> 0 < slots_on ss (handle (ss ! i))"
proof (induction ss arbitrary: i)
  case (Cons a ss)
  then show ?case
  proof (cases i)
    case 0
    then show ?thesis using Cons.prems slots_on_nonneg [of ss "handle a"] by (simp add: slots_on_def)
  next
    case (Suc k)
    then show ?thesis using Cons.IH [of k] Cons.prems by (simp add: slots_on_def)
  qed
qed simp

section \<open>The invariant\<close>

definition tenants_ok :: "'w MemState \<Rightarrow> bool" where
  "tenants_ok st \<longleftrightarrow> length (g_slots st) = MEM_PROC_SLOTS \<and> held_when_used [] (calls st) \<and>
     (\<forall>x. held_by (calls st) x = slots_on (g_slots st) x)"

lemma tenants_more:
  assumes "tenants_ok st" "calls st' = calls st @ new" "g_slots st' = g_slots st" "\<forall>x. held_by new x = 0"
    "held_when_used (calls st) new"
  shows "tenants_ok st'"
  using assms by (simp add: tenants_ok_def held_append)

lemma tenants_cong: "calls st' = calls st \<Longrightarrow> g_slots st' = g_slots st \<Longrightarrow> tenants_ok st \<Longrightarrow> tenants_ok st'"
  by (simp add: tenants_ok_def)

text \<open>A slot in use may be used, and closed with its entry.\<close>

lemma tenant_held: "tenants_ok st \<Longrightarrow> i < MEM_PROC_SLOTS \<Longrightarrow> in_use (g_slots st ! i) \<Longrightarrow> 0 < held_by (calls st) (handle (g_slots st ! i))"
  using slots_on_pos [of i "g_slots st"] by (simp add: tenants_ok_def)

lemma tenants_free:
  assumes "tenants_ok st" "i < MEM_PROC_SLOTS" "in_use (g_slots st ! i)"
  shows "tenants_ok (free_the_slot i (mem_close os (handle (g_slots st ! i)) st))"
  using assms tenant_held [OF assms]
  by (auto simp: tenants_ok_def free_the_slot_def mem_close_def note_call_def slots_on_update held_append)

lemma find_slot_used: "MemFindSlot api st token = Some i \<Longrightarrow> i < MEM_PROC_SLOTS \<and> in_use (g_slots st ! i)"
  by (auto simp: MemFindSlot_def find_Some_iff split: if_splits)

lemma token_held: "tenants_ok st \<Longrightarrow> slot_of api st token = Some s \<Longrightarrow> 0 < held_by (calls st) (handle s)"
  by (auto simp: slot_of_def dest: find_slot_used intro: tenant_held)

lemma tenants_note: "tenants_ok st \<Longrightarrow> \<forall>x. opened c x = 0 \<Longrightarrow> case call_on c of None \<Rightarrow> True | Some h \<Rightarrow> 0 < held_by (calls st) h \<Longrightarrow>
    tenants_ok (note_call c (st\<lparr>world := w\<rparr>))"
  by (auto simp: tenants_ok_def note_call_def held_append)

lemma tenants_release: "tenants_ok st \<Longrightarrow> tenants_ok (snd (MemRelease api os token st))"
  by (auto simp: MemRelease_def split: option.split dest: find_slot_used intro: tenants_free)

lemma tenants_terminate:
  assumes "tenants_ok st"
  shows "tenants_ok (snd (MemTerminate api os token st))"
proof (cases "MemFindSlot api st token")
  case (Some i)
  let ?h = "handle (g_slots st ! i)"
  let ?st = "note_call (CallTerminate ?h) (st\<lparr>world := TerminateProcess os ?h (world st)\<rparr>)"
  note u = find_slot_used [OF Some]
  have t: "tenants_ok ?st" using tenant_held [OF assms] u by (intro tenants_note [OF assms]) auto
  have "g_slots ?st = g_slots st" by simp
  then show ?thesis using tenants_free [OF t, of i os] u Some by (simp add: MemTerminate_def Let_def)
qed (use assms in \<open>simp add: MemTerminate_def\<close>)

lemma tenants_spawn:
  assumes "tenants_ok st"
  shows "tenants_ok (snd (MemSpawnRetain api os cat u args st))"
proof (cases "args = [] \<or> hd args = [] \<or> spawn_gate api cat u (hd args) \<noteq> None \<or> free_slot st = None \<or>
    ArgvJoin args MEM_MAX_CMDLINE = None")
  case True
  then show ?thesis using assms by (auto simp: MemSpawnRetain_def split: option.splits)
next
  case False
  then obtain i line where i: "free_slot st = Some i" "ArgvJoin args MEM_MAX_CMDLINE = Some line" by auto
  have "i < MEM_PROC_SLOTS" "\<not> in_use (g_slots st ! i)" using i(1) by (auto simp: free_slot_def dest: find_Some_D)
  moreover obtain c w where c: "CreateProcessA os line (world st) = (c, w)" by fastforce
  ultimately show ?thesis using False i assms slots_on_nonneg [of "g_slots st"]
    by (auto simp: MemSpawnRetain_def note_call_def mem_close_def mem_retain_def Let_def case_prod_beta tenants_ok_def
        held_append slots_on_update add_nonneg_pos add_pos_nonneg split: sum.split)
qed

lemma tenants_reads:
  "tenants_ok st \<Longrightarrow> tenants_ok (note_call (CallLoad a n) st)"
  "tenants_ok st \<Longrightarrow> slot_of api st token = Some s \<Longrightarrow> tenants_ok (note_call (CallRead (handle s) a m) (st\<lparr>world := w\<rparr>))"
  using tenants_note [of st "CallLoad a n" "world st"] token_held [of st api token s] by (auto intro: tenants_note)

lemma tenants_peek: "tenants_ok st \<Longrightarrow> tenants_ok (snd (MemPeek api os token addr len st))"
  by (auto simp: MemPeek_def Let_def MemTokenHandle_def case_prod_beta intro: tenants_reads split: option.split MemIo.split)

lemma tenants_poke:
  assumes "tenants_ok st"
  shows "tenants_ok (snd (MemPoke api os token addr src len st))"
proof -
  have slots: "g_slots (snd (MemPoke api os token addr src len st)) = g_slots st"
    by (auto simp: MemPoke_def Let_def split: prod.split bool.split option.split sum.split
        dest!: poke_write_table poke_audit_table)
  show ?thesis
  proof (rule poke_cases [of api os token addr src len st])
    assume "calls (snd (MemPoke api os token addr src len st)) = calls st"
    then show ?thesis by (rule tenants_cong [OF _ slots assms])
  next
    fix target new
    assume t: "poke_target api os token addr len st = Inr target"
      "calls (snd (MemPoke api os token addr src len st)) = calls st @ write_call target addr (take (unat len) src) # new"
      "new = [] \<and> \<not> poke_ok (fst (MemPoke api os token addr src len st)) \<and>
         poke_reason (fst (MemPoke api os token addr src len st)) = ''write failed'' \<or>
       (\<exists>over. new = [CallAudit over (poke_ok (fst (MemPoke api os token addr src len st)))] \<and>
          (\<not> poke_ok (fst (MemPoke api os token addr src len st)) \<longrightarrow>
           poke_reason (fst (MemPoke api os token addr src len st)) \<noteq> []))"
    have "case target of None \<Rightarrow> True | Some h \<Rightarrow> 0 < held_by (calls st) h"
      using poke_target_Inr [OF t(1), of src] token_held [OF assms]
      by (auto simp: target_floor_def split: option.splits if_splits)
    then show ?thesis using t(3)
      by (intro tenants_more [OF assms t(2) slots]) (auto simp: write_call_def split: option.splits)
  qed
qed

section \<open>The release of all\<close>

definition none_retained :: "'w MemState \<Rightarrow> bool" where
  "none_retained st \<longleftrightarrow> length (g_slots st) = MEM_PROC_SLOTS \<and> (\<forall>i < MEM_PROC_SLOTS. \<not> in_use (g_slots st ! i))"

lemma release_all:
  assumes "tenants_ok st"
  shows "tenants_ok (MemReleaseAll os st) \<and> none_retained (MemReleaseAll os st)"
proof -
  let ?f = "\<lambda>i st. if in_use (g_slots st ! i) then free_the_slot i (mem_close os (handle (g_slots st ! i)) st) else st"
  have "tenants_ok (fold ?f [0..<k] st) \<and> (\<forall>i < k. \<not> in_use (g_slots (fold ?f [0..<k] st) ! i))"
    if "k \<le> MEM_PROC_SLOTS" for k
    using that
  proof (induction k)
    case (Suc k)
    let ?s = "fold ?f [0..<k] st"
    have s: "tenants_ok ?s" "\<forall>i < k. \<not> in_use (g_slots ?s ! i)" using Suc by auto
    have len: "length (g_slots ?s) = MEM_PROC_SLOTS" using s(1) by (simp add: tenants_ok_def)
    have "tenants_ok (?f k ?s)" using tenants_free [OF s(1), of k os] Suc.prems s(1) by auto
    moreover have "\<forall>i < Suc k. \<not> in_use (g_slots (?f k ?s) ! i)"
      using s(2) len Suc.prems by (auto simp: free_the_slot_def nth_list_update less_Suc_eq)
    ultimately show ?case by simp
  qed (simp add: assms)
  from this [of MEM_PROC_SLOTS] show ?thesis by (simp add: MemReleaseAll_def none_retained_def tenants_ok_def)
qed

lemma none_held: "tenants_ok st \<Longrightarrow> none_retained st \<Longrightarrow> held_by (calls st) x = 0"
proof -
  assume a: "tenants_ok st" "none_retained st"
  have "slots_on ss x = 0" if "\<forall>s \<in> set ss. \<not> in_use s" for ss
    using that by (induction ss) (auto simp: slots_on_def)
  then show ?thesis using a by (auto simp: tenants_ok_def none_retained_def all_set_conv_all_nth)
qed

end
