(* ===== verification/EncTier.thy ===== *)
theory EncTier
  imports Utf8 Charset Feat
begin

text \<open>
  The tier surface of \<^verbatim>\<open>src/src/encoding.c\<close>: which form of a path goes to the file
  services, and how bytes of the system become the UTF-8 of the wire.  The code page
  tables are an argument; \<^verbatim>\<open>GetACP\<close>, \<^verbatim>\<open>GetOEMCP\<close> and \<^verbatim>\<open>GetConsoleOutputCP\<close> are
  their answers.
\<close>

datatype EncTier = ENC_TIER_MANIFEST | ENC_TIER_WIDE | ENC_TIER_CODEPAGE

definition CP_UTF8_ID :: nat where "CP_UTF8_ID = 65001"
definition ENC_PATH_WIDE :: nat where "ENC_PATH_WIDE = 260"
definition ENC_PATH_MB :: nat where "ENC_PATH_MB = 260 * 4 + 1"
definition ENC_WIRE_BYTES :: nat where "ENC_WIRE_BYTES = 512"
definition ENC_WIRE_UNITS :: nat where "ENC_WIRE_UNITS = 512"

section \<open>The tier\<close>

definition EncTierCurrent :: "Features \<Rightarrow> nat \<Rightarrow> EncTier" where
  "EncTierCurrent f acp =
     (if is_nt f \<and> acp = CP_UTF8_ID then ENC_TIER_MANIFEST
      else if is_nt f \<and> has_wide_fileapi f then ENC_TIER_WIDE
      else ENC_TIER_CODEPAGE)"

fun EncTierName :: "EncTier \<Rightarrow> string" where
  "EncTierName ENC_TIER_MANIFEST = ''manifest''"
| "EncTierName ENC_TIER_WIDE = ''wide''"
| "EncTierName ENC_TIER_CODEPAGE = ''codepage''"

definition EncProvenanceTag :: "Features \<Rightarrow> nat \<Rightarrow> string" where
  "EncProvenanceTag f acp =
     (case EncTierCurrent f acp of
        ENC_TIER_MANIFEST \<Rightarrow> ''utf8_manifest''
      | ENC_TIER_WIDE \<Rightarrow> ''utf8_via_w''
      | ENC_TIER_CODEPAGE \<Rightarrow> ''utf8_from_cp'')"

text \<open>\<open>console\<close> is \<^const>\<open>None\<close> where \<^verbatim>\<open>GetConsoleOutputCP\<close> does not resolve.\<close>

definition EncConsoleOutputCp :: "nat option \<Rightarrow> nat \<Rightarrow> nat" where
  "EncConsoleOutputCp console oemcp =
     (case console of None \<Rightarrow> oemcp | Some page \<Rightarrow> if page \<noteq> 0 then page else oemcp)"

definition EncManifestUtf8Active :: "nat \<Rightarrow> bool" where
  "EncManifestUtf8Active acp \<longleftrightarrow> acp = CP_UTF8_ID"

section \<open>Inbound paths\<close>

record EncPathForm =
  useWide :: bool
  path_status :: EncStatus
  rejectAt :: int
  wOut :: "u16 list"
  mbOut :: "u8 list"

definition clean_form :: EncPathForm where
  "clean_form = \<lparr> useWide = False, path_status = ENC_OK, rejectAt = - 1, wOut = [], mbOut = [] \<rparr>"

text \<open>The path is its bytes up to the terminator; so are the two outputs.\<close>

definition EncOpenPath :: "CpPage list \<Rightarrow> Features \<Rightarrow> nat \<Rightarrow> u8 list \<Rightarrow> EncPathForm" where
  "EncOpenPath pages f acp utf8Path =
     (let tier = EncTierCurrent f acp in
      if tier = ENC_TIER_MANIFEST then
        (if length utf8Path > ENC_PATH_MB - 1
         then clean_form\<lparr>path_status := ENC_TRUNCATED, mbOut := take (ENC_PATH_MB - 1) utf8Path\<rparr>
         else clean_form\<lparr>mbOut := utf8Path\<rparr>)
      else case Utf8ToUtf16 utf8Path (ENC_PATH_WIDE - 1) of (wide, st) \<Rightarrow>
        if tier = ENC_TIER_WIDE then clean_form\<lparr>wOut := wide, useWide := True, path_status := st\<rparr>
        else (case CpEncode pages (int acp) wide (ENC_PATH_MB - 1) of
            CpReject k \<Rightarrow> clean_form\<lparr>path_status := ENC_REJECTED, rejectAt := int k\<rparr>
          | CpOverflow \<Rightarrow> clean_form\<lparr>path_status := ENC_TRUNCATED\<rparr>
          | CpBytes bs \<Rightarrow>
              clean_form\<lparr>mbOut := bs, path_status := (if st = ENC_LOSSY then ENC_LOSSY else ENC_OK)\<rparr>))"

section \<open>Outbound bytes\<close>

text \<open>Back from a window's end over continuation bytes, to where a character starts.\<close>

primrec back_off :: "u8 list \<Rightarrow> nat \<Rightarrow> nat" where
  "back_off mb 0 = 0"
| "back_off mb (Suc w) = (if mb ! Suc w AND 0xC0 = 0x80 then back_off mb w else Suc w)"

definition wire_window :: "u8 list \<Rightarrow> nat" where
  "wire_window mb =
     (if length mb > ENC_WIRE_BYTES
      then let win = back_off mb ENC_WIRE_BYTES in if win = 0 then length mb else win
      else length mb)"

text \<open>One round: the units of the next window, whether any was substituted, and the bytes used.\<close>

definition wire_chunk :: "CpPage list \<Rightarrow> nat \<Rightarrow> u8 list \<Rightarrow> u16 list \<times> bool \<times> nat" where
  "wire_chunk pages srcCp mb =
     (if srcCp = CP_UTF8_ID then
        (let win = wire_window mb in
         case Utf8ToUtf16 (take win mb) ENC_WIRE_UNITS of (wide, ds) \<Rightarrow> (wide, ds = ENC_LOSSY, win))
      else if CpSupported pages (int srcCp) then
        (case CpDecode pages (int srcCp) mb ENC_WIRE_UNITS of
           (wide, lz, cons) \<Rightarrow> (wide, lz, if cons = 0 then 1 else cons))
      else (map (\<lambda>b. word_of_nat (unat b)) (take ENC_WIRE_UNITS mb), False, min ENC_WIRE_UNITS (length mb)))"

lemma wire_chunk_progress:
  assumes "mb \<noteq> []" "wire_chunk pages srcCp mb = (wide, lz, n)"
  shows "0 < n"
  using assms by (auto simp: wire_chunk_def wire_window_def Let_def ENC_WIRE_UNITS_def split: if_splits prod.splits)

lemma wire_chunk_shorter:
  "mb \<noteq> [] \<Longrightarrow> (wide, lz, n) = wire_chunk pages srcCp mb \<Longrightarrow> length mb - n < length mb"
  using wire_chunk_progress [of mb pages srcCp wide lz n] by simp

function enc_wire_loop ::
    "CpPage list \<Rightarrow> nat \<Rightarrow> nat \<Rightarrow> u8 list \<Rightarrow> u8 list \<Rightarrow> bool \<Rightarrow> u8 list \<times> EncStatus" where
  "enc_wire_loop pages srcCp outCap mb out lossyAny =
     (if mb = [] then (out, if lossyAny then ENC_LOSSY else ENC_OK)
      else case wire_chunk pages srcCp mb of (wide, lz, n) \<Rightarrow>
        case Utf16ToUtf8 wide (outCap - length out) of (bs, es) \<Rightarrow>
          if es = ENC_TRUNCATED then (out @ bs, ENC_TRUNCATED)
          else enc_wire_loop pages srcCp outCap (drop n mb) (out @ bs) (lossyAny \<or> lz))"
  by pat_completeness auto
termination
  by (relation "measure (\<lambda>(_, _, _, mb, _, _). length mb)") (auto intro: wire_chunk_shorter)

declare enc_wire_loop.simps [simp del]

definition EncBytesToWire :: "CpPage list \<Rightarrow> nat \<Rightarrow> u8 list \<Rightarrow> nat \<Rightarrow> u8 list \<times> EncStatus" where
  "EncBytesToWire pages srcCp mb outCap = enc_wire_loop pages srcCp outCap mb [] False"

definition EncWideToWire :: "u16 list \<Rightarrow> nat \<Rightarrow> u8 list \<times> EncStatus" where
  "EncWideToWire units outCap = Utf16ToUtf8 units outCap"

section \<open>The wire is UTF-8\<close>

lemma encode_valid:
  assumes "Utf16ToUtf8 us cap = (bs, es)"
  obtains cps where "is_text cps" "bs = utf8_of cps" "length bs \<le> cap"
  using assms encode_sound [of cap us "[]" ENC_OK bs es] by (auto simp: Utf16ToUtf8_def)

lemma wire_loop_valid:
  "length out \<le> cap \<Longrightarrow> enc_wire_loop pages srcCp cap mb out lossy = (r, st) \<Longrightarrow>
     \<exists>cps. is_text cps \<and> r = out @ utf8_of cps \<and> length r \<le> cap"
proof (induction pages srcCp cap mb out lossy rule: enc_wire_loop.induct)
  case (1 pages srcCp cap mb out lossy)
  show ?case
  proof (cases "mb = []")
    case True
    then show ?thesis using 1(2,3) by (intro exI [of _ "[]"]) (simp add: enc_wire_loop.simps [of _ _ _ "[]"])
  next
    case False
    obtain wide lz n where c: "wire_chunk pages srcCp mb = (wide, lz, n)" by (cases "wire_chunk pages srcCp mb")
    obtain bs es where e: "Utf16ToUtf8 wide (cap - length out) = (bs, es)" by fastforce
    obtain cps where cps: "is_text cps" "bs = utf8_of cps" "length bs \<le> cap - length out"
      using encode_valid [OF e] .
    show ?thesis
    proof (cases "es = ENC_TRUNCATED")
      case True
      then show ?thesis using 1(2,3) False c e cps
        by (intro exI [of _ cps]) (auto simp: enc_wire_loop.simps [of pages srcCp cap mb])
    next
      case nt: False
      have "enc_wire_loop pages srcCp cap (drop n mb) (out @ bs) (lossy \<or> lz) = (r, st)"
        using 1(3) False c e nt by (simp add: enc_wire_loop.simps [of pages srcCp cap mb])
      moreover have "length (out @ bs) \<le> cap" using 1(2) cps(3) by simp
      ultimately obtain ds where "is_text ds" "r = (out @ bs) @ utf8_of ds" "length r \<le> cap"
        using 1(1) [OF False c [symmetric] refl e [symmetric] nt] by blast
      then show ?thesis using cps by (intro exI [of _ "cps @ ds"]) simp
    qed
  qed
qed

text \<open>
  C21: whatever the code page, known or not, and whatever the bytes, what goes out on the
  wire is the UTF-8 form of a Unicode text, within the buffer and never cut inside a
  character.
\<close>

theorem EncBytesToWire_valid:
  "\<exists>cps. is_text cps \<and> fst (EncBytesToWire pages srcCp mb outCap) = utf8_of cps \<and> length (utf8_of cps) \<le> outCap"
  using wire_loop_valid [of "[]" outCap pages srcCp mb False] by (cases "EncBytesToWire pages srcCp mb outCap")
    (auto simp: EncBytesToWire_def)

section \<open>Windows of a text end between characters\<close>

definition is_cont :: "u8 \<Rightarrow> bool" where
  "is_cont b \<longleftrightarrow> b AND 0xC0 = 0x80"

lemma and_push_bit: "(n :: nat) AND push_bit k m = push_bit k (drop_bit k n AND m)"
  by (rule bit_eqI) (auto simp: bit_and_iff bit_push_bit_iff bit_drop_bit_eq)

lemma high_bits: "(n :: nat) AND 0xC0 = 64 * (n div 64 mod 4)"
proof -
  have "n AND push_bit 6 3 = push_bit 6 (drop_bit 6 n AND 3)" by (rule and_push_bit)
  moreover have "drop_bit 6 n AND 3 = n div 64 mod 4"
    using take_bit_eq_mask [of 2 "drop_bit 6 n"] by (simp add: take_bit_eq_mod drop_bit_eq_div mask_eq_exp_minus_1)
  ultimately show ?thesis by (simp add: push_bit_eq_mult mult.commute)
qed

lemma is_cont_range: "is_cont b \<longleftrightarrow> 128 \<le> unat b \<and> unat b < 192"
proof -
  have "unat b < 2 ^ LENGTH(8)" by (rule unsigned_less)
  then have "unat b div 64 < 4" by simp
  then have "is_cont b \<longleftrightarrow> unat b div 64 = 2"
    by (simp add: is_cont_def word_unat_eq_iff unsigned_and_eq high_bits)
  then show ?thesis by linarith
qed

lemma char_bytes:
  assumes "scalar c"
  obtains b bs where "utf8_bytes c = b # bs" "\<not> is_cont b" "\<forall>x \<in> set bs. is_cont x"
proof -
  have lt: "c < 0x110000" by (rule scalar_lt [OF assms])
  have q: "c div 262144 < 5" using lt by simp
  have m: "c mod 64 < 64" "c div 64 mod 64 < 64" "c div 4096 mod 64 < 64" by simp_all
  have cont: "is_cont (word_of_nat (128 + x))" if "x < 64" for x
    using that by (simp add: is_cont_range unat_byte del: of_nat_add)
  have lead: "128 \<le> n \<and> n < 192" if "is_cont (word_of_nat n)" "n < 256" for n
    using that by (simp add: is_cont_range unat_byte)
  have b: "c \<le> 2047 \<Longrightarrow> c div 64 < 32" "c \<le> 65535 \<Longrightarrow> c div 4096 < 16" by simp_all
  have "\<exists>b bs. utf8_bytes c = b # bs \<and> \<not> is_cont b \<and> (\<forall>x \<in> set bs. is_cont x)"
    unfolding utf8_bytes_nats(1) [OF lt] utf8_nats_def
    using m q b by (auto intro!: cont dest!: lead simp del: of_nat_add split: if_splits)
  then show ?thesis using that by blast
qed

lemma boundary:
  assumes "is_text cps" "w \<le> length (utf8_of cps)" "w < length (utf8_of cps) \<longrightarrow> \<not> is_cont (utf8_of cps ! w)"
  shows "\<exists>as bs. cps = as @ bs \<and> take w (utf8_of cps) = utf8_of as \<and> drop w (utf8_of cps) = utf8_of bs"
  using assms
proof (induction cps arbitrary: w)
  case (Cons c cs)
  obtain b bs where b: "utf8_bytes c = b # bs" "\<not> is_cont b" "\<forall>x \<in> set bs. is_cont x"
    using char_bytes Cons.prems(1) by auto
  show ?case
  proof (cases "w = 0")
    case True
    then show ?thesis by (intro exI [of _ "[]"] exI [of _ "c # cs"]) simp
  next
    case False
    have "\<not> w < length (b # bs)"
    proof
      assume w: "w < length (b # bs)"
      then have "utf8_of (c # cs) ! w \<in> set bs"
        using False b(1) by (cases w) (simp_all add: nth_append)
      then show False using Cons.prems(3) w b by auto
    qed
    then obtain v where v: "w = length (b # bs) + v" by (metis le_add_diff_inverse not_less)
    obtain as ds where "cs = as @ ds" "take v (utf8_of cs) = utf8_of as" "drop v (utf8_of cs) = utf8_of ds"
      using Cons.IH [of v] Cons.prems b(1) v by (auto simp: nth_append)
    then show ?thesis using b(1) v by (intro exI [of _ "c # as"] exI [of _ ds]) simp
  qed
qed simp

lemma back_off_spec:
  "back_off mb w \<le> w \<and> (back_off mb w \<noteq> 0 \<longrightarrow> \<not> is_cont (mb ! back_off mb w)) \<and>
     (\<forall>k. back_off mb w < k \<longrightarrow> k \<le> w \<longrightarrow> is_cont (mb ! k))"
  by (induction w) (auto simp: is_cont_def le_Suc_eq)

text \<open>The window of a text: a whole number of characters, and at least one.\<close>

lemma window_text:
  assumes "is_text cps" "cps \<noteq> []"
  obtains as bs where "cps = as @ bs" "take (wire_window (utf8_of cps)) (utf8_of cps) = utf8_of as"
    "drop (wire_window (utf8_of cps)) (utf8_of cps) = utf8_of bs" "length (utf8_of as) \<le> 512"
proof -
  let ?mb = "utf8_of cps"
  let ?w = "wire_window ?mb"
  have w: "?w \<le> length ?mb \<and> ?w \<le> 512 \<and> (?w < length ?mb \<longrightarrow> \<not> is_cont (?mb ! ?w))"
  proof (cases "512 < length ?mb")
    case False
    then show ?thesis by (simp add: wire_window_def ENC_WIRE_BYTES_def)
  next
    case True
    note spec = back_off_spec [of ?mb 512]
    have "back_off ?mb 512 \<noteq> 0"
    proof
      assume z: "back_off ?mb 512 = 0"
      obtain c cs where c: "cps = c # cs" "scalar c" using assms by (cases cps) auto
      have n: "1 \<le> utf8_len c" "utf8_len c \<le> 4" by (simp_all add: utf8_len_def)
      then have "utf8_of cs \<noteq> []" using True c by (auto simp: length_utf8_bytes)
      then obtain d ds where d: "cs = d # ds" "scalar d" using assms(1) c by (cases cs) auto
      obtain b bs where b: "utf8_bytes d = b # bs" "\<not> is_cont b" using char_bytes [OF d(2)] .
      have "?mb ! utf8_len c = b" using c d b(1) by (simp add: nth_append length_utf8_bytes)
      then show False using spec z n b(2) by auto
    qed
    then show ?thesis using spec True by (auto simp: wire_window_def ENC_WIRE_BYTES_def Let_def)
  qed
  obtain as bs where e: "cps = as @ bs" "take ?w ?mb = utf8_of as" "drop ?w ?mb = utf8_of bs"
    using boundary [OF assms(1), of ?w] w by blast
  have "length (take ?w ?mb) \<le> 512" using w by simp
  then have "length (utf8_of as) \<le> 512" by (simp only: e(2))
  then show ?thesis using that e by blast
qed

lemma wire_loop_text:
  assumes "is_text cps" "length out + length (utf8_of cps) \<le> cap"
  shows "enc_wire_loop pages CP_UTF8_ID cap (utf8_of cps) out lossy =
    (out @ utf8_of cps, if lossy then ENC_LOSSY else ENC_OK)"
  using assms
proof (induction "length (utf8_of cps)" arbitrary: cps out rule: less_induct)
  case less
  show ?case
  proof (cases "cps = []")
    case True
    then show ?thesis by (simp add: enc_wire_loop.simps)
  next
    case False
    let ?w = "wire_window (utf8_of cps)"
    obtain as bs where w: "cps = as @ bs" "take ?w (utf8_of cps) = utf8_of as" "drop ?w (utf8_of cps) = utf8_of bs"
      "length (utf8_of as) \<le> 512"
      using window_text [OF less.prems(1) False] .
    have ne: "utf8_of cps \<noteq> []"
    proof -
      obtain c cs where "cps = c # cs" using False by (cases cps) auto
      moreover have "1 \<le> utf8_len c" by (simp add: utf8_len_def)
      ultimately show ?thesis using length_utf8_bytes [of c] by auto
    qed
    have as: "is_text as" "is_text bs" using less.prems(1) w(1) by simp_all
    have len: "length (utf16_of as) \<le> length (utf8_of as)"
      by (induction as) (simp_all add: add_mono length_utf16_units length_utf8_bytes)
    have dec: "Utf8ToUtf16 (utf8_of as) ENC_WIRE_UNITS = (utf16_of as, ENC_OK)"
      using decode_text [OF as(1), of "[]" ENC_WIRE_UNITS "[]" ENC_OK] len w(4)
      by (simp add: Utf8ToUtf16_def ENC_WIRE_UNITS_def)
    have enc: "Utf16ToUtf8 (utf16_of as) (cap - length out) = (utf8_of as, ENC_OK)"
      using encode_text [OF as(1), of "[]" "cap - length out" "[]" ENC_OK] less.prems(2) w(1)
      by (simp add: Utf16ToUtf8_def)
    have chunk: "wire_chunk pages CP_UTF8_ID (utf8_of cps) = (utf16_of as, False, ?w)"
      by (simp add: wire_chunk_def Let_def w(2) dec)
    have "0 < ?w" by (rule wire_chunk_progress [OF ne chunk])
    then have "length (utf8_of bs) < length (utf8_of cps)"
      using ne arg_cong [OF w(3), of length] by (metis diff_less length_drop length_greater_0_conv)
    then have "enc_wire_loop pages CP_UTF8_ID cap (utf8_of bs) (out @ utf8_of as) lossy =
        ((out @ utf8_of as) @ utf8_of bs, if lossy then ENC_LOSSY else ENC_OK)"
      using less.hyps [of bs "out @ utf8_of as"] as(2) less.prems(2) w(1) by simp
    moreover have "enc_wire_loop pages CP_UTF8_ID cap (utf8_of cps) out lossy =
        enc_wire_loop pages CP_UTF8_ID cap (utf8_of bs) (out @ utf8_of as) lossy"
      by (subst enc_wire_loop.simps) (simp only: ne chunk enc w(3) split if_False EncStatus.distinct prod.case, simp)
    ultimately show ?thesis using w(1) by simp
  qed
qed

text \<open>
  C22: bytes that are already the UTF-8 of a text, of any length, go out unchanged and
  with a clean status when the buffer holds them: the windows the code cuts them into
  never split a character and never show in the result.
\<close>

theorem EncBytesToWire_text:
  assumes "is_text cps" "length (utf8_of cps) \<le> outCap"
  shows "EncBytesToWire pages 65001 (utf8_of cps) outCap = (utf8_of cps, ENC_OK)"
  using wire_loop_text [of cps "[]" outCap pages False] assms by (simp add: EncBytesToWire_def CP_UTF8_ID_def)

lemma EncBytesToWire_text_witness:
  "EncBytesToWire [] 65001 (utf8_of (replicate 300 0x20AC)) 1000 = (utf8_of (replicate 300 0x20AC), ENC_OK)"
proof (rule EncBytesToWire_text)
  show "is_text (replicate 300 0x20AC)" by (simp add: is_text_def scalar_def)
  have "length (utf8_of (replicate n 0x20AC)) = 3 * n" for n
    by (induction n) (simp_all add: length_utf8_bytes utf8_len_def)
  then show "length (utf8_of (replicate 300 0x20AC)) \<le> 1000" by simp
qed

section \<open>Unknown pages\<close>

lemma byte_text: "is_text (map unat (bs :: u8 list))"
  "utf16_of (map unat bs) = map (\<lambda>b. word_of_nat (unat b)) bs"
proof -
  have "unat b < 2 ^ LENGTH(8)" for b :: u8 by (rule unsigned_less)
  then have b: "unat b < 256" for b :: u8 by simp
  have "scalar (unat b)" for b :: u8 using b [of b] by (simp add: scalar_def)
  then show "is_text (map unat bs)" by (simp add: is_text_def)
  have "utf16_units (unat b) = [word_of_nat (unat b)]" for b :: u8
    using b [of b] by (simp add: utf16_units_def)
  then show "utf16_of (map unat bs) = map (\<lambda>b. word_of_nat (unat b)) bs" by (induction bs) simp_all
qed

lemma wire_loop_latin1:
  assumes "srcCp \<noteq> CP_UTF8_ID" "\<not> CpSupported pages (int srcCp)"
  shows "length out + length (utf8_of (map unat mb)) \<le> cap \<Longrightarrow>
    enc_wire_loop pages srcCp cap mb out False = (out @ utf8_of (map unat mb), ENC_OK)"
proof (induction "length mb" arbitrary: mb out rule: less_induct)
  case less
  show ?case
  proof (cases "mb = []")
    case True
    then show ?thesis by (simp add: enc_wire_loop.simps)
  next
    case False
    let ?a = "take ENC_WIRE_UNITS mb" and ?b = "drop ENC_WIRE_UNITS mb"
    have split: "utf8_of (map unat mb) = utf8_of (map unat ?a) @ utf8_of (map unat ?b)"
      by (metis append_take_drop_id map_append text_simps(3))
    have chunk: "wire_chunk pages srcCp mb = (utf16_of (map unat ?a), False, min ENC_WIRE_UNITS (length mb))"
      using assms by (simp add: wire_chunk_def byte_text)
    have enc: "Utf16ToUtf8 (utf16_of (map unat ?a)) (cap - length out) = (utf8_of (map unat ?a), ENC_OK)"
      using encode_text [OF byte_text(1) [of ?a], of "[]" "cap - length out" "[]" ENC_OK] less.prems split
      by (simp add: Utf16ToUtf8_def)
    have "enc_wire_loop pages srcCp cap ?b (out @ utf8_of (map unat ?a)) False =
        ((out @ utf8_of (map unat ?a)) @ utf8_of (map unat ?b), ENC_OK)"
      using less.hyps [of ?b "out @ utf8_of (map unat ?a)"] less.prems False split by (simp add: ENC_WIRE_UNITS_def)
    moreover have "drop (min ENC_WIRE_UNITS (length mb)) mb = ?b" by (simp add: min_def)
    ultimately show ?thesis unfolding split
      by (subst enc_wire_loop.simps) (simp only: False chunk enc split if_False EncStatus.distinct prod.case, simp)
  qed
qed

text \<open>
  Bytes of a code page the device has no table for are taken as ISO-8859-1: every
  byte goes out as the character of its number, none is dropped or substituted.
\<close>

theorem EncBytesToWire_latin1:
  assumes "srcCp \<noteq> 65001" "\<not> CpSupported pages (int srcCp)" "2 * length mb \<le> outCap"
  shows "EncBytesToWire pages srcCp mb outCap = (utf8_of (map unat mb), ENC_OK)"
proof -
  have "unat b < 2 ^ LENGTH(8)" for b :: u8 by (rule unsigned_less)
  then have b: "unat b < 256" for b :: u8 by simp
  have l: "utf8_len (unat b) \<le> 2" for b :: u8 using b [of b] by (simp add: utf8_len_def)
  have "length (utf8_of (map unat mb)) \<le> 2 * length mb"
  proof (induction mb)
    case (Cons a mb)
    then show ?case using l [of a] by (simp add: length_utf8_bytes)
  qed simp
  then show ?thesis using wire_loop_latin1 [of srcCp pages "[]" mb outCap] assms
    by (simp add: EncBytesToWire_def CP_UTF8_ID_def)
qed

lemma EncBytesToWire_latin1_witness:
  "EncBytesToWire [] 437 (replicate 600 0xE9) 1200 = (utf8_of (map unat (replicate 600 (0xE9 :: u8))), ENC_OK)"
  by (rule EncBytesToWire_latin1) (simp_all add: CpSupported_def)

section \<open>A window without a character start\<close>

text \<open>
  Where 512 continuation bytes follow each other the window takes the whole rest of the
  input, the units of all of it do not fit, and what does not fit is dropped with the
  status clean.
\<close>

lemma back_off_run: "w \<le> 512 \<Longrightarrow> back_off (replicate 513 0x80 @ s) w = 0"
  by (induction w) (simp_all add: nth_append)

lemma decode_run:
  "length out + k = 513 \<Longrightarrow>
    utf8_loop 512 (replicate k 0x80 @ s) out st = (out @ replicate (k - 1) (word_of_nat CP_REPLACEMENT), ENC_TRUNCATED) \<or> k = 0"
proof (induction k arbitrary: out st)
  case (Suc k)
  have lead: "utf8_lead (unat (0x80 :: u8)) = (0, 0x80, 0xBF, 0)" by (simp add: utf8_lead_def)
  show ?case
  proof (cases k)
    case 0
    then show ?thesis using Suc.prems lead by (simp add: utf8_loop.simps(2))
  next
    case (Suc j)
    have "utf8_loop 512 (replicate (Suc k) 0x80 @ s) out st =
        utf8_loop 512 (replicate k 0x80 @ s) (out @ [word_of_nat CP_REPLACEMENT]) ENC_LOSSY"
      using Suc Suc.prems lead by (simp add: utf8_loop.simps(2))
    then show ?thesis using Suc.IH [of "out @ [word_of_nat CP_REPLACEMENT]" ENC_LOSSY] Suc Suc.prems by simp
  qed
qed simp

lemma EncBytesToWire_drops_tail:
  assumes "1536 \<le> outCap"
  shows "EncBytesToWire pages 65001 (replicate 513 0x80 @ s) outCap = (utf8_of (replicate 512 CP_REPLACEMENT), ENC_OK)"
proof -
  let ?mb = "replicate 513 (0x80 :: u8) @ s"
  have win: "wire_window ?mb = length ?mb"
    by (simp add: wire_window_def ENC_WIRE_BYTES_def back_off_run [of 512] Let_def)
  have units: "replicate 512 (word_of_nat CP_REPLACEMENT) = utf16_of (replicate 512 CP_REPLACEMENT)"
    by (simp add: utf16_of_def utf16_units_def CP_REPLACEMENT_def concat_replicate_single)
  have dec: "Utf8ToUtf16 ?mb ENC_WIRE_UNITS = (utf16_of (replicate 512 CP_REPLACEMENT), ENC_TRUNCATED)"
    using decode_run [of "[]" 513 s ENC_OK] by (simp add: Utf8ToUtf16_def ENC_WIRE_UNITS_def units)
  have rt: "is_text (replicate 512 CP_REPLACEMENT)" by (simp add: is_text_def)
  have "length (utf8_of (replicate n CP_REPLACEMENT)) = 3 * n" for n
    by (induction n) (simp_all add: length_utf8_bytes utf8_len_def CP_REPLACEMENT_def)
  then have "Utf16ToUtf8 (utf16_of (replicate 512 CP_REPLACEMENT)) outCap = (utf8_of (replicate 512 CP_REPLACEMENT), ENC_OK)"
    using encode_text [OF rt, of "[]" outCap "[]" ENC_OK] assms by (simp add: Utf16ToUtf8_def)
  moreover have "wire_chunk pages 65001 ?mb = (utf16_of (replicate 512 CP_REPLACEMENT), False, length ?mb)"
    unfolding wire_chunk_def win dec by (simp add: CP_UTF8_ID_def win dec del: replicate.simps)
  ultimately show ?thesis
    by (simp add: EncBytesToWire_def enc_wire_loop.simps [of _ _ _ ?mb] enc_wire_loop.simps [of _ _ _ "[]"])
qed

section \<open>Paths\<close>

text \<open>
  What \<open>EncOpenPath\<close> gives for a path that fits, where the pages are sound.
\<close>

lemma open_path_faithful:
  assumes "is_text cps" "length (utf8_of cps) < 260" "\<And>p. find_page pages (int acp) = Some p \<Longrightarrow> page_ok p"
  shows "case EncTierCurrent f acp of
      ENC_TIER_MANIFEST \<Rightarrow> EncOpenPath pages f acp (utf8_of cps) = clean_form\<lparr>mbOut := utf8_of cps\<rparr>
    | ENC_TIER_WIDE \<Rightarrow> EncOpenPath pages f acp (utf8_of cps) = clean_form\<lparr>wOut := utf16_of cps, useWide := True\<rparr>
    | ENC_TIER_CODEPAGE \<Rightarrow>
        (let r = EncOpenPath pages f acp (utf8_of cps); units = utf16_of cps in \<not> useWide r \<and>
         (if path_status r = ENC_OK
          then CpSupported pages (int acp) \<and>
            CpDecode pages (int acp) (mbOut r) (length units) = (units, False, length (mbOut r))
          else path_status r = ENC_REJECTED \<and> mbOut r = [] \<and>
            (if CpSupported pages (int acp)
             then \<exists>k < length units. rejectAt r = int k \<and> CpRepresentable pages (int acp) (take k units) \<and>
               \<not> CpRepresentable pages (int acp) [units ! k]
             else rejectAt r = 0)))"
proof -
  have "length (utf16_of cps) \<le> length (utf8_of cps)"
    by (induction cps) (simp_all add: add_mono length_utf16_units length_utf8_bytes)
  then have len: "length (utf16_of cps) \<le> 259" using assms(2) by simp
  have dec: "Utf8ToUtf16 (utf8_of cps) (ENC_PATH_WIDE - 1) = (utf16_of cps, ENC_OK)"
    using decode_text [OF assms(1), of "[]" 259 "[]" ENC_OK] len by (simp add: Utf8ToUtf16_def ENC_PATH_WIDE_def)
  show ?thesis
  proof (cases "EncTierCurrent f acp")
    case ENC_TIER_CODEPAGE
    show ?thesis
    proof (cases "find_page pages (int acp)")
      case None
      then show ?thesis using ENC_TIER_CODEPAGE dec
        by (simp add: EncOpenPath_def clean_form_def CpEncode_def CpSupported_def Let_def)
    next
      case (Some p)
      then show ?thesis
        using CpEncode_strict [OF Some assms(3) [OF Some], of "utf16_of cps" 1040] ENC_TIER_CODEPAGE len dec
        by (cases "CpEncode pages (int acp) (utf16_of cps) 1040")
          (auto simp: EncOpenPath_def clean_form_def ENC_PATH_MB_def CpSupported_def)
    qed
  qed (use assms(2) dec in \<open>simp_all add: EncOpenPath_def clean_form_def ENC_PATH_MB_def\<close>)
qed

text \<open>
  A path of more than 259 units is cut on the way to the code page and opened all the
  same, with a clean status.
\<close>

lemma EncOpenPath_cuts:
  assumes "\<not> is_nt f" "EncOpenPath pages f acp (replicate 300 0x61) = r" "path_status r = ENC_OK"
    "find_page pages (int acp) = Some p" "page_ok p"
  shows "CpDecode pages (int acp) (mbOut r) 259 = (replicate 259 0x61, False, length (mbOut r))"
proof -
  have parts: "replicate n 0x61 = utf8_of (replicate n 0x61)" "utf16_of (replicate n 0x61) = replicate n 0x61" for n
    by (induction n) (simp_all add: utf8_bytes_def utf8_len_def utf16_units_def)
  have "replicate 300 (0x61 :: u8) = utf8_of (replicate 259 0x61) @ 0x61 # replicate 40 0x61"
    by (simp only: parts(1) [symmetric]) (simp add: numeral_eq_Suc)
  moreover have "is_text (replicate 259 0x61)" by (simp add: is_text_def scalar_def)
  ultimately have "Utf8ToUtf16 (replicate 300 0x61) 259 = (replicate 259 0x61, ENC_TRUNCATED)"
    using decode_text [of "replicate 259 0x61" "[]" 259 "0x61 # replicate 40 0x61" ENC_OK]
    by (simp add: Utf8ToUtf16_def parts utf8_loop.simps(2))
  then have r: "r = (case cp_encode_loop p 1040 0 (replicate 259 0x61) [] of
      CpReject k \<Rightarrow> clean_form\<lparr>path_status := ENC_REJECTED, rejectAt := int k\<rparr>
    | CpOverflow \<Rightarrow> clean_form\<lparr>path_status := ENC_TRUNCATED\<rparr>
    | CpBytes bs \<Rightarrow> clean_form\<lparr>mbOut := bs, path_status := ENC_OK\<rparr>)"
    using assms(1,2,4)
    by (auto simp: EncOpenPath_def EncTierCurrent_def ENC_PATH_WIDE_def ENC_PATH_MB_def CpEncode_def split: CpEncoded.split)
  then obtain bs where bs: "cp_encode_loop p 1040 0 (replicate 259 0x61) [] = CpBytes bs" "mbOut r = bs"
    using assms(3) by (auto simp: clean_form_def split: CpEncoded.splits)
  obtain ms where "bs = ms" "cp_decode_loop p 259 ms [] False = (replicate 259 0x61, False, [])"
    using encode_decode_loop [OF assms(5) bs(1)] by fastforce
  then show ?thesis using bs(2) assms(4) by (simp add: CpDecode_def)
qed

end
