(* ===== verification/Uart.thy ===== *)
theory Uart
  imports Prelude "HOL-Library.State_Monad"
begin

text \<open>
  The direct serial route of \<^verbatim>\<open>src/src/uart.c\<close>: detection, opening, polled
  transfer and closing of a 16550 by bare port reads and writes.

  The chip is whatever answers the port seam \<^verbatim>\<open>UartPortIo\<close>: two functions over a
  chip state of any type, and the cooperative yield.  A program of the driver is a
  computation over the bus, in the state monad of the library.  The bus keeps the
  trace of what went over it, which the code does not have and no operation reads; the
  theorems about an arbitrary chip are about that trace.
\<close>

section \<open>The port seam\<close>

record 'c UartPortIo =
  port_in :: "'c \<Rightarrow> u16 \<Rightarrow> u8 \<times> 'c"
  port_out :: "'c \<Rightarrow> u16 \<Rightarrow> u8 \<Rightarrow> 'c"
  port_yield :: "'c \<Rightarrow> 'c"

datatype UartEv = EvIn u16 u8 | EvOut u16 u8 | EvYield

record 'c Bus =
  chip :: 'c
  trace :: "UartEv list"

definition inb :: "'c UartPortIo \<Rightarrow> u16 \<Rightarrow> ('c Bus, u8) state" where
  "inb io port = State (\<lambda>b. case port_in io (chip b) port of
     (v, c) \<Rightarrow> (v, \<lparr> chip = c, trace = trace b @ [EvIn port v] \<rparr>))"

definition outb :: "'c UartPortIo \<Rightarrow> u16 \<Rightarrow> u8 \<Rightarrow> ('c Bus, unit) state" where
  "outb io port v = State (\<lambda>b. ((), \<lparr> chip = port_out io (chip b) port v, trace = trace b @ [EvOut port v] \<rparr>))"

definition pause :: "'c UartPortIo \<Rightarrow> ('c Bus, unit) state" where
  "pause io = State (\<lambda>b. ((), \<lparr> chip = port_yield io (chip b), trace = trace b @ [EvYield] \<rparr>))"

section \<open>Registers\<close>

definition UART_REG_RBR :: u16 where "UART_REG_RBR = 0"
definition UART_REG_THR :: u16 where "UART_REG_THR = 0"
definition UART_REG_DLL :: u16 where "UART_REG_DLL = 0"
definition UART_REG_IER :: u16 where "UART_REG_IER = 1"
definition UART_REG_DLM :: u16 where "UART_REG_DLM = 1"
definition UART_REG_IIR :: u16 where "UART_REG_IIR = 2"
definition UART_REG_FCR :: u16 where "UART_REG_FCR = 2"
definition UART_REG_LCR :: u16 where "UART_REG_LCR = 3"
definition UART_REG_MCR :: u16 where "UART_REG_MCR = 4"
definition UART_REG_LSR :: u16 where "UART_REG_LSR = 5"
definition UART_REG_MSR :: u16 where "UART_REG_MSR = 6"
definition UART_REG_SCR :: u16 where "UART_REG_SCR = 7"

lemmas uart_regs = UART_REG_RBR_def UART_REG_THR_def UART_REG_DLL_def UART_REG_IER_def UART_REG_DLM_def
  UART_REG_IIR_def UART_REG_FCR_def UART_REG_LCR_def UART_REG_MCR_def UART_REG_LSR_def UART_REG_MSR_def
  UART_REG_SCR_def

definition UART_LCR_DLAB :: u8 where "UART_LCR_DLAB = 0x80"
definition UART_LCR_8N1 :: u8 where "UART_LCR_8N1 = 0x03"
definition UART_LSR_DR :: u8 where "UART_LSR_DR = 0x01"
definition UART_LSR_OE :: u8 where "UART_LSR_OE = 0x02"
definition UART_LSR_FE :: u8 where "UART_LSR_FE = 0x08"
definition UART_LSR_BI :: u8 where "UART_LSR_BI = 0x10"
definition UART_LSR_THRE :: u8 where "UART_LSR_THRE = 0x20"
definition UART_LSR_TEMT :: u8 where "UART_LSR_TEMT = 0x40"
definition UART_MCR_DTR :: u8 where "UART_MCR_DTR = 0x01"
definition UART_MCR_RTS :: u8 where "UART_MCR_RTS = 0x02"
definition UART_MCR_OUT1 :: u8 where "UART_MCR_OUT1 = 0x04"
definition UART_MCR_OUT2 :: u8 where "UART_MCR_OUT2 = 0x08"
definition UART_MCR_LOOP :: u8 where "UART_MCR_LOOP = 0x10"
definition UART_MCR_LIVE :: u8 where "UART_MCR_LIVE = UART_MCR_DTR OR UART_MCR_RTS"
definition UART_MCR_TEST :: u8 where
  "UART_MCR_TEST = UART_MCR_LOOP OR UART_MCR_DTR OR UART_MCR_RTS OR UART_MCR_OUT1"
definition UART_MSR_CTS :: u8 where "UART_MSR_CTS = 0x10"
definition UART_MSR_DSR :: u8 where "UART_MSR_DSR = 0x20"
definition UART_IIR_FIFO_MASK :: u8 where "UART_IIR_FIFO_MASK = 0xC0"
definition UART_IIR_FIFO_16550A :: u8 where "UART_IIR_FIFO_16550A = 0xC0"
definition UART_FCR_DETECT :: u8 where "UART_FCR_DETECT = 0xE7"
definition UART_FCR_ENABLE :: u8 where "UART_FCR_ENABLE = 0xC7"
definition UART_FCR_OFF :: u8 where "UART_FCR_OFF = 0x00"
definition UART_SCRATCH_A :: u8 where "UART_SCRATCH_A = 0xAA"
definition UART_SCRATCH_B :: u8 where "UART_SCRATCH_B = 0x55"
definition UART_LOOP_SENTINEL :: u8 where "UART_LOOP_SENTINEL = 0xAE"
definition UART_POLL_BOUND :: nat where "UART_POLL_BOUND = 100000"

lemmas uart_bits = UART_LCR_DLAB_def UART_LCR_8N1_def UART_LSR_DR_def UART_LSR_OE_def UART_LSR_FE_def
  UART_LSR_BI_def UART_LSR_THRE_def UART_LSR_TEMT_def UART_MCR_DTR_def UART_MCR_RTS_def UART_MCR_OUT1_def
  UART_MCR_OUT2_def UART_MCR_LOOP_def UART_MCR_LIVE_def UART_MCR_TEST_def UART_MSR_CTS_def UART_MSR_DSR_def
  UART_IIR_FIFO_MASK_def UART_IIR_FIFO_16550A_def UART_FCR_DETECT_def UART_FCR_ENABLE_def UART_FCR_OFF_def
  UART_SCRATCH_A_def UART_SCRATCH_B_def UART_LOOP_SENTINEL_def

section \<open>The driver\<close>

datatype UartChipKind = UART_CHIP_UNKNOWN | UART_CHIP_8250 | UART_CHIP_16450 | UART_CHIP_16550A

definition UART_FIFO_TX_CHUNK :: int where "UART_FIFO_TX_CHUNK = 16"
definition UART_SINGLE_TX_CHUNK :: int where "UART_SINGLE_TX_CHUNK = 1"

record UartDriver =
  base_port :: u16
  chip_kind :: UartChipKind
  fifo_enabled :: bool
  tx_chunk :: int
  divisor :: u32
  overrun_count :: u32
  drv_open :: bool

definition UartDriverInit :: "u16 \<Rightarrow> UartDriver" where
  "UartDriverInit base = \<lparr> base_port = base, chip_kind = UART_CHIP_UNKNOWN, fifo_enabled = False,
     tx_chunk = UART_SINGLE_TX_CHUNK, divisor = 0, overrun_count = 0, drv_open = False \<rparr>"

definition UartDetect :: "'c UartPortIo \<Rightarrow> UartDriver \<Rightarrow> ('c Bus, bool \<times> UartDriver) state" where
  "UartDetect io drv = (let base = base_port drv in do {
     outb io (base + UART_REG_LCR) UART_LCR_8N1;
     outb io (base + UART_REG_IER) 0x00;
     z \<leftarrow> inb io (base + UART_REG_IER);
     outb io (base + UART_REG_IER) 0x0F;
     s \<leftarrow> inb io (base + UART_REG_IER);
     outb io (base + UART_REG_IER) 0x00;
     (if \<not> (z AND 0x0F = 0x00 \<and> s AND 0x0F = 0x0F) then
        State_Monad.return (False, drv\<lparr>chip_kind := UART_CHIP_UNKNOWN, fifo_enabled := False,
          tx_chunk := UART_SINGLE_TX_CHUNK\<rparr>)
      else do {
        outb io (base + UART_REG_FCR) UART_FCR_DETECT;
        iir \<leftarrow> inb io (base + UART_REG_IIR);
        outb io (base + UART_REG_SCR) UART_SCRATCH_A;
        s1 \<leftarrow> inb io (base + UART_REG_SCR);
        outb io (base + UART_REG_SCR) UART_SCRATCH_B;
        s2 \<leftarrow> inb io (base + UART_REG_SCR);
        State_Monad.return (True,
          if iir AND UART_IIR_FIFO_MASK = UART_IIR_FIFO_16550A
          then drv\<lparr>chip_kind := UART_CHIP_16550A, fifo_enabled := True, tx_chunk := UART_FIFO_TX_CHUNK\<rparr>
          else drv\<lparr>chip_kind := (if s1 = UART_SCRATCH_A \<and> s2 = UART_SCRATCH_B then UART_CHIP_16450 else UART_CHIP_8250),
            fifo_enabled := False, tx_chunk := UART_SINGLE_TX_CHUNK\<rparr>)
      })
   })"

definition UartProgramDivisor ::
    "'c UartPortIo \<Rightarrow> UartDriver \<Rightarrow> u32 \<Rightarrow> ('c Bus, bool \<times> UartDriver) state" where
  "UartProgramDivisor io drv d = (let base = base_port drv; want_lo = ucast (d AND 0xFF) :: u8;
       want_hi = ucast (drop_bit 8 d AND 0xFF) :: u8 in do {
     outb io (base + UART_REG_LCR) UART_LCR_DLAB;
     outb io (base + UART_REG_DLL) want_lo;
     outb io (base + UART_REG_DLM) want_hi;
     outb io (base + UART_REG_LCR) UART_LCR_8N1;
     outb io (base + UART_REG_LCR) UART_LCR_DLAB;
     got_lo \<leftarrow> inb io (base + UART_REG_DLL);
     got_hi \<leftarrow> inb io (base + UART_REG_DLM);
     outb io (base + UART_REG_LCR) UART_LCR_8N1;
     State_Monad.return
       (if got_lo \<noteq> want_lo \<or> got_hi \<noteq> want_hi then (False, drv) else (True, drv\<lparr>divisor := d\<rparr>))
   })"

text \<open>The bounded poll: up to \<open>n\<close> reads of a status bit, with a yield after each that lacks it.\<close>

primrec uart_poll :: "'c UartPortIo \<Rightarrow> u16 \<Rightarrow> u8 \<Rightarrow> nat \<Rightarrow> ('c Bus, bool) state" where
  "uart_poll io port bits 0 = State_Monad.return False"
| "uart_poll io port bits (Suc n) = do {
     lsr \<leftarrow> inb io port;
     (if lsr AND bits \<noteq> 0 then State_Monad.return True
      else do { pause io; uart_poll io port bits n })
   }"

definition UartLoopbackSelfTest :: "'c UartPortIo \<Rightarrow> UartDriver \<Rightarrow> ('c Bus, bool) state" where
  "UartLoopbackSelfTest io drv = (let base = base_port drv in do {
     outb io (base + UART_REG_MCR) UART_MCR_TEST;
     outb io (base + UART_REG_THR) UART_LOOP_SENTINEL;
     data_ready \<leftarrow> uart_poll io (base + UART_REG_LSR) UART_LSR_DR UART_POLL_BOUND;
     (if \<not> data_ready then do {
        outb io (base + UART_REG_MCR) UART_MCR_LIVE;
        State_Monad.return False
      } else do {
        rbr \<leftarrow> inb io (base + UART_REG_RBR);
        msr \<leftarrow> inb io (base + UART_REG_MSR);
        outb io (base + UART_REG_MCR) UART_MCR_LIVE;
        State_Monad.return
          (rbr = UART_LOOP_SENTINEL \<and>
           msr AND (UART_MSR_CTS OR UART_MSR_DSR) = UART_MSR_CTS OR UART_MSR_DSR)
      })
   })"

definition UartClearStale :: "'c UartPortIo \<Rightarrow> UartDriver \<Rightarrow> ('c Bus, unit) state" where
  "UartClearStale io drv = (let base = base_port drv in do {
     inb io (base + UART_REG_LSR);
     inb io (base + UART_REG_RBR);
     inb io (base + UART_REG_IIR);
     inb io (base + UART_REG_MSR);
     State_Monad.return ()
   })"

text \<open>The last part of the open: FIFO, modem lines, interrupts off, the loop test.\<close>

definition uart_go_live :: "'c UartPortIo \<Rightarrow> UartDriver \<Rightarrow> ('c Bus, bool \<times> UartDriver) state" where
  "uart_go_live io drv = (let base = base_port drv in do {
     outb io (base + UART_REG_FCR) (if chip_kind drv = UART_CHIP_16550A then UART_FCR_ENABLE else UART_FCR_OFF);
     outb io (base + UART_REG_MCR) UART_MCR_LIVE;
     outb io (base + UART_REG_IER) 0x00;
     looped \<leftarrow> UartLoopbackSelfTest io drv;
     (if \<not> looped then State_Monad.return (False, drv)
      else do {
        UartClearStale io drv;
        State_Monad.return (True, drv\<lparr>drv_open := True\<rparr>)
      })
   })"

definition UartOpenSequence ::
    "'c UartPortIo \<Rightarrow> u16 \<Rightarrow> u32 \<Rightarrow> ('c Bus, bool \<times> UartDriver) state" where
  "UartOpenSequence io base d = do {
     UartClearStale io (UartDriverInit base);
     (present, drv) \<leftarrow> UartDetect io (UartDriverInit base);
     (if \<not> present then State_Monad.return (False, drv)
      else do {
        (taken, drv) \<leftarrow> UartProgramDivisor io drv d;
        (if \<not> taken then State_Monad.return (False, drv) else uart_go_live io drv)
      })
   }"

section \<open>Transfer and close\<close>

primrec uart_burst :: "'c UartPortIo \<Rightarrow> u16 \<Rightarrow> u8 list \<Rightarrow> ('c Bus, unit) state" where
  "uart_burst io port [] = State_Monad.return ()"
| "uart_burst io port (v # vs) = do { outb io port v; uart_burst io port vs }"

text \<open>
  The sender: False is the return of -1.  The chunk it is called with is at least 1, as
  \<open>UartTxChunk\<close> makes it; the \<^const>\<open>max\<close> only shows that the loop ends for every chunk.
\<close>

function uart_tx_loop :: "'c UartPortIo \<Rightarrow> u16 \<Rightarrow> int \<Rightarrow> u8 list \<Rightarrow> ('c Bus, bool) state" where
  "uart_tx_loop io base chunk buf =
     (if buf = [] then State_Monad.return True
      else do {
        thre \<leftarrow> uart_poll io (base + UART_REG_LSR) UART_LSR_THRE UART_POLL_BOUND;
        (if \<not> thre then State_Monad.return False
         else let burst = nat (min (max 1 chunk) (int (length buf))) in do {
           uart_burst io (base + UART_REG_THR) (take burst buf);
           uart_tx_loop io base chunk (drop burst buf)
         })
      })"
  by pat_completeness auto
termination by (relation "measure (\<lambda>(io, base, chunk, buf). length buf)") (auto simp: Let_def)

declare uart_tx_loop.simps [simp del]

definition UartTxChunk :: "'c UartPortIo \<Rightarrow> UartDriver \<Rightarrow> u8 list \<Rightarrow> ('c Bus, nat option) state" where
  "UartTxChunk io drv buf = do {
     ok \<leftarrow> uart_tx_loop io (base_port drv) (if tx_chunk drv < 1 then UART_SINGLE_TX_CHUNK else tx_chunk drv) buf;
     State_Monad.return (if ok then Some (length buf) else None)
   }"

definition UartDrainAndClose :: "'c UartPortIo \<Rightarrow> UartDriver \<Rightarrow> ('c Bus, UartDriver) state" where
  "UartDrainAndClose io drv = (let base = base_port drv in do {
     uart_poll io (base + UART_REG_LSR) UART_LSR_TEMT UART_POLL_BOUND;
     outb io (base + UART_REG_IER) 0x00;
     outb io (base + UART_REG_MCR) 0x00;
     State_Monad.return (drv\<lparr>drv_open := False\<rparr>)
   })"

text \<open>
  Receiving is the one loop without a bound: \<^const>\<open>None\<close> is not returning.  The wait
  for data, then the drain of what is there up to \<open>len\<close>, the status read before each
  byte; the driver's overrun count is threaded through.  In the result, \<^const>\<open>None\<close>
  for the bytes is the return of -1.
\<close>

partial_function (option) uart_rx_wait :: "'c UartPortIo \<Rightarrow> u16 \<Rightarrow> 'c Bus \<Rightarrow> (u8 \<times> 'c Bus) option" where
  "uart_rx_wait io base b =
     (case run_state (inb io (base + UART_REG_LSR)) b of
        (lsr, b1) \<Rightarrow> if lsr AND UART_LSR_DR \<noteq> 0 then Some (lsr, b1)
                     else uart_rx_wait io base (snd (run_state (pause io) b1)))"

partial_function (option) uart_rx_fill ::
    "'c UartPortIo \<Rightarrow> u16 \<Rightarrow> int \<Rightarrow> u8 \<Rightarrow> u8 list \<Rightarrow> u32 \<Rightarrow> 'c Bus \<Rightarrow> (u8 list option \<times> u32 \<times> 'c Bus) option" where
  "uart_rx_fill io base len lsr got over b =
     (if int (length got) < len \<and> lsr AND UART_LSR_DR \<noteq> 0 then
        (let over' = (if lsr AND UART_LSR_OE \<noteq> 0 then over + 1 else over) in
         case run_state (inb io (base + UART_REG_RBR)) b of
           (v, b1) \<Rightarrow>
             if lsr AND UART_LSR_BI \<noteq> 0 \<and> lsr AND UART_LSR_FE \<noteq> 0 then Some (None, over', b1)
             else (case run_state (inb io (base + UART_REG_LSR)) b1 of
               (lsr', b2) \<Rightarrow>
                 uart_rx_fill io base len lsr' (if lsr AND UART_LSR_BI \<noteq> 0 then got else got @ [v]) over' b2))
      else Some (Some got, over, b))"

partial_function (option) uart_rx_loop ::
    "'c UartPortIo \<Rightarrow> u16 \<Rightarrow> int \<Rightarrow> u32 \<Rightarrow> 'c Bus \<Rightarrow> (u8 list option \<times> u32 \<times> 'c Bus) option" where
  "uart_rx_loop io base len over b =
     Option.bind (uart_rx_wait io base b) (\<lambda>(lsr, b1).
     Option.bind (uart_rx_fill io base len lsr [] over b1) (\<lambda>(r, over', b2).
       if r = Some [] then uart_rx_loop io base len over' b2 else Some (r, over', b2)))"

definition UartRxDrain ::
    "'c UartPortIo \<Rightarrow> UartDriver \<Rightarrow> int \<Rightarrow> 'c Bus \<Rightarrow> (u8 list option \<times> UartDriver \<times> 'c Bus) option" where
  "UartRxDrain io drv len b =
     map_option (\<lambda>(r, over, b'). (r, drv\<lparr>overrun_count := over\<rparr>, b'))
       (uart_rx_loop io (base_port drv) len (overrun_count drv) b)"

section \<open>The backend\<close>

text \<open>A character of a C string, NUL at its end.\<close>

definition char_at :: "string \<Rightarrow> nat \<Rightarrow> char" where
  "char_at s i = (if i < length s then s ! i else CHR 0x00)"

definition uart_base_for_port :: "string \<Rightarrow> u16" where
  "uart_base_for_port port =
     (if char_at port 0 \<in> {CHR ''C'', CHR ''c''} \<and> char_at port 1 \<in> {CHR ''O'', CHR ''o''} \<and>
         char_at port 2 \<in> {CHR ''M'', CHR ''m''}
      then if char_at port 3 = CHR ''1'' then 0x3F8
           else if char_at port 3 = CHR ''2'' then 0x2F8
           else if char_at port 3 = CHR ''3'' then 0x3E8
           else if char_at port 3 = CHR ''4'' then 0x2E8
           else 0
      else 0)"

definition uart_divisor_for_baud :: "u32 \<Rightarrow> u32" where
  "uart_divisor_for_baud baud =
     (if baud = 0 \<or> 115200 mod baud \<noteq> 0 then 6
      else if 115200 div baud = 0 \<or> 115200 div baud > 0xFFFF then 6
      else 115200 div baud)"

text \<open>The open of the backend: a message, or the live driver behind the transport.\<close>

definition UartBackendOpenDirect ::
    "'c UartPortIo \<Rightarrow> string \<Rightarrow> u32 \<Rightarrow> ('c Bus, string + UartDriver) state" where
  "UartBackendOpenDirect io port baud =
     (if uart_base_for_port port = 0 then State_Monad.return (Inl ''win32s direct-uart: unknown COM port'')
      else do {
        (live, drv) \<leftarrow> UartOpenSequence io (uart_base_for_port port) (uart_divisor_for_baud baud);
        State_Monad.return
          (if \<not> live then Inl ''win32s direct-uart: no working UART at the COM port'' else Inr drv)
      })"

section \<open>What a program puts on the bus\<close>

text \<open>
  \<open>ensures m tr Q\<close>: on whatever chip, the program started with trace \<open>tr\<close> ends with an
  answer and a trace that satisfy \<open>Q\<close>.  The rules run a program over its trace.
\<close>

definition ensures :: "('c Bus, 'a) state \<Rightarrow> UartEv list \<Rightarrow> ('a \<Rightarrow> UartEv list \<Rightarrow> bool) \<Rightarrow> bool" where
  "ensures m tr Q \<longleftrightarrow> (\<forall>b. trace b = tr \<longrightarrow> (case run_state m b of (a, b') \<Rightarrow> Q a (trace b')))"

named_theorems bus_rules \<open>running a program over its trace\<close>

lemma ensuresI:
  assumes "\<And>b. trace b = tr \<Longrightarrow> case run_state m b of (a, b') \<Rightarrow> Q a (trace b')"
  shows "ensures m tr Q"
  using assms by (simp add: ensures_def)

lemma ensuresD: "ensures m (trace b) Q \<Longrightarrow> run_state m b = (a, b') \<Longrightarrow> Q a (trace b')"
  by (force simp: ensures_def)

lemma ensures_return [bus_rules]: "Q a tr \<Longrightarrow> ensures (State_Monad.return a) tr Q"
  by (rule ensuresI) simp

lemma ensures_inb [bus_rules]:
  assumes "\<And>v. Q v (tr @ [EvIn port v])"
  shows "ensures (inb io port) tr Q"
  using assms by (intro ensuresI) (simp add: inb_def split: prod.split)

lemma ensures_outb [bus_rules]: "Q () (tr @ [EvOut port v]) \<Longrightarrow> ensures (outb io port v) tr Q"
  by (rule ensuresI) (simp add: outb_def)

lemma ensures_pause [bus_rules]: "Q () (tr @ [EvYield]) \<Longrightarrow> ensures (pause io) tr Q"
  by (rule ensuresI) (simp add: pause_def)

lemma ensures_bind [bus_rules]:
  assumes "ensures m tr (\<lambda>a tr'. ensures (f a) tr' Q)"
  shows "ensures (State_Monad.bind m f) tr Q"
proof (rule ensuresI)
  fix b :: "'a Bus"
  assume b: "trace b = tr"
  obtain a b1 where m: "run_state m b = (a, b1)" by (cases "run_state m b")
  have "ensures (f a) (trace b1) Q" by (rule ensuresD [OF _ m]) (use assms b in simp)
  then show "case run_state (State_Monad.bind m f) b of (a, b') \<Rightarrow> Q a (trace b')"
    using m by (simp add: ensures_def)
qed

lemma ensures_if [bus_rules]:
  "(c \<Longrightarrow> ensures m tr Q) \<Longrightarrow> (\<not> c \<Longrightarrow> ensures n tr Q) \<Longrightarrow> ensures (if c then m else n) tr Q"
  by simp

lemma ensures_pair [bus_rules]: "ensures (f a b) tr Q \<Longrightarrow> ensures (case (a, b) of (x, y) \<Rightarrow> f x y) tr Q"
  by simp

lemma ensures_let [bus_rules]: "ensures (f a) tr Q \<Longrightarrow> ensures (let x = a in f x) tr Q"
  by simp

lemma ensures_weaken: "ensures m tr P \<Longrightarrow> (\<And>a tr'. P a tr' \<Longrightarrow> Q a tr') \<Longrightarrow> ensures m tr Q"
  unfolding ensures_def by fastforce

text \<open>A poll reads its status port and yields, nothing else, and stops at the bit or at its bound.\<close>

definition waiting :: "u16 \<Rightarrow> UartEv \<Rightarrow> bool" where
  "waiting port e \<longleftrightarrow> (case e of EvYield \<Rightarrow> True | EvIn p v \<Rightarrow> p = port | EvOut p v \<Rightarrow> False)"

lemma waiting_simps [simp]:
  "waiting port EvYield" "waiting port (EvIn p v) \<longleftrightarrow> p = port" "\<not> waiting port (EvOut p v)"
  by (simp_all add: waiting_def)

lemma ensures_poll [bus_rules]:
  assumes "\<And>evs. list_all (waiting port) evs \<Longrightarrow> length evs \<le> 2 * n \<Longrightarrow> Q False (tr @ evs)"
    "\<And>evs v. list_all (waiting port) evs \<Longrightarrow> length evs < 2 * n \<Longrightarrow> v AND bits \<noteq> 0 \<Longrightarrow> Q True (tr @ evs @ [EvIn port v])"
  shows "ensures (uart_poll io port bits n) tr Q"
  using assms
proof (induction n arbitrary: tr)
  case (Suc n)
  have "ensures (uart_poll io port bits n) (tr @ [EvIn port v, EvYield]) Q" for v
  proof (rule Suc.IH)
    fix evs assume "list_all (waiting port) evs" "length evs \<le> 2 * n"
    then show "Q False ((tr @ [EvIn port v, EvYield]) @ evs)"
      using Suc.prems(1) [of "EvIn port v # EvYield # evs"] by simp
  next
    fix evs w assume "list_all (waiting port) evs" "length evs < 2 * n" "w AND bits \<noteq> 0"
    then show "Q True ((tr @ [EvIn port v, EvYield]) @ evs @ [EvIn port w])"
      using Suc.prems(2) [of "EvIn port v # EvYield # evs" w] by simp
  qed
  moreover have "v AND bits \<noteq> 0 \<Longrightarrow> Q True (tr @ [EvIn port v])" for v
    using Suc.prems(2) [of "[]" v] by simp
  ultimately show ?case by (auto intro!: bus_rules)
next
  case 0
  then show ?case using 0(1) [of "[]"] by (simp add: ensures_return)
qed

section \<open>The registers a trace leaves\<close>

text \<open>
  The registers of a 16550 after a sequence of writes: the divisor latch behind
  \<open>DLAB\<close>, and what is sent on the line, which a write in loopback is not.
\<close>

record Regs =
  dlab :: bool
  dll :: u8
  dlm :: u8
  ier :: u8
  fcr :: u8
  mcr :: u8
  on_line :: "u8 list"

definition reg_write :: "u16 \<Rightarrow> u8 \<Rightarrow> Regs \<Rightarrow> Regs" where
  "reg_write reg v r =
     (if reg = 0 then (if dlab r then r\<lparr>dll := v\<rparr> else if mcr r AND UART_MCR_LOOP \<noteq> 0 then r else r\<lparr>on_line := on_line r @ [v]\<rparr>)
      else if reg = 1 then (if dlab r then r\<lparr>dlm := v\<rparr> else r\<lparr>ier := v\<rparr>)
      else if reg = 2 then r\<lparr>fcr := v\<rparr>
      else if reg = 3 then r\<lparr>dlab := (v AND UART_LCR_DLAB \<noteq> 0)\<rparr>
      else if reg = 4 then r\<lparr>mcr := v\<rparr>
      else r)"

fun reg_event :: "u16 \<Rightarrow> UartEv \<Rightarrow> Regs \<Rightarrow> Regs" where
  "reg_event base (EvOut port v) r = reg_write (port - base) v r"
| "reg_event base e r = r"

definition regs_after :: "u16 \<Rightarrow> UartEv list \<Rightarrow> Regs \<Rightarrow> Regs" where
  "regs_after base evs r = fold (reg_event base) evs r"

lemma regs_after_simps [simp]:
  "regs_after base [] r = r"
  "regs_after base (e # evs) r = regs_after base evs (reg_event base e r)"
  "regs_after base (evs @ evs') r = regs_after base evs' (regs_after base evs r)"
  by (simp_all add: regs_after_def)

lemma regs_after_waiting [simp]: "list_all (waiting port) evs \<Longrightarrow> regs_after base evs r = r"
  by (induction evs arbitrary: r) (auto simp: waiting_def split: UartEv.splits)

text \<open>An event within the eight ports of the chip that does not raise \<open>OUT2\<close>.\<close>

fun gentle :: "u16 \<Rightarrow> UartEv \<Rightarrow> bool" where
  "gentle base (EvIn port v) \<longleftrightarrow> port - base < 8"
| "gentle base (EvOut port v) \<longleftrightarrow> port - base < 8 \<and> (port - base = 4 \<longrightarrow> v AND UART_MCR_OUT2 = 0)"
| "gentle base EvYield \<longleftrightarrow> True"

lemma gentle_waiting [simp]: "list_all (waiting port) evs \<Longrightarrow> port - base < 8 \<Longrightarrow> list_all (gentle base) evs"
  by (induction evs) (auto simp: waiting_def split: UartEv.splits)

lemmas uart_trace = uart_regs uart_bits reg_write_def UART_POLL_BOUND_def

end
