(* ===== verification/UartTrace.thy ===== *)
theory UartTrace
  imports Uart
begin

text \<open>
  What the serial driver puts on the bus, whatever chip answers: the open sequence, the
  sender, the receiver and the close, each run over its trace.
\<close>

section \<open>Opening\<close>

text \<open>The answer to the first FIFO probe of a trace.\<close>

fun fifo_answer :: "u16 \<Rightarrow> UartEv list \<Rightarrow> u8 option" where
  "fifo_answer base (EvOut p v # EvIn q w # evs) =
     (if p = base + 2 \<and> v = 0xE7 \<and> q = base + 2 then Some w else fifo_answer base (EvIn q w # evs))"
| "fifo_answer base (e # evs) = fifo_answer base evs"
| "fifo_answer base [] = None"

text \<open>The events of a trace that meet the chip with its registers in a given condition.\<close>

fun during :: "(Regs \<Rightarrow> bool) \<Rightarrow> u16 \<Rightarrow> UartEv list \<Rightarrow> Regs \<Rightarrow> UartEv list" where
  "during P base [] r = []"
| "during P base (e # evs) r = (if P r then [e] else []) @ during P base evs (reg_event base e r)"

lemma during_append [simp]: "during P base (a @ b) r = during P base a r @ during P base b (regs_after base a r)"
  by (induction a arbitrary: r) simp_all

lemma during_waiting:
  "list_all (waiting port) evs \<Longrightarrow> \<not> P r \<Longrightarrow> during P base evs r = []"
  "list_all (waiting port) evs \<Longrightarrow> filter (\<lambda>e. \<not> waiting port e) (during P base evs r) = []"
  by (induction evs arbitrary: r) (auto simp: waiting_def split: UartEv.splits)

abbreviation looped :: "Regs \<Rightarrow> bool" where "looped r \<equiv> mcr r AND UART_MCR_LOOP \<noteq> 0"

text \<open>
  The two checks as the trace shows them, on a chip that starts neither on its latch nor in
  loopback.  While the latch was open, the divisor was written, and then read back with these
  very values; and in loopback, but for the polls of the status, the sentinel was sent and
  came back, and the modem status showed the two lines raised.
\<close>

definition latch_checked :: "u16 \<Rightarrow> u32 \<Rightarrow> UartEv list \<Rightarrow> bool" where
  "latch_checked base d new \<longleftrightarrow>
     (let lo = ucast (d AND 0xFF); hi = ucast (drop_bit 8 d AND 0xFF) in
      \<forall>r. \<not> dlab r \<longrightarrow> during dlab base new r =
        [EvOut base lo, EvOut (base + 1) hi, EvOut (base + 3) 3, EvIn base lo, EvIn (base + 1) hi, EvOut (base + 3) 3])"

definition loop_checked :: "u16 \<Rightarrow> UartEv list \<Rightarrow> bool" where
  "loop_checked base new \<longleftrightarrow>
     (\<exists>m. m AND (UART_MSR_CTS OR UART_MSR_DSR) = UART_MSR_CTS OR UART_MSR_DSR \<and>
        (\<forall>r. \<not> dlab r \<longrightarrow> \<not> looped r \<longrightarrow> filter (\<lambda>e. \<not> waiting (base + 5) e) (during looped base new r) =
           [EvOut base UART_LOOP_SENTINEL, EvIn base UART_LOOP_SENTINEL, EvIn (base + 6) m, EvOut (base + 4) 3]))"

text \<open>The registers a chip is left with by a successful open, and what was checked of it.\<close>

definition opened :: "u16 \<Rightarrow> u32 \<Rightarrow> UartEv list \<Rightarrow> UartDriver \<Rightarrow> bool" where
  "opened base d new drv \<longleftrightarrow>
     (\<exists>v fifo. fifo_answer base new = Some v \<and> fifo = (v AND 0xC0 = 0xC0) \<and>
        (\<forall>r. regs_after base new r = \<lparr> dlab = False, dll = ucast (d AND 0xFF), dlm = ucast (drop_bit 8 d AND 0xFF),
           ier = 0, fcr = (if fifo then 0xC7 else 0), mcr = 3, on_line = on_line r \<rparr>) \<and>
        base_port drv = base \<and> divisor drv = d \<and> fifo_enabled drv = fifo \<and>
        (chip_kind drv = UART_CHIP_16550A \<longleftrightarrow> fifo) \<and> chip_kind drv \<noteq> UART_CHIP_UNKNOWN \<and>
        tx_chunk drv = (if fifo then 16 else 1) \<and> overrun_count drv = 0 \<and> drv_open drv) \<and>
     latch_checked base d new \<and> loop_checked base new"

lemma ensures_clear [bus_rules]:
  assumes "\<And>a b c d. Q () (tr @ [EvIn (base_port drv + 5) a, EvIn (base_port drv) b, EvIn (base_port drv + 2) c,
    EvIn (base_port drv + 6) d])"
  shows "ensures (UartClearStale io drv) tr Q"
  unfolding UartClearStale_def by (intro bus_rules) (use assms in \<open>simp add: uart_regs\<close>)

lemma ensures_detect [bus_rules]:
  fixes drv :: UartDriver
  defines "base \<equiv> base_port drv"
  assumes absent: "\<And>z s. Q (False, drv\<lparr>chip_kind := UART_CHIP_UNKNOWN, fifo_enabled := False, tx_chunk := 1\<rparr>)
      (tr @ [EvOut (base + 3) 3, EvOut (base + 1) 0, EvIn (base + 1) z, EvOut (base + 1) 0xF, EvIn (base + 1) s,
        EvOut (base + 1) 0])"
    and present: "\<And>z s v sa sb kind. (kind = UART_CHIP_16550A \<longleftrightarrow> v AND 0xC0 = 0xC0) \<Longrightarrow> kind \<noteq> UART_CHIP_UNKNOWN \<Longrightarrow>
      Q (True, drv\<lparr>chip_kind := kind, fifo_enabled := (v AND 0xC0 = 0xC0), tx_chunk := (if v AND 0xC0 = 0xC0 then 16 else 1)\<rparr>)
      (tr @ [EvOut (base + 3) 3, EvOut (base + 1) 0, EvIn (base + 1) z, EvOut (base + 1) 0xF, EvIn (base + 1) s,
        EvOut (base + 1) 0, EvOut (base + 2) 0xE7, EvIn (base + 2) v, EvOut (base + 7) 0xAA, EvIn (base + 7) sa,
        EvOut (base + 7) 0x55, EvIn (base + 7) sb])"
  shows "ensures (UartDetect io drv) tr Q"
  unfolding UartDetect_def
proof (intro bus_rules, goal_cases)
  case (1 z s)
  then show ?case using absent by (simp add: uart_regs uart_bits base_def UART_SINGLE_TX_CHUNK_def)
next
  case (2 z s v sa sb)
  let ?kind = "if v AND 0xC0 = 0xC0 then UART_CHIP_16550A else if sa = 0xAA \<and> sb = 0x55 then UART_CHIP_16450 else UART_CHIP_8250"
  show ?case
    using present [where kind = ?kind and v = v and z = z and s = s and sa = sa and sb = sb]
    by (cases "v AND 0xC0 = 0xC0")
      (simp_all add: uart_regs uart_bits base_def UART_SINGLE_TX_CHUNK_def UART_FIFO_TX_CHUNK_def)
qed

lemma ensures_divisor [bus_rules]:
  fixes drv :: UartDriver and d :: u32
  defines "base \<equiv> base_port drv" and "lo \<equiv> ucast (d AND 0xFF) :: u8" and "hi \<equiv> ucast (drop_bit 8 d AND 0xFF) :: u8"
  assumes ignored: "\<And>x y. Q (False, drv)
      (tr @ [EvOut (base + 3) 0x80, EvOut base lo, EvOut (base + 1) hi, EvOut (base + 3) 3, EvOut (base + 3) 0x80,
        EvIn base x, EvIn (base + 1) y, EvOut (base + 3) 3])"
    and taken: "Q (True, drv\<lparr>divisor := d\<rparr>)
      (tr @ [EvOut (base + 3) 0x80, EvOut base lo, EvOut (base + 1) hi, EvOut (base + 3) 3, EvOut (base + 3) 0x80,
        EvIn base lo, EvIn (base + 1) hi, EvOut (base + 3) 3])"
  shows "ensures (UartProgramDivisor io drv d) tr Q"
  unfolding UartProgramDivisor_def
  by (intro bus_rules) (use ignored taken in \<open>auto simp: uart_regs uart_bits base_def lo_def hi_def\<close>)

lemma ensures_loopback [bus_rules]:
  fixes drv :: UartDriver
  defines "base \<equiv> base_port drv"
  assumes Q: "\<And>ok evs. list_all (gentle base) evs \<Longrightarrow> length evs \<le> 200005 \<Longrightarrow>
      (\<And>r. \<not> dlab r \<Longrightarrow> regs_after base evs r = r\<lparr>mcr := 3\<rparr> \<and> during dlab base evs r = []) \<Longrightarrow>
      (ok \<Longrightarrow> loop_checked base evs) \<Longrightarrow> Q ok (tr @ evs)"
  shows "ensures (UartLoopbackSelfTest io drv) tr Q"
  unfolding UartLoopbackSelfTest_def
proof (intro bus_rules, goal_cases)
  case (1 evs)
  then show ?case using Q [of "EvOut (base + 4) 0x17 # EvOut base 0xAE # evs @ [EvOut (base + 4) 3]" False]
    by (simp add: uart_trace base_def during_waiting)
next
  case (4 evs v va vb)
  then show ?case
    using Q [of "EvOut (base + 4) 0x17 # EvOut base 0xAE # evs @ [EvIn (base + 5) v, EvIn base va, EvIn (base + 6) vb, EvOut (base + 4) 3]"
        "va = UART_LOOP_SENTINEL \<and> vb AND (UART_MSR_CTS OR UART_MSR_DSR) = UART_MSR_CTS OR UART_MSR_DSR"]
    by (auto simp: uart_trace base_def during_waiting loop_checked_def)
qed simp_all

lemma open_runs:
  "ensures (UartOpenSequence io base d) tr (\<lambda>(live, drv) tr'. \<exists>new. tr' = tr @ new \<and>
     list_all (gentle base) new \<and> length new \<le> 200045 \<and>
     (if live then opened base d new drv else \<not> drv_open drv))"
  unfolding UartOpenSequence_def UartDriverInit_def uart_go_live_def
  by (intro bus_rules; simp add: uart_regs uart_bits) (auto simp: opened_def latch_checked_def loop_checked_def reg_write_def uart_bits)

text \<open>
  C26: the open sequence, whatever chip is behind the ports, ends after a bounded number
  of port operations, touches no port but the eight of the chip, and never raises
  \<open>OUT2\<close>, the line that would let an interrupt of the chip reach the controller.
\<close>

theorem UartOpenSequence_bounded:
  "case run_state (UartOpenSequence io base d) b of (r, b') \<Rightarrow>
     \<exists>new. trace b' = trace b @ new \<and> length new \<le> 200045 \<and> list_all (gentle base) new"
  using ensuresD [OF open_runs] by (fastforce split: prod.split)

text \<open>
  C23: the sequence reports success only with the chip in exactly this state: line
  control off the latch, the divisor programmed and read back, no interrupt enabled,
  only DTR and RTS up, nothing sent on the line, and the FIFO on, with bursts of
  sixteen bytes, exactly when the probe answered 11 in its top bits.  And it does so
  only when the chip passed both checks: what was read back through the latch is the
  divisor that was written, and in loopback the sentinel came back and the modem lines
  answered.  Otherwise the driver is left closed.
\<close>

theorem UartOpenSequence_opened:
  "case run_state (UartOpenSequence io base d) b of ((live, drv), b') \<Rightarrow>
     \<exists>new. trace b' = trace b @ new \<and> (if live then opened base d new drv else \<not> drv_open drv)"
  using ensuresD [OF open_runs] by (fastforce split: prod.split)

section \<open>Sending\<close>

text \<open>
  Writes to the holding register are paced: \<open>room\<close> of them are left before the
  status has to be read again, as many as a chunk when it says the holder is empty.
\<close>

fun paced :: "u16 \<Rightarrow> nat \<Rightarrow> nat \<Rightarrow> UartEv list \<Rightarrow> bool" where
  "paced base chunk room [] \<longleftrightarrow> True"
| "paced base chunk room (EvOut p v # evs) \<longleftrightarrow> p = base \<and> 0 < room \<and> paced base chunk (room - 1) evs"
| "paced base chunk room (EvIn p v # evs) \<longleftrightarrow>
     p = base + 5 \<and> paced base chunk (if v AND UART_LSR_THRE \<noteq> 0 then chunk else 0) evs"
| "paced base chunk room (EvYield # evs) \<longleftrightarrow> paced base chunk room evs"

lemma paced_waiting:
  "list_all (waiting (base + 5)) evs \<Longrightarrow>
   paced base chunk room (evs @ EvIn (base + 5) v # rest) =
   paced base chunk (if v AND UART_LSR_THRE \<noteq> 0 then chunk else 0) rest"
  "list_all (waiting (base + 5)) evs \<Longrightarrow> paced base chunk room evs"
  by (induction evs arbitrary: room) (auto simp: waiting_def split: UartEv.splits)

lemma paced_burst:
  "length vs \<le> room \<Longrightarrow> paced base chunk room (map (EvOut base) vs @ rest) = paced base chunk (room - length vs) rest"
  by (induction vs arbitrary: room) auto

lemma ensures_burst [bus_rules]:
  "Q () (tr @ map (EvOut port) vs) \<Longrightarrow> ensures (uart_burst io port vs) tr Q"
  by (induction vs arbitrary: tr) (auto intro!: bus_rules)

lemma gentle_burst [simp]: "list_all (gentle base) (map (EvOut base) vs)"
  by (induction vs) simp_all

lemma line_burst:
  "\<not> dlab r \<Longrightarrow> mcr r AND UART_MCR_LOOP = 0 \<Longrightarrow>
   regs_after base (map (EvOut base) vs) r = r\<lparr>on_line := on_line r @ vs\<rparr>"
  by (induction vs arbitrary: r) (simp_all add: reg_write_def)

text \<open>A send of \<open>buf\<close>, whole or not, in bursts of \<open>chunk\<close> bytes at most.\<close>

definition sends :: "u16 \<Rightarrow> nat \<Rightarrow> u8 list \<Rightarrow> bool \<Rightarrow> UartEv list \<Rightarrow> bool" where
  "sends base chunk buf whole new \<longleftrightarrow>
     list_all (gentle base) new \<and> length new \<le> 200001 * length buf \<and> (\<forall>room. paced base chunk room new) \<and>
     (\<exists>k \<le> length buf. (whole \<longleftrightarrow> k = length buf) \<and>
        (\<forall>r. \<not> dlab r \<longrightarrow> mcr r AND UART_MCR_LOOP = 0 \<longrightarrow>
           regs_after base new r = r\<lparr>on_line := on_line r @ take k buf\<rparr>))"

lemma sends_step:
  assumes evs: "list_all (waiting (base + 5)) evs" "length evs < 200000" and v: "v AND UART_LSR_THRE \<noteq> 0"
    and n: "0 < n" "n \<le> chunk" "n \<le> length buf" and rest: "sends base chunk (drop n buf) whole new"
  shows "sends base chunk buf whole (evs @ EvIn (base + 5) v # map (EvOut base) (take n buf) @ new)"
proof -
  obtain k where k: "k \<le> length (drop n buf)" "whole \<longleftrightarrow> k = length (drop n buf)"
    "\<And>r. \<not> dlab r \<Longrightarrow> mcr r AND UART_MCR_LOOP = 0 \<Longrightarrow>
       regs_after base new r = r\<lparr>on_line := on_line r @ take k (drop n buf)\<rparr>"
    using rest by (auto simp: sends_def)
  have "take n buf @ take k (drop n buf) = take (n + k) buf" by (simp add: take_add)
  then have line: "regs_after base (evs @ EvIn (base + 5) v # map (EvOut base) (take n buf) @ new) r =
      r\<lparr>on_line := on_line r @ take (n + k) buf\<rparr>" if "\<not> dlab r" "mcr r AND UART_MCR_LOOP = 0" for r
    using that evs k(3) [of "r\<lparr>on_line := on_line r @ take n buf\<rparr>"] by (simp add: line_burst)
  have "length new \<le> 200001 * (length buf - n)" "\<And>room. paced base chunk room new" "list_all (gentle base) new"
    using rest by (auto simp: sends_def)
  moreover have "200001 * (length buf - n) + 200000 + n \<le> 200001 * length buf" using n by linarith
  ultimately show ?thesis unfolding sends_def
    using evs v n k(1,2) line by (auto simp: paced_waiting paced_burst intro!: exI [of _ "n + k"])
qed

lemma sends_timeout:
  assumes "list_all (waiting (base + 5)) evs" "length evs \<le> 200000" "buf \<noteq> []"
  shows "sends base chunk buf False evs"
proof -
  have "200001 * length buf \<ge> 200001" using assms(3) by (cases buf) simp_all
  then have "length evs \<le> 200001 * length buf" using assms(2) by linarith
  then show ?thesis using assms by (auto simp: sends_def paced_waiting intro!: exI [of _ 0])
qed

lemma tx_runs:
  "ensures (uart_tx_loop io base chunk buf) tr
     (\<lambda>ok tr'. \<exists>new. tr' = tr @ new \<and> sends base (nat (max 1 chunk)) buf ok new)"
proof (induction io base chunk buf arbitrary: tr rule: uart_tx_loop.induct)
  case (1 io base chunk buf)
  note IH = "1.IH"
  show ?case
  proof (cases "buf = []")
    case True
    then show ?thesis by (subst uart_tx_loop.simps) (auto intro!: bus_rules simp: sends_def)
  next
    case False
    define n where "n = nat (min (max 1 chunk) (int (length buf)))"
    have n: "0 < n" "n \<le> nat (max 1 chunk)" "n \<le> length buf" using False by (auto simp: n_def)
    show ?thesis
      unfolding uart_tx_loop.simps [of io base chunk buf] n_def [symmetric] if_not_P [OF False]
    proof (intro bus_rules, goal_cases)
      case (1 evs)
      then show ?case using sends_timeout [OF _ _ False] by (simp add: uart_regs UART_POLL_BOUND_def)
    next
      case (4 evs v)
      have "ensures (uart_tx_loop io base chunk (drop n buf)) tr'
          (\<lambda>ok tr''. \<exists>new. tr'' = tr' @ new \<and> sends base (nat (max 1 chunk)) (drop n buf) ok new)" for tr'
        by (rule IH [OF False _ n_def]) simp
      then show ?case
        by (rule ensures_weaken) (use 4 n sends_step in \<open>fastforce simp: uart_regs UART_POLL_BOUND_def\<close>)
    qed simp_all
  qed
qed

text \<open>
  C25: a send ends after a bounded number of port operations and either puts exactly the
  buffer on the line, or reports an error with a proper prefix of it sent; each burst
  follows a status that said the holder was empty and is no longer than the driver's
  chunk, which is one byte unless a working FIFO was found.
\<close>

theorem UartTxChunk_sends:
  "case run_state (UartTxChunk io drv buf) b of (res, b') \<Rightarrow>
     res \<in> {None, Some (length buf)} \<and>
     (\<exists>new. trace b' = trace b @ new \<and>
        sends (base_port drv) (nat (max 1 (tx_chunk drv))) buf (res = Some (length buf)) new)"
proof -
  define chunk where "chunk = (if tx_chunk drv < 1 then UART_SINGLE_TX_CHUNK else tx_chunk drv)"
  then have chunk: "max 1 (tx_chunk drv) = max 1 chunk" by (simp add: UART_SINGLE_TX_CHUNK_def)
  have "ensures (UartTxChunk io drv buf) (trace b)
      (\<lambda>res tr'. res \<in> {None, Some (length buf)} \<and> (\<exists>new. tr' = trace b @ new \<and>
         sends (base_port drv) (nat (max 1 (tx_chunk drv))) buf (res = Some (length buf)) new))"
    unfolding UartTxChunk_def chunk_def [symmetric] chunk
    by (intro bus_rules ensures_weaken [OF tx_runs]) auto
  then show ?thesis using ensuresD by fastforce
qed

section \<open>Receiving\<close>

text \<open>
  What a receive has seen: the status read last, the bytes taken, and the overruns.  A
  byte may only be taken on a status, not used before, that had data ready; on a break
  it is dropped, and a break with a framing error ends the receive.
\<close>

type_synonym RxView = "u8 option \<times> u8 list \<times> u32"

fun rx_event :: "u16 \<Rightarrow> UartEv \<Rightarrow> RxView option \<Rightarrow> RxView option" where
  "rx_event base e None = None"
| "rx_event base EvYield (Some s) = Some s"
| "rx_event base (EvOut p v) (Some s) = None"
| "rx_event base (EvIn p v) (Some (seen, got, over)) =
     (if p = base + 5 then Some (Some v, got, over)
      else if p = base then
        (case seen of
           None \<Rightarrow> None
         | Some l \<Rightarrow>
             if l AND UART_LSR_DR = 0 \<or> l AND UART_LSR_BI \<noteq> 0 \<and> l AND UART_LSR_FE \<noteq> 0 then None
             else Some (None, if l AND UART_LSR_BI \<noteq> 0 then got else got @ [v],
               if l AND UART_LSR_OE \<noteq> 0 then over + 1 else over))
      else None)"

definition rx_view :: "u16 \<Rightarrow> UartEv list \<Rightarrow> RxView \<Rightarrow> RxView option" where
  "rx_view base evs s = fold (rx_event base) evs (Some s)"

lemma rx_view_append:
  "rx_view base (evs @ evs') s = Option.bind (rx_view base evs s) (rx_view base evs')"
proof -
  have none: "fold (rx_event base) es None = None" for es by (induction es) simp_all
  show ?thesis by (cases "fold (rx_event base) evs (Some s)") (simp_all add: rx_view_def none)
qed

lemma rx_view_simps [simp]:
  "rx_view base [] s = Some s"
  "rx_view base (e # evs) s = Option.bind (rx_event base e (Some s)) (rx_view base evs)"
  using rx_view_append [of base "[e]" evs s] by (simp_all add: rx_view_def)

text \<open>A status that ends the receive: data, a break and a framing error at once.\<close>

definition broken :: "u8 \<Rightarrow> bool" where
  "broken l \<longleftrightarrow> l AND UART_LSR_DR \<noteq> 0 \<and> l AND UART_LSR_BI \<noteq> 0 \<and> l AND UART_LSR_FE \<noteq> 0"

lemma run_inb:
  "run_state (inb io port) b = (v, b') \<Longrightarrow> trace b' = trace b @ [EvIn port v]"
  by (auto simp: inb_def split: prod.splits)

lemma run_pause: "trace (snd (run_state (pause io) b)) = trace b @ [EvYield]"
  by (simp add: pause_def)

definition waited :: "u16 \<Rightarrow> 'c Bus \<Rightarrow> u8 \<times> 'c Bus \<Rightarrow> bool" where
  "waited base b y \<longleftrightarrow> (case y of (l, b') \<Rightarrow> l AND UART_LSR_DR \<noteq> 0 \<and>
     (\<exists>new. trace b' = trace b @ new \<and> (\<forall>seen got over. rx_view base new (seen, got, over) = Some (Some l, got, over))))"

lemma rx_wait_view: "uart_rx_wait io base b = Some y \<Longrightarrow> waited base b y"
proof (induction rule: uart_rx_wait.raw_induct [rotated, consumes 1])
  case (1 wait io base b y)
  obtain v b1 where r: "run_state (inb io (base + UART_REG_LSR)) b = (v, b1)"
    by (cases "run_state (inb io (base + UART_REG_LSR)) b")
  have t: "trace b1 = trace b @ [EvIn (base + 5) v]" using run_inb [OF r] by (simp add: uart_regs)
  show ?case
  proof (cases "v AND UART_LSR_DR = 0")
    case True
    then have "waited base (snd (run_state (pause io) b1)) y" using 1 r by simp
    then show ?thesis using t by (auto simp: waited_def run_pause)
  next
    case False
    then show ?thesis using 1(2) r t by (auto simp: waited_def)
  qed
qed

definition filled :: "u16 \<Rightarrow> int \<Rightarrow> u8 \<Rightarrow> u8 list \<Rightarrow> u32 \<Rightarrow> 'c Bus \<Rightarrow> u8 list option \<times> u32 \<times> 'c Bus \<Rightarrow> bool" where
  "filled base len l got over b y \<longleftrightarrow> (case y of (r, over', b') \<Rightarrow> \<exists>new. trace b' = trace b @ new \<and>
     (case r of
        Some g \<Rightarrow> int (length g) \<le> max (int (length got)) len \<and>
          (\<exists>l'. rx_view base new (Some l, got, over) = Some (Some l', g, over'))
      | None \<Rightarrow> \<exists>s. broken s \<and> (s = l \<or> EvIn (base + 5) s \<in> set new)))"

lemma filled_step:
  assumes "\<And>new. rx_view base (EvIn base v # EvIn (base + 5) l' # new) (Some l, got, over) = rx_view base new (Some l', got', over')"
    "trace b2 = trace b @ [EvIn base v, EvIn (base + 5) l']" "int (length got') \<le> max (int (length got)) len"
    "filled base len l' got' over' b2 y"
  shows "filled base len l got over b y"
proof -
  obtain r over'' b' where y: "y = (r, over'', b')" by (cases y)
  obtain new where new: "trace b' = trace b2 @ new"
    "case r of Some g \<Rightarrow> int (length g) \<le> max (int (length got')) len \<and>
         (\<exists>l''. rx_view base new (Some l', got', over') = Some (Some l'', g, over''))
      | None \<Rightarrow> \<exists>s. broken s \<and> (s = l' \<or> EvIn (base + 5) s \<in> set new)"
    using assms(4) by (auto simp: filled_def y)
  let ?new = "EvIn base v # EvIn (base + 5) l' # new"
  have "trace b' = trace b @ ?new" using new(1) assms(2) by simp
  moreover have "case r of Some g \<Rightarrow> int (length g) \<le> max (int (length got)) len \<and>
         (\<exists>l''. rx_view base ?new (Some l, got, over) = Some (Some l'', g, over''))
      | None \<Rightarrow> \<exists>s. broken s \<and> (s = l \<or> EvIn (base + 5) s \<in> set ?new)"
    using new(2) assms(3) unfolding assms(1) by (cases r) auto
  ultimately show ?thesis unfolding filled_def y by blast
qed

lemma rx_fill_view: "uart_rx_fill io base len l got over b = Some y \<Longrightarrow> filled base len l got over b y"
proof (induction rule: uart_rx_fill.raw_induct [rotated, consumes 1])
  case (1 fill io base len l got over b y)
  obtain v b1 where r1: "run_state (inb io (base + UART_REG_RBR)) b = (v, b1)"
    by (cases "run_state (inb io (base + UART_REG_RBR)) b")
  obtain l' b2 where r2: "run_state (inb io (base + UART_REG_LSR)) b1 = (l', b2)"
    by (cases "run_state (inb io (base + UART_REG_LSR)) b1")
  have t1: "trace b1 = trace b @ [EvIn base v]" using run_inb [OF r1] by (simp add: uart_regs)
  have t2: "trace b2 = trace b1 @ [EvIn (base + 5) l']" using run_inb [OF r2] by (simp add: uart_regs)
  let ?over = "if l AND UART_LSR_OE \<noteq> 0 then over + 1 else over"
  let ?got = "if l AND UART_LSR_BI \<noteq> 0 then got else got @ [v]"
  show ?case
  proof (cases "int (length got) < len \<and> l AND UART_LSR_DR \<noteq> 0")
    case False
    then show ?thesis using 1(2) by (auto simp: filled_def)
  next
    case more: True
    show ?thesis
    proof (cases "l AND UART_LSR_BI \<noteq> 0 \<and> l AND UART_LSR_FE \<noteq> 0")
      case True
      then show ?thesis using 1(2) r1 t1 more by (auto simp: filled_def broken_def)
    next
      case False
      have "fill io base len l' ?got ?over b2 = Some y"
        using 1(2) r1 r2 more by (simp add: Let_def if_not_P [OF False])
      then have f: "filled base len l' ?got ?over b2 y" by (rule 1(1))
      have "rx_view base (EvIn base v # EvIn (base + 5) l' # new) (Some l, got, over) = rx_view base new (Some l', ?got, ?over)" for new
        using more False by (auto simp: Let_def)
      moreover have "trace b2 = trace b @ [EvIn base v, EvIn (base + 5) l']" using t1 t2 by simp
      moreover have "int (length ?got) \<le> max (int (length got)) len" using more by auto
      ultimately show ?thesis using f by (rule filled_step)
    qed
  qed
qed

definition drained :: "u16 \<Rightarrow> int \<Rightarrow> u32 \<Rightarrow> 'c Bus \<Rightarrow> u8 list option \<times> u32 \<times> 'c Bus \<Rightarrow> bool" where
  "drained base len over b y \<longleftrightarrow> (case y of (r, over', b') \<Rightarrow> \<exists>new. trace b' = trace b @ new \<and>
     (case r of
        Some g \<Rightarrow> g \<noteq> [] \<and> int (length g) \<le> len \<and>
          (\<exists>l. \<forall>seen. rx_view base new (seen, [], over) = Some (Some l, g, over'))
      | None \<Rightarrow> \<exists>s. broken s \<and> EvIn (base + 5) s \<in> set new))"

lemma rx_view_last:
  "rx_view base new (seen, got, over) = Some (Some l, got', over') \<Longrightarrow> seen = Some l \<or> EvIn (base + 5) l \<in> set new"
proof (induction new arbitrary: seen got over)
  case (Cons e new)
  then show ?case
    by (cases e) (auto simp: bind_eq_Some_conv split: if_splits option.splits)
qed simp

lemma drained_pass:
  assumes w: "waited base b (l, b1)" and f: "filled base len l [] over b1 (r, over', b2)" and "r \<noteq> Some []"
  shows "drained base len over b (r, over', b2)"
proof -
  obtain pre where pre: "trace b1 = trace b @ pre"
    "\<And>seen. rx_view base pre (seen, [], over) = Some (Some l, [], over)"
    using w by (auto simp: waited_def)
  obtain new where new: "trace b2 = trace b1 @ new"
    "case r of Some g \<Rightarrow> int (length g) \<le> max (int (length ([] :: u8 list))) len \<and> (\<exists>l'. rx_view base new (Some l, [], over) = Some (Some l', g, over'))
     | None \<Rightarrow> \<exists>s. broken s \<and> (s = l \<or> EvIn (base + 5) s \<in> set new)"
    using f by (auto simp: filled_def)
  have l: "EvIn (base + 5) l \<in> set pre"
    using rx_view_last [OF pre(2) [of None]] by simp
  have "trace b2 = trace b @ (pre @ new)" using pre(1) new(1) by simp
  moreover have "case r of Some g \<Rightarrow> g \<noteq> [] \<and> int (length g) \<le> len \<and>
      (\<exists>l. \<forall>seen. rx_view base (pre @ new) (seen, [], over) = Some (Some l, g, over'))
    | None \<Rightarrow> \<exists>s. broken s \<and> EvIn (base + 5) s \<in> set (pre @ new)"
    using new(2) assms(3) l by (cases r) (auto simp: rx_view_append pre(2) max_def split: if_splits)
  ultimately show ?thesis unfolding drained_def by blast
qed

lemma drained_again:
  assumes w: "waited base b (l, b1)" and f: "filled base len l [] over b1 (Some [], over', b2)" and d: "drained base len over' b2 y"
  shows "drained base len over b y"
proof -
  obtain r over'' b3 where y: "y = (r, over'', b3)" by (cases y)
  obtain pre where pre: "trace b1 = trace b @ pre"
    "\<And>seen. rx_view base pre (seen, [], over) = Some (Some l, [], over)"
    using w by (auto simp: waited_def)
  obtain mid l' where mid: "trace b2 = trace b1 @ mid" "rx_view base mid (Some l, [], over) = Some (Some l', [], over')"
    using f by (auto simp: filled_def)
  obtain new where new: "trace b3 = trace b2 @ new"
    "case r of Some g \<Rightarrow> g \<noteq> [] \<and> int (length g) \<le> len \<and>
        (\<exists>l. \<forall>seen. rx_view base new (seen, [], over') = Some (Some l, g, over''))
     | None \<Rightarrow> \<exists>s. broken s \<and> EvIn (base + 5) s \<in> set new"
    using d by (auto simp: drained_def y)
  have "trace b3 = trace b @ (pre @ mid @ new)" using pre(1) mid(1) new(1) by simp
  then show ?thesis using new(2) unfolding drained_def y
    by (cases r) (auto simp: rx_view_append pre(2) mid(2) intro!: exI [of _ "pre @ mid @ new"])
qed

lemma rx_loop_view: "uart_rx_loop io base len over b = Some y \<Longrightarrow> drained base len over b y"
proof (induction rule: uart_rx_loop.raw_induct [rotated, consumes 1])
  case (1 loop io base len over b y)
  from 1(2) obtain l b1 r over' b2 where w: "uart_rx_wait io base b = Some (l, b1)"
    and f: "uart_rx_fill io base len l [] over b1 = Some (r, over', b2)"
    and y: "(if r = Some [] then loop io base len over' b2 else Some (r, over', b2)) = Some y"
    by (auto simp: bind_eq_Some_conv)
  show ?case
  proof (cases "r = Some []")
    case True
    have "drained base len over' b2 y" by (rule 1(1)) (use y True in simp)
    then show ?thesis by (rule drained_again [OF rx_wait_view [OF w] rx_fill_view [OF f [unfolded True]]])
  next
    case False
    then show ?thesis using drained_pass [OF rx_wait_view [OF w] rx_fill_view [OF f] False] y by simp
  qed
qed

text \<open>
  C24: a receive never comes back empty: it returns between one and \<open>len\<close> bytes, or an
  error.  The bytes are exactly those taken off the chip and not dropped for a break,
  each taken on a status of its own that had data ready and was read just before; the
  overrun count has grown by the statuses that reported one; and it is an error only
  after a status with a break and a framing error.
\<close>

theorem UartRxDrain_view:
  assumes "UartRxDrain io drv len b = Some (r, drv', b')"
  shows "\<exists>new. trace b' = trace b @ new \<and>
    (case r of
       Some g \<Rightarrow> g \<noteq> [] \<and> int (length g) \<le> len \<and>
         (\<exists>l. rx_view (base_port drv) new (None, [], overrun_count drv) = Some (Some l, g, overrun_count drv'))
     | None \<Rightarrow> \<exists>s. broken s \<and> EvIn (base_port drv + 5) s \<in> set new)"
proof -
  have "drained (base_port drv) len (overrun_count drv) b (r, overrun_count drv', b')"
    by (rule rx_loop_view) (use assms in \<open>auto simp: UartRxDrain_def\<close>)
  then show ?thesis by (auto simp: drained_def split: option.splits) blast+
qed

section \<open>Closing\<close>

text \<open>
  A close ends after a bounded number of port operations and leaves a live chip
  quiescent: no interrupt enabled and every modem line down.
\<close>

theorem UartDrainAndClose_quiet:
  "case run_state (UartDrainAndClose io drv) b of (drv', b') \<Rightarrow>
     \<not> drv_open drv' \<and>
     (\<exists>new. trace b' = trace b @ new \<and> length new \<le> 200002 \<and> list_all (gentle (base_port drv)) new \<and>
        (\<forall>r. dlab r \<or> regs_after (base_port drv) new r = r\<lparr>ier := 0, mcr := 0\<rparr>))"
proof -
  have "ensures (UartDrainAndClose io drv) (trace b) (\<lambda>drv' tr'. \<not> drv_open drv' \<and>
      (\<exists>new. tr' = trace b @ new \<and> length new \<le> 200002 \<and> list_all (gentle (base_port drv)) new \<and>
        (\<forall>r. dlab r \<or> regs_after (base_port drv) new r = r\<lparr>ier := 0, mcr := 0\<rparr>)))"
    unfolding UartDrainAndClose_def by (intro bus_rules; simp add: uart_trace)
  then show ?thesis using ensuresD by fastforce
qed

end
