(* ===== verification/UartSim.thy ===== *)
theory UartSim
  imports UartTrace
begin

text \<open>
  The simulated 16550 of the test suite, \<^verbatim>\<open>src/tests/uart_sim.h\<close>, behind the
  port seam, and what the driver achieves on it.  Its trace of writes and its operation
  counter are the trace of the bus.
\<close>

section \<open>The chip\<close>

datatype UartSimVariant = UART_SIM_NORMAL | UART_SIM_ABSENT | UART_SIM_DEAD_CLONE | UART_SIM_DIVISOR_STUCK
  | UART_SIM_NEVER_READY | UART_SIM_NONA_16550

record UartSim =
  sim_base :: u16
  sim_kind :: UartChipKind
  sim_variant :: UartSimVariant
  sim_dlab :: bool
  sim_dll :: u8
  sim_dlm :: u8
  sim_ier :: u8
  sim_fcr :: u8
  sim_fifo_on :: bool
  sim_mcr :: u8
  sim_lsr_err :: u8
  sim_scratch :: u8
  sim_scratch_loaded :: bool
  sim_tx :: "u8 list"
  sim_rx :: "u8 list"
  sim_rx_err :: "u8 list"
  sim_rx_pos :: nat
  sim_loop_pending :: bool
  sim_loop_byte :: u8
  sim_idle_yields_until_rx :: nat
  sim_idle_rx_byte :: u8
  sim_idle_yields_seen :: nat

definition SIM_TX_CAP :: nat where "SIM_TX_CAP = 512"
definition SIM_RX_CAP :: nat where "SIM_RX_CAP = 512"

definition UartSimInit :: "u16 \<Rightarrow> UartChipKind \<Rightarrow> UartSimVariant \<Rightarrow> UartSim" where
  "UartSimInit base kind v = \<lparr> sim_base = base, sim_kind = kind, sim_variant = v, sim_dlab = False, sim_dll = 0,
     sim_dlm = 0, sim_ier = 0, sim_fcr = 0, sim_fifo_on = False, sim_mcr = 0, sim_lsr_err = 0, sim_scratch = 0,
     sim_scratch_loaded = False, sim_tx = [], sim_rx = [], sim_rx_err = [], sim_rx_pos = 0,
     sim_loop_pending = False, sim_loop_byte = 0, sim_idle_yields_until_rx = 0, sim_idle_rx_byte = 0,
     sim_idle_yields_seen = 0 \<rparr>"

definition UartSimInjectRx :: "UartSim \<Rightarrow> u8 list \<Rightarrow> UartSim" where
  "UartSimInjectRx s bs = (let fed = take (SIM_RX_CAP - length (sim_rx s)) bs in
     s\<lparr>sim_rx := sim_rx s @ fed, sim_rx_err := sim_rx_err s @ replicate (length fed) 0\<rparr>)"

definition UartSimHasScratch :: "UartSim \<Rightarrow> bool" where
  "UartSimHasScratch s =
     (if sim_variant s = UART_SIM_ABSENT then False else if sim_kind s = UART_CHIP_8250 then False else True)"

definition UartSimFifoIir :: "UartSim \<Rightarrow> u8" where
  "UartSimFifoIir s =
     (if sim_variant s = UART_SIM_NONA_16550 then 0x80 else if sim_kind s = UART_CHIP_16550A then 0xC0 else 0x00)"

definition UartSimLsr :: "UartSim \<Rightarrow> u8" where
  "UartSimLsr s =
     (if sim_variant s = UART_SIM_ABSENT then 0xFF
      else (if sim_variant s \<noteq> UART_SIM_NEVER_READY then 0x60 else 0) OR
        (if sim_variant s \<noteq> UART_SIM_NEVER_READY then
           (if sim_loop_pending s then 0x01
            else if sim_rx_pos s < length (sim_rx s) then 0x01 OR (sim_rx_err s ! sim_rx_pos s AND 0x1E)
            else 0)
         else 0) OR sim_lsr_err s)"

definition UartSimIn :: "UartSim \<Rightarrow> u16 \<Rightarrow> u8 \<times> UartSim" where
  "UartSimIn s port =
     (let off = port - sim_base s in
      if sim_variant s = UART_SIM_ABSENT then (0xFF, s)
      else if off = 0 then
        (if sim_dlab s then (sim_dll s, s)
         else if sim_loop_pending s then (sim_loop_byte s, s\<lparr>sim_loop_pending := False\<rparr>)
         else if sim_rx_pos s < length (sim_rx s)
         then (sim_rx s ! sim_rx_pos s, s\<lparr>sim_rx_pos := sim_rx_pos s + 1\<rparr>)
         else (0x00, s))
      else if off = 1 then (if sim_dlab s then sim_dlm s else sim_ier s, s)
      else if off = 2 then (UartSimFifoIir s, s)
      else if off = 3 then (if sim_dlab s then 0x80 else 0x03, s)
      else if off = 4 then (sim_mcr s, s)
      else if off = 5 then
        (UartSimLsr s,
         s\<lparr>sim_lsr_err := 0,
           sim_rx_err := (if sim_rx_pos s < length (sim_rx s) then (sim_rx_err s)[sim_rx_pos s := 0] else sim_rx_err s)\<rparr>)
      else if off = 6 then
        (if sim_mcr s AND 0x10 \<noteq> 0
         then (if sim_mcr s AND 0x02 \<noteq> 0 then 0x10 else 0) OR (if sim_mcr s AND 0x01 \<noteq> 0 then 0x20 else 0) OR
              (if sim_mcr s AND 0x04 \<noteq> 0 then 0x40 else 0) OR (if sim_mcr s AND 0x08 \<noteq> 0 then 0x80 else 0)
         else 0x00, s)
      else if off = 7 then
        (if \<not> UartSimHasScratch s then 0xFF else if sim_scratch_loaded s then sim_scratch s else 0x00, s)
      else (0x00, s))"

definition UartSimOut :: "UartSim \<Rightarrow> u16 \<Rightarrow> u8 \<Rightarrow> UartSim" where
  "UartSimOut s port v =
     (let off = port - sim_base s in
      if sim_variant s = UART_SIM_ABSENT then s
      else if off = 0 then
        (if sim_dlab s then (if sim_variant s \<noteq> UART_SIM_DIVISOR_STUCK then s\<lparr>sim_dll := v\<rparr> else s)
         else if sim_mcr s AND 0x10 \<noteq> 0 then
           (if sim_variant s \<noteq> UART_SIM_DEAD_CLONE then s\<lparr>sim_loop_pending := True, sim_loop_byte := v\<rparr> else s)
         else if length (sim_tx s) < SIM_TX_CAP then s\<lparr>sim_tx := sim_tx s @ [v]\<rparr> else s)
      else if off = 1 then
        (if sim_dlab s then (if sim_variant s \<noteq> UART_SIM_DIVISOR_STUCK then s\<lparr>sim_dlm := v\<rparr> else s)
         else s\<lparr>sim_ier := v AND 0x0F\<rparr>)
      else if off = 2 then s\<lparr>sim_fcr := v, sim_fifo_on := (v AND 0x01 \<noteq> 0)\<rparr>
      else if off = 3 then s\<lparr>sim_dlab := (v AND 0x80 \<noteq> 0)\<rparr>
      else if off = 4 then s\<lparr>sim_mcr := v\<rparr>
      else if off = 7 then (if UartSimHasScratch s then s\<lparr>sim_scratch := v, sim_scratch_loaded := True\<rparr> else s)
      else s)"

definition UartSimYield :: "UartSim \<Rightarrow> UartSim" where
  "UartSimYield s =
     (if sim_idle_yields_until_rx s > 0 \<and> sim_rx_pos s \<ge> length (sim_rx s) then
        (let s1 = s\<lparr>sim_idle_yields_seen := sim_idle_yields_seen s + 1\<rparr> in
         if sim_idle_yields_seen s1 \<ge> sim_idle_yields_until_rx s1 then
           (if length (sim_rx s1) < SIM_RX_CAP
            then s1\<lparr>sim_rx := sim_rx s1 @ [sim_idle_rx_byte s1], sim_rx_err := sim_rx_err s1 @ [0]\<rparr>
            else s1)\<lparr>sim_idle_yields_until_rx := 0\<rparr>
         else s1)
      else s)"

definition UartSimPortIo :: "UartSim UartPortIo" where
  "UartSimPortIo = \<lparr> port_in = UartSimIn, port_out = UartSimOut, port_yield = UartSimYield \<rparr>"

section \<open>Running the driver on it\<close>

lemma run_sim:
  "run_state (inb UartSimPortIo port) b =
     (case UartSimIn (chip b) port of (v, c) \<Rightarrow> (v, \<lparr> chip = c, trace = trace b @ [EvIn port v] \<rparr>))"
  "run_state (outb UartSimPortIo port v) b = ((), \<lparr> chip = UartSimOut (chip b) port v, trace = trace b @ [EvOut port v] \<rparr>)"
  "run_state (pause UartSimPortIo) b = ((), \<lparr> chip = UartSimYield (chip b), trace = trace b @ [EvYield] \<rparr>)"
  by (simp_all add: inb_def outb_def pause_def UartSimPortIo_def)

lemma sim_regs:
  assumes "sim_base s = base" "sim_variant s \<noteq> UART_SIM_ABSENT"
  shows "UartSimIn s (base + 1) = (if sim_dlab s then sim_dlm s else sim_ier s, s)"
    "UartSimIn s (base + 2) = (UartSimFifoIir s, s)"
    "UartSimIn s (base + 6) =
       (if sim_mcr s AND 0x10 \<noteq> 0
         then (if sim_mcr s AND 0x02 \<noteq> 0 then 0x10 else 0) OR (if sim_mcr s AND 0x01 \<noteq> 0 then 0x20 else 0) OR
              (if sim_mcr s AND 0x04 \<noteq> 0 then 0x40 else 0) OR (if sim_mcr s AND 0x08 \<noteq> 0 then 0x80 else 0)
         else 0, s)"
    "UartSimIn s (base + 7) =
       (if \<not> UartSimHasScratch s then 0xFF else if sim_scratch_loaded s then sim_scratch s else 0x00, s)"
    "UartSimOut s base v =
       (if sim_dlab s then (if sim_variant s \<noteq> UART_SIM_DIVISOR_STUCK then s\<lparr>sim_dll := v\<rparr> else s)
        else if sim_mcr s AND 0x10 \<noteq> 0 then
          (if sim_variant s \<noteq> UART_SIM_DEAD_CLONE then s\<lparr>sim_loop_pending := True, sim_loop_byte := v\<rparr> else s)
        else if length (sim_tx s) < SIM_TX_CAP then s\<lparr>sim_tx := sim_tx s @ [v]\<rparr> else s)"
    "UartSimOut s (base + 1) v =
       (if sim_dlab s then (if sim_variant s \<noteq> UART_SIM_DIVISOR_STUCK then s\<lparr>sim_dlm := v\<rparr> else s)
        else s\<lparr>sim_ier := v AND 0x0F\<rparr>)"
    "UartSimOut s (base + 2) v = s\<lparr>sim_fcr := v, sim_fifo_on := (v AND 0x01 \<noteq> 0)\<rparr>"
    "UartSimOut s (base + 3) v = s\<lparr>sim_dlab := (v AND 0x80 \<noteq> 0)\<rparr>"
    "UartSimOut s (base + 4) v = s\<lparr>sim_mcr := v\<rparr>"
    "UartSimOut s (base + 7) v =
       (if UartSimHasScratch s then s\<lparr>sim_scratch := v, sim_scratch_loaded := True\<rparr> else s)"
  using assms by (simp_all add: UartSimIn_def UartSimOut_def)

lemma sim_data:
  assumes "sim_base s = base" "sim_variant s \<noteq> UART_SIM_ABSENT"
  shows "sim_dlab s \<Longrightarrow> UartSimIn s base = (sim_dll s, s)"
    "\<not> sim_dlab s \<Longrightarrow> sim_loop_pending s \<Longrightarrow> UartSimIn s base = (sim_loop_byte s, s\<lparr>sim_loop_pending := False\<rparr>)"
    "\<not> sim_dlab s \<Longrightarrow> \<not> sim_loop_pending s \<Longrightarrow> sim_rx s = [] \<Longrightarrow> UartSimIn s base = (0, s)"
    "sim_rx s = [] \<Longrightarrow> sim_lsr_err s = 0 \<Longrightarrow> UartSimIn s (base + 5) = (UartSimLsr s, s)"
  using assms by (simp_all add: UartSimIn_def)

text \<open>
  \<open>answers m s a s'\<close>: on the chip \<open>s\<close> the program answers \<open>a\<close> and leaves \<open>s'\<close>,
  whatever trace it starts with.
\<close>

definition answers :: "('c Bus, 'a) state \<Rightarrow> 'c \<Rightarrow> 'a \<Rightarrow> 'c \<Rightarrow> bool" where
  "answers m s a s' \<longleftrightarrow> (\<forall>tr. \<exists>tr'. run_state m \<lparr> chip = s, trace = tr \<rparr> = (a, \<lparr> chip = s', trace = tr' \<rparr>))"

lemma answers_bind: "answers m s a s' \<Longrightarrow> answers (f a) s' r s'' \<Longrightarrow> answers (State_Monad.bind m f) s r s''"
proof -
  assume m: "answers m s a s'" and f: "answers (f a) s' r s''"
  show ?thesis unfolding answers_def
  proof
    fix tr
    from m obtain tr1 where "run_state m \<lparr> chip = s, trace = tr \<rparr> = (a, \<lparr> chip = s', trace = tr1 \<rparr>)" by (auto simp: answers_def)
    then show "\<exists>tr'. run_state (State_Monad.bind m f) \<lparr> chip = s, trace = tr \<rparr> = (r, \<lparr> chip = s'', trace = tr' \<rparr>)"
      using f by (simp add: answers_def)
  qed
qed

lemma answers_return: "answers (State_Monad.return a) s a s"
  by (simp add: answers_def)

lemma answers_run: "answers m s a s' \<Longrightarrow> \<exists>tr'. run_state m \<lparr> chip = s, trace = tr \<rparr> = (a, \<lparr> chip = s', trace = tr' \<rparr>)"
  by (simp add: answers_def)

lemma poll_now:
  assumes "UartSimIn s port = (v, s')" "v AND bits \<noteq> 0"
  shows "answers (uart_poll UartSimPortIo port bits UART_POLL_BOUND) s True s'"
  using uart_poll.simps(2) [of UartSimPortIo port bits 99999] assms
  by (simp add: UART_POLL_BOUND_def answers_def run_sim)

lemma poll_never:
  assumes "UartSimIn s port = (v, s)" "v AND bits = 0" "UartSimYield s = s"
  shows "answers (uart_poll UartSimPortIo port bits n) s False s"
  using assms by (induction n) (auto simp: answers_return run_sim intro!: answers_bind simp: answers_def)

lemmas sim_defs = uart_regs uart_bits UartSimHasScratch_def UartSimFifoIir_def UartSimLsr_def Let_def answers_def
  UART_SINGLE_TX_CHUNK_def UART_FIFO_TX_CHUNK_def

text \<open>A chip at rest: the latch closed, nothing received, nothing in the loop.\<close>

definition at_rest :: "u16 \<Rightarrow> UartSim \<Rightarrow> bool" where
  "at_rest base s \<longleftrightarrow> sim_base s = base \<and> sim_variant s \<noteq> UART_SIM_ABSENT \<and> \<not> sim_dlab s \<and> sim_rx s = [] \<and>
     sim_lsr_err s = 0 \<and> \<not> sim_loop_pending s \<and> sim_idle_yields_until_rx s = 0"

lemma clear_sim:
  assumes "at_rest (base_port drv) s"
  shows "answers (UartClearStale UartSimPortIo drv) s () s"
  using assms by (simp add: UartClearStale_def at_rest_def run_sim sim_regs sim_data sim_defs)

lemma detect_sim:
  assumes "at_rest (base_port drv) s"
  shows "\<exists>s'. answers (UartDetect UartSimPortIo drv) s
      (True, if UartSimFifoIir s = 0xC0
        then drv\<lparr>chip_kind := UART_CHIP_16550A, fifo_enabled := True, tx_chunk := 16\<rparr>
        else drv\<lparr>chip_kind := (if UartSimHasScratch s then UART_CHIP_16450 else UART_CHIP_8250),
          fifo_enabled := False, tx_chunk := 1\<rparr>) s' \<and>
      at_rest (base_port drv) s' \<and> sim_variant s' = sim_variant s \<and> sim_dll s' = sim_dll s \<and> sim_dlm s' = sim_dlm s"
  using assms by (simp add: UartDetect_def at_rest_def run_sim sim_regs sim_data sim_defs)

lemma divisor_sim:
  assumes "at_rest (base_port drv) s" "sim_variant s \<noteq> UART_SIM_DIVISOR_STUCK"
  shows "\<exists>s'. answers (UartProgramDivisor UartSimPortIo drv d) s (True, drv\<lparr>divisor := d\<rparr>) s' \<and>
      at_rest (base_port drv) s' \<and> sim_variant s' = sim_variant s"
  using assms by (simp add: UartProgramDivisor_def at_rest_def run_sim sim_regs sim_data sim_defs)

lemma latch_zero:
  "ucast (d AND 0xFF) = (0 :: u8) \<and> ucast (drop_bit 8 d AND 0xFF) = (0 :: u8) \<longleftrightarrow> (ucast (d :: u32) :: u16) = 0"
proof -
  have 8: "unat (ucast (w AND 0xFF) :: u8) = unat w mod 256" for w :: u32
  proof -
    have "w AND 0xFF = take_bit 8 w" by (simp add: take_bit_eq_mask mask_eq_exp_minus_1)
    then show ?thesis by (simp add: unsigned_ucast_eq unsigned_take_bit_eq take_bit_nat_def)
  qed
  have 16: "unat (ucast d :: u16) = unat d mod 65536"
    by (simp add: unsigned_ucast_eq take_bit_nat_def)
  have "unat (drop_bit 8 d) = unat d div 256" by (simp add: unat_drop_bit_eq drop_bit_nat_def)
  then show ?thesis unfolding unat_eq_0 [symmetric] 8 16 using mod_mult2_eq [of "unat d" 256 256] by auto
qed

lemma divisor_stuck:
  assumes "at_rest (base_port drv) s" "sim_variant s = UART_SIM_DIVISOR_STUCK" "sim_dll s = 0" "sim_dlm s = 0"
  shows "\<exists>s'. answers (UartProgramDivisor UartSimPortIo drv d) s
      (if (ucast d :: u16) = 0 then (True, drv\<lparr>divisor := d\<rparr>) else (False, drv)) s' \<and>
      at_rest (base_port drv) s' \<and> sim_variant s' = sim_variant s"
  using assms by (simp add: UartProgramDivisor_def at_rest_def run_sim sim_regs sim_data sim_defs flip: latch_zero)

lemma poll_sim:
  "run_state (uart_poll UartSimPortIo port bits UART_POLL_BOUND) b =
     (case UartSimIn (chip b) port of (v, c) \<Rightarrow>
        if v AND bits \<noteq> 0 then (True, \<lparr> chip = c, trace = trace b @ [EvIn port v] \<rparr>)
        else run_state (uart_poll UartSimPortIo port bits 99999)
          \<lparr> chip = UartSimYield c, trace = trace b @ [EvIn port v, EvYield] \<rparr>)"
  using uart_poll.simps(2) [of UartSimPortIo port bits 99999]
  by (simp add: UART_POLL_BOUND_def run_sim split: prod.split)

lemma loopback_sim:
  assumes "at_rest (base_port drv) s" "sim_variant s \<noteq> UART_SIM_DEAD_CLONE" "sim_variant s \<noteq> UART_SIM_NEVER_READY"
  shows "\<exists>s'. answers (UartLoopbackSelfTest UartSimPortIo drv) s True s' \<and> at_rest (base_port drv) s'"
  using assms by (simp add: UartLoopbackSelfTest_def at_rest_def run_sim sim_regs sim_data sim_defs poll_sim)

lemma loopback_fails:
  assumes "at_rest (base_port drv) s" "sim_variant s \<in> {UART_SIM_DEAD_CLONE, UART_SIM_NEVER_READY}"
  shows "\<exists>s'. answers (UartLoopbackSelfTest UartSimPortIo drv) s False s'"
proof -
  let ?s = "UartSimOut (s\<lparr>sim_mcr := 0x17\<rparr>) (base_port drv) 0xAE"
  have "UartSimIn ?s (base_port drv + 5) = (if sim_variant s = UART_SIM_DEAD_CLONE then 0x60 else 0, ?s)" "UartSimYield ?s = ?s"
    using assms by (auto simp: at_rest_def sim_regs sim_data UartSimLsr_def UartSimYield_def)
  then have "answers (uart_poll UartSimPortIo (base_port drv + 5) 1 UART_POLL_BOUND) ?s False ?s"
    by (intro poll_never) auto
  moreover have "answers (outb UartSimPortIo (base_port drv + 4) 0x17) s () (s\<lparr>sim_mcr := 0x17\<rparr>)"
    "answers (outb UartSimPortIo (base_port drv) 0xAE) (s\<lparr>sim_mcr := 0x17\<rparr>) () ?s"
    using assms by (simp_all add: answers_def run_sim at_rest_def sim_regs)
  moreover have "answers (State_Monad.bind (outb UartSimPortIo (base_port drv + 4) 3) (\<lambda>_. State_Monad.return False)) ?s False
      (UartSimOut ?s (base_port drv + 4) 3)"
    by (simp add: answers_def run_sim)
  ultimately show ?thesis
    by (auto simp: UartLoopbackSelfTest_def Let_def uart_regs uart_bits intro!: exI answers_bind)
qed

lemma out_rest:
  assumes "at_rest base s" "k \<in> {1, 2, 4}"
  shows "answers (outb UartSimPortIo (base + k) v) s () (UartSimOut s (base + k) v)"
    "at_rest base (UartSimOut s (base + k) v)" "sim_variant (UartSimOut s (base + k) v) = sim_variant s"
  using assms by (auto simp: at_rest_def run_sim sim_regs answers_def)

lemma go_live_sim:
  assumes rest: "at_rest (base_port drv) s"
  shows "\<exists>s' drv'. answers (uart_go_live UartSimPortIo drv) s
      (sim_variant s \<notin> {UART_SIM_DEAD_CLONE, UART_SIM_NEVER_READY}, drv') s' \<and> fifo_enabled drv' = fifo_enabled drv"
proof -
  let ?b = "base_port drv"
  define f where "f = (if chip_kind drv = UART_CHIP_16550A then UART_FCR_ENABLE else UART_FCR_OFF)"
  define s1 where "s1 = UartSimOut s (?b + 2) f"
  define s2 where "s2 = UartSimOut s1 (?b + 4) UART_MCR_LIVE"
  define s3 where "s3 = UartSimOut s2 (?b + 1) 0"
  have r1: "at_rest ?b s1" "sim_variant s1 = sim_variant s" using out_rest(2,3) [OF rest, of 2] by (simp_all add: s1_def)
  have r2: "at_rest ?b s2" "sim_variant s2 = sim_variant s" using out_rest(2,3) [OF r1(1), of 4] r1(2) by (simp_all add: s2_def)
  have r3: "at_rest ?b s3" "sim_variant s3 = sim_variant s" using out_rest(2,3) [OF r2(1), of 1] r2(2) by (simp_all add: s3_def)
  have outs: "answers (outb UartSimPortIo (?b + 2) f) s () s1"
    "answers (outb UartSimPortIo (?b + 4) UART_MCR_LIVE) s1 () s2" "answers (outb UartSimPortIo (?b + 1) 0) s2 () s3"
    using out_rest(1) [OF rest, of 2] out_rest(1) [OF r1(1), of 4] out_rest(1) [OF r2(1), of 1]
    by (simp_all add: s1_def s2_def s3_def)
  show ?thesis
  proof (cases "sim_variant s \<in> {UART_SIM_DEAD_CLONE, UART_SIM_NEVER_READY}")
    case True
    then obtain s4 where "answers (UartLoopbackSelfTest UartSimPortIo drv) s3 False s4"
      using loopback_fails [OF r3(1)] r3(2) by auto
    then have "answers (uart_go_live UartSimPortIo drv) s (False, drv) s4"
      using outs unfolding uart_go_live_def Let_def uart_regs f_def [symmetric]
      by (force intro: answers_bind answers_return)
    then show ?thesis using True by auto
  next
    case False
    then obtain s4 where s4: "answers (UartLoopbackSelfTest UartSimPortIo drv) s3 True s4" "at_rest ?b s4"
      using loopback_sim [OF r3(1)] r3(2) by auto
    then have "answers (uart_go_live UartSimPortIo drv) s (True, drv\<lparr>drv_open := True\<rparr>) s4"
      using outs clear_sim [OF s4(2)] unfolding uart_go_live_def Let_def uart_regs f_def [symmetric]
      by (force intro: answers_bind answers_return)
    then show ?thesis using False by (intro exI [of _ s4] exI [of _ "drv\<lparr>drv_open := True\<rparr>"]) simp
  qed
qed

section \<open>What it achieves\<close>

lemma open_sim:
  "\<exists>live drv s'. answers (UartOpenSequence UartSimPortIo base d) (UartSimInit base kind v) (live, drv) s' \<and>
     (live \<longleftrightarrow> v \<in> {UART_SIM_NORMAL, UART_SIM_NONA_16550} \<or> v = UART_SIM_DIVISOR_STUCK \<and> (ucast d :: u16) = 0) \<and>
     (live \<and> fifo_enabled drv \<longleftrightarrow> live \<and> kind = UART_CHIP_16550A \<and> v \<noteq> UART_SIM_NONA_16550)"
proof (cases "v = UART_SIM_ABSENT")
  case True
  have float: "UartSimIn s port = (0xFF, s)" "UartSimOut s port w = s" if "sim_variant s = UART_SIM_ABSENT" for s port w
    using that by (simp_all add: UartSimIn_def UartSimOut_def)
  have "answers (UartOpenSequence UartSimPortIo base d) (UartSimInit base kind v)
      (False, UartDriverInit base) (UartSimInit base kind v)"
    by (simp add: UartOpenSequence_def UartClearStale_def UartDetect_def sim_defs run_sim float UartSimInit_def True
        UartDriverInit_def)
  then show ?thesis using True by auto
next
  case False
  let ?s = "UartSimInit base kind v" and ?drv = "UartDriverInit base"
  have rest: "at_rest (base_port ?drv) ?s" using False by (simp add: at_rest_def UartSimInit_def UartDriverInit_def)
  define drv where "drv = (if UartSimFifoIir ?s = 0xC0
        then ?drv\<lparr>chip_kind := UART_CHIP_16550A, fifo_enabled := True, tx_chunk := 16\<rparr>
        else ?drv\<lparr>chip_kind := (if UartSimHasScratch ?s then UART_CHIP_16450 else UART_CHIP_8250),
          fifo_enabled := False, tx_chunk := 1\<rparr>)"
  have drv: "base_port drv = base" "fifo_enabled drv \<longleftrightarrow> kind = UART_CHIP_16550A \<and> v \<noteq> UART_SIM_NONA_16550"
    by (simp_all add: drv_def UartDriverInit_def UartSimFifoIir_def UartSimInit_def)
  obtain s1 where s1: "answers (UartDetect UartSimPortIo ?drv) ?s (True, drv) s1" "at_rest base s1"
    "sim_variant s1 = v" "sim_dll s1 = 0" "sim_dlm s1 = 0"
    using detect_sim [OF rest] by (auto simp: drv_def UartSimInit_def UartDriverInit_def)
  let ?taken = "v \<noteq> UART_SIM_DIVISOR_STUCK \<or> (ucast d :: u16) = 0"
  let ?drv' = "if ?taken then drv\<lparr>divisor := d\<rparr> else drv"
  have "\<exists>s2. answers (UartProgramDivisor UartSimPortIo drv d) s1 (?taken, ?drv') s2 \<and> at_rest base s2 \<and> sim_variant s2 = v"
  proof (cases "v = UART_SIM_DIVISOR_STUCK")
    case True
    then show ?thesis using divisor_stuck [of drv s1 d] s1 drv(1) by (cases "(ucast d :: u16) = 0") auto
  next
    case False
    then show ?thesis using divisor_sim [of drv s1 d] s1 drv(1) by auto
  qed
  then obtain s2 where s2: "answers (UartProgramDivisor UartSimPortIo drv d) s1 (?taken, ?drv') s2" "at_rest base s2"
    "sim_variant s2 = v" by blast
  note start = clear_sim [OF rest] s1(1) s2(1)
  show ?thesis
  proof (cases ?taken)
    case True
    obtain s3 drv3 where s3: "answers (uart_go_live UartSimPortIo ?drv') s2
        (v \<notin> {UART_SIM_DEAD_CLONE, UART_SIM_NEVER_READY}, drv3) s3" "fifo_enabled drv3 = fifo_enabled drv"
      using go_live_sim [of ?drv' s2] s2 drv(1) True by auto
    have "answers (UartOpenSequence UartSimPortIo base d) ?s (v \<notin> {UART_SIM_DEAD_CLONE, UART_SIM_NEVER_READY}, drv3) s3"
      unfolding UartOpenSequence_def using start s3(1) True by (force intro: answers_bind)
    then show ?thesis using True False drv(2) s3(2) by (cases v) auto
  next
    case stuck: False
    have "answers (UartOpenSequence UartSimPortIo base d) ?s (False, drv) s2"
      unfolding UartOpenSequence_def using start stuck by (force intro: answers_bind answers_return)
    then show ?thesis using stuck by auto
  qed
qed

text \<open>
  On the simulated chip of any kind and with any of its faults the open sequence
  does what it is for: it goes live on a healthy chip and on the 16550 whose FIFO is
  broken, and on no chip that is absent, that does not loop back, that never gets ready
  or that ignores the divisor (unless the divisor is the zero such a chip holds); and the FIFO is used on
  the working 16550A only.
\<close>

theorem UartOpenSequence_sim:
  "case run_state (UartOpenSequence UartSimPortIo base d) \<lparr> chip = UartSimInit base kind v, trace = tr \<rparr> of
     ((live, drv), b') \<Rightarrow>
       (live \<longleftrightarrow> v \<in> {UART_SIM_NORMAL, UART_SIM_NONA_16550} \<or> v = UART_SIM_DIVISOR_STUCK \<and> (ucast d :: u16) = 0) \<and>
       (live \<and> fifo_enabled drv \<longleftrightarrow> live \<and> kind = UART_CHIP_16550A \<and> v \<noteq> UART_SIM_NONA_16550)"
  using open_sim [of base d kind v] answers_run [where tr = tr] by fastforce

end
