(* ===== verification/UartLive.thy ===== *)
theory UartLive
  imports UartSim
begin

text \<open>
  The transfer on the simulated chip: a send reaches the wire, a receive returns what
  is queued and waits through an idle line.
\<close>

section \<open>Receiving\<close>

definition live_chip :: "u16 \<Rightarrow> UartSim \<Rightarrow> bool" where
  "live_chip base s \<longleftrightarrow> sim_base s = base \<and> sim_variant s \<noteq> UART_SIM_ABSENT \<and> sim_variant s \<noteq> UART_SIM_NEVER_READY \<and>
     \<not> sim_dlab s \<and> \<not> sim_loop_pending s \<and> sim_lsr_err s = 0 \<and> length (sim_rx_err s) = length (sim_rx s) \<and>
     sim_rx_pos s \<le> length (sim_rx s)"

text \<open>The bytes waiting in the chip and the error bits with each.\<close>

definition queued :: "UartSim \<Rightarrow> (u8 \<times> u8) list" where
  "queued s = drop (sim_rx_pos s) (zip (sim_rx s) (sim_rx_err s))"

definition status_of :: "u8 \<Rightarrow> u8" where
  "status_of e = 0x60 OR (0x01 OR (e AND 0x1E))"

lemma status_bits:
  "status_of e AND UART_LSR_DR \<noteq> 0" "status_of e AND UART_LSR_OE = e AND UART_LSR_OE" "status_of e AND UART_LSR_BI = e AND UART_LSR_BI"
  by (simp_all add: status_of_def uart_bits bit.conj_disj_distrib2 and.assoc)

lemma queued_pos: "live_chip base s \<Longrightarrow> queued s \<noteq> [] \<longleftrightarrow> sim_rx_pos s < length (sim_rx s)"
  by (auto simp: live_chip_def queued_def)

lemma queued_hd:
  assumes "live_chip base s" "queued s = (v, e) # q"
  shows "sim_rx_pos s < length (sim_rx s)" "sim_rx s ! sim_rx_pos s = v" "sim_rx_err s ! sim_rx_pos s = e"
    "drop (Suc (sim_rx_pos s)) (zip (sim_rx s) (sim_rx_err s)) = q"
proof -
  show pos: "sim_rx_pos s < length (sim_rx s)" using queued_pos [OF assms(1)] assms(2) by simp
  have d: "drop (sim_rx_pos s) (zip (sim_rx s) (sim_rx_err s)) = (v, e) # q"
    using assms(2) by (simp add: queued_def)
  show "sim_rx s ! sim_rx_pos s = v" "sim_rx_err s ! sim_rx_pos s = e"
    using nth_via_drop [OF d] pos assms(1) by (simp_all add: live_chip_def)
  show "drop (Suc (sim_rx_pos s)) (zip (sim_rx s) (sim_rx_err s)) = q"
    using d by (metis drop_Suc list.sel(3) tl_drop)
qed

text \<open>Reading the status shows the errors of the next byte, and forgets them.\<close>

lemma read_status:
  assumes "live_chip base s"
  shows "queued s = [] \<Longrightarrow> UartSimIn s (base + 5) = (0x60, s)"
    "queued s = (v, e) # q \<Longrightarrow> \<exists>s'. UartSimIn s (base + 5) = (status_of e, s') \<and> live_chip base s' \<and> queued s' = (v, 0) # q \<and>
       sim_tx s' = sim_tx s"
proof -
  assume "queued s = []"
  then show "UartSimIn s (base + 5) = (0x60, s)"
    using assms queued_pos [OF assms] by (simp add: live_chip_def UartSimIn_def UartSimLsr_def)
next
  assume q: "queued s = (v, e) # q"
  note hd = queued_hd [OF assms q]
  have "zip (sim_rx s) ((sim_rx_err s)[sim_rx_pos s := 0]) = (zip (sim_rx s) (sim_rx_err s))[sim_rx_pos s := (v, 0)]"
    using hd(2) zip_update [of "sim_rx s" "sim_rx_pos s" v "sim_rx_err s" 0] list_update_id [of "sim_rx s" "sim_rx_pos s"] by simp
  moreover have "drop (sim_rx_pos s) ((zip (sim_rx s) (sim_rx_err s))[sim_rx_pos s := (v, 0)]) = (v, 0) # q"
    using hd(1,4) assms by (subst Cons_nth_drop_Suc [symmetric]) (simp_all add: live_chip_def)
  ultimately show "\<exists>s'. UartSimIn s (base + 5) = (status_of e, s') \<and> live_chip base s' \<and> queued s' = (v, 0) # q \<and>
       sim_tx s' = sim_tx s"
    using assms hd by (simp add: live_chip_def UartSimIn_def UartSimLsr_def status_of_def queued_def)
qed

lemma read_byte:
  assumes "live_chip base s" "queued s = (v, e) # q"
  shows "\<exists>s'. UartSimIn s base = (v, s') \<and> live_chip base s' \<and> queued s' = q \<and> sim_tx s' = sim_tx s"
  using assms queued_hd [OF assms] by (simp add: UartSimIn_def live_chip_def queued_def)

definition overruns :: "u8 list \<Rightarrow> u32" where
  "overruns es = of_nat (length (filter (\<lambda>e. e AND UART_LSR_OE \<noteq> 0) es))"

lemma overruns_simps [simp]:
  "overruns [] = 0" "overruns (e # es) = (if e AND UART_LSR_OE \<noteq> 0 then 1 else 0) + overruns es"
  by (simp_all add: overruns_def)

definition unbroken :: "(u8 \<times> u8) list \<Rightarrow> bool" where
  "unbroken q \<longleftrightarrow> list_all (\<lambda>(v, e). e AND UART_LSR_BI = 0) q"

lemma unbroken_Cons [simp]: "unbroken ((v, e) # q) \<longleftrightarrow> e AND UART_LSR_BI = 0 \<and> unbroken q"
  by (simp add: unbroken_def)

lemma no_data: "(0x60 :: u8) AND UART_LSR_DR = 0"
  by (simp add: uart_bits)

lemma rx_fill_stop:
  "len \<le> int (length got) \<or> l AND UART_LSR_DR = 0 \<Longrightarrow> uart_rx_fill io base len l got over b = Some (Some got, over, b)"
  by (subst uart_rx_fill.simps) auto

lemma rx_fill_sim:
  assumes "live_chip base s" "queued s = (v, w) # q" "unbroken ((v, e) # q)"
  shows "\<exists>b'. uart_rx_fill UartSimPortIo base len (status_of e) got over \<lparr> chip = s, trace = tr \<rparr> =
    Some (Some (got @ take (nat (len - int (length got))) (v # map fst q)),
      over + overruns (take (nat (len - int (length got))) (e # map snd q)), b')"
  using assms
proof (induction q arbitrary: s v w e got over tr)
  case q: (Cons x q)
  obtain v' e' where x: "x = (v', e')" by (cases x)
  show ?case
  proof (cases "int (length got) < len")
    case True
    let ?n = "nat (len - int (length got))" and ?over = "if e AND UART_LSR_OE \<noteq> 0 then over + 1 else over"
    obtain s1 where s1: "UartSimIn s base = (v, s1)" "live_chip base s1" "queued s1 = (v', e') # q"
      using read_byte [OF q.prems(1,2)] x by auto
    obtain s2 where s2: "UartSimIn s1 (base + 5) = (status_of e', s2)" "live_chip base s2" "queued s2 = (v', 0) # q"
      using read_status(2) [OF s1(2,3)] by auto
    obtain b' where b': "uart_rx_fill UartSimPortIo base len (status_of e') (got @ [v]) ?over
          \<lparr> chip = s2, trace = tr @ [EvIn base v, EvIn (base + 5) (status_of e')] \<rparr> =
        Some (Some ((got @ [v]) @ take (nat (len - int (length (got @ [v])))) (v' # map fst q)),
          ?over + overruns (take (nat (len - int (length (got @ [v])))) (e' # map snd q)), b')"
      using q.IH [OF s2(2,3)] q.prems(3) x by fastforce
    have n: "?n = Suc (nat (len - int (length (got @ [v]))))" using True by simp
    have "uart_rx_fill UartSimPortIo base len (status_of e) got over \<lparr> chip = s, trace = tr \<rparr> =
      uart_rx_fill UartSimPortIo base len (status_of e') (got @ [v]) ?over
          \<lparr> chip = s2, trace = tr @ [EvIn base v, EvIn (base + 5) (status_of e')] \<rparr>"
      using True q.prems(3) s1(1) s2(1) by (subst uart_rx_fill.simps) (simp add: status_bits run_sim uart_regs Let_def)
    then show ?thesis unfolding b' n x by simp
  qed (simp add: rx_fill_stop)
next
  case Nil
  show ?case
  proof (cases "int (length got) < len")
    case True
    let ?over = "if e AND UART_LSR_OE \<noteq> 0 then over + 1 else over"
    obtain s1 where s1: "UartSimIn s base = (v, s1)" "live_chip base s1" "queued s1 = []"
      using read_byte [OF Nil.prems(1,2)] by auto
    have "uart_rx_fill UartSimPortIo base len (status_of e) got over \<lparr> chip = s, trace = tr \<rparr> =
      uart_rx_fill UartSimPortIo base len 0x60 (got @ [v]) ?over
          \<lparr> chip = s1, trace = tr @ [EvIn base v, EvIn (base + 5) 0x60] \<rparr>"
      using True Nil.prems(3) s1(1) read_status(1) [OF s1(2,3)]
      by (subst uart_rx_fill.simps) (simp add: status_bits run_sim uart_regs Let_def)
    then show ?thesis using True by (simp add: rx_fill_stop no_data nat_eq_iff)
  qed (simp add: rx_fill_stop)
qed

lemma rx_loop_once:
  assumes "uart_rx_wait io base b = Some (l, b1)" "uart_rx_fill io base len l [] over b1 = Some (Some g, over', b2)" "g \<noteq> []"
  shows "uart_rx_loop io base len over b = Some (Some g, over', b2)"
  using assms by (subst uart_rx_loop.simps) simp

lemma rx_wait_sim:
  assumes "live_chip base s" "queued s = (v, e) # q"
  shows "\<exists>s' tr'. uart_rx_wait UartSimPortIo base \<lparr> chip = s, trace = tr \<rparr> = Some (status_of e, \<lparr> chip = s', trace = tr' \<rparr>) \<and>
    live_chip base s' \<and> queued s' = (v, 0) # q"
proof -
  obtain s' where "UartSimIn s (base + 5) = (status_of e, s')" "live_chip base s'" "queued s' = (v, 0) # q"
    using read_status(2) [OF assms] by auto
  then show ?thesis by (subst uart_rx_wait.simps) (simp add: status_bits run_sim uart_regs)
qed

lemma rx_loop_sim:
  assumes "live_chip base s" "queued s \<noteq> []" "unbroken (queued s)" "0 < len"
  shows "\<exists>b'. uart_rx_loop UartSimPortIo base len over \<lparr> chip = s, trace = tr \<rparr> =
    Some (Some (take (nat len) (map fst (queued s))), over + overruns (take (nat len) (map snd (queued s))), b')"
proof -
  obtain v e q where q: "queued s = (v, e) # q" using assms(2) by (metis list.exhaust surj_pair)
  obtain s' tr' where w: "uart_rx_wait UartSimPortIo base \<lparr> chip = s, trace = tr \<rparr> = Some (status_of e, \<lparr> chip = s', trace = tr' \<rparr>)"
    "live_chip base s'" "queued s' = (v, 0) # q"
    using rx_wait_sim [OF assms(1) q] by blast
  then show ?thesis
    using rx_fill_sim [OF w(2,3), of e len "[]" over tr'] assms(3,4) q rx_loop_once [OF w(1)] by fastforce
qed

text \<open>An idle line is waited through, yield by yield.\<close>

lemma idle_yield:
  assumes "live_chip base s" "queued s = []" "sim_idle_yields_seen s < sim_idle_yields_until_rx s" "length (sim_rx s) < SIM_RX_CAP"
  shows "live_chip base (UartSimYield s)"
    "Suc (sim_idle_yields_seen s) = sim_idle_yields_until_rx s \<Longrightarrow> queued (UartSimYield s) = [(sim_idle_rx_byte s, 0)]"
    "Suc (sim_idle_yields_seen s) < sim_idle_yields_until_rx s \<Longrightarrow>
       UartSimYield s = s\<lparr>sim_idle_yields_seen := Suc (sim_idle_yields_seen s)\<rparr>"
  using assms queued_pos [OF assms(1)] by (auto simp: UartSimYield_def live_chip_def queued_def Let_def)

lemma rx_wait_idle:
  assumes "live_chip base s" "queued s = []" "sim_idle_yields_seen s < sim_idle_yields_until_rx s" "length (sim_rx s) < SIM_RX_CAP"
  shows "\<exists>s' tr'. uart_rx_wait UartSimPortIo base \<lparr> chip = s, trace = tr \<rparr> = Some (status_of 0, \<lparr> chip = s', trace = tr' \<rparr>) \<and>
    live_chip base s' \<and> queued s' = [(sim_idle_rx_byte s, 0)]"
  using assms
proof (induction "sim_idle_yields_until_rx s - sim_idle_yields_seen s" arbitrary: s tr)
  case (Suc k)
  have step: "uart_rx_wait UartSimPortIo base \<lparr> chip = s, trace = tr \<rparr> =
      uart_rx_wait UartSimPortIo base \<lparr> chip = UartSimYield s, trace = tr @ [EvIn (base + 5) 0x60, EvYield] \<rparr>"
    using read_status(1) [OF Suc.prems(1,2)] by (subst uart_rx_wait.simps) (simp add: no_data run_sim uart_regs)
  note y = idle_yield [OF Suc.prems]
  show ?case
  proof (cases "Suc (sim_idle_yields_seen s) = sim_idle_yields_until_rx s")
    case True
    then show ?thesis unfolding step using rx_wait_sim [OF y(1) y(2) [OF True]] by simp
  next
    case False
    then have next_y: "UartSimYield s = s\<lparr>sim_idle_yields_seen := Suc (sim_idle_yields_seen s)\<rparr>"
      using y(3) Suc.prems(3) by simp
    show ?thesis unfolding step
      using Suc.hyps(1) [of "UartSimYield s"] Suc.hyps(2) Suc.prems y(1) False next_y
      by (simp add: queued_def)
  qed
qed simp

text \<open>
  A receive returns what is waiting in a live chip, in order and up to the size of
  the buffer, with the reported overruns counted.
\<close>

theorem UartRxDrain_delivers:
  assumes "live_chip (base_port drv) s" "queued s \<noteq> []" "unbroken (queued s)" "0 < len"
  shows "\<exists>b'. UartRxDrain UartSimPortIo drv len \<lparr> chip = s, trace = tr \<rparr> =
    Some (Some (take (nat len) (map fst (queued s))),
      drv\<lparr>overrun_count := overrun_count drv + overruns (take (nat len) (map snd (queued s)))\<rparr>, b')"
  using rx_loop_sim [OF assms, of "overrun_count drv" tr] by (auto simp: UartRxDrain_def)

text \<open>
  An idle line is a live session: whatever number of yields passes with nothing
  received, the receive neither returns nor fails, and it returns the byte that comes in the end.
\<close>

theorem UartRxDrain_waits:
  assumes "live_chip (base_port drv) s" "queued s = []" "sim_idle_yields_seen s < sim_idle_yields_until_rx s"
    "length (sim_rx s) < SIM_RX_CAP" "0 < len"
  shows "\<exists>b'. UartRxDrain UartSimPortIo drv len \<lparr> chip = s, trace = tr \<rparr> = Some (Some [sim_idle_rx_byte s], drv, b')"
proof -
  obtain s' tr' where w: "uart_rx_wait UartSimPortIo (base_port drv) \<lparr> chip = s, trace = tr \<rparr> = Some (status_of 0, \<lparr> chip = s', trace = tr' \<rparr>)"
    "live_chip (base_port drv) s'" "queued s' = [(sim_idle_rx_byte s, 0)]"
    using rx_wait_idle [OF assms(1-4)] by blast
  then show ?thesis
    using rx_fill_sim [OF w(2,3), of 0 len "[]" "overrun_count drv" tr'] assms(5) rx_loop_once [OF w(1)]
    by (fastforce simp: UartRxDrain_def unbroken_def)
qed

section \<open>Two chips\<close>

text \<open>A live chip with two bytes received, the second after an overrun, and an idle one.\<close>

definition busy_chip :: UartSim where
  "busy_chip = (UartSimInit 0x3F8 UART_CHIP_16550A UART_SIM_NORMAL)\<lparr>sim_rx := [0x48, 0x69], sim_rx_err := [0, 0x02]\<rparr>"

definition idle_chip :: UartSim where
  "idle_chip = (UartSimInit 0x3F8 UART_CHIP_16550A UART_SIM_NORMAL)\<lparr>sim_idle_yields_until_rx := 500, sim_idle_rx_byte := 0x41\<rparr>"

lemma busy_chip: "live_chip 0x3F8 busy_chip" "queued busy_chip = [(0x48, 0), (0x69, 0x02)]" "unbroken (queued busy_chip)"
  by (simp_all add: live_chip_def busy_chip_def UartSimInit_def queued_def unbroken_def uart_bits)

lemma idle_chip: "live_chip 0x3F8 idle_chip" "queued idle_chip = []"
  by (simp_all add: live_chip_def idle_chip_def UartSimInit_def queued_def)

lemma UartRxDrain_delivers_witness:
  "\<exists>b'. UartRxDrain UartSimPortIo (UartDriverInit 0x3F8) 16 \<lparr> chip = busy_chip, trace = [] \<rparr> =
     Some (Some [0x48, 0x69], (UartDriverInit 0x3F8)\<lparr>overrun_count := 1\<rparr>, b')"
  using UartRxDrain_delivers [of "UartDriverInit 0x3F8" busy_chip 16 "[]"] busy_chip
  by (simp add: UartDriverInit_def uart_bits)

lemma UartRxDrain_waits_witness:
  "\<exists>b'. UartRxDrain UartSimPortIo (UartDriverInit 0x3F8) 16 \<lparr> chip = idle_chip, trace = [] \<rparr> =
     Some (Some [0x41], UartDriverInit 0x3F8, b')"
  using UartRxDrain_waits [of "UartDriverInit 0x3F8" idle_chip 16 "[]"] idle_chip
  by (simp add: UartDriverInit_def idle_chip_def UartSimInit_def SIM_RX_CAP_def)

lemma UartRxDrain_view_witness:
  "\<exists>new l. rx_view 0x3F8 new (None, [], 0) = Some (Some l, [0x48, 0x69], 1)"
proof -
  obtain b' where "uart_rx_loop UartSimPortIo 0x3F8 16 0 \<lparr> chip = busy_chip, trace = [] \<rparr> = Some (Some [0x48, 0x69], 1, b')"
    using rx_loop_sim [OF busy_chip(1), of 16 0 "[]"] busy_chip(2,3) by (auto simp: uart_bits)
  then have "UartRxDrain UartSimPortIo (UartDriverInit 0x3F8) 16 \<lparr> chip = busy_chip, trace = [] \<rparr> =
      Some (Some [0x48, 0x69], (UartDriverInit 0x3F8)\<lparr>overrun_count := 1\<rparr>, b')"
    by (simp add: UartRxDrain_def UartDriverInit_def)
  from UartRxDrain_view [OF this] show ?thesis by (auto simp: UartDriverInit_def)
qed

section \<open>Sending\<close>

lemma read_status_tx:
  assumes "live_chip base s"
  shows "\<exists>l s'. UartSimIn s (base + 5) = (l, s') \<and> l AND UART_LSR_THRE \<noteq> 0 \<and> live_chip base s' \<and> sim_tx s' = sim_tx s \<and>
    sim_mcr s' = sim_mcr s"
proof -
  have "UartSimLsr s AND UART_LSR_THRE \<noteq> 0"
    using assms by (simp add: UartSimLsr_def live_chip_def uart_bits bit.conj_disj_distrib2 and.assoc)
  then show ?thesis using assms by (simp add: UartSimIn_def live_chip_def)
qed

text \<open>A chip on which a send of \<open>n\<close> bytes fits the capture of the simulator.\<close>

definition ready_to_send :: "u16 \<Rightarrow> UartSim \<Rightarrow> nat \<Rightarrow> bool" where
  "ready_to_send base s n \<longleftrightarrow> live_chip base s \<and> sim_mcr s AND 0x10 = 0 \<and> length (sim_tx s) + n \<le> SIM_TX_CAP"

lemma burst_sim:
  "ready_to_send base s (length vs + n) \<Longrightarrow>
   \<exists>s'. answers (uart_burst UartSimPortIo base vs) s () s' \<and> ready_to_send base s' n \<and> sim_tx s' = sim_tx s @ vs"
proof (induction vs arbitrary: s)
  case Nil
  then show ?case by (auto intro!: answers_return)
next
  case (Cons v vs)
  let ?s = "s\<lparr>sim_tx := sim_tx s @ [v]\<rparr>"
  have out: "UartSimOut s base v = ?s"
    using Cons.prems by (simp add: ready_to_send_def live_chip_def sim_regs)
  have "ready_to_send base ?s (length vs + n)" using Cons.prems by (simp add: ready_to_send_def live_chip_def)
  from Cons.IH [OF this] obtain s' where "answers (uart_burst UartSimPortIo base vs) ?s () s'" "ready_to_send base s' n"
    "sim_tx s' = sim_tx s @ v # vs" by auto
  moreover have "answers (outb UartSimPortIo base v) s () ?s" by (simp add: answers_def run_sim out)
  ultimately show ?case by (auto intro!: answers_bind)
qed

lemma tx_loop_sim:
  "ready_to_send base s (length buf) \<Longrightarrow>
   \<exists>s'. answers (uart_tx_loop UartSimPortIo base chunk buf) s True s' \<and> sim_tx s' = sim_tx s @ buf"
proof (induction "length buf" arbitrary: s buf rule: less_induct)
  case less
  show ?case
  proof (cases "buf = []")
    case True
    then show ?thesis by (subst uart_tx_loop.simps) (auto intro!: answers_return)
  next
    case False
    define n where "n = nat (min (max 1 chunk) (int (length buf)))"
    have n: "0 < n" "n \<le> length buf" using False by (auto simp: n_def)
    obtain l s1 where s1: "UartSimIn s (base + 5) = (l, s1)" "l AND UART_LSR_THRE \<noteq> 0" "ready_to_send base s1 (length buf)" "sim_tx s1 = sim_tx s"
      using read_status_tx [of base s] less.prems by (auto simp: ready_to_send_def)
    obtain s2 where s2: "answers (uart_burst UartSimPortIo base (take n buf)) s1 () s2" "ready_to_send base s2 (length (drop n buf))"
      "sim_tx s2 = sim_tx s @ take n buf"
      using burst_sim [of base s1 "take n buf" "length (drop n buf)"] s1(3,4) n by auto
    have shorter: "length (drop n buf) < length buf" using n by simp
    obtain s3 where s3: "answers (uart_tx_loop UartSimPortIo base chunk (drop n buf)) s2 True s3" "sim_tx s3 = sim_tx s @ buf"
      using less.hyps [OF shorter s2(2)] s2(3) by auto
    have "answers (uart_tx_loop UartSimPortIo base chunk buf) s True s3"
      unfolding uart_tx_loop.simps [of UartSimPortIo base chunk buf] n_def [symmetric] if_not_P [OF False] Let_def
      using poll_now [OF s1(1,2)] s2(1) s3(1) by (force simp: uart_regs intro: answers_bind)
    then show ?thesis using s3(2) by blast
  qed
qed

text \<open>A send on a live chip succeeds, and the wire carries the buffer, whatever the chunk.\<close>

lemma UartTxChunk_reaches_wire:
  assumes "ready_to_send (base_port drv) s (length buf)"
  shows "\<exists>s' tr'. run_state (UartTxChunk UartSimPortIo drv buf) \<lparr> chip = s, trace = tr \<rparr> =
    (Some (length buf), \<lparr> chip = s', trace = tr' \<rparr>) \<and> sim_tx s' = sim_tx s @ buf"
proof -
  let ?m = "uart_tx_loop UartSimPortIo (base_port drv) (if tx_chunk drv < 1 then UART_SINGLE_TX_CHUNK else tx_chunk drv) buf"
  obtain s' where s': "answers ?m s True s'" "sim_tx s' = sim_tx s @ buf"
    using tx_loop_sim [OF assms] by blast
  obtain tr' where "run_state ?m \<lparr> chip = s, trace = tr \<rparr> = (True, \<lparr> chip = s', trace = tr' \<rparr>)"
    using answers_run [OF s'(1)] by blast
  then show ?thesis using s'(2) by (simp add: UartTxChunk_def)
qed

section \<open>The backend\<close>

lemma divisor_exact:
  "0 < unat (uart_divisor_for_baud baud) \<and> unat (uart_divisor_for_baud baud) < 2 ^ 16 \<and>
   unat (uart_divisor_for_baud baud) = (if 1 < unat baud \<and> unat baud dvd 115200 then 115200 div unat baud else 6)"
proof -
  have mod: "115200 mod baud = 0 \<longleftrightarrow> unat baud dvd 115200"
    by (simp add: unat_eq_0 [symmetric] unat_mod dvd_eq_mod_eq_0)
  have div: "unat (115200 div baud) = 115200 div unat baud" by (simp add: unat_div)
  have big: "0xFFFF < 115200 div baud \<longleftrightarrow> 0xFFFF < 115200 div unat baud"
    by (simp add: word_less_nat_alt div)
  have zero: "115200 div baud = 0 \<longleftrightarrow> 115200 div unat baud = 0" by (simp add: unat_eq_0 [symmetric] div)
  show ?thesis
  proof (cases "1 < unat baud \<and> unat baud dvd 115200")
    case True
    then have "0 < 115200 div unat baud" "115200 div unat baud \<le> 115200 div 2"
      using dvd_imp_le [of "unat baud" 115200] div_le_mono2 [of 2 "unat baud" 115200] by (auto simp: div_greater_zero_iff)
    moreover have "baud \<noteq> 0" using True by auto
    ultimately show ?thesis using True by (simp add: uart_divisor_for_baud_def mod big zero div)
  next
    case False
    then have "unat baud = 0 \<or> unat baud = 1 \<or> \<not> unat baud dvd 115200" by auto
    then show ?thesis by (auto simp: uart_divisor_for_baud_def mod big zero unat_eq_0)
  qed
qed

text \<open>
  The divisor fits its sixteen bits and is never zero, and it is the exact one for
  every rate that divides the clock, from 2 baud up, the one of 19200 for any other; an
  unknown port name is refused before any port is touched, and success means a live
  chip at the port of that name with that divisor.
\<close>

theorem UartBackendOpenDirect_gate:
  "case run_state (UartBackendOpenDirect io port baud) b of (r, b') \<Rightarrow>
     0 < unat (uart_divisor_for_baud baud) \<and> unat (uart_divisor_for_baud baud) < 2 ^ 16 \<and>
     unat (uart_divisor_for_baud baud) =
       (if 1 < unat baud \<and> unat baud dvd 115200 then 115200 div unat baud else 6) \<and>
     (case r of
        Inl why \<Rightarrow> if uart_base_for_port port = 0 then b' = b
          else \<exists>new. trace b' = trace b @ new \<and> list_all (gentle (uart_base_for_port port)) new
      | Inr drv \<Rightarrow> uart_base_for_port port \<in> {0x3F8, 0x2F8, 0x3E8, 0x2E8} \<and>
          (\<exists>new. trace b' = trace b @ new \<and> opened (uart_base_for_port port) (uart_divisor_for_baud baud) new drv))"
proof -
  have d: "0 < unat (uart_divisor_for_baud baud) \<and> unat (uart_divisor_for_baud baud) < 2 ^ 16 \<and>
     unat (uart_divisor_for_baud baud) = (if 1 < unat baud \<and> unat baud dvd 115200 then 115200 div unat baud else 6)"
    by (rule divisor_exact)
  have ports: "uart_base_for_port port \<in> {0, 0x3F8, 0x2F8, 0x3E8, 0x2E8}" by (simp add: uart_base_for_port_def)
  show ?thesis
  proof (cases "uart_base_for_port port = 0")
    case True
    then show ?thesis using d by (simp add: UartBackendOpenDirect_def)
  next
    case False
    obtain live drv b' where r: "run_state (UartOpenSequence io (uart_base_for_port port) (uart_divisor_for_baud baud)) b = ((live, drv), b')"
      by (metis surj_pair)
    then show ?thesis using ensuresD [OF open_runs r] d ports False
      by (auto simp: UartBackendOpenDirect_def)
  qed
qed

end
