(* ===== verification/Transport.thy ===== *)
theory Transport
  imports Prelude "HOL-Library.Sublist"
begin

text \<open>
  The transport layer of \<^verbatim>\<open>src/src/transport.c\<close>: the command line, the registry of
  backends with its selection, and the loop that writes a whole message through a
  backend.  A backend is a value of the record below over a world of any type.
\<close>

section \<open>The command line\<close>

definition TRANSPORT_SERIAL :: int where "TRANSPORT_SERIAL = 1"
definition TRANSPORT_TCP :: int where "TRANSPORT_TCP = 2"
definition TRANSPORT_PIPE :: int where "TRANSPORT_PIPE = 3"
definition DEFAULT_BAUD_RATE :: u32 where "DEFAULT_BAUD_RATE = 115200"
definition DEFAULT_PORT :: string where "DEFAULT_PORT = ''COM1''"
definition DEFAULT_TCP_PORT :: int where "DEFAULT_TCP_PORT = 0x7C00"

record TransportConfig =
  transport :: int
  port :: string
  baudRate :: u32
  tcpPort :: int
  pipeName :: string
  autodetect :: bool
  bindAddr :: string
  unsafeMode :: bool
  catalogPath :: string
  allowMemWrite :: bool
  auditPath :: string

definition upper :: "char \<Rightarrow> char" where
  "upper c = (if CHR ''a'' \<le> c \<and> c \<le> CHR ''z'' then char_of (of_char c - 32 :: nat) else c)"

text \<open>The comparison after a slash: the rest behind the name of the flag.\<close>

fun match_flag :: "string \<Rightarrow> string \<Rightarrow> string option" where
  "match_flag [] s = Some s"
| "match_flag (f # fs) [] = None"
| "match_flag (f # fs) (c # cs) = (if upper c = upper f then match_flag fs cs else None)"

fun find_flag :: "string \<Rightarrow> string \<Rightarrow> string option" where
  "find_flag [] flag = None"
| "find_flag (c # s) flag =
     (if c = CHR ''/'' then
        (case match_flag flag s of
           Some (d # v) \<Rightarrow> if d = CHR '':'' then Some v else find_flag s flag
         | _ \<Rightarrow> find_flag s flag)
      else find_flag s flag)"

definition boundary :: "string \<Rightarrow> bool" where
  "boundary r \<longleftrightarrow> r = [] \<or> hd r = CHR '':'' \<or> hd r = CHR '' '' \<or> hd r = CHR 0x09"

fun find_flag_tok :: "string \<Rightarrow> string \<Rightarrow> string option" where
  "find_flag_tok [] flag = None"
| "find_flag_tok (c # s) flag =
     (if c = CHR ''/'' then
        (case match_flag flag s of
           Some r \<Rightarrow> if boundary r then Some r else find_flag_tok s flag
         | None \<Rightarrow> find_flag_tok s flag)
      else find_flag_tok s flag)"

primrec copy_until_space :: "string \<Rightarrow> nat \<Rightarrow> string" where
  "copy_until_space [] n = []"
| "copy_until_space (c # s) n =
     (if c \<noteq> CHR '' '' \<and> c \<noteq> CHR 0x09 \<and> 1 < n then c # copy_until_space s (n - 1) else [])"

text \<open>The sum in a C \<^verbatim>\<open>int\<close>, which wraps where it overflows.\<close>

fun atoi_loop :: "string \<Rightarrow> u32 \<Rightarrow> u32" where
  "atoi_loop [] r = r"
| "atoi_loop (c # s) r =
     (if CHR ''0'' \<le> c \<and> c \<le> CHR ''9'' then atoi_loop s (r * 10 + of_nat (of_char c - 48)) else r)"

definition simple_atoi :: "string \<Rightarrow> int" where
  "simple_atoi s = sint (atoi_loop s 0)"

definition default_config :: TransportConfig where
  "default_config = \<lparr> transport = TRANSPORT_SERIAL, port = copy_until_space DEFAULT_PORT 32, baudRate = DEFAULT_BAUD_RATE,
     tcpPort = 0, pipeName = [], autodetect = False, bindAddr = [], unsafeMode = False, catalogPath = [],
     allowMemWrite = False, auditPath = [] \<rparr>"

text \<open>The modifiers, then the choice of the transport in its order of precedence.\<close>

definition parse_modifiers :: "string \<Rightarrow> TransportConfig \<Rightarrow> TransportConfig" where
  "parse_modifiers cmdLine c0 =
     (let c1 = (case find_flag cmdLine ''BIND'' of None \<Rightarrow> c0 | Some v \<Rightarrow> c0\<lparr>bindAddr := copy_until_space v 16\<rparr>);
          c2 = (case find_flag_tok cmdLine ''UNSAFE'' of None \<Rightarrow> c1 | Some v \<Rightarrow> c1\<lparr>unsafeMode := True\<rparr>);
          c3 = (case find_flag cmdLine ''CATALOG'' of None \<Rightarrow> c2 | Some v \<Rightarrow> c2\<lparr>catalogPath := copy_until_space v 260\<rparr>);
          c4 = (case find_flag_tok cmdLine ''ALLOWMEMWRITE'' of None \<Rightarrow> c3 | Some v \<Rightarrow> c3\<lparr>allowMemWrite := True\<rparr>)
      in case find_flag cmdLine ''AUDIT'' of None \<Rightarrow> c4 | Some v \<Rightarrow> c4\<lparr>auditPath := copy_until_space v 260\<rparr>)"

definition port_ok :: "TransportConfig \<Rightarrow> bool" where
  "port_ok c \<longleftrightarrow> \<not> (tcpPort c \<le> 0 \<or> tcpPort c > 65535)"

definition ParseCommandLine :: "string \<Rightarrow> bool \<times> TransportConfig" where
  "ParseCommandLine cmdLine =
     (if cmdLine = [] then (True, default_config)
      else let c = parse_modifiers cmdLine default_config in
        (case find_flag cmdLine ''SERIAL'' of
           Some v \<Rightarrow> (True, c\<lparr>transport := TRANSPORT_SERIAL, port := copy_until_space v 32, baudRate := DEFAULT_BAUD_RATE\<rparr>)
         | None \<Rightarrow>
        (case find_flag_tok cmdLine ''AUTO'' of
           Some a \<Rightarrow>
             (let c' = c\<lparr>transport := TRANSPORT_TCP, autodetect := True,
                tcpPort := (if a \<noteq> [] \<and> hd a = CHR '':'' then simple_atoi (copy_until_space (tl a) 16) else DEFAULT_TCP_PORT)\<rparr>
              in (port_ok c', c'))
         | None \<Rightarrow>
        (case find_flag cmdLine ''TCP'' of
           Some v \<Rightarrow>
             (let c' = c\<lparr>transport := TRANSPORT_TCP, tcpPort := simple_atoi (copy_until_space v 16)\<rparr>
              in (port_ok c', c'))
         | None \<Rightarrow>
        (case find_flag cmdLine ''PIPE'' of
           Some v \<Rightarrow> (True, c\<lparr>transport := TRANSPORT_PIPE, pipeName := copy_until_space v 260\<rparr>)
         | None \<Rightarrow> (True, c))))))"

section \<open>The registry\<close>

text \<open>
  A backend: its kind, its probe where it has one, and its open, which answers the
  transport on success and leaves a message in the error buffer.
\<close>

record ('w, 't) TransportBackend =
  bk_kind :: int
  bk_probe :: "('w \<Rightarrow> bool \<times> 'w) option"
  bk_open :: "TransportConfig \<Rightarrow> string \<Rightarrow> 'w \<Rightarrow> ('t option \<times> string) \<times> 'w"

definition MAX_BACKENDS :: nat where "MAX_BACKENDS = 8"

definition TransportRegister ::
    "('w, 't) TransportBackend \<Rightarrow> ('w, 't) TransportBackend list \<Rightarrow> bool \<times> ('w, 't) TransportBackend list" where
  "TransportRegister b g_backends =
     (if length g_backends \<ge> MAX_BACKENDS then (False, g_backends) else (True, g_backends @ [b]))"

definition find_backend :: "int \<Rightarrow> ('w, 't) TransportBackend list \<Rightarrow> ('w, 't) TransportBackend option" where
  "find_backend kind g_backends = find (\<lambda>b. bk_kind b = kind) g_backends"

definition err_set :: "int \<Rightarrow> string \<Rightarrow> string \<Rightarrow> string" where
  "err_set errSize msg err = (if errSize \<le> 0 then err else take (nat errSize - 1) msg)"

definition usable :: "('w, 't) TransportBackend \<Rightarrow> 'w \<Rightarrow> bool \<times> 'w" where
  "usable b w = (case bk_probe b of None \<Rightarrow> (True, w) | Some p \<Rightarrow> p w)"

text \<open>One try: the probe, then the open; the message is left alone when it is not tried.\<close>

definition try_backend ::
    "('w, 't) TransportBackend option \<Rightarrow> TransportConfig \<Rightarrow> string \<Rightarrow> 'w \<Rightarrow> ('t option \<times> string) \<times> 'w" where
  "try_backend b cfg err w =
     (case b of
        None \<Rightarrow> ((None, err), w)
      | Some b \<Rightarrow> (case usable b w of
          (False, w1) \<Rightarrow> ((None, err), w1)
        | (True, w1) \<Rightarrow> bk_open b cfg err w1))"

definition TransportOpen ::
    "('w, 't) TransportBackend list \<Rightarrow> TransportConfig \<Rightarrow> string \<Rightarrow> int \<Rightarrow> 'w \<Rightarrow> ('t option \<times> string) \<times> 'w" where
  "TransportOpen g_backends cfg err errSize w =
     (let b = find_backend (transport cfg) g_backends in
      case try_backend b cfg err w of
        ((Some t, e1), w1) \<Rightarrow> ((Some t, e1), w1)
      | ((None, e1), w1) \<Rightarrow>
          (case (if autodetect cfg then try_backend (find_backend TRANSPORT_SERIAL g_backends) cfg e1 w1 else ((None, e1), w1)) of
             ((Some t, e2), w2) \<Rightarrow> ((Some t, e2), w2)
           | ((None, e2), w2) \<Rightarrow>
               (case b of
                  None \<Rightarrow> ((None, err_set errSize ''no backend for requested transport'' e2), w2)
                | Some b \<Rightarrow>
                    (case bk_probe b of
                       None \<Rightarrow> ((None, e2), w2)
                     | Some p \<Rightarrow>
                         (case p w2 of
                            (True, w3) \<Rightarrow> ((None, e2), w3)
                          | (False, w3) \<Rightarrow>
                              ((None, err_set errSize ''requested transport not available on this host'' e2), w3))))))"

section \<open>Writing a whole message\<close>

text \<open>
  The loop over short writes.  The backend answers the count it moved, below 1 for an
  error; the total is the answer, -1 for an error.
\<close>

function write_all :: "(u8 list \<Rightarrow> 'w \<Rightarrow> int \<times> 'w) \<Rightarrow> u8 list \<Rightarrow> int \<Rightarrow> 'w \<Rightarrow> int \<times> 'w" where
  "write_all wr buf cnt w =
     (if buf = [] then (cnt, w)
      else case wr buf w of
        (n, w1) \<Rightarrow> if n \<le> 0 then (- 1, w1) else write_all wr (drop (nat n) buf) (cnt + n) w1)"
  by pat_completeness auto
termination
  by (relation "measure (\<lambda>(wr, buf, cnt, w). length buf)") (auto simp: drop_shorter)

declare write_all.simps [simp del]

definition TransportWriteAll :: "(u8 list \<Rightarrow> 'w \<Rightarrow> int \<times> 'w) \<Rightarrow> u8 list \<Rightarrow> 'w \<Rightarrow> int \<times> 'w" where
  "TransportWriteAll wr buf w = write_all wr buf 0 w"

text \<open>
  What a message sent through a backend rests on: while \<open>ok\<close> holds, a write that
  reports \<open>n\<close> bytes has put exactly the first \<open>n\<close> of its buffer on the wire after
  what was there, and a failed one at most a beginning of it.
\<close>

locale byte_sink =
  fixes ok :: "'w \<Rightarrow> bool" and sent :: "'w \<Rightarrow> u8 list" and wr :: "u8 list \<Rightarrow> 'w \<Rightarrow> int \<times> 'w"
  assumes wr_ok: "ok w \<Longrightarrow> wr buf w = (n, w') \<Longrightarrow> ok w'"
    and wr_moves: "ok w \<Longrightarrow> wr buf w = (n, w') \<Longrightarrow> 0 < n \<Longrightarrow>
      n \<le> int (length buf) \<and> sent w' = sent w @ take (nat n) buf"
    and wr_fails: "ok w \<Longrightarrow> wr buf w = (n, w') \<Longrightarrow> n \<le> 0 \<Longrightarrow> \<exists>k \<le> length buf. sent w' = sent w @ take k buf"
begin

lemma write_all_sends:
  assumes "ok w" "0 \<le> cnt" "write_all wr buf cnt w = (r, w')"
  shows "ok w' \<and> (r = cnt + int (length buf) \<and> sent w' = sent w @ buf \<or>
    r = - 1 \<and> (\<exists>k \<le> length buf. sent w' = sent w @ take k buf))"
  using assms
proof (induction "length buf" arbitrary: buf cnt w rule: less_induct)
  case less
  show ?case
  proof (cases "buf = []")
    case True
    then show ?thesis using less.prems by (simp add: write_all.simps)
  next
    case False
    obtain n w1 where w1: "wr buf w = (n, w1)" by (cases "wr buf w")
    show ?thesis
    proof (cases "n \<le> 0")
      case True
      then show ?thesis
        using less.prems False w1 wr_ok [OF less.prems(1) w1] wr_fails [OF less.prems(1) w1] by (simp add: write_all.simps)
    next
      case n: False
      have m: "n \<le> int (length buf)" "sent w1 = sent w @ take (nat n) buf"
        using wr_moves [OF less.prems(1) w1] n by auto
      have "write_all wr (drop (nat n) buf) (cnt + n) w1 = (r, w')"
        using less.prems(3) False w1 n by (simp add: write_all.simps [of wr buf])
      then have rest: "ok w' \<and> (r = cnt + n + int (length (drop (nat n) buf)) \<and> sent w' = sent w1 @ drop (nat n) buf \<or>
          r = - 1 \<and> (\<exists>k \<le> length (drop (nat n) buf). sent w' = sent w1 @ take k (drop (nat n) buf)))"
        using less.hyps [of "drop (nat n) buf" w1 "cnt + n"] False n less.prems(2) wr_ok [OF less.prems(1) w1]
        by (simp add: drop_shorter)
      have "\<exists>j \<le> length buf. take (nat n) buf @ take k (drop (nat n) buf) = take j buf"
        if "k \<le> length (drop (nat n) buf)" for k
        using that m(1) n by (intro exI [of _ "nat n + k"]) (simp add: take_add)
      then show ?thesis using rest m n by (auto simp: of_nat_diff)
    qed
  qed
qed

end

section \<open>What the command line asks for\<close>

lemma match_flag_Some: "match_flag f s = Some r \<longleftrightarrow> (\<exists>n. s = n @ r \<and> map upper n = map upper f)"
proof (induction f s rule: match_flag.induct)
  case (3 f fs c cs)
  have "(\<exists>n. c # cs = n @ r \<and> map upper n = map upper (f # fs)) \<longleftrightarrow>
      upper c = upper f \<and> (\<exists>n. cs = n @ r \<and> map upper n = map upper fs)"
    by (auto simp: map_eq_Cons_conv Cons_eq_append_conv)
  then show ?case using 3 by simp
qed auto

text \<open>The switch stands in the line: a slash, the name in any case, and an end of the word.\<close>

definition switched :: "string \<Rightarrow> string \<Rightarrow> bool" where
  "switched line flag \<longleftrightarrow> (\<exists>pre name rest. line = pre @ CHR ''/'' # name @ rest \<and> map upper name = map upper flag \<and> boundary rest)"

lemma switched_Nil [simp]: "\<not> switched [] flag"
  by (simp add: switched_def)

lemma switched_Cons:
  "switched (c # s) flag \<longleftrightarrow> c = CHR ''/'' \<and> (\<exists>rest. match_flag flag s = Some rest \<and> boundary rest) \<or> switched s flag"
  unfolding switched_def match_flag_Some by (auto simp: Cons_eq_append_conv)

lemma find_flag_tok_switched: "find_flag_tok s flag \<noteq> None \<longleftrightarrow> switched s flag"
  by (induction s) (auto simp: switched_Cons split: option.splits)

lemma length_copy_until_space: "0 < n \<Longrightarrow> length (copy_until_space s n) < n"
proof (induction s arbitrary: n)
  case (Cons c s)
  have "length (copy_until_space s (n - 1)) + 1 < n" if "1 < n" using Cons.IH [of "n - 1"] that by linarith
  then show ?case using Cons.prems by simp
qed simp

definition config_fits :: "TransportConfig \<Rightarrow> bool" where
  "config_fits c \<longleftrightarrow> length (port c) < 32 \<and> length (pipeName c) < 260 \<and> length (bindAddr c) < 16 \<and>
     length (catalogPath c) < 260 \<and> length (auditPath c) < 260"

lemma modifiers_spec:
  "unsafeMode (parse_modifiers line default_config) \<longleftrightarrow> switched line ''UNSAFE''"
  "allowMemWrite (parse_modifiers line default_config) \<longleftrightarrow> switched line ''ALLOWMEMWRITE''"
  "config_fits (parse_modifiers line default_config)"
  "transport (parse_modifiers line default_config) = TRANSPORT_SERIAL"
  using length_copy_until_space [of 16] length_copy_until_space [of 260] length_copy_until_space [of 32 DEFAULT_PORT]
  by (auto simp: parse_modifiers_def Let_def default_config_def config_fits_def simp flip: find_flag_tok_switched split: option.splits)

text \<open>
  C27: the two dangerous switches are on exactly when their word stands in the command
  line, every string of the configuration fits its buffer, and a line that is accepted for
  TCP, with or without the fallback, has a port from 1 to 65535.
\<close>

theorem ParseCommandLine_switches:
  "case ParseCommandLine line of (accepted, c) \<Rightarrow>
     (unsafeMode c \<longleftrightarrow> switched line ''UNSAFE'') \<and> (allowMemWrite c \<longleftrightarrow> switched line ''ALLOWMEMWRITE'') \<and>
     config_fits c \<and> (if accepted \<and> transport c = TRANSPORT_TCP then 1 \<le> tcpPort c \<and> tcpPort c \<le> 65535 else True)"
proof (cases "line = []")
  case True
  then show ?thesis
    using length_copy_until_space [of 32 DEFAULT_PORT]
    by (simp add: ParseCommandLine_def default_config_def config_fits_def TRANSPORT_SERIAL_def TRANSPORT_TCP_def)
next
  case False
  let ?c = "parse_modifiers line default_config"
  have fits: "config_fits (?c\<lparr>transport := t, port := copy_until_space v 32, baudRate := b\<rparr>)"
    "config_fits (?c\<lparr>transport := t, autodetect := a, tcpPort := n\<rparr>)"
    "config_fits (?c\<lparr>transport := t, tcpPort := n\<rparr>)"
    "config_fits (?c\<lparr>transport := t, pipeName := copy_until_space v 260\<rparr>)" for t v b a n
    using modifiers_spec(3) [of line] length_copy_until_space [of 32 v] length_copy_until_space [of 260 v]
    by (simp_all add: config_fits_def)
  show ?thesis unfolding ParseCommandLine_def if_not_P [OF False] Let_def
    by (auto simp: modifiers_spec fits port_ok_def TRANSPORT_SERIAL_def TRANSPORT_TCP_def TRANSPORT_PIPE_def
        split: option.splits)
qed

text \<open>
  A switch is found anywhere in the line, inside the value of another flag too; and a
  port beyond the range of an \<^verbatim>\<open>int\<close> comes out as another one.
\<close>

lemma unsafe_inside_a_path: "unsafeMode (snd (ParseCommandLine ''/CATALOG:c:/lists/unsafe''))"
  by code_simp

lemma port_wraps: "fst (ParseCommandLine ''/TCP:4294967297'')" "tcpPort (snd (ParseCommandLine ''/TCP:4294967297'')) = 1"
  by code_simp+

end
