(* ===== verification/Serial.thy ===== *)
theory Serial
  imports Transport StrUtil Feat UartTrace
begin

text \<open>
  The serial backend of \<^verbatim>\<open>src/src/serial.c\<close>: the port opened through Windows, or,
  on Win32s, the direct route of the UART driver.  The communication services of
  Windows are an argument over their own world, the ports of the UART another, so that
  what a route touches shows in the types of its state.
\<close>

section \<open>The port through Windows\<close>

text \<open>The line settings; \<open>driver_fields\<close> are those the code leaves to the driver.\<close>

record DCB =
  BaudRate :: u32
  ByteSize :: nat
  Parity :: nat
  StopBits :: nat
  fBinary :: bool
  fParity :: bool
  fOutxCtsFlow :: bool
  fOutxDsrFlow :: bool
  fDtrControl :: nat
  fRtsControl :: nat
  fOutX :: bool
  fInX :: bool
  driver_fields :: "u32 list"

record COMMTIMEOUTS =
  ReadIntervalTimeout :: nat
  ReadTotalTimeoutMultiplier :: nat
  ReadTotalTimeoutConstant :: nat
  WriteTotalTimeoutMultiplier :: nat
  WriteTotalTimeoutConstant :: nat

record 'w CommOs =
  CreateFileComm :: "string \<Rightarrow> 'w \<Rightarrow> u32 option \<times> 'w"
  GetLastError :: "'w \<Rightarrow> u32"
  GetCommState :: "u32 \<Rightarrow> 'w \<Rightarrow> DCB option \<times> 'w"
  SetCommState :: "u32 \<Rightarrow> DCB \<Rightarrow> 'w \<Rightarrow> bool \<times> 'w"
  SetCommTimeouts :: "u32 \<Rightarrow> COMMTIMEOUTS \<Rightarrow> 'w \<Rightarrow> bool \<times> 'w"
  CloseComm :: "u32 \<Rightarrow> 'w \<Rightarrow> 'w"
  ReadComm :: "u32 \<Rightarrow> int \<Rightarrow> 'w \<Rightarrow> u8 list option \<times> 'w"
  WriteComm :: "u32 \<Rightarrow> u8 list \<Rightarrow> 'w \<Rightarrow> int option \<times> 'w"

definition DTR_CONTROL_ENABLE :: nat where "DTR_CONTROL_ENABLE = 1"
definition RTS_CONTROL_ENABLE :: nat where "RTS_CONTROL_ENABLE = 1"

definition BuildSerialTimeouts :: COMMTIMEOUTS where
  "BuildSerialTimeouts = \<lparr> ReadIntervalTimeout = 50, ReadTotalTimeoutMultiplier = 0, ReadTotalTimeoutConstant = 0,
     WriteTotalTimeoutMultiplier = 0, WriteTotalTimeoutConstant = 0 \<rparr>"

text \<open>8N1 without flow control, on top of what the driver had.\<close>

definition serial_settings :: "u32 \<Rightarrow> DCB \<Rightarrow> DCB" where
  "serial_settings baud dcb = dcb\<lparr>BaudRate := baud, ByteSize := 8, Parity := 0, StopBits := 0, fBinary := True,
     fParity := False, fOutxCtsFlow := False, fOutxDsrFlow := False, fDtrControl := DTR_CONTROL_ENABLE,
     fRtsControl := RTS_CONTROL_ENABLE, fOutX := False, fInX := False\<rparr>"

definition open_err :: "string \<Rightarrow> string \<Rightarrow> u32 \<Rightarrow> string" where
  "open_err stage name gle =
     stage @ ''('' @ [CHR 0x27] @ name @ [CHR 0x27] @ '') failed, error '' @ dec (unat gle)"

text \<open>The answer is the handle, or the failing stage and its error code, the handle closed.\<close>

definition configure_port :: "'w CommOs \<Rightarrow> string \<Rightarrow> u32 \<Rightarrow> u32 \<Rightarrow> 'w \<Rightarrow> (string + u32) \<times> 'w" where
  "configure_port os portName baud hPort w2 =
     (case GetCommState os hPort w2 of
        (None, w3) \<Rightarrow> (Inl (open_err ''GetCommState'' portName (GetLastError os w3)), CloseComm os hPort w3)
      | (Some dcb, w3) \<Rightarrow>
          (case SetCommState os hPort (serial_settings baud dcb) w3 of
             (False, w4) \<Rightarrow> (Inl (open_err ''SetCommState'' portName (GetLastError os w4)), CloseComm os hPort w4)
           | (True, w4) \<Rightarrow>
               (case SetCommTimeouts os hPort BuildSerialTimeouts w4 of
                  (False, w5) \<Rightarrow>
                    (Inl (open_err ''SetCommTimeouts'' portName (GetLastError os w5)), CloseComm os hPort w5)
                | (True, w5) \<Rightarrow> (Inr hPort, w5))))"

definition OpenSerialPort ::
    "(string \<Rightarrow> string) \<Rightarrow> 'w CommOs \<Rightarrow> string \<Rightarrow> u32 \<Rightarrow> 'w \<Rightarrow> ((string + u32) \<times> 'w) option" where
  "OpenSerialPort cn os portName baud w =
     (case CreateFileComm os portName w of (h1, w1) \<Rightarrow>
      map_option (\<lambda>(h, w2).
        (case h of
           None \<Rightarrow> (Inl (open_err ''CreateFileA'' portName (GetLastError os w2)), w2)
         | Some hPort \<Rightarrow> configure_port os portName baud hPort w2))
        (if h1 = None \<and> \<not> (char_at portName 0 = bsl \<and> char_at portName 1 = bsl)
         then map_option (\<lambda>name. CreateFileComm os ([bsl, bsl, CHR ''.'', bsl] @ name) w1) (McpStrCpyN cn [] portName 36)
         else Some (h1, w1)))"

text \<open>
  A read waits for data: the loop is left with at least one byte or an error, and
  \<^const>\<open>None\<close> is not returning.
\<close>

partial_function (option) serial_read ::
    "'w CommOs \<Rightarrow> u32 \<Rightarrow> int \<Rightarrow> 'w \<Rightarrow> (u8 list option \<times> 'w) option" where
  "serial_read os h len w =
     (case ReadComm os h len w of
        (None, w1) \<Rightarrow> Some (None, w1)
      | (Some bs, w1) \<Rightarrow> if bs \<noteq> [] then Some (Some bs, w1) else serial_read os h len w1)"

definition serial_write :: "'w CommOs \<Rightarrow> u32 \<Rightarrow> u8 list \<Rightarrow> 'w \<Rightarrow> int \<times> 'w" where
  "serial_write os h buf w = (case WriteComm os h buf w of (None, w1) \<Rightarrow> (- 1, w1) | (Some n, w1) \<Rightarrow> (n, w1))"

section \<open>The two routes\<close>

text \<open>The live end of a serial transport: the handle of Windows, or the UART driver.\<close>

datatype SerialEnd = OsPort u32 | DirectUart UartDriver

definition UartTierWantsDirect :: "Features \<Rightarrow> bool" where
  "UartTierWantsDirect g_features = is_win32s g_features"

definition SerialBackendOpen ::
    "(string \<Rightarrow> string) \<Rightarrow> 'w CommOs \<Rightarrow> 'c UartPortIo \<Rightarrow> Features \<Rightarrow> TransportConfig \<Rightarrow> 'w \<times> 'c Bus \<Rightarrow>
     ((string + SerialEnd) \<times> 'w \<times> 'c Bus) option" where
  "SerialBackendOpen cn os io g_features cfg s =
     (case s of (w, b) \<Rightarrow>
       if UartTierWantsDirect g_features then
         (case run_state (UartBackendOpenDirect io (port cfg) (baudRate cfg)) b of
            (Inl why, b') \<Rightarrow> Some (Inl why, w, b')
          | (Inr drv, b') \<Rightarrow> Some (Inr (DirectUart drv), w, b'))
       else map_option (\<lambda>(r, w'). (case r of Inl why \<Rightarrow> Inl why | Inr h \<Rightarrow> Inr (OsPort h), w', b))
         (OpenSerialPort cn os (port cfg) (baudRate cfg) w))"

text \<open>The write of the direct route, as the transport sees it.\<close>

definition uart_write :: "'c UartPortIo \<Rightarrow> UartDriver \<Rightarrow> u8 list \<Rightarrow> 'c Bus \<Rightarrow> int \<times> 'c Bus" where
  "uart_write io drv buf b =
     (case run_state (UartTxChunk io drv buf) b of (None, b') \<Rightarrow> (- 1, b') | (Some n, b') \<Rightarrow> (int n, b'))"

section \<open>A message over the direct route\<close>

text \<open>The registers of the chip by everything that went over the bus, and the bytes on its line.\<close>

definition cold_regs :: Regs where
  "cold_regs = \<lparr> dlab = False, dll = 0, dlm = 0, ier = 0, fcr = 0, mcr = 0, on_line = [] \<rparr>"

definition bus_regs :: "UartDriver \<Rightarrow> 'c Bus \<Rightarrow> Regs" where
  "bus_regs drv b = regs_after (base_port drv) (trace b) cold_regs"

definition line_ready :: "UartDriver \<Rightarrow> 'c Bus \<Rightarrow> bool" where
  "line_ready drv b \<longleftrightarrow> \<not> dlab (bus_regs drv b) \<and> mcr (bus_regs drv b) AND UART_MCR_LOOP = 0"

definition line_sent :: "UartDriver \<Rightarrow> 'c Bus \<Rightarrow> u8 list" where
  "line_sent drv b = on_line (bus_regs drv b)"

lemma tx_chunk_runs:
  "ensures (UartTxChunk io drv buf) tr (\<lambda>res tr'. res \<in> {None, Some (length buf)} \<and>
     (\<exists>new chunk. tr' = tr @ new \<and> sends (base_port drv) chunk buf (res = Some (length buf)) new))"
  unfolding UartTxChunk_def by (intro bus_rules ensures_weaken [OF tx_runs]) auto

lemma uart_write_line:
  assumes "line_ready drv b" "uart_write io drv buf b = (n, b')"
  shows "line_ready drv b' \<and> (\<exists>k \<le> length buf. line_sent drv b' = line_sent drv b @ take k buf \<and>
    (n = int (length buf) \<and> k = length buf \<or> n = - 1))"
proof -
  obtain res where res: "run_state (UartTxChunk io drv buf) b = (res, b')"
    "n = (case res of None \<Rightarrow> - 1 | Some m \<Rightarrow> int m)"
    using assms(2) by (auto simp: uart_write_def split: prod.splits option.splits)
  obtain new chunk where new: "res \<in> {None, Some (length buf)}" "trace b' = trace b @ new"
    "sends (base_port drv) chunk buf (res = Some (length buf)) new"
    using ensuresD [OF tx_chunk_runs res(1)] by blast
  obtain k where k: "k \<le> length buf" "res = Some (length buf) \<longleftrightarrow> k = length buf"
    "regs_after (base_port drv) new (bus_regs drv b) = (bus_regs drv b)\<lparr>on_line := line_sent drv b @ take k buf\<rparr>"
    using new(3) assms(1) by (auto simp: sends_def line_ready_def line_sent_def)
  have "bus_regs drv b' = (bus_regs drv b)\<lparr>on_line := line_sent drv b @ take k buf\<rparr>"
    using k(3) new(2) by (simp add: bus_regs_def)
  then have "line_ready drv b'" "line_sent drv b' = line_sent drv b @ take k buf"
    using assms(1) by (simp_all add: line_ready_def line_sent_def)
  then show ?thesis using k(1,2) new(1) res(2) by auto
qed

interpretation uart_line: byte_sink "line_ready drv" "line_sent drv" "uart_write io drv" for io drv
proof
  fix b :: "'a Bus" and buf n b'
  assume b: "line_ready drv b" "uart_write io drv buf b = (n, b')"
  note line = uart_write_line [OF b]
  show "line_ready drv b'" using line by blast
  show "0 < n \<Longrightarrow> n \<le> int (length buf) \<and> line_sent drv b' = line_sent drv b @ take (nat n) buf"
    using line by auto
  show "n \<le> 0 \<Longrightarrow> \<exists>k \<le> length buf. line_sent drv b' = line_sent drv b @ take k buf"
    using line by blast
qed

text \<open>
  C28: a message written through the direct serial route goes out whole and in order
  behind what was sent before, or the write reports an error and the line carries a
  beginning of it; whatever the chip does.
\<close>

theorem TransportWriteAll_uart:
  assumes "line_ready drv b" "TransportWriteAll (uart_write io drv) buf b = (r, b')"
  shows "line_ready drv b' \<and>
    (r = int (length buf) \<and> line_sent drv b' = line_sent drv b @ buf \<or>
     r = - 1 \<and> (\<exists>k \<le> length buf. line_sent drv b' = line_sent drv b @ take k buf))"
  using uart_line.write_all_sends [OF assms(1), of 0 io buf r b'] assms(2) by (simp add: TransportWriteAll_def)

definition open_bus :: "unit Bus" where
  "open_bus = \<lparr> chip = (), trace = [] \<rparr>"

definition always_ready :: "unit UartPortIo" where
  "always_ready = \<lparr> port_in = (\<lambda>c p. (0x60, c)), port_out = (\<lambda>c p v. c), port_yield = (\<lambda>c. c) \<rparr>"

lemma TransportWriteAll_uart_witness:
  "let r = TransportWriteAll (uart_write always_ready (UartDriverInit 0x3F8)) [0x7B, 0x7D] open_bus in
     line_ready (UartDriverInit 0x3F8) (snd r) \<and>
     (fst r = 2 \<and> line_sent (UartDriverInit 0x3F8) (snd r) = [0x7B, 0x7D] \<or>
      fst r = - 1 \<and> (\<exists>k \<le> 2. line_sent (UartDriverInit 0x3F8) (snd r) = take k [0x7B, 0x7D]))"
proof -
  have "line_ready (UartDriverInit 0x3F8) open_bus" "line_sent (UartDriverInit 0x3F8) open_bus = []"
    by (simp_all add: line_ready_def line_sent_def bus_regs_def cold_regs_def open_bus_def)
  then show ?thesis
    using TransportWriteAll_uart [of "UartDriverInit 0x3F8" open_bus always_ready "[0x7B, 0x7D]"]
    by (cases "TransportWriteAll (uart_write always_ready (UartDriverInit 0x3F8)) [0x7B, 0x7D] open_bus") (simp add: numeral_2_eq_2)
qed

section \<open>The gate between the routes\<close>

lemma open_serial_total:
  assumes "char_stepper cn"
  shows "OpenSerialPort cn os name baud w \<noteq> None"
proof -
  obtain p where "McpStrCpyN cn [] name 36 = Some p"
    by (rule char_stepper.copy_spec [OF assms, of 36 "[]" name]) auto
  then show ?thesis by (simp add: OpenSerialPort_def case_prod_beta)
qed

text \<open>
  Ports are touched only on Win32s, and there no communication service of Windows is
  called: the route is chosen by the tier alone, a failed direct open is not retried
  through Windows, and a live direct end is a chip in the state of a successful open.
\<close>

theorem SerialBackendOpen_route:
  assumes "char_stepper cn"
  shows "case SerialBackendOpen cn os io f cfg (w, b) of
      None \<Rightarrow> False
    | Some (r, w', b') \<Rightarrow>
        if is_win32s f
        then w' = w \<and>
          (case r of
             Inr (DirectUart drv) \<Rightarrow> drv_open drv \<and> uart_base_for_port (port cfg) \<noteq> 0 \<and>
               (\<exists>new. trace b' = trace b @ new \<and> opened (uart_base_for_port (port cfg)) (uart_divisor_for_baud (baudRate cfg)) new drv)
           | Inr (OsPort h) \<Rightarrow> False
           | Inl why \<Rightarrow> why \<noteq> [])
        else b' = b \<and> (case r of Inr (DirectUart drv) \<Rightarrow> False | _ \<Rightarrow> True)"
proof (cases "is_win32s f")
  case True
  obtain live drv b1 where r: "run_state (UartOpenSequence io (uart_base_for_port (port cfg)) (uart_divisor_for_baud (baudRate cfg))) b = ((live, drv), b1)"
    by (metis surj_pair)
  show ?thesis using True ensuresD [OF open_runs r]
    by (auto simp: SerialBackendOpen_def UartTierWantsDirect_def UartBackendOpenDirect_def r opened_def split: if_splits)
next
  case False
  then show ?thesis using open_serial_total [OF assms, of os "port cfg" "baudRate cfg" w]
    by (auto simp: SerialBackendOpen_def UartTierWantsDirect_def split: sum.splits)
qed

text \<open>A machine without any port, in the eyes of Windows.\<close>

definition portless :: "nat CommOs" where
  "portless = \<lparr> CreateFileComm = (\<lambda>name w. (None, w + 1)), GetLastError = (\<lambda>w. 2), GetCommState = (\<lambda>h w. (None, w)),
     SetCommState = (\<lambda>h d w. (False, w)), SetCommTimeouts = (\<lambda>h t w. (False, w)), CloseComm = (\<lambda>h w. w),
     ReadComm = (\<lambda>h n w. (None, w)), WriteComm = (\<lambda>h bs w. (None, w)) \<rparr>"

lemma SerialBackendOpen_route_witness:
  "case SerialBackendOpen shim_CharNextA portless always_ready no_features default_config (0, open_bus) of
     None \<Rightarrow> False | Some (r, w', b') \<Rightarrow> b' = open_bus"
  using SerialBackendOpen_route [OF shim.char_stepper_axioms, where os = portless and io = always_ready and f = no_features
    and cfg = default_config and w = 0 and b = open_bus]
  by (auto simp: no_features_def split: option.splits)

end
