(* ===== verification/Tcp.thy ===== *)
theory Tcp
  imports Transport
begin

text \<open>
  The TCP backend of \<^verbatim>\<open>src/src/tcp.c\<close>.  Winsock is an argument: a table of
  entry points over a world of any type, each present or not.  The state keeps, beside
  the two flags of the code, the sockets that are open, which no operation reads.
\<close>

section \<open>Addresses\<close>

definition McpHtons :: "u16 \<Rightarrow> u16" where
  "McpHtons x = push_bit 8 (x AND 0x00FF) OR drop_bit 8 (x AND 0xFF00)"

definition McpHtonl :: "u32 \<Rightarrow> u32" where
  "McpHtonl x = push_bit 24 (x AND 0x000000FF) OR push_bit 8 (x AND 0x0000FF00) OR
     drop_bit 8 (x AND 0x00FF0000) OR drop_bit 24 (x AND 0xFF000000)"

text \<open>The scan of a dotted address: the octet being read, the address so far and its parts.\<close>

fun inet_loop :: "string \<Rightarrow> u32 \<Rightarrow> u32 \<Rightarrow> int \<Rightarrow> u32 \<times> u32 \<times> int" where
  "inet_loop [] octet acc parts = (octet, acc, parts)"
| "inet_loop (c # s) octet acc parts =
     (if c = CHR '' '' \<or> c = CHR 0x09 then (octet, acc, parts)
      else if CHR ''0'' \<le> c \<and> c \<le> CHR ''9'' then inet_loop s (octet * 10 + of_nat (of_char c - 48)) acc parts
      else if c = CHR ''.'' then inet_loop s 0 (push_bit 8 acc OR (octet AND 0xFF)) (parts + 1)
      else inet_loop s octet acc parts)"

definition McpInetAddr :: "string \<Rightarrow> u32" where
  "McpInetAddr s =
     (if s = [] then 0
      else case inet_loop s 0 0 0 of
        (octet, acc, parts) \<Rightarrow>
          (let acc = push_bit 8 acc OR (octet AND 0xFF); parts = parts + 1
           in if parts \<noteq> 4 then 0 else McpHtonl acc))"

section \<open>Winsock\<close>

record 'w WinSock =
  ws_library :: "'w \<Rightarrow> bool \<times> 'w"
  ws_entry :: "string \<Rightarrow> bool"
  WSAStartup :: "'w \<Rightarrow> (int \<times> u16) \<times> 'w"
  WSACleanup :: "'w \<Rightarrow> 'w"
  ws_socket :: "'w \<Rightarrow> u32 option \<times> 'w"
  ws_bind :: "u32 \<Rightarrow> u16 \<Rightarrow> u32 \<Rightarrow> 'w \<Rightarrow> bool \<times> 'w"
  ws_listen :: "u32 \<Rightarrow> int \<Rightarrow> 'w \<Rightarrow> bool \<times> 'w"
  ws_accept :: "u32 \<Rightarrow> 'w \<Rightarrow> u32 option \<times> 'w"
  ws_setsockopt :: "u32 \<Rightarrow> 'w \<Rightarrow> 'w"
  ws_recv :: "u32 \<Rightarrow> int \<Rightarrow> 'w \<Rightarrow> u8 list option \<times> 'w"
  ws_send :: "u32 \<Rightarrow> u8 list \<Rightarrow> 'w \<Rightarrow> int option \<times> 'w"
  ws_closesocket :: "u32 \<Rightarrow> 'w \<Rightarrow> 'w"

definition ws_entries :: "string list" where
  "ws_entries = [''WSAStartup'', ''WSACleanup'', ''socket'', ''bind'', ''listen'', ''accept'', ''recv'', ''send'',
     ''closesocket'', ''setsockopt'', ''WSAGetLastError'']"

record 'w TcpState =
  g_loaded :: bool
  g_started :: bool
  sockets :: "u32 list"
  net :: 'w

definition TcpBackendProbe :: "'w WinSock \<Rightarrow> 'w TcpState \<Rightarrow> bool \<times> 'w TcpState" where
  "TcpBackendProbe ws st =
     (if g_loaded st then (True, st)
      else case ws_library ws (net st) of
        (False, w) \<Rightarrow> (False, st\<lparr>net := w\<rparr>)
      | (True, w) \<Rightarrow>
          if \<not> list_all (ws_entry ws) ws_entries then (False, st\<lparr>net := w\<rparr>)
          else (True, st\<lparr>net := w, g_loaded := True\<rparr>))"

definition tcp_recv :: "'w WinSock \<Rightarrow> u32 \<Rightarrow> int \<Rightarrow> 'w \<Rightarrow> u8 list option \<times> 'w" where
  "tcp_recv ws sock len w = ws_recv ws sock len w"

definition tcp_send :: "'w WinSock \<Rightarrow> u32 \<Rightarrow> u8 list \<Rightarrow> 'w \<Rightarrow> int \<times> 'w" where
  "tcp_send ws sock buf w = (case ws_send ws sock buf w of (None, w1) \<Rightarrow> (- 1, w1) | (Some n, w1) \<Rightarrow> (n, w1))"

text \<open>Closing a socket; \<^const>\<open>None\<close> is the invalid one, which the end of a transport holds after its close.\<close>

definition close_socket :: "'w WinSock \<Rightarrow> u32 \<Rightarrow> 'w TcpState \<Rightarrow> 'w TcpState" where
  "close_socket ws s st = st\<lparr>net := ws_closesocket ws s (net st), sockets := remove1 s (sockets st)\<rparr>"

definition tcp_sock_close :: "'w WinSock \<Rightarrow> u32 option \<Rightarrow> 'w TcpState \<Rightarrow> u32 option \<times> 'w TcpState" where
  "tcp_sock_close ws sock st = (case sock of None \<Rightarrow> (None, st) | Some s \<Rightarrow> (None, close_socket ws s st))"

definition tcp_accept :: "'w WinSock \<Rightarrow> u32 \<Rightarrow> 'w TcpState \<Rightarrow> u32 option \<times> 'w TcpState" where
  "tcp_accept ws listener st =
     (case ws_accept ws listener (net st) of
        (None, w) \<Rightarrow> (None, st\<lparr>net := w\<rparr>)
      | (Some c, w) \<Rightarrow> (Some c, st\<lparr>net := ws_setsockopt ws c w, sockets := c # sockets st\<rparr>))"

text \<open>The start of Winsock 1.1, once: a message, or nothing when it is up.\<close>

definition tcp_start :: "'w WinSock \<Rightarrow> 'w TcpState \<Rightarrow> string option \<times> 'w TcpState" where
  "tcp_start ws st =
     (if g_started st then (None, st)
      else case WSAStartup ws (net st) of
        ((rc, version), w) \<Rightarrow>
          if rc \<noteq> 0 then (Some ''WSAStartup failed'', st\<lparr>net := w\<rparr>)
          else if version AND 0xFF \<noteq> 1 \<or> drop_bit 8 version \<noteq> 1
          then (Some ''winsock 1.1 not supported'', st\<lparr>net := WSACleanup ws w\<rparr>)
          else (None, st\<lparr>net := w, g_started := True\<rparr>))"

definition TcpBackendOpen ::
    "'w WinSock \<Rightarrow> TransportConfig \<Rightarrow> 'w TcpState \<Rightarrow> (string + u32) \<times> 'w TcpState" where
  "TcpBackendOpen ws cfg st =
     (case TcpBackendProbe ws st of
        (False, st1) \<Rightarrow> (Inl ''winsock (wsock32.dll) not available'', st1)
      | (True, st1) \<Rightarrow>
          (case tcp_start ws st1 of
             (Some why, st2) \<Rightarrow> (Inl why, st2)
           | (None, st2) \<Rightarrow>
               (case ws_socket ws (net st2) of
                  (None, w) \<Rightarrow> (Inl ''socket() failed'', st2\<lparr>net := w\<rparr>)
                | (Some s, w) \<Rightarrow>
                    (let st3 = st2\<lparr>net := w, sockets := s # sockets st2\<rparr> in
                     case ws_bind ws s (McpHtons (word_of_int (tcpPort cfg))) (McpInetAddr (bindAddr cfg)) (net st3) of
                       (False, w3) \<Rightarrow> (Inl ''bind() failed'', close_socket ws s (st3\<lparr>net := w3\<rparr>))
                     | (True, w3) \<Rightarrow>
                         (case ws_listen ws s 1 w3 of
                            (False, w4) \<Rightarrow> (Inl ''listen() failed'', close_socket ws s (st3\<lparr>net := w4\<rparr>))
                          | (True, w4) \<Rightarrow> (Inr s, st3\<lparr>net := w4\<rparr>))))))"

definition TcpBackendCleanup :: "'w WinSock \<Rightarrow> 'w TcpState \<Rightarrow> 'w TcpState" where
  "TcpBackendCleanup ws st =
     (if g_started st then st\<lparr>net := WSACleanup ws (net st), g_started := False\<rparr> else st)"

section \<open>Sockets and addresses\<close>

text \<open>
  C40: whatever Winsock does, a failed open leaves no socket open that was not open
  before, and a successful one exactly the listener, and has a reason; success means Winsock is started,
  and an accept adds the connection alone, which its close takes away again.
\<close>

theorem TcpBackendOpen_sockets:
  "case TcpBackendOpen ws cfg st of (r, st') \<Rightarrow>
     (case r of
        Inl why \<Rightarrow> sockets st' = sockets st \<and> why \<noteq> []
      | Inr s \<Rightarrow> sockets st' = s # sockets st \<and> g_started st' \<and> g_loaded st' \<and>
          (case tcp_accept ws s st' of
             (None, st2) \<Rightarrow> sockets st2 = sockets st'
           | (Some c, st2) \<Rightarrow> sockets st2 = c # sockets st' \<and> sockets (snd (tcp_sock_close ws (Some c) st2)) = sockets st'))"
proof -
  have probe: "sockets (snd (TcpBackendProbe ws st)) = sockets st"
    "fst (TcpBackendProbe ws st) \<Longrightarrow> g_loaded (snd (TcpBackendProbe ws st))"
    by (auto simp: TcpBackendProbe_def split: prod.splits bool.splits if_splits)
  have start: "sockets (snd (tcp_start ws st1)) = sockets st1" "g_loaded (snd (tcp_start ws st1)) = g_loaded st1"
    "fst (tcp_start ws st1) = None \<Longrightarrow> g_started (snd (tcp_start ws st1))" "fst (tcp_start ws st1) \<noteq> Some []" for st1
    by (auto simp: tcp_start_def split: prod.splits if_splits)
  obtain ok st1 where p: "TcpBackendProbe ws st = (ok, st1)" by (cases "TcpBackendProbe ws st")
  obtain why st2 where s: "tcp_start ws st1 = (why, st2)" by (cases "tcp_start ws st1")
  show ?thesis using probe start [of st1] p s
    by (auto simp: TcpBackendOpen_def close_socket_def tcp_accept_def tcp_sock_close_def Let_def
        split: prod.split bool.split option.split)
qed

text \<open>A dotted address of four octets comes out in network order.\<close>

lemma digit_range: "d < 10 \<Longrightarrow> CHR ''0'' \<le> digit_char d \<and> digit_char d \<le> CHR ''9''"
  "d < 10 \<Longrightarrow> digit_char d \<noteq> CHR '' '' \<and> digit_char d \<noteq> CHR 0x09"
  using of_digit_char [of d] by (auto simp: less_eq_char_def dest!: arg_cong [of "digit_char d" _ "of_char :: char \<Rightarrow> nat"])

lemma inet_dec: "inet_loop (dec n @ s) octet acc parts = inet_loop s (octet * 10 ^ length (dec n) + of_nat n) acc parts"
proof (induction n arbitrary: octet s rule: dec.induct)
  case (1 n)
  show ?case
  proof (cases "n < 10")
    case True
    then show ?thesis using digit_range [OF True] by (simp add: dec.simps [of n])
  next
    case False
    have split: "(of_nat n :: u32) = of_nat (n div 10) * 10 + of_nat (n mod 10)"
      using of_nat_add [of "n div 10 * 10" "n mod 10", where 'a = "32 word"] by simp
    show ?thesis
      using 1 [OF False, of "digit_char (n mod 10) # s" octet] digit_range [of "n mod 10"] False
      by (simp add: dec.simps [of n] split algebra_simps)
  qed
qed

lemma octet_mask: "n < 256 \<Longrightarrow> (of_nat n :: u32) AND 0xFF = of_nat n"
proof -
  assume "n < 256"
  moreover have "(of_nat n :: u32) AND 0xFF = take_bit 8 (of_nat n)" by (simp add: take_bit_eq_mask mask_eq_exp_minus_1)
  ultimately show ?thesis by (simp add: take_bit_of_nat take_bit_nat_eq_self)
qed

lemma McpInetAddr_quad:
  assumes "a < 256" "b < 256" "c < 256" "d < 256"
  shows "McpInetAddr (dec a @ CHR ''.'' # dec b @ CHR ''.'' # dec c @ CHR ''.'' # dec d) =
    McpHtonl (push_bit 8 (push_bit 8 (push_bit 8 (of_nat a) OR of_nat b) OR of_nat c) OR of_nat d)"
  using inet_dec [of d "[]"] assms by (simp add: McpInetAddr_def inet_dec octet_mask)

text \<open>
  Anything else is not refused: letters are skipped, and an address without three dots
  means every interface.
\<close>

lemma McpInetAddr_lenient: "McpInetAddr ''1x2.0.0.1'' = McpInetAddr ''12.0.0.1''" "McpInetAddr ''localhost'' = 0"
  by (simp_all add: McpInetAddr_def)

end
