(* ===== verification/FileOps.thy ===== *)
theory FileOps
  imports EncTier
begin

text \<open>
  The file operations of \<^verbatim>\<open>src/src/file_ops.c\<close>.  The file services of Windows are an
  argument over a world of any type; each takes its path in the form of the tier, wide
  or in bytes, so that what the code hands over is what the service sees.
\<close>

section \<open>The services\<close>

datatype FsPath = WidePath "u16 list" | BytePath "u8 list"

text \<open>A directory entry, its name as the service gives it.\<close>

datatype FindName = WideName "u16 list" | ByteName "u8 list"

record FindEntry =
  cFileName :: FindName
  isDir :: bool

text \<open>
  \<open>FsFind\<close> gives the entries of \<^verbatim>\<open>FindFirstFile\<close> and the \<^verbatim>\<open>FindNextFile\<close> calls
  behind it, at least one, or \<^const>\<open>None\<close>.  The operations on names answer
  \<^const>\<open>None\<close> for success or the error code.
\<close>

record 'w FileSys =
  FsOpenRead :: "FsPath \<Rightarrow> 'w \<Rightarrow> u32 option \<times> 'w"
  FsCreate :: "FsPath \<Rightarrow> 'w \<Rightarrow> u32 option \<times> 'w"
  FsSize :: "u32 \<Rightarrow> 'w \<Rightarrow> u32 option \<times> 'w"
  FsRead :: "u32 \<Rightarrow> int \<Rightarrow> 'w \<Rightarrow> u8 list option \<times> 'w"
  FsWrite :: "u32 \<Rightarrow> u8 list \<Rightarrow> 'w \<Rightarrow> int option \<times> 'w"
  FsClose :: "u32 \<Rightarrow> 'w \<Rightarrow> 'w"
  FsFind :: "FsPath \<Rightarrow> 'w \<Rightarrow> FindEntry list option \<times> 'w"
  FsFindClose :: "'w \<Rightarrow> 'w"
  FsDelete :: "FsPath \<Rightarrow> 'w \<Rightarrow> u32 option \<times> 'w"
  FsCopy :: "FsPath \<Rightarrow> FsPath \<Rightarrow> 'w \<Rightarrow> u32 option \<times> 'w"
  FsMove :: "FsPath \<Rightarrow> FsPath \<Rightarrow> 'w \<Rightarrow> u32 option \<times> 'w"
  FsMakeDir :: "FsPath \<Rightarrow> 'w \<Rightarrow> u32 option \<times> 'w"
  FsRemoveDir :: "FsPath \<Rightarrow> 'w \<Rightarrow> u32 option \<times> 'w"

definition ERROR_FILE_NOT_FOUND :: u32 where "ERROR_FILE_NOT_FOUND = 2"
definition ERROR_PATH_NOT_FOUND :: u32 where "ERROR_PATH_NOT_FOUND = 3"
definition ERROR_FILE_EXISTS :: u32 where "ERROR_FILE_EXISTS = 80"
definition ERROR_DIR_NOT_EMPTY :: u32 where "ERROR_DIR_NOT_EMPTY = 145"
definition ERROR_ALREADY_EXISTS :: u32 where "ERROR_ALREADY_EXISTS = 183"

text \<open>What the paths are opened under: the code pages, the features, the active page.\<close>

record Locale =
  loc_pages :: "CpPage list"
  loc_features :: Features
  loc_acp :: nat

definition open_path :: "Locale \<Rightarrow> u8 list \<Rightarrow> EncPathForm" where
  "open_path loc path = EncOpenPath (loc_pages loc) (loc_features loc) (loc_acp loc) path"

definition fs_path :: "EncPathForm \<Rightarrow> FsPath" where
  "fs_path form = (if useWide form then WidePath (wOut form) else BytePath (mbOut form))"

text \<open>The gate before every operation: a path that was rejected touches no file.\<close>

definition enc_prep_path :: "Locale \<Rightarrow> u8 list \<Rightarrow> string + FsPath" where
  "enc_prep_path loc path =
     (let form = open_path loc path in
      if path_status form = ENC_REJECTED then Inl ''path not representable'' else Inr (fs_path form))"

section \<open>Reading and writing\<close>

function read_loop ::
    "'w FileSys \<Rightarrow> u32 \<Rightarrow> int \<Rightarrow> int \<Rightarrow> u8 list \<Rightarrow> 'w \<Rightarrow> (string + u8 list) \<times> 'w" where
  "read_loop fs h fileSize bufSize buf w =
     (if int (length buf) < fileSize then
        (case FsRead fs h (min (fileSize - int (length buf)) (bufSize - int (length buf))) w of
           (None, w1) \<Rightarrow> (Inl ''read error'', w1)
         | (Some bs, w1) \<Rightarrow>
             if bs = [] then (Inr buf, w1) else read_loop fs h fileSize bufSize (buf @ bs) w1)
      else (Inr buf, w))"
  by pat_completeness auto
termination
  by (relation "measure (\<lambda>(fs, h, fileSize, bufSize, buf, w). nat (fileSize - int (length buf)))")
    (auto simp: neq_Nil_conv)

declare read_loop.simps [simp del]

definition FileOpRead :: "Locale \<Rightarrow> 'w FileSys \<Rightarrow> u8 list \<Rightarrow> int \<Rightarrow> 'w \<Rightarrow> (string + u8 list) \<times> 'w" where
  "FileOpRead loc fs path bufSize w =
     (case enc_prep_path loc path of
        Inl why \<Rightarrow> (Inl why, w)
      | Inr p \<Rightarrow>
          (case FsOpenRead fs p w of
             (None, w1) \<Rightarrow> (Inl ''file not found'', w1)
           | (Some h, w1) \<Rightarrow>
               (case FsSize fs h w1 of
                  (None, w2) \<Rightarrow> (Inl ''cannot get file size'', FsClose fs h w2)
                | (Some lowPart, w2) \<Rightarrow>
                    if sint lowPart > bufSize then (Inl ''file too large'', FsClose fs h w2)
                    else (case read_loop fs h (sint lowPart) bufSize [] w2 of
                        (r, w3) \<Rightarrow> (r, FsClose fs h w3)))))"

text \<open>The writers answer \<^const>\<open>None\<close> for success or the message.\<close>

definition FileOpWrite :: "Locale \<Rightarrow> 'w FileSys \<Rightarrow> u8 list \<Rightarrow> u8 list \<Rightarrow> 'w \<Rightarrow> string option \<times> 'w" where
  "FileOpWrite loc fs path bytes w =
     (case enc_prep_path loc path of
        Inl why \<Rightarrow> (Some why, w)
      | Inr p \<Rightarrow>
          (case FsCreate fs p w of
             (None, w1) \<Rightarrow> (Some ''cannot create file'', w1)
           | (Some h, w1) \<Rightarrow>
               if bytes \<noteq> [] then
                 (case FsWrite fs h bytes w1 of
                    (None, w2) \<Rightarrow> (Some ''write error'', FsClose fs h w2)
                  | (Some n, w2) \<Rightarrow>
                      (if n \<noteq> int (length bytes) then Some ''incomplete write'' else None, FsClose fs h w2))
               else (None, FsClose fs h w1)))"

section \<open>Listing\<close>

definition byte_bsl :: u8 where "byte_bsl = 0x5C"
definition byte_star :: u8 where "byte_star = 0x2A"
definition byte_lf :: u8 where "byte_lf = 0x0A"

definition str_endswith :: "u8 list \<Rightarrow> u8 list \<Rightarrow> bool" where
  "str_endswith s suffix \<longleftrightarrow> length suffix \<le> length s \<and> drop (length s - length suffix) s = suffix"

definition search_pattern :: "u8 list \<Rightarrow> u8 list" where
  "search_pattern path =
     (let s = take (ENC_PATH_MB - 4) path;
          s1 = (if s \<noteq> [] \<and> \<not> str_endswith s [byte_bsl] \<and> \<not> str_endswith s [byte_star] then s @ [byte_bsl] else s)
      in if \<not> str_endswith s1 [byte_star] then s1 @ [byte_star] else s1)"

definition is_dots :: "FindName \<Rightarrow> bool" where
  "is_dots n = (case n of
     WideName us \<Rightarrow> us = [0x2E] \<or> us = [0x2E, 0x2E]
   | ByteName bs \<Rightarrow> bs = [0x2E] \<or> bs = [0x2E, 0x2E])"

definition NAME_UTF8 :: nat where "NAME_UTF8 = 260 * 4"

definition wire_name :: "Locale \<Rightarrow> FindName \<Rightarrow> u8 list" where
  "wire_name loc n = (case n of
     WideName us \<Rightarrow> fst (EncWideToWire us NAME_UTF8)
   | ByteName bs \<Rightarrow> fst (EncBytesToWire (loc_pages loc) (loc_acp loc) bs NAME_UTF8))"

fun list_loop :: "Locale \<Rightarrow> int \<Rightarrow> FindEntry list \<Rightarrow> bool \<Rightarrow> u8 list \<Rightarrow> u8 list option" where
  "list_loop loc outSize [] first out = Some out"
| "list_loop loc outSize (e # es) first out =
     (if is_dots (cFileName e) then list_loop loc outSize es first out
      else let name = wire_name loc (cFileName e);
               needed = int (length name) + of_bool (isDir e) + of_bool (\<not> first) + 1
           in if int (length out) + needed > outSize then None
              else list_loop loc outSize es False
                (out @ (if \<not> first then [byte_lf] else []) @ name @ (if isDir e then [byte_bsl] else [])))"

definition FileOpList :: "Locale \<Rightarrow> 'w FileSys \<Rightarrow> u8 list \<Rightarrow> int \<Rightarrow> 'w \<Rightarrow> (string + u8 list) \<times> 'w" where
  "FileOpList loc fs path outSize w =
     (if path = [] then (Inl ''directory not found'', w)
      else let form = open_path loc (search_pattern path) in
        if path_status form = ENC_REJECTED then (Inl ''directory not found'', w)
        else case FsFind fs (fs_path form) w of
          (None, w1) \<Rightarrow> (Inl ''directory not found'', w1)
        | (Some es, w1) \<Rightarrow>
            (case list_loop loc outSize es True [] of None \<Rightarrow> Inl ''buffer overflow'' | Some out \<Rightarrow> Inr out,
             FsFindClose fs w1))"

section \<open>Names\<close>

definition FileOpDelete :: "Locale \<Rightarrow> 'w FileSys \<Rightarrow> u8 list \<Rightarrow> 'w \<Rightarrow> string option \<times> 'w" where
  "FileOpDelete loc fs path w =
     (case enc_prep_path loc path of
        Inl why \<Rightarrow> (Some why, w)
      | Inr p \<Rightarrow>
          (case FsDelete fs p w of (e, w1) \<Rightarrow> (if e = None then None else Some ''delete failed'', w1)))"

definition two_paths ::
    "Locale \<Rightarrow> u8 list \<Rightarrow> u8 list \<Rightarrow> (FsPath \<Rightarrow> FsPath \<Rightarrow> 'w \<Rightarrow> string option \<times> 'w) \<Rightarrow> 'w \<Rightarrow> string option \<times> 'w" where
  "two_paths loc src dest act w =
     (case enc_prep_path loc src of
        Inl why \<Rightarrow> (Some why, w)
      | Inr p \<Rightarrow> (case enc_prep_path loc dest of
          Inl why \<Rightarrow> (Some why, w)
        | Inr q \<Rightarrow> act p q w))"

definition transfer_error :: "string \<Rightarrow> u32 \<Rightarrow> string" where
  "transfer_error failed e =
     (if e = ERROR_FILE_NOT_FOUND \<or> e = ERROR_PATH_NOT_FOUND then ''file not found''
      else if e = ERROR_FILE_EXISTS \<or> e = ERROR_ALREADY_EXISTS then ''file exists''
      else failed)"

definition FileOpCopy :: "Locale \<Rightarrow> 'w FileSys \<Rightarrow> u8 list \<Rightarrow> u8 list \<Rightarrow> 'w \<Rightarrow> string option \<times> 'w" where
  "FileOpCopy loc fs src dest w =
     two_paths loc src dest
       (\<lambda>p q w. case FsCopy fs p q w of (e, w1) \<Rightarrow> (map_option (transfer_error ''copy failed'') e, w1)) w"

definition FileOpMove :: "Locale \<Rightarrow> 'w FileSys \<Rightarrow> u8 list \<Rightarrow> u8 list \<Rightarrow> 'w \<Rightarrow> string option \<times> 'w" where
  "FileOpMove loc fs src dest w =
     two_paths loc src dest
       (\<lambda>p q w. case FsMove fs p q w of (e, w1) \<Rightarrow> (map_option (transfer_error ''move failed'') e, w1)) w"

definition FileOpMakeDir :: "Locale \<Rightarrow> 'w FileSys \<Rightarrow> u8 list \<Rightarrow> 'w \<Rightarrow> string option \<times> 'w" where
  "FileOpMakeDir loc fs path w =
     (case enc_prep_path loc path of
        Inl why \<Rightarrow> (Some why, w)
      | Inr p \<Rightarrow>
          (case FsMakeDir fs p w of
             (None, w1) \<Rightarrow> (None, w1)
           | (Some e, w1) \<Rightarrow>
               (Some (if e = ERROR_ALREADY_EXISTS then ''directory exists''
                      else if e = ERROR_PATH_NOT_FOUND then ''path not found'' else ''mkdir failed''), w1)))"

definition FileOpRemoveDir :: "Locale \<Rightarrow> 'w FileSys \<Rightarrow> u8 list \<Rightarrow> 'w \<Rightarrow> string option \<times> 'w" where
  "FileOpRemoveDir loc fs path w =
     (case enc_prep_path loc path of
        Inl why \<Rightarrow> (Some why, w)
      | Inr p \<Rightarrow>
          (case FsRemoveDir fs p w of
             (None, w1) \<Rightarrow> (None, w1)
           | (Some e, w1) \<Rightarrow>
               (Some (if e = ERROR_FILE_NOT_FOUND \<or> e = ERROR_PATH_NOT_FOUND then ''directory not found''
                      else if e = ERROR_DIR_NOT_EMPTY then ''directory not empty'' else ''rmdir failed''), w1)))"

section \<open>What a listing says\<close>

definition rendered :: "Locale \<Rightarrow> FindEntry \<Rightarrow> u8 list" where
  "rendered loc e = wire_name loc (cFileName e) @ (if isDir e then [byte_bsl] else [])"

text \<open>The entries but the two dots, one line each.\<close>

definition visible :: "FindEntry list \<Rightarrow> FindEntry list" where
  "visible es = filter (\<lambda>e. \<not> is_dots (cFileName e)) es"

primrec lines_of :: "Locale \<Rightarrow> FindEntry list \<Rightarrow> bool \<Rightarrow> u8 list" where
  "lines_of loc [] first = []"
| "lines_of loc (e # es) first = (if first then [] else [byte_lf]) @ rendered loc e @ lines_of loc es False"

lemma list_loop_lines:
  "int (length out) < n \<or> visible es \<noteq> [] \<Longrightarrow> list_loop loc n es first out =
     (if int (length out + length (lines_of loc (visible es) first)) < n
      then Some (out @ lines_of loc (visible es) first) else None)"
proof (induction loc n es first out rule: list_loop.induct)
  case (2 loc n e es first out)
  show ?case
  proof (cases "is_dots (cFileName e)")
    case True
    then show ?thesis using 2 by (simp add: visible_def)
  next
    case False
    let ?out = "out @ (if \<not> first then [byte_lf] else []) @ rendered loc e"
    have len: "int (length out) + (int (length (wire_name loc (cFileName e))) + of_bool (isDir e) + of_bool (\<not> first) + 1) =
        int (length ?out) + 1"
      by (simp add: rendered_def)
    show ?thesis
    proof (cases "int (length ?out) < n")
      case fits: True
      have "list_loop loc n (e # es) first out = list_loop loc n es False ?out"
        using False fits len by (simp add: Let_def rendered_def)
      moreover have "list_loop loc n es False ?out =
          (if int (length ?out + length (lines_of loc (visible es) False)) < n
           then Some (?out @ lines_of loc (visible es) False) else None)"
        using 2(2) [OF False refl refl] False fits len by (simp add: rendered_def)
      ultimately show ?thesis using False by (simp add: visible_def)
    next
      case full: False
      then have "list_loop loc n (e # es) first out = None" using False len by (simp add: Let_def)
      then show ?thesis using False full by (cases first) (auto simp: visible_def)
    qed
  qed
qed (auto simp: visible_def)

text \<open>The UTF-8 form of some text.\<close>

definition utf8_text :: "u8 list \<Rightarrow> bool" where
  "utf8_text bs \<longleftrightarrow> (\<exists>cps. is_text cps \<and> bs = utf8_of cps)"

lemma utf8_text_append: "utf8_text a \<Longrightarrow> utf8_text b \<Longrightarrow> utf8_text (a @ b)"
  unfolding utf8_text_def
proof (elim exE conjE)
  fix xs ys assume "is_text xs" "a = utf8_of xs" "is_text ys" "b = utf8_of ys"
  then show "\<exists>cps. is_text cps \<and> a @ b = utf8_of cps" by (intro exI [of _ "xs @ ys"]) (auto simp: is_text_def)
qed

lemma utf8_text_ascii: "n < 128 \<Longrightarrow> utf8_text bs \<Longrightarrow> utf8_text (word_of_nat n # bs)"
  unfolding utf8_text_def
proof (elim exE conjE)
  fix cps assume "n < 128" "is_text cps" "bs = utf8_of cps"
  then show "\<exists>cps. is_text cps \<and> word_of_nat n # bs = utf8_of cps"
    by (intro exI [of _ "n # cps"]) (simp add: is_text_def scalar_def utf8_bytes_def utf8_len_def)
qed

lemma utf8_text_simple:
  "utf8_text []" "utf8_text bs \<Longrightarrow> utf8_text (byte_lf # bs)" "utf8_text bs \<Longrightarrow> utf8_text (byte_bsl # bs)"
  using utf8_text_ascii [where n = 10 and bs = bs] utf8_text_ascii [where n = "0x5C" and bs = bs]
  by (auto simp: byte_lf_def byte_bsl_def utf8_text_def is_text_def intro: exI [of _ "[]"])

lemma wire_name_text: "utf8_text (wire_name loc n)"
proof (cases n)
  case (WideName us)
  obtain bs st where r: "Utf16ToUtf8 us NAME_UTF8 = (bs, st)" by (cases "Utf16ToUtf8 us NAME_UTF8")
  obtain cps where "is_text cps" "bs = utf8_of cps" by (rule encode_valid [OF r])
  then show ?thesis using WideName r by (auto simp: wire_name_def EncWideToWire_def utf8_text_def)
next
  case (ByteName bs)
  obtain out st where r: "enc_wire_loop (loc_pages loc) (loc_acp loc) NAME_UTF8 bs [] False = (out, st)"
    by (cases "enc_wire_loop (loc_pages loc) (loc_acp loc) NAME_UTF8 bs [] False")
  show ?thesis using wire_loop_valid [OF _ r] ByteName r
    by (auto simp: wire_name_def EncBytesToWire_def utf8_text_def)
qed

lemma lines_text: "utf8_text (lines_of loc es first)"
  by (induction es arbitrary: first)
    (auto simp: rendered_def intro!: utf8_text_append utf8_text_simple wire_name_text)

text \<open>
  A listing is one line for every entry but the two dots, in the order of the
  directory, a backslash behind the directories, whole, within the buffer and always
  valid UTF-8; or it is an error with a reason, the search closed in both cases.
\<close>

theorem FileOpList_lines:
  "case FileOpList loc fs path outSize w of
     (Inl why, w') \<Rightarrow> why \<noteq> []
   | (Inr out, w') \<Rightarrow> \<exists>es w1. FsFind fs (fs_path (open_path loc (search_pattern path))) w = (Some es, w1) \<and>
       w' = FsFindClose fs w1 \<and> out = lines_of loc (visible es) True \<and> utf8_text out \<and>
       (if visible es = [] then out = [] else int (length out) < outSize)"
proof -
  have loop: "list_loop loc outSize es True [] = Some out \<Longrightarrow> out = lines_of loc (visible es) True \<and> utf8_text out \<and>
      (if visible es = [] then out = [] else int (length out) < outSize)" for es out
  proof (cases "visible es = []")
    case True
    have "visible xs = [] \<Longrightarrow> list_loop loc outSize xs True [] = Some []" for xs
      by (induction xs) (auto simp: visible_def split: if_splits)
    then show "list_loop loc outSize es True [] = Some out \<Longrightarrow> ?thesis" using True by (simp add: utf8_text_simple)
  next
    case False
    then show "list_loop loc outSize es True [] = Some out \<Longrightarrow> ?thesis"
      using list_loop_lines [of "[]" outSize es loc True] by (auto simp: lines_text split: if_splits)
  qed
  show ?thesis by (auto simp: FileOpList_def Let_def loop split: prod.split option.split)
qed

section \<open>What a read returns\<close>

text \<open>
  A handle that yields the rest of its file: \<open>rest w\<close> is what is still to read, and
  a read gives at least one byte of it and no more than it asked for, until it is empty.
\<close>

definition yields :: "'w FileSys \<Rightarrow> u32 \<Rightarrow> ('w \<Rightarrow> u8 list) \<Rightarrow> bool" where
  "yields fs h rest \<longleftrightarrow> (\<forall>n w. 0 < n \<longrightarrow> rest w \<noteq> [] \<longrightarrow>
     (\<exists>k w'. FsRead fs h n w = (Some (take k (rest w)), w') \<and> 0 < k \<and> int k \<le> n \<and> rest w' = drop k (rest w)))"

lemma read_loop_whole:
  assumes "yields fs h rest" "fileSize = int (length buf + length (rest w))" "fileSize \<le> bufSize"
  shows "fst (read_loop fs h fileSize bufSize buf w) = Inr (buf @ rest w)"
  using assms(2)
proof (induction "length (rest w)" arbitrary: buf w rule: less_induct)
  case less
  show ?case
  proof (cases "rest w = []")
    case True
    then show ?thesis using less.prems by (simp add: read_loop.simps)
  next
    case False
    let ?n = "min (fileSize - int (length buf)) (bufSize - int (length buf))"
    have "0 < ?n" using False less.prems assms(3) by (cases "rest w") auto
    then obtain k w' where rd: "FsRead fs h ?n w = (Some (take k (rest w)), w')" "0 < k" "rest w' = drop k (rest w)"
      using assms(1) False unfolding yields_def by blast
    have shorter: "length (rest w') < length (rest w)" using rd False by (cases "rest w") auto
    have "read_loop fs h fileSize bufSize buf w = read_loop fs h fileSize bufSize (buf @ take k (rest w)) w'"
      using rd False less.prems by (subst read_loop.simps) simp
    moreover have "fst (read_loop fs h fileSize bufSize (buf @ take k (rest w)) w') = Inr ((buf @ take k (rest w)) @ rest w')"
      using less.prems rd by (intro less.hyps [OF shorter]) (simp add: min_def)
    ultimately show ?thesis using rd by simp
  qed
qed

text \<open>
  A read returns the file whole, however the service splits it into pieces, and the
  handle is closed, when the file fits the buffer and its length is below 2 GB.
\<close>

theorem FileOpRead_whole:
  assumes "enc_prep_path loc path = Inr p" "FsOpenRead fs p w = (Some h, w1)" "FsSize fs h w1 = (Some sz, w2)"
    and "yields fs h rest" "sint sz = int (length (rest w2))" "int (length (rest w2)) \<le> bufSize"
  shows "fst (FileOpRead loc fs path bufSize w) = Inr (rest w2) \<and>
    (\<exists>w3. snd (FileOpRead loc fs path bufSize w) = FsClose fs h w3)"
  using read_loop_whole [OF assms(4), of "sint sz" "[]" w2 bufSize] assms
  by (auto simp: FileOpRead_def split: prod.split)

text \<open>The length is read as a signed number: of a file of 2 GB or more nothing is read, with success.\<close>

lemma FileOpRead_huge:
  assumes "enc_prep_path loc path = Inr p" "FsOpenRead fs p w = (Some h, w1)" "FsSize fs h w1 = (Some sz, w2)"
    and "sint sz < 0" "0 \<le> bufSize"
  shows "FileOpRead loc fs path bufSize w = (Inr [], FsClose fs h w2)"
  using assms by (simp add: FileOpRead_def read_loop.simps)

text \<open>A service of one file, read two bytes at a time: the world is what is left of it.\<close>

definition pair_fs :: "u8 list FileSys" where
  "pair_fs = \<lparr>FsOpenRead = (\<lambda>p w. (Some 1, w)), FsCreate = (\<lambda>p w. (None, w)),
     FsSize = (\<lambda>h w. (Some (word_of_nat (length w)), w)),
     FsRead = (\<lambda>h n w. let k = nat (min n 2) in (Some (take k w), drop k w)), FsWrite = (\<lambda>h b w. (None, w)),
     FsClose = (\<lambda>h w. w), FsFind = (\<lambda>p w. (None, w)), FsFindClose = (\<lambda>w. w), FsDelete = (\<lambda>p w. (None, w)),
     FsCopy = (\<lambda>p q w. (None, w)), FsMove = (\<lambda>p q w. (None, w)), FsMakeDir = (\<lambda>p w. (None, w)),
     FsRemoveDir = (\<lambda>p w. (None, w))\<rparr>"

lemma pair_fs_yields: "yields pair_fs h (\<lambda>w. w)"
  unfolding yields_def by (auto simp: pair_fs_def Let_def intro!: exI [of _ "nat (min _ 2)"])

definition here :: Locale where
  "here = \<lparr>loc_pages = [], loc_features = no_features\<lparr>is_nt := True, has_wide_fileapi := True\<rparr>, loc_acp = 1252\<rparr>"

lemma FileOpRead_whole_witness:
  "fst (FileOpRead here pair_fs [0x61] 4096 [1, 2, 3, 4, 5]) = Inr [1, 2, 3, 4, 5]"
proof -
  have "enc_prep_path here [0x61] = Inr (WidePath [0x61])"
    using decode_text [of "[0x61]" "[]" 259 "[0x61]" ENC_OK]
    by (simp add: enc_prep_path_def open_path_def EncOpenPath_def EncTierCurrent_def here_def no_features_def
        ENC_PATH_WIDE_def Utf8ToUtf16_def clean_form_def fs_path_def CP_UTF8_ID_def utf8_loop.simps)
  moreover have "FsOpenRead pair_fs (WidePath [0x61]) [1, 2, 3, 4, 5] = (Some 1, [1, 2, 3, 4, 5])"
    "FsSize pair_fs 1 [1, 2, 3, 4, 5] = (Some 5, [1, 2, 3, 4, 5])"
    by (simp_all add: pair_fs_def)
  ultimately show ?thesis
    using FileOpRead_whole [OF _ _ _ pair_fs_yields, of here "[0x61]" "WidePath [0x61]" "[1, 2, 3, 4, 5]" 1 "[1, 2, 3, 4, 5]" 5
      "[1, 2, 3, 4, 5]" 4096] by simp
qed

end
