(* ===== verification/BinFmt.thy ===== *)
theory BinFmt
  imports Prelude Feat "HOL-Library.Monad_Syntax"
begin

text \<open>
  The classifier of executables of \<^verbatim>\<open>src/src/binfmt.c\<close>.  The file services are an
  argument over a world of any type.  A read outside the bytes that were read from the
  file is \<^const>\<open>None\<close>.
\<close>

datatype BinaryType = BIN_UNKNOWN | BIN_PE32 | BIN_NE16 | BIN_MZ | BIN_SHELL

definition BINFMT_READ_BYTES :: nat where "BINFMT_READ_BYTES = 512"
definition MAX_PATH :: nat where "MAX_PATH = 260"

text \<open>
  The services: opening and reading a file, the search along the path, which answers
  the length it needs and what it put into the buffer, and the classifier of the kernel.
\<close>

record 'w BinOs =
  OpenShared :: "string \<Rightarrow> 'w \<Rightarrow> u32 option \<times> 'w"
  ReadBytes :: "u32 \<Rightarrow> nat \<Rightarrow> 'w \<Rightarrow> u8 list option \<times> 'w"
  CloseFile :: "u32 \<Rightarrow> 'w \<Rightarrow> 'w"
  SearchPathA :: "string \<Rightarrow> string \<Rightarrow> 'w \<Rightarrow> (nat \<times> string) \<times> 'w"
  GetBinaryTypeA :: "string \<Rightarrow> 'w \<Rightarrow> nat option \<times> 'w"

section \<open>Names\<close>

definition is_sep :: "char \<Rightarrow> bool" where
  "is_sep c \<longleftrightarrow> c = bsl \<or> c = CHR ''/'' \<or> c = CHR '':''"

definition has_path_sep :: "string \<Rightarrow> bool" where
  "has_path_sep name = list_ex is_sep name"

definition has_extension :: "string \<Rightarrow> bool" where
  "has_extension name = fold (\<lambda>c dot. if is_sep c then False else if c = CHR ''.'' then True else dot) name False"

section \<open>Headers\<close>

definition map_scs :: "nat \<Rightarrow> BinaryType" where
  "map_scs scs =
     (if scs = 0 then BIN_PE32 else if scs = 6 then BIN_PE32 else if scs = 1 then BIN_MZ
      else if scs = 2 then BIN_NE16 else if scs = 5 then BIN_NE16 else BIN_UNKNOWN)"

text \<open>The field at 0x3C, in a \<^verbatim>\<open>long\<close> of 32 bits.\<close>

definition e_lfanew :: "u8 list \<Rightarrow> u32" where
  "e_lfanew buf = ((ucast (buf ! 0x3C) OR push_bit 8 (ucast (buf ! 0x3D))) OR push_bit 16 (ucast (buf ! 0x3E))) OR
     push_bit 24 (ucast (buf ! 0x3F))"

definition byte_at :: "u8 list \<Rightarrow> int \<Rightarrow> u8 option" where
  "byte_at buf i = (if 0 \<le> i \<and> i < int (length buf) then Some (buf ! nat i) else None)"

definition extended_magic :: "u8 list \<Rightarrow> u32 \<Rightarrow> BinaryType option" where
  "extended_magic buf lfanew =
     do { b0 \<leftarrow> byte_at buf (sint lfanew);
          b1 \<leftarrow> byte_at buf (sint (lfanew + 1));
          if b0 = 0x50 \<and> b1 = 0x45 \<and> sint (lfanew + 4) \<le> int (length buf) \<and>
             byte_at buf (sint (lfanew + 2)) = Some 0 \<and> byte_at buf (sint (lfanew + 3)) = Some 0 then Some BIN_PE32
          else if b0 = 0x4E \<and> b1 = 0x45 then Some BIN_NE16
          else Some BIN_MZ }"

definition classify_bytes :: "u8 list \<Rightarrow> BinaryType option" where
  "classify_bytes buf =
     (let got = int (length buf) in
      if got < 2 \<or> buf ! 0 \<noteq> 0x4D \<or> buf ! 1 \<noteq> 0x5A then Some BIN_UNKNOWN
      else if got < 0x40 then Some BIN_MZ
      else let lfanew = e_lfanew buf in
        if sint lfanew < 0x40 \<or> sint (lfanew + 2) > got then Some BIN_MZ
        else extended_magic buf lfanew)"

text \<open>
  The answer is the message of a failure or the type; the type is \<^const>\<open>None\<close> where the
  header is read outside the buffer.
\<close>

definition classify_from_header :: "'w BinOs \<Rightarrow> string \<Rightarrow> 'w \<Rightarrow> (string + BinaryType option) \<times> 'w" where
  "classify_from_header os path w =
     (case OpenShared os path w of
        (None, w1) \<Rightarrow> (Inl ''cannot open file'', w1)
      | (Some h, w1) \<Rightarrow>
          (case ReadBytes os h BINFMT_READ_BYTES w1 of
             (None, w2) \<Rightarrow> (Inl ''cannot read file'', CloseFile os h w2)
           | (Some buf, w2) \<Rightarrow> (Inr (classify_bytes buf), CloseFile os h w2)))"

definition not_found :: "nat \<Rightarrow> bool" where
  "not_found found \<longleftrightarrow> found = 0 \<or> found \<ge> MAX_PATH"

text \<open>A bare name is looked up with the two extensions; \<^const>\<open>None\<close> is a name of the shell.\<close>

definition resolve_name :: "'w BinOs \<Rightarrow> string \<Rightarrow> 'w \<Rightarrow> string option \<times> 'w" where
  "resolve_name os exePath w =
     (if has_path_sep exePath \<or> has_extension exePath then (Some exePath, w)
      else case SearchPathA os exePath ''.exe'' w of
        ((found, resolved), w1) \<Rightarrow>
          if \<not> not_found found then (Some resolved, w1)
          else (case SearchPathA os exePath ''.com'' w1 of
            ((found, resolved), w2) \<Rightarrow> (if not_found found then None else Some resolved, w2)))"

definition BinFmtClassify :: "Features \<Rightarrow> 'w BinOs \<Rightarrow> string \<Rightarrow> 'w \<Rightarrow> (string + BinaryType option) \<times> 'w" where
  "BinFmtClassify f os exePath w =
     (case resolve_name os exePath w of
        (None, w1) \<Rightarrow> (Inr (Some BIN_SHELL), w1)
      | (Some toClassify, w1) \<Rightarrow>
          (if ''GetBinaryTypeA'' \<in> procs f then
             (case GetBinaryTypeA os toClassify w1 of
                (Some scs, w2) \<Rightarrow> (Inr (Some (map_scs scs)), w2)
              | (None, w2) \<Rightarrow> classify_from_header os toClassify w2)
           else classify_from_header os toClassify w1))"

section \<open>What the header says\<close>

text \<open>The reference: the field read as a number and the magic read as a piece of the file.\<close>

definition lfanew_nat :: "u8 list \<Rightarrow> nat" where
  "lfanew_nat buf = unat (buf ! 0x3C) + 256 * unat (buf ! 0x3D) + 65536 * unat (buf ! 0x3E) + 16777216 * unat (buf ! 0x3F)"

definition ref_class :: "u8 list \<Rightarrow> BinaryType" where
  "ref_class buf =
     (if take 2 buf \<noteq> [0x4D, 0x5A] then BIN_UNKNOWN
      else let off = lfanew_nat buf in
        if 0x40 \<le> length buf \<and> 0x40 \<le> off \<and> off + 2 \<le> length buf then
          (if take 4 (drop off buf) = [0x50, 0x45, 0, 0] then BIN_PE32
           else if take 2 (drop off buf) = [0x4E, 0x45] then BIN_NE16
           else BIN_MZ)
        else BIN_MZ)"

text \<open>Bytes put beside each other by OR add up.\<close>

lemma unat_or_shift:
  fixes a b :: u32
  assumes "unat a < 2 ^ n" "unat b < 256" "n \<le> 24"
  shows "unat (a OR push_bit n b) = unat a + 2 ^ n * unat b"
proof -
  have "a = take_bit n a" using assms(1) by (simp add: word_unat_eq_iff unsigned_take_bit_eq take_bit_nat_eq_self)
  then have "\<not> bit a i" if "n \<le> i" for i using that by (metis bit_take_bit_iff linorder_not_less)
  then have z: "a AND push_bit n b = 0" by (intro bit_word_eqI) (auto simp: bit_simps)
  have "unat b * 2 ^ n \<le> 255 * 2 ^ n" "(255 :: nat) * 2 ^ n + 2 ^ n \<le> 2 ^ 32"
    using assms(2) power_increasing [OF assms(3), of "2 :: nat"] by (auto simp: mult_le_mono)
  then have fits: "unat a + unat b * 2 ^ n < 2 ^ 32" using assms(1) by linarith
  then have "unat (push_bit n b) = unat b * 2 ^ n"
    unfolding unsigned_push_bit_eq unfolding push_bit_eq_mult by (simp add: take_bit_nat_eq_self)
  moreover have "a OR push_bit n b = a + push_bit n b" by (rule disjunctive_add_eq_or [symmetric]) (rule z)
  ultimately show ?thesis using fits by (simp add: unat_word_ariths mult.commute)
qed

lemma unat_lead_byte: "unat (ucast (b :: u8) :: u32) = unat b" "unat (ucast (b :: u8) :: u32) < 256" "unat (b :: u8) < 256"
proof -
  have "unat b < 2 ^ LENGTH(8)" by (rule unsigned_less)
  then show "unat (ucast b :: u32) = unat b" "unat (ucast b :: u32) < 256" "unat b < 256"
    by (simp_all add: unsigned_ucast_eq take_bit_nat_eq_self)
qed

lemma or_byte:
  "unat (a :: u32) = m \<Longrightarrow> m < 2 ^ n \<Longrightarrow> n \<le> 24 \<Longrightarrow> unat (a OR push_bit n (ucast (b :: u8))) = m + 2 ^ n * unat b"
  using unat_or_shift [of a n "ucast b"] unat_lead_byte(3) [of b] by (simp add: unat_lead_byte(1))

lemma unat_lfanew: "unat (e_lfanew buf) = lfanew_nat buf"
proof -
  have lt: "unat (buf ! k) < 256" for k by (rule unat_lead_byte)
  have "unat (ucast (buf ! 0x3C) OR push_bit 8 (ucast (buf ! 0x3D)) :: u32) = unat (buf ! 0x3C) + 2 ^ 8 * unat (buf ! 0x3D)"
    using lt by (intro or_byte [OF unat_lead_byte(1)]) simp_all
  then have "unat ((ucast (buf ! 0x3C) OR push_bit 8 (ucast (buf ! 0x3D))) OR push_bit 16 (ucast (buf ! 0x3E)) :: u32) =
      unat (buf ! 0x3C) + 2 ^ 8 * unat (buf ! 0x3D) + 2 ^ 16 * unat (buf ! 0x3E)"
    using lt [of "0x3C"] lt [of "0x3D"] by - (rule or_byte, assumption, simp_all)
  then have "unat (e_lfanew buf) =
      unat (buf ! 0x3C) + 2 ^ 8 * unat (buf ! 0x3D) + 2 ^ 16 * unat (buf ! 0x3E) + 2 ^ 24 * unat (buf ! 0x3F)"
    unfolding e_lfanew_def using lt [of "0x3C"] lt [of "0x3D"] lt [of "0x3E"] by - (rule or_byte, assumption, simp_all)
  then show ?thesis by (simp add: lfanew_nat_def)
qed

lemma uint_bound: "uint (w :: u32) < 2 ^ 31 \<longleftrightarrow> unat w < 2 ^ 31"
  by (simp only: unat_eq_nat_uint nat_less_iff [OF unsigned_greater_eq]) simp

lemma sint_small: "unat (w :: u32) < 2 ^ 31 \<Longrightarrow> sint w = int (unat w)"
proof -
  assume "unat w < 2 ^ 31"
  then have "uint w < 2 ^ 31" by (simp only: uint_bound)
  then have "signed_take_bit 31 (uint w) = uint w"
    by (intro signed_take_bit_int_eq_self order_trans [OF _ unsigned_greater_eq]) simp_all
  then show ?thesis using sint_uint [of w] by simp
qed

lemma sint_big: "2 ^ 31 \<le> unat (w :: u32) \<Longrightarrow> sint w < 0"
proof (rule ccontr)
  assume big: "2 ^ 31 \<le> unat w" and "\<not> sint w < 0"
  moreover have small: "sint w < 2 ^ 31" using sint_less [of w] by simp
  ultimately have "take_bit LENGTH(32) (sint w) = sint w" by (intro take_bit_int_eq_self) auto
  then have "uint w = sint w" by (simp only: uint_sint [of w])
  then have "unat w < 2 ^ 31" using small by (simp only: flip: uint_bound)
  then show False using big by linarith
qed

lemma sint_plus: "unat (w :: u32) + k < 2 ^ 31 \<Longrightarrow> sint (w + of_nat k) = int (unat w + k)"
  by (subst sint_small) (simp_all add: unat_word_ariths unsigned_of_nat take_bit_nat_eq_self)

lemma byte_at_nat: "byte_at buf (int k) = (if k < length buf then Some (buf ! k) else None)"
  by (simp add: byte_at_def)

lemma take_drop_2: "take 2 (drop k xs) = [a, b] \<longleftrightarrow> k + 2 \<le> length xs \<and> xs ! k = a \<and> xs ! (k + 1) = b"
proof (cases "k + 2 \<le> length xs")
  case True
  then have "drop k xs = xs ! k # xs ! (k + 1) # drop (k + 2) xs" by (simp add: Cons_nth_drop_Suc)
  then show ?thesis using True by (simp add: numeral_2_eq_2)
next
  case False
  have "take 2 (drop k xs) \<noteq> [a, b]"
  proof
    assume "take 2 (drop k xs) = [a, b]"
    from arg_cong [OF this, of length] show "False" using False by auto
  qed
  then show ?thesis using False by simp
qed

lemma take_drop_4: "take 4 (drop k xs) = [a, b, c, d] \<longleftrightarrow>
    k + 4 \<le> length xs \<and> xs ! k = a \<and> xs ! (k + 1) = b \<and> xs ! (k + 2) = c \<and> xs ! (k + 3) = d"
proof (cases "k + 4 \<le> length xs")
  case True
  then have "drop k xs = xs ! k # xs ! (k + 1) # xs ! (k + 2) # xs ! (k + 3) # drop (k + 4) xs"
    by (simp add: Cons_nth_drop_Suc eval_nat_numeral)
  then show ?thesis using True by (simp add: eval_nat_numeral)
next
  case False
  have "take 4 (drop k xs) \<noteq> [a, b, c, d]"
  proof
    assume "take 4 (drop k xs) = [a, b, c, d]"
    from arg_cong [OF this, of length] show "False" using False by auto
  qed
  then show ?thesis using False by simp
qed

text \<open>Where the field does not wrap, the check is that of the reference.\<close>

lemma magic_in_range:
  assumes "unat lfanew = e" "e + 4 < 2 ^ 31" "e + 2 \<le> length buf"
  shows "extended_magic buf lfanew =
    Some (if take 4 (drop e buf) = [0x50, 0x45, 0, 0] then BIN_PE32
          else if take 2 (drop e buf) = [0x4E, 0x45] then BIN_NE16 else BIN_MZ)"
proof -
  have s: "sint (lfanew + of_nat k) = int (e + k)" if "k \<le> 4" for k
    using sint_plus [of lfanew k] assms(1,2) that by simp
  have at: "sint lfanew = int e" "sint (lfanew + 1) = int (e + 1)" "sint (lfanew + 2) = int (e + 2)"
    "sint (lfanew + 3) = int (e + 3)" "sint (lfanew + 4) = int (e + 4)"
    using s [of 0] s [of 1] s [of 2] s [of 3] s [of 4] by simp_all
  show ?thesis
    unfolding extended_magic_def at byte_at_nat take_drop_4 take_drop_2 using assms(3) by auto
qed

text \<open>
  C31: the classification is that of the header as it is documented, for every file, but
  for one case: an \<^verbatim>\<open>e_lfanew\<close> of 0x7FFFFFFE or 0x7FFFFFFF passes the check of
  its range, since the sum wraps, and the magic is read far outside the buffer.
\<close>

theorem classify_bytes_exact:
  "classify_bytes (take BINFMT_READ_BYTES file) =
     (if take 2 file = [0x4D, 0x5A] \<and> 0x40 \<le> length file \<and> lfanew_nat file \<in> {0x7FFFFFFE, 0x7FFFFFFF} then None
      else Some (ref_class (take BINFMT_READ_BYTES file)))"
proof -
  let ?buf = "take BINFMT_READ_BYTES file" and ?e = "lfanew_nat file"
  have len: "length ?buf = min (length file) 512" by (simp add: BINFMT_READ_BYTES_def)
  have field: "0x40 \<le> length file \<Longrightarrow> lfanew_nat ?buf = ?e"
    by (simp add: lfanew_nat_def BINFMT_READ_BYTES_def)
  have mz: "take 2 ?buf = take 2 file" by (simp add: BINFMT_READ_BYTES_def)
  have start: "int (length ?buf) < 2 \<or> ?buf ! 0 \<noteq> 0x4D \<or> ?buf ! 1 \<noteq> 0x5A \<longleftrightarrow> take 2 ?buf \<noteq> [0x4D, 0x5A]"
    using take_drop_2 [of 0 ?buf] by auto
  show ?thesis
  proof (cases "take 2 file = [0x4D, 0x5A] \<and> 0x40 \<le> length file")
    case True
    let ?l = "e_lfanew ?buf"
    have l: "unat ?l = ?e" using True field by (simp add: unat_lfanew)
    have c: "classify_bytes ?buf =
        (if sint ?l < 0x40 \<or> sint (?l + 2) > int (length ?buf) then Some BIN_MZ else extended_magic ?buf ?l)"
      using True start len unfolding classify_bytes_def Let_def mz by (auto simp: min_def)
    have r: "ref_class ?buf = (if 0x40 \<le> ?e \<and> ?e + 2 \<le> length ?buf then
        (if take 4 (drop ?e ?buf) = [0x50, 0x45, 0, 0] then BIN_PE32
         else if take 2 (drop ?e ?buf) = [0x4E, 0x45] then BIN_NE16 else BIN_MZ) else BIN_MZ)"
      using True len mz field by (simp add: ref_class_def Let_def)
    consider (low) "?e < 0x40" | (mid) "0x40 \<le> ?e" "?e < 0x7FFFFFFE" | (wrap) "?e \<in> {0x7FFFFFFE, 0x7FFFFFFF}" | (high) "2 ^ 31 \<le> ?e"
      by fastforce
    then show ?thesis
    proof cases
      case low
      then have "sint ?l < 0x40" using sint_small [of ?l] l by simp
      then show ?thesis using c r low by simp
    next
      case mid
      have s: "sint ?l = int ?e" "sint (?l + 2) = int (?e + 2)"
        using sint_small [of ?l] sint_plus [of ?l 2] l mid by simp_all
      show ?thesis
      proof (cases "?e + 2 \<le> length ?buf")
        case fits: True
        then show ?thesis using c r mid s magic_in_range [OF l _ fits] len by auto
      next
        case False
        then show ?thesis using c r mid s by auto
      qed
    next
      case wrap
      have "sint ?l = int ?e" using sint_small [of ?l] l wrap by auto
      moreover have "sint (?l + 2) < 0" using sint_big [of "?l + 2"] l wrap by (auto simp: unat_word_ariths)
      ultimately show ?thesis using c wrap True len by (auto simp: extended_magic_def byte_at_def)
    next
      case high
      then have "sint ?l < 0" using sint_big [of ?l] l by simp
      then show ?thesis using c r high len by auto
    qed
  next
    case False
    then show ?thesis using start mz len by (auto simp: classify_bytes_def ref_class_def Let_def)
  qed
qed

end
