(* ===== verification/ExecOps.thy ===== *)
theory ExecOps
  imports Feat Utf8 BinFmt
begin

text \<open>
  Running a child of \<^verbatim>\<open>src/src/exec_ops.c\<close>: pipes, spawn, job, capture by polling or by
  reader threads, timeout and the result.  The services of Windows are an argument over a
  world of any type.  The state keeps, beside the world, what the code does with
  handles and children, which no operation reads: how often each handle is open and
  the calls that matter in their order.
\<close>

section \<open>Services and state\<close>

definition STILL_ACTIVE :: u32 where "STILL_ACTIVE = 259"
definition EXEC_MAX_CMDLINE :: nat where "EXEC_MAX_CMDLINE = 32766"
definition EXEC_READ_CHUNK :: nat where "EXEC_READ_CHUNK = 4096"
definition JOB_QUOTA_EXIT :: u32 where "JOB_QUOTA_EXIT = 1816"

datatype KilledBy =
    EXEC_KILLED_NONE | EXEC_KILLED_TIMEOUT | EXEC_KILLED_CTRL_BREAK | EXEC_KILLED_MEMORY_CAP | EXEC_KILLED_CPU_CAP

text \<open>A command line as it is spawned, wide or in bytes, with its directory.\<close>

datatype SpawnCmd = WideCmd "u16 list" "u16 list option" | ByteCmd string "string option"

record Startup =
  su_in :: u32
  su_out :: u32
  su_err :: u32
  su_hidden :: bool
  su_group :: bool
  su_suspended :: bool

record ProcInfo =
  pi_process :: u32
  pi_thread :: u32
  pi_id :: u32

record JobLimits =
  jl_memory :: "int option"
  jl_time :: "int option"

text \<open>
  The answers follow the documentation: \<^const>\<open>None\<close> and \<^const>\<open>False\<close> are failures, a
  read of no bytes is the end of the pipe, \<open>XWait\<close> answers whether the object
  was signalled within the time, \<^const>\<open>None\<close> being no limit.
\<close>

record 'w ExecOs =
  XCreatePipe :: "'w \<Rightarrow> (u32 \<times> u32) option \<times> 'w"
  XSetHandleInformation :: "u32 \<Rightarrow> 'w \<Rightarrow> bool \<times> 'w"
  XDuplicateHandle :: "u32 \<Rightarrow> 'w \<Rightarrow> u32 option \<times> 'w"
  XCloseHandle :: "u32 \<Rightarrow> 'w \<Rightarrow> 'w"
  XPeekNamedPipe :: "u32 \<Rightarrow> 'w \<Rightarrow> u32 option \<times> 'w"
  XReadFile :: "u32 \<Rightarrow> nat \<Rightarrow> 'w \<Rightarrow> u8 list option \<times> 'w"
  XWriteFile :: "u32 \<Rightarrow> u8 list \<Rightarrow> 'w \<Rightarrow> 'w"
  XSetErrorMode :: "u32 \<Rightarrow> 'w \<Rightarrow> u32 \<times> 'w"
  XCreateProcess :: "SpawnCmd \<Rightarrow> Startup \<Rightarrow> 'w \<Rightarrow> ProcInfo option \<times> 'w"
  XGetLastError :: "'w \<Rightarrow> u32"
  XGetTickCount :: "'w \<Rightarrow> u32 \<times> 'w"
  XGetExitCodeProcess :: "u32 \<Rightarrow> 'w \<Rightarrow> u32 option \<times> 'w"
  XSleep :: "nat \<Rightarrow> 'w \<Rightarrow> 'w"
  XWait :: "u32 \<Rightarrow> u32 option \<Rightarrow> 'w \<Rightarrow> bool \<times> 'w"
  XTerminateProcess :: "u32 \<Rightarrow> 'w \<Rightarrow> 'w"
  XCtrlBreak :: "u32 \<Rightarrow> 'w \<Rightarrow> bool \<times> 'w"
  XCreateThread :: "'w \<Rightarrow> u32 option \<times> 'w"
  XCreateJobObject :: "'w \<Rightarrow> u32 option \<times> 'w"
  XSetInformationJob :: "u32 \<Rightarrow> JobLimits \<Rightarrow> 'w \<Rightarrow> bool \<times> 'w"
  XAssignProcess :: "u32 \<Rightarrow> u32 \<Rightarrow> 'w \<Rightarrow> bool \<times> 'w"
  XResumeThread :: "u32 \<Rightarrow> 'w \<Rightarrow> 'w"

text \<open>
  The calls: a pipe by its two ends, an end that is not inherited any more and the handle it
  has from then on, the close of an end that was replaced, a spawn and its answer, and what is
  done to a child.
\<close>

datatype ExecCall =
    DidPipe u32 u32
  | DidIsolate u32 u32
  | DidClose u32
  | DidSpawn SpawnCmd Startup "ProcInfo option"
  | DidAssign u32 u32
  | DidResume u32
  | DidBreak u32
  | DidTerminate u32

record 'w ExecState =
  xw :: 'w
  opens :: "u32 \<Rightarrow> int"
  did :: "ExecCall list"

definition note_did :: "ExecCall \<Rightarrow> 'w ExecState \<Rightarrow> 'w ExecState" where
  "note_did c st = st\<lparr>did := did st @ [c]\<rparr>"

definition x_opened :: "u32 \<Rightarrow> 'w ExecState \<Rightarrow> 'w ExecState" where
  "x_opened h st = st\<lparr>opens := (opens st)(h := opens st h + 1)\<rparr>"

definition x_close :: "'w ExecOs \<Rightarrow> u32 \<Rightarrow> 'w ExecState \<Rightarrow> 'w ExecState" where
  "x_close os h st = st\<lparr>xw := XCloseHandle os h (xw st), opens := (opens st)(h := opens st h - 1)\<rparr>"

definition x_close_opt :: "'w ExecOs \<Rightarrow> u32 option \<Rightarrow> 'w ExecState \<Rightarrow> 'w ExecState" where
  "x_close_opt os h st = (case h of None \<Rightarrow> st | Some h \<Rightarrow> x_close os h st)"

section \<open>Pipes\<close>

record Pipes =
  inRd :: "u32 option"
  inWr :: "u32 option"
  outRd :: "u32 option"
  outWr :: "u32 option"
  errRd :: "u32 option"
  errWr :: "u32 option"

definition no_pipes :: Pipes where
  "no_pipes = \<lparr>inRd = None, inWr = None, outRd = None, outWr = None, errRd = None, errWr = None\<rparr>"

definition new_pipe :: "'w ExecOs \<Rightarrow> 'w ExecState \<Rightarrow> (u32 \<times> u32) option \<times> 'w ExecState" where
  "new_pipe os st =
     (case XCreatePipe os (xw st) of
        (None, w) \<Rightarrow> (None, st\<lparr>xw := w\<rparr>)
      | (Some (r, wr), w) \<Rightarrow> (Some (r, wr), note_did (DidPipe r wr) (x_opened wr (x_opened r (st\<lparr>xw := w\<rparr>)))))"

text \<open>The three pipes in their order; a failure leaves those made before it.\<close>

definition create_pipes :: "'w ExecOs \<Rightarrow> 'w ExecState \<Rightarrow> (bool \<times> Pipes) \<times> 'w ExecState" where
  "create_pipes os st =
     (case new_pipe os st of
        (None, st1) \<Rightarrow> ((False, no_pipes), st1)
      | (Some (r, wr), st1) \<Rightarrow>
          (let p1 = no_pipes\<lparr>inRd := Some r, inWr := Some wr\<rparr> in
           case new_pipe os st1 of
             (None, st2) \<Rightarrow> ((False, p1), st2)
           | (Some (r, wr), st2) \<Rightarrow>
               (let p2 = p1\<lparr>outRd := Some r, outWr := Some wr\<rparr> in
                case new_pipe os st2 of
                  (None, st3) \<Rightarrow> ((False, p2), st3)
                | (Some (r, wr), st3) \<Rightarrow> ((True, p2\<lparr>errRd := Some r, errWr := Some wr\<rparr>), st3))))"

definition close_pipes :: "'w ExecOs \<Rightarrow> Pipes \<Rightarrow> 'w ExecState \<Rightarrow> 'w ExecState" where
  "close_pipes os p st =
     fold (x_close_opt os) [inRd p, inWr p, outRd p, outWr p, errRd p, errWr p] st"

text \<open>The handle that is not inherited any more, or the failure.\<close>

definition ClearHandleInherit ::
    "Features \<Rightarrow> 'w ExecOs \<Rightarrow> u32 option \<Rightarrow> 'w ExecState \<Rightarrow> (bool \<times> u32 option) \<times> 'w ExecState" where
  "ClearHandleInherit f os ph st =
     (case ph of
        None \<Rightarrow> ((True, ph), st)
      | Some h \<Rightarrow>
          if h = 0xFFFFFFFF then ((True, ph), st)
          else if ''SetHandleInformation'' \<in> procs f then
            (case XSetHandleInformation os h (xw st) of
               (ok, w) \<Rightarrow> ((ok, ph), (if ok then note_did (DidIsolate h h) else id) (st\<lparr>xw := w\<rparr>)))
          else (case XDuplicateHandle os h (xw st) of
               (None, w) \<Rightarrow> ((False, ph), st\<lparr>xw := w\<rparr>)
             | (Some d, w) \<Rightarrow> ((True, Some d), x_close os h (note_did (DidClose h) (note_did (DidIsolate h d) (x_opened d (st\<lparr>xw := w\<rparr>)))))))"

definition isolate_pipes :: "Features \<Rightarrow> 'w ExecOs \<Rightarrow> Pipes \<Rightarrow> 'w ExecState \<Rightarrow> (bool \<times> Pipes) \<times> 'w ExecState" where
  "isolate_pipes f os p st =
     (case ClearHandleInherit f os (inWr p) st of
        ((ok1, h1), st1) \<Rightarrow>
          (let p1 = p\<lparr>inWr := h1\<rparr> in
           if \<not> ok1 then ((False, p1), st1)
           else case ClearHandleInherit f os (outRd p1) st1 of
             ((ok2, h2), st2) \<Rightarrow>
               (let p2 = p1\<lparr>outRd := h2\<rparr> in
                if \<not> ok2 then ((False, p2), st2)
                else case ClearHandleInherit f os (errRd p2) st2 of
                  ((ok3, h3), st3) \<Rightarrow> ((ok3, p2\<lparr>errRd := h3\<rparr>), st3))))"

section \<open>Capturing by polling\<close>

text \<open>What was captured of a stream and whether something was lost.\<close>

type_synonym Capture = "u8 list \<times> bool"

function PumpPipe :: "'w ExecOs \<Rightarrow> u32 \<Rightarrow> int \<Rightarrow> Capture \<Rightarrow> 'w \<Rightarrow> Capture \<times> 'w" where
  "PumpPipe os pipe bufSize cap w =
     (case cap of (buf, lost) \<Rightarrow>
      case XPeekNamedPipe os pipe w of
        (None, w1) \<Rightarrow> ((buf, lost), w1)
      | (Some avail, w1) \<Rightarrow>
          if avail = 0 then ((buf, lost), w1)
          else if bufSize - int (length buf) \<le> 0 then ((buf, True), w1)
          else case XReadFile os pipe
              (min (min (unat avail) (nat (bufSize - int (length buf)))) EXEC_READ_CHUNK) w1 of
            (None, w2) \<Rightarrow> ((buf, lost), w2)
          | (Some got, w2) \<Rightarrow>
              if got = [] then ((buf, lost), w2)
              else PumpPipe os pipe bufSize
                (buf @ got, lost \<or> unat avail > length got \<and> int (length (buf @ got)) \<ge> bufSize) w2)"
  by pat_completeness auto
termination
  by (relation "measure (\<lambda>(os, pipe, bufSize, cap, w). nat (bufSize - int (length (fst cap))))")
    (auto simp: neq_Nil_conv)

declare PumpPipe.simps [simp del]

text \<open>
  A child past its time: the answer is whether it was left running, which is the case of
  the 16-bit children alone, and how it was killed.
\<close>

definition sixteen_bit :: "BinaryType \<Rightarrow> bool" where
  "sixteen_bit b \<longleftrightarrow> b = BIN_NE16 \<or> b = BIN_MZ"

definition terminate_process :: "'w ExecOs \<Rightarrow> u32 \<Rightarrow> 'w ExecState \<Rightarrow> 'w ExecState" where
  "terminate_process os h st = note_did (DidTerminate h) (st\<lparr>xw := XTerminateProcess os h (xw st)\<rparr>)"

definition TimeoutTerminate ::
    "Features \<Rightarrow> 'w ExecOs \<Rightarrow> ProcInfo \<Rightarrow> BinaryType \<Rightarrow> 'w ExecState \<Rightarrow> (bool \<times> KilledBy) \<times> 'w ExecState" where
  "TimeoutTerminate f os p binType st =
     (if sixteen_bit binType then ((True, EXEC_KILLED_NONE), st)
      else
        (case (if has_generate_ctrl_event f \<and> ''GenerateConsoleCtrlEvent'' \<in> procs f then
             (case XCtrlBreak os (pi_id p) (xw st) of
                (False, w) \<Rightarrow> (False, note_did (DidBreak (pi_id p)) (st\<lparr>xw := w\<rparr>))
              | (True, w) \<Rightarrow>
                  (case XWait os (pi_process p) (Some 1000) w of
                     (gone, w1) \<Rightarrow> (gone, note_did (DidBreak (pi_id p)) (st\<lparr>xw := w1\<rparr>))))
           else (False, st)) of
         (True, st1) \<Rightarrow> ((False, EXEC_KILLED_CTRL_BREAK), st1)
       | (False, st1) \<Rightarrow> ((False, EXEC_KILLED_TIMEOUT), terminate_process os (pi_process p) st1)))"

record ExecJob =
  job_out :: u32
  job_err :: u32
  job_cap :: int
  job_timeout :: int
  job_bin :: BinaryType
  job_start :: u32
  job_proc :: ProcInfo

record Outcome =
  oc_orphan :: bool
  oc_killed :: KilledBy
  oc_out :: Capture
  oc_err :: Capture

definition pump_both :: "'w ExecOs \<Rightarrow> ExecJob \<Rightarrow> Capture \<times> Capture \<Rightarrow> 'w \<Rightarrow> (Capture \<times> Capture) \<times> 'w" where
  "pump_both os j caps w =
     (case PumpPipe os (job_out j) (job_cap j) (fst caps) w of
        (c1, w1) \<Rightarrow> (case PumpPipe os (job_err j) (job_cap j) (snd caps) w1 of (c2, w2) \<Rightarrow> ((c1, c2), w2)))"

text \<open>One round of the loop: it ends with the answer for the child, or goes on.\<close>

definition poll_round ::
    "Features \<Rightarrow> 'w ExecOs \<Rightarrow> ExecJob \<Rightarrow> Capture \<times> Capture \<Rightarrow> 'w ExecState \<Rightarrow>
     ((bool \<times> KilledBy) option \<times> (Capture \<times> Capture)) \<times> 'w ExecState" where
  "poll_round f os j caps st =
     (case pump_both os j caps (xw st) of (caps1, w1) \<Rightarrow>
      case XGetExitCodeProcess os (pi_process (job_proc j)) w1 of (code, w2) \<Rightarrow>
        if (case code of None \<Rightarrow> STILL_ACTIVE | Some c \<Rightarrow> c) \<noteq> STILL_ACTIVE
        then ((Some (False, EXEC_KILLED_NONE), caps1), st\<lparr>xw := w2\<rparr>)
        else case XGetTickCount os w2 of (tick, w3) \<Rightarrow>
          if (0 :: u32) < word_of_int (job_timeout j) \<and> tick - job_start j \<ge> word_of_int (job_timeout j) then
            (case TimeoutTerminate f os (job_proc j) (job_bin j) (st\<lparr>xw := w3\<rparr>) of
               (answer, st1) \<Rightarrow> ((Some answer, caps1), st1))
          else ((None, caps1), st\<lparr>xw := XSleep os 10 w3\<rparr>))"

partial_function (option) poll_loop ::
    "Features \<Rightarrow> 'w ExecOs \<Rightarrow> ExecJob \<Rightarrow> Capture \<times> Capture \<Rightarrow> 'w ExecState \<Rightarrow>
     (((bool \<times> KilledBy) \<times> (Capture \<times> Capture)) \<times> 'w ExecState) option" where
  "poll_loop f os j caps st =
     (case poll_round f os j caps st of
        ((Some answer, caps1), st1) \<Rightarrow> Some ((answer, caps1), st1)
      | ((None, caps1), st1) \<Rightarrow> poll_loop f os j caps1 st1)"

definition poll_capture ::
    "Features \<Rightarrow> 'w ExecOs \<Rightarrow> ExecJob \<Rightarrow> 'w ExecState \<Rightarrow> (Outcome \<times> 'w ExecState) option" where
  "poll_capture f os j st =
     map_option (\<lambda>(((left, killed), caps), st1).
         (case pump_both os j caps (xw st1) of
            ((c1, c2), w) \<Rightarrow> (\<lparr>oc_orphan = left, oc_killed = killed, oc_out = c1, oc_err = c2\<rparr>, st1\<lparr>xw := w\<rparr>)))
       (poll_loop f os j (([], False), ([], False)) st)"

section \<open>Capturing by threads\<close>

text \<open>
  A reader thread: its pipe and buffer, whether it still runs, and, for the statements
  alone, all it has read.
\<close>

record ReaderCtx =
  rc_pipe :: u32
  rc_size :: int
  rc_cap :: Capture
  rc_runs :: bool
  rc_seen :: "u8 list"

definition new_reader :: "u32 \<Rightarrow> int \<Rightarrow> ReaderCtx" where
  "new_reader pipe size' = \<lparr>rc_pipe = pipe, rc_size = size', rc_cap = ([], False), rc_runs = False, rc_seen = []\<rparr>"

text \<open>One pass of \<^verbatim>\<open>ReaderThread\<close>: a read that returns, and its append under the lock.\<close>

definition reader_step :: "'w ExecOs \<Rightarrow> ReaderCtx \<Rightarrow> 'w \<Rightarrow> ReaderCtx \<times> 'w" where
  "reader_step os c w =
     (case XReadFile os (rc_pipe c) EXEC_READ_CHUNK w of
        (None, w1) \<Rightarrow> (c\<lparr>rc_runs := False\<rparr>, w1)
      | (Some got, w1) \<Rightarrow>
          if got = [] then (c\<lparr>rc_runs := False\<rparr>, w1)
          else (case rc_cap c of (buf, lost) \<Rightarrow>
            let remaining = rc_size c - int (length buf);
                c1 = c\<lparr>rc_seen := rc_seen c @ got\<rparr>
            in if remaining \<le> 0 then (c1\<lparr>rc_cap := (buf, True)\<rparr>, w1)
               else if int (length got) > remaining then (c1\<lparr>rc_cap := (buf @ take (nat remaining) got, True)\<rparr>, w1)
               else (c1\<lparr>rc_cap := (buf @ got, lost)\<rparr>, w1)))"

text \<open>
  Where the main thread stands: it waits for the child, ends it, waits for its end,
  joins the readers.
\<close>

datatype MainAt = AtWait | AtEnd | AtReap | AtJoinOut | AtJoinErr | AtDone

datatype Turn = TurnMain | TurnOut | TurnErr

record 'w Threads =
  th_main :: MainAt
  th_answer :: "bool \<times> KilledBy"
  th_out :: ReaderCtx
  th_err :: ReaderCtx
  th_hOut :: "u32 option"
  th_hErr :: "u32 option"
  th_pipes :: Pipes
  th_st :: "'w ExecState"

definition join_reader :: "'w ExecOs \<Rightarrow> u32 option \<Rightarrow> 'w ExecState \<Rightarrow> 'w ExecState" where
  "join_reader os h st =
     (case h of None \<Rightarrow> st | Some h \<Rightarrow> x_close os h (st\<lparr>xw := snd (XWait os h None (xw st))\<rparr>))"

definition main_step :: "Features \<Rightarrow> 'w ExecOs \<Rightarrow> ExecJob \<Rightarrow> 'w Threads \<Rightarrow> 'w Threads" where
  "main_step f os j t =
     (case th_main t of
        AtWait \<Rightarrow>
          (let limit = (if (0 :: u32) < word_of_int (job_timeout j) then Some (word_of_int (job_timeout j)) else None) in
           case XWait os (pi_process (job_proc j)) limit (xw (th_st t)) of
             (signalled, w) \<Rightarrow>
               t\<lparr>th_st := (th_st t)\<lparr>xw := w\<rparr>, th_main := (if signalled then AtJoinOut else AtEnd)\<rparr>)
      | AtEnd \<Rightarrow>
          (case TimeoutTerminate f os (job_proc j) (job_bin j) (th_st t) of
             (answer, st1) \<Rightarrow>
               if fst answer then
                 t\<lparr>th_answer := answer, th_main := AtJoinOut,
                   th_st := x_close_opt os (errRd (th_pipes t)) (x_close_opt os (outRd (th_pipes t)) st1),
                   th_pipes := (th_pipes t)\<lparr>outRd := None, errRd := None\<rparr>\<rparr>
               else t\<lparr>th_answer := answer, th_main := AtReap, th_st := st1\<rparr>)
      | AtReap \<Rightarrow>
          t\<lparr>th_main := AtJoinOut,
            th_st := (th_st t)\<lparr>xw := snd (XWait os (pi_process (job_proc j)) None (xw (th_st t)))\<rparr>\<rparr>
      | AtJoinOut \<Rightarrow>
          if th_hOut t \<noteq> None \<and> rc_runs (th_out t) then t
          else t\<lparr>th_main := AtJoinErr, th_st := join_reader os (th_hOut t) (th_st t), th_hOut := None\<rparr>
      | AtJoinErr \<Rightarrow>
          if th_hErr t \<noteq> None \<and> rc_runs (th_err t) then t
          else t\<lparr>th_main := AtDone, th_st := join_reader os (th_hErr t) (th_st t), th_hErr := None\<rparr>
      | AtDone \<Rightarrow> t)"

text \<open>A turn of the scheduler; a thread that cannot move leaves the state as it is.\<close>

definition thread_step :: "Features \<Rightarrow> 'w ExecOs \<Rightarrow> ExecJob \<Rightarrow> Turn \<Rightarrow> 'w Threads \<Rightarrow> 'w Threads" where
  "thread_step f os j turn t =
     (case turn of
        TurnMain \<Rightarrow> main_step f os j t
      | TurnOut \<Rightarrow>
          if rc_runs (th_out t) then
            (case reader_step os (th_out t) (xw (th_st t)) of (c, w) \<Rightarrow> t\<lparr>th_out := c, th_st := (th_st t)\<lparr>xw := w\<rparr>\<rparr>)
          else t
      | TurnErr \<Rightarrow>
          if rc_runs (th_err t) then
            (case reader_step os (th_err t) (xw (th_st t)) of (c, w) \<Rightarrow> t\<lparr>th_err := c, th_st := (th_st t)\<lparr>xw := w\<rparr>\<rparr>)
          else t)"

definition start_reader :: "'w ExecOs \<Rightarrow> 'w ExecState \<Rightarrow> u32 option \<times> 'w ExecState" where
  "start_reader os st =
     (case XCreateThread os (xw st) of
        (None, w) \<Rightarrow> (None, st\<lparr>xw := w\<rparr>)
      | (Some h, w) \<Rightarrow> (Some h, x_opened h (st\<lparr>xw := w\<rparr>)))"

definition start_threads :: "'w ExecOs \<Rightarrow> ExecJob \<Rightarrow> Pipes \<Rightarrow> 'w ExecState \<Rightarrow> 'w Threads" where
  "start_threads os j p st =
     (case start_reader os st of (h1, st1) \<Rightarrow>
      case start_reader os st1 of (h2, st2) \<Rightarrow>
        \<lparr>th_main = AtWait, th_answer = (False, EXEC_KILLED_NONE),
         th_out = (new_reader (job_out j) (job_cap j))\<lparr>rc_runs := (h1 \<noteq> None)\<rparr>,
         th_err = (new_reader (job_err j) (job_cap j))\<lparr>rc_runs := (h2 \<noteq> None)\<rparr>,
         th_hOut = h1, th_hErr = h2, th_pipes = p, th_st = st2\<rparr>)"

text \<open>
  The capture under a schedule: \<^const>\<open>None\<close> when the schedule is over before the main
  thread has joined both readers.
\<close>

definition threads_capture ::
    "Features \<Rightarrow> 'w ExecOs \<Rightarrow> Turn list \<Rightarrow> ExecJob \<Rightarrow> Pipes \<Rightarrow> 'w ExecState \<Rightarrow>
     (Outcome \<times> Pipes \<times> 'w ExecState) option" where
  "threads_capture f os sched j p st =
     (let t = fold (thread_step f os j) sched (start_threads os j p st) in
      if th_main t = AtDone then
        Some (\<lparr>oc_orphan = fst (th_answer t), oc_killed = snd (th_answer t), oc_out = rc_cap (th_out t),
               oc_err = rc_cap (th_err t)\<rparr>, th_pipes t, th_st t)
      else None)"

section \<open>Jobs and spawning\<close>

text \<open>The job around a suspended child, who is resumed inside it.\<close>

definition SetUpJob ::
    "'w ExecOs \<Rightarrow> ProcInfo \<Rightarrow> int \<Rightarrow> int \<Rightarrow> 'w ExecState \<Rightarrow> u32 option \<times> 'w ExecState" where
  "SetUpJob os p memCapBytes cpuTimeMs st =
     (case XCreateJobObject os (xw st) of
        (None, w) \<Rightarrow> (None, st\<lparr>xw := w\<rparr>)
      | (Some job, w) \<Rightarrow>
          (let st1 = x_opened job (st\<lparr>xw := w\<rparr>);
               limits = \<lparr>jl_memory = (if memCapBytes > 0 then Some memCapBytes else None),
                         jl_time = (if cpuTimeMs > 0 then Some (cpuTimeMs * 10000) else None)\<rparr>
           in case XSetInformationJob os job limits w of
             (False, w1) \<Rightarrow> (None, x_close os job (st1\<lparr>xw := w1\<rparr>))
           | (True, w1) \<Rightarrow>
               (case XAssignProcess os job (pi_process p) w1 of
                  (False, w2) \<Rightarrow> (None, x_close os job (st1\<lparr>xw := w2\<rparr>))
                | (True, w2) \<Rightarrow>
                    (Some job, note_did (DidResume (pi_thread p)) (note_did (DidAssign job (pi_process p))
                       (st1\<lparr>xw := XResumeThread os (pi_thread p) w2\<rparr>))))))"

definition wide :: "string \<Rightarrow> nat \<Rightarrow> u16 list" where
  "wide s cap = fst (Utf8ToUtf16 (map byte_of s) cap)"

definition spawn_cmd :: "Features \<Rightarrow> string \<Rightarrow> string option \<Rightarrow> SpawnCmd" where
  "spawn_cmd f cmdLine cwd =
     (if has_wide_createprocess f then
        WideCmd (wide cmdLine EXEC_MAX_CMDLINE)
          (case cwd of None \<Rightarrow> None | Some d \<Rightarrow> if d = [] then None else Some (wide d (MAX_PATH - 1)))
      else ByteCmd cmdLine cwd)"

text \<open>Hard error dialogs are off while the child is made.\<close>

definition spawn_child ::
    "Features \<Rightarrow> 'w ExecOs \<Rightarrow> string \<Rightarrow> string option \<Rightarrow> bool \<Rightarrow> Pipes \<Rightarrow> 'w ExecState \<Rightarrow> ProcInfo option \<times> 'w ExecState" where
  "spawn_child f os cmdLine cwd hideWindow p st =
     (let su = \<lparr>su_in = the (inRd p), su_out = the (outWr p), su_err = the (errWr p), su_hidden = hideWindow,
                su_group = has_generate_ctrl_event f, su_suspended = has_create_job_object f\<rparr>;
          cmd = spawn_cmd f cmdLine cwd
      in case XSetErrorMode os 0x8003 (xw st) of (oldErrMode, w1) \<Rightarrow>
         case XCreateProcess os cmd su w1 of (r, w2) \<Rightarrow>
         case XSetErrorMode os oldErrMode w2 of (_, w3) \<Rightarrow>
           let st1 = note_did (DidSpawn cmd su r) (st\<lparr>xw := w3\<rparr>) in
           (r, case r of None \<Rightarrow> st1 | Some pi \<Rightarrow> x_opened (pi_thread pi) (x_opened (pi_process pi) st1)))"

section \<open>Running a child\<close>

record ExecResult =
  exit_code :: int
  duration_ms :: int
  stdout_bytes :: "u8 list"
  stderr_bytes :: "u8 list"
  stdout_truncated :: bool
  stderr_truncated :: bool
  timed_out :: bool
  killed_by :: KilledBy
  still_active :: bool
  orphan_handle :: u32
  orphan_start_tick :: u32

definition job_kill :: "KilledBy \<Rightarrow> u32 option \<Rightarrow> int \<Rightarrow> int \<Rightarrow> u32 \<Rightarrow> KilledBy" where
  "job_kill killed job memCapBytes cpuTimeMs exitCode =
     (if killed = EXEC_KILLED_NONE \<and> job \<noteq> None \<and> (memCapBytes > 0 \<or> cpuTimeMs > 0) \<and> exitCode \<noteq> 0 then
        (if cpuTimeMs > 0 \<and> exitCode = JOB_QUOTA_EXIT then EXEC_KILLED_CPU_CAP
         else if cpuTimeMs > 0 \<and> memCapBytes = 0 then EXEC_KILLED_CPU_CAP
         else if memCapBytes > 0 \<and> exitCode = JOB_QUOTA_EXIT then EXEC_KILLED_MEMORY_CAP
         else killed)
      else killed)"

text \<open>The end of a run: a child left running keeps its handle open for the caller.\<close>

definition exec_finish ::
    "'w ExecOs \<Rightarrow> ProcInfo \<Rightarrow> u32 option \<Rightarrow> int \<Rightarrow> int \<Rightarrow> u32 \<Rightarrow> Outcome \<Rightarrow> Pipes \<Rightarrow> 'w ExecState \<Rightarrow>
     ExecResult \<times> 'w ExecState" where
  "exec_finish os p job memCapBytes cpuTimeMs startTick oc pipes st =
     (case XGetTickCount os (xw st) of (tick, w) \<Rightarrow>
      let elapsed = tick - startTick in
      if oc_orphan oc then
        (\<lparr>exit_code = sint STILL_ACTIVE, duration_ms = sint elapsed, stdout_bytes = fst (oc_out oc),
          stderr_bytes = fst (oc_err oc), stdout_truncated = snd (oc_out oc), stderr_truncated = snd (oc_err oc),
          timed_out = False, killed_by = EXEC_KILLED_NONE, still_active = True, orphan_handle = pi_process p,
          orphan_start_tick = startTick\<rparr>,
         x_close_opt os (errRd pipes) (x_close_opt os (outRd pipes) (x_close os (pi_thread p) (st\<lparr>xw := w\<rparr>))))
      else case XGetExitCodeProcess os (pi_process p) w of (code, w1) \<Rightarrow>
        let exitCode = (case code of None \<Rightarrow> 0 | Some c \<Rightarrow> c);
            killed = job_kill (oc_killed oc) job memCapBytes cpuTimeMs exitCode
        in (\<lparr>exit_code = sint exitCode, duration_ms = sint elapsed, stdout_bytes = fst (oc_out oc),
             stderr_bytes = fst (oc_err oc), stdout_truncated = snd (oc_out oc), stderr_truncated = snd (oc_err oc),
             timed_out = (killed = EXEC_KILLED_TIMEOUT \<or> killed = EXEC_KILLED_CTRL_BREAK), killed_by = killed,
             still_active = False, orphan_handle = 0, orphan_start_tick = 0\<rparr>,
            x_close_opt os (errRd pipes) (x_close_opt os (outRd pipes) (x_close_opt os job
              (x_close os (pi_process p) (x_close os (pi_thread p) (st\<lparr>xw := w1\<rparr>)))))))"

text \<open>The child's ends go, its input is written whole and closed.\<close>

definition feed_child :: "'w ExecOs \<Rightarrow> u8 list \<Rightarrow> Pipes \<Rightarrow> 'w ExecState \<Rightarrow> Pipes \<times> 'w ExecState" where
  "feed_child os stdin p st =
     (let st1 = x_close_opt os (errWr p) (x_close_opt os (outWr p) (x_close_opt os (inRd p) st));
          st2 = (if stdin \<noteq> [] then st1\<lparr>xw := XWriteFile os (the (inWr p)) stdin (xw st1)\<rparr> else st1)
      in (p\<lparr>inRd := None, outWr := None, errWr := None, inWr := None\<rparr>, x_close_opt os (inWr p) st2))"

definition capture ::
    "Features \<Rightarrow> 'w ExecOs \<Rightarrow> Turn list \<Rightarrow> ExecJob \<Rightarrow> Pipes \<Rightarrow> 'w ExecState \<Rightarrow> (Outcome \<times> Pipes \<times> 'w ExecState) option" where
  "capture f os sched j p st =
     (if has_threads f \<and> \<not> sixteen_bit (job_bin j) then threads_capture f os sched j p st
      else map_option (\<lambda>(oc, st1). (oc, p, st1)) (poll_capture f os j st))"

record ExecRequest =
  rq_cmdLine :: string
  rq_cwd :: "string option"
  rq_timeout :: int
  rq_stdin :: "u8 list"
  rq_cap :: int
  rq_mem :: int
  rq_cpu :: int
  rq_bin :: BinaryType

text \<open>The containment: the job, and whether the run may go on.\<close>

definition contain_child ::
    "Features \<Rightarrow> 'w ExecOs \<Rightarrow> ExecRequest \<Rightarrow> ProcInfo \<Rightarrow> 'w ExecState \<Rightarrow> (u32 option \<times> bool) \<times> 'w ExecState" where
  "contain_child f os rq pi st =
     (if has_create_job_object f then
        (case SetUpJob os pi (rq_mem rq) (rq_cpu rq) st of (job, st1) \<Rightarrow> ((job, job \<noteq> None), st1))
      else ((None, True), st))"

definition exec_spawned ::
    "Features \<Rightarrow> 'w ExecOs \<Rightarrow> Turn list \<Rightarrow> ExecRequest \<Rightarrow> Pipes \<Rightarrow> ProcInfo \<Rightarrow> 'w ExecState \<Rightarrow>
     ((string + ExecResult) \<times> 'w ExecState) option" where
  "exec_spawned f os sched rq p pi st =
     (case XGetTickCount os (xw st) of (startTick, w) \<Rightarrow>
      case contain_child f os rq pi (st\<lparr>xw := w\<rparr>) of
        ((job, False), st1) \<Rightarrow>
          Some (Inl ''job object setup failed'',
            close_pipes os p (x_close os (pi_process pi) (x_close os (pi_thread pi)
              (terminate_process os (pi_process pi) st1))))
      | ((job, True), st1) \<Rightarrow>
          (case feed_child os (rq_stdin rq) p st1 of (p2, st2) \<Rightarrow>
             let j = \<lparr>job_out = the (outRd p2), job_err = the (errRd p2), job_cap = rq_cap rq,
                      job_timeout = rq_timeout rq, job_bin = rq_bin rq, job_start = startTick, job_proc = pi\<rparr>
             in map_option (\<lambda>(oc, p3, st3).
                  (case exec_finish os pi job (rq_mem rq) (rq_cpu rq) startTick oc p3 st3 of
                     (r, st4) \<Rightarrow> (Inr r, st4)))
                  (capture f os sched j p2 st2)))"

text \<open>
  \<^const>\<open>None\<close> is a run that has not returned: the polling of a child that never ends, or
  a schedule that is too short.
\<close>

definition ExecOpRun ::
    "Features \<Rightarrow> 'w ExecOs \<Rightarrow> Turn list \<Rightarrow> ExecRequest \<Rightarrow> bool \<Rightarrow> 'w ExecState \<Rightarrow>
     ((string + ExecResult) \<times> 'w ExecState) option" where
  "ExecOpRun f os sched rq hideWindow st =
     (if rq_cmdLine rq = [] then Some (Inl ''spawn failed: empty command line'', st)
      else if length (rq_cmdLine rq) > EXEC_MAX_CMDLINE then Some (Inl ''command line too long'', st)
      else case create_pipes os st of
        ((False, p), st1) \<Rightarrow> Some (Inl ''pipe creation failed'', close_pipes os p st1)
      | ((True, p), st1) \<Rightarrow>
          (case isolate_pipes f os p st1 of
             ((False, p1), st2) \<Rightarrow>
               Some (Inl ''spawn failed: could not isolate parent pipe handles'', close_pipes os p1 st2)
           | ((True, p1), st2) \<Rightarrow>
               (case spawn_child f os (rq_cmdLine rq) (rq_cwd rq) hideWindow p1 st2 of
                  (None, st3) \<Rightarrow>
                    Some (Inl (''spawn failed: '' @ dec (unat (XGetLastError os (xw st3)))), close_pipes os p1 st3)
                | (Some pi, st3) \<Rightarrow> exec_spawned f os sched rq p1 pi st3)))"

end
