(* ===== verification/ExecHandles.thy ===== *)
theory ExecHandles
  imports ExecOps
begin

text \<open>
  The handles and the children of a run of \<^verbatim>\<open>ExecOpRun\<close>: every handle that is opened is
  closed again on every path, and what is done to the child is in order.
\<close>

named_theorems balance \<open>how often a handle is open after an operation\<close>

definition cnt :: "u32 option \<Rightarrow> u32 \<Rightarrow> int" where
  "cnt h x = (case h of None \<Rightarrow> 0 | Some y \<Rightarrow> of_bool (x = y))"

definition pipes_cnt :: "Pipes \<Rightarrow> u32 \<Rightarrow> int" where
  "pipes_cnt p x = cnt (inRd p) x + cnt (inWr p) x + cnt (outRd p) x + cnt (outWr p) x + cnt (errRd p) x + cnt (errWr p) x"

lemma cnt_simps [simp]: "cnt None x = 0" "cnt (Some y) x = of_bool (x = y)"
  by (simp_all add: cnt_def)

lemma opens_basic [balance]:
  "opens (x_opened h st) x = opens st x + cnt (Some h) x"
  "opens (x_close os h st) x = opens st x - cnt (Some h) x"
  "opens (note_did c st) x = opens st x"
  "opens (st\<lparr>xw := w\<rparr>) x = opens st x"
  "opens (terminate_process os h st) x = opens st x"
  by (auto simp: x_opened_def x_close_def note_did_def terminate_process_def)

lemma opens_close_opt [balance]: "opens (x_close_opt os h st) x = opens st x - cnt h x"
  by (cases h) (simp_all add: x_close_opt_def balance)

lemma opens_close_pipes [balance]: "opens (close_pipes os p st) x = opens st x - pipes_cnt p x"
  by (simp add: close_pipes_def pipes_cnt_def balance)

lemma create_pipes_balance:
  "create_pipes os st = ((ok, p), st') \<Longrightarrow>
     opens st' x = opens st x + pipes_cnt p x \<and>
     (ok \<longrightarrow> inRd p \<noteq> None \<and> inWr p \<noteq> None \<and> outRd p \<noteq> None \<and> outWr p \<noteq> None \<and> errRd p \<noteq> None \<and> errWr p \<noteq> None)"
  by (auto simp: create_pipes_def new_pipe_def no_pipes_def Let_def pipes_cnt_def balance
      split: prod.splits option.splits)

lemma clear_inherit_balance:
  "ClearHandleInherit f os h st = ((ok, h'), st') \<Longrightarrow>
     opens st' x - cnt h' x = opens st x - cnt h x \<and> (h \<noteq> None \<longrightarrow> h' \<noteq> None)"
  by (auto simp: ClearHandleInherit_def balance split: option.splits prod.splits if_splits)

lemma isolate_balance:
  "isolate_pipes f os p st = ((ok, p'), st') \<Longrightarrow>
     opens st' x - pipes_cnt p' x = opens st x - pipes_cnt p x \<and>
     inRd p' = inRd p \<and> outWr p' = outWr p \<and> errWr p' = errWr p \<and> (inWr p \<noteq> None \<longrightarrow> inWr p' \<noteq> None) \<and>
     (outRd p \<noteq> None \<longrightarrow> outRd p' \<noteq> None) \<and> (errRd p \<noteq> None \<longrightarrow> errRd p' \<noteq> None)"
proof -
  assume r: "isolate_pipes f os p st = ((ok, p'), st')"
  obtain ok1 h1 st1 where 1: "ClearHandleInherit f os (inWr p) st = ((ok1, h1), st1)" by (metis surj_pair)
  obtain ok2 h2 st2 where 2: "ClearHandleInherit f os (outRd p) st1 = ((ok2, h2), st2)" by (metis surj_pair)
  obtain ok3 h3 st3 where 3: "ClearHandleInherit f os (errRd p) st2 = ((ok3, h3), st3)" by (metis surj_pair)
  show ?thesis
    using r clear_inherit_balance [OF 1, of x] clear_inherit_balance [OF 2, of x] clear_inherit_balance [OF 3, of x]
    by (cases ok1; cases ok2) (auto simp: isolate_pipes_def 1 2 3 Let_def pipes_cnt_def)
qed

lemma spawn_balance:
  "spawn_child f os cmdLine cwd hide p st = (r, st') \<Longrightarrow>
     opens st' x = opens st x + (case r of None \<Rightarrow> 0 | Some pi \<Rightarrow> cnt (Some (pi_process pi)) x + cnt (Some (pi_thread pi)) x)"
  by (auto simp: spawn_child_def Let_def balance split: prod.splits option.splits)

lemma job_balance: "SetUpJob os p m c st = (job, st') \<Longrightarrow> opens st' x = opens st x + cnt job x"
  by (auto simp: SetUpJob_def Let_def balance split: prod.splits option.splits bool.splits)

lemma end_balance: "TimeoutTerminate f os p b st = (r, st') \<Longrightarrow> opens st' x = opens st x"
proof -
  have "opens (snd (TimeoutTerminate f os p b st)) x = opens st x"
    by (auto simp: TimeoutTerminate_def balance split: prod.splits bool.splits)
  then show "TimeoutTerminate f os p b st = (r, st') \<Longrightarrow> ?thesis" by simp
qed

lemma round_balance: "poll_round f os j caps st = (r, st') \<Longrightarrow> opens st' x = opens st x"
  by (auto simp: poll_round_def balance dest!: end_balance [of f os _ _ _ _ _ x] split: prod.splits if_splits)

lemma loop_balance: "poll_loop f os j caps st = Some (r, st') \<Longrightarrow> opens st' x = opens st x"
proof (induction f os j caps st "(r, st')" rule: poll_loop.raw_induct [rotated, consumes 1])
  case (1 loop f os j caps st)
  obtain a caps1 st1 where r: "poll_round f os j caps st = ((a, caps1), st1)" by (metis surj_pair)
  show ?case using 1 r round_balance [OF r] by (cases a) auto
qed

lemma poll_captureE:
  assumes "poll_capture f os j st = Some (oc, st')"
  obtains caps st1 w where "poll_loop f os j (([], False), ([], False)) st = Some (((oc_orphan oc, oc_killed oc), caps), st1)"
    "st' = st1\<lparr>xw := w\<rparr>" "fst (pump_both os j caps (xw st1)) = (oc_out oc, oc_err oc)"
proof -
  obtain l k caps st1 where l: "poll_loop f os j (([], False), ([], False)) st = Some (((l, k), caps), st1)"
    using assms by (auto simp: poll_capture_def)
  moreover obtain c1 c2 w where "pump_both os j caps (xw st1) = ((c1, c2), w)" by (metis surj_pair)
  ultimately show thesis using assms that [of caps st1 w] by (auto simp: poll_capture_def)
qed

lemma feed_balance:
  "feed_child os stdin p st = (p', st') \<Longrightarrow>
     opens st' x - pipes_cnt p' x = opens st x - pipes_cnt p x \<and>
     p' = \<lparr>inRd = None, inWr = None, outRd = outRd p, outWr = None, errRd = errRd p, errWr = None\<rparr>"
  by (auto simp: feed_child_def Let_def pipes_cnt_def balance)

section \<open>The threads\<close>

text \<open>
  What the handles of a threaded capture balance to, in the order of the main thread:
  the two thread handles are gone once their joins are done.
\<close>

definition threads_cnt :: "'w Threads \<Rightarrow> u32 \<Rightarrow> int" where
  "threads_cnt t x = opens (th_st t) x - cnt (th_hOut t) x - cnt (th_hErr t) x - pipes_cnt (th_pipes t) x"

definition joined :: "'w Threads \<Rightarrow> bool" where
  "joined t \<longleftrightarrow> (th_main t \<in> {AtJoinErr, AtDone} \<longrightarrow> th_hOut t = None) \<and> (th_main t = AtDone \<longrightarrow> th_hErr t = None)"

lemma join_balance [balance]: "opens (join_reader os h st) x = opens st x - cnt h x"
  by (cases h) (simp_all add: join_reader_def balance)

lemma th_st_world: "opens (th_st (t\<lparr>th_st := (th_st t)\<lparr>xw := w\<rparr>\<rparr>)) x = opens (th_st t) x"
  by (simp add: balance)

lemma main_step_balance: "joined t \<Longrightarrow> joined (main_step f os j t) \<and> threads_cnt (main_step f os j t) x = threads_cnt t x"
  by (cases "th_main t")
    (auto simp: main_step_def joined_def threads_cnt_def pipes_cnt_def Let_def balance
      dest!: end_balance [of f os _ _ _ _ _ x] split: prod.splits)

lemma thread_step_balance:
  "joined t \<Longrightarrow> joined (thread_step f os j turn t) \<and> threads_cnt (thread_step f os j turn t) x = threads_cnt t x"
proof (cases turn)
  case TurnMain
  assume "joined t"
  then show ?thesis using TurnMain main_step_balance by (simp add: thread_step_def)
qed (auto simp: thread_step_def joined_def threads_cnt_def balance split: prod.splits)

lemma run_balance:
  "joined t \<Longrightarrow> joined (fold (thread_step f os j) sched t) \<and>
     threads_cnt (fold (thread_step f os j) sched t) x = threads_cnt t x"
  by (induction sched arbitrary: t) (simp_all add: thread_step_balance)

lemma main_step_pipes:
  "th_pipes (main_step f os j t) \<in> {th_pipes t, (th_pipes t)\<lparr>outRd := None, errRd := None\<rparr>}"
  by (auto simp: main_step_def Let_def split: MainAt.splits prod.splits if_splits)

definition parent_ends :: "Pipes \<Rightarrow> bool" where
  "parent_ends p \<longleftrightarrow> inRd p = None \<and> inWr p = None \<and> outWr p = None \<and> errWr p = None"

lemma run_pipes: "parent_ends (th_pipes t) \<Longrightarrow> parent_ends (th_pipes (fold (thread_step f os j) sched t))"
proof (induction sched arbitrary: t)
  case (Cons turn sched)
  have "parent_ends (th_pipes (thread_step f os j turn t))"
    using Cons.prems main_step_pipes [of f os j t]
    by (cases turn) (auto simp: thread_step_def parent_ends_def split: prod.splits)
  then show ?case by (simp add: Cons.IH)
qed simp

lemma start_balance:
  "joined (start_threads os j p st) \<and> threads_cnt (start_threads os j p st) x = opens st x - pipes_cnt p x \<and>
     th_pipes (start_threads os j p st) = p"
  by (auto simp: start_threads_def start_reader_def joined_def threads_cnt_def balance split: prod.splits option.splits)

lemma capture_balance:
  assumes "capture f os sched j p st = Some (oc, p', st')" "parent_ends p"
  shows "opens st' x - pipes_cnt p' x = opens st x - pipes_cnt p x" "parent_ends p'"
proof -
  let ?t = "fold (thread_step f os j) sched (start_threads os j p st)"
  have start: "joined (start_threads os j p st)" "th_pipes (start_threads os j p st) = p"
    "threads_cnt (start_threads os j p st) x = opens st x - pipes_cnt p x" using start_balance [of os j p st x] by auto
  have t: "joined ?t" "threads_cnt ?t x = opens st x - pipes_cnt p x" "parent_ends (th_pipes ?t)"
    using run_balance [OF start(1), of f os j sched x] run_pipes [of "start_threads os j p st"] start assms(2) by auto
  show "opens st' x - pipes_cnt p' x = opens st x - pipes_cnt p x"
  proof (cases "has_threads f \<and> \<not> sixteen_bit (job_bin j)")
    case True
    then show ?thesis using assms(1) t
      by (auto simp: capture_def threads_capture_def Let_def joined_def threads_cnt_def split: if_splits)
  next
    case False
    then have "poll_capture f os j st = Some (oc, st')" "p' = p" using assms(1) by (auto simp: capture_def)
    then show ?thesis using loop_balance [of f os j _ st _ _ x] by (auto elim!: poll_captureE simp: balance)
  qed
  show "parent_ends p'" using assms t(3)
    by (auto simp: capture_def threads_capture_def Let_def split: if_splits)
qed

section \<open>A whole run\<close>

lemma finish_balance:
  assumes "exec_finish os p job m c tick oc pipes st = (r, st')" "parent_ends pipes"
  shows "opens st' x - (if still_active r then cnt (Some (orphan_handle r)) x + cnt job x else 0) =
      opens st x - pipes_cnt pipes x - cnt (Some (pi_process p)) x - cnt (Some (pi_thread p)) x - cnt job x"
  using assms by (auto simp: exec_finish_def Let_def pipes_cnt_def parent_ends_def balance split: prod.splits if_splits)

text \<open>
  What a run leaves open: nothing, or with a child left running its process handle and
  the handle of its job.
\<close>

definition leaves :: "Features \<Rightarrow> 'w ExecState \<Rightarrow> (string + ExecResult) \<times> 'w ExecState \<Rightarrow> bool" where
  "leaves f st r =
     (case r of
        (Inl why, st') \<Rightarrow> why \<noteq> [] \<and> opens st' = opens st
      | (Inr res, st') \<Rightarrow>
          (if still_active res then
             (\<exists>job. (job \<noteq> None) = has_create_job_object f \<and>
                opens st' = (\<lambda>x. opens st x + cnt (Some (orphan_handle res)) x + cnt job x))
           else opens st' = opens st))"

text \<open>The two ways a run with a child returns.\<close>

lemma exec_spawnedE:
  assumes "exec_spawned f os sched rq p pi st = Some r"
  obtains (refused) w job st1 where "contain_child f os rq pi (st\<lparr>xw := w\<rparr>) = ((job, False), st1)"
      "r = (Inl ''job object setup failed'', close_pipes os p (x_close os (pi_process pi) (x_close os (pi_thread pi)
         (terminate_process os (pi_process pi) st1))))"
  | (ran) tick w job st1 p2 st2 j oc p3 st3 res st4 where
      "contain_child f os rq pi (st\<lparr>xw := w\<rparr>) = ((job, True), st1)" "feed_child os (rq_stdin rq) p st1 = (p2, st2)"
      "job_bin j = rq_bin rq" "job_proc j = pi" "job_cap j = rq_cap rq" "capture f os sched j p2 st2 = Some (oc, p3, st3)"
      "exec_finish os pi job (rq_mem rq) (rq_cpu rq) tick oc p3 st3 = (res, st4)" "r = (Inr res, st4)"
proof -
  obtain tick w where tick: "XGetTickCount os (xw st) = (tick, w)" by (metis surj_pair)
  obtain job ok st1 where prep: "contain_child f os rq pi (st\<lparr>xw := w\<rparr>) = ((job, ok), st1)" by (metis surj_pair)
  obtain p2 st2 where feed: "feed_child os (rq_stdin rq) p st1 = (p2, st2)" by (metis surj_pair)
  define j where "j = \<lparr>job_out = the (outRd p2), job_err = the (errRd p2), job_cap = rq_cap rq,
    job_timeout = rq_timeout rq, job_bin = rq_bin rq, job_start = tick, job_proc = pi\<rparr>"
  show thesis
  proof (cases ok)
    case False
    then show thesis using refused [of w job st1] assms prep by (auto simp: exec_spawned_def tick)
  next
    case True
    have "map_option (\<lambda>(oc, p3, st3). (case exec_finish os pi job (rq_mem rq) (rq_cpu rq) tick oc p3 st3 of
        (r, st4) \<Rightarrow> (Inr r, st4))) (capture f os sched j p2 st2) = Some r"
      using assms True by (simp add: exec_spawned_def tick prep feed j_def)
    then obtain oc p3 st3 where c: "capture f os sched j p2 st2 = Some (oc, p3, st3)"
      and "r = (case exec_finish os pi job (rq_mem rq) (rq_cpu rq) tick oc p3 st3 of (r, st4) \<Rightarrow> (Inr r, st4))" by auto
    moreover obtain res st4 where fin: "exec_finish os pi job (rq_mem rq) (rq_cpu rq) tick oc p3 st3 = (res, st4)"
      by (metis surj_pair)
    ultimately show thesis using ran [of w job st1 p2 st2 j oc p3 st3 tick res st4] prep True feed by (simp add: j_def)
  qed
qed

lemma spawned_leaves:
  assumes r: "exec_spawned f os sched rq p pi st = Some r"
    and base: "\<And>x. opens st x = opens st0 x + pipes_cnt p x + cnt (Some (pi_process pi)) x + cnt (Some (pi_thread pi)) x"
  shows "leaves f st0 r"
proof -
  have job: "opens st1 x = opens st x + cnt job x" "ok \<longrightarrow> (job \<noteq> None) = has_create_job_object f" "\<not> ok \<longrightarrow> job = None"
    if "contain_child f os rq pi (st\<lparr>xw := w\<rparr>) = ((job, ok), st1)" for w job ok st1 x
    using that job_balance [of os pi "rq_mem rq" "rq_cpu rq" "st\<lparr>xw := w\<rparr>" job st1 x]
    by (auto simp: contain_child_def balance split: if_splits prod.splits)
  from r show ?thesis
  proof (cases rule: exec_spawnedE)
    case (refused w job st1)
    then show ?thesis using job [OF refused(1)] base by (auto simp: leaves_def balance fun_eq_iff)
  next
    case (ran tick w job st1 p2 st2 j oc p3 st3 res st4)
    have "parent_ends p2" using feed_balance [OF ran(2)] by (simp add: parent_ends_def)
    note bal = capture_balance [OF ran(6) this] and cap = capture_balance(1) [OF ran(6) this]
    have eq: "opens st4 x = opens st0 x + (if still_active res then cnt (Some (orphan_handle res)) x + cnt job x else 0)" for x
      using finish_balance [OF ran(7) bal(2), of x] cap [of x]
        feed_balance [OF ran(2), of x, THEN conjunct1] job(1) [OF ran(1), of x] base [of x] by linarith
    show ?thesis using job(2) [OF ran(1)] by (auto simp: leaves_def ran(8) fun_eq_iff eq intro!: exI [of _ job])
  qed
qed

lemma run_leaves:
  assumes run: "ExecOpRun f os sched rq hideWindow st = Some r'"
  shows "leaves f st r'"
proof (cases "rq_cmdLine rq = [] \<or> length (rq_cmdLine rq) > EXEC_MAX_CMDLINE")
  case False
  obtain ok p st1 where c: "create_pipes os st = ((ok, p), st1)" by (metis surj_pair)
  obtain ok1 p1 st2 where i: "isolate_pipes f os p st1 = ((ok1, p1), st2)" by (metis surj_pair)
  obtain r st3 where s: "spawn_child f os (rq_cmdLine rq) (rq_cwd rq) hideWindow p1 st2 = (r, st3)" by (metis surj_pair)
  have base: "opens st3 x = opens st x + pipes_cnt p1 x +
      (case r of None \<Rightarrow> 0 | Some pi \<Rightarrow> cnt (Some (pi_process pi)) x + cnt (Some (pi_thread pi)) x)" for x
    using create_pipes_balance [OF c, of x] isolate_balance [OF i, of x] spawn_balance [OF s, of x] by simp
  have early: "opens (close_pipes os p st1) = opens st" "opens (close_pipes os p1 st2) = opens st"
    using create_pipes_balance [OF c] isolate_balance [OF i] by (auto simp: fun_eq_iff balance)
  have spawned: "\<And>pi res. r = Some pi \<Longrightarrow> exec_spawned f os sched rq p1 pi st3 = Some res \<Longrightarrow> leaves f st res"
    using spawned_leaves [of f os sched rq p1 _ st3 _ st] base by simp
  show ?thesis using False early spawned base run
    by (cases ok; cases ok1; cases r) (auto simp: ExecOpRun_def c i s leaves_def balance fun_eq_iff split: option.split)
next
  case True
  then obtain why where "r' = (Inl why, st)" "why \<noteq> []" using run by (cases "rq_cmdLine rq = []") (auto simp: ExecOpRun_def)
  then show ?thesis by (simp add: leaves_def)
qed

text \<open>
  C29: every handle a run opens is closed again, once, whatever Windows answers, whichever
  step fails and however the threads are scheduled; only a 16-bit child left running keeps
  its process handle, which the result hands over, and, with job objects, a job handle
  that nothing hands over.
\<close>

theorem ExecOpRun_handles:
  "case ExecOpRun f os sched rq hideWindow st of None \<Rightarrow> True | Some r \<Rightarrow> leaves f st r"
  using run_leaves by (auto split: option.split)

end
