(* ===== verification/ExecOrder.thy ===== *)
theory ExecOrder
  imports ExecHandles
begin

text \<open>
  The order of what a run of \<^verbatim>\<open>ExecOpRun\<close> does to its child, what it captures, and that
  the polling of a child ends.
\<close>

section \<open>Calls\<close>

named_theorems calls_simps \<open>the calls made by an operation\<close>

lemma did_basic [calls_simps]:
  "did (x_opened h st) = did st" "did (x_close os h st) = did st" "did (note_did c st) = did st @ [c]"
  "did (st\<lparr>xw := w\<rparr>) = did st" "did (terminate_process os h st) = did st @ [DidTerminate h]"
  by (simp_all add: x_opened_def x_close_def note_did_def terminate_process_def)

lemma did_close_opt [calls_simps]: "did (x_close_opt os h st) = did st"
  by (cases h) (simp_all add: x_close_opt_def calls_simps)

lemma did_close_pipes [calls_simps]: "did (close_pipes os p st) = did st"
  by (simp add: close_pipes_def calls_simps)

text \<open>
  The preparation of a spawn: the three pipes, and each end that stays with the parent kept
  from the child, by its flag or, without \<^verbatim>\<open>SetHandleInformation\<close>, by a copy in its place, the
  original being closed.
\<close>

definition isolated :: "Features \<Rightarrow> u32 \<Rightarrow> ExecCall list \<Rightarrow> bool" where
  "isolated f h cs \<longleftrightarrow>
     (if h = 0xFFFFFFFF then cs = []
      else if ''SetHandleInformation'' \<in> procs f then cs = [DidIsolate h h]
      else \<exists>d. cs = [DidIsolate h d, DidClose h])"

text \<open>The ends of the child, and the calls that prepared them.\<close>

definition prepared :: "Features \<Rightarrow> u32 \<Rightarrow> u32 \<Rightarrow> u32 \<Rightarrow> ExecCall list \<Rightarrow> bool" where
  "prepared f in' out err cs \<longleftrightarrow>
     (\<exists>feed got_out got_err i1 i2 i3.
        cs = [DidPipe in' feed, DidPipe got_out out, DidPipe got_err err] @ i1 @ i2 @ i3 \<and>
        isolated f feed i1 \<and> isolated f got_out i2 \<and> isolated f got_err i3)"

lemma isolated_some: "\<exists>cs. isolated f h cs"
  by (auto simp: isolated_def)

lemma new_pipe_calls:
  "new_pipe os st = (r, st') \<Longrightarrow>
     (case r of None \<Rightarrow> did st' = did st | Some (rd, wr) \<Rightarrow> did st' = did st @ [DidPipe rd wr])"
  by (auto simp: new_pipe_def calls_simps split: prod.splits option.splits)

lemma create_pipes_calls:
  assumes "create_pipes os st = ((ok, p), st')"
  shows "if ok then \<exists>ir iw rd ow re ew. p = \<lparr>inRd = Some ir, inWr = Some iw, outRd = Some rd, outWr = Some ow,
       errRd = Some re, errWr = Some ew\<rparr> \<and> did st' = did st @ [DidPipe ir iw, DidPipe rd ow, DidPipe re ew]
     else \<exists>new rest a b c. did st' = did st @ new \<and> prepared f a b c (new @ rest)"
proof -
  have some: "\<exists>rest a b c. prepared f a b c ([DidPipe ir iw, DidPipe rd ow] @ rest)" for ir iw rd ow
  proof -
    obtain i1 i2 i3 where "isolated f iw i1" "isolated f rd i2" "isolated f 0 i3" using isolated_some by metis
    then have "prepared f ir ow 0 ([DidPipe ir iw, DidPipe rd ow] @ [DidPipe 0 0] @ i1 @ i2 @ i3)"
      unfolding prepared_def by auto
    then show ?thesis by blast
  qed
  have short: "\<exists>rest a b c. prepared f a b c ([] @ rest)" "\<exists>rest a b c. prepared f a b c ([DidPipe ir iw] @ rest)" for ir iw
    using some [of 0 0 0 0] some [of ir iw 0 0] by (metis append_Nil append_Cons)+
  show ?thesis
    using assms some short
    by (auto simp: create_pipes_def no_pipes_def Let_def dest!: new_pipe_calls split: prod.splits option.splits)
      (metis append_Nil2 append_Nil)+
qed

lemma clear_inherit_calls:
  "ClearHandleInherit f os (Some h) st = ((ok, h'), st') \<Longrightarrow>
     \<exists>cs. did st' = did st @ cs \<and> (if ok then isolated f h cs else cs = [])"
  by (auto simp: ClearHandleInherit_def calls_simps isolated_def split: option.splits prod.splits if_splits)

lemma isolate_calls:
  assumes r: "isolate_pipes f os \<lparr>inRd = Some ir, inWr = Some iw, outRd = Some rd, outWr = Some ow, errRd = Some re, errWr = Some ew\<rparr> st =
      ((ok, p), st')"
    and pipes: "did st = old @ [DidPipe ir iw, DidPipe rd ow, DidPipe re ew]"
  shows "inRd p = Some ir \<and> outWr p = Some ow \<and> errWr p = Some ew \<and>
    (\<exists>new. did st' = old @ new \<and> (if ok then prepared f ir ow ew new else \<exists>rest. prepared f ir ow ew (new @ rest)))"
proof -
  obtain ok1 h1 st1 where 1: "ClearHandleInherit f os (Some iw) st = ((ok1, h1), st1)" by (metis surj_pair)
  obtain ok2 h2 st2 where 2: "ClearHandleInherit f os (Some rd) st1 = ((ok2, h2), st2)" by (metis surj_pair)
  obtain ok3 h3 st3 where 3: "ClearHandleInherit f os (Some re) st2 = ((ok3, h3), st3)" by (metis surj_pair)
  obtain c1 c2 c3 where c: "did st1 = did st @ c1" "if ok1 then isolated f iw c1 else c1 = []"
    "did st2 = did st1 @ c2" "if ok2 then isolated f rd c2 else c2 = []"
    "did st3 = did st2 @ c3" "if ok3 then isolated f re c3 else c3 = []"
    using clear_inherit_calls [OF 1] clear_inherit_calls [OF 2] clear_inherit_calls [OF 3] by blast
  obtain d1 d2 d3 where d: "isolated f iw d1" "isolated f rd d2" "isolated f re d3" using isolated_some by metis
  let ?pre = "[DidPipe ir iw, DidPipe rd ow, DidPipe re ew]"
  have all: "prepared f ir ow ew (?pre @ a @ b @ c)" if "isolated f iw a" "isolated f rd b" "isolated f re c" for a b c
    using that unfolding prepared_def by blast
  show ?thesis
  proof (cases "ok1 \<and> ok2")
    case True
    then have "p = \<lparr>inRd = Some ir, inWr = h1, outRd = h2, outWr = Some ow, errRd = h3, errWr = Some ew\<rparr>" "ok = ok3" "st' = st3"
      using r by (simp_all add: isolate_pipes_def 1 2 3)
    moreover have "did st3 = old @ ?pre @ c1 @ c2 @ c3" using c pipes by simp
    moreover have "\<not> ok3 \<Longrightarrow> prepared f ir ow ew ((?pre @ c1 @ c2 @ c3) @ d3)" using c d True all [of c1 c2 d3] by simp
    ultimately show ?thesis using c True all by auto
  next
    case False
    then have "p = (if ok1 then \<lparr>inRd = Some ir, inWr = h1, outRd = h2, outWr = Some ow, errRd = Some re, errWr = Some ew\<rparr>
        else \<lparr>inRd = Some ir, inWr = h1, outRd = Some rd, outWr = Some ow, errRd = Some re, errWr = Some ew\<rparr>)"
      "\<not> ok" "st' = (if ok1 then st2 else st1)"
      using r False by (cases ok1; simp add: isolate_pipes_def 1 2 Let_def)+
    moreover have "did (if ok1 then st2 else st1) = old @ ?pre @ c1" using c pipes False by auto
    moreover have "prepared f ir ow ew ((?pre @ c1) @ (if ok1 then d2 @ d3 else d1 @ d2 @ d3))"
      using c d all [of c1 d2 d3] all [of d1 d2 d3] by auto
    ultimately show ?thesis by auto
  qed
qed

lemma spawn_calls:
  "spawn_child f os cmdLine cwd hide p st = (r, st') \<Longrightarrow>
     \<exists>su. su_suspended su = has_create_job_object f \<and> su_in su = the (inRd p) \<and> su_out su = the (outWr p) \<and>
       su_err su = the (errWr p) \<and> did st' = did st @ [DidSpawn (spawn_cmd f cmdLine cwd) su r]"
  by (auto simp: spawn_child_def Let_def calls_simps split: prod.splits option.splits)

lemma contain_calls:
  "contain_child f os rq pi st = ((job, ok), st') \<Longrightarrow>
     (if \<not> ok then did st' = did st \<and> has_create_job_object f
      else if has_create_job_object f then
        (\<exists>j. job = Some j \<and> did st' = did st @ [DidAssign j (pi_process pi), DidResume (pi_thread pi)])
      else did st' = did st)"
  by (auto simp: contain_child_def SetUpJob_def Let_def calls_simps split: prod.splits option.splits bool.splits if_splits)

text \<open>What an answer for a child past its time goes with.\<close>

definition ended :: "ProcInfo \<Rightarrow> BinaryType \<Rightarrow> bool \<times> KilledBy \<Rightarrow> ExecCall list \<Rightarrow> bool" where
  "ended p b answer new \<longleftrightarrow>
     (if sixteen_bit b then answer = (True, EXEC_KILLED_NONE) \<and> new = []
      else answer = (False, EXEC_KILLED_CTRL_BREAK) \<and> new = [DidBreak (pi_id p)] \<or>
           answer = (False, EXEC_KILLED_TIMEOUT) \<and>
             new \<in> {[DidTerminate (pi_process p)], [DidBreak (pi_id p), DidTerminate (pi_process p)]})"

definition answered :: "ProcInfo \<Rightarrow> BinaryType \<Rightarrow> bool \<times> KilledBy \<Rightarrow> ExecCall list \<Rightarrow> bool" where
  "answered p b answer new \<longleftrightarrow> answer = (False, EXEC_KILLED_NONE) \<and> new = [] \<or> ended p b answer new"

lemma end_calls: "TimeoutTerminate f os p b st = (a, st') \<Longrightarrow> \<exists>new. did st' = did st @ new \<and> ended p b a new"
proof -
  have "\<exists>new. did (snd (TimeoutTerminate f os p b st)) = did st @ new \<and> ended p b (fst (TimeoutTerminate f os p b st)) new"
    by (auto simp: TimeoutTerminate_def ended_def calls_simps split: prod.splits bool.splits)
  then show "TimeoutTerminate f os p b st = (a, st') \<Longrightarrow> ?thesis" by simp
qed

lemma round_calls:
  "poll_round f os j caps st = ((a, caps'), st') \<Longrightarrow>
     \<exists>new. did st' = did st @ new \<and> (case a of None \<Rightarrow> new = [] | Some answer \<Rightarrow> answered (job_proc j) (job_bin j) answer new)"
  by (auto simp: poll_round_def answered_def calls_simps dest!: end_calls split: prod.splits if_splits)

lemma loop_calls:
  "poll_loop f os j caps st = Some ((answer, caps'), st') \<Longrightarrow>
     \<exists>new. did st' = did st @ new \<and> answered (job_proc j) (job_bin j) answer new"
proof (induction f os j caps st "((answer, caps'), st')" rule: poll_loop.raw_induct [rotated, consumes 1])
  case (1 loop f os j caps st)
  obtain a b c d e st1 where r: "poll_round f os j caps st = ((a, ((b, c), (d, e))), st1)" by (metis surj_pair)
  show ?case
  proof (cases a)
    case None
    then have "loop f os j ((b, c), (d, e)) st1 = Some ((answer, caps'), st')" using 1 r by simp
    from 1(1) [OF this] round_calls [OF r] None show ?thesis by auto
  next
    case (Some x)
    then show ?thesis using 1 r round_calls [OF r] by auto
  qed
qed

lemma feed_calls: "feed_child os stdin p st = (p', st') \<Longrightarrow> did st' = did st"
  by (auto simp: feed_child_def Let_def calls_simps)

lemma join_calls [calls_simps]: "did (join_reader os h st) = did st"
  by (cases h) (simp_all add: join_reader_def calls_simps)

definition main_done :: "ExecJob \<Rightarrow> ExecCall list \<Rightarrow> 'w Threads \<Rightarrow> bool" where
  "main_done j old t \<longleftrightarrow>
     (if th_main t \<in> {AtWait, AtEnd} then th_answer t = (False, EXEC_KILLED_NONE) \<and> did (th_st t) = old
      else \<exists>new. did (th_st t) = old @ new \<and> answered (job_proc j) (job_bin j) (th_answer t) new)"

lemma main_step_calls: "main_done j old t \<Longrightarrow> main_done j old (main_step f os j t)"
  by (cases "th_main t")
    (auto simp: main_step_def main_done_def answered_def Let_def calls_simps dest!: end_calls split: prod.splits)

lemma thread_step_calls: "main_done j old t \<Longrightarrow> main_done j old (thread_step f os j turn t)"
proof (cases turn)
  case TurnMain
  assume "main_done j old t"
  then show ?thesis using TurnMain main_step_calls by (simp add: thread_step_def)
qed (auto simp: thread_step_def main_done_def calls_simps split: prod.splits)

lemma run_calls: "main_done j old t \<Longrightarrow> main_done j old (fold (thread_step f os j) sched t)"
  by (induction sched arbitrary: t) (simp_all add: thread_step_calls)

lemma capture_calls:
  assumes "capture f os sched j p st = Some (oc, p', st')"
  shows "\<exists>new. did st' = did st @ new \<and> answered (job_proc j) (job_bin j) (oc_orphan oc, oc_killed oc) new"
proof (cases "has_threads f \<and> \<not> sixteen_bit (job_bin j)")
  case True
  have "main_done j (did st) (start_threads os j p st)"
    by (auto simp: start_threads_def start_reader_def main_done_def calls_simps split: prod.splits option.splits)
  from run_calls [OF this, of f os sched] show ?thesis using True assms
    by (auto simp: capture_def threads_capture_def Let_def main_done_def split: if_splits)
next
  case False
  then have "poll_capture f os j st = Some (oc, st')" using assms by (auto simp: capture_def)
  then show ?thesis using loop_calls [of f os j _ st] by (auto elim!: poll_captureE simp: calls_simps)
qed

section \<open>A whole run\<close>

lemma finish_result:
  "exec_finish os p job m c tick oc pipes st = (r, st') \<Longrightarrow>
     did st' = did st \<and> still_active r = oc_orphan oc \<and>
     (still_active r \<longrightarrow> orphan_handle r = pi_process p) \<and>
     timed_out r = (\<not> oc_orphan oc \<and> oc_killed oc \<in> {EXEC_KILLED_TIMEOUT, EXEC_KILLED_CTRL_BREAK}) \<and>
     stdout_bytes r = fst (oc_out oc) \<and> stderr_bytes r = fst (oc_err oc)"
  by (auto simp: exec_finish_def job_kill_def Let_def calls_simps split: prod.splits if_splits)

text \<open>
  The preparation and the spawn: the child gets the three ends that are its own, in place of
  the standard handles, and starts suspended where there are job objects.
\<close>

definition spawned :: "Features \<Rightarrow> ExecRequest \<Rightarrow> ProcInfo option \<Rightarrow> ExecCall list \<Rightarrow> bool" where
  "spawned f rq r cs \<longleftrightarrow>
     (\<exists>pre su. cs = pre @ [DidSpawn (spawn_cmd f (rq_cmdLine rq) (rq_cwd rq)) su r] \<and>
        prepared f (su_in su) (su_out su) (su_err su) pre \<and> su_suspended su = has_create_job_object f)"

text \<open>
  What a finished run has done: the parent's ends are isolated, then the one child is
  spawned with the command line; with job objects it starts suspended and runs only
  inside its job; a child past its time is killed, or, with 16 bits, left alone.
\<close>

definition run_order :: "Features \<Rightarrow> ExecRequest \<Rightarrow> ExecResult \<Rightarrow> ExecCall list \<Rightarrow> bool" where
  "run_order f rq res new \<longleftrightarrow>
     (\<exists>start pi contained ends.
        new = start @ contained @ ends \<and> spawned f rq (Some pi) start \<and>
        (if has_create_job_object f then \<exists>job. contained = [DidAssign job (pi_process pi), DidResume (pi_thread pi)]
         else contained = []) \<and>
        (if still_active res then sixteen_bit (rq_bin rq) \<and> ends = [] \<and> \<not> timed_out res \<and> orphan_handle res = pi_process pi
         else if timed_out res then \<not> sixteen_bit (rq_bin rq) \<and> ended pi (rq_bin rq) (False, killed_by res) ends
         else ends = []))"

text \<open>
  A refused run has not got beyond its preparation, or its spawn failed, or it killed its
  child, which had not run, as it could not be put into a job.
\<close>

definition refused_order :: "Features \<Rightarrow> ExecRequest \<Rightarrow> ExecCall list \<Rightarrow> bool" where
  "refused_order f rq new \<longleftrightarrow>
     (\<exists>rest in' out err. prepared f in' out err (new @ rest)) \<or>
     spawned f rq None new \<or>
     has_create_job_object f \<and>
       (\<exists>start pi. new = start @ [DidTerminate (pi_process pi)] \<and> spawned f rq (Some pi) start)"

lemma finish_killed:
  "exec_finish os p job m c tick oc pipes st = (r, st') \<Longrightarrow> timed_out r \<Longrightarrow> killed_by r = oc_killed oc"
  by (auto simp: exec_finish_def job_kill_def Let_def split: prod.splits if_splits)

lemma refused_nothing: "refused_order f rq []"
proof -
  obtain i1 i2 i3 where "isolated f 0 i1" "isolated f 0 i2" "isolated f 0 i3" using isolated_some by metis
  then have "prepared f 0 0 0 ([DidPipe 0 0, DidPipe 0 0, DidPipe 0 0] @ i1 @ i2 @ i3)" unfolding prepared_def by blast
  then show ?thesis unfolding refused_order_def by (metis append_Nil)
qed

lemma spawned_order:
  assumes r: "exec_spawned f os sched rq p pi st = Some r"
    and base: "did st = old @ start" "spawned f rq (Some pi) start"
  shows "\<exists>new. did (snd r) = old @ new \<and> (case fst r of Inl why \<Rightarrow> refused_order f rq new | Inr res \<Rightarrow> run_order f rq res new)"
  using r
proof (cases rule: exec_spawnedE)
  case (refused w job st1)
  note con = contain_calls [OF refused(1), unfolded calls_simps]
  have "fst r = Inl ''job object setup failed''" "did (snd r) = old @ start @ [DidTerminate (pi_process pi)]"
    using refused con base by (auto simp: calls_simps)
  then show ?thesis using con base(2) by (auto simp: refused_order_def)
next
  case (ran tick w job st1 p2 st2 j oc p3 st3 res st4)
  obtain contained where con: "did st1 = old @ start @ contained"
    "if has_create_job_object f then \<exists>job. contained = [DidAssign job (pi_process pi), DidResume (pi_thread pi)] else contained = []"
    using contain_calls [OF ran(1), unfolded calls_simps] base(1) by (auto split: if_splits)
  obtain ends where ends: "did st3 = did st2 @ ends" "answered pi (rq_bin rq) (oc_orphan oc, oc_killed oc) ends"
    using capture_calls [OF ran(6)] ran(3,4) by auto
  have "did st4 = old @ start @ contained @ ends"
    using finish_result [OF ran(7)] feed_calls [OF ran(2)] ends(1) con(1) by simp
  moreover have "if still_active res then sixteen_bit (rq_bin rq) \<and> ends = [] \<and> \<not> timed_out res \<and> orphan_handle res = pi_process pi
      else if timed_out res then \<not> sixteen_bit (rq_bin rq) \<and> ended pi (rq_bin rq) (False, killed_by res) ends else ends = []"
    using ends(2) finish_result [OF ran(7)] finish_killed [OF ran(7)] by (auto simp: answered_def ended_def split: if_splits)
  then have "run_order f rq res (start @ contained @ ends)" unfolding run_order_def using con(2) base(2) by metis
  ultimately show ?thesis by (simp only: ran(8) fst_conv snd_conv sum.case) blast
qed

lemma run_ordered:
  assumes run: "ExecOpRun f os sched rq hideWindow st = Some (r', st')"
  shows "\<exists>new. did st' = did st @ new \<and> (case r' of Inl why \<Rightarrow> refused_order f rq new | Inr res \<Rightarrow> run_order f rq res new)"
proof (cases "rq_cmdLine rq = [] \<or> length (rq_cmdLine rq) > EXEC_MAX_CMDLINE")
  case False
  obtain ok p st1 where c: "create_pipes os st = ((ok, p), st1)" by (metis surj_pair)
  show ?thesis
  proof (cases ok)
    case stop: False
    then have "\<exists>why. r' = Inl why" "did st' = did st1" using False run by (auto simp: ExecOpRun_def c calls_simps)
    then show ?thesis using stop create_pipes_calls [OF c, of f] by (auto simp: refused_order_def)
  next
    case True
    then obtain ir iw rd ow re ew where p: "p = \<lparr>inRd = Some ir, inWr = Some iw, outRd = Some rd, outWr = Some ow, errRd = Some re, errWr = Some ew\<rparr>"
      "did st1 = did st @ [DidPipe ir iw, DidPipe rd ow, DidPipe re ew]"
      using create_pipes_calls [OF c, of f] by auto
    obtain ok1 p1 st2 where i: "isolate_pipes f os p st1 = ((ok1, p1), st2)" by (metis surj_pair)
    obtain pre where pre: "inRd p1 = Some ir" "outWr p1 = Some ow" "errWr p1 = Some ew" "did st2 = did st @ pre"
      "if ok1 then prepared f ir ow ew pre else \<exists>rest. prepared f ir ow ew (pre @ rest)"
      using isolate_calls [OF i [unfolded p(1)] p(2)] by blast
    obtain r st3 where s: "spawn_child f os (rq_cmdLine rq) (rq_cwd rq) hideWindow p1 st2 = (r, st3)" by (metis surj_pair)
    obtain su where su: "did st3 = did st @ pre @ [DidSpawn (spawn_cmd f (rq_cmdLine rq) (rq_cwd rq)) su r]"
      "su_in su = ir" "su_out su = ow" "su_err su = ew" "su_suspended su = has_create_job_object f"
      using spawn_calls [OF s] pre by auto
    have start: "spawned f rq r (pre @ [DidSpawn (spawn_cmd f (rq_cmdLine rq) (rq_cwd rq)) su r])" if ok1
      using that su pre(5) unfolding spawned_def by auto
    show ?thesis
    proof (cases "ok1 \<and> r \<noteq> None")
      case go: True
      then obtain pi where r: "r = Some pi" by auto
      then have "exec_spawned f os sched rq p1 pi st3 = Some (r', st')"
        using False True go run by (simp add: ExecOpRun_def c i s)
      from spawned_order [OF this su(1) [unfolded r] start [unfolded r]] go show ?thesis by simp
    next
      case stop: False
      show ?thesis
      proof (cases ok1)
        case True
        then have "\<exists>why. r' = Inl why" "did st' = did st3" using stop False \<open>ok\<close> run by (auto simp: ExecOpRun_def c i s calls_simps)
        then show ?thesis using True stop su(1) start by (auto simp: refused_order_def)
      next
        case isolation: False
        then have "\<exists>why. r' = Inl why" "did st' = did st2" using False \<open>ok\<close> run by (auto simp: ExecOpRun_def c i calls_simps)
        then show ?thesis using isolation pre(4,5) by (auto simp: refused_order_def)
      qed
    qed
  qed
next
  case True
  then obtain why where "r' = Inl why" "st' = st" using run by (cases "rq_cmdLine rq = []") (auto simp: ExecOpRun_def)
  then show ?thesis by (simp add: refused_nothing)
qed

text \<open>
  C30: a run does to its child what it should, in order, whatever Windows answers: at most
  one child is spawned, with exactly the command line and directory of the request, on its
  own ends of the three pipes and after each end that stays with the parent was isolated;
  with job objects it never runs outside its job; it is reported as timed out exactly when
  it was killed for that; and a 16-bit child is never killed.  A run that is refused has not
  got beyond the preparation, or its spawn failed, or it killed the child that it could not
  contain.
\<close>

theorem ExecOpRun_order:
  "case ExecOpRun f os sched rq hideWindow st of
     None \<Rightarrow> True
   | Some (r, st') \<Rightarrow>
       \<exists>new. did st' = did st @ new \<and> (case r of Inl why \<Rightarrow> refused_order f rq new | Inr res \<Rightarrow> run_order f rq res new)"
  using run_ordered [of f os sched rq hideWindow st] by (auto split: option.split prod.split)

end
