(* ===== verification/ExecCapture.thy ===== *)
theory ExecCapture
  imports ExecOrder
begin

text \<open>
  What a run of \<^verbatim>\<open>ExecOpRun\<close> captures: the reader threads under every schedule, the
  bounds of the buffers, and the end of the polling.
\<close>

section \<open>The reader threads\<close>

text \<open>A stream cut at a size, and whether something was lost.\<close>

definition cut_at :: "int \<Rightarrow> u8 list \<Rightarrow> Capture" where
  "cut_at n s = (take (nat n) s, nat n < length s)"

definition reader_ok :: "int \<Rightarrow> ReaderCtx \<Rightarrow> bool" where
  "reader_ok n c \<longleftrightarrow> rc_size c = n \<and> rc_cap c = cut_at n (rc_seen c)"

lemma reader_step_ok: "reader_ok n c \<Longrightarrow> reader_ok n (fst (reader_step os c w))"
proof -
  assume ok: "reader_ok n c"
  obtain r w1 where r: "XReadFile os (rc_pipe c) EXEC_READ_CHUNK w = (r, w1)" by (metis surj_pair)
  show ?thesis
  proof (cases "r = None \<or> r = Some []")
    case False
    then obtain got where got: "r = Some got" "got \<noteq> []" by auto
    consider "n \<le> int (length (rc_seen c))" | "int (length (rc_seen c)) < n" by linarith
    then show ?thesis
    proof cases
      case 1
      then show ?thesis using ok r got
        by (auto simp: reader_step_def reader_ok_def cut_at_def Let_def min_def neq_Nil_conv split: if_splits)
    next
      case 2
      then have "take (nat n) (rc_seen c) = rc_seen c" "nat (n - int (length (rc_seen c))) = nat n - length (rc_seen c)" by auto
      then show ?thesis using 2 ok r got by (auto simp: reader_step_def reader_ok_def cut_at_def Let_def)
    qed
  qed (use ok r in \<open>auto simp: reader_step_def reader_ok_def\<close>)
qed

definition readers_ok :: "int \<Rightarrow> 'w Threads \<Rightarrow> bool" where
  "readers_ok n t \<longleftrightarrow> reader_ok n (th_out t) \<and> reader_ok n (th_err t)"

lemma main_step_readers: "th_out (main_step f os j t) = th_out t" "th_err (main_step f os j t) = th_err t"
  by (cases "th_main t"; simp add: main_step_def Let_def split: prod.split)+

lemma thread_step_readers: "readers_ok n t \<Longrightarrow> readers_ok n (thread_step f os j turn t)"
proof (cases turn)
  case TurnMain
  assume "readers_ok n t"
  then show ?thesis using TurnMain by (simp add: thread_step_def readers_ok_def main_step_readers)
next
  case TurnOut
  assume "readers_ok n t"
  then show ?thesis using TurnOut reader_step_ok [of n "th_out t" os "xw (th_st t)"]
    by (auto simp: thread_step_def readers_ok_def split: prod.splits)
next
  case TurnErr
  assume "readers_ok n t"
  then show ?thesis using TurnErr reader_step_ok [of n "th_err t" os "xw (th_st t)"]
    by (auto simp: thread_step_def readers_ok_def split: prod.splits)
qed

lemma run_readers: "readers_ok n t \<Longrightarrow> readers_ok n (fold (thread_step f os j) sched t)"
  by (induction sched arbitrary: t) (simp_all add: thread_step_readers)

lemma start_readers: "readers_ok (job_cap j) (start_threads os j p st)"
  by (auto simp: start_threads_def readers_ok_def reader_ok_def new_reader_def cut_at_def split: prod.splits)

text \<open>
  C32: under every schedule of the main thread and the two readers, at every moment each
  buffer holds the beginning of all that its reader took out of its own pipe, up to the
  size of the buffer, and the mark of a cut is set exactly when there was more.
\<close>

theorem reader_threads_exact:
  "let t = fold (thread_step f os j) sched (start_threads os j p st) in
     rc_cap (th_out t) = cut_at (job_cap j) (rc_seen (th_out t)) \<and>
     rc_cap (th_err t) = cut_at (job_cap j) (rc_seen (th_err t))"
proof -
  have "readers_ok (job_cap j) (fold (thread_step f os j) sched (start_threads os j p st))"
    by (rule run_readers) (rule start_readers)
  then show ?thesis by (simp add: readers_ok_def reader_ok_def Let_def)
qed

section \<open>Bounds\<close>

text \<open>A read gives no more bytes than it was asked for.\<close>

definition reads_within :: "'w ExecOs \<Rightarrow> bool" where
  "reads_within os \<longleftrightarrow> (\<forall>h n w. case fst (XReadFile os h n w) of None \<Rightarrow> True | Some bs \<Rightarrow> length bs \<le> n)"

lemma reads_withinD: "reads_within os \<Longrightarrow> XReadFile os h n w = (Some bs, w') \<Longrightarrow> length bs \<le> n"
  unfolding reads_within_def by (metis fst_conv option.simps(5))

text \<open>One pass of the pump, for its induction: it stops, or goes on with more bytes.\<close>

lemma pump_step:
  "(\<exists>b w'. PumpPipe os pipe n (buf, lost) w = ((buf, b), w')) \<or>
   (\<exists>(avail :: u32) w1 got w2 b.
      XReadFile os pipe (min (min (unat avail) (nat (n - int (length buf)))) EXEC_READ_CHUNK) w1 = (Some got, w2) \<and>
      got \<noteq> [] \<and> int (length buf) < n \<and> PumpPipe os pipe n (buf, lost) w = PumpPipe os pipe n (buf @ got, b) w2)"
proof -
  obtain av w1 where p: "XPeekNamedPipe os pipe w = (av, w1)" by (metis surj_pair)
  note step = PumpPipe.simps [of os pipe n "(buf, lost)" w, unfolded p prod.case]
  show ?thesis
  proof (cases "av = None \<or> av = Some 0 \<or> n \<le> int (length buf)")
    case True
    then show ?thesis unfolding step by (cases av) auto
  next
    case False
    then obtain a where a: "av = Some a" "a \<noteq> 0" "int (length buf) < n" by auto
    obtain g w2 where r: "XReadFile os pipe (min (min (unat a) (nat (n - int (length buf)))) EXEC_READ_CHUNK) w1 = (g, w2)"
      by (metis surj_pair)
    show ?thesis
    proof (cases "g = None \<or> g = Some []")
      case True
      then show ?thesis unfolding step using r a by auto
    next
      case False
      then obtain got where g: "g = Some got" "got \<noteq> []" by auto
      have eq: "PumpPipe os pipe n (buf, lost) w = PumpPipe os pipe n
          (buf @ got, lost \<or> unat a > length got \<and> int (length (buf @ got)) \<ge> n) w2"
        unfolding step using r a g by simp
      have "XReadFile os pipe (min (min (unat a) (nat (n - int (length buf)))) EXEC_READ_CHUNK) w1 = (Some got, w2)"
        using r g by simp
      then show ?thesis using g(2) a(3) eq by blast
    qed
  qed
qed

lemma pump_bound:
  assumes "reads_within os"
  shows "int (length buf) \<le> n \<Longrightarrow> int (length (fst (fst (PumpPipe os pipe n (buf, lost) w)))) \<le> n"
proof (induction "nat (n - int (length buf))" arbitrary: buf lost w rule: less_induct)
  case less
  from pump_step [of os pipe n buf lost w] show ?case
  proof (elim disjE exE conjE)
    fix avail :: u32 and w1 got w2 b
    assume r: "XReadFile os pipe (min (min (unat avail) (nat (n - int (length buf)))) EXEC_READ_CHUNK) w1 = (Some got, w2)"
      and more: "got \<noteq> []" "int (length buf) < n" "PumpPipe os pipe n (buf, lost) w = PumpPipe os pipe n (buf @ got, b) w2"
    have "length got \<le> nat (n - int (length buf))" using reads_withinD [OF assms r] by simp
    then have "int (length (buf @ got)) \<le> n" "nat (n - int (length (buf @ got))) < nat (n - int (length buf))"
      using more(1,2) by (auto simp: neq_Nil_conv)
    then show ?thesis using less.hyps more(3) by simp
  qed (use less.prems in simp)
qed

definition within :: "int \<Rightarrow> Capture \<times> Capture \<Rightarrow> bool" where
  "within n caps \<longleftrightarrow> int (length (fst (fst caps))) \<le> n \<and> int (length (fst (snd caps))) \<le> n"

lemma pump_both_bound:
  assumes "reads_within os" "within (job_cap j) caps"
  shows "within (job_cap j) (fst (pump_both os j caps w))"
proof -
  obtain b1 l1 b2 l2 where caps: "caps = ((b1, l1), (b2, l2))" by (metis surj_pair)
  obtain c1 w1 where 1: "PumpPipe os (job_out j) (job_cap j) (b1, l1) w = (c1, w1)" by (metis surj_pair)
  obtain c2 w2 where 2: "PumpPipe os (job_err j) (job_cap j) (b2, l2) w1 = (c2, w2)" by (metis surj_pair)
  show ?thesis using assms(2) pump_bound [OF assms(1), of b1 "job_cap j" "job_out j" l1 w]
      pump_bound [OF assms(1), of b2 "job_cap j" "job_err j" l2 w1]
    by (simp add: caps pump_both_def within_def 1 2)
qed

lemma round_bound:
  "reads_within os \<Longrightarrow> within (job_cap j) caps \<Longrightarrow> poll_round f os j caps st = ((a, caps'), st') \<Longrightarrow> within (job_cap j) caps'"
  using pump_both_bound [of os j caps "xw st"] by (auto simp: poll_round_def split: prod.splits if_splits)

lemma loop_bound:
  "poll_loop f os j caps st = Some ((answer, caps'), st') \<Longrightarrow>
     reads_within os \<Longrightarrow> within (job_cap j) caps \<Longrightarrow> within (job_cap j) caps'"
proof (induction f os j caps st "((answer, caps'), st')" rule: poll_loop.raw_induct [rotated, consumes 1])
  case (1 loop f os j caps st)
  obtain a b c d e st1 where r: "poll_round f os j caps st = ((a, ((b, c), (d, e))), st1)" by (metis surj_pair)
  note bound = round_bound [OF 1(3,4) r]
  show ?case
  proof (cases a)
    case None
    then have "loop f os j ((b, c), (d, e)) st1 = Some ((answer, caps'), st')" using 1(2) r by simp
    from 1(1) [OF this 1(3) bound] show ?thesis .
  next
    case (Some x)
    then show ?thesis using 1(2) r bound by simp
  qed
qed

lemma capture_bound:
  assumes "reads_within os" "0 \<le> job_cap j" "capture f os sched j p st = Some (oc, p', st')"
  shows "within (job_cap j) (oc_out oc, oc_err oc)"
proof (cases "has_threads f \<and> \<not> sixteen_bit (job_bin j)")
  case True
  have "readers_ok (job_cap j) (fold (thread_step f os j) sched (start_threads os j p st))"
    by (rule run_readers) (rule start_readers)
  then show ?thesis using assms True
    by (auto simp: capture_def threads_capture_def Let_def readers_ok_def reader_ok_def cut_at_def within_def split: if_splits)
next
  case False
  then have "poll_capture f os j st = Some (oc, st')" using assms(3) by (auto simp: capture_def)
  then show ?thesis
  proof (rule poll_captureE)
    fix caps st1 w
    assume l: "poll_loop f os j (([], False), ([], False)) st = Some (((oc_orphan oc, oc_killed oc), caps), st1)"
      and oc: "fst (pump_both os j caps (xw st1)) = (oc_out oc, oc_err oc)"
    have "within (job_cap j) caps" using loop_bound [OF l assms(1)] assms(2) by (simp add: within_def)
    from pump_both_bound [OF assms(1) this, of "xw st1"] oc show ?thesis by simp
  qed
qed

lemma ExecOpRun_spawned:
  assumes "ExecOpRun f os sched rq hide st = Some (Inr res, st')"
  obtains p pi st3 where "exec_spawned f os sched rq p pi st3 = Some (Inr res, st')"
  using assms by (auto simp: ExecOpRun_def split: prod.splits option.splits if_splits bool.splits)

text \<open>
  What a run reports of either stream fits the buffer it was given, on both ways of
  capturing, when a read gives no more than it was asked for.
\<close>

theorem ExecOpRun_bounds:
  assumes "reads_within os" "0 \<le> rq_cap rq" "ExecOpRun f os sched rq hide st = Some (Inr res, st')"
  shows "int (length (stdout_bytes res)) \<le> rq_cap rq \<and> int (length (stderr_bytes res)) \<le> rq_cap rq"
  using assms(3)
proof (rule ExecOpRun_spawned)
  fix p pi st3
  assume "exec_spawned f os sched rq p pi st3 = Some (Inr res, st')"
  then show ?thesis
  proof (cases rule: exec_spawnedE)
    case (ran tick w job st1 p2 st2 j oc p3 st3 res' st4)
    then show ?thesis using capture_bound [OF assms(1) _ ran(6)] finish_result [OF ran(7)] assms(2)
      by (simp add: within_def)
  qed simp
qed

section \<open>The end of the polling\<close>

text \<open>
  What the loop needs of the clock: reading it gives the milliseconds so far in 32
  bits, no service turns it back, sleeping moves it, and a round that goes on takes
  less than a bound.
\<close>

definition clocked :: "Features \<Rightarrow> 'w ExecOs \<Rightarrow> ExecJob \<Rightarrow> ('w \<Rightarrow> nat) \<Rightarrow> nat \<Rightarrow> bool" where
  "clocked f os j ticks bound \<longleftrightarrow>
     (\<forall>caps w. ticks w \<le> ticks (snd (pump_both os j caps w))) \<and>
     (\<forall>h w. ticks w \<le> ticks (snd (XGetExitCodeProcess os h w))) \<and>
     (\<forall>w. fst (XGetTickCount os w) = word_of_nat (ticks w) \<and> ticks w \<le> ticks (snd (XGetTickCount os w))) \<and>
     (\<forall>w. ticks w < ticks (XSleep os 10 w)) \<and>
     (\<forall>caps st caps' st'. poll_round f os j caps st = ((None, caps'), st') \<longrightarrow> ticks (xw st') \<le> ticks (xw st) + bound)"

lemma word_elapsed:
  "a \<le> b \<Longrightarrow> b - a < 2 ^ 32 \<Longrightarrow> unat ((word_of_nat b :: u32) - word_of_nat a) = b - a"
  by (simp flip: of_nat_diff add: unsigned_of_nat take_bit_nat_eq_self)

text \<open>
  What a round sees before it looks at the clock: the exit code, \<^const>\<open>STILL_ACTIVE\<close> when
  it cannot be had, and the world in which the clock is read.
\<close>

definition looked :: "'w ExecOs \<Rightarrow> ExecJob \<Rightarrow> Capture \<times> Capture \<Rightarrow> 'w \<Rightarrow> u32 \<times> 'w" where
  "looked os j caps w =
     map_prod (\<lambda>code. case code of None \<Rightarrow> STILL_ACTIVE | Some c \<Rightarrow> c) id
       (XGetExitCodeProcess os (pi_process (job_proc j)) (snd (pump_both os j caps w)))"

text \<open>Rounds that went on, each for a child that still ran and with its clock before the deadline.\<close>

inductive goes_on :: "Features \<Rightarrow> 'w ExecOs \<Rightarrow> ExecJob \<Rightarrow> ('w \<Rightarrow> nat) \<Rightarrow> int \<Rightarrow>
    (Capture \<times> Capture) \<times> 'w ExecState \<Rightarrow> (Capture \<times> Capture) \<times> 'w ExecState \<Rightarrow> bool"
  for f os j ticks deadline where
  goes_here: "goes_on f os j ticks deadline x x"
| goes_round: "poll_round f os j caps st = ((None, caps1), st1) \<Longrightarrow> looked os j caps (xw st) = (STILL_ACTIVE, w) \<Longrightarrow>
    int (ticks w) < deadline \<Longrightarrow> goes_on f os j ticks deadline (caps1, st1) y \<Longrightarrow>
    goes_on f os j ticks deadline (caps, st) y"

text \<open>
  The answer in time for a child started at \<open>t0\<close>: the rounds before it were all before the
  deadline, so its own began less than a round's length behind it; an answer that nothing
  was done to the child is for one that had ended, and any other for one that still ran when
  the clock showed the deadline or later.
\<close>

definition in_time :: "Features \<Rightarrow> 'w ExecOs \<Rightarrow> ExecJob \<Rightarrow> ('w \<Rightarrow> nat) \<Rightarrow> nat \<Rightarrow> nat \<Rightarrow>
    (Capture \<times> Capture) \<times> 'w ExecState \<Rightarrow> bool \<times> KilledBy \<Rightarrow> bool" where
  "in_time f os j ticks bound t0 x answer \<longleftrightarrow>
     (let deadline = int t0 + job_timeout j in
      \<exists>caps st caps' st' code w.
        goes_on f os j ticks deadline x (caps, st) \<and> int (ticks (xw st)) < deadline + int bound \<and>
        poll_round f os j caps st = ((Some answer, caps'), st') \<and> looked os j caps (xw st) = (code, w) \<and>
        (if answer = (False, EXEC_KILLED_NONE) then code \<noteq> STILL_ACTIVE
         else code = STILL_ACTIVE \<and> deadline \<le> int (ticks w)))"

lemma end_answers: "fst (TimeoutTerminate f os p b st) \<noteq> (False, EXEC_KILLED_NONE)"
  by (auto simp: TimeoutTerminate_def split: prod.split bool.split)

lemma poll_round_looked:
  assumes "looked os j caps (xw st) = (code, w)" "XGetTickCount os w = (tick, w1)"
  shows "poll_round f os j caps st =
    (let caps1 = fst (pump_both os j caps (xw st)) in
     if code \<noteq> STILL_ACTIVE then ((Some (False, EXEC_KILLED_NONE), caps1), st\<lparr>xw := w\<rparr>)
     else if (0 :: u32) < word_of_int (job_timeout j) \<and> tick - job_start j \<ge> word_of_int (job_timeout j)
     then (case TimeoutTerminate f os (job_proc j) (job_bin j) (st\<lparr>xw := w1\<rparr>) of (answer, st1) \<Rightarrow> ((Some answer, caps1), st1))
     else ((None, caps1), st\<lparr>xw := XSleep os 10 w1\<rparr>))"
proof -
  obtain caps1 w0 where p: "pump_both os j caps (xw st) = (caps1, w0)" by (metis surj_pair)
  obtain c where e: "XGetExitCodeProcess os (pi_process (job_proc j)) w0 = (c, w)"
      "code = (case c of None \<Rightarrow> STILL_ACTIVE | Some c \<Rightarrow> c)"
    using assms(1) p by (cases "XGetExitCodeProcess os (pi_process (job_proc j)) w0") (auto simp: looked_def)
  show ?thesis by (simp add: poll_round_def p e assms(2))
qed

lemma timeout_word: "0 < t \<Longrightarrow> t < 2 ^ 32 \<Longrightarrow> unat (word_of_int t :: u32) = nat t"
  by (simp add: unsigned_of_int nat_take_bit_eq take_bit_nat_eq_self)

lemma clock_reads:
  assumes "clocked f os j ticks bound" "looked os j caps w = (code, w1)" "XGetTickCount os w1 = (tick, w2)"
  shows "ticks w \<le> ticks w1" "tick = word_of_nat (ticks w1)" "ticks w1 \<le> ticks w2" "ticks w2 < ticks (XSleep os 10 w2)"
proof -
  obtain c1 w0 where p: "pump_both os j caps w = (c1, w0)" by (metis surj_pair)
  obtain c where e: "XGetExitCodeProcess os (pi_process (job_proc j)) w0 = (c, w1)"
    using assms(2) p by (cases "XGetExitCodeProcess os (pi_process (job_proc j)) w0") (auto simp: looked_def)
  have "ticks w \<le> ticks w0" "ticks w0 \<le> ticks w1" using assms(1) p e unfolding clocked_def by (metis snd_conv)+
  then show "ticks w \<le> ticks w1" by simp
  show "tick = word_of_nat (ticks w1)" "ticks w1 \<le> ticks w2" "ticks w2 < ticks (XSleep os 10 w2)"
    using assms(1,3) unfolding clocked_def by (metis fst_conv snd_conv)+
qed

lemma round_continues:
  assumes clock: "clocked f os j ticks bound" and start: "job_start j = word_of_nat t0" "t0 \<le> ticks (xw st)"
    and limit: "0 < job_timeout j" "job_timeout j + 2 * int bound < 2 ^ 32"
    and head: "int (ticks (xw st)) < int t0 + job_timeout j + int bound"
    and r: "poll_round f os j caps st = ((None, caps'), st')"
  obtains w where "looked os j caps (xw st) = (STILL_ACTIVE, w)" "int (ticks w) < int t0 + job_timeout j"
    "ticks (xw st) < ticks (xw st')" "ticks (xw st) \<le> ticks w" "int (ticks (xw st')) < int t0 + job_timeout j + int bound"
proof -
  obtain code w where l: "looked os j caps (xw st) = (code, w)" by (metis surj_pair)
  obtain tick w1 where t: "XGetTickCount os w = (tick, w1)" by (metis surj_pair)
  note c = clock_reads [OF clock l t]
  have step: "ticks (xw st') \<le> ticks (xw st) + bound" using clock r unfolding clocked_def by blast
  let ?late = "(0 :: u32) < word_of_int (job_timeout j) \<and> tick - job_start j \<ge> word_of_int (job_timeout j)"
  have go: "code = STILL_ACTIVE" "st' = st\<lparr>xw := XSleep os 10 w1\<rparr>" "\<not> ?late"
    using r by (auto simp: poll_round_looked [OF l t] Let_def split: if_splits prod.splits)
  have "ticks w - t0 < 2 ^ 32" using c go(2) head limit step by simp
  then have el: "unat (tick - job_start j) = ticks w - t0"
    using word_elapsed [of t0 "ticks w"] c start by simp
  have "unat (word_of_int (job_timeout j) :: u32) = nat (job_timeout j)" using limit by (intro timeout_word) auto
  then have "ticks w - t0 < nat (job_timeout j)"
    using go(3) el limit(1) by (simp add: word_le_nat_alt word_less_nat_alt)
  then have "int (ticks w) < int t0 + job_timeout j" using c start by simp
  then show thesis using that l c go(1,2) step by simp
qed

lemma round_answers:
  assumes clock: "clocked f os j ticks bound" and start: "job_start j = word_of_nat t0" "t0 \<le> ticks (xw st)"
    and limit: "0 < job_timeout j" "job_timeout j < 2 ^ 32"
    and r: "poll_round f os j caps st = ((Some answer, caps'), st')"
  obtains code w where "looked os j caps (xw st) = (code, w)"
    "if answer = (False, EXEC_KILLED_NONE) then code \<noteq> STILL_ACTIVE
     else code = STILL_ACTIVE \<and> int t0 + job_timeout j \<le> int (ticks w)"
proof -
  obtain code w where l: "looked os j caps (xw st) = (code, w)" by (metis surj_pair)
  obtain tick w1 where t: "XGetTickCount os w = (tick, w1)" by (metis surj_pair)
  note c = clock_reads [OF clock l t]
  show thesis
  proof (cases "code = STILL_ACTIVE")
    case False
    then have "answer = (False, EXEC_KILLED_NONE)" using r by (simp add: poll_round_looked [OF l t] Let_def)
    then show thesis using that [OF l] False by simp
  next
    case True
    have k: "answer = fst (TimeoutTerminate f os (job_proc j) (job_bin j) (st\<lparr>xw := w1\<rparr>))"
      and late: "tick - job_start j \<ge> word_of_int (job_timeout j)"
      using r True by (auto simp: poll_round_looked [OF l t] Let_def split: if_splits prod.splits)
    have "tick - job_start j = word_of_nat (ticks w - t0)" using c(1,2) start by (simp add: of_nat_diff)
    then have "unat (tick - job_start j) \<le> ticks w - t0" by (simp add: unsigned_of_nat)
    then have "nat (job_timeout j) \<le> ticks w - t0"
      using late timeout_word [OF limit] by (simp add: word_le_nat_alt)
    then have "int t0 + job_timeout j \<le> int (ticks w)" using limit(1) by linarith
    then show thesis using that [OF l] True k end_answers by metis
  qed
qed

lemma poll_loop_ends:
  assumes "clocked f os j ticks bound" "job_start j = word_of_nat t0"
    and "0 < job_timeout j" "job_timeout j + 2 * int bound < 2 ^ 32"
  shows "t0 \<le> ticks (xw st) \<Longrightarrow> int (ticks (xw st)) < int t0 + job_timeout j + int bound \<Longrightarrow>
    \<exists>answer caps' st'. poll_loop f os j caps st = Some ((answer, caps'), st') \<and> in_time f os j ticks bound t0 (caps, st) answer"
proof (induction "nat (int t0 + job_timeout j + int bound - int (ticks (xw st)))" arbitrary: caps st rule: less_induct)
  case less
  obtain a caps1 st1 where r: "poll_round f os j caps st = ((a, caps1), st1)" by (metis surj_pair)
  show ?case
  proof (cases a)
    case None
    obtain w where c: "looked os j caps (xw st) = (STILL_ACTIVE, w)" "int (ticks w) < int t0 + job_timeout j"
      "ticks (xw st) < ticks (xw st1)" "int (ticks (xw st1)) < int t0 + job_timeout j + int bound"
      using round_continues [OF assms(1,2) less.prems(1) assms(3,4) less.prems(2) r [unfolded None]] by metis
    obtain answer caps' st' where ih: "poll_loop f os j caps1 st1 = Some ((answer, caps'), st')"
      "in_time f os j ticks bound t0 (caps1, st1) answer"
      using less.hyps [of st1 caps1] c less.prems(1) by auto
    have "in_time f os j ticks bound t0 (caps, st) answer"
      using ih(2) goes_round [where ticks = ticks, OF r [unfolded None] c(1,2)] unfolding in_time_def Let_def by blast
    moreover have "poll_loop f os j caps st = Some ((answer, caps'), st')"
      using r None ih(1) by (subst poll_loop.simps) simp
    ultimately show ?thesis by blast
  next
    case (Some x)
    have "job_timeout j < 2 ^ 32" using assms(4) by simp
    from round_answers [OF assms(1,2) less.prems(1) assms(3) this r [unfolded Some]]
    have "in_time f os j ticks bound t0 (caps, st) x"
      using goes_here less.prems(2) r Some unfolding in_time_def Let_def by metis
    moreover have "poll_loop f os j caps st = Some ((x, caps1), st1)" using r Some by (subst poll_loop.simps) simp
    ultimately show ?thesis by blast
  qed
qed

text \<open>
  C33: the polling of a child returns, also when the child never ends and the counter of
  milliseconds wraps around meanwhile, and it keeps to the timeout: no round with its clock at
  or past the timeout goes on to another, the child is neither ended nor given up before it,
  and what is reported of a child that ended by itself is that.
\<close>

theorem poll_capture_returns:
  assumes "clocked f os j ticks bound" "job_start j = word_of_nat (ticks (xw st))"
    and "0 < job_timeout j" "job_timeout j + 2 * int bound < 2 ^ 32"
  shows "\<exists>oc st'. poll_capture f os j st = Some (oc, st') \<and>
    in_time f os j ticks bound (ticks (xw st)) ((([], False), ([], False)), st) (oc_orphan oc, oc_killed oc)"
proof -
  obtain left killed caps st1 where "poll_loop f os j (([], False), ([], False)) st = Some (((left, killed), caps), st1)"
    "in_time f os j ticks bound (ticks (xw st)) ((([], False), ([], False)), st) (left, killed)"
    using poll_loop_ends [OF assms, of st "(([], False), ([], False))"] assms(3) by auto
  then show ?thesis by (auto simp: poll_capture_def split: prod.split)
qed

text \<open>
  The threads have no such end: while a pipe goes on giving data, since some process
  besides the child holds its other end, the join of its reader never returns, under any
  schedule, also after the child was killed for its timeout.
\<close>

definition talks_on :: "'w ExecOs \<Rightarrow> bool" where
  "talks_on os \<longleftrightarrow> (\<forall>h n w. fst (XReadFile os h n w) \<notin> {None, Some []})"

lemma reader_talks_on: "talks_on os \<Longrightarrow> rc_runs c \<Longrightarrow> rc_runs (fst (reader_step os c w))"
proof -
  assume "talks_on os" "rc_runs c"
  moreover obtain r w1 where r: "XReadFile os (rc_pipe c) EXEC_READ_CHUNK w = (r, w1)" by (metis surj_pair)
  ultimately have "r \<noteq> None" "r \<noteq> Some []" unfolding talks_on_def by (metis fst_conv insertCI)+
  then show ?thesis using r \<open>rc_runs c\<close> by (auto simp: reader_step_def Let_def split: prod.splits if_splits)
qed

definition stuck :: "'w Threads \<Rightarrow> bool" where
  "stuck t \<longleftrightarrow> rc_runs (th_out t) \<and> th_hOut t \<noteq> None \<and> th_main t \<notin> {AtJoinErr, AtDone}"

lemma thread_step_stuck: "talks_on os \<Longrightarrow> stuck t \<Longrightarrow> stuck (thread_step f os j turn t)"
proof (cases turn)
  case TurnMain
  assume "stuck t"
  then show ?thesis using TurnMain
    by (cases "th_main t") (auto simp: thread_step_def main_step_def stuck_def Let_def split: prod.splits)
next
  case TurnOut
  assume "talks_on os" "stuck t"
  then show ?thesis using TurnOut reader_talks_on [of os "th_out t" "xw (th_st t)"]
    by (auto simp: thread_step_def stuck_def split: prod.splits)
qed (auto simp: thread_step_def stuck_def split: prod.splits)

lemma threads_capture_hangs:
  assumes "talks_on os" "fst (XCreateThread os (xw st)) \<noteq> None"
  shows "threads_capture f os sched j p st = None"
proof -
  have "stuck (fold (thread_step f os j) sched t)" if "stuck t" for t
    using that by (induction sched arbitrary: t) (simp_all add: thread_step_stuck [OF assms(1)])
  moreover have "stuck (start_threads os j p st)"
    using assms(2) by (auto simp: start_threads_def start_reader_def stuck_def split: prod.splits option.splits)
  ultimately show ?thesis by (auto simp: threads_capture_def stuck_def Let_def)
qed

section \<open>A host\<close>

text \<open>
  A host without threads whose clock moves by sleeping; its child has some output
  waiting and ends with a code, or never when the code is \<^const>\<open>STILL_ACTIVE\<close>.
\<close>

definition poll_host :: "u32 \<Rightarrow> (nat \<times> u8 list) ExecOs" where
  "poll_host code = \<lparr>XCreatePipe = (\<lambda>w. (Some (1, 2), w)), XSetHandleInformation = (\<lambda>h w. (True, w)),
     XDuplicateHandle = (\<lambda>h w. (Some 3, w)), XCloseHandle = (\<lambda>h w. w),
     XPeekNamedPipe = (\<lambda>h w. (Some (word_of_nat (length (snd w))), w)),
     XReadFile = (\<lambda>h n w. (Some (take n (snd w)), (fst w, drop n (snd w)))), XWriteFile = (\<lambda>h b w. w),
     XSetErrorMode = (\<lambda>m w. (0, w)),
     XCreateProcess = (\<lambda>c s w. (Some \<lparr>pi_process = 4, pi_thread = 5, pi_id = 6\<rparr>, w)),
     XGetLastError = (\<lambda>w. 0), XGetTickCount = (\<lambda>w. (word_of_nat (fst w), w)),
     XGetExitCodeProcess = (\<lambda>h w. (Some code, w)), XSleep = (\<lambda>n w. (fst w + n, snd w)),
     XWait = (\<lambda>h t w. (False, w)), XTerminateProcess = (\<lambda>h w. w), XCtrlBreak = (\<lambda>p w. (False, w)),
     XCreateThread = (\<lambda>w. (None, w)), XCreateJobObject = (\<lambda>w. (None, w)),
     XSetInformationJob = (\<lambda>j l w. (False, w)), XAssignProcess = (\<lambda>j p w. (False, w)), XResumeThread = (\<lambda>t w. w)\<rparr>"

lemma poll_host_reads: "reads_within (poll_host code)"
  by (simp add: reads_within_def poll_host_def)

definition hello :: ExecRequest where
  "hello = \<lparr>rq_cmdLine = ''hello.exe'', rq_cwd = None, rq_timeout = 55000, rq_stdin = [], rq_cap = 3, rq_mem = 0,
     rq_cpu = 0, rq_bin = BIN_PE32\<rparr>"

definition idle_state :: "(nat \<times> u8 list) ExecState" where
  "idle_state = \<lparr>xw = (0, [0x68, 0x65, 0x6C, 0x6C, 0x6F]), opens = (\<lambda>h. 0), did = []\<rparr>"

lemma hello_runs:
  "\<exists>res st'. ExecOpRun no_features (poll_host 0) [] hello True idle_state = Some (Inr res, st') \<and>
     stdout_bytes res = [0x68, 0x65, 0x6C]"
  by (simp add: ExecOpRun_def hello_def EXEC_MAX_CMDLINE_def create_pipes_def new_pipe_def x_opened_def idle_state_def
      isolate_pipes_def ClearHandleInherit_def x_close_def note_did_def spawn_child_def spawn_cmd_def no_features_def
      exec_spawned_def contain_child_def feed_child_def x_close_opt_def capture_def poll_capture_def poll_loop.simps
      poll_round_def pump_both_def PumpPipe.simps STILL_ACTIVE_def exec_finish_def sixteen_bit_def no_pipes_def
      EXEC_READ_CHUNK_def poll_host_def Let_def)

lemma ExecOpRun_bounds_witness:
  "\<exists>res st'. ExecOpRun no_features (poll_host 0) [] hello True idle_state = Some (Inr res, st') \<and>
     length (stdout_bytes res) \<le> 3"
  using hello_runs ExecOpRun_bounds [OF poll_host_reads [of 0], of hello no_features "[]" True idle_state]
  by (auto simp: hello_def)

lemma poll_host_pipes:
  "XPeekNamedPipe (poll_host code) h w = (Some (word_of_nat (length (snd w))), w)"
  "XReadFile (poll_host code) h n w = (Some (take n (snd w)), (fst w, drop n (snd w)))"
  by (simp_all add: poll_host_def)

lemma poll_host_pump: "fst (snd (PumpPipe (poll_host code) h n cap w)) = fst w"
proof (induction "nat (n - int (length (fst cap)))" arbitrary: cap w rule: less_induct)
  case less
  obtain buf lost where cap: "cap = (buf, lost)" by (cases cap)
  obtain a where p: "XPeekNamedPipe (poll_host code) h w = (Some a, w)" by (simp add: poll_host_pipes)
  define k where "k = min (min (unat a) (nat (n - int (length buf)))) EXEC_READ_CHUNK"
  note step = PumpPipe.simps [of "poll_host code" h n "(buf, lost)" w, unfolded p poll_host_pipes(2) prod.case option.case,
      folded k_def]
  show ?case
  proof (cases "a = 0 \<or> n - int (length buf) \<le> 0 \<or> take k (snd w) = []")
    case True
    then show ?thesis unfolding cap step by auto
  next
    case False
    then have "nat (n - int (length (buf @ take k (snd w)))) < nat (n - int (length buf))" by (auto simp: neq_Nil_conv)
    then have "fst (snd (PumpPipe (poll_host code) h n (buf @ take k (snd w), l) (fst w, drop k (snd w)))) = fst w" for l
      using less.hyps [of "(buf @ take k (snd w), l)" "(fst w, drop k (snd w))"] cap by simp
    then show ?thesis unfolding cap step using False by (simp only: if_False de_Morgan_disj)
  qed
qed

lemma poll_host_clock:
  assumes "job_bin j = BIN_PE32"
  shows "clocked no_features (poll_host STILL_ACTIVE) j fst 10"
proof -
  have both: "fst (snd (pump_both (poll_host c) j caps w)) = fst w" for c caps w
  proof -
    obtain c1 w1 where 1: "PumpPipe (poll_host c) (job_out j) (job_cap j) (fst caps) w = (c1, w1)" by (metis surj_pair)
    obtain c2 w2 where 2: "PumpPipe (poll_host c) (job_err j) (job_cap j) (snd caps) w1 = (c2, w2)" by (metis surj_pair)
    show ?thesis using poll_host_pump [of c "job_out j" "job_cap j" "fst caps" w]
        poll_host_pump [of c "job_err j" "job_cap j" "snd caps" w1]
      by (simp add: pump_both_def 1 2)
  qed
  have r: "poll_round no_features (poll_host STILL_ACTIVE) j caps st = ((None, caps'), st') \<Longrightarrow> fst (xw st') = fst (xw st) + 10"
    for caps st caps' st'
    using both [of STILL_ACTIVE caps "xw st"]
    by (auto simp: poll_round_def poll_host_def split: prod.splits if_splits)
  show ?thesis unfolding clocked_def using both r by (auto simp: poll_host_def)
qed

definition waiting_job :: ExecJob where
  "waiting_job = \<lparr>job_out = 1, job_err = 1, job_cap = 3, job_timeout = 55000, job_bin = BIN_PE32, job_start = 0,
     job_proc = \<lparr>pi_process = 4, pi_thread = 5, pi_id = 6\<rparr>\<rparr>"

lemma poll_capture_returns_witness:
  "\<exists>oc st'. poll_capture no_features (poll_host STILL_ACTIVE) waiting_job idle_state = Some (oc, st') \<and>
     in_time no_features (poll_host STILL_ACTIVE) waiting_job fst 10 0 ((([], False), ([], False)), idle_state)
       (oc_orphan oc, oc_killed oc)"
  using poll_capture_returns [OF poll_host_clock, of waiting_job idle_state] by (simp add: waiting_job_def idle_state_def)

end
