(* ===== verification/PtyExec.thy ===== *)
theory PtyExec
  imports ExecCapture
begin

text \<open>
  Running a child under a pseudo console, \<^verbatim>\<open>src/src/pty_exec.c\<close>.  The services
  that \<^verbatim>\<open>ExecOps\<close> has are used through its record; those of the pseudo console, the
  attribute list and the heap are a second one.  The state keeps a ledger of all that
  is held, the calls that matter in their order and what the reads gave, and no operation
  reads any of these.  At the
  end: everything that was acquired is released on every path, what is done to the
  child, and what is captured.
\<close>

section \<open>Services and state\<close>

record 'w PtyOs =
  YCreatePseudoConsole :: "16 word \<times> 16 word \<Rightarrow> u32 \<Rightarrow> u32 \<Rightarrow> 'w \<Rightarrow> u32 option \<times> 'w"
  YClosePseudoConsole :: "u32 \<Rightarrow> 'w \<Rightarrow> 'w"
  YAttrSize :: "'w \<Rightarrow> nat \<times> 'w"
  YInitAttr :: "u32 \<Rightarrow> 'w \<Rightarrow> bool \<times> 'w"
  YUpdateAttr :: "u32 \<Rightarrow> u32 \<Rightarrow> 'w \<Rightarrow> bool \<times> 'w"
  YDeleteAttr :: "u32 \<Rightarrow> 'w \<Rightarrow> 'w"
  YMalloc :: "nat \<Rightarrow> 'w \<Rightarrow> u32 option \<times> 'w"
  YFree :: "u32 \<Rightarrow> 'w \<Rightarrow> 'w"
  YCreateProcess :: "string \<Rightarrow> string option \<Rightarrow> u32 \<Rightarrow> 'w \<Rightarrow> ProcInfo option \<times> 'w"

text \<open>What can be held: a handle, a console, a block of the heap, an attribute list in one.\<close>

datatype PtyRes = ResHandle u32 | ResConsole u32 | ResBlock u32 | ResAttr u32

text \<open>
  The calls: a pipe by its two ends, a console over two ends, an attribute list and the
  console it names, a child with its list, a reader on its end, and how each of them ends.
\<close>

datatype PtyCall =
    PtyPiped u32 u32
  | PtyConsoleMade u32 u32 u32
  | PtyListMade u32
  | PtyListNames u32 u32
  | PtySpawned string u32 u32
  | PtyReading u32 u32
  | PtyTerminated u32
  | PtyReaped u32
  | PtyConsoleClosed u32
  | PtyJoined u32
  | PtyListDeleted u32

record 'w PtyState =
  yw :: 'w
  held :: "PtyRes \<Rightarrow> int"
  acts :: "PtyCall list"
  pty_reads :: "(u32 \<times> u8 list option) list"

definition pty_take :: "PtyRes \<Rightarrow> 'w PtyState \<Rightarrow> 'w PtyState" where
  "pty_take x st = st\<lparr>held := (held st)(x := held st x + 1)\<rparr>"

definition pty_drop :: "PtyRes \<Rightarrow> ('w \<Rightarrow> 'w) \<Rightarrow> 'w PtyState \<Rightarrow> 'w PtyState" where
  "pty_drop x call st = st\<lparr>yw := call (yw st), held := (held st)(x := held st x - 1)\<rparr>"

definition pty_act :: "PtyCall \<Rightarrow> 'w PtyState \<Rightarrow> 'w PtyState" where
  "pty_act c st = st\<lparr>acts := acts st @ [c]\<rparr>"

text \<open>The local variables of the function that name something held.\<close>

record Pty =
  y_inRd :: "u32 option"
  y_inWr :: "u32 option"
  y_outRd :: "u32 option"
  y_outWr :: "u32 option"
  y_console :: "u32 option"
  y_attr :: "u32 option"
  y_cmd :: "u32 option"
  y_child :: "ProcInfo option"
  y_reader :: "u32 option"

definition no_pty :: Pty where
  "no_pty = \<lparr>y_inRd = None, y_inWr = None, y_outRd = None, y_outWr = None, y_console = None, y_attr = None,
     y_cmd = None, y_child = None, y_reader = None\<rparr>"

record PtyRequest =
  yq_cmdLine :: string
  yq_cwd :: "string option"
  yq_cols :: int
  yq_rows :: int
  yq_timeout :: int
  yq_stdin :: "u8 list"
  yq_cap :: int

record PtyExecResult =
  pty_exit_code :: int
  pty_duration_ms :: int
  pty_output :: "u8 list"
  pty_output_truncated :: bool
  pty_timed_out :: bool

section \<open>Releasing\<close>

definition y_close :: "'w ExecOs \<Rightarrow> u32 option \<Rightarrow> 'w PtyState \<Rightarrow> 'w PtyState" where
  "y_close xs h st = (case h of None \<Rightarrow> st | Some h \<Rightarrow> pty_drop (ResHandle h) (XCloseHandle xs h) st)"

definition y_free :: "'w PtyOs \<Rightarrow> u32 option \<Rightarrow> 'w PtyState \<Rightarrow> 'w PtyState" where
  "y_free os a st = (case a of None \<Rightarrow> st | Some a \<Rightarrow> pty_drop (ResBlock a) (YFree os a) st)"

definition y_close_console :: "'w PtyOs \<Rightarrow> u32 option \<Rightarrow> 'w PtyState \<Rightarrow> 'w PtyState" where
  "y_close_console os c st =
     (case c of None \<Rightarrow> st
      | Some c \<Rightarrow> pty_act (PtyConsoleClosed c) (pty_drop (ResConsole c) (YClosePseudoConsole os c) st))"

definition y_delete_attr :: "'w PtyOs \<Rightarrow> u32 option \<Rightarrow> 'w PtyState \<Rightarrow> 'w PtyState" where
  "y_delete_attr os a st =
     (case a of None \<Rightarrow> st
      | Some a \<Rightarrow> y_free os (Some a) (pty_act (PtyListDeleted a) (pty_drop (ResAttr a) (YDeleteAttr os a) st)))"

definition y_close_child :: "'w ExecOs \<Rightarrow> ProcInfo option \<Rightarrow> 'w PtyState \<Rightarrow> 'w PtyState" where
  "y_close_child xs c st =
     (case c of None \<Rightarrow> st
      | Some pi \<Rightarrow> y_close xs (Some (pi_thread pi)) (y_close xs (Some (pi_process pi)) st))"

text \<open>The failure path: the label \<^verbatim>\<open>cleanup\<close>.\<close>

definition pty_cleanup :: "'w ExecOs \<Rightarrow> 'w PtyOs \<Rightarrow> Pty \<Rightarrow> 'w PtyState \<Rightarrow> 'w PtyState" where
  "pty_cleanup xs os p st =
     (let st1 = y_delete_attr os (y_attr p) (y_close_console os (y_console p) (y_close xs (y_reader p) st));
          st2 = y_close_child xs (y_child p) (y_free os (y_cmd p) st1)
      in y_close xs (y_outWr p) (y_close xs (y_outRd p) (y_close xs (y_inWr p) (y_close xs (y_inRd p) st2))))"

section \<open>Starting the child\<close>

type_synonym 'w PtyStage = "(string option \<times> Pty) \<times> 'w PtyState"

text \<open>The next stage of a start, unless the one before has failed.\<close>

definition pty_then :: "'w PtyStage \<Rightarrow> (Pty \<Rightarrow> 'w PtyState \<Rightarrow> 'w PtyStage) \<Rightarrow> 'w PtyStage" where
  "pty_then r k = (case r of ((None, p), st) \<Rightarrow> k p st | ((Some e, p), st) \<Rightarrow> ((Some e, p), st))"

definition pty_pipe :: "'w ExecOs \<Rightarrow> 'w PtyState \<Rightarrow> (u32 \<times> u32) option \<times> 'w PtyState" where
  "pty_pipe xs st =
     (case XCreatePipe xs (yw st) of
        (None, w) \<Rightarrow> (None, st\<lparr>yw := w\<rparr>)
      | (Some (r, wr), w) \<Rightarrow>
          (Some (r, wr), pty_act (PtyPiped r wr) (pty_take (ResHandle wr) (pty_take (ResHandle r) (st\<lparr>yw := w\<rparr>)))))"

definition pty_console :: "'w ExecOs \<Rightarrow> 'w PtyOs \<Rightarrow> int \<Rightarrow> int \<Rightarrow> Pty \<Rightarrow> 'w PtyState \<Rightarrow> 'w PtyStage" where
  "pty_console xs os cols' rows' p st =
     (case YCreatePseudoConsole os (word_of_int cols', word_of_int rows') (the (y_inRd p)) (the (y_outWr p)) (yw st) of
        (None, w) \<Rightarrow> ((Some ''pseudo console creation failed'', p), st\<lparr>yw := w\<rparr>)
      | (Some c, w) \<Rightarrow>
          ((None, p\<lparr>y_console := Some c, y_inRd := None, y_outWr := None\<rparr>),
           y_close xs (y_outWr p) (y_close xs (y_inRd p)
             (pty_act (PtyConsoleMade c (the (y_inRd p)) (the (y_outWr p))) (pty_take (ResConsole c) (st\<lparr>yw := w\<rparr>))))))"

definition pty_attributes :: "'w PtyOs \<Rightarrow> Pty \<Rightarrow> 'w PtyState \<Rightarrow> 'w PtyStage" where
  "pty_attributes os p st =
     (case YAttrSize os (yw st) of (attrSize, w) \<Rightarrow>
        if attrSize = 0 then ((Some ''attribute list sizing failed'', p), st\<lparr>yw := w\<rparr>)
        else case YMalloc os attrSize w of
          (None, w1) \<Rightarrow> ((Some ''out of memory'', p), st\<lparr>yw := w1\<rparr>)
        | (Some a, w1) \<Rightarrow>
            (let st1 = pty_take (ResBlock a) (st\<lparr>yw := w1\<rparr>) in
             case YInitAttr os a w1 of
               (False, w2) \<Rightarrow> ((Some ''attribute list init failed'', p), y_free os (Some a) (st1\<lparr>yw := w2\<rparr>))
             | (True, w2) \<Rightarrow>
                 (let p1 = p\<lparr>y_attr := Some a\<rparr>; st2 = pty_act (PtyListMade a) (pty_take (ResAttr a) (st1\<lparr>yw := w2\<rparr>)) in
                  case YUpdateAttr os a (the (y_console p)) w2 of
                    (False, w3) \<Rightarrow> ((Some ''attribute list update failed'', p1), st2\<lparr>yw := w3\<rparr>)
                  | (True, w3) \<Rightarrow> ((None, p1), pty_act (PtyListNames a (the (y_console p))) (st2\<lparr>yw := w3\<rparr>)))))"

text \<open>The child gets a copy of the command line that it may write to.\<close>

definition pty_command :: "'w PtyOs \<Rightarrow> string \<Rightarrow> Pty \<Rightarrow> 'w PtyState \<Rightarrow> 'w PtyStage" where
  "pty_command os cmdLine p st =
     (case YMalloc os (length cmdLine + 1) (yw st) of
        (None, w) \<Rightarrow> ((Some ''out of memory'', p), st\<lparr>yw := w\<rparr>)
      | (Some a, w) \<Rightarrow> ((None, p\<lparr>y_cmd := Some a\<rparr>), pty_take (ResBlock a) (st\<lparr>yw := w\<rparr>)))"

definition pty_spawn ::
    "'w ExecOs \<Rightarrow> 'w PtyOs \<Rightarrow> string \<Rightarrow> string option \<Rightarrow> Pty \<Rightarrow> 'w PtyState \<Rightarrow> 'w PtyStage" where
  "pty_spawn xs os cmdLine cwd' p st =
     (case XSetErrorMode xs 0x8003 (yw st) of (oldErrMode, w1) \<Rightarrow>
      case YCreateProcess os cmdLine cwd' (the (y_attr p)) w1 of (r, w2) \<Rightarrow>
      case XSetErrorMode xs oldErrMode w2 of (_, w3) \<Rightarrow>
        (case r of
           None \<Rightarrow> ((Some ''spawn failed'', p), st\<lparr>yw := w3\<rparr>)
         | Some pi \<Rightarrow>
             ((None, p\<lparr>y_child := Some pi\<rparr>),
              pty_act (PtySpawned cmdLine (the (y_attr p)) (pi_process pi))
                (pty_take (ResHandle (pi_thread pi)) (pty_take (ResHandle (pi_process pi)) (st\<lparr>yw := w3\<rparr>))))))"

definition pty_terminate :: "'w ExecOs \<Rightarrow> u32 \<Rightarrow> 'w PtyState \<Rightarrow> 'w PtyState" where
  "pty_terminate xs h st = pty_act (PtyTerminated h) (st\<lparr>yw := XTerminateProcess xs h (yw st)\<rparr>)"

text \<open>The input is written, the reader starts; without a reader the child is ended.\<close>

definition pty_feed :: "'w ExecOs \<Rightarrow> u8 list \<Rightarrow> Pty \<Rightarrow> 'w PtyState \<Rightarrow> 'w PtyStage" where
  "pty_feed xs stdin p st =
     ((None, p), if stdin \<noteq> [] then st\<lparr>yw := XWriteFile xs (the (y_inWr p)) stdin (yw st)\<rparr> else st)"

definition pty_reader :: "'w ExecOs \<Rightarrow> Pty \<Rightarrow> 'w PtyState \<Rightarrow> 'w PtyStage" where
  "pty_reader xs p st =
     (case XCreateThread xs (yw st) of
        (None, w) \<Rightarrow>
          ((Some ''reader thread creation failed'', p), pty_terminate xs (pi_process (the (y_child p))) (st\<lparr>yw := w\<rparr>))
      | (Some h, w) \<Rightarrow>
          ((None, p\<lparr>y_reader := Some h\<rparr>), pty_act (PtyReading h (the (y_outRd p))) (pty_take (ResHandle h) (st\<lparr>yw := w\<rparr>))))"

definition pty_start :: "'w ExecOs \<Rightarrow> 'w PtyOs \<Rightarrow> PtyRequest \<Rightarrow> Pty \<Rightarrow> 'w PtyState \<Rightarrow> 'w PtyStage" where
  "pty_start xs os rq p st =
     pty_then (pty_then (pty_then (pty_then (pty_then
       (pty_console xs os (yq_cols rq) (yq_rows rq) p st)
       (pty_attributes os))
       (pty_command os (yq_cmdLine rq)))
       (pty_spawn xs os (yq_cmdLine rq) (yq_cwd rq)))
       (pty_feed xs (yq_stdin rq)))
       (pty_reader xs)"

section \<open>Capturing\<close>

definition pty_read :: "'w ExecOs \<Rightarrow> u32 \<Rightarrow> 'w PtyState \<Rightarrow> u8 list option \<times> 'w PtyState" where
  "pty_read xs pipe st =
     (case XReadFile xs pipe 1024 (yw st) of (r, w) \<Rightarrow> (r, st\<lparr>yw := w, pty_reads := pty_reads st @ [(pipe, r)]\<rparr>))"

definition pty_reader_step :: "'w ExecOs \<Rightarrow> ReaderCtx \<Rightarrow> 'w PtyState \<Rightarrow> ReaderCtx \<times> 'w PtyState" where
  "pty_reader_step xs c st =
     (case pty_read xs (rc_pipe c) st of
        (None, st1) \<Rightarrow> (c\<lparr>rc_runs := False\<rparr>, st1)
      | (Some got, st1) \<Rightarrow>
          if got = [] then (c\<lparr>rc_runs := False\<rparr>, st1)
          else (case rc_cap c of (buf, lost) \<Rightarrow>
            let room = rc_size c - int (length buf);
                copy = min (int (length got)) room
            in (c\<lparr>rc_seen := rc_seen c @ got,
                  rc_cap := (if copy > 0 then buf @ take (nat copy) got else buf, lost \<or> int (length got) > room)\<rparr>, st1)))"

text \<open>
  Where the main thread stands: it waits for the child, ends it, waits for its end, closes
  the console, joins the reader.
\<close>

datatype PtyAt = PtyAtWait | PtyAtEnd | PtyAtReap | PtyAtConsole | PtyAtJoin | PtyAtDone

record 'w PtyRun =
  yr_main :: PtyAt
  yr_timed_out :: bool
  yr_reader :: ReaderCtx
  yr_pty :: Pty
  yr_st :: "'w PtyState"

definition pty_main :: "'w ExecOs \<Rightarrow> 'w PtyOs \<Rightarrow> int \<Rightarrow> 'w PtyRun \<Rightarrow> 'w PtyRun" where
  "pty_main xs os timeoutMs t =
     (let child = pi_process (the (y_child (yr_pty t))); st = yr_st t in
      case yr_main t of
        PtyAtWait \<Rightarrow>
          (case XWait xs child (if timeoutMs > 0 then Some (word_of_int timeoutMs) else None) (yw st) of
             (signalled, w) \<Rightarrow>
               t\<lparr>yr_st := st\<lparr>yw := w\<rparr>, yr_main := (if signalled then PtyAtConsole else PtyAtEnd)\<rparr>)
      | PtyAtEnd \<Rightarrow> t\<lparr>yr_st := pty_terminate xs child st, yr_main := PtyAtReap\<rparr>
      | PtyAtReap \<Rightarrow>
          t\<lparr>yr_st := pty_act (PtyReaped child) (st\<lparr>yw := snd (XWait xs child None (yw st))\<rparr>),
            yr_timed_out := True, yr_main := PtyAtConsole\<rparr>
      | PtyAtConsole \<Rightarrow>
          t\<lparr>yr_st := y_close_console os (y_console (yr_pty t)) st,
            yr_pty := (yr_pty t)\<lparr>y_console := None\<rparr>, yr_main := PtyAtJoin\<rparr>
      | PtyAtJoin \<Rightarrow>
          if rc_runs (yr_reader t) then t
          else (let h = the (y_reader (yr_pty t)) in
            t\<lparr>yr_st := pty_act (PtyJoined h) (st\<lparr>yw := snd (XWait xs h None (yw st))\<rparr>), yr_main := PtyAtDone\<rparr>)
      | PtyAtDone \<Rightarrow> t)"

text \<open>A turn of the scheduler: of the reader when it is true, of the main thread otherwise.\<close>

definition pty_turn :: "'w ExecOs \<Rightarrow> 'w PtyOs \<Rightarrow> int \<Rightarrow> bool \<Rightarrow> 'w PtyRun \<Rightarrow> 'w PtyRun" where
  "pty_turn xs os timeoutMs reads t =
     (if \<not> reads then pty_main xs os timeoutMs t
      else if rc_runs (yr_reader t) then
        (case pty_reader_step xs (yr_reader t) (yr_st t) of (c, st1) \<Rightarrow> t\<lparr>yr_reader := c, yr_st := st1\<rparr>)
      else t)"

definition pty_begin :: "PtyRequest \<Rightarrow> Pty \<Rightarrow> 'w PtyState \<Rightarrow> 'w PtyRun" where
  "pty_begin rq p st =
     \<lparr>yr_main = PtyAtWait, yr_timed_out = False,
      yr_reader = (new_reader (the (y_outRd p)) (yq_cap rq))\<lparr>rc_runs := True\<rparr>, yr_pty = p, yr_st = st\<rparr>"

text \<open>The result, and the release of what is left.\<close>

definition pty_finish :: "'w ExecOs \<Rightarrow> 'w PtyOs \<Rightarrow> u32 \<Rightarrow> 'w PtyRun \<Rightarrow> PtyExecResult \<times> 'w PtyState" where
  "pty_finish xs os start t =
     (let p = yr_pty t; child = pi_process (the (y_child p)) in
      case XGetTickCount xs (yw (yr_st t)) of (tick, w) \<Rightarrow>
      case XGetExitCodeProcess xs child w of (code, w1) \<Rightarrow>
        let st1 = y_delete_attr os (y_attr p) (y_close xs (y_reader p) ((yr_st t)\<lparr>yw := w1\<rparr>));
            st2 = y_close_child xs (y_child p) (y_free os (y_cmd p) st1)
        in (\<lparr>pty_exit_code = (case code of None \<Rightarrow> -1 | Some c \<Rightarrow> sint c), pty_duration_ms = sint (tick - start),
             pty_output = fst (rc_cap (yr_reader t)), pty_output_truncated = snd (rc_cap (yr_reader t)),
             pty_timed_out = yr_timed_out t\<rparr>,
            y_close xs (y_outRd p) (y_close xs (y_inWr p) st2)))"

definition pty_run ::
    "'w ExecOs \<Rightarrow> 'w PtyOs \<Rightarrow> bool list \<Rightarrow> PtyRequest \<Rightarrow> Pty \<Rightarrow> 'w PtyState \<Rightarrow> (PtyExecResult \<times> 'w PtyState) option" where
  "pty_run xs os sched rq p st =
     (case XGetTickCount xs (yw st) of (start, w) \<Rightarrow>
      let t = fold (pty_turn xs os (yq_timeout rq)) sched (pty_begin rq p (st\<lparr>yw := w\<rparr>))
      in if yr_main t = PtyAtDone then Some (pty_finish xs os start t) else None)"

text \<open>\<^const>\<open>None\<close> is a schedule that ends before the reader is joined.\<close>

definition PtyExecRun ::
    "Features \<Rightarrow> 'w ExecOs \<Rightarrow> 'w PtyOs \<Rightarrow> bool list \<Rightarrow> PtyRequest \<Rightarrow> 'w PtyState \<Rightarrow>
     ((string + PtyExecResult) \<times> 'w PtyState) option" where
  "PtyExecRun f xs os sched rq st =
     (if \<not> has_create_pseudo_console f then Some (Inl ''pty not available on this Windows'', st)
      else case pty_pipe xs st of
        (None, st1) \<Rightarrow> Some (Inl ''pipe creation failed'', st1)
      | (Some (ir, iw), st1) \<Rightarrow>
          (case pty_pipe xs st1 of
             (None, st2) \<Rightarrow> Some (Inl ''pipe creation failed'', y_close xs (Some iw) (y_close xs (Some ir) st2))
           | (Some (rd, wr), st2) \<Rightarrow>
               (case pty_start xs os rq
                   (no_pty\<lparr>y_inRd := Some ir, y_inWr := Some iw, y_outRd := Some rd, y_outWr := Some wr\<rparr>) st2 of
                  ((Some e, p), st3) \<Rightarrow> Some (Inl e, pty_cleanup xs os p st3)
                | ((None, p), st3) \<Rightarrow>
                    map_option (\<lambda>(r, st4). (Inr r, st4)) (pty_run xs os sched rq p st3))))"

section \<open>What is held\<close>

named_theorems ledger \<open>how often something is held after an operation\<close>

definition has :: "PtyRes option \<Rightarrow> PtyRes \<Rightarrow> int" where
  "has r x = (case r of None \<Rightarrow> 0 | Some y \<Rightarrow> of_bool (x = y))"

text \<open>What the variables of the function name, counted.\<close>

definition owned :: "Pty \<Rightarrow> PtyRes \<Rightarrow> int" where
  "owned p x =
     has (map_option ResHandle (y_inRd p)) x + has (map_option ResHandle (y_inWr p)) x +
     has (map_option ResHandle (y_outRd p)) x + has (map_option ResHandle (y_outWr p)) x +
     has (map_option ResConsole (y_console p)) x +
     has (map_option ResAttr (y_attr p)) x + has (map_option ResBlock (y_attr p)) x +
     has (map_option ResBlock (y_cmd p)) x +
     has (map_option (ResHandle \<circ> pi_process) (y_child p)) x + has (map_option (ResHandle \<circ> pi_thread) (y_child p)) x +
     has (map_option ResHandle (y_reader p)) x"

lemma has_simps [simp]: "has None x = 0" "has (Some y) x = of_bool (x = y)"
  by (simp_all add: has_def)

lemma held_basic [ledger]:
  "held (pty_take r st) x = held st x + has (Some r) x"
  "held (pty_drop r call st) x = held st x - has (Some r) x"
  "held (pty_act c st) x = held st x"
  "held (st\<lparr>yw := w\<rparr>) x = held st x"
  "held (pty_terminate xs h st) x = held st x" "held (st\<lparr>yw := w, pty_reads := rs\<rparr>) x = held st x"
  by (auto simp: pty_take_def pty_drop_def pty_act_def pty_terminate_def)

lemma held_releases [ledger]:
  "held (y_close xs h st) x = held st x - has (map_option ResHandle h) x"
  "held (y_free os a st) x = held st x - has (map_option ResBlock a) x"
  "held (y_close_console os c st) x = held st x - has (map_option ResConsole c) x"
  by (cases h; cases a; cases c; simp add: y_close_def y_free_def y_close_console_def held_basic)+

lemma held_groups [ledger]:
  "held (y_delete_attr os a st) x = held st x - has (map_option ResAttr a) x - has (map_option ResBlock a) x"
  "held (y_close_child xs c st) x =
     held st x - has (map_option (ResHandle \<circ> pi_process) c) x - has (map_option (ResHandle \<circ> pi_thread) c) x"
  by (cases a; cases c; simp add: y_delete_attr_def y_close_child_def ledger)+

lemma cleanup_held [ledger]: "held (pty_cleanup xs os p st) x = held st x - owned p x"
  by (simp add: pty_cleanup_def owned_def ledger Let_def)

section \<open>What is done\<close>

lemma acts_basic [simp]:
  "acts (pty_take r st) = acts st" "acts (pty_drop r call st) = acts st" "acts (pty_act c st) = acts st @ [c]"
  "acts (pty_terminate xs h st) = acts st @ [PtyTerminated h]"
  "pty_reads (pty_take r st) = pty_reads st" "pty_reads (pty_drop r call st) = pty_reads st"
  "pty_reads (pty_act c st) = pty_reads st" "pty_reads (pty_terminate xs h st) = pty_reads st"
  by (simp_all add: pty_take_def pty_drop_def pty_act_def pty_terminate_def)

lemma acts_releases [simp]:
  "acts (y_close xs h st) = acts st" "acts (y_free os a st) = acts st"
  "acts (y_delete_attr os a st) = acts st @ (case a of None \<Rightarrow> [] | Some a \<Rightarrow> [PtyListDeleted a])"
  "acts (y_close_child xs c st) = acts st"
  "acts (y_close_console os k st) = acts st @ (case k of None \<Rightarrow> [] | Some k \<Rightarrow> [PtyConsoleClosed k])"
  "pty_reads (y_close xs h st) = pty_reads st" "pty_reads (y_free os a st) = pty_reads st"
  "pty_reads (y_delete_attr os a st) = pty_reads st" "pty_reads (y_close_child xs c st) = pty_reads st"
  "pty_reads (y_close_console os k st) = pty_reads st"
  by (simp_all add: y_close_def y_free_def y_delete_attr_def y_close_child_def y_close_console_def split: option.split)

lemma acts_cleanup [simp]:
  "acts (pty_cleanup xs os p st) = acts st @ (case y_console p of None \<Rightarrow> [] | Some k \<Rightarrow> [PtyConsoleClosed k]) @
     (case y_attr p of None \<Rightarrow> [] | Some a \<Rightarrow> [PtyListDeleted a])"
  "pty_reads (pty_cleanup xs os p st) = pty_reads st"
  by (simp_all add: pty_cleanup_def Let_def)

section \<open>The start, stage by stage\<close>

text \<open>What a stage adds to the held things is what its variables name.\<close>

definition level :: "'w PtyState \<Rightarrow> Pty \<Rightarrow> PtyRes \<Rightarrow> int" where
  "level st p x = held st x - owned p x"

lemma pipe_held:
  "pty_pipe xs st = (r, st') \<Longrightarrow>
     acts st' = acts st @ (case r of None \<Rightarrow> [] | Some (rd, wr) \<Rightarrow> [PtyPiped rd wr]) \<and> pty_reads st' = pty_reads st \<and>
     held st' x = held st x + has (map_option (ResHandle \<circ> fst) r) x + has (map_option (ResHandle \<circ> snd) r) x"
  by (auto simp: pty_pipe_def ledger split: prod.splits option.splits)

abbreviation no_reader :: string where "no_reader \<equiv> ''reader thread creation failed''"

lemma console_stage:
  assumes "pty_console xs os c r p st = ((m, p'), st')" "y_console p = None"
  shows "level st' p' x = level st p x" "pty_reads st' = pty_reads st"
    "m = None \<and> (\<exists>k. p' = p\<lparr>y_console := Some k, y_inRd := None, y_outWr := None\<rparr> \<and>
       acts st' = acts st @ [PtyConsoleMade k (the (y_inRd p)) (the (y_outWr p))]) \<or>
     m \<notin> {None, Some no_reader} \<and> p' = p \<and> acts st' = acts st"
  using assms by (auto simp: pty_console_def level_def owned_def ledger split: prod.splits option.splits)

lemma attributes_stage:
  assumes "pty_attributes os p st = ((m, p'), st')" "y_attr p = None"
  shows "level st' p' x = level st p x" "pty_reads st' = pty_reads st"
    "(\<exists>a. p' = p\<lparr>y_attr := Some a\<rparr> \<and> m \<noteq> Some no_reader \<and>
       acts st' = acts st @ PtyListMade a # (if m = None then [PtyListNames a (the (y_console p))] else [])) \<or>
     m \<notin> {None, Some no_reader} \<and> p' = p \<and> acts st' = acts st"
proof -
  obtain n w where n: "YAttrSize os (yw st) = (n, w)" by (metis surj_pair)
  obtain a w1 where a: "YMalloc os n w = (a, w1)" by (metis surj_pair)
  obtain i w2 where i: "YInitAttr os (the a) w1 = (i, w2)" by (metis surj_pair)
  obtain u w3 where u: "YUpdateAttr os (the a) (the (y_console p)) w2 = (u, w3)" by (metis surj_pair)
  show "level st' p' x = level st p x" "pty_reads st' = pty_reads st"
    "(\<exists>a. p' = p\<lparr>y_attr := Some a\<rparr> \<and> m \<noteq> Some no_reader \<and>
       acts st' = acts st @ PtyListMade a # (if m = None then [PtyListNames a (the (y_console p))] else [])) \<or>
     m \<notin> {None, Some no_reader} \<and> p' = p \<and> acts st' = acts st"
    using assms n a i u
    by (cases a; auto simp: pty_attributes_def level_def owned_def ledger Let_def split: if_splits bool.splits)+
qed

lemma command_stage:
  assumes "pty_command os cmdLine p st = ((m, p'), st')" "y_cmd p = None"
  shows "level st' p' x = level st p x" "pty_reads st' = pty_reads st" "acts st' = acts st"
    "\<exists>a. p' = p\<lparr>y_cmd := a\<rparr>" "m \<noteq> Some no_reader"
proof -
  have p: "p\<lparr>y_cmd := None\<rparr> = p" using assms(2) by simp
  show "\<exists>a. p' = p\<lparr>y_cmd := a\<rparr>"
    using assms(1) p by (auto simp: pty_command_def split: prod.splits option.splits; metis)
qed (use assms in \<open>auto simp: pty_command_def level_def owned_def ledger split: prod.splits option.splits\<close>)

lemma spawn_stage:
  assumes "pty_spawn xs os cmdLine d p st = ((m, p'), st')" "y_child p = None"
  shows "level st' p' x = level st p x" "pty_reads st' = pty_reads st"
    "m = None \<and> (\<exists>pi. p' = p\<lparr>y_child := Some pi\<rparr> \<and> acts st' = acts st @ [PtySpawned cmdLine (the (y_attr p)) (pi_process pi)]) \<or>
     m \<notin> {None, Some no_reader} \<and> p' = p \<and> acts st' = acts st"
  using assms by (auto simp: pty_spawn_def level_def owned_def ledger split: prod.splits option.splits)

lemma reader_stage:
  assumes "pty_reader xs p st = ((m, p'), st')" "y_reader p = None"
  shows "level st' p' x = level st p x" "pty_reads st' = pty_reads st"
    "m = None \<and> (\<exists>h. p' = p\<lparr>y_reader := Some h\<rparr> \<and> acts st' = acts st @ [PtyReading h (the (y_outRd p))]) \<or>
     m = Some no_reader \<and> p' = p \<and> acts st' = acts st @ [PtyTerminated (pi_process (the (y_child p)))]"
  using assms by (auto simp: pty_reader_def level_def owned_def ledger split: prod.splits option.splits)

lemma feed_stage:
  "pty_feed xs stdin p st = ((m, p'), st') \<Longrightarrow>
     level st' p' x = level st p x \<and> pty_reads st' = pty_reads st \<and> acts st' = acts st \<and> m = None \<and> p' = p"
  by (auto simp: pty_feed_def level_def)

definition unstarted :: "Pty \<Rightarrow> bool" where
  "unstarted p \<longleftrightarrow> y_console p = None \<and> y_attr p = None \<and> y_cmd p = None \<and> y_child p = None \<and> y_reader p = None"

text \<open>
  The four calls of a start after its pipes, up to the spawn, and what holds after the first
  \<open>k\<close> of them: all four and a reader on the parent's end when it succeeds, all four and the
  child ended when the reader is what failed, fewer otherwise.
\<close>

definition start_calls :: "string \<Rightarrow> Pty \<Rightarrow> u32 \<Rightarrow> u32 \<Rightarrow> u32 \<Rightarrow> PtyCall list" where
  "start_calls cmdLine p c a child =
     [PtyConsoleMade c (the (y_inRd p)) (the (y_outWr p)), PtyListMade a, PtyListNames a c, PtySpawned cmdLine a child]"

definition started :: "string \<Rightarrow> Pty \<Rightarrow> string option \<Rightarrow> Pty \<Rightarrow> PtyCall list \<Rightarrow> bool" where
  "started cmdLine p m p' new \<longleftrightarrow>
     (\<exists>k c a pi h.
        new = take k (start_calls cmdLine p c a (pi_process pi)) @
          (if m = None then [PtyReading h (the (y_outRd p))] else if k = 4 then [PtyTerminated (pi_process pi)] else []) \<and>
        k \<le> 4 \<and> (m = None \<longrightarrow> k = 4) \<and> (m \<noteq> None \<longrightarrow> (k = 4) = (m = Some no_reader)) \<and>
        y_console p' = (if 1 \<le> k then Some c else None) \<and> y_attr p' = (if 2 \<le> k then Some a else None) \<and>
        y_outRd p' = y_outRd p \<and>
        (m = None \<longrightarrow> y_inRd p' = None \<and> y_outWr p' = None \<and> y_child p' = Some pi \<and> y_reader p' = Some h))"

lemma pty_start_ok:
  assumes "pty_start xs os rq p st = ((m, p'), st')" "unstarted p"
  shows "level st' p' x = level st p x \<and> pty_reads st' = pty_reads st \<and>
    (\<exists>new. acts st' = acts st @ new \<and> started (yq_cmdLine rq) p m p' new)"
proof -
  let ?line = "yq_cmdLine rq"
  obtain m1 p1 st1 where 1: "pty_console xs os (yq_cols rq) (yq_rows rq) p st = ((m1, p1), st1)" by (metis surj_pair)
  obtain m2 p2 st2 where 2: "pty_attributes os p1 st1 = ((m2, p2), st2)" by (metis surj_pair)
  obtain m3 p3 st3 where 3: "pty_command os ?line p2 st2 = ((m3, p3), st3)" by (metis surj_pair)
  obtain m4 p4 st4 where 4: "pty_spawn xs os ?line (yq_cwd rq) p3 st3 = ((m4, p4), st4)" by (metis surj_pair)
  obtain m5 p5 st5 where 5: "pty_feed xs (yq_stdin rq) p4 st4 = ((m5, p5), st5)" by (metis surj_pair)
  obtain m6 p6 st6 where 6: "pty_reader xs p5 st5 = ((m6, p6), st6)" by (metis surj_pair)
  have fresh: "y_console p = None" "y_attr p = None" "y_cmd p = None" "y_child p = None" "y_reader p = None"
    using assms(2) by (simp_all add: unstarted_def)
  note c1 = console_stage [OF 1 fresh(1)]
  have f1: "y_attr p1 = None" "y_cmd p1 = None" "y_child p1 = None" "y_reader p1 = None" using c1(3) fresh by auto
  note c2 = attributes_stage [OF 2 f1(1)]
  have f2: "y_cmd p2 = None" "y_child p2 = None" "y_reader p2 = None" using c2(3) f1 by auto
  note c3 = command_stage [OF 3 f2(1)]
  obtain cmd where p3: "p3 = p2\<lparr>y_cmd := cmd\<rparr>" using c3(4) by blast
  have f3: "y_child p3 = None" "y_reader p3 = None" using p3 f2 by auto
  note c4 = spawn_stage [OF 4 f3(1)]
  have f4: "y_reader p4 = None" using c4(3) f3 by auto
  note c5 = feed_stage [OF 5]
  have f5: "y_reader p5 = None" "m5 = None" using c5 f4 by simp_all
  note c6 = reader_stage [OF 6 f5(1)]
  have r: "((m, p'), st') =
      (if m1 \<noteq> None then ((m1, p1), st1) else if m2 \<noteq> None then ((m2, p2), st2) else if m3 \<noteq> None then ((m3, p3), st3)
       else if m4 \<noteq> None then ((m4, p4), st4) else ((m6, p6), st6))"
    using assms(1) f5(2) by (auto simp: pty_start_def pty_then_def 1 2 3 4 5 6)
  have lv: "level st' p' x = level st p x" "pty_reads st' = pty_reads st"
    using r c1(1) [of x] c2(1) [of x] c3(1) [of x] c4(1) [of x] c5 [of x] c6(1) [of x] c1(2) c2(2) c3(2) c4(2) c6(2)
    by (auto split: if_splits)
  have "\<exists>new. acts st' = acts st @ new \<and> started ?line p m p' new"
  proof (cases "m1 = None")
    case False
    then show ?thesis using r c1(3) fresh
      by (intro exI [of _ "[]"]) (auto simp: started_def intro!: exI [of _ 0])
  next
    case True
    then obtain c where p1: "p1 = p\<lparr>y_console := Some c, y_inRd := None, y_outWr := None\<rparr>"
      "acts st1 = acts st @ [PtyConsoleMade c (the (y_inRd p)) (the (y_outWr p))]" using c1(3) by auto
    have one: ?thesis if "m \<notin> {None, Some no_reader}" "y_console p' = Some c" "y_attr p' = None" "y_outRd p' = y_outRd p"
      "acts st' = acts st @ take 1 (start_calls ?line p c 0 0)"
      using that by (intro exI [of _ "take 1 (start_calls ?line p c 0 0)"])
        (auto simp: started_def start_calls_def intro!: exI [of _ 1])
    show ?thesis
    proof (cases "y_attr p2")
      case None
      then have "m2 \<notin> {None, Some no_reader}" "p2 = p1" "acts st2 = acts st1" using c2(3) by auto
      then show ?thesis using one r True p1 fresh by (auto simp: start_calls_def)
    next
      case (Some a)
      then have p2: "p2 = p1\<lparr>y_attr := Some a\<rparr>" "m2 \<noteq> Some no_reader"
        "acts st2 = acts st1 @ PtyListMade a # (if m2 = None then [PtyListNames a c] else [])" using c2(3) p1 f1 by auto
      have some: ?thesis if "m \<notin> {None, Some no_reader}" "y_console p' = Some c" "y_attr p' = Some a" "y_outRd p' = y_outRd p"
        "acts st' = acts st @ take k (start_calls ?line p c a 0)" "k \<in> {2, 3}" for k
        using that by (intro exI [of _ "take k (start_calls ?line p c a 0)"])
          (auto simp: started_def start_calls_def intro!: exI [of _ k] exI [of _ c] exI [of _ a])
      show ?thesis
      proof (cases "m2 = None \<and> m3 = None \<and> m4 = None")
        case True
        then obtain pi where p4: "p4 = p3\<lparr>y_child := Some pi\<rparr>" "acts st4 = acts st3 @ [PtySpawned ?line a (pi_process pi)]"
          using c4(3) p2 p3 by auto
        have six: "m = m6" "p' = p6" "st' = st6" using r True \<open>m1 = None\<close> by auto
        have calls: "acts st5 = acts st @ start_calls ?line p c a (pi_process pi)"
          using c5 p4 c3(3) p2 True p1 by (simp add: start_calls_def)
        show ?thesis
        proof (cases m6)
          case None
          then obtain h where "p6 = p5\<lparr>y_reader := Some h\<rparr>" "acts st6 = acts st5 @ [PtyReading h (the (y_outRd p5))]" using c6(3) by auto
          then show ?thesis using calls c5 p4 p3 p2 p1 six None
            by (auto simp: started_def start_calls_def intro!: exI [of _ 4] exI [of _ c] exI [of _ a] exI [of _ pi])
        next
          case (Some e)
          then show ?thesis using calls c5 p4 p3 p2 p1 six c6(3)
            by (auto simp: started_def start_calls_def intro!: exI [of _ 4] exI [of _ c] exI [of _ a] exI [of _ pi])
        qed
      next
        case False
        have "?thesis" if m2: "m2 \<noteq> None"
        proof -
          have "m = m2" "p' = p2" "st' = st2" using r True m2 by auto
          then show ?thesis using some [of 2] p1 p2 m2 by (simp add: start_calls_def)
        qed
        moreover have "m2 = None \<Longrightarrow> ?thesis"
          using some [of 3] r True False p1 p2 p3 c3(3,5) c4(3) by (auto simp: start_calls_def split: if_splits)
        ultimately show ?thesis by blast
      qed
    qed
  qed
  with lv show ?thesis by blast
qed

section \<open>The run, turn by turn\<close>

text \<open>
  What the reads of a pipe gave: parts that are not empty, and, when the reader has come to
  the end, one last read that failed or gave nothing.
\<close>

definition read_through :: "u32 \<Rightarrow> bool \<Rightarrow> u8 list \<Rightarrow> (u32 \<times> u8 list option) list \<Rightarrow> bool" where
  "read_through pipe at_end seen rs \<longleftrightarrow>
     (\<exists>gots last'. rs = map (\<lambda>g. (pipe, Some g)) gots @ last' \<and> seen = concat gots \<and> [] \<notin> set gots \<and>
        (if at_end then last' \<in> {[(pipe, None)], [(pipe, Some [])]} else last' = []))"

lemma read_through_more:
  "read_through pipe False seen rs \<Longrightarrow> g \<noteq> [] \<Longrightarrow> read_through pipe False (seen @ g) (rs @ [(pipe, Some g)])"
  "read_through pipe False seen rs \<Longrightarrow> r \<in> {None, Some []} \<Longrightarrow> read_through pipe True seen (rs @ [(pipe, r)])"
proof -
  assume "read_through pipe False seen rs" "g \<noteq> []"
  then obtain gots where "rs = map (\<lambda>g. (pipe, Some g)) gots" "seen = concat gots" "[] \<notin> set gots" by (auto simp: read_through_def)
  then show "read_through pipe False (seen @ g) (rs @ [(pipe, Some g)])"
    using \<open>g \<noteq> []\<close> by (auto simp: read_through_def intro!: exI [of _ "gots @ [g]"])
qed (auto simp: read_through_def)

text \<open>The reader of a run: what it captured, and what its reads gave since \<open>old\<close>.\<close>

definition reads_ok :: "int \<Rightarrow> u32 \<Rightarrow> (u32 \<times> u8 list option) list \<Rightarrow> ReaderCtx \<Rightarrow> 'w PtyState \<Rightarrow> bool" where
  "reads_ok n pipe old c st \<longleftrightarrow>
     reader_ok n c \<and> rc_pipe c = pipe \<and>
     (\<exists>rs. pty_reads st = old @ rs \<and> read_through pipe (\<not> rc_runs c) (rc_seen c) rs)"

lemma pty_reader_step_ok:
  assumes ok: "reads_ok n pipe old c st" "rc_runs c" and step: "pty_reader_step xs c st = (c', st')"
  shows "reads_ok n pipe old c' st'"
proof -
  obtain r w1 where r: "XReadFile xs pipe 1024 (yw st) = (r, w1)" by (metis surj_pair)
  obtain rs where rs: "pty_reads st = old @ rs" "read_through pipe False (rc_seen c) rs"
    and c: "reader_ok n c" "rc_pipe c = pipe" using ok by (auto simp: reads_ok_def)
  show ?thesis
  proof (cases "r \<in> {None, Some []}")
    case True
    then have "c' = c\<lparr>rc_runs := False\<rparr>" "pty_reads st' = old @ rs @ [(pipe, r)]"
      using step r rs(1) c(2) by (auto simp: pty_reader_step_def pty_read_def)
    then show ?thesis using c read_through_more(2) [OF rs(2) True] by (auto simp: reads_ok_def reader_ok_def)
  next
    case False
    then obtain got where got: "r = Some got" "got \<noteq> []" by auto
    have c': "rc_size c' = n" "rc_pipe c' = pipe" "rc_runs c'" "rc_seen c' = rc_seen c @ got" "pty_reads st' = old @ rs @ [(pipe, r)]"
      using step r rs(1) c got ok(2) by (auto simp: pty_reader_step_def pty_read_def reader_ok_def Let_def split: prod.splits)
    have "rc_cap c' = cut_at n (rc_seen c @ got)"
    proof (cases "n \<le> int (length (rc_seen c))")
      case True
      then show ?thesis using step r c got
        by (auto simp: pty_reader_step_def pty_read_def reader_ok_def cut_at_def Let_def neq_Nil_conv min_def)
    next
      case False
      then have "take (nat n) (rc_seen c) = rc_seen c" "nat (n - int (length (rc_seen c))) = nat n - length (rc_seen c)" by auto
      then show ?thesis using False step r c got
        by (auto simp: pty_reader_step_def pty_read_def reader_ok_def cut_at_def Let_def min_def)
    qed
    then show ?thesis using c' got read_through_more(1) [OF rs(2) got(2)] by (auto simp: reads_ok_def reader_ok_def)
  qed
qed

definition killed_acts :: "u32 \<Rightarrow> bool \<Rightarrow> PtyCall list" where
  "killed_acts child b = (if b then [PtyTerminated child, PtyReaped child] else [])"

text \<open>What the main thread has done when it stands at a point.\<close>

definition run_acts :: "Pty \<Rightarrow> PtyAt \<Rightarrow> bool \<Rightarrow> PtyCall list" where
  "run_acts p at timed =
     (let child = pi_process (the (y_child p)) in
      case at of
        PtyAtWait \<Rightarrow> []
      | PtyAtEnd \<Rightarrow> []
      | PtyAtReap \<Rightarrow> [PtyTerminated child]
      | PtyAtConsole \<Rightarrow> killed_acts child timed
      | PtyAtJoin \<Rightarrow> killed_acts child timed @ [PtyConsoleClosed (the (y_console p))]
      | PtyAtDone \<Rightarrow> killed_acts child timed @ [PtyConsoleClosed (the (y_console p)), PtyJoined (the (y_reader p))])"

definition pty_at :: "Pty \<Rightarrow> PtyAt \<Rightarrow> Pty" where
  "pty_at p at = (if at \<in> {PtyAtJoin, PtyAtDone} then p\<lparr>y_console := None\<rparr> else p)"

definition run_ok :: "int \<Rightarrow> 'w PtyState \<Rightarrow> Pty \<Rightarrow> 'w PtyRun \<Rightarrow> bool" where
  "run_ok n st p t \<longleftrightarrow>
     (\<forall>x. level (yr_st t) (yr_pty t) x = level st p x) \<and>
     yr_pty t = pty_at p (yr_main t) \<and>
     acts (yr_st t) = acts st @ run_acts p (yr_main t) (yr_timed_out t) \<and>
     (yr_main t \<in> {PtyAtWait, PtyAtEnd, PtyAtReap} \<longrightarrow> \<not> yr_timed_out t) \<and>
     (yr_main t = PtyAtDone \<longrightarrow> \<not> rc_runs (yr_reader t)) \<and>
     reads_ok n (the (y_outRd p)) (pty_reads st) (yr_reader t) (yr_st t)"

lemma level_simps:
  "level (st\<lparr>yw := w\<rparr>) p x = level st p x" "level (pty_act c st) p x = level st p x"
  "level (pty_terminate xs h st) p x = level st p x"
  "level (y_close_console os (y_console p) st) (p\<lparr>y_console := None\<rparr>) x = level st p x"
  by (simp_all add: level_def ledger owned_def)

lemma reads_ok_cong: "pty_reads st' = pty_reads st \<Longrightarrow> reads_ok n pipe old c st \<Longrightarrow> reads_ok n pipe old c st'"
  by (simp add: reads_ok_def)

lemma pty_main_ok:
  assumes "y_console p \<noteq> None" "run_ok n st p t"
  shows "run_ok n st p (pty_main xs os timeoutMs t)"
proof -
  obtain c where c: "y_console p = Some c" using assms(1) by auto
  note defs = run_ok_def pty_at_def pty_main_def run_acts_def killed_acts_def Let_def level_simps reads_ok_def
  show ?thesis
  proof (cases "yr_main t")
    case PtyAtWait
    then show ?thesis using assms(2) by (auto simp: defs split: prod.split)
  next
    case PtyAtConsole
    then have t: "yr_pty t = p" using assms(2) by (simp add: run_ok_def pty_at_def)
    have "level (y_close_console os (Some c) (yr_st t)) (p\<lparr>y_console := None\<rparr>) x = level (yr_st t) p x" for x
      using level_simps(4) [of os p "yr_st t" x] c by simp
    then show ?thesis using assms(2) PtyAtConsole c t by (simp add: defs)
  qed (use assms(2) in \<open>auto simp: defs\<close>)
qed

lemma reader_step_keeps:
  "pty_reader_step xs c st = (c', st') \<Longrightarrow> level st' p x = level st p x \<and> acts st' = acts st"
  by (auto simp: pty_reader_step_def pty_read_def level_def Let_def split: prod.splits option.splits if_splits)

lemma pty_turn_ok:
  assumes "y_console p \<noteq> None" "run_ok n st p t"
  shows "run_ok n st p (pty_turn xs os timeoutMs b t)"
proof (cases "b \<and> rc_runs (yr_reader t)")
  case True
  obtain c st1 where c: "pty_reader_step xs (yr_reader t) (yr_st t) = (c, st1)" by (metis surj_pair)
  have "reads_ok n (the (y_outRd p)) (pty_reads st) (yr_reader t) (yr_st t)" using assms(2) by (simp add: run_ok_def)
  then have "reads_ok n (the (y_outRd p)) (pty_reads st) c st1" using True c by (auto intro: pty_reader_step_ok)
  then show ?thesis using assms(2) True reader_step_keeps [OF c] by (auto simp: pty_turn_def c run_ok_def)
qed (use assms pty_main_ok [OF assms] in \<open>auto simp: pty_turn_def\<close>)

lemma pty_turns_ok:
  "y_console p \<noteq> None \<Longrightarrow> run_ok n st p t \<Longrightarrow> run_ok n st p (fold (pty_turn xs os timeoutMs) sched t)"
  by (induction sched arbitrary: t) (simp_all add: pty_turn_ok)

lemma pty_begin_ok: "run_ok (yq_cap rq) (st\<lparr>yw := w\<rparr>) p (pty_begin rq p (st\<lparr>yw := w\<rparr>))"
  by (auto simp: run_ok_def pty_at_def pty_begin_def run_acts_def reads_ok_def reader_ok_def cut_at_def new_reader_def
      read_through_def)

text \<open>The calls of a run after its start, and its reads.\<close>

definition run_calls :: "u32 \<Rightarrow> u32 \<Rightarrow> u32 \<Rightarrow> u32 \<Rightarrow> bool \<Rightarrow> PtyCall list" where
  "run_calls child c h a timed = killed_acts child timed @ [PtyConsoleClosed c, PtyJoined h, PtyListDeleted a]"

lemma pty_run_ok:
  assumes run: "pty_run xs os sched rq p st = Some (r, st')"
    and p: "y_console p = Some c" "y_attr p = Some a" "y_inRd p = None" "y_outWr p = None" "y_child p = Some pi" "y_reader p = Some h"
  shows "held st' x = level st p x" "acts st' = acts st @ run_calls (pi_process pi) c h a (pty_timed_out r)"
    "\<exists>seen rs. pty_reads st' = pty_reads st @ rs \<and> read_through (the (y_outRd p)) True seen rs \<and>
       (pty_output r, pty_output_truncated r) = cut_at (yq_cap rq) seen"
proof -
  obtain start w where s: "XGetTickCount xs (yw st) = (start, w)" by (metis surj_pair)
  obtain t where t: "t = fold (pty_turn xs os (yq_timeout rq)) sched (pty_begin rq p (st\<lparr>yw := w\<rparr>))" by simp
  have done': "yr_main t = PtyAtDone" "(r, st') = pty_finish xs os start t"
    using run by (auto simp: pty_run_def s t Let_def split: if_splits)
  have ok: "run_ok (yq_cap rq) (st\<lparr>yw := w\<rparr>) p t"
    unfolding t by (rule pty_turns_ok [OF _ pty_begin_ok]) (simp add: p)
  have "held st' x = level (yr_st t) (yr_pty t) x"
    using done' ok p by (auto simp: pty_finish_def run_ok_def pty_at_def level_def owned_def ledger Let_def split: prod.splits)
  moreover have "level (yr_st t) (yr_pty t) x = level st p x"
    using ok unfolding run_ok_def level_simps by blast
  ultimately show "held st' x = level st p x" by simp
  have end': "acts st' = acts (yr_st t) @ [PtyListDeleted a]" "pty_timed_out r = yr_timed_out t" "pty_reads st' = pty_reads (yr_st t)"
    "(pty_output r, pty_output_truncated r) = rc_cap (yr_reader t)"
    using done' ok p by (auto simp: pty_finish_def run_ok_def pty_at_def Let_def split: prod.splits)
  then show "acts st' = acts st @ run_calls (pi_process pi) c h a (pty_timed_out r)"
    using ok done'(1) p by (simp add: run_ok_def run_acts_def run_calls_def)
  show "\<exists>seen rs. pty_reads st' = pty_reads st @ rs \<and> read_through (the (y_outRd p)) True seen rs \<and>
      (pty_output r, pty_output_truncated r) = cut_at (yq_cap rq) seen"
    using ok done'(1) end'(3,4) by (auto simp: run_ok_def reads_ok_def reader_ok_def)
qed

section \<open>The two properties\<close>

lemma pipes_owned:
  assumes "pty_pipe xs st = (Some (ir, iw), st1)" "pty_pipe xs st1 = (Some (rd, wr), st2)"
  shows "level st2 (no_pty\<lparr>y_inRd := Some ir, y_inWr := Some iw, y_outRd := Some rd, y_outWr := Some wr\<rparr>) x = held st x"
  using pipe_held [OF assms(1), of x] pipe_held [OF assms(2), of x] by (simp add: level_def owned_def no_pty_def)

lemma PtyExecRun_cases:
  assumes "PtyExecRun f xs os sched rq st = Some (r, st')"
  obtains (early) e pipes where "r = Inl e" "e \<noteq> no_reader" "held st' = held st" "acts st' = acts st @ pipes"
      "pipes = [] \<or> (\<exists>ir iw. pipes = [PtyPiped ir iw])"
  | (late) e ir iw rd wr p0 new p st1 where "r = Inl e" "level st1 p = held st"
      "p0 = no_pty\<lparr>y_inRd := Some ir, y_inWr := Some iw, y_outRd := Some rd, y_outWr := Some wr\<rparr>"
      "acts st1 = acts st @ [PtyPiped ir iw, PtyPiped rd wr] @ new"
      "started (yq_cmdLine rq) p0 (Some e) p new" "st' = pty_cleanup xs os p st1"
  | (ran) res ir iw rd wr p0 new p st1 where "r = Inr res" "level st1 p = held st" "pty_reads st1 = pty_reads st"
      "p0 = no_pty\<lparr>y_inRd := Some ir, y_inWr := Some iw, y_outRd := Some rd, y_outWr := Some wr\<rparr>"
      "acts st1 = acts st @ [PtyPiped ir iw, PtyPiped rd wr] @ new"
      "started (yq_cmdLine rq) p0 None p new" "pty_run xs os sched rq p st1 = Some (res, st')"
proof (cases "has_create_pseudo_console f")
  case False
  then show thesis using assms early [of _ "[]"] by (auto simp: PtyExecRun_def)
next
  case True
  obtain a st1 where 1: "pty_pipe xs st = (a, st1)" by (metis surj_pair)
  obtain b st2 where 2: "pty_pipe xs st1 = (b, st2)" by (metis surj_pair)
  note h1 = pipe_held [OF 1] and h2 = pipe_held [OF 2]
  show thesis
  proof (cases "a = None \<or> b = None")
    case failed: True
    have "r = Inl ''pipe creation failed''" "held st' = held st"
      "acts st' = acts st @ (case a of None \<Rightarrow> [] | Some (rd, wr) \<Rightarrow> [PtyPiped rd wr])"
      using assms True failed 1 2 h1 h2 by (auto simp: PtyExecRun_def ledger split: option.splits prod.splits intro!: ext)
    then show thesis by (intro early) (auto split: option.splits)
  next
    case False
    then obtain ir iw rd wr where ab: "a = Some (ir, iw)" "b = Some (rd, wr)" by auto
    define p0 where "p0 = no_pty\<lparr>y_inRd := Some ir, y_inWr := Some iw, y_outRd := Some rd, y_outWr := Some wr\<rparr>"
    obtain m p st3 where s: "pty_start xs os rq p0 st2 = ((m, p), st3)" by (metis surj_pair)
    have "unstarted p0" by (simp add: unstarted_def p0_def no_pty_def)
    note ok = pty_start_ok [OF s this]
    have lv: "level st3 p = held st" using ok pipes_owned [OF 1 [unfolded ab] 2 [unfolded ab]] by (auto simp: p0_def)
    obtain new where ac: "acts st3 = acts st @ [PtyPiped ir iw, PtyPiped rd wr] @ new" "started (yq_cmdLine rq) p0 m p new"
      "pty_reads st3 = pty_reads st"
      using ok [of "ResHandle 0"] h1 [of "ResHandle 0"] h2 [of "ResHandle 0"] ab by auto
    show thesis
    proof (cases m)
      case None
      then obtain res where "r = Inr res" "pty_run xs os sched rq p st3 = Some (res, st')"
        using assms True 1 2 ab s by (auto simp: PtyExecRun_def p0_def)
      then show thesis using ran [OF _ lv ac(3) p0_def ac(1) ac(2) [unfolded None]] by simp
    next
      case (Some e)
      then have "r = Inl e" "st' = pty_cleanup xs os p st3" using assms True 1 2 ab s by (auto simp: PtyExecRun_def p0_def)
      then show thesis using late [OF _ lv p0_def ac(1) ac(2) [unfolded Some]] by simp
    qed
  qed
qed

text \<open>The two ways a run goes, in its calls and its reads.\<close>

definition begun :: "string \<Rightarrow> u32 \<times> u32 \<Rightarrow> u32 \<times> u32 \<Rightarrow> u32 \<Rightarrow> u32 \<Rightarrow> u32 \<Rightarrow> PtyCall list" where
  "begun cmdLine input output c a child =
     [PtyPiped (fst input) (snd input), PtyPiped (fst output) (snd output), PtyConsoleMade c (fst input) (snd output),
      PtyListMade a, PtyListNames a c, PtySpawned cmdLine a child]"

definition pty_ran :: "PtyRequest \<Rightarrow> PtyExecResult \<Rightarrow> PtyCall list \<Rightarrow> (u32 \<times> u8 list option) list \<Rightarrow> bool" where
  "pty_ran rq r new rs \<longleftrightarrow>
     (\<exists>input output c a child h seen.
        new = begun (yq_cmdLine rq) input output c a child @ [PtyReading h (fst output)] @
          (if pty_timed_out r then [PtyTerminated child, PtyReaped child] else []) @
          [PtyConsoleClosed c, PtyJoined h, PtyListDeleted a] \<and>
        read_through (fst output) True seen rs \<and> (pty_output r, pty_output_truncated r) = cut_at (yq_cap rq) seen)"

definition pty_failed :: "PtyRequest \<Rightarrow> string \<Rightarrow> PtyCall list \<Rightarrow> bool" where
  "pty_failed rq e new \<longleftrightarrow>
     (\<exists>n \<le> 6. \<exists>input output c a child.
        (n = 6 \<longleftrightarrow> e = ''reader thread creation failed'') \<and>
        new = take n (begun (yq_cmdLine rq) input output c a child) @ (if n = 6 then [PtyTerminated child] else []) @
          (if 3 \<le> n then [PtyConsoleClosed c] else []) @ (if 4 \<le> n then [PtyListDeleted a] else []))"

lemma pty_ordered:
  assumes "PtyExecRun f xs os sched rq st = Some (r, st')"
  shows "\<exists>new. acts st' = acts st @ new \<and>
    (case r of Inl e \<Rightarrow> pty_failed rq e new | Inr res \<Rightarrow> \<exists>rs. pty_reads st' = pty_reads st @ rs \<and> pty_ran rq res new rs)"
  using assms
proof (cases rule: PtyExecRun_cases)
  case (early e pipes)
  from early(5) show ?thesis
  proof
    assume "pipes = []"
    then show ?thesis using early by (auto simp: pty_failed_def intro!: exI [of _ 0])
  next
    assume "\<exists>ir iw. pipes = [PtyPiped ir iw]"
    then obtain ir iw where "pipes = take 1 (begun (yq_cmdLine rq) (ir, iw) (0, 0) 0 0 0)" by (auto simp: begun_def)
    then have "pty_failed rq e pipes" using early(2) unfolding pty_failed_def
      by (intro exI [of _ "1 :: nat"]) (auto simp: begun_def)
    then show ?thesis using early by auto
  qed
next
  case (late e ir iw rd wr p0 new p st1)
  obtain k c a and pi :: ProcInfo where k: "new = take k (start_calls (yq_cmdLine rq) p0 c a (pi_process pi)) @ (if k = 4 then [PtyTerminated (pi_process pi)] else [])"
    "k \<le> 4" "(k = 4) = (e = no_reader)" "y_console p = (if 1 \<le> k then Some c else None)" "y_attr p = (if 2 \<le> k then Some a else None)"
    using late(5) [unfolded started_def, simplified option.simps if_False simp_thms] by blast
  have "acts st' = acts st @ [PtyPiped ir iw, PtyPiped rd wr] @ new @ (if 1 \<le> k then [PtyConsoleClosed c] else []) @
      (if 2 \<le> k then [PtyListDeleted a] else [])"
    using late k by simp
  moreover have "[PtyPiped ir iw, PtyPiped rd wr] @ take k (start_calls (yq_cmdLine rq) p0 c a (pi_process pi)) =
      take (k + 2) (begun (yq_cmdLine rq) (ir, iw) (rd, wr) c a (pi_process pi))"
    using late(3) by (simp add: begun_def start_calls_def no_pty_def)
  ultimately have "acts st' = acts st @ take (k + 2) (begun (yq_cmdLine rq) (ir, iw) (rd, wr) c a (pi_process pi)) @
      (if k + 2 = 6 then [PtyTerminated (pi_process pi)] else []) @ (if 3 \<le> k + 2 then [PtyConsoleClosed c] else []) @
      (if 4 \<le> k + 2 then [PtyListDeleted a] else [])"
    using k(1) by (simp del: take_Suc_Cons)
  moreover have "k + 2 \<le> 6" "(k + 2 = 6) = (e = no_reader)" using k by auto
  then have "pty_failed rq e (take (k + 2) (begun (yq_cmdLine rq) (ir, iw) (rd, wr) c a (pi_process pi)) @
      (if k + 2 = 6 then [PtyTerminated (pi_process pi)] else []) @ (if 3 \<le> k + 2 then [PtyConsoleClosed c] else []) @
      (if 4 \<le> k + 2 then [PtyListDeleted a] else []))" unfolding pty_failed_def by blast
  ultimately show ?thesis using late(1) by auto
next
  case (ran res ir iw rd wr p0 new p st1)
  obtain c a pi h where s: "new = start_calls (yq_cmdLine rq) p0 c a (pi_process pi) @ [PtyReading h rd]"
    "y_console p = Some c" "y_attr p = Some a" "y_inRd p = None" "y_outWr p = None" "y_child p = Some pi" "y_reader p = Some h"
    "y_outRd p = Some rd"
    using ran(4,6) by (auto simp: started_def start_calls_def)
  note run = pty_run_ok [OF ran(7) s(2-7)]
  obtain seen rs where rs: "pty_reads st' = pty_reads st @ rs" "read_through rd True seen rs"
    "(pty_output res, pty_output_truncated res) = cut_at (yq_cap rq) seen"
    using run(3) ran(3) s(8) by auto
  have "acts st' = acts st @ begun (yq_cmdLine rq) (ir, iw) (rd, wr) c a (pi_process pi) @ [PtyReading h rd] @
      (if pty_timed_out res then [PtyTerminated (pi_process pi), PtyReaped (pi_process pi)] else []) @
      [PtyConsoleClosed c, PtyJoined h, PtyListDeleted a]"
    using run(2) ran(4,5) s(1) by (simp add: begun_def start_calls_def no_pty_def run_calls_def killed_acts_def)
  moreover have "pty_ran rq res (begun (yq_cmdLine rq) (ir, iw) (rd, wr) c a (pi_process pi) @ [PtyReading h rd] @
      (if pty_timed_out res then [PtyTerminated (pi_process pi), PtyReaped (pi_process pi)] else []) @
      [PtyConsoleClosed c, PtyJoined h, PtyListDeleted a]) rs"
    using rs(2,3) unfolding pty_ran_def by (metis fst_conv)
  ultimately show ?thesis using rs(1) ran(1) by auto
qed

lemma pty_released: "PtyExecRun f xs os sched rq st = Some (r, st') \<Longrightarrow> held st' = held st"
proof (erule PtyExecRun_cases)
  fix e p and st1 :: "'a PtyState"
  assume "level st1 p = held st" "st' = pty_cleanup xs os p st1"
  then show ?thesis by (auto simp: ledger level_def fun_eq_iff)
next
  fix res p0 new p and st1 :: "'a PtyState"
  assume lv: "level st1 p = held st" and s: "started (yq_cmdLine rq) p0 None p new"
    and run: "pty_run xs os sched rq p st1 = Some (res, st')"
  obtain c a pi h where "y_console p = Some c" "y_attr p = Some a" "y_inRd p = None" "y_outWr p = None" "y_child p = Some pi"
    "y_reader p = Some h" using s by (auto simp: started_def)
  from pty_run_ok(1) [OF run this] show ?thesis using lv by (auto intro!: ext)
qed

text \<open>
  C34: whatever fails on the way, a run that returns has released each handle, the pseudo
  console, the attribute list and each block of the heap as often as it had acquired it.
\<close>

theorem PtyExecRun_releases:
  "case PtyExecRun f xs os sched rq st of None \<Rightarrow> True | Some (r, st') \<Rightarrow> held st' = held st"
  using pty_released [of f xs os sched rq st] by (auto split: option.split)

text \<open>
  C35: what a run does, in this order: the two pipes, the console over the child's ends, the
  attribute list that names this console, the child with this list and the command line as it
  was asked for, the reader on the parent's end; past its time that child is ended and its end
  is waited for; then that console is closed, that reader is joined, and only then its list is
  deleted.  The output is the beginning of all that came through that pipe up to its end, and
  the mark of a cut is set exactly when there was more.  A run that fails has done the first
  calls of this order and then closes the console, if it had one, before it deletes the list;
  it leaves no child: it has made none, or it ends the one whose reader could not be started.
\<close>

theorem PtyExecRun_order:
  "case PtyExecRun f xs os sched rq st of
     None \<Rightarrow> True
   | Some (r, st') \<Rightarrow>
       \<exists>new. acts st' = acts st @ new \<and>
         (case r of
            Inl e \<Rightarrow> pty_failed rq e new
          | Inr res \<Rightarrow> \<exists>rs. pty_reads st' = pty_reads st @ rs \<and> pty_ran rq res new rs)"
  using pty_ordered [of f xs os sched rq st] by (auto split: option.split)

end
