(* ===== verification/Toolchain.thy ===== *)
theory Toolchain
  imports Catalog ExecOps
begin

text \<open>
  The detection of build tools, \<^verbatim>\<open>src/src/toolchain_probe.c\<close>: the version in a banner,
  the probes over the exec core, and the member of the ready message.
\<close>

section \<open>Banners\<close>

definition TOOLCHAIN_MAX :: nat where "TOOLCHAIN_MAX = 8"
definition TOOLCHAIN_VENDOR_MAX :: nat where "TOOLCHAIN_VENDOR_MAX = 64"
definition TOOLCHAIN_COMMAND_MAX :: nat where "TOOLCHAIN_COMMAND_MAX = 32"
definition TOOLCHAIN_VERSION_MAX :: nat where "TOOLCHAIN_VERSION_MAX = 128"

record DetectedToolchain =
  tc_vendor :: string
  tc_command :: string
  tc_version :: string

record KnownProbe =
  kp_command :: string
  kp_vendor :: string
  kp_anchor :: string

definition g_known :: "KnownProbe list" where
  "g_known =
     [\<lparr>kp_command = ''cl'', kp_vendor = ''Microsoft'', kp_anchor = ''Version ''\<rparr>,
      \<lparr>kp_command = ''wcc386'', kp_vendor = ''Open Watcom'', kp_anchor = ''Version ''\<rparr>,
      \<lparr>kp_command = ''wcl386'', kp_vendor = ''Open Watcom'', kp_anchor = ''Version ''\<rparr>]"

definition PROBE_TIMEOUT_MS :: int where "PROBE_TIMEOUT_MS = 5000"
definition PROBE_BANNER_MAX :: nat where "PROBE_BANNER_MAX = 4096"

text \<open>The text from the first occurrence on.\<close>

fun find_substr :: "string \<Rightarrow> string \<Rightarrow> string option" where
  "find_substr hay needle =
     (if needle = [] then Some hay
      else if length needle > length hay then None
      else if take (length needle) hay = needle then Some hay
      else case hay of [] \<Rightarrow> None | _ # rest \<Rightarrow> find_substr rest needle)"

declare find_substr.simps [simp del]

definition is_space_byte :: "char \<Rightarrow> bool" where
  "is_space_byte c \<longleftrightarrow> c \<in> {CHR '' '', CHR 0x09, CHR 0x0D, CHR 0x0A, CHR 0x0C, CHR 0x0B}"

definition copy_bounded :: "nat \<Rightarrow> string \<Rightarrow> string" where
  "copy_bounded dstSize src = take (dstSize - 1) src"

definition match_probe :: "StrApi \<Rightarrow> string \<Rightarrow> string \<Rightarrow> KnownProbe \<Rightarrow> DetectedToolchain option" where
  "match_probe api command banner k =
     (if lstrcmpiA api command (kp_command k) \<noteq> 0 then None
      else case find_substr banner (kp_anchor k) of
        None \<Rightarrow> None
      | Some anchorPos \<Rightarrow>
          (let verStart = dropWhile is_space_byte (drop (length (kp_anchor k)) anchorPos) in
           if verStart = [] then None
           else let ver = takeWhile (\<lambda>c. \<not> is_space_byte c) verStart in
             if ver = [] then None
             else Some \<lparr>tc_vendor = copy_bounded TOOLCHAIN_VENDOR_MAX (kp_vendor k),
                        tc_command = copy_bounded TOOLCHAIN_COMMAND_MAX command,
                        tc_version = take (TOOLCHAIN_VERSION_MAX - 1) ver\<rparr>))"

fun first_match :: "StrApi \<Rightarrow> string \<Rightarrow> string \<Rightarrow> KnownProbe list \<Rightarrow> DetectedToolchain option" where
  "first_match api command banner [] = None"
| "first_match api command banner (k # ks) =
     (case match_probe api command banner k of None \<Rightarrow> first_match api command banner ks | Some t \<Rightarrow> Some t)"

definition ToolchainMatchBanner :: "StrApi \<Rightarrow> string \<Rightarrow> string \<Rightarrow> DetectedToolchain option" where
  "ToolchainMatchBanner api command banner = first_match api command banner g_known"

section \<open>Probing\<close>

definition banner_text :: "ExecResult \<Rightarrow> string" where
  "banner_text res = cstr (map chr_of (take (PROBE_BANNER_MAX * 2 - 1) (stdout_bytes res @ stderr_bytes res)))"

definition probe_request :: "string \<Rightarrow> ExecRequest" where
  "probe_request command =
     \<lparr>rq_cmdLine = command, rq_cwd = None, rq_timeout = PROBE_TIMEOUT_MS, rq_stdin = [],
      rq_cap = int PROBE_BANNER_MAX, rq_mem = 0, rq_cpu = 0, rq_bin = BIN_PE32\<rparr>"

text \<open>\<^const>\<open>None\<close> is a probe that does not return.\<close>

fun probe_all ::
    "StrApi \<Rightarrow> Features \<Rightarrow> 'w ExecOs \<Rightarrow> ('w \<Rightarrow> Turn list) \<Rightarrow> Catalog \<Rightarrow> KnownProbe list \<Rightarrow>
     DetectedToolchain list \<Rightarrow> 'w ExecState \<Rightarrow> (DetectedToolchain list \<times> 'w ExecState) option" where
  "probe_all api f os turns cat [] found st = Some (found, st)"
| "probe_all api f os turns cat (k # ks) found st =
     (if length found \<ge> TOOLCHAIN_MAX then Some (found, st)
      else if CatalogLookup api cat (kp_command k) = None then probe_all api f os turns cat ks found st
      else case ExecOpRun f os (turns (xw st)) (probe_request (kp_command k)) True st of
        None \<Rightarrow> None
      | Some (Inl _, st1) \<Rightarrow> probe_all api f os turns cat ks found st1
      | Some (Inr res, st1) \<Rightarrow>
          probe_all api f os turns cat ks
            (case ToolchainMatchBanner api (kp_command k) (banner_text res) of None \<Rightarrow> found | Some t \<Rightarrow> found @ [t]) st1)"

definition ToolchainProbe ::
    "StrApi \<Rightarrow> Features \<Rightarrow> 'w ExecOs \<Rightarrow> ('w \<Rightarrow> Turn list) \<Rightarrow> Catalog option \<Rightarrow> 'w ExecState \<Rightarrow>
     (DetectedToolchain list \<times> 'w ExecState) option" where
  "ToolchainProbe api f os turns cat st =
     (case cat of None \<Rightarrow> Some ([], st) | Some c \<Rightarrow> probe_all api f os turns c g_known [] st)"

section \<open>The member of the ready message\<close>

definition append_str :: "int \<Rightarrow> string \<Rightarrow> string \<Rightarrow> string option" where
  "append_str dstSize dst src =
     (if int (length dst) + int (length src) \<ge> dstSize then None else Some (dst @ src))"

interpretation probe_out: bounded_append append_str
  by unfold_locales (simp add: append_str_def writes_def)

definition tc_escape :: "char \<Rightarrow> string" where
  "tc_escape c =
     (if c = dq then [bsl, dq] else if c = bsl then [bsl, bsl] else if c = CHR 0x0A then [bsl, CHR ''n'']
      else if c = CHR 0x0D then [bsl, CHR ''r''] else if c = CHR 0x09 then [bsl, CHR ''t''] else [c])"

definition append_escaped :: "int \<Rightarrow> string \<Rightarrow> string \<Rightarrow> string option" where
  "append_escaped dstSize dst src = append_pieces append_str dstSize dst (map tc_escape src)"

text \<open>The appends of one tool, as the code makes them one after the other.\<close>

definition tc_item :: "int \<Rightarrow> string \<Rightarrow> DetectedToolchain \<Rightarrow> string option" where
  "tc_item n d t =
     Option.bind (append_str n d ''{\"vendor\":\"'') (\<lambda>d1.
     Option.bind (append_escaped n d1 (tc_vendor t)) (\<lambda>d2.
     Option.bind (append_str n d2 ''\",\"command\":\"'') (\<lambda>d3.
     Option.bind (append_escaped n d3 (tc_command t)) (\<lambda>d4.
     Option.bind (append_str n d4 ''\",\"version\":\"'') (\<lambda>d5.
     Option.bind (append_escaped n d5 (tc_version t)) (\<lambda>d6.
     append_str n d6 ''\"}''))))))"

fun tc_items :: "int \<Rightarrow> bool \<Rightarrow> DetectedToolchain list \<Rightarrow> string \<Rightarrow> string option" where
  "tc_items n first [] d = Some d"
| "tc_items n first (t # ts) d =
     Option.bind (if first then Some d else append_str n d '','') (\<lambda>d1.
     Option.bind (tc_item n d1 t) (tc_items n False ts))"

definition ToolchainAppendJson :: "DetectedToolchain list \<Rightarrow> int \<Rightarrow> string \<Rightarrow> string option" where
  "ToolchainAppendJson tools n d =
     Option.bind (append_str n d ''\"toolchains\":['') (\<lambda>d1.
     Option.bind (tc_items n True tools d1) (\<lambda>d2. append_str n d2 '']''))"

section \<open>Their texts\<close>

definition tc_text :: "DetectedToolchain \<Rightarrow> string" where
  "tc_text t = ''{\"vendor\":\"'' @ concat (map tc_escape (tc_vendor t)) @ ''\",\"command\":\"'' @
     concat (map tc_escape (tc_command t)) @ ''\",\"version\":\"'' @ concat (map tc_escape (tc_version t)) @ ''\"}''"

fun tc_texts :: "bool \<Rightarrow> DetectedToolchain list \<Rightarrow> string" where
  "tc_texts first [] = []"
| "tc_texts first (t # ts) = (if first then [] else '','') @ tc_text t @ tc_texts False ts"

lemma append_str_writes [simp]: "append_str n d s = writes n d s"
  by (simp add: append_str_def writes_def)

lemma escaped_piece_writes: "int (length d) < n \<Longrightarrow> append_escaped n d s = writes n d (concat (map tc_escape s))"
  by (simp add: append_escaped_def probe_out.pieces_fit)

lemma plain_then_escaped:
  "Option.bind (writes n d a) (\<lambda>d1. Option.bind (append_escaped n d1 v) f) =
   Option.bind (writes n d (a @ concat (map tc_escape v))) f"
  by (auto simp: writes_def escaped_piece_writes)

lemma tc_item_writes: "tc_item n d t = writes n d (tc_text t)"
proof -
  have "Option.bind (writes n d a) (\<lambda>d1.
     Option.bind (append_escaped n d1 (tc_vendor t)) (\<lambda>d2.
     Option.bind (append_str n d2 b) (\<lambda>d3.
     Option.bind (append_escaped n d3 (tc_command t)) (\<lambda>d4.
     Option.bind (append_str n d4 c) (\<lambda>d5.
     Option.bind (append_escaped n d5 (tc_version t)) (\<lambda>d6.
     append_str n d6 e)))))) =
     writes n d (a @ concat (map tc_escape (tc_vendor t)) @ b @ concat (map tc_escape (tc_command t)) @ c @
       concat (map tc_escape (tc_version t)) @ e)" for a b c e
    by (simp add: plain_then_escaped writes_bind writes_bind_more)
  then show ?thesis unfolding tc_item_def tc_text_def append_str_writes .
qed

lemma tc_items_writes: "int (length d) < n \<Longrightarrow> tc_items n first ts d = writes n d (tc_texts first ts)"
proof (induction ts arbitrary: first d)
  case (Cons t ts)
  have rest: "Option.bind (tc_item n d' t) (tc_items n False ts) = writes n d' (tc_text t @ tc_texts False ts)" for d'
    unfolding tc_item_writes by (rule writes_then) (rule Cons.IH)
  show ?case unfolding tc_items.simps tc_texts.simps rest append_str_writes
    using writes_bind [of n d "'',''" "tc_text t @ tc_texts False ts"] by (cases first) simp_all
qed (simp add: writes_Nil)

lemma append_json_writes: "ToolchainAppendJson ts n d = writes n d (''\"toolchains\":['' @ tc_texts True ts @ '']'')"
proof -
  have "Option.bind (tc_items n True ts d1) (\<lambda>d2. append_str n d2 '']'') = writes n d1 (tc_texts True ts @ '']'')"
    if "int (length d1) < n" for d1
    using that by (simp add: tc_items_writes writes_bind)
  then show ?thesis unfolding ToolchainAppendJson_def append_str_writes by (rule writes_then)
qed

end
