(* ===== verification/Ready.thy ===== *)
theory Ready
  imports Toolchain Mem EncTier
begin

text \<open>
  The ready message of \<^verbatim>\<open>src/src/ready.c\<close>, and that it always fits where the device
  builds it.
\<close>

section \<open>The message\<close>

definition ready_append :: "int \<Rightarrow> string \<Rightarrow> string \<Rightarrow> string option" where
  "ready_append dstSize dst src =
     (if int (length dst) + int (length src) \<ge> dstSize then None else Some (dst @ src))"

interpretation ready_out: bounded_append ready_append
  by unfold_locales (simp add: ready_append_def writes_def)

definition bool_field :: "string \<Rightarrow> bool \<Rightarrow> string list" where
  "bool_field key b = [[dq], key, (if b then ''\":true'' else ''\":false''), '','']"

definition ready_head :: "Features \<Rightarrow> nat \<Rightarrow> nat \<Rightarrow> string \<Rightarrow> string list" where
  "ready_head f oemcp acp transportName =
     [''{\"status\":\"ready\",\"codepage\":'', dec oemcp, '',\"version\":\"'', FeatVersionString f,
      ''\",\"transport\":\"'', transportName, ''\",\"features\":{''] @
     bool_field ''is_win32s'' (is_win32s f) @
     bool_field ''is_win9x'' (is_win9x f) @
     bool_field ''is_nt'' (is_nt f) @
     bool_field ''is_wow64'' (is_wow64 f) @
     bool_field ''threads'' (has_threads f) @
     bool_field ''job_objects'' (has_create_job_object f) @
     bool_field ''ctrl_events'' (has_generate_ctrl_event f) @
     bool_field ''pty'' (has_create_pseudo_console f) @
     [''\"binary_classify\":\"'', (if has_get_binary_type f then ''GetBinaryTypeA'' else ''manual''), ''\",''] @
     bool_field ''process_mitigation'' (has_set_process_mitigation f) @
     [''\"mem\":\"'', MemTierName (MemTierCurrent f), ''\",'', ''\"encoding\":\"'', EncProvenanceTag f acp, ''\",'']"

definition ready_tail :: "string \<Rightarrow> string list" where
  "ready_tail warning =
     [''}''] @ (if warning \<noteq> [] then ['',\"warning\":\"'', warning, [dq]] else []) @ [''}'' @ [CHR 0x0A]]"

text \<open>\<^const>\<open>None\<close> is the 0 of the C function; no warning is the empty one.\<close>

definition BuildReadyMessage ::
    "Features \<Rightarrow> nat \<Rightarrow> nat \<Rightarrow> string \<Rightarrow> string \<Rightarrow> DetectedToolchain list \<Rightarrow> int \<Rightarrow> string option" where
  "BuildReadyMessage f oemcp acp transportName warning tools jsonSize =
     (if jsonSize < 1 then None
      else Option.bind (append_pieces ready_append jsonSize [] (ready_head f oemcp acp transportName)) (\<lambda>d1.
           Option.bind (ToolchainAppendJson tools jsonSize d1) (\<lambda>d2.
           append_pieces ready_append jsonSize d2 (ready_tail warning))))"

section \<open>Its length\<close>

definition ready_text :: "Features \<Rightarrow> nat \<Rightarrow> nat \<Rightarrow> string \<Rightarrow> string \<Rightarrow> DetectedToolchain list \<Rightarrow> string" where
  "ready_text f oemcp acp transportName warning tools =
     concat (ready_head f oemcp acp transportName) @ (''\"toolchains\":['' @ tc_texts True tools @ '']'') @
     concat (ready_tail warning)"

lemma ready_writes:
  assumes "1 \<le> n"
  shows "BuildReadyMessage f oemcp acp tn warning tools n = writes n [] (ready_text f oemcp acp tn warning tools)"
proof -
  have head: "append_pieces ready_append n [] (ready_head f oemcp acp tn) = writes n [] (concat (ready_head f oemcp acp tn))"
    using assms by (intro ready_out.pieces_fit) simp
  have "Option.bind (ToolchainAppendJson tools n d) (\<lambda>d2. append_pieces ready_append n d2 (ready_tail warning)) =
      writes n d ((''\"toolchains\":['' @ tc_texts True tools @ '']'') @ concat (ready_tail warning))" for d
    unfolding append_json_writes by (rule writes_then) (rule ready_out.pieces_fit)
  then show ?thesis using assms head
    by (simp add: BuildReadyMessage_def ready_text_def writes_bind del: append_pieces.simps append_assoc)
qed

lemma length_dec_le: "n < 10 ^ k \<Longrightarrow> 0 < k \<Longrightarrow> length (dec n) \<le> k"
proof (induction k arbitrary: n)
  case (Suc k)
  show ?case
  proof (cases "n < 10")
    case False
    then have "0 < k" using Suc.prems by (cases k) auto
    moreover have "n div 10 < 10 ^ k" using Suc.prems by (simp add: less_mult_imp_div_less mult.commute)
    ultimately have "length (dec (n div 10)) \<le> k" by (rule Suc.IH [rotated])
    then show ?thesis using False by (subst dec.simps) simp
  qed (subst dec.simps, simp)
qed simp

definition small_tool :: "DetectedToolchain \<Rightarrow> bool" where
  "small_tool t \<longleftrightarrow> length (tc_vendor t) \<le> 11 \<and> length (tc_command t) \<le> 6 \<and> length (tc_version t) \<le> 127"

lemma length_escape: "length (concat (map tc_escape s)) \<le> 2 * length s"
  by (induction s) (auto simp: tc_escape_def)

lemma length_tool: "small_tool t \<Longrightarrow> length (tc_text t) \<le> 327"
  using length_escape [of "tc_vendor t"] length_escape [of "tc_command t"] length_escape [of "tc_version t"]
  by (simp add: tc_text_def small_tool_def)

lemma length_tools: "list_all small_tool ts \<Longrightarrow> length (tc_texts b ts) \<le> 328 * length ts"
proof (induction ts arbitrary: b)
  case (Cons t ts)
  then have "length (tc_text t) \<le> 327" "length (tc_texts False ts) \<le> 328 * length ts" using length_tool by auto
  then show ?case by (cases b) simp_all
qed simp

lemma known_tool:
  assumes "k \<in> set g_known" "match_probe api c banner k = Some t" "length c \<le> 6"
  shows "small_tool t"
proof -
  have "length (kp_vendor k) \<le> 11" using assms(1) by (auto simp: g_known_def)
  then show ?thesis using assms(2,3)
    by (auto simp: match_probe_def small_tool_def copy_bounded_def TOOLCHAIN_VERSION_MAX_def TOOLCHAIN_VENDOR_MAX_def
        TOOLCHAIN_COMMAND_MAX_def Let_def split: if_splits option.splits)
qed

lemma first_match_tool:
  "first_match api c banner ks = Some t \<Longrightarrow> set ks \<subseteq> set g_known \<Longrightarrow> length c \<le> 6 \<Longrightarrow> small_tool t"
  by (induction ks) (auto split: option.splits dest: known_tool)

lemma probe_all_small:
  "probe_all api f os turns cat ks found st = Some (ts, st') \<Longrightarrow> list_all small_tool found \<Longrightarrow>
     set ks \<subseteq> set g_known \<Longrightarrow> list_all small_tool ts \<and> length ts \<le> length found + length ks"
proof (induction ks arbitrary: found st)
  case (Cons k ks)
  have k: "length (kp_command k) \<le> 6" using Cons.prems(3) by (auto simp: g_known_def)
  have tool: "small_tool t" if "ToolchainMatchBanner api (kp_command k) b = Some t" for b t
    using first_match_tool [OF that [unfolded ToolchainMatchBanner_def] order.refl k] .
  show ?case using Cons.prems Cons.IH tool
    by (auto split: if_splits option.splits sum.splits prod.splits; fastforce)
qed auto

text \<open>The version of the host, which no probe changes and whose parts are bytes and a word.\<close>

definition version_of :: "Features \<Rightarrow> nat \<times> nat \<times> nat" where
  "version_of f = (win_major f, win_minor f, win_build f)"

lemma version_flags:
  "version_of (has_create_job_object_update g f) = version_of f"
  "version_of (has_query_full_image_name_update g f) = version_of f"
  "version_of (has_generate_ctrl_event_update g f) = version_of f"
  "version_of (has_is_wow64_process_update g f) = version_of f"
  "version_of (has_get_binary_type_update g f) = version_of f"
  "version_of (has_set_process_mitigation_update g f) = version_of f"
  "version_of (has_proc_thread_attr_list_update g f) = version_of f"
  "version_of (has_create_pseudo_console_update g f) = version_of f"
  "version_of (has_wide_createprocess_update g f) = version_of f"
  "version_of (has_wide_fileapi_update g f) = version_of f"
  "version_of (is_wow64_update g f) = version_of f"
  "version_of (has_threads_update g f) = version_of f"
  "version_of (is_win32s_update g f) = version_of f"
  by (simp_all add: version_of_def)

lemma version_resolve: "version_of (resolve h n f) = version_of f"
  by (simp add: resolve_def version_of_def)

lemma version_flagged: "(\<And>f. version_of (up f) = version_of f) \<Longrightarrow> version_of (flagged h n up f) = version_of f"
  by (simp add: flagged_def version_resolve)

lemma version_group: "(\<And>f. version_of (up f) = version_of f) \<Longrightarrow> version_of (group h ns up f) = version_of f"
proof -
  assume up: "\<And>f. version_of (up f) = version_of f"
  have "version_of (fold (resolve h) ns f) = version_of f"
    by (induction ns arbitrary: f) (simp_all add: version_resolve)
  then show ?thesis by (simp add: group_def Let_def up)
qed

lemma version_stages:
  "version_of (feat_jobs h f) = version_of f" "version_of (feat_singles h f) = version_of f"
  "version_of (feat_pty h f) = version_of f" "version_of (feat_wide h f) = version_of f"
  "version_of (feat_wow64 h f) = version_of f" "version_of (feat_threads h f) = version_of f"
  by (simp_all add: feat_jobs_def feat_singles_def feat_pty_def feat_wide_def feat_wow64_def feat_threads_def
      version_flagged version_group version_resolve version_flags split: option.split)

lemma version_bytes: "win_major (FeatInit h) < 256 \<and> win_minor (FeatInit h) < 256 \<and> win_build (FeatInit h) < 65536"
proof -
  have "version_of (FeatInit h) = version_of (feat_version h no_features)"
    by (simp add: FeatInit_def Let_def version_stages)
  moreover have "unat (x AND 0xFF) < 256" "unat (x AND 0xFFFF) < 65536" for x :: u32
    using word_and_le1 [of x "0xFF"] word_and_le1 [of x "0xFFFF"] by (simp_all add: word_le_nat_alt)
  ultimately show ?thesis by (auto simp: version_of_def feat_version_def Let_def split: if_splits)
qed

lemma length_version: "length (FeatVersionString (FeatInit h)) \<le> 31"
proof -
  have "length (dec (win_major (FeatInit h))) \<le> 3" "length (dec (win_minor (FeatInit h))) \<le> 3"
    "length (dec (win_build (FeatInit h))) \<le> 5"
    using version_bytes [of h] by (intro length_dec_le; simp)+
  then show ?thesis by (simp add: FeatVersionString_def Let_def)
qed

lemma length_names: "length (MemTierName m) \<le> 9" "length (EncProvenanceTag f acp) \<le> 13"
  by (cases m; simp) (cases "EncTierCurrent f acp"; simp add: EncProvenanceTag_def)

lemma length_bool_field: "length (concat (bool_field key b)) \<le> length key + 9"
  by (simp add: bool_field_def)

lemma length_head:
  assumes "oemcp < 2 ^ 31" "length tn \<le> 6"
  shows "length (concat (ready_head (FeatInit h) oemcp acp tn)) \<le> 600"
proof -
  have "oemcp < 10 ^ 10" using assms(1) by simp
  then have "length (dec oemcp) \<le> 10" by (rule length_dec_le) simp
  note this length_version [of h] assms(2) length_names(1) [of "MemTierCurrent (FeatInit h)"]
    length_names(2) [of "FeatInit h" acp]
    length_bool_field [of "''is_win32s''" "is_win32s (FeatInit h)"] length_bool_field [of "''is_win9x''" "is_win9x (FeatInit h)"]
    length_bool_field [of "''is_nt''" "is_nt (FeatInit h)"] length_bool_field [of "''is_wow64''" "is_wow64 (FeatInit h)"]
    length_bool_field [of "''threads''" "has_threads (FeatInit h)"]
    length_bool_field [of "''job_objects''" "has_create_job_object (FeatInit h)"]
    length_bool_field [of "''ctrl_events''" "has_generate_ctrl_event (FeatInit h)"]
    length_bool_field [of "''pty''" "has_create_pseudo_console (FeatInit h)"]
    length_bool_field [of "''process_mitigation''" "has_set_process_mitigation (FeatInit h)"]
  then show ?thesis unfolding ready_head_def concat_append length_append by simp
qed

lemma probe_small:
  assumes "ToolchainProbe api f os turns cat st = Some (tools, st')"
  shows "list_all small_tool tools \<and> length tools \<le> 3"
proof (cases cat)
  case (Some c)
  then have "probe_all api f os turns c g_known [] st = Some (tools, st')" using assms by (simp add: ToolchainProbe_def)
  from probe_all_small [OF this] show ?thesis by (auto simp: g_known_def)
qed (use assms in \<open>simp add: ToolchainProbe_def\<close>)

text \<open>
  C39: the ready message is never dropped: with the version of any host, whatever the
  probes have found in their banners, on either transport, with the warning and without
  it, it is built whole within the 2048 bytes the device gives it.
\<close>

theorem ready_always_fits:
  assumes "ToolchainProbe api (FeatInit h) os turns cat st = Some (tools, st')" "oemcp < 2 ^ 31"
    and "tn \<in> {''tcp'', ''serial''}" "warning \<in> {[], ''catalog not loaded''}"
  shows "BuildReadyMessage (FeatInit h) oemcp acp tn warning tools 2048 =
    Some (ready_text (FeatInit h) oemcp acp tn warning tools)"
proof -
  have "length (concat (ready_head (FeatInit h) oemcp acp tn)) \<le> 600"
    using assms(3) by (intro length_head [OF assms(2)]) auto
  moreover have "length (tc_texts True tools) \<le> 984"
    using probe_small [OF assms(1)] length_tools [of tools True] by linarith
  moreover have "length (concat (ready_tail warning)) \<le> 40" using assms(4) by (auto simp: ready_tail_def)
  ultimately have "length (ready_text (FeatInit h) oemcp acp tn warning tools) < 2048" by (simp add: ready_text_def)
  then show ?thesis by (subst ready_writes) (simp_all add: writes_fits)
qed

lemma ready_always_fits_witness:
  "BuildReadyMessage (FeatInit \<lparr>GetVersion = 0x0A280004, CreateThread_works = True, kernel32_loaded = False,
      exports = (\<lambda>n. False), IsWow64 = None\<rparr>) 437 1252 ''tcp'' ''catalog not loaded'' [] 2048 \<noteq> None"
proof -
  have "ToolchainProbe api f os turns None st = Some ([], st)" for api f and os :: "'a ExecOs" and turns st
    by (simp add: ToolchainProbe_def)
  from ready_always_fits [OF this, of 437 "''tcp''" "''catalog not loaded''"] show ?thesis by simp
qed

end
