(* ===== verification/Reply.thy ===== *)
theory Reply
  imports Json BinFmt ExecOps EncTier Transport
begin

text \<open>
  How the device answers: the bounded assembly of \<^verbatim>\<open>src/src/mcp-w32s.c\<close>, the names of its
  vocabulary, and the texts of the answers with more than one member.
\<close>

section \<open>Assembly\<close>

definition resp_append :: "int \<Rightarrow> string \<Rightarrow> string \<Rightarrow> string option" where
  "resp_append dstSize dst src =
     (if int (length dst) + int (length src) \<ge> dstSize then None else Some (dst @ src))"

interpretation reply_out: bounded_append resp_append
  by unfold_locales (simp add: resp_append_def writes_def)

text \<open>A number as \<^verbatim>\<open>wsprintfA\<close> writes it.\<close>

definition signed_dec :: "int \<Rightarrow> string" where
  "signed_dec i = (if i < 0 then ''-'' @ dec (nat (- i)) else dec (nat i))"

definition resp_append_int :: "int \<Rightarrow> string \<Rightarrow> int \<Rightarrow> string option" where
  "resp_append_int dstSize dst value = resp_append dstSize dst (signed_dec value)"

text \<open>A chain of appends to the response buffer; a number is a piece like the others.\<close>

definition response :: "string list \<Rightarrow> string option" where
  "response ps = append_pieces resp_append (int MCP_MAX_RESPONSE) [] ps"

lemma resp_append_int_piece: "resp_append_int n d v = append_pieces resp_append n d [signed_dec v]"
  by (simp add: resp_append_int_def split: option.split)

lemma response_eq:
  "response ps = (if length (concat ps) < MCP_MAX_RESPONSE then Some (concat ps) else None)"
  unfolding response_def by (subst reply_out.pieces_fit) (simp_all add: MCP_MAX_RESPONSE_def writes_def)

section \<open>Vocabulary\<close>

fun binary_type_name :: "BinaryType \<Rightarrow> string" where
  "binary_type_name BIN_PE32 = ''pe32''"
| "binary_type_name BIN_NE16 = ''ne16''"
| "binary_type_name BIN_MZ = ''mz''"
| "binary_type_name BIN_SHELL = ''shell-builtin''"
| "binary_type_name BIN_UNKNOWN = ''unknown''"

fun killed_by_name :: "KilledBy \<Rightarrow> string" where
  "killed_by_name EXEC_KILLED_TIMEOUT = ''timeout''"
| "killed_by_name EXEC_KILLED_CTRL_BREAK = ''ctrl_break''"
| "killed_by_name EXEC_KILLED_MEMORY_CAP = ''memory_cap''"
| "killed_by_name EXEC_KILLED_CPU_CAP = ''cpu_cap''"
| "killed_by_name EXEC_KILLED_NONE = []"

definition json_flag :: "bool \<Rightarrow> string" where
  "json_flag b = (if b then ''true'' else ''false'')"

section \<open>The answers\<close>

definition error_reply :: "string \<Rightarrow> string \<Rightarrow> string option" where
  "error_reply rid reason = BuildJsonResponse rid ''error'' ''error'' reason (int MCP_MAX_RESPONSE)"

definition busy_reply :: "string \<Rightarrow> string \<Rightarrow> u32 \<Rightarrow> string option" where
  "busy_reply rid cmdLine elapsed =
     (let escaped = (case JsonEscape cmdLine (int MCP_MAX_LINE * 2) of None \<Rightarrow> [] | Some e \<Rightarrow> e) in
      response
        [''{\"id\":\"'', rid, ''\",\"status\":\"error\",\"error\":\"busy\",\"blocking_cmd_line\":\"'', escaped,
         ''\",\"elapsed_ms\":'', signed_dec (sint elapsed), ''}'' @ [CHR 0x0A]])"

definition listing_reply :: "string \<Rightarrow> string \<Rightarrow> string option" where
  "listing_reply rid listing =
     response [''{\"id\":\"'', rid, ''\",\"status\":\"ok\",\"commands\":'', listing, ''}'' @ [CHR 0x0A]]"

definition pty_reply :: "string \<Rightarrow> int \<Rightarrow> string \<Rightarrow> bool \<Rightarrow> int \<Rightarrow> bool \<Rightarrow> string option" where
  "pty_reply rid code out_b64 lost duration unsafe =
     response
       [''{\"id\":\"'', rid, ''\",\"status\":\"ok\",\"exit_code\":'', signed_dec code, '',\"output_b64\":\"'', out_b64,
        ''\",\"output_kind\":\"utf8\",\"output_truncated\":'', json_flag lost, '',\"duration_ms\":'', signed_dec duration,
        (if unsafe then '',\"unsafe_used\":true}'' else ''}'') @ [CHR 0x0A]]"

definition exec_method :: "BinaryType \<Rightarrow> bool \<Rightarrow> string" where
  "exec_method bin viaShell =
     (if bin = BIN_NE16 \<or> bin = BIN_MZ then ''vdm-best-effort'' else if viaShell then ''shell'' else ''direct'')"

definition exec_reply ::
    "string \<Rightarrow> ExecResult \<Rightarrow> string \<Rightarrow> string \<Rightarrow> bool \<Rightarrow> bool \<Rightarrow> BinaryType \<Rightarrow> bool \<Rightarrow> bool \<Rightarrow> string option" where
  "exec_reply rid res out_b64 err_b64 outCut errCut bin viaShell unsafe =
     response
       [''{\"id\":\"'', rid, ''\",\"status\":\"ok\",\"exit_code\":'', signed_dec (exit_code res),
        '',\"stdout_b64\":\"'', out_b64, ''\",\"stderr_b64\":\"'', err_b64, ''\",\"stdout_truncated\":'', json_flag outCut,
        '',\"stderr_truncated\":'', json_flag errCut, '',\"duration_ms\":'', signed_dec (duration_ms res),
        '',\"exec_method\":\"'', exec_method bin viaShell, ''\",\"binary_type\":\"'', binary_type_name bin,
        ''\",\"killed_by\":\"'', killed_by_name (killed_by res),
        (if unsafe then ''\",\"unsafe_used\":true}'' else ''\"}'') @ [CHR 0x0A]]"

definition token_reply :: "string \<Rightarrow> string \<Rightarrow> u32 \<Rightarrow> string option" where
  "token_reply rid token pid =
     response [''{\"id\":\"'', rid, ''\",\"status\":\"ok\",\"token\":\"'', token, ''\",\"pid\":'', signed_dec (sint pid),
       ''}'' @ [CHR 0x0A]]"

definition peek_reply :: "string \<Rightarrow> string \<Rightarrow> nat \<Rightarrow> bool \<Rightarrow> string option" where
  "peek_reply rid data_b64 n lost =
     response [''{\"id\":\"'', rid, ''\",\"status\":\"ok\",\"data_b64\":\"'', data_b64, ''\",\"bytes_read\":'',
       signed_dec (int n), '',\"truncated\":'', json_flag lost, ''}'' @ [CHR 0x0A]]"

definition poke_reply :: "string \<Rightarrow> u32 \<Rightarrow> bool \<Rightarrow> string option" where
  "poke_reply rid n part =
     response [''{\"id\":\"'', rid, ''\",\"status\":\"ok\",\"bytes_written\":'', signed_dec (sint n),
       '',\"partial\":'', json_flag part, ''}'' @ [CHR 0x0A]]"

definition done_reply :: "string \<Rightarrow> string \<Rightarrow> string option" where
  "done_reply rid what = response [''{\"id\":\"'', rid, ''\",\"status\":\"ok\",\"'' @ what @ ''\":true}'' @ [CHR 0x0A]]"

end
