(* ===== verification/ExecAdmit.thy ===== *)
theory ExecAdmit
  imports StrUtil Base64 Argv Json Catalog BinFmt
begin

text \<open>
  The admission of an exec request, the first half of \<^verbatim>\<open>HandleExec\<close> in
  \<^verbatim>\<open>src/src/mcp-w32s.c\<close>: name, input, terminal gate, catalog gate, command line, length
  and the values that stand for a default.  The busy domain before it and the run
  behind it are in \<^verbatim>\<open>Device\<close>.
\<close>

section \<open>Name and input\<close>

definition EXEC_STDIN_MAX :: int where "EXEC_STDIN_MAX = 4096"
definition EXEC_DEFAULT_TIMEOUT_MS :: int where "EXEC_DEFAULT_TIMEOUT_MS = 55000"
definition EXEC_MAX_TIMEOUT_MS :: int where "EXEC_MAX_TIMEOUT_MS = 600000"
definition EXEC_OUTPUT_CAP :: int where "EXEC_OUTPUT_CAP = 65536"
definition EXEC_SHELL_CMDLINE_MAX :: nat where "EXEC_SHELL_CMDLINE_MAX = 8192"

text \<open>The size of the buffers for command lines.\<close>

definition LINE_BUF :: int where "LINE_BUF = 32768"

definition exec_name :: "(string \<Rightarrow> string) \<Rightarrow> JsonCommand \<Rightarrow> string option" where
  "exec_name cn c =
     (if argv c \<noteq> [] then McpStrCpyN cn [] (hd (argv c)) (int MCP_MAX_ARG_LEN)
      else Some (take (MCP_MAX_ARG_LEN - 1) (takeWhile (\<lambda>x. x \<noteq> CHR '' '') (cmd_line c))))"

definition exec_stdin :: "JsonCommand \<Rightarrow> string + u8 list" where
  "exec_stdin c =
     (if stdin_b64 c = [] then Inr []
      else case Base64Decode (Some (stdin_b64 c)) (EXEC_STDIN_MAX + 2048) of
        (n, bytes) \<Rightarrow>
          if n < 0 then Inl ''invalid base64''
          else if n > EXEC_STDIN_MAX then Inl ''stdin too large''
          else Inr (take (nat n) bytes))"

section \<open>The catalog gate\<close>

record Gate =
  gt_unsafe :: bool
  gt_shell :: bool
  gt_entry :: "CatalogEntry option"

definition exec_gate :: "StrApi \<Rightarrow> Catalog option \<Rightarrow> bool \<Rightarrow> JsonCommand \<Rightarrow> string \<Rightarrow> string + Gate" where
  "exec_gate api cat unsafe c name =
     (if unsafe_flag c then Inr \<lparr>gt_unsafe = True, gt_shell = shell_flag c, gt_entry = None\<rparr>
      else if unsafe \<or> cat = None then Inr \<lparr>gt_unsafe = False, gt_shell = shell_flag c, gt_entry = None\<rparr>
      else case CatalogLookup api (the cat) name of
        None \<Rightarrow> Inl ''command not in catalog''
      | Some e \<Rightarrow>
          if argv c \<noteq> [] \<and> CatalogValidateArgs api (Some e) (argv c) \<noteq> Inr () then Inl ''argument not allowed''
          else Inr \<lparr>gt_unsafe = False, gt_shell = (shell_flag c \<or> is_builtin e), gt_entry = Some e\<rparr>)"

definition via_builtin :: "Gate \<Rightarrow> bool" where
  "via_builtin g = (case gt_entry g of None \<Rightarrow> False | Some e \<Rightarrow> is_builtin e)"

section \<open>The command line\<close>

text \<open>The catalog's own prefix is for the argument vector alone; a line brings its name with it.\<close>

definition builtin_prefix :: "JsonCommand \<Rightarrow> Gate \<Rightarrow> bool" where
  "builtin_prefix c g \<longleftrightarrow> via_builtin g \<and> argv c \<noteq> []"

definition shell_prefix :: "Features \<Rightarrow> JsonCommand \<Rightarrow> Gate \<Rightarrow> string" where
  "shell_prefix f c g =
     (if builtin_prefix c g then
        (if is_win32s f then shell_win32s (the (gt_entry g)) else shell_modern (the (gt_entry g)))
      else if is_win32s f then ''command.com /c'' else ''cmd.exe /c'')"

text \<open>What the caller asked for: the vector without the name of a builtin, or the line.\<close>

definition exec_tail :: "(string \<Rightarrow> string) \<Rightarrow> JsonCommand \<Rightarrow> Gate \<Rightarrow> (string + string) option" where
  "exec_tail cn c g =
     (if argv c \<noteq> [] then
        Some (case ArgvJoin (if builtin_prefix c g then tl (argv c) else argv c) LINE_BUF of
                None \<Rightarrow> Inl ''invalid argv''
              | Some joined \<Rightarrow> Inr joined)
      else map_option Inr (McpStrCpyN cn [] (cmd_line c) LINE_BUF))"

definition shell_line :: "(string \<Rightarrow> string) \<Rightarrow> string \<Rightarrow> string \<Rightarrow> (string + string) option" where
  "shell_line cn prefix' joined =
     (case ArgvCmdEscape joined LINE_BUF of
        None \<Rightarrow> Some (Inl ''command line too long'')
      | Some escaped \<Rightarrow>
          map_option (\<lambda>base.
            if escaped = [] then Inr base
            else if int (length base) + 1 + int (length escaped) \<ge> LINE_BUF then Inl ''command line too long''
            else Inr (base @ '' '' @ escaped))
            (McpStrCpyN cn [] prefix' LINE_BUF))"

definition exec_line :: "(string \<Rightarrow> string) \<Rightarrow> Features \<Rightarrow> JsonCommand \<Rightarrow> Gate \<Rightarrow> (string + string) option" where
  "exec_line cn f c g =
     (case exec_tail cn c g of
        None \<Rightarrow> None
      | Some (Inl why) \<Rightarrow> Some (Inl why)
      | Some (Inr joined) \<Rightarrow>
          if gt_shell g then shell_line cn (shell_prefix f c g) joined
          else map_option Inr (McpStrCpyN cn [] joined LINE_BUF))"

section \<open>The admission\<close>

definition effective_timeout :: "JsonCommand \<Rightarrow> int" where
  "effective_timeout c =
     (if timeout_ms c \<le> 0 then EXEC_DEFAULT_TIMEOUT_MS
      else if timeout_ms c > EXEC_MAX_TIMEOUT_MS then EXEC_MAX_TIMEOUT_MS else timeout_ms c)"

definition effective_cap :: "JsonCommand \<Rightarrow> int" where
  "effective_cap c = (if max_output c \<le> 0 \<or> max_output c > EXEC_OUTPUT_CAP then EXEC_OUTPUT_CAP else max_output c)"

record Admission =
  ad_name :: string
  ad_stdin :: "u8 list"
  ad_gate :: Gate
  ad_line :: string

text \<open>\<^const>\<open>None\<close> is a copy that does not return: a character step that stands still.\<close>

definition admit ::
    "StrApi \<Rightarrow> (string \<Rightarrow> string) \<Rightarrow> Features \<Rightarrow> Catalog option \<Rightarrow> bool \<Rightarrow> bool \<Rightarrow> JsonCommand \<Rightarrow>
     (string + Admission) option" where
  "admit api cn f cat unsafe isPty c =
     (case exec_name cn c of
        None \<Rightarrow> None
      | Some name \<Rightarrow>
          if name = [] then Some (Inl ''spawn failed: empty command line'')
          else case exec_stdin c of
            Inl why \<Rightarrow> Some (Inl why)
          | Inr bytes \<Rightarrow>
              if isPty \<and> \<not> has_create_pseudo_console f then Some (Inl ''pty not available on this Windows'')
              else case exec_gate api cat unsafe c name of
                Inl why \<Rightarrow> Some (Inl why)
              | Inr g \<Rightarrow>
                  map_option (\<lambda>r. case r of
                      Inl why \<Rightarrow> Inl why
                    | Inr l \<Rightarrow>
                        if length l > (if gt_shell g then EXEC_SHELL_CMDLINE_MAX else 32766)
                        then Inl ''command line too long''
                        else Inr \<lparr>ad_name = name, ad_stdin = bytes, ad_gate = g, ad_line = l\<rparr>)
                    (exec_line cn f c g))"

text \<open>The class of the program; the names of the shell and what goes through it have no file.\<close>

definition exec_classify ::
    "Features \<Rightarrow> 'w BinOs \<Rightarrow> Gate \<Rightarrow> string \<Rightarrow> 'w \<Rightarrow> BinaryType option \<times> 'w" where
  "exec_classify f os g name w =
     (if via_builtin g then (Some BIN_SHELL, w)
      else if gt_shell g then (Some BIN_SHELL, w)
      else case BinFmtClassify f os name w of
        (Inl _, w1) \<Rightarrow> (Some BIN_UNKNOWN, w1)
      | (Inr b, w1) \<Rightarrow> (b, w1))"

section \<open>What an admission means\<close>

lemma admitE:
  assumes "admit api cn f cat unsafe isPty c = Some (Inr ad)"
  shows "exec_name cn c = Some (ad_name ad)" "ad_name ad \<noteq> []" "exec_stdin c = Inr (ad_stdin ad)"
    "isPty \<Longrightarrow> has_create_pseudo_console f" "exec_gate api cat unsafe c (ad_name ad) = Inr (ad_gate ad)"
    "exec_line cn f c (ad_gate ad) = Some (Inr (ad_line ad))"
    "length (ad_line ad) \<le> (if gt_shell (ad_gate ad) then EXEC_SHELL_CMDLINE_MAX else 32766)"
proof -
  obtain name where n: "exec_name cn c = Some name" using assms by (auto simp: admit_def split: option.splits)
  obtain bytes where b: "exec_stdin c = Inr bytes" using assms n by (auto simp: admit_def split: if_splits sum.splits)
  obtain g where g: "exec_gate api cat unsafe c name = Inr g"
    using assms n b by (auto simp: admit_def split: if_splits sum.splits)
  obtain z where z: "exec_line cn f c g = Some z" using assms n b g by (auto simp: admit_def split: if_splits)
  obtain l where "z = Inr l" using assms n b g z by (cases z) (auto simp: admit_def split: if_splits)
  then have l: "exec_line cn f c g = Some (Inr l)" using z by simp
  have "ad = \<lparr>ad_name = name, ad_stdin = bytes, ad_gate = g, ad_line = l\<rparr>" "name \<noteq> []" "isPty \<Longrightarrow> has_create_pseudo_console f"
    "length l \<le> (if gt_shell g then EXEC_SHELL_CMDLINE_MAX else 32766)"
    using assms n b g l by (auto simp: admit_def split: if_splits)
  then show "exec_name cn c = Some (ad_name ad)" "ad_name ad \<noteq> []" "exec_stdin c = Inr (ad_stdin ad)"
    "isPty \<Longrightarrow> has_create_pseudo_console f" "exec_gate api cat unsafe c (ad_name ad) = Inr (ad_gate ad)"
    "exec_line cn f c (ad_gate ad) = Some (Inr (ad_line ad))"
    "length (ad_line ad) \<le> (if gt_shell (ad_gate ad) then EXEC_SHELL_CMDLINE_MAX else 32766)"
    using n b g l by simp_all
qed

text \<open>The entry a request runs under: none where the gate was overridden.\<close>

definition overridden :: "bool \<Rightarrow> JsonCommand \<Rightarrow> bool" where
  "overridden unsafe c \<longleftrightarrow> unsafe \<or> unsafe_flag c"

lemma gateE:
  assumes "exec_gate api (Some cat) unsafe c name = Inr g"
  obtains (over) "overridden unsafe c" "gt_entry g = None" "gt_shell g = shell_flag c"
  | (entry) e where "\<not> overridden unsafe c" "CatalogLookup api cat name = Some e" "gt_entry g = Some e" "\<not> gt_unsafe g"
      "gt_shell g = (shell_flag c \<or> is_builtin e)" "argv c = [] \<or> CatalogValidateArgs api (Some e) (argv c) = Inr ()"
  using assms by (auto simp: exec_gate_def overridden_def split: option.splits if_splits)

lemma shell_line_text:
  assumes "char_stepper cn" "int (length prefix') < LINE_BUF" "shell_line cn prefix' joined = Some (Inr l)"
  shows "l = prefix' @ (if joined = [] then [] else '' '' @ with_carets joined)"
  using assms(3) char_stepper.copy_fits [OF assms(1,2)]
  by (auto simp: shell_line_def escape_carets with_carets_Nil split: if_splits)

text \<open>The tail of a vector is read back as it was given.\<close>

lemma tail_tokens:
  assumes "exec_tail cn c g = Some (Inr joined)" "argv c \<noteq> []"
  shows "ref_tokenize joined False False [] = (if builtin_prefix c g then tl (argv c) else argv c)"
    "int (length joined) < LINE_BUF"
  using assms by (auto simp: exec_tail_def join_writes writes_def tok_join split: option.splits if_splits)

lemma prefix_fits:
  assumes "\<And>e. gt_entry g = Some e \<Longrightarrow> wf_entry e"
  shows "int (length (shell_prefix f c g)) < LINE_BUF"
  using assms
  by (auto simp: shell_prefix_def builtin_prefix_def via_builtin_def wf_entry_def CATALOG_SHELL_LEN_def LINE_BUF_def split: option.splits)

lemma lookup_wf: "wf_catalog cat \<Longrightarrow> CatalogLookup api cat name = Some e \<Longrightarrow> wf_entry e"
  by (auto simp: CatalogLookup_def find_Some_iff wf_catalog_def list_all_iff)

text \<open>
  What a request asks to be run: its vector, without the name where the catalog's prefix
  brings it, as a line that is read back as that vector; or its line.
\<close>

definition asks_for :: "JsonCommand \<Rightarrow> bool \<Rightarrow> string \<Rightarrow> bool" where
  "asks_for c named joined \<longleftrightarrow>
     (if argv c \<noteq> [] then ref_tokenize joined False False [] = (if named then tl (argv c) else argv c)
      else joined = cmd_line c)"

lemma tail_asks:
  assumes "char_stepper cn" "field_bounds c" "exec_tail cn c g = Some (Inr joined)"
  shows "asks_for c (via_builtin g) joined" "int (length joined) < LINE_BUF"
proof -
  have "int (length (cmd_line c)) < LINE_BUF"
    using assms(2) by (simp add: field_bounds_def LINE_BUF_def MCP_MAX_LINE_def)
  then have l: "McpStrCpyN cn [] (cmd_line c) LINE_BUF = Some (cmd_line c)" by (rule char_stepper.copy_fits [OF assms(1)])
  show "asks_for c (via_builtin g) joined" "int (length joined) < LINE_BUF"
  proof (atomize (full), cases "argv c = []")
    case True
    then show "asks_for c (via_builtin g) joined \<and> int (length joined) < LINE_BUF"
      using assms(3) l \<open>int (length (cmd_line c)) < LINE_BUF\<close> by (auto simp: exec_tail_def asks_for_def)
  next
    case False
    then show "asks_for c (via_builtin g) joined \<and> int (length joined) < LINE_BUF"
      using tail_tokens [OF assms(3) False] by (simp add: asks_for_def builtin_prefix_def)
  qed
qed

lemma name_of:
  assumes "char_stepper cn" "field_bounds c" "exec_name cn c = Some name"
  shows "name = (if argv c \<noteq> [] then hd (argv c) else take (MCP_MAX_ARG_LEN - 1) (takeWhile (\<lambda>x. x \<noteq> CHR '' '') (cmd_line c)))"
proof (cases "argv c = []")
  case False
  then have "length (hd (argv c)) < MCP_MAX_ARG_LEN" using assms(2) by (auto simp: field_bounds_def)
  then show ?thesis using assms(3) False char_stepper.copy_fits [OF assms(1), of "hd (argv c)"] by (simp add: exec_name_def)
qed (use assms(3) in \<open>simp add: exec_name_def\<close>)

text \<open>
  C2: what an admitted request runs, exactly, in both of its forms and with and without the
  override.  Without it the name is that of an entry of the catalog and a vector has none but
  the flags of the entry.  The line is the request's own, a vector joined so that its
  tokenizer reads it back, or the text as it was sent; where it goes through the shell, it
  stands behind the prefix of the shell, or behind the entry's own prefix and without its
  name where the entry is a builtin and the request a vector, with a caret before each
  metacharacter outside quotes and nothing else changed.
\<close>

theorem admit_exact:
  assumes "char_stepper cn" "wf_catalog cat" "field_bounds c"
    and "admit api cn f (Some cat) unsafe isPty c = Some (Inr ad)"
  shows "\<exists>entry joined.
    (if unsafe \<or> unsafe_flag c then entry = None
     else \<exists>e. entry = Some e \<and> (argv c = [] \<or> CatalogValidateArgs api (Some e) (argv c) = Inr ()) \<and>
       CatalogLookup api cat (if argv c \<noteq> [] then hd (argv c)
         else take (MCP_MAX_ARG_LEN - 1) (takeWhile (\<lambda>x. x \<noteq> CHR '' '') (cmd_line c))) = Some e) \<and>
    asks_for c (case entry of None \<Rightarrow> False | Some e \<Rightarrow> is_builtin e) joined \<and>
    ad_line ad =
      (case entry of
         Some e \<Rightarrow>
           if is_builtin e \<and> argv c \<noteq> []
           then (if is_win32s f then shell_win32s e else shell_modern e) @ (if joined = [] then [] else '' '' @ with_carets joined)
           else if is_builtin e \<or> shell_flag c
           then (if is_win32s f then ''command.com /c'' else ''cmd.exe /c'') @ (if joined = [] then [] else '' '' @ with_carets joined)
           else joined
       | None \<Rightarrow>
           if shell_flag c
           then (if is_win32s f then ''command.com /c'' else ''cmd.exe /c'') @ (if joined = [] then [] else '' '' @ with_carets joined)
           else joined)"
proof -
  note a = admitE [OF assms(4)]
  let ?g = "ad_gate ad"
  have name: "ad_name ad = (if argv c \<noteq> [] then hd (argv c)
      else take (MCP_MAX_ARG_LEN - 1) (takeWhile (\<lambda>x. x \<noteq> CHR '' '') (cmd_line c)))"
    by (rule name_of [OF assms(1,3) a(1)])
  obtain joined where j: "exec_tail cn c ?g = Some (Inr joined)"
    using a(6) by (auto simp: exec_line_def split: option.splits sum.splits)
  note tail = tail_asks [OF assms(1,3) j]
  have "wf_entry e" if "gt_entry ?g = Some e" for e
    using a(5) that by (cases rule: gateE) (auto intro: lookup_wf [OF assms(2)])
  note fits = prefix_fits [of ?g, OF this]
  have line: "ad_line ad = (if gt_shell ?g
      then shell_prefix f c ?g @ (if joined = [] then [] else '' '' @ with_carets joined) else joined)"
  proof (cases "gt_shell ?g")
    case True
    then have "shell_line cn (shell_prefix f c ?g) joined = Some (Inr (ad_line ad))" using a(6) j by (simp add: exec_line_def)
    then show ?thesis using True shell_line_text [OF assms(1) fits] by simp
  next
    case False
    then show ?thesis using a(6) j char_stepper.copy_fits [OF assms(1) tail(2)] by (simp add: exec_line_def)
  qed
  from a(5) show ?thesis
  proof (cases rule: gateE)
    case over
    then show ?thesis using tail(1) line
      by (intro exI [of _ None] exI [of _ joined])
        (simp add: overridden_def via_builtin_def shell_prefix_def builtin_prefix_def)
  next
    case (entry e)
    then show ?thesis using tail(1) line name
      by (intro exI [of _ "Some e"] exI [of _ joined])
        (simp add: overridden_def via_builtin_def shell_prefix_def builtin_prefix_def)
  qed
qed

definition ping_entry :: CatalogEntry where
  "ping_entry = \<lparr>entry_name = ''ping'', is_builtin = False, supports_win32s = True, shell_modern = [], shell_win32s = [],
     options = [\<lparr>flag = ''-n'', has_arg = True\<rparr>]\<rparr>"

definition ping_request :: JsonCommand where
  "ping_request = empty_command\<lparr>argv := [''Ping'', ''-n'', ''a b'']\<rparr>"

lemma ping_admitted:
  "admit shim_api shim_CharNextA no_features (Some [ping_entry]) False False ping_request =
     Some (Inr \<lparr>ad_name = ''Ping'', ad_stdin = [],
       ad_gate = \<lparr>gt_unsafe = False, gt_shell = False, gt_entry = Some ping_entry\<rparr>,
       ad_line = join_text False [''Ping'', ''-n'', ''a b'']\<rparr>)"
proof -
  let ?g = "\<lparr>gt_unsafe = False, gt_shell = False, gt_entry = Some ping_entry\<rparr>"
  have name: "exec_name shim_CharNextA ping_request = Some ''Ping''"
    by (simp add: exec_name_def ping_request_def shim.copy_fits MCP_MAX_ARG_LEN_def)
  have found: "CatalogLookup shim_api [ping_entry] ''Ping'' = Some ping_entry" by code_simp
  have "CatalogValidateArgs shim_api (Some ping_entry) [''Ping'', ''-n'', ''a b''] = Inr ()" by code_simp
  with found have gate: "exec_gate shim_api (Some [ping_entry]) False ping_request ''Ping'' = Inr ?g"
    by (simp add: exec_gate_def ping_request_def empty_command_def ping_entry_def)
  have short: "int (length (join_text False [''Ping'', ''-n'', ''a b''])) < 30" by code_simp
  then have joined: "ArgvJoin [''Ping'', ''-n'', ''a b''] LINE_BUF = Some (join_text False [''Ping'', ''-n'', ''a b''])"
    by (simp add: join_writes writes_def LINE_BUF_def)
  have cp: "McpStrCpyN shim_CharNextA [] (join_text False [''Ping'', ''-n'', ''a b'']) LINE_BUF =
      Some (join_text False [''Ping'', ''-n'', ''a b''])"
    using short by (intro shim.copy_fits) (simp add: LINE_BUF_def)
  have "exec_tail shim_CharNextA ping_request ?g = Some (Inr (join_text False [''Ping'', ''-n'', ''a b'']))"
    using joined by (simp add: exec_tail_def ping_request_def builtin_prefix_def via_builtin_def ping_entry_def)
  then have line': "exec_line shim_CharNextA no_features ping_request ?g = Some (Inr (join_text False [''Ping'', ''-n'', ''a b'']))"
    using cp by (simp add: exec_line_def)
  have "exec_stdin ping_request = Inr []" by (simp add: exec_stdin_def ping_request_def empty_command_def)
  then show ?thesis using name gate line' short by (simp add: admit_def)
qed

lemma admit_exact_witness:
  "\<exists>ad. admit shim_api shim_CharNextA no_features (Some [ping_entry]) False False ping_request = Some (Inr ad) \<and>
     ref_tokenize (ad_line ad) False False [] = [''Ping'', ''-n'', ''a b'']"
proof -
  have wf: "wf_catalog [ping_entry]" by code_simp
  have bounds: "field_bounds ping_request"
    by (simp add: field_bounds_def ping_request_def empty_command_def mcp_max_defs)
  have found: "CatalogLookup shim_api [ping_entry] ''Ping'' = Some ping_entry" by code_simp
  have flags: "\<not> is_builtin ping_entry" "\<not> shell_flag ping_request" "\<not> unsafe_flag ping_request"
    "argv ping_request = [''Ping'', ''-n'', ''a b'']"
    by (simp_all add: ping_entry_def ping_request_def empty_command_def)
  from admit_exact [OF shim.char_stepper_axioms wf bounds ping_admitted] ping_admitted show ?thesis
    using found flags by (auto simp: asks_for_def split: if_splits)
qed

end
