(* ===== verification/Device.thy ===== *)
theory Device
  imports ExecAdmit Reply PtyExec Mem FileOps
begin

text \<open>
  The dispatcher of \<^verbatim>\<open>src/src/mcp-w32s.c\<close>: the state of a session, the exec, memory and
  discovery handlers and \<^verbatim>\<open>ProcessCommand\<close>.  The services of all components are one
  record over one world; the world lives in the state of the memory operations.  The
  state keeps the ledgers of the components, the requests that were read, the handles of the
  children left running, where in the calls of the memory operations each client came, and
  the texts given to the transport; no operation reads these.
\<close>

section \<open>Platform and state\<close>

text \<open>
  What the program runs on: the services of each component, the pages and features, the
  steps of the system code page, the console page, and how the threads are scheduled.
\<close>

record 'w Platform =
  p_api :: StrApi
  p_cn :: "string \<Rightarrow> string"
  p_loc :: Locale
  p_consoleCp :: "nat option"
  p_oemCp :: nat
  p_mem :: "'w MemOs"
  p_fs :: "'w FileSys"
  p_bin :: "'w BinOs"
  p_exec :: "'w ExecOs"
  p_pty :: "'w PtyOs"
  p_turns :: "'w \<Rightarrow> Turn list"
  p_ptyTurns :: "'w \<Rightarrow> bool list"

text \<open>The write entry of a transport, absent where there is none.\<close>

type_synonym 'w Wire = "(u8 list \<Rightarrow> 'w \<Rightarrow> int \<times> 'w) option"

record Orphan =
  orph_handle :: u32
  orph_start :: u32
  orph_line :: string

record 'w Device =
  dv_mem :: "'w MemState"
  dv_catalog :: "Catalog option"
  dv_unsafe :: bool
  dv_orphan :: "Orphan option"
  dv_opens :: "u32 \<Rightarrow> int"
  dv_did :: "ExecCall list"
  dv_held :: "PtyRes \<Rightarrow> int"
  dv_acts :: "PtyCall list"
  dv_asked :: "JsonCommand list"
  dv_left :: "u32 list"
  dv_clients :: "nat list"
  dv_sent :: "string list"

definition features :: "'w Platform \<Rightarrow> Features" where
  "features p = loc_features (p_loc p)"

definition dv_world :: "'w Device \<Rightarrow> 'w" where
  "dv_world d = world (dv_mem d)"

definition in_world :: "'w \<Rightarrow> 'w Device \<Rightarrow> 'w Device" where
  "in_world w d = d\<lparr>dv_mem := (dv_mem d)\<lparr>world := w\<rparr>\<rparr>"

text \<open>The start of an exec run from the state, and its end back into it.\<close>

definition to_exec :: "'w Device \<Rightarrow> 'w ExecState" where
  "to_exec d = \<lparr>xw = dv_world d, opens = dv_opens d, did = dv_did d\<rparr>"

definition from_exec :: "'w ExecState \<Rightarrow> 'w Device \<Rightarrow> 'w Device" where
  "from_exec st d = in_world (xw st) (d\<lparr>dv_opens := opens st, dv_did := did st\<rparr>)"

definition to_pty :: "'w Device \<Rightarrow> 'w PtyState" where
  "to_pty d = \<lparr>yw = dv_world d, held = dv_held d, acts = dv_acts d, pty_reads = []\<rparr>"

definition from_pty :: "'w PtyState \<Rightarrow> 'w Device \<Rightarrow> 'w Device" where
  "from_pty st d = in_world (yw st) (d\<lparr>dv_held := held st, dv_acts := acts st\<rparr>)"

definition ExecConfigure :: "Catalog option \<Rightarrow> bool \<Rightarrow> 'w Device \<Rightarrow> 'w Device" where
  "ExecConfigure cat b d = d\<lparr>dv_catalog := cat, dv_unsafe := b\<rparr>"

text \<open>The hook by which a test puts a child in place.\<close>

definition ExecInjectOrphanForTest :: "(string \<Rightarrow> string) \<Rightarrow> u32 \<Rightarrow> u32 \<Rightarrow> string \<Rightarrow> 'w Device \<Rightarrow> 'w Device option" where
  "ExecInjectOrphanForTest cn h startTick line d =
     map_option (\<lambda>l. d\<lparr>dv_orphan := if h = 0 then None else Some \<lparr>orph_handle = h, orph_start = startTick, orph_line = l\<rparr>\<rparr>)
       (McpStrCpyN cn [] line (int MCP_MAX_LINE))"

section \<open>Sending\<close>

text \<open>A text that was assembled is written whole; one that was not is not sent.\<close>

definition send :: "'w Wire \<Rightarrow> string option \<Rightarrow> 'w Device \<Rightarrow> 'w Device" where
  "send t r d =
     (case (r, t) of
        (Some msg, Some wr) \<Rightarrow>
          (in_world (snd (TransportWriteAll wr (map byte_of msg) (dv_world d))) d)\<lparr>dv_sent := dv_sent d @ [msg]\<rparr>
      | _ \<Rightarrow> d)"

definition send_exec_error :: "'w Wire \<Rightarrow> string \<Rightarrow> string \<Rightarrow> 'w Device \<Rightarrow> 'w Device" where
  "send_exec_error t rid reason = send t (error_reply rid reason)"

section \<open>The busy domain\<close>

text \<open>
  The child that was left running is asked for again; it still runs, and the request is
  answered as busy, or it is gone, and its handle is closed.
\<close>

definition exec_reap :: "'w Platform \<Rightarrow> 'w Wire \<Rightarrow> string \<Rightarrow> 'w Device \<Rightarrow> bool \<times> 'w Device" where
  "exec_reap p t rid d =
     (case dv_orphan d of
        None \<Rightarrow> (False, d)
      | Some o' \<Rightarrow>
          (case XGetExitCodeProcess (p_exec p) (orph_handle o') (dv_world d) of (code, w) \<Rightarrow>
             if code = Some STILL_ACTIVE then
               (case XGetTickCount (p_exec p) w of (tick, w1) \<Rightarrow>
                  (True, send t (busy_reply rid (orph_line o') (tick - orph_start o')) (in_world w1 d)))
             else (False, (from_exec (x_close (p_exec p) (orph_handle o') (to_exec (in_world w d))) d)\<lparr>dv_orphan := None\<rparr>)))"

section \<open>Output\<close>

text \<open>
  What a child wrote, in UTF-8 and base64, and whether something was lost on the way.
\<close>

definition wire_output :: "'w Platform \<Rightarrow> u8 list \<Rightarrow> bool \<Rightarrow> (string \<times> bool) option" where
  "wire_output p bytes lost =
     (case EncBytesToWire (loc_pages (p_loc p)) (EncConsoleOutputCp (p_consoleCp p) (p_oemCp p)) bytes (nat EXEC_OUTPUT_CAP) of
        (utf8, est) \<Rightarrow>
          map_option (\<lambda>b64. (b64, lost \<or> est = ENC_TRUNCATED))
            (snd (Base64Encode (Some utf8) (length utf8) ((EXEC_OUTPUT_CAP div 3 + 1) * 4 + 8))))"

definition answer_pty :: "'w Platform \<Rightarrow> 'w Wire \<Rightarrow> string \<Rightarrow> bool \<Rightarrow> PtyExecResult \<Rightarrow> 'w Device \<Rightarrow> 'w Device" where
  "answer_pty p t rid unsafe r d =
     (if pty_timed_out r then send_exec_error t rid ''timed out'' d
      else case wire_output p (pty_output r) (pty_output_truncated r) of
        None \<Rightarrow> send_exec_error t rid ''encode error'' d
      | Some (b64, lost) \<Rightarrow> send t (pty_reply rid (pty_exit_code r) b64 lost (pty_duration_ms r) unsafe) d)"

definition answer_exec ::
    "'w Platform \<Rightarrow> 'w Wire \<Rightarrow> string \<Rightarrow> Gate \<Rightarrow> BinaryType \<Rightarrow> ExecResult \<Rightarrow> 'w Device \<Rightarrow> 'w Device" where
  "answer_exec p t rid g bin r d =
     (if timed_out r then send_exec_error t rid ''timed out'' d
      else case wire_output p (stdout_bytes r) (stdout_truncated r) of
        None \<Rightarrow> send_exec_error t rid ''encode error'' d
      | Some (b64Out, outLost) \<Rightarrow>
          (case wire_output p (stderr_bytes r) (stderr_truncated r) of
             None \<Rightarrow> send_exec_error t rid ''encode error'' d
           | Some (b64Err, errLost) \<Rightarrow>
               send t (exec_reply rid r b64Out b64Err outLost errLost bin (gt_shell g) (gt_unsafe g)) d))"

section \<open>Running\<close>

definition given_cwd :: "JsonCommand \<Rightarrow> string option" where
  "given_cwd c = (if cwd c \<noteq> [] then Some (cwd c) else None)"

definition run_pty :: "'w Platform \<Rightarrow> 'w Wire \<Rightarrow> JsonCommand \<Rightarrow> Admission \<Rightarrow> 'w Device \<Rightarrow> 'w Device option" where
  "run_pty p t c ad d =
     (let rq = \<lparr>yq_cmdLine = ad_line ad, yq_cwd = given_cwd c, yq_cols = (if cols c > 0 then cols c else 80),
                yq_rows = (if rows c > 0 then rows c else 25), yq_timeout = effective_timeout c,
                yq_stdin = ad_stdin ad, yq_cap = effective_cap c\<rparr>
      in map_option (\<lambda>(r, st).
           (case r of
              Inl why \<Rightarrow> send_exec_error t (req_id c) why (from_pty st d)
            | Inr res \<Rightarrow> answer_pty p t (req_id c) (gt_unsafe (ad_gate ad)) res (from_pty st d)))
         (PtyExecRun (features p) (p_exec p) (p_pty p) (p_ptyTurns p (dv_world d)) rq (to_pty d)))"

definition exec_request :: "JsonCommand \<Rightarrow> Admission \<Rightarrow> BinaryType \<Rightarrow> ExecRequest" where
  "exec_request c ad bin =
     \<lparr>rq_cmdLine = ad_line ad, rq_cwd = given_cwd c, rq_timeout = effective_timeout c, rq_stdin = ad_stdin ad,
      rq_cap = effective_cap c, rq_mem = mem_cap_bytes c, rq_cpu = cpu_time_ms c, rq_bin = bin\<rparr>"

text \<open>A child left running becomes the orphan of the session; the command line is cut to its buffer.\<close>

definition answer_run ::
    "'w Platform \<Rightarrow> 'w Wire \<Rightarrow> JsonCommand \<Rightarrow> Admission \<Rightarrow> BinaryType \<Rightarrow> string + ExecResult \<Rightarrow> 'w Device \<Rightarrow> 'w Device option" where
  "answer_run p t c ad bin r d =
     (case r of
        Inl why \<Rightarrow> Some (send_exec_error t (req_id c) why d)
      | Inr res \<Rightarrow>
          if still_active res then
            map_option (\<lambda>l. send_exec_error t (req_id c) ''timed out''
                (d\<lparr>dv_orphan := Some \<lparr>orph_handle = orphan_handle res, orph_start = orphan_start_tick res, orph_line = l\<rparr>,
                   dv_left := dv_left d @ [orphan_handle res]\<rparr>))
              (McpStrCpyN (p_cn p) [] (ad_line ad) (int MCP_MAX_LINE))
          else Some (answer_exec p t (req_id c) (ad_gate ad) bin res d))"

definition run_exec ::
    "'w Platform \<Rightarrow> 'w Wire \<Rightarrow> JsonCommand \<Rightarrow> Admission \<Rightarrow> BinaryType \<Rightarrow> 'w Device \<Rightarrow> 'w Device option" where
  "run_exec p t c ad bin d =
     (case ExecOpRun (features p) (p_exec p) (p_turns p (dv_world d)) (exec_request c ad bin) True (to_exec d) of
        None \<Rightarrow> None
      | Some (r, st) \<Rightarrow> answer_run p t c ad bin r (from_exec st d))"

section \<open>The exec handler\<close>

text \<open>
  \<^const>\<open>None\<close> is a request that is not answered: a child that is waited for without an
  end, a character step that stands still, or a header read outside its buffer.
\<close>

definition HandleExec :: "'w Platform \<Rightarrow> 'w Wire \<Rightarrow> bool \<Rightarrow> JsonCommand \<Rightarrow> 'w Device \<Rightarrow> 'w Device option" where
  "HandleExec p t isPty c d =
     (case exec_reap p t (req_id c) d of
        (True, d1) \<Rightarrow> Some d1
      | (False, d1) \<Rightarrow>
          (case admit (p_api p) (p_cn p) (features p) (dv_catalog d1) (dv_unsafe d1) isPty c of
             None \<Rightarrow> None
           | Some (Inl why) \<Rightarrow> Some (send_exec_error t (req_id c) why d1)
           | Some (Inr ad) \<Rightarrow>
               (case exec_classify (features p) (p_bin p) (ad_gate ad) (ad_name ad) (dv_world d1) of
                  (None, w) \<Rightarrow> None
                | (Some bin, w) \<Rightarrow>
                    if isPty then run_pty p t c ad (in_world w d1) else run_exec p t c ad bin (in_world w d1))))"

section \<open>Discovery\<close>

definition HandleListCommands :: "'w Wire \<Rightarrow> JsonCommand \<Rightarrow> 'w Device \<Rightarrow> 'w Device" where
  "HandleListCommands t c d =
     (case CatalogSerializeJson (dv_catalog d) (int MCP_MAX_RESPONSE) of
        None \<Rightarrow> send_exec_error t (req_id c) ''listing too large'' d
      | Some listing \<Rightarrow> send t (listing_reply (req_id c) listing) d)"

section \<open>Memory\<close>

definition mem_spawn :: "'w Platform \<Rightarrow> 'w Wire \<Rightarrow> JsonCommand \<Rightarrow> 'w Device \<Rightarrow> 'w Device" where
  "mem_spawn p t c d =
     (case MemSpawnRetain (p_api p) (p_mem p) (dv_catalog d) (dv_unsafe d) (argv c) (dv_mem d) of
        (r, m) \<Rightarrow>
          (let d1 = d\<lparr>dv_mem := m\<rparr> in
           if \<not> spawn_ok r then send_exec_error t (req_id c) (spawn_reason r) d1
           else send t (token_reply (req_id c) (spawn_token r) (spawn_pid r)) d1))"

definition mem_peek :: "'w Platform \<Rightarrow> 'w Wire \<Rightarrow> JsonCommand \<Rightarrow> 'w Device \<Rightarrow> 'w Device" where
  "mem_peek p t c d =
     (case MemParseU32 (mem_addr c) of
        None \<Rightarrow> send_exec_error t (req_id c) ''invalid address'' d
      | Some a \<Rightarrow>
          (case MemParseU32 (mem_len c) of
             None \<Rightarrow> send_exec_error t (req_id c) ''invalid length'' d
           | Some n \<Rightarrow>
               (case MemPeek (p_api p) (p_mem p) (mem_token c) a n (dv_mem d) of
                  ((r, bytes), m) \<Rightarrow>
                    (let d1 = d\<lparr>dv_mem := m\<rparr> in
                     if \<not> peek_ok r then send_exec_error t (req_id c) (peek_reason r) d1
                     else case snd (Base64Encode (Some bytes) (bytes_read r) ((int (unat MEM_MAX_ACCESS) div 3 + 1) * 4 + 8)) of
                       None \<Rightarrow> send_exec_error t (req_id c) ''encode error'' d1
                     | Some b64 \<Rightarrow> send t (peek_reply (req_id c) b64 (bytes_read r) (truncated r)) d1))))"

definition mem_poke :: "'w Platform \<Rightarrow> 'w Wire \<Rightarrow> JsonCommand \<Rightarrow> 'w Device \<Rightarrow> 'w Device" where
  "mem_poke p t c d =
     (case MemParseU32 (mem_addr c) of
        None \<Rightarrow> send_exec_error t (req_id c) ''invalid address'' d
      | Some a \<Rightarrow>
          (case Base64Decode (Some (data c)) (int (unat MEM_MAX_ACCESS)) of
             (n, bytes) \<Rightarrow>
               if n < 0 then send_exec_error t (req_id c) ''invalid base64'' d
               else case MemPoke (p_api p) (p_mem p) (mem_token c) a bytes (word_of_int n) (dv_mem d) of
                 (r, m) \<Rightarrow>
                   (let d1 = d\<lparr>dv_mem := m\<rparr> in
                    if \<not> poke_ok r then send_exec_error t (req_id c) (poke_reason r) d1
                    else send t (poke_reply (req_id c) (bytes_written r) (partial r)) d1)))"

text \<open>The two verbs that give a token up.\<close>

definition mem_give_up ::
    "'w Wire \<Rightarrow> JsonCommand \<Rightarrow> string \<Rightarrow> (string \<Rightarrow> 'w MemState \<Rightarrow> bool \<times> 'w MemState) \<Rightarrow> 'w Device \<Rightarrow> 'w Device" where
  "mem_give_up t c what f d =
     (case f (mem_token c) (dv_mem d) of
        (ok, m) \<Rightarrow>
          (let d1 = d\<lparr>dv_mem := m\<rparr> in
           if \<not> ok then send_exec_error t (req_id c) ''invalid or consumed token'' d1
           else send t (done_reply (req_id c) what) d1))"

definition HandleMem :: "'w Platform \<Rightarrow> 'w Wire \<Rightarrow> JsonCommand \<Rightarrow> 'w Device \<Rightarrow> 'w Device" where
  "HandleMem p t c d =
     (if cmd c = ''spawnRetain'' then mem_spawn p t c d
      else if cmd c = ''peek'' then mem_peek p t c d
      else if cmd c = ''poke'' then mem_poke p t c d
      else if cmd c = ''terminate'' then mem_give_up t c ''terminated'' (MemTerminate (p_api p) (p_mem p)) d
      else if cmd c = ''release'' then mem_give_up t c ''released'' (MemRelease (p_api p) (p_mem p)) d
      else d)"

section \<open>Files\<close>

definition ok_reply :: "string \<Rightarrow> string \<Rightarrow> string \<Rightarrow> string option" where
  "ok_reply rid key value = BuildJsonResponse rid ''ok'' key value (int MCP_MAX_RESPONSE)"

definition on_files :: "('w \<Rightarrow> 'a \<times> 'w) \<Rightarrow> 'w Device \<Rightarrow> 'a \<times> 'w Device" where
  "on_files f d = (case f (dv_world d) of (r, w) \<Rightarrow> (r, in_world w d))"

text \<open>An operation with nothing to answer but that it was done.\<close>

definition plain_op :: "'w Wire \<Rightarrow> string \<Rightarrow> string \<Rightarrow> ('w \<Rightarrow> string option \<times> 'w) \<Rightarrow> 'w Device \<Rightarrow> 'w Device" where
  "plain_op t rid message f d =
     (case on_files f d of
        (None, d1) \<Rightarrow> send t (ok_reply rid ''message'' message) d1
      | (Some why, d1) \<Rightarrow> send t (error_reply rid why) d1)"

definition do_read :: "'w Platform \<Rightarrow> 'w Wire \<Rightarrow> JsonCommand \<Rightarrow> 'w Device \<Rightarrow> 'w Device" where
  "do_read p t c d =
     (case on_files (FileOpRead (p_loc p) (p_fs p) (map byte_of (path c)) (int MCP_MAX_DATA)) d of
        (Inl why, d1) \<Rightarrow> send t (error_reply (req_id c) why) d1
      | (Inr raw, d1) \<Rightarrow>
          (case Base64Encode (Some raw) (length raw) (int MCP_MAX_DATA) of
             (n, Some b64) \<Rightarrow>
               if n > 0 then send t (ok_reply (req_id c) ''data'' b64) d1
               else send t (error_reply (req_id c) ''encode error'') d1
           | (_, None) \<Rightarrow> send t (error_reply (req_id c) ''encode error'') d1))"

definition do_write :: "'w Platform \<Rightarrow> 'w Wire \<Rightarrow> JsonCommand \<Rightarrow> 'w Device \<Rightarrow> 'w Device" where
  "do_write p t c d =
     (case Base64Decode (Some (data c)) (int MCP_MAX_DATA) of
        (n, bytes) \<Rightarrow>
          if n < 0 then send t (error_reply (req_id c) ''invalid base64'') d
          else plain_op t (req_id c) ''written''
            (FileOpWrite (p_loc p) (p_fs p) (map byte_of (path c)) (take (nat n) bytes)) d)"

definition do_list :: "'w Platform \<Rightarrow> 'w Wire \<Rightarrow> JsonCommand \<Rightarrow> 'w Device \<Rightarrow> 'w Device" where
  "do_list p t c d =
     (case on_files (FileOpList (p_loc p) (p_fs p) (map byte_of (path c)) (int MCP_MAX_DATA)) d of
        (Inl why, d1) \<Rightarrow> send t (error_reply (req_id c) why) d1
      | (Inr files, d1) \<Rightarrow> send t (ok_reply (req_id c) ''files'' (map chr_of files)) d1)"

section \<open>The dispatcher\<close>

definition mem_verbs :: "string list" where
  "mem_verbs = [''spawnRetain'', ''peek'', ''poke'', ''terminate'', ''release'']"

definition dispatch :: "'w Platform \<Rightarrow> 'w Wire \<Rightarrow> JsonCommand \<Rightarrow> 'w Device \<Rightarrow> 'w Device option" where
  "dispatch p t c d =
     (let from = map byte_of (path c); to' = map byte_of (dest c); rid = req_id c; loc = p_loc p; fs = p_fs p in
      if cmd c = ''echo'' then Some (send t (ok_reply rid ''data'' (cmd_line c)) d)
      else if cmd c = ''read'' then Some (do_read p t c d)
      else if cmd c = ''write'' then Some (do_write p t c d)
      else if cmd c = ''list'' then Some (do_list p t c d)
      else if cmd c = ''delete'' then Some (plain_op t rid ''deleted'' (FileOpDelete loc fs from) d)
      else if cmd c = ''copy'' then Some (plain_op t rid ''copied'' (FileOpCopy loc fs from to') d)
      else if cmd c = ''move'' then Some (plain_op t rid ''moved'' (FileOpMove loc fs from to') d)
      else if cmd c = ''mkdir'' then Some (plain_op t rid ''created'' (FileOpMakeDir loc fs from) d)
      else if cmd c = ''rmdir'' then Some (plain_op t rid ''removed'' (FileOpRemoveDir loc fs from) d)
      else if cmd c = ''exec'' then HandleExec p t False c d
      else if cmd c = ''ptyExec'' then HandleExec p t True c d
      else if cmd c = ''listCommands'' then Some (HandleListCommands t c d)
      else if cmd c \<in> set mem_verbs then Some (HandleMem p t c d)
      else Some (send t (error_reply rid ''unknown command'') d))"

text \<open>A line is read up to its first NUL; an empty one is no request.\<close>

definition ProcessCommand :: "'w Platform \<Rightarrow> 'w Wire \<Rightarrow> string \<Rightarrow> 'w Device \<Rightarrow> 'w Device option" where
  "ProcessCommand p t line d =
     (let l = cstr line in
      if l = [] then Some d
      else case ParseJsonCommand l of
        (c, False) \<Rightarrow> Some (send t (error_reply [] ''invalid JSON'') d)
      | (c, True) \<Rightarrow> dispatch p t c (d\<lparr>dv_asked := dv_asked d @ [c]\<rparr>))"

end
