(* ===== verification/Session.thy ===== *)
theory Session
  imports Device Ready
begin

text \<open>
  The life of the device in \<^verbatim>\<open>src/src/mcp-w32s.c\<close>: the line buffer, the service of a
  connection, the start and the accept loop of \<^verbatim>\<open>main\<close>.
\<close>

section \<open>Lines\<close>

definition CMD_BUF_SIZE :: nat where "CMD_BUF_SIZE = 8192"
definition READ_CHUNK :: nat where "READ_CHUNK = 256"

abbreviation (input) newline :: char where "newline \<equiv> CHR 0x0A"

text \<open>
  The handler gets each whole line; what does not fit the buffer is dropped.  The answer
  is the number of lines and what is left in the buffer.
\<close>

fun ProcessBuffer :: "(string \<Rightarrow> 's \<Rightarrow> 's option) \<Rightarrow> string \<Rightarrow> string \<Rightarrow> 's \<Rightarrow> ((nat \<times> string) \<times> 's) option" where
  "ProcessBuffer handler buf [] s = Some ((0, buf), s)"
| "ProcessBuffer handler buf (c # input) s =
     (if c = newline then
        (case handler buf s of
           None \<Rightarrow> None
         | Some s1 \<Rightarrow> map_option (\<lambda>((n, b), s2). ((n + 1, b), s2)) (ProcessBuffer handler [] input s1))
      else if length buf < CMD_BUF_SIZE - 1 then ProcessBuffer handler (buf @ [c]) input s
      else ProcessBuffer handler buf input s)"

section \<open>Connections\<close>

record 'w Conn =
  cn_name :: string
  cn_read :: "nat \<Rightarrow> 'w \<Rightarrow> u8 list \<times> 'w"
  cn_write :: "u8 list \<Rightarrow> 'w \<Rightarrow> int \<times> 'w"
  cn_close :: "('w \<Rightarrow> 'w) option"

text \<open>A listener is a transport itself; it accepts, or is the one connection.\<close>

record 'w Listener =
  li_conn :: "'w Conn"
  li_accept :: "('w \<Rightarrow> 'w Conn option \<times> 'w) option"

text \<open>A read of no bytes is the end of the connection, or its failure.\<close>

partial_function (option) serve_loop ::
    "'w Platform \<Rightarrow> 'w Conn \<Rightarrow> string \<Rightarrow> 'w Device \<Rightarrow> 'w Device option" where
  "serve_loop p c buf d =
     (case cn_read c READ_CHUNK (dv_world d) of (bytes, w) \<Rightarrow>
        if bytes = [] then Some (in_world w d)
        else case ProcessBuffer (ProcessCommand p (Some (cn_write c))) buf (map chr_of bytes) (in_world w d) of
          None \<Rightarrow> None
        | Some ((n, buf1), d1) \<Rightarrow> serve_loop p c buf1 d1)"

definition Serve :: "'w Platform \<Rightarrow> 'w Conn \<Rightarrow> 'w Device \<Rightarrow> 'w Device option" where
  "Serve p c d = serve_loop p c [] d"

text \<open>What every connection is greeted with.\<close>

record Greeting =
  gr_warning :: string
  gr_tools :: "DetectedToolchain list"

definition SendReady :: "'w Platform \<Rightarrow> Greeting \<Rightarrow> 'w Conn \<Rightarrow> 'w Device \<Rightarrow> 'w Device" where
  "SendReady p g c d =
     send (Some (cn_write c))
       (BuildReadyMessage (features p) (p_oemCp p) (loc_acp (p_loc p)) (cn_name c) (gr_warning g) (gr_tools g) 2048)
       (d\<lparr>dv_clients := dv_clients d @ [length (calls (dv_mem d))]\<rparr>)"

text \<open>A connection from its greeting to the release of what its client held.\<close>

definition connection :: "'w Platform \<Rightarrow> Greeting \<Rightarrow> 'w Conn \<Rightarrow> 'w Device \<Rightarrow> 'w Device option" where
  "connection p g c d =
     map_option (\<lambda>d1. d1\<lparr>dv_mem := MemReleaseAll (p_mem p) (dv_mem d1)\<rparr>) (Serve p c (SendReady p g c d))"

definition close_conn :: "('w \<Rightarrow> 'w) option \<Rightarrow> 'w Device \<Rightarrow> 'w Device" where
  "close_conn f d = (case f of None \<Rightarrow> d | Some f \<Rightarrow> in_world (f (dv_world d)) d)"

partial_function (option) accept_loop ::
    "'w Platform \<Rightarrow> Greeting \<Rightarrow> 'w Listener \<Rightarrow> 'w Device \<Rightarrow> 'w Device option" where
  "accept_loop p g l d =
     (case li_accept l of
        None \<Rightarrow> connection p g (li_conn l) d
      | Some take_one \<Rightarrow>
          (case take_one (dv_world d) of
             (None, w) \<Rightarrow> Some (in_world w d)
           | (Some c, w) \<Rightarrow>
               (case connection p g c (in_world w d) of
                  None \<Rightarrow> None
                | Some d1 \<Rightarrow> accept_loop p g l (close_conn (cn_close c) d1))))"

section \<open>The start\<close>

text \<open>The directory of a path, by the walk over its characters: what is before the last separator, with it.\<close>

partial_function (option) dir_walk :: "(string \<Rightarrow> string) \<Rightarrow> string \<Rightarrow> string \<Rightarrow> string \<Rightarrow> string option" where
  "dir_walk cn full p best =
     (if p = [] then Some best
      else dir_walk cn full (cn p)
        (if hd p = bsl \<or> hd p = CHR ''/'' then take (length full - length p + 1) full else best))"

text \<open>
  The path of the catalog: the one asked for, cut to its buffer, or the default one beside
  the program, which the code appends without a check of its 260 bytes.
\<close>

definition catalog_path :: "(string \<Rightarrow> string) \<Rightarrow> TransportConfig \<Rightarrow> string \<Rightarrow> string option" where
  "catalog_path cn config module =
     (if catalogPath config \<noteq> [] then McpStrCpyN cn [] (catalogPath config) (int MCP_MAX_PATH_LEN)
      else let full = take (MCP_MAX_PATH_LEN - 1) module in
        map_option (\<lambda>dir. dir @ ''catalog'' @ [bsl] @ ''win32-commands.json'') (dir_walk cn full full []))"

text \<open>What \<^verbatim>\<open>main\<close> runs on beside the platform.\<close>

record 'w Machine =
  mc_host :: Host
  mc_cmdLine :: string
  mc_readCatalog :: "string \<Rightarrow> 'w \<Rightarrow> string option \<times> 'w"
  mc_backends :: "('w, 'w Listener) TransportBackend list"
  mc_tcpCleanup :: "'w \<Rightarrow> 'w"

definition LoadCatalogAtStartup ::
    "'w Platform \<Rightarrow> 'w Machine \<Rightarrow> TransportConfig \<Rightarrow> 'w \<Rightarrow> ((Catalog option \<times> string) \<times> 'w) option" where
  "LoadCatalogAtStartup p m config w =
     map_option (\<lambda>path.
         (case mc_readCatalog m path w of (file, w1) \<Rightarrow>
            (case CatalogLoad (p_api p) file of
               Inl _ \<Rightarrow> ((None, ''catalog not loaded''), w1)
             | Inr cat \<Rightarrow> ((Some cat, []), w1))))
       (catalog_path (p_cn p) config (GetModuleFileNameA (p_mem p) w))"

definition with_features :: "Features \<Rightarrow> 'w Platform \<Rightarrow> 'w Platform" where
  "with_features f p = p\<lparr>p_loc := (p_loc p)\<lparr>loc_features := f\<rparr>\<rparr>"

text \<open>The state before the first connection.\<close>

definition first_device :: "Audit \<Rightarrow> Features \<Rightarrow> 'w \<Rightarrow> 'w Device" where
  "first_device a f w =
     \<lparr>dv_mem = mem_start a f w, dv_catalog = None, dv_unsafe = False, dv_orphan = None, dv_opens = (\<lambda>_. 0), dv_did = [],
      dv_held = (\<lambda>_. 0), dv_acts = [], dv_asked = [], dv_left = [], dv_clients = [], dv_sent = []\<rparr>"

text \<open>The start up to the open: \<^const>\<open>None\<close> inside is a command line that was refused.\<close>

definition start_device ::
    "'w Platform \<Rightarrow> 'w Machine \<Rightarrow> 'w \<Rightarrow> (Greeting \<times> TransportConfig \<times> 'w Device) option option" where
  "start_device p m w =
     (case ParseCommandLine (mc_cmdLine m) of
        (False, config) \<Rightarrow> Some None
      | (True, config) \<Rightarrow>
          (case LoadCatalogAtStartup p m config w of
             None \<Rightarrow> None
           | Some ((cat, warning), w1) \<Rightarrow>
               (case AuditConfigure (p_cn p) (FileOs.truncate (p_mem p)) (allowMemWrite config) (auditPath config) w1 of
                  None \<Rightarrow> None
                | Some (a, w2) \<Rightarrow>
                    (let d = ExecConfigure cat (unsafeMode config) (first_device a (features p) w2) in
                     case ToolchainProbe (p_api p) (features p) (p_exec p) (p_turns p) cat (to_exec d) of
                       None \<Rightarrow> None
                     | Some (tools, st) \<Rightarrow>
                         Some (Some (\<lparr>gr_warning = warning, gr_tools = tools\<rparr>, config, from_exec st d))))))"

text \<open>The exit code and the state at the end.\<close>

definition main_run :: "'w Platform \<Rightarrow> 'w Machine \<Rightarrow> 'w \<Rightarrow> (int \<times> 'w Device option) option" where
  "main_run p0 m w =
     (let p = with_features (FeatInit (mc_host m)) p0 in
      case start_device p m w of
        None \<Rightarrow> None
      | Some None \<Rightarrow> Some (1, None)
      | Some (Some (g, config, d)) \<Rightarrow>
          (case TransportOpen (mc_backends m) config [] 160 (dv_world d) of
             ((None, err), w1) \<Rightarrow> Some (1, Some (in_world w1 d))
           | ((Some l, err), w1) \<Rightarrow>
               map_option (\<lambda>d1. (0, Some (close_conn (Some (mc_tcpCleanup m)) (close_conn (cn_close (li_conn l)) d1))))
                 (accept_loop p g l (in_world w1 d))))"

section \<open>The lines of a stream\<close>

text \<open>
  A stream as it reaches the device: the whole lines in it, and what follows the last one.
  What is handled of a line is its beginning that fits the buffer.
\<close>

fun split_lines :: "string \<Rightarrow> string list \<times> string" where
  "split_lines [] = ([], [])"
| "split_lines (c # s) =
     (case split_lines s of (ls, rest) \<Rightarrow>
        if c = newline then ([] # ls, rest)
        else case ls of [] \<Rightarrow> ([], c # rest) | l # ls' \<Rightarrow> ((c # l) # ls', rest))"

definition fitting :: "string \<Rightarrow> string" where
  "fitting l = take (CMD_BUF_SIZE - 1) l"

fun run_lines :: "(string \<Rightarrow> 's \<Rightarrow> 's option) \<Rightarrow> string list \<Rightarrow> 's \<Rightarrow> 's option" where
  "run_lines handler [] s = Some s"
| "run_lines handler (l # ls) s = (case handler l s of None \<Rightarrow> None | Some s1 \<Rightarrow> run_lines handler ls s1)"

text \<open>The chunks of a connection, one after the other, as \<^verbatim>\<open>Serve\<close> feeds them.\<close>

fun feed_chunks :: "(string \<Rightarrow> 's \<Rightarrow> 's option) \<Rightarrow> string \<Rightarrow> string list \<Rightarrow> 's \<Rightarrow> (string \<times> 's) option" where
  "feed_chunks handler buf [] s = Some (buf, s)"
| "feed_chunks handler buf (c # cs) s =
     (case ProcessBuffer handler buf c s of
        None \<Rightarrow> None
      | Some ((n, buf1), s1) \<Rightarrow> feed_chunks handler buf1 cs s1)"

text \<open>The lines of a stream behind a line that has begun.\<close>

definition behind :: "string \<Rightarrow> string \<Rightarrow> string list \<times> string" where
  "behind l s =
     (case split_lines s of (ls, rest) \<Rightarrow>
        (case ls of [] \<Rightarrow> ([], l @ rest) | x # xs \<Rightarrow> ((l @ x) # xs, rest)))"

lemma behind_simps:
  "behind l [] = ([], l)"
  "behind l (c # s) = (if c = newline then (l # fst (behind [] s), snd (behind [] s)) else behind (l @ [c]) s)"
  by (auto simp: behind_def split: prod.splits list.splits)

lemma behind_Nil: "behind [] s = split_lines s"
  by (auto simp: behind_def split: prod.splits list.splits)

lemma ProcessBuffer_behind:
  "ProcessBuffer handler (fitting l) input s =
     map_option (\<lambda>s'. ((length (fst (behind l input)), fitting (snd (behind l input))), s'))
       (run_lines handler (map fitting (fst (behind l input))) s)"
proof (induction input arbitrary: l s)
  case (Cons c input)
  have "[] = fitting []" by (simp add: fitting_def)
  note start = Cons.IH [of "[]", folded this]
  show ?case
  proof (cases "c = newline")
    case True
    then show ?thesis using start by (auto simp: behind_simps option.map_comp comp_def split: option.split)
  next
    case False
    have "(if length (fitting l) < CMD_BUF_SIZE - 1 then fitting l @ [c] else fitting l) = fitting (l @ [c])"
      by (auto simp: fitting_def)
    then have "ProcessBuffer handler (fitting l) (c # input) s = ProcessBuffer handler (fitting (l @ [c])) input s"
      using False by (auto split: if_splits)
    then show ?thesis using False Cons.IH [of "l @ [c]"] by (simp add: behind_simps)
  qed
qed (simp add: behind_simps)

lemma behind_append:
  "behind l (a @ b) = (fst (behind l a) @ fst (behind (snd (behind l a)) b), snd (behind (snd (behind l a)) b))"
  by (induction a arbitrary: l) (auto simp: behind_simps)

lemma run_lines_append:
  "run_lines handler (a @ b) s = (case run_lines handler a s of None \<Rightarrow> None | Some s1 \<Rightarrow> run_lines handler b s1)"
  by (induction a arbitrary: s) (auto split: option.split)

lemma feed_behind:
  "feed_chunks handler (fitting l) cs s =
     map_option (Pair (fitting (snd (behind l (concat cs))))) (run_lines handler (map fitting (fst (behind l (concat cs)))) s)"
proof (induction cs arbitrary: l s)
  case (Cons c cs)
  show ?case
    by (simp add: ProcessBuffer_behind Cons.IH behind_append run_lines_append split: option.split)
qed (simp add: behind_simps)

text \<open>
  C38: the device handles the lines of the stream, however the transport cuts it: whatever
  the chunks, empty ones and such that end inside a line included, the handler gets
  exactly the whole lines of all that came, in order, each cut to what fits the line
  buffer, and the beginning of the next line waits in the buffer.
\<close>

theorem feed_chunks_lines:
  "feed_chunks handler [] chunks s =
     (case split_lines (concat chunks) of (ls, rest) \<Rightarrow>
        map_option (Pair (fitting rest)) (run_lines handler (map fitting ls) s))"
proof -
  have "[] = fitting []" by (simp add: fitting_def)
  then show ?thesis using feed_behind [of handler "[]" chunks s] by (simp add: behind_Nil split: prod.split)
qed

end
