(* ===== verification/DeviceLaws.thy ===== *)
theory DeviceLaws
  imports Session
begin

text \<open>
  What the device keeps to, through every request, connection and accept: what a request
  can change at all, and two locales for the laws, of the requests of a client and of
  the whole life, which are interpreted on the gate in \<^verbatim>\<open>DeviceGate\<close> and on the handles and the
  retained processes in \<^verbatim>\<open>DeviceKeep\<close>.
\<close>

section \<open>What a request can change\<close>

text \<open>The state without its world and without what was sent.\<close>

definition still :: "'w Device \<Rightarrow> 'w Device" where
  "still d = d\<lparr>dv_mem := (dv_mem d)\<lparr>world := undefined\<rparr>, dv_sent := []\<rparr>"

lemma still_in_world [simp]: "still (in_world w d) = still d"
  by (simp add: still_def in_world_def)

lemma still_send [simp]: "still (send t r d) = still d"
  by (simp add: send_def still_def in_world_def split: option.split)

lemma still_error [simp]: "still (send_exec_error t rid why d) = still d"
  by (simp add: send_exec_error_def)

lemma still_on_files: "on_files f d = (r, d') \<Longrightarrow> still d' = still d"
  by (auto simp: on_files_def split: prod.splits)

lemma still_plain [simp]: "still (plain_op t rid m f d) = still d"
  by (auto simp: plain_op_def dest: still_on_files split: prod.splits option.splits)

lemma still_files [simp]:
  "still (do_read p t c d) = still d" "still (do_write p t c d) = still d" "still (do_list p t c d) = still d"
  by (auto simp: do_read_def do_write_def do_list_def dest: still_on_files split: prod.splits sum.splits option.splits)

lemma still_listing [simp]: "still (HandleListCommands t c d) = still d"
  by (simp add: HandleListCommands_def split: option.split)

lemma still_answers [simp]:
  "still (answer_pty p t rid u r d) = still d" "still (answer_exec p t rid g bin res d) = still d"
  by (simp_all add: answer_pty_def answer_exec_def split: option.split)

lemma stillD:
  assumes "still d' = still d"
  shows "dv_catalog d' = dv_catalog d" "dv_unsafe d' = dv_unsafe d" "dv_orphan d' = dv_orphan d"
    "dv_opens d' = dv_opens d" "dv_did d' = dv_did d" "dv_held d' = dv_held d" "dv_acts d' = dv_acts d"
    "g_slots (dv_mem d') = g_slots (dv_mem d)" "g_seq (dv_mem d') = g_seq (dv_mem d)" "audit (dv_mem d') = audit (dv_mem d)"
    "feat (dv_mem d') = feat (dv_mem d)" "calls (dv_mem d') = calls (dv_mem d)"
    "dv_asked d' = dv_asked d" "dv_left d' = dv_left d" "dv_clients d' = dv_clients d"
  using assms [THEN arg_cong, of dv_catalog] assms [THEN arg_cong, of dv_unsafe] assms [THEN arg_cong, of dv_orphan]
    assms [THEN arg_cong, of dv_opens] assms [THEN arg_cong, of dv_did] assms [THEN arg_cong, of dv_held]
    assms [THEN arg_cong, of dv_acts] assms [THEN arg_cong, of "\<lambda>d. g_slots (dv_mem d)"]
    assms [THEN arg_cong, of "\<lambda>d. g_seq (dv_mem d)"] assms [THEN arg_cong, of "\<lambda>d. audit (dv_mem d)"]
    assms [THEN arg_cong, of "\<lambda>d. feat (dv_mem d)"] assms [THEN arg_cong, of "\<lambda>d. calls (dv_mem d)"]
    assms [THEN arg_cong, of dv_asked] assms [THEN arg_cong, of dv_left] assms [THEN arg_cong, of dv_clients]
  by (simp_all add: still_def)

text \<open>The reaping leaves the state, or closes the one handle it forgets.\<close>

lemma exec_reapE:
  assumes "exec_reap p t rid d = (b, d')"
  obtains (kept) "still d' = still d" "b = (dv_orphan d \<noteq> None)"
  | (reaped) o' where "dv_orphan d = Some o'" "\<not> b"
      "still d' = still (d\<lparr>dv_orphan := None, dv_opens := (dv_opens d)(orph_handle o' := dv_opens d (orph_handle o') - 1)\<rparr>)"
proof (cases "dv_orphan d")
  case None
  then show thesis using assms kept by (simp add: exec_reap_def)
next
  case (Some o')
  obtain code w where c: "XGetExitCodeProcess (p_exec p) (orph_handle o') (dv_world d) = (code, w)" by (metis surj_pair)
  obtain tick w1 where k: "XGetTickCount (p_exec p) w = (tick, w1)" by (metis surj_pair)
  show thesis
  proof (cases "code = Some STILL_ACTIVE")
    case True
    then show thesis using assms Some c k kept by (auto simp: exec_reap_def)
  next
    case False
    then show thesis using assms Some c
      by (intro reaped [of o'])
        (auto simp: exec_reap_def from_exec_def to_exec_def x_close_def in_world_def still_def)
  qed
qed

lemma reap_clear:
  assumes "exec_reap p t rid d = (False, d')"
  shows "dv_orphan d' = None"
  using assms
proof (cases rule: exec_reapE)
  case kept
  then show ?thesis using stillD(3) [OF kept(1)] by simp
next
  case (reaped o')
  then show ?thesis using stillD(3) [OF reaped(3)] by simp
qed

lemma reap_fields:
  assumes "exec_reap p t rid d = (b, d')"
  shows "dv_catalog d' = dv_catalog d" "dv_unsafe d' = dv_unsafe d" "dv_did d' = dv_did d" "dv_held d' = dv_held d"
    "dv_acts d' = dv_acts d" "calls (dv_mem d') = calls (dv_mem d)" "g_slots (dv_mem d') = g_slots (dv_mem d)"
    "dv_asked d' = dv_asked d" "dv_left d' = dv_left d" "dv_clients d' = dv_clients d"
proof -
  obtain o' x where e: "still d' = still (d\<lparr>dv_orphan := o', dv_opens := x\<rparr>)"
    using assms
  proof (cases rule: exec_reapE)
    case kept
    then have "still d' = still (d\<lparr>dv_orphan := dv_orphan d, dv_opens := dv_opens d\<rparr>)" by simp
    then show thesis by (rule that)
  qed (rule that)
  from stillD [OF e] show "dv_catalog d' = dv_catalog d" "dv_unsafe d' = dv_unsafe d" "dv_did d' = dv_did d" "dv_held d' = dv_held d"
    "dv_acts d' = dv_acts d" "calls (dv_mem d') = calls (dv_mem d)" "g_slots (dv_mem d') = g_slots (dv_mem d)"
    "dv_asked d' = dv_asked d" "dv_left d' = dv_left d" "dv_clients d' = dv_clients d"
    by simp_all
qed

section \<open>The laws\<close>

text \<open>
  A law of a request: a condition on the state of the device that does not speak of its world,
  and that the note of a request, the reaping, an admitted run and the memory verbs keep, each
  for a request that was read.
\<close>

locale request_law =
  fixes p :: "'w Platform" and I :: "'w Device \<Rightarrow> bool"
  assumes I_still: "still d' = still d \<Longrightarrow> I d \<Longrightarrow> I d'"
    and I_asked: "I d \<Longrightarrow> I (d\<lparr>dv_asked := dv_asked d @ [c]\<rparr>)"
    and I_reap: "exec_reap p t rid d = (b, d') \<Longrightarrow> I d \<Longrightarrow> I d'"
    and I_pty: "dv_orphan d = None \<Longrightarrow> c \<in> set (dv_asked d) \<Longrightarrow> cmd c = ''ptyExec'' \<Longrightarrow>
      admit (p_api p) (p_cn p) (features p) (dv_catalog d) (dv_unsafe d) True c = Some (Inr ad) \<Longrightarrow>
      run_pty p t c ad d = Some d' \<Longrightarrow> I d \<Longrightarrow> I d'"
    and I_exec: "dv_orphan d = None \<Longrightarrow> c \<in> set (dv_asked d) \<Longrightarrow> cmd c = ''exec'' \<Longrightarrow>
      admit (p_api p) (p_cn p) (features p) (dv_catalog d) (dv_unsafe d) False c = Some (Inr ad) \<Longrightarrow>
      run_exec p t c ad bin d = Some d' \<Longrightarrow> I d \<Longrightarrow> I d'"
    and I_mem: "c \<in> set (dv_asked d) \<Longrightarrow> I d \<Longrightarrow> I (HandleMem p t c d)"
begin

lemma exec_law:
  assumes "HandleExec p t isPty c d = Some d'" "I d" "c \<in> set (dv_asked d)" "cmd c = (if isPty then ''ptyExec'' else ''exec'')"
  shows "I d'"
proof -
  obtain b d1 where r: "exec_reap p t (req_id c) d = (b, d1)" by (metis surj_pair)
  have d1: "I d1" by (rule I_reap [OF r assms(2)])
  show ?thesis
  proof (cases b)
    case False
    obtain a where a: "admit (p_api p) (p_cn p) (features p) (dv_catalog d1) (dv_unsafe d1) isPty c = Some a"
      using assms(1) r False by (auto simp: HandleExec_def split: option.splits)
    show ?thesis
    proof (cases a)
      case (Inl why)
      then show ?thesis using assms(1) r False a I_still [OF still_error d1] by (auto simp: HandleExec_def)
    next
      case (Inr ad)
      obtain bin w where k: "exec_classify (features p) (p_bin p) (ad_gate ad) (ad_name ad) (dv_world d1) = (bin, w)"
        by (metis surj_pair)
      have w: "I (in_world w d1)" by (rule I_still [OF still_in_world d1])
      have same: "dv_catalog (in_world w d1) = dv_catalog d1" "dv_unsafe (in_world w d1) = dv_unsafe d1" "dv_orphan (in_world w d1) = None"
        "c \<in> set (dv_asked (in_world w d1))"
        using reap_clear r False reap_fields(8) [OF r] assms(3) by (auto simp: in_world_def)
      obtain bt where bt: "bin = Some bt" using assms(1) r False a Inr k by (cases bin) (auto simp: HandleExec_def)
      then have "(if isPty then run_pty p t c ad (in_world w d1) else run_exec p t c ad bt (in_world w d1)) = Some d'"
        using assms(1) r False a Inr k by (simp add: HandleExec_def)
      then show ?thesis
        using I_pty [of "in_world w d1" c ad t d'] I_exec [of "in_world w d1" c ad t bt d'] w a Inr same assms(4)
        by (cases isPty) simp_all
    qed
  qed (use assms(1) r d1 in \<open>simp add: HandleExec_def\<close>)
qed

lemma dispatch_law: "dispatch p t c d = Some d' \<Longrightarrow> I d \<Longrightarrow> c \<in> set (dv_asked d) \<Longrightarrow> I d'"
  unfolding dispatch_def Let_def
  by (auto split: if_splits intro: exec_law I_mem I_still)

lemma command_law: "ProcessCommand p t line d = Some d' \<Longrightarrow> I d \<Longrightarrow> I d'"
  unfolding ProcessCommand_def Let_def
  by (auto split: if_splits prod.splits bool.splits intro: dispatch_law [OF _ I_asked] I_still)

lemma buffer_law:
  "ProcessBuffer (ProcessCommand p t) buf input d = Some ((n, b), d') \<Longrightarrow> I d \<Longrightarrow> I d'"
  by (induction "ProcessCommand p t" buf input d arbitrary: n rule: ProcessBuffer.induct)
    (auto split: if_splits option.splits intro: command_law)

lemma serve_law: "serve_loop q c buf d = Some d' \<Longrightarrow> q = p \<Longrightarrow> I d \<Longrightarrow> I d'"
proof (induction q c buf d d' rule: serve_loop.raw_induct [rotated, consumes 1])
  case (1 loop q c buf d d')
  obtain bytes w where r: "cn_read c READ_CHUNK (dv_world d) = (bytes, w)" by (metis surj_pair)
  have w: "I (in_world w d)" by (rule I_still [OF still_in_world 1(4)])
  show ?case
  proof (cases "bytes = []")
    case False
    then obtain n b d1 where b: "ProcessBuffer (ProcessCommand q (Some (cn_write c))) buf (map chr_of bytes) (in_world w d) = Some ((n, b), d1)"
      "loop q c b d1 = Some d'"
      using 1(2) r by (auto split: option.splits)
    show ?thesis by (rule 1(1) [OF b(2) 1(3) buffer_law [OF b(1) [unfolded 1(3)] w]])
  qed (use 1(2) r w in simp)
qed

end

text \<open>
  A law of the device is one of its requests that also lasts from one client to the next: the
  note of a client and the release at its end keep it.
\<close>

locale device_law = request_law +
  assumes I_greet: "I d \<Longrightarrow> I (d\<lparr>dv_clients := dv_clients d @ [n]\<rparr>)"
    and I_release: "I d \<Longrightarrow> I (d\<lparr>dv_mem := MemReleaseAll (p_mem p) (dv_mem d)\<rparr>)"
begin

lemma connection_law:
  assumes "connection p g c d = Some d'" "I d"
  shows "I d'"
proof -
  have "I (SendReady p g c d)" unfolding SendReady_def by (rule I_still [OF still_send I_greet [OF assms(2)]])
  then show ?thesis using assms(1) I_release serve_law [OF _ refl]
    by (auto simp: connection_def Serve_def)
qed

lemma close_law: "I d \<Longrightarrow> I (close_conn f d)"
  by (auto simp: close_conn_def intro: I_still split: option.split)

lemma accept_law: "accept_loop q g l d = Some d' \<Longrightarrow> q = p \<Longrightarrow> I d \<Longrightarrow> I d'"
proof (induction q g l d d' rule: accept_loop.raw_induct [rotated, consumes 1])
  case (1 loop q g l d d')
  show ?case
  proof (cases "li_accept l")
    case None
    then show ?thesis using 1 connection_law by simp
  next
    case (Some take_one)
    obtain c w where r: "take_one (dv_world d) = (c, w)" by (metis surj_pair)
    have w: "I (in_world w d)" by (rule I_still [OF still_in_world 1(4)])
    show ?thesis
    proof (cases c)
      case (Some conn)
      then obtain d1 where b: "connection q g conn (in_world w d) = Some d1" "loop q g l (close_conn (cn_close conn) d1) = Some d'"
        using 1(2) r \<open>li_accept l = Some take_one\<close> by (auto split: option.splits)
      show ?thesis by (rule 1(1) [OF b(2) 1(3) close_law [OF connection_law [OF b(1) [unfolded 1(3)] w]]])
    qed (use 1(2) r w \<open>li_accept l = Some take_one\<close> in simp)
  qed
qed

lemma main_law:
  assumes "main_run p0 m w = Some (code, Some d)" "p = with_features (FeatInit (mc_host m)) p0"
    and "\<And>g config d0. start_device p m w = Some (Some (g, config, d0)) \<Longrightarrow> I d0"
  shows "I d"
proof -
  obtain g config d0 where s: "start_device p m w = Some (Some (g, config, d0))"
    using assms(1) unfolding main_run_def assms(2) [symmetric] Let_def by (auto split: option.splits)
  obtain l err w1 where o': "TransportOpen (mc_backends m) config [] 160 (dv_world d0) = ((l, err), w1)" by (metis surj_pair)
  have I1: "I (in_world w1 d0)" by (rule I_still [OF still_in_world assms(3) [OF s]])
  show ?thesis
  proof (cases l)
    case None
    then show ?thesis using assms(1) s o' I1 unfolding main_run_def assms(2) [symmetric] Let_def by simp
  next
    case (Some li)
    then obtain d1 where "accept_loop p g li (in_world w1 d0) = Some d1"
      "d = close_conn (Some (mc_tcpCleanup m)) (close_conn (cn_close (li_conn li)) d1)"
      using assms(1) s o' unfolding main_run_def assms(2) [symmetric] Let_def by auto
    then show ?thesis using accept_law [OF _ refl I1] close_law by simp
  qed
qed

end

section \<open>The runs of a request\<close>

lemma from_fields [simp]:
  "dv_catalog (from_exec st d) = dv_catalog d" "dv_unsafe (from_exec st d) = dv_unsafe d" "dv_did (from_exec st d) = did st"
  "dv_opens (from_exec st d) = opens st" "dv_held (from_exec st d) = dv_held d" "dv_acts (from_exec st d) = dv_acts d"
  "dv_orphan (from_exec st d) = dv_orphan d" "calls (dv_mem (from_exec st d)) = calls (dv_mem d)"
  "g_slots (dv_mem (from_exec st d)) = g_slots (dv_mem d)" "dv_asked (from_exec st d) = dv_asked d"
  "dv_left (from_exec st d) = dv_left d" "dv_clients (from_exec st d) = dv_clients d"
  "dv_catalog (from_pty yt d) = dv_catalog d" "dv_unsafe (from_pty yt d) = dv_unsafe d" "dv_did (from_pty yt d) = dv_did d"
  "dv_opens (from_pty yt d) = dv_opens d" "dv_held (from_pty yt d) = held yt" "dv_acts (from_pty yt d) = acts yt"
  "dv_orphan (from_pty yt d) = dv_orphan d" "calls (dv_mem (from_pty yt d)) = calls (dv_mem d)"
  "g_slots (dv_mem (from_pty yt d)) = g_slots (dv_mem d)" "dv_asked (from_pty yt d) = dv_asked d"
  "dv_left (from_pty yt d) = dv_left d" "dv_clients (from_pty yt d) = dv_clients d"
  by (simp_all add: from_exec_def from_pty_def in_world_def)

lemma to_fields [simp]:
  "did (to_exec d) = dv_did d" "opens (to_exec d) = dv_opens d" "held (to_pty d) = dv_held d" "acts (to_pty d) = dv_acts d"
  by (simp_all add: to_exec_def to_pty_def)

lemma run_execE:
  assumes "run_exec p t c ad bin d = Some d'"
  obtains (answered) r st where "ExecOpRun (features p) (p_exec p) (p_turns p (dv_world d)) (exec_request c ad bin) True (to_exec d) = Some (r, st)"
      "still d' = still (from_exec st d)" "\<forall>res. r = Inr res \<longrightarrow> \<not> still_active res"
  | (left) res st o' where
      "ExecOpRun (features p) (p_exec p) (p_turns p (dv_world d)) (exec_request c ad bin) True (to_exec d) = Some (Inr res, st)"
      "still_active res" "orph_handle o' = orphan_handle res"
      "still d' = still ((from_exec st d)\<lparr>dv_orphan := Some o', dv_left := dv_left d @ [orph_handle o']\<rparr>)"
proof -
  obtain r st where run: "ExecOpRun (features p) (p_exec p) (p_turns p (dv_world d)) (exec_request c ad bin) True (to_exec d) = Some (r, st)"
    and a: "answer_run p t c ad bin r (from_exec st d) = Some d'"
    using assms by (auto simp: run_exec_def split: option.splits)
  show thesis
  proof (cases "\<exists>res. r = Inr res \<and> still_active res")
    case True
    then obtain res where res: "r = Inr res" "still_active res" by blast
    then obtain l where "d' = send_exec_error t (req_id c) ''timed out''
        ((from_exec st d)\<lparr>dv_orphan := Some \<lparr>orph_handle = orphan_handle res, orph_start = orphan_start_tick res, orph_line = l\<rparr>,
           dv_left := dv_left d @ [orphan_handle res]\<rparr>)"
      using a by (auto simp: answer_run_def)
    then show thesis
      using run res left [of res st "\<lparr>orph_handle = orphan_handle res, orph_start = orphan_start_tick res, orph_line = l\<rparr>"]
      by simp
  next
    case False
    then have "still d' = still (from_exec st d)" using a by (cases r) (auto simp: answer_run_def)
    then show thesis using answered [OF run] False by blast
  qed
qed

lemma run_ptyE:
  assumes "run_pty p t c ad d = Some d'"
  obtains sched rq r st where "PtyExecRun (features p) (p_exec p) (p_pty p) sched rq (to_pty d) = Some (r, st)"
    "yq_cmdLine rq = ad_line ad" "still d' = still (from_pty st d)"
proof -
  define rq where "rq = \<lparr>yq_cmdLine = ad_line ad, yq_cwd = given_cwd c, yq_cols = (if cols c > 0 then cols c else 80),
     yq_rows = (if rows c > 0 then rows c else 25), yq_timeout = effective_timeout c, yq_stdin = ad_stdin ad,
     yq_cap = effective_cap c\<rparr>"
  obtain r st where run: "PtyExecRun (features p) (p_exec p) (p_pty p) (p_ptyTurns p (dv_world d)) rq (to_pty d) = Some (r, st)"
    and a: "d' = (case r of Inl why \<Rightarrow> send_exec_error t (req_id c) why (from_pty st d)
       | Inr res \<Rightarrow> answer_pty p t (req_id c) (gt_unsafe (ad_gate ad)) res (from_pty st d))"
    using assms by (auto simp: run_pty_def rq_def Let_def)
  have "still d' = still (from_pty st d)" using a by (cases r) simp_all
  then show thesis using that [OF run] by (simp add: rq_def)
qed

end
