(* ===== verification/DeviceGate.thy ===== *)
theory DeviceGate
  imports DeviceLaws
begin

text \<open>
  Nothing is started but what the gates let through, over the whole life of the device.
\<close>

section \<open>The gate\<close>

text \<open>
  What the two gates must have seen of a request, in terms of the catalog: an override, no
  catalog at all, or an entry under the name, with none but its flags in an argument vector;
  and for the memory verbs an entry that is no shell builtin.
\<close>

definition passed :: "StrApi \<Rightarrow> Catalog option \<Rightarrow> bool \<Rightarrow> JsonCommand \<Rightarrow> string \<Rightarrow> bool" where
  "passed api cat u c name \<longleftrightarrow>
     u \<or> unsafe_flag c \<or>
     (case cat of
        None \<Rightarrow> True
      | Some l \<Rightarrow> \<exists>e. CatalogLookup api l name = Some e \<and> (argv c = [] \<or> CatalogValidateArgs api (Some e) (argv c) = Inr ()))"

definition retainable :: "StrApi \<Rightarrow> Catalog option \<Rightarrow> bool \<Rightarrow> string \<Rightarrow> bool" where
  "retainable api cat u name \<longleftrightarrow>
     u \<or> (case cat of None \<Rightarrow> True | Some l \<Rightarrow> \<exists>e. CatalogLookup api l name = Some e \<and> \<not> is_builtin e)"

text \<open>
  What may have been started after the requests asked: by exec for one of them that is an exec
  and passed the gate, or by the probes at the start, with a known name of the catalog and
  nothing else; under a console for a ptyExec that passed; and retained for a spawnRetain.
\<close>

definition started_for ::
    "'w Platform \<Rightarrow> Catalog option \<Rightarrow> bool \<Rightarrow> bool \<Rightarrow> JsonCommand \<Rightarrow> string \<Rightarrow> bool" where
  "started_for p cat u isPty c line \<longleftrightarrow>
     cmd c = (if isPty then ''ptyExec'' else ''exec'') \<and>
     (\<exists>name. exec_name (p_cn p) c = Some name \<and> passed (p_api p) cat u c name) \<and>
     (\<exists>ad. admit (p_api p) (p_cn p) (features p) cat u isPty c = Some (Inr ad) \<and> line = ad_line ad)"

definition legit_exec :: "'w Platform \<Rightarrow> Catalog option \<Rightarrow> bool \<Rightarrow> JsonCommand list \<Rightarrow> ExecCall \<Rightarrow> bool" where
  "legit_exec p cat u reqs call =
     (case call of
        DidSpawn sc su r \<Rightarrow>
          (\<exists>c \<in> set reqs. \<exists>line. started_for p cat u False c line \<and> sc = spawn_cmd (features p) line (given_cwd c)) \<or>
          (\<exists>l k. cat = Some l \<and> k \<in> set g_known \<and> CatalogLookup (p_api p) l (kp_command k) \<noteq> None \<and>
             sc = spawn_cmd (features p) (kp_command k) None)
      | _ \<Rightarrow> True)"

definition legit_pty :: "'w Platform \<Rightarrow> Catalog option \<Rightarrow> bool \<Rightarrow> JsonCommand list \<Rightarrow> PtyCall \<Rightarrow> bool" where
  "legit_pty p cat u reqs call =
     (case call of PtySpawned line l h \<Rightarrow> \<exists>c \<in> set reqs. started_for p cat u True c line | _ \<Rightarrow> True)"

definition legit_mem :: "'w Platform \<Rightarrow> Catalog option \<Rightarrow> bool \<Rightarrow> JsonCommand list \<Rightarrow> MemCall \<Rightarrow> bool" where
  "legit_mem p cat u reqs call =
     (case call of
        CallSpawn line hs \<Rightarrow>
          (\<exists>c \<in> set reqs. cmd c = ''spawnRetain'' \<and> argv c \<noteq> [] \<and> retainable (p_api p) cat u (hd (argv c)) \<and>
             ref_tokenize line False False [] = argv c)
      | _ \<Rightarrow> True)"

definition gated :: "'w Platform \<Rightarrow> Catalog option \<Rightarrow> bool \<Rightarrow> 'w Device \<Rightarrow> bool" where
  "gated p cat u d \<longleftrightarrow>
     dv_catalog d = cat \<and> dv_unsafe d = u \<and>
     (\<forall>x \<in> set (dv_did d). legit_exec p cat u (dv_asked d) x) \<and>
     (\<forall>x \<in> set (dv_acts d). legit_pty p cat u (dv_asked d) x) \<and>
     (\<forall>x \<in> set (calls (dv_mem d)). legit_mem p cat u (dv_asked d) x)"

lemma legit_free [simp]:
  "legit_exec p cat u q (DidPipe h k)" "legit_exec p cat u q (DidIsolate h k)" "legit_exec p cat u q (DidClose h)" "legit_exec p cat u q (DidAssign j h)" "legit_exec p cat u q (DidResume h)"
  "legit_exec p cat u q (DidBreak h)" "legit_exec p cat u q (DidTerminate h)"
  "legit_pty p cat u q (PtyTerminated h)" "legit_pty p cat u q (PtyReaped h)" "legit_pty p cat u q (PtyConsoleClosed h)"
  "legit_pty p cat u q (PtyJoined h)" "legit_pty p cat u q (PtyPiped h k)" "legit_pty p cat u q (PtyConsoleMade c h k)"
  "legit_pty p cat u q (PtyListMade l)" "legit_pty p cat u q (PtyListNames l c)" "legit_pty p cat u q (PtyReading h k)"
  "legit_pty p cat u q (PtyListDeleted l)"
  by (simp_all add: legit_exec_def legit_pty_def)

text \<open>What was legitimate stays so when more is asked.\<close>

lemma legit_mono:
  "legit_exec p cat u q x \<Longrightarrow> legit_exec p cat u (q @ q') x"
  "legit_pty p cat u q y \<Longrightarrow> legit_pty p cat u (q @ q') y"
  "legit_mem p cat u q z \<Longrightarrow> legit_mem p cat u (q @ q') z"
  by (auto simp: legit_exec_def legit_pty_def legit_mem_def split: ExecCall.splits PtyCall.splits MemCall.splits)

text \<open>An admission is for a request that passed the gate.\<close>

lemma admitted_passed:
  assumes "admit api cn f cat u isPty c = Some (Inr ad)"
  shows "exec_name cn c = Some (ad_name ad)" "passed api cat u c (ad_name ad)"
  using admitE(1,5) [OF assms] by (auto simp: exec_gate_def passed_def split: if_splits option.splits)

lemma admitted_started:
  "admit (p_api p) (p_cn p) (features p) cat u isPty c = Some (Inr ad) \<Longrightarrow> cmd c = (if isPty then ''ptyExec'' else ''exec'') \<Longrightarrow>
     started_for p cat u isPty c (ad_line ad)"
  using admitted_passed by (fastforce simp: started_for_def)

lemma ended_free: "ended pi b a new \<Longrightarrow> x \<in> set new \<Longrightarrow> legit_exec p cat u q x"
  by (auto simp: ended_def split: if_splits)

lemma start_free:
  assumes "prepared f i w e (cs @ rest)" "x \<in> set cs"
  shows "legit_exec p cat u q x"
proof -
  have "x \<in> set (cs @ rest)" using assms(2) by simp
  then show ?thesis using assms(1) by (auto simp: prepared_def isolated_def split: if_splits simp del: set_append)
qed

lemma spawned_legit:
  assumes "spawned f rq r cs" "\<And>su r. legit_exec p cat u q (DidSpawn (spawn_cmd f (rq_cmdLine rq) (rq_cwd rq)) su r)" "x \<in> set cs"
  shows "legit_exec p cat u q x"
  using assms start_free [of f _ _ _ _ "[]"] by (auto simp: spawned_def)

lemma run_legit:
  assumes "ExecOpRun f os sched rq hide st = Some (r, st')"
    and "\<And>su r. legit_exec p cat u q (DidSpawn (spawn_cmd f (rq_cmdLine rq) (rq_cwd rq)) su r)"
    and "\<forall>x \<in> set (did st). legit_exec p cat u q x"
  shows "\<forall>x \<in> set (did st'). legit_exec p cat u q x"
proof -
  obtain new where n: "did st' = did st @ new" "case r of Inl why \<Rightarrow> refused_order f rq new | Inr res \<Rightarrow> run_order f rq res new"
    using run_ordered [OF assms(1)] by blast
  note start = spawned_legit [OF _ assms(2)]
  have "\<forall>x \<in> set new. legit_exec p cat u q x"
    using n(2)
    by (auto simp: refused_order_def run_order_def intro: ended_free start_free start split: sum.splits if_splits)
  then show ?thesis using n(1) assms(3) by auto
qed

lemma pty_legit:
  assumes "PtyExecRun f xs os sched rq st = Some (r, st')"
    and "\<And>l h. legit_pty p cat u q (PtySpawned (yq_cmdLine rq) l h)"
    and "\<forall>x \<in> set (acts st). legit_pty p cat u q x"
  shows "\<forall>x \<in> set (acts st'). legit_pty p cat u q x"
proof -
  have start: "legit_pty p cat u q x" if "x \<in> set (begun (yq_cmdLine rq) i o' c a h)" for x i o' c a h
    using that assms(2) by (auto simp: begun_def)
  obtain new where n: "acts st' = acts st @ new"
    "case r of Inl e \<Rightarrow> pty_failed rq e new | Inr res \<Rightarrow> \<exists>rs. pty_reads st' = pty_reads st @ rs \<and> pty_ran rq res new rs"
    using pty_ordered [OF assms(1)] by blast
  have "\<forall>x \<in> set new. legit_pty p cat u q x"
    using n(2) start by (cases r) (auto simp: pty_failed_def pty_ran_def dest!: in_set_takeD split: if_splits)
  then show ?thesis using n(1) assms(3) by auto
qed

text \<open>The memory verbs start a process with a spawn alone, on the name its gate let through.\<close>

lemma spawn_calls_legit:
  assumes "\<exists>c \<in> set q. cmd c = ''spawnRetain'' \<and> argv c = args" "\<forall>x \<in> set (calls st). legit_mem p cat u q x"
  shows "\<forall>x \<in> set (calls (snd (MemSpawnRetain (p_api p) os cat u args st))). legit_mem p cat u q x"
proof (cases "args = [] \<or> hd args = [] \<or> spawn_gate (p_api p) cat u (hd args) \<noteq> None \<or> free_slot st = None \<or>
    ArgvJoin args MEM_MAX_CMDLINE = None")
  case True
  then show ?thesis using assms by (auto simp: MemSpawnRetain_def split: option.splits)
next
  case False
  then obtain i l where i: "free_slot st = Some i" "ArgvJoin args MEM_MAX_CMDLINE = Some l" by auto
  have ok: "legit_mem p cat u q (CallSpawn l hs)" "\<And>h. legit_mem p cat u q (CallClose h)" for hs
    using False join_tokens [OF i(2)] assms(1)
    by (auto simp: legit_mem_def retainable_def spawn_gate_def split: option.splits if_splits)
  obtain k w where k: "CreateProcessA os l (world st) = (k, w)" by (metis surj_pair)
  show ?thesis using False i k ok assms
    by (auto simp: MemSpawnRetain_def note_call_def mem_close_def mem_retain_def Let_def split: sum.splits prod.splits)
qed

definition quiet :: "'w MemState \<Rightarrow> 'w MemState \<Rightarrow> bool" where
  "quiet st' st \<longleftrightarrow> (\<forall>l hs. CallSpawn l hs \<in> set (calls st') \<longrightarrow> CallSpawn l hs \<in> set (calls st))"

lemma quiet_legit:
  assumes "quiet st' st" "\<forall>x \<in> set (calls st). legit_mem p cat u q x"
  shows "\<forall>x \<in> set (calls st'). legit_mem p cat u q x"
proof
  fix x assume x: "x \<in> set (calls st')"
  show "legit_mem p cat u q x"
  proof (cases x)
    case (CallSpawn l hs)
    then show ?thesis using x assms unfolding quiet_def by blast
  qed (simp_all add: legit_mem_def)
qed

lemma quiet_steps [simp]:
  "quiet st st" "quiet (note_call c st) st = (\<forall>l hs. c = CallSpawn l hs \<longrightarrow> CallSpawn l hs \<in> set (calls st))"
  "quiet (st\<lparr>world := w\<rparr>) st"
  by (auto simp: quiet_def note_call_def)

lemma quiet_peek: "quiet (snd (MemPeek api os token a n st)) st"
  by (auto simp: MemPeek_def quiet_def note_call_def Let_def split: prod.split MemIo.split option.split)

lemma quiet_give_up: "quiet (snd (MemRelease api os token st)) st" "quiet (snd (MemTerminate api os token st)) st"
  by (auto simp: MemRelease_def MemTerminate_def free_the_slot_def mem_close_def note_call_def quiet_def Let_def
      split: option.split)

lemma quiet_write: "poke_write os target a src n st = (r, st1) \<Longrightarrow> quiet st1 st"
  by (auto simp: poke_write_def quiet_def note_call_def split: option.splits prod.splits)

lemma quiet_audit: "poke_audit api os proc token a n k part st = (r, st1) \<Longrightarrow> quiet st1 st"
  by (auto simp: poke_audit_def quiet_def note_call_def Let_def split: prod.splits)

lemma quiet_trans: "quiet a b \<Longrightarrow> quiet b c \<Longrightarrow> quiet a c"
  by (simp add: quiet_def)

lemma quiet_poke: "quiet (snd (MemPoke api os token a src n st)) st"
proof -
  have w: "quiet (st\<lparr>world := w\<rparr>) st" for w by simp
  show ?thesis
    by (auto simp: MemPoke_def Let_def intro: w quiet_trans [OF quiet_write w] quiet_trans [OF quiet_audit quiet_trans [OF quiet_write w]]
        split: prod.split bool.split option.split sum.split)
qed

lemma quiet_release_all: "quiet (MemReleaseAll os st) st"
proof -
  have "quiet (fold (\<lambda>i st. if in_use (g_slots st ! i) then free_the_slot i (mem_close os (handle (g_slots st ! i)) st) else st) ks st) st" for ks
  proof (induction ks arbitrary: st)
    case (Cons k ks)
    have "quiet (free_the_slot k (mem_close os (handle (g_slots st ! k)) st)) st"
      by (auto simp: quiet_def free_the_slot_def mem_close_def note_call_def)
    then show ?case using Cons quiet_trans by auto
  qed simp
  then show ?thesis by (simp add: MemReleaseAll_def)
qed

text \<open>A memory verb is one operation on the memory state, or none.\<close>

definition mem_step :: "'w Platform \<Rightarrow> JsonCommand \<Rightarrow> 'w Device \<Rightarrow> 'w MemState \<Rightarrow> bool" where
  "mem_step p c d m \<longleftrightarrow>
     m = dv_mem d \<or>
     (\<exists>a n. m = snd (MemPeek (p_api p) (p_mem p) (mem_token c) a n (dv_mem d))) \<or>
     (\<exists>a src n. m = snd (MemPoke (p_api p) (p_mem p) (mem_token c) a src n (dv_mem d))) \<or>
     m = snd (MemTerminate (p_api p) (p_mem p) (mem_token c) (dv_mem d)) \<or>
     m = snd (MemRelease (p_api p) (p_mem p) (mem_token c) (dv_mem d))"

lemma handle_mem_cases:
  obtains (spawn) "cmd c = ''spawnRetain''" "still (HandleMem p t c d) = still (d\<lparr>dv_mem := snd (MemSpawnRetain (p_api p) (p_mem p) (dv_catalog d) (dv_unsafe d) (argv c) (dv_mem d))\<rparr>)"
  | (other) m where "still (HandleMem p t c d) = still (d\<lparr>dv_mem := m\<rparr>)" "mem_step p c d m"
proof -
  have same: "still d = still (d\<lparr>dv_mem := dv_mem d\<rparr>)" by simp
  have peek: "\<exists>m. still (mem_peek p t c d) = still (d\<lparr>dv_mem := m\<rparr>) \<and> mem_step p c d m"
  proof (cases "MemParseU32 (mem_addr c) = None \<or> MemParseU32 (mem_len c) = None")
    case True
    then show ?thesis
      by (intro exI [of _ "dv_mem d"]) (auto simp: mem_peek_def mem_step_def split: option.split)
  next
    case False
    then obtain a n where an: "MemParseU32 (mem_addr c) = Some a" "MemParseU32 (mem_len c) = Some n" by auto
    obtain r bytes m where m: "MemPeek (p_api p) (p_mem p) (mem_token c) a n (dv_mem d) = ((r, bytes), m)" by (metis surj_pair)
    have "still (mem_peek p t c d) = still (d\<lparr>dv_mem := m\<rparr>)" using an m by (simp add: mem_peek_def Let_def split: option.split)
    moreover have "mem_step p c d m" unfolding mem_step_def using m by (metis snd_conv)
    ultimately show ?thesis by blast
  qed
  have poke: "\<exists>m. still (mem_poke p t c d) = still (d\<lparr>dv_mem := m\<rparr>) \<and> mem_step p c d m"
  proof (cases "MemParseU32 (mem_addr c) = None \<or> fst (Base64Decode (Some (data c)) (int (unat MEM_MAX_ACCESS))) < 0")
    case True
    then show ?thesis
      by (intro exI [of _ "dv_mem d"]) (auto simp: mem_poke_def mem_step_def split: option.split prod.split)
  next
    case False
    then obtain a n bytes where an: "MemParseU32 (mem_addr c) = Some a" "Base64Decode (Some (data c)) (int (unat MEM_MAX_ACCESS)) = (n, bytes)"
      "\<not> n < 0" by (metis fst_conv option.exhaust surj_pair)
    obtain r m where m: "MemPoke (p_api p) (p_mem p) (mem_token c) a bytes (word_of_int n) (dv_mem d) = (r, m)" by (metis surj_pair)
    have "still (mem_poke p t c d) = still (d\<lparr>dv_mem := m\<rparr>)" using an m by (simp add: mem_poke_def Let_def)
    moreover have "mem_step p c d m" unfolding mem_step_def using m by (metis snd_conv)
    ultimately show ?thesis by blast
  qed
  have give: "still (mem_give_up t c what f d) = still (d\<lparr>dv_mem := snd (f (mem_token c) (dv_mem d))\<rparr>)" for what f
    by (auto simp: mem_give_up_def Let_def split: prod.split)
  have spawned: "still (mem_spawn p t c d) =
      still (d\<lparr>dv_mem := snd (MemSpawnRetain (p_api p) (p_mem p) (dv_catalog d) (dv_unsafe d) (argv c) (dv_mem d))\<rparr>)"
    by (auto simp: mem_spawn_def Let_def split: prod.split)
  show thesis
  proof (cases "cmd c = ''spawnRetain''")
    case True
    then show thesis using spawned spawn by (simp add: HandleMem_def)
  next
    case False
    let ?fine = "\<lambda>e. \<exists>m. still e = still (d\<lparr>dv_mem := m\<rparr>) \<and> mem_step p c d m"
    have "?fine (mem_give_up t c what (MemTerminate (p_api p) (p_mem p)) d)"
      "?fine (mem_give_up t c what (MemRelease (p_api p) (p_mem p)) d)" for what
      unfolding give mem_step_def by blast+
    moreover have "?fine d" unfolding mem_step_def using same by blast
    moreover have "?fine (mem_peek p t c d)" "?fine (mem_poke p t c d)" using peek poke by blast+
    ultimately have "?fine (HandleMem p t c d)" using False unfolding HandleMem_def by presburger
    then show thesis using other by blast
  qed
qed

lemma mem_step_quiet: "mem_step p c d m \<Longrightarrow> quiet m (dv_mem d)"
  unfolding mem_step_def using quiet_peek quiet_poke quiet_give_up quiet_steps(1) by metis

lemma gated_still: "still d' = still d \<Longrightarrow> gated p cat u d \<Longrightarrow> gated p cat u d'"
  unfolding gated_def using stillD [of d' d] by simp

interpretation gate: device_law p "gated p cat u" for p :: "'w Platform" and cat u
proof
  fix d d' :: "'w Device"
  show "still d' = still d \<Longrightarrow> gated p cat u d \<Longrightarrow> gated p cat u d'" by (rule gated_still)
next
  fix c and d :: "'w Device"
  show "gated p cat u d \<Longrightarrow> gated p cat u (d\<lparr>dv_asked := dv_asked d @ [c]\<rparr>)"
    by (simp add: gated_def legit_mono)
next
  fix t rid b and d d' :: "'w Device"
  show "exec_reap p t rid d = (b, d') \<Longrightarrow> gated p cat u d \<Longrightarrow> gated p cat u d'"
    using reap_fields [of p t rid d b d'] by (simp add: gated_def)
next
  fix t c ad and d d' :: "'w Device"
  assume a: "c \<in> set (dv_asked d)" "cmd c = ''ptyExec''"
    "admit (p_api p) (p_cn p) (features p) (dv_catalog d) (dv_unsafe d) True c = Some (Inr ad)"
    "run_pty p t c ad d = Some d'" "gated p cat u d"
  have start: "started_for p cat u True c (ad_line ad)" using admitted_started [OF a(3)] a(2,5) by (simp add: gated_def)
  from a(4) show "gated p cat u d'"
  proof (cases rule: run_ptyE)
    case (1 sched rq r st)
    have "legit_pty p cat u (dv_asked d) (PtySpawned (yq_cmdLine rq) l h)" for l h
      using start a(1) 1(2) by (auto simp: legit_pty_def)
    from pty_legit [OF 1(1) this] a(5) have "gated p cat u (from_pty st d)" by (simp add: gated_def)
    then show ?thesis by (rule gated_still [OF 1(3)])
  qed
next
  fix t c ad bin and d d' :: "'w Device"
  assume a: "c \<in> set (dv_asked d)" "cmd c = ''exec''"
    "admit (p_api p) (p_cn p) (features p) (dv_catalog d) (dv_unsafe d) False c = Some (Inr ad)"
    "run_exec p t c ad bin d = Some d'" "gated p cat u d"
  have start: "started_for p cat u False c (ad_line ad)" using admitted_started [OF a(3)] a(2,5) by (simp add: gated_def)
  have legit: "legit_exec p cat u (dv_asked d)
      (DidSpawn (spawn_cmd (features p) (rq_cmdLine (exec_request c ad bin)) (rq_cwd (exec_request c ad bin))) su r)" for su r
    using start a(1) by (auto simp: legit_exec_def exec_request_def)
  from a(4) show "gated p cat u d'"
  proof (cases rule: run_execE)
    case (answered r st)
    from run_legit [OF answered(1) legit] a(5) have "gated p cat u (from_exec st d)" by (simp add: gated_def)
    then show ?thesis by (rule gated_still [OF answered(2)])
  next
    case (left res st o')
    from run_legit [OF left(1) legit] a(5)
    have "gated p cat u ((from_exec st d)\<lparr>dv_orphan := Some o', dv_left := dv_left d @ [orph_handle o']\<rparr>)" by (simp add: gated_def)
    then show ?thesis by (rule gated_still [OF left(4)])
  qed
next
  fix t c and d :: "'w Device"
  assume c: "c \<in> set (dv_asked d)" and d: "gated p cat u d"
  show "gated p cat u (HandleMem p t c d)"
  proof (cases rule: handle_mem_cases [of c p t d])
    case spawn
    have "gated p cat u (d\<lparr>dv_mem := snd (MemSpawnRetain (p_api p) (p_mem p) (dv_catalog d) (dv_unsafe d) (argv c) (dv_mem d))\<rparr>)"
      using d c spawn(1) spawn_calls_legit [of "dv_asked d" "argv c" "dv_mem d" p cat u "p_mem p"] by (auto simp: gated_def)
    then show ?thesis by (rule gated_still [OF spawn(2)])
  next
    case (other m)
    have "gated p cat u (d\<lparr>dv_mem := m\<rparr>)" using d quiet_legit [OF mem_step_quiet [OF other(2)], of p cat u "dv_asked d"] by (auto simp: gated_def)
    then show ?thesis by (rule gated_still [OF other(1)])
  qed
next
  fix n and d :: "'w Device"
  show "gated p cat u d \<Longrightarrow> gated p cat u (d\<lparr>dv_clients := dv_clients d @ [n]\<rparr>)" by (simp add: gated_def)
next
  fix d :: "'w Device"
  show "gated p cat u d \<Longrightarrow> gated p cat u (d\<lparr>dv_mem := MemReleaseAll (p_mem p) (dv_mem d)\<rparr>)"
    using quiet_legit [OF quiet_release_all [of "p_mem p" "dv_mem d"], of p cat u "dv_asked d"] by (auto simp: gated_def)
qed

text \<open>The probes at the start.\<close>

lemma probe_all_legit:
  "probe_all (p_api p) (features p) os turns l ks found st = Some (ts, st') \<Longrightarrow> set ks \<subseteq> set g_known \<Longrightarrow>
     \<forall>x \<in> set (did st). legit_exec p (Some l) u q x \<Longrightarrow> \<forall>x \<in> set (did st'). legit_exec p (Some l) u q x"
proof (induction ks arbitrary: found st)
  case (Cons k ks)
  show ?case
  proof (cases "length found \<ge> TOOLCHAIN_MAX \<or> CatalogLookup (p_api p) l (kp_command k) = None")
    case True
    then show ?thesis using Cons by (cases "length found \<ge> TOOLCHAIN_MAX") auto
  next
    case False
    then obtain r st1 where r: "ExecOpRun (features p) os (turns (xw st)) (probe_request (kp_command k)) True st = Some (r, st1)"
      using Cons.prems(1) by (auto split: option.splits)
    have "legit_exec p (Some l) u q (DidSpawn (spawn_cmd (features p) (rq_cmdLine (probe_request (kp_command k)))
        (rq_cwd (probe_request (kp_command k)))) su r)" for su r
      using False Cons.prems(2) by (auto simp: legit_exec_def probe_request_def)
    note st1 = run_legit [OF r this Cons.prems(3)]
    have "\<exists>found'. probe_all (p_api p) (features p) os turns l ks found' st1 = Some (ts, st')"
      using Cons.prems(1) False r by (cases r) auto
    then show ?thesis using Cons.IH [OF _ _ st1] Cons.prems(2) by auto
  qed
qed simp

lemma start_deviceE:
  assumes "start_device p m w = Some (Some (g, config, d))"
  obtains cat w1 a w2 st where "config = snd (ParseCommandLine (mc_cmdLine m))"
    "LoadCatalogAtStartup p m config w = Some ((cat, gr_warning g), w1)"
    "AuditConfigure (p_cn p) (FileOs.truncate (p_mem p)) (allowMemWrite config) (auditPath config) w1 = Some (a, w2)"
    "ToolchainProbe (p_api p) (features p) (p_exec p) (p_turns p) cat
       (to_exec (ExecConfigure cat (unsafeMode config) (first_device a (features p) w2))) = Some (gr_tools g, st)"
    "d = from_exec st (ExecConfigure cat (unsafeMode config) (first_device a (features p) w2))"
  using assms by (auto simp: start_device_def Let_def split: prod.splits bool.splits option.splits)

lemma start_gated:
  assumes "start_device p m w = Some (Some (g, config, d))"
  shows "config = snd (ParseCommandLine (mc_cmdLine m)) \<and>
    (\<exists>cat w1. LoadCatalogAtStartup p m config w = Some ((cat, gr_warning g), w1) \<and> gated p cat (unsafeMode config) d)"
  using assms
proof (cases rule: start_deviceE)
  case (1 cat w1 a w2 st)
  let ?d = "ExecConfigure cat (unsafeMode config) (first_device a (features p) w2)"
  have empty: "dv_did ?d = []" "dv_asked ?d = []" "dv_acts ?d = []" "calls (dv_mem ?d) = []" "dv_catalog ?d = cat"
    "dv_unsafe ?d = unsafeMode config"
    by (simp_all add: ExecConfigure_def first_device_def mem_start_def)
  have "\<forall>x \<in> set (did st). legit_exec p cat (unsafeMode config) [] x"
  proof (cases cat)
    case None
    then have "did st = []" using 1(4) empty(1) by (auto simp: ToolchainProbe_def)
    then show ?thesis by simp
  next
    case (Some l)
    then have "probe_all (p_api p) (features p) (p_exec p) (p_turns p) l g_known [] (to_exec ?d) = Some (gr_tools g, st)"
      using 1(4) by (simp add: ToolchainProbe_def)
    from probe_all_legit [OF this order.refl, of "unsafeMode config" "[]"] show ?thesis using Some empty by simp
  qed
  then have "gated p cat (unsafeMode config) d" using empty 1(5) by (simp add: gated_def)
  then show ?thesis using 1(1,2) by blast
qed

text \<open>
  C1: over the whole life of the device, from its start through every connection and
  request, nothing is started but for a request that was read and that the gate lets through.
  The catalog and the override are those of the start and never change.  What exec spawned is
  the line and the directory of an exec that was asked for, whose name is in the catalog with
  its flags, unless the override, that of the request or the lack of a catalog lets it pass,
  or a known build tool that the probes found in the catalog; the same holds of a ptyExec and
  what ran under a console; and what was retained is read back as the vector of a spawnRetain
  whose name is in the catalog and no builtin, unless overridden or without a catalog.
\<close>

theorem main_run_gated:
  "case main_run p0 m w of
     Some (code, Some d) \<Rightarrow>
       (let p = with_features (FeatInit (mc_host m)) p0; config = snd (ParseCommandLine (mc_cmdLine m)) in
        \<exists>cat warning w1. LoadCatalogAtStartup p m config w = Some ((cat, warning), w1) \<and>
          gated p cat (unsafeMode config) d)
   | _ \<Rightarrow> True"
proof -
  define p where "p = with_features (FeatInit (mc_host m)) p0"
  have "\<exists>cat warning w1. LoadCatalogAtStartup p m (snd (ParseCommandLine (mc_cmdLine m))) w = Some ((cat, warning), w1) \<and>
      gated p cat (unsafeMode (snd (ParseCommandLine (mc_cmdLine m)))) d"
    if run: "main_run p0 m w = Some (code, Some d)" for code d
  proof -
    obtain g config d0 where s: "start_device p m w = Some (Some (g, config, d0))"
      using run unfolding main_run_def p_def [symmetric] Let_def by (auto split: option.splits)
    obtain cat w1 where c: "config = snd (ParseCommandLine (mc_cmdLine m))"
      "LoadCatalogAtStartup p m config w = Some ((cat, gr_warning g), w1)" "gated p cat (unsafeMode config) d0"
      using start_gated [OF s] by blast
    have "gated p cat (unsafeMode config) d"
      by (rule gate.main_law [OF run p_def]) (use s c(3) in auto)
    then show ?thesis using c by blast
  qed
  then show ?thesis unfolding p_def [symmetric] Let_def by (auto split: option.split)
qed

end
