(* ===== verification/DeviceKeep.thy ===== *)
theory DeviceKeep
  imports DeviceGate MemHold
begin

text \<open>
  What the device holds on to: the handles of its children, and the processes it retains
  for a client.
\<close>

section \<open>The handles\<close>

text \<open>
  What is open between two requests: nothing but the handle of the one child left running,
  and, where there are job objects, the handle of one job for every child that ever was.
\<close>

definition balanced :: "'w Platform \<Rightarrow> 'w Device \<Rightarrow> bool" where
  "balanced p d \<longleftrightarrow>
     dv_held d = (\<lambda>_. 0) \<and>
     (\<exists>jobs. length jobs = (if has_create_job_object (features p) then length (dv_left d) else 0) \<and>
        dv_opens d = (\<lambda>x. cnt (map_option orph_handle (dv_orphan d)) x + int (count_list jobs x)))"

lemma balanced_same:
  "dv_held d' = dv_held d \<Longrightarrow> dv_opens d' = dv_opens d \<Longrightarrow> dv_left d' = dv_left d \<Longrightarrow> dv_orphan d' = dv_orphan d \<Longrightarrow>
     balanced p d \<Longrightarrow> balanced p d'"
  by (simp only: balanced_def)

lemma balanced_still: "still d' = still d \<Longrightarrow> balanced p d \<Longrightarrow> balanced p d'"
  by (rule balanced_same [OF stillD(6,4,14,3)])

lemma balanced_left:
  assumes b: "balanced p d" and "dv_orphan d = None" "(job \<noteq> None) = has_create_job_object (features p)"
    and o': "opens st = (\<lambda>x. dv_opens d x + cnt (Some (orph_handle o')) x + cnt job x)"
  shows "balanced p ((from_exec st d)\<lparr>dv_orphan := Some o', dv_left := dv_left d @ [orph_handle o']\<rparr>)"
proof -
  obtain jobs where jobs: "length jobs = (if has_create_job_object (features p) then length (dv_left d) else 0)"
    "dv_opens d = (\<lambda>x. int (count_list jobs x))"
    using b assms(2) by (auto simp: balanced_def cnt_def)
  let ?jobs = "jobs @ (case job of None \<Rightarrow> [] | Some j \<Rightarrow> [j])"
  have "length ?jobs = (if has_create_job_object (features p) then length (dv_left d @ [orph_handle o']) else 0)"
    using jobs(1) assms(3) by (cases job) auto
  moreover have "opens st = (\<lambda>x. cnt (Some (orph_handle o')) x + int (count_list ?jobs x))"
    using jobs(2) o' by (auto simp: cnt_def fun_eq_iff split: option.split)
  ultimately show ?thesis using b by (auto simp: balanced_def intro!: exI [of _ ?jobs])
qed

interpretation handles: device_law p "balanced p" for p :: "'w Platform"
proof
  fix d d' :: "'w Device"
  show "still d' = still d \<Longrightarrow> balanced p d \<Longrightarrow> balanced p d'" by (rule balanced_still)
next
  fix c and d :: "'w Device"
  show "balanced p d \<Longrightarrow> balanced p (d\<lparr>dv_asked := dv_asked d @ [c]\<rparr>)" by (auto intro: balanced_same [rotated -1])
next
  fix t rid b and d d' :: "'w Device"
  assume r: "exec_reap p t rid d = (b, d')" "balanced p d"
  from r(1) show "balanced p d'"
  proof (cases rule: exec_reapE)
    case kept
    then show ?thesis using balanced_still r(2) by blast
  next
    case (reaped o')
    then have "balanced p (d\<lparr>dv_orphan := None, dv_opens := (dv_opens d)(orph_handle o' := dv_opens d (orph_handle o') - 1)\<rparr>)"
      using r(2) by (auto simp: balanced_def fun_eq_iff cnt_def)
    then show ?thesis by (rule balanced_still [OF reaped(3)])
  qed
next
  fix t c ad and d d' :: "'w Device"
  assume "run_pty p t c ad d = Some d'" "balanced p d"
  then show "balanced p d'"
  proof (elim run_ptyE)
    fix sched rq r st
    assume "PtyExecRun (features p) (p_exec p) (p_pty p) sched rq (to_pty d) = Some (r, st)" "balanced p d"
    then have "balanced p (from_pty st d)" using pty_released by (fastforce intro: balanced_same [rotated -1])
    then show "still d' = still (from_pty st d) \<Longrightarrow> balanced p d'" using balanced_still by blast
  qed
next
  fix t c ad bin and d d' :: "'w Device"
  assume a: "dv_orphan d = None" "run_exec p t c ad bin d = Some d'" "balanced p d"
  from a(2) show "balanced p d'"
  proof (cases rule: run_execE)
    case (answered r st)
    have "opens st = dv_opens d" using run_leaves [OF answered(1)] answered(3) by (cases r) (auto simp: leaves_def)
    then have "balanced p (from_exec st d)" by (intro balanced_same [OF _ _ _ _ a(3)]) simp_all
    then show ?thesis by (rule balanced_still [OF answered(2)])
  next
    case (left res st o')
    obtain job where "(job \<noteq> None) = has_create_job_object (features p)"
      "opens st = (\<lambda>x. dv_opens d x + cnt (Some (orphan_handle res)) x + cnt job x)"
      using run_leaves [OF left(1)] left(2) by (auto simp: leaves_def)
    then have "balanced p ((from_exec st d)\<lparr>dv_orphan := Some o', dv_left := dv_left d @ [orph_handle o']\<rparr>)"
      using left(3) by (intro balanced_left [OF a(3,1)]) simp_all
    then show ?thesis by (rule balanced_still [OF left(4)])
  qed
next
  fix t c and d :: "'w Device"
  assume d: "balanced p d"
  have m: "balanced p (d\<lparr>dv_mem := m\<rparr>)" for m by (rule balanced_same [OF _ _ _ _ d]) simp_all
  show "balanced p (HandleMem p t c d)"
    by (rule handle_mem_cases [of c p t d]) (use m balanced_still in blast)+
next
  fix n and d :: "'w Device"
  show "balanced p d \<Longrightarrow> balanced p (d\<lparr>dv_clients := dv_clients d @ [n]\<rparr>)" by (auto intro: balanced_same [rotated -1])
next
  fix d :: "'w Device"
  show "balanced p d \<Longrightarrow> balanced p (d\<lparr>dv_mem := MemReleaseAll (p_mem p) (dv_mem d)\<rparr>)"
    by (auto intro: balanced_same [rotated -1])
qed

lemma probe_all_opens:
  "probe_all api f os turns l ks found st = Some (ts, st') \<Longrightarrow> opens st' = opens st"
proof (induction ks arbitrary: found st)
  case (Cons k ks)
  show ?case
  proof (cases "length found \<ge> TOOLCHAIN_MAX \<or> CatalogLookup api l (kp_command k) = None")
    case True
    then show ?thesis using Cons by (cases "length found \<ge> TOOLCHAIN_MAX") auto
  next
    case False
    then obtain r st1 where r: "ExecOpRun f os (turns (xw st)) (probe_request (kp_command k)) True st = Some (r, st1)"
      using Cons.prems by (auto split: option.splits)
    have "\<not> sixteen_bit (rq_bin (probe_request (kp_command k)))" by (simp add: probe_request_def sixteen_bit_def)
    then have "\<forall>res. r = Inr res \<longrightarrow> \<not> still_active res"
      using run_ordered [OF r] by (auto simp: run_order_def split: if_splits)
    then have "opens st1 = opens st" using run_leaves [OF r] by (cases r) (auto simp: leaves_def)
    moreover have "\<exists>found'. probe_all api f os turns l ks found' st1 = Some (ts, st')"
      using Cons.prems False r by (cases r) auto
    ultimately show ?thesis using Cons.IH by auto
  qed
qed simp

lemma start_balanced:
  assumes "start_device p m w = Some (Some (g, config, d))"
  shows "balanced p d"
  using assms
proof (cases rule: start_deviceE)
  case (1 cat w1 a w2 st)
  let ?d = "ExecConfigure cat (unsafeMode config) (first_device a (features p) w2)"
  have "opens st = opens (to_exec ?d)"
  proof (cases cat)
    case None
    then show ?thesis using 1(4) by (auto simp: ToolchainProbe_def)
  next
    case (Some l)
    then have "probe_all (p_api p) (features p) (p_exec p) (p_turns p) l g_known [] (to_exec ?d) = Some (gr_tools g, st)"
      using 1(4) by (simp add: ToolchainProbe_def)
    then show ?thesis by (rule probe_all_opens)
  qed
  then show ?thesis using 1(5) by (simp add: balanced_def ExecConfigure_def first_device_def fun_eq_iff cnt_def)
qed

text \<open>
  C36: over the whole life of the device no handle is lost but one kind: whatever Windows
  answers and however the threads are scheduled, all that the console runs acquired was given
  back, and all that the exec runs and the probes opened was closed, but for the handle of the
  one child still left running, which the device keeps to ask for, and on a host with job
  objects exactly one further handle, that of its job, for each child that was ever left.
\<close>

theorem main_run_handles:
  "case main_run p0 m w of
     Some (code, Some d) \<Rightarrow>
       dv_held d = (\<lambda>_. 0) \<and>
       (\<exists>jobs. length jobs = (if has_create_job_object (FeatInit (mc_host m)) then length (dv_left d) else 0) \<and>
          dv_opens d = (\<lambda>x. (case dv_orphan d of None \<Rightarrow> 0 | Some o' \<Rightarrow> of_bool (x = orph_handle o')) + int (count_list jobs x)))
   | _ \<Rightarrow> True"
proof -
  define p where "p = with_features (FeatInit (mc_host m)) p0"
  have f: "features p = FeatInit (mc_host m)" by (simp add: p_def with_features_def features_def)
  have c: "cnt (map_option orph_handle o') = (\<lambda>x. case o' of None \<Rightarrow> 0 | Some o' \<Rightarrow> of_bool (x = orph_handle o'))" for o'
    by (auto simp: cnt_def fun_eq_iff split: option.split)
  have "balanced p d" if "main_run p0 m w = Some (code, Some d)" for code d
    by (rule handles.main_law [OF that p_def]) (rule start_balanced)
  then show ?thesis by (auto simp: balanced_def f c split: option.splits)
qed

section \<open>The retained processes\<close>

definition grows :: "'w MemState \<Rightarrow> 'w MemState \<Rightarrow> bool" where
  "grows st st' \<longleftrightarrow> (\<exists>new. calls st' = calls st @ new)"

lemma grows_refl [simp]: "grows st st"
  by (simp add: grows_def)

lemma grows_trans: "grows a b \<Longrightarrow> grows b c \<Longrightarrow> grows a c"
  by (auto simp: grows_def)

lemma grows_steps:
  "grows st (snd (MemSpawnRetain api os cat u args st))" "grows st (snd (MemPeek api os token a n st))"
  "grows st (snd (MemTerminate api os token st))" "grows st (snd (MemRelease api os token st))"
  by (auto simp: grows_def MemSpawnRetain_def MemPeek_def MemTerminate_def MemRelease_def free_the_slot_def note_call_def
      mem_close_def mem_retain_def Let_def split: option.split sum.split prod.split MemIo.split)

lemma grows_poke: "grows st (snd (MemPoke api os token a src n st))"
  by (rule poke_cases [of api os token a src n st]) (auto simp: grows_def)

lemma grows_release_all: "grows st (MemReleaseAll os st)"
proof -
  have "grows st (fold (\<lambda>i st. if in_use (g_slots st ! i) then free_the_slot i (mem_close os (handle (g_slots st ! i)) st) else st) ks st)" for ks
  proof (induction ks arbitrary: st)
    case (Cons k ks)
    have "grows st (free_the_slot k (mem_close os (handle (g_slots st ! k)) st))"
      by (auto simp: grows_def free_the_slot_def mem_close_def note_call_def)
    then show ?case using Cons grows_trans by auto
  qed simp
  then show ?thesis by (simp add: MemReleaseAll_def)
qed

lemma mem_step_tenants:
  "mem_step p c d m \<Longrightarrow> tenants_ok (dv_mem d) \<Longrightarrow> tenants_ok m \<and> grows (dv_mem d) m"
  unfolding mem_step_def
  using tenants_peek tenants_poke tenants_terminate tenants_release grows_steps grows_poke grows_refl by metis

text \<open>
  What lasts while one client is served: that no other came, and that the calls only grow
  behind those made before it.
\<close>

definition serving :: "nat list \<Rightarrow> 'w MemState \<Rightarrow> 'w Device \<Rightarrow> bool" where
  "serving came before d \<longleftrightarrow> dv_clients d = came \<and> grows before (dv_mem d) \<and> tenants_ok (dv_mem d)"

lemma serving_same:
  "dv_clients d' = dv_clients d \<Longrightarrow> calls (dv_mem d') = calls (dv_mem d) \<Longrightarrow> g_slots (dv_mem d') = g_slots (dv_mem d) \<Longrightarrow>
     serving came before d \<Longrightarrow> serving came before d'"
  by (simp add: serving_def tenants_ok_def grows_def)

lemma serving_still: "still d' = still d \<Longrightarrow> serving came before d \<Longrightarrow> serving came before d'"
  by (rule serving_same [OF stillD(15,12,8)])

lemma serving_step:
  "still d' = still (d\<lparr>dv_mem := m\<rparr>) \<Longrightarrow> tenants_ok m \<Longrightarrow> grows (dv_mem d) m \<Longrightarrow> serving came before d \<Longrightarrow>
     serving came before d'"
  by (erule serving_still) (auto simp: serving_def intro: grows_trans)

interpretation tenants: request_law p "serving came before" for p :: "'w Platform" and came before
proof
  fix d d' :: "'w Device"
  show "still d' = still d \<Longrightarrow> serving came before d \<Longrightarrow> serving came before d'" by (rule serving_still)
next
  fix c and d :: "'w Device"
  show "serving came before d \<Longrightarrow> serving came before (d\<lparr>dv_asked := dv_asked d @ [c]\<rparr>)" by (rule serving_same) simp_all
next
  fix t rid b and d d' :: "'w Device"
  show "exec_reap p t rid d = (b, d') \<Longrightarrow> serving came before d \<Longrightarrow> serving came before d'"
    by (rule serving_same [OF reap_fields(10,6,7)])
next
  fix t c ad and d d' :: "'w Device"
  assume "run_pty p t c ad d = Some d'" "serving came before d"
  then show "serving came before d'"
    by (elim run_ptyE) (erule serving_still, erule serving_same [rotated -1], simp_all)
next
  fix t c ad bin and d d' :: "'w Device"
  assume "run_exec p t c ad bin d = Some d'" "serving came before d"
  then show "serving came before d'"
    by (elim run_execE) (erule serving_still, erule serving_same [rotated -1], simp_all)+
next
  fix t c and d :: "'w Device"
  assume d: "serving came before d"
  then have ok: "tenants_ok (dv_mem d)" by (simp add: serving_def)
  show "serving came before (HandleMem p t c d)"
  proof (cases rule: handle_mem_cases [of c p t d])
    case spawn
    then show ?thesis using serving_step [OF spawn(2) tenants_spawn [OF ok] grows_steps(1) d] by simp
  next
    case (other m)
    then show ?thesis using serving_step [OF other(1)] mem_step_tenants [OF other(2) ok] d by blast
  qed
qed

text \<open>
  What holds between two clients: nothing is retained, and each client so far came when no
  handle of the ones before it was held.
\<close>

definition came_to_none :: "MemCall list \<Rightarrow> nat \<Rightarrow> bool" where
  "came_to_none cs n \<longleftrightarrow> n \<le> length cs \<and> (\<forall>h. held_by (take n cs) h = 0)"

definition settled :: "'w Device \<Rightarrow> bool" where
  "settled d \<longleftrightarrow>
     tenants_ok (dv_mem d) \<and> none_retained (dv_mem d) \<and> list_all (came_to_none (calls (dv_mem d))) (dv_clients d)"

lemma settled_still: "still d' = still d \<Longrightarrow> settled d \<Longrightarrow> settled d'"
  by (simp add: settled_def tenants_ok_def none_retained_def stillD(8,12,15) [of d' d])

lemma came_to_none_append: "list_all (came_to_none cs) ns \<Longrightarrow> list_all (came_to_none (cs @ new)) ns"
  by (auto simp: list_all_iff came_to_none_def)

lemma settled_connection:
  assumes "connection p g c d = Some d'" "settled d"
  shows "settled d'"
proof -
  define came where "came = dv_clients d @ [length (calls (dv_mem d))]"
  obtain d1 where d1: "serve_loop p c [] (SendReady p g c d) = Some d1" "d' = d1\<lparr>dv_mem := MemReleaseAll (p_mem p) (dv_mem d1)\<rparr>"
    using assms(1) by (auto simp: connection_def Serve_def)
  have "serving came (dv_mem d) (d\<lparr>dv_clients := came\<rparr>)" using assms(2) by (simp add: serving_def settled_def)
  then have "serving came (dv_mem d) (SendReady p g c d)" unfolding SendReady_def came_def by (rule serving_still [OF still_send])
  then have s: "serving came (dv_mem d) d1" by (rule tenants.serve_law [OF d1(1) refl])
  then have ok: "tenants_ok (dv_mem d')" "none_retained (dv_mem d')" using release_all [of "dv_mem d1" "p_mem p"] d1(2) by (simp_all add: serving_def)
  obtain new where new: "calls (dv_mem d') = calls (dv_mem d) @ new"
    using s grows_trans [OF _ grows_release_all, of "dv_mem d" "dv_mem d1" "p_mem p"] d1(2) by (auto simp: serving_def grows_def)
  have "dv_clients d' = came" using s d1(2) by (simp add: serving_def)
  moreover have "list_all (came_to_none (calls (dv_mem d) @ new)) (dv_clients d)"
    using assms(2) came_to_none_append by (simp add: settled_def)
  moreover have "came_to_none (calls (dv_mem d) @ new) (length (calls (dv_mem d)))"
    using assms(2) none_held [of "dv_mem d"] by (simp add: settled_def came_to_none_def)
  ultimately show ?thesis using ok new by (simp add: settled_def came_def)
qed

lemma settled_close: "settled d \<Longrightarrow> settled (close_conn f d)"
  by (auto simp: close_conn_def intro: settled_still split: option.split)

lemma settled_accept: "accept_loop p g l d = Some d' \<Longrightarrow> settled d \<Longrightarrow> settled d'"
proof (induction p g l d d' rule: accept_loop.raw_induct [rotated, consumes 1])
  case (1 loop p g l d d')
  show ?case
  proof (cases "li_accept l")
    case None
    then show ?thesis using 1 settled_connection by simp
  next
    case (Some take_one)
    obtain c w where r: "take_one (dv_world d) = (c, w)" by (metis surj_pair)
    have w: "settled (in_world w d)" by (rule settled_still [OF still_in_world 1(3)])
    show ?thesis
    proof (cases c)
      case (Some conn)
      then obtain d1 where b: "connection p g conn (in_world w d) = Some d1" "loop p g l (close_conn (cn_close conn) d1) = Some d'"
        using 1(2) r \<open>li_accept l = Some take_one\<close> by (auto split: option.splits)
      show ?thesis by (rule 1(1) [OF b(2) settled_close [OF settled_connection [OF b(1) w]]])
    qed (use 1(2) r w \<open>li_accept l = Some take_one\<close> in simp)
  qed
qed

lemma settled_start:
  assumes "start_device p m w = Some (Some (g, config, d))"
  shows "settled d"
  using assms
proof (cases rule: start_deviceE)
  case (1 cat w1 a w2 st)
  have "slots_on (replicate n empty_slot) x = 0" for n x
    by (induction n) (simp_all add: slots_on_def empty_slot_def)
  then show ?thesis
    using 1(5) by (simp add: empty_slot_def [THEN arg_cong, of in_use] settled_def tenants_ok_def none_retained_def ExecConfigure_def first_device_def mem_start_def)
qed

text \<open>
  C37: the processes that a client retained do not outlive its connection.  Whatever the
  clients ask for and however often they connect, each of them came when every handle that
  the ones before it were given had been closed, and at the end of the run none is held and no
  token names a process; and no call was ever made on a handle that was not held, so none was
  closed twice.
\<close>

theorem main_run_releases_tokens:
  "case main_run p0 m w of
     Some (code, Some d) \<Rightarrow>
       list_all (came_to_none (calls (dv_mem d))) (dv_clients d @ [length (calls (dv_mem d))]) \<and>
       held_when_used [] (calls (dv_mem d)) \<and>
       MemFindSlot (p_api p0) (dv_mem d) token = None
   | _ \<Rightarrow> True"
proof -
  have "settled d" if run: "main_run p0 m w = Some (code, Some d)" for code d
  proof -
    define p where "p = with_features (FeatInit (mc_host m)) p0"
    obtain g config d0 where s: "start_device p m w = Some (Some (g, config, d0))"
      using run unfolding main_run_def p_def [symmetric] Let_def by (auto split: option.splits)
    obtain l err w1 where o': "TransportOpen (mc_backends m) config [] 160 (dv_world d0) = ((l, err), w1)" by (metis surj_pair)
    have d0: "settled (in_world w1 d0)" by (rule settled_still [OF still_in_world settled_start [OF s]])
    show ?thesis using run s o' d0 unfolding main_run_def p_def [symmetric] Let_def
      by (cases l) (auto intro!: settled_close elim: settled_accept)
  qed
  moreover have "MemFindSlot (p_api p0) (dv_mem d) token = None" if "settled d" for d :: "'a Device"
    using that find_slot_used [of "p_api p0" "dv_mem d" token]
    by (cases "MemFindSlot (p_api p0) (dv_mem d) token") (auto simp: settled_def none_retained_def)
  moreover have "came_to_none (calls (dv_mem d)) (length (calls (dv_mem d)))" if "settled d" for d :: "'a Device"
    using that none_held [of "dv_mem d"] by (simp add: settled_def came_to_none_def)
  moreover have "held_when_used [] (calls (dv_mem d))" if "settled d" for d :: "'a Device"
    using that by (simp add: settled_def tenants_ok_def)
  ultimately show ?thesis by (auto simp: settled_def split: option.split)
qed

end
