(* ===== verification/DeviceReplies.thy ===== *)
theory DeviceReplies
  imports DeviceLaws
begin

text \<open>What is sent for a request: at most one answer, under the id of the request.\<close>

section \<open>The form of an answer\<close>

definition reply_of :: "string \<Rightarrow> string \<Rightarrow> string" where
  "reply_of rid body = ''{\"id\":\"'' @ rid @ ''\",\"status\":\"'' @ body @ ''}'' @ [newline]"

definition tagged :: "string \<Rightarrow> string option \<Rightarrow> bool" where
  "tagged rid r \<longleftrightarrow> (case r of None \<Rightarrow> True | Some m \<Rightarrow> \<exists>body. m = reply_of rid body)"

lemma tagged_None [simp]: "tagged rid None"
  by (simp add: tagged_def)

definition ends_object :: "string \<Rightarrow> bool" where
  "ends_object s \<longleftrightarrow> (\<exists>b. s = b @ ''}'' @ [newline])"

lemma ends_object_simps [simp]:
  "ends_object [CHR ''}'', CHR 0x0A]" "ends_object (x # c # e # r) = ends_object (c # e # r)"
  "ends_object (l @ c # e # r) = ends_object (c # e # r)" "ends_object (x # l @ c # e # r) = ends_object (c # e # r)"
  "ends_object (x # y # l @ c # e # r) = ends_object (c # e # r)"
proof -
  have keep: "ends_object (l @ c # e # r) = ends_object (c # e # r)" for l c e r
  proof
    assume "ends_object (l @ c # e # r)"
    then obtain b where b: "l @ c # e # r = b @ [CHR ''}'', CHR 0x0A]" by (auto simp: ends_object_def)
    then have "\<exists>b. c # e # r = b @ [CHR ''}'', CHR 0x0A]"
      by (induction l arbitrary: b) (auto simp: Cons_eq_append_conv)
    then show "ends_object (c # e # r)" by (auto simp: ends_object_def)
  next
    assume "ends_object (c # e # r)"
    then show "ends_object (l @ c # e # r)" by (auto simp: ends_object_def intro: exI [of _ "l @ b" for b])
  qed
  show "ends_object (x # c # e # r) = ends_object (c # e # r)" using keep [of "[x]"] by simp
  show "ends_object (l @ c # e # r) = ends_object (c # e # r)" by (rule keep)
  show "ends_object (x # l @ c # e # r) = ends_object (c # e # r)" using keep [of "x # l"] by simp
  show "ends_object (x # y # l @ c # e # r) = ends_object (c # e # r)" using keep [of "x # y # l"] by simp
  show "ends_object [CHR ''}'', CHR 0x0A]" by (auto simp: ends_object_def)
qed

lemma tagged_response:
  assumes "\<exists>rest. concat ps = ''{\"id\":\"'' @ rid @ ''\",\"status\":\"'' @ rest \<and> ends_object rest"
  shows "tagged rid (response ps)"
proof -
  obtain b where "concat ps = ''{\"id\":\"'' @ rid @ ''\",\"status\":\"'' @ b @ ''}'' @ [newline]"
    using assms by (auto simp: ends_object_def)
  then have "concat ps = reply_of rid b" by (simp add: reply_of_def)
  then show ?thesis by (auto simp: tagged_def response_eq)
qed

lemma tagged_json: "tagged rid (BuildJsonResponse rid status key value n)"
proof -
  have "BuildJsonResponse rid status key value n \<in>
      {None, Some (reply_of rid (status @ ''\",\"'' @ key @ ''\":\"'' @ esc (sent_value value) @ [dq]))}"
    unfolding response_text writes_def by (simp add: reply_of_def)
  then show ?thesis by (auto simp: tagged_def)
qed

lemma tagged_replies [simp]:
  "tagged rid (error_reply rid reason)" "tagged rid (ok_reply rid key v)" 
  by (simp_all add: error_reply_def ok_reply_def tagged_json)

lemma tagged_texts [simp]:
  "tagged rid (busy_reply rid l el)" "tagged rid (listing_reply rid l)" "tagged rid (token_reply rid token pid)"
  "tagged rid (peek_reply rid b64 k lost)" "tagged rid (poke_reply rid w lost)" "tagged rid (done_reply rid what)"
  unfolding busy_reply_def listing_reply_def token_reply_def peek_reply_def poke_reply_def done_reply_def Let_def
  by (rule tagged_response; simp)+

lemma tagged_runs [simp]:
  "tagged rid (pty_reply rid code b64 lost n u)" "tagged rid (exec_reply rid res b64 e64 lost elost bin sh u)"
  unfolding pty_reply_def exec_reply_def by (cases u; rule tagged_response; simp)+

section \<open>What is sent\<close>

text \<open>At most one answer was sent between two states, and it has the id.\<close>

definition replied :: "string \<Rightarrow> 'w Device \<Rightarrow> 'w Device \<Rightarrow> bool" where
  "replied rid d d' \<longleftrightarrow> (\<exists>r. tagged rid r \<and> dv_sent d' = dv_sent d @ (case r of None \<Rightarrow> [] | Some m \<Rightarrow> [m]))"

lemma replied_same: "dv_sent d' = dv_sent d \<Longrightarrow> replied rid d d'"
  by (auto simp: replied_def intro: exI [of _ None])

lemma replied_send: "tagged rid r \<Longrightarrow> dv_sent d1 = dv_sent d \<Longrightarrow> replied rid d (send t r d1)"
  unfolding replied_def send_def
  by (cases r; cases t) (auto intro: exI [of _ None] exI [of _ r])

lemma replied_error: "dv_sent d1 = dv_sent d \<Longrightarrow> replied rid d (send_exec_error t rid why d1)"
  by (simp add: send_exec_error_def replied_send)

lemma sent_fields [simp]:
  "dv_sent (in_world w d) = dv_sent d" "dv_sent (from_exec st d) = dv_sent d" "dv_sent (from_pty yt d) = dv_sent d"
  by (simp_all add: in_world_def from_exec_def from_pty_def)

lemma sent_on_files: "on_files f d = (r, d') \<Longrightarrow> dv_sent d' = dv_sent d"
  by (auto simp: on_files_def split: prod.splits)

lemmas reply_intros = replied_send replied_error

lemma replied_files:
  "replied (req_id c) d (do_read p t c d)" "replied (req_id c) d (do_write p t c d)" "replied (req_id c) d (do_list p t c d)"
  "replied rid d (plain_op t rid m f d)"
  by (auto simp: do_read_def do_write_def do_list_def plain_op_def dest: sent_on_files intro!: reply_intros
      split: prod.split sum.split option.split)

lemma replied_answers:
  assumes "dv_sent d1 = dv_sent d"
  shows "replied rid d (answer_pty p t rid u r d1)" "replied rid d (answer_exec p t rid g bin res d1)"
  using assms by (auto simp: answer_pty_def answer_exec_def intro!: reply_intros split: option.split)

lemma replied_verbs:
  "replied (req_id c) d (mem_spawn p t c d)" "replied (req_id c) d (mem_peek p t c d)"
  "replied (req_id c) d (mem_poke p t c d)" "replied (req_id c) d (mem_give_up t c what f d)"
  by (auto simp: mem_spawn_def mem_peek_def mem_poke_def mem_give_up_def Let_def intro!: reply_intros
      split: prod.split option.split)

lemma replied_mem: "replied (req_id c) d (HandleMem p t c d)"
  by (simp add: HandleMem_def replied_verbs replied_same)

lemma reap_sent: "exec_reap p t rid d = (b, d') \<Longrightarrow> replied rid d d' \<and> (b \<or> dv_sent d' = dv_sent d)"
  by (auto simp: exec_reap_def intro!: reply_intros split: option.splits prod.splits if_splits)
    (auto intro: replied_same)

lemma replied_pty:
  assumes "run_pty p t c ad d = Some d'"
  shows "replied (req_id c) d d'"
proof -
  obtain r y where d': "d' = (case r of Inl why \<Rightarrow> send_exec_error t (req_id c) why (from_pty y d)
      | Inr res \<Rightarrow> answer_pty p t (req_id c) (gt_unsafe (ad_gate ad)) res (from_pty y d))"
    using assms by (auto simp: run_pty_def Let_def)
  show ?thesis unfolding d' by (cases r) (simp_all add: replied_error replied_answers)
qed

lemma replied_run: "run_exec p t c ad bin d = Some d' \<Longrightarrow> replied (req_id c) d d'"
  by (auto simp: run_exec_def answer_run_def intro!: replied_error replied_answers
      split: option.splits sum.splits if_splits)

lemma replied_exec:
  assumes "HandleExec p t isPty c d = Some d'"
  shows "replied (req_id c) d d'"
proof -
  obtain b d1 where r: "exec_reap p t (req_id c) d = (b, d1)" by (metis surj_pair)
  note sent = reap_sent [OF r]
  show ?thesis
  proof (cases b)
    case False
    have later: "replied (req_id c) d d'" if "replied (req_id c) (in_world w d1) d'" for w
      using sent False that by (simp add: replied_def)
    obtain a where a: "admit (p_api p) (p_cn p) (features p) (dv_catalog d1) (dv_unsafe d1) isPty c = Some a"
      using assms r False by (auto simp: HandleExec_def split: option.splits)
    show ?thesis
    proof (cases a)
      case (Inl why)
      then show ?thesis using assms r False a sent by (auto simp: HandleExec_def intro!: replied_error)
    next
      case (Inr ad)
      obtain k w where k: "exec_classify (features p) (p_bin p) (ad_gate ad) (ad_name ad) (dv_world d1) = (k, w)"
        by (metis surj_pair)
      then obtain bt where "k = Some bt" using assms r False a Inr by (cases k) (auto simp: HandleExec_def)
      then show ?thesis
        using assms r False a Inr k
        by (cases isPty) (auto simp: HandleExec_def intro!: later dest: replied_pty replied_run)
    qed
  qed (use assms r sent in \<open>simp add: HandleExec_def\<close>)
qed

section \<open>One answer\<close>

text \<open>The id that is answered: that of the request, or none where the line was no request.\<close>

definition answered_id :: "string \<Rightarrow> string" where
  "answered_id line = (case ParseJsonCommand (cstr line) of (c, ok) \<Rightarrow> if ok then req_id c else [])"

lemma dispatch_ends: "dispatch p t c d = None \<Longrightarrow> cmd c \<in> {''exec'', ''ptyExec''}"
  by (auto simp: dispatch_def Let_def split: if_splits)

lemma command_ends: "ProcessCommand p t line d = None \<Longrightarrow> cmd (fst (ParseJsonCommand (cstr line))) \<in> {''exec'', ''ptyExec''}"
  by (auto simp: ProcessCommand_def Let_def split: if_splits prod.splits bool.splits dest: dispatch_ends)

text \<open>
  C3: a line is processed to its end unless it asks for a run, and one that is is answered
  at most once, whatever the services answer and whatever the request asks for; the answer
  opens with the id that the request carried (empty if the line could not be parsed) and a
  status, and it closes the object and the line; nothing is sent for an empty line.
\<close>

theorem ProcessCommand_replies:
  "(case ProcessCommand p t line d of
      None \<Rightarrow> cmd (fst (ParseJsonCommand (cstr line))) \<in> {''exec'', ''ptyExec''}
    | Some d' \<Rightarrow>
        dv_sent d' = dv_sent d \<or>
        (\<exists>body. cstr line \<noteq> [] \<and>
           dv_sent d' = dv_sent d @ [''{\"id\":\"'' @ answered_id line @ ''\",\"status\":\"'' @ body @ ''}'' @ [CHR 0x0A]]))"
proof (cases "ProcessCommand p t line d")
  case (Some d')
  obtain c ok where c: "ParseJsonCommand (cstr line) = (c, ok)" by (metis surj_pair)
  have disp: "replied (req_id c) d0 d'" if "dispatch p t c d0 = Some d'" for d0
    using that unfolding dispatch_def Let_def
    by (auto intro: replied_send replied_error replied_files replied_mem replied_same replied_exec
        simp: HandleListCommands_def split: if_splits option.splits)
  have note': "replied rid (d\<lparr>dv_asked := q\<rparr>) d' = replied rid d d'" for rid q by (simp add: replied_def)
  have bad: "replied [] d (send t (error_reply [] why) d)" for why by (simp add: replied_send)
  have "replied (answered_id line) d d' \<and> (cstr line = [] \<longrightarrow> d' = d)"
    using Some c disp [of "d\<lparr>dv_asked := dv_asked d @ [c]\<rparr>"] bad by (auto simp: note' ProcessCommand_def answered_id_def Let_def replied_same split: if_splits)
  then show ?thesis using Some
    by (auto simp: replied_def tagged_def reply_of_def split: option.splits)
qed (use command_ends in simp)

end
