(* ===== verification/DeviceRuns.thy ===== *)
theory DeviceRuns
  imports DeviceReplies
begin

text \<open>
  A life of the device in full: it starts without a catalog, takes one client that sends
  one line, answers it, and ends when nobody comes any more.  The services are any but for
  the name of the module and the step of the code page.
\<close>

section \<open>One client\<close>

text \<open>The world is what the client still sends.\<close>

definition one_client :: "u8 list list Conn" where
  "one_client =
     \<lparr>cn_name = ''tcp'', cn_read = (\<lambda>n w. case w of [] \<Rightarrow> ([], []) | c # cs \<Rightarrow> (c, cs)),
      cn_write = (\<lambda>buf w. (int (length buf), w)), cn_close = None\<rparr>"

definition one_listener :: "u8 list list Listener" where
  "one_listener = \<lparr>li_conn = one_client, li_accept = Some (\<lambda>w. (if w = [] then None else Some one_client, w))\<rparr>"

definition bare_machine :: "u8 list list Machine" where
  "bare_machine =
     \<lparr>mc_host = \<lparr>GetVersion = 0, CreateThread_works = False, kernel32_loaded = False, exports = (\<lambda>_. False), IsWow64 = None\<rparr>,
      mc_cmdLine = [], mc_readCatalog = (\<lambda>path w. (None, w)),
      mc_backends = [\<lparr>bk_kind = transport default_config, bk_probe = None, bk_open = (\<lambda>c e w. ((Some one_listener, e), w))\<rparr>],
      mc_tcpCleanup = id\<rparr>"

definition beside :: "'w Platform \<Rightarrow> 'w Platform" where
  "beside p = p\<lparr>p_cn := shim_CharNextA, p_mem := (p_mem p)\<lparr>GetModuleFileNameA := (\<lambda>_. [])\<rparr>\<rparr>"

definition echo_line :: string where
  "echo_line = ''{\"cmd\":\"echo\",\"id\":\"1\",\"line\":\"hi\"}''"

definition echo_answer :: string where
  "echo_answer = ''{\"id\":\"1\",\"status\":\"ok\",\"data\":\"hi\"}'' @ [newline]"

definition echo_request :: JsonCommand where
  "echo_request = empty_command\<lparr>cmd := ''echo'', req_id := ''1'', cmd_line := ''hi''\<rparr>"

text \<open>The state when the request has been read.\<close>

definition echo_asked :: "'w Device \<Rightarrow> 'w Device" where
  "echo_asked d = d\<lparr>dv_asked := dv_asked d @ [echo_request]\<rparr>"

lemma echo_parsed:
  "ParseJsonCommand echo_line = (echo_request, True)"
  "cstr echo_line = echo_line" "echo_line \<noteq> []" "newline \<notin> set echo_line" "length echo_line < 100"
  by code_simp+

lemma echo_text: "ok_reply ''1'' ''data'' ''hi'' = Some echo_answer"
proof -
  have "esc ''hi'' = ''hi''" by code_simp
  then show ?thesis by (simp add: ok_reply_def response_text writes_def MCP_MAX_RESPONSE_def echo_answer_def sent_value_def)
qed

lemma echo_answered: "ProcessCommand p t echo_line d = Some (send t (Some echo_answer) (echo_asked d))"
  using echo_text by (simp add: ProcessCommand_def dispatch_def Let_def echo_parsed echo_request_def empty_command_def echo_asked_def)

section \<open>The run\<close>

lemma client_send: "dv_world (send (Some (cn_write one_client)) r d) = dv_world d"
  by (auto simp: send_def one_client_def TransportWriteAll_def write_all.simps dv_world_def in_world_def split: option.split)

lemma world_in [simp]: "dv_world (in_world w d) = w" "in_world w (in_world v d) = in_world w d"
  by (simp_all add: dv_world_def in_world_def)

lemma asked_fields [simp]:
  "dv_world (d\<lparr>dv_clients := cs\<rparr>) = dv_world d" "dv_world (echo_asked d) = dv_world d" "dv_mem (echo_asked d) = dv_mem d"
  "dv_sent (echo_asked d) = dv_sent d"
  by (simp_all add: dv_world_def echo_asked_def)

lemma buffer_line:
  "newline \<notin> set l \<Longrightarrow> length buf + length l < CMD_BUF_SIZE \<Longrightarrow>
     ProcessBuffer handler buf (l @ [newline]) s = map_option (Pair (1, [])) (handler (buf @ l) s)"
  by (induction l arbitrary: buf) (auto split: option.split)

lemma client_served:
  assumes "dv_world d = [map byte_of (echo_line @ [newline])]"
  shows "Serve p one_client d = Some (in_world [] (send (Some (cn_write one_client)) (Some echo_answer) (echo_asked (in_world [] d))))"
proof -
  have line: "ProcessBuffer (ProcessCommand p t) [] (echo_line @ [newline]) s = Some ((1, []), send t (Some echo_answer) (echo_asked s))" for t s
    using buffer_line [of echo_line "[]" "ProcessCommand p t" s] echo_parsed(4,5) by (simp add: CMD_BUF_SIZE_def echo_answered)
  have over: "serve_loop p one_client [] s = Some (in_world [] s)" if "dv_world s = []" for s
    using that by (subst serve_loop.simps) (simp add: one_client_def)
  have "serve_loop p one_client [] d =
      serve_loop p one_client [] (send (Some (cn_write one_client)) (Some echo_answer) (echo_asked (in_world [] d)))"
    using assms line by (subst serve_loop.simps) (simp add: one_client_def comp_def)
  then show ?thesis using over [of "send (Some (cn_write one_client)) (Some echo_answer) (echo_asked (in_world [] d))"]
    by (simp add: Serve_def client_send)
qed

lemma release_sent [simp]: "dv_sent (d\<lparr>dv_mem := m\<rparr>) = dv_sent d"
  by simp

lemma nothing_held:
  assumes "\<forall>i < MEM_PROC_SLOTS. \<not> in_use (g_slots st ! i)"
  shows "MemReleaseAll os st = st"
proof -
  have "fold (\<lambda>i st. if in_use (g_slots st ! i) then free_the_slot i (mem_close os (handle (g_slots st ! i)) st) else st) ks st = st"
    if "set ks \<subseteq> {..<MEM_PROC_SLOTS}" for ks
    using that assms by (induction ks) auto
  then show ?thesis unfolding MemReleaseAll_def by (auto simp: lessThan_atLeast0)
qed

text \<open>The start: no catalog, a warning, and nothing held.\<close>

lemma bare_start:
  "\<exists>a f. start_device (beside p) bare_machine w =
     Some (Some (\<lparr>gr_warning = ''catalog not loaded'', gr_tools = []\<rparr>, default_config, first_device a f w))"
proof -
  have walk: "catalog_path cn default_config [] = Some (''catalog'' @ [bsl] @ ''win32-commands.json'')" for cn
    by (simp add: catalog_path_def default_config_def dir_walk.simps)
  have "CatalogLoad api None = Inl (ScanErr ''catalog file not found or unreadable'')" for api
    by (simp add: CatalogLoad_def catalog_readFile_def)
  then have cat: "LoadCatalogAtStartup (beside p) bare_machine default_config w = Some ((None, ''catalog not loaded''), w)"
    by (simp add: LoadCatalogAtStartup_def beside_def walk bare_machine_def)
  have audit: "\<exists>a. AuditConfigure cn os (allowMemWrite default_config) (auditPath default_config) w = Some (a, w)" for cn os
    by (simp add: AuditConfigure_def default_config_def)
  then obtain a where "AuditConfigure (p_cn (beside p)) (FileOs.truncate (p_mem (beside p)))
      (allowMemWrite default_config) (auditPath default_config) w = Some (a, w)" by blast
  moreover have "ParseCommandLine (mc_cmdLine bare_machine) = (True, default_config)"
    by (simp add: ParseCommandLine_def bare_machine_def)
  ultimately show ?thesis using cat
    by (auto simp: start_device_def ToolchainProbe_def Let_def from_exec_def to_exec_def in_world_def dv_world_def
        ExecConfigure_def first_device_def mem_start_def default_config_def)
qed

text \<open>The one connection, and nobody after it.\<close>

lemma one_accept:
  assumes "dv_world d = [map byte_of (echo_line @ [newline])]"
    "\<forall>i < MEM_PROC_SLOTS. \<not> in_use (g_slots (dv_mem d) ! i)"
  shows "\<exists>d'. accept_loop p g one_listener d = Some d' \<and>
    dv_sent d' = dv_sent (send (Some (cn_write one_client)) (Some echo_answer) (SendReady p g one_client d))"
proof -
  let ?r = "SendReady p g one_client d"
  let ?e = "in_world [] (send (Some (cn_write one_client)) (Some echo_answer) (echo_asked (in_world [] ?r)))"
  have w: "dv_world ?r = [map byte_of (echo_line @ [newline])]" using assms(1) by (simp add: SendReady_def client_send)
  have slots: "g_slots (dv_mem ?e) = g_slots (dv_mem d)"
    by (simp add: stillD(8) [OF still_send] stillD(8) [OF still_in_world] SendReady_def)
  have "connection p g one_client d = Some ?e"
    using client_served [OF w] nothing_held [of "dv_mem ?e" "p_mem p"] assms(2) by (simp add: connection_def slots)
  moreover have "in_world (dv_world d) d = d" by (simp add: in_world_def dv_world_def)
  ultimately have "accept_loop p g one_listener d = accept_loop p g one_listener ?e"
    using assms(1) by (subst accept_loop.simps) (simp add: one_listener_def close_conn_def one_client_def)
  also have "\<dots> = Some (in_world [] ?e)" by (subst accept_loop.simps) (simp add: one_listener_def)
  finally show ?thesis by (simp add: send_def split: option.split)
qed

text \<open>
  The device starts, greets, answers and ends, and what it sent last is the answer.
\<close>

lemma main_run_echo:
  "\<exists>d. main_run (beside p) bare_machine [map byte_of (echo_line @ [newline])] = Some (0, Some d) \<and>
     last (dv_sent d) = echo_answer"
proof -
  let ?w = "[map byte_of (echo_line @ [newline])]"
  define q where "q = with_features (FeatInit (mc_host bare_machine)) p"
  have q: "with_features (FeatInit (mc_host bare_machine)) (beside p) = beside q"
    by (simp add: q_def with_features_def beside_def)
  obtain a f where s: "start_device (beside q) bare_machine ?w =
      Some (Some (\<lparr>gr_warning = ''catalog not loaded'', gr_tools = []\<rparr>, default_config, first_device a f ?w))"
    using bare_start by blast
  have d: "dv_world (first_device a f ?w) = ?w"
    "\<forall>i < MEM_PROC_SLOTS. \<not> in_use (g_slots (dv_mem (first_device a f ?w)) ! i)"
    by (simp_all add: first_device_def dv_world_def mem_start_def empty_slot_def)
  have o': "TransportOpen (mc_backends bare_machine) default_config [] 160 ?w = ((Some one_listener, []), ?w)"
    by (simp add: TransportOpen_def bare_machine_def find_backend_def try_backend_def usable_def)
  have same: "in_world ?w (first_device a f ?w) = first_device a f ?w"
    by (simp add: first_device_def in_world_def mem_start_def)
  obtain d' where "accept_loop (beside q) \<lparr>gr_warning = ''catalog not loaded'', gr_tools = []\<rparr> one_listener (first_device a f ?w) = Some d'"
    "dv_sent d' = dv_sent (send (Some (cn_write one_client)) (Some echo_answer)
      (SendReady (beside q) \<lparr>gr_warning = ''catalog not loaded'', gr_tools = []\<rparr> one_client (first_device a f ?w)))"
    using one_accept [OF d] by blast
  then show ?thesis
    using s o' d(1) same
    by (simp add: main_run_def Let_def q close_conn_def one_listener_def one_client_def send_def)
qed

end
