(* ===== verification/Spec2Isabelle.thy ===== *)
theory Spec2Isabelle
  imports Prelude StrUtil Base64 Argv Json Utf8 Charset Cp1252 SbPage WinPages DosPages DosPagesB
    DbPage Cp932 Cp936 Cp949 Cp950 DbPages CodePages Catalog
    Feat MemGuard AuditLog Mem MemHold EncTier
    Uart UartTrace UartSim UartLive
    Transport Serial Tcp FileOps
    BinFmt ExecOps ExecHandles ExecOrder ExecCapture PtyExec
    Toolchain Ready Reply ExecAdmit Device Session
    DeviceLaws DeviceGate DeviceKeep DeviceReplies DeviceRuns
begin

text \<open>
  Verification development for the MCP-Win32s device, the program under \<^verbatim>\<open>src/src/\<close>.

  The device is one C program for Win32s to Windows 11.  It opens a transport (a serial
  port through Windows, the chip itself on Win32s, or TCP), greets each peer with a ready
  message, reads one JSON request per line, and answers each with one line of JSON: it
  runs commands, works on files, and reads and writes the memory of children it retains.
  What may be run is a catalog loaded at the start.

  \<^bold>\<open>Parts and theories.\<close>  Read from the leaves to \<^verbatim>\<open>main\<close>:

  \<^item> \<^verbatim>\<open>Prelude\<close>: the integer types, bytes and characters, the collections of rewrite rules,
    and two interfaces.  \<^verbatim>\<open>bounded_append\<close> is the contract of every bounded writer of the
    program (whole or not at all, room for the NUL), \<^verbatim>\<open>codec\<close> that of an encoding with its
    inverse; both are interpreted on the program's functions where these are defined.
  \<^item> \<^verbatim>\<open>StrUtil\<close> (\<^verbatim>\<open>strutil.c\<close>, \<^verbatim>\<open>mini_crt.c\<close>): the copy that cuts at a character; the
    step of the system code page is the argument of \<^verbatim>\<open>char_stepper\<close>.
  \<^item> \<^verbatim>\<open>Base64\<close> (\<^verbatim>\<open>base64.c\<close>), \<^verbatim>\<open>Json\<close> (\<^verbatim>\<open>json_parser.c\<close>, \<^verbatim>\<open>common.h\<close>), \<^verbatim>\<open>Argv\<close>
    (\<^verbatim>\<open>argv.c\<close>, and the reference tokenizer of \<^verbatim>\<open>tests/host/theft_argv.c\<close>): the formats, with
    round trips and the bounds of every field.
  \<^item> \<^verbatim>\<open>Utf8\<close>, \<^verbatim>\<open>EncTier\<close> (\<^verbatim>\<open>encoding.c\<close>), \<^verbatim>\<open>Charset\<close> (\<^verbatim>\<open>charset_tables.c\<close>), \<^verbatim>\<open>SbPage\<close>, \<^verbatim>\<open>Cp1252\<close>,
    \<^verbatim>\<open>WinPages\<close>, \<^verbatim>\<open>DosPages\<close>, \<^verbatim>\<open>DosPagesB\<close>, \<^verbatim>\<open>DbPage\<close>, \<^verbatim>\<open>Cp932\<close>, \<^verbatim>\<open>Cp936\<close>, \<^verbatim>\<open>Cp949\<close>, \<^verbatim>\<open>Cp950\<close>,
    \<^verbatim>\<open>CodePages\<close> (\<^verbatim>\<open>charset_tables_data.c\<close>): the UTF codec, the tiers by which text reaches
    Windows, and the code pages.  All 30 pages are transcribed and their tables checked.  A
    double byte page has its tables in theories of their own: the trail bytes as one row of
    256 units for each lead byte (\<^verbatim>\<open>Cp932Rows\<close>), the reverse table in parts of 256 entries
    (\<^verbatim>\<open>Cp932Rev\<close>), the single bytes and the lead bytes (\<^verbatim>\<open>Cp932Lead\<close>); the page is their
    concatenation, and \<^verbatim>\<open>DbPages\<close> has the passes that check the four.  A lead byte without a
    row has row 0 where the code has -1; neither reads it.
  \<^item> \<^verbatim>\<open>Catalog\<close> (\<^verbatim>\<open>catalog.c\<close>): the loader, the lookup, the validation of arguments and the
    listing; the string comparisons of Windows are the locale \<^verbatim>\<open>str_api\<close>.
  \<^item> \<^verbatim>\<open>Feat\<close> (\<^verbatim>\<open>feat.c\<close>): what the host can do.
  \<^item> \<^verbatim>\<open>MemGuard\<close>, \<^verbatim>\<open>Mem\<close> (\<^verbatim>\<open>mem_ops.c\<close>), \<^verbatim>\<open>AuditLog\<close> (\<^verbatim>\<open>audit.c\<close>): the guards of memory access,
    the table of retained processes as a refinement of the locale \<^verbatim>\<open>capability_table\<close>, peek
    and poke with the calls they make, and the audit records; \<^verbatim>\<open>MemHold\<close> counts the handles
    of the retained processes over these calls.
  \<^item> \<^verbatim>\<open>Uart\<close>, \<^verbatim>\<open>UartTrace\<close> (\<^verbatim>\<open>uart.c\<close>), \<^verbatim>\<open>UartSim\<close>, \<^verbatim>\<open>UartLive\<close> (\<^verbatim>\<open>tests/uart_sim.h\<close>): the driver
    as programs over the port seam \<^verbatim>\<open>UartPortIo\<close>, what it puts on the bus whatever chip
    answers, and what it achieves on the simulated chip.
  \<^item> \<^verbatim>\<open>Transport\<close> (\<^verbatim>\<open>transport.c\<close>), \<^verbatim>\<open>Serial\<close> (\<^verbatim>\<open>serial.c\<close>), \<^verbatim>\<open>Tcp\<close> (\<^verbatim>\<open>tcp.c\<close>): command line, registry,
    backends and the write loop, whose contract with a backend is the locale \<^verbatim>\<open>byte_sink\<close>.
  \<^item> \<^verbatim>\<open>FileOps\<close> (\<^verbatim>\<open>file_ops.c\<close>) and \<^verbatim>\<open>BinFmt\<close> (\<^verbatim>\<open>binfmt.c\<close>).
  \<^item> \<^verbatim>\<open>ExecOps\<close> (\<^verbatim>\<open>exec_ops.c\<close>) with \<^verbatim>\<open>ExecHandles\<close> (a ledger of handles), \<^verbatim>\<open>ExecOrder\<close> (the order
    of the calls) and \<^verbatim>\<open>ExecCapture\<close> (what the readers get under every schedule, and that
    polling keeps to its timeout); \<^verbatim>\<open>PtyExec\<close> (\<^verbatim>\<open>pty_exec.c\<close>) with the same two kinds of ledger
    and one of its reads.
  \<^item> \<^verbatim>\<open>Toolchain\<close> (\<^verbatim>\<open>toolchain_probe.c\<close>), \<^verbatim>\<open>Ready\<close> (\<^verbatim>\<open>ready.c\<close>).
  \<^item> \<^verbatim>\<open>Reply\<close>, \<^verbatim>\<open>ExecAdmit\<close>, \<^verbatim>\<open>Device\<close>, \<^verbatim>\<open>Session\<close> (\<^verbatim>\<open>mcp-w32s.c\<close>): the texts of the answers, the
    admission of a request, the handlers and the dispatcher, the line buffer, the service
    of a connection, the accept loop and \<^verbatim>\<open>main\<close>.
  \<^item> \<^verbatim>\<open>DeviceLaws\<close>, \<^verbatim>\<open>DeviceGate\<close>, \<^verbatim>\<open>DeviceKeep\<close>, \<^verbatim>\<open>DeviceReplies\<close>: what holds over the whole life
    of the device, and in \<^verbatim>\<open>DeviceRuns\<close> one life of it in full, from the start to the last
    accept.

  \<^bold>\<open>State and operations.\<close>  Each component's globals are a record (\<^verbatim>\<open>MemState\<close> for \<^verbatim>\<open>g_slots\<close>,
  \<^verbatim>\<open>g_seq\<close> and the arm; \<^verbatim>\<open>TcpState\<close> for the Winsock flags; \<^verbatim>\<open>Device\<close> for the session: catalog,
  override, orphan), and an operation takes it and returns it.  A C string is a list
  without its NUL, a buffer the list of what was written, its size a separate argument;
  indices, \<^verbatim>\<open>int\<close> sizes and counters that can not overflow are \<^typ>\<open>nat\<close> or \<^typ>\<open>int\<close>, and what
  wraps in C is a word.  An error return is the left side of a sum or \<^const>\<open>None\<close>.  Windows,
  Winsock and the file services are records of functions over a world of any type
  (\<^verbatim>\<open>ExecOs\<close>, \<^verbatim>\<open>PtyOs\<close>, \<^verbatim>\<open>MemOs\<close>, \<^verbatim>\<open>FileSys\<close>, \<^verbatim>\<open>BinOs\<close>, \<^verbatim>\<open>WinSock\<close>, bundled as \<^verbatim>\<open>Platform\<close>), and no
  theorem about the device assumes how they answer; where the order of calls or the balance
  of handles matters, the state carries a ledger that no operation reads: the calls, the
  count of each handle, and in \<^verbatim>\<open>Device\<close> the requests that were read, the handles of children
  left running, and where among the memory calls each client came.  Threads are
  a schedule: a list of turns that is an argument (\<^verbatim>\<open>p_turns\<close>, \<^verbatim>\<open>p_ptyTurns\<close>), so that a
  theorem for all platforms is one for all interleavings of the single steps; a
  schedule that ends too early gives \<^const>\<open>None\<close>.

  \<^bold>\<open>Bounds and fuel.\<close>  The nesting of the catalog scanner recurses on a fuel that the length
  of the text covers, as \<^verbatim>\<open>CatalogLoad_sound\<close> shows.  The polls of the UART driver stop
  after \<^verbatim>\<open>UART_POLL_BOUND\<close> = 100000 reads, as in the code, and an open takes at most 200045
  operations of the bus.  Loops that may not end are partial functions with the value
  \<^const>\<open>None\<close>: the character copy (it needs a step that moves), the reads that wait for a line,
  the polling of a child (it keeps to its timeout, \<^verbatim>\<open>poll_capture_returns\<close>), the service of
  a connection and the accept loop.  The device serves for ever if the accepts never fail;
  any finite beginning of its life is one whose next accept fails, so the theorems on
  \<^verbatim>\<open>main_run\<close> speak of every state between two connections too.

  \<^bold>\<open>What the lemmas show.\<close>  Over the life of the device: nothing is started but what a request
  that was read asks for and the gate lets through (\<^verbatim>\<open>main_run_gated\<close>), on a line that is its
  vector, or its own line, with the carets of the shell (\<^verbatim>\<open>admit_exact\<close>); a request has at most
  one answer, under its id (\<^verbatim>\<open>ProcessCommand_replies\<close>); the handles that are left are those of
  the children left running (\<^verbatim>\<open>main_run_handles\<close>); and each client comes when the processes
  retained before it are given back (\<^verbatim>\<open>main_run_releases_tokens\<close>).  They rest on two locales:
  \<^verbatim>\<open>request_law\<close> carries an invariant from the handlers through a connection, and \<^verbatim>\<open>device_law\<close>,
  which extends it, through the accepts to \<^verbatim>\<open>main\<close>; and on the properties of the components:
  round trips of the formats and of the program's own code pages (\<^verbatim>\<open>CpEncode_carried\<close>); the
  floor under a memory write, its record, and the fate of tokens; what the UART driver does to
  the chip and checks of it; the ledgers, the order and the capture of a run; refinement of the
  line buffer by the lines of the stream and of the direct serial route by a sink of bytes.

  \<^bold>\<open>Not modelled.\<close>  The two instructions IN and OUT of \<^verbatim>\<open>uart.c\<close> (they are the seam); the start and
  the end of the process in \<^verbatim>\<open>mini_crt.c\<close>, which only call Windows; the message boxes of \<^verbatim>\<open>main\<close>;
  \<^verbatim>\<open>BuildSerialDCB\<close>, which only tests call; a failed \<^verbatim>\<open>malloc\<close> of the catalog's file buffer;
  what stands behind the 640 bytes of an audit record, whose overrun is only counted; and
  \<^verbatim>\<open>cmd.exe\<close>, of which only the contract that \<^verbatim>\<open>argv.h\<close> states is used.
  The bridge (Rust), the test programs and the vendored
  \<^verbatim>\<open>theft\<close> are not part of the device.
\<close>

section \<open>A path on its way to the file services\<close>

text \<open>
  C20: a path that fits reaches the file services intact in the form of its tier: its
  bytes on the manifest tier and its UTF-16 on the wide one, whatever the page of the system;
  on the code page tier, with the program's own pages, either bytes that widen back to
  exactly that path, or a rejection that leaves no bytes to open, which names the first unit
  without a place in the page, or the first of all where the program does not carry the page.
\<close>

theorem EncOpenPath_faithful:
  assumes "is_text cps" "length (utf8_of cps) < 260"
  shows "case EncTierCurrent f acp of
      ENC_TIER_MANIFEST \<Rightarrow> EncOpenPath charset_pages f acp (utf8_of cps) = clean_form\<lparr>mbOut := utf8_of cps\<rparr>
    | ENC_TIER_WIDE \<Rightarrow>
        EncOpenPath charset_pages f acp (utf8_of cps) = clean_form\<lparr>wOut := utf16_of cps, useWide := True\<rparr>
    | ENC_TIER_CODEPAGE \<Rightarrow>
        (let r = EncOpenPath charset_pages f acp (utf8_of cps); units = utf16_of cps in \<not> useWide r \<and>
         (if path_status r = ENC_OK
          then CpSupported charset_pages (int acp) \<and>
            CpDecode charset_pages (int acp) (mbOut r) (length units) = (units, False, length (mbOut r))
          else path_status r = ENC_REJECTED \<and> mbOut r = [] \<and>
            (if CpSupported charset_pages (int acp)
             then \<exists>k < length units. rejectAt r = int k \<and> CpRepresentable charset_pages (int acp) (take k units) \<and>
               \<not> CpRepresentable charset_pages (int acp) [units ! k]
             else rejectAt r = 0)))"
  by (rule open_path_faithful [OF assms]) (use carried_ok in blast)

text \<open>The euro sign in a name on a host whose page is 1252.\<close>

lemma EncOpenPath_faithful_witness:
  "let r = EncOpenPath charset_pages no_features 1252 (utf8_of [0x20AC]) in
     \<not> useWide r \<and> CpDecode charset_pages 1252 (mbOut r) 1 = ([0x20AC], False, length (mbOut r))"
proof -
  have page: "find_page charset_pages 1252 = Some page_1252"
    using find_carried [of page_1252] by (simp add: charset_pages_def cp_1252)
  have euro: "is_text [0x20AC]" "length (utf8_of [0x20AC]) < 260"
    by (simp_all add: is_text_def scalar_def utf8_bytes_def)
  have tier: "EncTierCurrent no_features 1252 = ENC_TIER_CODEPAGE"
    by (simp add: EncTierCurrent_def no_features_def)
  have units: "utf16_of [0x20AC] = [0x20AC]" by (simp add: utf16_units_def)
  have "CpRepresentable charset_pages 1252 [0x20AC]" using lookup_euro by (simp add: CpRepresentable_def page)
  then show ?thesis using EncOpenPath_faithful [OF euro, of no_features 1252] page unfolding tier units
    by (auto simp: Let_def CpSupported_def split: if_splits)
qed

end
